(* ===== verification/Prelude.thy ===== *)
theory Prelude
  imports Main "HOL-Library.Word" "HOL-Library.Monad_Syntax" "HOL-Library.Signed_Division"
begin

text \<open>
  What the components share: the machine types of the C program, its conversions and macros,
  memory cells that refuse an access outside the array, counted loops, and a small calculus
  (\<open>ok\<close>) that reduces ``this code runs to the end without a fault and
  establishes \<open>Q\<close>'' to facts about its steps.

  A C statement that can fault is modelled by a function into \<open>option\<close>: \<open>None\<close> is a fault
  (an access outside an array, a division by zero), \<open>Some\<close> is the state after the statement.
\<close>

unbundle bit_operations_syntax

named_theorems wp \<open>rules that reduce an ok goal to goals about the parts of the code\<close>
named_theorems safe \<open>the rules for proofs of safety alone, which forget the values stored\<close>
named_theorems cdefs \<open>the C macros and conversions\<close>

type_synonym u8 = "8 word"
type_synonym u16 = "16 word"
type_synonym u32 = "32 word"
type_synonym u64 = "64 word"

section \<open>C integers\<close>

text \<open>
  Values of C type \<open>int\<close> and of the narrower types are mathematical integers; a cell of an array
  is a word. Reading a cell is \<open>uint\<close> (or \<open>sint\<close> for \<open>short\<close>), storing into it is
  \<open>word_of_int\<close>, which truncates as the C assignment does.
\<close>

abbreviation c_u8 :: "int \<Rightarrow> int" where "c_u8 x \<equiv> take_bit 8 x"
abbreviation c_u16 :: "int \<Rightarrow> int" where "c_u16 x \<equiv> take_bit 16 x"
abbreviation c_u32 :: "int \<Rightarrow> int" where "c_u32 x \<equiv> take_bit 32 x"
abbreviation c_s16 :: "int \<Rightarrow> int" where "c_s16 x \<equiv> signed_take_bit 15 x"
abbreviation c_s32 :: "int \<Rightarrow> int" where "c_s32 x \<equiv> signed_take_bit 31 x"

text \<open>
  Shifts by a count in range. Shifts of 32-bit and 64-bit registers whose count may leave the
  range take it modulo the width, as the processors dcraw is built for do.
\<close>

definition shl :: "int \<Rightarrow> int \<Rightarrow> int" where
  "shl x n = push_bit (nat n) x"

definition shr :: "int \<Rightarrow> int \<Rightarrow> int" where
  "shr x n = drop_bit (nat n) x"

definition shl32 :: "u32 \<Rightarrow> int \<Rightarrow> u32" where
  "shl32 w n = push_bit (nat (n mod 32)) w"

definition shr32 :: "u32 \<Rightarrow> int \<Rightarrow> u32" where
  "shr32 w n = drop_bit (nat (n mod 32)) w"

definition shl64 :: "u64 \<Rightarrow> int \<Rightarrow> u64" where
  "shl64 w n = push_bit (nat (n mod 64)) w"

definition shr64 :: "u64 \<Rightarrow> int \<Rightarrow> u64" where
  "shr64 w n = drop_bit (nat (n mod 64)) w"

text \<open>Shifts of a C \<open>int\<close>: the count modulo 32, the result truncated to 32 bits.\<close>

definition shl_i :: "int \<Rightarrow> int \<Rightarrow> int" where
  "shl_i x n = c_s32 (shl x (n mod 32))"

definition shr_i :: "int \<Rightarrow> int \<Rightarrow> int" where
  "shr_i x n = shr x (n mod 32)"

definition c_div :: "int \<Rightarrow> int \<Rightarrow> int option" where
  "c_div a b = (if b = 0 then None else Some (a sdiv b))"

definition c_mod :: "int \<Rightarrow> int \<Rightarrow> int option" where
  "c_mod a b = (if b = 0 then None else Some (a smod b))"

text \<open>The macros of dcraw.\<close>

definition ABS_c :: "int \<Rightarrow> int" where
  "ABS_c x = (x XOR shr x 31) - shr x 31"

definition MIN_c :: "int \<Rightarrow> int \<Rightarrow> int" where
  "MIN_c a b = (if a < b then a else b)"

definition MAX_c :: "int \<Rightarrow> int \<Rightarrow> int" where
  "MAX_c a b = (if a > b then a else b)"

definition LIM_c :: "int \<Rightarrow> int \<Rightarrow> int \<Rightarrow> int" where
  "LIM_c x lo hi = MAX_c lo (MIN_c x hi)"

definition ULIM_c :: "int \<Rightarrow> int \<Rightarrow> int \<Rightarrow> int" where
  "ULIM_c x y z = (if y < z then LIM_c x y z else LIM_c x z y)"

definition CLIP :: "int \<Rightarrow> int" where
  "CLIP x = LIM_c x 0 65535"

lemma LIM_c_bounds: "lo \<le> hi \<Longrightarrow> lo \<le> LIM_c x lo hi \<and> LIM_c x lo hi \<le> hi"
  by (simp add: LIM_c_def MAX_c_def MIN_c_def)

lemma CLIP_bounds [simp]: "0 \<le> CLIP x" "CLIP x \<le> 65535"
  by (simp_all add: CLIP_def LIM_c_def MAX_c_def MIN_c_def)

lemma ULIM_c_between: "min y z \<le> ULIM_c x y z \<and> ULIM_c x y z \<le> max y z"
  by (simp add: ULIM_c_def LIM_c_def MAX_c_def MIN_c_def)

lemma shr_div: "shr x n = x div 2 ^ nat n"
  by (simp add: shr_def drop_bit_eq_div)

lemma shl_mult: "shl x n = x * 2 ^ nat n"
  by (simp add: shl_def push_bit_eq_mult)

text \<open>The macro \<open>ABS\<close> is the absolute value on every C \<open>int\<close>.\<close>

lemma ABS_c_abs: "- (2 ^ 31) \<le> x \<Longrightarrow> x < 2 ^ 31 \<Longrightarrow> ABS_c x = \<bar>x\<bar>"
proof -
  assume a: "- (2 ^ 31) \<le> x" "x < 2 ^ 31"
  show ?thesis
  proof (cases "x < 0")
    case True
    with a have "x div 2147483648 = -1"
      by (intro int_div_pos_eq [where r = "x + 2147483648"]) auto
    then show ?thesis using True
      by (simp add: ABS_c_def shr_div not_eq_complement)
  next
    case False
    with a show ?thesis by (simp add: ABS_c_def shr_div)
  qed
qed

text \<open>Division, masks and truncations in the range where they do nothing surprising.\<close>

lemma sdiv_nonneg: "0 \<le> a \<Longrightarrow> 0 \<le> b \<Longrightarrow> a sdiv b = a div b" for a b :: int
  by (auto simp: signed_divide_int_def sgn_if)

lemma smod_nonneg: "0 \<le> a \<Longrightarrow> 0 \<le> b \<Longrightarrow> a smod b = a mod b" for a b :: int
  using minus_sdiv_mult_eq_smod [of a b] by (simp add: sdiv_nonneg minus_div_mult_eq_mod)

lemma c_s32_self: "0 \<le> x \<Longrightarrow> x < 2 ^ 31 \<Longrightarrow> c_s32 x = x"
  by (rule signed_take_bit_int_eq_self) auto

lemma c_u32_small:
  assumes "\<bar>r\<bar> < 2 ^ 31" "c_u32 r < h" "h < 65536"
  shows "0 \<le> r \<and> r < h"
proof (cases "0 \<le> r")
  case True
  then have "c_u32 r = r" using assms(1) by (intro take_bit_int_eq_self) auto
  then show ?thesis using assms True by simp
next
  case False
  then have "c_u32 r = r + 2 ^ 32"
    using assms(1) by (simp add: take_bit_eq_mod) (rule int_mod_pos_eq [where q = "-1"], auto)
  then show ?thesis using assms by auto
qed

lemma div_bounds: "0 \<le> a \<Longrightarrow> 0 < w \<Longrightarrow> a < w * h \<Longrightarrow> 0 \<le> a div w \<and> a div w < h" for a w h :: int
proof -
  assume a: "0 \<le> a" "0 < w" "a < w * h"
  have "\<not> h \<le> a div w"
  proof
    assume "h \<le> a div w"
    then have "h * w \<le> a div w * w" using a(2) by (intro mult_right_mono) auto
    also have "\<dots> \<le> a" using a(2) div_mult_mod_eq [of a w] pos_mod_sign [of w a] by linarith
    finally show False using a(3) by (simp add: mult.commute)
  qed
  then show ?thesis using a by (simp add: pos_imp_zdiv_nonneg_iff)
qed

lemma shr_6: "shr n 6 * 64 \<le> n" for n :: int
  by (simp add: shr_div)

lemma and_1_bounds [simp]: "0 \<le> x AND 1" "x AND 1 < 2" for x :: int
  by (auto simp: and_one_eq mod2_eq_if)

lemma and_15_bounds [simp]: "0 \<le> x AND 15" "x AND 15 \<le> 15" for x :: int
  using AND_upper2 [of 15 x] by simp_all

lemma and_3_bounds [simp]: "0 \<le> x AND 3" "x AND 3 < 4" for x :: int
  using AND_upper2 [of 3 x] by simp_all

section \<open>Faults: the calculus\<close>

definition ok :: "'a option \<Rightarrow> ('a \<Rightarrow> bool) \<Rightarrow> bool" where
  "ok m Q \<longleftrightarrow> (case m of None \<Rightarrow> False | Some x \<Rightarrow> Q x)"

lemma ok_Some_iff [simp]: "ok (Some x) Q \<longleftrightarrow> Q x"
  by (simp add: ok_def)

lemma ok_None_iff [simp]: "\<not> ok None Q"
  by (simp add: ok_def)

lemma ok_exists: "ok m Q \<longleftrightarrow> (\<exists>x. m = Some x \<and> Q x)"
  by (cases m) auto

lemma okD: "ok m Q \<Longrightarrow> m = Some x \<Longrightarrow> Q x"
  by (simp add: ok_def)

lemma ok_bind_iff: "ok (m \<bind> f) Q \<longleftrightarrow> ok m (\<lambda>x. ok (f x) Q)"
  by (cases m) auto

lemma ok_mono: "ok m P \<Longrightarrow> (\<And>x. P x \<Longrightarrow> Q x) \<Longrightarrow> ok m Q"
  by (cases m) auto

lemma ok_conj: "ok m P \<Longrightarrow> ok m Q \<Longrightarrow> ok m (\<lambda>x. P x \<and> Q x)"
  by (cases m) auto

lemma ok_bind [wp]: "ok m (\<lambda>x. ok (f x) Q) \<Longrightarrow> ok (m \<bind> f) Q"
  by (simp add: ok_bind_iff)

lemma ok_Some [wp]: "Q x \<Longrightarrow> ok (Some x) Q"
  by simp

lemma ok_if [wp]:
  "(b \<Longrightarrow> ok m Q) \<Longrightarrow> (\<not> b \<Longrightarrow> ok n Q) \<Longrightarrow> ok (if b then m else n) Q"
  by simp

lemma ok_Let [wp]: "(\<And>y. y = x \<Longrightarrow> ok (f y) Q) \<Longrightarrow> ok (Let x f) Q"
  by simp

lemma ok_prod [wp]: "(\<And>a b. p = (a, b) \<Longrightarrow> ok (f a b) Q) \<Longrightarrow> ok (case p of (a, b) \<Rightarrow> f a b) Q"
  by (cases p) simp

lemma ok_c_div [wp]: "b \<noteq> 0 \<Longrightarrow> Q (a sdiv b) \<Longrightarrow> ok (c_div a b) Q"
  by (simp add: c_div_def)

lemma ok_c_mod [wp]: "b \<noteq> 0 \<Longrightarrow> Q (a smod b) \<Longrightarrow> ok (c_mod a b) Q"
  by (simp add: c_mod_def)

lemma ok_bind2:
  "ok m (\<lambda>(x, s). P x s) \<Longrightarrow> (\<And>x s. P x s \<Longrightarrow> ok (f x s) Q) \<Longrightarrow> ok (m \<bind> (\<lambda>(x, s). f x s)) Q"
  by (cases m) auto

lemma uint_u16: "0 \<le> x \<Longrightarrow> x < 65536 \<Longrightarrow> uint (word_of_int x :: u16) = x"
  by (simp add: uint_word_of_int take_bit_int_eq_self)

lemma uint_u8: "0 \<le> x \<Longrightarrow> x < 256 \<Longrightarrow> uint (word_of_int x :: u8) = x"
  by (simp add: uint_word_of_int take_bit_int_eq_self)

section \<open>Memory\<close>

text \<open>
  An array is a list of words; every access checks its index. \<open>rd\<close> reads an unsigned cell,
  \<open>rds\<close> a signed one, \<open>wr\<close> stores an \<open>int\<close> and truncates it to the cell.
\<close>

definition inb :: "'a list \<Rightarrow> int \<Rightarrow> bool" where
  "inb xs i \<longleftrightarrow> 0 \<le> i \<and> i < int (length xs)"

definition rd :: "'a::len word list \<Rightarrow> int \<Rightarrow> int option" where
  "rd xs i = (if inb xs i then Some (uint (xs ! nat i)) else None)"

definition rds :: "'a::len word list \<Rightarrow> int \<Rightarrow> int option" where
  "rds xs i = (if inb xs i then Some (sint (xs ! nat i)) else None)"

definition wr :: "'a::len word list \<Rightarrow> int \<Rightarrow> int \<Rightarrow> 'a word list option" where
  "wr xs i v = (if inb xs i then Some (xs[nat i := word_of_int v]) else None)"

text \<open>Tables of constants and arrays of \<open>int\<close>.\<close>

definition at :: "'a list \<Rightarrow> int \<Rightarrow> 'a option" where
  "at xs i = (if inb xs i then Some (xs ! nat i) else None)"

definition put :: "'a list \<Rightarrow> int \<Rightarrow> 'a \<Rightarrow> 'a list option" where
  "put xs i v = (if inb xs i then Some (xs[nat i := v]) else None)"

definition zeros :: "int \<Rightarrow> 'a::zero list" where
  "zeros n = replicate (nat n) 0"

lemma length_zeros [simp]: "length (zeros n) = nat n"
  by (simp add: zeros_def)

lemma inb_upd [simp]: "inb (xs[k := v]) i \<longleftrightarrow> inb xs i"
  by (simp add: inb_def)

lemma ok_rd [wp]:
  fixes xs :: "'a::len word list"
  assumes "inb xs i"
    and "\<And>v. v = uint (xs ! nat i) \<Longrightarrow> 0 \<le> v \<Longrightarrow> v < 2 ^ LENGTH('a) \<Longrightarrow> Q v"
  shows "ok (rd xs i) Q"
  using assms by (simp add: rd_def)

lemma ok_rds [wp]: "inb xs i \<Longrightarrow> (\<And>v. v = sint (xs ! nat i) \<Longrightarrow> Q v) \<Longrightarrow> ok (rds xs i) Q"
  by (simp add: rds_def)

lemma ok_wr [wp]:
  "inb xs i \<Longrightarrow> (\<And>ys. ys = xs[nat i := word_of_int v] \<Longrightarrow> length ys = length xs \<Longrightarrow> Q ys)
    \<Longrightarrow> ok (wr xs i v) Q"
  by (simp add: wr_def)

lemma ok_at [wp]: "inb xs i \<Longrightarrow> (\<And>v. v = xs ! nat i \<Longrightarrow> v \<in> set xs \<Longrightarrow> Q v) \<Longrightarrow> ok (at xs i) Q"
  by (auto simp: at_def inb_def)

lemma ok_put [wp]:
  "inb xs i \<Longrightarrow> (\<And>ys. ys = xs[nat i := v] \<Longrightarrow> length ys = length xs \<Longrightarrow> Q ys) \<Longrightarrow> ok (put xs i v) Q"
  by (simp add: put_def)

lemma ok_rd_safe [safe]:
  fixes xs :: "'a::len word list"
  assumes "inb xs i" and "\<And>v. 0 \<le> v \<Longrightarrow> v < 2 ^ LENGTH('a) \<Longrightarrow> Q v"
  shows "ok (rd xs i) Q"
  using assms by (simp add: rd_def)

lemma ok_rds_safe [safe]: "inb xs i \<Longrightarrow> (\<And>v. Q v) \<Longrightarrow> ok (rds xs i) Q"
  by (simp add: rds_def)

lemma ok_wr_safe [safe]: "inb xs i \<Longrightarrow> (\<And>ys. length ys = length xs \<Longrightarrow> Q ys) \<Longrightarrow> ok (wr xs i v) Q"
  by (simp add: wr_def)

lemma ok_at_safe [safe]: "inb xs i \<Longrightarrow> (\<And>v. v \<in> set xs \<Longrightarrow> Q v) \<Longrightarrow> ok (at xs i) Q"
  by (auto simp: at_def inb_def)

lemma ok_put_safe [safe]: "inb xs i \<Longrightarrow> (\<And>ys. length ys = length xs \<Longrightarrow> Q ys) \<Longrightarrow> ok (put xs i v) Q"
  by (simp add: put_def)

lemmas [safe] = ok_c_div ok_c_mod ok_prod ok_Let ok_if ok_Some ok_bind

lemma rd_wr_same: "wr xs i v = Some ys \<Longrightarrow> rd ys i = Some (take_bit LENGTH('a) v)"
  for xs :: "'a::len word list"
  by (auto simp: wr_def rd_def inb_def uint_word_of_int take_bit_eq_mod split: if_splits)

lemma rd_wr_other: "wr xs i v = Some ys \<Longrightarrow> i \<noteq> j \<Longrightarrow> rd ys j = rd xs j"
  by (auto simp: wr_def rd_def inb_def nth_list_update split: if_splits)

lemma at_table:
  assumes "int (length t) = n" "\<forall>r \<in> set t. int (length r) = n \<and> (\<forall>k \<in> set r. P k)"
    and "0 \<le> i" "i < n" "0 \<le> j" "j < n"
  shows "\<exists>k. (do { r \<leftarrow> at t i; at r j }) = Some k \<and> P k"
proof -
  have r: "t ! nat i \<in> set t" using assms(1,3,4) by (intro nth_mem) linarith
  then have "int (length (t ! nat i)) = n" using assms(2) by blast
  moreover from this have "t ! nat i ! nat j \<in> set (t ! nat i)" using assms(5,6) by (intro nth_mem) linarith
  ultimately show ?thesis using assms r by (auto simp: at_def inb_def)
qed

lemma rd_wr:
  fixes xs :: "'a::len word list"
  assumes "wr xs i v = Some ys"
  shows "rd ys j = (if j = i then Some (take_bit LENGTH('a) v) else rd xs j)"
  using rd_wr_same [OF assms] rd_wr_other [OF assms, of j] by auto

text \<open>Positions in an image, and of the samples of its pixels.\<close>

lemma cell4_inj: "4 * i + c = 4 * j + d \<Longrightarrow> 0 \<le> c \<Longrightarrow> c < 4 \<Longrightarrow> 0 \<le> d \<Longrightarrow> d < 4 \<Longrightarrow> i = j \<and> c = d"
  for i j c d :: int
  by presburger

lemma row_col_inj:
  fixes r c r' c' w :: int
  assumes "r * w + c = r' * w + c'" "0 \<le> c" "c < w" "0 \<le> c'" "c' < w"
  shows "r = r' \<and> c = c'"
proof -
  have "(r * w + c) div w = r" "(r' * w + c') div w = r'" using assms(2-) by simp_all
  then have "r = r'" using assms(1) by metis
  then show ?thesis using assms(1) by simp
qed

lemma rd_nonneg: "rd xs i = Some v \<Longrightarrow> 0 \<le> v"
  by (auto simp: rd_def split: if_splits)

section \<open>Counted loops\<close>

text \<open>
  \<open>for_by k i n f\<close> is \<open>for (; i < n; i += k) f(i)\<close> over a state that \<open>f\<close> passes on; the loops
  modelled with it all have a positive constant step, and a body that does not assign \<open>i\<close>.
\<close>

function for_by :: "int \<Rightarrow> int \<Rightarrow> int \<Rightarrow> (int \<Rightarrow> 's \<Rightarrow> 's option) \<Rightarrow> 's \<Rightarrow> 's option" where
  "for_by k i n f s =
     (if i < n \<and> 0 < k then f i s \<bind> (\<lambda>t. for_by k (i + k) n f t) else Some s)"
  by pat_completeness auto
termination
  by (relation "measure (\<lambda>(k, i, n, f, s). nat (n - i))") auto

declare for_by.simps [simp del]

abbreviation for_up :: "int \<Rightarrow> int \<Rightarrow> (int \<Rightarrow> 's \<Rightarrow> 's option) \<Rightarrow> 's \<Rightarrow> 's option" where
  "for_up \<equiv> for_by 1"

lemma for_by_done [simp]: "n \<le> i \<Longrightarrow> for_by k i n f s = Some s"
  by (simp add: for_by.simps)

lemma for_by_step: "i < n \<Longrightarrow> 0 < k \<Longrightarrow> for_by k i n f s = f i s \<bind> for_by k (i + k) n f"
  by (subst for_by.simps) simp

text \<open>The value of the counter after such a loop, for code that goes on using it.\<close>

definition after :: "int \<Rightarrow> int \<Rightarrow> int \<Rightarrow> int" where
  "after k i n = (if i < n then i + k * ((n - i + k - 1) div k) else i)"

text \<open>
  The invariant rule: \<open>I j\<close> holds whenever the loop tests its guard with counter \<open>j\<close>.
\<close>

lemma for_by_inv:
  assumes "0 < k" "I i s"
    and "\<And>j t. i \<le> j \<Longrightarrow> j < n \<Longrightarrow> (j - i) mod k = 0 \<Longrightarrow> I j t \<Longrightarrow> ok (f j t) (I (j + k))"
    and "\<And>j t. n \<le> j \<Longrightarrow> i \<le> j \<Longrightarrow> (j < n + k \<or> j = i) \<Longrightarrow> I j t \<Longrightarrow> Q t"
  shows "ok (for_by k i n f s) Q"
  using assms
proof (induction k i n f s rule: for_by.induct)
  case (1 k i n f s)
  show ?case
  proof (cases "i < n")
    case False
    with "1.prems"(2) "1.prems"(4) [of i s] show ?thesis by simp
  next
    case True
    have step: "ok (f i s) (I (i + k))"
      using True "1.prems"(3) [of i s] "1.prems"(2) by simp
    then obtain t where t: "f i s = Some t" "I (i + k) t" by (auto simp: ok_exists)
    have "ok (for_by k (i + k) n f t) Q"
    proof (rule "1.IH")
      show "i < n \<and> 0 < k" using True "1.prems"(1) by simp
      show "f i s = Some t" by (rule t(1))
      show "0 < k" by (rule "1.prems"(1))
      show "I (i + k) t" by (rule t(2))
    next
      fix j u
      assume "i + k \<le> j" "j < n" "(j - (i + k)) mod k = 0" "I j u"
      moreover have "(j - i) mod k = (j - (i + k)) mod k"
        by (metis diff_add_cancel diff_diff_eq mod_add_self2)
      ultimately show "ok (f j u) (I (j + k))"
        using "1.prems"(1,3) by simp
    next
      fix j u
      assume "n \<le> j" "i + k \<le> j" "j < n + k \<or> j = i + k" "I j u"
      then show "Q u" using "1.prems"(1) "1.prems"(4) [of j u] True by auto
    qed
    then show ?thesis using t(1) True "1.prems"(1) by (simp add: for_by_step)
  qed
qed

lemma for_by_wp [wp]:
  assumes "0 < k" "I s"
    and "\<And>j t. i \<le> j \<Longrightarrow> j < n \<Longrightarrow> (j - i) mod k = 0 \<Longrightarrow> I t \<Longrightarrow> ok (f j t) I"
    and "\<And>t. I t \<Longrightarrow> Q t"
  shows "ok (for_by k i n f s) Q"
  using assms by (intro for_by_inv [where I = "\<lambda>_. I"]) auto

lemma for_up_inv:
  assumes "i \<le> n" "I i s"
    and "\<And>j t. i \<le> j \<Longrightarrow> j < n \<Longrightarrow> I j t \<Longrightarrow> ok (f j t) (I (j + 1))"
    and "\<And>t. I n t \<Longrightarrow> Q t"
  shows "ok (for_up i n f s) Q"
proof (rule for_by_inv [where I = I])
  fix j t
  assume "n \<le> j" "i \<le> j" "j < n + 1 \<or> j = i" "I j t"
  with assms(1) have "j = n" by auto
  with \<open>I j t\<close> show "Q t" using assms(4) by simp
qed (use assms in auto)

text \<open>What every round keeps, a loop that ends without a fault keeps.\<close>

lemma for_by_partial:
  assumes "for_by k i n f s = Some r" "I s" "\<And>j t u. I t \<Longrightarrow> f j t = Some u \<Longrightarrow> I u"
  shows "I r"
  using assms
proof (induction k i n f s rule: for_by.induct)
  case (1 k i n f s)
  show ?case
  proof (cases "i < n \<and> 0 < k")
    case True
    with "1.prems"(1) obtain t where t: "f i s = Some t" "for_by k (i + k) n f t = Some r"
      by (auto simp: for_by_step split: bind_splits)
    show ?thesis by (rule "1.IH" [OF True t]) (use "1.prems" t in blast)+
  next
    case False
    with "1.prems" show ?thesis by (auto simp: for_by.simps [of k i n])
  qed
qed

text \<open>Two loops with bodies equal on the counters they meet are equal.\<close>

lemma for_by_cong:
  assumes "\<And>j t. i \<le> j \<Longrightarrow> j < n \<Longrightarrow> f j t = g j t"
  shows "for_by k i n f s = for_by k i n g s"
  using assms
proof (induction k i n f s rule: for_by.induct)
  case (1 k i n f s)
  show ?case
  proof (cases "i < n \<and> 0 < k")
    case True
    then have "f i s = g i s" using "1.prems" by simp
    moreover have "for_by k (i + k) n f t = for_by k (i + k) n g t" if "f i s = Some t" for t
      by (rule "1.IH" [OF True]) (use that "1.prems" True in auto)
    ultimately show ?thesis using True by (cases "g i s") (simp_all add: for_by_step)
  next
    case False
    then show ?thesis by (auto simp: for_by.simps [of k i n])
  qed
qed

section \<open>Runs of cells\<close>

text \<open>
  Tables are filled by loops that store one value after the other behind a counter. \<open>run_by\<close> is
  the loop for one value, \<open>put_run\<close> what it leaves behind.
\<close>

definition put_run :: "nat \<Rightarrow> 'a list \<Rightarrow> 'a list \<Rightarrow> 'a list" where
  "put_run p ws h = take p h @ ws @ drop (p + length ws) h"

lemma length_put_run [simp]: "p + length ws \<le> length h \<Longrightarrow> length (put_run p ws h) = length h"
  by (simp add: put_run_def)

lemma put_run_Nil [simp]: "put_run p [] h = h"
  by (simp add: put_run_def)

lemma put_run_append:
  "p + length (us @ ws) \<le> length h \<Longrightarrow> put_run (p + length us) ws (put_run p us h) = put_run p (us @ ws) h"
proof -
  assume a: "p + length (us @ ws) \<le> length h"
  then have "length (take p h) = p" by simp
  with a show ?thesis by (simp add: put_run_def ac_simps)
qed

lemma put_run_one: "p < length h \<Longrightarrow> h[p := w] = put_run p [w] h"
  by (simp add: put_run_def upd_conv_take_nth_drop)

definition run_by :: "int \<Rightarrow> int \<Rightarrow> int \<times> 'a::len word list \<Rightarrow> (int \<times> 'a word list) option" where
  "run_by m v = for_up 0 m (\<lambda>c (n, h). do { h \<leftarrow> wr h (n + 1) v; Some (n + 1, h) })"

lemma for_by_shift: "for_by k (i + d) (n + d) f s = for_by k i n (\<lambda>j. f (j + d)) s"
proof (induction k i n "\<lambda>j. f (j + d)" s rule: for_by.induct)
  case (1 k i n s)
  have c: "i + d + k = i + k + d" by simp
  have "for_by k (i + d) (n + d) f s
      = (if i < n \<and> 0 < k then f (i + d) s \<bind> for_by k (i + k + d) (n + d) f else Some s)"
    by (subst for_by.simps) (simp add: c)
  also have "\<dots> = (if i < n \<and> 0 < k then f (i + d) s \<bind> for_by k (i + k) n (\<lambda>j. f (j + d)) else Some s)"
    using "1" by (cases "f (i + d) s") auto
  also have "\<dots> = for_by k i n (\<lambda>j. f (j + d)) s" 
    by (simp add: for_by.simps [of k i n])
  finally show ?case .
qed

lemma run_by_cells:
  assumes "Suc p + m \<le> length h"
  shows "run_by (int m) v (int p, h) = Some (int (p + m), put_run (Suc p) (replicate m (word_of_int v)) h)"
  using assms
proof (induction m arbitrary: p h)
  case 0
  then show ?case by (simp add: run_by_def)
next
  case (Suc m)
  have w: "wr h (int p + 1) v = Some (put_run (Suc p) [word_of_int v] h)"
    using Suc.prems by (simp add: wr_def inb_def nat_add_distrib put_run_one)
  have "run_by (int (Suc m)) v (int p, h) = run_by (int m) v (int (Suc p), put_run (Suc p) [word_of_int v] h)"
    using for_by_shift [of 1 0 1 "int m" "\<lambda>c (n, h). do { h \<leftarrow> wr h (n + 1) v; Some (n + 1, h) }"] w
    by (simp add: run_by_def for_by_step algebra_simps)
  also have "\<dots> = Some (int (p + Suc m), put_run (Suc p + 1) (replicate m (word_of_int v)) (put_run (Suc p) [word_of_int v] h))"
    using Suc.prems Suc.IH [of "Suc p" "put_run (Suc p) [word_of_int v] h"] by simp
  also have "put_run (Suc p + 1) (replicate m (word_of_int v)) (put_run (Suc p) [word_of_int v] h)
      = put_run (Suc p) (replicate (Suc m) (word_of_int v)) h"
    using Suc.prems put_run_append [of "Suc p" "[word_of_int v]" "replicate m (word_of_int v)" h] by simp
  finally show ?case .
qed

lemma runs_by:
  fixes h :: "'a::len word list"
  assumes "Suc p + (\<Sum>(m, v)\<leftarrow>rs. m) \<le> length h"
  shows "for_up 0 (int (length rs)) (\<lambda>i st. do { r \<leftarrow> at rs i; run_by (int (fst r)) (snd r) st }) (int p, h)
    = Some (int (p + (\<Sum>(m, v)\<leftarrow>rs. m)), put_run (Suc p) (concat (map (\<lambda>(m, v). replicate m (word_of_int v)) rs)) h)"
  using assms
proof (induction rs arbitrary: p h)
  case Nil
  then show ?case by simp
next
  case (Cons r rs)
  obtain m v where r: "r = (m, v)" by (cases r)
  let ?k = "\<Sum>(m, v)\<leftarrow>rs. m"
  let ?body = "\<lambda>xs i st. do { r \<leftarrow> at xs i; run_by (int (fst r)) (snd r) st }"
  have len: "length (concat (map (\<lambda>(m, v). replicate m (word_of_int v :: 'a word)) rs)) = ?k"
    by (induction rs) auto
  have "for_up 0 (int (length (r # rs))) (?body (r # rs)) (int p, h)
      = run_by (int m) v (int p, h) \<bind> for_up (0 + 1) (int (length rs) + 1) (?body (r # rs))"
    by (simp add: for_by_step at_def inb_def r algebra_simps)
  also have "\<dots> = run_by (int m) v (int p, h) \<bind> for_up 0 (int (length rs)) (\<lambda>i. ?body (r # rs) (i + 1))"
    using for_by_shift [of 1 0 1 "int (length rs)" "?body (r # rs)"] by (intro arg_cong2 [where f = Option.bind] refl ext) simp
  also have "\<dots> = run_by (int m) v (int p, h) \<bind> for_up 0 (int (length rs)) (?body rs)"
    by (intro arg_cong2 [where f = Option.bind] refl ext for_by_cong)
      (auto simp: at_def inb_def nat_add_distrib)
  also have "\<dots> = Some (int (p + m + ?k), put_run (Suc (p + m)) (concat (map (\<lambda>(m, v). replicate m (word_of_int v)) rs))
      (put_run (Suc p) (replicate m (word_of_int v)) h))"
    using Cons.prems r Cons.IH [of "p + m" "put_run (Suc p) (replicate m (word_of_int v)) h"]
    by (simp add: run_by_cells)
  finally show ?case
    using Cons.prems r len put_run_append [of "Suc p" "replicate m (word_of_int v)"
        "concat (map (\<lambda>(m, v). replicate m (word_of_int v)) rs)" h]
    by (simp add: add.assoc del: length_concat)
qed

lemma rd_run:
  fixes w :: "'a::len word"
  assumes "int (length pre) \<le> c" "c < int (length pre + m)"
  shows "rd (pre @ replicate m w @ post) c = Some (uint w)"
proof -
  have "length pre \<le> nat c" "nat c - length pre < m" "0 \<le> c" using assms by linarith+
  then show ?thesis using assms by (simp add: rd_def inb_def nth_append)
qed

text \<open>A loop whose body gives the same results on more states gives the same result.\<close>

lemma bind_mono_some:
  assumes "m \<bind> f = Some t" "\<And>x. m = Some x \<Longrightarrow> m' = Some x" "\<And>x. m = Some x \<Longrightarrow> f x = Some t \<Longrightarrow> f' x = Some t"
  shows "m' \<bind> f' = Some t"
  using assms by (cases m) auto

lemma for_by_mono:
  assumes "for_by k i n f s = Some t" "\<And>i s t. f i s = Some t \<Longrightarrow> h i s = Some t"
  shows "for_by k i n h s = Some t"
  using assms
proof (induction k i n f s arbitrary: t rule: for_by.induct)
  case (1 k i n f s)
  show ?case
  proof (cases "i < n \<and> 0 < k")
    case True
    then obtain u where u: "f i s = Some u" "for_by k (i + k) n f u = Some t"
      using "1.prems"(1) by (auto simp: for_by_step split: bind_splits)
    then have "for_by k (i + k) n h u = Some t" using "1.IH" [OF True] "1.prems"(2) by simp
    then show ?thesis using True "1.prems"(2) [OF u(1)] by (simp add: for_by_step)
  next
    case False
    then show ?thesis using "1.prems"(1) by (auto simp: for_by.simps [of k i n f s] for_by.simps [of k i n h s])
  qed
qed

text \<open>Values a conversion leaves alone.\<close>

lemma c_u16_self: "0 \<le> x \<Longrightarrow> x < 65536 \<Longrightarrow> c_u16 x = x"
  by (rule take_bit_int_eq_self) auto

lemma c_u32_self: "0 \<le> x \<Longrightarrow> x < 2 ^ 32 \<Longrightarrow> c_u32 x = x"
  by (rule take_bit_int_eq_self) auto

text \<open>The integers \<open>r\<close>, \<open>r + 2\<close>, and so on.\<close>

definition every_other :: "int \<Rightarrow> nat \<Rightarrow> int list" where
  "every_other r n = map (\<lambda>k. r + 2 * int k) [0..<n]"

lemma every_other_Suc: "every_other r (Suc n) = r # every_other (r + 2) n"
  by (simp add: every_other_def upt_conv_Cons map_Suc_upt [symmetric] comp_def algebra_simps del: upt_Suc)

lemma distinct_every_other: "distinct (every_other r n)"
  by (simp add: every_other_def distinct_map inj_on_def)

lemma set_every_other:
  assumes "r = 0 \<or> r = 1"
  shows "set (every_other r n) = {x. 0 \<le> x \<and> x < r + 2 * int n \<and> x mod 2 = r}"
proof (intro set_eqI iffI)
  fix x assume "x \<in> set (every_other r n)"
  then show "x \<in> {x. 0 \<le> x \<and> x < r + 2 * int n \<and> x mod 2 = r}"
    using assms by (auto simp: every_other_def)
next
  fix x assume "x \<in> {x. 0 \<le> x \<and> x < r + 2 * int n \<and> x mod 2 = r}"
  then have x: "0 \<le> x" "x < r + 2 * int n" "x mod 2 = r" by simp_all
  moreover define k where "k = nat (x div 2)"
  ultimately have "x = r + 2 * int k" using div_mult_mod_eq [of x 2] by simp
  moreover from this x(2) have "k < n" by simp
  ultimately have "x = r + 2 * int k" "k < n" by simp_all
  then show "x \<in> set (every_other r n)" unfolding every_other_def by (auto intro!: image_eqI)
qed

text \<open>Loops that append what a round yields, the second with a counter that moves on by a constant.\<close>

lemma for_append:
  assumes "\<And>j out. i \<le> j \<Longrightarrow> j < n \<Longrightarrow> body j out = Some (out @ f j)"
  shows "for_up i n body out = Some (out @ concat (map f [i..n - 1]))"
  using assms
proof (induction "nat (n - i)" arbitrary: i out)
  case (Suc m)
  then have "i < n" "m = nat (n - (i + 1))" by auto
  moreover from this have "[i..n - 1] = i # [i + 1..n - 1]" by (simp add: upto_rec1)
  ultimately show ?case using Suc by (simp add: for_by_step)
qed simp

lemma for_append_step:
  assumes "\<And>j out. 0 \<le> j \<Longrightarrow> j < n \<Longrightarrow> body j (b + j * d, out) = Some (b + (j + 1) * d, out @ f j)" "0 \<le> n"
  shows "for_up 0 n body (b, out) = Some (b + n * d, out @ concat (map f [0..n - 1]))"
proof -
  have "for_up i n body (b + i * d, out) = Some (b + n * d, out @ concat (map f [i..n - 1]))" if "0 \<le> i" "i \<le> n" for i out
    using that
  proof (induction "nat (n - i)" arbitrary: i out)
    case (Suc m)
    then have "i < n" "m = nat (n - (i + 1))" by auto
    moreover from this have "[i..n - 1] = i # [i + 1..n - 1]" by (simp add: upto_rec1)
    ultimately show ?case using Suc assms(1) by (simp add: for_by_step)
  qed simp
  from this [of 0] assms(2) show ?thesis by simp
qed

section \<open>Loops on states that agree\<close>

lemma for_by_sim:
  assumes "for_by k i n f s = Some t" "R s u"
    and "\<And>j s t u. i \<le> j \<Longrightarrow> j < n \<Longrightarrow> R s u \<Longrightarrow> f j s = Some t \<Longrightarrow> \<exists>v. h j u = Some v \<and> R t v"
  shows "\<exists>v. for_by k i n h u = Some v \<and> R t v"
  using assms
proof (induction k i n f s arbitrary: u rule: for_by.induct)
  case (1 k i n f s)
  show ?case
  proof (cases "i < n \<and> 0 < k")
    case True
    with "1.prems"(1) obtain s1 where s1: "f i s = Some s1" "for_by k (i + k) n f s1 = Some t"
      by (auto simp: for_by_step split: bind_splits)
    then obtain u1 where u1: "h i u = Some u1" "R s1 u1" using "1.prems"(3) [of i s u s1] "1.prems"(2) True by auto
    have "\<exists>v. for_by k (i + k) n h u1 = Some v \<and> R t v"
      by (rule "1.IH" [OF True s1 u1(2)]) (use True "1.prems"(3) in auto)
    then show ?thesis using True u1(1) by (simp add: for_by_step)
  next
    case False
    with "1.prems"(1,2) show ?thesis by (auto simp: for_by.simps [of k i n])
  qed
qed

lemma for_by_kept:
  assumes "for_by k i n f s = Some t" "I s"
    and "\<And>j s t. i \<le> j \<Longrightarrow> j < n \<Longrightarrow> I s \<Longrightarrow> f j s = Some t \<Longrightarrow> I t"
  shows "I t"
proof -
  have "\<exists>v. for_by k i n f s = Some v \<and> t = v \<and> I t"
    by (rule for_by_sim [where R = "\<lambda>s u. s = u \<and> I s", OF assms(1)]) (use assms(2,3) in auto)
  then show ?thesis by blast
qed

text \<open>A last round at the end of a loop.\<close>

lemma for_up_snoc:
  assumes "0 \<le> n"
  shows "for_up 0 (n + 1) f s = for_up 0 n f s \<bind> f n"
proof -
  have "for_up i (n + 1) f s = for_up i n f s \<bind> f n" if "i \<le> n" for i s
    using that
  proof (induction "nat (n - i)" arbitrary: i s)
    case 0
    then have "i = n" by simp
    then show ?case by (cases "f n s") (simp_all add: for_by_step)
  next
    case (Suc m)
    then have "i < n" "m = nat (n - (i + 1))" by auto
    then show ?case using Suc.hyps(1) [of "i + 1"] by (cases "f i s") (simp_all add: for_by_step)
  qed
  then show ?thesis using assms by simp
qed

end
