(* ===== verification/RawStream.thy ===== *)
theory RawStream
  imports Prelude
begin

text \<open>
  The input file of dcraw and the routines that read it: \<open>fgetc\<close>, \<open>fseek\<close> and \<open>fread\<close> of the
  C library on a file that is a list of bytes, the fixed-width readers \<open>get2\<close>, \<open>get4\<close> and
  \<open>read_shorts\<close>, the MSB-first bit reader \<open>getbithuff\<close> and its 64-bit cousin \<open>ph1_bithuff\<close>.
  The abstract view of the bit reader is the list of bits still to be read (\<open>avail\<close>).
\<close>

section \<open>State\<close>

text \<open>
  The globals of dcraw that belong to the input: the file with its position, the byte order of
  the file (\<open>order\<close>), the static variables of \<open>getbithuff\<close> and \<open>ph1_bithuff\<close>, the two flags
  they share with the rest of the program. \<open>big_host\<close> is the byte order of the host machine.
\<close>

record bitio =
  ifile :: "u8 list"
  ipos :: int
  byte_order :: int
  bitbuf :: u32
  vbits :: int
  breset :: int
  zero_after_ff :: int
  data_error :: int
  ph1_bitbuf :: u64
  ph1_vbits :: int
  big_host :: bool

text \<open>The state in which a file is opened: a little-endian file on a little-endian host.\<close>

definition open_file :: "u8 list \<Rightarrow> bitio" where
  "open_file bs = \<lparr>ifile = bs, ipos = 0, byte_order = 0x4949, bitbuf = 0, vbits = 0, breset = 0,
     zero_after_ff = 0, data_error = 0, ph1_bitbuf = 0, ph1_vbits = 0, big_host = False\<rparr>"

definition derror :: "bitio \<Rightarrow> bitio" where
  "derror io = io\<lparr>data_error := (data_error io + 1) mod 2 ^ 32\<rparr>"

section \<open>The C library on the input file\<close>

definition fgetc :: "bitio \<Rightarrow> int \<times> bitio" where
  "fgetc io =
     (if ipos io < int (length (ifile io))
      then (uint (ifile io ! nat (ipos io)), io\<lparr>ipos := ipos io + 1\<rparr>)
      else (-1, io))"

definition fread :: "int \<Rightarrow> bitio \<Rightarrow> u8 list \<times> bitio" where
  "fread n io =
     (let bs = take (nat n) (drop (nat (ipos io)) (ifile io))
      in (bs, io\<lparr>ipos := ipos io + int (length bs)\<rparr>))"

lemma fread_moves:
  assumes "fread n io = (bs, io')"
  shows "length bs \<le> nat n" "length bs \<le> length (ifile io) - nat (ipos io)"
    "ipos io' = ipos io + int (length bs)" "ifile io' = ifile io"
  using assms by (auto simp: fread_def Let_def)

definition fseek_set :: "int \<Rightarrow> bitio \<Rightarrow> bitio" where
  "fseek_set off io = (if off < 0 then io else io\<lparr>ipos := off\<rparr>)"

definition fseek_cur :: "int \<Rightarrow> bitio \<Rightarrow> bitio" where
  "fseek_cur off io = fseek_set (ipos io + off) io"

definition fseek_end :: "int \<Rightarrow> bitio \<Rightarrow> bitio" where
  "fseek_end off io = fseek_set (int (length (ifile io)) + off) io"

section \<open>Integers in the byte order of the file\<close>

definition sget2 :: "int \<Rightarrow> int \<Rightarrow> int \<Rightarrow> int" where
  "sget2 ord s0 s1 = (if ord = 0x4949 then s0 OR shl s1 8 else shl s0 8 OR s1)"

definition get2 :: "bitio \<Rightarrow> int \<times> bitio" where
  "get2 io =
     (case fread 2 io of (bs, io') \<Rightarrow>
        let str = bs @ drop (length bs) [0xff, 0xff]
        in (sget2 (byte_order io) (uint (str ! 0)) (uint (str ! 1)), io'))"

definition sget4 :: "int \<Rightarrow> int \<Rightarrow> int \<Rightarrow> int \<Rightarrow> int \<Rightarrow> int" where
  "sget4 ord s0 s1 s2 s3 =
     (if ord = 0x4949 then s0 OR shl s1 8 OR shl s2 16 OR shl s3 24
      else shl s0 24 OR shl s1 16 OR shl s2 8 OR s3)"

definition get4 :: "bitio \<Rightarrow> int \<times> bitio" where
  "get4 io =
     (case fread 4 io of (bs, io') \<Rightarrow>
        let str = bs @ drop (length bs) [0xff, 0xff, 0xff, 0xff]
        in (sget4 (byte_order io) (uint (str ! 0)) (uint (str ! 1)) (uint (str ! 2)) (uint (str ! 3)),
            io'))"

definition getint :: "int \<Rightarrow> bitio \<Rightarrow> int \<times> bitio" where
  "getint type io = (if type = 3 then get2 io else get4 io)"

text \<open>
  \<open>read_shorts\<close> reads \<open>count\<close> 16-bit items at cell \<open>off\<close> of a buffer: \<open>fread\<close> fills the bytes of
  the cells as they lie in the memory of the host, \<open>swab\<close> then swaps the bytes of every cell of
  the range when file and host differ. A short file leaves the rest of the bytes as they were.
\<close>

definition cell_bytes :: "bool \<Rightarrow> u16 \<Rightarrow> u8 list" where
  "cell_bytes big w =
     (let lo = ucast w :: u8; hi = ucast (drop_bit 8 w) :: u8
      in if big then [hi, lo] else [lo, hi])"

definition cell_of :: "bool \<Rightarrow> u8 \<Rightarrow> u8 \<Rightarrow> u16" where
  "cell_of big a b = (if big then push_bit 8 (ucast a) OR ucast b else ucast a OR push_bit 8 (ucast b))"

fun cells_of :: "bool \<Rightarrow> u8 list \<Rightarrow> u16 list" where
  "cells_of big (a # b # bs) = cell_of big a b # cells_of big bs"
| "cells_of big _ = []"

fun swab :: "u8 list \<Rightarrow> u8 list" where
  "swab (a # b # bs) = b # a # swab bs"
| "swab bs = bs"

definition read_shorts :: "u16 list \<Rightarrow> int \<Rightarrow> int \<Rightarrow> bitio \<Rightarrow> (u16 list \<times> bitio) option" where
  "read_shorts buf off count io =
     (if off < 0 \<or> count < 0 \<or> int (length buf) < off + count then None
      else
        let old = concat (map (cell_bytes (big_host io)) (take (nat count) (drop (nat off) buf)));
            (bs, io1) = fread (2 * count) io;
            io2 = (if int (length bs div 2) < count then derror io1 else io1);
            mem = bs @ drop (length bs) old;
            mem' = (if (byte_order io = 0x4949) = big_host io then swab mem else mem)
        in Some (take (nat off) buf @ cells_of (big_host io) mem' @ drop (nat (off + count)) buf, io2))"

section \<open>The MSB-first bit reader\<close>

definition push_byte :: "int \<Rightarrow> bitio \<Rightarrow> bitio" where
  "push_byte c io =
     io\<lparr>bitbuf := push_bit 8 (bitbuf io) + word_of_int (c_u8 c), vbits := vbits io + 8\<rparr>"

text \<open>The \<open>while\<close> loop of \<open>getbithuff\<close>.\<close>

function fill_bits :: "int \<Rightarrow> bitio \<Rightarrow> bitio" where
  "fill_bits n io =
     (if breset io = 0 \<and> vbits io < n then
        (case fgetc io of (c, io1) \<Rightarrow>
           if c = -1 then io1
           else if zero_after_ff io \<noteq> 0 \<and> c = 0xff then
             (case fgetc io1 of (d, io2) \<Rightarrow>
                if d \<noteq> 0 then io2\<lparr>breset := 1\<rparr> else fill_bits n (push_byte c io2))
           else fill_bits n (push_byte c io1))
      else io)"
  by pat_completeness auto
termination
  by (relation "measure (\<lambda>(n, io). nat (n - vbits io))")
    (auto simp: fgetc_def push_byte_def split: if_splits)

declare fill_bits.simps [simp del]

definition getbithuff :: "int \<Rightarrow> u16 list option \<Rightarrow> bitio \<Rightarrow> (int \<times> bitio) option" where
  "getbithuff nbits huff io =
     (if nbits > 25 then Some (0, io)
      else if nbits < 0 then Some (0, io\<lparr>bitbuf := 0, vbits := 0, breset := 0\<rparr>)
      else if nbits = 0 \<or> vbits io < 0 then Some (0, io)
      else
        let io1 = fill_bits nbits io;
            c = uint (shr32 (shl32 (bitbuf io1) (32 - vbits io1)) (32 - nbits))
        in do {
          (c', io2) \<leftarrow>
            (case huff of
               None \<Rightarrow> Some (c, io1\<lparr>vbits := vbits io1 - nbits\<rparr>)
             | Some h \<Rightarrow> do {
                 e \<leftarrow> rd h c;
                 Some (c_u8 e, io1\<lparr>vbits := vbits io1 - shr e 8\<rparr>) });
          Some (c', if vbits io2 < 0 then derror io2 else io2) })"

definition getbits :: "int \<Rightarrow> bitio \<Rightarrow> (int \<times> bitio) option" where
  "getbits n io = getbithuff n None io"

text \<open>\<open>gethuff(h)\<close> is \<open>getbithuff(*h,h+1)\<close>: cell 0 of a decoder holds the index width.\<close>

definition gethuff :: "u16 list \<Rightarrow> bitio \<Rightarrow> (int \<times> bitio) option" where
  "gethuff h io = do { n \<leftarrow> rd h 0; getbithuff n (Some (drop 1 h)) io }"

section \<open>The 64-bit bit reader of the Phase One formats\<close>

definition ph1_bithuff :: "int \<Rightarrow> u16 list option \<Rightarrow> bitio \<Rightarrow> (int \<times> bitio) option" where
  "ph1_bithuff nbits huff io =
     (if nbits = -1 then Some (0, io\<lparr>ph1_bitbuf := 0, ph1_vbits := 0\<rparr>)
      else if nbits = 0 then Some (0, io)
      else
        let io1 = (if ph1_vbits io < nbits then
                     (case get4 io of (w, io') \<Rightarrow>
                        io'\<lparr>ph1_bitbuf := push_bit 32 (ph1_bitbuf io) OR word_of_int w,
                            ph1_vbits := ph1_vbits io + 32\<rparr>)
                   else io);
            c = c_u32 (uint (shr64 (shl64 (ph1_bitbuf io1) (64 - ph1_vbits io1)) (64 - nbits)))
        in case huff of
             Some h \<Rightarrow> do {
               e \<leftarrow> rd h c;
               Some (c_u8 e, io1\<lparr>ph1_vbits := ph1_vbits io1 - shr e 8\<rparr>) }
           | None \<Rightarrow> Some (c, io1\<lparr>ph1_vbits := ph1_vbits io1 - nbits\<rparr>))"

definition ph1_bits :: "int \<Rightarrow> bitio \<Rightarrow> (int \<times> bitio) option" where
  "ph1_bits n io = ph1_bithuff n None io"

definition ph1_huff :: "u16 list \<Rightarrow> bitio \<Rightarrow> (int \<times> bitio) option" where
  "ph1_huff h io = do { n \<leftarrow> rd h 0; ph1_bithuff n (Some (drop 1 h)) io }"

end
