(* ===== verification/BitReader.thy ===== *)
theory BitReader
  imports RawStream
begin

text \<open>
  What the bit readers promise. \<open>avail\<close> is the abstract view of \<open>getbithuff\<close>: the bits it can
  still deliver, those buffered in \<open>bitbuf\<close> first, then those of the file with the stuffed zero
  bytes taken out. A read of \<open>n\<close> bits takes the first \<open>n\<close> of them.
\<close>

section \<open>The abstract view\<close>

definition bits_val :: "bool list \<Rightarrow> int" where
  "bits_val bs = horner_sum of_bool 2 (rev bs)"

definition byte_bits :: "u8 \<Rightarrow> bool list" where
  "byte_bits b = map (bit b) (rev [0..<8])"

fun unstuff :: "bool \<Rightarrow> u8 list \<Rightarrow> u8 list" where
  "unstuff False bs = bs"
| "unstuff True [] = []"
| "unstuff True (b # bs) =
     (if b = 0xff
      then (case bs of [] \<Rightarrow> [] | z # bs' \<Rightarrow> if z = 0 then b # unstuff True bs' else [])
      else b # unstuff True bs)"

definition pending :: "bitio \<Rightarrow> bool list" where
  "pending io = map (bit (bitbuf io)) (rev [0..<nat (vbits io)])"

definition ahead :: "bitio \<Rightarrow> u8 list" where
  "ahead io =
     (if breset io \<noteq> 0 then []
      else unstuff (zero_after_ff io \<noteq> 0) (drop (nat (ipos io)) (ifile io)))"

definition avail :: "bitio \<Rightarrow> bool list" where
  "avail io = pending io @ concat (map byte_bits (ahead io))"

text \<open>The invariant of the reader between two calls, while it has not run dry.\<close>

definition bit_inv :: "bitio \<Rightarrow> bool" where
  "bit_inv io \<longleftrightarrow> 0 \<le> ipos io \<and> 0 \<le> vbits io \<and> vbits io \<le> 32"

lemma length_byte_bits [simp]: "length (byte_bits b) = 8"
  by (simp add: byte_bits_def)

lemma length_pending [simp]: "length (pending io) = nat (vbits io)"
  by (simp add: pending_def)

lemma bits_val_Nil [simp]: "bits_val [] = 0"
  by (simp add: bits_val_def)

lemma bit_bits_val: "bit (bits_val bs) i \<longleftrightarrow> i < length bs \<and> rev bs ! i"
  by (simp add: bits_val_def bit_horner_sum_bit_iff)

lemma bits_val_nonneg [simp]: "0 \<le> bits_val bs"
  by (simp add: bits_val_def horner_sum_nonnegative)

lemma bits_val_less: "bits_val bs < 2 ^ length bs"
proof -
  have "take_bit (length bs) (bits_val bs) = bits_val bs"
    by (rule bit_eqI) (auto simp: bit_take_bit_iff bit_bits_val)
  then show ?thesis by (metis take_bit_int_less_exp)
qed

lemma bits_val_append: "bits_val (xs @ ys) = bits_val xs * 2 ^ length ys + bits_val ys"
  by (simp add: bits_val_def horner_sum_append algebra_simps)

lemma bits_val_Cons: "bits_val (b # bs) = of_bool b * 2 ^ length bs + bits_val bs"
  using bits_val_append [of "[b]" bs] by (simp add: bits_val_def)

section \<open>Refilling the buffer\<close>

lemma drop_nth_nat:
  "0 \<le> p \<Longrightarrow> p < int (length xs) \<Longrightarrow> drop (nat p) xs = xs ! nat p # drop (nat (p + 1)) xs"
  by (metis Cons_nth_drop_Suc Suc_nat_eq_nat_zadd1 add.commute nat_less_iff)

lemma fgetc_avail:
  assumes "0 \<le> ipos io" "fgetc io = (c, io1)"
  obtains "c = -1" "io1 = io" "drop (nat (ipos io)) (ifile io) = []"
  | b where "c = uint b" "io1 = io\<lparr>ipos := ipos io + 1\<rparr>"
      "drop (nat (ipos io)) (ifile io) = b # drop (nat (ipos io + 1)) (ifile io)"
  using assms drop_nth_nat [of "ipos io" "ifile io"]
  by (auto simp: fgetc_def split: if_splits)

lemma c_u8_uint [simp]: "take_bit 8 (uint (b :: u8)) = uint b"
  using uint_bounded [of b] by (simp add: take_bit_int_eq_self)

lemma pending_push_byte:
  assumes "0 \<le> vbits io" "vbits io \<le> 24"
  shows "pending (push_byte (uint b) io) = pending io @ byte_bits b"
proof -
  let ?v = "nat (vbits io)"
  let ?w = "push_bit 8 (bitbuf io) + ucast b :: u32"
  have "push_bit 8 (bitbuf io) AND (ucast b :: u32) = 0"
    by (rule bit_eqI) (auto simp: bit_simps dest: bit_imp_le_length)
  then have w: "?w = push_bit 8 (bitbuf io) OR ucast b"
    by (rule disjunctive_add_eq_or)
  have bitw: "bit ?w i \<longleftrightarrow> (if i < 8 then bit b i else i < 32 \<and> bit (bitbuf io) (i - 8))" for i
    unfolding w by (auto simp: bit_simps dest: bit_imp_le_length)
  have pend: "pending (push_byte (uint b) io) = map (bit ?w) (rev [0..<?v + 8])"
    using assms by (simp add: pending_def push_byte_def nat_add_distrib)
  have "rev [0..<?v + 8] = map (\<lambda>i. i + 8) (rev [0..<?v]) @ rev [0..<8]"
    by (simp only: upt_add_eq_append [of 0 8 ?v, simplified] add.commute [of ?v 8]
        rev_append rev_map [symmetric] map_add_upt)
  then have "map (bit ?w) (rev [0..<?v + 8])
      = map (\<lambda>i. bit ?w (i + 8)) (rev [0..<?v]) @ map (bit ?w) (rev [0..<8])"
    by simp
  also have "map (\<lambda>i. bit ?w (i + 8)) (rev [0..<?v]) = pending io"
    using assms by (auto simp: pending_def bitw)
  also have "map (bit ?w) (rev [0..<8]) = byte_bits b"
    unfolding byte_bits_def by (rule map_cong) (auto simp: bitw)
  finally show ?thesis using pend by simp
qed

lemma push_byte_simps [simp]:
  "breset (push_byte c io) = breset io" "zero_after_ff (push_byte c io) = zero_after_ff io"
  "ifile (push_byte c io) = ifile io" "ipos (push_byte c io) = ipos io"
  "vbits (push_byte c io) = vbits io + 8" "data_error (push_byte c io) = data_error io"
  "byte_order (push_byte c io) = byte_order io" "big_host (push_byte c io) = big_host io"
  by (simp_all add: push_byte_def)

lemma fill_done: "\<not> (breset io = 0 \<and> vbits io < n) \<Longrightarrow> fill_bits n io = io"
  by (subst fill_bits.simps) auto

lemma fill_eof: "breset io = 0 \<Longrightarrow> vbits io < n \<Longrightarrow> fgetc io = (-1, io1) \<Longrightarrow> fill_bits n io = io1"
  by (subst fill_bits.simps) simp

lemma fill_plain:
  "breset io = 0 \<Longrightarrow> vbits io < n \<Longrightarrow> fgetc io = (c, io1) \<Longrightarrow> c \<noteq> -1
    \<Longrightarrow> \<not> (zero_after_ff io \<noteq> 0 \<and> c = 255) \<Longrightarrow> fill_bits n io = fill_bits n (push_byte c io1)"
  by (subst fill_bits.simps) auto

lemma fill_stuffed:
  "breset io = 0 \<Longrightarrow> vbits io < n \<Longrightarrow> fgetc io = (255, io1) \<Longrightarrow> zero_after_ff io \<noteq> 0
    \<Longrightarrow> fgetc io1 = (0, io2) \<Longrightarrow> fill_bits n io = fill_bits n (push_byte 255 io2)"
  by (subst fill_bits.simps) simp

lemma fill_marker:
  "breset io = 0 \<Longrightarrow> vbits io < n \<Longrightarrow> fgetc io = (255, io1) \<Longrightarrow> zero_after_ff io \<noteq> 0
    \<Longrightarrow> fgetc io1 = (d, io2) \<Longrightarrow> d \<noteq> 0 \<Longrightarrow> fill_bits n io = io2\<lparr>breset := 1\<rparr>"
  by (subst fill_bits.simps) simp

text \<open>Case analysis over the ways one turn of the loop can go.\<close>

lemma fill_bits_cases:
  assumes "0 \<le> ipos io"
  obtains "\<not> (breset io = 0 \<and> vbits io < n)" "fill_bits n io = io"
  | "breset io = 0" "vbits io < n" "fill_bits n io = io" "drop (nat (ipos io)) (ifile io) = []"
  | b io1 where "breset io = 0" "vbits io < n" "io1 = io\<lparr>ipos := ipos io + 1\<rparr>"
      "\<not> (zero_after_ff io \<noteq> 0 \<and> b = 255)"
      "drop (nat (ipos io)) (ifile io) = b # drop (nat (ipos io1)) (ifile io)"
      "fill_bits n io = fill_bits n (push_byte (uint b) io1)"
  | io2 where "breset io = 0" "vbits io < n" "io2 = io\<lparr>ipos := ipos io + 2\<rparr>" "zero_after_ff io \<noteq> 0"
      "drop (nat (ipos io)) (ifile io) = 255 # 0 # drop (nat (ipos io2)) (ifile io)"
      "fill_bits n io = fill_bits n (push_byte (uint (255 :: u8)) io2)"
  | k where "breset io = 0" "vbits io < n" "k = 1 \<or> k = 2"
      "fill_bits n io = io\<lparr>ipos := ipos io + k, breset := 1\<rparr>" "zero_after_ff io \<noteq> 0"
      "unstuff True (drop (nat (ipos io)) (ifile io)) = []"
proof (cases "breset io = 0 \<and> vbits io < n")
  case False
  then show ?thesis using that(1) fill_done by blast
next
  case go: True
  obtain c io1 where fg: "fgetc io = (c, io1)" by fastforce
  show ?thesis
    using assms fg
  proof (cases rule: fgetc_avail)
    case 1
    then show ?thesis using that(2) go fg fill_eof [of io n io1] by auto
  next
    case b: (2 b)
    have c: "c \<noteq> -1" using b(1) by (metis uint_ge_0 neg_0_le_iff_le not_one_le_zero)
    show ?thesis
    proof (cases "zero_after_ff io \<noteq> 0 \<and> c = 255")
      case False
      then have "\<not> (zero_after_ff io \<noteq> 0 \<and> b = 255)" using b(1) by auto
      then show ?thesis
        using that(3) [of io1 b] go b fill_plain [OF _ _ fg c False] by auto
    next
      case st: True
      then have b255: "b = 255" using b(1) by (intro word_uint_eqI) auto
      have p1: "0 \<le> ipos io1" using assms b(2) by simp
      obtain d io2 where fg2: "fgetc io1 = (d, io2)" by fastforce
      show ?thesis
        using p1 fg2
      proof (cases rule: fgetc_avail)
        case 1
        then show ?thesis
          using that(5) [of 1] go st fg b b255 fill_marker [OF _ _ _ _ fg2] by auto
      next
        case z: (2 z)
        show ?thesis
        proof (cases "d = 0")
          case True
          then have "z = 0" using z(1) by (simp add: unsigned_eq_0_iff)
          then show ?thesis
            using that(4) [of io2] go st fg b b255 z True fg2 fill_stuffed [of io n io1 io2] by auto
        next
          case False
          then have "z \<noteq> 0" using z(1) by auto
          then show ?thesis
            using that(5) [of 2] go st fg b b255 z False fill_marker [OF _ _ _ _ fg2 False] by auto
        qed
      qed
    qed
  qed
qed

text \<open>Refilling moves bits from the file to the buffer and loses none.\<close>

lemma fill_bits_avail:
  assumes "bit_inv io" "n \<le> 25"
  shows "avail (fill_bits n io) = avail io \<and> bit_inv (fill_bits n io)
    \<and> (n \<le> vbits (fill_bits n io) \<or> ahead (fill_bits n io) = [])"
  using assms
proof (induction "nat (n - vbits io)" arbitrary: io rule: less_induct)
  case less
  note inv = less.prems(1) [unfolded bit_inv_def]
  have p: "0 \<le> ipos io" using inv by simp
  show ?case
  proof (cases rule: fill_bits_cases [OF p, of n])
    case 1
    then show ?thesis using less.prems(1) by (auto simp: ahead_def)
  next
    case 2
    then show ?thesis using less.prems(1) by (cases "zero_after_ff io \<noteq> 0") (auto simp: ahead_def)
  next
    case (3 b io1)
    then have "avail (push_byte (uint b) io1) = avail io"
      using inv less.prems(2) pending_push_byte [of io1 b]
      by (cases "zero_after_ff io \<noteq> 0") (auto simp: avail_def ahead_def pending_def)
    then show ?thesis using less.hyps [of "push_byte (uint b) io1"] less.prems 3 by (auto simp: bit_inv_def)
  next
    case (4 io2)
    then have "avail (push_byte (uint (255::u8)) io2) = avail io"
      using inv less.prems(2) pending_push_byte [of io2 255]
      by (auto simp: avail_def ahead_def pending_def)
    then show ?thesis using less.hyps [of "push_byte (uint (255::u8)) io2"] less.prems 4 by (auto simp: bit_inv_def)
  next
    case (5 k)
    then show ?thesis using less.prems(1) by (auto simp: ahead_def avail_def pending_def bit_inv_def)
  qed
qed

text \<open>The rest of the state is left alone.\<close>

lemma fill_bits_frame [simp]:
  "ifile (fill_bits n io) = ifile io" "data_error (fill_bits n io) = data_error io"
  "byte_order (fill_bits n io) = byte_order io" "zero_after_ff (fill_bits n io) = zero_after_ff io"
  "big_host (fill_bits n io) = big_host io"
proof -
  have "ifile (fill_bits n io) = ifile io \<and> data_error (fill_bits n io) = data_error io
    \<and> byte_order (fill_bits n io) = byte_order io \<and> zero_after_ff (fill_bits n io) = zero_after_ff io
    \<and> big_host (fill_bits n io) = big_host io"
    by (induction n io rule: fill_bits.induct, subst (1 2 3 4 5) fill_bits.simps)
      (auto simp: fgetc_def split: prod.splits if_splits)
  then show "ifile (fill_bits n io) = ifile io" "data_error (fill_bits n io) = data_error io"
    "byte_order (fill_bits n io) = byte_order io" "zero_after_ff (fill_bits n io) = zero_after_ff io"
    "big_host (fill_bits n io) = big_host io" by auto
qed

section \<open>The bits a call delivers\<close>

definition window :: "int \<Rightarrow> bitio \<Rightarrow> int" where
  "window n io = uint (shr32 (shl32 (bitbuf io) (32 - vbits io)) (32 - n))"

lemma neg_mod_32: "1 \<le> k \<Longrightarrow> k \<le> 32 \<Longrightarrow> - k mod 32 = 32 - k" for k :: int
proof -
  assume k: "1 \<le> k" "k \<le> 32"
  have "- k mod 32 = (32 - k) mod 32" by simp
  also have "\<dots> = 32 - k" by (rule mod_pos_pos_trivial) (use k in auto)
  finally show ?thesis .
qed

lemma window_bounds: "1 \<le> n \<Longrightarrow> n \<le> 25 \<Longrightarrow> 0 \<le> window n io \<and> window n io < 2 ^ nat n"
proof -
  assume n: "1 \<le> n" "n \<le> 25"
  have "window n io = take_bit (nat n) (window n io)"
  proof (rule bit_eqI)
    fix i
    show "bit (window n io) i \<longleftrightarrow> bit (take_bit (nat n) (window n io)) i"
      using n by (auto simp: window_def shr32_def bit_simps neg_mod_32 nat_diff_distrib' dest: bit_imp_le_length)
  qed
  then show ?thesis by (metis take_bit_nonnegative take_bit_int_less_exp)
qed

lemma bit_pending: "i < nat (vbits io) \<Longrightarrow> pending io ! i = bit (bitbuf io) (nat (vbits io) - 1 - i)"
  by (simp add: pending_def rev_nth)

lemma bit_window_nat:
  fixes w :: u32
  assumes "V \<le> 32" "N \<le> 25"
  shows "bit (uint (drop_bit (32 - N) (push_bit (32 - V) w))) i
    \<longleftrightarrow> i < N \<and> N \<le> i + V \<and> bit w (i + V - N)"
proof -
  have e: "32 - N + i - (32 - V) = i + V - N" using assms by simp
  have "bit (uint (drop_bit (32 - N) (push_bit (32 - V) w))) i
    \<longleftrightarrow> 32 - N + i < 32 \<and> 32 - V \<le> 32 - N + i \<and> bit w (32 - N + i - (32 - V))"
    by (auto simp: bit_simps dest: bit_imp_le_length)
  also have "\<dots> \<longleftrightarrow> i < N \<and> N \<le> i + V \<and> bit w (i + V - N)"
    unfolding e using assms by auto
  finally show ?thesis .
qed

lemma window_pending:
  assumes "bit_inv io" "1 \<le> vbits io" "1 \<le> n" "n \<le> 25"
  shows "window n io = bits_val (take (nat n) (pending io @ replicate (nat n) False))"
proof (rule bit_eqI)
  fix i
  let ?v = "nat (vbits io)" and ?n = "nat n"
  let ?l = "take ?n (pending io @ replicate ?n False)"
  have v: "?v \<le> 32" "1 \<le> ?v" "- vbits io mod 32 = 32 - vbits io" "nat (32 - vbits io) = 32 - ?v"
    using assms by (auto simp: bit_inv_def neg_mod_32)
  have n: "1 \<le> ?n" "?n \<le> 25" "- n mod 32 = 32 - n" "nat (32 - n) = 32 - ?n"
    using assms by (auto simp: neg_mod_32)
  have len: "length ?l = ?n" by simp
  have "bit (window n io) i \<longleftrightarrow> i < ?n \<and> ?n \<le> i + ?v \<and> bit (bitbuf io) (i + ?v - ?n)"
    using bit_window_nat [OF v(1) n(2)] by (simp add: window_def shr32_def shl32_def v(3,4) n(3,4))
  moreover have "bit (bits_val ?l) i \<longleftrightarrow> i < ?n \<and> ?n \<le> i + ?v \<and> bit (bitbuf io) (i + ?v - ?n)"
  proof (cases "i < ?n")
    case True
    then have "rev ?l ! i = ?l ! (length ?l - Suc i)" by (intro rev_nth) (simp only: len)
    also have "\<dots> = ?l ! (?n - 1 - i)" unfolding len by simp
    also have "\<dots> = (pending io @ replicate ?n False) ! (?n - 1 - i)"
      using True by (intro nth_take) simp
    also have "\<dots> = (if ?n - 1 - i < ?v then pending io ! (?n - 1 - i) else False)"
      using True by (auto simp: nth_append)
    also have "\<dots> \<longleftrightarrow> ?n \<le> i + ?v \<and> bit (bitbuf io) (i + ?v - ?n)"
    proof (cases "?n - 1 - i < ?v")
      case lt: True
      then have "?v - 1 - (?n - 1 - i) = i + ?v - ?n" using True by arith
      with bit_pending [OF lt]
      have "pending io ! (?n - 1 - i) = bit (bitbuf io) (i + ?v - ?n)" by (simp only:)
      moreover have "?n \<le> i + ?v" using lt True by simp
      ultimately show ?thesis using lt by (simp only: if_True simp_thms)
    next
      case False
      then show ?thesis using True by auto
    qed
    finally show ?thesis unfolding bit_bits_val len using True by simp
  next
    case False
    then show ?thesis unfolding bit_bits_val len by simp
  qed
  ultimately show "bit (window n io) i = bit (bits_val ?l) i" by simp
qed

lemma avail_consume:
  assumes "0 \<le> k" "k \<le> vbits io"
  shows "avail (io\<lparr>vbits := vbits io - k\<rparr>) = drop (nat k) (avail io)"
proof -
  have "pending (io\<lparr>vbits := vbits io - k\<rparr>) = drop (nat k) (pending io)"
    using assms by (simp add: pending_def drop_map drop_rev nat_diff_distrib)
  then show ?thesis using assms by (simp add: avail_def ahead_def)
qed

lemma getbits_eq:
  "1 \<le> n \<Longrightarrow> n \<le> 25 \<Longrightarrow> 0 \<le> vbits io \<Longrightarrow>
    getbits n io = (let io1 = fill_bits n io; io2 = io1\<lparr>vbits := vbits io1 - n\<rparr>
      in Some (window n io1, if vbits io2 < 0 then derror io2 else io2))"
  by (simp add: getbits_def getbithuff_def window_def Let_def)

text \<open>The contract of \<open>getbits\<close> as long as there are enough bits.\<close>

lemma getbits_avail:
  assumes "bit_inv io" "1 \<le> n" "n \<le> 25" "n \<le> int (length (avail io))"
  obtains io' where "getbits n io = Some (bits_val (take (nat n) (avail io)), io')"
    "avail io' = drop (nat n) (avail io)" "bit_inv io'" "data_error io' = data_error io"
    "ifile io' = ifile io" "zero_after_ff io' = zero_after_ff io"
proof -
  let ?io = "fill_bits n io"
  from fill_bits_avail [OF assms(1,3)]
  have f: "avail ?io = avail io" "bit_inv ?io" "n \<le> vbits ?io \<or> ahead ?io = []" by auto
  have "n \<le> int (length (avail ?io))" using f(1) assms(4) by simp
  then have enough: "n \<le> vbits ?io" using f(2,3) by (auto simp: avail_def bit_inv_def)
  have "take (nat n) (avail ?io) = take (nat n) (pending ?io)"
    unfolding avail_def using enough by simp
  then have w: "window n ?io = bits_val (take (nat n) (avail io))"
    using window_pending [OF f(2) _ assms(2,3)] assms(2) enough f(1) by simp
  show ?thesis
  proof
    show "getbits n io = Some (bits_val (take (nat n) (avail io)), ?io\<lparr>vbits := vbits ?io - n\<rparr>)"
      using assms enough w by (simp add: getbits_eq bit_inv_def Let_def)
    show "avail (?io\<lparr>vbits := vbits ?io - n\<rparr>) = drop (nat n) (avail io)"
      using avail_consume [of n ?io] assms(2) enough f(1) by simp
    show "bit_inv (?io\<lparr>vbits := vbits ?io - n\<rparr>)"
      using f(2) enough assms(2) by (simp add: bit_inv_def)
  qed simp_all
qed

text \<open>When the bits run out: an error is counted and the reader delivers zeros from then on.\<close>

lemma getbits_dry:
  assumes "bit_inv io" "1 \<le> n" "n \<le> 25" "int (length (avail io)) < n"
  obtains c io' where "getbits n io = Some (c, io')" "data_error io' = data_error (derror io)"
    "vbits io' < 0"
proof -
  let ?io = "fill_bits n io"
  from fill_bits_avail [OF assms(1,3)]
  have f: "avail ?io = avail io" "bit_inv ?io" by auto
  have "int (length (avail ?io)) < n" using f(1) assms(4) by simp
  then have "vbits ?io < n" using f(2) by (auto simp: avail_def bit_inv_def)
  then show ?thesis
    using assms that [of "window n ?io" "derror (?io\<lparr>vbits := vbits ?io - n\<rparr>)"]
    by (simp add: getbits_eq bit_inv_def Let_def derror_def)
qed

lemma getbits_stuck: "vbits io < 0 \<Longrightarrow> 0 \<le> n \<Longrightarrow> getbits n io = Some (0, io)"
  by (simp add: getbits_def getbithuff_def)


section \<open>What a reader of bits promises\<close>

text \<open>
  The contract shared by the bit readers: \<open>bits n\<close> delivers the next \<open>n\<close> bits of a stream \<open>av\<close>
  as a number, most significant bit first, as long as the stream has them. \<open>most\<close> is the largest
  count a call may ask for.
\<close>

locale bit_stream =
  fixes bits :: "int \<Rightarrow> 's \<Rightarrow> (int \<times> 's) option"
    and av :: "'s \<Rightarrow> bool list"
    and inv :: "'s \<Rightarrow> bool"
    and most :: int
  assumes bits_read: "inv s \<Longrightarrow> 1 \<le> n \<Longrightarrow> n \<le> most \<Longrightarrow> n \<le> int (length (av s)) \<Longrightarrow>
    \<exists>t. bits n s = Some (bits_val (take (nat n) (av s)), t) \<and> av t = drop (nat n) (av s) \<and> inv t"

text \<open>A record of several fields, and the bits it is written as.\<close>

fun read_fields :: "(int \<Rightarrow> 's \<Rightarrow> (int \<times> 's) option) \<Rightarrow> nat list \<Rightarrow> 's \<Rightarrow> (int list \<times> 's) option" where
  "read_fields bits [] s = Some ([], s)"
| "read_fields bits (w # ws) s = do {
     (x, s) \<leftarrow> bits (int w) s;
     (xs, s) \<leftarrow> read_fields bits ws s;
     Some (x # xs, s) }"

definition nat_bits :: "nat \<Rightarrow> nat \<Rightarrow> bool list" where
  "nat_bits l n = map (bit n) (rev [0..<l])"

fun write_fields :: "(nat \<times> nat) list \<Rightarrow> bool list" where
  "write_fields [] = []"
| "write_fields ((w, x) # fs) = nat_bits w x @ write_fields fs"

lemma length_nat_bits [simp]: "length (nat_bits l n) = l"
  by (simp add: nat_bits_def)

lemma bits_val_nat_bits: "bits_val (nat_bits l n) = int (take_bit l n)"
proof (rule bit_eqI)
  fix i
  show "bit (bits_val (nat_bits l n)) i = bit (int (take_bit l n)) i"
    by (auto simp: bit_bits_val nat_bits_def rev_map bit_take_bit_iff bit_of_nat_iff_bit)
qed

context bit_stream
begin

lemma read_field:
  assumes "inv s" "1 \<le> w" "int w \<le> most" "x < 2 ^ w" "av s = nat_bits w x @ rest"
  shows "\<exists>t. bits (int w) s = Some (int x, t) \<and> av t = rest \<and> inv t"
  using bits_read [of s "int w"] assms by (auto simp: bits_val_nat_bits take_bit_nat_eq_self)

text \<open>Reading the widths of a record gives back the values it was written from.\<close>

lemma read_write_fields:
  assumes "inv s" "\<forall>(w, x) \<in> set fs. 1 \<le> w \<and> int w \<le> most \<and> x < 2 ^ w"
    and "av s = write_fields fs @ rest"
  shows "\<exists>t. read_fields bits (map fst fs) s = Some (map (int \<circ> snd) fs, t) \<and> av t = rest \<and> inv t"
  using assms
proof (induction fs arbitrary: s)
  case Nil
  then show ?case by simp
next
  case (Cons f fs)
  obtain w x where f: "f = (w, x)" by force
  obtain t where t: "bits (int w) s = Some (int x, t)" "av t = write_fields fs @ rest" "inv t"
    using read_field [of s w x "write_fields fs @ rest"] Cons.prems f by auto
  with Cons.IH [of t] Cons.prems f show ?case by auto
qed

end

interpretation gb: bit_stream getbits avail bit_inv 25
  by unfold_locales (metis getbits_avail)

section \<open>Properties\<close>

text \<open>
  C1: While the stream has enough bits, \<open>getbits\<close> with 1 to 25 bits returns the next ones as a
  number, most significant first, consumes exactly those, keeps the invariant of the reader and
  reports no error; stuffed zero bytes after 0xff are not part of the stream.
\<close>

theorem getbits_reads:
  assumes "bit_inv io" "1 \<le> n" "n \<le> 25" "n \<le> int (length (avail io))"
  shows "\<exists>io'. getbits n io = Some (bits_val (take (nat n) (avail io)), io')
    \<and> avail io' = drop (nat n) (avail io) \<and> bit_inv io' \<and> data_error io' = data_error io"
  by (metis getbits_avail [OF assms])

theorem getbits_reads_witness:
  "\<exists>io'. getbits 12 (open_file [0xff, 0, 0x5a]\<lparr>zero_after_ff := 1\<rparr>) = Some (0xff5, io')
    \<and> avail io' = [True, False, True, False]"
proof -
  let ?io = "open_file [0xff, 0, 0x5a]\<lparr>zero_after_ff := 1\<rparr>"
  have a: "avail ?io = [True, True, True, True, True, True, True, True,
     False, True, False, True, True, False, True, False]" by code_simp
  have v: "bits_val (take (nat 12) (avail ?io)) = 0xff5" unfolding a by code_simp
  have "bit_inv ?io" by code_simp
  then show ?thesis using getbits_reads [of ?io 12] unfolding v unfolding a by auto
qed

text \<open>
  C2: When the stream runs dry in the middle of a read, \<open>getbits\<close> counts one data error, and from
  then on every call returns zero, without reading on and without counting another error.
\<close>

theorem getbits_underrun:
  assumes "bit_inv io" "1 \<le> n" "n \<le> 25" "int (length (avail io)) < n"
  shows "\<exists>c io'. getbits n io = Some (c, io') \<and> data_error io' = (data_error io + 1) mod 2 ^ 32
    \<and> (\<forall>m. 0 \<le> m \<longrightarrow> getbits m io' = Some (0, io'))"
  by (rule getbits_dry [OF assms]) (auto simp: derror_def getbits_stuck)

theorem getbits_underrun_witness:
  "\<exists>c io'. getbits 12 (open_file [0x5a]) = Some (c, io') \<and> data_error io' = 1 \<and> getbits 25 io' = Some (0, io')"
proof -
  let ?io = "open_file [0x5a]"
  have "bit_inv ?io" "length (avail ?io) = 8" "data_error ?io = 0" by code_simp+
  then show ?thesis using getbits_underrun [of ?io 12] by fastforce
qed


end
