(* ===== verification/Huffman.thy ===== *)
theory Huffman
  imports BitReader
begin

text \<open>
  \<open>make_decoder_ref\<close> and \<open>make_decoder\<close>: the table-driven Huffman decoder that most of the
  compressed formats share. The abstract side is the canonical code of the JPEG standard: the
  symbols in the order of the source, their code lengths ascending, every code the successor of
  the one before it, shifted to its own length.
\<close>

section \<open>The code\<close>

fun decoder_max :: "u8 list \<Rightarrow> int \<Rightarrow> nat \<Rightarrow> int option" where
  "decoder_max src p 0 = Some 0"
| "decoder_max src p (Suc k) = do {
     n \<leftarrow> rd src (p + int k);
     if n = 0 then decoder_max src p k else Some (int (Suc k)) }"

definition put_code ::
    "u8 list \<Rightarrow> int \<Rightarrow> int \<Rightarrow> int \<times> int \<times> u16 list \<Rightarrow> (int \<times> int \<times> u16 list) option" where
  "put_code src mx len = (\<lambda>(h, q, huff). do {
     (h', huff') \<leftarrow> for_up 0 (shl 1 (mx - len)) (\<lambda>j (h, huff).
        if h \<le> shl 1 mx then do {
          leaf \<leftarrow> rd src q;
          huff' \<leftarrow> wr huff h (shl len 8 OR leaf);
          Some (h + 1, huff') }
        else Some (h, huff)) (h, huff);
     Some (h', q + 1, huff') })"

text \<open>The pointer \<open>*source\<close> is an index \<open>p\<close> into the bytes; the new pointer is returned.\<close>

definition make_decoder_ref :: "u8 list \<Rightarrow> int \<Rightarrow> (u16 list \<times> int) option" where
  "make_decoder_ref src p = do {
     mx \<leftarrow> decoder_max src p 16;
     huff \<leftarrow> wr (zeros (1 + shl 1 mx)) 0 mx;
     (h, q, huff) \<leftarrow> for_up 1 (mx + 1) (\<lambda>len st. do {
        count \<leftarrow> rd src (p + len - 1);
        for_up 0 count (\<lambda>i. put_code src mx len) st }) (1, p + 16, huff);
     Some (huff, q) }"

definition make_decoder :: "u8 list \<Rightarrow> u16 list option" where
  "make_decoder src = do { (huff, q) \<leftarrow> make_decoder_ref src 0; Some huff }"

section \<open>The table as a list\<close>

definition code_lens :: "u8 list \<Rightarrow> nat \<Rightarrow> nat \<Rightarrow> nat list" where
  "code_lens src p m = concat (map (\<lambda>l. replicate (nat (uint (src ! (p + l - 1)))) l) [1..<Suc m])"

definition symbols :: "u8 list \<Rightarrow> nat \<Rightarrow> nat \<Rightarrow> (nat \<times> int) list" where
  "symbols src p m = zip (code_lens src p m) (map uint (drop (p + 16) src))"

definition entry :: "nat \<Rightarrow> nat \<times> int \<Rightarrow> u16 list" where
  "entry m s = replicate (2 ^ (m - fst s)) (word_of_int (shl (int (fst s)) 8 OR snd s))"

definition slots :: "nat \<Rightarrow> (nat \<times> int) list \<Rightarrow> u16 list" where
  "slots m syms = concat (map (entry m) syms)"

definition filled :: "nat \<Rightarrow> u16 list \<Rightarrow> u16 list" where
  "filled n xs = take n (xs @ replicate n 0)"

lemma length_filled [simp]: "length (filled n xs) = n"
  by (simp add: filled_def)

lemma filled_Nil: "filled n [] = replicate n 0"
  by (simp add: filled_def)

lemma filled_update: "length xs < n \<Longrightarrow> (filled n xs)[length xs := e] = filled n (xs @ [e])"
  by (rule nth_equalityI)
    (auto simp: filled_def nth_list_update nth_append less_Suc_eq split: if_splits)

lemma filled_full: "n \<le> length xs \<Longrightarrow> filled n (xs @ ys) = filled n xs"
  by (simp add: filled_def)

text \<open>One symbol fills its slots, as many as there is room for.\<close>

lemma put_code_ok:
  assumes "huff = w # filled N xs" "h = 1 + int (min N (length xs))"
    and "inb src q" "l \<le> m" "N = 2 ^ m"
  shows "ok (put_code src (int m) (int l) (h, q, huff)) (\<lambda>(h', q', huff').
    huff' = w # filled N (xs @ entry m (l, uint (src ! nat q)))
    \<and> h' = 1 + int (min N (length (xs @ entry m (l, uint (src ! nat q))))) \<and> q' = q + 1)"
proof -
  let ?e = "word_of_int (shl (int l) 8 OR uint (src ! nat q)) :: u16"
  let ?I = "\<lambda>j (h, huff). huff = w # filled N (xs @ replicate (nat j) ?e)
    \<and> h = 1 + int (min N (length xs + nat j))"
  have sh: "shl 1 (int m - int l) = int (2 ^ (m - l))" "shl 1 (int m) = int N"
    using assms(4,5) by (simp_all add: shl_mult nat_diff_distrib)
  have step: "ok (if h \<le> int N then do {
          leaf \<leftarrow> rd src q;
          huff' \<leftarrow> wr huff h (shl (int l) 8 OR leaf);
          Some (h + 1, huff') }
        else Some (h, huff)) (?I (j + 1))"
    if j: "0 \<le> j" and I: "?I j (h, huff)" for j h huff
  proof -
    let ?ys = "xs @ replicate (nat j) ?e"
    have nj: "replicate (nat (j + 1)) ?e = replicate (nat j) ?e @ [?e]"
      using j by (simp add: nat_add_distrib replicate_append_same)
    show ?thesis
    proof (cases "length ?ys < N")
      case True
      then have h: "h = 1 + int (length ?ys)" "h \<le> int N" using I by auto
      then have nh: "nat h = Suc (length ?ys)" by linarith
      have upd: "(w # filled N ?ys)[nat h := ?e] = w # filled N (?ys @ [?e])"
        unfolding nh using filled_update [OF True, of ?e] by simp
      have "inb (w # filled N ?ys) h" using h by (simp add: inb_def)
      then have "wr huff h (shl (int l) 8 OR uint (src ! nat q)) = Some (w # filled N (?ys @ [?e]))"
        using I upd by (simp add: wr_def)
      moreover have "rd src q = Some (uint (src ! nat q))" using assms(3) by (simp add: rd_def)
      moreover have "?I (j + 1) (h + 1, w # filled N (?ys @ [?e]))"
        using I h True j by (simp add: nat_add_distrib replicate_append_same)
      ultimately show ?thesis
        using h(2) by (simp only: if_True Option.bind.simps ok_Some_iff prod.case)
    next
      case False
      then have h: "h = 1 + int N" using I by auto
      have "filled N (?ys @ [?e]) = filled N ?ys" by (rule filled_full) (use False in simp)
      then show ?thesis using I False h j by (simp add: nat_add_distrib replicate_append_same)
    qed
  qed
  have e: "entry m (l, uint (src ! nat q)) = replicate (2 ^ (m - l)) ?e"
    by (simp add: entry_def)
  show ?thesis
    unfolding put_code_def e prod.case
    unfolding sh
  proof (rule ok_bind, rule for_up_inv [where I = ?I])
    show "?I 0 (h, huff)" using assms(1,2) by simp
  next
    fix j st
    assume "0 \<le> j" "?I j st"
    then show "ok ((\<lambda>(h, huff). if h \<le> int N then do {
          leaf \<leftarrow> rd src q;
          huff' \<leftarrow> wr huff h (shl (int l) 8 OR leaf);
          Some (h + 1, huff') }
        else Some (h, huff)) st) (?I (j + 1))"
      using step [of j "fst st" "snd st"] by (cases st) (simp only: fst_conv snd_conv prod.case)
  next
    fix st
    assume "?I (int (2 ^ (m - l))) st"
    then show "ok (case st of (h', huff') \<Rightarrow> Some (h', q + 1, huff')) (\<lambda>(h', q', huff').
      huff' = w # filled N (xs @ replicate (2 ^ (m - l)) ?e)
      \<and> h' = 1 + int (min N (length (xs @ replicate (2 ^ (m - l)) ?e))) \<and> q' = q + 1)"
      by (cases st) (simp add: nat_power_eq)
  qed simp
qed

text \<open>All the symbols of one length, then all the lengths.\<close>

lemma put_codes_ok:
  assumes "huff = w # filled N xs" "h = 1 + int (min N (length xs))" "l \<le> m" "N = 2 ^ m"
    and "0 \<le> q" "q + int c \<le> int (length src)"
    and post: "\<And>h' huff'. huff' = w # filled N (xs @ slots m (map (\<lambda>v. (l, uint v)) (take c (drop (nat q) src))))
      \<Longrightarrow> h' = 1 + int (min N (length (xs @ slots m (map (\<lambda>v. (l, uint v)) (take c (drop (nat q) src))))))
      \<Longrightarrow> Q (h', q + int c, huff')"
  shows "ok (for_up 0 (int c) (\<lambda>i. put_code src (int m) (int l)) (h, q, huff)) Q"
proof -
  let ?t = "\<lambda>k. xs @ slots m (map (\<lambda>v. (l, uint v)) (take k (drop (nat q) src)))"
  let ?I = "\<lambda>j (h', q', huff'). q' = q + j \<and> huff' = w # filled N (?t (nat j))
    \<and> h' = 1 + int (min N (length (?t (nat j))))"
  show ?thesis
  proof (rule for_up_inv [where I = ?I])
    show "?I 0 (h, q, huff)" using assms(1,2) by (simp add: slots_def)
  next
    fix j st
    assume j: "0 \<le> j" "j < int c" and I: "?I j st"
    obtain h' q' huff' where st: "st = (h', q', huff')" by (cases st)
    have lt: "nat j < length (drop (nat q) src)" "inb src (q + j)"
      using j assms(5,6) by (auto simp: inb_def)
    have nth: "drop (nat q) src ! nat j = src ! nat (q + j)"
      using j assms(5,6) by (simp add: nat_add_distrib)
    have "?t (nat (j + 1)) = ?t (nat j) @ entry m (l, uint (src ! nat (q + j)))"
      using j lt by (simp add: nat_add_distrib take_Suc_conv_app_nth nth slots_def)
    moreover have "ok (put_code src (int m) (int l) (h', q + j, huff')) (\<lambda>(h'', q'', huff'').
      huff'' = w # filled N (?t (nat j) @ entry m (l, uint (src ! nat (q + j))))
      \<and> h'' = 1 + int (min N (length (?t (nat j) @ entry m (l, uint (src ! nat (q + j)))))) \<and> q'' = q + j + 1)"
      by (rule put_code_ok) (use I st lt assms(3,4) in auto)
    ultimately show "ok (put_code src (int m) (int l) st) (?I (j + 1))"
      using I st by (auto simp: ok_exists)
  next
    fix st
    assume "?I (int c) st"
    then show "Q st" using post by (cases st) auto
  qed simp
qed

lemma decoder_max_ok:
  "p + k \<le> length src \<Longrightarrow> ok (decoder_max src (int p) k) (\<lambda>mx. \<exists>m. mx = int m \<and> m \<le> k
    \<and> (\<forall>l. m < l \<and> l \<le> k \<longrightarrow> src ! (p + l - 1) = 0))"
proof (induction k)
  case 0
  then show ?case by simp
next
  case (Suc k)
  have r: "rd src (int p + int k) = Some (uint (src ! (p + k)))"
    using Suc.prems by (simp add: rd_def inb_def nat_add_distrib)
  show ?case
  proof (cases "uint (src ! (p + k)) = 0")
    case True
    then have z: "src ! (p + k) = 0" by (simp add: unsigned_eq_0_iff)
    have "ok (decoder_max src (int p) k) (\<lambda>mx. \<exists>m. mx = int m \<and> m \<le> k
      \<and> (\<forall>l. m < l \<and> l \<le> k \<longrightarrow> src ! (p + l - 1) = 0))"
      using Suc by simp
    then have "ok (decoder_max src (int p) k) (\<lambda>mx. \<exists>m. mx = int m \<and> m \<le> Suc k
      \<and> (\<forall>l. m < l \<and> l \<le> Suc k \<longrightarrow> src ! (p + l - 1) = 0))"
    proof (rule ok_mono)
      fix mx
      assume "\<exists>m. mx = int m \<and> m \<le> k \<and> (\<forall>l. m < l \<and> l \<le> k \<longrightarrow> src ! (p + l - 1) = 0)"
      then obtain m where m: "mx = int m" "m \<le> k" "\<forall>l. m < l \<and> l \<le> k \<longrightarrow> src ! (p + l - 1) = 0"
        by blast
      have "\<forall>l. m < l \<and> l \<le> Suc k \<longrightarrow> src ! (p + l - 1) = 0"
        using m(3) z by (auto simp: le_Suc_eq)
      then show "\<exists>m. mx = int m \<and> m \<le> Suc k \<and> (\<forall>l. m < l \<and> l \<le> Suc k \<longrightarrow> src ! (p + l - 1) = 0)"
        using m by (intro exI [of _ m]) auto
    qed
    then show ?thesis using r z by simp
  next
    case False
    then show ?thesis using r by (auto intro!: exI [of _ "Suc k"])
  qed
qed

lemma code_lens_Suc:
  "code_lens src p (Suc k) = code_lens src p k @ replicate (nat (uint (src ! (p + k)))) (Suc k)"
  by (simp add: code_lens_def)

lemma code_lens_skip:
  "m \<le> k \<Longrightarrow> \<forall>l. m < l \<and> l \<le> k \<longrightarrow> src ! (p + l - 1) = 0 \<Longrightarrow> code_lens src p k = code_lens src p m"
proof (induction k)
  case 0
  then show ?case by simp
next
  case (Suc k)
  show ?case
  proof (cases "m = Suc k")
    case False
    then have "src ! (p + k) = 0" using Suc.prems(1) spec [OF Suc.prems(2), of "Suc k"] by auto
    moreover have "code_lens src p k = code_lens src p m" using Suc False by auto
    ultimately show ?thesis by (simp add: code_lens_Suc)
  qed simp
qed

lemma code_lens_bounds: "l \<in> set (code_lens src p k) \<Longrightarrow> 1 \<le> l \<and> l \<le> k"
  by (auto simp: code_lens_def)

lemma zip_take_length: "zip xs (take (length xs) ys) = zip xs ys"
proof (induction xs arbitrary: ys)
  case (Cons x xs)
  then show ?case by (cases ys) auto
qed simp

lemma symbols_Suc:
  assumes "p + 16 + length (code_lens src p (Suc k)) \<le> length src"
  shows "symbols src p (Suc k) = symbols src p k @ map (\<lambda>v. (Suc k, uint v))
    (take (nat (uint (src ! (p + k)))) (drop (p + 16 + length (code_lens src p k)) src))"
proof -
  let ?c = "nat (uint (src ! (p + k)))" and ?L = "code_lens src p k"
  have len: "length ?L + ?c \<le> length src - (p + 16)" using assms by (simp add: code_lens_Suc)
  have "symbols src p (Suc k) = symbols src p k @ zip (replicate ?c (Suc k)) (drop (length ?L) (map uint (drop (p + 16) src)))"
    by (simp add: symbols_def code_lens_Suc zip_append1 zip_take_length)
  also have "zip (replicate ?c (Suc k)) (drop (length ?L) (map uint (drop (p + 16) src)))
    = map (\<lambda>v. (Suc k, uint v)) (take ?c (drop (p + 16 + length ?L) src))"
    using len by (simp add: drop_map zip_replicate1 take_map add.commute)
  finally show ?thesis .
qed

theorem make_decoder_ref_table:
  assumes "p + 16 + length (code_lens src p 16) \<le> length src"
  obtains m where "m \<le> 16" "\<forall>l \<in> set (code_lens src p 16). 1 \<le> l \<and> l \<le> m"
    "make_decoder_ref src (int p) = Some (word_of_int (int m) # filled (2 ^ m) (slots m (symbols src p 16)),
      int (p + 16 + length (code_lens src p 16)))"
proof -
  from decoder_max_ok [of p 16 src] assms obtain m where
    m: "decoder_max src (int p) 16 = Some (int m)" "m \<le> 16"
      "\<forall>l. m < l \<and> l \<le> 16 \<longrightarrow> src ! (p + l - 1) = 0"
    by (auto simp: ok_exists)
  have same: "code_lens src p 16 = code_lens src p m" by (rule code_lens_skip) (use m in auto)
  let ?w = "word_of_int (int m) :: u16" and ?N = "2 ^ m :: nat"
  have sh: "shl 1 (int m) = int ?N" by (simp add: shl_mult)
  have z: "wr (zeros (1 + int ?N)) 0 (int m) = Some (?w # filled ?N [])"
    by (simp add: wr_def inb_def zeros_def filled_Nil nat_add_distrib add_pos_nonneg)
  let ?body = "\<lambda>len st. do {
        count \<leftarrow> rd src (int p + len - 1);
        for_up 0 count (\<lambda>i. put_code src (int m) len) st }"
  let ?I = "\<lambda>j (h, q, huff). huff = ?w # filled ?N (slots m (symbols src p (nat j - 1)))
    \<and> h = 1 + int (min ?N (length (slots m (symbols src p (nat j - 1)))))
    \<and> q = int (p + 16 + length (code_lens src p (nat j - 1)))"
  have "ok (for_up 1 (int m + 1) ?body (1, int p + 16, ?w # filled ?N [])) (?I (int m + 1))"
  proof (rule for_up_inv [where I = ?I])
    show "?I 1 (1, int p + 16, ?w # filled ?N [])"
      by (simp add: symbols_def code_lens_def slots_def)
  next
    fix j st
    assume j: "1 \<le> j" "j < int m + 1" and I: "?I j st"
    obtain h q huff where st: "st = (h, q, huff)" by (cases st)
    define k where "k = nat j - 1"
    have jk: "j = int (Suc k)" "k < m" "nat (j + 1) - 1 = Suc k" "nat j - 1 = k"
      using j by (auto simp: k_def)
    define c where c: "c = nat (uint (src ! (p + k)))"
    have "length (code_lens src p (Suc k)) \<le> length (code_lens src p m)"
      using jk(2) by (induction m) (auto simp: code_lens_Suc less_Suc_eq)
    then have len: "p + 16 + length (code_lens src p (Suc k)) \<le> length src"
      using assms same by simp
    have r: "rd src (int p + j - 1) = Some (int c)"
      using len jk m(2) by (simp add: c rd_def inb_def nat_add_distrib)
    note cl = code_lens_Suc [of src p k, folded c]
    note sy = symbols_Suc [OF len, folded c]
    have "ok (for_up 0 (int c) (\<lambda>i. put_code src (int m) (int (Suc k))) (h, q, huff)) (?I (j + 1))"
      by (rule put_codes_ok [where N = ?N and xs = "slots m (symbols src p k)"])
        (use I st len jk in \<open>auto simp: sy cl slots_def nat_add_distrib\<close>)
    then show "ok (?body j st) (?I (j + 1))" using r st jk(1) by simp
  qed simp
  then obtain h q huff where run:
    "for_up 1 (int m + 1) ?body (1, int p + 16, ?w # filled ?N []) = Some (h, q, huff)"
    and I: "?I (int m + 1) (h, q, huff)" by (auto simp: ok_exists)
  have "nat (int m + 1) - Suc 0 = m" by simp
  with I have vals: "huff = ?w # filled ?N (slots m (symbols src p m))"
    "q = int (p + 16 + length (code_lens src p m))" by simp_all
  have "symbols src p 16 = symbols src p m" by (simp add: symbols_def same)
  moreover have "\<forall>l \<in> set (code_lens src p m). 1 \<le> l \<and> l \<le> m"
    by (auto dest: code_lens_bounds)
  ultimately show ?thesis
    using that [of m] m same run vals z by (simp add: make_decoder_ref_def sh)
qed

section \<open>Decoding the canonical code\<close>

lemma shl_or_add: "0 \<le> v \<Longrightarrow> v < 2 ^ nat n \<Longrightarrow> shl x n OR v = shl x n + v"
proof -
  assume "0 \<le> v" "v < 2 ^ nat n"
  then have "v = take_bit (nat n) v" by (simp add: take_bit_int_eq_self)
  then have "shl x n AND v = 0"
    by (intro bit_eqI) (metis bit_0_eq bit_and_iff bit_push_bit_iff_int bit_take_bit_iff bot_apply bot_bool_def not_le shl_def)
  then show ?thesis by (simp add: disjunctive_add_eq_or)
qed

text \<open>
  The code words the JPEG standard assigns to a list of ascending lengths: the first is zero,
  the next is the successor, extended with zero bits to its own length.
\<close>

fun canon :: "nat \<Rightarrow> nat \<Rightarrow> nat list \<Rightarrow> nat list" where
  "canon c len [] = []"
| "canon c len (l # ls) = (let c' = c * 2 ^ (l - len) in c' # canon (c' + 1) l ls)"

lemma length_canon [simp]: "length (canon c len ls) = length ls"
  by (induction c len ls rule: canon.induct) (simp_all add: Let_def)

lemma canon_slots:
  assumes "sorted (map fst syms)" "\<forall>s \<in> set syms. l0 \<le> fst s \<and> fst s \<le> m" "k < length syms" "l0 \<le> m"
  shows "canon c0 l0 (map fst syms) ! k * 2 ^ (m - fst (syms ! k))
    = c0 * 2 ^ (m - l0) + length (slots m (take k syms))"
  using assms
proof (induction syms arbitrary: c0 l0 k)
  case Nil
  then show ?case by simp
next
  case (Cons s syms)
  let ?l = "fst s" and ?c = "c0 * 2 ^ (fst s - l0)"
  have l: "l0 \<le> ?l" "?l \<le> m" using Cons.prems(2) by auto
  have e: "?c * 2 ^ (m - ?l) = c0 * 2 ^ (m - l0)"
    using l by (simp add: power_add [symmetric])
  show ?case
  proof (cases k)
    case 0
    then show ?thesis using e by (simp add: Let_def slots_def)
  next
    case (Suc j)
    have "canon (?c + 1) ?l (map fst syms) ! j * 2 ^ (m - fst (syms ! j))
      = (?c + 1) * 2 ^ (m - ?l) + length (slots m (take j syms))"
      by (rule Cons.IH) (use Cons.prems Suc l in auto)
    then show ?thesis using Suc e by (simp add: Let_def slots_def entry_def)
  qed
qed

lemma slots_nth:
  assumes "k < length syms" "r < 2 ^ (m - fst (syms ! k))"
  shows "slots m syms ! (length (slots m (take k syms)) + r)
      = word_of_int (shl (int (fst (syms ! k))) 8 OR snd (syms ! k))"
    and "length (slots m (take k syms)) + r < length (slots m syms)"
proof -
  have "slots m syms = slots m (take k syms) @ entry m (syms ! k) @ slots m (drop (Suc k) syms)"
    unfolding slots_def by (subst id_take_nth_drop [OF assms(1)]) simp
  then show "slots m syms ! (length (slots m (take k syms)) + r)
      = word_of_int (shl (int (fst (syms ! k))) 8 OR snd (syms ! k))"
    and "length (slots m (take k syms)) + r < length (slots m syms)"
    using assms(2) by (simp_all add: nth_append entry_def)
qed

lemma sorted_code_lens: "sorted (code_lens src p k)"
  by (induction k) (auto simp: code_lens_Suc sorted_append code_lens_def [of _ _ 0] dest: code_lens_bounds)

lemma bits_val_take_pad:
  assumes "l \<le> length bs" "l \<le> m"
  obtains r where "bits_val (take m (bs @ replicate m False)) = bits_val (take l bs) * 2 ^ (m - l) + int r"
    "r < 2 ^ (m - l)"
proof -
  let ?zs = "take (m - l) (drop l bs @ replicate m False)"
  have "take m (bs @ replicate m False) = take l bs @ ?zs"
    using take_add [of l "m - l" "bs @ replicate m False"] assms by simp
  moreover have len: "length ?zs = m - l" using assms by simp
  ultimately have "bits_val (take m (bs @ replicate m False)) = bits_val (take l bs) * 2 ^ (m - l) + bits_val ?zs"
    by (simp only: bits_val_append)
  moreover have "bits_val ?zs < 2 ^ (m - l)" using bits_val_less [of ?zs] unfolding len .
  ultimately show ?thesis
    using that [of "nat (bits_val ?zs)"] by (simp add: nat_less_iff)
qed

lemma gethuff_eq:
  assumes "h = word_of_int (int m) # tab" "1 \<le> m" "m \<le> 16" "0 \<le> vbits io"
    and "e = window (int m) (fill_bits (int m) io)" "nat e < length tab"
  shows "gethuff h io = (let io1 = fill_bits (int m) io; d = uint (tab ! nat e);
      io2 = io1\<lparr>vbits := vbits io1 - shr d 8\<rparr>
      in Some (c_u8 d, if vbits io2 < 0 then derror io2 else io2))"
proof -
  have "0 \<le> e" using window_bounds [of "int m"] assms(2,3,5) by simp
  moreover have "rd h 0 = Some (int m)"
    using assms(1,3) by (simp add: rd_def inb_def unsigned_of_nat take_bit_nat_eq_self)
  ultimately show ?thesis
    using assms by (simp add: gethuff_def getbithuff_def window_def [symmetric] rd_def inb_def Let_def nat_less_iff)
qed

text \<open>A well-formed table: at most 16 bits wide, one cell for every index of that width.\<close>

definition huff_ok :: "u16 list \<Rightarrow> bool" where
  "huff_ok h \<longleftrightarrow> h \<noteq> [] \<and> uint (h ! 0) \<le> 25 \<and> Suc (2 ^ nat (uint (h ! 0))) \<le> length h"

lemma make_decoder_canonical:
  assumes table: "h = word_of_int (int m) # filled (2 ^ m) (slots m syms)"
    and syms: "sorted (map fst syms)" "\<forall>s \<in> set syms. 1 \<le> fst s \<and> fst s \<le> m \<and> 0 \<le> snd s \<and> snd s < 256"
    and kraft: "(\<Sum>s\<leftarrow>syms. 2 ^ (m - fst s)) \<le> (2 ^ m :: nat)" and "m \<le> 16"
    and k: "k < length syms" "syms ! k = (l, v)"
    and io: "bit_inv io" "l \<le> length (avail io)"
    and code: "bits_val (take l (avail io)) = int (canon 0 0 (map fst syms) ! k)"
  obtains io' where "gethuff h io = Some (v, io')" "avail io' = drop l (avail io)" "bit_inv io'"
    "data_error io' = data_error io"
proof -
  have lm: "1 \<le> l" "l \<le> m" "0 \<le> v" "v < 256" using syms(2) k nth_mem [OF k(1)] by auto
  let ?io = "fill_bits (int m) io"
  from fill_bits_avail [OF io(1), of "int m"] \<open>m \<le> 16\<close>
  have f: "avail ?io = avail io" "bit_inv ?io" "int m \<le> vbits ?io \<or> ahead ?io = []" by auto
  have "int l \<le> int (length (avail ?io))" using f(1) io(2) by simp
  then have lv: "int l \<le> vbits ?io" using f(2,3) lm by (auto simp: avail_def bit_inv_def)
  have pad: "take m (pending ?io @ replicate m False) = take m (avail io @ replicate m False)"
  proof (cases "int m \<le> vbits ?io")
    case True
    then show ?thesis unfolding f(1) [symmetric] by (simp add: avail_def)
  next
    case False
    then show ?thesis using f(3) unfolding f(1) [symmetric] by (simp add: avail_def)
  qed
  obtain r where r: "bits_val (take m (avail io @ replicate m False))
      = int (canon 0 0 (map fst syms) ! k) * 2 ^ (m - l) + int r" "r < 2 ^ (m - l)"
    using bits_val_take_pad [OF io(2) lm(2)] code by metis
  let ?p = "length (slots m (take k syms)) + r"
  have "canon 0 0 (map fst syms) ! k * 2 ^ (m - l) = length (slots m (take k syms))"
    using canon_slots [OF syms(1) _ k(1), of 0 m 0] syms(2) k(2) by auto
  then have "int (canon 0 0 (map fst syms) ! k) * 2 ^ (m - l) = int (length (slots m (take k syms)))"
    by (metis of_nat_mult of_nat_numeral of_nat_power)
  then have e: "window (int m) ?io = int ?p"
    using window_pending [OF f(2), of "int m"] lv lm \<open>m \<le> 16\<close> pad r(1) by simp
  have sl: "slots m syms ! ?p = word_of_int (shl (int l) 8 OR v)" "?p < length (slots m syms)"
    using slots_nth [OF k(1)] r(2) k(2) by simp_all
  have total: "length (slots m syms) \<le> 2 ^ m"
    using kraft by (simp add: slots_def entry_def length_concat comp_def)
  have cell: "filled (2 ^ m) (slots m syms) ! ?p = word_of_int (shl (int l) 8 OR v)"
    using sl total by (simp add: filled_def nth_append)
  define P where "P = ?p"
  have P: "P < 2 ^ m" "filled (2 ^ m) (slots m syms) ! P = word_of_int (shl (int l) 8 OR v)"
    unfolding P_def using sl(2) total cell by simp_all
  note e = e [folded P_def]
  define d where "d = uint (word_of_int (shl (int l) 8 OR v) :: u16)"
  have "shl (int l) 8 OR v = int l * 256 + v"
    using shl_or_add [of v 8 "int l"] lm by (simp add: shl_mult)
  then have d: "d = int l * 256 + v" using lm \<open>m \<le> 16\<close>
    unfolding d_def by (simp only:) (rule uint_u16, auto)
  have dv: "c_u8 d = v" "shr d 8 = int l"
    using lm by (auto simp: d take_bit_eq_mod shr_div)
  have "gethuff h io = Some (v, ?io\<lparr>vbits := vbits ?io - int l\<rparr>)"
    using gethuff_eq [OF table, of io "int P"] lm \<open>m \<le> 16\<close> io(1) e lv P dv
    by (simp add: bit_inv_def d_def Let_def)
  then show ?thesis
    using that [of "?io\<lparr>vbits := vbits ?io - int l\<rparr>"] avail_consume [of "int l" ?io] lv f lm
    by (simp add: bit_inv_def)
qed

text \<open>The decoder a source builds, with the condition of Kraft stated for 16-bit words.\<close>

lemma kraft_16:
  fixes ls :: "nat list"
  assumes "(\<Sum>l\<leftarrow>ls. 2 ^ (16 - l)) \<le> (2 ^ 16 :: nat)" "\<forall>l \<in> set ls. l \<le> m" "m \<le> 16"
  shows "(\<Sum>l\<leftarrow>ls. 2 ^ (m - l)) \<le> (2 ^ m :: nat)"
proof -
  have e: "(2::nat) ^ (16 - l) = 2 ^ (16 - m) * 2 ^ (m - l)" if "l \<le> m" for l
    using that assms(3) by (simp flip: power_add)
  have "(\<Sum>l\<leftarrow>ls. 2 ^ (16 - l)) = 2 ^ (16 - m) * (\<Sum>l\<leftarrow>ls. 2 ^ (m - l) :: nat)"
    using assms(2)
  proof (induction ls)
    case (Cons a ls)
    then show ?case using e [of a] by (simp add: distrib_left)
  qed simp
  moreover have "(2::nat) ^ 16 = 2 ^ (16 - m) * 2 ^ m" using assms(3) by (simp flip: power_add)
  ultimately show ?thesis using assms(1) by (metis mult_le_cancel1 zero_less_numeral zero_less_power)
qed

lemma huff_ok_table: "m \<le> 16 \<Longrightarrow> huff_ok (word_of_int (int m) # filled (2 ^ m) xs)"
  by (simp add: huff_ok_def unsigned_of_nat take_bit_nat_eq_self)

lemma make_decoder_ref_ok [wp, safe]:
  assumes "0 \<le> p" "nat p + 16 + length (code_lens src (nat p) 16) \<le> length src"
    and "\<And>h. huff_ok h \<Longrightarrow> Q (h, p + 16 + int (length (code_lens src (nat p) 16)))"
  shows "ok (make_decoder_ref src p) Q"
  using make_decoder_ref_table [OF assms(2)] assms(1,3) huff_ok_table
  by (metis (no_types, lifting) int_nat_eq of_nat_add of_nat_numeral ok_Some_iff)

lemma make_decoder_wp [wp, safe]:
  "16 + length (code_lens src 0 16) \<le> length src \<Longrightarrow> (\<And>h. huff_ok h \<Longrightarrow> Q h) \<Longrightarrow> ok (make_decoder src) Q"
  unfolding make_decoder_def by (auto intro!: wp)

text \<open>Total, whatever the state of the bit reader.\<close>

lemma getbithuff_ok:
  assumes "huff = None \<or> (\<exists>h. huff = Some h \<and> 2 ^ nat n \<le> length h)"
  shows "ok (getbithuff n huff io) (\<lambda>(c, io'). 0 \<le> c \<and> (huff = None \<longrightarrow> c < 2 ^ nat n) \<and> (huff \<noteq> None \<longrightarrow> c < 256)
    \<and> ifile io' = ifile io \<and> byte_order io' = byte_order io \<and> big_host io' = big_host io)"
proof (cases "1 \<le> n \<and> n \<le> 25")
  case True
  let ?io = "fill_bits n io"
  have w: "0 \<le> window n ?io" "window n ?io < 2 ^ nat n" using window_bounds True by auto
  have "inb h (window n ?io)" if "huff = Some h" for h
  proof -
    have "window n ?io < int (2 ^ nat n)" using w(2) by simp
    also have "int (2 ^ nat n) \<le> int (length h)" using assms that by (subst of_nat_le_iff) simp
    finally show ?thesis using w(1) by (simp add: inb_def)
  qed
  moreover have "c_u8 x < 256" for x using take_bit_int_less_exp [of 8 x] by simp
  ultimately show ?thesis using True w
    by (auto simp: getbithuff_def window_def [symmetric] Let_def derror_def rd_def split: option.split)
qed (auto simp: getbithuff_def)

lemma getbits_wp [wp, safe]:
  "(\<And>c io'. 0 \<le> c \<Longrightarrow> c < 2 ^ nat n \<Longrightarrow> ifile io' = ifile io \<Longrightarrow> byte_order io' = byte_order io
      \<Longrightarrow> big_host io' = big_host io \<Longrightarrow> Q (c, io'))
    \<Longrightarrow> ok (getbits n io) Q"
  unfolding getbits_def by (rule ok_mono [OF getbithuff_ok]) auto

lemma getbithuff_wp [wp, safe]:
  "2 ^ nat n \<le> length h \<Longrightarrow>
    (\<And>c io'. 0 \<le> c \<Longrightarrow> c < 256 \<Longrightarrow> ifile io' = ifile io \<Longrightarrow> byte_order io' = byte_order io
      \<Longrightarrow> big_host io' = big_host io \<Longrightarrow> Q (c, io'))
    \<Longrightarrow> ok (getbithuff n (Some h) io) Q"
  by (rule ok_mono [OF getbithuff_ok]) auto

lemma gethuff_wp [wp, safe]:
  "huff_ok h \<Longrightarrow>
    (\<And>c io'. 0 \<le> c \<Longrightarrow> c < 256 \<Longrightarrow> ifile io' = ifile io \<Longrightarrow> byte_order io' = byte_order io
      \<Longrightarrow> big_host io' = big_host io \<Longrightarrow> Q (c, io'))
    \<Longrightarrow> ok (gethuff h io) Q"
  unfolding gethuff_def
  by (rule wp | clarsimp simp: huff_ok_def inb_def | arith)+

lemma gethuff_nonneg: "gethuff h io = Some (c, io') \<Longrightarrow> 0 \<le> c"
  by (auto simp: gethuff_def getbithuff_def Let_def split: bind_splits option.splits if_splits)

end
