(* ===== verification/HuffCode.thy ===== *)
theory HuffCode
  imports Huffman
begin

text \<open>
  What a Huffman table means: the canonical prefix code of a source, and the theorem that
  \<open>make_decoder\<close> and \<open>gethuff\<close> together decode every stream of its code words.
\<close>

section \<open>The code of a source\<close>

text \<open>
  A source is 16 counts, then the symbols in the order of their codes. It is usable when the
  symbols are there and the code lengths satisfy the inequality of Kraft.
\<close>

definition src_lens :: "u8 list \<Rightarrow> nat list" where
  "src_lens src = code_lens src 0 16"

definition src_ok :: "u8 list \<Rightarrow> bool" where
  "src_ok src \<longleftrightarrow> 16 + length (src_lens src) \<le> length src
     \<and> (\<Sum>l\<leftarrow>src_lens src. 2 ^ (16 - l)) \<le> (2 ^ 16 :: nat)"

text \<open>Symbol number \<open>k\<close> and its code word.\<close>

definition src_leaf :: "u8 list \<Rightarrow> nat \<Rightarrow> int" where
  "src_leaf src k = uint (src ! (16 + k))"

definition src_code :: "u8 list \<Rightarrow> nat \<Rightarrow> bool list" where
  "src_code src k = nat_bits (src_lens src ! k) (canon 0 0 (src_lens src) ! k)"

text \<open>Every code fits its length when the inequality of Kraft holds.\<close>

lemma canon_fits:
  assumes "sorted ls" "\<forall>l \<in> set ls. l \<le> m" "(\<Sum>l\<leftarrow>ls. 2 ^ (m - l)) \<le> (2 ^ m :: nat)" "k < length ls"
  shows "canon 0 0 ls ! k < 2 ^ (ls ! k)"
proof -
  let ?syms = "map (\<lambda>l. (l, 0::int)) ls"
  have fst_syms: "map fst ?syms = ls" by (simp add: comp_def)
  have "canon 0 0 (map fst ?syms) ! k * 2 ^ (m - ls ! k) = length (slots m (take k ?syms))"
    using canon_slots [of ?syms 0 m k] assms by (simp add: comp_def)
  then have a: "canon 0 0 ls ! k * 2 ^ (m - ls ! k) = (\<Sum>l\<leftarrow>take k ls. 2 ^ (m - l))"
    by (simp add: fst_syms slots_def entry_def length_concat comp_def take_map)
  have "ls = take k ls @ ls ! k # drop (Suc k) ls" using assms(4) by (rule id_take_nth_drop)
  then have "(\<Sum>l\<leftarrow>ls. 2 ^ (m - l)) = (\<Sum>l\<leftarrow>take k ls. 2 ^ (m - l)) + 2 ^ (m - ls ! k)
      + (\<Sum>l\<leftarrow>drop (Suc k) ls. (2::nat) ^ (m - l))"
    by (metis (no_types, lifting) add.assoc list.simps(9) map_append sum_list.Cons sum_list.append)
  with assms(3) a have "(canon 0 0 ls ! k + 1) * 2 ^ (m - ls ! k) \<le> 2 ^ m" by simp
  moreover have "(2::nat) ^ m = 2 ^ (ls ! k) * 2 ^ (m - ls ! k)"
    using assms(2,4) by (simp flip: power_add)
  ultimately have "canon 0 0 ls ! k + 1 \<le> 2 ^ (ls ! k)" by (metis mult_le_cancel2 zero_less_numeral zero_less_power)
  then show ?thesis by simp
qed

text \<open>One symbol; the table is the one \<open>make_decoder\<close> builds.\<close>

lemma decode_symbol:
  assumes "src_ok src" "make_decoder src = Some h" "k < length (src_lens src)"
    and "bit_inv io" "avail io = src_code src k @ rest"
  obtains io' where "gethuff h io = Some (src_leaf src k, io')" "avail io' = rest" "bit_inv io'"
    "data_error io' = data_error io"
proof -
  have len: "0 + 16 + length (code_lens src 0 16) \<le> length src"
    using assms(1) by (simp add: src_ok_def src_lens_def)
  obtain m where m: "m \<le> 16" "\<forall>l \<in> set (code_lens src 0 16). 1 \<le> l \<and> l \<le> m"
    "make_decoder_ref src 0 = Some (word_of_int (int m) # filled (2 ^ m) (slots m (symbols src 0 16)),
      int (0 + 16 + length (code_lens src 0 16)))"
    by (rule make_decoder_ref_table [OF len]) simp
  let ?syms = "symbols src 0 16" and ?ls = "src_lens src"
  have h: "h = word_of_int (int m) # filled (2 ^ m) (slots m ?syms)"
    using assms(2) m(3) by (simp add: make_decoder_def)
  have fsts: "map fst ?syms = ?ls"
    using len by (simp add: symbols_def src_lens_def map_fst_zip_take)
  have lsyms: "length ?syms = length ?ls" by (metis fsts length_map)
  have kth: "?syms ! k = (?ls ! k, src_leaf src k)"
    using assms(3) lsyms len by (simp add: symbols_def src_lens_def src_leaf_def)
  have uint8: "uint b < 256" for b :: u8 using uint_lt2p [of b] by simp
  have range: "\<forall>s \<in> set ?syms. 1 \<le> fst s \<and> fst s \<le> m \<and> 0 \<le> snd s \<and> snd s < 256"
    unfolding symbols_def using m(2) uint8 by (fastforce dest: set_zip_leftD set_zip_rightD)
  have kraft: "(\<Sum>l\<leftarrow>?ls. 2 ^ (m - l)) \<le> (2 ^ m :: nat)"
    using kraft_16 [of ?ls m] assms(1) m(1,2) by (simp add: src_ok_def src_lens_def)
  have sorted: "sorted ?ls" by (simp add: src_lens_def sorted_code_lens)
  have fits: "canon 0 0 ?ls ! k < 2 ^ (?ls ! k)"
    by (rule canon_fits [OF sorted _ kraft assms(3)]) (use m(2) in \<open>simp add: src_lens_def\<close>)
  have code: "bits_val (take (?ls ! k) (avail io)) = int (canon 0 0 (map fst ?syms) ! k)"
    using fits by (simp add: assms(5) src_code_def bits_val_nat_bits fsts take_bit_nat_eq_self)
  have avl: "?ls ! k \<le> length (avail io)" "drop (?ls ! k) (avail io) = rest"
    by (simp_all add: assms(5) src_code_def)
  have kraft': "(\<Sum>s\<leftarrow>?syms. 2 ^ (m - fst s)) \<le> (2 ^ m :: nat)"
    using kraft unfolding fsts [symmetric] by (simp add: comp_def)
  show ?thesis
    by (rule make_decoder_canonical [OF h _ range kraft' m(1) _ kth assms(4) avl(1) code])
      (use sorted fsts lsyms assms(3) that avl(2) in \<open>simp_all\<close>)
qed

text \<open>A usable source has a table.\<close>

lemma make_decoder_total: "src_ok src \<Longrightarrow> \<exists>h. make_decoder src = Some h \<and> huff_ok h"
proof -
  assume "src_ok src"
  then have "ok (make_decoder src) huff_ok"
    by (auto simp: src_ok_def src_lens_def intro!: wp)
  then show ?thesis by (auto simp: ok_exists)
qed

section \<open>Streams\<close>

fun gethuffs :: "nat \<Rightarrow> u16 list \<Rightarrow> bitio \<Rightarrow> (int list \<times> bitio) option" where
  "gethuffs 0 h io = Some ([], io)"
| "gethuffs (Suc n) h io = do {
     (x, io) \<leftarrow> gethuff h io;
     (xs, io) \<leftarrow> gethuffs n h io;
     Some (x # xs, io) }"

lemma decode_stream:
  assumes "src_ok src" "make_decoder src = Some h" "\<forall>k \<in> set ks. k < length (src_lens src)"
    and "bit_inv io" "avail io = concat (map (src_code src) ks) @ rest"
  shows "\<exists>io'. gethuffs (length ks) h io = Some (map (src_leaf src) ks, io') \<and> avail io' = rest
    \<and> bit_inv io' \<and> data_error io' = data_error io"
  using assms(3-5)
proof (induction ks arbitrary: io)
  case Nil
  then show ?case by simp
next
  case (Cons k ks)
  obtain io1 where io1: "gethuff h io = Some (src_leaf src k, io1)"
    "avail io1 = concat (map (src_code src) ks) @ rest" "bit_inv io1" "data_error io1 = data_error io"
    using decode_symbol [OF assms(1,2), of k io "concat (map (src_code src) ks) @ rest"] Cons.prems by auto
  with Cons.IH [of io1] Cons.prems show ?case by auto
qed

text \<open>The conditions on a source as sums over the sixteen counts.\<close>

lemma src_ok_counts:
  "src_ok src \<longleftrightarrow> 16 + (\<Sum>l\<leftarrow>[1..<17]. uint (src ! (l - 1))) \<le> int (length src)
    \<and> (\<Sum>l\<leftarrow>[1..<17]. uint (src ! (l - 1)) * 2 ^ (16 - l)) \<le> 2 ^ 16"
proof -
  have len: "int (length (code_lens src 0 m)) = (\<Sum>l\<leftarrow>[1..<Suc m]. uint (src ! (l - 1)))" for m
    by (induction m) (simp_all add: code_lens_def)
  have kraft: "int (\<Sum>l\<leftarrow>code_lens src 0 m. 2 ^ (16 - l)) = (\<Sum>l\<leftarrow>[1..<Suc m]. uint (src ! (l - 1)) * 2 ^ (16 - l))" for m
    by (induction m) (simp_all add: code_lens_def sum_list_replicate)
  have 17: "Suc 16 = 17" by simp
  have le: "(x \<le> 2 ^ 16) \<longleftrightarrow> (int x \<le> 2 ^ 16)" for x :: nat
    using of_nat_le_iff [of x "2 ^ 16", where 'a = int] by (simp only: of_nat_power of_nat_numeral)
  have le2: "16 + y \<le> z \<longleftrightarrow> 16 + int y \<le> int z" for y z :: nat
    by presburger
  show ?thesis
    unfolding src_ok_def src_lens_def le le2 len kraft 17 ..
qed

section \<open>Property\<close>

text \<open>
  C4: From a source whose counts satisfy Kraft's inequality \<open>make_decoder\<close> builds a table with
  which \<open>gethuff\<close> inverts the canonical code of the source: any sequence of code words, followed
  by anything, is read back as the sequence of their leaf values, and what follows is left.
\<close>

theorem make_decoder_decodes:
  assumes "src_ok src"
  shows "\<exists>h. make_decoder src = Some h \<and> (\<forall>ks io rest.
    (\<forall>k \<in> set ks. k < length (src_lens src)) \<and> bit_inv io \<and> avail io = concat (map (src_code src) ks) @ rest
    \<longrightarrow> (\<exists>io'. gethuffs (length ks) h io = Some (map (src_leaf src) ks, io') \<and> avail io' = rest
          \<and> data_error io' = data_error io))"
proof -
  obtain h where h: "make_decoder src = Some h" using make_decoder_total [OF assms] by blast
  then show ?thesis using decode_stream [OF assms h] by blast
qed

theorem make_decoder_decodes_witness:
  "\<exists>h io'. make_decoder [1, 1, 1, 0, 0, 0, 0, 0, 0, 0, 0, 0, 0, 0, 0, 0, 4, 3, 7] = Some h
    \<and> gethuffs 3 h (open_file [0xd1]) = Some ([7, 3, 4], io') \<and> avail io' = [False, True]"
proof -
  let ?src = "[1, 1, 1, 0, 0, 0, 0, 0, 0, 0, 0, 0, 0, 0, 0, 0, 4, 3, 7] :: u8 list"
  have "src_ok ?src" by (simp add: src_ok_counts upt_conv_Cons)
  from make_decoder_decodes [OF this] obtain h where h: "make_decoder ?src = Some h" and dec: "\<forall>ks io rest.
    (\<forall>k \<in> set ks. k < length (src_lens ?src)) \<and> bit_inv io \<and> avail io = concat (map (src_code ?src) ks) @ rest
    \<longrightarrow> (\<exists>io'. gethuffs (length ks) h io = Some (map (src_leaf ?src) ks, io') \<and> avail io' = rest
          \<and> data_error io' = data_error io)"
    by blast
  have c: "(\<forall>k \<in> set [2, 1, 0]. k < length (src_lens ?src)) \<and> bit_inv (open_file [0xd1])
      \<and> avail (open_file [0xd1]) = concat (map (src_code ?src) [2, 1, 0]) @ [False, True]"
    "map (src_leaf ?src) [2, 1, 0] = [7, 3, 4]"
    by code_simp+
  from dec [rule_format, OF c(1)] h show ?thesis
    unfolding c(2) by (auto simp: eval_nat_numeral)
qed

section \<open>Tables by index\<close>

text \<open>
  A table in which the cells of all indices that start with \<open>code\<close> hold its length and its leaf
  decodes \<open>code\<close>, whatever else it holds.
\<close>

lemma table_decodes:
  assumes "1 \<le> n" "n \<le> 16" "bit_inv io" "avail io = code @ rest" "1 \<le> length code" "length code \<le> n"
    and "\<And>r. r < 2 ^ (n - length code) \<Longrightarrow>
      rd h (bits_val code * 2 ^ (n - length code) + int r) = Some (256 * int (length code) + leaf)"
    and "0 \<le> leaf" "leaf < 256"
  obtains io' where "getbithuff (int n) (Some h) io = Some (leaf, io')" "avail io' = rest" "bit_inv io'"
    "data_error io' = data_error io"
proof -
  let ?l = "length code"
  define io1 where "io1 = fill_bits (int n) io"
  from fill_bits_avail [OF assms(3), of "int n"] assms(2)
  have f: "avail io1 = avail io" "bit_inv io1" "int n \<le> vbits io1 \<or> ahead io1 = []" by (auto simp: io1_def)
  have v: "int ?l \<le> vbits io1"
  proof (cases "int n \<le> vbits io1")
    case False
    then have "pending io1 = code @ rest" using f assms(4) by (simp add: avail_def)
    from arg_cong [OF this, of length] show ?thesis using f(2) by (simp add: bit_inv_def) linarith
  qed (use assms(6) in linarith)
  have "take ?l (pending io1) = take ?l (avail io1)" using v by (simp add: avail_def le_nat_iff)
  then have code: "take ?l (pending io1) = code" using f(1) assms(4) by simp
  obtain r where r: "bits_val (take n (pending io1 @ replicate n False)) = bits_val code * 2 ^ (n - ?l) + int r"
    "r < 2 ^ (n - ?l)"
    using bits_val_take_pad [of ?l "pending io1" n] v assms(6) code by (metis length_pending le_nat_iff of_nat_0_le_iff order_trans)
  have w: "window (int n) io1 = bits_val code * 2 ^ (n - ?l) + int r"
    using window_pending [OF f(2), of "int n"] v assms(1,2,5) r(1) by simp
  have "getbithuff (int n) (Some h) io = Some (leaf, io1\<lparr>vbits := vbits io1 - int ?l\<rparr>)"
    using assms(1-3,8,9) v assms(7) [OF r(2)]
    by (simp add: getbithuff_def window_def [symmetric] io1_def [symmetric] w Let_def bit_inv_def shr_div take_bit_eq_mod)
  moreover have "avail (io1\<lparr>vbits := vbits io1 - int ?l\<rparr>) = rest"
    using avail_consume [of "int ?l" io1] v f(1) assms(4) by simp
  moreover have "bit_inv (io1\<lparr>vbits := vbits io1 - int ?l\<rparr>)" using f(2) v by (simp add: bit_inv_def)
  moreover have "data_error io1 = data_error io" by (simp add: io1_def)
  ultimately show thesis using that by simp
qed

end
