(* ===== verification/WordReader.thy ===== *)
theory WordReader
  imports HuffCode
begin

text \<open>
  The reader of \<open>ph1_bithuff\<close>: it takes the file in words of 32 bits, in the byte order of the
  file, and keeps up to 63 bits. It promises the same as \<open>getbits\<close>, for up to 32 bits at a time.
\<close>

section \<open>The bits of the words ahead\<close>

fun word_bytes :: "int \<Rightarrow> u8 list \<Rightarrow> u8 list" where
  "word_bytes ord (a # b # c # d # bs) =
     (if ord = 0x4949 then [d, c, b, a] else [a, b, c, d]) @ word_bytes ord bs"
| "word_bytes ord _ = []"

definition ph1_pending :: "bitio \<Rightarrow> bool list" where
  "ph1_pending io = map (bit (ph1_bitbuf io)) (rev [0..<nat (ph1_vbits io)])"

definition ph1_avail :: "bitio \<Rightarrow> bool list" where
  "ph1_avail io = ph1_pending io
     @ concat (map byte_bits (word_bytes (byte_order io) (drop (nat (ipos io)) (ifile io))))"

definition ph1_inv :: "bitio \<Rightarrow> bool" where
  "ph1_inv io \<longleftrightarrow> 0 \<le> ipos io \<and> 0 \<le> ph1_vbits io \<and> ph1_vbits io \<le> 63"

lemma length_ph1_pending [simp]: "length (ph1_pending io) = nat (ph1_vbits io)"
  by (simp add: ph1_pending_def)

lemma word_bytes_none: "length bs < 4 \<Longrightarrow> word_bytes ord bs = []"
  by (cases "(ord, bs)" rule: word_bytes.cases) auto

lemma list_of_four: "\<not> length (xs :: u8 list) < 4 \<Longrightarrow> \<exists>a b c d ys. xs = a # b # c # d # ys"
  by (cases "((0::int), xs)" rule: word_bytes.cases) auto

text \<open>Four bytes as one number.\<close>

lemma bits_val_byte: "bits_val (byte_bits b) = uint b"
proof (rule bit_eqI)
  fix i
  show "bit (bits_val (byte_bits b)) i = bit (uint b) i"
    using bit_imp_le_length [of b i]
    by (cases "i < 8") (auto simp: bit_bits_val byte_bits_def rev_map bit_simps)
qed

lemma bits_val_4:
  "bits_val (byte_bits a @ byte_bits b @ byte_bits c @ byte_bits d)
     = shl (uint a) 24 OR shl (uint b) 16 OR shl (uint c) 8 OR uint d"
proof -
  have u: "0 \<le> uint x" "uint x < 256" for x :: u8
    using uint_bounded [of x] by simp_all
  have "shl (uint c) 8 OR uint d = uint c * 256 + uint d"
    using shl_or_add [of "uint d" 8 "uint c"] u by (simp add: shl_mult)
  moreover have "shl (uint b) 16 OR (uint c * 256 + uint d) = uint b * 65536 + (uint c * 256 + uint d)"
    using shl_or_add [of "uint c * 256 + uint d" 16 "uint b"] u [of c] u [of d] by (simp add: shl_mult)
  moreover have "shl (uint a) 24 OR (uint b * 65536 + (uint c * 256 + uint d))
      = uint a * 16777216 + (uint b * 65536 + (uint c * 256 + uint d))"
    using shl_or_add [of "uint b * 65536 + (uint c * 256 + uint d)" 24 "uint a"] u [of b] u [of c] u [of d]
    by (simp add: shl_mult)
  ultimately show ?thesis
    by (simp add: bits_val_append bits_val_byte or.assoc)
qed

lemma get4_words:
  assumes "drop (nat (ipos io)) (ifile io) = a # b # c # d # bs" "0 \<le> ipos io"
  shows "get4 io = (bits_val (concat (map byte_bits (word_bytes (byte_order io) [a, b, c, d]))),
        io\<lparr>ipos := ipos io + 4\<rparr>)"
    and "drop (nat (ipos io + 4)) (ifile io) = bs"
proof -
  have "drop (nat (ipos io + 4)) (ifile io) = drop 4 (drop (nat (ipos io)) (ifile io))"
    using assms(2) by (simp add: nat_add_distrib add.commute)
  then show "drop (nat (ipos io + 4)) (ifile io) = bs" using assms(1) by simp
  show "get4 io = (bits_val (concat (map byte_bits (word_bytes (byte_order io) [a, b, c, d]))),
        io\<lparr>ipos := ipos io + 4\<rparr>)"
    using assms by (simp add: get4_def fread_def sget4_def bits_val_4 [simplified] or.assoc or.commute or.left_commute)
qed

lemma ph1_pending_nth:
  "i < nat (ph1_vbits io) \<Longrightarrow> ph1_pending io ! i = bit (ph1_bitbuf io) (nat (ph1_vbits io) - 1 - i)"
  by (simp add: ph1_pending_def rev_nth)

lemma bit_refilled:
  "k < 64 \<Longrightarrow> bit (push_bit 32 w OR word_of_int x :: u64) k \<longleftrightarrow> (32 \<le> k \<and> bit w (k - 32)) \<or> bit x k"
  by (simp add: bit_or_iff bit_push_bit_iff bit_word_of_int_iff)

lemma ph1_pending_refill:
  assumes "0 \<le> ph1_vbits io" "ph1_vbits io \<le> 31" "length bs = 32"
    and io': "ph1_bitbuf io' = push_bit 32 (ph1_bitbuf io) OR word_of_int (bits_val bs)"
      "ph1_vbits io' = ph1_vbits io + 32"
  shows "ph1_pending io' = ph1_pending io @ bs"
proof (rule nth_equalityI)
  let ?v = "nat (ph1_vbits io)"
  have v: "nat (ph1_vbits io') = ?v + 32" "?v \<le> 31" using assms by (simp_all add: nat_add_distrib)
  then show "length (ph1_pending io') = length (ph1_pending io @ bs)" using assms(3) by simp
  fix i
  assume "i < length (ph1_pending io')"
  then have i: "i < ?v + 32" using v by simp
  have l: "ph1_pending io' ! i
    \<longleftrightarrow> (32 \<le> 31 + ?v - i \<and> bit (ph1_bitbuf io) (31 + ?v - i - 32)) \<or> bit (bits_val bs) (31 + ?v - i)"
    using ph1_pending_nth [of i io'] i v bit_refilled [of "31 + ?v - i" "ph1_bitbuf io" "bits_val bs"] io'(1)
    by simp
  show "ph1_pending io' ! i = (ph1_pending io @ bs) ! i"
  proof (cases "i < ?v")
    case True
    then have "32 \<le> 31 + ?v - i" "31 + ?v - i - 32 = ?v - 1 - i" by auto
    moreover have "\<not> bit (bits_val bs) (31 + ?v - i)"
      using True assms(3) unfolding bit_bits_val by linarith
    ultimately show ?thesis unfolding l using True ph1_pending_nth [of i io] by (simp add: nth_append)
  next
    case False
    then have "\<not> 32 \<le> 31 + ?v - i" by simp
    moreover have "bit (bits_val bs) (31 + ?v - i) = bs ! (i - ?v)"
    proof -
      have "31 + ?v - i < 32" "32 - Suc (31 + ?v - i) = i - ?v" using False i by auto
      then show ?thesis by (simp add: bit_bits_val rev_nth assms(3))
    qed
    ultimately show ?thesis unfolding l using False by (simp add: nth_append)
  qed
qed

lemma bit_ph1_window:
  assumes "1 \<le> V" "V \<le> 63" "1 \<le> N" "N \<le> 32" "N \<le> V"
  shows "bit (c_u32 (uint (drop_bit (64 - N) (push_bit (64 - V) (w :: u64))))) i
    \<longleftrightarrow> i < N \<and> bit w (i + V - N)"
proof -
  have e: "64 - N + i - (64 - V) = i + V - N" "64 - V \<le> 64 - N + i" using assms by auto
  show ?thesis
    using assms e by (auto simp: bit_simps dest: bit_imp_le_length)
qed

definition ph1_refill :: "int \<Rightarrow> bitio \<Rightarrow> bitio" where
  "ph1_refill n io =
     (if ph1_vbits io < n then
        (case get4 io of (w, io') \<Rightarrow>
           io'\<lparr>ph1_bitbuf := push_bit 32 (ph1_bitbuf io) OR word_of_int w, ph1_vbits := ph1_vbits io + 32\<rparr>)
      else io)"

lemma ph1_refill_avail:
  assumes "ph1_inv io" "1 \<le> n" "n \<le> 32" "n \<le> int (length (ph1_avail io))"
  shows "ph1_avail (ph1_refill n io) = ph1_avail io" "ph1_inv (ph1_refill n io)"
    "n \<le> ph1_vbits (ph1_refill n io)" "data_error (ph1_refill n io) = data_error io"
proof -
  have "ph1_avail (ph1_refill n io) = ph1_avail io \<and> ph1_inv (ph1_refill n io)
    \<and> n \<le> ph1_vbits (ph1_refill n io) \<and> data_error (ph1_refill n io) = data_error io"
  proof (cases "ph1_vbits io < n")
    case False
    then show ?thesis using assms by (simp add: ph1_refill_def)
  next
    case True
    let ?bs = "drop (nat (ipos io)) (ifile io)"
    have "\<not> length ?bs < 4"
      using True assms(1,2,4) word_bytes_none [of ?bs "byte_order io"] by (auto simp: ph1_avail_def ph1_inv_def split: if_splits)
    then obtain a b c d bs where f: "?bs = a # b # c # d # bs"
      using list_of_four [of ?bs] by auto
    have i: "0 \<le> ipos io" "0 \<le> ph1_vbits io" "ph1_vbits io \<le> 31" "n \<le> ph1_vbits io + 32"
      using assms(1,2,3) True by (auto simp: ph1_inv_def)
    let ?x = "concat (map byte_bits (word_bytes (byte_order io) [a, b, c, d]))"
    have l: "length ?x = 32" by simp
    have r: "ph1_refill n io = io\<lparr>ipos := ipos io + 4, ph1_bitbuf := push_bit 32 (ph1_bitbuf io) OR word_of_int (bits_val ?x),
        ph1_vbits := ph1_vbits io + 32\<rparr>"
      using True get4_words(1) [OF f i(1)] by (simp add: ph1_refill_def)
    have "ph1_pending (ph1_refill n io) = ph1_pending io @ ?x"
      by (rule ph1_pending_refill) (use i l in \<open>simp_all add: r\<close>)
    moreover have "word_bytes (byte_order io) ?bs = word_bytes (byte_order io) [a, b, c, d] @ word_bytes (byte_order io) bs"
      unfolding f by simp
    ultimately show ?thesis
      using get4_words(2) [OF f i(1)] i True unfolding ph1_avail_def r by (simp add: ph1_inv_def)
  qed
  then show "ph1_avail (ph1_refill n io) = ph1_avail io" "ph1_inv (ph1_refill n io)"
    "n \<le> ph1_vbits (ph1_refill n io)" "data_error (ph1_refill n io) = data_error io" by auto
qed

lemma ph1_bits_eq:
  assumes "1 \<le> n"
  shows "ph1_bits n io = (let io1 = ph1_refill n io in
     Some (c_u32 (uint (shr64 (shl64 (ph1_bitbuf io1) (64 - ph1_vbits io1)) (64 - n))),
       io1\<lparr>ph1_vbits := ph1_vbits io1 - n\<rparr>))"
  using assms by (simp add: ph1_bits_def ph1_bithuff_def ph1_refill_def Let_def)

lemma ph1_consume:
  assumes "0 \<le> k" "k \<le> ph1_vbits io"
  shows "ph1_avail (io\<lparr>ph1_vbits := ph1_vbits io - k\<rparr>) = drop (nat k) (ph1_avail io)"
proof -
  have "ph1_pending (io\<lparr>ph1_vbits := ph1_vbits io - k\<rparr>) = drop (nat k) (ph1_pending io)"
    using assms by (simp add: ph1_pending_def drop_map drop_rev nat_diff_distrib)
  then show ?thesis using assms by (simp add: ph1_avail_def)
qed

lemma neg_mod_64: "1 \<le> k \<Longrightarrow> k \<le> 64 \<Longrightarrow> (64 - k) mod 64 = 64 - k" for k :: int
  by (rule mod_pos_pos_trivial) auto

lemma ph1_window:
  assumes "1 \<le> n" "n \<le> 32" "n \<le> ph1_vbits io" "ph1_vbits io \<le> 63"
  shows "c_u32 (uint (shr64 (shl64 (ph1_bitbuf io) (64 - ph1_vbits io)) (64 - n)))
    = bits_val (take (nat n) (ph1_avail io))"
proof (rule bit_eqI)
  fix i
  let ?v = "nat (ph1_vbits io)" and ?n = "nat n"
  have nn: "nat (64 - n) = 64 - ?n" "nat (64 - ph1_vbits io) = 64 - ?v"
    "1 \<le> ?v" "?v \<le> 63" "1 \<le> ?n" "?n \<le> 32" "?n \<le> ?v"
    using assms by (simp_all add: nat_diff_distrib nat_le_iff)
  have m: "(64 - n) mod 64 = 64 - n" "(64 - ph1_vbits io) mod 64 = 64 - ph1_vbits io"
    by (rule neg_mod_64; use assms in simp)+
  have t: "take ?n (ph1_avail io) = take ?n (ph1_pending io)"
    using nn by (simp add: ph1_avail_def)
  have l: "bit (c_u32 (uint (shr64 (shl64 (ph1_bitbuf io) (64 - ph1_vbits io)) (64 - n)))) i
    \<longleftrightarrow> i < ?n \<and> bit (ph1_bitbuf io) (i + ?v - ?n)"
    unfolding shr64_def shl64_def m nn by (rule bit_ph1_window) (use nn in auto)
  have r: "bit (bits_val (take ?n (ph1_avail io))) i \<longleftrightarrow> i < ?n \<and> ph1_pending io ! (?n - Suc i)"
  proof (cases "i < ?n")
    case True
    then have "?n - Suc i < ?n" by simp
    then show ?thesis unfolding t using nn True by (simp add: bit_bits_val rev_nth)
  qed (simp add: t bit_bits_val)
  show "bit (c_u32 (uint (shr64 (shl64 (ph1_bitbuf io) (64 - ph1_vbits io)) (64 - n)))) i
    = bit (bits_val (take ?n (ph1_avail io))) i"
  proof (cases "i < ?n")
    case True
    moreover have "b - 1 - (n - Suc i) = i + b - n \<and> n - Suc i < b" if "i < n" "n \<le> b" for b n :: nat
      using that by auto
    ultimately have "?v - 1 - (?n - Suc i) = i + ?v - ?n" "?n - Suc i < ?v" using nn(7) by blast+
    then show ?thesis unfolding l r using ph1_pending_nth [of "?n - Suc i" io] by simp
  qed (simp add: l r)
qed

text \<open>The same contract for \<open>ph1_bits\<close>, up to 32 bits at a time.\<close>

lemma ph1_bits_avail:
  assumes "ph1_inv io" "1 \<le> n" "n \<le> 32" "n \<le> int (length (ph1_avail io))"
  shows "\<exists>io'. ph1_bits n io = Some (bits_val (take (nat n) (ph1_avail io)), io')
    \<and> ph1_avail io' = drop (nat n) (ph1_avail io) \<and> ph1_inv io'"
proof -
  note r = ph1_refill_avail [OF assms]
  let ?io = "ph1_refill n io"
  have v: "ph1_vbits ?io \<le> 63" "0 \<le> ipos ?io" using r(2) by (auto simp: ph1_inv_def)
  have "ph1_inv (?io\<lparr>ph1_vbits := ph1_vbits ?io - n\<rparr>)"
    using r(3) v assms(2) by (simp add: ph1_inv_def)
  moreover have "ph1_avail (?io\<lparr>ph1_vbits := ph1_vbits ?io - n\<rparr>) = drop (nat n) (ph1_avail ?io)"
    by (rule ph1_consume) (use r(3) assms(2) in auto)
  ultimately show ?thesis
    using ph1_window [OF assms(2,3) r(3) v(1)] r(1) by (simp add: ph1_bits_eq [OF assms(2)] Let_def)
qed

interpretation ph1: bit_stream ph1_bits ph1_avail ph1_inv 32
  by unfold_locales (rule ph1_bits_avail)

end
