(* ===== verification/RawImage.thy ===== *)
theory RawImage
  imports HuffCode
begin

text \<open>
  The globals of dcraw that describe an image and hold its samples, the \<open>RAW\<close> and \<open>FC\<close> macros
  and \<open>fcol\<close>, and the contract every loader of raw samples has to keep.
\<close>

section \<open>State\<close>

text \<open>
  What \<open>identify\<close> has found out about the file and the loaders only read: sizes and margins
  (\<open>ushort\<close> in the program), the flags of the TIFF and DNG tags, the offsets into the file.
\<close>

record geom =
  raw_height :: int
  raw_width :: int
  height :: int
  width :: int
  top_margin :: int
  left_margin :: int
  shrink :: int
  iheight :: int
  iwidth :: int
  fuji_width :: int
  fuji_layout :: int
  tiff_bps :: int
  tiff_samples :: int
  tiff_compress :: int
  tile_width :: int
  tile_length :: int
  is_raw :: int
  dng_version :: int
  load_flags :: int
  shot_select :: int
  kodak_cbpp :: int
  unique_id :: int
  data_offset :: int
  strip_offset :: int
  meta_offset :: int
  cr2_slice :: "u16 list"
  sraw_mul :: "u16 list"
  xtrans :: "int list list"
  xtrans_abs :: "int list list"
  cam_make :: string
  cam_model :: string
  cam_model2 :: string
  junk :: "nat \<Rightarrow> int"

text \<open>
  \<open>junk\<close> stands for what an uninitialised local array happens to hold; \<open>uninit\<close> is such an array.
\<close>

definition uninit :: "geom \<Rightarrow> int \<Rightarrow> 'a::len word list" where
  "uninit g n = map (\<lambda>i. word_of_int (junk g i)) [0..<nat n]"

lemma length_uninit [simp]: "length (uninit g n) = nat n"
  by (simp add: uninit_def)

text \<open>
  What the loaders change. \<open>img\<close> is the array \<open>(*image)[4]\<close> cell by cell: sample \<open>c\<close> of pixel
  \<open>i\<close> is cell \<open>4 * i + c\<close>. A null pointer is the empty list.
\<close>

record dst =
  dio :: bitio
  raw_image :: "u16 list"
  img :: "u16 list"
  curve :: "u16 list"
  cblack :: "u16 list"
  maximum :: int
  black :: int
  filters :: int
  colors :: int
  mix_green :: int
  raw_color :: int

definition with_io :: "(bitio \<Rightarrow> ('a \<times> bitio) option) \<Rightarrow> dst \<Rightarrow> ('a \<times> dst) option" where
  "with_io f s = do { (x, b) \<leftarrow> f (dio s); Some (x, s\<lparr>dio := b\<rparr>) }"

definition upd_io :: "(bitio \<Rightarrow> bitio) \<Rightarrow> dst \<Rightarrow> dst" where
  "upd_io f s = s\<lparr>dio := f (dio s)\<rparr>"

definition get_io :: "(bitio \<Rightarrow> 'a \<times> bitio) \<Rightarrow> dst \<Rightarrow> 'a \<times> dst" where
  "get_io f s = (case f (dio s) of (x, b) \<Rightarrow> (x, s\<lparr>dio := b\<rparr>))"

abbreviation derror_if :: "bool \<Rightarrow> dst \<Rightarrow> dst" where
  "derror_if b s \<equiv> if b then upd_io derror s else s"

section \<open>The macros RAW, FC and the function fcol\<close>

definition RAW :: "geom \<Rightarrow> dst \<Rightarrow> int \<Rightarrow> int \<Rightarrow> int option" where
  "RAW g s row col = rd (raw_image s) (row * raw_width g + col)"

definition set_RAW :: "geom \<Rightarrow> int \<Rightarrow> int \<Rightarrow> int \<Rightarrow> dst \<Rightarrow> dst option" where
  "set_RAW g row col v s = do {
     xs \<leftarrow> wr (raw_image s) (row * raw_width g + col) v;
     Some (s\<lparr>raw_image := xs\<rparr>) }"

text \<open>The function \<open>raw\<close>, which clips instead; its arguments are unsigned.\<close>

definition raw_clip :: "geom \<Rightarrow> dst \<Rightarrow> int \<Rightarrow> int \<Rightarrow> int option" where
  "raw_clip g s row col =
     (if c_u32 row < raw_height g \<and> c_u32 col < raw_width g then RAW g s (c_u32 row) (c_u32 col) else Some 0)"

definition IMG :: "dst \<Rightarrow> int \<Rightarrow> int \<Rightarrow> int option" where
  "IMG s i c = rd (img s) (4 * i + c)"

definition set_IMG :: "int \<Rightarrow> int \<Rightarrow> int \<Rightarrow> dst \<Rightarrow> dst option" where
  "set_IMG i c v s = do { xs \<leftarrow> wr (img s) (4 * i + c) v; Some (s\<lparr>img := xs\<rparr>) }"

definition FC :: "int \<Rightarrow> int \<Rightarrow> int \<Rightarrow> int" where
  "FC flt row col = shr flt (shl ((shl row 1 AND 14) + (col AND 1)) 1) AND 3"

lemma FC_bounds [simp]: "0 \<le> FC flt row col" "FC flt row col < 4"
  using AND_upper2 [of 3 "shr flt (shl ((shl row 1 AND 14) + (col AND 1)) 1)"] by (simp_all add: FC_def)

definition filter_16 :: "int list list" where
  "filter_16 =
   [[2,1,1,3,2,3,2,0,3,2,3,0,1,2,1,0],
    [0,3,0,2,0,1,3,1,0,1,1,2,0,3,3,2],
    [2,3,3,2,3,1,1,3,3,1,2,1,2,0,0,3],
    [0,1,0,1,0,2,0,2,2,0,3,0,1,3,2,1],
    [3,1,1,2,0,1,0,2,1,3,1,3,0,1,3,0],
    [2,0,0,3,3,2,3,1,2,0,2,0,3,2,2,1],
    [2,3,3,1,2,1,2,1,2,1,1,2,3,0,0,1],
    [1,0,0,2,3,0,0,3,0,3,0,3,2,1,2,3],
    [2,3,3,1,1,2,1,0,3,2,3,0,2,3,1,3],
    [1,0,2,0,3,0,3,2,0,1,1,2,0,1,0,2],
    [0,1,1,3,3,2,2,1,1,3,3,0,2,1,3,2],
    [2,3,2,0,0,1,3,0,2,0,1,2,3,0,1,0],
    [1,3,1,2,3,2,3,2,0,2,0,1,1,0,3,0],
    [0,2,0,3,1,0,0,1,1,3,3,2,3,2,2,1],
    [2,1,3,2,3,1,2,1,0,3,0,2,0,2,0,2],
    [0,3,1,0,0,2,0,3,2,1,3,1,1,3,1,3]]"

definition fcol :: "geom \<Rightarrow> int \<Rightarrow> int \<Rightarrow> int \<Rightarrow> int option" where
  "fcol g flt row col =
     (if flt = 1 then do {
        r \<leftarrow> at filter_16 ((row + top_margin g) AND 15);
        at r ((col + left_margin g) AND 15) }
      else if flt = 9 then do {
        r \<leftarrow> at (xtrans g) ((row + 6) smod 6);
        at r ((col + 6) smod 6) }
      else Some (FC flt row col))"

definition BAYER_index :: "geom \<Rightarrow> int \<Rightarrow> int \<Rightarrow> int" where
  "BAYER_index g row col = shr row (shrink g) * iwidth g + shr col (shrink g)"

definition BAYER :: "geom \<Rightarrow> dst \<Rightarrow> int \<Rightarrow> int \<Rightarrow> int option" where
  "BAYER g s row col = IMG s (BAYER_index g row col) (FC (filters s) row col)"

definition set_BAYER :: "geom \<Rightarrow> int \<Rightarrow> int \<Rightarrow> int \<Rightarrow> dst \<Rightarrow> dst option" where
  "set_BAYER g row col v s = set_IMG (BAYER_index g row col) (FC (filters s) row col) v s"

definition BAYER2 :: "geom \<Rightarrow> dst \<Rightarrow> int \<Rightarrow> int \<Rightarrow> int option" where
  "BAYER2 g s row col = do { c \<leftarrow> fcol g (filters s) row col; IMG s (BAYER_index g row col) c }"

definition set_BAYER2 :: "geom \<Rightarrow> int \<Rightarrow> int \<Rightarrow> int \<Rightarrow> dst \<Rightarrow> dst option" where
  "set_BAYER2 g row col v s = do {
     c \<leftarrow> fcol g (filters s) row col; set_IMG (BAYER_index g row col) c v s }"

section \<open>Well-formed states\<close>

text \<open>
  The ranges of the \<open>ushort\<close> sizes, with products that fit an \<open>int\<close>; the arrays as \<open>main\<close>
  allocates them: seven spare rows for \<open>raw_image\<close>, \<open>iheight\<close> by \<open>iwidth\<close> pixels for \<open>image\<close>.
\<close>

definition geom_ok :: "geom \<Rightarrow> bool" where
  "geom_ok g \<longleftrightarrow>
     0 < raw_height g \<and> raw_height g < 65536 \<and> 0 < raw_width g \<and> raw_width g < 65536
   \<and> 0 < height g \<and> height g + top_margin g \<le> raw_height g
   \<and> 0 < width g \<and> width g + left_margin g \<le> raw_width g
   \<and> 0 \<le> top_margin g \<and> 0 \<le> left_margin g
   \<and> (raw_height g + 7) * raw_width g < 2 ^ 30"

definition raw_ok :: "geom \<Rightarrow> dst \<Rightarrow> bool" where
  "raw_ok g s \<longleftrightarrow> int (length (raw_image s)) = (raw_height g + 7) * raw_width g
     \<and> length (curve s) = 65536 \<and> length (cblack s) = 4102"

definition img_ok :: "geom \<Rightarrow> dst \<Rightarrow> bool" where
  "img_ok g s \<longleftrightarrow> int (length (img s)) = 4 * (height g * width g)
     \<and> length (curve s) = 65536 \<and> length (cblack s) = 4102"

lemma cell_bound:
  fixes row col n w :: int
  assumes "0 \<le> row" "row < n" "0 \<le> col" "col < w"
  shows "0 \<le> row * w + col \<and> row * w + col < n * w"
proof -
  have "row * w + col < row * w + w" using assms by simp
  also have "\<dots> = (row + 1) * w" by (simp add: algebra_simps)
  also have "\<dots> \<le> n * w" using assms by (intro mult_right_mono) auto
  finally show ?thesis using assms by simp
qed

lemma ok_RAW [wp, safe]:
  assumes "raw_ok g s" "0 \<le> row" "row < raw_height g + 7" "0 \<le> col" "col < raw_width g"
    and "\<And>v. 0 \<le> v \<Longrightarrow> v < 65536 \<Longrightarrow> Q v"
  shows "ok (RAW g s row col) Q"
  using assms cell_bound [OF assms(2-5)]
  by (auto simp: RAW_def raw_ok_def inb_def intro!: wp)

lemma ok_set_RAW [wp, safe]:
  assumes "raw_ok g s" "0 \<le> row" "row < raw_height g + 7" "0 \<le> col" "col < raw_width g"
    and "\<And>xs. length xs = length (raw_image s) \<Longrightarrow> raw_ok g (s\<lparr>raw_image := xs\<rparr>) \<Longrightarrow> Q (s\<lparr>raw_image := xs\<rparr>)"
  shows "ok (set_RAW g row col v s) Q"
  using assms cell_bound [OF assms(2-5)]
  by (auto simp: set_RAW_def raw_ok_def inb_def intro!: wp)

lemma raw_ok_io [simp]:
  "raw_ok g (s\<lparr>dio := b\<rparr>) = raw_ok g s" "raw_ok g (s\<lparr>maximum := m\<rparr>) = raw_ok g s"
  "raw_ok g (s\<lparr>black := m\<rparr>) = raw_ok g s" "raw_ok g (s\<lparr>filters := m\<rparr>) = raw_ok g s"
  "raw_ok g (upd_io f s) = raw_ok g s" "raw_ok g (s\<lparr>img := xs\<rparr>) = raw_ok g s"
  by (simp_all add: raw_ok_def upd_io_def)

lemma ok_with_io [wp, safe]:
  "ok (f (dio s)) (\<lambda>(x, b). Q (x, s\<lparr>dio := b\<rparr>)) \<Longrightarrow> ok (with_io f s) Q"
  unfolding with_io_def by (rule wp, erule ok_mono) auto

lemma ok_get_io [wp, safe]:
  "(\<And>x b. f (dio s) = (x, b) \<Longrightarrow> ok (k x (s\<lparr>dio := b\<rparr>)) Q) \<Longrightarrow> ok (case get_io f s of (x, t) \<Rightarrow> k x t) Q"
  by (auto simp: get_io_def split: prod.split)

section \<open>The state a loader starts from\<close>

text \<open>What \<open>identify\<close> resets before it looks at a file, with the file open at its start.\<close>

definition identify_reset :: "u8 list \<Rightarrow> dst" where
  "identify_reset bs = \<lparr>dio = open_file bs, raw_image = [], img = [],
     curve = map word_of_nat [0..<65536], cblack = zeros 4102, maximum = 0, black = 0, filters = 0xffffffff,
     colors = 3, mix_green = 0, raw_color = 1\<rparr>"

text \<open>The arrays \<open>main\<close> allocates: \<open>raw_image\<close> for a mosaic or a grey image, else \<open>image\<close>.\<close>

definition main_alloc :: "geom \<Rightarrow> dst \<Rightarrow> dst" where
  "main_alloc g s =
     (if filters s \<noteq> 0 \<or> colors s = 1 then s\<lparr>raw_image := zeros ((raw_height g + 7) * raw_width g)\<rparr>
      else s\<lparr>img := zeros (4 * (iheight g * iwidth g))\<rparr>)"

text \<open>A mosaic of \<open>h\<close> rows and \<open>w\<close> columns without margins, and a file that holds one.\<close>

definition plain_geom :: "int \<Rightarrow> int \<Rightarrow> geom" where
  "plain_geom h w = \<lparr>raw_height = h, raw_width = w, height = h, width = w, top_margin = 0, left_margin = 0,
     shrink = 0, iheight = h, iwidth = w, fuji_width = 0, fuji_layout = 0, tiff_bps = 12, tiff_samples = 1,
     tiff_compress = 0, tile_width = w, tile_length = h, is_raw = 1, dng_version = 0, load_flags = 0,
     shot_select = 0, kodak_cbpp = 0, unique_id = 0, data_offset = 0, strip_offset = 0, meta_offset = 0,
     cr2_slice = [0, 0, 0], sraw_mul = [0, 0, 0, 0], xtrans = replicate 6 (replicate 6 0),
     xtrans_abs = replicate 6 (replicate 6 0), cam_make = [], cam_model = [], cam_model2 = [], junk = (\<lambda>_. 0)\<rparr>"

definition mosaic_file :: "geom \<Rightarrow> u8 list \<Rightarrow> dst" where
  "mosaic_file g bs = main_alloc g (identify_reset bs\<lparr>filters := 0x94949494\<rparr>)"

lemma plain_geom_ok:
  "0 < h \<Longrightarrow> 0 < w \<Longrightarrow> h < 65536 \<Longrightarrow> w < 65536 \<Longrightarrow> (h + 7) * w < 2 ^ 30 \<Longrightarrow> geom_ok (plain_geom h w)"
  by (simp add: geom_ok_def plain_geom_def)

lemma mosaic_file_ok: "geom_ok g \<Longrightarrow> raw_ok g (mosaic_file g bs)"
  by (simp add: raw_ok_def geom_ok_def mosaic_file_def main_alloc_def identify_reset_def)

section \<open>What a loader keeps\<close>

text \<open>
  \<open>raw_kept g im\<close> is the invariant of the loaders of raw samples: the arrays keep their sizes and
  \<open>image\<close> stays as it is. The rules of \<open>kept\<close> reduce the safety of a loader to bounds on its
  indices, one for every kind of statement.
\<close>

named_theorems kept \<open>rules for proofs that a statement keeps the sizes of the arrays\<close>

definition raw_kept :: "geom \<Rightarrow> u16 list \<Rightarrow> dst \<Rightarrow> bool" where
  "raw_kept g im t \<longleftrightarrow> raw_ok g t \<and> img t = im"

lemma raw_kept_upd [simp]:
  "raw_kept g im (s\<lparr>dio := b\<rparr>) = raw_kept g im s" "raw_kept g im (s\<lparr>maximum := m\<rparr>) = raw_kept g im s"
  "raw_kept g im (s\<lparr>black := m\<rparr>) = raw_kept g im s" "raw_kept g im (s\<lparr>filters := m\<rparr>) = raw_kept g im s"
  "raw_kept g im (upd_io f s) = raw_kept g im s"
  by (simp_all add: raw_kept_def upd_io_def raw_ok_def)

lemma raw_kept_if [simp]: "raw_kept g im (derror_if e s) = raw_kept g im s"
  by simp

lemma kept_image [kept]:
  assumes "raw_kept g im s" and "length xs = length (raw_image s)"
  shows "raw_kept g im (s\<lparr>raw_image := xs\<rparr>)"
  using assms by (simp add: raw_kept_def raw_ok_def)

lemma kept_pair [kept]: "ok (f a b) Q \<Longrightarrow> ok (case (a, b) of (x, y) \<Rightarrow> f x y) Q"
  by simp

lemma kept_pair_app [kept]: "ok (f a b c) Q \<Longrightarrow> ok ((case (a, b) of (x, y) \<Rightarrow> f x y) c) Q"
  by simp

lemma kept_get_io [kept]:
  "(\<And>x b. ok (k x (s\<lparr>dio := b\<rparr>)) Q) \<Longrightarrow> ok (case get_io f s of (x, t) \<Rightarrow> k x t) Q"
  by (auto simp: get_io_def split: prod.split)

lemma kept_Let [kept]: "ok (f x) Q \<Longrightarrow> ok (Let x f) Q"
  by simp

lemma kept_set_RAW [kept]:
  assumes "raw_kept g im s" "0 \<le> row" "row < raw_height g + 7" "0 \<le> col" "col < raw_width g"
    and "\<And>t. raw_kept g im t \<Longrightarrow> Q t"
  shows "ok (set_RAW g row col v s) Q"
  using assms by (auto simp: raw_kept_def intro!: ok_set_RAW)

lemma kept_RAW [kept]:
  assumes "raw_kept g im s" "0 \<le> row" "row < raw_height g + 7" "0 \<le> col" "col < raw_width g"
    and "\<And>x. 0 \<le> x \<Longrightarrow> x < 65536 \<Longrightarrow> Q x"
  shows "ok (RAW g s row col) Q"
  using assms by (auto simp: raw_kept_def intro!: ok_RAW)

lemma kept_wr_raw [kept]:
  assumes "raw_kept g im s" "0 \<le> i" "i < (raw_height g + 7) * raw_width g"
    and "\<And>xs. raw_kept g im (s\<lparr>raw_image := xs\<rparr>) \<Longrightarrow> Q xs"
  shows "ok (wr (raw_image s) i v) Q"
  using assms by (auto simp: raw_kept_def raw_ok_def inb_def intro!: ok_wr_safe)

lemma kept_rd_raw [kept]:
  assumes "raw_kept g im s" "0 \<le> i" "i < (raw_height g + 7) * raw_width g"
    and "\<And>x. 0 \<le> x \<Longrightarrow> x < 65536 \<Longrightarrow> Q x"
  shows "ok (rd (raw_image s) i) Q"
  using assms by (auto simp: raw_kept_def raw_ok_def inb_def intro!: ok_rd_safe)

lemma kept_curve [kept]:
  assumes "raw_kept g im s" "0 \<le> v" "v < 65536" and "\<And>x. 0 \<le> x \<Longrightarrow> x < 65536 \<Longrightarrow> Q x"
  shows "ok (rd (curve s) v) Q"
  using assms by (auto simp: raw_kept_def raw_ok_def inb_def intro!: ok_rd_safe)

lemma kept_for [kept]:
  assumes "0 < k" "raw_kept g im s"
    and "\<And>j t. i \<le> j \<Longrightarrow> j < n \<Longrightarrow> raw_kept g im t \<Longrightarrow> ok (f j t) (raw_kept g im)"
    and "\<And>t. raw_kept g im t \<Longrightarrow> Q t"
  shows "ok (for_by k i n f s) Q"
  using assms by (intro for_by_wp [where I = "raw_kept g im"]) auto

lemma kept_fread [kept]:
  "(\<And>bs b. length bs \<le> nat n \<Longrightarrow> Q (bs, s\<lparr>dio := b\<rparr>)) \<Longrightarrow> ok (with_io (\<lambda>b. Some (fread n b)) s) Q"
  by (auto simp: with_io_def fread_def Let_def)

lemmas [kept] = ok_with_io case_prodI

text \<open>Loops that carry local variables beside the state.\<close>

lemma kept_for2:
  assumes "0 < k" "J x" "raw_kept g im s"
    and "\<And>j y t. i \<le> j \<Longrightarrow> j < n \<Longrightarrow> J y \<Longrightarrow> raw_kept g im t \<Longrightarrow> ok (f j (y, t)) (\<lambda>(y, t). J y \<and> raw_kept g im t)"
    and "\<And>y t. J y \<Longrightarrow> raw_kept g im t \<Longrightarrow> Q (y, t)"
  shows "ok (for_by k i n f (x, s)) Q"
  using assms by (intro for_by_wp [where I = "\<lambda>(y, t). J y \<and> raw_kept g im t"]) auto

lemma kept_for3:
  assumes "0 < k" "J x y" "raw_kept g im s"
    and "\<And>j y z t. i \<le> j \<Longrightarrow> j < n \<Longrightarrow> J y z \<Longrightarrow> raw_kept g im t
      \<Longrightarrow> ok (f j (y, z, t)) (\<lambda>(y, z, t). J y z \<and> raw_kept g im t)"
    and "\<And>y z t. J y z \<Longrightarrow> raw_kept g im t \<Longrightarrow> Q (y, z, t)"
  shows "ok (for_by k i n f (x, y, s)) Q"
  using assms by (intro for_by_wp [where I = "\<lambda>(y, z, t). J y z \<and> raw_kept g im t"]) auto

text \<open>Reading shorts into a buffer.\<close>

lemma length_cells_of [simp]: "length (cells_of big bs) = length bs div 2"
  by (induction big bs rule: cells_of.induct) auto

lemma length_swab [simp]: "length (swab bs) = length bs"
  by (induction bs rule: swab.induct) auto

lemma length_cell_bytes: "length (cell_bytes big w) = 2"
  by (simp add: cell_bytes_def Let_def)

lemma length_concat_cells: "length (concat (map (cell_bytes big) ws)) = 2 * length ws"
  by (induction ws) (simp_all add: length_cell_bytes)

lemma read_shorts_ok [safe]:
  assumes "0 \<le> i" "0 \<le> n" "i + n \<le> int (length xs)"
    and "\<And>ys b'. length ys = length xs \<Longrightarrow> Q (ys, b')"
  shows "ok (read_shorts xs i n b) Q"
proof -
  obtain bs b1 where f: "fread (2 * n) b = (bs, b1)" by fastforce
  have le: "length bs \<le> 2 * nat n" using fread_moves(1) [OF f] by (simp add: nat_mult_distrib)
  have m: "min (length xs - nat i) (nat n) = nat n" using assms(1-3) by simp
  define ys where "ys mem = take (nat i) xs @ cells_of (big_host b) mem @ drop (nat (i + n)) xs" for mem
  have "length (ys mem) = length xs" if "length mem = 2 * nat n" for mem
    using that assms(1-3) by (simp add: ys_def nat_add_distrib)
  then have "Q (ys mem, b')" if "length mem = 2 * nat n" for mem b' using assms(4) that by blast
  moreover have "\<not> (i < 0 \<or> n < 0 \<or> int (length xs) < i + n)" using assms(1-3) by simp
  ultimately show ?thesis using le m
    by (simp add: read_shorts_def f Let_def length_concat_cells ys_def split: if_split)
qed

section \<open>The contract of a loader of raw samples\<close>

text \<open>
  \<open>load_raw\<close> is a function pointer of the program; whatever it points to is called on the arrays
  that \<open>main\<close> has allocated, and \<open>main\<close> goes on with them. \<open>pre\<close> is what a loader needs of the
  geometry and the state beyond that.
\<close>

locale loader =
  fixes load :: "geom \<Rightarrow> dst \<Rightarrow> dst option" and pre :: "geom \<Rightarrow> dst \<Rightarrow> bool"
  assumes load_keeps: "geom_ok g \<Longrightarrow> raw_kept g im s \<Longrightarrow> pre g s \<Longrightarrow> ok (load g s) (raw_kept g im)"
begin

lemma load_total:
  assumes "geom_ok g" "raw_ok g s" "pre g s"
  shows "\<exists>t. load g s = Some t \<and> raw_ok g t \<and> img t = img s"
  using load_keeps [of g "img s" s] assms by (auto simp: ok_exists raw_kept_def)

text \<open>What runs after a loader may rely on the same arrays.\<close>

lemma load_then:
  assumes "geom_ok g" "raw_ok g s" "pre g s"
    and "\<And>t. raw_ok g t \<Longrightarrow> img t = img s \<Longrightarrow> ok (k t) Q"
  shows "ok (load g s \<bind> k) Q"
  using load_total [OF assms(1-3)] assms(4) by auto

end

section \<open>Shorts of a file\<close>

lemma cell_of_sget2:
  "cell_of False a b = word_of_int (sget2 0x4949 (uint a) (uint b))"
  "cell_of True a b = word_of_int (sget2 0x4d4d (uint a) (uint b))"
  by (rule bit_word_eqI, auto simp: cell_of_def sget2_def shl_def bit_simps)+

lemma sget2_swap: "sget2 0x4949 b a = sget2 0x4d4d a b"
  by (simp add: sget2_def or.commute)

lemma cells_of_file:
  "length bs = 2 * n \<Longrightarrow> cells_of big (if little = big then swab bs else bs)
    = map (\<lambda>k. word_of_int (sget2 (if little then 0x4949 else 0x4d4d) (uint (bs ! (2 * k))) (uint (bs ! (2 * k + 1))))) [0..<n]"
proof (induction n arbitrary: bs)
  case (Suc n)
  then obtain a b cs where bs: "bs = a # b # cs" "length cs = 2 * n" by (auto simp: length_Suc_conv numeral_2_eq_2)
  have "cells_of big (if little = big then swab bs else bs)
    = cell_of big (if little = big then b else a) (if little = big then a else b) # cells_of big (if little = big then swab cs else cs)"
    by (simp add: bs)
  also note Suc.IH [OF bs(2)]
  finally show ?case
    by (simp add: bs upt_conv_Cons map_Suc_upt [symmetric] cell_of_sget2 sget2_swap del: upt_Suc)
qed simp

text \<open>
  C22: \<open>read_shorts\<close> stores the 16-bit values that the byte order of the file gives, whatever the byte
  order of the host: on a host of the other order the cells are read as they lie in the file and
  swapped. The cells outside the range stay, the file moves on by two bytes a cell.
\<close>

theorem read_shorts_cells:
  assumes "0 \<le> i" "0 \<le> n" "i + n \<le> int (length xs)" "0 \<le> ipos b" "ipos b + 2 * n \<le> int (length (ifile b))"
    and "byte_order b = 0x4949 \<or> byte_order b = 0x4d4d"
  shows "read_shorts xs i n b = Some (take (nat i) xs
      @ map (\<lambda>k. word_of_int (sget2 (byte_order b) (uint (ifile b ! (nat (ipos b) + 2 * k))) (uint (ifile b ! (nat (ipos b) + 2 * k + 1))))) [0..<nat n]
      @ drop (nat (i + n)) xs, b\<lparr>ipos := ipos b + 2 * n\<rparr>)"
proof -
  define bs where "bs = take (nat (2 * n)) (drop (nat (ipos b)) (ifile b))"
  have l: "length bs = 2 * nat n" "nat (2 * n) = 2 * nat n" using assms(2,4,5) by (auto simp: bs_def nat_mult_distrib)
  have f: "fread (2 * n) b = (bs, b\<lparr>ipos := ipos b + 2 * n\<rparr>)"
    unfolding fread_def Let_def bs_def [symmetric] using l assms(2) by simp
  have o: "length (concat (map (cell_bytes (big_host b)) (take (nat n) (drop (nat i) xs)))) = 2 * nat n"
    using assms(1-3) by (simp add: length_concat_cells)
  have e: "cells_of (big_host b) (if (byte_order b = 0x4949) = big_host b then swab bs else bs)
    = map (\<lambda>k. word_of_int (sget2 (byte_order b) (uint (ifile b ! (nat (ipos b) + 2 * k))) (uint (ifile b ! (nat (ipos b) + 2 * k + 1))))) [0..<nat n]"
    unfolding cells_of_file [OF l(1)]
  proof (rule map_cong [OF refl])
    fix k assume "k \<in> set [0..<nat n]"
    then have "bs ! (2 * k) = ifile b ! (nat (ipos b) + 2 * k)" "bs ! (2 * k + 1) = ifile b ! (nat (ipos b) + 2 * k + 1)"
      using l assms(4,5) by (auto simp: bs_def)
    then show "word_of_int (sget2 (if byte_order b = 0x4949 then 0x4949 else 0x4d4d) (uint (bs ! (2 * k))) (uint (bs ! (2 * k + 1))))
      = (word_of_int (sget2 (byte_order b) (uint (ifile b ! (nat (ipos b) + 2 * k))) (uint (ifile b ! (nat (ipos b) + 2 * k + 1)))) :: u16)"
      using assms(6) by auto
  qed
  show ?thesis using assms(1-3) l o e
    by (cases "(byte_order b = 0x4949) = big_host b") (simp_all add: read_shorts_def f Let_def)
qed

theorem read_shorts_cells_witness:
  "\<forall>big. read_shorts [7, 7, 7, 7] 1 2 (open_file [0x12, 0x34, 0x56, 0x78]\<lparr>byte_order := 0x4d4d, big_host := big\<rparr>)
    = Some ([7, 0x1234, 0x5678, 7], open_file [0x12, 0x34, 0x56, 0x78]\<lparr>byte_order := 0x4d4d, big_host := big, ipos := 4\<rparr>)"
proof
  fix big
  have "map (\<lambda>k. word_of_int (sget2 0x4d4d (uint ([0x12, 0x34, 0x56, 0x78 :: u8] ! (2 * k))) (uint ([0x12, 0x34, 0x56, 0x78 :: u8] ! (2 * k + 1))))) [0..<2]
    = [0x1234, 0x5678 :: u16]" by (simp add: upt_conv_Cons sget2_def shl_mult)
  then show "read_shorts [7, 7, 7, 7] 1 2 (open_file [0x12, 0x34, 0x56, 0x78]\<lparr>byte_order := 0x4d4d, big_host := big\<rparr>)
    = Some ([7, 0x1234, 0x5678, 7], open_file [0x12, 0x34, 0x56, 0x78]\<lparr>byte_order := 0x4d4d, big_host := big, ipos := 4\<rparr>)"
    using read_shorts_cells [of 1 2 "[7, 7, 7, 7]" "open_file [0x12, 0x34, 0x56, 0x78]\<lparr>byte_order := 0x4d4d, big_host := big\<rparr>"]
    by (simp add: open_file_def)
qed

end
