(* ===== verification/Ljpeg.thy ===== *)
theory Ljpeg
  imports RawImage HuffCode
begin

text \<open>
  Lossless JPEG as dcraw decodes it: the header parser \<open>ljpeg_start\<close>, the difference decoder
  \<open>ljpeg_diff\<close>, the row decoder \<open>ljpeg_row\<close> and the loaders built on them. The contract that the
  bit readers offer the difference decoders is the locale \<open>bit_source\<close>.
\<close>

section \<open>Signed differences\<close>

text \<open>
  The idiom \<open>if ((diff & (1 << (len-1))) == 0) diff -= (1 << len) - 1;\<close> that turns the
  \<open>len\<close> bits of a JPEG difference into its value.
\<close>

definition sign_diff :: "int \<Rightarrow> int \<Rightarrow> int" where
  "sign_diff diff len = (if diff AND shl_i 1 (len - 1) = 0 then c_s32 (diff - (shl_i 1 len - 1)) else diff)"

text \<open>\<open>dngv\<close> is the global \<open>dng_version\<close>.\<close>

definition ljpeg_diff :: "int \<Rightarrow> u16 list \<Rightarrow> bitio \<Rightarrow> (int \<times> bitio) option" where
  "ljpeg_diff dngv huff io = do {
     (len, io) \<leftarrow> gethuff huff io;
     if len = 16 \<and> (dngv = 0 \<or> dngv \<ge> 0x1010000) then Some (-32768, io)
     else do {
       (diff, io) \<leftarrow> getbits len io;
       Some (sign_diff diff len, io) } }"

text \<open>How an encoder writes a difference: the number of bits of its magnitude, then these bits.\<close>

fun bit_len :: "nat \<Rightarrow> nat" where
  "bit_len n = (if n = 0 then 0 else Suc (bit_len (n div 2)))"

declare bit_len.simps [simp del]

definition diff_len :: "int \<Rightarrow> nat" where
  "diff_len v = bit_len (nat \<bar>v\<bar>)"

definition diff_code :: "int \<Rightarrow> nat" where
  "diff_code v = nat (if v < 0 then v + 2 ^ diff_len v - 1 else v)"

lemma bit_len_bounds: "n < 2 ^ bit_len n \<and> (0 < n \<longrightarrow> 2 ^ (bit_len n - 1) \<le> n)"
proof (induction n rule: bit_len.induct)
  case (1 n)
  show ?case
  proof (cases "n = 0")
    case False
    with 1 have ih: "n div 2 < 2 ^ bit_len (n div 2)" "0 < n div 2 \<longrightarrow> 2 ^ (bit_len (n div 2) - 1) \<le> n div 2"
      by auto
    have e: "bit_len n = Suc (bit_len (n div 2))" using False by (subst bit_len.simps) simp
    have "n < 2 ^ bit_len n" using ih(1) unfolding e by simp
    moreover have "2 ^ (bit_len n - 1) \<le> n"
    proof (cases "n div 2 = 0")
      case True
      then show ?thesis using False by (simp add: e bit_len.simps [of 0])
    next
      case False
      then have "bit_len (n div 2) = Suc (bit_len (n div 2) - 1)"
        by (subst (1 2) bit_len.simps) simp
      then have "(2::nat) ^ bit_len (n div 2) = 2 * 2 ^ (bit_len (n div 2) - 1)" by (metis power_Suc)
      then show ?thesis using ih(2) False by (simp add: e)
    qed
    ultimately show ?thesis by simp
  qed (simp add: bit_len.simps [of 0])
qed

lemma shl_i_1: "0 \<le> n \<Longrightarrow> n < 31 \<Longrightarrow> shl_i 1 n = 2 ^ nat n"
proof -
  assume a: "0 \<le> n" "n < 31"
  then have "(2::int) ^ nat n < 2 ^ 31" by (intro power_strict_increasing) auto
  moreover have "- (2 ^ 31) \<le> (2::int) ^ nat n" by (rule order_trans [of _ 0]) simp_all
  ultimately have "c_s32 (2 ^ nat n) = 2 ^ nat n" by (intro signed_take_bit_int_eq_self) simp_all
  then show ?thesis using a by (simp add: shl_i_def shl_mult)
qed

lemma sign_diff_val:
  assumes "0 \<le> d" "d < 2 ^ n" "n \<le> 16"
  shows "sign_diff d (int n) = (if n = 0 \<or> 2 ^ (n - 1) \<le> d then d else d - 2 ^ n + 1)"
proof (cases "n = 0")
  case True
  then have "d = 0" using assms(1,2) by simp
  then show ?thesis using True by (simp add: sign_diff_def shl_i_def shl_mult)
next
  case False
  then have n: "(2::int) ^ n = 2 * 2 ^ (n - 1)" by (metis power_eq_if)
  have p: "(2::int) ^ n \<le> 2 ^ 16" using assms(3) by (intro power_increasing) auto
  have s: "shl_i 1 (int n - 1) = 2 ^ (n - 1)" "shl_i 1 (int n) = 2 ^ n"
    using False assms(3) shl_i_1 [of "int n - 1"] shl_i_1 [of "int n"] by (simp_all add: nat_diff_distrib)
  have "d AND 2 ^ (n - 1) = 0 \<longleftrightarrow> \<not> bit d (n - 1)"
    by (metis and_exp_eq_0_iff_not_bit)
  also have "\<dots> \<longleftrightarrow> d < 2 ^ (n - 1)"
  proof -
    have "d div 2 ^ (n - 1) = 1" if "2 ^ (n - 1) \<le> d"
      using assms(2) n that by (intro int_div_pos_eq [where r = "d - 2 ^ (n - 1)"]) auto
    moreover have "d div 2 ^ (n - 1) = 0" if "d < 2 ^ (n - 1)"
      using assms(1) that by (simp add: zdiv_eq_0_iff)
    ultimately show ?thesis
      by (cases "d < 2 ^ (n - 1)") (simp_all add: bit_iff_odd)
  qed
  finally have "d AND 2 ^ (n - 1) = 0 \<longleftrightarrow> d < 2 ^ (n - 1)" .
  moreover have "c_s32 (d - (2 ^ n - 1)) = d - 2 ^ n + 1"
    using assms(1,2) p by (subst signed_take_bit_int_eq_self) auto
  ultimately show ?thesis using False by (simp add: sign_diff_def s)
qed

lemma diff_code_bounds: "diff_code v < 2 ^ diff_len v"
  using bit_len_bounds [of "nat \<bar>v\<bar>"]
  by (auto simp: diff_code_def diff_len_def nat_less_iff)

lemma sign_diff_code:
  assumes "diff_len v \<le> 16"
  shows "sign_diff (int (diff_code v)) (int (diff_len v)) = v"
proof -
  have b: "\<bar>v\<bar> < 2 ^ diff_len v" "v \<noteq> 0 \<Longrightarrow> 2 ^ (diff_len v - 1) \<le> \<bar>v\<bar>"
    using bit_len_bounds [of "nat \<bar>v\<bar>"] by (auto simp: diff_len_def nat_less_iff le_nat_iff)
  have c: "int (diff_code v) = (if v < 0 then v + 2 ^ diff_len v - 1 else v)"
    using b(1) by (auto simp: diff_code_def)
  have z: "diff_len v = 0 \<longleftrightarrow> v = 0"
    by (auto simp: diff_len_def bit_len.simps)
  have p: "v \<noteq> 0 \<Longrightarrow> (2::int) ^ diff_len v = 2 * 2 ^ (diff_len v - 1)"
    using z by (metis power_eq_if)
  have "sign_diff (int (diff_code v)) (int (diff_len v)) =
      (if diff_len v = 0 \<or> 2 ^ (diff_len v - 1) \<le> int (diff_code v) then int (diff_code v)
       else int (diff_code v) - 2 ^ diff_len v + 1)"
    using diff_code_bounds [of v] assms by (intro sign_diff_val) (auto simp flip: of_nat_less_iff)
  then show ?thesis using b c z p by (cases "v = 0") (auto split: if_splits)
qed

text \<open>
  C5: Every difference that fits in 15 bits survives the round trip through the code of lossless
  JPEG: written as the code of its length followed by the bits of its magnitude, with the negative
  values one lower, it is what \<open>ljpeg_diff\<close> returns.
\<close>

lemma ljpeg_diff_roundtrip:
  assumes "src_ok src" "make_decoder src = Some h" "k < length (src_lens src)"
    and "src_leaf src k = int (diff_len v)" "diff_len v \<le> 15"
    and "bit_inv io" "avail io = src_code src k @ nat_bits (diff_len v) (diff_code v) @ rest"
  shows "\<exists>io'. ljpeg_diff dngv h io = Some (v, io') \<and> avail io' = rest \<and> bit_inv io'"
proof -
  obtain io1 where io1: "gethuff h io = Some (int (diff_len v), io1)"
    "avail io1 = nat_bits (diff_len v) (diff_code v) @ rest" "bit_inv io1"
    using decode_symbol [OF assms(1-3,6,7)] assms(4) by metis
  show ?thesis
  proof (cases "diff_len v = 0")
    case True
    then have "v = 0" by (auto simp: diff_len_def bit_len.simps split: if_splits)
    then show ?thesis using io1 True
      by (simp add: ljpeg_diff_def getbits_def getbithuff_def sign_diff_def shl_i_def shl_mult nat_bits_def)
  next
    case False
    then obtain t where "getbits (int (diff_len v)) io1 = Some (int (diff_code v), t)"
      "avail t = rest" "bit_inv t"
      using gb.read_field [of io1 "diff_len v" "diff_code v" rest] io1 assms(5) diff_code_bounds by auto
    then show ?thesis using io1(1) sign_diff_code [of v] assms(5) by (simp add: ljpeg_diff_def)
  qed
qed

theorem ljpeg_diff_roundtrip_witness:
  "\<exists>h io'. make_decoder [1, 1, 1, 0, 0, 0, 0, 0, 0, 0, 0, 0, 0, 0, 0, 0, 4, 3, 7] = Some h
    \<and> ljpeg_diff 0 h (open_file [0x92]) = Some (-5, io') \<and> avail io' = [False, True, False]"
proof -
  let ?src = "[1, 1, 1, 0, 0, 0, 0, 0, 0, 0, 0, 0, 0, 0, 0, 0, 4, 3, 7] :: u8 list"
  have ok: "src_ok ?src" by (simp add: src_ok_counts upt_conv_Cons)
  then obtain h where h: "make_decoder ?src = Some h" using make_decoder_total by blast
  have c: "1 < length (src_lens ?src)" "src_leaf ?src 1 = int (diff_len (-5))" "diff_len (-5) \<le> 15"
    "bit_inv (open_file [0x92])"
    "avail (open_file [0x92]) = src_code ?src 1 @ nat_bits (diff_len (-5)) (diff_code (-5)) @ [False, True, False]"
    by code_simp+
  from ljpeg_diff_roundtrip [OF ok h c, of 0] h show ?thesis by blast
qed

section \<open>The header\<close>

text \<open>
  \<open>struct jhead\<close>: a null \<open>huff\<close> pointer is \<open>None\<close>; \<open>jh_row\<close> is the buffer of two rows. The
  array \<open>free\<close>, which only records what \<open>ljpeg_end\<close> has to free, has no counterpart.
\<close>

record jhead =
  jh_algo :: int
  jh_bits :: int
  jh_high :: int
  jh_wide :: int
  jh_clrs :: int
  jh_sraw :: int
  jh_psv :: int
  jh_restart :: int
  jh_vpred :: "int list"
  jh_quant :: "u16 list"
  jh_idct :: "u16 list"
  jh_huff :: "u16 list option list"
  jh_row :: "u16 list"

definition jhead_init :: jhead where
  "jhead_init = \<lparr>jh_algo = 0, jh_bits = 0, jh_high = 0, jh_wide = 0, jh_clrs = 0, jh_sraw = 0,
     jh_psv = 0, jh_restart = 0x7fffffff, jh_vpred = zeros 6, jh_quant = zeros 64,
     jh_idct = zeros 64, jh_huff = replicate 20 None, jh_row = []\<rparr>"

definition overlay :: "u8 list \<Rightarrow> u8 list \<Rightarrow> u8 list" where
  "overlay bs data = bs @ drop (length bs) data"

lemma make_decoder_ref_advances: "make_decoder_ref src p = Some (h, q) \<Longrightarrow> p + 16 \<le> q"
proof -
  have put: "q' = q + 1" if "put_code src mx len (h, q, hf) = Some (h', q', hf')" for h q hf h' q' hf' mx len
    using that by (auto simp: put_code_def split: bind_splits)
  assume "make_decoder_ref src p = Some (h, q)"
  then obtain mx hf st where st:
    "for_up 1 (mx + 1) (\<lambda>len st. do {
        count \<leftarrow> rd src (p + len - 1);
        for_up 0 count (\<lambda>i. put_code src mx len) st }) (1, p + 16, hf) = Some st"
    and q: "q = fst (snd st)"
    by (auto simp: make_decoder_ref_def split: bind_splits)
  have "p + 16 \<le> fst (snd st)"
    by (rule for_by_partial [OF st, where I = "\<lambda>st. p + 16 \<le> fst (snd st)"])
      (auto split: bind_splits dest!: put
        elim!: for_by_partial [where I = "\<lambda>st. p + 16 \<le> fst (snd st)"])
  then show ?thesis using q by simp
qed

text \<open>The segment DHT: one table after another, for a class and number without the bits of -20.\<close>

function ljpeg_dht :: "u8 list \<Rightarrow> int \<Rightarrow> int \<Rightarrow> u16 list option list \<Rightarrow> u16 list option list option" where
  "ljpeg_dht data len dp huffs =
     (if dp < len then do {
        c \<leftarrow> rd data dp;
        if c AND -20 \<noteq> 0 then Some huffs
        else (case make_decoder_ref data (dp + 1) of
            None \<Rightarrow> None
          | Some (h, q) \<Rightarrow> do {
              huffs' \<leftarrow> put huffs c (Some h);
              ljpeg_dht data len q huffs' }) }
      else Some huffs)"
  by pat_completeness auto
termination
  by (relation "measure (\<lambda>(data, len, dp, h). nat (len - dp))")
    (auto dest!: make_decoder_ref_advances)

declare ljpeg_dht.simps [simp del]

definition ljpeg_sof :: "int \<Rightarrow> u8 list \<Rightarrow> jhead \<Rightarrow> jhead option" where
  "ljpeg_sof tag data jh = do {
     d0 \<leftarrow> rd data 0; d1 \<leftarrow> rd data 1; d2 \<leftarrow> rd data 2; d3 \<leftarrow> rd data 3; d4 \<leftarrow> rd data 4;
     d5 \<leftarrow> rd data 5; d7 \<leftarrow> rd data 7;
     let sraw = (if tag = 0xffc3 then (shr d7 4 * (d7 AND 15) - 1) AND 3 else jh_sraw jh);
     Some (jh\<lparr>jh_sraw := sraw, jh_algo := tag AND 0xff, jh_bits := d0,
       jh_high := shl d1 8 OR d2, jh_wide := shl d3 8 OR d4, jh_clrs := d5 + sraw\<rparr>) }"

definition ljpeg_segment :: "int \<Rightarrow> int \<Rightarrow> bool \<Rightarrow> u8 list \<Rightarrow> jhead \<Rightarrow> jhead option" where
  "ljpeg_segment tag len info_only data jh =
     (if tag = 0xffc3 \<or> tag = 0xffc1 \<or> tag = 0xffc0 then ljpeg_sof tag data jh
      else if tag = 0xffc4 then
        (if info_only then Some jh
         else do { hs \<leftarrow> ljpeg_dht data len 0 (jh_huff jh); Some (jh\<lparr>jh_huff := hs\<rparr>) })
      else if tag = 0xffda then do {
        d0 \<leftarrow> rd data 0;
        p \<leftarrow> rd data (1 + d0 * 2);
        b \<leftarrow> rd data (3 + d0 * 2);
        Some (jh\<lparr>jh_psv := p, jh_bits := jh_bits jh - (b AND 15)\<rparr>) }
      else if tag = 0xffdb then do {
        q \<leftarrow> for_up 0 64 (\<lambda>c q. do {
          a \<leftarrow> rd data (c * 2 + 1); b \<leftarrow> rd data (c * 2 + 2); wr q c (shl a 8 OR b) }) (jh_quant jh);
        Some (jh\<lparr>jh_quant := q\<rparr>) }
      else if tag = 0xffdd then do {
        d0 \<leftarrow> rd data 0; d1 \<leftarrow> rd data 1;
        Some (jh\<lparr>jh_restart := shl d0 8 OR d1\<rparr>) }
      else Some jh)"

lemma remaining_less:
  assumes a: "(hd4, io1) = fread 4 io" "\<not> length hd4 < 2" "(seg, io2) = fread len io1"
    and c: "io3 = (if b then snd (fgetc io2) else io2)"
  shows "nat (int (length (ifile io3)) - ipos io3) < nat (int (length (ifile io)) - ipos io)"
proof -
  have "ipos io1 = ipos io + int (length hd4)" "ifile io1 = ifile io"
    "length hd4 \<le> length (ifile io) - nat (ipos io)"
    using fread_moves [OF a(1) [symmetric]] by auto
  moreover have "ipos io1 \<le> ipos io2" "ifile io2 = ifile io1"
    using fread_moves [OF a(3) [symmetric]] by auto
  moreover have "ipos io2 \<le> ipos io3" "ifile io3 = ifile io2"
    using c by (auto simp: fgetc_def)
  ultimately show ?thesis using a(2) by (simp add: nat_less_eq_zless)
qed

text \<open>The \<open>do ... while (tag != 0xffda)\<close> loop; the flag is False where the code returns 0.\<close>

function ljpeg_markers ::
    "int \<Rightarrow> bool \<Rightarrow> u8 list \<Rightarrow> jhead \<Rightarrow> bitio \<Rightarrow> ((bool \<times> jhead) \<times> bitio) option" where
  "ljpeg_markers dngv info_only data jh io =
     (case fread 4 io of (hd4, io1) \<Rightarrow>
        if length hd4 < 2 then Some ((False, jh), io1)
        else
          let data1 = overlay hd4 data;
              tag = shl (uint (data1 ! 0)) 8 OR uint (data1 ! 1);
              len = c_u16 ((shl (uint (data1 ! 2)) 8 OR uint (data1 ! 3)) - 2)
          in if tag \<le> 0xff00 then Some ((False, jh), io1)
             else (case fread len io1 of (seg, io2) \<Rightarrow>
               let data2 = overlay seg data1;
                   io3 = (if (tag = 0xffc3 \<or> tag = 0xffc1 \<or> tag = 0xffc0) \<and> len = 9 \<and> dngv = 0
                          then snd (fgetc io2) else io2)
               in (case ljpeg_segment tag len info_only data2 jh of
                     None \<Rightarrow> None
                   | Some jh' \<Rightarrow>
                       if tag \<noteq> 0xffda then ljpeg_markers dngv info_only data2 jh' io3
                       else Some ((True, jh'), io3))))"
  by pat_completeness auto
termination
  by (relation "measure (\<lambda>(v, i, d, j, io). nat (int (length (ifile io)) - ipos io))", simp)
    (unfold in_measure split_conv, rule remaining_less, assumption+)

declare ljpeg_markers.simps [simp del]

text \<open>
  The end of \<open>ljpeg_start\<close>: the tables that a header leaves out are copies of the ones before.
\<close>

definition fill_huffs :: "int \<Rightarrow> u16 list option list \<Rightarrow> u16 list option list option" where
  "fill_huffs sraw hs = do {
     hs \<leftarrow> for_up 0 19 (\<lambda>c hs. do {
       x \<leftarrow> at hs (c + 1);
       if x = None then do { y \<leftarrow> at hs c; put hs (c + 1) y } else Some hs }) hs;
     if sraw \<noteq> 0 then do {
       hs \<leftarrow> for_up 0 4 (\<lambda>c hs. do { y \<leftarrow> at hs 1; put hs (2 + c) y }) hs;
       for_up 0 sraw (\<lambda>c hs. do { y \<leftarrow> at hs 0; put hs (1 + c) y }) hs }
     else Some hs }"

definition ljpeg_start :: "geom \<Rightarrow> bool \<Rightarrow> bitio \<Rightarrow> ((bool \<times> jhead) \<times> bitio) option" where
  "ljpeg_start g info_only io =
     (case fgetc (snd (fgetc io)) of (c, io) \<Rightarrow>
        if c \<noteq> 0xd8 then Some ((False, jhead_init), io)
        else do {
          ((found, jh), io) \<leftarrow> ljpeg_markers (dng_version g) info_only (uninit g 0x10000) jhead_init io;
          if \<not> found then Some ((False, jh), io)
          else if jh_bits jh > 16 \<or> jh_clrs jh > 6 \<or> jh_bits jh = 0 \<or> jh_high jh = 0
              \<or> jh_wide jh = 0 \<or> jh_clrs jh = 0 then Some ((False, jh), io)
          else if info_only then Some ((True, jh), io)
          else if jh_huff jh ! 0 = None then Some ((False, jh), io)
          else do {
            hs \<leftarrow> fill_huffs (jh_sraw jh) (jh_huff jh);
            Some ((True, jh\<lparr>jh_huff := hs, jh_row := zeros (2 * (jh_wide jh * jh_clrs jh))\<rparr>),
                  io\<lparr>zero_after_ff := 1\<rparr>) } })"

section \<open>The rows\<close>

text \<open>The loop that skips to a restart marker; \<open>mark\<close> is a \<open>ushort\<close>.\<close>

function skip_to_marker :: "int \<Rightarrow> bitio \<Rightarrow> bitio" where
  "skip_to_marker mark io =
     (case fgetc io of (c, io1) \<Rightarrow>
        let mark' = c_u16 (shl mark 8 + c)
        in if c \<noteq> -1 \<and> shr mark' 4 \<noteq> 0xffd then skip_to_marker mark' io1 else io1)"
  by pat_completeness auto
termination
  by (relation "measure (\<lambda>(m, io). nat (int (length (ifile io)) - ipos io))")
    (auto simp: fgetc_def split: if_splits)

declare skip_to_marker.simps [simp del]

text \<open>The \<open>switch\<close> on the predictor: \<open>up\<close> is the sample above, \<open>upl\<close> the one above the left.\<close>

definition ljpeg_predict :: "int \<Rightarrow> int \<Rightarrow> int \<Rightarrow> int \<Rightarrow> int" where
  "ljpeg_predict psv pred up upl =
     (if psv = 1 then pred
      else if psv = 2 then up
      else if psv = 3 then upl
      else if psv = 4 then pred + up - upl
      else if psv = 5 then pred + shr (up - upl) 1
      else if psv = 6 then up + shr (pred - upl) 1
      else if psv = 7 then shr (pred + up) 1
      else 0)"

text \<open>
  One sample: column \<open>col\<close>, component \<open>c\<close> of row \<open>jrow\<close>. The pointers \<open>row[0]\<close> and \<open>row[1]\<close> are
  the positions \<open>r0\<close> and \<open>r1\<close> in the buffer of two rows.
\<close>

definition ljpeg_sample ::
    "geom \<Rightarrow> int \<Rightarrow> int \<Rightarrow> int \<Rightarrow> int \<times> jhead \<times> bitio \<Rightarrow> (int \<times> jhead \<times> bitio) option" where
  "ljpeg_sample g jrow col c = (\<lambda>(spred, jh, io). do {
     h \<leftarrow> at (jh_huff jh) c;
     huff \<leftarrow> h;
     (diff, io) \<leftarrow> ljpeg_diff (dng_version g) huff io;
     let n = jh_wide jh * jh_clrs jh;
     let r0 = n * (jrow AND 1) + (col * jh_clrs jh + c);
     let r1 = n * ((jrow + 1) AND 1) + (col * jh_clrs jh + c);
     (pred, vp) \<leftarrow>
       (if jh_sraw jh \<noteq> 0 \<and> c \<le> jh_sraw jh \<and> col OR c \<noteq> 0 then Some (spred, jh_vpred jh)
        else if col \<noteq> 0 then do { p \<leftarrow> rd (jh_row jh) (r0 - jh_clrs jh); Some (p, jh_vpred jh) }
        else do {
          v \<leftarrow> at (jh_vpred jh) c;
          vp \<leftarrow> put (jh_vpred jh) c (c_s32 (v + diff));
          Some (c_s32 (c_s32 (v + diff) - diff), vp) });
     pred \<leftarrow>
       (if jrow \<noteq> 0 \<and> col \<noteq> 0 then do {
          up \<leftarrow> rd (jh_row jh) r1;
          upl \<leftarrow> rd (jh_row jh) (r1 - jh_clrs jh);
          Some (ljpeg_predict (jh_psv jh) pred up upl) }
        else Some pred);
     rw \<leftarrow> wr (jh_row jh) r0 (pred + diff);
     v \<leftarrow> rd rw r0;
     Some (if c \<le> jh_sraw jh then v else spred,
           jh\<lparr>jh_vpred := vp, jh_row := rw\<rparr>,
           if shr_i v (jh_bits jh) \<noteq> 0 then derror io else io) })"

text \<open>\<open>ljpeg_row\<close>; the pointer it returns is an offset into \<open>jh_row\<close>.\<close>

definition ljpeg_row :: "geom \<Rightarrow> int \<Rightarrow> jhead \<Rightarrow> bitio \<Rightarrow> ((int \<times> jhead) \<times> bitio) option" where
  "ljpeg_row g jrow jh io = do {
     m \<leftarrow> c_mod (c_s32 (jrow * jh_wide jh)) (jh_restart jh);
     (jh, io) \<leftarrow>
       (if m = 0 then do {
          let io1 = (if jrow \<noteq> 0 then skip_to_marker 0 (fseek_cur (-2) io) else io);
          (z, io2) \<leftarrow> getbits (-1) io1;
          Some (jh\<lparr>jh_vpred := replicate 6 (shl_i 1 (jh_bits jh - 1))\<rparr>, io2) }
        else Some (jh, io));
     (spred, jh, io) \<leftarrow> for_up 0 (jh_wide jh) (\<lambda>col st.
       for_up 0 (jh_clrs jh) (\<lambda>c. ljpeg_sample g jrow col c) st) (0, jh, io);
     Some ((jh_wide jh * jh_clrs jh * (jrow AND 1), jh), io) }"

section \<open>The lossy blocks of DNG files\<close>

definition zigzag :: "int list" where
  "zigzag =
   [ 0, 1, 8,16, 9, 2, 3,10,17,24,32,25,18,11, 4, 5,12,19,26,33,
    40,48,41,34,27,20,13, 6, 7,14,21,28,35,42,49,56,57,50,43,36,
    29,22,15,23,30,37,44,51,58,59,52,45,38,31,39,46,53,60,61,54,
    47,55,62,63,63,63,63,63,63,63,63,63,63,63,63,63,63,63,63,63]"

text \<open>The loop of \<open>ljpeg_idct\<close> over the coefficients; the body changes the counter \<open>i\<close>.\<close>

function idct_coefs :: "jhead \<Rightarrow> int \<Rightarrow> int list \<Rightarrow> bitio \<Rightarrow> (int list \<times> bitio) option" where
  "idct_coefs jh i work io =
     (if i < 64 then
        (case at (jh_huff jh) 16 \<bind> (\<lambda>h. h) \<bind> (\<lambda>huff. gethuff huff io) of
           None \<Rightarrow> None
         | Some (b, io1) \<Rightarrow>
             let skip = shr b 4; len = b AND 15
             in if len = 0 \<and> skip < 15 then Some (work, io1)
                else (case getbits len io1 of
                    None \<Rightarrow> None
                  | Some (coef, io2) \<Rightarrow>
                      (case do {
                          q \<leftarrow> rd (jh_quant jh) (i + skip);
                          z \<leftarrow> at zigzag (i + skip);
                          put work z (c_s32 (sign_diff coef len * q)) } of
                          None \<Rightarrow> None
                        | Some work' \<Rightarrow> idct_coefs jh (i + skip + 1) work' io2)))
      else Some (work, io))"
  by pat_completeness auto
termination
  by (relation "measure (\<lambda>(jh, i, w, io). nat (64 - i))")
    (auto simp: shr_div dest!: gethuff_nonneg split: bind_splits)

declare idct_coefs.simps [simp del]

text \<open>
  \<open>ljpeg_idct\<close>: the inverse transform itself is single-precision arithmetic with cosines of the C
  library and is the parameter \<open>tr\<close>, from the 64 dequantised coefficients to the 64 samples
  (\<open>idct_transform\<close> in theory Loaders).
\<close>

definition ljpeg_idct :: "(int list \<Rightarrow> u16 list) \<Rightarrow> geom \<Rightarrow> jhead \<Rightarrow> bitio \<Rightarrow> (jhead \<times> bitio) option" where
  "ljpeg_idct tr g jh io = do {
     h \<leftarrow> at (jh_huff jh) 0;
     huff \<leftarrow> h;
     (d, io) \<leftarrow> ljpeg_diff (dng_version g) huff io;
     q \<leftarrow> rd (jh_quant jh) 0;
     v \<leftarrow> at (jh_vpred jh) 0;
     let v' = c_s32 (v + c_s32 (d * q));
     vp \<leftarrow> put (jh_vpred jh) 0 v';
     (work, io) \<leftarrow> idct_coefs jh 1 ((zeros 64)[0 := v']) io;
     Some (jh\<lparr>jh_vpred := vp, jh_idct := tr work\<rparr>, io) }"

section \<open>Safety\<close>

text \<open>A header that \<open>ljpeg_start\<close> accepts, and what \<open>ljpeg_row\<close> keeps of it.\<close>

definition jhead_ok :: "jhead \<Rightarrow> bool" where
  "jhead_ok jh \<longleftrightarrow>
     1 \<le> jh_clrs jh \<and> jh_clrs jh \<le> 6 \<and> 1 \<le> jh_wide jh \<and> jh_wide jh < 65536
   \<and> 1 \<le> jh_high jh \<and> jh_high jh < 65536
   \<and> length (jh_vpred jh) = 6 \<and> length (jh_quant jh) = 64 \<and> length (jh_huff jh) = 20
   \<and> (\<forall>h \<in> set (jh_huff jh). \<exists>t. h = Some t \<and> huff_ok t)
   \<and> int (length (jh_row jh)) = 2 * (jh_wide jh * jh_clrs jh)"

definition jh_frame :: "jhead \<Rightarrow> jhead \<Rightarrow> bool" where
  "jh_frame jh jh' \<longleftrightarrow> jhead_ok jh' \<and> jh_algo jh' = jh_algo jh \<and> jh_bits jh' = jh_bits jh
     \<and> jh_high jh' = jh_high jh \<and> jh_wide jh' = jh_wide jh \<and> jh_clrs jh' = jh_clrs jh
     \<and> jh_sraw jh' = jh_sraw jh \<and> jh_psv jh' = jh_psv jh \<and> jh_restart jh' = jh_restart jh
     \<and> jh_quant jh' = jh_quant jh \<and> jh_idct jh' = jh_idct jh \<and> jh_huff jh' = jh_huff jh"

lemma jh_frame_refl: "jhead_ok jh \<Longrightarrow> jh_frame jh jh"
  by (simp add: jh_frame_def)

lemma jh_frame_trans: "jh_frame a b \<Longrightarrow> jh_frame b c \<Longrightarrow> jh_frame a c"
  by (simp add: jh_frame_def)

lemma jh_frame_upd:
  "jh_frame jh jh' \<Longrightarrow> length vp = 6 \<Longrightarrow> length rw = length (jh_row jh') \<Longrightarrow>
    jh_frame jh (jh'\<lparr>jh_vpred := vp, jh_row := rw\<rparr>)"
  by (auto simp: jh_frame_def jhead_ok_def)

lemma jh_frame_row:
  "jh_frame jh jh' \<Longrightarrow> length rw = length (jh_row jh') \<Longrightarrow> jh_frame jh (jh'\<lparr>jh_row := rw\<rparr>)"
  by (auto simp: jh_frame_def jhead_ok_def)

lemma ljpeg_diff_wp [wp, safe]:
  "huff_ok h \<Longrightarrow> (\<And>d io'. Q (d, io')) \<Longrightarrow> ok (ljpeg_diff dngv h io) Q"
  unfolding ljpeg_diff_def by (rule wp | clarsimp)+

lemma ok_huff_at:
  assumes "\<forall>h \<in> set hs. \<exists>t. h = Some t \<and> huff_ok t" "inb hs i"
    and "\<And>t. huff_ok t \<Longrightarrow> ok (f t) Q"
  shows "ok (at hs i \<bind> (\<lambda>h. h \<bind> f)) Q"
proof -
  have "hs ! nat i \<in> set hs" using assms(2) by (auto simp: inb_def)
  with assms(1) obtain t where "hs ! nat i = Some t" "huff_ok t" by blast
  then show ?thesis using assms(2,3) by (simp add: at_def)
qed

lemma ljpeg_sample_ok:
  assumes "jh_frame jh0 jh" "0 \<le> col" "col < jh_wide jh0" "0 \<le> c" "c < jh_clrs jh0"
  shows "ok (ljpeg_sample g jrow col c (spred, jh, io)) (\<lambda>(s, jh', io'). jh_frame jh0 jh')"
proof -
  from assms(1) have j: "jhead_ok jh" "jh_wide jh = jh_wide jh0" "jh_clrs jh = jh_clrs jh0"
    by (auto simp: jh_frame_def)
  define n where "n = jh_wide jh * jh_clrs jh"
  have p: "0 \<le> col * jh_clrs jh + c" "col * jh_clrs jh + c < n"
    unfolding n_def using cell_bound [of col "jh_wide jh" c "jh_clrs jh"] assms j by auto
  have q: "0 \<le> col * jh_clrs jh + c - jh_clrs jh" if "col \<noteq> 0"
  proof -
    have "1 * jh_clrs jh \<le> col * jh_clrs jh" using that assms j by (intro mult_right_mono) auto
    then show ?thesis using assms by simp
  qed
  have len: "int (length (jh_row jh)) = 2 * n" "length (jh_vpred jh) = 6" "length (jh_huff jh) = 20"
    "jh_clrs jh \<le> 6" "0 \<le> c" "c < jh_clrs jh" "c < 6" using j assms by (auto simp: jhead_ok_def n_def)
  have par: "x AND 1 = 0 \<or> x AND 1 = 1" for x :: int by (auto simp: and_one_eq mod2_eq_if)
  have r: "length ys = length (jh_row jh) \<Longrightarrow> inb ys (n * (x AND 1) + (col * jh_clrs jh + c))"
    "length ys = length (jh_row jh) \<Longrightarrow> col \<noteq> 0 \<Longrightarrow>
      inb ys (n * (x AND 1) + (col * jh_clrs jh + c) - jh_clrs jh)" for x and ys :: "u16 list"
    using par [of x] p q len unfolding inb_def n_def [symmetric] by auto
  have r0: "length ys = length (jh_row jh) \<Longrightarrow> inb ys (col * jh_clrs jh + c)"
    "length ys = length (jh_row jh) \<Longrightarrow> col \<noteq> 0 \<Longrightarrow> inb ys (col * jh_clrs jh + c - jh_clrs jh)"
    for ys :: "u16 list"
    using r [of ys 0] by auto
  have rc: "length ys = length (jh_row jh) \<Longrightarrow> col = 0 \<Longrightarrow>
      inb ys (n * (x AND 1) + c)" "length ys = length (jh_row jh) \<Longrightarrow> col = 0 \<Longrightarrow> inb ys c" for x and ys :: "u16 list"
    using r [of ys x] r [of ys 0] by auto
  show ?thesis
    unfolding ljpeg_sample_def split_conv
    apply (rule ok_huff_at)
    using j(1) apply (simp add: jhead_ok_def)
    using len apply (simp add: inb_def)
    apply (rule safe | assumption | clarsimp simp: r [unfolded n_def] r0 rc [unfolded n_def] inb_def [of "jh_vpred jh"] len jh_frame_upd [OF assms(1)] jh_frame_row [OF assms(1)])+
    done
qed

lemma ljpeg_samples_ok:
  assumes "jh_frame jh0 jh" "\<And>s jh' io'. jh_frame jh0 jh' \<Longrightarrow> Q (s, jh', io')"
  shows "ok (for_up 0 (jh_wide jh) (\<lambda>col. for_up 0 (jh_clrs jh) (ljpeg_sample g jrow col)) (spred, jh, io)) Q"
proof (rule for_by_wp [where I = "\<lambda>(s, j, io). jh_frame jh0 j"])
  fix col and st :: "int \<times> jhead \<times> bitio"
  assume col: "0 \<le> col" "col < jh_wide jh" "case st of (s, j, io) \<Rightarrow> jh_frame jh0 j"
  show "ok (for_up 0 (jh_clrs jh) (ljpeg_sample g jrow col) st) (\<lambda>(s, j, io). jh_frame jh0 j)"
  proof (rule for_by_wp [where I = "\<lambda>(s, j, io). jh_frame jh0 j"])
    fix c and st' :: "int \<times> jhead \<times> bitio"
    assume c: "0 \<le> c" "c < jh_clrs jh" "case st' of (s, j, io) \<Rightarrow> jh_frame jh0 j"
    obtain s j i where st': "st' = (s, j, i)" by (cases st')
    have "jh_wide jh = jh_wide jh0" "jh_clrs jh = jh_clrs jh0" using assms(1) by (simp_all add: jh_frame_def)
    then show "ok (ljpeg_sample g jrow col c st') (\<lambda>(s, j, io). jh_frame jh0 j)"
      using ljpeg_sample_ok [of jh0 j col c g jrow s i] c col st' by simp
  qed (use col in auto)
qed (use assms in auto)

lemma ljpeg_row_ok [safe]:
  assumes "jhead_ok jh" "jh_restart jh \<noteq> 0"
    and "\<And>p jh' io'. jh_frame jh jh' \<Longrightarrow> 0 \<le> p \<Longrightarrow> p + jh_wide jh * jh_clrs jh \<le> int (length (jh_row jh'))
      \<Longrightarrow> Q ((p, jh'), io')"
  shows "ok (ljpeg_row g jrow jh io) Q"
proof -
  have fin: "Q ((jh_wide j * jh_clrs j * (jrow AND 1), j), io')" if "jh_frame jh j" for j io'
  proof (rule assms(3) [OF that])
    have j: "jh_wide j = jh_wide jh" "jh_clrs j = jh_clrs jh" "jhead_ok j" "0 \<le> jh_wide jh * jh_clrs jh"
      using that assms(1) by (auto simp: jh_frame_def jhead_ok_def)
    have par: "jrow AND 1 = 0 \<or> jrow AND 1 = 1" by (auto simp: and_one_eq mod2_eq_if)
    show "0 \<le> jh_wide j * jh_clrs j * (jrow AND 1)"
      "jh_wide j * jh_clrs j * (jrow AND 1) + jh_wide jh * jh_clrs jh \<le> int (length (jh_row j))"
      using par j unfolding jhead_ok_def by (auto simp: mult.commute)
  qed
  have upd: "jh_frame jh (jh\<lparr>jh_vpred := replicate 6 x\<rparr>)" for x
    using assms(1) by (auto simp: jh_frame_def jhead_ok_def)
  have tail: "ok (for_up 0 (jh_wide j) (\<lambda>col. for_up 0 (jh_clrs j) (ljpeg_sample g jrow col)) (0, j, io'))
      (\<lambda>(s, j, io). Q ((jh_wide j * jh_clrs j * (jrow AND 1), j), io))" if "jh_frame jh j" for j io'
    by (rule ljpeg_samples_ok [of j]) (use that fin in \<open>auto simp: jh_frame_def\<close>)
  show ?thesis
    unfolding ljpeg_row_def
    by (rule safe | use assms(2) tail [OF upd] tail [OF jh_frame_refl [OF assms(1)]] in
      \<open>clarsimp simp: ok_bind_iff split_def\<close>)+
qed

end
