(* ===== verification/Fuji.thy ===== *)
theory Fuji
  imports Ljpeg
begin

text \<open>
  The compressed RAF format of Fujifilm (\<open>fuji_compressed.h\<close>): the header and its validation, the
  parameters derived from it, the state of one strip with its buffered input, the code of a
  sample, the adaptive gradients, the twelve line phases of the X-Trans and the Bayer blocks,
  and the copy of the decoded lines into the raw image.
\<close>

section \<open>Header and parameters\<close>

record fuji_header =
  fh_total_lines :: int
  fh_total_blocks :: int
  fh_block_width :: int
  fh_bits :: int
  fh_raw_type :: int
  fh_raw_width :: int
  fh_raw_height :: int

text \<open>\<open>sgetn(n, s)\<close>: \<open>n\<close> bytes, the most significant first, in an \<open>unsigned\<close>.\<close>

fun sgetn_from :: "u32 \<Rightarrow> u8 list \<Rightarrow> u32" where
  "sgetn_from r [] = r"
| "sgetn_from r (b # bs) = sgetn_from (push_bit 8 r OR ucast b) bs"

definition sgetn :: "int \<Rightarrow> u8 list \<Rightarrow> int" where
  "sgetn n s = uint (sgetn_from 0 (take (nat n) s))"

definition fuji_header_rejected ::
    "int \<Rightarrow> int \<Rightarrow> int \<Rightarrow> int \<Rightarrow> int \<Rightarrow> int \<Rightarrow> int \<Rightarrow> int \<Rightarrow> int \<Rightarrow> int \<Rightarrow> bool" where
  "fuji_header_rejected signature version h_raw_type h_raw_bits h_raw_height h_raw_rounded_width
     h_raw_width h_block_size h_blocks_in_row h_total_lines \<longleftrightarrow>
       signature \<noteq> 0x4953
     \<or> version \<noteq> 1
     \<or> h_raw_height > 0x3000
     \<or> h_raw_height < 6
     \<or> h_raw_height mod 6 \<noteq> 0
     \<or> h_block_size < 1
     \<or> h_raw_width > 0x3000
     \<or> h_raw_width < 0x300
     \<or> h_raw_width mod 24 \<noteq> 0
     \<or> h_raw_rounded_width > 0x3000
     \<or> h_raw_rounded_width < h_block_size
     \<or> h_raw_rounded_width mod h_block_size \<noteq> 0
     \<or> c_u32 (h_raw_rounded_width - h_raw_width) \<ge> h_block_size
     \<or> h_block_size \<noteq> 0x300
     \<or> h_blocks_in_row > 0x10
     \<or> h_blocks_in_row = 0
     \<or> h_blocks_in_row \<noteq> h_raw_rounded_width div h_block_size
     \<or> h_total_lines > 0x800
     \<or> h_total_lines = 0
     \<or> h_total_lines \<noteq> h_raw_height div 6
     \<or> (h_raw_bits \<noteq> 12 \<and> h_raw_bits \<noteq> 14)
     \<or> (h_raw_type \<noteq> 16 \<and> h_raw_type \<noteq> 0)"

text \<open>
  The result: whether the header was accepted (then \<open>load_raw\<close> becomes \<open>fuji_compressed_load_raw\<close>),
  the header and \<open>data_offset\<close>.
\<close>

definition parse_fuji_compressed_header ::
    "geom \<Rightarrow> fuji_header \<Rightarrow> bitio \<Rightarrow> (bool \<times> fuji_header \<times> int) \<times> bitio" where
  "parse_fuji_compressed_header g fh io =
     (let (bs, io) = fread 16 (fseek_set (data_offset g) io);
          header = overlay bs (uninit g 16);
          signature = sgetn 2 header;
          version = uint (header ! 2);
          h_raw_type = uint (header ! 3);
          h_raw_bits = uint (header ! 4);
          h_raw_height = sgetn 2 (drop 5 header);
          h_raw_rounded_width = sgetn 2 (drop 7 header);
          h_raw_width = sgetn 2 (drop 9 header);
          h_block_size = sgetn 2 (drop 11 header);
          h_blocks_in_row = uint (header ! 13);
          h_total_lines = sgetn 2 (drop 14 header)
      in if fuji_header_rejected signature version h_raw_type h_raw_bits h_raw_height
              h_raw_rounded_width h_raw_width h_block_size h_blocks_in_row h_total_lines
         then ((False, fh, data_offset g), io)
         else ((True, \<lparr>fh_total_lines = h_total_lines, fh_total_blocks = h_blocks_in_row,
                   fh_block_width = h_block_size, fh_bits = h_raw_bits, fh_raw_type = h_raw_type,
                   fh_raw_width = h_raw_width, fh_raw_height = h_raw_height\<rparr>,
                 data_offset g + 16), io))"

record fuji_params =
  q_table :: "int list"
  q_point :: "int list"
  max_bits :: int
  min_value :: int
  raw_bits :: int
  total_values :: int
  maxDiff :: int
  line_width :: int

definition fuji_quant :: "int list \<Rightarrow> int \<Rightarrow> int" where
  "fuji_quant q cur_val =
     (if cur_val \<le> - (q ! 3) then -4
      else if cur_val \<le> - (q ! 2) then -3
      else if cur_val \<le> - (q ! 1) then -2
      else if cur_val < 0 then -1
      else if cur_val = 0 then 0
      else if cur_val < q ! 1 then 1
      else if cur_val < q ! 2 then 2
      else if cur_val < q ! 3 then 3
      else 4)"

definition fuji_q_table :: "geom \<Rightarrow> int list \<Rightarrow> int list option" where
  "fuji_q_table g q =
     for_up (- (q ! 4)) (q ! 4 + 1) (\<lambda>cur_val qt. put qt (cur_val + q ! 4) (fuji_quant q cur_val))
       (map (junk g) [0..<32768])"

text \<open>
  \<open>init_fuji_compr\<close>; the two calls of \<open>derror\<close> are counted. A bit depth that is neither 12 nor 14
  leaves four fields of the structure on the stack as they were.
\<close>

definition init_fuji_compr :: "geom \<Rightarrow> fuji_header \<Rightarrow> bitio \<Rightarrow> (fuji_params \<times> bitio) option" where
  "init_fuji_compr g fh io = do {
     let io = (if (fh_block_width fh mod 3 \<noteq> 0 \<and> fh_raw_type fh = 16)
                 \<or> (fh_block_width fh AND 1 \<noteq> 0 \<and> fh_raw_type fh = 0) then derror io else io);
     let lw = c_u16 (if fh_raw_type fh = 16 then c_u32 (fh_block_width fh * 2) div 3
                     else shr (fh_block_width fh) 1);
     let q = [0, 0x12, 0x43, 0x114, shl_i 1 (fh_bits fh) - 1];
     qt \<leftarrow> fuji_q_table g q;
     let p = \<lparr>q_table = qt, q_point = q, max_bits = junk g 0, min_value = 0x40, raw_bits = junk g 1,
              total_values = junk g 2, maxDiff = junk g 3, line_width = lw\<rparr>;
     Some (if q ! 4 = 0x3FFF then
             (p\<lparr>total_values := 0x4000, raw_bits := 14, max_bits := 56, maxDiff := 256\<rparr>, io)
           else if q ! 4 = 0xFFF then
             (p\<lparr>total_values := 4096, raw_bits := 12, max_bits := 48, maxDiff := 64\<rparr>, io)
           else (p, derror io)) }"

section \<open>One strip: its input\<close>

text \<open>
  \<open>linealloc\<close> holds the 18 lines, one after the other, each of \<open>line_width + 2\<close> samples; line \<open>k\<close>
  (\<open>linebuf[k]\<close>) starts at \<open>k * (line_width + 2)\<close>. \<open>fio\<close> is the input file.
\<close>

record fuji_block =
  cur_bit :: int
  cur_pos :: int
  cur_buf_offset :: int
  max_read_size :: int
  cur_buf_size :: int
  cur_buf :: "u8 list"
  fillbytes :: int
  grad_even :: "(int \<times> int) list list"
  grad_odd :: "(int \<times> int) list list"
  linealloc :: "u16 list"
  fio :: bitio

abbreviation (input) "XTRANS_BUF_SIZE \<equiv> (0x10000::int)"

definition fuji_fill_buffer :: "fuji_block \<Rightarrow> fuji_block" where
  "fuji_fill_buffer info =
     (if cur_pos info \<ge> cur_buf_size info then
        let off = cur_buf_offset info + cur_buf_size info;
            (bs, io) = fread (MIN_c (max_read_size info) XTRANS_BUF_SIZE) (fseek_set off (fio info));
            buf = overlay bs (cur_buf info);
            nread = int (length bs);
            ls = MAX_c 1 (MIN_c (fillbytes info) XTRANS_BUF_SIZE);
            (buf, fb) = (if nread < 1 \<and> fillbytes info > 0
                         then (overlay (zeros ls) buf, fillbytes info - ls) else (buf, fillbytes info))
        in info\<lparr>cur_pos := 0, cur_buf_offset := off, cur_buf_size := nread, cur_buf := buf,
                fillbytes := fb, max_read_size := max_read_size info - nread, fio := io\<rparr>
      else info)"

abbreviation (input) "fl_R0 \<equiv> (0::int)"
abbreviation (input) "fl_R1 \<equiv> (1::int)"
abbreviation (input) "fl_R2 \<equiv> (2::int)"
abbreviation (input) "fl_R3 \<equiv> (3::int)"
abbreviation (input) "fl_R4 \<equiv> (4::int)"
abbreviation (input) "fl_G0 \<equiv> (5::int)"
abbreviation (input) "fl_G1 \<equiv> (6::int)"
abbreviation (input) "fl_G2 \<equiv> (7::int)"
abbreviation (input) "fl_G3 \<equiv> (8::int)"
abbreviation (input) "fl_G4 \<equiv> (9::int)"
abbreviation (input) "fl_G5 \<equiv> (10::int)"
abbreviation (input) "fl_G6 \<equiv> (11::int)"
abbreviation (input) "fl_G7 \<equiv> (12::int)"
abbreviation (input) "fl_B0 \<equiv> (13::int)"
abbreviation (input) "fl_B1 \<equiv> (14::int)"
abbreviation (input) "fl_B2 \<equiv> (15::int)"
abbreviation (input) "fl_B3 \<equiv> (16::int)"
abbreviation (input) "fl_B4 \<equiv> (17::int)"
abbreviation (input) "fl_total \<equiv> (18::int)"

definition init_fuji_block :: "geom \<Rightarrow> fuji_params \<Rightarrow> int \<Rightarrow> int \<Rightarrow> bitio \<Rightarrow> fuji_block" where
  "init_fuji_block g p raw_offset dsize io =
     (let io = fseek_end 0 io;
          fsize = ipos io;
          grads = replicate 3 (replicate 41 (maxDiff p, 1))
      in fuji_fill_buffer
           \<lparr>cur_bit = 0, cur_pos = 0, cur_buf_offset = raw_offset,
            max_read_size = MIN_c (c_u32 (fsize - raw_offset)) dsize,
            cur_buf_size = 0, cur_buf = uninit g XTRANS_BUF_SIZE, fillbytes = 1,
            grad_even = grads, grad_odd = grads,
            linealloc = zeros (fl_total * (line_width p + 2)), fio = io\<rparr>)"

section \<open>The code of a sample\<close>

text \<open>One round of the loop of \<open>fuji_zerobits\<close>: the bit and the block after it.\<close>

definition fuji_next_bit :: "fuji_block \<Rightarrow> (int \<times> fuji_block) option" where
  "fuji_next_bit info = do {
     b \<leftarrow> rd (cur_buf info) (cur_pos info);
     let zero = shr b (7 - cur_bit info) AND 1;
     let info = info\<lparr>cur_bit := (cur_bit info + 1) AND 7\<rparr>;
     Some (zero, if cur_bit info = 0 then fuji_fill_buffer (info\<lparr>cur_pos := cur_pos info + 1\<rparr>)
                 else info) }"

text \<open>\<open>None\<close> is an access outside the buffer or a loop that does not end.\<close>

partial_function (option) fuji_zerobits :: "int \<Rightarrow> fuji_block \<Rightarrow> (int \<times> fuji_block) option" where
  "fuji_zerobits count info = do {
     (zero, info) \<leftarrow> fuji_next_bit info;
     if zero \<noteq> 0 then Some (count, info) else fuji_zerobits (count + 1) info }"

text \<open>
  \<open>fuji_read_code\<close>: first what is left of the current byte, then whole bytes, then the leading
  bits of one more. The counts are between 0 and 14, so that the \<open>uchar\<close> variables do not wrap.
\<close>

definition fuji_take_byte :: "int \<Rightarrow> int \<Rightarrow> fuji_block \<Rightarrow> (int \<times> fuji_block) option" where
  "fuji_take_byte data left_in_byte info = do {
     b \<leftarrow> rd (cur_buf info) (cur_pos info);
     Some (shl data left_in_byte OR (b AND (shl 1 left_in_byte - 1)),
           fuji_fill_buffer (info\<lparr>cur_pos := cur_pos info + 1\<rparr>)) }"

function fuji_take_bytes :: "int \<Rightarrow> int \<Rightarrow> fuji_block \<Rightarrow> ((int \<times> int) \<times> fuji_block) option" where
  "fuji_take_bytes bits_left data info =
     (if bits_left \<ge> 8 then
        (case fuji_take_byte data 8 info of
           None \<Rightarrow> None
         | Some (data, info) \<Rightarrow> fuji_take_bytes (bits_left - 8) data info)
      else Some ((bits_left, data), info))"
  by pat_completeness auto
termination
  by (relation "measure (\<lambda>(n, d, i). nat n)") auto

declare fuji_take_bytes.simps [simp del]

definition fuji_read_code :: "int \<Rightarrow> fuji_block \<Rightarrow> (int \<times> fuji_block) option" where
  "fuji_read_code bits_to_read info =
     (if bits_to_read = 0 then Some (0, info)
      else do {
        let left_in_byte = 8 - (cur_bit info AND 7);
        ((bits_left, data, left_in_byte), info) \<leftarrow>
          (if bits_to_read \<ge> left_in_byte then do {
             (data, info) \<leftarrow> fuji_take_byte 0 left_in_byte info;
             ((bits_left, data), info) \<leftarrow> fuji_take_bytes (bits_to_read - left_in_byte) data info;
             Some ((bits_left, data, 8), info) }
           else Some ((bits_to_read, 0, left_in_byte), info));
        if bits_left = 0 then Some (data, info\<lparr>cur_bit := (8 - (left_in_byte AND 7)) AND 7\<rparr>)
        else do {
          b \<leftarrow> rd (cur_buf info) (cur_pos info);
          let left_in_byte = left_in_byte - bits_left;
          let data = shl data bits_left OR ((shl 1 bits_left - 1) AND shr b left_in_byte);
          Some (data, info\<lparr>cur_bit := (8 - (left_in_byte AND 7)) AND 7\<rparr>) } })"

function bitDiff_from :: "int \<Rightarrow> int \<Rightarrow> int \<Rightarrow> int" where
  "bitDiff_from value1 value2 decBits =
     (if decBits \<le> 12 then
        (let decBits = decBits + 1
         in if shl_i value2 decBits < value1 then bitDiff_from value1 value2 decBits else decBits)
      else decBits)"
  by pat_completeness auto
termination
  by (relation "measure (\<lambda>(a, b, d). nat (13 - d))") auto

declare bitDiff_from.simps [simp del]

definition bitDiff :: "int \<Rightarrow> int \<Rightarrow> int" where
  "bitDiff value1 value2 = (if value2 < value1 then bitDiff_from value1 value2 0 else 0)"

section \<open>Samples\<close>

text \<open>Cell \<open>j\<close> of line \<open>k\<close>; the pointers \<open>line_buf\<close> of the decoder point one cell into a line.\<close>

definition lcell :: "int \<Rightarrow> int \<Rightarrow> int \<Rightarrow> int" where
  "lcell lw k j = k * (lw + 2) + j"

definition rd_line :: "int \<Rightarrow> fuji_block \<Rightarrow> int \<Rightarrow> int \<Rightarrow> int option" where
  "rd_line lw info k j = rd (linealloc info) (lcell lw k j)"

definition wr_line :: "int \<Rightarrow> int \<Rightarrow> int \<Rightarrow> int \<Rightarrow> fuji_block \<Rightarrow> fuji_block option" where
  "wr_line lw k j v info = do {
     xs \<leftarrow> wr (linealloc info) (lcell lw k j) v;
     Some (info\<lparr>linealloc := xs\<rparr>) }"

definition fuji_quant_gradient :: "fuji_params \<Rightarrow> int \<Rightarrow> int \<Rightarrow> int option" where
  "fuji_quant_gradient p v1 v2 = do {
     a \<leftarrow> at (q_table p) (q_point p ! 4 + v1);
     b \<leftarrow> at (q_table p) (q_point p ! 4 + v2);
     Some (9 * a + b) }"

text \<open>The code of a sample: a unary part, then \<open>decBits\<close> bits, or \<open>raw_bits\<close> bits after an escape.\<close>

definition fuji_code :: "fuji_params \<Rightarrow> int \<times> int \<Rightarrow> fuji_block \<Rightarrow> (int \<times> fuji_block) option" where
  "fuji_code p grad info = do {
     (sample, info) \<leftarrow> fuji_zerobits 0 info;
     if sample < max_bits p - raw_bits p - 1 then do {
       let decBits = bitDiff (fst grad) (snd grad);
       (code, info) \<leftarrow> fuji_read_code decBits info;
       Some (code + shl sample decBits, info) }
     else do {
       (code, info) \<leftarrow> fuji_read_code (raw_bits p) info;
       Some (code + 1, info) } }"

definition fuji_signed :: "int \<Rightarrow> int" where
  "fuji_signed code = (if code AND 1 \<noteq> 0 then -1 - code sdiv 2 else code sdiv 2)"

definition fuji_adapt :: "fuji_params \<Rightarrow> int \<Rightarrow> int \<times> int \<Rightarrow> int \<times> int" where
  "fuji_adapt p code grad =
     (let v1 = fst grad + ABS_c code;
          (v1, v2) = (if snd grad = min_value p then (shr v1 1, shr (snd grad) 1) else (v1, snd grad))
      in (v1, v2 + 1))"

definition fuji_value :: "fuji_params \<Rightarrow> int \<Rightarrow> int" where
  "fuji_value p v =
     (let v = (if v < 0 then v + total_values p
               else if v > q_point p ! 4 then v - total_values p else v)
      in if v \<ge> 0 then MIN_c v (q_point p ! 4) else 0)"

text \<open>
  \<open>fuji_decode_sample_even(info, params, linebuf[k] + 1, pos, info->grad_even[t])\<close>: the result is
  the number of errors, 0 or 1.
\<close>

definition fuji_decode_sample_even ::
    "fuji_params \<Rightarrow> int \<Rightarrow> int \<Rightarrow> int \<Rightarrow> fuji_block \<Rightarrow> (int \<times> fuji_block) option" where
  "fuji_decode_sample_even p k pos t info = do {
     let lw = line_width p;
     Rb \<leftarrow> rd_line lw info (k - 1) (pos + 1);
     Rc \<leftarrow> rd_line lw info (k - 1) pos;
     Rd \<leftarrow> rd_line lw info (k - 1) (pos + 2);
     Rf \<leftarrow> rd_line lw info (k - 2) (pos + 1);
     grad \<leftarrow> fuji_quant_gradient p (Rb - Rf) (Rc - Rb);
     let gradient = ABS_c grad;
     let diffRcRb = ABS_c (Rc - Rb);
     let diffRfRb = ABS_c (Rf - Rb);
     let diffRdRb = ABS_c (Rd - Rb);
     let interp_val =
       (if diffRcRb > diffRfRb \<and> diffRcRb > diffRdRb then Rf + Rd + 2 * Rb
        else if diffRdRb > diffRcRb \<and> diffRdRb > diffRfRb then Rf + Rc + 2 * Rb
        else Rd + Rc + 2 * Rb);
     grads \<leftarrow> at (grad_even info) t;
     gr \<leftarrow> at grads gradient;
     (code, info) \<leftarrow> fuji_code p gr info;
     let errcnt = of_bool (code < 0 \<or> code \<ge> total_values p);
     let code = fuji_signed code;
     grads \<leftarrow> put grads gradient (fuji_adapt p code gr);
     gs \<leftarrow> put (grad_even info) t grads;
     let info = info\<lparr>grad_even := gs\<rparr>;
     let interp_val = (if grad < 0 then shr interp_val 2 - code else shr interp_val 2 + code);
     info \<leftarrow> wr_line lw k (pos + 1) (fuji_value p interp_val) info;
     Some (errcnt, info) }"

definition fuji_decode_sample_odd ::
    "fuji_params \<Rightarrow> int \<Rightarrow> int \<Rightarrow> int \<Rightarrow> fuji_block \<Rightarrow> (int \<times> fuji_block) option" where
  "fuji_decode_sample_odd p k pos t info = do {
     let lw = line_width p;
     Ra \<leftarrow> rd_line lw info k pos;
     Rb \<leftarrow> rd_line lw info (k - 1) (pos + 1);
     Rc \<leftarrow> rd_line lw info (k - 1) pos;
     Rd \<leftarrow> rd_line lw info (k - 1) (pos + 2);
     Rg \<leftarrow> rd_line lw info k (pos + 2);
     grad \<leftarrow> fuji_quant_gradient p (Rb - Rc) (Rc - Ra);
     let gradient = ABS_c grad;
     let interp_val =
       (if (Rb > Rc \<and> Rb > Rd) \<or> (Rb < Rc \<and> Rb < Rd) then shr (Rg + Ra + 2 * Rb) 2
        else shr (Ra + Rg) 1);
     grads \<leftarrow> at (grad_odd info) t;
     gr \<leftarrow> at grads gradient;
     (code, info) \<leftarrow> fuji_code p gr info;
     let errcnt = of_bool (code < 0 \<or> code \<ge> total_values p);
     let code = fuji_signed code;
     grads \<leftarrow> put grads gradient (fuji_adapt p code gr);
     gs \<leftarrow> put (grad_odd info) t grads;
     let info = info\<lparr>grad_odd := gs\<rparr>;
     let interp_val = (if grad < 0 then interp_val - code else interp_val + code);
     info \<leftarrow> wr_line lw k (pos + 1) (fuji_value p interp_val) info;
     Some (errcnt, info) }"

definition fuji_decode_interpolation_even ::
    "int \<Rightarrow> int \<Rightarrow> int \<Rightarrow> fuji_block \<Rightarrow> fuji_block option" where
  "fuji_decode_interpolation_even lw k pos info = do {
     Rb \<leftarrow> rd_line lw info (k - 1) (pos + 1);
     Rc \<leftarrow> rd_line lw info (k - 1) pos;
     Rd \<leftarrow> rd_line lw info (k - 1) (pos + 2);
     Rf \<leftarrow> rd_line lw info (k - 2) (pos + 1);
     let diffRcRb = ABS_c (Rc - Rb);
     let diffRfRb = ABS_c (Rf - Rb);
     let diffRdRb = ABS_c (Rd - Rb);
     wr_line lw k (pos + 1)
       (if diffRcRb > diffRfRb \<and> diffRcRb > diffRdRb then shr (Rf + Rd + 2 * Rb) 2
        else if diffRdRb > diffRcRb \<and> diffRdRb > diffRfRb then shr (Rf + Rc + 2 * Rb) 2
        else shr (Rd + Rc + 2 * Rb) 2) info }"

definition fuji_extend_generic :: "int \<Rightarrow> int \<Rightarrow> int \<Rightarrow> fuji_block \<Rightarrow> fuji_block option" where
  "fuji_extend_generic lw first_line last_line = for_up first_line (last_line + 1) (\<lambda>i info. do {
     v \<leftarrow> rd_line lw info (i - 1) 1;
     info \<leftarrow> wr_line lw i 0 v info;
     v \<leftarrow> rd_line lw info (i - 1) lw;
     wr_line lw i (lw + 1) v info })"

definition fuji_extend_red :: "int \<Rightarrow> fuji_block \<Rightarrow> fuji_block option" where
  "fuji_extend_red lw = fuji_extend_generic lw fl_R2 fl_R4"

definition fuji_extend_green :: "int \<Rightarrow> fuji_block \<Rightarrow> fuji_block option" where
  "fuji_extend_green lw = fuji_extend_generic lw fl_G2 fl_G7"

definition fuji_extend_blue :: "int \<Rightarrow> fuji_block \<Rightarrow> fuji_block option" where
  "fuji_extend_blue lw = fuji_extend_generic lw fl_B2 fl_B4"

section \<open>Blocks\<close>

text \<open>
  A phase decodes two lines in step: the even samples of both, and from the ninth sample on the
  odd ones behind them. The positions of the two colours are equal throughout a phase, so one
  pair \<open>(ev, od)\<close> stands for both. The state carries \<open>errcnt\<close>.
\<close>

type_synonym fuji_step = "int \<Rightarrow> int \<times> fuji_block \<Rightarrow> (int \<times> fuji_block) option"

partial_function (option) fuji_phase ::
    "int \<Rightarrow> fuji_step \<Rightarrow> fuji_step \<Rightarrow> int \<Rightarrow> int \<Rightarrow> int \<times> fuji_block \<Rightarrow> (int \<times> fuji_block) option" where
  "fuji_phase lw evens odds ev od st =
     (if ev < lw \<or> od < lw then do {
        (ev, st) \<leftarrow> (if ev < lw then do { st \<leftarrow> evens ev st; Some (ev + 2, st) } else Some (ev, st));
        (od, st) \<leftarrow> (if ev > 8 then do { st \<leftarrow> odds od st; Some (od + 2, st) } else Some (od, st));
        fuji_phase lw evens odds ev od st }
      else Some st)"

definition fuji_even :: "fuji_params \<Rightarrow> int \<Rightarrow> int \<Rightarrow> fuji_step" where
  "fuji_even p k t pos = (\<lambda>(errcnt, info). do {
     (e, info) \<leftarrow> fuji_decode_sample_even p k pos t info; Some (errcnt + e, info) })"

definition fuji_odd :: "fuji_params \<Rightarrow> int \<Rightarrow> int \<Rightarrow> fuji_step" where
  "fuji_odd p k t pos = (\<lambda>(errcnt, info). do {
     (e, info) \<leftarrow> fuji_decode_sample_odd p k pos t info; Some (errcnt + e, info) })"

definition fuji_interp :: "fuji_params \<Rightarrow> int \<Rightarrow> fuji_step" where
  "fuji_interp p k pos = (\<lambda>(errcnt, info). do {
     info \<leftarrow> fuji_decode_interpolation_even (line_width p) k pos info; Some (errcnt, info) })"

definition then_step :: "fuji_step \<Rightarrow> fuji_step \<Rightarrow> fuji_step" where
  "then_step f1 f2 pos st = do { st \<leftarrow> f1 pos st; f2 pos st }"

definition fuji_lift :: "(fuji_block \<Rightarrow> fuji_block option) \<Rightarrow> int \<times> fuji_block \<Rightarrow> (int \<times> fuji_block) option" where
  "fuji_lift f = (\<lambda>(errcnt, info). do { info \<leftarrow> f info; Some (errcnt, info) })"

definition fuji_end_block :: "int \<times> fuji_block \<Rightarrow> fuji_block" where
  "fuji_end_block = (\<lambda>(errcnt, info). if errcnt \<noteq> 0 then info\<lparr>fio := derror (fio info)\<rparr> else info)"

definition xtrans_decode_block :: "fuji_params \<Rightarrow> fuji_block \<Rightarrow> fuji_block option" where
  "xtrans_decode_block p info = do {
     let lw = line_width p;
     let red_green = (\<lambda>st. do { st \<leftarrow> fuji_lift (fuji_extend_red lw) st; fuji_lift (fuji_extend_green lw) st });
     let green_blue = (\<lambda>st. do { st \<leftarrow> fuji_lift (fuji_extend_green lw) st; fuji_lift (fuji_extend_blue lw) st });
     st \<leftarrow> fuji_phase lw (then_step (fuji_interp p fl_R2) (fuji_even p fl_G2 0))
            (then_step (fuji_odd p fl_R2 0) (fuji_odd p fl_G2 0)) 0 1 (0, info);
     st \<leftarrow> red_green st;
     st \<leftarrow> fuji_phase lw (then_step (fuji_even p fl_G3 1) (fuji_interp p fl_B2))
            (then_step (fuji_odd p fl_G3 1) (fuji_odd p fl_B2 1)) 0 1 st;
     st \<leftarrow> green_blue st;
     st \<leftarrow> fuji_phase lw
            (then_step (\<lambda>pos. if pos AND 3 \<noteq> 0 then fuji_even p fl_R3 2 pos else fuji_interp p fl_R3 pos)
                       (fuji_interp p fl_G4))
            (then_step (fuji_odd p fl_R3 2) (fuji_odd p fl_G4 2)) 0 1 st;
     st \<leftarrow> red_green st;
     st \<leftarrow> fuji_phase lw
            (then_step (fuji_even p fl_G5 0)
                       (\<lambda>pos. if pos AND 3 = 2 then fuji_interp p fl_B3 pos else fuji_even p fl_B3 0 pos))
            (then_step (fuji_odd p fl_G5 0) (fuji_odd p fl_B3 0)) 0 1 st;
     st \<leftarrow> green_blue st;
     st \<leftarrow> fuji_phase lw
            (then_step (\<lambda>pos. if pos AND 3 = 2 then fuji_interp p fl_R4 pos else fuji_even p fl_R4 1 pos)
                       (fuji_even p fl_G6 1))
            (then_step (fuji_odd p fl_R4 1) (fuji_odd p fl_G6 1)) 0 1 st;
     st \<leftarrow> red_green st;
     st \<leftarrow> fuji_phase lw
            (then_step (fuji_interp p fl_G7)
                       (\<lambda>pos. if pos AND 3 \<noteq> 0 then fuji_even p fl_B4 2 pos else fuji_interp p fl_B4 pos))
            (then_step (fuji_odd p fl_G7 2) (fuji_odd p fl_B4 2)) 0 1 st;
     st \<leftarrow> green_blue st;
     Some (fuji_end_block st) }"

definition fuji_bayer_decode_block :: "fuji_params \<Rightarrow> fuji_block \<Rightarrow> fuji_block option" where
  "fuji_bayer_decode_block p info = do {
     let lw = line_width p;
     let red_green = (\<lambda>st. do { st \<leftarrow> fuji_lift (fuji_extend_red lw) st; fuji_lift (fuji_extend_green lw) st });
     let green_blue = (\<lambda>st. do { st \<leftarrow> fuji_lift (fuji_extend_green lw) st; fuji_lift (fuji_extend_blue lw) st });
     let phase = (\<lambda>k1 k2 t st. fuji_phase lw (then_step (fuji_even p k1 t) (fuji_even p k2 t))
                    (then_step (fuji_odd p k1 t) (fuji_odd p k2 t)) 0 1 st);
     st \<leftarrow> phase fl_R2 fl_G2 0 (0, info);
     st \<leftarrow> red_green st;
     st \<leftarrow> phase fl_G3 fl_B2 1 st;
     st \<leftarrow> green_blue st;
     st \<leftarrow> phase fl_R3 fl_G4 2 st;
     st \<leftarrow> red_green st;
     st \<leftarrow> phase fl_G5 fl_B3 0 st;
     st \<leftarrow> green_blue st;
     st \<leftarrow> phase fl_R4 fl_G6 1 st;
     st \<leftarrow> red_green st;
     st \<leftarrow> phase fl_G7 fl_B4 2 st;
     st \<leftarrow> green_blue st;
     Some (fuji_end_block st) }"

section \<open>Strips\<close>

definition fuji_raw_offset :: "fuji_header \<Rightarrow> int \<Rightarrow> int \<Rightarrow> int" where
  "fuji_raw_offset fh cur_line cur_block =
     c_s32 (fh_block_width fh * cur_block + 6 * fh_raw_width fh * cur_line)"

definition copy_line_to_xtrans ::
    "geom \<Rightarrow> fuji_header \<Rightarrow> fuji_params \<Rightarrow> fuji_block \<Rightarrow> int \<Rightarrow> int \<Rightarrow> int \<Rightarrow> u16 list \<Rightarrow> u16 list option" where
  "copy_line_to_xtrans g fh p info cur_line cur_block cur_block_width raw =
     for_up 0 6 (\<lambda>row_count raw.
       for_up 0 (c_u32 cur_block_width) (\<lambda>pixel_count raw. do {
         r \<leftarrow> at (xtrans_abs g) row_count;
         color \<leftarrow> at r (pixel_count mod 6);
         let k = (if color = 0 then fl_R2 + shr row_count 1
                  else if color = 2 then fl_B2 + shr row_count 1
                  else fl_G2 + row_count);
         let index = (((pixel_count * 2 div 3) AND 0x7FFFFFFE) OR ((pixel_count mod 3) AND 1))
                     + shr (pixel_count mod 3) 1;
         v \<leftarrow> rd_line (line_width p) info k (index + 1);
         wr raw (fuji_raw_offset fh cur_line cur_block + row_count * fh_raw_width fh + pixel_count) v })
         raw) raw"

definition copy_line_to_bayer ::
    "int \<Rightarrow> fuji_header \<Rightarrow> fuji_params \<Rightarrow> fuji_block \<Rightarrow> int \<Rightarrow> int \<Rightarrow> int \<Rightarrow> u16 list \<Rightarrow> u16 list option" where
  "copy_line_to_bayer flt fh p info cur_line cur_block cur_block_width raw =
     for_up 0 6 (\<lambda>row_count raw.
       for_up 0 (c_u32 cur_block_width) (\<lambda>pixel_count raw. do {
         let color = FC flt (row_count AND 1) (pixel_count AND 1);
         let k = (if color = 0 then fl_R2 + shr row_count 1
                  else if color = 2 then fl_B2 + shr row_count 1
                  else fl_G2 + row_count);
         v \<leftarrow> rd_line (line_width p) info k (shr pixel_count 1 + 1);
         wr raw (fuji_raw_offset fh cur_line cur_block + row_count * fh_raw_width fh + pixel_count) v })
         raw) raw"

text \<open>\<open>memcpy\<close> of one line, \<open>memset\<close> of \<open>n\<close> lines.\<close>

definition copy_line :: "int \<Rightarrow> int \<times> int \<Rightarrow> fuji_block \<Rightarrow> fuji_block option" where
  "copy_line lw ab info = for_up 0 (lw + 2) (\<lambda>j info. do {
     v \<leftarrow> rd_line lw info (snd ab) j;
     wr_line lw (fst ab) j v info }) info"

definition zero_lines :: "int \<Rightarrow> int \<Rightarrow> int \<Rightarrow> fuji_block \<Rightarrow> fuji_block option" where
  "zero_lines lw k n info = for_up 0 (n * (lw + 2)) (\<lambda>j info. wr_line lw k j 0 info) info"

definition fuji_mtable :: "(int \<times> int) list" where
  "fuji_mtable =
     [(fl_R0, fl_R3), (fl_R1, fl_R4), (fl_G0, fl_G6), (fl_G1, fl_G7), (fl_B0, fl_B3), (fl_B1, fl_B4)]"

definition fuji_ztable :: "(int \<times> int) list" where
  "fuji_ztable = [(fl_R2, 3), (fl_G2, 6), (fl_B2, 3)]"

fun fuji_each :: "('a \<Rightarrow> 's \<Rightarrow> 's option) \<Rightarrow> 'a list \<Rightarrow> 's \<Rightarrow> 's option" where
  "fuji_each f [] s = Some s"
| "fuji_each f (x # xs) s = do { s \<leftarrow> f x s; fuji_each f xs s }"

definition fuji_advance :: "int \<Rightarrow> fuji_block \<Rightarrow> fuji_block option" where
  "fuji_advance lw = fuji_each (copy_line lw) fuji_mtable"

definition fuji_reset :: "int \<Rightarrow> fuji_block \<Rightarrow> fuji_block option" where
  "fuji_reset lw = fuji_each (\<lambda>(k, n) info. do {
     info \<leftarrow> zero_lines lw k n info;
     v \<leftarrow> rd_line lw info (k - 1) 1;
     info \<leftarrow> wr_line lw k 0 v info;
     v \<leftarrow> rd_line lw info (k - 1) lw;
     wr_line lw k (lw + 1) v info }) fuji_ztable"

definition fuji_decode_line ::
    "geom \<Rightarrow> fuji_header \<Rightarrow> fuji_params \<Rightarrow> int \<Rightarrow> int \<Rightarrow> int \<Rightarrow> int \<Rightarrow> fuji_block \<times> u16 list
      \<Rightarrow> (fuji_block \<times> u16 list) option" where
  "fuji_decode_line g fh p flt cur_block cur_block_width cur_line = (\<lambda>(info, raw). do {
     info \<leftarrow> (if fh_raw_type fh = 16 then xtrans_decode_block p info
              else fuji_bayer_decode_block p info);
     info \<leftarrow> fuji_advance (line_width p) info;
     raw \<leftarrow> (if fh_raw_type fh = 16
             then copy_line_to_xtrans g fh p info cur_line cur_block cur_block_width raw
             else copy_line_to_bayer flt fh p info cur_line cur_block cur_block_width raw);
     info \<leftarrow> fuji_reset (line_width p) info;
     Some (info, raw) })"

definition fuji_decode_strip ::
    "geom \<Rightarrow> fuji_header \<Rightarrow> fuji_params \<Rightarrow> int \<Rightarrow> int \<Rightarrow> int \<Rightarrow> dst \<Rightarrow> dst option" where
  "fuji_decode_strip g fh p cur_block raw_offset dsize s = do {
     let info = init_fuji_block g p raw_offset dsize (dio s);
     let cur_block_width =
       (if cur_block + 1 = fh_total_blocks fh
        then c_s32 (fh_raw_width fh - fh_block_width fh * cur_block) else fh_block_width fh);
     (info, raw) \<leftarrow> for_up 0 (fh_total_lines fh)
       (fuji_decode_line g fh p (filters s) cur_block cur_block_width) (info, raw_image s);
     Some (s\<lparr>raw_image := raw, dio := fio info\<rparr>) }"

text \<open>
  The strips are decoded one after the other; under OpenMP the loop is shared between threads,
  each with a block of its own, which write disjoint columns and seek before every read.
\<close>

definition fuji_decode_loop ::
    "geom \<Rightarrow> fuji_header \<Rightarrow> fuji_params \<Rightarrow> int \<Rightarrow> int list \<Rightarrow> int list \<Rightarrow> dst \<Rightarrow> dst option" where
  "fuji_decode_loop g fh p count raw_block_offsets block_sizes =
     for_up 0 count (\<lambda>cur_block s. do {
       off \<leftarrow> at raw_block_offsets cur_block;
       sz \<leftarrow> at block_sizes cur_block;
       fuji_decode_strip g fh p cur_block off sz s })"

definition fuji_block_sizes :: "geom \<Rightarrow> fuji_header \<Rightarrow> bitio \<Rightarrow> int list \<times> bitio" where
  "fuji_block_sizes g fh io =
     (let n = 4 * fh_total_blocks fh;
          (bs, io) = fread n (fseek_set (data_offset g) io);
          mem = overlay bs (uninit g n)
      in (map (\<lambda>k. sgetn 4 (drop (4 * k) mem)) [0..<nat (fh_total_blocks fh)], io))"

fun fuji_offsets :: "int \<Rightarrow> int list \<Rightarrow> int list" where
  "fuji_offsets raw_offset [] = []"
| "fuji_offsets raw_offset (sz # szs) = raw_offset # fuji_offsets (raw_offset + sz) szs"

definition fuji_compressed_load_raw :: "geom \<Rightarrow> fuji_header \<Rightarrow> dst \<Rightarrow> dst option" where
  "fuji_compressed_load_raw g fh s = do {
     (p, io) \<leftarrow> init_fuji_compr g fh (dio s);
     let raw_offset = 4 * fh_total_blocks fh;
     let raw_offset = (if raw_offset AND 0xC \<noteq> 0 then raw_offset + (0x10 - (raw_offset AND 0xC))
                       else raw_offset);
     let (block_sizes, io) = fuji_block_sizes g fh io;
     let raw_block_offsets = fuji_offsets (raw_offset + data_offset g) block_sizes;
     fuji_decode_loop g fh p (fh_total_blocks fh) raw_block_offsets block_sizes (s\<lparr>dio := io\<rparr>) }"

end
