(* ===== verification/FujiBits.thy ===== *)
theory FujiBits
  imports Fuji
begin

text \<open>
  What the input of a strip of the compressed RAF format delivers: the bits of the bytes not yet
  consumed, most significant first, whatever the state of the buffer; past the end of the data
  every bit is zero, so that the unary part of a code never ends there.
\<close>

section \<open>The bytes ahead\<close>

definition fuji_bytes :: "fuji_block \<Rightarrow> u8 list" where
  "fuji_bytes info =
     drop (nat (cur_pos info)) (take (nat (cur_buf_size info)) (cur_buf info))
     @ take (nat (max_read_size info))
         (drop (nat (cur_buf_offset info + cur_buf_size info)) (ifile (fio info)))"

definition fuji_bits :: "fuji_block \<Rightarrow> bool list" where
  "fuji_bits info = drop (nat (cur_bit info)) (concat (map byte_bits (fuji_bytes info)))"

text \<open>
  The invariant between two calls of \<open>fuji_fill_buffer\<close>, and after one: then the current byte is
  in the buffer, or there are no data left and it is zero.
\<close>

definition fuji_mid :: "fuji_block \<Rightarrow> bool" where
  "fuji_mid info \<longleftrightarrow> 0 \<le> cur_pos info \<and> 0 \<le> cur_buf_size info \<and> cur_buf_size info \<le> 0x10000
     \<and> length (cur_buf info) = 0x10000 \<and> 0 \<le> cur_bit info \<and> cur_bit info \<le> 7
     \<and> 0 \<le> max_read_size info \<and> 0 \<le> cur_buf_offset info
     \<and> (fillbytes info = 1
        \<or> (fillbytes info = 0 \<and> cur_buf_size info = 0 \<and> cur_buf info ! 0 = 0 \<and> fuji_bytes info = []))"

definition fuji_ok :: "fuji_block \<Rightarrow> bool" where
  "fuji_ok info \<longleftrightarrow> fuji_mid info \<and>
     (cur_pos info < cur_buf_size info \<or> (cur_pos info = 0 \<and> cur_buf_size info = 0 \<and> fillbytes info = 0))"

definition same_lines :: "fuji_block \<Rightarrow> fuji_block \<Rightarrow> bool" where
  "same_lines a b \<longleftrightarrow> grad_even b = grad_even a \<and> grad_odd b = grad_odd a \<and> linealloc b = linealloc a"

lemma take_split_read:
  "k \<le> m \<Longrightarrow> take k X @ take (m - length (take k X)) (drop (length (take k X)) X) = take m X"
proof (cases "k \<le> length X")
  case True
  assume "k \<le> m"
  then have "take (k + (m - k)) X = take k X @ take (m - k) (drop k X)" by (rule_tac take_add)
  with True \<open>k \<le> m\<close> show ?thesis by simp
qed simp

lemma fill_at_end:
  assumes "fuji_mid info" "cur_buf_size info \<le> cur_pos info"
  defines "rest \<equiv> take (nat (max_read_size info))
    (drop (nat (cur_buf_offset info + cur_buf_size info)) (ifile (fio info)))"
  defines "bs \<equiv> take (nat (MIN_c (max_read_size info) 0x10000))
    (drop (nat (cur_buf_offset info + cur_buf_size info)) (ifile (fio info)))"
  shows "cur_pos (fuji_fill_buffer info) = 0"
    and "cur_buf_offset (fuji_fill_buffer info) = cur_buf_offset info + cur_buf_size info"
    and "cur_buf_size (fuji_fill_buffer info) = int (length bs)"
    and "cur_buf (fuji_fill_buffer info) =
      (if bs = [] \<and> fillbytes info > 0 then overlay [0] (cur_buf info) else overlay bs (cur_buf info))"
    and "fillbytes (fuji_fill_buffer info) = (if bs = [] then 0 else fillbytes info)"
    and "max_read_size (fuji_fill_buffer info) = max_read_size info - int (length bs)"
    and "ifile (fio (fuji_fill_buffer info)) = ifile (fio info)"
    and "cur_bit (fuji_fill_buffer info) = cur_bit info"
    and "same_lines info (fuji_fill_buffer info)"
    and "fuji_bytes info = rest" and "length bs \<le> 0x10000" and "int (length bs) \<le> max_read_size info"
proof -
  note inv = assms(1) [unfolded fuji_mid_def]
  have off: "0 \<le> cur_buf_offset info + cur_buf_size info" using inv by simp
  have bs: "fread (MIN_c (max_read_size info) 0x10000)
      (fseek_set (cur_buf_offset info + cur_buf_size info) (fio info))
    = (bs, fio info\<lparr>ipos := cur_buf_offset info + cur_buf_size info + int (length bs)\<rparr>)"
    using off by (simp add: fread_def fseek_set_def bs_def Let_def)
  have fb: "fillbytes info = 1 \<or> fillbytes info = 0" using inv by auto
  have z: "MAX_c 1 (MIN_c 1 65536) = 1" by code_simp
  have f: "fuji_fill_buffer info = info\<lparr>cur_pos := 0, cur_buf_offset := cur_buf_offset info + cur_buf_size info,
      cur_buf_size := int (length bs),
      cur_buf := (if bs = [] \<and> fillbytes info > 0 then overlay [0] (cur_buf info) else overlay bs (cur_buf info)),
      fillbytes := (if bs = [] then 0 else fillbytes info), max_read_size := max_read_size info - int (length bs),
      fio := fio info\<lparr>ipos := cur_buf_offset info + cur_buf_size info + int (length bs)\<rparr>\<rparr>"
    unfolding fuji_fill_buffer_def using assms(2) fb
    by (auto simp: Let_def z overlay_def zeros_def bs)
  show "cur_pos (fuji_fill_buffer info) = 0"
    "cur_buf_offset (fuji_fill_buffer info) = cur_buf_offset info + cur_buf_size info"
    "cur_buf_size (fuji_fill_buffer info) = int (length bs)"
    "cur_buf (fuji_fill_buffer info) =
      (if bs = [] \<and> fillbytes info > 0 then overlay [0] (cur_buf info) else overlay bs (cur_buf info))"
    "fillbytes (fuji_fill_buffer info) = (if bs = [] then 0 else fillbytes info)"
    "max_read_size (fuji_fill_buffer info) = max_read_size info - int (length bs)"
    "ifile (fio (fuji_fill_buffer info)) = ifile (fio info)"
    "cur_bit (fuji_fill_buffer info) = cur_bit info"
    "same_lines info (fuji_fill_buffer info)"
    unfolding f same_lines_def by simp_all
  show "fuji_bytes info = rest"
    using assms(2) inv by (simp add: fuji_bytes_def rest_def)
  show "length bs \<le> 0x10000" "int (length bs) \<le> max_read_size info"
    using inv by (auto simp: bs_def MIN_c_def min_def)
qed

lemma fuji_fill_ok:
  assumes "fuji_mid info"
  shows "fuji_ok (fuji_fill_buffer info) \<and> fuji_bytes (fuji_fill_buffer info) = fuji_bytes info
    \<and> cur_bit (fuji_fill_buffer info) = cur_bit info \<and> same_lines info (fuji_fill_buffer info)"
proof (cases "cur_buf_size info \<le> cur_pos info")
  case False
  then have "fuji_fill_buffer info = info" by (simp add: fuji_fill_buffer_def)
  with False assms show ?thesis by (simp add: fuji_ok_def same_lines_def)
next
  case True
  note inv = assms [unfolded fuji_mid_def]
  note f = fill_at_end [OF assms True]
  let ?X = "drop (nat (cur_buf_offset info + cur_buf_size info)) (ifile (fio info))"
  let ?k = "nat (MIN_c (max_read_size info) 0x10000)"
  let ?m = "nat (max_read_size info)"
  have k: "?k \<le> ?m" by (rule nat_mono) (simp add: MIN_c_def)
  have all: "take ?k ?X @ take (?m - length (take ?k ?X)) (drop (length (take ?k ?X)) ?X) = take ?m ?X"
    by (rule take_split_read [OF k])
  have empty: "take ?m ?X = []" if "take ?k ?X = []"
    using that k inv by (auto simp: MIN_c_def split: if_splits)
  have bytes: "fuji_bytes (fuji_fill_buffer info) = take ?m ?X"
  proof (cases "take ?k ?X = []")
    case True
    show ?thesis unfolding fuji_bytes_def f(1-3,6,7) True by simp
  next
    case False
    have d: "drop (nat (cur_buf_offset info + cur_buf_size info + int (length (take ?k ?X)))) (ifile (fio info))
        = drop (length (take ?k ?X)) ?X"
      using inv by (simp add: nat_add_distrib add.commute)
    have "nat (a - int l) = nat a - l" for a l by arith
    then have n: "nat (max_read_size info - int (length (take ?k ?X))) = ?m - length (take ?k ?X)" .
    have o: "take (nat (int (length B))) (overlay B C) = B" for B C
      by (simp add: overlay_def)
    have b: "cur_buf (fuji_fill_buffer info) = overlay (take ?k ?X) (cur_buf info)"
      unfolding f(4) using False by simp
    show ?thesis
      unfolding fuji_bytes_def f(1-3,6,7) b d n o nat_0 drop_0 by (rule all)
  qed
  have len: "length (cur_buf (fuji_fill_buffer info)) = 0x10000"
    unfolding f(4) using inv f(11) by (auto simp: overlay_def)
  have fb: "fillbytes info = 1 \<or> fillbytes info = 0 \<and> cur_buf info ! 0 = 0 \<and> take ?m ?X = []"
    using inv f(10) by auto
  have z: "cur_buf (fuji_fill_buffer info) ! 0 = 0" if "take ?k ?X = []"
    using that fb inv unfolding f(4) by (auto simp: overlay_def)
  have "fuji_mid (fuji_fill_buffer info)"
  proof (cases "take ?k ?X = []")
    case True
    then show ?thesis
      using inv len z [OF True] bytes empty [OF True] unfolding fuji_mid_def f(1-3,5,6,8) True by simp
  next
    case False
    then have "take ?m ?X \<noteq> []" using all by auto
    then show ?thesis
      using inv len fb f(11,12) False unfolding fuji_mid_def f(1-3,5,6,8) by auto
  qed
  then show ?thesis
    using bytes f(8-10) unfolding fuji_ok_def f(1,3,5) by auto
qed


section \<open>The bits ahead\<close>

lemma fuji_fill_step:
  assumes "fuji_ok info" "0 \<le> c" "c \<le> 7"
    and "after_fill = fuji_fill_buffer (info\<lparr>cur_bit := c, cur_pos := cur_pos info + 1\<rparr>)"
  shows "fuji_ok after_fill" "fuji_bytes after_fill = tl (fuji_bytes info)" "cur_bit after_fill = c" "same_lines info after_fill"
proof -
  let ?i = "info\<lparr>cur_bit := c, cur_pos := cur_pos info + 1\<rparr>"
  note inv = assms(1) [unfolded fuji_ok_def fuji_mid_def]
  have b: "fuji_bytes ?i = tl (fuji_bytes info)"
  proof (cases "cur_pos info < cur_buf_size info")
    case True
    then have "nat (cur_pos info) < length (take (nat (cur_buf_size info)) (cur_buf info))"
      using inv by (auto simp: min_def)
    then have "drop (nat (cur_pos info)) (take (nat (cur_buf_size info)) (cur_buf info)) \<noteq> []"
      by (metis drop_eq_Nil not_le)
    moreover have "nat (cur_pos info + 1) = Suc (nat (cur_pos info))" using inv by auto
    ultimately show ?thesis
      by (simp add: fuji_bytes_def drop_Suc tl_drop)
  next
    case False
    with inv have e: "cur_buf_size info = 0" "fuji_bytes info = []" by auto
    then have "fuji_bytes ?i = fuji_bytes info" by (simp add: fuji_bytes_def)
    with e show ?thesis by simp
  qed
  have "fuji_mid ?i"
    using inv assms(2,3) b by (auto simp: fuji_mid_def)
  from fuji_fill_ok [OF this] b
  show "fuji_ok after_fill" "fuji_bytes after_fill = tl (fuji_bytes info)" "cur_bit after_fill = c" "same_lines info after_fill"
    by (auto simp: assms(4) same_lines_def)
qed

text \<open>The current byte: the next one, or zero at the end.\<close>

lemma fuji_cur_byte:
  assumes "fuji_ok info"
  shows "rd (cur_buf info) (cur_pos info) =
    Some (case fuji_bytes info of [] \<Rightarrow> 0 | b # bs \<Rightarrow> uint b)"
proof -
  note inv = assms [unfolded fuji_ok_def fuji_mid_def]
  have i: "inb (cur_buf info) (cur_pos info)" using inv by (auto simp: inb_def)
  show ?thesis
  proof (cases "cur_pos info < cur_buf_size info")
    case True
    then have l: "nat (cur_pos info) < length (take (nat (cur_buf_size info)) (cur_buf info))"
      using inv by (auto simp: min_def)
    then have "drop (nat (cur_pos info)) (take (nat (cur_buf_size info)) (cur_buf info))
      = cur_buf info ! nat (cur_pos info) # drop (Suc (nat (cur_pos info))) (take (nat (cur_buf_size info)) (cur_buf info))"
      by (simp add: Cons_nth_drop_Suc [OF l, symmetric])
    then show ?thesis using i by (simp add: rd_def fuji_bytes_def)
  next
    case False
    with inv have "cur_pos info = 0" "fuji_bytes info = []" "cur_buf info ! 0 = 0" by auto
    then show ?thesis using i by (simp add: rd_def)
  qed
qed

lemma bits_val_sub_byte:
  assumes "c + r \<le> 8"
  shows "bits_val (take r (drop c (byte_bits b))) = take_bit r (drop_bit (8 - c - r) (uint b))"
proof (rule bit_eqI)
  fix i
  show "bit (bits_val (take r (drop c (byte_bits b)))) i = bit (take_bit r (drop_bit (8 - c - r) (uint b))) i"
  proof (cases "i < r")
    case True
    then have "r - Suc i < r" "8 - Suc (c + (r - Suc i)) = 8 - c - r + i"
      "8 - c - r + i < 8" using assms by auto
    with True assms show ?thesis
      by (simp add: bit_bits_val rev_nth byte_bits_def bit_take_bit_iff bit_drop_bit_eq bit_uint_iff del: diff_diff_left)
  next
    case False
    then show ?thesis by (auto simp: bit_bits_val bit_take_bit_iff)
  qed
qed

lemma and_7: "(x::int) AND 7 = x mod 8"
  using take_bit_eq_mask [of 3 x] by (simp add: mask_eq_exp_minus_1 take_bit_eq_mod)

lemma fuji_ok_cur_bit:
  "fuji_ok info \<Longrightarrow> 0 \<le> c \<Longrightarrow> c \<le> 7 \<Longrightarrow> fuji_ok (info\<lparr>cur_bit := c\<rparr>)"
  "fuji_bytes (info\<lparr>cur_bit := c\<rparr>) = fuji_bytes info"
  by (auto simp: fuji_ok_def fuji_mid_def fuji_bytes_def)

lemma fuji_next_bit_ok:
  assumes "fuji_ok info"
  shows "\<exists>info'. fuji_next_bit info = Some (case fuji_bits info of [] \<Rightarrow> 0 | b # bs \<Rightarrow> of_bool b, info')
    \<and> fuji_bits info' = tl (fuji_bits info) \<and> fuji_ok info' \<and> same_lines info info'"
proof -
  note inv = assms [unfolded fuji_ok_def fuji_mid_def]
  let ?c = "nat (cur_bit info)" and ?n = "(cur_bit info + 1) AND 7"
  let ?b = "case fuji_bytes info of [] \<Rightarrow> 0 | b # bs \<Rightarrow> uint b"
  have c: "0 \<le> cur_bit info" "cur_bit info \<le> 7" "?c \<le> 7" using inv by auto
  have bit: "shr ?b (7 - cur_bit info) AND 1 = (case fuji_bits info of [] \<Rightarrow> 0 | b # bs \<Rightarrow> of_bool b)"
  proof (cases "fuji_bytes info")
    case (Cons b bs)
    have "drop ?c (byte_bits b) = byte_bits b ! ?c # drop (Suc ?c) (byte_bits b)"
      using c by (simp add: Cons_nth_drop_Suc)
    moreover have "shr (uint b) (7 - cur_bit info) AND 1 = of_bool (byte_bits b ! ?c)"
    proof -
      have "byte_bits b ! ?c = bit (uint b) (7 - ?c)"
      proof -
        have "7 - ?c < 8" by arith
        then show ?thesis using c by (simp add: byte_bits_def rev_nth bit_uint_iff)
      qed
      also have "\<dots> = odd (drop_bit (7 - ?c) (uint b))" by (rule bit_iff_odd_drop_bit)
      finally show ?thesis
        using c by (simp add: shr_def and_one_eq mod2_eq_if nat_diff_distrib')
    qed
    ultimately show ?thesis using Cons c by (simp add: fuji_bits_def)
  qed (simp add: shr_def fuji_bits_def)
  show ?thesis
  proof (cases "cur_bit info = 7")
    case False
    then have n: "?n = cur_bit info + 1" using c by (simp add: and_7)
    have t: "fuji_bits (info\<lparr>cur_bit := cur_bit info + 1\<rparr>) = tl (fuji_bits info)"
      using c by (simp add: fuji_bits_def fuji_ok_cur_bit nat_add_distrib drop_Suc tl_drop)
    have k: "fuji_ok (info\<lparr>cur_bit := cur_bit info + 1\<rparr>)"
      by (rule fuji_ok_cur_bit) (use assms c False in auto)
    show ?thesis
      unfolding fuji_next_bit_def fuji_cur_byte [OF assms] using t k bit c n
      by (simp add: Let_def same_lines_def)
  next
    case True
    then have n: "?n = 0" by (simp add: and_7)
    let ?i = "fuji_fill_buffer (info\<lparr>cur_bit := 0, cur_pos := cur_pos info + 1\<rparr>)"
    note f = fuji_fill_step [OF assms, of 0 ?i, simplified]
    have t: "fuji_bits ?i = tl (fuji_bits info)"
    proof (cases "fuji_bytes info")
      case (Cons b bs)
      have "drop 7 (byte_bits b) = [byte_bits b ! 7]"
        using Cons_nth_drop_Suc [of 7 "byte_bits b"] by simp
      with Cons True f show ?thesis by (simp add: fuji_bits_def)
    qed (use f in \<open>simp add: fuji_bits_def\<close>)
    show ?thesis
      unfolding fuji_next_bit_def fuji_cur_byte [OF assms] using t f bit n
      by (simp add: Let_def)
  qed
qed

text \<open>
  A run of zeros that a one ends is counted; when no one is left, the loop goes on for ever: after
  any number of rounds it has seen nothing but zeros.
\<close>

lemma fuji_zerobits_unfold:
  "fuji_zerobits count info = (case fuji_next_bit info of None \<Rightarrow> None
    | Some (zero, info) \<Rightarrow> if zero \<noteq> 0 then Some (count, info) else fuji_zerobits (count + 1) info)"
  by (subst fuji_zerobits.simps) (auto split: option.splits bind_splits)

lemma fuji_zerobits_run:
  assumes "fuji_ok info" "fuji_bits info = replicate k False @ True # bs"
  shows "\<exists>info'. fuji_zerobits count info = Some (count + int k, info') \<and> fuji_bits info' = bs
    \<and> fuji_ok info' \<and> same_lines info info'"
  using assms
proof (induction k arbitrary: count info)
  case 0
  with fuji_next_bit_ok [OF 0(1)] show ?case by (subst fuji_zerobits_unfold) auto
next
  case (Suc k)
  from fuji_next_bit_ok [OF Suc.prems(1)] Suc.prems(2) obtain info1 where
    i: "fuji_next_bit info = Some (0, info1)" "fuji_bits info1 = replicate k False @ True # bs" "fuji_ok info1"
    "same_lines info info1" by auto
  from Suc.IH [OF i(3,2), of "count + 1"] i(1,4) show ?case
    by (subst fuji_zerobits_unfold) (auto simp: same_lines_def algebra_simps)
qed

fun fuji_rounds :: "nat \<Rightarrow> fuji_block \<Rightarrow> fuji_block option" where
  "fuji_rounds 0 info = Some info"
| "fuji_rounds (Suc n) info = (case fuji_next_bit info of
     Some (zero, info') \<Rightarrow> if zero = 0 then fuji_rounds n info' else None | None \<Rightarrow> None)"

lemma fuji_rounds_zero:
  assumes "fuji_ok info" "\<not> True \<in> set (fuji_bits info)"
  shows "\<exists>info'. fuji_rounds n info = Some info' \<and> fuji_ok info' \<and> \<not> True \<in> set (fuji_bits info')"
  using assms
proof (induction n arbitrary: info)
  case (Suc n)
  from fuji_next_bit_ok [OF Suc.prems(1)] obtain info1 where
    i: "fuji_next_bit info = Some (case fuji_bits info of [] \<Rightarrow> 0 | b # bs \<Rightarrow> of_bool b, info1)"
      "fuji_bits info1 = tl (fuji_bits info)" "fuji_ok info1" by auto
  have "\<not> True \<in> set (fuji_bits info1)" using Suc.prems(2) i(2) by (metis list.set_sel(2) tl_Nil)
  with Suc.IH [OF i(3)] Suc.prems(2) i(1) show ?case by (cases "fuji_bits info") auto
qed simp

section \<open>Numbers\<close>

lemma fuji_take_byte_ok:
  assumes "fuji_ok info" "fuji_bytes info = b # bs" "0 \<le> l" "l \<le> 8"
  shows "\<exists>info'. fuji_take_byte data l info =
      Some (data * 2 ^ nat l + bits_val (drop (8 - nat l) (byte_bits b)), info')
    \<and> fuji_bytes info' = bs \<and> fuji_ok info' \<and> cur_bit info' = cur_bit info \<and> same_lines info info'"
proof -
  note inv = assms(1) [unfolded fuji_ok_def fuji_mid_def]
  let ?i = "fuji_fill_buffer (info\<lparr>cur_pos := cur_pos info + 1\<rparr>)"
  have f: "fuji_ok ?i" "fuji_bytes ?i = tl (fuji_bytes info)" "cur_bit ?i = cur_bit info" "same_lines info ?i"
    using fuji_fill_step [OF assms(1), of "cur_bit info" ?i] inv by simp_all
  have m: "shl 1 l - 1 = mask (nat l)" by (simp add: shl_mult mask_eq_exp_minus_1)
  have v: "bits_val (drop (8 - nat l) (byte_bits b)) = take_bit (nat l) (uint b)"
    using bits_val_sub_byte [of "8 - nat l" "nat l" b] assms(3,4) by simp
  have "shl data l OR take_bit (nat l) (uint b) = shl data l + take_bit (nat l) (uint b)"
    by (rule shl_or_add) (simp_all add: take_bit_int_less_exp)
  then show ?thesis
    using f assms(2) unfolding fuji_take_byte_def fuji_cur_byte [OF assms(1)] v m
    by (simp add: shl_mult take_bit_eq_mask [symmetric])
qed

lemma fuji_take_bytes_ok:
  assumes "fuji_ok info" "fuji_bytes info = xs @ bs" "0 \<le> r" "r < 8"
  shows "\<exists>info'. fuji_take_bytes (8 * int (length xs) + r) data info =
      Some ((r, data * 2 ^ (8 * length xs) + bits_val (concat (map byte_bits xs))), info')
    \<and> fuji_bytes info' = bs \<and> fuji_ok info' \<and> cur_bit info' = cur_bit info \<and> same_lines info info'"
  using assms
proof (induction xs arbitrary: data info)
  case Nil
  then show ?case by (subst fuji_take_bytes.simps) (auto simp: same_lines_def)
next
  case (Cons x xs)
  from Cons.prems fuji_take_byte_ok [OF Cons.prems(1), of x "xs @ bs" 8 data] obtain info1 where
    i: "fuji_take_byte data 8 info = Some (data * 2 ^ 8 + bits_val (byte_bits x), info1)"
      "fuji_bytes info1 = xs @ bs" "fuji_ok info1" "cur_bit info1 = cur_bit info" "same_lines info info1"
    by auto
  have n: "8 * int (length (x # xs)) + r \<ge> 8" "8 * int (length (x # xs)) + r - 8 = 8 * int (length xs) + r"
    using Cons.prems(3) by simp_all
  have v: "bits_val (concat (map byte_bits (x # xs)))
      = bits_val (byte_bits x) * 2 ^ (8 * length xs) + bits_val (concat (map byte_bits xs))"
  proof -
    have "length (concat (map byte_bits xs)) = 8 * length xs" by (induction xs) auto
    then show ?thesis by (simp add: bits_val_append)
  qed
  have p: "data * 2 ^ (8 * length (x # xs)) = data * 2 ^ 8 * 2 ^ (8 * length xs)"
    by (simp add: power_add)
  from Cons.IH [OF i(3,2) Cons.prems(3,4), of "data * 2 ^ 8 + bits_val (byte_bits x)"] obtain info2 where
    j: "fuji_take_bytes (8 * int (length xs) + r) (data * 2 ^ 8 + bits_val (byte_bits x)) info1 =
      Some ((r, (data * 2 ^ 8 + bits_val (byte_bits x)) * 2 ^ (8 * length xs) + bits_val (concat (map byte_bits xs))), info2)"
      "fuji_bytes info2 = bs" "fuji_ok info2" "cur_bit info2 = cur_bit info1" "same_lines info1 info2"
    by blast
  have e: "(data * 2 ^ 8 + bits_val (byte_bits x)) * 2 ^ (8 * length xs) + bits_val (concat (map byte_bits xs))
      = data * 2 ^ (8 * length (x # xs)) + bits_val (concat (map byte_bits (x # xs)))"
    unfolding v p by (simp add: algebra_simps)
  have "fuji_take_bytes (8 * int (length (x # xs)) + r) data info =
      fuji_take_bytes (8 * int (length xs) + r) (data * 2 ^ 8 + bits_val (byte_bits x)) info1"
    by (subst fuji_take_bytes.simps) (simp only: n i(1) if_True option.case prod.case)
  with i(4,5) j show ?case unfolding e by (auto simp: same_lines_def)
qed

text \<open>What is left of a byte after its first \<open>8 - l\<close> bits: \<open>r\<close> bits of it as a number.\<close>

lemma fuji_tail_ok:
  assumes "fuji_ok info" "fuji_bytes info = b # bs" "1 \<le> r" "r < l" "l \<le> 8"
  shows "\<exists>info'. (do {
          v \<leftarrow> rd (cur_buf info) (cur_pos info);
          let left_in_byte = l - r;
          let data = shl data r OR ((shl 1 r - 1) AND shr v left_in_byte);
          Some (data, info\<lparr>cur_bit := (8 - (left_in_byte AND 7)) AND 7\<rparr>) })
      = Some (data * 2 ^ nat r + bits_val (take (nat r) (drop (8 - nat l) (byte_bits b))), info')
    \<and> fuji_bits info' = drop (8 - nat l + nat r) (byte_bits b) @ concat (map byte_bits bs)
    \<and> fuji_ok info' \<and> same_lines info info'"
proof -
  have m: "shl 1 r - 1 = mask (nat r)" by (simp add: shl_mult mask_eq_exp_minus_1)
  have n: "8 - (8 - nat l) - nat r = nat (l - r)" "8 - nat l + nat r \<le> 8" using assms(3-5) by auto
  have v: "bits_val (take (nat r) (drop (8 - nat l) (byte_bits b))) = take_bit (nat r) (drop_bit (nat (l - r)) (uint b))"
    using bits_val_sub_byte [of "8 - nat l" "nat r" b] n(2) unfolding n(1) .
  have "shl data r OR take_bit (nat r) (drop_bit (nat (l - r)) (uint b))
      = shl data r + take_bit (nat r) (drop_bit (nat (l - r)) (uint b))"
    by (rule shl_or_add) (simp_all add: take_bit_int_less_exp)
  moreover have c: "(8 - ((l - r) AND 7)) AND 7 = 8 - (l - r)"
  proof -
    have "(l - r) mod 8 = l - r" "(8 - (l - r)) mod 8 = 8 - (l - r)"
      by (rule mod_pos_pos_trivial; use assms(3-5) in simp)+
    then show ?thesis unfolding and_7 by simp
  qed
  moreover have "nat (8 - (l - r)) = 8 - nat l + nat r" using assms(3-5) by auto
  moreover have "fuji_ok (info\<lparr>cur_bit := 8 - (l - r)\<rparr>)"
    by (rule fuji_ok_cur_bit) (use assms in auto)
  ultimately show ?thesis
    using assms(2) n(2) unfolding fuji_cur_byte [OF assms(1)] v m
    by (simp add: Let_def shl_mult shr_def fuji_bits_def fuji_ok_cur_bit same_lines_def
        and.commute [of "mask _"] take_bit_eq_mask [symmetric])
qed


lemma length_concat_bytes [simp]: "length (concat (map byte_bits xs)) = 8 * length xs"
  by (induction xs) auto

lemma fuji_read_code_ok:
  assumes "fuji_ok info" "1 \<le> n" "n \<le> int (length (fuji_bits info))"
  shows "\<exists>info'. fuji_read_code n info = Some (bits_val (take (nat n) (fuji_bits info)), info')
    \<and> fuji_bits info' = drop (nat n) (fuji_bits info) \<and> fuji_ok info' \<and> same_lines info info'"
proof -
  note inv = assms(1) [unfolded fuji_ok_def fuji_mid_def]
  define c l where "c = nat (cur_bit info)" and "l = 8 - cur_bit info"
  have l: "8 - (cur_bit info AND 7) = l" "1 \<le> l" "l \<le> 8" "nat l = 8 - c" "8 - nat l = c" "c \<le> 7"
    using inv by (auto simp: and_7 l_def c_def)
  obtain b bs where b: "fuji_bytes info = b # bs"
    using assms(2,3) by (cases "fuji_bytes info") (auto simp: fuji_bits_def)
  have bits: "fuji_bits info = drop c (byte_bits b) @ concat (map byte_bits bs)"
    using l by (simp add: fuji_bits_def b c_def)
  show ?thesis
  proof (cases "n < l")
    case True
    from fuji_tail_ok [OF assms(1) b assms(2) True l(3), of 0] obtain info1 where
      t: "(do { v \<leftarrow> rd (cur_buf info) (cur_pos info); let left_in_byte = l - n;
          let data = shl 0 n OR ((shl 1 n - 1) AND shr v left_in_byte);
          Some (data, info\<lparr>cur_bit := (8 - (left_in_byte AND 7)) AND 7\<rparr>) })
        = Some (bits_val (take (nat n) (drop c (byte_bits b))), info1)"
      "fuji_bits info1 = drop (c + nat n) (byte_bits b) @ concat (map byte_bits bs)"
      "fuji_ok info1" "same_lines info info1" unfolding l(5) by auto
    have "c + nat n \<le> 8" using True l by simp
    moreover have "fuji_read_code n info = Some (bits_val (take (nat n) (drop c (byte_bits b))), info1)"
      using t(1) True assms(2) l(1) by (simp add: fuji_read_code_def Let_def)
    ultimately show ?thesis
      using t(2-4) by (simp add: bits add.commute)
  next
    case False
    define q r where "q = nat ((n - l) div 8)" and "r = (n - l) mod 8"
    have m: "n - l = 8 * int q + r" "0 \<le> r" "r < 8"
      using False by (auto simp: q_def r_def)
    have "nat n = nat l + 8 * q + nat r" using m(1,2) l(2) by arith
    note n = m this
    have "nat n \<le> 8 - c + 8 * length bs" using assms(2,3) by (simp add: bits)
    then have q: "q \<le> length bs" "0 < r \<Longrightarrow> q < length bs" using n l by auto
    define xs ys where "xs = take q bs" and "ys = drop q bs"
    have bs: "bs = xs @ ys" "length xs = q" using q by (simp_all add: xs_def ys_def)
    have full: "fuji_bits info = drop c (byte_bits b) @ concat (map byte_bits xs) @ concat (map byte_bits ys)"
      by (simp add: bits bs)
    from fuji_take_byte_ok [OF assms(1) b _ l(3), of 0] l(2) obtain info1 where
      t: "fuji_take_byte 0 l info = Some (bits_val (drop c (byte_bits b)), info1)"
        "fuji_bytes info1 = bs" "fuji_ok info1" "same_lines info info1" unfolding l(5) by auto
    from fuji_take_bytes_ok [OF t(3), of xs ys r "bits_val (drop c (byte_bits b))"] n t(2) bs obtain info2 where
      u: "fuji_take_bytes (n - l) (bits_val (drop c (byte_bits b))) info1 = Some ((r,
          bits_val (drop c (byte_bits b)) * 2 ^ (8 * q) + bits_val (concat (map byte_bits xs))), info2)"
        "fuji_bytes info2 = ys" "fuji_ok info2" "same_lines info1 info2" by auto
    have d: "bits_val (drop c (byte_bits b)) * 2 ^ (8 * q) + bits_val (concat (map byte_bits xs))
        = bits_val (drop c (byte_bits b) @ concat (map byte_bits xs))"
      by (simp add: bits_val_append bs)
    have s: "same_lines info info2" using t(4) u(4) by (simp add: same_lines_def)
    show ?thesis
    proof (cases "r = 0")
      case True
      have "fuji_read_code n info = Some (bits_val (drop c (byte_bits b) @ concat (map byte_bits xs)), info2\<lparr>cur_bit := 0\<rparr>)"
        using t(1) u(1) False assms(2) l(1) True unfolding d by (simp add: fuji_read_code_def Let_def and_7)
      moreover have "fuji_bits (info2\<lparr>cur_bit := 0\<rparr>) = concat (map byte_bits ys)"
        using u(2) by (simp add: fuji_bits_def fuji_ok_cur_bit)
      moreover have "fuji_ok (info2\<lparr>cur_bit := 0\<rparr>)" by (rule fuji_ok_cur_bit) (use u(3) in auto)
      moreover have "nat n = length (drop c (byte_bits b) @ concat (map byte_bits xs))"
        using n True l bs by simp
      ultimately show ?thesis using s by (simp add: full same_lines_def)
    next
      case r: False
      then obtain y ys' where y: "ys = y # ys'" using q(2) n(2) by (cases ys) (auto simp: ys_def)
      have r1: "1 \<le> r" using r n(2) by simp
      from fuji_tail_ok [OF u(3) u(2) [unfolded y] r1 n(3), of "bits_val (drop c (byte_bits b) @ concat (map byte_bits xs))"]
      obtain info3 where
        w: "(do { v \<leftarrow> rd (cur_buf info2) (cur_pos info2); let left_in_byte = 8 - r;
          let data = shl (bits_val (drop c (byte_bits b) @ concat (map byte_bits xs))) r OR ((shl 1 r - 1) AND shr v left_in_byte);
          Some (data, info2\<lparr>cur_bit := (8 - (left_in_byte AND 7)) AND 7\<rparr>) })
        = Some (bits_val (drop c (byte_bits b) @ concat (map byte_bits xs)) * 2 ^ nat r
            + bits_val (take (nat r) (byte_bits y)), info3)"
        "fuji_bits info3 = drop (nat r) (byte_bits y) @ concat (map byte_bits ys')"
        "fuji_ok info3" "same_lines info2 info3" by auto
      have "fuji_read_code n info = Some (bits_val (drop c (byte_bits b) @ concat (map byte_bits xs)) * 2 ^ nat r
            + bits_val (take (nat r) (byte_bits y)), info3)"
        using t(1) u(1) w(1) False assms(2) l(1) r unfolding d by (simp add: fuji_read_code_def Let_def)
      moreover have "take (nat n) (fuji_bits info)
          = (drop c (byte_bits b) @ concat (map byte_bits xs)) @ take (nat r) (byte_bits y)"
        using n(2-4) l bs by (simp add: full y)
      moreover have "drop (nat n) (fuji_bits info) = drop (nat r) (byte_bits y) @ concat (map byte_bits ys')"
        using n(2-4) l bs by (simp add: full y)
      moreover have "length (take (nat r) (byte_bits y)) = nat r" using n(3) by simp
      ultimately show ?thesis
        using w(2-4) s by (simp add: bits_val_append same_lines_def power_add algebra_simps)
    qed
  qed
qed

interpretation fj: bit_stream fuji_read_code fuji_bits fuji_ok 14
  by unfold_locales (use fuji_read_code_ok in blast)

end
