(* ===== verification/FujiSamples.thy ===== *)
theory FujiSamples
  imports FujiBits
begin

text \<open>
  The samples of the compressed RAF format: what the header guarantees of the parameters, the code
  of a sample as an encoder would write it, and the decoder of a sample on the lines of a block.
\<close>

section \<open>Parameters\<close>

text \<open>The two kinds of parameters there are, for 12 and for 14 bits.\<close>

definition params_ok :: "fuji_params \<Rightarrow> bool" where
  "params_ok p \<longleftrightarrow>
     (raw_bits p = 14 \<and> max_bits p = 56 \<and> maxDiff p = 256 \<or> raw_bits p = 12 \<and> max_bits p = 48 \<and> maxDiff p = 64)
   \<and> total_values p = 2 ^ nat (raw_bits p) \<and> min_value p = 0x40
   \<and> q_point p = [0, 0x12, 0x43, 0x114, total_values p - 1] \<and> length (q_table p) = 32768
   \<and> (\<forall>v. \<bar>v\<bar> < total_values p \<longrightarrow> at (q_table p) (total_values p - 1 + v) = Some (fuji_quant (q_point p) v))
   \<and> (line_width p = 512 \<or> line_width p = 384)"

lemma at_put: "put xs i v = Some ys \<Longrightarrow> at ys j = (if j = i then Some v else at xs j)"
  by (auto simp: put_def at_def inb_def nth_list_update split: if_splits)

lemma fuji_q_table_ok:
  assumes "0 \<le> q ! 4" "q ! 4 < 16384"
  shows "ok (fuji_q_table g q) (\<lambda>qt. length qt = 32768 \<and> (\<forall>v. \<bar>v\<bar> \<le> q ! 4 \<longrightarrow> at qt (q ! 4 + v) = Some (fuji_quant q v)))"
  unfolding fuji_q_table_def
proof (rule for_up_inv [where I = "\<lambda>c qt. length qt = 32768 \<and>
    (\<forall>v. - (q ! 4) \<le> v \<and> v < c \<longrightarrow> at qt (q ! 4 + v) = Some (fuji_quant q v))"])
  fix c and qt :: "int list"
  assume c: "- (q ! 4) \<le> c" "c < q ! 4 + 1" and I: "length qt = 32768 \<and>
    (\<forall>v. - (q ! 4) \<le> v \<and> v < c \<longrightarrow> at qt (q ! 4 + v) = Some (fuji_quant q v))"
  have "inb qt (c + q ! 4)" using c I assms by (simp add: inb_def)
  then obtain qt' where qt': "put qt (c + q ! 4) (fuji_quant q c) = Some qt'" by (simp add: put_def)
  moreover have "length qt' = length qt" using qt' by (auto simp: put_def split: if_splits)
  ultimately show "ok (put qt (c + q ! 4) (fuji_quant q c)) (\<lambda>qt. length qt = 32768 \<and>
    (\<forall>v. - (q ! 4) \<le> v \<and> v < c + 1 \<longrightarrow> at qt (q ! 4 + v) = Some (fuji_quant q v)))"
    using I by (auto simp: at_put [OF qt'])
qed (use assms in \<open>auto simp: abs_le_iff\<close>)

lemma fuji_header_ok:
  assumes "parse_fuji_compressed_header g fh0 io = ((True, fh, off), io')"
  shows "fh_bits fh = 12 \<or> fh_bits fh = 14" "fh_raw_type fh = 0 \<or> fh_raw_type fh = 16" "fh_block_width fh = 0x300"
    "fh_raw_width fh mod 24 = 0" "fh_raw_width fh \<le> 0x3000" "0x300 \<le> fh_raw_width fh"
    "fh_raw_height fh = 6 * fh_total_lines fh" "0 < fh_total_lines fh" "fh_total_lines fh \<le> 0x800"
    "0 < fh_total_blocks fh" "fh_total_blocks fh \<le> 16"
    "fh_raw_width fh \<le> fh_total_blocks fh * 0x300" "fh_total_blocks fh * 0x300 - 0x300 < fh_raw_width fh"
proof -
  obtain hb io1 where f0: "fread 16 (fseek_set (data_offset g) io) = (hb, io1)" by fastforce
  define hd where "hd = overlay hb (uninit g 16)"
  define ver rt bt h rw w bs n ln where "ver = uint (hd ! 2)" and "rt = uint (hd ! 3)" and "bt = uint (hd ! 4)"
    and "h = sgetn 2 (drop 5 hd)" and "rw = sgetn 2 (drop 7 hd)" and "w = sgetn 2 (drop 9 hd)"
    and "bs = sgetn 2 (drop 11 hd)" and "n = uint (hd ! 13)" and "ln = sgetn 2 (drop 14 hd)"
  note defs = hd_def ver_def rt_def bt_def h_def rw_def w_def bs_def n_def ln_def
  have f: "\<not> fuji_header_rejected (sgetn 2 hd) ver rt bt h rw w bs n ln"
    and fh: "fh = \<lparr>fh_total_lines = ln, fh_total_blocks = n, fh_block_width = bs, fh_bits = bt,
      fh_raw_type = rt, fh_raw_width = w, fh_raw_height = h\<rparr>"
    using assms unfolding parse_fuji_compressed_header_def Let_def f0 split_conv
    unfolding defs [symmetric] by (simp_all split: if_splits)
  note f' = f [unfolded fuji_header_rejected_def de_Morgan_disj not_not]
  have w: "0 \<le> w" "0 \<le> rw" "0 \<le> h" "0 \<le> n" "0 \<le> ln" by (simp_all add: w_def rw_def h_def n_def ln_def sgetn_def)
  have lit: "h mod 6 = 0" "w mod 24 = 0" "\<not> w > 0x3000" "\<not> w < 0x300" "\<not> rw > 0x3000" "rw mod bs = 0"
    "\<not> c_u32 (rw - w) \<ge> bs" "bs = 0x300" "\<not> n > 0x10" "n \<noteq> 0" "n = rw div bs" "\<not> ln > 0x800" "ln \<noteq> 0"
    "ln = h div 6" "bt = 12 \<or> bt = 14" "rt = 16 \<or> rt = 0"
    using f' by blast+
  show "fh_bits fh = 12 \<or> fh_bits fh = 14" "fh_raw_type fh = 0 \<or> fh_raw_type fh = 16" "fh_block_width fh = 0x300"
    "fh_raw_width fh mod 24 = 0" "fh_raw_width fh \<le> 0x3000" "0x300 \<le> fh_raw_width fh"
    "fh_raw_height fh = 6 * fh_total_lines fh" "0 < fh_total_lines fh" "fh_total_lines fh \<le> 0x800"
    "0 < fh_total_blocks fh" "fh_total_blocks fh \<le> 16"
    unfolding fh using lit(1-4,8-10,12-16) w by auto
  note bs = lit(11,6,7) [unfolded lit(8)]
  have "c_u32 (rw - w) < 0x300" using bs by simp
  have "0 \<le> rw - w \<and> rw - w < 0x300" by (rule c_u32_small) (use bs lit(3,5) w in auto)
  moreover have "rw = n * 0x300" using bs(1,2) by auto
  ultimately show "fh_raw_width fh \<le> fh_total_blocks fh * 0x300" "fh_total_blocks fh * 0x300 - 0x300 < fh_raw_width fh"
    by (simp_all add: fh)
qed

lemma init_fuji_compr_ok:
  assumes "fh_bits fh = 12 \<or> fh_bits fh = 14" "fh_raw_type fh = 0 \<or> fh_raw_type fh = 16" "fh_block_width fh = 0x300"
  shows "ok (init_fuji_compr g fh b) (\<lambda>(p, b'). b' = b \<and> params_ok p \<and> raw_bits p = fh_bits fh)"
proof -
  let ?q = "[0, 0x12, 0x43, 0x114, shl_i 1 (fh_bits fh) - 1]"
  have q4: "shl_i 1 (fh_bits fh) = 2 ^ nat (fh_bits fh)" using assms(1) by (auto simp: shl_i_def shl_mult)
  obtain qt where qt: "fuji_q_table g ?q = Some qt" "length qt = 32768"
      "\<forall>v. \<bar>v\<bar> \<le> ?q ! 4 \<longrightarrow> at qt (?q ! 4 + v) = Some (fuji_quant ?q v)"
    using fuji_q_table_ok [of ?q g] assms(1) by (auto simp: ok_exists q4)
  show ?thesis using assms qt
    by (auto simp: init_fuji_compr_def params_ok_def q4 shr_div take_bit_eq_mod)
qed

section \<open>The code of a sample\<close>

lemma bitDiff_from_bounds: "0 \<le> d \<Longrightarrow> d \<le> 13 \<Longrightarrow> d \<le> bitDiff_from a b d \<and> bitDiff_from a b d \<le> 13"
proof (induction a b d rule: bitDiff_from.induct)
  case (1 a b d)
  show ?case
  proof (cases "d \<le> 12 \<and> shl_i b (d + 1) < a")
    case True
    with 1 show ?thesis by (subst (1 2) bitDiff_from.simps) (simp add: Let_def)
  next
    case False
    with 1 show ?thesis by (subst (1 2) bitDiff_from.simps) (auto simp: Let_def)
  qed
qed

lemma bitDiff_bounds: "0 \<le> bitDiff a b \<and> bitDiff a b \<le> 13"
  using bitDiff_from_bounds [of 0 a b] by (simp add: bitDiff_def)

text \<open>The bits that stand for the number \<open>c\<close> under a gradient, and the numbering of the differences.\<close>

definition fuji_encode :: "fuji_params \<Rightarrow> int \<times> int \<Rightarrow> int \<Rightarrow> bool list" where
  "fuji_encode p grad c =
     (let d = nat (bitDiff (fst grad) (snd grad)); m = max_bits p - raw_bits p - 1
      in if c div 2 ^ d < m then replicate (nat (c div 2 ^ d)) False @ True # nat_bits d (nat (c mod 2 ^ d))
         else replicate (nat m) False @ True # nat_bits (nat (raw_bits p)) (nat (c - 1)))"

lemma fuji_read_field:
  assumes "fuji_ok info" "w \<le> 14" "x < 2 ^ w" "fuji_bits info = nat_bits w x @ rest"
  shows "\<exists>info'. fuji_read_code (int w) info = Some (int x, info') \<and> fuji_bits info' = rest \<and> fuji_ok info' \<and> same_lines info info'"
proof (cases "w = 0")
  case True
  then show ?thesis using assms by (simp add: fuji_read_code_def same_lines_def nat_bits_def)
next
  case False
  then show ?thesis using fuji_read_code_ok [OF assms(1), of "int w"] assms
    by (auto simp: bits_val_nat_bits take_bit_nat_eq_self)
qed

lemma fuji_code_decodes:
  assumes "params_ok p" "fuji_ok info" "0 \<le> c" "c < total_values p" "fuji_bits info = fuji_encode p grad c @ rest"
  shows "\<exists>info'. fuji_code p grad info = Some (c, info') \<and> fuji_bits info' = rest \<and> fuji_ok info' \<and> same_lines info info'"
proof -
  define d m where "d = nat (bitDiff (fst grad) (snd grad))" and "m = max_bits p - raw_bits p - 1"
  have d: "bitDiff (fst grad) (snd grad) = int d" "d \<le> 13" using bitDiff_bounds [of "fst grad" "snd grad"] by (auto simp: d_def)
  have r: "0 < m" "0 \<le> raw_bits p" "raw_bits p \<le> 14" "c \<le> 2 ^ nat (raw_bits p)"
    using assms(1,4) by (auto simp: params_ok_def m_def)
  show ?thesis
  proof (cases "c div 2 ^ d < m")
    case True
    have q: "0 \<le> c div 2 ^ d" using assms(3) by (simp add: pos_imp_zdiv_nonneg_iff)
    obtain i1 where i1: "fuji_zerobits 0 info = Some (c div 2 ^ d, i1)" "fuji_ok i1" "same_lines info i1"
        "fuji_bits i1 = nat_bits d (nat (c mod 2 ^ d)) @ rest"
      using fuji_zerobits_run [OF assms(2), of "nat (c div 2 ^ d)" "nat_bits d (nat (c mod 2 ^ d)) @ rest" 0] assms(5) True q
      by (auto simp: fuji_encode_def Let_def d_def m_def)
    obtain i2 where i2: "fuji_read_code (int d) i1 = Some (c mod 2 ^ d, i2)" "fuji_bits i2 = rest" "fuji_ok i2" "same_lines i1 i2"
      using fuji_read_field [OF i1(2) _ _ i1(4)] d(2) by (auto simp: nat_less_iff)
    show ?thesis using i1 i2 True d(1)
      by (auto simp: fuji_code_def m_def shl_mult same_lines_def mod_div_mult_eq)
  next
    case False
    have c: "1 \<le> c" "nat (c - 1) < 2 ^ nat (raw_bits p)" 
    proof -
      show "1 \<le> c" using False r(1) assms(3) by (cases "c = 0") auto
      then show "nat (c - 1) < 2 ^ nat (raw_bits p)" using r(4) by (simp add: nat_less_iff)
    qed
    obtain i1 where i1: "fuji_zerobits 0 info = Some (m, i1)" "fuji_ok i1" "same_lines info i1"
        "fuji_bits i1 = nat_bits (nat (raw_bits p)) (nat (c - 1)) @ rest"
      using fuji_zerobits_run [OF assms(2), of "nat m" "nat_bits (nat (raw_bits p)) (nat (c - 1)) @ rest" 0] assms(5) False r
      by (auto simp: fuji_encode_def Let_def d_def m_def)
    obtain i2 where i2: "fuji_read_code (raw_bits p) i1 = Some (c - 1, i2)" "fuji_bits i2 = rest" "fuji_ok i2" "same_lines i1 i2"
      using fuji_read_field [OF i1(2) _ c(2) i1(4)] r(2,3) c(1) by (simp add: nat_le_iff) blast
    show ?thesis using i1 i2 by (auto simp: fuji_code_def m_def same_lines_def)
  qed
qed

section \<open>Gradients and values\<close>

lemma fuji_quant_bounds: "-4 \<le> fuji_quant q v \<and> fuji_quant q v \<le> 4"
  by (simp add: fuji_quant_def)

lemma fuji_quant_odd:
  assumes "0 < q ! 1" "q ! 1 < q ! 2" "q ! 2 < q ! 3"
  shows "fuji_quant q (- v) = - fuji_quant q v"
  using assms by (auto simp: fuji_quant_def)

lemma fuji_quant_gradient_ok:
  assumes "params_ok p" "\<bar>v1\<bar> < total_values p" "\<bar>v2\<bar> < total_values p"
  shows "fuji_quant_gradient p v1 v2 = Some (9 * fuji_quant (q_point p) v1 + fuji_quant (q_point p) v2)"
proof -
  have "at (q_table p) (q_point p ! 4 + v) = Some (fuji_quant (q_point p) v)" if "\<bar>v\<bar> < total_values p" for v
  proof -
    have "q_point p ! 4 = total_values p - 1" using assms(1) by (auto simp: params_ok_def)
    then show ?thesis using assms(1) that unfolding params_ok_def by metis
  qed
  then show ?thesis using assms(2,3) by (simp add: fuji_quant_gradient_def)
qed

text \<open>The difference whose code leads from a prediction \<open>x\<close> to the value \<open>v\<close>, and its number.\<close>

definition fuji_diff :: "fuji_params \<Rightarrow> int \<Rightarrow> int \<Rightarrow> int" where
  "fuji_diff p x v = (v - x + total_values p div 2) mod total_values p - total_values p div 2"

definition fuji_number :: "int \<Rightarrow> int" where
  "fuji_number k = (if k < 0 then -2 * k - 1 else 2 * k)"

lemma fuji_signed_number: "fuji_signed (fuji_number k) = k"
proof -
  have "(- 2 * k - 1) AND 1 = (1::int)" "(2 * k) AND 1 = (0::int)" by (simp_all add: and_one_eq mod2_eq_if)
  then show ?thesis by (auto simp: fuji_signed_def fuji_number_def sdiv_nonneg)
qed

lemma fuji_total: "params_ok p \<Longrightarrow> \<exists>n. total_values p = 2 * n \<and> 2048 \<le> n \<and> n \<le> 8192 \<and> q_point p ! 4 = 2 * n - 1"
  by (auto simp: params_ok_def)

lemma fuji_diff_bounds:
  assumes "params_ok p"
  shows "0 \<le> fuji_number (fuji_diff p x v) \<and> fuji_number (fuji_diff p x v) < total_values p"
proof -
  obtain n where n: "total_values p = 2 * n" "2048 \<le> n" using fuji_total [OF assms] by blast
  define m where "m = (v - x + n) mod (2 * n)"
  have "0 \<le> m" "m < 2 * n" using n by (simp_all add: m_def)
  then show ?thesis using n by (auto simp: fuji_number_def fuji_diff_def m_def [symmetric])
qed

lemma fuji_value_diff:
  assumes "params_ok p" "0 \<le> x" "x < total_values p" "0 \<le> v" "v < total_values p"
  shows "fuji_value p (x + fuji_diff p x v) = v" "fuji_value p (x - fuji_diff p v x) = v"
proof -
  obtain n where n: "total_values p = 2 * n" "2048 \<le> n" "q_point p ! 4 = 2 * n - 1" using fuji_total [OF assms(1)] by blast
  have w: "\<exists>e. (y + n) mod (2 * n) = y + n + 2 * n * e \<and> e \<in> {-1, 0, 1}" if "\<bar>y\<bar> < 2 * n" for y
  proof (cases "y + n < 0")
    case True
    then have "(y + n + 2 * n) mod (2 * n) = y + n + 2 * n" using that True by (intro mod_pos_pos_trivial) auto
    then have "(y + n) mod (2 * n) = y + n + 2 * n" by (simp only: mod_add_self2)
    then show ?thesis by (intro exI [of _ 1]) simp
  next
    case False
    show ?thesis
    proof (cases "y + n < 2 * n")
      case True
      then show ?thesis using False by (intro exI [of _ 0]) simp
    next
      case f: False
      then have "(y + n - 2 * n) mod (2 * n) = y + n - 2 * n" using that f by (intro mod_pos_pos_trivial) auto
      then have "(y + n) mod (2 * n) = y + n - 2 * n" by (simp only: minus_mod_self2)
      then show ?thesis by (intro exI [of _ "-1"]) simp
    qed
  qed
  have "\<bar>v - x\<bar> < 2 * n" "\<bar>x - v\<bar> < 2 * n" using assms(2-5) n(1) by auto
  then obtain e1 e2 where e: "(v - x + n) mod (2 * n) = v - x + n + 2 * n * e1" "e1 \<in> {-1, 0, 1}"
    "(x - v + n) mod (2 * n) = x - v + n + 2 * n * e2" "e2 \<in> {-1, 0, 1}" using w by blast
  show "fuji_value p (x + fuji_diff p x v) = v" using e(1,2) assms(2-5) n
    by (auto simp: fuji_value_def fuji_diff_def MIN_c_def)
  show "fuji_value p (x - fuji_diff p v x) = v" using e(3,4) assms(2-5) n
    by (auto simp: fuji_value_def fuji_diff_def MIN_c_def)
qed

section \<open>A block of lines\<close>

definition block_ok :: "fuji_params \<Rightarrow> fuji_block \<Rightarrow> bool" where
  "block_ok p info \<longleftrightarrow> int (length (linealloc info)) = fl_total * (line_width p + 2)
     \<and> (\<forall>x \<in> set (linealloc info). uint x < total_values p)
     \<and> length (grad_even info) = 3 \<and> (\<forall>gs \<in> set (grad_even info). length gs = 41)
     \<and> length (grad_odd info) = 3 \<and> (\<forall>gs \<in> set (grad_odd info). length gs = 41)"

lemma line_inb:
  assumes "params_ok p" "block_ok p info" "0 \<le> k" "k < 18" "0 \<le> j" "j < line_width p + 2"
  shows "inb (linealloc info) (lcell (line_width p) k j)"
  using cell_bound [OF assms(3,4,5,6)] assms(2) by (simp add: inb_def lcell_def block_ok_def)

lemma rd_line_ok:
  assumes "params_ok p" "block_ok p info" "0 \<le> k" "k < 18" "0 \<le> j" "j < line_width p + 2"
  shows "\<exists>x. rd_line (line_width p) info k j = Some x \<and> 0 \<le> x \<and> x < total_values p"
proof -
  note i = line_inb [OF assms]
  then have "linealloc info ! nat (lcell (line_width p) k j) \<in> set (linealloc info)" by (auto simp: inb_def)
  then show ?thesis using i assms(2) by (auto simp: rd_line_def rd_def block_ok_def)
qed

lemma wr_line_ok:
  assumes "params_ok p" "block_ok p info" "0 \<le> k" "k < 18" "0 \<le> j" "j < line_width p + 2" "0 \<le> v" "v < total_values p"
  shows "\<exists>xs. wr_line (line_width p) k j v info = Some (info\<lparr>linealloc := xs\<rparr>) \<and> block_ok p (info\<lparr>linealloc := xs\<rparr>)
    \<and> rd_line (line_width p) (info\<lparr>linealloc := xs\<rparr>) k j = Some v"
proof -
  obtain n where n: "total_values p = 2 * n" "n \<le> 8192" using fuji_total [OF assms(1)] by blast
  have v: "uint (word_of_int v :: u16) = v" using assms(7,8) n by (simp add: uint_u16)
  obtain xs where xs: "wr (linealloc info) (lcell (line_width p) k j) v = Some xs"
    using line_inb [OF assms(1-6)] by (simp add: wr_def)
  then have "length xs = length (linealloc info)" "set xs \<subseteq> insert (word_of_int v) (set (linealloc info))"
    by (auto simp: wr_def set_update_subset_insert split: if_splits dest!: set_update_subset_insert [THEN subsetD])
  then have "block_ok p (info\<lparr>linealloc := xs\<rparr>)" using assms(2,8) v by (auto simp: block_ok_def)
  moreover have "rd_line (line_width p) (info\<lparr>linealloc := xs\<rparr>) k j = Some v"
    using rd_wr_same [OF xs] v by (simp add: rd_line_def uint_word_of_int take_bit_eq_mod)
  ultimately show ?thesis using xs by (intro exI [of _ xs]) (simp add: wr_line_def)
qed

lemma rd_line_same: "same_lines info i \<Longrightarrow> rd_line lw i k j = rd_line lw info k j"
  by (simp add: rd_line_def same_lines_def)

lemma block_ok_same: "same_lines info i \<Longrightarrow> block_ok p i = block_ok p info"
  by (simp add: block_ok_def same_lines_def)

lemma fuji_bits_upd [simp]:
  "fuji_bits (info\<lparr>linealloc := xs\<rparr>) = fuji_bits info" "fuji_ok (info\<lparr>linealloc := xs\<rparr>) = fuji_ok info"
  "fuji_bits (info\<lparr>grad_even := gs\<rparr>) = fuji_bits info" "fuji_ok (info\<lparr>grad_even := gs\<rparr>) = fuji_ok info"
  "fuji_bits (info\<lparr>grad_odd := gs\<rparr>) = fuji_bits info" "fuji_ok (info\<lparr>grad_odd := gs\<rparr>) = fuji_ok info"
  by (simp_all add: fuji_bits_def fuji_bytes_def fuji_ok_def fuji_mid_def)

text \<open>The entry of a gradient, and its replacement.\<close>

lemma grads_ok:
  fixes gs :: "(int \<times> int) list list"
  assumes "length gs = 3" "\<forall>g \<in> set gs. length g = 41" "0 \<le> t" "t < 3" "0 \<le> j" "j \<le> 40"
  shows "\<exists>gr e g' gs'. at gs t = Some gr \<and> at gr j = Some e \<and> (\<forall>x. \<exists>g' gs'. put gr j x = Some g' \<and> put gs t g' = Some gs'
    \<and> length gs' = 3 \<and> (\<forall>g \<in> set gs'. length g = 41))"
proof -
  have i: "inb gs t" using assms(1,3,4) by (simp add: inb_def)
  define gr where "gr = gs ! nat t"
  have gr: "at gs t = Some gr" "length gr = 41" using i assms(2) by (auto simp: at_def gr_def inb_def)
  moreover have "put gr j x = Some (gr[nat j := x])" "put gs t (gr[nat j := x]) = Some (gs[nat t := gr[nat j := x]])"
      "\<forall>g \<in> set (gs[nat t := gr[nat j := x]]). length g = 41" for x
    using gr i assms by (auto simp: put_def inb_def dest!: set_update_subset_insert [THEN subsetD])
  ultimately show ?thesis using assms(1,5,6) by (auto simp: at_def inb_def)
qed

lemma ABS_c_40: "\<bar>x\<bar> \<le> 40 \<Longrightarrow> 0 \<le> ABS_c x \<and> ABS_c x \<le> 40"
  by (simp add: ABS_c_abs)

lemma fuji_gradient_ok:
  assumes "params_ok p" "0 \<le> a" "a < total_values p" "0 \<le> b" "b < total_values p"
    "0 \<le> c" "c < total_values p" "0 \<le> d" "d < total_values p"
  shows "\<exists>grad. fuji_quant_gradient p (a - b) (c - d) = Some grad \<and> 0 \<le> ABS_c grad \<and> ABS_c grad \<le> 40"
proof -
  have "\<bar>a - b\<bar> < total_values p" "\<bar>c - d\<bar> < total_values p" using assms by auto
  from fuji_quant_gradient_ok [OF assms(1) this] show ?thesis
    using fuji_quant_bounds [of "q_point p" "a - b"] fuji_quant_bounds [of "q_point p" "c - d"] by (auto intro!: ABS_c_40)
qed

lemma shr_mean:
  assumes "0 \<le> a" "a < m" "0 \<le> b" "b < m" "0 \<le> c" "c < m"
  shows "0 \<le> shr (a + b + 2 * c) 2 \<and> shr (a + b + 2 * c) 2 < m" "0 \<le> shr (a + b) 1 \<and> shr (a + b) 1 < m"
  using assms by (auto simp: shr_div)

lemma fuji_symbol:
  fixes grad :: int
  assumes "params_ok p" "0 \<le> x" "x < total_values p" "0 \<le> v" "v < total_values p"
  shows "\<exists>c d. 0 \<le> c \<and> c < total_values p \<and> fuji_signed c = d \<and> (grad < 0 \<longrightarrow> fuji_value p (x - d) = v)
    \<and> (\<not> grad < 0 \<longrightarrow> fuji_value p (x + d) = v)"
  using fuji_diff_bounds [OF assms(1)] fuji_value_diff [OF assms] fuji_signed_number
  by (intro exI [of _ "fuji_number (if grad < 0 then fuji_diff p v x else fuji_diff p x v)"]
      exI [of _ "if grad < 0 then fuji_diff p v x else fuji_diff p x v"]) simp

lemma fuji_even_decodes:
  assumes "params_ok p" "block_ok p info" "2 \<le> k" "k < 18" "0 \<le> pos" "pos < line_width p" "0 \<le> t" "t < 3"
    and "0 \<le> v" "v < total_values p"
  shows "\<exists>bs. \<forall>i rest. same_lines info i \<and> fuji_ok i \<and> fuji_bits i = bs @ rest \<longrightarrow>
    (\<exists>i'. fuji_decode_sample_even p k pos t i = Some (0, i') \<and> fuji_bits i' = rest \<and> fuji_ok i' \<and> block_ok p i'
      \<and> rd_line (line_width p) i' k (pos + 1) = Some v)"
proof -
  let ?lw = "line_width p" and ?T = "total_values p"
  obtain Rb where Rb: "rd_line ?lw info (k - 1) (pos + 1) = Some Rb" "0 \<le> Rb" "Rb < ?T"
    using rd_line_ok [OF assms(1,2), of "k - 1" "pos + 1"] assms by auto
  obtain Rc where Rc: "rd_line ?lw info (k - 1) pos = Some Rc" "0 \<le> Rc" "Rc < ?T"
    using rd_line_ok [OF assms(1,2), of "k - 1" pos] assms by auto
  obtain Rd where Rd: "rd_line ?lw info (k - 1) (pos + 2) = Some Rd" "0 \<le> Rd" "Rd < ?T"
    using rd_line_ok [OF assms(1,2), of "k - 1" "pos + 2"] assms by auto
  obtain Rf where Rf: "rd_line ?lw info (k - 2) (pos + 1) = Some Rf" "0 \<le> Rf" "Rf < ?T"
    using rd_line_ok [OF assms(1,2), of "k - 2" "pos + 1"] assms by auto
  obtain grad where grad: "fuji_quant_gradient p (Rb - Rf) (Rc - Rb) = Some grad" "0 \<le> ABS_c grad" "ABS_c grad \<le> 40"
    using fuji_gradient_ok [OF assms(1) Rb(2,3) Rf(2,3) Rc(2,3) Rb(2,3)] by blast
  define x where "x = shr (if ABS_c (Rc - Rb) > ABS_c (Rf - Rb) \<and> ABS_c (Rc - Rb) > ABS_c (Rd - Rb) then Rf + Rd + 2 * Rb
        else if ABS_c (Rd - Rb) > ABS_c (Rc - Rb) \<and> ABS_c (Rd - Rb) > ABS_c (Rf - Rb) then Rf + Rc + 2 * Rb
        else Rd + Rc + 2 * Rb) 2"
  have x: "0 \<le> x" "x < ?T"
    using shr_mean(1) [OF Rf(2,3) Rd(2,3) Rb(2,3)] shr_mean(1) [OF Rf(2,3) Rc(2,3) Rb(2,3)]
      shr_mean(1) [OF Rd(2,3) Rc(2,3) Rb(2,3)] by (auto simp: x_def)
  obtain gr e where g: "at (grad_even info) t = Some gr" "at gr (ABS_c grad) = Some e"
      "\<forall>y. \<exists>g' gs'. put gr (ABS_c grad) y = Some g' \<and> put (grad_even info) t g' = Some gs'
        \<and> length gs' = 3 \<and> (\<forall>g \<in> set gs'. length g = 41)"
    using grads_ok [OF _ _ assms(7,8) grad(2,3), of "grad_even info"] assms(2) by (auto simp: block_ok_def)
  obtain c d where c: "0 \<le> c" "c < ?T" "fuji_signed c = d" "grad < 0 \<Longrightarrow> fuji_value p (x - d) = v"
    "\<not> grad < 0 \<Longrightarrow> fuji_value p (x + d) = v" using fuji_symbol [OF assms(1) x assms(9,10)] by blast
  have "\<exists>i'. fuji_decode_sample_even p k pos t i = Some (0, i') \<and> fuji_bits i' = rest \<and> fuji_ok i' \<and> block_ok p i'
      \<and> rd_line ?lw i' k (pos + 1) = Some v"
    if i: "same_lines info i" "fuji_ok i" "fuji_bits i = fuji_encode p e c @ rest" for i rest
  proof -
    obtain i1 where i1: "fuji_code p e i = Some (c, i1)" "fuji_bits i1 = rest" "fuji_ok i1" "same_lines i i1"
      using fuji_code_decodes [OF assms(1) i(2) c(1,2) i(3)] by blast
    obtain g' gs' where g': "put gr (ABS_c grad) (fuji_adapt p d e) = Some g'" "put (grad_even info) t g' = Some gs'"
        "length gs' = 3" "\<forall>g \<in> set gs'. length g = 41" using g(3) by blast
    have s: "grad_even i1 = grad_even info" "grad_even i = grad_even info" using i(1) i1(4) by (simp_all add: same_lines_def)
    have "block_ok p i1" using assms(2) i(1) i1(4) block_ok_same by metis
    then have b: "block_ok p (i1\<lparr>grad_even := gs'\<rparr>)" using g'(3,4) by (simp add: block_ok_def)
    have "0 \<le> k" "0 \<le> pos + 1" "pos + 1 < ?lw + 2" using assms by auto
    from wr_line_ok [OF assms(1) b this(1) assms(4) this(2,3) assms(9,10)] obtain xs where
      w: "wr_line ?lw k (pos + 1) v (i1\<lparr>grad_even := gs'\<rparr>) = Some (i1\<lparr>grad_even := gs', linealloc := xs\<rparr>)"
        "block_ok p (i1\<lparr>grad_even := gs', linealloc := xs\<rparr>)"
        "rd_line ?lw (i1\<lparr>grad_even := gs', linealloc := xs\<rparr>) k (pos + 1) = Some v" by blast
    note r = Rb(1) Rc(1) Rd(1) Rf(1)
    have "fuji_decode_sample_even p k pos t i = Some (0, i1\<lparr>grad_even := gs', linealloc := xs\<rparr>)"
      using c i1(1) g(1,2) g'(1,2) w(1) grad(1)
      unfolding fuji_decode_sample_even_def
      by (simp add: rd_line_same [OF i(1)] r Let_def s x_def [symmetric] if_distrib [of "\<lambda>y. shr y 2", symmetric])
    then show ?thesis using w i1 by (intro exI) auto
  qed
  then show ?thesis by blast
qed

lemma fuji_odd_decodes:
  assumes "params_ok p" "block_ok p info" "1 \<le> k" "k < 18" "0 \<le> pos" "pos < line_width p" "0 \<le> t" "t < 3"
    and "0 \<le> v" "v < total_values p"
  shows "\<exists>bs. \<forall>i rest. same_lines info i \<and> fuji_ok i \<and> fuji_bits i = bs @ rest \<longrightarrow>
    (\<exists>i'. fuji_decode_sample_odd p k pos t i = Some (0, i') \<and> fuji_bits i' = rest \<and> fuji_ok i' \<and> block_ok p i'
      \<and> rd_line (line_width p) i' k (pos + 1) = Some v)"
proof -
  let ?lw = "line_width p" and ?T = "total_values p"
  obtain Rb where Rb: "rd_line ?lw info (k - 1) (pos + 1) = Some Rb" "0 \<le> Rb" "Rb < ?T"
    using rd_line_ok [OF assms(1,2), of "k - 1" "pos + 1"] assms by auto
  obtain Rc where Rc: "rd_line ?lw info (k - 1) pos = Some Rc" "0 \<le> Rc" "Rc < ?T"
    using rd_line_ok [OF assms(1,2), of "k - 1" pos] assms by auto
  obtain Rd where Rd: "rd_line ?lw info (k - 1) (pos + 2) = Some Rd" "0 \<le> Rd" "Rd < ?T"
    using rd_line_ok [OF assms(1,2), of "k - 1" "pos + 2"] assms by auto
  obtain Ra where Ra: "rd_line ?lw info k pos = Some Ra" "0 \<le> Ra" "Ra < ?T"
    using rd_line_ok [OF assms(1,2), of k pos] assms by auto
  obtain Rg where Rg: "rd_line ?lw info k (pos + 2) = Some Rg" "0 \<le> Rg" "Rg < ?T"
    using rd_line_ok [OF assms(1,2), of k "pos + 2"] assms by auto
  obtain grad where grad: "fuji_quant_gradient p (Rb - Rc) (Rc - Ra) = Some grad" "0 \<le> ABS_c grad" "ABS_c grad \<le> 40"
    using fuji_gradient_ok [OF assms(1) Rb(2,3) Rc(2,3) Rc(2,3) Ra(2,3)] by blast
  define x where "x = (if (Rb > Rc \<and> Rb > Rd) \<or> (Rb < Rc \<and> Rb < Rd) then shr (Rg + Ra + 2 * Rb) 2 else shr (Ra + Rg) 1)"
  have x: "0 \<le> x" "x < ?T"
    using shr_mean(1) [OF Rg(2,3) Ra(2,3) Rb(2,3)] shr_mean(2) [OF Ra(2,3) Rg(2,3)] by (auto simp: x_def)
  obtain gr e where g: "at (grad_odd info) t = Some gr" "at gr (ABS_c grad) = Some e"
      "\<forall>y. \<exists>g' gs'. put gr (ABS_c grad) y = Some g' \<and> put (grad_odd info) t g' = Some gs'
        \<and> length gs' = 3 \<and> (\<forall>g \<in> set gs'. length g = 41)"
    using grads_ok [OF _ _ assms(7,8) grad(2,3), of "grad_odd info"] assms(2) by (auto simp: block_ok_def)
  obtain c d where c: "0 \<le> c" "c < ?T" "fuji_signed c = d" "grad < 0 \<Longrightarrow> fuji_value p (x - d) = v"
    "\<not> grad < 0 \<Longrightarrow> fuji_value p (x + d) = v" using fuji_symbol [OF assms(1) x assms(9,10)] by blast
  have "\<exists>i'. fuji_decode_sample_odd p k pos t i = Some (0, i') \<and> fuji_bits i' = rest \<and> fuji_ok i' \<and> block_ok p i'
      \<and> rd_line ?lw i' k (pos + 1) = Some v"
    if i: "same_lines info i" "fuji_ok i" "fuji_bits i = fuji_encode p e c @ rest" for i rest
  proof -
    obtain i1 where i1: "fuji_code p e i = Some (c, i1)" "fuji_bits i1 = rest" "fuji_ok i1" "same_lines i i1"
      using fuji_code_decodes [OF assms(1) i(2) c(1,2) i(3)] by blast
    obtain g' gs' where g': "put gr (ABS_c grad) (fuji_adapt p d e) = Some g'" "put (grad_odd info) t g' = Some gs'"
        "length gs' = 3" "\<forall>g \<in> set gs'. length g = 41" using g(3) by blast
    have s: "grad_odd i1 = grad_odd info" "grad_odd i = grad_odd info" using i(1) i1(4) by (simp_all add: same_lines_def)
    have "block_ok p i1" using assms(2) i(1) i1(4) block_ok_same by metis
    then have b: "block_ok p (i1\<lparr>grad_odd := gs'\<rparr>)" using g'(3,4) by (simp add: block_ok_def)
    have "0 \<le> k" "0 \<le> pos + 1" "pos + 1 < ?lw + 2" using assms by auto
    from wr_line_ok [OF assms(1) b this(1) assms(4) this(2,3) assms(9,10)] obtain xs where
      w: "wr_line ?lw k (pos + 1) v (i1\<lparr>grad_odd := gs'\<rparr>) = Some (i1\<lparr>grad_odd := gs', linealloc := xs\<rparr>)"
        "block_ok p (i1\<lparr>grad_odd := gs', linealloc := xs\<rparr>)"
        "rd_line ?lw (i1\<lparr>grad_odd := gs', linealloc := xs\<rparr>) k (pos + 1) = Some v" by blast
    note r = Ra(1) Rb(1) Rc(1) Rd(1) Rg(1)
    have "fuji_decode_sample_odd p k pos t i = Some (0, i1\<lparr>grad_odd := gs', linealloc := xs\<rparr>)"
      using c i1(1) g(1,2) g'(1,2) w(1) grad(1)
      unfolding fuji_decode_sample_odd_def
      by (simp add: rd_line_same [OF i(1)] r Let_def s x_def [symmetric])
    then show ?thesis using w i1 by (intro exI) auto
  qed
  then show ?thesis by blast
qed

section \<open>The block a strip starts with\<close>

lemma init_fuji_block_ok:
  assumes "0 \<le> off" "0 \<le> dsize"
  shows "fuji_ok (init_fuji_block g p off dsize io)"
    "params_ok p \<Longrightarrow> block_ok p (init_fuji_block g p off dsize io)"
    "fuji_bits (init_fuji_block g p off dsize io) = concat (map byte_bits
       (take (nat (MIN_c (c_u32 (int (length (ifile io)) - off)) dsize)) (drop (nat off) (ifile io))))"
proof -
  define n where "n = MIN_c (c_u32 (int (length (ifile io)) - off)) dsize"
  define b where "b = \<lparr>cur_bit = 0, cur_pos = 0, cur_buf_offset = off, max_read_size = n, cur_buf_size = 0,
    cur_buf = uninit g 0x10000, fillbytes = 1, grad_even = replicate 3 (replicate 41 (maxDiff p, 1)),
    grad_odd = replicate 3 (replicate 41 (maxDiff p, 1)), linealloc = zeros (18 * (line_width p + 2)),
    fio = fseek_end 0 io\<rparr>"
  have i: "init_fuji_block g p off dsize io = fuji_fill_buffer b"
    by (simp add: init_fuji_block_def b_def n_def fseek_end_def fseek_set_def Let_def)
  have "0 \<le> n" using assms(2) by (simp add: n_def MIN_c_def)
  then have "fuji_mid b" using assms(1) by (simp add: fuji_mid_def b_def)
  note f = fuji_fill_ok [OF this]
  show "fuji_ok (init_fuji_block g p off dsize io)" using f i by simp
  show "block_ok p (init_fuji_block g p off dsize io)" if "params_ok p"
  proof -
    have "0 \<le> line_width p" "1 < total_values p" using that by (auto simp: params_ok_def)
    then have "block_ok p b"
      by (auto simp: block_ok_def b_def zeros_def dest!: in_set_replicate [THEN iffD1])
    then show ?thesis using f i block_ok_same by metis
  qed
  have "fuji_bytes b = take (nat n) (drop (nat off) (ifile io))"
    by (simp add: fuji_bytes_def b_def fseek_end_def fseek_set_def)
  then show "fuji_bits (init_fuji_block g p off dsize io) = concat (map byte_bits
       (take (nat (MIN_c (c_u32 (int (length (ifile io)) - off)) dsize)) (drop (nat off) (ifile io))))"
    using f i by (simp add: fuji_bits_def n_def b_def)
qed

section \<open>Properties\<close>



lemma fuji_zerobits_one:
  assumes "fuji_zerobits count info = Some r" "fuji_ok info"
  shows "True \<in> set (fuji_bits info)"
proof -
  have "fuji_ok info \<longrightarrow> True \<in> set (fuji_bits info)"
  proof (rule fuji_zerobits.raw_induct [OF _ assms(1), where P = "\<lambda>c i r. fuji_ok i \<longrightarrow> True \<in> set (fuji_bits i)"])
    fix f count info r
    assume IH: "\<And>c i r. f c i = Some r \<Longrightarrow> fuji_ok i \<longrightarrow> True \<in> set (fuji_bits i)"
      and s: "do { (zero, info) \<leftarrow> fuji_next_bit info; if zero \<noteq> 0 then Some (count, info) else f (count + 1) info } = Some r"
    show "fuji_ok info \<longrightarrow> True \<in> set (fuji_bits info)"
    proof
      assume "fuji_ok info"
      from fuji_next_bit_ok [OF this] obtain i where i: "fuji_next_bit info = Some (case fuji_bits info of [] \<Rightarrow> 0 | b # bs \<Rightarrow> of_bool b, i)"
        "fuji_bits i = tl (fuji_bits info)" "fuji_ok i" by blast
      show "True \<in> set (fuji_bits info)"
        using s i IH [of "count + 1" i r] by (cases "fuji_bits info") (auto split: if_splits)
    qed
  qed
  then show ?thesis using assms(2) by blast
qed

text \<open>
  C17: The unary part of a code ends exactly if the input still holds a one bit: \<open>fuji_zerobits\<close>
  returns then, with the number of zeros before it, and otherwise (on a truncated file) it loops for
  ever on the zero byte that \<open>fuji_fill_buffer\<close> leaves at the end of the data.
\<close>

theorem fuji_zerobits_returns:
  assumes "fuji_ok info"
  shows "(\<exists>r. fuji_zerobits 0 info = Some r) \<longleftrightarrow> True \<in> set (fuji_bits info)"
proof
  assume "True \<in> set (fuji_bits info)"
  then obtain xs bs where "fuji_bits info = xs @ True # bs" "True \<notin> set xs" by (metis split_list_first)
  moreover from this(2) have "xs = replicate (length xs) False" by (induction xs) auto
  ultimately show "\<exists>r. fuji_zerobits 0 info = Some r"
    using fuji_zerobits_run [OF assms, of "length xs" bs 0] by metis
qed (use fuji_zerobits_one [OF _ assms] in blast)

theorem fuji_zerobits_returns_witness:
  "\<forall>p. (\<exists>r. fuji_zerobits 0 (init_fuji_block (plain_geom 12 768) p 0 1 (open_file [0x10])) = Some r)
    \<and> fuji_zerobits 0 (init_fuji_block (plain_geom 12 768) p 0 1 (open_file [0])) = None"
proof (intro allI conjI)
  fix p
  let ?b = "\<lambda>x. init_fuji_block (plain_geom 12 768) p 0 1 (open_file [x])"
  have b: "fuji_bits (?b x) = byte_bits x" "fuji_ok (?b x)" for x
    using init_fuji_block_ok [where off = 0 and dsize = 1 and g = "plain_geom 12 768" and p = p and io = "open_file [x]"] by (simp_all add: open_file_def MIN_c_def)
  have "True \<in> set (byte_bits 0x10)" "True \<notin> set (byte_bits 0)" by code_simp+
  then show "\<exists>r. fuji_zerobits 0 (?b 0x10) = Some r" "fuji_zerobits 0 (?b 0) = None"
    using fuji_zerobits_returns [OF b(2)] unfolding b(1) by (blast, metis not_Some_eq)
qed

text \<open>
  The gradient of two differences of samples lies between -40 and 40, so that the 41 adaptive
  entries are never left, and opposite differences have opposite gradients.
\<close>

theorem fuji_gradient_symmetric:
  assumes "params_ok p" "\<bar>v1\<bar> < total_values p" "\<bar>v2\<bar> < total_values p"
  shows "\<exists>grad. fuji_quant_gradient p v1 v2 = Some grad \<and> \<bar>grad\<bar> \<le> 40
    \<and> fuji_quant_gradient p (- v1) (- v2) = Some (- grad)"
proof -
  have "0 < q_point p ! 1" "q_point p ! 1 < q_point p ! 2" "q_point p ! 2 < q_point p ! 3"
    using assms(1) by (auto simp: params_ok_def)
  then show ?thesis
    using fuji_quant_gradient_ok [OF assms] fuji_quant_gradient_ok [OF assms(1), of "- v1" "- v2"] assms(2,3)
      fuji_quant_bounds [of "q_point p" v1] fuji_quant_bounds [of "q_point p" v2]
    by (auto simp: fuji_quant_odd)
qed

theorem fuji_gradient_symmetric_witness:
  "\<exists>p grad. init_fuji_compr (plain_geom 12 768) \<lparr>fh_total_lines = 2, fh_total_blocks = 1, fh_block_width = 768, fh_bits = 14,
      fh_raw_type = 16, fh_raw_width = 768, fh_raw_height = 12\<rparr> (open_file []) = Some (p, open_file [])
    \<and> fuji_quant_gradient p 100 (-3) = Some grad \<and> fuji_quant_gradient p (-100) 3 = Some (- grad) \<and> \<bar>grad\<bar> \<le> 40"
proof -
  let ?fh = "\<lparr>fh_total_lines = 2, fh_total_blocks = 1, fh_block_width = 768, fh_bits = 14,
      fh_raw_type = 16, fh_raw_width = 768, fh_raw_height = 12\<rparr>"
  obtain p where p: "init_fuji_compr (plain_geom 12 768) ?fh (open_file []) = Some (p, open_file [])" "params_ok p"
    using init_fuji_compr_ok [of ?fh "plain_geom 12 768" "open_file []"] by (auto simp: ok_exists)
  have "100 < total_values p" using p(2) by (auto simp: params_ok_def)
  then show ?thesis using fuji_gradient_symmetric [OF p(2), of 100 "-3"] p(1) by auto
qed

text \<open>
  C15: Any sample can be coded, in an even and in an odd position, whatever the lines above and the
  gradients are: there is a bit string on which the decoder writes that sample, consumes exactly the
  string, reports no error and keeps the lines in range.
\<close>

theorem fuji_sample_roundtrip:
  assumes "params_ok p" "block_ok p info" "2 \<le> k" "k < 18" "0 \<le> pos" "pos < line_width p" "0 \<le> t" "t < 3"
    and "0 \<le> v" "v < total_values p"
  shows "(\<exists>bs. \<forall>i rest. same_lines info i \<and> fuji_ok i \<and> fuji_bits i = bs @ rest \<longrightarrow>
      (\<exists>i'. fuji_decode_sample_even p k pos t i = Some (0, i') \<and> fuji_bits i' = rest \<and> fuji_ok i' \<and> block_ok p i'
        \<and> rd_line (line_width p) i' k (pos + 1) = Some v))
    \<and> (\<exists>bs. \<forall>i rest. same_lines info i \<and> fuji_ok i \<and> fuji_bits i = bs @ rest \<longrightarrow>
      (\<exists>i'. fuji_decode_sample_odd p k pos t i = Some (0, i') \<and> fuji_bits i' = rest \<and> fuji_ok i' \<and> block_ok p i'
        \<and> rd_line (line_width p) i' k (pos + 1) = Some v))"
  using fuji_even_decodes [OF assms] fuji_odd_decodes [OF assms(1,2) _ assms(4-10)] assms(3) by auto

theorem fuji_sample_roundtrip_witness:
  "\<exists>p info bs. init_fuji_compr (plain_geom 12 768) \<lparr>fh_total_lines = 2, fh_total_blocks = 1, fh_block_width = 768, fh_bits = 14,
      fh_raw_type = 16, fh_raw_width = 768, fh_raw_height = 12\<rparr> (open_file []) = Some (p, open_file [])
    \<and> info = init_fuji_block (plain_geom 12 768) p 0 100 (open_file [])
    \<and> (\<forall>i rest. same_lines info i \<and> fuji_ok i \<and> fuji_bits i = bs @ rest \<longrightarrow>
      (\<exists>i'. fuji_decode_sample_even p 2 0 0 i = Some (0, i') \<and> rd_line (line_width p) i' 2 1 = Some 77))"
proof -
  let ?fh = "\<lparr>fh_total_lines = 2, fh_total_blocks = 1, fh_block_width = 768, fh_bits = 14,
      fh_raw_type = 16, fh_raw_width = 768, fh_raw_height = 12\<rparr>"
  obtain p where p: "init_fuji_compr (plain_geom 12 768) ?fh (open_file []) = Some (p, open_file [])" "params_ok p"
    using init_fuji_compr_ok [of ?fh "plain_geom 12 768" "open_file []"] by (auto simp: ok_exists)
  have b: "block_ok p (init_fuji_block (plain_geom 12 768) p 0 100 (open_file []))"
    by (rule init_fuji_block_ok) (use p(2) in auto)
  have "0 < line_width p" "77 < total_values p" using p(2) by (auto simp: params_ok_def)
  then show ?thesis using fuji_sample_roundtrip [OF p(2) b, of 2 0 0 77] p(1) by simp metis
qed

end
