(* ===== verification/FujiStrips.thy ===== *)
theory FujiStrips
  imports FujiSamples
begin

text \<open>
  The strips of a RAF file under OpenMP: a step relation in which any strip may decode its next line,
  and the proof that the strips do not disturb each other.
\<close>

section \<open>The cells of a strip\<close>

text \<open>Two arrays of one size that agree on the cells in \<open>A\<close>.\<close>

definition agree :: "int set \<Rightarrow> u16 list \<Rightarrow> u16 list \<Rightarrow> bool" where
  "agree A xs ys \<longleftrightarrow> length xs = length ys \<and> (\<forall>j \<in> A. rd xs j = rd ys j)"

lemma wr_agree:
  assumes "wr xs i v = Some xs'" "agree A xs ys"
  shows "\<exists>ys'. wr ys i v = Some ys' \<and> agree A xs' ys'"
proof -
  have "inb xs i" using assms(1) by (auto simp: wr_def split: if_splits)
  then obtain ys' where ys': "wr ys i v = Some ys'" using assms(2) by (auto simp: wr_def agree_def inb_def)
  have "length xs' = length xs" "length ys' = length ys" using assms(1) ys' by (auto simp: wr_def split: if_splits)
  then show ?thesis using ys' assms by (auto simp: agree_def rd_wr [OF assms(1)] rd_wr [OF ys'])
qed

text \<open>The columns of strip \<open>b\<close> and its width.\<close>

definition strip_width :: "fuji_header \<Rightarrow> int \<Rightarrow> int" where
  "strip_width fh b = (if b + 1 = fh_total_blocks fh then c_s32 (fh_raw_width fh - fh_block_width fh * b) else fh_block_width fh)"

definition strip_cells :: "fuji_header \<Rightarrow> int \<Rightarrow> int set" where
  "strip_cells fh b = {row * fh_raw_width fh + col | row col.
     0 \<le> row \<and> fh_block_width fh * b \<le> col \<and> col < fh_block_width fh * b + strip_width fh b}"

definition header_ok :: "fuji_header \<Rightarrow> bool" where
  "header_ok fh \<longleftrightarrow> fh_block_width fh = 0x300 \<and> 0x300 \<le> fh_raw_width fh \<and> fh_raw_width fh \<le> 0x3000
     \<and> 0 < fh_total_lines fh \<and> fh_total_lines fh \<le> 0x800 \<and> 0 < fh_total_blocks fh
     \<and> fh_raw_width fh \<le> fh_total_blocks fh * 0x300 \<and> fh_total_blocks fh * 0x300 - 0x300 < fh_raw_width fh"

lemma strip_inside:
  assumes "header_ok fh" "0 \<le> b" "b < fh_total_blocks fh"
  shows "0 < strip_width fh b" "fh_block_width fh * b + strip_width fh b \<le> fh_raw_width fh"
    "strip_width fh b \<le> fh_block_width fh"
proof -
  have w: "fh_block_width fh = 768" "fh_raw_width fh \<le> fh_total_blocks fh * 768" "fh_total_blocks fh * 768 - 768 < fh_raw_width fh"
    "fh_raw_width fh \<le> 12288" using assms(1) by (simp_all add: header_ok_def)
  have s: "strip_width fh b = (if b + 1 = fh_total_blocks fh then fh_raw_width fh - 768 * b else 768)"
    using w assms(2) by (auto simp: strip_width_def intro!: c_s32_self)
  have "(b + 1) * 768 \<le> (fh_total_blocks fh - 1) * 768" if "b + 1 \<noteq> fh_total_blocks fh"
    using that assms(3) by (intro mult_right_mono) auto
  then show "0 < strip_width fh b" "fh_block_width fh * b + strip_width fh b \<le> fh_raw_width fh"
    "strip_width fh b \<le> fh_block_width fh" unfolding s using w by (auto split: if_splits)
qed

lemma strips_disjoint:
  assumes "header_ok fh" "0 \<le> b" "b < fh_total_blocks fh" "0 \<le> c" "c < fh_total_blocks fh" "b \<noteq> c"
  shows "strip_cells fh b \<inter> strip_cells fh c = {}"
proof (rule ccontr)
  assume "strip_cells fh b \<inter> strip_cells fh c \<noteq> {}"
  then obtain r col r' col' where e: "r * fh_raw_width fh + col = r' * fh_raw_width fh + col'"
    and c: "fh_block_width fh * b \<le> col" "col < fh_block_width fh * b + strip_width fh b"
    and c': "fh_block_width fh * c \<le> col'" "col' < fh_block_width fh * c + strip_width fh c"
    by (auto simp: strip_cells_def)
  have w: "fh_block_width fh = 768" using assms(1) by (simp add: header_ok_def)
  note i = strip_inside [OF assms(1-3)] strip_inside [OF assms(1,4,5)]
  have "0 \<le> col" "col < fh_raw_width fh" "0 \<le> col'" "col' < fh_raw_width fh" using c c' i w assms(2,4) by auto
  then have "col = col'" using row_col_inj [OF e] by simp
  then have "768 * b < 768 * c + 768" "768 * c < 768 * b + 768" using c c' i w by auto
  then show False using assms(6) by auto
qed

text \<open>One line of blocks into \<open>raw_image\<close>, for both kinds of sensor: a rectangle of values.\<close>

definition copy_lines :: "geom \<Rightarrow> fuji_header \<Rightarrow> fuji_params \<Rightarrow> int \<Rightarrow> int \<Rightarrow> int \<Rightarrow> fuji_block \<Rightarrow> u16 list \<Rightarrow> u16 list option" where
  "copy_lines g fh p flt b line info raw =
     (if fh_raw_type fh = 16 then copy_line_to_xtrans g fh p info line b (strip_width fh b) raw
      else copy_line_to_bayer flt fh p info line b (strip_width fh b) raw)"

definition paint :: "(int \<Rightarrow> int \<Rightarrow> int option) \<Rightarrow> int \<Rightarrow> int \<Rightarrow> int \<Rightarrow> u16 list \<Rightarrow> u16 list option" where
  "paint val off W w raw = for_up 0 6 (\<lambda>r raw. for_up 0 w (\<lambda>px raw. do { v \<leftarrow> val r px; wr raw (off + r * W + px) v }) raw) raw"

lemma copy_lines_paint:
  "\<exists>val. copy_lines g fh p flt b line info = paint val (fuji_raw_offset fh line b) (fh_raw_width fh) (c_u32 (strip_width fh b))"
proof (cases "fh_raw_type fh = 16")
  case True
  show ?thesis
    by (intro exI [of _ "\<lambda>row_count pixel_count. do {
         r \<leftarrow> at (xtrans_abs g) row_count;
         color \<leftarrow> at r (pixel_count mod 6);
         rd_line (line_width p) info (if color = 0 then fl_R2 + shr row_count 1
                  else if color = 2 then fl_B2 + shr row_count 1 else fl_G2 + row_count)
           ((((pixel_count * 2 div 3) AND 0x7FFFFFFE) OR ((pixel_count mod 3) AND 1))
             + shr (pixel_count mod 3) 1 + 1) }"] ext)
      (simp add: copy_lines_def True copy_line_to_xtrans_def paint_def Let_def Option.bind_assoc)
next
  case False
  show ?thesis
    by (intro exI ext) (simp add: copy_lines_def False copy_line_to_bayer_def paint_def Let_def)
qed

lemma paint_agree:
  assumes "paint val off W w xs = Some xs'" "agree A xs ys"
  shows "\<exists>ys'. paint val off W w ys = Some ys' \<and> agree A xs' ys'"
  unfolding paint_def
  apply (rule for_by_sim [where R = "agree A", OF assms(1) [unfolded paint_def] assms(2)])
  apply (erule for_by_sim [where R = "agree A"], assumption)
  apply (auto simp: bind_eq_Some_conv dest: wr_agree)
  done

lemma copy_lines_agree:
  "copy_lines g fh p flt b line info xs = Some xs' \<Longrightarrow> agree A xs ys
    \<Longrightarrow> \<exists>ys'. copy_lines g fh p flt b line info ys = Some ys' \<and> agree A xs' ys'"
  using copy_lines_paint [of g fh p flt b line info] paint_agree by metis

lemma paint_inside:
  assumes "paint val off W w xs = Some xs'"
    and "\<And>r px. 0 \<le> r \<Longrightarrow> 0 \<le> px \<Longrightarrow> px < w \<Longrightarrow> off + r * W + px \<in> C"
  shows "agree (- C) xs xs'"
proof -
  have put: "agree (- C) xs zs"
    if "agree (- C) xs ys" "wr ys (off + r * W + px) v = Some zs" "0 \<le> r" "0 \<le> px" "px < w" for ys zs r px v
  proof -
    have "length zs = length ys" using that(2) by (auto simp: wr_def split: if_splits)
    then show ?thesis using that(1) assms(2) [OF that(3-5)] by (auto simp: agree_def rd_wr [OF that(2)])
  qed
  show ?thesis using assms(1) unfolding paint_def
    apply (rule for_by_kept)
     apply (simp add: agree_def)
    apply (erule for_by_kept, assumption)
    apply (elim bind_eq_Some_conv [THEN iffD1, elim_format] exE conjE)
    apply (rule put [rotated], assumption+)
    done
qed

lemma fuji_raw_offset_eq:
  assumes "header_ok fh" "0 \<le> b" "b < fh_total_blocks fh" "0 \<le> line" "line < fh_total_lines fh"
  shows "fuji_raw_offset fh line b = fh_block_width fh * b + 6 * fh_raw_width fh * line"
proof -
  have "fh_raw_width fh * line \<le> 12288 * 2048"
    using assms by (intro mult_mono) (auto simp: header_ok_def)
  moreover have "768 * b < 12288 + 768" using assms(1,3) strip_inside [OF assms(1-3)] by (auto simp: header_ok_def)
  moreover have "0 \<le> fh_raw_width fh * line" using assms by (simp add: header_ok_def)
  ultimately show ?thesis using assms(1,2) unfolding fuji_raw_offset_def
    by (intro c_s32_self) (auto simp: header_ok_def)
qed

lemma copy_lines_inside:
  assumes h: "header_ok fh" "0 \<le> b" "b < fh_total_blocks fh" "0 \<le> line" "line < fh_total_lines fh"
    and "copy_lines g fh p flt b line info xs = Some xs'"
  shows "agree (- strip_cells fh b) xs xs'"
proof -
  note i = strip_inside [OF h(1-3)]
  have w: "c_u32 (strip_width fh b) = strip_width fh b" using i h(1) by (intro take_bit_int_eq_self) (auto simp: header_ok_def)
  obtain val where p: "paint val (fuji_raw_offset fh line b) (fh_raw_width fh) (strip_width fh b) xs = Some xs'"
    using copy_lines_paint [of g fh p flt b line info] assms(6) w by auto
  show ?thesis
  proof (rule paint_inside [OF p])
    fix r px :: int
    assume r: "0 \<le> r" "0 \<le> px" "px < strip_width fh b"
    have "fuji_raw_offset fh line b + r * fh_raw_width fh + px = (6 * line + r) * fh_raw_width fh + (fh_block_width fh * b + px)"
      unfolding fuji_raw_offset_eq [OF h] by (simp add: algebra_simps)
    moreover have "0 \<le> 6 * line + r" using h(4) r(1) by simp
    ultimately show "fuji_raw_offset fh line b + r * fh_raw_width fh + px \<in> strip_cells fh b"
      using r unfolding strip_cells_def by force
  qed
qed

lemma fuji_decode_line_eq:
  "fuji_decode_line g fh p flt b (strip_width fh b) line (info, raw) = do {
     info \<leftarrow> (if fh_raw_type fh = 16 then xtrans_decode_block p info else fuji_bayer_decode_block p info);
     info \<leftarrow> fuji_advance (line_width p) info;
     raw \<leftarrow> copy_lines g fh p flt b line info raw;
     info \<leftarrow> fuji_reset (line_width p) info;
     Some (info, raw) }"
  by (simp add: fuji_decode_line_def copy_lines_def)

lemma fuji_decode_line_agree:
  assumes "fuji_decode_line g fh p flt b (strip_width fh b) line (info, xs) = Some (info', xs')" "agree A xs ys"
  shows "\<exists>ys'. fuji_decode_line g fh p flt b (strip_width fh b) line (info, ys) = Some (info', ys') \<and> agree A xs' ys'"
  using assms(1) unfolding fuji_decode_line_eq
  by (auto simp: bind_eq_Some_conv dest!: copy_lines_agree [OF _ assms(2)])

lemma fuji_decode_line_inside:
  assumes "header_ok fh" "0 \<le> b" "b < fh_total_blocks fh" "0 \<le> line" "line < fh_total_lines fh"
    and "fuji_decode_line g fh p flt b (strip_width fh b) line (info, xs) = Some (info', xs')"
  shows "agree (- strip_cells fh b) xs xs'"
  using assms(6) unfolding fuji_decode_line_eq
  by (auto simp: bind_eq_Some_conv dest: copy_lines_inside [OF assms(1-5)])

section \<open>The strips in parallel\<close>

text \<open>
  The threads of \<open>fuji_decode_loop\<close>: strip \<open>b\<close> has a block of its own and the number of its next
  line; the image is shared. A step decodes one line of some strip. (The threads also share the
  file, but every read of \<open>fuji_fill_buffer\<close> seeks first, inside a critical section.)
\<close>

type_synonym strip_threads = "int \<Rightarrow> fuji_block \<times> int"

inductive strips_step :: "geom \<Rightarrow> fuji_header \<Rightarrow> fuji_params \<Rightarrow> int \<Rightarrow> strip_threads \<times> u16 list \<Rightarrow> strip_threads \<times> u16 list \<Rightarrow> bool"
  for g fh p flt where
  decode_line: "\<lbrakk> 0 \<le> b; b < fh_total_blocks fh; th b = (info, line); line < fh_total_lines fh;
      fuji_decode_line g fh p flt b (strip_width fh b) line (info, raw) = Some (info', raw') \<rbrakk>
    \<Longrightarrow> strips_step g fh p flt (th, raw) (th(b := (info', line + 1)), raw')"

inductive_cases strips_stepE: "strips_step g fh p flt (th, raw) s"

text \<open>Strip \<open>b\<close> decoded alone, as far as line \<open>n\<close>.\<close>

definition strip_alone ::
    "geom \<Rightarrow> fuji_header \<Rightarrow> fuji_params \<Rightarrow> int \<Rightarrow> int \<Rightarrow> int \<Rightarrow> fuji_block \<times> u16 list \<Rightarrow> (fuji_block \<times> u16 list) option" where
  "strip_alone g fh p flt b n = for_up 0 n (fuji_decode_line g fh p flt b (strip_width fh b))"

definition strips_inv ::
    "geom \<Rightarrow> fuji_header \<Rightarrow> fuji_params \<Rightarrow> int \<Rightarrow> (int \<Rightarrow> fuji_block) \<Rightarrow> u16 list \<Rightarrow> strip_threads \<times> u16 list \<Rightarrow> bool" where
  "strips_inv g fh p flt start raw0 = (\<lambda>(th, raw).
     (\<forall>b. 0 \<le> b \<longrightarrow> b < fh_total_blocks fh \<longrightarrow> 0 \<le> snd (th b) \<and> snd (th b) \<le> fh_total_lines fh
        \<and> (\<exists>own. strip_alone g fh p flt b (snd (th b)) (start b, raw0) = Some (fst (th b), own) \<and> agree (strip_cells fh b) raw own))
   \<and> agree (- (\<Union>b \<in> {0..<fh_total_blocks fh}. strip_cells fh b)) raw0 raw)"

lemma strips_step_inv:
  assumes "header_ok fh" "strips_step g fh p flt s t" "strips_inv g fh p flt start raw0 s"
  shows "strips_inv g fh p flt start raw0 t"
  using assms(2,3)
proof (cases rule: strips_step.cases)
  case (decode_line b th info line raw info' raw')
  have inv: "strips_inv g fh p flt start raw0 (th, raw)" using assms(3) decode_line(1) by simp
  then have l: "0 \<le> line" using decode_line by (force simp: strips_inv_def)
  have inside: "agree (- strip_cells fh b) raw raw'"
    by (rule fuji_decode_line_inside [OF assms(1) _ _ l]) (use decode_line in auto)
  have "0 \<le> snd (th' c) \<and> snd (th' c) \<le> fh_total_lines fh
      \<and> (\<exists>own. strip_alone g fh p flt c (snd (th' c)) (start c, raw0) = Some (fst (th' c), own) \<and> agree (strip_cells fh c) raw' own)"
    if c: "0 \<le> c" "c < fh_total_blocks fh" and th: "th' = th(b := (info', line + 1))" for c th'
  proof (cases "c = b")
    case True
    obtain own where own: "strip_alone g fh p flt b line (start b, raw0) = Some (info, own)" "agree (strip_cells fh b) raw own"
      using inv decode_line by (force simp: strips_inv_def)
    obtain own' where "fuji_decode_line g fh p flt b (strip_width fh b) line (info, own) = Some (info', own')"
        "agree (strip_cells fh b) raw' own'"
      using fuji_decode_line_agree [OF _ own(2)] decode_line by blast
    then show ?thesis using own(1) l decode_line(6) True th by (simp add: strip_alone_def for_up_snoc)
  next
    case False
    have "strip_cells fh b \<inter> strip_cells fh c = {}"
      using strips_disjoint [OF assms(1)] decode_line(3,4) c False by blast
    then have "agree (strip_cells fh c) raw raw'" using inside by (auto simp: agree_def)
    then show ?thesis using inv c False th by (fastforce simp: strips_inv_def agree_def)
  qed
  moreover have "agree (- (\<Union>b \<in> {0..<fh_total_blocks fh}. strip_cells fh b)) raw0 raw'"
    using inv inside decode_line(3,4) by (auto simp: strips_inv_def agree_def)
  ultimately show ?thesis unfolding decode_line(2) strips_inv_def by simp
qed

section \<open>Properties\<close>



end
