(* ===== verification/Blend.thy ===== *)
theory Blend
  imports Prelude
begin

text \<open>
  Layer blending, the inner loop of LightZone's compositing (\<open>blendFunctions.cpp\<close>): the blend modes
  on samples of 16 bits, the mixing with an opacity and with masks, and the loop over an image.

  All samples are \<open>ushort\<close>, but C++ computes with them as \<open>int\<close>, so that a product of two samples may
  leave the range of \<open>int\<close>; the model takes the two's complement result there. What that does to each
  mode is what the lemmas are about.
\<close>

section \<open>The blend modes\<close>

definition maxVal :: int where
  "maxVal = 0xFFFF"

text \<open>A product of \<open>int\<close> values.\<close>

abbreviation mul_i :: "int \<Rightarrow> int \<Rightarrow> int" where
  "mul_i a b \<equiv> c_s32 (a * b)"

definition blend_normal :: "int \<Rightarrow> int \<Rightarrow> int" where
  "blend_normal front back = front"

definition blend_average :: "int \<Rightarrow> int \<Rightarrow> int" where
  "blend_average front back = c_u16 ((front + back) sdiv 2)"

definition blend_multiply :: "int \<Rightarrow> int \<Rightarrow> int" where
  "blend_multiply front back = c_u16 (mul_i front back sdiv (maxVal + 1))"

definition blend_screen :: "int \<Rightarrow> int \<Rightarrow> int" where
  "blend_screen front back = c_u16 (maxVal - mul_i (maxVal - front) (maxVal - back) sdiv (maxVal + 1))"

definition blend_darken :: "int \<Rightarrow> int \<Rightarrow> int" where
  "blend_darken front back = min front back"

definition blend_lighten :: "int \<Rightarrow> int \<Rightarrow> int" where
  "blend_lighten front back = max front back"

definition blend_difference :: "int \<Rightarrow> int \<Rightarrow> int" where
  "blend_difference front back = c_u16 \<bar>front - back\<bar>"

definition blend_negation :: "int \<Rightarrow> int \<Rightarrow> int" where
  "blend_negation front back = c_u16 (maxVal - \<bar>maxVal - front - back\<bar>)"

definition blend_exclusion :: "int \<Rightarrow> int \<Rightarrow> int" where
  "blend_exclusion front back = c_u16 (front + back - mul_i front back sdiv (maxVal sdiv 2))"

definition blend_overlay :: "int \<Rightarrow> int \<Rightarrow> int" where
  "blend_overlay front back =
     (if back < maxVal sdiv 2 then c_u16 (mul_i front back sdiv (maxVal sdiv 2))
      else c_u16 (maxVal - mul_i (maxVal - front) (maxVal - back) sdiv (maxVal sdiv 2)))"

definition blend_hard_light :: "int \<Rightarrow> int \<Rightarrow> int" where
  "blend_hard_light front back =
     (if front < maxVal sdiv 2 then c_u16 (mul_i front back sdiv (maxVal sdiv 2))
      else c_u16 (maxVal - mul_i (maxVal - front) (maxVal - back) sdiv (maxVal sdiv 2)))"

text \<open>
  The soft light modes divide by an \<open>uint32_t\<close>, which turns the product into an unsigned number first.
\<close>

definition soft_m :: "int \<Rightarrow> int \<Rightarrow> int" where
  "soft_m front back = c_u16 (c_u32 (mul_i front back) div (maxVal + 1))"

definition soft_s :: "int \<Rightarrow> int \<Rightarrow> int" where
  "soft_s front back =
     c_u16 (c_u32 (maxVal - c_u32 (mul_i (maxVal - front) (maxVal - back)) div (maxVal + 1)))"

definition blend_soft_light :: "int \<Rightarrow> int \<Rightarrow> int" where
  "blend_soft_light front back =
     (let m = soft_m front back; s = soft_s front back
      in c_u16 (c_u32 (c_s32 (mul_i (maxVal - back) m + mul_i back s)) div (maxVal + 1)))"

definition blend_color_dodge :: "int \<Rightarrow> int \<Rightarrow> int" where
  "blend_color_dodge front back =
     (if front = maxVal then front
      else c_u16 (min (c_u32 (back * (maxVal + 1)) div (maxVal - front)) maxVal))"

definition blend_color_burn :: "int \<Rightarrow> int \<Rightarrow> int" where
  "blend_color_burn front back =
     (if front = 0 then 0
      else let c = c_s32 (c_u32 (maxVal - c_u32 ((maxVal - back) * (maxVal + 1)) div front))
           in c_u16 (max c 0))"

text \<open>The template \<open>clampUShort\<close> (mathlz.h) at the types it is used with, \<open>int\<close> and \<open>uint32_t\<close>.\<close>

definition clampUShort :: "int \<Rightarrow> int" where
  "clampUShort x = (if x < 0 then 0 else if x > 0xffff then 0xffff else c_u16 x)"

definition minmax :: "int \<Rightarrow> int \<Rightarrow> int \<times> int" where
  "minmax a b = (if b < a then (b, a) else (a, b))"

definition blend_soft_dodge :: "int \<Rightarrow> int \<Rightarrow> int" where
  "blend_soft_dodge front back =
     (let p = minmax back (c_u16 (maxVal - front))
      in if snd p = 0 then maxVal else clampUShort (c_u32 (fst p * (maxVal sdiv 2)) div snd p))"

definition blend_soft_burn :: "int \<Rightarrow> int \<Rightarrow> int" where
  "blend_soft_burn front back =
     (let p = minmax front (c_u16 (maxVal - back))
      in if snd p = 0 then maxVal else clampUShort (c_u32 (fst p * (maxVal sdiv 2)) div snd p))"

text \<open>
  Modes that interpolate in \<open>double\<close>: the arithmetic of the transition zone is the argument \<open>fp\<close>, by
  name of the mode; the integer guards around it are the code's.
\<close>

record blend_fp =
  fp_soft2 :: "int \<Rightarrow> int \<Rightarrow> int \<Rightarrow> int \<Rightarrow> int"
  fp_low :: "int \<Rightarrow> int \<Rightarrow> int \<Rightarrow> int \<Rightarrow> int"
  fp_high :: "int \<Rightarrow> int \<Rightarrow> int \<Rightarrow> int \<Rightarrow> int"

definition blend_soft_light2 :: "blend_fp \<Rightarrow> int \<Rightarrow> int \<Rightarrow> int \<Rightarrow> int" where
  "blend_soft_light2 fp ex front back = fp_soft2 fp ex (soft_m front back) (soft_s front back) back"

definition blend_low_pass :: "blend_fp \<Rightarrow> int \<Rightarrow> int \<Rightarrow> int \<Rightarrow> int \<Rightarrow> int" where
  "blend_low_pass fp threshold transition front back =
     (if back < threshold - transition then front
      else if back > threshold + transition then back
      else fp_low fp threshold transition front back)"

definition blend_high_pass :: "blend_fp \<Rightarrow> int \<Rightarrow> int \<Rightarrow> int \<Rightarrow> int \<Rightarrow> int" where
  "blend_high_pass fp threshold transition front back =
     (if back > threshold + transition then front
      else if back < threshold - transition then back
      else fp_high fp threshold transition front back)"

definition blend_band :: "blend_fp \<Rightarrow> int \<Rightarrow> int \<Rightarrow> int \<Rightarrow> int \<Rightarrow> int \<Rightarrow> int \<Rightarrow> int" where
  "blend_band fp low_t low_w high_t high_w front back =
     blend_low_pass fp high_t high_w (blend_high_pass fp low_t low_w front back) back"

text \<open>
  The table \<open>BlendMode::blendMode\<close>. The thresholds of the last three are the values of
  \<open>midtonesThreshold * maxVal\<close> and so on as \<open>ushort\<close>; the exponents are given in thousandths.
\<close>

definition blendMode :: "blend_fp \<Rightarrow> (int \<Rightarrow> int \<Rightarrow> int) list" where
  "blendMode fp =
     [blend_normal, blend_average, blend_multiply, blend_screen, blend_darken, blend_lighten,
      blend_difference, blend_negation, blend_exclusion, blend_overlay, blend_hard_light,
      blend_soft_light, blend_color_dodge, blend_color_burn, blend_soft_dodge, blend_soft_burn,
      blend_soft_light2 fp 400, blend_soft_light2 fp 1310, blend_soft_light2 fp 291,
      blend_low_pass fp 11272 5636, blend_high_pass fp 2785 1392, blend_band fp 2785 1392 38665 19332]"

section \<open>The loop over an image\<close>

text \<open>
  Mixing the blended sample with the one below, at an opacity of at most \<open>maxVal\<close>.
\<close>

definition mix_opacity :: "int \<Rightarrow> int \<Rightarrow> int \<Rightarrow> int" where
  "mix_opacity op blended s2v = c_u16 (c_s32 (mul_i op blended + mul_i (maxVal - op) s2v) sdiv maxVal)"

record blend_layout =
  bands :: int
  s1bd :: int
  s2bd :: int
  s1LineOffset :: int
  s2LineOffset :: int
  dLineOffset :: int
  mLineOffset :: int
  csLineOffset :: int
  s1LineStride :: int
  s2LineStride :: int
  dLineStride :: int
  mLineStride :: int
  csLineStride :: int
  s1PixelStride :: int
  s2PixelStride :: int
  dPixelStride :: int
  mPixelStride :: int
  csPixelStride :: int
  dheight :: int
  dwidth :: int

definition mask_value :: "bool \<Rightarrow> u8 list option \<Rightarrow> int \<Rightarrow> u8 list option \<Rightarrow> int \<Rightarrow> int option" where
  "mask_value inverted m mi cs ci = do {
     v \<leftarrow> (case m of None \<Rightarrow> Some 0xFF
           | Some ms \<Rightarrow> do { x \<leftarrow> rd ms mi; Some (if inverted then 0xFF - x else x) });
     (case cs of None \<Rightarrow> Some v | Some xs \<Rightarrow> do { x \<leftarrow> rd xs ci; Some (v * x sdiv 0xFF) }) }"

definition blend_value :: "(int \<Rightarrow> int \<Rightarrow> int) \<Rightarrow> bool \<Rightarrow> int \<Rightarrow> int \<Rightarrow> int \<Rightarrow> int \<Rightarrow> int" where
  "blend_value blender masked op mv s1v s2v =
     (if mv = 0 then s2v
      else let blended = blender s1v s2v
           in if \<not> masked then (if op = maxVal then blended else mix_opacity op blended s2v)
              else mix_opacity (mul_i op mv sdiv 0xFF) blended s2v)"

text \<open>One pixel: its three samples below are read before the first is written.\<close>

definition blend_pixel :: "blend_layout \<Rightarrow> (int \<Rightarrow> int \<Rightarrow> int) \<Rightarrow> bool \<Rightarrow> int \<Rightarrow> u16 list \<Rightarrow> u16 list
    \<Rightarrow> u8 list option \<Rightarrow> u8 list option \<Rightarrow> int \<Rightarrow> int \<Rightarrow> u16 list \<Rightarrow> u16 list option" where
  "blend_pixel L blender inverted op s1 s2 m cs h w d = do {
     let s1p = s1LineOffset L + h * s1LineStride L + w * s1PixelStride L;
     let s2p = s2LineOffset L + h * s2LineStride L + w * s2PixelStride L;
     let dp = dLineOffset L + h * dLineStride L + w * dPixelStride L;
     mv \<leftarrow> mask_value inverted m (mLineOffset L + h * mLineStride L + w * mPixelStride L)
             cs (csLineOffset L + h * csLineStride L + w * csPixelStride L);
     p0 \<leftarrow> rd s2 s2p;
     p1 \<leftarrow> rd s2 (s2p + s2bd L);
     p2 \<leftarrow> rd s2 (s2p + 2 * s2bd L);
     for_up 0 (bands L) (\<lambda>i d. do {
       s2v \<leftarrow> at [p0, p1, p2] i;
       s1v \<leftarrow> (if mv = 0 then Some 0 else rd s1 (s1p + i * s1bd L));
       wr d (dp + i) (blend_value blender (m \<noteq> None \<or> cs \<noteq> None) op mv s1v s2v) }) d }"

definition blendLoop :: "blend_fp \<Rightarrow> blend_layout \<Rightarrow> u16 list \<Rightarrow> u16 list \<Rightarrow> u8 list option \<Rightarrow> u8 list option
    \<Rightarrow> int \<Rightarrow> int \<Rightarrow> u16 list \<Rightarrow> u16 list option" where
  "blendLoop fp L s1 s2 m cs intOpacity mode d = do {
     blender \<leftarrow> at (blendMode fp) mode;
     for_up 0 (dheight L) (\<lambda>h. for_up 0 (dwidth L) (\<lambda>w.
       blend_pixel L blender (intOpacity < 0) \<bar>intOpacity\<bar> s1 s2 m cs h w)) d }"

section \<open>What the wrapped products do\<close>

lemma sample_prod: "0 \<le> a \<Longrightarrow> a \<le> 65535 \<Longrightarrow> 0 \<le> b \<Longrightarrow> b \<le> 65535 \<Longrightarrow> 0 \<le> a * b \<and> a * b \<le> 4294836225" for a b :: int
  using mult_mono [of a 65535 b 65535] by simp

lemma c_s32_wrap: "0 \<le> v \<Longrightarrow> v < 2 ^ 32 \<Longrightarrow> c_s32 v = (if v < 2 ^ 31 then v else v - 2 ^ 32)"
proof (cases "v < 2 ^ 31")
  case False
  assume "0 \<le> v" "v < 2 ^ 32"
  then have "c_s32 v = c_s32 (v - 2 ^ 32)"
    by (simp add: signed_take_bit_eq_iff_take_bit_eq take_bit_eq_mod)
  also have "\<dots> = v - 2 ^ 32" using False \<open>v < 2 ^ 32\<close> by (intro signed_take_bit_int_eq_self) auto
  finally show ?thesis using False by simp
qed (simp add: c_s32_self)

lemma neg_sdiv: "0 \<le> n \<Longrightarrow> 0 < k \<Longrightarrow> (- n) sdiv k = - (n div k)" for n k :: int
  by (cases "n = 0") (simp_all add: signed_divide_int_def)

text \<open>Division of a wrapped value: the quotient is that of the two's complement, negated.\<close>

lemma wrapped_sdiv:
  assumes "0 \<le> v" "v < 2 ^ 32" "0 < k"
  shows "c_s32 v sdiv k = (if v < 2 ^ 31 then v div k else - ((2 ^ 32 - v) div k))"
proof (cases "v < 2 ^ 31")
  case True
  then show ?thesis using assms by (simp add: c_s32_self sdiv_nonneg)
next
  case False
  then have "c_s32 v = - (2 ^ 32 - v)" using assms by (simp add: c_s32_wrap)
  then show ?thesis using False assms neg_sdiv [of "2 ^ 32 - v" k] by simp
qed

lemma half_val: "maxVal sdiv 2 = 32767"
  by (simp add: maxVal_def sdiv_nonneg)

lemma wrapped_65536:
  fixes v :: int
  assumes "2 ^ 31 \<le> v" "v < 2 ^ 32"
  shows "(2 ^ 32 - v) div 65536 = 65536 - v div 65536 - (if 65536 dvd v then 0 else 1)"
proof -
  obtain q r where q: "q = v div 65536" "r = v mod 65536" by blast
  then have v: "v = 65536 * q + r" "0 \<le> r" "r < 65536" by simp_all
  show ?thesis
  proof (cases "r = 0")
    case True
    then have "(2 ^ 32 - v) div 65536 = 65536 - q" using v by (intro int_div_pos_eq [where r = 0]) auto
    then show ?thesis using True q by (simp add: dvd_eq_mod_eq_0)
  next
    case False
    then have "(2 ^ 32 - v) div 65536 = 65536 - q - 1" using v by (intro int_div_pos_eq [where r = "65536 - r"]) auto
    then show ?thesis using False q by (simp add: dvd_eq_mod_eq_0)
  qed
qed

text \<open>
  The multiply mode is the product of the samples over 65536, rounded down as long as the product
  fits into an \<open>int\<close> and rounded up where it does not: the wrapped product is negative, and C++ rounds
  towards zero.
\<close>

theorem blend_multiply_exact:
  assumes "0 \<le> front" "front \<le> 65535" "0 \<le> back" "back \<le> 65535"
  shows "blend_multiply front back
    = front * back div 65536 + (if front * back < 2 ^ 31 \<or> 65536 dvd front * back then 0 else 1)"
proof -
  let ?v = "front * back"
  have v: "0 \<le> ?v" "?v \<le> 4294836225" using sample_prod [OF assms] by auto
  then have q: "0 \<le> ?v div 65536" "?v div 65536 \<le> 65534" by simp_all
  show ?thesis
  proof (cases "?v < 2 ^ 31")
    case True
    then show ?thesis using v q
      by (simp add: blend_multiply_def maxVal_def wrapped_sdiv take_bit_int_eq_self)
  next
    case False
    define e where "e = (if 65536 dvd ?v then 0 else 1 :: int)"
    have "blend_multiply front back = c_u16 (- (65536 - ?v div 65536 - e))"
      using False v wrapped_65536 [of ?v] by (simp add: blend_multiply_def maxVal_def wrapped_sdiv e_def)
    also have "\<dots> = c_u16 (?v div 65536 + e)" by (simp add: take_bit_eq_mod mod_eq_dvd_iff)
    also have "\<dots> = ?v div 65536 + e" using q by (intro take_bit_int_eq_self) (auto simp: e_def)
    finally show ?thesis using False by (simp add: e_def)
  qed
qed

theorem blend_multiply_exact_witness:
  "blend_multiply 40000 65535 = 40000 \<and> blend_multiply 30000 65535 = 29999"
  using blend_multiply_exact [of 40000 65535] blend_multiply_exact [of 30000 65535] by simp

text \<open>
  C26: The overlay mode (and hard light, which is overlay with its arguments exchanged) is the piecewise
  product of the samples, with one hole: over the sample 32767 the two darkest samples come out as the
  two brightest, because \<open>maxVal / 2\<close> is rounded down and the quotient exceeds \<open>maxVal\<close>.
\<close>

theorem blend_overlay_exact:
  assumes "0 \<le> front" "front \<le> 65535" "0 \<le> back" "back \<le> 65535"
  shows "blend_overlay front back
      = (if back < 32767 then front * back div 32767
         else if back = 32767 \<and> front \<le> 1 then 65534 + front
         else 65535 - (65535 - front) * (65535 - back) div 32767)
      \<and> blend_hard_light back front = blend_overlay front back"
proof
  show "blend_hard_light back front = blend_overlay front back"
    by (simp add: blend_hard_light_def blend_overlay_def mult.commute)
  consider "back < 32767" | "back = 32767 \<and> front \<le> 1" | "back = 32767 \<and> 1 < front" | "32767 < back"
    by linarith
  then show "blend_overlay front back = (if back < 32767 then front * back div 32767
      else if back = 32767 \<and> front \<le> 1 then 65534 + front
      else 65535 - (65535 - front) * (65535 - back) div 32767)"
  proof cases
    case 1
    then have v: "0 \<le> front * back" "front * back \<le> 65535 * 32766" using mult_mono [of front 65535 "back" 32766] assms by simp_all
    then have "c_s32 (front * back) = front * back" by (intro c_s32_self) auto
    moreover have "0 \<le> front * back div 32767" "front * back div 32767 < 65536" using v by simp_all
    ultimately show ?thesis using 1 v by (simp add: blend_overlay_def half_val sdiv_nonneg take_bit_int_eq_self)
  next
    case 2
    then have "front = 0 \<or> front = 1" using assms(1) by linarith
    then show ?thesis using 2 by (elim disjE) (simp_all add: blend_overlay_def half_val maxVal_def c_s32_self sdiv_nonneg take_bit_eq_mod)
  next
    case 3
    then have w: "(65535 - front) * (65535 - back) = (65535 - front) * 32768" by simp
    have v: "c_s32 ((65535 - front) * 32768) = (65535 - front) * 32768" using 3 assms(2) by (intro c_s32_self) auto
    have "0 \<le> (65535 - front) * 32768 div 32767" "(65535 - front) * 32768 div 32767 < 65536"
      using 3 assms(2) zdiv_mono1 [of "(65535 - front) * 32768" "65533 * 32768" 32767] by simp_all
    then have "c_u16 (65535 - (65535 - front) * 32768 div 32767) = 65535 - (65535 - front) * 32768 div 32767"
      by (intro take_bit_int_eq_self) auto
    then show ?thesis using 3 assms unfolding blend_overlay_def half_val maxVal_def w v
      by (simp add: sdiv_nonneg del: left_diff_distrib_numeral)
  next
    case 4
    let ?v = "(65535 - front) * (65535 - back)"
    have v: "0 \<le> ?v" "?v \<le> 65535 * 32767" using mult_mono [of "65535 - front" 65535 "65535 - back" 32767] assms 4 by simp_all
    have s: "c_s32 ?v = ?v" using v by (intro c_s32_self) auto
    have "0 \<le> ?v div 32767" "?v div 32767 < 65536" using v by simp_all
    then have "c_u16 (65535 - ?v div 32767) = 65535 - ?v div 32767" by (intro take_bit_int_eq_self) auto
    then show ?thesis using 4 v s by (simp add: blend_overlay_def half_val maxVal_def sdiv_nonneg)
  qed
qed

theorem blend_overlay_exact_witness:
  "blend_overlay 0 32767 = 65534 \<and> blend_overlay 0 32766 = 0 \<and> blend_overlay 0 32768 = 0 \<and> blend_hard_light 32767 0 = 65534"
  using blend_overlay_exact [of 0 32767] blend_overlay_exact [of 0 32766] blend_overlay_exact [of 0 32768] by simp

text \<open>
  C27: The color burn mode is \<open>maxVal - (maxVal - back) * (maxVal + 1) / front\<close>, not below zero, except
  where \<open>front\<close> is 1 and \<open>back\<close> lies in the darker half: there the difference leaves the range of
  \<open>int\<close> and the darkest result becomes white.
\<close>

theorem blend_color_burn_exact:
  assumes "0 < front" "front \<le> 65535" "0 \<le> back" "back \<le> 65535"
  shows "blend_color_burn front back
    = (if front = 1 \<and> back \<le> 32766 then 65535 else max 0 (65535 - (65535 - back) * 65536 div front))"
proof -
  define x where "x = (65535 - back) * 65536"
  have x: "0 \<le> x" "x \<le> 4294901760" using assms by (auto simp: x_def)
  define q where "q = x div front"
  have q: "0 \<le> q" "q \<le> x" using x assms(1) zdiv_mono2 [of x 1 front]
    by (auto simp: q_def pos_imp_zdiv_nonneg_iff)
  have "c_u32 x = x" using x by (intro take_bit_int_eq_self) auto
  then have c: "blend_color_burn front back = c_u16 (max (c_s32 (65535 - q)) 0)"
    unfolding blend_color_burn_def Let_def maxVal_def
    using assms(1) by (simp add: x_def [symmetric] q_def [symmetric] signed_take_bit_take_bit del: left_diff_distrib_numeral)
  show ?thesis
  proof (cases "q \<le> 2 ^ 31 + 65535")
    case True
    then have "c_s32 (65535 - q) = 65535 - q" using q x by (intro signed_take_bit_int_eq_self) auto
    moreover have "\<not> (front = 1 \<and> back \<le> 32766)" using True assms by (auto simp: q_def x_def)
    ultimately show ?thesis using c q by (auto simp: q_def x_def max_def take_bit_int_eq_self)
  next
    case False
    have f: "front = 1"
    proof (rule ccontr)
      assume "front \<noteq> 1"
      then have "x div front \<le> x div 2" using assms(1) x by (intro zdiv_mono2) auto
      also have "\<dots> \<le> 2147450880" using x by auto
      finally show False using False by (simp add: q_def)
    qed
    then have qx: "q = (65535 - back) * 65536" by (simp add: q_def x_def)
    have "c_s32 (65535 - q) = c_s32 (65535 - q + 2 ^ 32)" by (simp add: signed_take_bit_eq_iff_take_bit_eq take_bit_eq_mod mod_eq_dvd_iff)
    also have "\<dots> = 65535 - q + 2 ^ 32" using False q x by (intro signed_take_bit_int_eq_self) auto
    finally have "blend_color_burn front back = c_u16 (65535 - q + 2 ^ 32)" using c q x by simp
    also have "\<dots> = c_u16 65535" using qx by (simp add: take_bit_eq_mod mod_eq_dvd_iff)
    finally show ?thesis using f False qx by auto
  qed
qed

theorem blend_color_burn_exact_witness:
  "blend_color_burn 1 0 = 65535 \<and> blend_color_burn 2 0 = 0 \<and> blend_color_burn 1 32767 = 0"
  using blend_color_burn_exact [of 1 0] blend_color_burn_exact [of 2 0] blend_color_burn_exact [of 1 32767] by simp

section \<open>Opacity\<close>

lemma wrapped_65535:
  fixes v :: int
  assumes "2 ^ 31 \<le> v" "v < 2 ^ 32"
  shows "(2 ^ 32 - v) div 65535 = 65536 - v div 65535 + (if v mod 65535 < 2 then 1 else 0)"
proof -
  obtain q r where q: "q = v div 65535" "r = v mod 65535" by blast
  then have v: "v = 65535 * q + r" "0 \<le> r" "r < 65535" by simp_all
  show ?thesis
  proof (cases "r < 2")
    case True
    then have "(2 ^ 32 - v) div 65535 = 65537 - q" using v by (intro int_div_pos_eq [where r = "1 - r"]) auto
    then show ?thesis using True q by simp
  next
    case False
    then have "(2 ^ 32 - v) div 65535 = 65536 - q" using v by (intro int_div_pos_eq [where r = "65536 - r"]) auto
    then show ?thesis using False q by simp
  qed
qed

lemma mix_weighted:
  fixes op a b :: int
  assumes "0 \<le> op" "op \<le> 65535" "0 \<le> a" "a \<le> 65535" "0 \<le> b" "b \<le> 65535"
  shows "65535 * min a b \<le> op * a + (65535 - op) * b \<and> op * a + (65535 - op) * b \<le> 65535 * max a b"
proof
  have "op * min a b + (65535 - op) * min a b \<le> op * a + (65535 - op) * b"
    using assms by (intro add_mono mult_left_mono) auto
  moreover have "op * min a b + (65535 - op) * min a b = 65535 * min a b" by (simp add: left_diff_distrib)
  ultimately show "65535 * min a b \<le> op * a + (65535 - op) * b" by linarith
  have "op * a + (65535 - op) * b \<le> op * max a b + (65535 - op) * max a b"
    using assms by (intro add_mono mult_left_mono) auto
  moreover have "op * max a b + (65535 - op) * max a b = 65535 * max a b" by (simp add: left_diff_distrib)
  ultimately show "op * a + (65535 - op) * b \<le> 65535 * max a b" by linarith
qed

text \<open>
  C28: Mixing by opacity yields the weighted mean of the two samples, rounded down, although the sum of
  the products does not fit into an \<open>int\<close>: the wrapped quotient agrees with the true one modulo 65536,
  except that it is one too small where the sum is, up to one, a multiple of \<open>maxVal\<close>. Bright samples
  that should stay as they are (equal samples, above 32768) therefore lose one.
\<close>

theorem mix_opacity_exact:
  assumes "0 \<le> op" "op \<le> 65535" "0 \<le> a" "a \<le> 65535" "0 \<le> b" "b \<le> 65535"
  defines "v \<equiv> op * a + (65535 - op) * b"
  shows "mix_opacity op a b = v div 65535 - (if 2 ^ 31 \<le> v \<and> v mod 65535 < 2 then 1 else 0)
    \<and> min a b - 1 \<le> mix_opacity op a b \<and> mix_opacity op a b \<le> max a b
    \<and> (a = b \<longrightarrow> mix_opacity op a b = (if b \<le> 32768 then b else b - 1))"
proof -
  have v: "65535 * min a b \<le> v" "v \<le> 65535 * max a b" using mix_weighted [OF assms(1-6)] by (simp_all add: v_def)
  have v0: "0 \<le> v" "v \<le> 4294836225" using v assms(3-6) by (auto simp: min_def max_def split: if_splits)
  have q: "min a b \<le> v div 65535" "v div 65535 \<le> max a b"
    using zdiv_mono1 [OF v(1), of 65535] zdiv_mono1 [OF v(2), of 65535] by simp_all
  define e where "e = (if 2 ^ 31 \<le> v \<and> v mod 65535 < 2 then 1 else 0 :: int)"
  have "mix_opacity op a b = c_u16 (c_s32 v sdiv 65535)"
    by (simp add: mix_opacity_def maxVal_def v_def signed_take_bit_add)
  also have "\<dots> = v div 65535 - e"
  proof (cases "v < 2 ^ 31")
    case True
    have "0 \<le> v div 65535" "v div 65535 < 65536" using v0 by simp_all
    then show ?thesis using True v0 by (simp add: wrapped_sdiv e_def take_bit_int_eq_self)
  next
    case False
    then have "c_s32 v sdiv 65535 = v div 65535 - e - 65536"
      using v0 wrapped_65535 [of v] by (simp add: wrapped_sdiv e_def)
    then have "c_u16 (c_s32 v sdiv 65535) = c_u16 (v div 65535 - e)" by (simp add: take_bit_eq_mod)
    also have "0 < v div 65535" "v div 65535 < 65536" using False v0 by (simp_all add: pos_imp_zdiv_pos_iff)
    then have "c_u16 (v div 65535 - e) = v div 65535 - e" by (intro take_bit_int_eq_self) (auto simp: e_def)
    finally show ?thesis .
  qed
  finally have m: "mix_opacity op a b = v div 65535 - (if 2 ^ 31 \<le> v \<and> v mod 65535 < 2 then 1 else 0)" by (simp add: e_def)
  have "a = b \<Longrightarrow> v = 65535 * b" by (simp add: v_def left_diff_distrib)
  then have "a = b \<Longrightarrow> mix_opacity op a b = (if b \<le> 32768 then b else b - 1)" using m by auto
  moreover have "min a b - 1 \<le> mix_opacity op a b" "mix_opacity op a b \<le> max a b" using m q by (auto split: if_splits)
  ultimately show ?thesis using m by blast
qed

theorem mix_opacity_exact_witness:
  "mix_opacity 30000 65535 65535 = 65534 \<and> mix_opacity 30000 20000 20000 = 20000 \<and> mix_opacity 32768 65535 0 = 32768"
  using mix_opacity_exact [of 30000 65535 65535] mix_opacity_exact [of 30000 20000 20000] mix_opacity_exact [of 32768 65535 0]
  by simp

section \<open>What the loop stores\<close>

text \<open>
  The positions of the samples, the value the loop should store, and the layouts for which all
  positions lie in their arrays and no two stores meet.
\<close>

definition s1_pos :: "blend_layout \<Rightarrow> int \<Rightarrow> int \<Rightarrow> int \<Rightarrow> int" where
  "s1_pos L h w i = s1LineOffset L + h * s1LineStride L + w * s1PixelStride L + i * s1bd L"

definition s2_pos :: "blend_layout \<Rightarrow> int \<Rightarrow> int \<Rightarrow> int \<Rightarrow> int" where
  "s2_pos L h w i = s2LineOffset L + h * s2LineStride L + w * s2PixelStride L + i * s2bd L"

definition d_pos :: "blend_layout \<Rightarrow> int \<Rightarrow> int \<Rightarrow> int \<Rightarrow> int" where
  "d_pos L h w i = dLineOffset L + h * dLineStride L + w * dPixelStride L + i"

definition m_pos :: "blend_layout \<Rightarrow> int \<Rightarrow> int \<Rightarrow> int" where
  "m_pos L h w = mLineOffset L + h * mLineStride L + w * mPixelStride L"

definition cs_pos :: "blend_layout \<Rightarrow> int \<Rightarrow> int \<Rightarrow> int" where
  "cs_pos L h w = csLineOffset L + h * csLineStride L + w * csPixelStride L"

definition mask_at :: "blend_layout \<Rightarrow> bool \<Rightarrow> u8 list option \<Rightarrow> u8 list option \<Rightarrow> int \<Rightarrow> int \<Rightarrow> int" where
  "mask_at L inverted m cs h w =
     (let v = (case m of None \<Rightarrow> 0xFF
               | Some ms \<Rightarrow> let x = uint (ms ! nat (m_pos L h w)) in if inverted then 0xFF - x else x)
      in case cs of None \<Rightarrow> v | Some xs \<Rightarrow> v * uint (xs ! nat (cs_pos L h w)) sdiv 0xFF)"

definition blend_cell :: "blend_layout \<Rightarrow> (int \<Rightarrow> int \<Rightarrow> int) \<Rightarrow> u16 list \<Rightarrow> u16 list \<Rightarrow> u8 list option
    \<Rightarrow> u8 list option \<Rightarrow> int \<Rightarrow> int \<Rightarrow> int \<Rightarrow> int \<Rightarrow> int" where
  "blend_cell L blender s1 s2 m cs op h w i =
     c_u16 (blend_value blender (m \<noteq> None \<or> cs \<noteq> None) \<bar>op\<bar> (mask_at L (op < 0) m cs h w)
       (uint (s1 ! nat (s1_pos L h w i))) (uint (s2 ! nat (s2_pos L h w i))))"

definition blend_fits :: "blend_layout \<Rightarrow> u16 list \<Rightarrow> u16 list \<Rightarrow> u8 list option \<Rightarrow> u8 list option \<Rightarrow> u16 list \<Rightarrow> bool" where
  "blend_fits L s1 s2 m cs d \<longleftrightarrow>
     0 \<le> bands L \<and> bands L \<le> 3 \<and> 0 \<le> dheight L \<and> 0 \<le> dwidth L
     \<and> list_all (\<lambda>x. 0 \<le> x) [s1bd L, s2bd L, s1LineOffset L, s2LineOffset L, dLineOffset L, mLineOffset L, csLineOffset L,
         s1LineStride L, s2LineStride L, dLineStride L, mLineStride L, csLineStride L,
         s1PixelStride L, s2PixelStride L, dPixelStride L, mPixelStride L, csPixelStride L]
     \<and> bands L \<le> dPixelStride L \<and> dwidth L * dPixelStride L \<le> dLineStride L
     \<and> s1_pos L (dheight L - 1) (dwidth L - 1) (bands L - 1) < int (length s1)
     \<and> s2_pos L (dheight L - 1) (dwidth L - 1) 2 < int (length s2)
     \<and> d_pos L (dheight L - 1) (dwidth L - 1) (bands L - 1) < int (length d)
     \<and> list_all (\<lambda>ms. m_pos L (dheight L - 1) (dwidth L - 1) < int (length ms)) (case m of None \<Rightarrow> [] | Some ms \<Rightarrow> [ms])
     \<and> list_all (\<lambda>xs. cs_pos L (dheight L - 1) (dwidth L - 1) < int (length xs)) (case cs of None \<Rightarrow> [] | Some xs \<Rightarrow> [xs])"

lemma grid_mono:
  fixes h w i :: int
  assumes "0 \<le> off" "0 \<le> ls" "0 \<le> ps" "0 \<le> bs" "0 \<le> h" "h \<le> H" "0 \<le> w" "w \<le> W" "0 \<le> i" "i \<le> B"
  shows "0 \<le> off + h * ls + w * ps + i * bs" "off + h * ls + w * ps + i * bs \<le> off + H * ls + W * ps + B * bs"
  using assms by (simp_all add: add_mono mult_right_mono)

lemma blend_inb:
  assumes "blend_fits L s1 s2 m cs d" "0 \<le> h" "h < dheight L" "0 \<le> w" "w < dwidth L"
  shows "0 \<le> i \<Longrightarrow> i < bands L \<Longrightarrow> inb s1 (s1_pos L h w i)"
    and "0 \<le> i \<Longrightarrow> i \<le> 2 \<Longrightarrow> inb s2 (s2_pos L h w i)"
    and "0 \<le> i \<Longrightarrow> i < bands L \<Longrightarrow> inb d (d_pos L h w i)"
    and "m = Some ms \<Longrightarrow> inb ms (m_pos L h w)"
    and "cs = Some xs \<Longrightarrow> inb xs (cs_pos L h w)"
proof -
  have hw: "h \<le> dheight L - 1" "w \<le> dwidth L - 1" using assms(3,5) by simp_all
  note g = grid_mono [OF _ _ _ _ assms(2) hw(1) assms(4) hw(2)]
  note b = assms(1) [unfolded blend_fits_def]
  show "inb s1 (s1_pos L h w i)" if "0 \<le> i" "i < bands L"
    using b that g [of "s1LineOffset L" "s1LineStride L" "s1PixelStride L" "s1bd L" i "bands L - 1"] by (simp add: inb_def s1_pos_def)
  show "inb s2 (s2_pos L h w i)" if "0 \<le> i" "i \<le> 2"
    using b that g [of "s2LineOffset L" "s2LineStride L" "s2PixelStride L" "s2bd L" i 2] by (simp add: inb_def s2_pos_def)
  show "inb d (d_pos L h w i)" if "0 \<le> i" "i < bands L"
    using b that g [of "dLineOffset L" "dLineStride L" "dPixelStride L" 1 i "bands L - 1"] by (simp add: inb_def d_pos_def)
  show "inb ms (m_pos L h w)" if "m = Some ms"
    using b that g [of "mLineOffset L" "mLineStride L" "mPixelStride L" 0 0 0] by (simp add: inb_def m_pos_def)
  show "inb xs (cs_pos L h w)" if "cs = Some xs"
    using b that g [of "csLineOffset L" "csLineStride L" "csPixelStride L" 0 0 0] by (simp add: inb_def cs_pos_def)
qed

lemma d_pos_inj:
  assumes "bands L \<le> dPixelStride L" "dwidth L * dPixelStride L \<le> dLineStride L"
    and "d_pos L h w i = d_pos L h' w' i'" "0 \<le> w" "w < dwidth L" "0 \<le> w'" "w' < dwidth L"
    and "0 \<le> i" "i < bands L" "0 \<le> i'" "i' < bands L"
  shows "h = h' \<and> w = w' \<and> i = i'"
proof -
  have row: "0 \<le> v * dPixelStride L + k" "v * dPixelStride L + k < dLineStride L" if "0 \<le> v" "v < dwidth L" "0 \<le> k" "k < bands L" for v k
  proof -
    have "(v + 1) * dPixelStride L \<le> dwidth L * dPixelStride L" using that assms(1) by (intro mult_right_mono) auto
    then show "v * dPixelStride L + k < dLineStride L" using that assms(1,2) by (simp add: algebra_simps)
  qed (use that assms(1) in auto)
  have "h * dLineStride L + (w * dPixelStride L + i) = h' * dLineStride L + (w' * dPixelStride L + i')"
    using assms(3) by (simp add: d_pos_def)
  from row_col_inj [OF this row [OF assms(4,5,8,9)] row [OF assms(6,7,10,11)]]
  have "h = h'" "w * dPixelStride L + i = w' * dPixelStride L + i'" by auto
  moreover from row_col_inj [OF this(2)] have "w = w' \<and> i = i'" using assms(1,8-11) by auto
  ultimately show ?thesis by simp
qed

lemma mask_value_ok:
  assumes "blend_fits L s1 s2 m cs d" "0 \<le> h" "h < dheight L" "0 \<le> w" "w < dwidth L"
  shows "mask_value iv m (m_pos L h w) cs (cs_pos L h w) = Some (mask_at L iv m cs h w)"
proof -
  have "rd ms (m_pos L h w) = Some (uint (ms ! nat (m_pos L h w)))" if "m = Some ms" for ms
    using blend_inb(4) [OF assms that] by (simp add: rd_def)
  moreover have "rd xs (cs_pos L h w) = Some (uint (xs ! nat (cs_pos L h w)))" if "cs = Some xs" for xs
    using blend_inb(5) [OF assms that] by (simp add: rd_def)
  ultimately show ?thesis by (cases m; cases cs) (simp_all add: mask_value_def mask_at_def Let_def)
qed

text \<open>What the loop has stored so far: the cells of the positions in \<open>S\<close>.\<close>

definition filled :: "blend_layout \<Rightarrow> (int \<Rightarrow> int \<Rightarrow> int \<Rightarrow> int) \<Rightarrow> (int \<Rightarrow> int \<Rightarrow> int \<Rightarrow> bool) \<Rightarrow> u16 list \<Rightarrow> u16 list \<Rightarrow> bool" where
  "filled L val S d0 d \<longleftrightarrow> length d = length d0
     \<and> (\<forall>h w i. 0 \<le> h \<and> h < dheight L \<and> 0 \<le> w \<and> w < dwidth L \<and> 0 \<le> i \<and> i < bands L \<and> S h w i
          \<longrightarrow> rd d (d_pos L h w i) = Some (val h w i))"

lemma filled_store:
  assumes "blend_fits L s1 s2 m cs d0" "filled L val S d0 d"
    and "0 \<le> h" "h < dheight L" "0 \<le> w" "w < dwidth L" "0 \<le> i" "i < bands L" "val h w i = c_u16 v"
    and "\<And>h' w' i'. S' h' w' i' \<Longrightarrow> S h' w' i' \<or> (h' = h \<and> w' = w \<and> i' = i)"
  shows "ok (wr d (d_pos L h w i) v) (filled L val S' d0)"
proof -
  have l: "length d = length d0" using assms(2) by (simp add: filled_def)
  have "inb d (d_pos L h w i)" using blend_inb(3) [OF assms(1,3-8)] l by (simp add: inb_def)
  then obtain d' where d': "wr d (d_pos L h w i) v = Some d'" "length d' = length d" by (simp add: wr_def)
  have "rd d' (d_pos L h' w' i') = Some (val h' w' i')"
    if "0 \<le> h'" "h' < dheight L" "0 \<le> w'" "w' < dwidth L" "0 \<le> i'" "i' < bands L" "S' h' w' i'" for h' w' i'
  proof (cases "h' = h \<and> w' = w \<and> i' = i")
    case True
    then show ?thesis using rd_wr_same [OF d'(1)] assms(9) by simp
  next
    case False
    then have "d_pos L h w i \<noteq> d_pos L h' w' i'"
      using d_pos_inj [of L h w i h' w' i'] assms(1,5-8) that by (auto simp: blend_fits_def)
    then have "rd d' (d_pos L h' w' i') = rd d (d_pos L h' w' i')" using rd_wr_other [OF d'(1)] by blast
    moreover have "S h' w' i'" using assms(10) [OF that(7)] False by blast
    ultimately show ?thesis using assms(2) that(1-6) unfolding filled_def by metis
  qed
  then show ?thesis using d' l by (simp add: filled_def)
qed

lemma filled_mono: "filled L val S d0 d \<Longrightarrow> (\<And>h w i. S' h w i \<Longrightarrow> 0 \<le> i \<Longrightarrow> 0 \<le> w \<Longrightarrow> w < dwidth L \<Longrightarrow> i < bands L \<Longrightarrow> S h w i) \<Longrightarrow> filled L val S' d0 d"
  by (auto simp: filled_def)

lemma blend_pixel_filled:
  assumes fits: "blend_fits L s1 s2 m cs d0"
    and hw: "0 \<le> h" "h < dheight L" "0 \<le> w" "w < dwidth L"
    and d: "filled L (blend_cell L f s1 s2 m cs op) (\<lambda>h' w' i'. h' < h \<or> h' = h \<and> w' < w) d0 d"
  shows "ok (blend_pixel L f (op < 0) \<bar>op\<bar> s1 s2 m cs h w d)
    (filled L (blend_cell L f s1 s2 m cs op) (\<lambda>h' w' i'. h' < h \<or> h' = h \<and> w' < w + 1) d0)"
proof -
  let ?val = "blend_cell L f s1 s2 m cs op"
  let ?mv = "mask_at L (op < 0) m cs h w"
  note pos = m_pos_def [symmetric] cs_pos_def [symmetric]
  define P where "P k = uint (s2 ! nat (s2_pos L h w k))" for k
  have p: "rd s2 (s2_pos L h w k) = Some (P k)" if "0 \<le> k" "k \<le> 2" for k
    using blend_inb(2) [OF fits hw that] by (simp add: rd_def P_def)
  have p2: "s2LineOffset L + h * s2LineStride L + w * s2PixelStride L = s2_pos L h w 0"
    "s2_pos L h w 0 + s2bd L = s2_pos L h w 1" "s2_pos L h w 0 + 2 * s2bd L = s2_pos L h w 2" by (simp_all add: s2_pos_def)
  have three: "bands L \<le> 3" using fits by (simp add: blend_fits_def)
  have b0: "0 \<le> bands L" using fits by (simp add: blend_fits_def)
  have "ok (for_up 0 (bands L) (\<lambda>i d. do {
       s2v \<leftarrow> at [P 0, P 1, P 2] i;
       s1v \<leftarrow> (if ?mv = 0 then Some 0 else rd s1 (s1LineOffset L + h * s1LineStride L + w * s1PixelStride L + i * s1bd L));
       wr d (dLineOffset L + h * dLineStride L + w * dPixelStride L + i) (blend_value f (m \<noteq> None \<or> cs \<noteq> None) \<bar>op\<bar> ?mv s1v s2v) }) d)
     (filled L ?val (\<lambda>h' w' i'. h' < h \<or> h' = h \<and> w' < w + 1) d0)"
  proof (rule for_up_inv [where I = "\<lambda>i. filled L ?val (\<lambda>h' w' i'. h' < h \<or> h' = h \<and> (w' < w \<or> w' = w \<and> i' < i)) d0"])
    fix i t
    assume i: "0 \<le> i" "i < bands L" and t: "filled L ?val (\<lambda>h' w' i'. h' < h \<or> h' = h \<and> (w' < w \<or> w' = w \<and> i' < i)) d0 t"
    have at: "at [P 0, P 1, P 2] i = Some (P i)"
    proof -
      have "i = 0 \<or> i = 1 \<or> i = 2" using i three by linarith
      then show ?thesis by (auto simp: at_def inb_def)
    qed
    have s1: "rd s1 (s1_pos L h w i) = Some (uint (s1 ! nat (s1_pos L h w i)))"
      using blend_inb(1) [OF fits hw i] by (simp add: rd_def)
    have val: "?val h w i = c_u16 (blend_value f (m \<noteq> None \<or> cs \<noteq> None) \<bar>op\<bar> ?mv (if ?mv = 0 then 0 else uint (s1 ! nat (s1_pos L h w i))) (P i))"
      by (simp add: blend_cell_def blend_value_def P_def)
    show "ok (do { s2v \<leftarrow> at [P 0, P 1, P 2] i;
       s1v \<leftarrow> (if ?mv = 0 then Some 0 else rd s1 (s1LineOffset L + h * s1LineStride L + w * s1PixelStride L + i * s1bd L));
       wr t (dLineOffset L + h * dLineStride L + w * dPixelStride L + i) (blend_value f (m \<noteq> None \<or> cs \<noteq> None) \<bar>op\<bar> ?mv s1v s2v) })
      (filled L ?val (\<lambda>h' w' i'. h' < h \<or> h' = h \<and> (w' < w \<or> w' = w \<and> i' < i + 1)) d0)"
    proof -
      have "ok (wr t (d_pos L h w i) (blend_value f (m \<noteq> None \<or> cs \<noteq> None) \<bar>op\<bar> ?mv
          (if ?mv = 0 then 0 else uint (s1 ! nat (s1_pos L h w i))) (P i)))
        (filled L ?val (\<lambda>h' w' i'. h' < h \<or> h' = h \<and> (w' < w \<or> w' = w \<and> i' < i + 1)) d0)"
        by (rule filled_store [OF fits t hw i val]) auto
      then show ?thesis
        unfolding at s1_pos_def [symmetric] d_pos_def [symmetric] s1 by (cases "?mv = 0") simp_all
    qed
  qed (use b0 d in \<open>auto elim!: filled_mono\<close>)
  then show ?thesis
    unfolding blend_pixel_def Let_def pos mask_value_ok [OF fits hw] p2 by (simp add: p)
qed



end
