(* ===== verification/Demosaic.thy ===== *)
theory Demosaic
  imports Blend
begin

text \<open>
  LightZone's own demosaicing (\<open>dcrawUtils.cpp\<close>), which the Java class RGBDemosaicOpImage calls on the
  raw samples that dcraw has written: the copy of the mosaic into an interleaved RGB buffer with the
  removal of hot pixels, the interpolation of green, its refinement, and the interpolation of red and
  blue. The rows of each pass are shared out to threads; the model runs them in order, and a property
  says when that makes no difference.
\<close>

section \<open>The buffers\<close>

text \<open>
  The arguments the passes share. \<open>gx\<close>, \<open>gy\<close> is the place of a green pixel in the 2 by 2 pattern,
  \<open>ry\<close> the row of the red ones.
\<close>

record bayer =
  bwidth :: int
  bheight :: int
  lineStride :: int
  rOffset :: int
  gOffset :: int
  bOffset :: int
  gx :: int
  gy :: int
  ry :: int

definition dpos :: "bayer \<Rightarrow> int \<Rightarrow> int \<Rightarrow> int \<Rightarrow> int" where
  "dpos B off x y = (y * lineStride B + x) * 3 + off"

definition datum :: "bayer \<Rightarrow> int \<Rightarrow> u16 list \<Rightarrow> int \<Rightarrow> int \<Rightarrow> int option" where
  "datum B off data x y = rd data (dpos B off x y)"

definition set_datum :: "bayer \<Rightarrow> int \<Rightarrow> int \<Rightarrow> int \<Rightarrow> int \<Rightarrow> u16 list \<Rightarrow> u16 list option" where
  "set_datum B off x y v data = wr data (dpos B off x y) v"

definition c_not :: "int \<Rightarrow> int" where
  "c_not x = (if x = 0 then 1 else 0)"

text \<open>The channel of the coloured pixels of a row, and where its first such and green pixel lies.\<close>

definition cOffset :: "bayer \<Rightarrow> int \<Rightarrow> int" where
  "cOffset B y = (if y AND 1 = ry B AND 1 then rOffset B else bOffset B)"

definition first_non_green :: "bayer \<Rightarrow> int \<Rightarrow> int" where
  "first_non_green B y = (if y AND 1 = gy B AND 1 then c_not (gx B) else gx B)"

definition first_green :: "bayer \<Rightarrow> int \<Rightarrow> int" where
  "first_green B y = (if y AND 1 = gy B AND 1 then gx B else c_not (gx B))"

section \<open>Hot pixels\<close>

text \<open>
  The chain of \<open>||\<close>: is the value below one of the multiples of the samples at the given positions?
  The samples behind the first hit are not read.
\<close>

fun below_any :: "u16 list \<Rightarrow> int \<Rightarrow> (int \<times> int) list \<Rightarrow> bool option" where
  "below_any src v [] = Some False"
| "below_any src v ((k, p) # ps) = do { s \<leftarrow> rd src p; if v < k * s then Some True else below_any src v ps }"

definition srcPos :: "int \<Rightarrow> int \<Rightarrow> int \<Rightarrow> int \<Rightarrow> int \<Rightarrow> int" where
  "srcPos stride x y dx dy = (y + dy) * stride + x + dx"

definition hot_pixel :: "u16 list \<Rightarrow> int \<Rightarrow> int list \<Rightarrow> int list \<Rightarrow> int option" where
  "hot_pixel src v near far = do {
     normal \<leftarrow> below_any src v (map (\<lambda>p. (2, p)) near @ map (\<lambda>p. (4, p)) far);
     if normal then Some v
     else do {
       n0 \<leftarrow> rd src (near ! 0); n1 \<leftarrow> rd src (near ! 1); n2 \<leftarrow> rd src (near ! 2); n3 \<leftarrow> rd src (near ! 3);
       Some ((n0 + n1 + n2 + n3) sdiv 4) } }"

definition colorHotPixelRemoval :: "int \<Rightarrow> int \<Rightarrow> int \<Rightarrow> u16 list \<Rightarrow> int \<Rightarrow> int option" where
  "colorHotPixelRemoval v x y src stride =
     (let p = srcPos stride x y
      in hot_pixel src v [p 0 (-2), p 0 2, p (-2) 0, p 2 0]
           [p (-1) (-1), p 0 (-1), p 1 (-1), p (-1) 0, p 1 0, p (-1) 1, p 0 1, p 1 1])"

definition greenHotPixelRemoval :: "int \<Rightarrow> int \<Rightarrow> int \<Rightarrow> u16 list \<Rightarrow> int \<Rightarrow> int option" where
  "greenHotPixelRemoval v x y src stride =
     (let p = srcPos stride x y
      in hot_pixel src v [p (-1) (-1), p 1 (-1), p (-1) 1, p 1 1] [p 0 (-1), p (-1) 0, p 1 0, p 0 1])"

definition copy_pixel :: "bayer \<Rightarrow> u16 list \<Rightarrow> int \<Rightarrow> int \<Rightarrow> int \<Rightarrow> u16 list \<Rightarrow> u16 list option" where
  "copy_pixel B src srcStride y x data = do {
     v \<leftarrow> rd src (srcPos srcStride x y 0 0);
     let on_border = y < 2 \<or> y \<ge> bheight B - 2 \<or> x < 2 \<or> x \<ge> bwidth B - 2;
     if x AND 1 = first_non_green B y then do {
       v \<leftarrow> (if on_border then Some v else colorHotPixelRemoval v x y src srcStride);
       set_datum B (cOffset B y) x y v data }
     else do {
       v \<leftarrow> (if on_border then Some v else greenHotPixelRemoval v x y src srcStride);
       set_datum B (gOffset B) x y v data } }"

definition copyRawToRgb :: "bayer \<Rightarrow> u16 list \<Rightarrow> int \<Rightarrow> u16 list \<Rightarrow> u16 list option" where
  "copyRawToRgb B src srcStride =
     for_up 0 (bheight B) (\<lambda>y. for_up 0 (bwidth B) (copy_pixel B src srcStride y))"

section \<open>Green\<close>

definition green_sample :: "int \<Rightarrow> int \<Rightarrow> int \<Rightarrow> int \<Rightarrow> int \<Rightarrow> int \<Rightarrow> int \<Rightarrow> int \<Rightarrow> int \<Rightarrow> int" where
  "green_sample hl hr vu vd cxy chl chr cvu cvd =
     (let dh = \<bar>hl - hr\<bar>; dv = \<bar>vu - vd\<bar>;
          cdh = \<bar>chl + chr - 2 * cxy\<bar>; cdv = \<bar>cvu + cvd - 2 * cxy\<bar>;
          similar = (\<lambda>sample. sample < 4 * cxy \<and> cxy < 4 * sample)
      in if dv + cdv - (dh + cdh) > 0 then
           let sample = (hl + hr) sdiv 2
           in if similar sample then sample + (cxy - (chl + chr) sdiv 2) sdiv 4 else sample
         else if dh + cdh - (dv + cdv) > 0 then
           let sample = (vu + vd) sdiv 2
           in if similar sample then sample + (cxy - (cvu + cvd) sdiv 2) sdiv 4 else sample
         else
           let sample = (vu + hl + vd + hr) sdiv 4
           in if similar sample then sample + (cxy - (chl + chr + cvu + cvd) sdiv 4) sdiv 8 else sample)"

text \<open>
  One row. What the next pixel needs of this one is carried along (\<open>hl\<close>, \<open>chl\<close>, \<open>cxy\<close>).
\<close>

definition green_step :: "bayer \<Rightarrow> int \<Rightarrow> int \<Rightarrow> (int \<times> int \<times> int) \<times> u16 list \<Rightarrow> ((int \<times> int \<times> int) \<times> u16 list) option" where
  "green_step B y x = (\<lambda>((hl, chl, cxy), data). do {
     let g = datum B (gOffset B) data;
     let c = datum B (cOffset B y) data;
     hr \<leftarrow> g (x + 1) y;
     vu \<leftarrow> g x (y - 1);
     vd \<leftarrow> g x (y + 1);
     chr \<leftarrow> c (x + 2) y;
     cvu \<leftarrow> c x (y - 2);
     cvd \<leftarrow> c x (y + 2);
     data \<leftarrow> set_datum B (gOffset B) x y (clampUShort (green_sample hl hr vu vd cxy chl chr cvu cvd)) data;
     Some ((hr, cxy, chr), data) })"

definition green_start :: "bayer \<Rightarrow> int \<Rightarrow> u16 list \<Rightarrow> (int \<times> int \<times> int \<times> int) option" where
  "green_start B y data = do {
     let x = first_non_green B y + 2;
     hl \<leftarrow> datum B (gOffset B) data (x - 1) y;
     cxy \<leftarrow> datum B (cOffset B y) data x y;
     chl \<leftarrow> datum B (cOffset B y) data (x - 2) y;
     Some (x, hl, chl, cxy) }"

definition green_row :: "bayer \<Rightarrow> int \<Rightarrow> u16 list \<Rightarrow> u16 list option" where
  "green_row B y data = do {
     (x, w) \<leftarrow> green_start B y data;
     (_, data) \<leftarrow> for_by 2 x (bwidth B - 2) (green_step B y) (w, data);
     Some data }"

definition interpolateGreenChannel :: "bayer \<Rightarrow> u16 list \<Rightarrow> u16 list option" where
  "interpolateGreenChannel B = for_up 2 (bheight B - 2) (green_row B)"

section \<open>Refinement\<close>

text \<open>
  The carried samples: those of the three rows \<open>y - 2\<close>, \<open>y\<close>, \<open>y + 2\<close> at \<open>x - 2\<close> and \<open>x\<close>, of the
  green and of the other channel.
\<close>

record refine_window =
  ul :: int
  hl :: int
  bl :: int
  vu :: int
  xy :: int
  vd :: int
  cul :: int
  chl :: int
  cbl :: int
  cvu :: int
  cxy :: int
  cvd :: int

text \<open>\<open>std::min_element\<close> finds the first of the smallest elements.\<close>

fun min_element :: "int list \<Rightarrow> nat" where
  "min_element (a # b # xs) = (let k = min_element (b # xs) in if (b # xs) ! k < a then Suc k else 0)"
| "min_element _ = 0"

definition refined :: "refine_window \<Rightarrow> int \<Rightarrow> int \<Rightarrow> int \<Rightarrow> int \<Rightarrow> int \<Rightarrow> int \<Rightarrow> int option" where
  "refined w hr ur br chr cur cbr =
     (if xy w < 4 * cxy w \<and> cxy w < 4 * xy w then
        let means = [(hl w + hr) sdiv 2, (vu w + vd w) sdiv 2, (ul w + br) sdiv 2, (ur + bl w) sdiv 2];
            c_means = [(chl w + chr) sdiv 2, (cvu w + cvd w) sdiv 2, (cul w + cbr) sdiv 2, (cur + cbl w) sdiv 2];
            diffs = map (\<lambda>m. xy w - m) means;
            c_diffs = map (\<lambda>m. cxy w - m) c_means;
            grads = map2 (\<lambda>d c. \<bar>d\<bar> + \<bar>c\<bar>) diffs c_diffs;
            min_dir = min_element grads
        in if grads ! min_dir > xy w sdiv 4
           then Some (clampUShort ((xy w + means ! min_dir + c_diffs ! min_dir) sdiv 2))
           else None
      else None)"

definition refine_step :: "bayer \<Rightarrow> int \<Rightarrow> int \<Rightarrow> refine_window \<times> u16 list \<Rightarrow> (refine_window \<times> u16 list) option" where
  "refine_step B y x = (\<lambda>(w, data). do {
     let g = datum B (gOffset B) data;
     let c = datum B (cOffset B y) data;
     hr \<leftarrow> g (x + 2) y;
     ur \<leftarrow> g (x + 2) (y - 2);
     br \<leftarrow> g (x + 2) (y + 2);
     chr \<leftarrow> c (x + 2) y;
     cur \<leftarrow> c (x + 2) (y - 2);
     cbr \<leftarrow> c (x + 2) (y + 2);
     data \<leftarrow> (case refined w hr ur br chr cur cbr of
               None \<Rightarrow> Some data
             | Some v \<Rightarrow> set_datum B (gOffset B) x y v data);
     Some (\<lparr>ul = vu w, hl = xy w, bl = vd w, vu = ur, xy = hr, vd = br,
            cul = cvu w, chl = cxy w, cbl = cvd w, cvu = cur, cxy = chr, cvd = cbr\<rparr>, data) })"

definition refine_row :: "bayer \<Rightarrow> int \<Rightarrow> u16 list \<Rightarrow> u16 list option" where
  "refine_row B y data = do {
     let x = first_green B y + 2;
     let g = datum B (gOffset B) data;
     let c = datum B (cOffset B y) data;
     ul0 \<leftarrow> g (x - 2) (y - 2);
     hl0 \<leftarrow> g (x - 2) y;
     bl0 \<leftarrow> g (x - 2) (y + 2);
     vu0 \<leftarrow> g x (y - 2);
     xy0 \<leftarrow> g x y;
     vd0 \<leftarrow> g x (y + 2);
     cul0 \<leftarrow> c (x - 2) (y - 2);
     chl0 \<leftarrow> c (x - 2) y;
     cbl0 \<leftarrow> c (x - 2) (y + 2);
     cvu0 \<leftarrow> c x (y - 2);
     cxy0 \<leftarrow> c x y;
     cvd0 \<leftarrow> c x (y + 2);
     (_, data) \<leftarrow> for_by 2 x (bwidth B - 2) (refine_step B y)
       (\<lparr>ul = ul0, hl = hl0, bl = bl0, vu = vu0, xy = xy0, vd = vd0,
         cul = cul0, chl = chl0, cbl = cbl0, cvu = cvu0, cxy = cxy0, cvd = cvd0\<rparr>, data);
     Some data }"

definition refineGreenChannel :: "bayer \<Rightarrow> u16 list \<Rightarrow> u16 list option" where
  "refineGreenChannel B = for_up 2 (bheight B - 2) (refine_row B)"

text \<open>The native method \<open>DCRaw.interpolateGreen\<close>.\<close>

definition interpolateGreen :: "bayer \<Rightarrow> u16 list \<Rightarrow> int \<Rightarrow> u16 list \<Rightarrow> u16 list option" where
  "interpolateGreen B src srcStride data = do {
     data \<leftarrow> copyRawToRgb B src srcStride data;
     data \<leftarrow> interpolateGreenChannel B data;
     refineGreenChannel B data }"

section \<open>Red and blue\<close>

definition rb_step :: "bayer \<Rightarrow> int \<Rightarrow> int \<Rightarrow> int \<Rightarrow> (int \<times> int) \<times> u16 list \<Rightarrow> ((int \<times> int) \<times> u16 list) option" where
  "rb_step B co y x = (\<lambda>((cne, cse), data). do {
     gnw \<leftarrow> datum B (gOffset B) data (x + 1) (y + 1);
     gsw \<leftarrow> datum B (gOffset B) data (x + 1) (y - 1);
     dnw \<leftarrow> datum B co data (x + 1) (y + 1);
     dsw \<leftarrow> datum B co data (x + 1) (y - 1);
     let cnw = gnw - dnw;
     let csw = gsw - dsw;
     gc \<leftarrow> datum B (gOffset B) data x y;
     data \<leftarrow> set_datum B co x y (clampUShort (gc - (cne + csw + cnw + cse) sdiv 4)) data;
     gw \<leftarrow> datum B (gOffset B) data (x + 1) y;
     data \<leftarrow> set_datum B co (x + 1) y (clampUShort (gw - (csw + cnw) sdiv 2)) data;
     gs \<leftarrow> datum B (gOffset B) data x (y - 1);
     data \<leftarrow> set_datum B co x (y - 1) (clampUShort (gs - (cse + csw) sdiv 2)) data;
     Some ((cnw, csw), data) })"

definition rb_row :: "bayer \<Rightarrow> int \<Rightarrow> int \<Rightarrow> int \<Rightarrow> u16 list \<Rightarrow> u16 list option" where
  "rb_row B co cx0 y data = do {
     let x = cx0 + 1;
     gne \<leftarrow> datum B (gOffset B) data (x - 1) (y + 1);
     gse \<leftarrow> datum B (gOffset B) data (x - 1) (y - 1);
     dne \<leftarrow> datum B co data (x - 1) (y + 1);
     dse \<leftarrow> datum B co data (x - 1) (y - 1);
     (_, data) \<leftarrow> for_by 2 x (bwidth B - 1) (rb_step B co y) ((gne - dne, gse - dse), data);
     Some data }"

definition interpolateRedOrBlue :: "bayer \<Rightarrow> int \<Rightarrow> int \<Rightarrow> int \<Rightarrow> u16 list \<Rightarrow> u16 list option" where
  "interpolateRedOrBlue B cx0 cy0 co = for_by 2 (cy0 + 1) (bheight B - 1) (rb_row B co cx0)"

text \<open>The native method \<open>DCRaw.interpolateRedBlue\<close>.\<close>

definition interpolateRedBlue :: "bayer \<Rightarrow> int \<Rightarrow> int \<Rightarrow> int \<Rightarrow> int \<Rightarrow> u16 list \<Rightarrow> u16 list option" where
  "interpolateRedBlue B rx0 ry0 bx0 by0 data = do {
     data \<leftarrow> interpolateRedOrBlue B rx0 ry0 (rOffset B) data;
     interpolateRedOrBlue B bx0 by0 (bOffset B) data }"

section \<open>The cells of the buffer\<close>

definition bayer_ok :: "bayer \<Rightarrow> u16 list \<Rightarrow> bool" where
  "bayer_ok B data \<longleftrightarrow> 0 \<le> bwidth B \<and> bwidth B \<le> lineStride B \<and> 4 \<le> lineStride B \<and> 0 \<le> bheight B
     \<and> int (length data) = 3 * (bheight B * lineStride B)
     \<and> set [rOffset B, gOffset B, bOffset B] = {0, 1, 2} \<and> (gx B = 0 \<or> gx B = 1)"

definition on_grid :: "bayer \<Rightarrow> int \<Rightarrow> int \<Rightarrow> int \<Rightarrow> bool" where
  "on_grid B off x y \<longleftrightarrow> 0 \<le> off \<and> off < 3 \<and> 0 \<le> x \<and> x < lineStride B \<and> 0 \<le> y \<and> y < bheight B"

definition val :: "bayer \<Rightarrow> u16 list \<Rightarrow> int \<Rightarrow> int \<Rightarrow> int \<Rightarrow> int" where
  "val B data off x y = uint (data ! nat (dpos B off x y))"

lemma offsets:
  assumes "bayer_ok B data"
  shows "0 \<le> gOffset B" "gOffset B < 3" "0 \<le> rOffset B" "rOffset B < 3" "0 \<le> bOffset B" "bOffset B < 3"
    "gOffset B \<noteq> rOffset B" "gOffset B \<noteq> bOffset B" "rOffset B \<noteq> bOffset B"
proof -
  have s: "{rOffset B, gOffset B, bOffset B} = {0, 1, 2}" using assms by (simp add: bayer_ok_def)
  have "card {rOffset B, gOffset B, bOffset B} = 3" unfolding s by simp
  then show "gOffset B \<noteq> rOffset B" "gOffset B \<noteq> bOffset B" "rOffset B \<noteq> bOffset B" by (auto simp: card_insert_if split: if_splits)
  have "gOffset B \<in> {0, 1, 2}" "rOffset B \<in> {0, 1, 2}" "bOffset B \<in> {0, 1, 2}" unfolding s [symmetric] by simp_all
  then show "0 \<le> gOffset B" "gOffset B < 3" "0 \<le> rOffset B" "rOffset B < 3" "0 \<le> bOffset B" "bOffset B < 3" by auto
qed

lemma cOffset_range:
  assumes "bayer_ok B data"
  shows "0 \<le> cOffset B y" "cOffset B y < 3" "cOffset B y \<noteq> gOffset B"
  using offsets [OF assms] by (auto simp: cOffset_def)

lemma dpos_inb:
  assumes "bayer_ok B data" "on_grid B off x y"
  shows "inb data (dpos B off x y)"
proof -
  have "0 \<le> y * lineStride B" using assms by (auto simp: bayer_ok_def on_grid_def)
  moreover have "(y + 1) * lineStride B \<le> bheight B * lineStride B"
    using assms by (intro mult_right_mono) (auto simp: bayer_ok_def on_grid_def)
  ultimately show ?thesis using assms by (simp add: inb_def dpos_def bayer_ok_def on_grid_def algebra_simps)
qed

lemma dpos_inj:
  assumes "on_grid B off x y" "on_grid B off' x' y'" "dpos B off x y = dpos B off' x' y'"
  shows "off = off' \<and> x = x' \<and> y = y'"
proof -
  have "(y * lineStride B + x) * 3 + off = (y' * lineStride B + x') * 3 + off'" using assms(3) by (simp add: dpos_def)
  from row_col_inj [OF this] have "y * lineStride B + x = y' * lineStride B + x'" "off = off'"
    using assms(1,2) by (auto simp: on_grid_def)
  with row_col_inj [OF this(1)] assms(1,2) show ?thesis by (auto simp: on_grid_def)
qed

lemma dpos_surj:
  assumes "bayer_ok B data" "k < length data"
  shows "\<exists>off x y. on_grid B off x y \<and> k = nat (dpos B off x y)"
proof -
  define K where "K = int k"
  have K: "0 \<le> K" "K < 3 * (bheight B * lineStride B)" and s: "0 < lineStride B" using assms by (auto simp: K_def bayer_ok_def)
  have "0 \<le> K div 3" "K div 3 < bheight B * lineStride B" using div_bounds [of K 3 "bheight B * lineStride B"] K by simp_all
  then have "0 \<le> K div 3 div lineStride B" "K div 3 div lineStride B < bheight B"
    using div_bounds [of "K div 3" "lineStride B" "bheight B"] s by (simp_all add: mult.commute)
  then have "on_grid B (K mod 3) (K div 3 mod lineStride B) (K div 3 div lineStride B)" using s by (simp add: on_grid_def)
  moreover have "dpos B (K mod 3) (K div 3 mod lineStride B) (K div 3 div lineStride B) = K" by (simp add: dpos_def)
  ultimately show ?thesis by (metis K_def nat_int)
qed

lemma datum_val: "bayer_ok B data \<Longrightarrow> on_grid B off x y \<Longrightarrow> datum B off data x y = Some (val B data off x y)"
  using dpos_inb by (auto simp: datum_def rd_def val_def)

lemma val_nonneg [simp]: "0 \<le> val B data off x y"
  by (simp add: val_def)

text \<open>A buffer is known by its cells.\<close>

definition cells :: "bayer \<Rightarrow> u16 list \<Rightarrow> (int \<Rightarrow> int \<Rightarrow> int \<Rightarrow> int) \<Rightarrow> bool" where
  "cells B data F \<longleftrightarrow> bayer_ok B data \<and> (\<forall>off x y. on_grid B off x y \<longrightarrow> val B data off x y = F off x y)"

lemma cells_unique: "cells B d F \<Longrightarrow> cells B e F \<Longrightarrow> d = e"
proof (rule nth_equalityI)
  assume d: "cells B d F" and e: "cells B e F"
  then show l: "length d = length e" by (simp add: cells_def bayer_ok_def)
  fix k assume "k < length d"
  then obtain off x y where p: "on_grid B off x y" "k = nat (dpos B off x y)" using dpos_surj [of B d k] d by (auto simp: cells_def)
  then have "uint (d ! k) = uint (e ! k)" using d e by (simp add: cells_def val_def)
  then show "d ! k = e ! k" by (rule word_eq_iff_unsigned [THEN iffD2])
qed

lemma cells_store:
  assumes "cells B d F" "on_grid B off x y" "0 \<le> v" "v < 65536"
  obtains d' where "set_datum B off x y v d = Some d'"
    "cells B d' (\<lambda>off' x' y'. if off' = off \<and> x' = x \<and> y' = y then v else F off' x' y')"
proof -
  have ok: "bayer_ok B d" using assms(1) by (simp add: cells_def)
  let ?d = "d[nat (dpos B off x y) := word_of_int v]"
  have inb: "inb d (dpos B off x y)" by (rule dpos_inb [OF ok assms(2)])
  have "val B ?d off' x' y' = (if off' = off \<and> x' = x \<and> y' = y then v else F off' x' y')" if g: "on_grid B off' x' y'" for off' x' y'
  proof (cases "off' = off \<and> x' = x \<and> y' = y")
    case True
    moreover have "nat (dpos B off x y) < length d" using inb by (auto simp: inb_def)
    ultimately show ?thesis using assms(3,4) uint_u16 [of v] by (simp add: val_def)
  next
    case False
    have "dpos B off' x' y' \<noteq> dpos B off x y" using dpos_inj [OF g assms(2)] False by blast
    moreover have "0 \<le> dpos B off' x' y'" "0 \<le> dpos B off x y" using dpos_inb [OF ok g] inb by (auto simp: inb_def)
    ultimately have "val B ?d off' x' y' = val B d off' x' y'" by (simp add: val_def nat_eq_iff2 nth_list_update)
    then show ?thesis using False assms(1) g by (auto simp: cells_def)
  qed
  moreover have "bayer_ok B ?d" using ok by (simp add: bayer_ok_def)
  ultimately have "cells B ?d (\<lambda>off' x' y'. if off' = off \<and> x' = x \<and> y' = y then v else F off' x' y')" by (simp add: cells_def)
  then show thesis using inb by (intro that [of ?d]) (simp_all add: set_datum_def wr_def)
qed

lemma cells_self: "bayer_ok B d \<Longrightarrow> cells B d (val B d)"
  by (simp add: cells_def)

lemma cells_datum: "cells B d F \<Longrightarrow> on_grid B off x y \<Longrightarrow> datum B off d x y = Some (F off x y)"
  by (auto simp: cells_def datum_val)

lemma clampUShort_range [simp]: "0 \<le> clampUShort v" "clampUShort v < 65536"
  by (auto simp: clampUShort_def take_bit_int_eq_self)

section \<open>Red and blue keep what was measured\<close>

text \<open>
  What a pass over channel \<open>co\<close> must not touch: the other channels, and the pixels where the sensor has
  measured this one.
\<close>

definition measured :: "int \<Rightarrow> int \<Rightarrow> int \<Rightarrow> int \<Rightarrow> bool" where
  "measured cx0 cy0 x y \<longleftrightarrow> x mod 2 = cx0 \<and> y mod 2 = cy0"

definition rb_kept :: "bayer \<Rightarrow> int \<Rightarrow> int \<Rightarrow> int \<Rightarrow> u16 list \<Rightarrow> u16 list \<Rightarrow> bool" where
  "rb_kept B co cx0 cy0 d0 d \<longleftrightarrow> bayer_ok B d
     \<and> (\<forall>off x y. on_grid B off x y \<and> (off \<noteq> co \<or> measured cx0 cy0 x y) \<longrightarrow> val B d off x y = val B d0 off x y)"

lemma rb_kept_store:
  assumes "rb_kept B co cx0 cy0 d0 d" "on_grid B co x y" "\<not> measured cx0 cy0 x y" "0 \<le> v" "v < 65536"
  shows "ok (set_datum B co x y v d) (rb_kept B co cx0 cy0 d0)"
proof -
  have "bayer_ok B d" using assms(1) by (simp add: rb_kept_def)
  from cells_store [OF cells_self [OF this] assms(2,4,5)] obtain d' where d': "set_datum B co x y v d = Some d'"
    "cells B d' (\<lambda>off' x' y'. if off' = co \<and> x' = x \<and> y' = y then v else val B d off' x' y')" by blast
  then show ?thesis using assms(1,3) by (auto simp: rb_kept_def cells_def)
qed

lemma rb_kept_datum: "rb_kept B co cx0 cy0 d0 d \<Longrightarrow> on_grid B off x y \<Longrightarrow> ok (datum B off d x y) (\<lambda>v. True)"
  by (auto simp: rb_kept_def datum_val)

lemma rb_step_kept:
  assumes k: "rb_kept B co cx0 cy0 d0 d" and co: "0 \<le> co" "co < 3"
    and x: "cx0 + 1 \<le> x" "x < bwidth B - 1" "(x - (cx0 + 1)) mod 2 = 0" and y: "cy0 + 1 \<le> y" "y < bheight B - 1" "(y - (cy0 + 1)) mod 2 = 0"
    and c: "cx0 = 0 \<or> cx0 = 1" "cy0 = 0 \<or> cy0 = 1"
  shows "ok (rb_step B co y x (w, d)) (\<lambda>(w, d). rb_kept B co cx0 cy0 d0 d)"
proof -
  have ok: "bayer_ok B d" using k by (simp add: rb_kept_def)
  have grid: "on_grid B off (x + i) (y + j)" if "0 \<le> off" "off < 3" "-1 \<le> i" "i \<le> 1" "-1 \<le> j" "j \<le> 1" for off i j
    using x y c that ok by (auto simp: on_grid_def bayer_ok_def)
  note g = offsets(1,2) [OF ok]
  have par: "x mod 2 \<noteq> cx0" "y mod 2 \<noteq> cy0" using x(3) y(3) c by presburger+
  then have m: "\<not> measured cx0 cy0 x y" "\<not> measured cx0 cy0 (x + 1) y" "\<not> measured cx0 cy0 x (y - 1)"
    by (simp_all add: measured_def)
  have rd: "ok (datum B off e (x + i) (y + j)) (\<lambda>v. True)"
    if "rb_kept B co cx0 cy0 d0 e" "off = gOffset B \<or> off = co" "-1 \<le> i" "i \<le> 1" "-1 \<le> j" "j \<le> 1" for off e i j
    using rb_kept_datum [OF that(1) grid [OF _ _ that(3-6)]] that(2) g co by auto
  note rds = rd [of _ _ 1 1, simplified] rd [of _ _ 1 "-1", simplified] rd [of _ _ 0 0, simplified] rd [of _ _ 1 0, simplified] rd [of _ _ 0 "-1", simplified]
  have step: "ok (m \<bind> f) Q" if "ok m (\<lambda>v. True)" "\<And>v. ok (f v) Q" for m :: "int option" and f :: "int \<Rightarrow> ((int \<times> int) \<times> u16 list) option" and Q
    using that by (cases m) auto
  have store: "ok (set_datum B co x' y' v e \<bind> f) Q"
    if "rb_kept B co cx0 cy0 d0 e" "0 \<le> v" "v < 65536" "x' = x \<and> y' = y \<or> x' = x + 1 \<and> y' = y \<or> x' = x \<and> y' = y - 1"
      "\<And>e. rb_kept B co cx0 cy0 d0 e \<Longrightarrow> ok (f e) Q" for e x' y' v and f :: "u16 list \<Rightarrow> ((int \<times> int) \<times> u16 list) option" and Q
  proof -
    have "ok (set_datum B co x' y' v e) (rb_kept B co cx0 cy0 d0)"
      using that(4) m grid [OF co, of 0 0] grid [OF co, of 1 0] grid [OF co, of 0 "-1"] by (intro rb_kept_store [OF that(1) _ _ that(2,3)]) auto
    then show ?thesis using that(5) by (auto simp: ok_exists)
  qed
  obtain p q where w: "w = (p, q)" by (cases w)
  show ?thesis unfolding rb_step_def Let_def prod.case w
    by (intro step store rds k clampUShort_range) (auto intro: k)
qed

lemma rb_row_kept:
  assumes k: "rb_kept B co cx0 cy0 d0 d" and co: "0 \<le> co" "co < 3"
    and y: "cy0 + 1 \<le> y" "y < bheight B - 1" "(y - (cy0 + 1)) mod 2 = 0"
    and c: "cx0 = 0 \<or> cx0 = 1" "cy0 = 0 \<or> cy0 = 1"
  shows "ok (rb_row B co cx0 y d) (rb_kept B co cx0 cy0 d0)"
proof -
  have ok: "bayer_ok B d" using k by (simp add: rb_kept_def)
  have grid: "on_grid B off cx0 (y + j)" if "0 \<le> off" "off < 3" "-1 \<le> j" "j \<le> 1" for off j
    using y c that ok by (auto simp: on_grid_def bayer_ok_def)
  note g = offsets(1,2) [OF ok]
  have rd: "datum B o' d cx0 (y + 1) = Some (val B d o' cx0 (y + 1))" "datum B o' d cx0 (y - 1) = Some (val B d o' cx0 (y - 1))"
    if "0 \<le> o'" "o' < 3" for o'
    using datum_val [OF ok grid [OF that, of 1]] datum_val [OF ok grid [OF that, of "-1"]] by simp_all
  have loop: "ok (for_by 2 (cx0 + 1) (bwidth B - 1) (rb_step B co y) (w, d)) (\<lambda>(w, d). rb_kept B co cx0 cy0 d0 d)" for w
  proof (rule for_by_inv [where I = "\<lambda>x (w, d). rb_kept B co cx0 cy0 d0 d"])
    fix x and s :: "(int \<times> int) \<times> u16 list"
    assume x: "cx0 + 1 \<le> x" "x < bwidth B - 1" "(x - (cx0 + 1)) mod 2 = 0" and s: "case s of (w, d) \<Rightarrow> rb_kept B co cx0 cy0 d0 d"
    obtain v e where "s = (v, e)" by (cases s)
    with s rb_step_kept [OF _ co x y c, of d0 e v] show "ok (rb_step B co y x s) (\<lambda>(w, d). rb_kept B co cx0 cy0 d0 d)" by simp
  qed (use k in auto)
  show ?thesis
    using loop [of "(val B d (gOffset B) cx0 (y + 1) - val B d co cx0 (y + 1), val B d (gOffset B) cx0 (y - 1) - val B d co cx0 (y - 1))"]
    by (simp add: rb_row_def Let_def rd [OF g] rd [OF co] ok_bind_iff case_prod_unfold)
qed

lemma rb_pass_kept:
  assumes "bayer_ok B d" "0 \<le> co" "co < 3" "cx0 = 0 \<or> cx0 = 1" "cy0 = 0 \<or> cy0 = 1"
  shows "ok (interpolateRedOrBlue B cx0 cy0 co d) (rb_kept B co cx0 cy0 d)"
  unfolding interpolateRedOrBlue_def
proof (rule for_by_inv [where I = "\<lambda>y. rb_kept B co cx0 cy0 d"])
  show "rb_kept B co cx0 cy0 d d" using assms(1) by (simp add: rb_kept_def)
qed (use rb_row_kept [OF _ assms(2,3) _ _ _ assms(4,5)] in auto)

text \<open>
  C32: The interpolation of red and blue never leaves the buffer, and keeps every sample that is not its
  own to compute: the whole green channel, and the red and blue samples at the places of the pattern
  where the sensor has measured them.
\<close>

theorem red_blue_keeps_measured:
  assumes "bayer_ok B data" "rx0 = 0 \<or> rx0 = 1" "ry0 = 0 \<or> ry0 = 1" "bx0 = 0 \<or> bx0 = 1" "by0 = 0 \<or> by0 = 1"
  shows "\<exists>d. interpolateRedBlue B rx0 ry0 bx0 by0 data = Some d \<and> length d = length data
    \<and> (\<forall>x y. on_grid B 0 x y \<longrightarrow> datum B (gOffset B) d x y = datum B (gOffset B) data x y
         \<and> (x mod 2 = rx0 \<and> y mod 2 = ry0 \<longrightarrow> datum B (rOffset B) d x y = datum B (rOffset B) data x y)
         \<and> (x mod 2 = bx0 \<and> y mod 2 = by0 \<longrightarrow> datum B (bOffset B) d x y = datum B (bOffset B) data x y))"
proof -
  note off = offsets [OF assms(1)]
  from rb_pass_kept [OF assms(1) off(3,4) assms(2,3)] obtain e where
    e: "interpolateRedOrBlue B rx0 ry0 (rOffset B) data = Some e" "rb_kept B (rOffset B) rx0 ry0 data e" by (auto simp: ok_exists)
  then have oke: "bayer_ok B e" by (simp add: rb_kept_def)
  from rb_pass_kept [OF oke off(5,6) assms(4,5)] obtain d where
    d: "interpolateRedOrBlue B bx0 by0 (bOffset B) e = Some d" "rb_kept B (bOffset B) bx0 by0 e d" by (auto simp: ok_exists)
  then have okd: "bayer_ok B d" by (simp add: rb_kept_def)
  have "datum B o' d x y = datum B o' data x y"
    if "on_grid B 0 x y" "0 \<le> o'" "o' < 3" "o' \<noteq> rOffset B \<or> measured rx0 ry0 x y" "o' \<noteq> bOffset B \<or> measured bx0 by0 x y" for o' x y
  proof -
    have g: "on_grid B o' x y" using that(1-3) by (simp add: on_grid_def)
    have "val B d o' x y = val B e o' x y" "val B e o' x y = val B data o' x y" using e(2) d(2) g that(4,5) by (auto simp: rb_kept_def)
    then show ?thesis using datum_val [OF okd g] datum_val [OF assms(1) g] by simp
  qed
  then show ?thesis using e(1) d(1) okd assms(1) off by (auto simp: interpolateRedBlue_def bayer_ok_def measured_def)
qed

theorem red_blue_keeps_measured_witness:
  "let B = \<lparr>bwidth = 5, bheight = 5, lineStride = 5, rOffset = 0, gOffset = 1, bOffset = 2, gx = 1, gy = 0, ry = 0\<rparr>
   in \<exists>d. interpolateRedBlue B 0 0 1 1 (replicate 75 9) = Some d \<and> datum B 0 d 2 2 = Some 9 \<and> datum B 2 d 1 3 = Some 9"
proof -
  let ?B = "\<lparr>bwidth = 5, bheight = 5, lineStride = 5, rOffset = 0, gOffset = 1, bOffset = 2, gx = 1, gy = 0, ry = 0\<rparr>"
  have ok: "bayer_ok ?B (replicate 75 9)" by (auto simp: bayer_ok_def)
  from red_blue_keeps_measured [OF this, of 0 0 1 1] obtain d where d: "interpolateRedBlue ?B 0 0 1 1 (replicate 75 9) = Some d"
    "\<forall>x y. on_grid ?B 0 x y \<longrightarrow> (x mod 2 = 0 \<and> y mod 2 = 0 \<longrightarrow> datum ?B 0 d x y = datum ?B 0 (replicate 75 9) x y)
      \<and> (x mod 2 = 1 \<and> y mod 2 = 1 \<longrightarrow> datum ?B 2 d x y = datum ?B 2 (replicate 75 9) x y)" by auto
  then have "datum ?B 0 d 2 2 = datum ?B 0 (replicate 75 9) 2 2" "datum ?B 2 d 1 3 = datum ?B 2 (replicate 75 9) 1 3"
    by (auto simp: on_grid_def)
  then have "datum ?B 0 d 2 2 = Some 9" "datum ?B 2 d 1 3 = Some 9"
    by (simp_all add: datum_def [of ?B _ "replicate 75 9"] dpos_def rd_def inb_def)
  with d(1) show ?thesis by (simp add: Let_def)
qed

end
