(* ===== verification/GreenPass.thy ===== *)
theory GreenPass
  imports Demosaic
begin

text \<open>
  The green channel of the demosaicing: what the interpolation stores into every pixel, that its rows
  may be computed by threads in any interleaving, and that the refinement behind it never changes
  anything on the buffer it is given.
\<close>

section \<open>The green channel, pixel by pixel\<close>

text \<open>
  The pixels the pass computes, and the value each of them gets from the samples before the pass.
\<close>

definition is_target :: "bayer \<Rightarrow> int \<Rightarrow> int \<Rightarrow> bool" where
  "is_target B x y \<longleftrightarrow> 2 \<le> y \<and> y < bheight B - 2 \<and> first_non_green B y + 2 \<le> x \<and> x < bwidth B - 2
     \<and> (x - first_non_green B y) mod 2 = 0"

definition green_new :: "bayer \<Rightarrow> u16 list \<Rightarrow> int \<Rightarrow> int \<Rightarrow> int" where
  "green_new B data x y =
     (let G = val B data (gOffset B); C = val B data (cOffset B y)
      in clampUShort (green_sample (G (x - 1) y) (G (x + 1) y) (G x (y - 1)) (G x (y + 1))
           (C x y) (C (x - 2) y) (C (x + 2) y) (C x (y - 2)) (C x (y + 2))))"

definition mixed :: "bayer \<Rightarrow> u16 list \<Rightarrow> (int \<Rightarrow> int \<Rightarrow> bool) \<Rightarrow> int \<Rightarrow> int \<Rightarrow> int \<Rightarrow> int" where
  "mixed B data S off x y =
     (if off = gOffset B \<and> is_target B x y \<and> S x y then green_new B data x y else val B data off x y)"

lemma first_non_green_range: "bayer_ok B data \<Longrightarrow> 0 \<le> first_non_green B y \<and> first_non_green B y \<le> 1"
  by (auto simp: first_non_green_def bayer_ok_def c_not_def)

lemma first_non_green_step: "bayer_ok B data \<Longrightarrow> first_non_green B (y + 1) = 1 - first_non_green B y"
  by (auto simp: first_non_green_def bayer_ok_def c_not_def and_one_eq mod2_eq_if)

lemma next_to_target:
  assumes "bayer_ok B data" "is_target B x y"
  shows "\<not> is_target B (x - 1) y" "\<not> is_target B (x + 1) y" "\<not> is_target B x (y - 1)" "\<not> is_target B x (y + 1)"
proof -
  have "first_non_green B (y + 1) = 1 - first_non_green B y" "first_non_green B y = 1 - first_non_green B (y - 1)"
    using first_non_green_step [OF assms(1), of y] first_non_green_step [OF assms(1), of "y - 1"] by simp_all
  moreover have "(x - first_non_green B y) mod 2 = 0" using assms(2) by (simp add: is_target_def)
  ultimately show "\<not> is_target B (x - 1) y" "\<not> is_target B (x + 1) y" "\<not> is_target B x (y - 1)" "\<not> is_target B x (y + 1)"
    unfolding is_target_def by presburger+
qed

lemma green_step_mixed:
  assumes ok: "bayer_ok B data" and d: "cells B d (mixed B data S)" and t: "is_target B x y"
    and w: "w = (val B data (gOffset B) (x - 1) y, val B data (cOffset B y) (x - 2) y, val B data (cOffset B y) x y)"
  obtains d' where
    "green_step B y x (w, d) = Some ((val B data (gOffset B) (x + 1) y, val B data (cOffset B y) x y, val B data (cOffset B y) (x + 2) y), d')"
    "cells B d' (mixed B data (\<lambda>x' y'. S x' y' \<or> x' = x \<and> y' = y))"
proof -
  have r: "2 \<le> y" "y < bheight B - 2" "2 \<le> x" "x < bwidth B - 2" "bwidth B \<le> lineStride B"
    using t first_non_green_range [OF ok, of y] ok by (auto simp: is_target_def bayer_ok_def)
  have grid: "on_grid B off (x + i) (y + j)" if "0 \<le> off" "off < 3" "-2 \<le> i" "i \<le> 2" "-2 \<le> j" "j \<le> 2" for off i j
    using r that by (auto simp: on_grid_def)
  note g = offsets(1,2) [OF ok] and c = cOffset_range [OF ok, of y]
  have rg: "datum B (gOffset B) d (x + i) (y + j) = Some (val B data (gOffset B) (x + i) (y + j))"
    if "\<not> is_target B (x + i) (y + j)" "-2 \<le> i" "i \<le> 2" "-2 \<le> j" "j \<le> 2" for i j
    using cells_datum [OF d grid [OF g that(2-5)]] that(1) by (simp add: mixed_def)
  have rc: "datum B (cOffset B y) d (x + i) (y + j) = Some (val B data (cOffset B y) (x + i) (y + j))"
    if "-2 \<le> i" "i \<le> 2" "-2 \<le> j" "j \<le> 2" for i j
    using cells_datum [OF d grid [OF c(1,2) that]] c(3) by (simp add: mixed_def)
  note n = next_to_target [OF ok t]
  let ?v = "green_new B data x y"
  have v: "0 \<le> ?v" "?v < 65536" by (simp_all add: green_new_def Let_def)
  from cells_store [OF d grid [OF g, of 0 0] v, simplified] obtain d' where
    d': "set_datum B (gOffset B) x y ?v d = Some d'"
    "cells B d' (\<lambda>off' x' y'. if off' = gOffset B \<and> x' = x \<and> y' = y then ?v else mixed B data S off' x' y')" by blast
  have "(\<lambda>off' x' y'. if off' = gOffset B \<and> x' = x \<and> y' = y then ?v else mixed B data S off' x' y')
      = mixed B data (\<lambda>x' y'. S x' y' \<or> x' = x \<and> y' = y)"
    using t by (auto simp: mixed_def fun_eq_iff)
  with d'(2) have "cells B d' (mixed B data (\<lambda>x' y'. S x' y' \<or> x' = x \<and> y' = y))" by simp
  moreover have "green_step B y x (w, d)
    = Some ((val B data (gOffset B) (x + 1) y, val B data (cOffset B y) x y, val B data (cOffset B y) (x + 2) y), d')"
    using rg [of 1 0] rg [of 0 "-1"] rg [of 0 1] rc [of 2 0] rc [of 0 "-2"] rc [of 0 2] n d'(1)
    by (simp add: green_step_def w green_new_def Let_def)
  ultimately show thesis using that by blast
qed

lemma green_start_mixed:
  assumes ok: "bayer_ok B data" and d: "cells B d (mixed B data S)" and y: "2 \<le> y" "y < bheight B - 2"
  defines "x \<equiv> first_non_green B y + 2"
  shows "green_start B y d = Some (x, val B data (gOffset B) (x - 1) y, val B data (cOffset B y) (x - 2) y, val B data (cOffset B y) x y)"
proof -
  note f = first_non_green_range [OF ok, of y]
  have grid: "on_grid B off (x + i) y" if "0 \<le> off" "off < 3" "-2 \<le> i" "i \<le> 0" for off i
    using y that f ok by (auto simp: on_grid_def x_def bayer_ok_def)
  note g = offsets(1,2) [OF ok] and c = cOffset_range [OF ok, of y]
  have "\<not> is_target B (x - 1) y" using f by (auto simp: is_target_def x_def)
  then have "datum B (gOffset B) d (x - 1) y = Some (val B data (gOffset B) (x - 1) y)"
    using cells_datum [OF d grid [OF g, of "-1"]] by (simp add: mixed_def)
  moreover have "datum B (cOffset B y) d (x + i) y = Some (val B data (cOffset B y) (x + i) y)" if "-2 \<le> i" "i \<le> 0" for i
    using cells_datum [OF d grid [OF c(1,2) that]] c(3) by (simp add: mixed_def)
  from this [of 0] this [of "-2"] have "datum B (cOffset B y) d x y = Some (val B data (cOffset B y) x y)"
    "datum B (cOffset B y) d (x - 2) y = Some (val B data (cOffset B y) (x - 2) y)" by simp_all
  ultimately show ?thesis by (simp add: green_start_def Let_def x_def)
qed

text \<open>The pass on one thread: rows in order, each from left to right.\<close>

lemma green_row_mixed:
  assumes ok: "bayer_ok B data" and d: "cells B d (mixed B data (\<lambda>x' y'. y' < y))" and y: "2 \<le> y" "y < bheight B - 2"
  shows "ok (green_row B y d) (\<lambda>d. cells B d (mixed B data (\<lambda>x' y'. y' < y + 1)))"
proof -
  define x0 where "x0 = first_non_green B y + 2"
  define W where "W x = (val B data (gOffset B) (x - 1) y, val B data (cOffset B y) (x - 2) y, val B data (cOffset B y) x y)" for x
  have start: "green_start B y d = Some (x0, W x0)"
    using green_start_mixed [OF ok d y] by (simp add: x0_def W_def)
  define S where "S x x' y' \<longleftrightarrow> y' < y \<or> y' = y \<and> x' < x" for x x' y' :: int
  have "ok (for_by 2 x0 (bwidth B - 2) (green_step B y) (W x0, d))
    (\<lambda>(w, d). cells B d (mixed B data (\<lambda>x' y'. y' < y + 1)))"
  proof (rule for_by_inv [where I = "\<lambda>x (w, d). w = W x \<and> cells B d (mixed B data (S x))"])
    have "mixed B data (S x0) = mixed B data (\<lambda>x' y'. y' < y)"
      by (auto simp: mixed_def fun_eq_iff S_def is_target_def x0_def)
    then show "case (W x0, d) of (w, d) \<Rightarrow> w = W x0 \<and> cells B d (mixed B data (S x0))" using d by simp
  next
    fix x s
    assume x: "x0 \<le> x" "x < bwidth B - 2" "(x - x0) mod 2 = 0" and s: "case s of (w, d) \<Rightarrow> w = W x \<and> cells B d (mixed B data (S x))"
    obtain w e where we: "s = (w, e)" by (cases s)
    have t: "is_target B x y"
    proof -
      have "x - x0 + 1 * 2 = x - first_non_green B y" by (simp add: x0_def)
      then have "(x - first_non_green B y) mod 2 = 0" using x(3) by (metis mod_mult_self1)
      then show ?thesis using x(1,2) y by (simp add: is_target_def x0_def)
    qed
    have W: "w = W x" "cells B e (mixed B data (S x))" using s we by auto
    from green_step_mixed [OF ok W(2) t W(1) [unfolded W_def]] obtain e' where
      e': "green_step B y x (w, e) = Some ((val B data (gOffset B) (x + 1) y, val B data (cOffset B y) x y, val B data (cOffset B y) (x + 2) y), e')"
      "cells B e' (mixed B data (\<lambda>x' y'. S x x' y' \<or> x' = x \<and> y' = y))" by blast
    have "mixed B data (\<lambda>x' y'. S x x' y' \<or> x' = x \<and> y' = y) = mixed B data (S (x + 2))"
    proof (intro ext)
      fix off x' y'
      have "x' < x + 2 \<longleftrightarrow> x' < x \<or> x' = x \<or> x' = x + 1" by arith
      moreover have "x' = x + 1 \<Longrightarrow> y' = y \<Longrightarrow> \<not> is_target B x' y'" using next_to_target(2) [OF ok t] by simp
      ultimately have "is_target B x' y' \<Longrightarrow> (S x x' y' \<or> x' = x \<and> y' = y) = S (x + 2) x' y'" unfolding S_def by blast
      then show "mixed B data (\<lambda>x' y'. S x x' y' \<or> x' = x \<and> y' = y) off x' y' = mixed B data (S (x + 2)) off x' y'"
        by (auto simp: mixed_def)
    qed
    then show "ok (green_step B y x s) (\<lambda>(w, d). w = W (x + 2) \<and> cells B d (mixed B data (S (x + 2))))"
      using e' we by (simp add: W_def add.commute [of 1 x])
  next
    fix x s
    assume x: "bwidth B - 2 \<le> x" and s: "case s of (w, d) \<Rightarrow> w = W x \<and> cells B d (mixed B data (S x))"
    have "mixed B data (S x) = mixed B data (\<lambda>x' y'. y' < y + 1)"
      using x by (auto simp: mixed_def fun_eq_iff S_def is_target_def)
    then show "case s of (w, d) \<Rightarrow> cells B d (mixed B data (\<lambda>x' y'. y' < y + 1))" using s by (auto split: prod.splits)
  qed simp
  then show ?thesis by (auto simp: green_row_def start ok_exists)
qed

lemma green_channel_mixed:
  assumes ok: "bayer_ok B data"
  shows "\<exists>d. interpolateGreenChannel B data = Some d \<and> cells B d (mixed B data (\<lambda>x y. True))"
proof (cases "2 \<le> bheight B - 2")
  case True
  have "ok (interpolateGreenChannel B data) (\<lambda>d. cells B d (mixed B data (\<lambda>x y. True)))"
    unfolding interpolateGreenChannel_def
  proof (rule for_up_inv [where I = "\<lambda>y d. cells B d (mixed B data (\<lambda>x' y'. y' < y))"])
    have "mixed B data (\<lambda>x' y'. y' < 2) = val B data" by (auto simp: mixed_def fun_eq_iff is_target_def)
    then show "cells B data (mixed B data (\<lambda>x' y'. y' < 2))" using cells_self [OF ok] by simp
  next
    fix d assume d: "cells B d (mixed B data (\<lambda>x' y'. y' < bheight B - 2))"
    have "mixed B data (\<lambda>x' y'. y' < bheight B - 2) = mixed B data (\<lambda>x y. True)" by (auto simp: mixed_def fun_eq_iff is_target_def)
    then show "cells B d (mixed B data (\<lambda>x y. True))" using d by simp
  qed (use True green_row_mixed [OF ok] in auto)
  then show ?thesis by (auto simp: ok_exists)
next
  case False
  then have "mixed B data (\<lambda>x y. True) = val B data" by (auto simp: mixed_def fun_eq_iff is_target_def)
  then show ?thesis using False cells_self [OF ok] by (simp add: interpolateGreenChannel_def)
qed

section \<open>The green channel on many threads\<close>

text \<open>
  The rows of the pass are handed out to threads (\<open>omp for schedule(dynamic)\<close>). A row has not been
  started, or its thread is about to compute pixel \<open>x\<close> with the samples it carries; a step starts a row
  or computes one pixel of one.
\<close>

datatype green_thread = Todo | Run int "int \<times> int \<times> int"

inductive green_step_par :: "bayer \<Rightarrow> (int \<Rightarrow> green_thread) \<times> u16 list \<Rightarrow> (int \<Rightarrow> green_thread) \<times> u16 list \<Rightarrow> bool" for B where
  start: "2 \<le> y \<Longrightarrow> y < bheight B - 2 \<Longrightarrow> th y = Todo \<Longrightarrow> green_start B y d = Some (x, w)
    \<Longrightarrow> green_step_par B (th, d) (th(y := Run x w), d)"
| pixel: "th y = Run x w \<Longrightarrow> x < bwidth B - 2 \<Longrightarrow> green_step B y x (w, d) = Some (w', d')
    \<Longrightarrow> green_step_par B (th, d) (th(y := Run (x + 2) w'), d')"

definition green_finished :: "bayer \<Rightarrow> (int \<Rightarrow> green_thread) \<Rightarrow> bool" where
  "green_finished B th \<longleftrightarrow> (\<forall>y. 2 \<le> y \<and> y < bheight B - 2 \<longrightarrow> (case th y of Todo \<Rightarrow> False | Run x w \<Rightarrow> bwidth B - 2 \<le> x))"

definition passed :: "(int \<Rightarrow> green_thread) \<Rightarrow> int \<Rightarrow> int \<Rightarrow> bool" where
  "passed th x y \<longleftrightarrow> (case th y of Todo \<Rightarrow> False | Run x0 w \<Rightarrow> x < x0)"

definition thread_ok :: "bayer \<Rightarrow> u16 list \<Rightarrow> int \<Rightarrow> green_thread \<Rightarrow> bool" where
  "thread_ok B data y t = (case t of Todo \<Rightarrow> True
     | Run x w \<Rightarrow> 2 \<le> y \<and> y < bheight B - 2 \<and> first_non_green B y + 2 \<le> x \<and> (x - first_non_green B y) mod 2 = 0
         \<and> w = (val B data (gOffset B) (x - 1) y, val B data (cOffset B y) (x - 2) y, val B data (cOffset B y) x y))"

definition par_inv :: "bayer \<Rightarrow> u16 list \<Rightarrow> (int \<Rightarrow> green_thread) \<times> u16 list \<Rightarrow> bool" where
  "par_inv B data s \<longleftrightarrow> cells B (snd s) (mixed B data (passed (fst s))) \<and> (\<forall>y. thread_ok B data y (fst s y))"

lemma par_inv_step:
  assumes ok: "bayer_ok B data" and s: "green_step_par B s s'" "par_inv B data s"
  shows "par_inv B data s'"
  using s
proof (induction rule: green_step_par.induct)
  case (start y th d x w)
  then have d: "cells B d (mixed B data (passed th))" by (simp add: par_inv_def)
  from green_start_mixed [OF ok d start(1,2)] start(4) have
    w: "x = first_non_green B y + 2" "w = (val B data (gOffset B) (x - 1) y, val B data (cOffset B y) (x - 2) y, val B data (cOffset B y) x y)" by auto
  have "mixed B data (passed (th(y := Run x w))) = mixed B data (passed th)"
    using start(3) w(1) by (auto simp: mixed_def passed_def fun_eq_iff is_target_def)
  then show ?case using start d w by (auto simp: par_inv_def thread_ok_def)
next
  case (pixel th y x w d w' d')
  then have d: "cells B d (mixed B data (passed th))" and th: "thread_ok B data y (Run x w)"
    by (auto simp: par_inv_def) metis
  then have t: "is_target B x y" and w: "w = (val B data (gOffset B) (x - 1) y, val B data (cOffset B y) (x - 2) y, val B data (cOffset B y) x y)"
    using pixel(2) by (auto simp: thread_ok_def is_target_def)
  obtain e where e: "green_step B y x (w, d)
      = Some ((val B data (gOffset B) (x + 1) y, val B data (cOffset B y) x y, val B data (cOffset B y) (x + 2) y), e)"
    "cells B e (mixed B data (\<lambda>x' y'. passed th x' y' \<or> x' = x \<and> y' = y))"
    by (rule green_step_mixed [OF ok d t w])
  then have w': "w' = (val B data (gOffset B) (x + 1) y, val B data (cOffset B y) x y, val B data (cOffset B y) (x + 2) y)"
    and d': "cells B d' (mixed B data (\<lambda>x' y'. passed th x' y' \<or> x' = x \<and> y' = y))" using pixel(3) by simp_all
  have "mixed B data (\<lambda>x' y'. passed th x' y' \<or> x' = x \<and> y' = y) = mixed B data (passed (th(y := Run (x + 2) w')))"
  proof (intro ext)
    fix off x' y'
    have "x' < x + 2 \<longleftrightarrow> x' < x \<or> x' = x \<or> x' = x + 1" by arith
    moreover have "x' = x + 1 \<Longrightarrow> y' = y \<Longrightarrow> \<not> is_target B x' y'" using next_to_target(2) [OF ok t] by simp
    ultimately have "is_target B x' y' \<Longrightarrow> (passed th x' y' \<or> x' = x \<and> y' = y) = passed (th(y := Run (x + 2) w')) x' y'"
      using pixel(1) by (cases "y' = y") (simp_all add: passed_def, blast)
    then show "mixed B data (\<lambda>x' y'. passed th x' y' \<or> x' = x \<and> y' = y) off x' y' = mixed B data (passed (th(y := Run (x + 2) w'))) off x' y'"
      by (auto simp: mixed_def)
  qed
  moreover have "thread_ok B data y (Run (x + 2) w')"
  proof -
    have "(x + 2 - first_non_green B y) mod 2 = (x - first_non_green B y) mod 2" by presburger
    then show ?thesis using th w' by (simp add: thread_ok_def add.commute [of 1 x])
  qed
  ultimately show ?case using d' pixel.prems by (auto simp: par_inv_def)
qed

lemma par_inv_init: "bayer_ok B data \<Longrightarrow> par_inv B data (\<lambda>y. Todo, data)"
proof -
  assume "bayer_ok B data"
  moreover have "mixed B data (passed (\<lambda>y. Todo)) = val B data" by (auto simp: mixed_def passed_def fun_eq_iff)
  ultimately show ?thesis using cells_self by (simp add: par_inv_def thread_ok_def)
qed

lemma par_inv_reach:
  assumes "(green_step_par B)\<^sup>*\<^sup>* (\<lambda>y. Todo, data) s" "bayer_ok B data"
  shows "par_inv B data s"
  using assms by (induction rule: rtranclp_induct) (blast intro: par_inv_init par_inv_step)+

lemma par_progress:
  assumes ok: "bayer_ok B data" and inv: "par_inv B data (th, d)" and "\<not> green_finished B th"
  shows "\<exists>s. green_step_par B (th, d) s"
proof -
  from assms(3) obtain y where y: "2 \<le> y" "y < bheight B - 2" "\<not> (case th y of Todo \<Rightarrow> False | Run x w \<Rightarrow> bwidth B - 2 \<le> x)"
    unfolding green_finished_def by blast
  have d: "cells B d (mixed B data (passed th))" and th: "thread_ok B data y (th y)" using inv by (auto simp: par_inv_def)
  show ?thesis
  proof (cases "th y")
    case Todo
    then show ?thesis using green_step_par.start [OF y(1,2), of th d] green_start_mixed [OF ok d y(1,2)] by blast
  next
    case (Run x w)
    then have t: "is_target B x y" "w = (val B data (gOffset B) (x - 1) y, val B data (cOffset B y) (x - 2) y, val B data (cOffset B y) x y)"
      and x: "x < bwidth B - 2" using y th by (auto simp: thread_ok_def is_target_def)
    obtain e where "green_step B y x (w, d)
      = Some ((val B data (gOffset B) (x + 1) y, val B data (cOffset B y) x y, val B data (cOffset B y) (x + 2) y), e)"
      by (rule green_step_mixed [OF ok d t])
    from green_step_par.pixel [of th y x w B d, OF Run x this] show ?thesis by blast
  qed
qed

text \<open>
  C30: The green pass gives the same image however its threads interleave: every execution, pixel by
  pixel, of the rows in any order can be completed, and once all rows are done the buffer is the one of
  the sequential pass. (The coloured samples and the measured green ones are the only ones it reads.)
\<close>

theorem green_pass_parallel:
  assumes "bayer_ok B data" "(green_step_par B)\<^sup>*\<^sup>* (\<lambda>y. Todo, data) (th, d)"
  shows "if green_finished B th then interpolateGreenChannel B data = Some d else (\<exists>s. green_step_par B (th, d) s)"
proof (cases "green_finished B th")
  case True
  have inv: "cells B d (mixed B data (passed th))" using par_inv_reach [OF assms(2,1)] by (simp add: par_inv_def)
  have "passed th x y" if "is_target B x y" for x y
    using True that by (cases "th y") (auto simp: green_finished_def passed_def is_target_def)
  then have "mixed B data (passed th) = mixed B data (\<lambda>x y. True)" by (auto simp: mixed_def fun_eq_iff)
  with inv green_channel_mixed [OF assms(1)] cells_unique True show ?thesis by auto
next
  case False
  then show ?thesis using par_progress [OF assms(1) par_inv_reach [OF assms(2,1)] False] by simp
qed

theorem green_pass_parallel_witness:
  "let B = \<lparr>bwidth = 5, bheight = 5, lineStride = 5, rOffset = 0, gOffset = 1, bOffset = 2, gx = 1, gy = 0, ry = 0\<rparr>
   in \<exists>s. green_step_par B (\<lambda>y. Todo, replicate 75 0) s"
proof -
  let ?B = "\<lparr>bwidth = 5, bheight = 5, lineStride = 5, rOffset = 0, gOffset = 1, bOffset = 2, gx = 1, gy = 0, ry = 0\<rparr>"
  have "bayer_ok ?B (replicate 75 0)" by (auto simp: bayer_ok_def)
  moreover have "\<not> green_finished ?B (\<lambda>y. Todo)" unfolding green_finished_def by (auto intro: exI [of _ 2])
  ultimately show ?thesis using green_pass_parallel [of ?B "replicate 75 0" "\<lambda>y. Todo" "replicate 75 0"] by (simp add: Let_def)
qed

section \<open>The refinement works on empty samples\<close>

text \<open>
  The refinement visits the green pixels of the pattern, where the other channel of the row has not been
  filled. A buffer is \<open>blank\<close> as long as those cells are zero.
\<close>

definition is_green :: "bayer \<Rightarrow> int \<Rightarrow> int \<Rightarrow> bool" where
  "is_green B x y \<longleftrightarrow> (x - first_green B y) mod 2 = 0"

definition blank :: "bayer \<Rightarrow> u16 list \<Rightarrow> bool" where
  "blank B d \<longleftrightarrow> bayer_ok B d \<and> (\<forall>x y. on_grid B 0 x y \<and> is_green B x y \<longrightarrow> val B d (cOffset B y) x y = 0)"

lemma first_green_range: "bayer_ok B data \<Longrightarrow> 0 \<le> first_green B y \<and> first_green B y \<le> 1"
  by (auto simp: first_green_def bayer_ok_def c_not_def)

lemma same_row_parity: "first_green B (y + 2) = first_green B y" "first_green B (y - 2) = first_green B y"
  "cOffset B (y + 2) = cOffset B y" "cOffset B (y - 2) = cOffset B y"
  by (simp_all add: first_green_def cOffset_def and_one_eq)

lemma not_green_colour: "bayer_ok B data \<Longrightarrow> x AND 1 = first_non_green B y \<Longrightarrow> \<not> is_green B x y"
proof -
  assume "bayer_ok B data" "x AND 1 = first_non_green B y"
  moreover from this(1) have "first_green B y = 1 - first_non_green B y"
    by (auto simp: first_green_def first_non_green_def bayer_ok_def c_not_def)
  ultimately show ?thesis unfolding is_green_def and_one_eq by presburger
qed

lemma refine_row_blank:
  assumes bl: "blank B d" and y: "2 \<le> y" "y < bheight B - 2"
  shows "refine_row B y d = Some d"
proof -
  have ok: "bayer_ok B d" using bl by (simp add: blank_def)
  define x0 where "x0 = first_green B y + 2"
  have x0: "2 \<le> x0" "x0 < 4" using first_green_range [OF ok, of y] by (auto simp: x0_def)
  have wd: "bwidth B \<le> lineStride B" "4 \<le> lineStride B" using ok by (auto simp: bayer_ok_def)
  note g = offsets(1,2) [OF ok] and c = cOffset_range(1,2) [OF ok, of y]
  have rd: "datum B off d (x + i) (y + j) = Some (val B d off (x + i) (y + j))"
    if "0 \<le> off" "off < 3" "0 \<le> x + i" "x + i < lineStride B" "-2 \<le> j" "j \<le> 2" for off x i j
    using that y by (intro datum_val [OF ok]) (auto simp: on_grid_def)
  have zero: "val B d (cOffset B y) x y = 0" if "0 \<le> x" "x < lineStride B" "(x - x0) mod 2 = 0" for x
  proof -
    have "(x - first_green B y) mod 2 = 0" using that(3) by (simp add: x0_def) presburger
    then show ?thesis using bl that y by (simp add: blank_def on_grid_def is_green_def)
  qed
  have loop: "ok (for_by 2 x0 (bwidth B - 2) (refine_step B y) (w, d)) (\<lambda>(w, e). e = d)" if "cxy w = 0" "0 \<le> xy w" for w :: refine_window
  proof (rule for_by_inv [where I = "\<lambda>x (w, e). e = d \<and> cxy w = 0 \<and> 0 \<le> xy w"])
    fix x and s :: "refine_window \<times> u16 list"
    assume x: "x0 \<le> x" "x < bwidth B - 2" "(x - x0) mod 2 = 0" and s: "case s of (w, e) \<Rightarrow> e = d \<and> cxy w = 0 \<and> 0 \<le> xy w"
    obtain w where w: "s = (w, d)" "cxy w = 0" "0 \<le> xy w" using s by (cases s) auto
    have "(x + 2 - x0) mod 2 = 0" using x(3) by presburger
    then have z: "val B d (cOffset B y) (x + 2) y = 0" using x x0 wd by (intro zero) auto
    show "ok (refine_step B y x s) (\<lambda>(w, e). e = d \<and> cxy w = 0 \<and> 0 \<le> xy w)"
      using w x x0 wd rd [OF g, of x 2 0] rd [OF g, of x 2 "-2"] rd [OF g, of x 2 2] rd [OF c, of x 2 0] rd [OF c, of x 2 "-2"] rd [OF c, of x 2 2] z
      by (simp add: refine_step_def refined_def)
  qed (use that in auto)
  have z: "val B d (cOffset B y) x0 y = 0" using x0 wd by (intro zero) auto
  show ?thesis
  proof -
    define W where "W = (let G = val B d (gOffset B); C = val B d (cOffset B y) in
      \<lparr>ul = G (x0 - 2) (y - 2), hl = G (x0 - 2) y, bl = G (x0 - 2) (y + 2), vu = G x0 (y - 2), xy = G x0 y, vd = G x0 (y + 2),
        cul = C (x0 - 2) (y - 2), chl = C (x0 - 2) y, cbl = C (x0 - 2) (y + 2), cvu = C x0 (y - 2), cxy = C x0 y, cvd = C x0 (y + 2)\<rparr>)"
    have "cxy W = 0" "0 \<le> xy W" using z by (simp_all add: W_def Let_def)
    from loop [OF this] obtain w' where w': "for_by 2 x0 (bwidth B - 2) (refine_step B y) (W, d) = Some (w', d)" by (auto simp: ok_exists)
    have r: "datum B off d x' y' = Some (val B d off x' y')"
      if "off = gOffset B \<or> off = cOffset B y" "x' = x0 \<or> x' = x0 - 2" "y' = y - 2 \<or> y' = y \<or> y' = y + 2" for off x' y'
      using that x0 wd y g c by (intro datum_val [OF ok]) (auto simp: on_grid_def)
    show ?thesis using w' unfolding refine_row_def x0_def [symmetric] Let_def W_def by (simp add: r)
  qed
qed

lemma refine_blank: "blank B d \<Longrightarrow> refineGreenChannel B d = Some d"
proof -
  assume "blank B d"
  then have "ok (for_up 2 (bheight B - 2) (refine_row B) d) (\<lambda>e. e = d)"
    by (intro for_by_inv [where I = "\<lambda>y e. e = d"]) (auto simp: refine_row_blank)
  then show ?thesis by (auto simp: refineGreenChannel_def ok_exists)
qed

lemma set_datum_trunc: "set_datum B off x y (c_u16 v) d = set_datum B off x y v d"
proof -
  have "(word_of_int (c_u16 v) :: u16) = word_of_int v" by (rule word_uint_eqI) (simp add: uint_word_of_int take_bit_eq_mod)
  then show ?thesis by (simp add: set_datum_def wr_def)
qed

lemma blank_store:
  assumes "blank B d" "on_grid B off x y" "off = gOffset B \<or> \<not> is_green B x y"
  shows "ok (set_datum B off x y v d) (blank B)"
proof -
  have ok: "bayer_ok B d" using assms(1) by (simp add: blank_def)
  obtain d' where d': "set_datum B off x y v d = Some d'"
    "cells B d' (\<lambda>off' x' y'. if off' = off \<and> x' = x \<and> y' = y then c_u16 v else val B d off' x' y')"
  proof (rule cells_store [OF cells_self [OF ok] assms(2), of "c_u16 v"])
    show "c_u16 v < 65536" using take_bit_int_less_exp [of 16 v] by simp
  qed (auto simp: set_datum_trunc)
  have "val B d' (cOffset B y') x' y' = 0" if "on_grid B 0 x' y'" "is_green B x' y'" for x' y'
  proof -
    have "on_grid B (cOffset B y') x' y'" using that(1) cOffset_range [OF ok, of y'] by (auto simp: on_grid_def)
    then have "val B d' (cOffset B y') x' y' = (if cOffset B y' = off \<and> x' = x \<and> y' = y then c_u16 v else val B d (cOffset B y') x' y')"
      using d'(2) by (simp add: cells_def)
    moreover have "\<not> (cOffset B y' = off \<and> x' = x \<and> y' = y)" using assms(3) that(2) cOffset_range(3) [OF ok, of y'] by auto
    ultimately show ?thesis using assms(1) that by (auto simp: blank_def)
  qed
  then show ?thesis using d' by (simp add: blank_def cells_def)
qed

lemma below_any_ok:
  "\<forall>(k, p) \<in> set ps. inb src p \<Longrightarrow> ok (below_any src v ps) (\<lambda>b. True)"
  by (induction ps) (auto simp: rd_def)

lemma hot_pixel_ok:
  assumes "list_all (inb src) (near @ far)" "4 \<le> length near"
  shows "ok (hot_pixel src v near far) (\<lambda>v. True)"
proof -
  have "ok (below_any src v (map (\<lambda>p. (2, p)) near @ map (\<lambda>p. (4, p)) far)) (\<lambda>b. True)"
    using assms(1) by (intro below_any_ok) (auto simp: list_all_iff)
  moreover have "inb src (near ! k)" if "k < 4" for k using assms that by (simp add: list_all_iff)
  ultimately show ?thesis by (auto simp: hot_pixel_def ok_exists rd_def)
qed

lemma src_inb:
  assumes "bheight B * ss \<le> int (length src)" "bwidth B \<le> ss" "0 \<le> x + dx" "x + dx < bwidth B" "0 \<le> y + dy" "y + dy < bheight B"
  shows "inb src (srcPos ss x y dx dy)"
proof -
  have "(y + dy + 1) * ss \<le> bheight B * ss" using assms by (intro mult_right_mono) auto
  moreover have "0 \<le> (y + dy) * ss" using assms by auto
  ultimately show ?thesis using assms by (simp add: inb_def srcPos_def algebra_simps)
qed

lemma copy_pixel_blank:
  assumes "blank B d" "bheight B * ss \<le> int (length src)" "bwidth B \<le> ss" "0 \<le> y" "y < bheight B" "0 \<le> x" "x < bwidth B"
  shows "ok (copy_pixel B src ss y x d) (blank B)"
proof -
  have ok: "bayer_ok B d" using assms(1) by (simp add: blank_def)
  have grid: "on_grid B off x y" if "0 \<le> off" "off < 3" for off
    using that assms(4-7) ok by (auto simp: on_grid_def bayer_ok_def)
  have g: "ok (set_datum B (gOffset B) x y v d) (blank B)" for v
    using blank_store [OF assms(1) grid [OF offsets(1,2) [OF ok]]] by simp
  have c: "ok (set_datum B (cOffset B y) x y v d) (blank B)" if "x AND 1 = first_non_green B y" for v
    using blank_store [OF assms(1) grid [OF cOffset_range(1,2) [OF ok]]] not_green_colour [OF ok that] by simp
  note inb = src_inb [OF assms(2,3)]
  obtain v where v: "rd src (srcPos ss x y 0 0) = Some v" using inb [of x 0 y 0] assms(4-7) by (simp add: rd_def)
  let ?border = "y < 2 \<or> y \<ge> bheight B - 2 \<or> x < 2 \<or> x \<ge> bwidth B - 2"
  have "ok (colorHotPixelRemoval v x y src ss) (\<lambda>v. True)" "ok (greenHotPixelRemoval v x y src ss) (\<lambda>v. True)" if "\<not> ?border"
    unfolding colorHotPixelRemoval_def greenHotPixelRemoval_def Let_def
    using that by (auto intro!: hot_pixel_ok inb)
  then have hot: "ok (if ?border then Some v else colorHotPixelRemoval v x y src ss) (\<lambda>v. True)"
    "ok (if ?border then Some v else greenHotPixelRemoval v x y src ss) (\<lambda>v. True)" by simp_all
  have store: "ok (m \<bind> (\<lambda>v. set_datum B off x y v d)) (blank B)"
    if "ok m (\<lambda>v. True)" "\<And>v. ok (set_datum B off x y v d) (blank B)" for m off
    using that by (cases m) auto
  show ?thesis unfolding copy_pixel_def Let_def v option.simps bind.bind_lunit
    by (rule ok_if) (rule store [OF hot(1) c] store [OF hot(2) g], assumption?)+
qed

lemma copy_blank:
  assumes "blank B d" "bheight B * ss \<le> int (length src)" "bwidth B \<le> ss"
  shows "ok (copyRawToRgb B src ss d) (blank B)"
proof -
  have s: "0 \<le> bheight B" "0 \<le> bwidth B" using assms(1) by (auto simp: blank_def bayer_ok_def)
  show ?thesis unfolding copyRawToRgb_def
  proof (rule for_up_inv [where I = "\<lambda>y. blank B"])
    fix y e assume y: "0 \<le> y" "y < bheight B" and e: "blank B e"
    show "ok (for_up 0 (bwidth B) (copy_pixel B src ss y) e) (blank B)"
      by (rule for_up_inv [where I = "\<lambda>x. blank B"]) (use s e copy_pixel_blank [OF _ assms(2,3) y] in auto)
  qed (use s assms(1) in auto)
qed

lemma green_pass_blank:
  assumes "blank B d"
  shows "ok (interpolateGreenChannel B d) (blank B)"
proof -
  have ok: "bayer_ok B d" using assms by (simp add: blank_def)
  from green_channel_mixed [OF ok] obtain e where e: "interpolateGreenChannel B d = Some e" "cells B e (mixed B d (\<lambda>x y. True))" by blast
  have "val B e (cOffset B y) x y = val B d (cOffset B y) x y" if "on_grid B 0 x y" for x y
  proof -
    have "on_grid B (cOffset B y) x y" using that cOffset_range [OF ok, of y] by (auto simp: on_grid_def)
    then show ?thesis using e(2) cOffset_range(3) [OF ok, of y] by (auto simp: cells_def mixed_def)
  qed
  then show ?thesis using e assms by (auto simp: blank_def cells_def)
qed

text \<open>
  C31: On the zero-filled buffer that RGBDemosaicOpImage allocates, \<open>refineGreenChannel\<close> changes nothing:
  it visits the green pixels instead of the reconstructed ones, and where the other channel is zero its
  guard never holds. \<open>interpolateGreen\<close> is the copy of the mosaic and the green pass alone.
\<close>

theorem refinement_is_idle:
  assumes "bayer_ok B data" "set data \<subseteq> {0}" "bheight B * ss \<le> int (length src)" "bwidth B \<le> ss"
  shows "\<exists>d. interpolateGreen B src ss data = Some d
    \<and> (do { e \<leftarrow> copyRawToRgb B src ss data; interpolateGreenChannel B e }) = Some d"
proof -
  have "val B data (cOffset B y) x y = 0" if "on_grid B 0 x y" for x y
  proof -
    have "on_grid B (cOffset B y) x y" using that cOffset_range [OF assms(1), of y] by (auto simp: on_grid_def)
    from dpos_inb [OF assms(1) this] have "data ! nat (dpos B (cOffset B y) x y) \<in> set data" by (intro nth_mem) (auto simp: inb_def)
    then show ?thesis using assms(2) by (auto simp: val_def)
  qed
  then have "blank B data" using assms(1) by (simp add: blank_def)
  from copy_blank [OF this assms(3,4)] obtain e where e: "copyRawToRgb B src ss data = Some e" "blank B e" by (auto simp: ok_exists)
  from green_pass_blank [OF e(2)] obtain d where d: "interpolateGreenChannel B e = Some d" "blank B d" by (auto simp: ok_exists)
  show ?thesis using e d refine_blank [OF d(2)] by (simp add: interpolateGreen_def)
qed

theorem refinement_is_idle_witness:
  "let B = \<lparr>bwidth = 5, bheight = 5, lineStride = 5, rOffset = 0, gOffset = 1, bOffset = 2, gx = 1, gy = 0, ry = 0\<rparr>
   in \<exists>d. interpolateGreen B (replicate 25 1000) 5 (replicate 75 0) = Some d"
proof -
  let ?B = "\<lparr>bwidth = 5, bheight = 5, lineStride = 5, rOffset = 0, gOffset = 1, bOffset = 2, gx = 1, gy = 0, ry = 0\<rparr>"
  have "bayer_ok ?B (replicate 75 0)" by (auto simp: bayer_ok_def)
  from refinement_is_idle [OF this, of 5 "replicate 25 1000"] show ?thesis by (auto simp: Let_def)
qed

end
