(* ===== verification/JpegSource.thy ===== *)
theory JpegSource
  imports Prelude
begin

text \<open>
  The JPEG reader's source manager (\<open>LC_source_mgr.cpp\<close>), which feeds libjpeg with blocks of a file that
  a Java object supplies, and the destination manager (\<open>LC_dest_mgr.cpp\<close>), which hands what libjpeg has
  written to another.

  The Java objects are arguments: \<open>get\<close> is \<open>LCImageDataProvider.getImageData\<close>, which stores bytes at the
  start of the shared buffer and returns how many, \<open>recv\<close> is \<open>LCImageDataReceiver.putImageData\<close>; \<open>None\<close> is a
  Java exception. libjpeg's \<open>ERREXIT\<close>, which does not return, is an error value, too.
\<close>

datatype jpeg_error = Java_exception | Input_empty | File_write | Fault

section \<open>Source\<close>

text \<open>
  The fields the manager shares with libjpeg, the buffer, the provider's own state and the number of
  warnings. \<open>next_input_byte\<close> is the index into the buffer; sizes are of type \<open>size_t\<close>.
\<close>

record 'p source_mgr =
  next_input_byte :: nat
  bytes_in_buffer :: nat
  m_buffer :: "u8 list"
  m_startOfFile :: bool
  provider :: 'p
  warnings :: nat

type_synonym 'p get_data = "'p \<Rightarrow> (u8 list \<times> int \<times> 'p) option"

definition LC_init_source :: "'p source_mgr \<Rightarrow> 'p source_mgr" where
  "LC_init_source src = src\<lparr>m_startOfFile := True\<rparr>"

text \<open>The constructor: nothing is buffered.\<close>

definition LC_source_mgr :: "'p \<Rightarrow> nat \<Rightarrow> 'p source_mgr" where
  "LC_source_mgr p bufSize = \<lparr>next_input_byte = 0, bytes_in_buffer = 0, m_buffer = replicate bufSize 0,
     m_startOfFile = False, provider = p, warnings = 0\<rparr>"

text \<open>The first bytes of a buffer overwritten.\<close>

definition overwrite :: "'a list \<Rightarrow> 'a list \<Rightarrow> 'a list" where
  "overwrite bs buf = bs @ drop (length bs) buf"

text \<open>At the end of the file the manager makes up an end-of-image marker (\<open>JPEG_EOI\<close>).\<close>

definition eoi :: "u8 list" where
  "eoi = [0xFF, 0xD9]"

definition LC_fill_input_buffer :: "'p get_data \<Rightarrow> 'p source_mgr \<Rightarrow> jpeg_error + 'p source_mgr" where
  "LC_fill_input_buffer get src =
     (case get (provider src) of
        None \<Rightarrow> Inl Java_exception
      | Some (bs, bytesRead, p) \<Rightarrow>
          if length (m_buffer src) < length bs then Inl Fault
          else
            let src = src\<lparr>m_buffer := overwrite bs (m_buffer src), provider := p\<rparr>
            in if bytesRead \<le> 0 then
                 if m_startOfFile src then Inl Input_empty
                 else if length (m_buffer src) < 2 then Inl Fault
                 else Inr (src\<lparr>warnings := warnings src + 1, m_buffer := overwrite eoi (m_buffer src),
                   next_input_byte := 0, bytes_in_buffer := 2, m_startOfFile := False\<rparr>)
               else Inr (src\<lparr>next_input_byte := 0, bytes_in_buffer := nat bytesRead, m_startOfFile := False\<rparr>))"

lemma fill_not_empty: "LC_fill_input_buffer get src = Inr t \<Longrightarrow> 0 < bytes_in_buffer t"
  by (auto simp: LC_fill_input_buffer_def Let_def split: option.splits if_splits)

text \<open>
  The loop of \<open>LC_skip_input_data\<close>, which ends because a filled buffer is never empty. (Filling never
  returns \<open>FALSE\<close>, so the loop is never left by its \<open>break\<close>.)
\<close>

function skip_loop :: "'p get_data \<Rightarrow> nat \<Rightarrow> 'p source_mgr \<Rightarrow> jpeg_error + nat \<times> 'p source_mgr" where
  "skip_loop get n src =
     (if n > bytes_in_buffer src then
        case LC_fill_input_buffer get src of
          Inl e \<Rightarrow> Inl e
        | Inr src' \<Rightarrow> skip_loop get (n - bytes_in_buffer src) src'
      else Inr (n, src))"
  by pat_completeness auto
termination
proof (relation "measures [\<lambda>(get, n, src). n, \<lambda>(get, n, src). if bytes_in_buffer src = 0 then 1 else 0]", goal_cases)
  case (2 get n src src')
  then show ?case using fill_not_empty [of get src src'] by (cases "bytes_in_buffer src = 0") auto
qed simp

declare skip_loop.simps [simp del]

definition LC_skip_input_data :: "'p get_data \<Rightarrow> int \<Rightarrow> 'p source_mgr \<Rightarrow> jpeg_error + 'p source_mgr" where
  "LC_skip_input_data get numBytes src =
     (if numBytes > 0 then
        case skip_loop get (nat numBytes) src of
          Inl e \<Rightarrow> Inl e
        | Inr (n, src) \<Rightarrow> Inr (src\<lparr>next_input_byte := next_input_byte src + n, bytes_in_buffer := bytes_in_buffer src - n\<rparr>)
      else Inr src)"

section \<open>Destination\<close>

text \<open>
  \<open>jlimit\<close> is the limit of the Java buffer that shares the bytes: the receiver sees the bytes below it.
\<close>

record 'q dest_mgr =
  next_output_byte :: nat
  free_in_buffer :: nat
  d_buffer :: "u8 list"
  jlimit :: nat
  receiver :: 'q

type_synonym 'q put_data = "u8 list \<Rightarrow> 'q \<Rightarrow> (int \<times> 'q) option"

definition dest_reset :: "'q dest_mgr \<Rightarrow> 'q dest_mgr" where
  "dest_reset dest = dest\<lparr>next_output_byte := 0, free_in_buffer := length (d_buffer dest)\<rparr>"

definition LC_init_destination :: "'q dest_mgr \<Rightarrow> 'q dest_mgr" where
  "LC_init_destination dest = dest_reset dest"

definition LC_dest_mgr :: "'q \<Rightarrow> nat \<Rightarrow> 'q dest_mgr" where
  "LC_dest_mgr q bufSize = \<lparr>next_output_byte = 0, free_in_buffer = 0, d_buffer = replicate bufSize 0,
     jlimit = bufSize, receiver = q\<rparr>"

definition dest_write :: "'q put_data \<Rightarrow> int \<Rightarrow> 'q dest_mgr \<Rightarrow> jpeg_error + 'q dest_mgr" where
  "dest_write recv byteCount dest =
     (case recv (take (jlimit dest) (d_buffer dest)) (receiver dest) of
        None \<Rightarrow> Inl Java_exception
      | Some (bytesWritten, q) \<Rightarrow>
          if bytesWritten \<noteq> byteCount then Inl File_write else Inr (dest\<lparr>receiver := q\<rparr>))"

definition LC_empty_output_buffer :: "'q put_data \<Rightarrow> 'q dest_mgr \<Rightarrow> jpeg_error + 'q dest_mgr" where
  "LC_empty_output_buffer recv dest =
     (case dest_write recv (int (length (d_buffer dest))) dest of Inl e \<Rightarrow> Inl e | Inr dest \<Rightarrow> Inr (dest_reset dest))"

definition LC_term_destination :: "'q put_data \<Rightarrow> 'q dest_mgr \<Rightarrow> jpeg_error + 'q dest_mgr" where
  "LC_term_destination recv dest =
     (let limit = int (length (d_buffer dest)) - int (free_in_buffer dest)
      in if limit > 0 then dest_write recv limit (dest\<lparr>jlimit := nat limit\<rparr>) else Inr dest)"

section \<open>What the JPEG library reads\<close>

text \<open>
  The promise of a provider with a buffer of \<open>size\<close> bytes: it places the next bytes of its data into the
  buffer, at least one unless there are none left. \<open>rest\<close> is the data not yet placed.
\<close>

definition padded :: "u8 list \<Rightarrow> nat \<Rightarrow> u8" where
  "padded ps k = (if k < length ps then ps ! k else eoi ! ((k - length ps) mod 2))"

lemma length_eoi [simp]: "length eoi = 2"
  by (simp add: eoi_def)

lemma padded_drop: "m \<le> length ps \<Longrightarrow> padded (drop m ps) k = padded ps (k + m)"
  by (auto simp: padded_def add.commute)

lemma padded_nil: "padded [] k = eoi ! (k mod 2)"
  by (simp add: padded_def)

lemma padded_eoi: "padded eoi k = eoi ! (k mod 2)"
proof (cases "k < 2")
  case False
  then have "(k - 2) mod 2 = k mod 2" by presburger
  then show ?thesis using False by (simp add: padded_def)
qed (simp add: padded_def)

locale image_provider =
  fixes get :: "'p get_data" and rest :: "'p \<Rightarrow> u8 list" and size :: nat
  assumes size_two: "2 \<le> size"
    and get_some: "\<exists>bs n p'. get p = Some (bs, n, p')"
    and get_next: "get p = Some (bs, n, p') \<Longrightarrow> length bs \<le> size \<and> rest p = bs @ rest p'
      \<and> (if rest p = [] then n \<le> 0 else n = int (length bs) \<and> bs \<noteq> [])"
begin

definition src_ok :: "'p source_mgr \<Rightarrow> bool" where
  "src_ok src \<longleftrightarrow> length (m_buffer src) = size \<and> next_input_byte src + bytes_in_buffer src \<le> size
     \<and> (m_startOfFile src \<longrightarrow> rest (provider src) \<noteq> [])"

text \<open>All bytes libjpeg will see from here on: the buffered ones, the rest of the file, markers without end.\<close>

definition stream :: "'p source_mgr \<Rightarrow> nat \<Rightarrow> u8" where
  "stream src k =
     padded (take (bytes_in_buffer src) (drop (next_input_byte src) (m_buffer src)) @ rest (provider src)) k"

lemma fill_stream:
  assumes "src_ok src"
  shows "\<exists>t. LC_fill_input_buffer get src = Inr t \<and> src_ok t \<and> stream t = (\<lambda>k. stream src (k + bytes_in_buffer src))"
proof -
  from get_some obtain bs n p' where g: "get (provider src) = Some (bs, n, p')" by blast
  note r = get_next [OF g]
  have l: "length (m_buffer src) = size" "next_input_byte src + bytes_in_buffer src \<le> size" using assms by (auto simp: src_ok_def)
  have len: "length (take (bytes_in_buffer src) (drop (next_input_byte src) (m_buffer src))) = bytes_in_buffer src" using l by simp
  show ?thesis
  proof (cases "rest (provider src) = []")
    case True
    then have "bs @ rest p' = []" "n \<le> 0" using r by metis+
    then have bs: "bs = []" "rest p' = []" "n \<le> 0" by simp_all
    have "stream src (k + bytes_in_buffer src) = padded [] k" for k
      using padded_drop [of "bytes_in_buffer src" "take (bytes_in_buffer src) (drop (next_input_byte src) (m_buffer src))" k] True len
      by (simp add: stream_def)
    then have st: "stream src (k + bytes_in_buffer src) = eoi ! (k mod 2)" for k by (simp add: padded_nil)
    define t where "t = src\<lparr>m_buffer := overwrite eoi (m_buffer src), provider := p', warnings := warnings src + 1,
      next_input_byte := 0, bytes_in_buffer := 2, m_startOfFile := False\<rparr>"
    have "LC_fill_input_buffer get src = Inr t"
      using g bs assms True l size_two by (simp add: LC_fill_input_buffer_def Let_def overwrite_def src_ok_def t_def)
    moreover have "src_ok t" using l size_two by (simp add: src_ok_def t_def overwrite_def eoi_def)
    moreover have "stream t k = eoi ! (k mod 2)" for k
      using bs(2) padded_eoi by (simp add: stream_def t_def overwrite_def)
    ultimately show ?thesis using st by auto
  next
    case False
    then have bs: "n = int (length bs)" "bs \<noteq> []" "rest (provider src) = bs @ rest p'" "length bs \<le> size" using r by metis+
    define t where "t = src\<lparr>m_buffer := overwrite bs (m_buffer src), provider := p',
      next_input_byte := 0, bytes_in_buffer := length bs, m_startOfFile := False\<rparr>"
    have "LC_fill_input_buffer get src = Inr t"
      using g bs l by (simp add: LC_fill_input_buffer_def Let_def t_def)
    moreover have "src_ok t" using l bs by (simp add: src_ok_def t_def overwrite_def)
    moreover have "stream t k = stream src (k + bytes_in_buffer src)" for k
      using padded_drop [of "bytes_in_buffer src" "take (bytes_in_buffer src) (drop (next_input_byte src) (m_buffer src)) @ bs @ rest p'" k] bs(3) len
      by (simp add: stream_def t_def overwrite_def)
    ultimately show ?thesis by auto
  qed
qed

lemma skip_loop_stream:
  assumes "src_ok src"
  shows "\<exists>m t. skip_loop get n src = Inr (m, t) \<and> src_ok t \<and> m \<le> bytes_in_buffer t \<and> (\<forall>k. stream t (k + m) = stream src (k + n))"
proof -
  define P where "P g n src \<longleftrightarrow> g = get \<and> src_ok src \<longrightarrow>
    (\<exists>m t. skip_loop g n src = Inr (m, t) \<and> src_ok t \<and> m \<le> bytes_in_buffer t \<and> (\<forall>k. stream t (k + m) = stream src (k + n)))" for g n src
  have "P get n src"
  proof (induction rule: skip_loop.induct [where P = P])
    case (1 g n src)
    show ?case unfolding P_def
    proof
      assume g: "g = get \<and> src_ok src"
      show "\<exists>m t. skip_loop g n src = Inr (m, t) \<and> src_ok t \<and> m \<le> bytes_in_buffer t \<and> (\<forall>k. stream t (k + m) = stream src (k + n))"
      proof (cases "n > bytes_in_buffer src")
        case True
        from fill_stream g obtain u where u: "LC_fill_input_buffer g src = Inr u" "src_ok u" "stream u = (\<lambda>k. stream src (k + bytes_in_buffer src))" by blast
        from "1.IH" [OF True u(1)] g u(2) obtain m t where
          t: "skip_loop g (n - bytes_in_buffer src) u = Inr (m, t)" "src_ok t" "m \<le> bytes_in_buffer t"
            "\<forall>k. stream t (k + m) = stream u (k + (n - bytes_in_buffer src))" unfolding P_def by blast
        have "stream t (k + m) = stream src (k + n)" for k using t(4) u(3) True by (simp add: add.assoc)
        moreover have "skip_loop g n src = Inr (m, t)" using True u(1) t(1) by (subst skip_loop.simps) simp
        ultimately show ?thesis using t(2,3) by blast
      next
        case False
        then have "skip_loop g n src = Inr (n, src)" by (subst skip_loop.simps) simp
        then show ?thesis using False g by (intro exI [of _ n] exI [of _ src]) simp
      qed
    qed
  qed
  then show ?thesis using assms by (simp add: P_def)
qed

lemma skip_stream:
  assumes "src_ok src" "0 \<le> n"
  shows "\<exists>t. LC_skip_input_data get n src = Inr t \<and> src_ok t \<and> (\<forall>k. stream t k = stream src (k + nat n))"
proof (cases "0 < n")
  case True
  from skip_loop_stream [OF assms(1), of "nat n"] obtain m t where
    t: "skip_loop get (nat n) src = Inr (m, t)" "src_ok t" "m \<le> bytes_in_buffer t" "\<forall>k. stream t (k + m) = stream src (k + nat n)" by blast
  define u where "u = t\<lparr>next_input_byte := next_input_byte t + m, bytes_in_buffer := bytes_in_buffer t - m\<rparr>"
  have ps: "take (bytes_in_buffer t - m) (drop (next_input_byte t + m) (m_buffer t)) = drop m (take (bytes_in_buffer t) (drop (next_input_byte t) (m_buffer t)))"
    by (simp add: drop_take add.commute)
  have l: "m \<le> length (take (bytes_in_buffer t) (drop (next_input_byte t) (m_buffer t)))" using t(2,3) by (auto simp: src_ok_def)
  have "stream u k = stream t (k + m)" for k
    using l padded_drop [OF trans_le_add1 [OF l, of "length (rest (provider t))", folded length_append], of k]
    by (simp add: stream_def u_def ps)
  moreover have "src_ok u" using t(2,3) by (auto simp: src_ok_def u_def)
  moreover have "LC_skip_input_data get n src = Inr u" using True t(1) by (simp add: LC_skip_input_data_def u_def)
  ultimately show ?thesis using t(4) by auto
qed (use assms in \<open>auto simp: LC_skip_input_data_def\<close>)

end

section \<open>Files and streams\<close>

text \<open>
  The provider that is used, \<open>InputStreamImageDataProvider\<close>, reads from a channel: some bytes of the
  file, up to the size of the buffer. The sizes of the single reads are up to the channel, the argument
  \<open>ks\<close> lists them.
\<close>

fun channel_read :: "nat \<Rightarrow> (nat list \<times> u8 list) get_data" where
  "channel_read bsz (ks, jpg) =
     (let n = (case ks of [] \<Rightarrow> bsz | k # _ \<Rightarrow> min bsz (max 1 k)); bs = take n jpg
      in Some (bs, if jpg = [] then -1 else int (length bs), (drop 1 ks, drop n jpg)))"

lemma channel_provider: "2 \<le> bsz \<Longrightarrow> image_provider (channel_read bsz) snd bsz"
proof
  fix p :: "nat list \<times> u8 list" and bs n p'
  assume s: "2 \<le> bsz"
  obtain ks data where p: "p = (ks, data)" by (cases p)
  define m where "m = (case ks of [] \<Rightarrow> bsz | k # _ \<Rightarrow> min bsz (max 1 k))"
  have m: "1 \<le> m" "m \<le> bsz" using s by (auto simp: m_def split: list.splits)
  have r: "channel_read bsz p = Some (take m data, if data = [] then -1 else int (length (take m data)), (drop 1 ks, drop m data))"
    unfolding p channel_read.simps Let_def m_def ..
  then show "\<exists>bs n p'. channel_read bsz p = Some (bs, n, p')" by blast
  assume "channel_read bsz p = Some (bs, n, p')"
  then have "bs = take m data" "n = (if data = [] then -1 else int (length (take m data)))" "p' = (drop 1 ks, drop m data)"
    using r by auto
  then show "length bs \<le> bsz \<and> snd p = bs @ snd p' \<and> (if snd p = [] then n \<le> 0 else n = int (length bs) \<and> bs \<noteq> [])"
    using m p by auto
qed assumption

interpretation channel: image_provider "channel_read (max 2 b)" snd "max 2 b" for b
  by (rule channel_provider) simp

text \<open>The reader starts at the beginning of the file.\<close>

lemma source_start:
  assumes "jpg \<noteq> []"
  shows "channel.src_ok b (LC_init_source (LC_source_mgr (ks, jpg) (max 2 b)))"
    and "channel.stream (LC_init_source (LC_source_mgr (ks, jpg) (max 2 b))) = padded jpg"
  using assms by (auto simp: channel.src_ok_def channel.stream_def LC_init_source_def LC_source_mgr_def fun_eq_iff)



section \<open>What the JPEG library writes\<close>

text \<open>
  libjpeg stores byte after byte at \<open>next_output_byte\<close>, counts \<open>free_in_buffer\<close> down, and calls
  \<open>empty_output_buffer\<close> when there is no room left: every run of that protocol, with the bytes stored.
\<close>

inductive dest_run :: "'q put_data \<Rightarrow> 'q dest_mgr \<Rightarrow> u8 list \<Rightarrow> 'q dest_mgr \<Rightarrow> bool" for recv where
  stop: "dest_run recv d [] d"
| store: "0 < free_in_buffer d
    \<Longrightarrow> dest_run recv (d\<lparr>d_buffer := (d_buffer d)[next_output_byte d := b], next_output_byte := next_output_byte d + 1,
          free_in_buffer := free_in_buffer d - 1\<rparr>) bs e
    \<Longrightarrow> dest_run recv d (b # bs) e"
| flush: "free_in_buffer d = 0 \<Longrightarrow> LC_empty_output_buffer recv d = Inr d' \<Longrightarrow> dest_run recv d' bs e \<Longrightarrow> dest_run recv d bs e"

text \<open>The receiver that is used, \<open>OutputStreamImageDataReceiver\<close>, appends to a stream.\<close>

definition channel_write :: "u8 list put_data" where
  "channel_write bs out = Some (int (length bs), out @ bs)"

definition dest_ok :: "'q dest_mgr \<Rightarrow> bool" where
  "dest_ok d \<longleftrightarrow> jlimit d = length (d_buffer d) \<and> 0 < length (d_buffer d) \<and> next_output_byte d + free_in_buffer d = length (d_buffer d)"

text \<open>What has been stored, handed over or still in the buffer.\<close>

definition stored :: "u8 list dest_mgr \<Rightarrow> u8 list" where
  "stored d = receiver d @ take (next_output_byte d) (d_buffer d)"

lemma flush_stored:
  assumes "dest_ok d" "free_in_buffer d = 0" "LC_empty_output_buffer channel_write d = Inr d'"
  shows "dest_ok d' \<and> stored d' = stored d"
  using assms by (auto simp: LC_empty_output_buffer_def dest_write_def channel_write_def dest_reset_def dest_ok_def stored_def)

lemma dest_run_stored: "dest_run channel_write d bs e \<Longrightarrow> dest_ok d \<Longrightarrow> dest_ok e \<and> stored e = stored d @ bs"
proof (induction rule: dest_run.induct)
  case (store d b bs e)
  let ?d = "d\<lparr>d_buffer := (d_buffer d)[next_output_byte d := b], next_output_byte := next_output_byte d + 1, free_in_buffer := free_in_buffer d - 1\<rparr>"
  have "dest_ok ?d" "stored ?d = stored d @ [b]"
    using store(1) store.prems by (auto simp: dest_ok_def stored_def take_Suc_conv_app_nth)
  then show ?case using store.IH by simp
next
  case (flush d d' bs e)
  then show ?case using flush_stored [of d d'] by simp
qed simp

text \<open>
  C34: What libjpeg writes through the destination manager arrives: after \<open>LC_term_destination\<close> the
  output stream holds exactly the bytes stored, in order, whatever the size of the buffer and however
  many bytes are left in it at the end.
\<close>

theorem dest_writes_all:
  assumes "dest_run channel_write (LC_init_destination (LC_dest_mgr out n)) bs e" "0 < n"
  shows "\<exists>f. LC_term_destination channel_write e = Inr f \<and> receiver f = out @ bs"
proof -
  have "dest_ok (LC_init_destination (LC_dest_mgr out n))" "stored (LC_init_destination (LC_dest_mgr out n)) = out"
    using assms(2) by (auto simp: dest_ok_def stored_def LC_init_destination_def LC_dest_mgr_def dest_reset_def)
  with dest_run_stored [OF assms(1)] have e: "dest_ok e" "stored e = out @ bs" by auto
  then have "nat (int (length (d_buffer e)) - int (free_in_buffer e)) = next_output_byte e"
    "(int (length (d_buffer e)) - int (free_in_buffer e) > 0) = (0 < next_output_byte e)" by (auto simp: dest_ok_def)
  with e show ?thesis
    by (cases "0 < next_output_byte e") (auto simp: LC_term_destination_def dest_write_def channel_write_def stored_def dest_ok_def Let_def)
qed

theorem dest_writes_all_witness:
  "\<exists>e f. dest_run channel_write (LC_init_destination (LC_dest_mgr [] 2)) [1, 2, 3] e
    \<and> LC_term_destination channel_write e = Inr f \<and> receiver f = [1, 2, 3]"
proof -
  have "\<exists>e. dest_run channel_write (LC_init_destination (LC_dest_mgr [] 2)) [1, 2, 3] e"
    by (rule exI, rule dest_run.store, simp add: LC_init_destination_def LC_dest_mgr_def dest_reset_def,
      rule dest_run.store, simp add: LC_init_destination_def LC_dest_mgr_def dest_reset_def,
      rule dest_run.flush, simp add: LC_init_destination_def LC_dest_mgr_def dest_reset_def,
      simp add: LC_init_destination_def LC_dest_mgr_def dest_reset_def LC_empty_output_buffer_def dest_write_def channel_write_def,
      rule dest_run.store, simp, rule dest_run.stop)
  then obtain e where e: "dest_run channel_write (LC_init_destination (LC_dest_mgr [] 2)) [1, 2, 3] e" by blast
  then show ?thesis using dest_writes_all [OF e] by auto
qed

end

