(* ===== verification/TiffApply.thy ===== *)
theory TiffApply
  imports Fuji Ljpeg
begin

text \<open>
  \<open>apply_tiff\<close>: what dcraw concludes from the directories of a TIFF file. It picks the directory that
  holds the raw image, the loader for it, and the largest thumbnail.

  Products of \<open>int\<close> values that leave the range of \<open>int\<close> are taken in two's complement.
\<close>

section \<open>State\<close>

text \<open>
  One entry of \<open>tiff_ifd\<close>. \<open>shutter\<close> is a \<open>float\<close>; the code copies it and tests whether it is zero, so its
  bit pattern is enough.
\<close>

record tiff_ifd =
  ti_width :: int
  ti_height :: int
  ti_bps :: int
  ti_comp :: int
  ti_phint :: int
  ti_offset :: int
  ti_flip :: int
  ti_samples :: int
  ti_bytes :: int
  ti_tile_width :: int
  ti_tile_length :: int
  ti_shutter :: u32

text \<open>The functions \<open>load_raw\<close>, \<open>thumb_load_raw\<close> and \<open>write_thumb\<close> may point to.\<close>

datatype raw_loader = Sony_arw2 | Sony_arw | Eight_bit_raw | Packed_raw | Unpacked_raw | Olympus_raw
  | Fuji_compressed | Lossless_jpeg_raw | Kodak_262_raw | Nikon_yuv_raw | Nikon_raw | Pentax_raw
  | Kodak_rgb_raw | Kodak_ycbcr_raw | Kodak_65000_raw | Kodak_thumb_raw
  | Phase_one_raw | Phase_one_raw_c | Smal_v6_raw | Smal_v9_raw | Sinar_4shot_raw | Panasonic_raw
  | Samsung_raw | Samsung2_raw | Samsung3_raw | Imacon_full_raw | Canon_crx_raw
  | Canon_raw | Canon_600_raw | Canon_sraw_raw | Canon_rmf_raw | Quicktake_100_raw | Kodak_radc_raw
  | Kodak_c330_raw | Kodak_c603_raw | Kodak_dc120_raw | Kodak_jpeg_raw | Nokia_raw | Redcine_raw
  | Minolta_rd175_raw | Rollei_raw | Packed_dng_raw | Lossless_dng_raw | Lossy_dng_raw
  | Hasselblad_raw | Leaf_hdr_raw | Sony_raw

datatype thumb_writer = Jpeg_thumb | Layer_thumb | Ppm_thumb | Ppm16_thumb | Rollei_thumb

text \<open>
  The globals: those of the image (\<open>geom\<close>) and its arrays (\<open>dst\<close>) as the loaders will find them, and
  those that only the identification uses.
\<close>

record tiff_state =
  tg :: geom
  td :: dst
  tfuji :: fuji_header
  tifds :: "tiff_ifd list"
  tflip :: int
  tshutter :: u32
  load_raw :: "raw_loader option"
  thumb_load_raw :: "raw_loader option"
  write_thumb :: thumb_writer
  thumb_misc :: int
  thumb_width :: int
  thumb_height :: int
  thumb_offset :: int
  thumb_length :: int

section \<open>Strings\<close>

definition strncmp_eq :: "string \<Rightarrow> string \<Rightarrow> bool" where
  "strncmp_eq s lit \<longleftrightarrow> take (length lit) s = lit"

fun strstr :: "string \<Rightarrow> string \<Rightarrow> bool" where
  "strstr s lit = (strncmp_eq s lit \<or> (case s of [] \<Rightarrow> False | _ # cs \<Rightarrow> strstr cs lit))"

declare strstr.simps [simp del]

definition lower :: "char \<Rightarrow> char" where
  "lower c = (let n = (of_char c :: nat) in if 65 \<le> n \<and> n \<le> 90 then char_of (n + 32) else c)"

definition strcasestr :: "string \<Rightarrow> string \<Rightarrow> bool" where
  "strcasestr s lit = strstr (map lower s) (map lower lit)"

section \<open>The raw image\<close>

abbreviation upd_g :: "(geom \<Rightarrow> geom) \<Rightarrow> tiff_state \<Rightarrow> tiff_state" where
  "upd_g f s \<equiv> s\<lparr>tg := f (tg s)\<rparr>"

abbreviation upd_d :: "(dst \<Rightarrow> dst) \<Rightarrow> tiff_state \<Rightarrow> tiff_state" where
  "upd_d f s \<equiv> s\<lparr>td := f (td s)\<rparr>"

text \<open>The header of a JPEG thumbnail.\<close>

definition thumb_header :: "tiff_state \<Rightarrow> tiff_state option" where
  "thumb_header s =
     (if thumb_offset s \<noteq> 0 then do {
        ((found, jh), io) \<leftarrow> ljpeg_start (tg s) True (fseek_set (thumb_offset s) (dio (td s)));
        let s = upd_d (dio_update (\<lambda>_. io)) s;
        Some (if found then s\<lparr>thumb_misc := jh_bits jh, thumb_width := c_u16 (jh_wide jh), thumb_height := c_u16 (jh_high jh)\<rparr> else s) }
      else Some s)"

text \<open>A directory without an exposure time takes that of the next one that has one.\<close>

definition float_nonzero :: "u32 \<Rightarrow> bool" where
  "float_nonzero w \<longleftrightarrow> w AND 0x7fffffff \<noteq> 0"

definition spread_shutter :: "tiff_state \<Rightarrow> tiff_state" where
  "spread_shutter s =
     fold (\<lambda>i s. let sh = (if float_nonzero (ti_shutter (tifds s ! i)) then ti_shutter (tifds s ! i) else tshutter s)
                 in s\<lparr>tshutter := sh, tifds := (tifds s)[i := (tifds s ! i)\<lparr>ti_shutter := sh\<rparr>]\<rparr>)
       (rev [0..<length (tifds s)]) s"

text \<open>
  One round of the loop that looks for the raw image. It carries \<open>max_samp\<close>, \<open>ties\<close> and \<open>raw\<close>.
\<close>

definition image_size :: "tiff_state \<Rightarrow> int" where
  "image_size s = (let os = c_s32 (raw_width (tg s) * raw_height (tg s))
     in if tiff_bps (tg s) \<noteq> 0 then c_s32 (os * tiff_bps (tg s)) else os)"

definition ifd_size :: "tiff_state \<Rightarrow> tiff_ifd \<Rightarrow> int" where
  "ifd_size s d = (let ns = c_s32 (ti_width d * ti_height d)
     in if tiff_bps (tg s) \<noteq> 0 then c_s32 (ns * ti_bps d) else ns)"

definition take_ifd :: "tiff_ifd \<Rightarrow> tiff_state \<Rightarrow> tiff_state" where
  "take_ifd d s =
     (upd_g (\<lambda>g. g\<lparr>raw_width := c_u16 (ti_width d), raw_height := c_u16 (ti_height d), tiff_bps := c_u32 (ti_bps d),
        tiff_compress := c_u32 (ti_comp d), data_offset := ti_offset d, tiff_samples := c_u32 (ti_samples d),
        tile_width := c_u32 (ti_tile_width d), tile_length := c_u32 (ti_tile_length d)\<rparr>) s)
     \<lparr>tflip := c_u32 (ti_flip d), tshutter := ti_shutter d\<rparr>"

definition pick_step :: "nat \<Rightarrow> (int \<times> int \<times> int) \<times> tiff_state \<Rightarrow> (int \<times> int \<times> int) \<times> tiff_state" where
  "pick_step i = (\<lambda>((max_samp, ties, raw), s).
     let d = tifds s ! i;
         max_samp = (if max_samp < ti_samples d then ti_samples d else max_samp);
         max_samp = (if max_samp > 3 then 3 else max_samp);
         os = image_size s; ns = ifd_size s d
     in if (ti_comp d \<noteq> 6 \<or> ti_samples d \<noteq> 3) \<and> ti_width d OR ti_height d < 0x10000 \<and> ns \<noteq> 0 then
          if ns > os then ((max_samp, 1, int i), take_ifd d s)
          else if ns = os then
            if shot_select (tg s) = ties then ((max_samp, ties + 1, int i), take_ifd d s)
            else ((max_samp, ties + 1, raw), s)
          else ((max_samp, ties, raw), s)
        else ((max_samp, ties, raw), s))"

definition pick_raw :: "tiff_state \<Rightarrow> (int \<times> int \<times> int) \<times> tiff_state" where
  "pick_raw s = fold pick_step [0..<length (tifds s)] ((0, 0, -1), s)"

definition after_pick :: "int \<Rightarrow> tiff_state \<Rightarrow> tiff_state" where
  "after_pick ties s =
     (let s = (if is_raw (tg s) = 1 \<and> ties \<noteq> 0 then upd_g (is_raw_update (\<lambda>_. ties)) s else s);
          s = (if tile_width (tg s) = 0 then upd_g (tile_width_update (\<lambda>_. 0x7fffffff)) s else s);
          s = (if tile_length (tg s) = 0 then upd_g (tile_length_update (\<lambda>_. 0x7fffffff)) s else s)
      in fold (\<lambda>d s. if ti_flip d \<noteq> 0 then s\<lparr>tflip := c_u32 (ti_flip d)\<rparr> else s) (rev (tifds s)) s)"

section \<open>The loader\<close>

abbreviation raw_area :: "tiff_state \<Rightarrow> int \<Rightarrow> int" where
  "raw_area s k \<equiv> c_s32 (raw_width (tg s) * raw_height (tg s) * k)"

text \<open>The case of an unknown or an uncompressed format, up to the label \<open>slr\<close>.\<close>

definition load_uncompressed :: "tiff_ifd \<Rightarrow> tiff_state \<Rightarrow> tiff_state" where
  "load_uncompressed d s =
     (let s = (if strncmp_eq (cam_make (tg s)) ''OLYMPUS'' \<and> c_s32 (ti_bytes d * 2) = raw_area s 3
               then upd_g (load_flags_update (\<lambda>_. 24)) s else s);
          s = (if cam_make (tg s) = ''SONY'' \<and> tiff_bps (tg s) < 14 \<and> ti_bytes d = raw_area s 2
               then upd_g (tiff_bps_update (\<lambda>_. 14)) s else s)
      in if c_s32 (ti_bytes d * 5) = raw_area s 8
         then upd_g (\<lambda>g. g\<lparr>load_flags := 81, tiff_bps := 12\<rparr>) s else s)"

text \<open>From the label \<open>slr\<close> on.\<close>

definition load_16 :: "tiff_ifd \<Rightarrow> tiff_state \<Rightarrow> tiff_state" where
  "load_16 d s =
     (if strncmp_eq (cam_make (tg s)) ''OLYMPUS'' \<and> c_s32 (ti_bytes d * 7) > raw_area s 1
      then s\<lparr>load_raw := Some Olympus_raw\<rparr> else s\<lparr>load_raw := Some Unpacked_raw\<rparr>)"

definition load_slr :: "tiff_ifd \<Rightarrow> tiff_state \<Rightarrow> tiff_state" where
  "load_slr d s =
     (let s = (if tiff_bps (tg s) = 8 then s\<lparr>load_raw := Some Eight_bit_raw\<rparr>
               else if tiff_bps (tg s) = 12 then
                 (if ti_phint d = 2 then upd_g (load_flags_update (\<lambda>_. 6)) s else s)\<lparr>load_raw := Some Packed_raw\<rparr>
               else if tiff_bps (tg s) = 14 then
                 if c_s32 (ti_bytes d * 4) = raw_area s 7 then s\<lparr>load_raw := Some Packed_raw\<rparr>
                 else load_16 d (upd_g (load_flags_update (\<lambda>_. 0)) s)
               else if tiff_bps (tg s) = 16 then load_16 d s
               else s)
      in if cam_make (tg s) = ''FUJIFILM'' \<and> c_u32 (ti_bytes d * 8) < c_u32 (raw_width (tg s) * raw_height (tg s) * tiff_bps (tg s))
         then case parse_fuji_compressed_header (tg s) (tfuji s) (dio (td s)) of ((found, fh, off), io) \<Rightarrow>
                let s = (upd_g (data_offset_update (\<lambda>_. off)) (upd_d (dio_update (\<lambda>_. io)) s))\<lparr>tfuji := fh\<rparr>
                in if found then s\<lparr>load_raw := Some Fuji_compressed\<rparr> else s
         else s)"

text \<open>
  Compression 34713, the formats of Nikon. \<open>yuv_curve\<close> is the curve that \<open>gamma_curve(1/2.4,12.92,1,4095)\<close>
  computes in floating point.
\<close>

definition load_nikon :: "u16 list \<Rightarrow> tiff_ifd \<Rightarrow> tiff_state \<Rightarrow> tiff_state" where
  "load_nikon yuv_curve d s =
     (if c_s32 ((raw_width (tg s) + 9) sdiv 10 * 16 * raw_height (tg s)) = ti_bytes d then
        upd_g (load_flags_update (\<lambda>_. 1)) (s\<lparr>load_raw := Some Packed_raw\<rparr>)
      else if raw_area s 3 = c_s32 (ti_bytes d * 2) then
        (if take 1 (cam_model (tg s)) = ''N'' then upd_g (load_flags_update (\<lambda>_. 80)) s else s)\<lparr>load_raw := Some Packed_raw\<rparr>
      else if raw_area s 3 = ti_bytes d then
        upd_d (\<lambda>t. t\<lparr>curve := yuv_curve, cblack := replicate (length (cblack t)) 0, filters := 0\<rparr>) (s\<lparr>load_raw := Some Nikon_yuv_raw\<rparr>)
      else if raw_area s 2 = ti_bytes d then
        upd_d (dio_update (byte_order_update (\<lambda>_. 0x4d4d))) (upd_g (load_flags_update (\<lambda>_. 4)) (s\<lparr>load_raw := Some Unpacked_raw\<rparr>))
      else s\<lparr>load_raw := Some Nikon_raw\<rparr>)"

definition choose_loader :: "u16 list \<Rightarrow> tiff_ifd \<Rightarrow> tiff_state \<Rightarrow> tiff_state" where
  "choose_loader yuv_curve d s =
     (let comp = tiff_compress (tg s) in
      if comp = 32767 then
        if ti_bytes d = raw_area s 1 then
          upd_d (maximum_update (\<lambda>_. 4095)) (upd_g (tiff_bps_update (\<lambda>_. 12)) (s\<lparr>load_raw := Some Sony_arw2\<rparr>))
        else if c_u32 (ti_bytes d * 8) \<noteq> c_u32 (raw_width (tg s) * raw_height (tg s) * tiff_bps (tg s)) then
          upd_g (\<lambda>g. g\<lparr>raw_height := c_u16 (raw_height g + 8)\<rparr>) (s\<lparr>load_raw := Some Sony_arw\<rparr>)
        else load_slr d (upd_g (load_flags_update (\<lambda>_. 80)) s)
      else if comp = 32769 then load_slr d (upd_g (\<lambda>g. g\<lparr>load_flags := c_u32 (load_flags g + 1)\<rparr>) s)
      else if comp = 32770 \<or> comp = 32773 then load_slr d s
      else if comp = 0 \<or> comp = 1 then load_slr d (load_uncompressed d s)
      else if comp = 6 \<or> comp = 7 \<or> comp = 99 then s\<lparr>load_raw := Some Lossless_jpeg_raw\<rparr>
      else if comp = 262 then s\<lparr>load_raw := Some Kodak_262_raw\<rparr>
      else if comp = 34713 then load_nikon yuv_curve d s
      else if comp = 65535 then s\<lparr>load_raw := Some Pentax_raw\<rparr>
      else if comp = 65000 then
        if ti_phint d = 2 then upd_d (filters_update (\<lambda>_. 0)) (s\<lparr>load_raw := Some Kodak_rgb_raw\<rparr>)
        else if ti_phint d = 6 then upd_d (filters_update (\<lambda>_. 0)) (s\<lparr>load_raw := Some Kodak_ycbcr_raw\<rparr>)
        else if ti_phint d = 32803 then s\<lparr>load_raw := Some Kodak_65000_raw\<rparr>
        else s
      else if comp = 32867 \<or> comp = 34892 then s
      else upd_g (is_raw_update (\<lambda>_. 0)) s)"

text \<open>Files that only look raw. With no raw image found the first test reads in front of the array.\<close>

definition reject_not_raw :: "int \<Rightarrow> tiff_state \<Rightarrow> tiff_state option" where
  "reject_not_raw raw s =
     (let g = tg s in
      if dng_version g \<noteq> 0 then Some s
      else do {
        rgb \<leftarrow> (if tiff_samples g = 3 then do { d \<leftarrow> at (tifds s) raw;
                  Some (ti_bytes d \<noteq> 0 \<and> tiff_bps g \<noteq> 14 \<and> c_u32 (tiff_compress g AND -16) \<noteq> 32768) }
                else Some False);
        Some (if rgb \<or> (tiff_bps g = 8 \<and> \<not> strncmp_eq (cam_make g) ''Phase'' \<and> \<not> strcasestr (cam_make g) ''Kodak''
                    \<and> \<not> strstr (cam_model2 g) ''DEBUG RAW'')
              then upd_g (is_raw_update (\<lambda>_. 0)) s else s) })"

section \<open>The thumbnail\<close>

definition thumb_better :: "tiff_ifd \<Rightarrow> tiff_state \<Rightarrow> bool" where
  "thumb_better d s \<longleftrightarrow>
     c_u32 (c_s32 (ti_width d * ti_height d) sdiv c_s32 (ti_bps d * ti_bps d + 1))
       > c_u32 (thumb_width s * thumb_height s) div c_u32 (thumb_misc s * thumb_misc s + 1)"

definition thumb_step :: "int \<Rightarrow> int \<Rightarrow> nat \<Rightarrow> int \<times> tiff_state \<Rightarrow> int \<times> tiff_state" where
  "thumb_step raw max_samp i = (\<lambda>(thm, s).
     let d = tifds s ! i
     in if int i \<noteq> raw \<and> ti_samples d = max_samp \<and> thumb_better d s \<and> ti_comp d \<noteq> 34892
        then (int i, s\<lparr>thumb_width := c_u16 (ti_width d), thumb_height := c_u16 (ti_height d), thumb_offset := ti_offset d,
               thumb_length := c_u32 (ti_bytes d), thumb_misc := c_u32 (ti_bps d)\<rparr>)
        else (thm, s))"

definition thumb_kind :: "tiff_ifd \<Rightarrow> tiff_state \<Rightarrow> tiff_state" where
  "thumb_kind d s =
     (let s = s\<lparr>thumb_misc := c_u32 (thumb_misc s OR shl (ti_samples d) 5)\<rparr>
      in if ti_comp d = 0 then s\<lparr>write_thumb := Layer_thumb\<rparr>
         else if ti_comp d = 1 then
           if ti_bps d \<le> 8 then s\<lparr>write_thumb := Ppm_thumb\<rparr>
           else if cam_make (tg s) = ''Imacon'' then s\<lparr>write_thumb := Ppm16_thumb\<rparr>
           else s\<lparr>thumb_load_raw := Some Kodak_thumb_raw\<rparr>
         else if ti_comp d = 65000 then
           s\<lparr>thumb_load_raw := Some (if ti_phint d = 6 then Kodak_ycbcr_raw else Kodak_rgb_raw)\<rparr>
         else s)"

definition choose_thumb :: "int \<Rightarrow> int \<Rightarrow> tiff_state \<Rightarrow> tiff_state" where
  "choose_thumb raw max_samp s =
     (case fold (thumb_step raw max_samp) [0..<length (tifds s)] (-1, s) of
        (thm, s) \<Rightarrow> if thm \<ge> 0 then thumb_kind (tifds s ! nat thm) s else s)"

section \<open>All together\<close>

definition apply_tiff :: "u16 list \<Rightarrow> tiff_state \<Rightarrow> tiff_state option" where
  "apply_tiff yuv_curve s = do {
     s \<leftarrow> thumb_header (s\<lparr>thumb_misc := 16\<rparr>);
     let ((max_samp, ties, raw), s) = pick_raw (spread_shutter s);
     let s = after_pick ties s;
     s \<leftarrow> (if raw \<ge> 0 \<and> load_raw s = None then do { d \<leftarrow> at (tifds s) raw; Some (choose_loader yuv_curve d s) } else Some s);
     s \<leftarrow> reject_not_raw raw s;
     Some (choose_thumb raw max_samp s) }"

section \<open>Which directory is the raw image\<close>

text \<open>
  The directories that count (all but JPEG images of three samples), the size of their images in bits,
  and the places of the largest ones; the directory that is wanted is the \<open>shot_select\<close>-th of those, or
  the first when there are not as many.
\<close>

definition ifd_counts :: "tiff_ifd \<Rightarrow> bool" where
  "ifd_counts d \<longleftrightarrow> \<not> (ti_comp d = 6 \<and> ti_samples d = 3)"

definition ifd_bits :: "tiff_ifd \<Rightarrow> int" where
  "ifd_bits d = ti_width d * ti_height d * ti_bps d"

definition ifd_sane :: "tiff_ifd \<Rightarrow> bool" where
  "ifd_sane d \<longleftrightarrow> 0 < ti_width d \<and> ti_width d < 65536 \<and> 0 < ti_height d \<and> ti_height d < 65536 \<and> 0 < ti_bps d
     \<and> ifd_bits d < 2 ^ 31"

definition candidates :: "tiff_ifd list \<Rightarrow> nat \<Rightarrow> nat list" where
  "candidates ds n = filter (\<lambda>i. ifd_counts (ds ! i)) [0..<n]"

definition largest :: "tiff_ifd list \<Rightarrow> nat \<Rightarrow> nat list" where
  "largest ds n = filter (\<lambda>i. list_all (\<lambda>j. ifd_bits (ds ! j) \<le> ifd_bits (ds ! i)) (candidates ds n)) (candidates ds n)"

definition wanted :: "int \<Rightarrow> nat list \<Rightarrow> int" where
  "wanted shot ks = (if ks = [] then -1 else if shot < int (length ks) then int (ks ! nat shot) else int (hd ks))"

lemma candidates_Suc: "candidates ds (Suc n) = candidates ds n @ (if ifd_counts (ds ! n) then [n] else [])"
  by (simp add: candidates_def)

lemma largest_bits: "i \<in> set (largest ds n) \<Longrightarrow> j \<in> set (candidates ds n) \<Longrightarrow> ifd_bits (ds ! j) \<le> ifd_bits (ds ! i)"
  by (auto simp: largest_def list_all_iff)

lemma largest_sub: "set (largest ds n) \<subseteq> set (candidates ds n)" "set (candidates ds n) \<subseteq> {0..<n}"
  by (auto simp: largest_def candidates_def)

lemma largest_skip: "\<not> ifd_counts (ds ! n) \<Longrightarrow> largest ds (Suc n) = largest ds n"
  by (simp add: largest_def candidates_Suc)

lemma largest_Suc:
  assumes "ifd_counts (ds ! n)" "i \<in> set (largest ds n)"
  shows "largest ds (Suc n) = (if ifd_bits (ds ! i) < ifd_bits (ds ! n) then [n]
    else if ifd_bits (ds ! n) = ifd_bits (ds ! i) then largest ds n @ [n] else largest ds n)"
proof -
  let ?b = "\<lambda>k. ifd_bits (ds ! k)"
  have i: "i \<in> set (candidates ds n)" and top: "\<And>j. j \<in> set (candidates ds n) \<Longrightarrow> ?b j \<le> ?b i"
    using assms(2) largest_sub(1) largest_bits by blast+
  have old: "list_all (\<lambda>j. ?b j \<le> ?b k) (candidates ds n) \<longleftrightarrow> ?b i \<le> ?b k" for k
    unfolding list_all_iff using i top by (meson order_trans)
  have lg: "largest ds n = filter (\<lambda>k. ?b i \<le> ?b k) (candidates ds n)" by (simp add: largest_def old)
  have "largest ds (Suc n) = filter (\<lambda>k. ?b i \<le> ?b k \<and> ?b n \<le> ?b k) (candidates ds n) @ (if ?b i \<le> ?b n then [n] else [])"
    using assms(1) by (simp add: largest_def candidates_Suc old)
  moreover have "filter (\<lambda>k. ?b i \<le> ?b k \<and> ?b n \<le> ?b k) (candidates ds n) = []" if "?b i < ?b n"
    using top that by (force simp: filter_empty_conv)
  moreover have "filter (\<lambda>k. ?b i \<le> ?b k \<and> ?b n \<le> ?b k) (candidates ds n) = largest ds n" if "?b n \<le> ?b i"
    unfolding lg using that by (intro filter_cong) auto
  ultimately show ?thesis by auto
qed

lemma largest_first: "ifd_counts (ds ! n) \<Longrightarrow> candidates ds n = [] \<Longrightarrow> largest ds (Suc n) = [n]"
  by (simp add: largest_def candidates_Suc)

lemma largest_ne: "largest ds n = [] \<longleftrightarrow> candidates ds n = []"
proof (induction n)
  case (Suc n)
  show ?case
  proof (cases "ifd_counts (ds ! n)")
    case True
    show ?thesis
    proof (cases "candidates ds n = []")
      case False
      with Suc obtain i where "i \<in> set (largest ds n)" by (metis list.set_sel(1))
      from largest_Suc [OF True this] Suc False True show ?thesis by (auto simp: candidates_Suc)
    qed (use True largest_first in \<open>simp add: candidates_Suc\<close>)
  qed (use Suc largest_skip in \<open>simp add: candidates_Suc\<close>)
qed (simp add: largest_def candidates_def)

lemma take_ifd_twice [simp]: "take_ifd d (take_ifd e s) = take_ifd d s"
  by (simp add: take_ifd_def)

lemma or_16_bits: "0 \<le> a \<Longrightarrow> a < 65536 \<Longrightarrow> 0 \<le> b \<Longrightarrow> b < 65536 \<Longrightarrow> a OR b < 65536" for a b :: int
  using OR_upper [of a 16 b] by simp

lemma ifd_sane_size:
  assumes "ifd_sane d"
  shows "c_s32 (c_s32 (ti_width d * ti_height d) * ti_bps d) = ifd_bits d" "0 < ifd_bits d"
    "c_s32 (ti_width d * ti_height d) = ti_width d * ti_height d" "0 < ti_width d * ti_height d"
proof -
  have w: "0 < ti_width d * ti_height d" "0 < ti_bps d" "ti_width d * ti_height d * ti_bps d < 2 ^ 31"
    using assms by (auto simp: ifd_sane_def ifd_bits_def)
  have "ti_width d * ti_height d * 1 \<le> ti_width d * ti_height d * ti_bps d" using w by (intro mult_left_mono) auto
  then show a: "c_s32 (ti_width d * ti_height d) = ti_width d * ti_height d" using w by (intro c_s32_self) auto
  show "c_s32 (c_s32 (ti_width d * ti_height d) * ti_bps d) = ifd_bits d" "0 < ifd_bits d"
    unfolding a using w c_s32_self [of "ifd_bits d"] by (auto simp: ifd_bits_def)
  show "0 < ti_width d * ti_height d" by (rule w)
qed

lemma ifd_sane_bps: "ifd_sane d \<Longrightarrow> c_u32 (ti_bps d) = ti_bps d \<and> ti_bps d \<noteq> 0"
proof -
  assume d: "ifd_sane d"
  have "1 \<le> ti_width d * ti_height d" using ifd_sane_size(4) [OF d] by linarith
  then have "ti_bps d * 1 \<le> ti_bps d * (ti_width d * ti_height d)" using d by (intro mult_left_mono) (simp_all add: ifd_sane_def)
  then have "ti_bps d \<le> ifd_bits d" by (simp add: ifd_bits_def mult.commute)
  then have "c_u32 (ti_bps d) = ti_bps d" using d by (intro take_bit_int_eq_self) (auto simp: ifd_sane_def)
  then show ?thesis using d by (simp add: ifd_sane_def)
qed

lemma image_size_taken: "ifd_sane d \<Longrightarrow> image_size (take_ifd d s) = ifd_bits d"
proof -
  assume d: "ifd_sane d"
  then have s: "c_u16 (ti_width d) = ti_width d" "c_u16 (ti_height d) = ti_height d" by (auto simp: ifd_sane_def c_u16_self)
  show ?thesis using ifd_sane_size [OF d] ifd_sane_bps [OF d] by (simp add: image_size_def take_ifd_def s)
qed

text \<open>
  The loop after \<open>n\<close> rounds: how many directories share the largest size, which one is taken, and that
  the globals are those of that directory.
\<close>

definition pick_inv :: "tiff_state \<Rightarrow> nat \<Rightarrow> (int \<times> int \<times> int) \<times> tiff_state \<Rightarrow> bool" where
  "pick_inv s n st \<longleftrightarrow> (case st of ((ms, ties, raw), t) \<Rightarrow>
     let ks = largest (tifds s) n
     in ties = int (length ks) \<and> raw = wanted (shot_select (tg s)) ks
        \<and> t = (if ks = [] then s else take_ifd (tifds s ! nat raw) s))"

lemma wanted_in: "ks \<noteq> [] \<Longrightarrow> 0 \<le> shot \<Longrightarrow> 0 \<le> wanted shot ks \<and> nat (wanted shot ks) \<in> set ks"
  by (auto simp: wanted_def)

lemma wanted_snoc:
  assumes "ks \<noteq> []" "0 \<le> shot"
  shows "wanted shot (ks @ [n]) = (if shot = int (length ks) then int n else wanted shot ks)"
proof -
  consider "nat shot < length ks" | "nat shot = length ks" | "nat shot > length ks" by linarith
  then show ?thesis using assms by cases (auto simp: wanted_def nth_append nat_less_iff)
qed

lemma take_ifd_keeps [simp]: "tifds (take_ifd d s) = tifds s" "shot_select (tg (take_ifd d s)) = shot_select (tg s)"
  by (simp_all add: take_ifd_def)

lemma pick_inv_step:
  assumes sane: "list_all ifd_sane (tifds s)" and zero: "raw_width (tg s) = 0" and shot: "0 \<le> shot_select (tg s)"
    and n: "n < length (tifds s)" and inv: "pick_inv s n st"
  shows "pick_inv s (Suc n) (pick_step n st)"
proof -
  obtain ms ties raw t where st: "st = ((ms, ties, raw), t)" by (metis prod.exhaust)
  let ?ds = "tifds s" and ?d = "tifds s ! n" and ?ks = "largest (tifds s) n" and ?shot = "shot_select (tg s)"
  have i: "ties = int (length ?ks)" "raw = wanted ?shot ?ks" "t = (if ?ks = [] then s else take_ifd (?ds ! nat raw) s)"
    using inv by (simp_all add: pick_inv_def st Let_def)
  have d: "ifd_sane ?d" using sane n by (simp add: list_all_length)
  then have or: "ti_width ?d OR ti_height ?d < 65536" by (intro or_16_bits) (auto simp: ifd_sane_def)
  note sz = ifd_sane_size [OF d]
  have keep: "tifds t = ?ds" "shot_select (tg t) = ?shot" "take_ifd ?d t = take_ifd ?d s" using i(3) by simp_all
  show ?thesis
  proof (cases "ifd_counts ?d")
    case False
    then have "ti_comp ?d = 6" "ti_samples ?d = 3" by (simp_all add: ifd_counts_def)
    then show ?thesis using i largest_skip [OF False] keep by (simp add: pick_inv_def pick_step_def st Let_def)
  next
    case True
    then have c: "ti_comp ?d \<noteq> 6 \<or> ti_samples ?d \<noteq> 3" by (auto simp: ifd_counts_def)
    show ?thesis
    proof (cases "?ks = []")
      case empty: True
      then have "image_size t = 0" "0 < ifd_size t ?d" using i(3) zero sz by (simp_all add: image_size_def ifd_size_def Let_def)
      moreover have "largest ?ds (Suc n) = [n]" using empty largest_first True largest_ne by blast
      ultimately show ?thesis using c or keep empty i by (simp add: pick_inv_def pick_step_def st Let_def wanted_def)
    next
      case ne: False
      note w = wanted_in [OF ne shot]
      have k: "nat raw \<in> set ?ks" "nat raw < length ?ds" using w i(2) n largest_sub by fastforce+
      have r: "ifd_sane (?ds ! nat raw)" using sane k(2) by (simp add: list_all_length)
      have "tiff_bps (tg t) \<noteq> 0" using i(3) ne ifd_sane_bps [OF r] by (simp add: take_ifd_def)
      then have size: "image_size t = ifd_bits (?ds ! nat raw)" "ifd_size t ?d = ifd_bits ?d"
        using i(3) ne image_size_taken [OF r] sz by (simp_all add: ifd_size_def)
      note l = largest_Suc [OF True k(1)]
      consider "ifd_bits (?ds ! nat raw) < ifd_bits ?d" | "ifd_bits (?ds ! nat raw) = ifd_bits ?d" | "ifd_bits ?d < ifd_bits (?ds ! nat raw)" by linarith
      then show ?thesis
      proof cases
        case 1
        then show ?thesis using l c or keep size sz(2) by (simp add: pick_inv_def pick_step_def st Let_def wanted_def)
      next
        case 2
        then show ?thesis using l c or keep size sz(2) i ne wanted_snoc [OF ne shot, of n]
          by (simp add: pick_inv_def pick_step_def st Let_def)
      next
        case 3
        then show ?thesis using l c or keep size sz(2) i ne by (simp add: pick_inv_def pick_step_def st Let_def)
      qed
    qed
  qed
qed

lemma pick_inv_all:
  assumes "list_all ifd_sane (tifds s)" "raw_width (tg s) = 0" "0 \<le> shot_select (tg s)" "n \<le> length (tifds s)"
  shows "pick_inv s n (fold pick_step [0..<n] ((0, 0, -1), s))"
  using assms(4)
proof (induction n)
  case 0
  then show ?case by (simp add: pick_inv_def Let_def largest_def candidates_def wanted_def)
next
  case (Suc n)
  then show ?case using pick_inv_step [OF assms(1-3), of n] by simp
qed

text \<open>
  C35: Among the directories of a TIFF file (JPEG images of three samples apart) \<open>apply_tiff\<close> takes the
  \<open>shot_select\<close>-th of those with the most bits of image, in the order of the file, and the first of them
  when there are fewer; it counts them, which becomes the number of raw images, and takes over the sizes,
  the compression and the position of exactly that directory.
\<close>

theorem pick_raw_largest:
  assumes "list_all ifd_sane (tifds s)" "raw_width (tg s) = 0" "0 \<le> shot_select (tg s)"
  shows "case pick_raw s of ((max_samp, ties, raw), t) \<Rightarrow>
    let ks = largest (tifds s) (length (tifds s))
    in ties = int (length ks) \<and> raw = wanted (shot_select (tg s)) ks
       \<and> t = (if ks = [] then s else take_ifd (tifds s ! nat raw) s)"
  using pick_inv_all [OF assms order_refl] by (simp add: pick_raw_def pick_inv_def)

text \<open>A file with a JPEG preview and two raw images of the same size.\<close>

definition plain_ifd :: "int \<Rightarrow> int \<Rightarrow> int \<Rightarrow> int \<Rightarrow> int \<Rightarrow> int \<Rightarrow> tiff_ifd" where
  "plain_ifd w h bps cp samples off = \<lparr>ti_width = w, ti_height = h, ti_bps = bps, ti_comp = cp, ti_phint = 0, ti_offset = off,
     ti_flip = 0, ti_samples = samples, ti_bytes = 0, ti_tile_width = 0, ti_tile_length = 0, ti_shutter = 0\<rparr>"

definition two_shots :: "tiff_ifd list" where
  "two_shots = [plain_ifd 160 120 8 6 3 900, plain_ifd 400 300 12 1 1 9000, plain_ifd 400 300 12 1 1 189000]"

theorem pick_raw_largest_witness:
  "\<forall>s0 :: tiff_state. case pick_raw (s0\<lparr>tg := (tg s0)\<lparr>raw_width := 0, shot_select := 1\<rparr>, tifds := two_shots\<rparr>) of
     ((max_samp, ties, raw), t) \<Rightarrow> ties = 2 \<and> raw = 2 \<and> data_offset (tg t) = 189000"
proof
  fix s0 :: tiff_state
  let ?s = "s0\<lparr>tg := (tg s0)\<lparr>raw_width := 0, shot_select := 1\<rparr>, tifds := two_shots\<rparr>"
  have sane: "list_all ifd_sane two_shots" by (simp add: ifd_sane_def ifd_bits_def two_shots_def plain_ifd_def)
  have cand: "candidates two_shots 3 = [1, 2]" by (simp add: candidates_def upt_conv_Cons ifd_counts_def two_shots_def plain_ifd_def)
  have "largest two_shots 3 = [1, 2]" unfolding largest_def cand by (simp add: ifd_bits_def two_shots_def plain_ifd_def)
  moreover have "length two_shots = 3" "ti_offset (two_shots ! 2) = 189000" by (simp_all add: two_shots_def plain_ifd_def)
  ultimately show "case pick_raw ?s of ((max_samp, ties, raw), t) \<Rightarrow> ties = 2 \<and> raw = 2 \<and> data_offset (tg t) = 189000"
    using pick_raw_largest [of ?s] sane by (auto simp: Let_def wanted_def take_ifd_def split: prod.splits)
qed

end

