(* ===== verification/LjpegHeader.thy ===== *)
theory LjpegHeader
  imports Ljpeg
begin

text \<open>
  What a header that \<open>ljpeg_start\<close> accepts guarantees: every header without a fault has sizes in
  range and twenty well-formed tables, so that the rows can be decoded.
\<close>

lemma decoder_max_partial: "decoder_max src p n = Some m \<Longrightarrow> 0 \<le> m \<and> m \<le> int n"
  by (induction n) (auto split: bind_splits if_splits)

definition table_ok :: "int \<Rightarrow> int \<times> int \<times> u16 list \<Rightarrow> bool" where
  "table_ok mx = (\<lambda>(h, q, huff). 1 \<le> h \<and> huff \<noteq> [] \<and> uint (huff ! 0) = mx \<and> Suc (2 ^ nat mx) \<le> length huff)"

lemma wr_partial: "wr xs i v = Some ys \<Longrightarrow> 1 \<le> i \<Longrightarrow> xs \<noteq> [] \<Longrightarrow> ys \<noteq> [] \<and> length ys = length xs \<and> ys ! 0 = xs ! 0"
  by (auto simp: wr_def split: if_splits)

lemma put_code_partial:
  assumes "put_code src mx len st = Some st'" "table_ok m st"
  shows "table_ok m st'"
proof -
  obtain h q huff where st: "st = (h, q, huff)" by (cases st)
  from assms(1) obtain h' huff' where l:
    "for_up 0 (shl 1 (mx - len)) (\<lambda>j (h, huff).
        if h \<le> shl 1 mx then do {
          leaf \<leftarrow> rd src q;
          huff' \<leftarrow> wr huff h (shl len 8 OR leaf);
          Some (h + 1, huff') }
        else Some (h, huff)) (h, huff) = Some (h', huff')" and st': "st' = (h', q + 1, huff')"
    by (auto simp: put_code_def st split: bind_splits)
  have "table_ok m (fst (h', huff'), q, snd (h', huff'))"
    by (rule for_by_partial [OF l, where I = "\<lambda>x. table_ok m (fst x, q, snd x)"])
      (use assms(2) st in \<open>auto simp: table_ok_def dest!: wr_partial split: if_splits bind_splits\<close>)
  then show ?thesis by (simp add: st' table_ok_def)
qed

lemma make_decoder_ref_partial: "make_decoder_ref src p = Some (h, q) \<Longrightarrow> huff_ok h"
proof -
  assume "make_decoder_ref src p = Some (h, q)"
  then obtain mx hf st where mx: "decoder_max src p 16 = Some mx"
    and hf: "wr (zeros (1 + shl 1 mx)) 0 mx = Some hf" and st:
    "for_up 1 (mx + 1) (\<lambda>len st. do {
        count \<leftarrow> rd src (p + len - 1);
        for_up 0 count (\<lambda>i. put_code src mx len) st }) (1, p + 16, hf) = Some st"
    and h: "h = snd (snd st)"
    by (auto simp: make_decoder_ref_def split: bind_splits)
  have m: "0 \<le> mx" "mx \<le> 16" using decoder_max_partial [OF mx] by auto
  have hf0: "hf \<noteq> []" "hf ! 0 = word_of_int mx" "length hf = nat (1 + shl 1 mx)"
    using hf by (auto simp: wr_def inb_def shl_mult zeros_def split: if_splits)
  have "uint (hf ! 0) = mx" using m by (simp add: hf0(2) uint_u16)
  moreover have "Suc (2 ^ nat mx) \<le> length hf" by (simp add: hf0(3) shl_mult nat_add_distrib nat_power_eq)
  ultimately have "table_ok mx (1, p + 16, hf)" using hf0(1) by (simp add: table_ok_def)
  then have "table_ok mx st"
    by (rule for_by_partial [OF st])
      (auto split: bind_splits elim!: for_by_partial [where I = "table_ok mx"] dest: put_code_partial)
  then show ?thesis using m h by (cases st) (auto simp: table_ok_def huff_ok_def)
qed

text \<open>The invariant of the marker loop.\<close>

definition jh_part :: "jhead \<Rightarrow> bool" where
  "jh_part jh \<longleftrightarrow> 0 \<le> jh_clrs jh \<and> 0 \<le> jh_wide jh \<and> jh_wide jh < 65536
   \<and> 0 \<le> jh_high jh \<and> jh_high jh < 65536 \<and> 0 \<le> jh_sraw jh \<and> jh_sraw jh \<le> 3
   \<and> length (jh_vpred jh) = 6 \<and> length (jh_quant jh) = 64 \<and> length (jh_huff jh) = 20
   \<and> (\<forall>h \<in> set (jh_huff jh). \<forall>t. h = Some t \<longrightarrow> huff_ok t)"

lemma put_partial: "put xs i v = Some ys \<Longrightarrow> length ys = length xs \<and> set ys \<subseteq> insert v (set xs)"
  using set_update_subset_insert [of xs "nat i" v] by (auto simp: put_def split: if_splits)

lemma ljpeg_dht_partial:
  assumes "ljpeg_dht data len dp hs = Some hs'" "\<forall>h \<in> set hs. \<forall>t. h = Some t \<longrightarrow> huff_ok t"
  shows "length hs' = length hs \<and> (\<forall>h \<in> set hs'. \<forall>t. h = Some t \<longrightarrow> huff_ok t)"
  using assms
proof (induction data len dp hs rule: ljpeg_dht.induct)
  case (1 data len dp hs)
  show ?case
  proof (cases "dp < len")
    case False
    with 1 show ?thesis by (simp add: ljpeg_dht.simps [of data len dp])
  next
    case True
    from "1.prems"(1) obtain c where c: "rd data dp = Some c"
      by (auto simp: ljpeg_dht.simps [of data len dp] True split: bind_splits)
    show ?thesis
    proof (cases "c AND -20 \<noteq> 0")
      case True
      with "1.prems" c \<open>dp < len\<close> show ?thesis by (simp add: ljpeg_dht.simps [of data len dp])
    next
      case False
      with "1.prems"(1) c True obtain h q hs1 where
        *: "make_decoder_ref data (dp + 1) = Some (h, q)" "put hs c (Some h) = Some hs1"
          "ljpeg_dht data len q hs1 = Some hs'"
        by (auto simp: ljpeg_dht.simps [of data len dp] split: bind_splits option.splits)
      have "length hs' = length hs1 \<and> (\<forall>h \<in> set hs'. \<forall>t. h = Some t \<longrightarrow> huff_ok t)"
        by (rule "1.IH" [OF True c False *(1) refl *(2,3)])
          (use put_partial [OF *(2)] make_decoder_ref_partial [OF *(1)] "1.prems"(2) in auto)
      then show ?thesis using put_partial [OF *(2)] by simp
    qed
  qed
qed

lemma or_shl_8: "0 \<le> a \<Longrightarrow> a < 256 \<Longrightarrow> 0 \<le> b \<Longrightarrow> b < 256 \<Longrightarrow> shl a 8 OR b = a * 256 + b"
  using shl_or_add [of b 8 a] by (simp add: shl_mult)

lemma rd_u8: "rd (xs :: u8 list) i = Some v \<Longrightarrow> 0 \<le> v \<and> v < 256"
  using uint_lt2p [of "xs ! nat i"] by (auto simp: rd_def split: if_splits)

lemma ljpeg_sof_partial: "ljpeg_sof tag data jh = Some jh' \<Longrightarrow> jh_part jh \<Longrightarrow> jh_part jh'"
proof -
  assume a: "ljpeg_sof tag data jh = Some jh'" and p: "jh_part jh"
  have three: "0 \<le> x AND 3 \<and> x AND 3 \<le> 3" for x :: int
    using AND_upper2 [of 3 x] by (simp add: and_nonnegative_int_iff)
  show ?thesis using a p
    by (auto simp: ljpeg_sof_def Let_def jh_part_def or_shl_8 three dest!: rd_u8 split: bind_splits if_splits)
qed

lemma ljpeg_segment_partial:
  assumes "ljpeg_segment tag len info_only data jh = Some jh'" "jh_part jh"
  shows "jh_part jh'"
proof -
  have quant: "length q' = length q"
    if "for_up 0 64 (\<lambda>c q. do {
          a \<leftarrow> rd data (c * 2 + 1); b \<leftarrow> rd data (c * 2 + 2); wr q c (shl a 8 OR b) }) q = Some q'" for q q' :: "u16 list"
    by (rule for_by_partial [OF that, where I = "\<lambda>r. length r = length q"])
      (auto simp: wr_def split: bind_splits if_splits)
  show ?thesis using assms
    by (auto simp: ljpeg_segment_def split: if_splits bind_splits dest!: quant dest: ljpeg_sof_partial)
      (auto simp: jh_part_def dest!: ljpeg_dht_partial)
qed

lemma ljpeg_markers_partial:
  assumes "ljpeg_markers dngv info_only data jh io = Some ((b, jh'), io')" "jh_part jh"
  shows "jh_part jh'"
  using assms
proof (induction dngv info_only data jh io rule: ljpeg_markers.induct)
  case (1 dngv info_only data jh io)
  obtain hd4 io1 where f1: "fread 4 io = (hd4, io1)" by force
  define data1 where "data1 = overlay hd4 data"
  define tag where "tag = shl (uint (data1 ! 0)) 8 OR uint (data1 ! 1)"
  define len where "len = c_u16 ((shl (uint (data1 ! 2)) 8 OR uint (data1 ! 3)) - 2)"
  obtain seg io2 where f2: "fread len io1 = (seg, io2)" by force
  define data2 where "data2 = overlay seg data1"
  define io3 where "io3 = (if (tag = 0xffc3 \<or> tag = 0xffc1 \<or> tag = 0xffc0) \<and> len = 9 \<and> dngv = 0
    then snd (fgetc io2) else io2)"
  note defs = data1_def tag_def len_def data2_def io3_def
  have unf: "ljpeg_markers dngv info_only data jh io =
      (if length hd4 < 2 then Some ((False, jh), io1)
       else if tag \<le> 0xff00 then Some ((False, jh), io1)
       else case ljpeg_segment tag len info_only data2 jh of None \<Rightarrow> None
         | Some jh1 \<Rightarrow> if tag \<noteq> 0xffda then ljpeg_markers dngv info_only data2 jh1 io3
             else Some ((True, jh1), io3))"
    unfolding defs by (subst ljpeg_markers.simps) (simp only: Let_def f1 f2 [unfolded defs] split_conv)
  show ?case
  proof (cases "length hd4 < 2 \<or> tag \<le> 0xff00")
    case True
    with "1.prems" show ?thesis by (auto simp: unf split: if_splits)
  next
    case False
    with "1.prems"(1) obtain jh1 where s: "ljpeg_segment tag len info_only data2 jh = Some jh1"
      by (auto simp: unf split: option.splits)
    have p1: "jh_part jh1" by (rule ljpeg_segment_partial [OF s "1.prems"(2)])
    show ?thesis
    proof (cases "tag \<noteq> 0xffda")
      case True
      with "1.prems"(1) s False have m: "ljpeg_markers dngv info_only data2 jh1 io3 = Some ((b, jh'), io')"
        by (simp add: unf)
      show ?thesis
        by (rule "1.IH" [OF f1 [symmetric] _ data1_def tag_def len_def _ f2 [symmetric] data2_def
              io3_def s True m p1]) (use False in auto)
    next
      case tag: False
      with "1.prems"(1) s False p1 show ?thesis by (simp add: unf)
    qed
  qed
qed

text \<open>The tables that are missing are filled in, so that all twenty are there.\<close>

lemma fill_huffs_ok:
  assumes "fill_huffs sraw hs = Some hs'" "hs ! 0 \<noteq> None" "length hs = 20"
    "\<forall>h \<in> set hs. \<forall>t. h = Some t \<longrightarrow> huff_ok t" "0 \<le> sraw" "sraw \<le> 3"
  shows "length hs' = 20 \<and> (\<forall>h \<in> set hs'. \<exists>t. h = Some t \<and> huff_ok t)"
proof -
  define good :: "u16 list option list \<Rightarrow> bool" where
    "good hs \<longleftrightarrow> length hs = 20 \<and> (\<forall>h \<in> set hs. \<exists>t. h = Some t \<and> huff_ok t)" for hs
  define part :: "int \<Rightarrow> u16 list option list \<Rightarrow> bool" where
    "part c hs \<longleftrightarrow> length hs = 20 \<and> (\<forall>i < 20. \<forall>t. hs ! i = Some t \<longrightarrow> huff_ok t)
      \<and> (\<forall>i. int i \<le> c \<longrightarrow> hs ! i \<noteq> None)" for c hs
  have one: "ok (for_up 0 19 (\<lambda>c hs. do {
       x \<leftarrow> at hs (c + 1);
       if x = None then do { y \<leftarrow> at hs c; put hs (c + 1) y } else Some hs }) hs) good"
  proof (rule for_up_inv [where I = part])
    show "part 0 hs" using assms(2-4) by (auto simp: part_def) (metis nth_mem)
  next
    fix c and u :: "u16 list option list"
    assume c: "0 \<le> c" "c < 19" "part c u"
    then have "nat (c + 1) = Suc (nat c)" "int i \<le> c + 1 \<longleftrightarrow> int i \<le> c \<or> i = Suc (nat c)"
      "nat c < 20" for i by auto
    then show "ok (do { x \<leftarrow> at u (c + 1);
       if x = None then do { y \<leftarrow> at u c; put u (c + 1) y } else Some u }) (part (c + 1))"
      using c by (auto simp: part_def at_def put_def inb_def nth_list_update)
  next
    fix u assume "part 19 u"
    then have "\<exists>t. u ! i = Some t \<and> huff_ok t" if "i < 20" for i
      using that by (auto simp: part_def dest: spec [where x = i])
    with \<open>part 19 u\<close> show "good u" by (auto simp: good_def part_def in_set_conv_nth)
  qed auto
  have cp: "ok (do { y \<leftarrow> at u i; put u j y }) good" if "good u" "0 \<le> i" "i < 20" "0 \<le> j" "j < 20" for u i j
  proof -
    have l: "length u = 20" using that(1) unfolding good_def by (rule conjunct1)
    then have "u ! nat i \<in> set u" using that(2,3) by (intro nth_mem) simp
    then have "set (u[nat j := u ! nat i]) \<subseteq> set u" by (intro set_update_subsetI) auto
    then have "good (u[nat j := u ! nat i])"
      using that(1) unfolding good_def by (simp, blast)
    then show ?thesis using that(2-5) l by (simp add: at_def put_def inb_def)
  qed
  have "ok (fill_huffs sraw hs) good"
    unfolding fill_huffs_def
    apply (rule ok_bind, rule ok_mono [OF one])
    apply (rule ok_if)
     apply (rule ok_bind, rule for_by_wp [where I = good])
        apply (simp, assumption, rule cp, assumption, simp, simp, simp, simp)
     apply (rule for_by_wp [where I = good])
        apply (simp, assumption, rule cp)
             apply (use assms(5,6) in auto)
    done
  then show ?thesis using assms(1) by (simp add: good_def)
qed

lemma ljpeg_start_ok:
  assumes "ljpeg_start g False io = Some ((True, jh), io')"
  shows "jhead_ok jh"
proof -
  from assms obtain c io1 jh1 io2 hs where
    m: "ljpeg_markers (dng_version g) False (uninit g 0x10000) jhead_init io1 = Some ((True, jh1), io2)"
    and n: "\<not> (jh_bits jh1 > 16 \<or> jh_clrs jh1 > 6 \<or> jh_bits jh1 = 0 \<or> jh_high jh1 = 0
              \<or> jh_wide jh1 = 0 \<or> jh_clrs jh1 = 0)" "jh_huff jh1 ! 0 \<noteq> None"
    and f: "fill_huffs (jh_sraw jh1) (jh_huff jh1) = Some hs"
    and j: "jh = jh1\<lparr>jh_huff := hs, jh_row := zeros (2 * (jh_wide jh1 * jh_clrs jh1))\<rparr>"
    by (auto simp: ljpeg_start_def split: prod.splits if_splits bind_splits)
  have "jh_part jhead_init" by (simp add: jh_part_def jhead_init_def)
  then have p: "jh_part jh1" by (rule ljpeg_markers_partial [OF m])
  then show ?thesis
    using fill_huffs_ok [OF f n(2)] n(1) by (auto simp: jh_part_def jhead_ok_def j)
qed

section \<open>A header that is accepted\<close>

text \<open>A table is built from a prefix of the data.\<close>

definition prefixed :: "u8 list \<Rightarrow> u8 list \<Rightarrow> bool" where
  "prefixed xs ys \<longleftrightarrow> (\<forall>i v. rd xs i = Some v \<longrightarrow> rd ys i = Some v)"

lemma make_decoder_ref_prefix:
  assumes "prefixed xs ys" "make_decoder_ref xs p = Some r"
  shows "make_decoder_ref ys p = Some r"
proof -
  have rd: "rd xs i = Some v \<Longrightarrow> rd ys i = Some v" for i v using assms(1) by (simp add: prefixed_def)
  have mx: "decoder_max xs p n = Some m \<Longrightarrow> decoder_max ys p n = Some m" for n m
    by (induction n) (auto split: bind_splits if_splits dest: rd)
  have put: "put_code xs mx len st = Some st' \<Longrightarrow> put_code ys mx len st = Some st'" for mx len st st'
    unfolding put_code_def
    by (cases st) (auto elim!: bind_mono_some for_by_mono split: if_splits intro: rd)
  show ?thesis using assms(2) unfolding make_decoder_ref_def
    by (auto elim!: bind_mono_some for_by_mono intro: rd mx put)
qed

lemma prefixed_overlay: "prefixed xs (overlay xs ys)"
  by (auto simp: prefixed_def overlay_def rd_def inb_def nth_append nat_less_iff split: if_splits)

lemma one_code: "make_decoder_ref (overlay [0, 1, 0, 0, 0, 0, 0, 0, 0, 0, 0, 0, 0, 0, 0, 0, 0, 0] d) 1 = Some ([1, 256, 0], 18)"
  by (rule make_decoder_ref_prefix [OF prefixed_overlay]) code_simp

lemma one_table:
  "ljpeg_dht (overlay [0, 1, 0, 0, 0, 0, 0, 0, 0, 0, 0, 0, 0, 0, 0, 0, 0, 0] d) 18 0 hs
    = put hs 0 (Some [1, 256, 0])"
proof -
  have "rd (overlay [0, 1, 0, 0, 0, 0, 0, 0, 0, 0, 0, 0, 0, 0, 0, 0, 0, 0] d) 0 = Some 0"
    by (simp add: overlay_def rd_def inb_def)
  then show ?thesis by (cases "put hs 0 (Some [1, 256, 0 :: u16])") (simp_all add: ljpeg_dht.simps [of _ 18 0] ljpeg_dht.simps [of _ 18 18] one_code)
qed

lemma markers_step:
  assumes "fread 4 io = ([a, b, c, d], io1)" "shl (uint a) 8 OR uint b = tag" "0xff00 < tag"
    and "c_u16 ((shl (uint c) 8 OR uint d) - 2) = len" "fread len io1 = (seg, io2)"
    and "ljpeg_segment tag len i (overlay seg (overlay [a, b, c, d] data)) jh = Some jh'"
    and "io3 = (if (tag = 0xffc3 \<or> tag = 0xffc1 \<or> tag = 0xffc0) \<and> len = 9 \<and> v = 0 then snd (fgetc io2) else io2)"
  shows "ljpeg_markers v i data jh io = (if tag \<noteq> 0xffda
    then ljpeg_markers v i (overlay seg (overlay [a, b, c, d] data)) jh' io3 else Some ((True, jh'), io3))"
proof -
  have o: "overlay [a, b, c, d] data ! 0 = a" "overlay [a, b, c, d] data ! 1 = b"
    "overlay [a, b, c, d] data ! 2 = c" "overlay [a, b, c, d] data ! 3 = d" by (simp_all add: overlay_def numeral_eq_Suc)
  have t: "\<not> tag \<le> 0xff00" using assms(3) by simp
  show ?thesis using t
    by (subst ljpeg_markers.simps) (simp add: o assms(1-6) flip: assms(7) del: One_nat_def)
qed

text \<open>A small file: one table of one code, two rows of three pixels with two components.\<close>

definition tiny_jpeg :: "u8 list" where
  "tiny_jpeg = [0xff, 0xd8,
     0xff, 0xc4, 0, 20, 0, 1, 0, 0, 0, 0, 0, 0, 0, 0, 0, 0, 0, 0, 0, 0, 0, 0,
     0xff, 0xc3, 0, 14, 8, 0, 2, 0, 3, 2, 0, 0x11, 0, 1, 0x11, 0,
     0xff, 0xda, 0, 10, 2, 0, 0, 1, 0, 1, 0, 0]"

abbreviation at_pos :: "int \<Rightarrow> bitio" where
  "at_pos n \<equiv> open_file tiny_jpeg\<lparr>ipos := n\<rparr>"

lemma freads:
  "fread 4 (at_pos 2) = ([255, 196, 0, 20], at_pos 6)"
  "fread 18 (at_pos 6) = ([0, 1, 0, 0, 0, 0, 0, 0, 0, 0, 0, 0, 0, 0, 0, 0, 0, 0], at_pos 24)"
  "fread 4 (at_pos 24) = ([255, 195, 0, 14], at_pos 28)" "fread 12 (at_pos 28) = ([8, 0, 2, 0, 3, 2, 0, 17, 0, 1, 17, 0], at_pos 40)"
  "fread 4 (at_pos 40) = ([255, 218, 0, 10], at_pos 44)" "fread 8 (at_pos 44) = ([2, 0, 0, 1, 0, 1, 0, 0], at_pos 52)"
  by code_simp+

lemma tiny_markers: "ljpeg_markers 0 False d jhead_init (at_pos 2) = Some ((True, jhead_init\<lparr>jh_algo := 0xc3, jh_bits := 8, jh_high := 2, jh_wide := 3,
    jh_clrs := 2, jh_psv := 1, jh_huff := (replicate 20 None)[0 := Some [1, 256, 0]]\<rparr>), at_pos 52)"
proof -
  let ?j1 = "jhead_init\<lparr>jh_huff := (replicate 20 None)[0 := Some [1, 256, 0]]\<rparr>"
  let ?j2 = "?j1\<lparr>jh_algo := 0xc3, jh_bits := 8, jh_high := 2, jh_wide := 3, jh_clrs := 2\<rparr>"
  let ?j3 = "?j2\<lparr>jh_psv := 1\<rparr>"
  have seg1: "ljpeg_segment 0xffc4 18 False (overlay [0, 1, 0, 0, 0, 0, 0, 0, 0, 0, 0, 0, 0, 0, 0, 0, 0, 0] d) jhead_init = Some ?j1" for d
    by (simp add: ljpeg_segment_def one_table put_def inb_def jhead_init_def)
  have seg2: "ljpeg_segment 0xffc3 12 False (overlay [8, 0, 2, 0, 3, 2, 0, 17, 0, 1, 17, 0] d) ?j1 = Some ?j2" for d
    by (simp add: ljpeg_segment_def ljpeg_sof_def overlay_def rd_def inb_def shl_mult shr_def jhead_init_def)
  have seg3: "ljpeg_segment 0xffda 8 False (overlay [2, 0, 0, 1, 0, 1, 0, 0] d) ?j2 = Some ?j3" for d
    by (simp add: ljpeg_segment_def overlay_def rd_def inb_def jhead_init_def)
  have "ljpeg_markers 0 False d jhead_init (at_pos 2) = Some ((True, ?j3), at_pos 52)"
    apply (subst markers_step [OF freads(1), where tag = "0xffc4" and len = 18, OF _ _ _ freads(2) seg1 refl])
       apply (code_simp, simp, code_simp)
    apply simp?
    apply (subst markers_step [OF freads(3), where tag = "0xffc3" and len = 12, OF _ _ _ freads(4)  seg2 refl])
       apply (code_simp, simp, code_simp)
    apply simp?
    apply (subst markers_step [OF freads(5), where tag = "0xffda" and len = 8, OF _ _ _ freads(6) seg3 refl])
       apply (code_simp, simp, code_simp)
    apply simp
    done
  then show ?thesis by (simp add: jhead_init_def)
qed

lemma tiny_start: "\<exists>jh b. ljpeg_start (plain_geom 4 6) False (open_file tiny_jpeg) = Some ((True, jh), b) \<and> jh_restart jh = 0x7fffffff
  \<and> jh_high jh = 2 \<and> jh_wide jh = 3 \<and> jh_clrs jh = 2"
proof -
  have "fgetc (snd (fgetc (open_file tiny_jpeg))) = (0xd8, at_pos 2)" by code_simp
  moreover have "fill_huffs 0 ((replicate 20 None)[0 := Some [1, 256, 0]]) = Some (replicate 20 (Some [1, 256, 0]))" by code_simp
  moreover have "dng_version (plain_geom 4 6) = 0" by (simp add: plain_geom_def)
  moreover have "jh_sraw jhead_init = 0" "jh_restart jhead_init = 0x7fffffff" by (simp_all add: jhead_init_def)
  ultimately show ?thesis by (simp add: ljpeg_start_def tiny_markers del: replicate_Suc)
qed

end
