(* ===== verification/PhaseOne.thy ===== *)
theory PhaseOne
  imports LjpegHeader
begin

text \<open>
  The Phase One and Hasselblad formats, which read their bits 32 at a time through
  \<open>ph1_bithuff\<close>: the scrambled uncompressed format, the compressed one, the repair of single bad
  pixels, and the multi-shot lossless JPEG of Hasselblad.
\<close>

section \<open>Phase One\<close>

text \<open>The fields of the structure \<open>ph1\<close> that the loaders read.\<close>

record ph1_info =
  ph1_format :: int
  ph1_key_off :: int
  ph1_black :: int
  ph1_black_col :: int
  ph1_black_row :: int
  ph1_split_col :: int
  ph1_split_row :: int

text \<open>Two samples, each a mix of the bits of both, after the keys have been removed.\<close>

definition ph1_unmix :: "int \<Rightarrow> int \<Rightarrow> int \<Rightarrow> int \<Rightarrow> int \<Rightarrow> int \<times> int" where
  "ph1_unmix akey bkey msk x y =
     (let a = x XOR akey; b = y XOR bkey
      in ((a AND msk) OR (b AND NOT msk), (b AND msk) OR (a AND NOT msk)))"

definition phase_one_load_raw :: "geom \<Rightarrow> ph1_info \<Rightarrow> dst \<Rightarrow> dst option" where
  "phase_one_load_raw g ph s =
     (let s = upd_io (fseek_set (ph1_key_off ph)) s in
      case get_io get2 s of (akey, s) \<Rightarrow> case get_io get2 s of (bkey, s) \<Rightarrow>
        let msk = (if ph1_format ph = 1 then 0x5555 else 0x1354);
            s = upd_io (fseek_set (data_offset g)) s in do {
          (xs, s) \<leftarrow> with_io (read_shorts (raw_image s) 0 (raw_width g * raw_height g)) s;
          let s = s\<lparr>raw_image := xs\<rparr>;
          if ph1_format ph \<noteq> 0 then
            for_by 2 0 (raw_width g * raw_height g) (\<lambda>i s. do {
              x \<leftarrow> rd (raw_image s) i;
              y \<leftarrow> rd (raw_image s) (i + 1);
              let (u, v) = ph1_unmix akey bkey msk x y;
              xs \<leftarrow> wr (raw_image s) i u;
              xs \<leftarrow> wr xs (i + 1) v;
              Some (s\<lparr>raw_image := xs\<rparr>) }) s
          else Some s })"

definition ph1_length :: "int list" where
  "ph1_length = [8, 7, 6, 9, 11, 10, 5, 12, 14, 13]"

text \<open>\<open>for (j=0; j < 5 && !ph1_bits(1); j++);\<close> with the number of rounds still allowed.\<close>

fun ph1_unary :: "nat \<Rightarrow> int \<Rightarrow> bitio \<Rightarrow> (int \<times> bitio) option" where
  "ph1_unary 0 j b = Some (j, b)"
| "ph1_unary (Suc n) j b = do {
     (x, b) \<leftarrow> ph1_bits 1 b;
     if x = 0 then ph1_unary n (j + 1) b else Some (j, b) }"

text \<open>The code lengths of the next four samples of each colour.\<close>

definition ph1_lens :: "int list \<Rightarrow> bitio \<Rightarrow> (int list \<times> bitio) option" where
  "ph1_lens len b = for_up 0 2 (\<lambda>i (len, b). do {
     (j, b) \<leftarrow> ph1_unary 5 0 b;
     if j \<noteq> 0 then do {
       (x, b) \<leftarrow> ph1_bits 1 b;
       l \<leftarrow> at ph1_length ((j - 1) * 2 + x);
       len \<leftarrow> put len i l;
       Some (len, b) }
     else Some (len, b) }) (len, b)"

definition ph1_sample ::
    "geom \<Rightarrow> ph1_info \<Rightarrow> int \<Rightarrow> int list \<times> int list \<times> u16 list \<times> dst \<Rightarrow> (int list \<times> int list \<times> u16 list \<times> dst) option" where
  "ph1_sample g ph col = (\<lambda>(len, pred, pixel, s). do {
     (len, s) \<leftarrow>
       (if col \<ge> raw_width g AND -8 then Some ([14, 14], s)
        else if col AND 7 = 0 then with_io (ph1_lens len) s
        else Some (len, s));
     i \<leftarrow> at len (col AND 1);
     p \<leftarrow> at pred (col AND 1);
     (v, s) \<leftarrow>
       (if i = 14 then with_io (ph1_bits 16) s
        else do {
          (x, s) \<leftarrow> with_io (ph1_bits i) s;
          Some (c_s32 (p + (x + 1 - shl_i 1 (i - 1))), s) });
     pred \<leftarrow> put pred (col AND 1) v;
     pixel \<leftarrow> wr pixel col v;
     let s = derror_if (shr v 16 \<noteq> 0) s;
     x \<leftarrow> rd pixel col;
     pixel \<leftarrow> (if ph1_format ph = 5 \<and> x < 256 then do { y \<leftarrow> rd (curve s) x; wr pixel col y } else Some pixel);
     Some (len, pred, pixel, s) })"

definition ph1_store ::
    "geom \<Rightarrow> ph1_info \<Rightarrow> u16 list \<Rightarrow> u16 list \<Rightarrow> int \<Rightarrow> u16 list \<Rightarrow> int \<Rightarrow> dst \<Rightarrow> dst option" where
  "ph1_store g ph cbl rbl row pixel col s = do {
     x \<leftarrow> rd pixel col;
     c \<leftarrow> rds cbl (2 * row + of_bool (col \<ge> ph1_split_col ph));
     r \<leftarrow> rds rbl (2 * col + of_bool (row \<ge> ph1_split_row ph));
     let i = shl x (2 * of_bool (ph1_format ph \<noteq> 8)) - ph1_black ph + c + r;
     if i > 0 then set_RAW g row col i s else Some s }"

text \<open>
  The curve of the small values: \<open>i*i / 3.969 + 0.5\<close> truncated. No square of a number below 256
  lies close enough to a tie for the rounding of the double division to matter.
\<close>

definition ph1_square :: "int \<Rightarrow> int" where
  "ph1_square i = (2000 * (i * i) + 3969) div 7938"

text \<open>
  \<open>phase_one_load_raw_c\<close>. The one allocation that holds the row, the offsets and the two tables of
  black levels is modelled as the four arrays it is divided into.
\<close>

definition phase_one_load_raw_c :: "geom \<Rightarrow> ph1_info \<Rightarrow> dst \<Rightarrow> dst option" where
  "phase_one_load_raw_c g ph s = do {
     let s = upd_io (fseek_set (strip_offset g)) s;
     (offset, s) \<leftarrow> for_up 0 (raw_height g) (\<lambda>row (offset, s).
       case get_io get4 s of (x, s) \<Rightarrow> do { offset \<leftarrow> put offset row (c_s32 x); Some (offset, s) })
       (zeros (raw_height g) :: int list, s);
     let s = upd_io (fseek_set (ph1_black_col ph)) s;
     (cbl, s) \<leftarrow> (if ph1_black_col ph \<noteq> 0
       then with_io (read_shorts (zeros (2 * raw_height g)) 0 (raw_height g * 2)) s
       else Some (zeros (2 * raw_height g), s));
     let s = upd_io (fseek_set (ph1_black_row ph)) s;
     (rbl, s) \<leftarrow> (if ph1_black_row ph \<noteq> 0
       then with_io (read_shorts (zeros (2 * raw_width g)) 0 (raw_width g * 2)) s
       else Some (zeros (2 * raw_width g), s));
     s \<leftarrow> for_up 0 256 (\<lambda>i s. do {
       c \<leftarrow> wr (curve s) i (ph1_square i); Some (s\<lparr>curve := c\<rparr>) }) s;
     (len, pixel, s) \<leftarrow> for_up 0 (raw_height g) (\<lambda>row (len, pixel, s). do {
       off \<leftarrow> at offset row;
       let s = upd_io (fseek_set (data_offset g + off)) s;
       (z, s) \<leftarrow> with_io (ph1_bits (-1)) s;
       (len, pred, pixel, s) \<leftarrow> for_up 0 (raw_width g) (ph1_sample g ph) (len, [0, 0], pixel, s);
       s \<leftarrow> for_up 0 (raw_width g) (ph1_store g ph cbl rbl row pixel) s;
       Some (len, pixel, s) }) ([junk g 0, junk g 1], zeros (raw_width g), s);
     Some (s\<lparr>maximum := c_u32 (0xfffc - ph1_black ph)\<rparr>) }"

text \<open>
  The repair of a bad pixel in \<open>phase_one_correct\<close> (defect type 129): the mean of eight neighbours
  of the same colour, from one of two overlapping parts of the list of directions.
\<close>

definition ph1_dir :: "(int \<times> int) list" where
  "ph1_dir =
   [(-1,-1), (-1,1), (1,-1), (1,1), (-2,0), (0,-2), (0,2), (2,0),
    (-2,-2), (-2,2), (2,-2), (2,2)]"

definition ph1_bad_pixel :: "geom \<Rightarrow> int \<Rightarrow> int \<Rightarrow> dst \<Rightarrow> dst option" where
  "ph1_bad_pixel g row col s =
     (if col \<ge> raw_width g \<or> row \<ge> raw_height g then Some s
      else do {
        let j = (if FC (filters s) (row - top_margin g) (col - left_margin g) \<noteq> 1 then 4 else 0);
        sm \<leftarrow> for_up j (j + 8) (\<lambda>i sm. do {
          (dr, dc) \<leftarrow> at ph1_dir i;
          v \<leftarrow> raw_clip g s (row + dr) (col + dc);
          Some (sm + v) }) 0;
        set_RAW g row col (shr (sm + 4) 3) s })"

section \<open>Hasselblad\<close>

text \<open>
  The buffer \<open>back\<close> holds three rows of predictions; \<open>back[0..2]\<close> are the offsets of the rows, and
  the assignment \<open>FORC4 back[(c+3) & 3] = back[c]\<close> moves each of them one place on.
\<close>

definition rotate3 :: "int \<times> int \<times> int \<Rightarrow> int \<times> int \<times> int" where
  "rotate3 = (\<lambda>(b0, b1, b2). (b1, b2, b0))"

definition hasselblad_diffs ::
    "int \<Rightarrow> u16 list \<Rightarrow> int list \<times> bitio \<Rightarrow> (int list \<times> bitio) option" where
  "hasselblad_diffs samples huff = (\<lambda>(diff, b).
     for_by 2 0 (samples * 2) (\<lambda>s (diff, b). do {
       (l0, b) \<leftarrow> ph1_huff huff b;
       (l1, b) \<leftarrow> ph1_huff huff b;
       (d0, b) \<leftarrow> ph1_bits l0 b;
       let d0 = sign_diff (c_s32 d0) l0;
       diff \<leftarrow> put diff s (if d0 = 65535 then -32768 else d0);
       (d1, b) \<leftarrow> ph1_bits l1 b;
       let d1 = sign_diff (c_s32 d1) l1;
       diff \<leftarrow> put diff (s + 1) (if d1 = 65535 then -32768 else d1);
       Some (diff, b) }) (diff, b))"

text \<open>One component of a sample: \<open>RAW\<close> for the chosen shot, and a cell of \<open>image\<close>.\<close>

definition hasselblad_put ::
    "geom \<Rightarrow> int \<Rightarrow> int \<Rightarrow> int \<Rightarrow> int \<Rightarrow> int \<Rightarrow> int \<Rightarrow> int \<Rightarrow> dst \<Rightarrow> dst option" where
  "hasselblad_put g shot row col x f c upix s = do {
     s \<leftarrow> (if raw_image s \<noteq> [] \<and> c = shot then set_RAW g row x upix s else Some s);
     if img s \<noteq> [] then do {
       let urow = c_u32 (row - top_margin g + (c AND 1));
       let ucol = c_u32 (col - left_margin g - (shr c 1 AND 1));
       if urow < height g \<and> ucol < width g then do {
         let i = urow * width g + ucol;
         if c < 4 then set_IMG i f upix s
         else do { v \<leftarrow> IMG s i f; set_IMG i f (shr (v + upix) 1) s } }
       else Some s }
     else Some s }"

definition hasselblad_sample ::
    "geom \<Rightarrow> int \<Rightarrow> int \<Rightarrow> int \<Rightarrow> int \<times> int \<times> int \<Rightarrow> int list \<Rightarrow> int \<Rightarrow> int \<Rightarrow> int \<Rightarrow> int list \<times> dst \<Rightarrow> (int list \<times> dst) option" where
  "hasselblad_sample g psv sh shot = (\<lambda>(b0, b1, b2) diff row col x (back, s). do {
     pred \<leftarrow> (if col \<noteq> 0 then at back (b2 + x - 2) else Some (c_s32 (0x8000 + load_flags g)));
     pred \<leftarrow>
       (if col \<noteq> 0 \<and> row > 1 \<and> psv = 11 then do {
          a \<leftarrow> at back (b0 + x);
          b \<leftarrow> at back (b0 + x - 2);
          Some (c_s32 (pred + (a sdiv 2 - b sdiv 2))) }
        else Some pred);
     let f = ((row AND 1) * 3) XOR ((col + x) AND 1);
     (pred, s) \<leftarrow> for_up 0 (tiff_samples g) (\<lambda>c (pred, s). do {
       d \<leftarrow> at diff ((x AND 1) * tiff_samples g + c);
       let pred = c_s32 (pred + d);
       s \<leftarrow> hasselblad_put g shot row col x f c (shr pred sh AND 0xffff) s;
       Some (pred, s) }) (pred, s);
     back \<leftarrow> put back (b2 + x) pred;
     Some (back, s) })"

definition hasselblad_load_raw :: "geom \<Rightarrow> dst \<Rightarrow> dst option" where
  "hasselblad_load_raw g s = do {
     ((found, jh), s) \<leftarrow> with_io (ljpeg_start g False) s;
     if \<not> found then Some s
     else do {
       let s = upd_io (\<lambda>b. b\<lparr>byte_order := 0x4949\<rparr>) s;
       (z, s) \<leftarrow> with_io (ph1_bits (-1)) s;
       let sh = (if tiff_samples g > 1 then 1 else 0);
       k \<leftarrow> rd (cblack s) 6;
       cb \<leftarrow> wr (cblack s) 6 (shr k sh);
       let s = s\<lparr>cblack := cb\<rparr>;
       let shot = LIM_c (shot_select g) 1 (tiff_samples g) - 1;
       h \<leftarrow> at (jh_huff jh) 0;
       huff \<leftarrow> h;
       (bs, diff, back, s) \<leftarrow> for_up 0 (raw_height g) (\<lambda>row (bs, diff, back, s). do {
         let bs = rotate3 bs;
         (diff, back, s) \<leftarrow> for_by 2 0 (raw_width g) (\<lambda>col (diff, back, s). do {
           (diff, s) \<leftarrow> with_io (\<lambda>b. hasselblad_diffs (tiff_samples g) huff (diff, b)) s;
           (back, s) \<leftarrow> for_up col (col + 2) (hasselblad_sample g (jh_psv jh) sh shot bs diff row col) (back, s);
           Some (diff, back, s) }) (diff, back, s);
         Some (bs, diff, back, s) })
         ((0, raw_width g, 2 * raw_width g), map (\<lambda>i. c_s32 (junk g i)) [0..<12], zeros (3 * raw_width g), s);
       Some (if img s \<noteq> [] then s\<lparr>mix_green := 1\<rparr> else s) } }"

text \<open>
  \<open>phase_one_load_raw\<close> undoes the scrambling of the uncompressed format: two samples whose bits were
  exchanged where the mask has zeros and then combined with the two keys come out as they were.
\<close>

theorem ph1_unmix_inverse:
  "ph1_unmix akey bkey msk (((u AND msk) OR (v AND NOT msk)) XOR akey) (((v AND msk) OR (u AND NOT msk)) XOR bkey) = (u, v)"
proof -
  have "((u AND msk) OR (v AND NOT msk)) XOR akey XOR akey = (u AND msk) OR (v AND NOT msk)"
    "((v AND msk) OR (u AND NOT msk)) XOR bkey XOR bkey = (v AND msk) OR (u AND NOT msk)"
    by (simp_all add: xor.assoc)
  then show ?thesis unfolding ph1_unmix_def Let_def by (auto intro!: bit_eqI simp: bit_simps)
qed

end
