(* ===== verification/Metadata.thy ===== *)
theory Metadata
  imports TiffApply PhaseOne
begin

text \<open>
  Parsers that fill the globals of the loaders: the state they share, the directory entries of TIFF,
  the thumbnail notes, the tables of CRW and Kodak files and the header of Phase One files.

  Values of type \<open>float\<close> and \<open>double\<close> are only stored by this code; the model keeps the expression that
  the code evaluates (\<open>real_c\<close>).
\<close>

section \<open>State\<close>

datatype real_c = Of_int int | Float_bits int | Double_bytes "int list" | Decimal string
  | Quotient real_c real_c | Product real_c real_c | Sum real_c real_c | Negative real_c | Pow real_c real_c | Log real_c | Exp real_c | Sqrt real_c | Cos real_c

abbreviation Pow2 :: "real_c \<Rightarrow> real_c" where
  "Pow2 \<equiv> Pow (Of_int 2)"

text \<open>
  What the code asks of such a number is left to the arithmetic of the machine: whether it differs from
  zero, the order of two numbers, its value as a \<open>float\<close> (the bits) and as an \<open>int\<close>. So are the scan of
  a number by \<open>%f\<close> (the number and how many characters it takes) and \<open>mktime\<close>, which depends on the time
  zone (year, month, day, hour, minute, second).
\<close>

record fp_ops =
  fp_nonzero :: "real_c \<Rightarrow> bool"
  fp_less :: "real_c \<Rightarrow> real_c \<Rightarrow> bool"
  fp_float :: "real_c \<Rightarrow> u32"
  fp_int :: "real_c \<Rightarrow> int"
  fp_scan :: "string \<Rightarrow> (real_c \<times> nat) option"
  fp_mktime :: "int list \<Rightarrow> int"

text \<open>
  \<open>ifd_arr\<close> is the array \<open>tiff_ifd\<close> of the parsers. How many of its entries are in use, \<open>tiff_nifds\<close>, is
  kept beside this record by the parsers that change it. Matrices such as \<open>xyz_rgb\<close> hold their rows one
  after the other. The fields \<open>crx_*\<close> are the static variables of \<open>parse_crx\<close>, \<open>if_name\<close> is the name of the
  input file.
\<close>

record meta = tiff_state +
  ph1 :: ph1_info
  ph1_tag_210 :: real_c
  ph1_tag_21a :: int
  mflip :: int
  cam_mul :: "real_c list"
  mshutter :: real_c
  timestamp :: int
  meta_length :: int
  make_arr :: "u8 list"
  model_arr :: "u8 list"
  model2_arr :: "u8 list"
  artist :: "u8 list"
  desc :: "u8 list"
  cdesc :: "u8 list"
  white :: "u16 list"
  iso_speed :: real_c
  aperture :: real_c
  focal_len :: real_c
  flash_used :: real_c
  canon_ev :: real_c
  pixel_aspect :: real_c
  shot_order :: int
  is_foveon :: int
  exif_cfa :: int
  profile_offset :: int
  profile_length :: int
  gpsdata :: "u32 list"
  cmatrix :: "real_c list"
  rgb_cam :: "real_c list"
  pre_mul :: "real_c list"
  xyz_rgb :: "real_c list"
  mask_arr :: "int list"
  use_camera_wb :: int
  ifd_arr :: "tiff_ifd list"
  zero_is_bad :: int
  use_camera_matrix :: int
  half_size :: int
  if_name :: string
  crx_index :: int
  crx_wide :: int
  crx_high :: int
  crx_off :: int
  crx_len :: int

definition io_of :: "meta \<Rightarrow> bitio" where
  "io_of s = dio (td s)"

definition set_io :: "bitio \<Rightarrow> meta \<Rightarrow> meta" where
  "set_io b s = s\<lparr>td := (td s)\<lparr>dio := b\<rparr>\<rparr>"

definition rd_io :: "(bitio \<Rightarrow> 'a \<times> bitio) \<Rightarrow> meta \<Rightarrow> 'a \<times> meta" where
  "rd_io f s = (case f (io_of s) of (x, b) \<Rightarrow> (x, set_io b s))"

definition on_io :: "(bitio \<Rightarrow> bitio) \<Rightarrow> meta \<Rightarrow> meta" where
  "on_io f s = set_io (f (io_of s)) s"

definition on_g :: "(geom \<Rightarrow> geom) \<Rightarrow> meta \<Rightarrow> meta" where
  "on_g f s = s\<lparr>tg := f (tg s)\<rparr>"

definition on_d :: "(dst \<Rightarrow> dst) \<Rightarrow> meta \<Rightarrow> meta" where
  "on_d f s = s\<lparr>td := f (td s)\<rparr>"

abbreviation set_order :: "int \<Rightarrow> meta \<Rightarrow> meta" where
  "set_order x \<equiv> on_io (byte_order_update (\<lambda>_. x))"

text \<open>The string an array of characters holds; the model and the make are kept in both forms.\<close>

definition c_str :: "u8 list \<Rightarrow> string" where
  "c_str bs = map (\<lambda>w. char_of (unat w)) (takeWhile (\<lambda>w. w \<noteq> 0) bs)"

definition set_model :: "u8 list \<Rightarrow> meta \<Rightarrow> meta" where
  "set_model arr s = on_g (cam_model_update (\<lambda>_. c_str arr)) (s\<lparr>model_arr := arr\<rparr>)"

definition set_make :: "u8 list \<Rightarrow> meta \<Rightarrow> meta" where
  "set_make arr s = on_g (cam_make_update (\<lambda>_. c_str arr)) (s\<lparr>make_arr := arr\<rparr>)"

definition set_model2 :: "u8 list \<Rightarrow> meta \<Rightarrow> meta" where
  "set_model2 arr s = on_g (cam_model2_update (\<lambda>_. c_str arr)) (s\<lparr>model2_arr := arr\<rparr>)"

definition bytes_of :: "string \<Rightarrow> u8 list" where
  "bytes_of cs = map (\<lambda>c. word_of_nat (of_char c)) cs"

text \<open>\<open>strcpy\<close> into an array: the characters and a zero, the cells behind stay.\<close>

definition strcpy :: "string \<Rightarrow> u8 list \<Rightarrow> u8 list" where
  "strcpy cs arr = (let bs = bytes_of cs @ [0] in bs @ drop (length bs) arr)"

text \<open>\<open>fread (array, n, 1, ifp)\<close>: as many bytes as the file still has replace the first cells.\<close>

definition overlay_bytes :: "u8 list \<Rightarrow> u8 list \<Rightarrow> u8 list" where
  "overlay_bytes bs arr = bs @ drop (length bs) arr"

text \<open>
  \<open>fgets\<close> reads up to \<open>n - 1\<close> bytes, not beyond a newline, and ends them with a zero; at the end of the
  file it leaves the array alone. \<open>None\<close> where the array is too small.
\<close>

definition line_len :: "u8 list \<Rightarrow> nat" where
  "line_len bs = (let k = length (takeWhile (\<lambda>b. b \<noteq> 10) bs) in if k < length bs then k + 1 else k)"

definition fgets :: "u8 list \<Rightarrow> int \<Rightarrow> bitio \<Rightarrow> (u8 list \<times> bitio) option" where
  "fgets arr n io =
     (let bs = take (nat (n - 1)) (drop (nat (ipos io)) (ifile io)); k = line_len bs; bs = take k bs
      in if int (length arr) < n then None
         else if n \<le> 0 \<or> (bs = [] \<and> 1 < n) then Some (arr, io)
         else Some (overlay_bytes (bs @ [0]) arr, io\<lparr>ipos := ipos io + int k\<rparr>))"

section \<open>Numbers\<close>

text \<open>\<open>getreal\<close>: the order of evaluation of numerator and denominator is that of the statements.\<close>

definition getreal :: "int \<Rightarrow> bitio \<Rightarrow> real_c \<times> bitio" where
  "getreal type io =
     (if type = 3 then case get2 io of (x, io) \<Rightarrow> (Of_int x, io)
      else if type = 4 then case get4 io of (x, io) \<Rightarrow> (Of_int x, io)
      else if type = 5 then case get4 io of (x, io) \<Rightarrow> case get4 io of (y, io) \<Rightarrow> (Quotient (Of_int x) (Of_int y), io)
      else if type = 8 then case get2 io of (x, io) \<Rightarrow> (Of_int (c_s16 x), io)
      else if type = 9 then case get4 io of (x, io) \<Rightarrow> (Of_int (c_s32 x), io)
      else if type = 10 then case get4 io of (x, io) \<Rightarrow> case get4 io of (y, io) \<Rightarrow>
        (Quotient (Of_int (c_s32 x)) (Of_int (c_s32 y)), io)
      else if type = 11 then case get4 io of (x, io) \<Rightarrow> (Float_bits x, io)
      else if type = 12 then
        (let step = (\<lambda>(cs, io). case fgetc io of (c, io) \<Rightarrow> (cs @ [c_u8 c], io));
             (cs, io') = (step ^^ 8) ([], io);
             same = ((byte_order io = 0x4949) = (\<not> big_host io))
         in (Double_bytes (if same then cs else rev cs), io'))
      else case fgetc io of (x, io) \<Rightarrow> (Of_int x, io))"

section \<open>Ranges of what is read\<close>

lemma uint_8_bounds: "0 \<le> uint w" "uint w < 256" for w :: u8
  using uint_lt2p [of w] by simp_all

lemma sget2_range: "0 \<le> sget2 e (uint a) (uint b) \<and> sget2 e (uint a) (uint b) < 65536" for a b :: u8
  using uint_8_bounds [of a] uint_8_bounds [of b] OR_upper [of "uint a" 16 "shl (uint b) 8"] OR_upper [of "shl (uint a) 8" 16 "uint b"]
  by (auto simp: sget2_def shl_mult)

lemma sget4_range: "0 \<le> sget4 e (uint a) (uint b) (uint c) (uint d) \<and> sget4 e (uint a) (uint b) (uint c) (uint d) < 2 ^ 32" for a b c d :: u8
proof -
  have or: "0 \<le> x OR y \<and> x OR y < 2 ^ 32" if "0 \<le> x \<and> x < 2 ^ 32" "0 \<le> y \<and> y < 2 ^ 32" for x y :: int
    using that OR_upper [of x 32 y] by auto
  have or4: "0 \<le> x OR y OR z OR u \<and> x OR y OR z OR u < 2 ^ 32"
    if "0 \<le> x \<and> x < 2 ^ 32" "0 \<le> y \<and> y < 2 ^ 32" "0 \<le> z \<and> z < 2 ^ 32" "0 \<le> u \<and> u < 2 ^ 32" for x y z u :: int
    using or [OF that(1) or [OF that(2) or [OF that(3,4)]]] .
  have s: "0 \<le> uint w \<and> uint w < 2 ^ 32" "0 \<le> shl (uint w) 8 \<and> shl (uint w) 8 < 2 ^ 32"
    "0 \<le> shl (uint w) 16 \<and> shl (uint w) 16 < 2 ^ 32" "0 \<le> shl (uint w) 24 \<and> shl (uint w) 24 < 2 ^ 32" for w :: u8
    using uint_8_bounds [of w] by (auto simp: shl_mult)
  show ?thesis
    unfolding sget4_def using or4 [OF s(1) s(2) s(3) s(4)] or4 [OF s(4) s(3) s(2) s(1)] by simp
qed

lemma get2_range: "get2 io = (x, b) \<Longrightarrow> 0 \<le> x \<and> x < 65536"
  using sget2_range by (auto simp: get2_def Let_def split: prod.splits)

lemma get4_range: "get4 io = (x, b) \<Longrightarrow> 0 \<le> x \<and> x < 2 ^ 32"
  using sget4_range by (auto simp: get4_def Let_def split: prod.splits)

lemma fgetc_range: "fgetc io = (x, b) \<Longrightarrow> -1 \<le> x \<and> x < 256"
  using uint_8_bounds by (auto simp: fgetc_def order_trans [of "-1" 0] split: if_splits)

section \<open>TIFF entries\<close>

text \<open>\<open>tiff_get\<close> reads an entry and moves to its data: tag, type, length and where the next entry begins.\<close>

definition tiff_type_size :: "int list" where
  "tiff_type_size = [1, 1, 1, 2, 4, 8, 1, 1, 2, 4, 8, 4, 8, 4]"

definition tiff_get :: "int \<Rightarrow> bitio \<Rightarrow> (int \<times> int \<times> int \<times> int) \<times> bitio" where
  "tiff_get base io =
     (let (tag, io) = get2 io; (type, io) = get2 io; (len, io) = get4 io;
          save = c_u32 (ipos io + 4);
          k = tiff_type_size ! nat (if type < 14 then type else 0)
      in if c_u32 (len * k) > 4
         then case get4 io of (off, io) \<Rightarrow> ((tag, type, len, save), fseek_set (c_u32 (off + base)) io)
         else ((tag, type, len, save), io))"

definition thumb_note_step :: "int \<Rightarrow> int \<Rightarrow> int \<Rightarrow> meta \<Rightarrow> meta" where
  "thumb_note_step base toff tlen s =
     (let ((tag, _, _, save), s) = rd_io (tiff_get base) s;
          s = (if tag = toff then case rd_io get4 s of (x, s) \<Rightarrow> s\<lparr>thumb_offset := c_u32 (x + base)\<rparr> else s);
          s = (if tag = tlen then case rd_io get4 s of (x, s) \<Rightarrow> s\<lparr>thumb_length := x\<rparr> else s)
      in on_io (fseek_set save) s)"

definition parse_thumb_note :: "int \<Rightarrow> int \<Rightarrow> int \<Rightarrow> meta \<Rightarrow> meta" where
  "parse_thumb_note base toff tlen s =
     (case rd_io get2 s of (entries, s) \<Rightarrow> (thumb_note_step base toff tlen ^^ nat entries) s)"

section \<open>Kodak: a linearisation table\<close>

definition linear_table :: "int \<Rightarrow> meta \<Rightarrow> meta option" where
  "linear_table len s = do {
     let len = (if len > 0x1000 then 0x1000 else len);
     (cv, b) \<leftarrow> read_shorts (curve (td s)) 0 len (io_of s);
     cv \<leftarrow> for_up len 0x1000 (\<lambda>i cv. do { x \<leftarrow> rd cv (i - 1); wr cv i x }) cv;
     m \<leftarrow> rd cv 0xfff;
     Some (on_d (\<lambda>t. t\<lparr>curve := cv, maximum := m\<rparr>) (set_io b s)) }"

section \<open>CRW: the white samples\<close>

text \<open>One sample of the 64: the bit buffer is an \<open>unsigned long\<close>.\<close>

definition ciff_key :: "int \<Rightarrow> int" where
  "ciff_key i = (if i AND 1 = 0 then 0x410 else 0x45f3)"

definition white_step :: "int \<Rightarrow> int \<Rightarrow> (u64 \<times> int \<times> int) \<times> meta \<Rightarrow> ((u64 \<times> int \<times> int) \<times> meta) option" where
  "white_step bpp k = (\<lambda>((bits, vb, i), s). do {
     let ((bits, vb, i), s) =
       (if vb < bpp then case rd_io get2 s of (x, s) \<Rightarrow>
          ((push_bit 16 bits OR word_of_int (x XOR ciff_key i), vb + 16, i + 1), s)
        else ((bits, vb, i), s));
     let vb = vb - bpp;
     w \<leftarrow> wr (white s) k (uint (shr64 bits vb) AND (2 ^ nat bpp - 1));
     Some ((bits, vb, i), s\<lparr>white := w\<rparr>) })"

definition ciff_block_1030 :: "meta \<Rightarrow> meta option" where
  "ciff_block_1030 s =
     (let (_, s) = rd_io get2 s; (magic, s) = rd_io get4 s
      in if magic \<noteq> 0x80008 then Some s
         else let (x, s) = rd_io get4 s
           in if x = 0 then Some s
              else let (bpp, s) = rd_io get2 s
                in if bpp \<noteq> 10 \<and> bpp \<noteq> 12 then Some s
                   else do { (_, s) \<leftarrow> for_up 0 64 (white_step bpp) ((0, 0, 0), s); Some s })"

section \<open>ROMM\<close>

text \<open>The product with the matrix \<open>rgb_romm\<close>; \<open>cmatrix\<close> has rows of four.\<close>

definition rgb_romm :: "string list list" where
  "rgb_romm = [[''2.034193'', ''-0.727420'', ''-0.306766''], [''-0.228811'', ''1.231729'', ''-0.002922''],
     [''-0.008565'', ''-0.153273'', ''1.161839'']]"

definition romm_coeff :: "real_c list \<Rightarrow> meta \<Rightarrow> meta" where
  "romm_coeff cam s =
     s\<lparr>cmatrix := fold (\<lambda>(i, j) cm. cm[4 * i + j := fold (\<lambda>k a. Sum a (Product (Decimal (rgb_romm ! i ! k)) (cam ! (3 * k + j))))
        [0..<3] (Of_int 0)]) (List.product [0..<3] [0..<3]) (cmatrix s)\<rparr>"

section \<open>Phase One\<close>

definition ph1_zero :: ph1_info where
  "ph1_zero = \<lparr>ph1_format = 0, ph1_key_off = 0, ph1_black = 0, ph1_black_col = 0, ph1_black_row = 0,
     ph1_split_col = 0, ph1_split_row = 0\<rparr>"

definition ph1_flip :: "int list" where
  "ph1_flip = [0, 6, 5, 3]"

definition getreals :: "nat \<Rightarrow> meta \<Rightarrow> real_c list \<times> meta" where
  "getreals n s = ((\<lambda>(xs, s). case rd_io (getreal 11) s of (x, s) \<Rightarrow> (xs @ [x], s)) ^^ n) ([], s)"

fun cut_at :: "string \<Rightarrow> string \<Rightarrow> nat \<Rightarrow> nat option" where
  "cut_at lit [] k = (if lit = [] then Some k else None)"
| "cut_at lit (c # cs) k = (if strncmp_eq (c # cs) lit then Some k else cut_at lit cs (k + 1))"

definition ph1_model :: "meta \<Rightarrow> meta" where
  "ph1_model s =
     (let arr = (model_arr s)[63 := 0]; (bs, s) = rd_io (fread 63) s; arr = bs @ drop (length bs) arr;
          arr = (case cut_at '' camera'' (c_str arr) 0 of None \<Rightarrow> arr | Some k \<Rightarrow> arr[k := 0])
      in set_model arr s)"

definition ph1_tag :: "int \<Rightarrow> int \<Rightarrow> int \<Rightarrow> int \<Rightarrow> int \<Rightarrow> meta \<Rightarrow> meta" where
  "ph1_tag base tag len data save s =
     (if tag = 0x100 then s\<lparr>mflip := ph1_flip ! nat (data AND 3)\<rparr>
      else if tag = 0x106 then case getreals 9 s of (xs, s) \<Rightarrow> romm_coeff xs s
      else if tag = 0x107 then case getreals 3 s of (xs, s) \<Rightarrow> s\<lparr>cam_mul := xs @ drop 3 (cam_mul s)\<rparr>
      else if tag = 0x108 then on_g (raw_width_update (\<lambda>_. c_u16 data)) s
      else if tag = 0x109 then on_g (raw_height_update (\<lambda>_. c_u16 data)) s
      else if tag = 0x10a then on_g (left_margin_update (\<lambda>_. c_u16 data)) s
      else if tag = 0x10b then on_g (top_margin_update (\<lambda>_. c_u16 data)) s
      else if tag = 0x10c then on_g (width_update (\<lambda>_. c_u16 data)) s
      else if tag = 0x10d then on_g (height_update (\<lambda>_. c_u16 data)) s
      else if tag = 0x10e then s\<lparr>ph1 := (ph1 s)\<lparr>ph1_format := c_s32 data\<rparr>\<rparr>
      else if tag = 0x10f then on_g (data_offset_update (\<lambda>_. c_u32 (data + base))) s
      else if tag = 0x110 then on_g (meta_offset_update (\<lambda>_. c_u32 (data + base))) (s\<lparr>meta_length := len\<rparr>)
      else if tag = 0x112 then s\<lparr>ph1 := (ph1 s)\<lparr>ph1_key_off := c_s32 (save - 4)\<rparr>\<rparr>
      else if tag = 0x210 then s\<lparr>ph1_tag_210 := Float_bits data\<rparr>
      else if tag = 0x21a then s\<lparr>ph1_tag_21a := c_s32 data\<rparr>
      else if tag = 0x21c then on_g (strip_offset_update (\<lambda>_. c_u32 (data + base))) s
      else if tag = 0x21d then s\<lparr>ph1 := (ph1 s)\<lparr>ph1_black := c_s32 data\<rparr>\<rparr>
      else if tag = 0x222 then s\<lparr>ph1 := (ph1 s)\<lparr>ph1_split_col := c_s32 data\<rparr>\<rparr>
      else if tag = 0x223 then s\<lparr>ph1 := (ph1 s)\<lparr>ph1_black_col := c_s32 (data + base)\<rparr>\<rparr>
      else if tag = 0x224 then s\<lparr>ph1 := (ph1 s)\<lparr>ph1_split_row := c_s32 data\<rparr>\<rparr>
      else if tag = 0x225 then s\<lparr>ph1 := (ph1 s)\<lparr>ph1_black_row := c_s32 (data + base)\<rparr>\<rparr>
      else if tag = 0x301 then ph1_model s
      else s)"

definition ph1_entry :: "int \<Rightarrow> meta \<Rightarrow> meta" where
  "ph1_entry base s =
     (let (tag, s) = rd_io get4 s; (type, s) = rd_io get4 s; (len, s) = rd_io get4 s; (data, s) = rd_io get4 s;
          save = c_u32 (ipos (io_of s));
          s = on_io (fseek_set (c_u32 (base + data))) s;
          s = ph1_tag base tag len data save s
      in on_io (fseek_set save) s)"

definition ph1_models :: "(int \<times> string) list" where
  "ph1_models = [(2060, ''LightPhase''), (2682, ''H 10''), (4128, ''H 20''), (5488, ''H 25'')]"

definition parse_phase_one :: "int \<Rightarrow> meta \<Rightarrow> meta" where
  "parse_phase_one base s =
     (let s = s\<lparr>ph1 := ph1_zero, ph1_tag_210 := Of_int 0, ph1_tag_21a := 0\<rparr>;
          s = on_io (fseek_set base) s;
          (x, s) = rd_io get4 s;
          s = set_order (x AND 0xffff) s;
          (sig, s) = rd_io get4 s
      in if shr sig 8 \<noteq> 0x526177 then s
         else
           let (off, s) = rd_io get4 s;
               s = on_io (fseek_set (c_u32 (off + base))) s;
               (entries, s) = rd_io get4 s;
               (_, s) = rd_io get4 s;
               s = (ph1_entry base ^^ nat entries) s;
               s = on_d (maximum_update (\<lambda>_. 0xffff)) s;
               s = set_make (strcpy ''Phase One'' (make_arr s)) s;
               s = s\<lparr>load_raw := Some (if ph1_format (ph1 s) < 3 then Phase_one_raw else Phase_one_raw_c)\<rparr>;
               s = (if model_arr s ! 0 \<noteq> 0 then s
                    else case map_of ph1_models (raw_height (tg s)) of
                           None \<Rightarrow> s | Some m \<Rightarrow> set_model (strcpy m (model_arr s)) s)
           in s)"

end
