(* ===== verification/Containers.thy ===== *)
theory Containers
  imports Metadata
begin

text \<open>
  Parsers of container files: the directory of a Fujifilm file, SMaL, CINE, REDCINE and Sinar files, and
  the guess of the byte order of headerless data.
\<close>

section \<open>Fujifilm\<close>

text \<open>
  \<open>while ((tag = get4()) > raw_width);\<close> may run for ever, so that it is partial.
\<close>

partial_function (option) fuji_size_search :: "int \<Rightarrow> bitio \<Rightarrow> (int \<times> bitio) option" where
  "fuji_size_search w io =
     (case get4 io of (x, io) \<Rightarrow> if x > w then fuji_size_search w io else Some (x, io))"

definition fuji_xtrans :: "meta \<Rightarrow> meta" where
  "fuji_xtrans s =
     (let (cs, s) = ((\<lambda>(cs, s). case rd_io fgetc s of (x, s) \<Rightarrow> ((x AND 3) # cs, s)) ^^ 36) ([], s)
      in on_d (filters_update (\<lambda>_. 9)) (on_g (xtrans_abs_update (\<lambda>_. map (\<lambda>r. take 6 (drop (6 * r) cs)) [0..<6])) s))"

definition fuji_entry :: "meta \<Rightarrow> meta option" where
  "fuji_entry s = do {
     let (tag, s) = rd_io get2 s;
     let (len, s) = rd_io get2 s;
     let save = c_u32 (ipos (io_of s));
     s \<leftarrow> (if tag = 0x100 then
             let (h, s) = rd_io get2 s; (w, s) = rd_io get2 s
             in Some (on_g (\<lambda>g. g\<lparr>raw_height := h, raw_width := w\<rparr>) s)
           else if tag = 0x121 then
             let (h, s) = rd_io get2 s; (w, s) = rd_io get2 s
             in Some (on_g (\<lambda>g. g\<lparr>height := h, width := (if w = 4284 then w + 3 else w)\<rparr>) s)
           else if tag = 0x130 then
             let (x, s) = rd_io fgetc s; (y, s) = rd_io fgetc s
             in Some (on_g (\<lambda>g. g\<lparr>fuji_layout := c_u32 (shr x 7), fuji_width := (if y AND 8 = 0 then 1 else 0)\<rparr>) s)
           else if tag = 0x131 then Some (fuji_xtrans s)
           else if tag = 0x2ff0 then
             let (a, s) = rd_io get2 s; (b, s) = rd_io get2 s; (c, s) = rd_io get2 s; (d, s) = rd_io get2 s
             in Some (s\<lparr>cam_mul := [Of_int b, Of_int a, Of_int d, Of_int c]\<rparr>)
           else if tag = 0xc000 \<and> len > 20000 then do {
             let c = byte_order (io_of s);
             let s = set_order 0x4949 s;
             (w, b) \<leftarrow> fuji_size_search (raw_width (tg s)) (io_of s);
             let (h, s) = rd_io get4 (set_io b s);
             Some (set_order c (on_g (\<lambda>g. g\<lparr>width := c_u16 w, height := c_u16 h\<rparr>) s)) }
           else Some s);
     Some (on_io (fseek_set (c_u32 (save + len))) s) }"

fun repeat_opt :: "nat \<Rightarrow> ('s \<Rightarrow> 's option) \<Rightarrow> 's \<Rightarrow> 's option" where
  "repeat_opt 0 f s = Some s"
| "repeat_opt (Suc n) f s = do { s \<leftarrow> f s; repeat_opt n f s }"

definition parse_fuji :: "int \<Rightarrow> meta \<Rightarrow> meta option" where
  "parse_fuji offset s =
     (let s = on_io (fseek_set offset) s; (entries, s) = rd_io get4 s
      in if entries > 255 then Some s
         else do {
           s \<leftarrow> repeat_opt (nat entries) fuji_entry s;
           Some (on_g (\<lambda>g. g\<lparr>height := c_u16 (shl_i (height g) (fuji_layout g)), width := shr_i (width g) (fuji_layout g)\<rparr>) s) })"

section \<open>SMaL\<close>

text \<open>\<open>shows\<close> in the source's \<open>sprintf (model, "v%d %dx%d", ...)\<close>: decimal numbers.\<close>

fun digits :: "nat \<Rightarrow> string" where
  "digits n = (if n < 10 then [char_of (48 + n)] else digits (n div 10) @ [char_of (48 + n mod 10)])"

declare digits.simps [simp del]

definition print_int :: "int \<Rightarrow> string" where
  "print_int n = (if n < 0 then ''-'' @ digits (nat (- n)) else digits (nat n))"

definition parse_smal :: "int \<Rightarrow> int \<Rightarrow> meta \<Rightarrow> meta" where
  "parse_smal offset fsize s =
     (let s = set_order 0x4949 (on_io (fseek_set (offset + 2)) s);
          (ver, s) = rd_io fgetc s;
          s = (if ver = 6 then on_io (fseek_cur 5) s else s);
          (x, s) = rd_io get4 s
      in if x \<noteq> c_u32 fsize then s
         else
           let s = (if ver > 6 then case rd_io get4 s of (x, s) \<Rightarrow> on_g (data_offset_update (\<lambda>_. x)) s else s);
               (h, s) = rd_io get2 s;
               (w, s) = rd_io get2 s;
               s = on_g (\<lambda>g. g\<lparr>raw_height := h, height := h, raw_width := w, width := w\<rparr>) s;
               s = set_make (strcpy ''SMaL'' (make_arr s)) s;
               s = set_model (strcpy (''v'' @ print_int ver @ '' '' @ print_int w @ ''x'' @ print_int h) (model_arr s)) s;
               s = (if ver = 6 then s\<lparr>load_raw := Some Smal_v6_raw\<rparr> else s)
           in if ver = 9 then s\<lparr>load_raw := Some Smal_v9_raw\<rparr> else s)"

section \<open>CINE\<close>

definition cine_flip :: "int \<Rightarrow> int option" where
  "cine_flip angle = map_of [(270, 4), (180, 1), (90, 7), (0, 2)] angle"

definition parse_cine :: "meta \<Rightarrow> meta" where
  "parse_cine s =
     (let s = on_io (fseek_set 4) (set_order 0x4949 s);
          (x, s) = rd_io get2 s;
          raw0 = (if x = 2 then 1 else 0);
          s = on_io (fseek_cur 14) s;
          (n, s) = rd_io get4 s;
          s = on_g (is_raw_update (\<lambda>_. c_u32 (raw0 * n))) s;
          (off_head, s) = rd_io get4 s;
          (off_setup, s) = rd_io get4 s;
          (off_image, s) = rd_io get4 s;
          (ts, s) = rd_io get4 s;
          (i, s) = rd_io get4 s;
          s = s\<lparr>timestamp := (if i \<noteq> 0 then i else ts)\<rparr>;
          s = on_io (fseek_set (c_u32 (off_head + 4))) s;
          (w, s) = rd_io get4 s;
          (h, s) = rd_io get4 s;
          s = on_g (\<lambda>g. g\<lparr>raw_width := c_u16 w, raw_height := c_u16 h\<rparr>) s;
          (_, s) = rd_io get2 s;
          (bits, s) = rd_io get2 s;
          s = (if bits = 8 then s\<lparr>load_raw := Some Eight_bit_raw\<rparr>
               else if bits = 16 then s\<lparr>load_raw := Some Unpacked_raw\<rparr> else s);
          s = on_io (fseek_set (c_u32 (off_setup + 792))) s;
          s = set_make (strcpy ''CINE'' (make_arr s)) s;
          (m, s) = rd_io get4 s;
          s = set_model (strcpy (print_int (c_s32 m)) (model_arr s)) s;
          s = on_io (fseek_cur 12) s;
          (cfa, s) = rd_io get4 s;
          s = (if cfa AND 0xffffff = 3 then on_d (filters_update (\<lambda>_. 0x94949494)) s
               else if cfa AND 0xffffff = 4 then on_d (filters_update (\<lambda>_. 0x49494949)) s
               else on_g (is_raw_update (\<lambda>_. 0)) s);
          s = on_io (fseek_cur 72) s;
          (angle, s) = rd_io get4 s;
          s = (case cine_flip (c_u32 (angle + 3600) mod 360) of None \<Rightarrow> s | Some f \<Rightarrow> s\<lparr>mflip := f\<rparr>);
          (r, s) = rd_io (getreal 11) s;
          (b, s) = rd_io (getreal 11) s;
          s = s\<lparr>cam_mul := (cam_mul s)[0 := r, 2 := b]\<rparr>;
          (bpp, s) = rd_io get4 s;
          s = on_d (maximum_update (\<lambda>_. c_u32 (NOT (shl_i (-1) bpp)))) s;
          s = on_io (fseek_cur 668) s;
          (sh, s) = rd_io get4 s;
          s = s\<lparr>mshutter := Quotient (Of_int sh) (Of_int 1000000000)\<rparr>;
          s = on_io (fseek_set off_image) s;
          s = (if shot_select (tg s) < is_raw (tg s) then on_io (fseek_cur (c_u32 (shot_select (tg s) * 8))) s else s);
          (lo, s) = rd_io get4 s;
          (hi, s) = rd_io get4 s
      in on_g (data_offset_update (\<lambda>_. lo + 8 + shl hi 32)) s)"

section \<open>Sinar\<close>

text \<open>
  The array \<open>str\<close> is carried along: a short read leaves what the entry before has put there.
\<close>

definition sinar_entry :: "u8 list \<times> meta \<Rightarrow> u8 list \<times> meta" where
  "sinar_entry = (\<lambda>(str, s).
     (let (off, s) = rd_io get4 s; (_, s) = rd_io get4 s; (bs, s) = rd_io (fread 8) s;
          off = c_s32 off; str = overlay_bytes bs str; name = c_str str;
          s = (if name = ''META'' then on_g (meta_offset_update (\<lambda>_. off)) s else s);
          s = (if name = ''THUMB'' then s\<lparr>thumb_offset := off\<rparr> else s);
          s = (if name = ''RAW0'' then on_g (data_offset_update (\<lambda>_. off)) s else s)
      in (str, s)))"

text \<open>The make is the text before the first blank, the model the text behind it.\<close>

fun split_blank :: "string \<Rightarrow> string \<times> string option" where
  "split_blank [] = ([], None)"
| "split_blank (c # cs) = (if c = CHR '' '' then ([], Some cs) else case split_blank cs of (a, b) \<Rightarrow> (c # a, b))"

definition sinar_names :: "meta \<Rightarrow> meta" where
  "sinar_names s =
     (let (bs, s) = rd_io (fread 64) s; arr = (overlay_bytes bs (make_arr s))[63 := 0]
      in case split_blank (c_str arr) of
           (_, None) \<Rightarrow> set_make arr s
         | (mk, Some rest) \<Rightarrow> set_make (arr[length mk := 0]) (set_model (strcpy rest (model_arr s)) s))"

definition parse_sinar_ia :: "meta \<Rightarrow> meta" where
  "parse_sinar_ia s =
     (let s = on_io (fseek_set 4) (set_order 0x4949 s);
          (entries, s) = rd_io get4 s;
          (off, s) = rd_io get4 s;
          s = on_io (fseek_set off) s;
          (_, s) = (sinar_entry ^^ nat entries) (uninit (tg s) 8, s);
          s = sinar_names (on_io (fseek_set (meta_offset (tg s) + 20)) s);
          (w, s) = rd_io get2 s;
          (h, s) = rd_io get2 s;
          s = on_g (\<lambda>g. g\<lparr>raw_width := w, raw_height := h\<rparr>) (s\<lparr>load_raw := Some Unpacked_raw\<rparr>);
          (_, s) = rd_io get4 s;
          (tw, s) = rd_io get2 s;
          (th, s) = rd_io get2 s
      in on_d (maximum_update (\<lambda>_. 0x3fff)) (s\<lparr>thumb_width := tw, thumb_height := th, write_thumb := Ppm_thumb\<rparr>))"

section \<open>REDCINE\<close>

text \<open>
  The search for the frames of a file without its tail: blocks that begin with their length and a tag.
  \<open>len - 8\<close> is unsigned, so that a length below 8 moves far ahead. The search always ends.
\<close>

definition redv_tag :: int where
  "redv_tag = 0x52454456"

lemma get4_moves:
  assumes "get4 io = (x, io')"
  shows "ifile io' = ifile io" "byte_order io' = byte_order io" "ipos io \<le> ipos io'"
    "x = 0xffffffff \<or> ipos io < ipos io' \<and> ipos io < int (length (ifile io))"
proof -
  obtain bs io1 where f: "fread 4 io = (bs, io1)" by (cases "fread 4 io")
  note m = fread_moves [OF f]
  have io': "io' = io1" using assms f by (simp add: get4_def Let_def)
  show "ifile io' = ifile io" "ipos io \<le> ipos io'" "byte_order io' = byte_order io"
    using m io' f by (auto simp: fread_def Let_def)
  show "x = 0xffffffff \<or> ipos io < ipos io' \<and> ipos io < int (length (ifile io))"
  proof (cases "bs = []")
    case True
    then have "x = sget4 (byte_order io) 0xff 0xff 0xff 0xff" using assms f by (simp add: get4_def Let_def)
    then show ?thesis by (simp add: sget4_def shl_mult)
  next
    case False
    then show ?thesis using m io' by (cases "ipos io < int (length (ifile io))") auto
  qed
qed

function redcine_search :: "int \<Rightarrow> int \<Rightarrow> int \<Rightarrow> bitio \<Rightarrow> (int \<times> int) \<times> bitio" where
  "redcine_search shot israw off io =
     (case get4 io of (len, io1) \<Rightarrow>
        if len = 0xffffffff then ((israw, off), io1)
        else case get4 io1 of (tag, io2) \<Rightarrow>
          let hit = (tag = redv_tag)
          in redcine_search shot (if hit then c_u32 (israw + 1) else israw)
               (if hit \<and> israw = shot then ipos io2 - 8 else off) (fseek_cur (c_u32 (len - 8)) io2))"
  by pat_completeness auto
termination
  apply (relation "measure (\<lambda>(shot, israw, off, io). nat (int (length (ifile io)) - ipos io))")
  subgoal by simp
  subgoal premises p for shot israw off io len io1 tag io2 hit
  proof -
    note a = get4_moves [OF p(1) [symmetric]] get4_moves [OF p(3) [symmetric]]
    have "ipos io2 \<le> ipos (fseek_cur (c_u32 (len - 8)) io2)" "ifile (fseek_cur (c_u32 (len - 8)) io2) = ifile io2"
      by (auto simp: fseek_cur_def fseek_set_def)
    then show ?thesis using a p(2) by auto
  qed
  done

declare redcine_search.simps [simp del]

text \<open>
  The tail is looked for at \<open>-(i = ftello(ifp) & 511)\<close> from the end. \<open>i\<close> is unsigned, so that the offset,
  converted to an argument of 64 bits, is a large positive one.
\<close>

definition parse_redcine :: "meta \<Rightarrow> meta" where
  "parse_redcine s =
     (let s = on_io (fseek_set 52) (on_g (is_raw_update (\<lambda>_. 0)) (set_order 0x4d4d s));
          (w, s) = rd_io get4 s;
          (h, s) = rd_io get4 s;
          s = on_io (fseek_end 0) (on_g (\<lambda>g. g\<lparr>width := c_u16 w, height := c_u16 h\<rparr>) s);
          i = ipos (io_of s) AND 511;
          s = on_io (fseek_cur (c_u32 (- i))) s;
          (x, s) = rd_io get4 s;
          (tail, s) = (if x \<noteq> i then (False, s) else case rd_io get4 s of (y, s) \<Rightarrow> (y = 0x52454f42, s))
      in if \<not> tail then
           case redcine_search (shot_select (tg s)) (is_raw (tg s)) (data_offset (tg s)) (fseek_set 0 (io_of s)) of
             ((n, off), b) \<Rightarrow> on_g (\<lambda>g. g\<lparr>is_raw := n, data_offset := off\<rparr>) (set_io b s)
         else
           let (rdvo, s) = rd_io get4 s;
               s = on_io (fseek_cur 12) s;
               (n, s) = rd_io get4 s;
               s = on_g (is_raw_update (\<lambda>_. n)) s;
               s = on_io (fseek_set (c_u32 (rdvo + 8 + shot_select (tg s) * 4))) s;
               (off, s) = rd_io get4 s
           in on_g (data_offset_update (\<lambda>_. off)) s)"

section \<open>Byte order\<close>

text \<open>
  The sums of squares are of type \<open>double\<close> in the program and exact integers here (they are below
  \<open>2 ^ 53\<close> for less than two million words). \<open>test\<close> holds the last four words, two bytes each.
\<close>

definition guess_step :: "(u8 list \<times> int \<times> int \<times> int) \<times> bitio \<Rightarrow> ((u8 list \<times> int \<times> int \<times> int) \<times> bitio)" where
  "guess_step = (\<lambda>((test, t, sum0, sum1), io).
     (let (bs, io) = fread 2 io;
          test = take (nat (2 * t)) test @ overlay_bytes bs (take 2 (drop (nat (2 * t)) test)) @ drop (nat (2 * t + 2)) test;
          word = (\<lambda>k msb. shl (uint (test ! nat (2 * k + msb))) 8 OR uint (test ! nat (2 * k + (1 - msb))));
          diff = (\<lambda>msb. word (t XOR 2) msb - word t msb)
      in ((test, (t + 1) AND 3, sum0 + diff 0 * diff 0, sum1 + diff 1 * diff 1), io)))"

definition guess_byte_order :: "geom \<Rightarrow> int \<Rightarrow> bitio \<Rightarrow> int \<times> bitio" where
  "guess_byte_order g words io =
     (let (bs, io) = fread 4 io;
          ((_, _, sum0, sum1), io) = (guess_step ^^ nat (words - 2)) ((overlay_bytes bs (uninit g 8), 2, 0, 0), io)
      in (if sum0 < sum1 then 0x4d4d else 0x4949, io))"

section \<open>What the searches do\<close>

lemma get4_at_end: "int (length (ifile io)) \<le> ipos io \<Longrightarrow> get4 io = (0xffffffff, io)"
proof -
  assume a: "int (length (ifile io)) \<le> ipos io"
  have "fst (get4 io) = 0xffffffff" using get4_moves(4) [of io "fst (get4 io)" "snd (get4 io)"] a by auto
  moreover have "snd (get4 io) = io" using a by (simp add: get4_def fread_def Let_def)
  ultimately show ?thesis by (simp add: prod_eq_iff)
qed

text \<open>
  \<open>parse_redcine\<close> never finds the tail of a file: the unsigned offset moves behind the end, where
  \<open>get4\<close> returns all ones. Whatever the file holds, its frames are searched for from the head; and that
  search ends for every file.
\<close>

theorem redcine_from_head:
  "\<exists>io. parse_redcine s =
     (let s = on_g (\<lambda>g. g\<lparr>is_raw := 0, width := c_u16 (fst (get4 (fseek_set 52 (io_of (set_order 0x4d4d s))))),
                        height := c_u16 (fst (get4 (snd (get4 (fseek_set 52 (io_of (set_order 0x4d4d s)))))))\<rparr>) (set_order 0x4d4d s)
      in case redcine_search (shot_select (tg s)) 0 (data_offset (tg s)) io of
           ((n, off), b) \<Rightarrow> on_g (\<lambda>g. g\<lparr>is_raw := n, data_offset := off\<rparr>) (set_io b s))
     \<and> ifile io = ifile (io_of s) \<and> ipos io = 0 \<and> byte_order io = 0x4d4d"
proof -
  define b where "b = fseek_set 52 (io_of (set_order 0x4d4d s))"
  obtain w b1 where w: "get4 b = (w, b1)" by (cases "get4 b")
  obtain h b2 where h: "get4 b1 = (h, b2)" by (cases "get4 b1")
  define b3 where "b3 = fseek_cur (c_u32 (- (ipos (fseek_end 0 b2) AND 511))) (fseek_end 0 b2)"
  note m = get4_moves(1,2) [OF w] get4_moves(1,2) [OF h]
  have i: "0 \<le> ipos (fseek_end 0 b2) AND 511" "ipos (fseek_end 0 b2) AND 511 \<le> 511"
    by (simp_all add: AND_upper2)
  have e: "get4 b3 = (0xffffffff, b3)"
    by (rule get4_at_end) (simp add: b3_def fseek_cur_def fseek_set_def fseek_end_def)
  have b3: "ifile b3 = ifile (io_of s)" "byte_order b3 = 0x4d4d"
    using m by (simp_all add: b3_def fseek_cur_def fseek_set_def fseek_end_def b_def io_of_def on_io_def set_io_def)
  have ne: "ipos (fseek_end 0 b2) AND 511 \<noteq> 0xffffffff" using i by linarith
  note unf = rd_io_def on_io_def on_g_def set_io_def io_of_def
  have w': "get4 (fseek_set 52 (dio (td s)\<lparr>byte_order := 0x4d4d\<rparr>)) = (w, b1)"
    using w by (simp add: b_def unf)
  have "parse_redcine s =
     (let s = on_g (\<lambda>g. g\<lparr>is_raw := 0, width := c_u16 w, height := c_u16 h\<rparr>) (set_order 0x4d4d s)
      in case redcine_search (shot_select (tg s)) 0 (data_offset (tg s)) (fseek_set 0 b3) of
           ((n, off), b) \<Rightarrow> on_g (\<lambda>g. g\<lparr>is_raw := n, data_offset := off\<rparr>) (set_io b s))"
    using w' h e ne by (simp add: parse_redcine_def unf Let_def b3_def [symmetric])
  moreover have "ifile (fseek_set 0 b3) = ifile (io_of s) \<and> ipos (fseek_set 0 b3) = 0 \<and> byte_order (fseek_set 0 b3) = 0x4d4d"
    using b3 by (simp add: fseek_set_def)
  ultimately show ?thesis using w h by (auto simp: b_def)
qed

text \<open>The words the search reads, and what it returns on them.\<close>

definition after_words :: "nat \<Rightarrow> bitio \<Rightarrow> bitio" where
  "after_words k = (\<lambda>io. snd (get4 io)) ^^ k"

lemma after_words_simps [simp]:
  "after_words 0 io = io" "after_words (Suc k) io = after_words k (snd (get4 io))"
  by (simp_all add: after_words_def funpow_Suc_right del: funpow.simps)

lemma fuji_size_search_finds:
  "fst (get4 (after_words k io)) \<le> w \<Longrightarrow> \<exists>r. fuji_size_search w io = Some r"
proof (induction k arbitrary: io)
  case 0
  then show ?case by (subst fuji_size_search.simps) (auto split: prod.splits)
next
  case (Suc k)
  then obtain r where r: "fuji_size_search w (snd (get4 io)) = Some r" using Suc.IH by (metis after_words_simps(2))
  show ?case using r by (subst fuji_size_search.simps) (auto split: prod.splits)
qed

lemma fuji_size_search_result:
  assumes "fuji_size_search w io = Some r"
  shows "\<exists>k. r = get4 (after_words k io) \<and> fst r \<le> w \<and> (\<forall>j<k. w < fst (get4 (after_words j io)))"
proof (rule fuji_size_search.raw_induct [OF _ assms], goal_cases)
  case (1 search w io r)
  obtain x b where x: "get4 io = (x, b)" by (cases "get4 io")
  show ?case
  proof (cases "x > w")
    case True
    then obtain k where k: "r = get4 (after_words k b)" "fst r \<le> w" "\<forall>j<k. w < fst (get4 (after_words j b))"
      using 1(1) [of w b r] 1(2) x by auto
    have "w < fst (get4 (after_words j io))" if "j < Suc k" for j
      using that k True x by (cases j) auto
    then show ?thesis using k x by (intro exI [where x = "Suc k"]) auto
  next
    case False
    then show ?thesis using 1 x by (intro exI [where x = 0]) auto
  qed
qed

lemma after_words_ahead: "ipos io \<le> ipos (after_words k io)"
proof (induction k arbitrary: io)
  case (Suc k)
  then show ?case using get4_moves(3) [of io "fst (get4 io)" "snd (get4 io)"] by (simp add: order_trans)
qed simp

text \<open>
  C36: The loop of \<open>parse_fuji\<close> that skips words above the width of the raw image returns the first word
  that is not above it, if there is one before the end of the file; if there is none it never returns,
  because \<open>get4\<close> gives all ones behind the end.
\<close>

theorem fuji_size_returns:
  assumes "w < 0xffffffff"
  shows "(fuji_size_search w io = Some r) \<longleftrightarrow>
     (\<exists>k. ipos (after_words k io) < int (length (ifile io)) \<and> r = get4 (after_words k io) \<and> fst r \<le> w
        \<and> (\<forall>j<k. w < fst (get4 (after_words j io))))"
proof -
  have f: "ifile (after_words k io) = ifile io" for k
  proof (induction k arbitrary: io)
    case (Suc k)
    then show ?case using get4_moves(1) [of io "fst (get4 io)" "snd (get4 io)"] by simp
  qed simp
  have inside: "ipos (after_words k io) < int (length (ifile io))" if "fst (get4 (after_words k io)) \<le> w" for k
    using that assms get4_at_end [of "after_words k io"] f [of k] by fastforce
  have same: "r = r'" if s: "fuji_size_search w io = Some r'" and q: "r = get4 (after_words k io)" "fst r \<le> w"
    "\<forall>j<k. w < fst (get4 (after_words j io))" for r' k
  proof -
    obtain k' where k': "r' = get4 (after_words k' io)" "fst r' \<le> w" "\<forall>j<k'. w < fst (get4 (after_words j io))"
      using fuji_size_search_result [OF s] by blast
    have "\<not> k < k'" using k'(3) q(1,2) by (metis not_less)
    moreover have "\<not> k' < k" using k'(1,2) q(3) by (metis not_less)
    ultimately have "k = k'" by simp
    then show ?thesis using q k' by simp
  qed
  show ?thesis
  proof
    assume s: "fuji_size_search w io = Some r"
    show "\<exists>k. ipos (after_words k io) < int (length (ifile io)) \<and> r = get4 (after_words k io) \<and> fst r \<le> w
        \<and> (\<forall>j<k. w < fst (get4 (after_words j io)))"
      using fuji_size_search_result [OF s] inside by blast
  next
    assume "\<exists>k. ipos (after_words k io) < int (length (ifile io)) \<and> r = get4 (after_words k io) \<and> fst r \<le> w
        \<and> (\<forall>j<k. w < fst (get4 (after_words j io)))"
    then obtain k where k: "r = get4 (after_words k io)" "fst r \<le> w" "\<forall>j<k. w < fst (get4 (after_words j io))"
      by blast
    then obtain r' where "fuji_size_search w io = Some r'" using fuji_size_search_finds by blast
    then show "fuji_size_search w io = Some r" using same k by blast
  qed
qed

theorem fuji_size_returns_witness:
  "(\<exists>b. fuji_size_search 256 (open_file [1, 1, 1, 1, 0, 0, 0, 0, 9]) = Some (0, b))
   \<and> fuji_size_search 256 (open_file [1, 1, 1, 1]) = None"
proof
  let ?io = "open_file [1, 1, 1, 1, 0, 0, 0, 0, 9]"
  have "fst (get4 (after_words 0 ?io)) > 256" "fst (get4 (after_words 1 ?io)) = 0" "ipos (after_words 1 ?io) = 4"
    by code_simp+
  then have "fuji_size_search 256 ?io = Some (get4 (after_words 1 ?io))"
    by (subst fuji_size_returns) (auto intro!: exI [where x = 1] simp: open_file_def)
  moreover have "get4 (after_words 1 ?io) = (0, snd (get4 (after_words 1 ?io)))"
    using \<open>fst (get4 (after_words 1 ?io)) = 0\<close> by (simp add: prod_eq_iff)
  ultimately show "\<exists>b. fuji_size_search 256 ?io = Some (0, b)" by metis
  let ?s = "open_file [1, 1, 1, 1]"
  have z: "fst (get4 (after_words 0 ?s)) > 256" "ipos (snd (get4 ?s)) = 4" by code_simp+
  have "\<not> (ipos (after_words k ?s) < 4 \<and> fst (get4 (after_words k ?s)) \<le> 256)" for k
    using z after_words_ahead [of "snd (get4 ?s)" "k - 1"] by (cases k) auto
  then have "fuji_size_search 256 ?s \<noteq> Some r" for r
    by (subst fuji_size_returns) (auto simp: open_file_def)
  then show "fuji_size_search 256 ?s = None" by (cases "fuji_size_search 256 ?s") auto
qed

end
