(* ===== verification/Foveon.thy ===== *)
theory Foveon
  imports Containers
begin

text \<open>
  \<open>parse_foveon\<close>: the directory of a Sigma X3F file, with its image, camera and property sections, and
  the proof that no file makes it leave its arrays.
\<close>

section \<open>Library\<close>

text \<open>
  \<open>atoi\<close> is \<open>(int) strtol (s, 0, 10)\<close>: blanks, a sign, digits; a \<open>long\<close> that is out of range is cut to its
  bounds.
\<close>

definition c_isspace :: "char \<Rightarrow> bool" where
  "c_isspace c \<longleftrightarrow> of_char c = (32 :: nat) \<or> (9 :: nat) \<le> of_char c \<and> of_char c \<le> (13 :: nat)"

definition c_isdigit :: "char \<Rightarrow> bool" where
  "c_isdigit c \<longleftrightarrow> (48 :: nat) \<le> of_char c \<and> of_char c \<le> (57 :: nat)"

definition digits_val :: "string \<Rightarrow> int" where
  "digits_val cs = foldl (\<lambda>a c. 10 * a + (of_char c - 48)) 0 cs"

definition atoi :: "string \<Rightarrow> int" where
  "atoi cs =
     (let cs = dropWhile c_isspace cs;
          neg = (cs \<noteq> [] \<and> hd cs = CHR ''-'');
          cs = (if cs \<noteq> [] \<and> (hd cs = CHR ''-'' \<or> hd cs = CHR ''+'') then tl cs else cs);
          v = digits_val (takeWhile c_isdigit cs)
      in c_s32 (if neg then max (- v) (- (2 ^ 63)) else min v (2 ^ 63 - 1)))"

text \<open>\<open>strcpy\<close> into an array that may be too small.\<close>

definition strcpy_c :: "string \<Rightarrow> u8 list \<Rightarrow> u8 list option" where
  "strcpy_c cs arr = (if length cs < length arr then Some (strcpy cs arr) else None)"

section \<open>foveon_gets\<close>

function foveon_chars :: "int \<Rightarrow> int \<Rightarrow> u8 list \<Rightarrow> bitio \<Rightarrow> (u8 list \<times> bitio) option" where
  "foveon_chars i len str io =
     (if i < len - 1 then
        case get2 io of (x, io) \<Rightarrow> do {
          str \<leftarrow> wr str i x;
          if c_u8 x = 0 then do { str \<leftarrow> wr str i 0; Some (str, io) }
          else foveon_chars (i + 1) len str io }
      else do { str \<leftarrow> wr str i 0; Some (str, io) })"
  by pat_completeness auto
termination
  by (relation "measure (\<lambda>(i, len, str, io). nat (len - i))") auto

declare foveon_chars.simps [simp del]

definition foveon_gets :: "int \<Rightarrow> u8 list \<Rightarrow> int \<Rightarrow> bitio \<Rightarrow> (u8 list \<times> bitio) option" where
  "foveon_gets offset str len io = foveon_chars 0 len str (fseek_set offset io)"

section \<open>The sections\<close>

text \<open>
  The locals that live on from one directory entry to the next: the number of images, the offsets of the
  properties, a name and a value.
\<close>

record foveon_locals =
  fv_img :: int
  fv_poff :: "int list"
  fv_name :: "u8 list"
  fv_value :: "u8 list"

definition foveon_image :: "int \<Rightarrow> int \<Rightarrow> foveon_locals \<times> meta \<Rightarrow> foveon_locals \<times> meta" where
  "foveon_image off len = (\<lambda>(l, s).
     (let s = on_io (fseek_cur 8) s;
          (pent, s) = rd_io get4 s;
          (wide, s) = rd_io get4 s;
          (high, s) = rd_io get4 s;
          wide = c_s32 wide; high = c_s32 high;
          s = (if wide > raw_width (tg s) \<and> high > raw_height (tg s) then
                 let s = (if pent = 5 then on_g (load_flags_update (\<lambda>_. 1)) s else s)
                 in on_g (\<lambda>g. g\<lparr>raw_width := c_u16 wide, raw_height := c_u16 high, data_offset := c_s32 (off + 28)\<rparr>)
                      (s\<lparr>load_raw := None, is_foveon := 1\<rparr>)
               else s);
          s = on_io (fseek_set (c_s32 (off + 28))) s;
          (a, s) = rd_io fgetc s;
          (b, s) = (if a = 0xff then rd_io fgetc s else (0, s));
          s = (if a = 0xff \<and> b = 0xd8 \<and> thumb_length s < c_u32 (len - 28)
               then s\<lparr>thumb_offset := c_s32 (off + 28), thumb_length := c_u32 (len - 28), write_thumb := Jpeg_thumb\<rparr> else s);
          img = fv_img l + 1;
          s = (if img = 2 \<and> thumb_length s = 0
               then s\<lparr>thumb_offset := c_s32 (off + 24), thumb_width := c_u16 wide, thumb_height := c_u16 high\<rparr> else s)
      in (l\<lparr>fv_img := img\<rparr>, s)))"

definition foveon_property :: "string \<Rightarrow> string \<Rightarrow> meta \<Rightarrow> meta option" where
  "foveon_property name val s = do {
     let s = (if name = ''ISO'' then s\<lparr>iso_speed := Of_int (atoi val)\<rparr> else s);
     s \<leftarrow> (if name = ''CAMMANUF'' then do { a \<leftarrow> strcpy_c val (make_arr s); Some (set_make a s) } else Some s);
     s \<leftarrow> (if name = ''CAMMODEL'' then do { a \<leftarrow> strcpy_c val (model_arr s); Some (set_model a s) } else Some s);
     s \<leftarrow> (if name = ''WB_DESC'' then do { a \<leftarrow> strcpy_c val (model2_arr s); Some (set_model2 a s) } else Some s);
     let s = (if name = ''TIME'' then s\<lparr>timestamp := atoi val\<rparr> else s);
     let s = (if name = ''EXPTIME'' then s\<lparr>mshutter := Quotient (Of_int (atoi val)) (Of_int 1000000)\<rparr> else s);
     let s = (if name = ''APERTURE'' then s\<lparr>aperture := Decimal val\<rparr> else s);
     Some (if name = ''FLENGTH'' then s\<lparr>focal_len := Decimal val\<rparr> else s) }"

definition foveon_offset :: "int \<Rightarrow> int \<Rightarrow> int list \<times> meta \<Rightarrow> (int list \<times> meta) option" where
  "foveon_offset off i = (\<lambda>(poff, s).
     (let (x, s) = rd_io get4 s in do { poff \<leftarrow> put poff i (c_s32 (off + x * 2)); Some (poff, s) }))"

definition foveon_named :: "int \<Rightarrow> foveon_locals \<times> meta \<Rightarrow> (foveon_locals \<times> meta) option" where
  "foveon_named i = (\<lambda>(l, s). do {
     a \<leftarrow> at (fv_poff l) (2 * i);
     (name, b) \<leftarrow> foveon_gets a (fv_name l) 64 (io_of s);
     a \<leftarrow> at (fv_poff l) (2 * i + 1);
     (val, b) \<leftarrow> foveon_gets a (fv_value l) 64 b;
     s \<leftarrow> foveon_property (c_str name) (c_str val) (set_io b s);
     Some (l\<lparr>fv_name := name, fv_value := val\<rparr>, s) })"

definition foveon_prop :: "int \<Rightarrow> foveon_locals \<times> meta \<Rightarrow> (foveon_locals \<times> meta) option" where
  "foveon_prop off = (\<lambda>(l, s). do {
     let (_, s) = rd_io get4 s;
     let (pent, s) = rd_io get4 s;
     let s = on_io (fseek_cur 12) s;
     let off = c_s32 (off + c_s32 pent * 8 + 24);
     let pent = (if pent > 256 then 256 else pent);
     (poff, s) \<leftarrow> for_up 0 (pent * 2) (foveon_offset off) (fv_poff l, s);
     for_up 0 pent foveon_named (l\<lparr>fv_poff := poff\<rparr>, s) })"

text \<open>An entry of the directory; \<open>Inl\<close> where the code returns.\<close>

definition foveon_entry :: "foveon_locals \<times> meta \<Rightarrow> (meta + foveon_locals \<times> meta) option" where
  "foveon_entry = (\<lambda>(l, s). do {
     let (off, s) = rd_io get4 s;
     let (len, s) = rd_io get4 s;
     let (tag, s) = rd_io get4 s;
     let save = c_s32 (ipos (io_of s));
     let off = c_s32 off;
     let len = c_s32 len;
     let s = on_io (fseek_set off) s;
     let (x, s) = rd_io get4 s;
     if x \<noteq> 0x20434553 OR c_u32 (shl tag 24) then Some (Inl s)
     else do {
       (l, s) \<leftarrow> (if tag = 0x47414d49 \<or> tag = 0x32414d49 then Some (foveon_image off len (l, s))
                  else if tag = 0x464d4143 then
                    Some (l, on_g (meta_offset_update (\<lambda>_. c_s32 (off + 8))) (s\<lparr>meta_length := c_u32 (len - 28)\<rparr>))
                  else if tag = 0x504f5250 then foveon_prop off (l, s)
                  else Some (l, s));
       Some (Inr (l, on_io (fseek_set save) s)) } })"

fun foveon_entries :: "nat \<Rightarrow> foveon_locals \<times> meta \<Rightarrow> meta option" where
  "foveon_entries 0 st = Some (snd st)"
| "foveon_entries (Suc n) st = do {
     r \<leftarrow> foveon_entry st;
     case r of Inl s \<Rightarrow> Some s | Inr st \<Rightarrow> foveon_entries n st }"

definition parse_foveon :: "meta \<Rightarrow> meta option" where
  "parse_foveon s =
     (let s = on_io (fseek_set 36) (set_order 0x4949 s);
          (x, s) = rd_io get4 s;
          s = on_io (fseek_end (-4)) (s\<lparr>mflip := x\<rparr>);
          (x, s) = rd_io get4 s;
          s = on_io (fseek_set x) s;
          (x, s) = rd_io get4 s
      in if x \<noteq> 0x64434553 then Some s
         else
           let (_, s) = rd_io get4 s;
               (entries, s) = rd_io get4 s;
               l = \<lparr>fv_img = 0, fv_poff = map (junk (tg s)) [0..<512], fv_name = uninit (tg s) 64, fv_value = uninit (tg s) 64\<rparr>
           in foveon_entries (nat entries) (l, s))"

section \<open>No file makes it leave its arrays\<close>

definition foveon_fits :: "foveon_locals \<Rightarrow> bool" where
  "foveon_fits l \<longleftrightarrow> length (fv_poff l) = 512 \<and> length (fv_name l) = 64 \<and> length (fv_value l) = 64"

definition names_ok :: "meta \<Rightarrow> bool" where
  "names_ok s \<longleftrightarrow> length (make_arr s) = 64 \<and> length (model_arr s) = 64 \<and> length (model2_arr s) = 64"

lemma names_ok_steps [simp]:
  "names_ok (set_io b s) = names_ok s" "names_ok (on_io f s) = names_ok s" "names_ok (on_g h s) = names_ok s"
  "names_ok (snd (rd_io r s)) = names_ok s"
  "names_ok (s\<lparr>mflip := x\<rparr>) = names_ok s" "names_ok (s\<lparr>meta_length := x\<rparr>) = names_ok s"
  by (simp_all add: names_ok_def set_io_def on_io_def on_g_def rd_io_def split: prod.splits)

lemma names_ok_rd: "rd_io r s = (x, t) \<Longrightarrow> names_ok t = names_ok s"
  using names_ok_steps(4) [of r s] by simp

lemma length_c_str: "0 \<in> set bs \<Longrightarrow> length (c_str bs) < length bs"
  unfolding c_str_def by (induction bs) auto

lemma foveon_chars_ok:
  assumes "0 \<le> i" "i < int (length str)" "len \<le> int (length str)"
  shows "ok (foveon_chars i len str io) (\<lambda>(t, _). length t = length str \<and> 0 \<in> set t)"
  using assms
proof (induction i len str io rule: foveon_chars.induct)
  case (1 i len str io)
  obtain x b where x: "get2 io = (x, b)" by (cases "get2 io")
  have z: "0 \<in> set (str[nat i := 0])" using "1.prems" by (simp add: set_update_memI)
  show ?case
  proof (cases "i < len - 1")
    case True
    define t where "t = str[nat i := word_of_int x]"
    have w: "wr str i x = Some t" "wr t i 0 = Some (str[nat i := 0])" using "1.prems" by (simp_all add: wr_def inb_def t_def)
    have "ok (foveon_chars (i + 1) len t b) (\<lambda>(u, _). length u = length str \<and> 0 \<in> set u)" if "c_u8 x \<noteq> 0"
    proof -
      have "length t = length str" by (simp add: t_def)
      then show ?thesis using "1.IH" [OF True x [symmetric] w(1) that] "1.prems" True by simp
    qed
    then show ?thesis using True x w z by (subst foveon_chars.simps) simp
  next
    case False
    then show ?thesis using "1.prems" z by (subst foveon_chars.simps) (simp add: wr_def inb_def)
  qed
qed

lemma foveon_gets_ok:
  "length str = 64 \<Longrightarrow> ok (foveon_gets off str 64 io) (\<lambda>(t, _). length t = 64 \<and> length (c_str t) < 64)"
  unfolding foveon_gets_def
  by (rule ok_mono [OF foveon_chars_ok]) (auto dest: length_c_str)

lemma length_strcpy: "length cs < length arr \<Longrightarrow> length (strcpy cs arr) = length arr"
  by (simp add: strcpy_def bytes_of_def Let_def)

lemma foveon_property_ok:
  assumes "names_ok s" "length val < 64"
  shows "ok (foveon_property name val s) names_ok"
  unfolding foveon_property_def strcpy_c_def
  using assms length_strcpy [of val]
  by (auto simp: names_ok_def set_make_def set_model_def set_model2_def on_g_def Let_def ok_bind_iff)

definition foveon_inv :: "foveon_locals \<times> meta \<Rightarrow> bool" where
  "foveon_inv st \<longleftrightarrow> foveon_fits (fst st) \<and> names_ok (snd st)"

lemma names_ok_image [simp]:
  "names_ok (s\<lparr>load_raw := p, is_foveon := x\<rparr>) = names_ok s"
  "names_ok (s\<lparr>thumb_offset := a, thumb_length := b, write_thumb := w\<rparr>) = names_ok s"
  "names_ok (s\<lparr>thumb_offset := a, thumb_width := b, thumb_height := c\<rparr>) = names_ok s"
  by (simp_all add: names_ok_def)

lemma foveon_image_keeps [simp]:
  "foveon_fits (fst (foveon_image off len st)) = foveon_fits (fst st)"
  "names_ok (snd (foveon_image off len st)) = names_ok (snd st)"
  by (auto simp: foveon_image_def foveon_fits_def Let_def split_beta)

lemma foveon_named_inv:
  assumes st: "foveon_inv st" and i: "0 \<le> i" "i < 256"
  shows "ok (foveon_named i st) foveon_inv"
proof (cases st)
  case (Pair m u)
  then have f: "length (fv_poff m) = 512" "length (fv_name m) = 64" "length (fv_value m) = 64" "names_ok u"
    using st by (simp_all add: foveon_inv_def foveon_fits_def)
  have at: "at (fv_poff m) (2 * i) = Some (fv_poff m ! nat (2 * i))"
    "at (fv_poff m) (2 * i + 1) = Some (fv_poff m ! nat (2 * i + 1))"
    using i f by (simp_all add: at_def inb_def)
  obtain name b where name: "foveon_gets (fv_poff m ! nat (2 * i)) (fv_name m) 64 (io_of u) = Some (name, b)" "length name = 64"
    using foveon_gets_ok [OF f(2), of "fv_poff m ! nat (2 * i)" "io_of u"] by (auto simp: ok_exists)
  obtain val c where val: "foveon_gets (fv_poff m ! nat (2 * i + 1)) (fv_value m) 64 b = Some (val, c)" "length val = 64" "length (c_str val) < 64"
    using foveon_gets_ok [OF f(3), of "fv_poff m ! nat (2 * i + 1)" b] by (auto simp: ok_exists)
  have "names_ok (set_io c u)" using f by simp
  then obtain v where "foveon_property (c_str name) (c_str val) (set_io c u) = Some v" "names_ok v"
    using foveon_property_ok [OF _ val(3)] by (meson ok_exists)
  then show ?thesis
    using Pair at name val f by (simp add: foveon_named_def foveon_inv_def foveon_fits_def)
qed

lemma foveon_prop_inv:
  assumes "foveon_inv st"
  shows "ok (foveon_prop off st) foveon_inv"
proof (cases st)
  case (Pair l s)
  then have l: "foveon_fits l" and s: "names_ok s" using assms by (simp_all add: foveon_inv_def)
  define P where "P = (\<lambda>(poff :: int list, t). length poff = 512 \<and> names_ok t)"
  have read: "ok (for_up 0 n (foveon_offset o1) (fv_poff l, t)) P" if "n \<le> 512" "names_ok t" for n o1 t
    by (rule for_by_wp [where I = P])
      (use that l in \<open>auto simp: P_def foveon_fits_def foveon_offset_def Let_def put_def inb_def split_beta\<close>)
  have names: "ok (for_up 0 n foveon_named (l\<lparr>fv_poff := poff\<rparr>, t)) foveon_inv"
    if "n \<le> 256" "length poff = 512" "names_ok t" for n poff t
    by (rule for_by_wp [where I = foveon_inv])
      (use that l foveon_named_inv in \<open>auto simp: foveon_inv_def foveon_fits_def\<close>)
  show ?thesis
    unfolding foveon_prop_def Pair prod.case Let_def
    by (auto simp: ok_bind_iff split_beta s P_def intro!: ok_mono [OF read] names)
qed

lemma foveon_entry_inv:
  assumes "foveon_inv st"
  shows "ok (foveon_entry st) (\<lambda>r. case r of Inl s \<Rightarrow> names_ok s | Inr st \<Rightarrow> foveon_inv st)"
  using assms unfolding foveon_entry_def
  by (auto simp: ok_bind_iff split_beta Let_def foveon_inv_def intro!: ok_mono [OF foveon_prop_inv])

lemma foveon_entries_ok: "foveon_inv st \<Longrightarrow> ok (foveon_entries n st) names_ok"
proof (induction n arbitrary: st)
  case 0
  then show ?case by (simp add: foveon_inv_def)
next
  case (Suc n)
  show ?case using Suc.IH
    by (auto simp: ok_bind_iff split: sum.splits intro!: ok_mono [OF foveon_entry_inv [OF Suc.prems]])
qed

text \<open>
  C37: \<open>parse_foveon\<close> returns for every file and never leaves its arrays: the number of properties is cut to
  what \<open>poff\<close> holds, every name and value is ended by a zero inside its 64 bytes, so that it fits into the
  arrays of 64 bytes for make and model.
\<close>

theorem parse_foveon_never_faults:
  assumes "length (make_arr s) = 64" "length (model_arr s) = 64" "length (model2_arr s) = 64"
  shows "\<exists>t. parse_foveon s = Some t \<and> length (make_arr t) = 64 \<and> length (model_arr t) = 64 \<and> length (model2_arr t) = 64"
proof -
  have "names_ok s" using assms by (simp add: names_ok_def)
  then have "ok (parse_foveon s) names_ok"
    unfolding parse_foveon_def
    by (auto simp: split_beta Let_def foveon_inv_def foveon_fits_def intro!: foveon_entries_ok)
  then show ?thesis by (auto simp: ok_exists names_ok_def)
qed

theorem parse_foveon_never_faults_witness:
  "\<forall>s0. \<exists>t. parse_foveon (set_io (open_file [1, 2, 3]) (s0\<lparr>make_arr := replicate 64 7, model_arr := replicate 64 0,
      model2_arr := replicate 64 255\<rparr>)) = Some t \<and> length (make_arr t) = 64"
proof
  fix s0
  show "\<exists>t. parse_foveon (set_io (open_file [1, 2, 3]) (s0\<lparr>make_arr := replicate 64 7, model_arr := replicate 64 0,
      model2_arr := replicate 64 255\<rparr>)) = Some t \<and> length (make_arr t) = 64"
    using parse_foveon_never_faults [of "set_io (open_file [1, 2, 3]) (s0\<lparr>make_arr := replicate 64 7,
      model_arr := replicate 64 0, model2_arr := replicate 64 255\<rparr>)"]
    by (auto simp: set_io_def)
qed

end
