(* ===== verification/Ciff.thy ===== *)
theory Ciff
  imports Foveon
begin

text \<open>
  \<open>parse_ciff\<close>: the heap of records of a Canon CRW file, with its sub-tables.
\<close>

section \<open>Records\<close>

text \<open>
  The locals of a table: the index of the white balance and the two keys. The strings are indexed by the
  white balance; their terminating zero belongs to them.
\<close>

record ciff_locals =
  cf_wbi :: int
  cf_key :: "int list"

definition c_chars :: "string \<Rightarrow> int list" where
  "c_chars cs = map of_char cs @ [0]"

text \<open>\<open>strlen\<close> and \<open>strstr\<close> on an array of 64 bytes that holds no zero read behind it.\<close>

definition ended :: "u8 list \<Rightarrow> bool" where
  "ended arr \<longleftrightarrow> 0 \<in> set arr"

text \<open>\<open>FORC4 cam_mul[p(c)] = get2()\<close>, with something done to every value.\<close>

definition cam_mul_get2 :: "(int \<Rightarrow> int) \<Rightarrow> (int \<Rightarrow> int \<Rightarrow> real_c) \<Rightarrow> meta \<Rightarrow> meta" where
  "cam_mul_get2 p h s =
     fold (\<lambda>c s. case rd_io get2 s of (x, s) \<Rightarrow> s\<lparr>cam_mul := (cam_mul s)[nat (p c) := h c x]\<rparr>) [0, 1, 2, 3] s"

definition ciff_names :: "meta \<Rightarrow> meta option" where
  "ciff_names s =
     (let (bs, s) = rd_io (fread 64) s; s = set_make (overlay_bytes bs (make_arr s)) s
      in if \<not> ended (make_arr s) then None
         else
           let s = on_io (fseek_cur (int (length (c_str (make_arr s))) - 63)) s;
               (bs, s) = rd_io (fread 64) s
           in Some (set_model (overlay_bytes bs (model_arr s)) s))"

definition ciff_size :: "meta \<Rightarrow> meta" where
  "ciff_size s =
     (let (w, s) = rd_io get4 s; (h, s) = rd_io get4 s; (a, s) = rd_io get4 s; (f, s) = rd_io get4 s
      in on_g (\<lambda>g. g\<lparr>width := c_u16 w, height := c_u16 h\<rparr>) (s\<lparr>pixel_aspect := Float_bits a, mflip := f\<rparr>))"

text \<open>The record of the shot: \<open>if (shutter > 1e6) shutter = get2()/10.0\<close> asks for the order of two floats.\<close>

definition ciff_shot :: "fp_ops \<Rightarrow> ciff_locals \<times> meta \<Rightarrow> ciff_locals \<times> meta" where
  "ciff_shot fp = (\<lambda>(l, s).
     (let (_, s) = rd_io get4 s;
          (i, s) = rd_io get2 s;
          s = s\<lparr>iso_speed := Product (Pow2 (Sum (Quotient (Of_int i) (Of_int 32)) (Of_int (-4)))) (Of_int 50)\<rparr>;
          (_, s) = rd_io get2 s;
          (a, s) = rd_io get2 s;
          s = s\<lparr>aperture := Pow2 (Quotient (Of_int (c_s16 a)) (Of_int 64))\<rparr>;
          (t, s) = rd_io get2 s;
          s = s\<lparr>mshutter := Pow2 (Quotient (Of_int (- c_s16 t)) (Of_int 32))\<rparr>;
          (_, s) = rd_io get2 s;
          (w, s) = rd_io get2 s;
          s = on_io (fseek_cur 32) s;
          s = (if fp_less fp (Of_int 1000000) (mshutter s)
               then case rd_io get2 s of (x, s) \<Rightarrow> s\<lparr>mshutter := Quotient (Of_int x) (Of_int 10)\<rparr> else s)
      in (l\<lparr>cf_wbi := (if w > 17 then 0 else w)\<rparr>, s)))"

definition ciff_wb_g1 :: "meta \<Rightarrow> meta" where
  "ciff_wb_g1 s =
     (case rd_io get2 s of (x, s) \<Rightarrow>
        if x > 512 then cam_mul_get2 (\<lambda>c. c XOR 2) (\<lambda>c. Of_int) (on_io (fseek_cur 118) s)
        else cam_mul_get2 (\<lambda>c. c XOR shr c 1 XOR 1) (\<lambda>c. Of_int) (on_io (fseek_cur 98) s))"

definition own_wb :: "ciff_locals \<Rightarrow> meta \<Rightarrow> meta" where
  "own_wb l s = (if cf_wbi l = 0 then s\<lparr>cam_mul := (cam_mul s)[0 := Of_int (-1)]\<rparr> else s)"

text \<open>White balances that are told apart by the first word: Pro1 and G6 are scrambled with the keys.\<close>

definition ciff_wb :: "fp_ops \<Rightarrow> int \<Rightarrow> ciff_locals \<times> meta \<Rightarrow> (ciff_locals \<times> meta) option" where
  "ciff_wb fp len = (\<lambda>(l, s).
     if len = 768 then
       let s = cam_mul_get2 (\<lambda>c. c XOR shr c 1) (\<lambda>c x. Quotient (Of_int 1024) (Of_int x)) (on_io (fseek_cur 72) s)
       in Some (l, own_wb l s)
     else if fp_nonzero fp (cam_mul s ! 0) then Some (l, s)
     else do {
       let (x, s) = rd_io get2 s;
       (c, l) \<leftarrow> (if x = cf_key l ! 0 then
            if \<not> ended (model_arr s) then None
            else do {
              c \<leftarrow> at (c_chars (if strstr (c_str (model_arr s)) ''Pro1'' then ''012346000000000000'' else ''01345:000000006008'')) (cf_wbi l);
              Some (c - 48 + 2, l) }
          else do {
              c \<leftarrow> at (c_chars ''023457000000006000'') (cf_wbi l);
              Some (c - 48, l\<lparr>cf_key := [0, 0]\<rparr>) });
       let s = on_io (fseek_cur (78 + c * 8)) s;
       let s = cam_mul_get2 (\<lambda>c. c XOR shr c 1 XOR 1) (\<lambda>c x. Of_int (x XOR cf_key l ! nat (c AND 1))) s;
       Some (l, own_wb l s) })"

definition ciff_wb_d60 :: "int \<Rightarrow> ciff_locals \<times> meta \<Rightarrow> (ciff_locals \<times> meta) option" where
  "ciff_wb_d60 len = (\<lambda>(l, s). do {
     wbi \<leftarrow> (if len > 66 then do { c \<leftarrow> at (c_chars ''0134567028'') (cf_wbi l); Some (c - 48) } else Some (cf_wbi l));
     let s = on_io (fseek_cur (2 + wbi * 8)) s;
     Some (l\<lparr>cf_wbi := wbi\<rparr>, cam_mul_get2 (\<lambda>c. c XOR shr c 1) (\<lambda>c. Of_int) s) })"

text \<open>Records of the types whose value is the length field itself.\<close>

definition ciff_value :: "int \<Rightarrow> int \<Rightarrow> meta \<Rightarrow> meta" where
  "ciff_value type len s =
     (if type = 0x5029 then
        let f = Of_int (shr len 16)
        in s\<lparr>focal_len := (if len AND 0xffff = 2 then Quotient f (Of_int 32) else f)\<rparr>
      else if type = 0x5813 then s\<lparr>flash_used := Float_bits (c_u32 len)\<rparr>
      else if type = 0x5814 then s\<lparr>canon_ev := Float_bits (c_u32 len)\<rparr>
      else if type = 0x5817 then s\<lparr>shot_order := c_u32 len\<rparr>
      else if type = 0x5834 then on_g (unique_id_update (\<lambda>_. c_u32 len)) s
      else if type = 0x580e then s\<lparr>timestamp := len\<rparr>
      else s)"

text \<open>
  What a record of a type does, the sub-tables apart. The code tests the types one after the other; they
  exclude each other.
\<close>

definition ciff_action :: "fp_ops \<Rightarrow> int \<Rightarrow> int \<Rightarrow> ciff_locals \<times> meta \<Rightarrow> (ciff_locals \<times> meta) option" where
  "ciff_action fp type len = (\<lambda>(l, s).
     if type = 0x0810 then case rd_io (fread 64) s of (bs, s) \<Rightarrow> Some (l, s\<lparr>artist := overlay_bytes bs (artist s)\<rparr>)
     else if type = 0x080a then do { s \<leftarrow> ciff_names s; Some (l, s) }
     else if type = 0x1810 then Some (l, ciff_size s)
     else if type = 0x1835 then case rd_io get4 s of (x, s) \<Rightarrow> Some (l, on_g (tiff_compress_update (\<lambda>_. x)) s)
     else if type = 0x2007 then Some (l, s\<lparr>thumb_offset := ipos (io_of s), thumb_length := c_u32 len\<rparr>)
     else if type = 0x1818 then
       let (_, s) = rd_io get4 s; (t, s) = rd_io get4 s; (a, s) = rd_io get4 s
       in Some (l, s\<lparr>mshutter := Pow2 (Negative (Float_bits t)), aperture := Pow2 (Quotient (Float_bits a) (Of_int 2))\<rparr>)
     else if type = 0x102a then Some (ciff_shot fp (l, s))
     else if type = 0x102c then Some (l, ciff_wb_g1 s)
     else if type = 0x0032 then ciff_wb fp len (l, s)
     else if type = 0x10a9 then ciff_wb_d60 len (l, s)
     else if type = 0x1030 then
       if shr_i 0x18040 (cf_wbi l) AND 1 \<noteq> 0 then do { s \<leftarrow> ciff_block_1030 s; Some (l, s) } else Some (l, s)
     else if type = 0x1031 then
       let (_, s) = rd_io get2 s; (w, s) = rd_io get2 s; (h, s) = rd_io get2 s
       in Some (l, on_g (\<lambda>g. g\<lparr>raw_width := w, raw_height := h\<rparr>) s)
     else if type = 0x180e then case rd_io get4 s of (x, s) \<Rightarrow> Some (l, s\<lparr>timestamp := x\<rparr>)
     else Some (l, ciff_value type len s))"

section \<open>Tables\<close>

definition ciff_record :: "fp_ops \<Rightarrow> int \<Rightarrow> (int \<Rightarrow> int \<Rightarrow> meta \<Rightarrow> meta option) \<Rightarrow> ciff_locals \<times> meta
    \<Rightarrow> (ciff_locals \<times> meta) option" where
  "ciff_record fp offset table = (\<lambda>(l, s). do {
     let (type, s) = rd_io get2 s;
     let (len, s) = rd_io get4 s;
     let len = c_s32 len;
     let save = c_s32 (ipos (io_of s) + 4);
     let (x, s) = rd_io get4 s;
     let s = on_io (fseek_set (c_u32 (offset + x))) s;
     s \<leftarrow> (if (shr type 8 + 8) OR 8 = 0x38 then table (c_s32 (ipos (io_of s))) len s else Some s);
     (l, s) \<leftarrow> ciff_action fp type len (l, s);
     Some (l, on_io (fseek_set save) s) })"

lemma repeat_opt_cong [fundef_cong]:
  "n = m \<Longrightarrow> s = t \<Longrightarrow> (\<And>x. f x = g x) \<Longrightarrow> repeat_opt n f s = repeat_opt m g t"
  by (metis ext)

lemma ciff_record_cong [fundef_cong]:
  "st = st' \<Longrightarrow> (\<And>p l s. f p l s = g p l s) \<Longrightarrow> ciff_record fp off f st = ciff_record fp off g st'"
  by (metis ext)

text \<open>A table may hold tables; the depth is limited, so that the recursion ends.\<close>

function parse_ciff :: "fp_ops \<Rightarrow> int \<Rightarrow> int \<Rightarrow> int \<Rightarrow> meta \<Rightarrow> meta option" where
  "parse_ciff fp offset len depth s =
     (let s = on_io (fseek_set (c_s32 (offset + len - 4))) s;
          (x, s) = rd_io get4 s;
          s = on_io (fseek_set (c_s32 (x + offset))) s;
          (nrecs, s) = rd_io get2 s
      in if nrecs OR depth > 127 then Some s
         else do {
           (l, s) \<leftarrow> repeat_opt (nat nrecs) (\<lambda>st. ciff_record fp offset (\<lambda>p l s. parse_ciff fp p l (depth + 1) s) st)
             (\<lparr>cf_wbi = -1, cf_key = [0x410, 0x45f3]\<rparr>, s);
           Some s })"
  by pat_completeness auto
termination
  apply (relation "measure (\<lambda>(fp, off, len, depth, s). nat (128 - depth))")
  subgoal by simp
  subgoal premises p for fp offset len depth s s1 r x s2 s3 r' nrecs s4
  proof -
    have "0 \<le> nrecs" using p(6,5) get2_range [of "io_of s3"] by (auto simp: rd_io_def split: prod.splits)
    then have "depth \<le> depth OR nrecs" by (rule or_greater_eq)
    then show ?thesis using p(7) by (simp add: or.commute)
  qed
  done

declare parse_ciff.simps [simp del]

section \<open>The index of the white balance\<close>

lemma at_c_chars: "at (c_chars cs) i = None \<longleftrightarrow> i < 0 \<or> int (length cs) < i"
  by (auto simp: at_def inb_def c_chars_def)

lemma ciff_shot_wbi: "0 \<le> cf_wbi (fst (ciff_shot fp st)) \<and> cf_wbi (fst (ciff_shot fp st)) \<le> 17"
proof -
  have "0 \<le> fst (rd_io get2 s)" for s
    using get2_range [of "io_of s"] by (auto simp: rd_io_def split: prod.splits)
  then show ?thesis by (simp add: ciff_shot_def split_beta Let_def)
qed


end
