(* ===== verification/Makernote.thy ===== *)
theory Makernote
  imports Ciff
begin

text \<open>
  \<open>parse_makernote\<close>: the notes of the camera makers inside the EXIF data, with the white balances, some of
  them scrambled, that the makers hide there. A note can hold a TIFF directory and another note, so that
  the parsers of both are arguments.
\<close>

section \<open>Tables\<close>

definition xlat_0 :: "u8 list" where
  "xlat_0 = [
     0xc1, 0xbf, 0x6d, 0x0d, 0x59, 0xc5, 0x13, 0x9d, 0x83, 0x61, 0x6b, 0x4f, 0xc7, 0x7f, 0x3d, 0x3d,
     0x53, 0x59, 0xe3, 0xc7, 0xe9, 0x2f, 0x95, 0xa7, 0x95, 0x1f, 0xdf, 0x7f, 0x2b, 0x29, 0xc7, 0x0d,
     0xdf, 0x07, 0xef, 0x71, 0x89, 0x3d, 0x13, 0x3d, 0x3b, 0x13, 0xfb, 0x0d, 0x89, 0xc1, 0x65, 0x1f,
     0xb3, 0x0d, 0x6b, 0x29, 0xe3, 0xfb, 0xef, 0xa3, 0x6b, 0x47, 0x7f, 0x95, 0x35, 0xa7, 0x47, 0x4f,
     0xc7, 0xf1, 0x59, 0x95, 0x35, 0x11, 0x29, 0x61, 0xf1, 0x3d, 0xb3, 0x2b, 0x0d, 0x43, 0x89, 0xc1,
     0x9d, 0x9d, 0x89, 0x65, 0xf1, 0xe9, 0xdf, 0xbf, 0x3d, 0x7f, 0x53, 0x97, 0xe5, 0xe9, 0x95, 0x17,
     0x1d, 0x3d, 0x8b, 0xfb, 0xc7, 0xe3, 0x67, 0xa7, 0x07, 0xf1, 0x71, 0xa7, 0x53, 0xb5, 0x29, 0x89,
     0xe5, 0x2b, 0xa7, 0x17, 0x29, 0xe9, 0x4f, 0xc5, 0x65, 0x6d, 0x6b, 0xef, 0x0d, 0x89, 0x49, 0x2f,
     0xb3, 0x43, 0x53, 0x65, 0x1d, 0x49, 0xa3, 0x13, 0x89, 0x59, 0xef, 0x6b, 0xef, 0x65, 0x1d, 0x0b,
     0x59, 0x13, 0xe3, 0x4f, 0x9d, 0xb3, 0x29, 0x43, 0x2b, 0x07, 0x1d, 0x95, 0x59, 0x59, 0x47, 0xfb,
     0xe5, 0xe9, 0x61, 0x47, 0x2f, 0x35, 0x7f, 0x17, 0x7f, 0xef, 0x7f, 0x95, 0x95, 0x71, 0xd3, 0xa3,
     0x0b, 0x71, 0xa3, 0xad, 0x0b, 0x3b, 0xb5, 0xfb, 0xa3, 0xbf, 0x4f, 0x83, 0x1d, 0xad, 0xe9, 0x2f,
     0x71, 0x65, 0xa3, 0xe5, 0x07, 0x35, 0x3d, 0x0d, 0xb5, 0xe9, 0xe5, 0x47, 0x3b, 0x9d, 0xef, 0x35,
     0xa3, 0xbf, 0xb3, 0xdf, 0x53, 0xd3, 0x97, 0x53, 0x49, 0x71, 0x07, 0x35, 0x61, 0x71, 0x2f, 0x43,
     0x2f, 0x11, 0xdf, 0x17, 0x97, 0xfb, 0x95, 0x3b, 0x7f, 0x6b, 0xd3, 0x25, 0xbf, 0xad, 0xc7, 0xc5,
     0xc5, 0xb5, 0x8b, 0xef, 0x2f, 0xd3, 0x07, 0x6b, 0x25, 0x49, 0x95, 0x25, 0x49, 0x6d, 0x71, 0xc7]"

definition xlat_1 :: "u8 list" where
  "xlat_1 = [
     0xa7, 0xbc, 0xc9, 0xad, 0x91, 0xdf, 0x85, 0xe5, 0xd4, 0x78, 0xd5, 0x17, 0x46, 0x7c, 0x29, 0x4c,
     0x4d, 0x03, 0xe9, 0x25, 0x68, 0x11, 0x86, 0xb3, 0xbd, 0xf7, 0x6f, 0x61, 0x22, 0xa2, 0x26, 0x34,
     0x2a, 0xbe, 0x1e, 0x46, 0x14, 0x68, 0x9d, 0x44, 0x18, 0xc2, 0x40, 0xf4, 0x7e, 0x5f, 0x1b, 0xad,
     0x0b, 0x94, 0xb6, 0x67, 0xb4, 0x0b, 0xe1, 0xea, 0x95, 0x9c, 0x66, 0xdc, 0xe7, 0x5d, 0x6c, 0x05,
     0xda, 0xd5, 0xdf, 0x7a, 0xef, 0xf6, 0xdb, 0x1f, 0x82, 0x4c, 0xc0, 0x68, 0x47, 0xa1, 0xbd, 0xee,
     0x39, 0x50, 0x56, 0x4a, 0xdd, 0xdf, 0xa5, 0xf8, 0xc6, 0xda, 0xca, 0x90, 0xca, 0x01, 0x42, 0x9d,
     0x8b, 0x0c, 0x73, 0x43, 0x75, 0x05, 0x94, 0xde, 0x24, 0xb3, 0x80, 0x34, 0xe5, 0x2c, 0xdc, 0x9b,
     0x3f, 0xca, 0x33, 0x45, 0xd0, 0xdb, 0x5f, 0xf5, 0x52, 0xc3, 0x21, 0xda, 0xe2, 0x22, 0x72, 0x6b,
     0x3e, 0xd0, 0x5b, 0xa8, 0x87, 0x8c, 0x06, 0x5d, 0x0f, 0xdd, 0x09, 0x19, 0x93, 0xd0, 0xb9, 0xfc,
     0x8b, 0x0f, 0x84, 0x60, 0x33, 0x1c, 0x9b, 0x45, 0xf1, 0xf0, 0xa3, 0x94, 0x3a, 0x12, 0x77, 0x33,
     0x4d, 0x44, 0x78, 0x28, 0x3c, 0x9e, 0xfd, 0x65, 0x57, 0x16, 0x94, 0x6b, 0xfb, 0x59, 0xd0, 0xc8,
     0x22, 0x36, 0xdb, 0xd2, 0x63, 0x98, 0x43, 0xa1, 0x04, 0x87, 0x86, 0xf7, 0xa6, 0x26, 0xbb, 0xd6,
     0x59, 0x4d, 0xbf, 0x6a, 0x2e, 0xaa, 0x2b, 0xef, 0xe6, 0x78, 0xb6, 0x4e, 0xe0, 0x2f, 0xdc, 0x7c,
     0xbe, 0x57, 0x19, 0x32, 0x7e, 0x2a, 0xd0, 0xb8, 0xba, 0x29, 0x00, 0x3c, 0x52, 0x7d, 0xa8, 0x49,
     0x3b, 0x2d, 0xeb, 0x25, 0x49, 0xfa, 0xa3, 0xaa, 0x39, 0xa7, 0xc5, 0xa7, 0x50, 0x11, 0x36, 0xfb,
     0xc6, 0x67, 0x4a, 0xf5, 0xa5, 0x12, 0x65, 0x7e, 0xb0, 0xdf, 0xaf, 0x4e, 0xb3, 0x61, 0x7f, 0x2f]"

section \<open>State\<close>

text \<open>
  The locals that live on from one entry of a note to the next: the base of its offsets, its byte order,
  the version and the bytes of a scrambled white balance, the serial number, the index of the white
  balance, and the text at its begin.
\<close>

record note_locals =
  nt_base :: int
  nt_morder :: int
  nt_ver97 :: int
  nt_serial :: int
  nt_wbi :: int
  nt_buf97 :: "u8 list"
  nt_buf :: "u8 list"

text \<open>
  A parser of TIFF directories takes the base of its offsets and the state: \<open>tiff_nifds\<close>, the number of
  directories so far, and the other globals.
\<close>

type_synonym tiff_globals = "int \<times> meta"
type_synonym tiff_parser = "int \<Rightarrow> tiff_globals \<Rightarrow> (bool \<times> tiff_globals) option"

text \<open>Assignments to the elements of \<open>cam_mul\<close>, and to the first black levels (\<open>ushort\<close>).\<close>

definition set_mul :: "int \<Rightarrow> real_c \<Rightarrow> meta \<Rightarrow> meta" where
  "set_mul i x s = s\<lparr>cam_mul := (cam_mul s)[nat i := x]\<rparr>"

definition set_black :: "int \<Rightarrow> int \<Rightarrow> meta \<Rightarrow> meta" where
  "set_black i x = on_d (\<lambda>t. t\<lparr>cblack := (cblack t)[nat i := word_of_int x]\<rparr>)"

text \<open>\<open>FORC4 f(c, get())\<close>.\<close>

definition forc :: "int list \<Rightarrow> (bitio \<Rightarrow> 'a \<times> bitio) \<Rightarrow> (int \<Rightarrow> 'a \<Rightarrow> meta \<Rightarrow> meta) \<Rightarrow> meta \<Rightarrow> meta" where
  "forc cs get f s = fold (\<lambda>c s. case rd_io get s of (x, s) \<Rightarrow> f c x s) cs s"

abbreviation forc4 :: "(bitio \<Rightarrow> 'a \<times> bitio) \<Rightarrow> (int \<Rightarrow> 'a \<Rightarrow> meta \<Rightarrow> meta) \<Rightarrow> meta \<Rightarrow> meta" where
  "forc4 \<equiv> forc [0, 1, 2, 3]"

abbreviation forc3 :: "(bitio \<Rightarrow> 'a \<times> bitio) \<Rightarrow> (int \<Rightarrow> 'a \<Rightarrow> meta \<Rightarrow> meta) \<Rightarrow> meta \<Rightarrow> meta" where
  "forc3 \<equiv> forc [0, 1, 2]"

text \<open>Values that are read and thrown away.\<close>

definition drop_io :: "(bitio \<Rightarrow> 'a \<times> bitio) \<Rightarrow> meta \<Rightarrow> meta" where
  "drop_io get s = snd (rd_io get s)"

abbreviation seek_cur :: "int \<Rightarrow> meta \<Rightarrow> meta" where
  "seek_cur n \<equiv> on_io (fseek_cur n)"

abbreviation seek_set :: "int \<Rightarrow> meta \<Rightarrow> meta" where
  "seek_set n \<equiv> on_io (fseek_set n)"

abbreviation tell :: "meta \<Rightarrow> int" where
  "tell s \<equiv> ipos (io_of s)"

abbreviation note_strcmp :: "note_locals \<Rightarrow> string \<Rightarrow> bool" where
  "note_strcmp l lit \<equiv> c_str (nt_buf l) = lit"

abbreviation note_strncmp :: "note_locals \<Rightarrow> string \<Rightarrow> bool" where
  "note_strncmp l lit \<equiv> strncmp_eq (c_str (nt_buf l)) lit"

section \<open>The head of a note\<close>

text \<open>
  A note is left at once, or by way of \<open>quit\<close>, which restores the byte order, or it is a table.
\<close>

datatype note_head = Leave meta | Quit meta | Table note_locals meta

text \<open>
  Old Konica and Minolta notes are searched for a white balance, word by word up to the raw data. At the
  end of the file the position stays, so that a search that has not met its end before never ends.
\<close>

partial_function (option) note_konica :: "int list \<Rightarrow> meta \<Rightarrow> meta option" where
  "note_konica wb s =
     (if c_u32 (tell s) < data_offset (tg s) \<and> c_u32 (tell s) < 16384 then
        case rd_io get2 s of (x, s) \<Rightarrow>
          let wb = [wb ! 2, wb ! 3, wb ! 1, x];
              s = (if wb ! 1 = 256 \<and> wb ! 3 = 256 \<and> wb ! 0 > 256 \<and> wb ! 0 < 640 \<and> wb ! 2 > 256 \<and> wb ! 2 < 640
                   then s\<lparr>cam_mul := map Of_int wb\<rparr> else s)
          in note_konica wb s
      else Some s)"

definition note_base :: "int \<Rightarrow> note_locals \<Rightarrow> meta \<Rightarrow> note_head" where
  "note_base base l s =
     (let nf = (\<lambda>l s. Table l (seek_cur 2 (set_order 0x4949 s))) in
      if note_strcmp l ''Nikon'' then
        let l = l\<lparr>nt_base := c_s32 (tell s)\<rparr>;
            (x, s) = rd_io get2 s;
            (y, s) = rd_io get2 (set_order x s)
        in if y \<noteq> 42 then Quit s
           else let (off, s) = rd_io get4 s in Table l (seek_cur (c_u32 (off - 8)) s)
      else if note_strcmp l ''OLYMPUS'' \<or> note_strcmp l ''PENTAX '' then
        let l = l\<lparr>nt_base := c_s32 (tell s - 10)\<rparr>;
            (x, s) = rd_io get2 (seek_cur (-2) s);
            s = set_order x s
        in Table l (if nt_buf l ! 0 = 79 then drop_io get2 s else s)
      else if note_strncmp l ''SONY'' \<or> note_strcmp l ''Panasonic'' then nf l s
      else if note_strncmp l ''FUJIFILM'' then nf (l\<lparr>nt_base := c_s32 (tell s - 10)\<rparr>) s
      else if note_strcmp l ''OLYMP'' \<or> note_strcmp l ''LEICA'' \<or> note_strcmp l ''Ricoh'' \<or> note_strcmp l ''EPSON''
        then Table l (seek_cur (-2) s)
      else if note_strcmp l ''AOC'' \<or> note_strcmp l ''QVC'' then Table l (seek_cur (-4) s)
      else
        let s = seek_cur (-10) s
        in Table (if strncmp_eq (cam_make (tg s)) ''SAMSUNG'' then l\<lparr>nt_base := c_s32 (tell s)\<rparr> else l) s)"

definition note_head :: "int \<Rightarrow> meta \<Rightarrow> note_head option" where
  "note_head base s =
     (if cam_make (tg s) = ''Nokia'' then Some (Leave s)
      else
        let (bs, s) = rd_io (fread 10) s;
            l = \<lparr>nt_base = base, nt_morder = 0, nt_ver97 = 0, nt_serial = 0, nt_wbi = 0,
                 nt_buf97 = uninit (tg s) 324, nt_buf = overlay_bytes bs (uninit (tg s) 10)\<rparr>
        in if note_strncmp l ''KDK'' \<or> note_strncmp l ''VER'' \<or> note_strncmp l ''IIII'' \<or> note_strncmp l ''MMMM''
           then Some (Leave s)
           else if note_strncmp l ''KC'' \<or> note_strncmp l ''MLY'' then do {
             s \<leftarrow> note_konica [0, 0, 0, 0] (set_order 0x4d4d s);
             Some (Quit s) }
           else Some (note_base base l s))"

section \<open>The entries of a note\<close>

text \<open>The shot data of Canon, with short values as exponents.\<close>

definition note_shot :: "fp_ops \<Rightarrow> note_locals \<Rightarrow> meta \<Rightarrow> note_locals \<times> meta" where
  "note_shot fp l s =
     (let (i, s) = rd_io get2 (drop_io get4 s);
          s = (if i \<noteq> 0x7fff \<and> \<not> fp_nonzero fp (iso_speed s)
               then s\<lparr>iso_speed := Product (Of_int 50) (Pow2 (Sum (Quotient (Of_int i) (Of_int 32)) (Of_int (-4))))\<rparr> else s);
          (i, s) = rd_io get2 (drop_io get2 s);
          s = (if i \<noteq> 0x7fff \<and> \<not> fp_nonzero fp (aperture s)
               then s\<lparr>aperture := Pow2 (Quotient (Of_int i) (Of_int 64))\<rparr> else s);
          (i, s) = rd_io get2 s;
          s = (if i \<noteq> 0xffff \<and> \<not> fp_nonzero fp (mshutter s)
               then let x = Pow2 (Quotient (Of_int (c_s16 i)) (Of_int (-32))) in s\<lparr>mshutter := x, tshutter := fp_float fp x\<rparr>
               else s);
          (w, s) = rd_io get2 (drop_io get2 s);
          (n, s) = rd_io get2 (drop_io get2 s)
      in (l\<lparr>nt_wbi := w\<rparr>, s\<lparr>shot_order := n\<rparr>))"

text \<open>
  The orientation that some cameras hide behind a marker. Both loops count with \<open>unsigned\<close> numbers; the
  second never ends when \<open>len - 5\<close> wraps and no 257 is found.
\<close>

function note_marker :: "int \<Rightarrow> int \<Rightarrow> int \<Rightarrow> meta \<Rightarrow> int \<times> meta" where
  "note_marker len i c s =
     (if c_u16 c \<noteq> 0xbbbb \<and> i < len then
        case rd_io fgetc s of (x, s) \<Rightarrow> note_marker len (i + 1) (c_u32 (shl c 8 OR x)) s
      else (i, s))"
  by pat_completeness auto
termination
  by (relation "measure (\<lambda>(len, i, c, s). nat (len - i))") auto

partial_function (option) note_flip_search :: "int \<Rightarrow> int \<Rightarrow> meta \<Rightarrow> meta option" where
  "note_flip_search len i s =
     (let i = c_u32 (i + 4) in
      if i < c_u32 (len - 5) then
        case rd_io get4 s of (x, s) \<Rightarrow>
          if x = 257 \<and> len = 0 then note_flip_search len len s
          else if x = 257 then
            let (c, s) = rd_io fgetc (drop_io get4 s);
                s = (if 0 \<le> c \<and> c < 3 then s\<lparr>mflip := [0, 6, 5] ! nat c\<rparr> else s)
            in note_flip_search len len s
          else note_flip_search len i s
      else Some s)"

definition konica_flip :: "int \<Rightarrow> meta \<Rightarrow> meta" where
  "konica_flip tag s =
     (case rd_io get2 (seek_cur (if tag = 4 then 140 else 160) s) of (x, s) \<Rightarrow>
        if x = 72 then s\<lparr>mflip := 0\<rparr> else if x = 76 then s\<lparr>mflip := 6\<rparr>
        else if x = 82 then s\<lparr>mflip := 5\<rparr> else s)"

text \<open>The entries up to the one that holds a TIFF directory.\<close>

definition note_first :: "fp_ops \<Rightarrow> int \<Rightarrow> int \<Rightarrow> int \<Rightarrow> note_locals \<times> meta \<Rightarrow> (note_locals \<times> meta) option" where
  "note_first fp tag type len = (\<lambda>(l, s). do {
     let s = (if tag = 2 \<and> strstr (cam_make (tg s)) ''NIKON'' \<and> \<not> fp_nonzero fp (iso_speed s)
              then case rd_io get2 (drop_io get2 s) of (x, s) \<Rightarrow> s\<lparr>iso_speed := Of_int x\<rparr> else s);
     let (l, s) = (if tag = 4 \<and> len > 26 \<and> len < 35 then note_shot fp l s else (l, s));
     let s = (if (tag = 4 \<or> tag = 0x114) \<and> strncmp_eq (cam_make (tg s)) ''KONICA'' then konica_flip tag s else s);
     s \<leftarrow> (if tag = 7 \<and> type = 2 \<and> len > 20
           then do { (a, b) \<leftarrow> fgets (model2_arr s) 64 (io_of s); Some (set_model2 a (set_io b s)) } else Some s);
     let s = (if tag = 8 \<and> type = 4 then case rd_io get4 s of (x, s) \<Rightarrow> s\<lparr>shot_order := x\<rparr> else s);
     let s = (if tag = 9 \<and> cam_make (tg s) = ''Canon''
              then case rd_io (fread 64) s of (bs, s) \<Rightarrow> s\<lparr>artist := overlay_bytes bs (artist s)\<rparr> else s);
     let s = (if tag = 0xc \<and> len = 4 then forc3 (getreal type) (\<lambda>c. set_mul ((shl c 1 OR shr c 1) AND 3)) s else s);
     s \<leftarrow> (if tag = 0xd \<and> type = 7 then
              case rd_io get2 s of (x, s) \<Rightarrow>
                if x = 0xaaaa then case note_marker len 2 2 s of (i, s) \<Rightarrow> note_flip_search len i s else Some s
            else Some s);
     let s = (if tag = 0x10 \<and> type = 4 then case rd_io get4 s of (x, s) \<Rightarrow> on_g (unique_id_update (\<lambda>_. x)) s else s);
     Some (l, s) })"

definition note_directory :: "tiff_parser \<Rightarrow> int \<Rightarrow> note_locals \<Rightarrow> tiff_globals \<Rightarrow> tiff_globals option" where
  "note_directory ifd tag l = (\<lambda>(n, s).
     if tag = 0x11 \<and> is_raw (tg s) \<noteq> 0 \<and> strncmp_eq (cam_make (tg s)) ''NIKON'' then
       case rd_io get4 s of (x, s) \<Rightarrow> do {
         (_, ns) \<leftarrow> ifd (nt_base l) (n, seek_set (c_u32 (x + nt_base l)) s);
         Some ns }
     else Some (n, s))"

text \<open>The white balance of Nikon's NRW files; the text at the begin of the note is overwritten.\<close>

definition note_nrw :: "note_locals \<Rightarrow> meta \<Rightarrow> note_locals \<times> meta" where
  "note_nrw l s =
     (let (bs, s) = rd_io (fread 10) s;
          l = l\<lparr>nt_buf := overlay_bytes bs (nt_buf l)\<rparr>
      in if note_strncmp l ''NRW '' then
           let s = seek_cur (if c_str (drop 4 (nt_buf l)) = ''0100'' then 1546 else 46) s;
               (a, s) = rd_io get4 s;
               (b, s) = rd_io get4 s;
               (c, s) = rd_io get4 s;
               (d, s) = rd_io get4 s
           in (l, set_mul 2 (Of_int (c_u32 (shl d 2))) (set_mul 1 (Of_int (c_u32 (b + c))) (set_mul 0 (Of_int (c_u32 (shl a 2))) s)))
         else (l, s))"

text \<open>\<open>get2_256\<close>, the end of three kinds of entries.\<close>

definition get2_256 :: "meta \<Rightarrow> meta" where
  "get2_256 s =
     (let (a, s) = rd_io get2 (set_order 0x4d4d s);
          (b, s) = rd_io get2 s
      in set_mul 2 (Quotient (Of_int b) (Of_int 256)) (set_mul 0 (Quotient (Of_int a) (Of_int 256)) s))"

text \<open>The digits of a serial number, up to a zero byte or the end of the file.\<close>

function note_serial :: "int \<Rightarrow> meta \<Rightarrow> int \<times> meta" where
  "note_serial n s =
     (case rd_io fgetc s of (c, t) \<Rightarrow>
        if c = 0 \<or> c = -1 then (n, t)
        else note_serial (c_u32 (n * 10 + (if 48 \<le> c \<and> c \<le> 57 then c - 48 else c mod 10))) t)"
  by pat_completeness auto
termination
  by (relation "measure (\<lambda>(n, s). nat (int (length (ifile (io_of s))) - tell s))")
    (auto simp: rd_io_def fgetc_def set_io_def io_of_def split: if_splits)

declare note_serial.simps [simp del]

text \<open>The white balance of the newer Nikons: a version, and for the scrambled ones 324 bytes.\<close>

definition note_version :: "note_locals \<Rightarrow> meta \<Rightarrow> note_locals \<times> meta" where
  "note_version l s =
     (let (v, s) = fold (\<lambda>_ (v, s). case rd_io fgetc s of (c, s) \<Rightarrow> (c_u32 (v * 10 + c - 48), s)) [0 ..< 4 :: nat] (nt_ver97 l, s);
          l = l\<lparr>nt_ver97 := v\<rparr>;
          s = (if v = 100 then forc4 get2 (\<lambda>c x. set_mul (shr c 1 OR shl (c AND 1) 1) (Of_int x)) (seek_cur 68 s)
               else if v = 102 then forc4 get2 (\<lambda>c x. set_mul (c XOR shr c 1) (Of_int x)) (seek_cur 6 s)
               else if v = 103 then forc4 get2 (\<lambda>c x. set_mul c (Of_int x)) (seek_cur 16 s)
               else s)
      in if v \<ge> 200 then
           let s = (if v \<noteq> 205 then seek_cur 280 s else s); (bs, s) = rd_io (fread 324) s
           in (l\<lparr>nt_buf97 := overlay_bytes bs (nt_buf97 l)\<rparr>, s)
         else (l, s))"

text \<open>
  The key stream of these bytes from two tables: \<open>cj\<close> and \<open>ck\<close> are bytes. Of the four characters that
  choose the second table entry each may be missing, when the exclusive or can be negative.
\<close>

definition note_stream :: "u8 \<Rightarrow> u8 \<Rightarrow> u8 \<Rightarrow> u8 list \<Rightarrow> u8 list" where
  "note_stream ci cj ck bs =
     fst (fold (\<lambda>b (out, cj, ck). let cj = cj + ci * ck in (out @ [b XOR cj], cj, ck + 1)) bs ([], cj, ck))"

definition note_unscramble :: "note_locals \<Rightarrow> meta \<Rightarrow> (note_locals \<times> meta) option" where
  "note_unscramble l s = do {
     let ci = xlat_0 ! nat (nt_serial l AND 0xff);
     let (a, s) = rd_io fgetc s;
     let (b, s) = rd_io fgetc s;
     let (c, s) = rd_io fgetc s;
     let (d, s) = rd_io fgetc s;
     cj \<leftarrow> at xlat_1 (a XOR b XOR c XOR d);
     let buf = note_stream ci cj 0x60 (nt_buf97 l);
     let i = of_char (''66666>666;6A;:;55'' ! nat (nt_ver97 l - 200)) - 48;
     let s = fold (\<lambda>c. set_mul (c XOR shr c 1 XOR (i AND 1))
       (Of_int (let k = nat ((i AND -2) + c * 2) in sget2 (byte_order (io_of s)) (uint (buf ! k)) (uint (buf ! (k + 1)))))) [0, 1, 2, 3] s;
     Some (l\<lparr>nt_buf97 := buf\<rparr>, s) }"

text \<open>
  Nikon's Capture note is a list of parts, each with its length, in little-endian order. The tag of a part
  is read into the same variable as the tag of the entry.
\<close>

partial_function (option) note_capture :: "int \<Rightarrow> int \<Rightarrow> int \<Rightarrow> meta \<Rightarrow> (int \<times> meta) option" where
  "note_capture tag len offset s =
     (if c_u32 (offset + 22) < len then
        let (tag, s) = rd_io get4 s;
            (x, s) = rd_io get4 (seek_cur 14 s);
            i = c_u32 (x - 4);
            s = (if tag = 0x76a43207 then case rd_io get2 s of (f, s) \<Rightarrow> s\<lparr>mflip := f\<rparr> else seek_cur i s)
        in note_capture tag len (c_u32 (offset + 22 + i)) s
      else Some (tag, s))"

definition note_epson :: "meta \<Rightarrow> meta" where
  "note_epson s =
     (let f = (\<lambda>x k d. Quotient (Product (Product (Of_int x) (Of_int k)) (Decimal d)) (Of_int 0x10000));
          (a, s) = rd_io get2 (seek_cur 48 s);
          (b, s) = rd_io get2 s
      in set_mul 2 (f b 382 ''1.173'') (set_mul 0 (f a 508 ''1.078'') s))"

definition note_data_81 :: "meta \<Rightarrow> meta" where
  "note_data_81 s =
     (let (off, s) = rd_io get4 s;
          s = seek_set (off + 41) (on_g (data_offset_update (\<lambda>_. off)) s);
          (h, s) = rd_io get2 s;
          (w, s) = rd_io get2 s
      in on_d (filters_update (\<lambda>_. 0x61616161)) (on_g (\<lambda>g. g\<lparr>raw_height := c_u16 (h * 2), raw_width := w\<rparr>) s))"

definition note_balance_29 :: "note_locals \<Rightarrow> meta \<Rightarrow> meta" where
  "note_balance_29 l s =
     (let c = (if nt_wbi l < 18 then of_char (''012347800000005896'' ! nat (nt_wbi l)) - 48 else 0)
      in forc4 get4 (\<lambda>c x. set_mul (c XOR shr c 1 XOR 1) (Of_int x)) (seek_cur (8 + c * 32) s))"

text \<open>
  The entries between the two jumps to \<open>get2_256\<close>. Pentax calls two tags by other numbers, so that the tag
  can change.
\<close>

definition note_second :: "fp_ops \<Rightarrow> int \<Rightarrow> int \<Rightarrow> int \<Rightarrow> note_locals \<times> meta \<Rightarrow> (int \<times> note_locals \<times> meta) option" where
  "note_second fp tag type len = (\<lambda>(l, s). do {
     let s = (if tag = 0x15 \<and> type = 2 \<and> is_raw (tg s) \<noteq> 0
              then case rd_io (fread 64) s of (bs, s) \<Rightarrow> set_model (overlay_bytes bs (model_arr s)) s else s);
     let pentax = strstr (cam_make (tg s)) ''PENTAX'';
     let tag = (if pentax \<and> tag = 0x1b then 0x1018 else tag);
     let tag = (if pentax \<and> tag = 0x1c then 0x1017 else tag);
     let (l, s) = (if tag = 0x1d then case note_serial (nt_serial l) s of (n, s) \<Rightarrow> (l\<lparr>nt_serial := n\<rparr>, s) else (l, s));
     let s = (if tag = 0x29 \<and> type = 1 then note_balance_29 l s else s);
     let s = (if tag = 0x3d \<and> type = 3 \<and> len = 4
              then forc4 get2 (\<lambda>c x s. set_black (c XOR shr c 1) (shr_i x (14 - tiff_bps (tg s))) s) s else s);
     let s = (if tag = 0x81 \<and> type = 4 then note_data_81 s else s);
     let s = (if (tag = 0x81 \<and> type = 7) \<or> (tag = 0x100 \<and> type = 7) \<or> (tag = 0x280 \<and> type = 1)
              then s\<lparr>thumb_offset := tell s, thumb_length := len\<rparr> else s);
     let s = (if tag = 0x88 \<and> type = 4
              then case rd_io get4 s of (x, s) \<Rightarrow> s\<lparr>thumb_offset := (if x \<noteq> 0 then x + nt_base l else 0)\<rparr> else s);
     let s = (if tag = 0x89 \<and> type = 4 then case rd_io get4 s of (x, s) \<Rightarrow> s\<lparr>thumb_length := x\<rparr> else s);
     let s = (if tag = 0x8c \<or> tag = 0x96 then on_g (meta_offset_update (\<lambda>_. tell s)) s else s);
     let (l, s) = (if tag = 0x97 then note_version l s else (l, s));
     let s = (if tag = 0xa1 \<and> type = 7
              then forc3 get4 (\<lambda>c x. set_mul c (Of_int x)) (seek_cur 140 (set_order 0x4949 s)) else s);
     let s = (if tag = 0xa4 \<and> type = 3
              then forc3 get2 (\<lambda>c x. set_mul c (Of_int x)) (seek_cur (c_u32 (nt_wbi l * 48)) s) else s);
     (l, s) \<leftarrow> (if tag = 0xa7 \<and> c_u32 (nt_ver97 l - 200) < 17 then note_unscramble l s else Some (l, s));
     let s = (if tag = 0x200 \<and> len = 3 then case rd_io get4 (drop_io get4 s) of (x, s) \<Rightarrow> s\<lparr>shot_order := x\<rparr> else s);
     let s = (if tag = 0x200 \<and> len = 4 then forc4 get2 (\<lambda>c. set_black (c XOR shr c 1)) s else s);
     let s = (if tag = 0x201 \<and> len = 4 then forc4 get2 (\<lambda>c x. set_mul (c XOR shr c 1) (Of_int x)) s else s);
     let s = (if tag = 0x220 \<and> type = 7 then on_g (meta_offset_update (\<lambda>_. tell s)) s else s);
     let s = (if tag = 0x401 \<and> type = 4 \<and> len = 4 then forc4 get4 (\<lambda>c. set_black (c XOR shr c 1)) s else s);
     Some (tag, l, s) })"

text \<open>
  From the Capture note to the second jump: \<open>Inl\<close> for \<open>goto next\<close>, otherwise whether \<open>get2_256\<close> is the
  next statement.
\<close>

definition note_third :: "int \<Rightarrow> int \<Rightarrow> int \<Rightarrow> meta \<Rightarrow> (meta + bool \<times> int \<times> meta) option" where
  "note_third tag type len s = do {
     (tag, s) \<leftarrow> (if tag = 0xe01 then note_capture tag len 22 (seek_cur 22 (set_order 0x4949 s)) else Some (tag, s));
     let s = (if tag = 0xe80 \<and> len = 256 \<and> type = 7 then note_epson s else s);
     Some (if tag = 0xf00 \<and> type = 7 then
             if len = 614 then Inr (True, tag, seek_cur 176 s)
             else if len = 734 \<or> len = 1502 then Inr (True, tag, seek_cur 148 s)
             else Inl s
           else Inr (False, tag, s)) }"

definition note_fourth :: "int \<Rightarrow> int \<Rightarrow> meta \<Rightarrow> meta" where
  "note_fourth tag len s =
     (let s = (if (tag = 0x1011 \<and> len = 9) \<or> tag = 0x20400200
               then fold (\<lambda>i. forc3 get2 (\<lambda>c x s. s\<lparr>cmatrix := (cmatrix s)[nat (4 * i + c) := Quotient (Of_int (c_s16 x)) (Of_int 256)]\<rparr>))
                      [0, 1, 2] s
               else s);
          s = (if (tag = 0x1012 \<or> tag = 0x20400600) \<and> len = 4 then forc4 get2 (\<lambda>c. set_black (c XOR shr c 1)) s else s);
          s = (if tag = 0x1017 \<or> tag = 0x20400100
               then case rd_io get2 s of (x, s) \<Rightarrow> set_mul 0 (Quotient (Of_int x) (Of_int 256)) s else s);
          s = (if tag = 0x1018 \<or> tag = 0x20400100
               then case rd_io get2 s of (x, s) \<Rightarrow> set_mul 2 (Quotient (Of_int x) (Of_int 256)) s else s)
      in if tag = 0x2011 \<and> len = 2 then get2_256 s else s)"

text \<open>Canon's colour data: the loop over \<open>i\<close> never ends when \<open>len\<close> is the greatest \<open>unsigned\<close> number.\<close>

partial_function (option) note_sraw_mul :: "int \<Rightarrow> int \<Rightarrow> meta \<Rightarrow> meta option" where
  "note_sraw_mul len i s =
     (if i \<le> len then
        let s = forc4 get2 (\<lambda>c x. on_g (\<lambda>g. g\<lparr>sraw_mul := (sraw_mul g)[nat (c XOR shr c 1) := word_of_int x]\<rparr>)) (drop_io get2 s)
        in if uint (sraw_mul (tg s) ! 1) = 1170 then Some s else note_sraw_mul len (c_u32 (i + 10)) s
      else Some s)"

definition note_colors :: "int \<Rightarrow> meta \<Rightarrow> meta option" where
  "note_colors len s =
     (let i = (if len = 582 then 50 else if len = 653 then 68 else if len = 5120 then 142 else 126)
      in note_sraw_mul len (i + 18) (forc4 get2 (\<lambda>c x. set_mul (c XOR shr c 1) (Of_int x)) (seek_cur i s)))"

text \<open>
  The entries behind \<open>get2_256\<close>, in two parts: between them, a note inside the note is read by \<open>note\<close>.
\<close>

definition note_fifth :: "int \<Rightarrow> int \<Rightarrow> note_locals \<Rightarrow> meta \<Rightarrow> meta" where
  "note_fifth tag type l s =
     (let base = nt_base l;
          s = (if tag OR 0x70 = 0x2070 \<and> (type = 4 \<or> type = 13)
               then case rd_io get4 s of (x, s) \<Rightarrow> seek_set (c_u32 (x + base)) s else s)
      in if tag = 0x2020 \<and> note_strncmp l ''OLYMP'' then parse_thumb_note base 257 258 s else s)"

definition note_sixth :: "int \<Rightarrow> int \<Rightarrow> note_locals \<Rightarrow> meta \<Rightarrow> meta option" where
  "note_sixth tag len l s = do {
     let base = nt_base l;
     let s = (if tag = 0xb028
              then case rd_io get4 s of (x, s) \<Rightarrow> parse_thumb_note base 136 137 (seek_set (c_u32 (x + base)) s) else s);
     s \<leftarrow> (if tag = 0x4001 \<and> len > 500 then note_colors len s else Some s);
     let s = (if tag = 0x4021 then
                let (x, s) = rd_io get4 s
                in if x = 0 then s
                   else let (y, s) = rd_io get4 s
                     in if y = 0 then s else s\<lparr>cam_mul := replicate 4 (Of_int 1024)\<rparr>
              else s);
     let s = (if tag = 0xa021 then forc4 get4 (\<lambda>c x. set_mul (c XOR shr c 1) (Of_int x)) s else s);
     let s = (if tag = 0xa028
              then forc4 get4 (\<lambda>c x s. set_mul (c XOR shr c 1) (Sum (cam_mul s ! nat (c XOR shr c 1)) (Of_int (- x))) s) s else s);
     Some (if tag = 0xb001 then case rd_io get2 s of (x, s) \<Rightarrow> on_g (unique_id_update (\<lambda>_. x)) s else s) }"

type_synonym note_parser = "int \<Rightarrow> tiff_globals \<Rightarrow> tiff_globals option"

text \<open>
  The end of an entry, reached from three places: the last group of tags, and back to the next entry.
\<close>

definition note_end :: "note_parser \<Rightarrow> int \<Rightarrow> int \<Rightarrow> int \<Rightarrow> int \<Rightarrow> note_locals \<Rightarrow> tiff_globals
    \<Rightarrow> (note_locals \<times> tiff_globals) option" where
  "note_end note save tag type len l = (\<lambda>(n, s). do {
     let s = note_fifth tag type l s;
     (n, s) \<leftarrow> (if tag = 0x2040 then note (nt_base l) (n, s) else Some (n, s));
     s \<leftarrow> note_sixth tag len l s;
     Some (l, n, seek_set save s) })"

text \<open>One entry of the table. \<open>uptag\<close> marks the tags of a note inside a note.\<close>

definition note_entry :: "fp_ops \<Rightarrow> tiff_parser \<Rightarrow> note_parser \<Rightarrow> int \<Rightarrow> note_locals \<times> tiff_globals
    \<Rightarrow> (note_locals \<times> tiff_globals) option" where
  "note_entry fp ifd note uptag = (\<lambda>(l, n, s). do {
     let ((tag, type, len, save), s) = rd_io (tiff_get (nt_base l)) (set_order (nt_morder l) s);
     let tag = tag OR c_u32 (shl uptag 16);
     (l, s) \<leftarrow> note_first fp tag type len (l, s);
     (n, s) \<leftarrow> note_directory ifd tag l (n, s);
     if tag = 0x14 \<and> type = 7 \<and> len = 2560 then note_end note save tag type len l (n, get2_256 (seek_cur 1248 s))
     else do {
       let (l, s) = (if tag = 0x14 \<and> type = 7 then note_nrw l s else (l, s));
       (tag, l, s) \<leftarrow> note_second fp tag type len (l, s);
       r \<leftarrow> note_third tag type len s;
       case r of
         Inl s \<Rightarrow> Some (l, n, seek_set save s)
       | Inr (jump, tag, s) \<Rightarrow>
           note_end note save tag type len l (n, if jump then get2_256 s else note_fourth tag len s) } })"

definition note_table :: "fp_ops \<Rightarrow> tiff_parser \<Rightarrow> note_parser \<Rightarrow> int \<Rightarrow> int \<Rightarrow> tiff_globals \<Rightarrow> tiff_globals option" where
  "note_table fp ifd note uptag base = (\<lambda>(n, s).
     (let sorder = byte_order (io_of s) in
      do {
        h \<leftarrow> note_head base s;
        case h of
          Leave s \<Rightarrow> Some (n, s)
        | Quit s \<Rightarrow> Some (n, set_order sorder s)
        | Table l s \<Rightarrow>
            (case rd_io get2 s of (entries, s) \<Rightarrow>
               if entries > 1000 then Some (n, s)
               else do {
                 (l, n, s) \<leftarrow> repeat_opt (nat entries) (note_entry fp ifd note uptag) (l\<lparr>nt_morder := byte_order (io_of s)\<rparr>, n, s);
                 Some (n, set_order sorder s) }) }))"

text \<open>
  The note inside a note has the number 0x2040; its own entries have greater tags than that, so that it
  holds no further note and the recursion is one step deep.
\<close>

definition parse_makernote :: "fp_ops \<Rightarrow> tiff_parser \<Rightarrow> note_parser" where
  "parse_makernote fp ifd = note_table fp ifd (note_table fp ifd (\<lambda>_ _. None) 0x2040) 0"

end
