(* ===== verification/Sony.thy ===== *)
theory Sony
  imports Ljpeg
begin

text \<open>
  The formats of the Sony cameras: the stream cipher of the first SRF and ARW files
  (\<open>sony_decrypt\<close>), the Huffman code of the ARW files and the blocks of sixteen samples of ARW2.
\<close>

section \<open>sony_decrypt\<close>

text \<open>The static variables \<open>pad[128]\<close> and \<open>p\<close>.\<close>

record sony_pad =
  spad :: "u32 list"
  spos :: u32

definition htonl :: "bool \<Rightarrow> u32 \<Rightarrow> u32" where
  "htonl big w = (if big then w
     else push_bit 24 w OR push_bit 8 (w AND 0xff00) OR drop_bit 8 (w AND 0xff0000) OR drop_bit 24 w)"

fun sony_seed :: "nat \<Rightarrow> u32 \<Rightarrow> u32 list" where
  "sony_seed 0 key = []"
| "sony_seed (Suc n) key = (let key = key * 48828125 + 1 in key # sony_seed n key)"

text \<open>The next word of the pad from the four before it.\<close>

definition sony_next :: "u32 list \<Rightarrow> nat \<Rightarrow> u32" where
  "sony_next pad p =
     (push_bit 1 (pad ! (p - 4) XOR pad ! (p - 2)) OR drop_bit 31 (pad ! (p - 3) XOR pad ! (p - 1)))"

definition sony_start :: "bool \<Rightarrow> u32 \<Rightarrow> sony_pad \<Rightarrow> sony_pad" where
  "sony_start big key st =
     (let pad = sony_seed 4 key @ drop 4 (spad st);
          pad = pad[3 := push_bit 1 (pad ! 3) OR drop_bit 31 (pad ! 0 XOR pad ! 2)];
          pad = fold (\<lambda>p pad. pad[p := sony_next pad p]) [4..<127] pad;
          pad = map (htonl big) (take 127 pad) @ drop 127 pad
      in \<lparr>spad = pad, spos = 127\<rparr>)"

text \<open>One word of the key stream: \<open>p++\<close>, then the assignment to the pad.\<close>

definition sony_step :: "sony_pad \<Rightarrow> u32 \<times> sony_pad" where
  "sony_step st =
     (let p = spos st + 1;
          w = spad st ! unat (p AND 127) XOR spad st ! unat ((p + 64) AND 127)
      in (w, \<lparr>spad = (spad st)[unat ((p - 1) AND 127) := w], spos = p\<rparr>))"

text \<open>\<open>while (len-- && p++)\<close>: the position 0 would end the loop.\<close>

fun sony_xor :: "u32 list \<Rightarrow> sony_pad \<Rightarrow> u32 list \<times> sony_pad" where
  "sony_xor [] st = ([], st)"
| "sony_xor (d # ds) st =
     (if spos st = 0 then (d # ds, st\<lparr>spos := 1\<rparr>)
      else (case sony_step st of (w, st) \<Rightarrow>
        (case sony_xor ds st of (es, st) \<Rightarrow> ((d XOR w) # es, st))))"

definition sony_decrypt :: "bool \<Rightarrow> u32 list \<Rightarrow> bool \<Rightarrow> u32 \<Rightarrow> sony_pad \<Rightarrow> u32 list \<times> sony_pad" where
  "sony_decrypt big data start key st =
     sony_xor data (if start then sony_start big key st else st)"

section \<open>sony_load_raw\<close>

text \<open>Bytes and 16-bit cells of memory seen as 32-bit words of the host, and back.\<close>

fun words_of :: "bool \<Rightarrow> u16 list \<Rightarrow> u32 list" where
  "words_of big (a # b # xs) =
     (if big then push_bit 16 (ucast a) OR ucast b else ucast a OR push_bit 16 (ucast b)) # words_of big xs"
| "words_of big xs = []"

fun halves_of :: "bool \<Rightarrow> u32 list \<Rightarrow> u16 list" where
  "halves_of big (w # ws) =
     (if big then [ucast (drop_bit 16 w), ucast w] else [ucast w, ucast (drop_bit 16 w)]) @ halves_of big ws"
| "halves_of big [] = []"

definition ntohs :: "bool \<Rightarrow> u16 \<Rightarrow> u16" where
  "ntohs big w = (if big then w else push_bit 8 w OR drop_bit 8 w)"

text \<open>\<open>sony_decrypt\<close> on the cells \<open>off\<close> to \<open>off + 2 * len\<close> of an array of \<open>ushort\<close>.\<close>

definition decrypt_cells ::
    "bool \<Rightarrow> u16 list \<Rightarrow> int \<Rightarrow> int \<Rightarrow> bool \<Rightarrow> u32 \<Rightarrow> sony_pad \<Rightarrow> (u16 list \<times> sony_pad) option" where
  "decrypt_cells big xs off len start key st =
     (if off < 0 \<or> len < 0 \<or> int (length xs) < off + 2 * len then None
      else
        let mid = take (nat (2 * len)) (drop (nat off) xs);
            (ws, st) = sony_decrypt big (words_of big mid) start key st
        in Some (take (nat off) xs @ halves_of big ws @ drop (nat (off + 2 * len)) xs, st))"

text \<open>
  \<open>fread (pixel, 2, count, ifp)\<close> into cells, as they lie in the file; the number of whole items is
  returned.
\<close>

definition fread_cells :: "u16 list \<Rightarrow> int \<Rightarrow> int \<Rightarrow> bitio \<Rightarrow> ((u16 list \<times> int) \<times> bitio) option" where
  "fread_cells xs off count b =
     (if off < 0 \<or> count < 0 \<or> int (length xs) < off + count then None
      else
        let old = concat (map (cell_bytes (big_host b)) (take (nat count) (drop (nat off) xs)));
            (bs, b1) = fread (2 * count) b
        in Some ((take (nat off) xs @ cells_of (big_host b) (overlay bs old) @ drop (nat (off + count)) xs,
                  int (length bs div 2)), b1))"

definition sony_key :: "geom \<Rightarrow> sony_pad \<Rightarrow> bitio \<Rightarrow> ((u32 \<times> sony_pad) \<times> bitio) option" where
  "sony_key g st b =
     (let b = fseek_set 200896 b;
          (c, b) = fgetc b;
          b = fseek_cur (c_u32 (c * 4 - 1)) b;
          b = b\<lparr>byte_order := 0x4d4d\<rparr>;
          (key, b) = get4 b;
          b = fseek_set 164600 b;
          (bs, b) = fread 40 b;
          head = cells_of (big_host b) (overlay bs (uninit g 40)) in do {
        (head, st) \<leftarrow> decrypt_cells (big_host b) head 0 10 True (word_of_int key) st;
        let hb = concat (map (cell_bytes (big_host b)) head);
        let key = fold (\<lambda>i k. push_bit 8 k OR ucast (hb ! i)) [25, 24, 23, 22] (word_of_int key);
        Some ((key, st), b) })"

definition sony_row :: "geom \<Rightarrow> u32 \<Rightarrow> int \<Rightarrow> sony_pad \<times> dst \<Rightarrow> (sony_pad \<times> dst) option" where
  "sony_row g key row = (\<lambda>(st, s). do {
     let off = row * raw_width g;
     ((xs, n), s) \<leftarrow> with_io (fread_cells (raw_image s) off (raw_width g)) s;
     let s = derror_if (n < raw_width g) s;
     (xs, st) \<leftarrow> decrypt_cells (big_host (dio s)) xs off (raw_width g div 2) (row = 0) key st;
     s \<leftarrow> for_up 0 (raw_width g) (\<lambda>col s. do {
       v \<leftarrow> rd (raw_image s) (off + col);
       let v = uint (ntohs (big_host (dio s)) (word_of_int v));
       xs \<leftarrow> wr (raw_image s) (off + col) v;
       Some (derror_if (shr v 14 \<noteq> 0) (s\<lparr>raw_image := xs\<rparr>)) }) (s\<lparr>raw_image := xs\<rparr>);
     Some (st, s) })"

definition sony_load_raw :: "geom \<Rightarrow> sony_pad \<Rightarrow> dst \<Rightarrow> (sony_pad \<times> dst) option" where
  "sony_load_raw g st s = do {
     ((key, st), s) \<leftarrow> with_io (sony_key g st) s;
     let s = upd_io (fseek_set (data_offset g)) s;
     (st, s) \<leftarrow> for_up 0 (raw_height g) (sony_row g key) (st, s);
     Some (st, s\<lparr>maximum := 0x3ff0\<rparr>) }"

section \<open>ARW\<close>

definition arw_tab :: "int list" where
  "arw_tab =
   [0xf11,0xf10,0xe0f,0xd0e,0xc0d,0xb0c,0xa0b,0x90a,0x809,
    0x708,0x607,0x506,0x405,0x304,0x303,0x300,0x202,0x201]"

text \<open>
  A table of codes given as cells: each entry fills its share of the index space. Samsung's files
  use the same construction with a table of their own.
\<close>

definition fill_tab :: "int \<Rightarrow> int list \<Rightarrow> u16 list \<Rightarrow> u16 list option" where
  "fill_tab cells tab huff = do {
     (n, h) \<leftarrow> for_up 0 (int (length tab)) (\<lambda>i (n, h). do {
       t \<leftarrow> at tab i;
       for_up 0 (shr cells (shr t 8)) (\<lambda>c (n, h). do {
         h \<leftarrow> wr h (n + 1) t;
         Some (n + 1, h) }) (n, h) }) (0, huff);
     Some h }"

text \<open>The rows of a column in the order of the file: \<open>if (row == raw_height) row = 1;\<close>\<close>

partial_function (option) arw_rows :: "int \<Rightarrow> int \<Rightarrow> int list option" where
  "arw_rows h row =
     (if row < h + 1 then do {
        rs \<leftarrow> arw_rows h ((if row = h then 1 else row) + 2);
        Some ((if row = h then 1 else row) # rs) }
      else Some [])"

definition arw_sample :: "geom \<Rightarrow> u16 list \<Rightarrow> int \<Rightarrow> int \<Rightarrow> int \<times> dst \<Rightarrow> (int \<times> dst) option" where
  "arw_sample g huff col row = (\<lambda>(sm, s). do {
     (d, s) \<leftarrow> with_io (ljpeg_diff (dng_version g) huff) s;
     let sm = c_s32 (sm + d);
     let s = derror_if (shr sm 12 \<noteq> 0) s;
     s \<leftarrow> (if row < height g then set_RAW g row col sm s else Some s);
     Some (sm, s) })"

definition sony_arw_load_raw :: "geom \<Rightarrow> dst \<Rightarrow> dst option" where
  "sony_arw_load_raw g s = do {
     huff \<leftarrow> wr (uninit g 32770) 0 15;
     huff \<leftarrow> fill_tab 32768 arw_tab huff;
     (z, s) \<leftarrow> with_io (getbits (-1)) s;
     rows \<leftarrow> arw_rows (raw_height g) 0;
     (sm, s) \<leftarrow> for_up 0 (raw_width g) (\<lambda>k st.
       for_up 0 (int (length rows)) (\<lambda>i st. do {
         row \<leftarrow> at rows i;
         arw_sample g huff (raw_width g - 1 - k) row st }) st) (0, s);
     Some s }"

section \<open>ARW2\<close>

text \<open>
  Sixteen bytes hold sixteen samples: the largest, the smallest, their positions, and seven bits
  for each of the others, scaled by the range. \<open>arw2_shift\<close> is the loop that finds the scale.
\<close>

definition arw2_shift :: "int \<Rightarrow> int" where
  "arw2_shift d = (if d < 0x80 then 0 else if d < 0x100 then 1 else if d < 0x200 then 2
                   else if d < 0x400 then 3 else 4)"

definition arw2_pix :: "int \<Rightarrow> u8 list \<Rightarrow> int \<Rightarrow> int list option" where
  "arw2_pix ord data dp = do {
     b0 \<leftarrow> rd data dp; b1 \<leftarrow> rd data (dp + 1); b2 \<leftarrow> rd data (dp + 2); b3 \<leftarrow> rd data (dp + 3);
     let val = sget4 ord b0 b1 b2 b3;
     let mx = val AND 0x7ff;
     let mn = shr val 11 AND 0x7ff;
     let imax = shr val 22 AND 0xf;
     let imin = shr val 26 AND 0xf;
     let sh = arw2_shift (mx - mn);
     (bit, pix) \<leftarrow> for_up 0 16 (\<lambda>i (bit, pix).
       if i = imax then Some (bit, pix @ [mx])
       else if i = imin then Some (bit, pix @ [mn])
       else do {
         x \<leftarrow> rd data (dp + shr bit 3);
         y \<leftarrow> rd data (dp + shr bit 3 + 1);
         let v = shl (shr (sget2 ord x y) (bit AND 7) AND 0x7f) sh + mn;
         Some (bit + 7, pix @ [if v > 0x7ff then 0x7ff else v]) }) (30, []);
     Some pix }"

text \<open>The blocks of a row: the even columns of 32, then the odd ones.\<close>

function arw2_blocks :: "geom \<Rightarrow> u8 list \<Rightarrow> int \<Rightarrow> int \<Rightarrow> int \<Rightarrow> dst \<Rightarrow> dst option" where
  "arw2_blocks g data row dp col s =
     (if col < raw_width g - 30 then
        (case arw2_pix (byte_order (dio s)) data dp of
           None \<Rightarrow> None
         | Some pix \<Rightarrow>
             (case for_up 0 16 (\<lambda>i s. do {
                 p \<leftarrow> at pix i;
                 v \<leftarrow> rd (curve s) (shl p 1);
                 set_RAW g row (col + 2 * i) (shr v 2) s }) s of
                None \<Rightarrow> None
              | Some s \<Rightarrow>
                  arw2_blocks g data row (dp + 16) (col + 32 - (if (col + 32) AND 1 \<noteq> 0 then 1 else 31)) s))
      else Some s)"
  by pat_completeness auto
termination
  by (relation "measure (\<lambda>(g, d, row, dp, col, s). nat (raw_width g - col))") auto

declare arw2_blocks.simps [simp del]

definition sony_arw2_load_raw :: "geom \<Rightarrow> dst \<Rightarrow> dst option" where
  "sony_arw2_load_raw g s = do {
     (data, s) \<leftarrow> for_up 0 (height g) (\<lambda>row (data, s). do {
       (bs, s) \<leftarrow> with_io (\<lambda>b. Some (fread (raw_width g) b)) s;
       let data = overlay bs data;
       s \<leftarrow> arw2_blocks g data row 0 0 s;
       Some (data, s) }) (uninit g (raw_width g + 1), s);
     Some s }"

section \<open>What fill_tab builds\<close>

text \<open>
  \<open>tab_cells\<close> is the specification: every entry repeated as often as its width says. The tables
  of the formats fill their index space completely.
\<close>

definition tab_cells :: "int \<Rightarrow> int list \<Rightarrow> u16 list" where
  "tab_cells cells tab = concat (map (\<lambda>t. replicate (nat (shr cells (shr t 8))) (word_of_int t)) tab)"

theorem fill_tab_cells:
  assumes "0 \<le> cells" "length (tab_cells cells tab) < length huff"
  shows "fill_tab cells tab huff = Some (put_run 1 (tab_cells cells tab) huff)"
proof -
  define rs where "rs = map (\<lambda>t. (nat (shr cells (shr t 8)), t)) tab"
  have nn: "0 \<le> shr cells k" for k using assms(1) by (simp add: shr_def)
  have run: "concat (map (\<lambda>(m, v). replicate m (word_of_int v)) rs) = tab_cells cells tab"
    by (simp add: rs_def tab_cells_def comp_def split_def)
  have sm: "(\<Sum>(m, v)\<leftarrow>rs. m) = length (tab_cells cells tab)"
    by (simp add: rs_def tab_cells_def length_concat comp_def split_def)
  have "for_up 0 (int (length tab)) (\<lambda>i (n, h). do {
       t \<leftarrow> at tab i;
       for_up 0 (shr cells (shr t 8)) (\<lambda>c (n, h). do {
         h \<leftarrow> wr h (n + 1) t;
         Some (n + 1, h) }) (n, h) }) (0, huff)
     = for_up 0 (int (length rs)) (\<lambda>i st. do { r \<leftarrow> at rs i; run_by (int (fst r)) (snd r) st }) (int 0, huff)"
    unfolding rs_def by (simp, rule for_by_cong) (auto simp: at_def inb_def run_by_def nn)
  also have "\<dots> = Some (int (length (tab_cells cells tab)), put_run 1 (tab_cells cells tab) huff)"
    using assms(2) by (subst runs_by) (simp_all add: sm run)
  finally show ?thesis by (simp add: fill_tab_def)
qed

lemma length_tab_cells:
  "0 \<le> cells \<Longrightarrow> int (length (tab_cells cells tab)) = (\<Sum>t\<leftarrow>tab. shr cells (shr t 8))"
  by (induction tab) (simp_all add: tab_cells_def shr_def)

lemma tab_cells_append: "tab_cells n (xs @ ys) = tab_cells n xs @ tab_cells n ys"
  by (simp add: tab_cells_def)

lemma put_run_huff_ok:
  assumes "length ws < length h" "h ! 0 = word_of_int (int m)" "m \<le> 25" "2 ^ m < length h"
  shows "huff_ok (put_run 1 ws h)"
proof -
  obtain x xs where h: "h = x # xs" using assms(1) by (cases h) auto
  then have "put_run 1 ws h ! 0 = word_of_int (int m)" using assms(2) by (simp add: put_run_def)
  moreover have "uint (word_of_int (int m) :: u16) = int m"
    using assms(3) by (intro uint_u16) auto
  moreover have "length (put_run 1 ws h) = length h" using assms(1) by simp
  moreover have "put_run 1 ws h \<noteq> []" using assms(1) by (simp add: put_run_def h)
  ultimately show ?thesis using assms(1,3,4) by (auto simp: huff_ok_def)
qed

section \<open>The code of such a table\<close>

text \<open>
  An entry of a table is 256 times the length of its code plus the value. The code of entry \<open>k\<close> is
  the position of its first cell, without the bits that count its cells; \<open>tab_ok\<close> asks that the
  entries fill the table and start at multiples of their sizes.
\<close>

definition tab_len :: "int \<Rightarrow> nat" where
  "tab_len t = nat (t div 256)"

definition tab_start :: "nat \<Rightarrow> int list \<Rightarrow> nat \<Rightarrow> int" where
  "tab_start n tab k = (\<Sum>t\<leftarrow>take k tab. 2 ^ (n - tab_len t))"

definition tab_code :: "nat \<Rightarrow> int list \<Rightarrow> nat \<Rightarrow> bool list" where
  "tab_code n tab k = (let l = tab_len (tab ! k) in nat_bits l (nat (tab_start n tab k div 2 ^ (n - l))))"

definition tab_ok :: "nat \<Rightarrow> int list \<Rightarrow> bool" where
  "tab_ok n tab \<longleftrightarrow> 1 \<le> n \<and> n \<le> 16 \<and> tab_start n tab (length tab) = 2 ^ n
     \<and> list_all (\<lambda>k. 0 \<le> tab ! k \<and> 1 \<le> tab_len (tab ! k) \<and> tab_len (tab ! k) \<le> n
          \<and> tab_start n tab k mod 2 ^ (n - tab_len (tab ! k)) = 0) [0..<length tab]"

lemma tab_size: "0 \<le> t \<Longrightarrow> tab_len t \<le> n \<Longrightarrow> shr (2 ^ n) (shr t 8) = 2 ^ (n - tab_len t)"
  by (simp add: shr_div tab_len_def power_diff)

lemma tab_cells_start:
  assumes "\<forall>t \<in> set tab. 0 \<le> t \<and> tab_len t \<le> n"
  shows "int (length (tab_cells (2 ^ n) (take k tab))) = tab_start n tab k"
proof -
  have "\<forall>t \<in> set (take k tab). shr (2 ^ n) (shr t 8) = 2 ^ (n - tab_len t)"
    using assms tab_size by (metis in_set_takeD)
  then show ?thesis by (simp add: length_tab_cells tab_start_def cong: map_cong)
qed

lemma arw_tab_ok: "tab_ok 15 arw_tab"
  by code_simp

text \<open>
  C13: A table of codes that \<open>fill_tab\<close> builds, as the ARW and the second Samsung format do, decodes
  the prefix code its entries describe: reading the code of an entry returns the value of the entry
  and takes exactly the code off the stream.
\<close>

theorem tab_decodes:
  assumes "tab_ok n tab" "k < length tab" "2 ^ n < length huff" "rd huff 0 = Some (int n)"
    and "bit_inv io" "avail io = tab_code n tab k @ rest"
  shows "\<exists>h io'. fill_tab (2 ^ n) tab huff = Some h \<and> gethuff h io = Some (tab ! k mod 256, io')
    \<and> avail io' = rest \<and> bit_inv io' \<and> data_error io' = data_error io"
proof -
  define l where "l = tab_len (tab ! k)"
  have all: "\<forall>t \<in> set tab. 0 \<le> t \<and> tab_len t \<le> n"
    using assms(1) by (auto simp: tab_ok_def list_all_iff in_set_conv_nth)
  have k: "0 \<le> tab ! k" "1 \<le> l" "l \<le> n" "tab_start n tab k mod 2 ^ (n - l) = 0" "1 \<le> n" "n \<le> 16"
    using assms(1,2) by (auto simp: tab_ok_def list_all_iff l_def)
  let ?pre = "tab_cells (2 ^ n) (take k tab)" and ?post = "tab_cells (2 ^ n) (drop (Suc k) tab)"
  have "tab_cells (2 ^ n) tab = ?pre @ tab_cells (2 ^ n) [tab ! k] @ ?post"
    using id_take_nth_drop [OF assms(2)] by (metis tab_cells_append append_Cons append_Nil)
  then have cells: "tab_cells (2 ^ n) tab = ?pre @ replicate (2 ^ (n - l)) (word_of_int (tab ! k)) @ ?post"
    using tab_size [of "tab ! k" n] k by (simp add: tab_cells_def l_def nat_power_eq)
  have total: "int (length (tab_cells (2 ^ n) tab)) = 2 ^ n"
    using tab_cells_start [OF all, of "length tab"] assms(1) by (simp add: tab_ok_def)
  then have total': "length (tab_cells (2 ^ n) tab) = 2 ^ n" by (metis of_nat_eq_iff of_nat_numeral of_nat_power)
  define h where "h = put_run 1 (tab_cells (2 ^ n) tab) huff"
  have fill: "fill_tab (2 ^ n) tab huff = Some h"
    unfolding h_def using assms(3) total' by (intro fill_tab_cells) simp_all
  obtain x xs where huff: "huff = x # xs" using assms(3) by (cases huff) auto
  have h1: "h = x # tab_cells (2 ^ n) tab @ drop (2 ^ n) xs" by (simp add: h_def put_run_def huff total')
  define c where "c = tab_start n tab k div 2 ^ (n - l)"
  have c: "tab_start n tab k = c * 2 ^ (n - l)" using k(4) by (simp add: c_def) (metis div_mult_mod_eq add.right_neutral)
  have c0: "0 \<le> c" "c < 2 ^ l"
  proof -
    have "0 \<le> tab_start n tab k" using tab_cells_start [OF all, of k] by (metis of_nat_0_le_iff)
    then show "0 \<le> c" by (simp add: c_def pos_imp_zdiv_nonneg_iff)
    have "int (length ?pre) + 2 ^ (n - l) + int (length ?post) = 2 ^ n" using total by (simp add: cells)
    then have "(c + 1) * 2 ^ (n - l) \<le> 2 ^ n" using tab_cells_start [OF all, of k] c by (simp add: algebra_simps)
    also have "(2::int) ^ n = 2 ^ l * 2 ^ (n - l)" using k(3) by (simp flip: power_add)
    finally show "c < 2 ^ l" by simp
  qed
  have code: "tab_code n tab k = nat_bits l (nat c)" by (simp add: tab_code_def Let_def l_def c_def)
  have bv: "bits_val (nat_bits l (nat c)) = c" using c0 by (simp add: bits_val_nat_bits take_bit_nat_eq_self nat_less_iff)
  have t: "uint (word_of_int (tab ! k) :: u16) = 256 * int l + tab ! k mod 256"
  proof -
    have e: "256 * int l + tab ! k mod 256 = tab ! k" using k(1) pos_imp_zdiv_nonneg_iff [of 256 "tab ! k"] by (simp add: l_def tab_len_def)
    have "int l \<le> 16" using k(3,6) by simp
    moreover have "tab ! k mod 256 < 256" by simp
    ultimately have "tab ! k < 65536" using e by linarith
    then show ?thesis using uint_u16 [OF k(1)] e by simp
  qed
  have cell: "rd (drop 1 h) (c * 2 ^ (n - l) + int r) = Some (256 * int l + tab ! k mod 256)" if "r < 2 ^ (n - l)" for r
  proof -
    have "drop 1 h = ?pre @ replicate (2 ^ (n - l)) (word_of_int (tab ! k)) @ ?post @ drop (2 ^ n) xs"
      by (simp add: h1 cells)
    moreover have "int (length ?pre) = c * 2 ^ (n - l)" using tab_cells_start [OF all, of k] c by simp
    ultimately show ?thesis using that by (simp only:) (subst rd_run, simp_all add: t)
  qed
  obtain io' where "getbithuff (int n) (Some (drop 1 h)) io = Some (tab ! k mod 256, io')" "avail io' = rest" "bit_inv io'"
    "data_error io' = data_error io"
    by (rule table_decodes [of n io "nat_bits l (nat c)" rest "drop 1 h" "tab ! k mod 256"])
      (use assms(5,6) k code cell bv in auto)
  moreover have "rd h 0 = Some (int n)" using assms(4) by (simp add: h1 huff rd_def inb_def)
  ultimately show ?thesis using fill by (simp add: gethuff_def)
qed

theorem tab_decodes_witness:
  "\<exists>h io'. fill_tab 32768 arw_tab (15 # replicate 32769 0) = Some h
    \<and> gethuff h (open_file [0xc5]) = Some (1, io') \<and> avail io' = [False, False, False, True, False, True]"
proof -
  have a: "avail (open_file [0xc5]) = tab_code 15 arw_tab 17 @ [False, False, False, True, False, True]"
    "arw_tab ! 17 mod 256 = 1" "bit_inv (open_file [0xc5])" "17 < length arw_tab"
    by code_simp+
  have r: "rd (15 # replicate 32769 0 :: u16 list) 0 = Some (int 15)" by (simp add: rd_def inb_def)
  have "\<exists>h io'. fill_tab (2 ^ 15) arw_tab (15 # replicate 32769 0) = Some h
    \<and> gethuff h (open_file [0xc5]) = Some (arw_tab ! 17 mod 256, io')
    \<and> avail io' = [False, False, False, True, False, True] \<and> bit_inv io'
    \<and> data_error io' = data_error (open_file [0xc5])"
    by (rule tab_decodes) (use a(1,3,4) r arw_tab_ok in simp_all)
  then show ?thesis using a(2) by auto
qed

section \<open>The rows of an ARW file\<close>

lemma arw_rows_odd:
  assumes "odd (h - r)" "r \<le> h + 1"
  shows "arw_rows h r = Some (every_other r (nat ((h + 1 - r) div 2)))"
  using assms
proof (induction "nat (h + 1 - r)" arbitrary: r rule: less_induct)
  case less
  show ?case
  proof (cases "r < h + 1")
    case True
    then have r: "r \<noteq> h" "r + 2 \<le> h + 1" using less.prems by presburger+
    have n: "nat ((h + 1 - r) div 2) = Suc (nat ((h + 1 - (r + 2)) div 2))" using True r by arith
    have "arw_rows h (r + 2) = Some (every_other (r + 2) (nat ((h + 1 - (r + 2)) div 2)))"
      using less.hyps [of "r + 2"] less.prems True r by auto
    then show ?thesis using True r unfolding n by (subst arw_rows.simps) (simp add: every_other_Suc)
  next
    case False
    then show ?thesis using less.prems by (simp add: arw_rows.simps every_other_def)
  qed
qed

lemma arw_rows_even:
  assumes "even (h - r)" "r \<le> h" "even h" "0 < h"
  shows "arw_rows h r = Some (every_other r (nat ((h - r) div 2)) @ every_other 1 (nat (h div 2)))"
  using assms(1,2)
proof (induction "nat (h - r)" arbitrary: r rule: less_induct)
  case less
  show ?case
  proof (cases "r = h")
    case True
    have "arw_rows h r = arw_rows h 1"
      using True assms(3,4) by (subst (1 2) arw_rows.simps) auto
    then show ?thesis using arw_rows_odd [of h 1] assms True by (simp add: every_other_def)
  next
    case False
    then have r: "r < h" "r + 2 \<le> h" using less.prems by presburger+
    have n: "nat ((h - r) div 2) = Suc (nat ((h - (r + 2)) div 2))" using r by arith
    have "arw_rows h (r + 2) = Some (every_other (r + 2) (nat ((h - (r + 2)) div 2)) @ every_other 1 (nat (h div 2)))"
      using less.hyps [of "r + 2"] less.prems r by auto
    then show ?thesis using r unfolding n by (subst arw_rows.simps) (simp add: every_other_Suc)
  qed
qed

lemma arw_rows_all:
  assumes "0 < h"
  shows "\<exists>rs. arw_rows h 0 = Some rs \<and> distinct rs
    \<and> set rs = (if even h then {0..<h} else {r \<in> {0..<h}. even r})"
proof (cases "even h")
  case True
  let ?rs = "every_other 0 (nat (h div 2)) @ every_other 1 (nat (h div 2))"
  have "arw_rows h 0 = Some ?rs" using arw_rows_even [of h 0] True assms by simp
  moreover have "distinct ?rs" by (auto simp: distinct_every_other set_every_other)
  moreover have "set ?rs = {0..<h}" using True assms by (auto simp: set_every_other) presburger+
  ultimately show ?thesis using True by auto
next
  case False
  let ?rs = "every_other 0 (nat ((h + 1) div 2))"
  have "arw_rows h 0 = Some ?rs" using arw_rows_odd [of h 0] False assms by simp
  moreover have "set ?rs = {r \<in> {0..<h}. even r}" using False assms by (auto simp: set_every_other) presburger+
  ultimately show ?thesis using False distinct_every_other [of 0] by auto
qed

section \<open>Safety of the ARW format\<close>

lemma arw_tab_size: "length (tab_cells 32768 arw_tab) = 32768"
proof -
  have "int (length (tab_cells 32768 arw_tab)) = 32768" by (simp add: length_tab_cells, code_simp)
  then show ?thesis by linarith
qed

lemma arw_sample_kept:
  assumes "geom_ok g" "huff_ok huff" "raw_kept g im s" "0 \<le> row" "0 \<le> col" "col < raw_width g"
    and "\<And>sm t. raw_kept g im t \<Longrightarrow> Q (sm, t)"
  shows "ok (arw_sample g huff col row (sm, s)) Q"
  unfolding arw_sample_def
  apply (rule kept | rule safe | (use assms in \<open>simp add: geom_ok_def; fail\<close>))+
  done

lemma arw_kept:
  assumes "geom_ok g" "raw_kept g im s"
  shows "ok (sony_arw_load_raw g s) (raw_kept g im)"
proof -
  note len = arw_tab_size
  obtain rs where rs: "arw_rows (raw_height g) 0 = Some rs" "\<forall>r \<in> set rs. 0 \<le> r"
    using arw_rows_all [of "raw_height g"] assms(1) by (auto simp: geom_ok_def split: if_splits)
  define h0 :: "u16 list" where "h0 = (uninit g 32770)[0 := 15]"
  have h0: "length h0 = 32770" "h0 ! 0 = word_of_int (int 15)" by (simp_all add: h0_def nth_list_update)
  have w: "wr (uninit g 32770) 0 15 = Some h0" by (simp add: wr_def inb_def h0_def)
  have ok: "huff_ok (put_run 1 (tab_cells 32768 arw_tab) h0)"
    by (rule put_run_huff_ok [of _ _ 15]) (simp_all add: len h0)
  have t: "fill_tab 32768 arw_tab h0 = Some (put_run 1 (tab_cells 32768 arw_tab) h0)"
    by (rule fill_tab_cells) (simp_all add: len h0)
  show ?thesis
    unfolding sony_arw_load_raw_def w t rs(1) Option.bind.bind_lunit
    apply (rule ok_bind ok_with_io getbits_wp case_prodI kept_pair)+
    apply (rule kept_for2 [where J = "\<lambda>_. True" and im = im], simp_all add: assms del: One_nat_def)
    apply (rule kept_for2 [where J = "\<lambda>_. True" and im = im], simp_all del: One_nat_def)
    apply (rule ok_bind ok_at_safe | (simp add: inb_def; fail))+
    apply (rule arw_sample_kept [OF assms(1) ok]; use rs(2) in simp)
    done
qed

interpretation arw: loader sony_arw_load_raw "\<lambda>g s. True"
  by unfold_locales (rule arw_kept)

text \<open>
  The stream cipher of the SRF format undoes itself: decrypting a second time, with the same key
  and the same state, gives back the words, whatever they are.
\<close>

theorem sony_decrypt_involution:
  "sony_decrypt big (fst (sony_decrypt big ds start key st)) start key st = (ds, snd (sony_decrypt big ds start key st))"
proof -
  have "sony_xor (fst (sony_xor ds st)) st = (ds, snd (sony_xor ds st))" for st
  proof (induction ds arbitrary: st)
    case (Cons d ds)
    obtain w st1 where w: "sony_step st = (w, st1)" by force
    show ?case using Cons [of st1] by (cases "spos st = 0") (auto simp: w xor.assoc split: prod.splits)
  qed simp
  then show ?thesis by (simp add: sony_decrypt_def)
qed

text \<open>
  The order in which \<open>sony_arw_load_raw\<close> visits the rows: for an even height every row comes
  exactly once; for an odd height the turn to the odd rows is never made and only the even rows are
  decoded.
\<close>

theorem arw_row_order:
  assumes "0 < h"
  shows "\<exists>rs. arw_rows h 0 = Some rs \<and> distinct rs
    \<and> set rs = (if even h then {0..<h} else {r \<in> {0..<h}. even r})"
  by (rule arw_rows_all [OF assms])

theorem arw_row_order_witness:
  "(\<exists>rs. arw_rows 4 0 = Some rs \<and> set rs = {0..<4}) \<and> (\<exists>rs. arw_rows 5 0 = Some rs \<and> 3 \<notin> set rs)"
  using arw_row_order [of 4] arw_row_order [of 5] by force

end
