(* ===== verification/FloatCode.thy ===== *)
theory FloatCode
  imports Metadata
begin

text \<open>
  What the routines on \<open>float\<close> and \<open>double\<close> share, and two that both the parsers and the output use: \<open>gamma_curve\<close> and \<open>pseudoinverse\<close>. Their
  intermediate values are the expressions of the code; only comparisons and the conversion to an integer
  are asked of the machine.
\<close>

abbreviation Minus :: "real_c \<Rightarrow> real_c \<Rightarrow> real_c" where
  "Minus x y \<equiv> Sum x (Negative y)"

abbreviation One :: real_c where
  "One \<equiv> Of_int 1"

text \<open>What a variable of type \<open>float\<close> keeps of a value; equality with a constant; the difference.\<close>

definition as_float :: "fp_ops \<Rightarrow> real_c \<Rightarrow> real_c" where
  "as_float fp x = Float_bits (uint (fp_float fp x))"

definition fp_is :: "fp_ops \<Rightarrow> real_c \<Rightarrow> int \<Rightarrow> bool" where
  "fp_is fp x k \<longleftrightarrow> \<not> fp_nonzero fp (Minus x (Of_int k))"

section \<open>gamma_curve\<close>

text \<open>
  The two bounds \<open>bnd\<close> and the middle \<open>g[2]\<close>. A \<open>double\<close> is compared with \<open>\<ge>\<close> or \<open>\<le>\<close>, which for numbers is the
  negation of \<open><\<close>.
\<close>

definition gamma_above :: "fp_ops \<Rightarrow> real_c \<Rightarrow> real_c \<Rightarrow> real_c \<Rightarrow> bool" where
  "gamma_above fp g0 g1 g2 =
     (if fp_nonzero fp g0
      then fp_less fp (Of_int (- 1)) (Minus (Quotient (Minus (Pow (Quotient g2 g1) (Negative g0)) One) g0) (Quotient One g2))
      else fp_less fp (Quotient g2 (Exp (Minus One (Quotient One g2)))) g1)"

definition gamma_halve :: "fp_ops \<Rightarrow> real_c \<Rightarrow> real_c \<Rightarrow> real_c \<times> real_c \<times> real_c \<Rightarrow> real_c \<times> real_c \<times> real_c" where
  "gamma_halve fp g0 g1 = (\<lambda>(b0, b1, _).
     let m = Quotient (Sum b0 b1) (Of_int 2)
     in if gamma_above fp g0 g1 m then (b0, m, m) else (m, b1, m))"

text \<open>The six numbers \<open>g\<close>.\<close>

definition gamma_params :: "fp_ops \<Rightarrow> real_c \<Rightarrow> real_c \<Rightarrow> real_c list" where
  "gamma_params fp g0 g1 =
     (let zero = Of_int 0;
          toe = (fp_nonzero fp g1 \<and> \<not> fp_less fp zero (Product (Minus g1 One) (Minus g0 One)));
          start = (if fp_less fp g1 One then (One, zero, zero) else (zero, One, zero));
          g2 = (if toe then snd (snd ((gamma_halve fp g0 g1 ^^ 48) start)) else zero);
          g3 = (if toe then Quotient g2 g1 else zero);
          g4 = (if toe \<and> fp_nonzero fp g0 then Product g2 (Minus (Quotient One g0) One) else zero);
          half = Quotient (Product g1 (Product g3 g3)) (Of_int 2);
          area = (if fp_nonzero fp g0
                  then Sum (Minus half (Product g4 (Minus One g3)))
                         (Quotient (Product (Minus One (Pow g3 (Sum One g0))) (Sum One g4)) (Sum One g0))
                  else Minus (Minus (Minus (Sum half One) g2) g3) (Product (Product g2 g3) (Minus (Log g3) One)))
      in [g0, g1, g2, g3, g4, Minus (Quotient One area) One])"

text \<open>One cell of the curve, for \<open>mode\<close> 1 (\<open>encode\<close> is false) and 2.\<close>

definition gamma_value :: "fp_ops \<Rightarrow> real_c list \<Rightarrow> bool \<Rightarrow> real_c \<Rightarrow> real_c" where
  "gamma_value fp g encode r =
     (if encode then
        if fp_less fp r (g ! 3) then Product r (g ! 1)
        else if fp_nonzero fp (g ! 0) then Minus (Product (Pow r (g ! 0)) (Sum One (g ! 4))) (g ! 4)
        else Sum (Product (Log r) (g ! 2)) One
      else
        if fp_less fp r (g ! 2) then Quotient r (g ! 1)
        else if fp_nonzero fp (g ! 0) then Pow (Quotient (Sum r (g ! 4)) (Sum One (g ! 4))) (Quotient One (g ! 0))
        else Exp (Quotient (Minus r One) (g ! 2)))"

definition gamma_cell :: "fp_ops \<Rightarrow> real_c list \<Rightarrow> bool \<Rightarrow> int \<Rightarrow> int \<Rightarrow> u16" where
  "gamma_cell fp g encode imax i =
     (let r = Quotient (Of_int i) (Of_int imax)
      in if fp_less fp r One then word_of_int (fp_int fp (Product (Of_int 0x10000) (gamma_value fp g encode r))) else 0xffff)"

definition gamma_curve :: "fp_ops \<Rightarrow> real_c \<Rightarrow> real_c \<Rightarrow> int \<Rightarrow> int \<Rightarrow> u16 list" where
  "gamma_curve fp pwr ts mode imax = map (gamma_cell fp (gamma_params fp pwr ts) (mode = 2) imax) [0..0xffff]"

section \<open>pseudoinverse\<close>

text \<open>Matrices are lists of rows. \<open>inp\<close> has \<open>n\<close> rows of three; \<open>work\<close> has three rows of six.\<close>

definition dot :: "real_c list \<Rightarrow> real_c list \<Rightarrow> real_c \<Rightarrow> real_c" where
  "dot xs ys a = fold (\<lambda>(x, y) a. Sum a (Product x y)) (zip xs ys) a"

definition normal_rows :: "real_c list list \<Rightarrow> real_c list list" where
  "normal_rows inp =
     (let start = (\<lambda>i j. Of_int (if j = i + 3 then 1 else 0))
      in map (\<lambda>i. map (\<lambda>j. dot (map (\<lambda>r. r ! i) inp) (map (\<lambda>r. r ! j) inp) (start i j)) [0..<3] @ map (start i) [3..<6]) [0..<3])"

definition eliminate :: "nat \<Rightarrow> real_c list list \<Rightarrow> real_c list list" where
  "eliminate i work =
     (let num = work ! i ! i; row = map (\<lambda>x. Quotient x num) (work ! i)
      in map (\<lambda>k. if k = i then row else map2 (\<lambda>x y. Minus x (Product y (work ! k ! i))) (work ! k) row) [0..<3])"

definition pseudoinverse :: "real_c list list \<Rightarrow> real_c list list" where
  "pseudoinverse inp =
     (let work = fold eliminate [0..<3] (normal_rows inp)
      in map (\<lambda>r. map (\<lambda>j. dot (drop 3 (work ! j)) r (Of_int 0)) [0..<3]) inp)"

end
