(* ===== verification/TiffParse.thy ===== *)
theory TiffParse
  imports Makernote Sony FloatCode
begin

text \<open>
  The TIFF parser of dcraw: directories with their sub-directories, EXIF and GPS data, the notes of the
  makers, Leaf's, Kodak's and Minolta's own containers, and the encrypted directory of Sony. The parsers
  call each other; all calls go through \<open>parse_tiff_ifd\<close>, which takes a place in an array of ten, and that
  bounds the depth of the recursion.
\<close>

section \<open>Scanning\<close>

text \<open>
  \<open>%d\<close> at the begin of a text: its value and how many characters it takes. A sign without a digit is
  taken, but is no number.
\<close>

definition scan_int :: "string \<Rightarrow> int option \<times> nat" where
  "scan_int cs =
     (let ws = length (takeWhile c_isspace cs); r = drop ws cs;
          sg = (if r \<noteq> [] \<and> (hd r = CHR ''-'' \<or> hd r = CHR ''+'') then 1 else 0);
          ds = takeWhile c_isdigit (drop sg r)
      in (if ds = [] then None else Some (atoi (take (sg + length ds) r)), ws + sg + length ds))"

definition rest_chars :: "bitio \<Rightarrow> string" where
  "rest_chars io = map (\<lambda>w. char_of (unat w)) (drop (nat (ipos io)) (ifile io))"

text \<open>\<open>fscanf (ifp, "%d", &i)\<close> and \<open>fscanf (ifp, "%f", &x)\<close>, which leave the variable when there is no number.\<close>

definition fscan_int :: "int \<Rightarrow> bitio \<Rightarrow> int \<times> bitio" where
  "fscan_int i io = (case scan_int (rest_chars io) of (v, n) \<Rightarrow>
     ((case v of None \<Rightarrow> i | Some x \<Rightarrow> x), io\<lparr>ipos := ipos io + int n\<rparr>))"

definition fscan_real :: "fp_ops \<Rightarrow> real_c \<Rightarrow> bitio \<Rightarrow> real_c \<times> bitio" where
  "fscan_real fp x io = (case fp_scan fp (rest_chars io) of
     None \<Rightarrow> (x, io\<lparr>ipos := ipos io + int (length (takeWhile c_isspace (rest_chars io)))\<rparr>)
   | Some (y, n) \<Rightarrow> (y, io\<lparr>ipos := ipos io + int n\<rparr>))"

text \<open>
  \<open>sscanf (str, "%d:%d:%d %d:%d:%d", ...)\<close>: the numbers up to the first thing that does not match. A blank
  of the format matches any blanks, which \<open>%d\<close> skips anyway.
\<close>

fun scan_ints :: "char list \<Rightarrow> string \<Rightarrow> int list" where
  "scan_ints seps cs =
     (case scan_int cs of
        (None, n) \<Rightarrow> []
      | (Some v, n) \<Rightarrow> v # (let r = drop n cs in
          case seps of
            [] \<Rightarrow> []
          | c # seps' \<Rightarrow>
              if c = CHR '' '' then scan_ints seps' r
              else if r \<noteq> [] \<and> hd r = c then scan_ints seps' (tl r)
              else []))"

declare scan_ints.simps [simp del]

section \<open>Time, EXIF and GPS\<close>

definition get_timestamp :: "fp_ops \<Rightarrow> bool \<Rightarrow> meta \<Rightarrow> meta" where
  "get_timestamp fp reversed s =
     (let (str, s) =
        (if reversed then fold (\<lambda>_ (cs, s). case rd_io fgetc s of (c, s) \<Rightarrow> (word_of_int c # cs, s)) [0 ..< 19 :: nat] ([], s)
         else case rd_io (fread 19) s of (bs, s) \<Rightarrow> (overlay_bytes bs (uninit (tg s) 19), s))
      in case scan_ints '':: ::'' (c_str (str @ [0])) of
        [y, m, d, hh, mm, ss] \<Rightarrow>
          let t = fp_mktime fp [y - 1900, m - 1, d, hh, mm, ss] in if t > 0 then s\<lparr>timestamp := t\<rparr> else s
      | _ \<Rightarrow> s)"

definition set_shutter :: "fp_ops \<Rightarrow> real_c \<Rightarrow> meta \<Rightarrow> meta" where
  "set_shutter fp x s = s\<lparr>mshutter := x, tshutter := fp_float fp x\<rparr>"

definition set_ifd :: "int \<Rightarrow> (tiff_ifd \<Rightarrow> tiff_ifd) \<Rightarrow> meta \<Rightarrow> meta option" where
  "set_ifd i f s = do { d \<leftarrow> at (ifd_arr s) i; a \<leftarrow> put (ifd_arr s) i (f d); Some (s\<lparr>ifd_arr := a\<rparr>) }"

text \<open>
  An exposure time goes to the directory read last, whose place is \<open>n - 1\<close>; before any directory there is
  none.
\<close>

definition exif_shutter :: "fp_ops \<Rightarrow> int \<Rightarrow> real_c \<Rightarrow> meta \<Rightarrow> meta option" where
  "exif_shutter fp n x s = set_ifd (n - 1) (ti_shutter_update (\<lambda>_. fp_float fp x)) (set_shutter fp x s)"

definition exif_tag :: "fp_ops \<Rightarrow> bool \<Rightarrow> int \<Rightarrow> int \<Rightarrow> int \<Rightarrow> meta \<Rightarrow> meta option" where
  "exif_tag fp kodak tag type n s =
     (if tag = 33434 then case rd_io (getreal type) s of (x, s) \<Rightarrow> exif_shutter fp n x s
      else if tag = 33437 then case rd_io (getreal type) s of (x, s) \<Rightarrow> Some (s\<lparr>aperture := x\<rparr>)
      else if tag = 34855 then case rd_io get2 s of (x, s) \<Rightarrow> Some (s\<lparr>iso_speed := Of_int x\<rparr>)
      else if tag = 36867 \<or> tag = 36868 then Some (get_timestamp fp False s)
      else if tag = 37377 then case rd_io (getreal type) s of (x, s) \<Rightarrow>
        if fp_less fp (Negative x) (Of_int 128) then exif_shutter fp n (Pow2 (Negative x)) s else Some s
      else if tag = 37378 then case rd_io (getreal type) s of (x, s) \<Rightarrow> Some (s\<lparr>aperture := Pow2 (Quotient x (Of_int 2))\<rparr>)
      else if tag = 37386 then case rd_io (getreal type) s of (x, s) \<Rightarrow> Some (s\<lparr>focal_len := x\<rparr>)
      else if tag = 40962 then
        Some (if kodak then case rd_io get4 s of (x, s) \<Rightarrow> on_g (raw_width_update (\<lambda>_. c_u16 x)) s else s)
      else if tag = 40963 then
        Some (if kodak then case rd_io get4 s of (x, s) \<Rightarrow> on_g (raw_height_update (\<lambda>_. c_u16 x)) s else s)
      else if tag = 41730 then
        case rd_io get4 s of (x, s) \<Rightarrow>
          Some (if x = 0x20002
                then forc [0, 2, 4, 6] fgetc (\<lambda>c x s. s\<lparr>exif_cfa := exif_cfa s OR c_u32 (shl (x * 0x01010101) c)\<rparr>) (s\<lparr>exif_cfa := 0\<rparr>)
                else s)
      else Some s)"

text \<open>An entry; the maker note has its own parser.\<close>

definition exif_entry :: "fp_ops \<Rightarrow> note_parser \<Rightarrow> int \<Rightarrow> bool \<Rightarrow> tiff_globals \<Rightarrow> tiff_globals option" where
  "exif_entry fp note base kodak = (\<lambda>(n, s). do {
     let ((tag, type, len, save), s) = rd_io (tiff_get base) s;
     (n, s) \<leftarrow> (if tag = 37500 then note base (n, s) else do { s \<leftarrow> exif_tag fp kodak tag type n s; Some (n, s) });
     Some (n, seek_set save s) })"

definition parse_exif :: "fp_ops \<Rightarrow> note_parser \<Rightarrow> int \<Rightarrow> tiff_globals \<Rightarrow> tiff_globals option" where
  "parse_exif fp note base = (\<lambda>(n, s).
     let kodak = (strncmp_eq (cam_make (tg s)) ''EASTMAN'' \<and> n < 3);
         (entries, s) = rd_io get2 s
     in repeat_opt (nat entries) (exif_entry fp note base kodak) (n, s))"

text \<open>The bytes of the words of \<open>gpsdata\<close>, into which \<open>fgets\<close> writes text.\<close>

definition bytes_of_word :: "bool \<Rightarrow> u32 \<Rightarrow> u8 list" where
  "bytes_of_word big w =
     (let bs = map (\<lambda>k. ucast (drop_bit (8 * k) w)) [0 ..< 4 :: nat] in if big then rev bs else bs)"

definition word_of_bytes :: "bool \<Rightarrow> u8 list \<Rightarrow> u32" where
  "word_of_bytes big bs = foldr (\<lambda>b w. push_bit 8 w OR ucast b) (if big then rev bs else bs) 0"

definition gps_text :: "int \<Rightarrow> int \<Rightarrow> meta \<Rightarrow> meta option" where
  "gps_text k n s =
     (let big = big_host (io_of s); k = nat k; ws = take 3 (drop k (gpsdata s)) in
      do {
        (bs, b) \<leftarrow> fgets (concat (map (bytes_of_word big) ws)) n (io_of s);
        let ws = map (\<lambda>i. word_of_bytes big (take 4 (drop (4 * i) bs))) [0 ..< 3];
        Some ((set_io b s)\<lparr>gpsdata := take k (gpsdata s) @ ws @ drop (k + 3) (gpsdata s)\<rparr>) })"

definition set_gps :: "int \<Rightarrow> int \<Rightarrow> meta \<Rightarrow> meta" where
  "set_gps i x s = s\<lparr>gpsdata := (gpsdata s)[nat i := word_of_int x]\<rparr>"

definition gps_tag :: "int \<Rightarrow> int \<Rightarrow> meta \<Rightarrow> meta option" where
  "gps_tag tag len s =
     (if tag = 1 \<or> tag = 3 \<or> tag = 5 then case rd_io fgetc s of (x, s) \<Rightarrow> Some (set_gps (29 + tag div 2) x s)
      else if tag = 2 \<or> tag = 4 \<or> tag = 7 then Some (forc [0, 1, 2, 3, 4, 5] get4 (\<lambda>c. set_gps (tag div 3 * 6 + c)) s)
      else if tag = 6 then Some (forc [0, 1] get4 (\<lambda>c. set_gps (18 + c)) s)
      else if tag = 18 \<or> tag = 29 then gps_text (14 + tag div 3) (if len < 12 then len else 12) s
      else Some s)"

definition parse_gps :: "int \<Rightarrow> meta \<Rightarrow> meta option" where
  "parse_gps base s =
     (let (entries, s) = rd_io get2 s
      in repeat_opt (nat entries) (\<lambda>s.
           let ((tag, type, len, save), s) = rd_io (tiff_get base) s
           in do { s \<leftarrow> gps_tag tag len s; Some (seek_set save s) }) s)"

section \<open>Leaf\<close>

definition mos_models :: "string list" where
  "mos_models = [[], ''DCB2'', ''Volare'', ''Cantare'', ''CMost'', ''Valeo 6'', ''Valeo 11'', ''Valeo 22'',
     ''Valeo 11p'', ''Valeo 17'', [], ''Aptus 17'', ''Aptus 22'', ''Aptus 75'', ''Aptus 65'',
     ''Aptus 54S'', ''Aptus 65S'', ''Aptus 75S'', ''AFi 5'', ''AFi 6'', ''AFi 7'',
     ''AFi-II 7'', ''Aptus-II 7'', [], ''Aptus-II 6'', [], [], ''Aptus-II 10'', ''Aptus-II 5'',
     [], [], [], [], ''Aptus-II 10R'', ''Aptus-II 8'', [], ''Aptus-II 12'', [], ''AFi-II 12'']"

text \<open>The locals of a container: \<open>i\<close>, the number of planes, the rotation of the frame, the last name.\<close>

record mos_locals =
  ms_i :: int
  ms_planes :: int
  ms_frot :: int
  ms_data :: "u8 list"

definition mos_pattern :: "mos_locals \<times> meta \<Rightarrow> mos_locals \<times> meta" where
  "mos_pattern = (\<lambda>(l, s). fold (\<lambda>c (l, s). case rd_io (fscan_int (ms_i l)) s of (i, s) \<Rightarrow>
     (l\<lparr>ms_i := i, ms_frot := (if i = 1 then c XOR shr c 1 else ms_frot l)\<rparr>, s)) [0, 1, 2, 3] (l, s))"

definition scan_reals :: "fp_ops \<Rightarrow> nat \<Rightarrow> meta \<Rightarrow> real_c list \<times> meta" where
  "scan_reals fp n s =
     fold (\<lambda>k (xs, s). case rd_io (fscan_real fp (Float_bits (c_u32 (junk (tg s) k)))) s of (x, s) \<Rightarrow> (xs @ [x], s)) [0..<n] ([], s)"

definition scan_ints4 :: "meta \<Rightarrow> int list \<times> meta" where
  "scan_ints4 s =
     fold (\<lambda>k (xs, s). case rd_io (fscan_int (c_s32 (junk (tg s) k))) s of (x, s) \<Rightarrow> (xs @ [x], s)) [0..<4] ([], s)"

definition get_reals :: "nat \<Rightarrow> meta \<Rightarrow> real_c list \<times> meta" where
  "get_reals n s = fold (\<lambda>_ (xs, s). case rd_io get4 s of (x, s) \<Rightarrow> (xs @ [Float_bits x], s)) [0..<n] ([], s)"

definition mos_item :: "fp_ops \<Rightarrow> string \<Rightarrow> int \<Rightarrow> int \<Rightarrow> mos_locals \<times> meta \<Rightarrow> mos_locals \<times> meta" where
  "mos_item fp data from skip = (\<lambda>(l, s).
     if data = ''JPEG_preview_data'' then (l, s\<lparr>thumb_offset := from, thumb_length := c_u32 skip\<rparr>)
     else if data = ''icc_camera_profile'' then (l, s\<lparr>profile_offset := from, profile_length := c_u32 skip\<rparr>)
     else if data = ''ShootObj_back_type'' then
       case rd_io (fscan_int (ms_i l)) s of (i, s) \<Rightarrow>
         (l\<lparr>ms_i := i\<rparr>, if 0 \<le> i \<and> i < int (length mos_models) then set_model (strcpy (mos_models ! nat i) (model_arr s)) s else s)
     else if data = ''icc_camera_to_tone_matrix'' then case get_reals 9 s of (xs, s) \<Rightarrow> (l\<lparr>ms_i := 9\<rparr>, romm_coeff xs s)
     else if data = ''CaptProf_color_matrix'' then case scan_reals fp 9 s of (xs, s) \<Rightarrow> (l\<lparr>ms_i := 9\<rparr>, romm_coeff xs s)
     else if data = ''CaptProf_number_of_planes'' then
       case rd_io (fscan_int (ms_planes l)) s of (n, s) \<Rightarrow> (l\<lparr>ms_planes := n\<rparr>, s)
     else if data = ''CaptProf_raw_data_rotation'' then
       case rd_io (fscan_int (c_s32 (mflip s))) s of (f, s) \<Rightarrow> (l, s\<lparr>mflip := c_u32 f\<rparr>)
     else if data = ''CaptProf_mosaic_pattern'' then mos_pattern (l, s)
     else if data = ''ImgProf_rotation_angle'' then
       case rd_io (fscan_int (ms_i l)) s of (i, s) \<Rightarrow> (l\<lparr>ms_i := i\<rparr>, s\<lparr>mflip := c_u32 (i - mflip s)\<rparr>)
     else if data = ''NeutObj_neutrals'' \<and> \<not> fp_nonzero fp (cam_mul s ! 0) then
       case scan_ints4 s of (ns, s) \<Rightarrow>
         (l, fold (\<lambda>c. set_mul c (Quotient (Of_int (ns ! 0)) (Of_int (ns ! nat (c + 1))))) [0, 1, 2] s)
     else if data = ''Rows_data'' then case rd_io get4 s of (x, s) \<Rightarrow> (l, on_g (load_flags_update (\<lambda>_. x)) s)
     else (l, s))"

definition mos_filters :: "mos_locals \<Rightarrow> meta \<Rightarrow> meta" where
  "mos_filters l s =
     (if ms_planes l \<noteq> 0
      then on_d (filters_update (\<lambda>_. if ms_planes l = 1
        then c_u32 (0x01010101 * [0x94, 0x61, 0x16, 0x49] ! nat (c_u32 (mflip s div 90 + ms_frot l) AND 3)) else 0)) s
      else s)"

text \<open>
  The loop over the items of a container, each of which may be a container. An item may point back, so
  that the loop need not end.
\<close>

definition mos_start :: "meta \<Rightarrow> mos_locals" where
  "mos_start s = \<lparr>ms_i = c_s32 (junk (tg s) 0), ms_planes = 0, ms_frot = 0, ms_data = uninit (tg s) 40\<rparr>"

partial_function (option) mos_loop :: "fp_ops \<Rightarrow> mos_locals \<Rightarrow> meta \<Rightarrow> (mos_locals \<times> meta) option" where
  "mos_loop fp l s =
     (case rd_io get4 s of (x, s) \<Rightarrow>
        if x \<noteq> 0x504b5453 then Some (l, s)
        else
          let (bs, s) = rd_io (fread 40) (drop_io get4 s);
              (skip, s) = rd_io get4 s;
              skip = c_s32 skip; from = c_s32 (tell s);
              bs = overlay_bytes bs (ms_data l);
              (l, s) = mos_item fp (c_str bs) from skip (l\<lparr>ms_data := bs\<rparr>, s)
          in do {
            (l', s) \<leftarrow> mos_loop fp (mos_start s) (seek_set from s);
            mos_loop fp l (seek_set (c_s32 (skip + from)) (mos_filters l' s)) })"

definition parse_mos :: "fp_ops \<Rightarrow> int \<Rightarrow> meta \<Rightarrow> meta option" where
  "parse_mos fp offset s = do {
     (l, s) \<leftarrow> mos_loop fp (mos_start s) (seek_set offset s);
     Some (mos_filters l s) }"

section \<open>Kodak\<close>

text \<open>The locals: the index of the white balance, its temperature and its multipliers (\<open>float\<close>).\<close>

record kodak_locals =
  kd_wbi :: int
  kd_temp :: int
  kd_mul :: "real_c list"

definition kodak_wbtag :: "int list" where
  "kodak_wbtag = [64037, 64040, 64039, 64041, -1, -1, 64042]"

text \<open>The white balance as a cubic polynomial of the temperature, for each colour.\<close>

definition kodak_temp_mul :: "int \<Rightarrow> kodak_locals \<Rightarrow> meta \<Rightarrow> meta" where
  "kodak_temp_mul type l s =
     fold (\<lambda>c s.
       let (num, s) = fold (\<lambda>i (num, s). case rd_io (getreal type) s of (x, s) \<Rightarrow>
             (Sum num (Product x (Pow (Quotient (Of_int (kd_temp l)) (Of_int 100)) (Of_int i))), s)) [0, 1, 2, 3] (Of_int 0, s)
       in set_mul c (Quotient (Of_int 2048) (Product num (kd_mul l ! nat c))) s) [0, 1, 2] s"

definition kodak_tag :: "int \<Rightarrow> int \<Rightarrow> int \<Rightarrow> kodak_locals \<times> meta \<Rightarrow> (kodak_locals \<times> meta) option" where
  "kodak_tag tag type len = (\<lambda>(l, s). do {
     let (l, s) = (if tag = 1020 then case rd_io (getint type) s of (x, s) \<Rightarrow> (l\<lparr>kd_wbi := c_s32 x\<rparr>, s) else (l, s));
     let (l, s) = (if tag = 1021 \<and> len = 72
        then (l\<lparr>kd_wbi := -2\<rparr>, forc3 get2 (\<lambda>c x. set_mul c (Quotient (Of_int 2048) (Of_int x))) (seek_cur 40 s)) else (l, s));
     let (l, s) = (if tag = 2118 then case rd_io (getint type) s of (x, s) \<Rightarrow> (l\<lparr>kd_temp := c_s32 x\<rparr>, s) else (l, s));
     let s = (if tag = c_u32 (2120 + kd_wbi l) \<and> kd_wbi l \<ge> 0
        then forc3 (getreal type) (\<lambda>c x. set_mul c (Quotient (Of_int 2048) x)) s else s);
     let (l, s) = (if tag = c_u32 (2130 + kd_wbi l)
        then fold (\<lambda>c (l, s). case rd_io (getreal type) s of (x, s) \<Rightarrow> (l\<lparr>kd_mul := (kd_mul l)[c := x]\<rparr>, s)) [0, 1, 2] (l, s)
        else (l, s));
     let s = (if tag = c_u32 (2140 + kd_wbi l) \<and> kd_wbi l \<ge> 0 then kodak_temp_mul type l s else s);
     s \<leftarrow> (if tag = 2317 then linear_table len s else Some s);
     let s = (if tag = 6020 then case rd_io (getint type) s of (x, s) \<Rightarrow> s\<lparr>iso_speed := Of_int (c_s32 x)\<rparr> else s);
     let (l, s) = (if tag = 64013 then case rd_io fgetc s of (x, s) \<Rightarrow> (l\<lparr>kd_wbi := x\<rparr>, s) else (l, s));
     let s = (if 0 \<le> kd_wbi l \<and> kd_wbi l < 7 \<and> tag = c_u32 (kodak_wbtag ! nat (kd_wbi l))
        then forc3 get4 (\<lambda>c x. set_mul c (Of_int x)) s else s);
     let s = (if tag = 64019 then case rd_io (getint type) s of (x, s) \<Rightarrow> on_g (width_update (\<lambda>_. c_u16 x)) s else s);
     let s = (if tag = 64020 then case rd_io (getint type) s of (x, s) \<Rightarrow> on_g (height_update (\<lambda>_. c_u16 ((x + 1) AND -2))) s else s);
     Some (l, s) })"

definition parse_kodak_ifd :: "int \<Rightarrow> meta \<Rightarrow> meta option" where
  "parse_kodak_ifd base s =
     (let (entries, s) = rd_io get2 s
      in if entries > 1024 then Some s
         else do {
           (l, s) \<leftarrow> repeat_opt (nat entries) (\<lambda>(l, s).
             let ((tag, type, len, save), s) = rd_io (tiff_get base) s
             in do { (l, s) \<leftarrow> kodak_tag tag type len (l, s); Some (l, seek_set save s) })
             (\<lparr>kd_wbi = -2, kd_temp = 6500, kd_mul = replicate 3 (Of_int 1)\<rparr>, s);
           Some s })"

section \<open>The chain of directories\<close>

text \<open>
  \<open>parse_tiff\<close> on a parser of directories. In every round that goes on, the parser takes a place in the
  array, so that ten rounds are the most there can be; the loop is stated without that.
\<close>

partial_function (option) tiff_chain :: "tiff_parser \<Rightarrow> int \<Rightarrow> tiff_globals \<Rightarrow> tiff_globals option" where
  "tiff_chain ifd base ns =
     (case rd_io get4 (snd ns) of (doff, s) \<Rightarrow>
        if doff = 0 then Some (fst ns, s)
        else do {
          (r, ns) \<leftarrow> ifd base (fst ns, seek_set (c_u32 (doff + base)) s);
          if r then Some ns else tiff_chain ifd base ns })"

definition parse_tiff :: "tiff_parser \<Rightarrow> tiff_parser" where
  "parse_tiff ifd base = (\<lambda>(n, s).
     let (x, s) = rd_io get2 (seek_set base s); s = set_order x s
     in if x \<noteq> 0x4949 \<and> x \<noteq> 0x4d4d then Some (False, n, s)
        else do { ns \<leftarrow> tiff_chain ifd base (n, drop_io get2 s); Some (True, ns) })"

section \<open>Minolta\<close>

text \<open>
  A block; \<open>high\<close> and \<open>wide\<close> are the sizes found so far. The length of a block may lead back to the block
  itself, so that the loop need not end.
\<close>

definition get4_msb :: "meta \<Rightarrow> int \<times> meta" where
  "get4_msb s = fold (\<lambda>_ (t, s). case rd_io fgetc s of (c, s) \<Rightarrow> (c_s32 (shl t 8 OR c), s)) [0 ..< 4 :: nat] (0, s)"

definition minolta_block :: "tiff_parser \<Rightarrow> int \<Rightarrow> int \<Rightarrow> (int \<times> int) \<times> tiff_globals \<Rightarrow> ((int \<times> int) \<times> tiff_globals) option" where
  "minolta_block ifd offset tag = (\<lambda>(hw, n, s).
     if tag = 0x505244 then
       let (h, s) = rd_io get2 (seek_cur 8 s); (w, s) = rd_io get2 s in Some ((h, w), n, s)
     else if tag = 0x574247 then
       let i = (if cam_model (tg s) = ''DiMAGE A200'' then 3 else 0)
       in Some (hw, n, forc4 get2 (\<lambda>c x. set_mul (c XOR shr c 1 XOR i) (Of_int x)) (drop_io get4 s))
     else if tag = 0x545457 then do {
       (_, n, s) \<leftarrow> parse_tiff ifd (c_s32 (tell s)) (n, s);
       Some (hw, n, on_g (data_offset_update (\<lambda>_. offset)) s) }
     else Some (hw, n, s))"

partial_function (option) minolta_blocks :: "tiff_parser \<Rightarrow> int \<Rightarrow> (int \<times> int) \<times> tiff_globals \<Rightarrow> ((int \<times> int) \<times> tiff_globals) option" where
  "minolta_blocks ifd offset st =
     (case st of (hw, n, s) \<Rightarrow>
        let save = c_s32 (tell s) in
        if save < offset then
          let (tag, s) = get4_msb s; (len, s) = rd_io get4 s in
          do {
            (hw, n, s) \<leftarrow> minolta_block ifd offset tag (hw, n, s);
            minolta_blocks ifd offset (hw, n, seek_set (c_s32 (save + len + 8)) s) }
        else Some (hw, n, s))"

definition parse_minolta :: "tiff_parser \<Rightarrow> int \<Rightarrow> tiff_globals \<Rightarrow> tiff_globals option" where
  "parse_minolta ifd base = (\<lambda>(n, s).
     (let sorder = byte_order (io_of s);
          (a, s) = rd_io fgetc (seek_set base s)
      in if a \<noteq> 0 then Some (n, s)
         else let (b, s) = rd_io fgetc s
         in if b \<noteq> 77 then Some (n, s)
         else let (c, s) = rd_io fgetc s
         in if c \<noteq> 82 then Some (n, s)
         else
           let (e, s) = rd_io fgetc s;
               (x, s) = rd_io get4 (set_order (c_s16 (e * 0x101)) s)
           in do {
             ((h, w), n, s) \<leftarrow> minolta_blocks ifd (c_s32 (base + x + 8)) ((0, 0), n, s);
             Some (n, set_order sorder (on_g (\<lambda>g. g\<lparr>raw_height := h, raw_width := w\<rparr>) s)) }))"

section \<open>The entries of a directory\<close>

text \<open>
  The locals of \<open>parse_tiff_ifd\<close>: its place in the array, what it knows of the colour filter, the matrices
  of the DNG tags (\<open>double\<close>, row by row), Sony's encrypted part, and a text.
\<close>

record ifd_locals =
  id_ifd :: int
  id_use_cm :: bool
  id_ima_len :: int
  id_plen :: int
  id_cfa_pat :: "u8 list"
  id_cfa_pc :: "u8 list"
  id_tab :: "u8 list"
  id_cc :: "real_c list"
  id_cm :: "real_c list"
  id_ab :: "real_c list"
  id_asn :: "real_c list"
  id_xyz :: "real_c list"
  id_sony_offset :: int
  id_sony_length :: int
  id_sony_key :: int
  id_soft :: "u8 list"

type_synonym ifd_state = "ifd_locals \<times> meta"

definition ifd_start :: "int \<Rightarrow> meta \<Rightarrow> ifd_locals" where
  "ifd_start ifd s =
     (let g = tg s in
      \<lparr>id_ifd = ifd, id_use_cm = False, id_ima_len = 0, id_plen = 16, id_cfa_pat = uninit g 16, id_cfa_pc = [0, 1, 2, 3],
       id_tab = uninit g 256, id_cc = map (\<lambda>k. Of_int (if k div 4 = k mod 4 then 1 else 0)) [0 ..< 16],
       id_cm = map (\<lambda>k. Double_bytes [junk g k]) [0 ..< 12], id_ab = replicate 4 (Of_int 1), id_asn = replicate 4 (Of_int 0),
       id_xyz = replicate 3 (Of_int 1), id_sony_offset = 0, id_sony_length = 0, id_sony_key = 0, id_soft = uninit g 64\<rparr>)"

text \<open>Reading numbers into the places \<open>is\<close> of an array.\<close>

fun reals_at :: "int \<Rightarrow> int list \<Rightarrow> real_c list \<Rightarrow> meta \<Rightarrow> (real_c list \<times> meta) option" where
  "reals_at type [] xs s = Some (xs, s)"
| "reals_at type (i # is) xs s =
     (case rd_io (getreal type) s of (x, s) \<Rightarrow> do { xs \<leftarrow> put xs i x; reals_at type is xs s })"

definition gets_model :: "meta \<Rightarrow> meta option" where
  "gets_model s = do { (a, b) \<leftarrow> fgets (model_arr s) 64 (io_of s); Some (set_model a (set_io b s)) }"

definition gets_make :: "meta \<Rightarrow> meta option" where
  "gets_make s = do { (a, b) \<leftarrow> fgets (make_arr s) 64 (io_of s); Some (set_make a (set_io b s)) }"

definition gets_model2 :: "meta \<Rightarrow> meta option" where
  "gets_model2 s = do { (a, b) \<leftarrow> fgets (model2_arr s) 64 (io_of s); Some (set_model2 a (set_io b s)) }"

text \<open>Tags that fill the entry of the directory itself.\<close>

definition entry_tags :: "int list" where
  "entry_tags = [2, 256, 61441, 3, 257, 61442, 258, 61443, 259, 262, 274, 277, 279, 514, 61448, 322, 323, 324, 33434]"

definition entry_tag :: "fp_ops \<Rightarrow> int \<Rightarrow> int \<Rightarrow> int \<Rightarrow> int \<Rightarrow> meta \<Rightarrow> meta option" where
  "entry_tag fp ifd tag type len s =
     (let num = (\<lambda>f. case rd_io (getint type) s of (x, s) \<Rightarrow> set_ifd ifd (f (c_s32 x)) s) in
      if tag = 2 \<or> tag = 256 \<or> tag = 61441 then num (\<lambda>x. ti_width_update (\<lambda>_. x))
      else if tag = 3 \<or> tag = 257 \<or> tag = 61442 then num (\<lambda>x. ti_height_update (\<lambda>_. x))
      else if tag = 258 \<or> tag = 61443 then
        let (x, s) = rd_io (getint type) s; b = (if c_s32 x > 32 then 8 else c_s32 x) in
        do {
          s \<leftarrow> set_ifd ifd (\<lambda>d. d\<lparr>ti_samples := len AND 7, ti_bps := b\<rparr>) s;
          Some (if tiff_bps (tg s) < c_u32 b then on_g (tiff_bps_update (\<lambda>_. c_u32 b)) s else s) }
      else if tag = 259 then num (\<lambda>x. ti_comp_update (\<lambda>_. x))
      else if tag = 262 then case rd_io get2 s of (x, s) \<Rightarrow> set_ifd ifd (ti_phint_update (\<lambda>_. x)) s
      else if tag = 274 then
        case rd_io get2 s of (x, s) \<Rightarrow> set_ifd ifd (ti_flip_update (\<lambda>_. [5, 0, 1, 3, 2, 4, 6, 7] ! nat (x AND 7))) s
      else if tag = 277 then num (\<lambda>x. ti_samples_update (\<lambda>_. x AND 7))
      else if tag = 279 \<or> tag = 514 \<or> tag = 61448 then
        case rd_io get4 s of (x, s) \<Rightarrow> set_ifd ifd (ti_bytes_update (\<lambda>_. c_s32 x)) s
      else if tag = 322 then num (\<lambda>x. ti_tile_width_update (\<lambda>_. x))
      else if tag = 323 then num (\<lambda>x. ti_tile_length_update (\<lambda>_. x))
      else if tag = 324 then
        let (x, s) = (if len > 1 then (tell s, s) else rd_io get4 s) in
        do {
          s \<leftarrow> set_ifd ifd (\<lambda>d. let d = d\<lparr>ti_offset := c_s32 x\<rparr> in if len = 1 then d\<lparr>ti_tile_width := 0, ti_tile_length := 0\<rparr> else d) s;
          Some (if len = 4 then on_g (is_raw_update (\<lambda>_. 5)) (s\<lparr>load_raw := Some Sinar_4shot_raw\<rparr>) else s) }
      else
        case rd_io (getreal type) s of (x, s) \<Rightarrow> set_ifd ifd (ti_shutter_update (\<lambda>_. fp_float fp x)) (set_shutter fp x s))"

text \<open>White balances.\<close>

definition balance_tags :: "int list" where
  "balance_tags = [17, 18, 36, 37, 38, 39, 61454, 29443, 29459, 34306]"

definition balance_tag :: "fp_ops \<Rightarrow> int \<Rightarrow> int \<Rightarrow> int \<Rightarrow> meta \<Rightarrow> meta" where
  "balance_tag fp tag type len s =
     (if tag = 17 \<or> tag = 18 then
        if type = 3 \<and> len = 1
        then case rd_io get2 s of (x, s) \<Rightarrow> set_mul ((tag - 17) * 2) (Quotient (Of_int x) (Of_int 256)) s else s
      else if tag = 36 \<or> tag = 37 \<or> tag = 38 then case rd_io get2 s of (x, s) \<Rightarrow> set_mul (tag - 36) (Of_int x) s
      else if tag = 39 then
        if len < 50 \<or> fp_nonzero fp (cam_mul s ! 0) then s
        else forc3 get2 (\<lambda>c x. set_mul c (Of_int x)) (seek_cur 12 s)
      else if tag = 61454 then forc3 (getint type) (\<lambda>c x. set_mul ((4 - c) mod 3) (Of_int x)) s
      else if tag = 29443 then forc4 get2 (\<lambda>c x. set_mul (c XOR (if c < 2 then 1 else 0)) (Of_int x)) s
      else if tag = 29459 then
        let s = forc4 get2 (\<lambda>c x. set_mul c (Of_int x)) s;
            i = (if cam_mul s ! 1 = Of_int 1024 \<and> cam_mul s ! 2 = Of_int 1024 then 2 else 0)
        in s\<lparr>cam_mul := (cam_mul s)[i := cam_mul s ! (i + 1), i + 1 := cam_mul s ! i]\<rparr>
      else forc4 get2 (\<lambda>c x. set_mul (c XOR 1) (Quotient (Of_int 4096) (Of_int x))) s)"

text \<open>Sizes, names, dates and other globals.\<close>

definition global_tags :: "int list" where
  "global_tags = [5, 6, 7, 9, 23, 28, 29, 30, 46, 61446, 270, 271, 272, 306, 315, 400, 33405, 33437, 34675, 50831, 37122,
     37386, 37393, 40976, 51009, 64772, 65026, 50752]"

definition samsung_loader :: "int \<Rightarrow> raw_loader option" where
  "samsung_loader c = map_of [(32770, Samsung_raw), (32772, Samsung2_raw), (32773, Samsung3_raw)] c"

definition global_tag :: "fp_ops \<Rightarrow> int \<Rightarrow> int \<Rightarrow> int \<Rightarrow> int \<Rightarrow> meta \<Rightarrow> meta option" where
  "global_tag fp ifd tag type len s =
     (if tag = 5 then case rd_io get2 s of (x, s) \<Rightarrow> Some (on_g (width_update (\<lambda>_. x)) s)
      else if tag = 6 then case rd_io get2 s of (x, s) \<Rightarrow> Some (on_g (height_update (\<lambda>_. x)) s)
      else if tag = 7 then case rd_io get2 s of (x, s) \<Rightarrow> Some (on_g (width_update (\<lambda>w. c_u16 (w + x))) s)
      else if tag = 9 then case rd_io get2 s of (x, s) \<Rightarrow> Some (if x \<noteq> 0 then on_d (filters_update (\<lambda>_. x)) s else s)
      else if tag = 23 then
        Some (if type = 3 then case rd_io get2 s of (x, s) \<Rightarrow> s\<lparr>iso_speed := Of_int x\<rparr> else s)
      else if tag = 28 \<or> tag = 29 \<or> tag = 30 then
        case rd_io get2 s of (x, s) \<Rightarrow> Some (on_d (\<lambda>t. t\<lparr>cblack := (cblack t)[3 := cblack t ! 1]\<rparr>) (set_black (tag - 28) x s))
      else if tag = 46 then
        Some (if type \<noteq> 7 then s
              else let (a, s) = rd_io fgetc s in
                if a \<noteq> 0xff then s
                else let (b, s) = rd_io fgetc s in
                  if b \<noteq> 0xd8 then s else s\<lparr>thumb_offset := tell s - 2, thumb_length := len\<rparr>)
      else if tag = 61446 then
        case rd_io get4 s of (x, s) \<Rightarrow> Some (on_g (\<lambda>g. g\<lparr>raw_height := 0, load_flags := (if x \<noteq> 0 then 24 else 80)\<rparr>) s)
      else if tag = 270 then case rd_io (fread 512) s of (bs, s) \<Rightarrow> Some (s\<lparr>desc := overlay_bytes bs (desc s)\<rparr>)
      else if tag = 271 then gets_make s
      else if tag = 272 then gets_model s
      else if tag = 306 then Some (get_timestamp fp False s)
      else if tag = 315 then case rd_io (fread 64) s of (bs, s) \<Rightarrow> Some (s\<lparr>artist := overlay_bytes bs (artist s)\<rparr>)
      else if tag = 400 then Some (on_d (maximum_update (\<lambda>_. 0xfff)) (set_make (strcpy ''Sarnoff'' (make_arr s)) s))
      else if tag = 33405 then gets_model2 s
      else if tag = 33437 then case rd_io (getreal type) s of (x, s) \<Rightarrow> Some (s\<lparr>aperture := x\<rparr>)
      else if tag = 34675 \<or> tag = 50831 then Some (s\<lparr>profile_offset := tell s, profile_length := len\<rparr>)
      else if tag = 37122 then case rd_io get4 s of (x, s) \<Rightarrow> Some (on_g (kodak_cbpp_update (\<lambda>_. x)) s)
      else if tag = 37386 then case rd_io (getreal type) s of (x, s) \<Rightarrow> Some (s\<lparr>focal_len := x\<rparr>)
      else if tag = 37393 then case rd_io (getint type) s of (x, s) \<Rightarrow> Some (s\<lparr>shot_order := x\<rparr>)
      else if tag = 40976 then
        case rd_io get4 s of (x, s) \<Rightarrow> do {
          d \<leftarrow> at (ifd_arr s) ifd;
          let s = on_g (strip_offset_update (\<lambda>_. x)) s;
          Some (case samsung_loader (ti_comp d) of None \<Rightarrow> s | Some l \<Rightarrow> s\<lparr>load_raw := Some l\<rparr>) }
      else if tag = 51009 then Some (on_g (meta_offset_update (\<lambda>_. tell s)) s)
      else if tag = 64772 then
        Some (if len < 13 then s
              else let (a, s) = rd_io get4 (seek_cur 16 s); (b, s) = rd_io get4 (seek_cur 28 s)
                in on_g (data_offset_update (\<lambda>_. a + b)) (s\<lparr>load_raw := Some Packed_raw\<rparr>))
      else if tag = 65026 then if type = 2 then gets_model2 s else Some s
      else do {
        (xs, b) \<leftarrow> read_shorts (cr2_slice (tg s)) 0 3 (io_of s);
        Some (on_g (cr2_slice_update (\<lambda>_. xs)) (set_io b s)) })"

text \<open>The colour filter array.\<close>

fun cfa_count :: "u8 list \<Rightarrow> int \<times> int \<Rightarrow> int \<times> int" where
  "cfa_count [] r = r"
| "cfa_count (p # ps) (n, cfa) =
     (if n < 4 then
        let b = shl_i 1 (uint p) in cfa_count ps (n + (if cfa AND b = 0 then 1 else 0), cfa OR b)
      else (n, cfa))"

definition guess_cfa_pc :: "ifd_state \<Rightarrow> ifd_state option" where
  "guess_cfa_pc = (\<lambda>(l, s). do {
     let n = colors (td s);
     tab \<leftarrow> for_up 0 n (\<lambda>c tab. do { p \<leftarrow> rd (id_cfa_pc l) c; wr tab p c }) (id_tab l);
     cd \<leftarrow> wr (cdesc s) n 0;
     f \<leftarrow> for_up 0 16 (\<lambda>k f. do {
        i \<leftarrow> c_mod (15 - k) (id_plen l);
        p \<leftarrow> rd (id_cfa_pat l) i;
        x \<leftarrow> rd tab p;
        Some (c_u32 (shl f 2) OR x) }) (filters (td s));
     Some (l\<lparr>id_tab := tab\<rparr>, on_d (filters_update (\<lambda>_. if f = 0 then 0xffffffff else f)) (s\<lparr>cdesc := cd\<rparr>)) })"

definition cfa_pattern :: "int \<Rightarrow> ifd_state \<Rightarrow> ifd_state option" where
  "cfa_pattern len = (\<lambda>(l, s).
     let plen = (if len > 16 then 16 else len);
         (bs, s) = rd_io (fread plen) s;
         pat = overlay_bytes bs (id_cfa_pat l);
         (n, cfa) = cfa_count (take (nat plen) pat) (0, 0);
         pc = (if cfa = 56 then overlay_bytes [3, 4, 5] (id_cfa_pc l)
               else if cfa = 58 then overlay_bytes [5, 3, 4, 1] (id_cfa_pc l) else id_cfa_pc l)
     in guess_cfa_pc (l\<lparr>id_plen := plen, id_cfa_pat := pat, id_cfa_pc := pc\<rparr>, on_d (colors_update (\<lambda>_. n)) s))"

definition read_xtrans :: "meta \<Rightarrow> meta" where
  "read_xtrans s =
     (case fold (\<lambda>_ (cs, s). case rd_io fgetc s of (x, s) \<Rightarrow> (cs @ [x AND 3], s)) [0 ..< 36 :: nat] ([], s) of
        (cs, s) \<Rightarrow> on_g (xtrans_update (\<lambda>_. map (\<lambda>r. take 6 (drop (6 * r) cs)) [0..<6])) s)"

definition cfa_tags :: "int list" where
  "cfa_tags = [33421, 33422, 64777, 50710, 50711]"

definition cfa_tag :: "int \<Rightarrow> int \<Rightarrow> ifd_state \<Rightarrow> ifd_state option" where
  "cfa_tag tag len = (\<lambda>(l, s).
     if tag = 33421 then
       let (a, s) = rd_io get2 s in
       if a \<noteq> 6 then Some (l, s)
       else let (b, s) = rd_io get2 s in Some (l, if b = 6 then on_d (filters_update (\<lambda>_. 9)) s else s)
     else if tag = 33422 \<and> filters (td s) = 9 then Some (l, read_xtrans s)
     else if tag = 33422 \<or> tag = 64777 then cfa_pattern len (l, s)
     else if tag = 50710 then
       if filters (td s) = 9 then Some (l, s)
       else
         let n = (if len > 4 then 4 else len); (bs, s) = rd_io (fread n) s
         in guess_cfa_pc (l\<lparr>id_cfa_pc := overlay_bytes bs (id_cfa_pc l)\<rparr>, on_d (colors_update (\<lambda>_. n)) s)
     else case rd_io get2 s of (x, s) \<Rightarrow> Some (l, if x = 2 then on_g (fuji_width_update (\<lambda>_. 1)) s else s))"

text \<open>Levels and matrices of DNG files.\<close>

definition black_levels_tag :: "fp_ops \<Rightarrow> int \<Rightarrow> meta \<Rightarrow> meta option" where
  "black_levels_tag fp type s = do {
     r \<leftarrow> rd (cblack (td s)) 4;
     n \<leftarrow> rd (cblack (td s)) 5;
     cb \<leftarrow> (if r * n = 0 then do { cb \<leftarrow> wr (cblack (td s)) 4 1; wr cb 5 1 } else Some (cblack (td s)));
     let m = (if r * n = 0 then 1 else c_s32 (r * n));
     (cb, s) \<leftarrow> for_up 0 m (\<lambda>c (cb, s).
        case rd_io (getreal type) s of (x, s) \<Rightarrow> do { cb \<leftarrow> wr cb (6 + c) (fp_int fp x); Some (cb, s) }) (cb, s);
     Some (on_d (\<lambda>t. t\<lparr>cblack := cb, black := 0\<rparr>) s) }"

text \<open>\<open>MIN (sqrt (len), 64)\<close> as an integer.\<close>

definition sqrt_64 :: "int \<Rightarrow> int" where
  "sqrt_64 n = int (length (filter (\<lambda>k. k * k \<le> n) [1..64]))"

definition white_xy :: "int \<Rightarrow> ifd_state \<Rightarrow> ifd_state" where
  "white_xy type = (\<lambda>(l, s).
     let (x, s) = rd_io (getreal type) s;
         (y, s) = rd_io (getreal type) s;
         z = Sum (Sum (Of_int 1) (Negative x)) (Negative y)
     in (l\<lparr>id_xyz := [Quotient x (Decimal ''0.950456''), Quotient y (Of_int 1), Quotient z (Decimal ''1.088754'')]\<rparr>, s))"

definition camera_name :: "meta \<Rightarrow> meta option" where
  "camera_name s =
     (if model_arr s ! 0 \<noteq> 0 then Some s
      else do {
        s \<leftarrow> gets_make s;
        Some (case split_blank (c_str (make_arr s)) of
                (_, None) \<Rightarrow> s
              | (mk, Some rest) \<Rightarrow> set_make ((make_arr s)[length mk := 0]) (set_model (strcpy rest (model_arr s)) s)) })"

definition dng_tags :: "int list" where
  "dng_tags = [50706, 50708, 291, 50712, 50713, 61450, 50714, 50715, 50716, 50717, 50718, 50721, 50722, 50723, 50724,
     50727, 50728, 50729, 50829, 50830]"

definition dng_tag :: "fp_ops \<Rightarrow> int \<Rightarrow> int \<Rightarrow> int \<Rightarrow> ifd_state \<Rightarrow> ifd_state option" where
  "dng_tag fp tag type len = (\<lambda>(l, s).
     let n = colors (td s) in
     if tag = 50706 then
       let s = forc4 fgetc (\<lambda>_ x. on_g (dng_version_update (\<lambda>v. c_u32 (shl v 8 + x)))) s;
           s = (if make_arr s ! 0 = 0 then set_make (strcpy ''DNG'' (make_arr s)) s else s)
       in Some (l, on_g (is_raw_update (\<lambda>_. 1)) s)
     else if tag = 50708 then do { s \<leftarrow> camera_name s; Some (l, s) }
     else if tag = 291 \<or> tag = 50712 then do { s \<leftarrow> linear_table len s; Some (l, s) }
     else if tag = 50713 then
       let (a, s) = rd_io get2 s; (b, s) = rd_io get2 s; (a, b) = (if c_s32 (a * b) > 4102 - 6 \<or> c_s32 (a * b) < 0 then (1, 1) else (a, b))
       in Some (l, set_black 5 b (set_black 4 a s))
     else if tag = 61450 then do {
       s \<leftarrow> black_levels_tag fp type (set_black 5 (sqrt_64 len) (set_black 4 (sqrt_64 len) s));
       Some (l, s) }
     else if tag = 50714 then do { s \<leftarrow> black_levels_tag fp type s; Some (l, s) }
     else if tag = 50715 \<or> tag = 50716 then
       let (num, s) = ((\<lambda>(num, s). case rd_io (getreal type) s of (x, s) \<Rightarrow> (Sum num x, s)) ^^ nat (len AND 0xffff)) (Of_int 0, s)
       in Some (l, on_d (black_update (\<lambda>b. c_u32 (fp_int fp (Sum (Of_int b) (Sum (Quotient num (Of_int len)) (Decimal ''0.5'')))))) s)
     else if tag = 50717 then case rd_io (getint type) s of (x, s) \<Rightarrow> Some (l, on_d (maximum_update (\<lambda>_. x)) s)
     else if tag = 50718 then
       let (x, s) = rd_io (getreal type) s; (y, s) = rd_io (getreal type) s in Some (l, s\<lparr>pixel_aspect := Quotient x y\<rparr>)
     else if tag = 50721 \<or> tag = 50722 then do {
       (cm, s) \<leftarrow> reals_at type [0 .. 3 * n - 1] (id_cm l) s;
       Some (l\<lparr>id_cm := cm, id_use_cm := True\<rparr>, s) }
     else if tag = 50723 \<or> tag = 50724 then do {
       (cc, s) \<leftarrow> reals_at type (concat (map (\<lambda>i. map (\<lambda>c. 4 * i + c) [0 .. n - 1]) [0 .. n - 1])) (id_cc l) s;
       Some (l\<lparr>id_cc := cc\<rparr>, s) }
     else if tag = 50727 then do { (ab, s) \<leftarrow> reals_at type [0 .. n - 1] (id_ab l) s; Some (l\<lparr>id_ab := ab\<rparr>, s) }
     else if tag = 50728 then do { (asn, s) \<leftarrow> reals_at type [0 .. n - 1] (id_asn l) s; Some (l\<lparr>id_asn := asn\<rparr>, s) }
     else if tag = 50729 then Some (white_xy type (l, s))
     else if tag = 50829 then
       let (t, s) = rd_io (getint type) s;
           (f, s) = rd_io (getint type) s;
           (h, s) = rd_io (getint type) s;
           (w, s) = rd_io (getint type) s
       in Some (l, on_g (\<lambda>g. g\<lparr>top_margin := c_u16 t, left_margin := c_u16 f, height := c_u16 (h - c_u16 t), width := c_u16 (w - c_u16 f)\<rparr>) s)
     else
       let k = nat (if len < 32 then len else 32);
           (xs, s) = fold (\<lambda>_ (xs, s). case rd_io (getint type) s of (x, s) \<Rightarrow> (xs @ [c_s32 x], s)) [0..<k] ([], s)
       in Some (l, on_d (black_update (\<lambda>_. 0)) (s\<lparr>mask_arr := xs @ drop k (mask_arr s)\<rparr>)))"

text \<open>Imacon, Sinar, Leaf and Kodak, Adobe's software.\<close>

definition imacon_tag :: "int \<Rightarrow> meta \<Rightarrow> meta" where
  "imacon_tag ima_len s =
     (let (w, s) = rd_io get4 (seek_cur 40 s);
          (h, s) = rd_io get4 s;
          (a, s) = rd_io get4 s;
          (b, s) = rd_io get4 s;
          (c, s) = rd_io get4 s;
          (d, s) = rd_io get4 s;
          w = c_u16 w; h = c_u16 h; left = a AND 7; top = c AND 7;
          s = on_g (\<lambda>g. g\<lparr>raw_width := w, raw_height := h, left_margin := left, width := c_u16 (w - left - (b AND 7)),
                top_margin := top, height := c_u16 (h - top - (d AND 7))\<rparr>) s;
          s = (if w = 7262 then on_g (\<lambda>g. g\<lparr>height := 5444, width := 7244, left_margin := 7\<rparr>) s else s);
          s = forc3 (getreal 11) (\<lambda>c x. set_mul c x) (seek_cur 52 s);
          (x, s) = rd_io get2 (seek_cur 114 s);
          s = s\<lparr>mflip := shr x 7 * 90\<rparr>;
          s = (if c_s32 (width (tg s) * height (tg s) * 6) = ima_len then
                 let s = (if mflip s mod 180 = 90 then on_g (\<lambda>g. g\<lparr>width := height g, height := width g\<rparr>) s else s)
                 in on_d (filters_update (\<lambda>_. 0)) (on_g (\<lambda>g. g\<lparr>raw_width := width g, raw_height := height g, left_margin := 0,
                      top_margin := 0\<rparr>) (s\<lparr>mflip := 0\<rparr>))
               else s);
          s = set_model (strcpy (''Ixpress '' @ print_int (c_s32 (height (tg s) * width (tg s)) sdiv 1000000) @ ''-Mp'') (model_arr s)) s;
          s = s\<lparr>load_raw := Some Imacon_full_raw\<rparr>;
          s = (if filters (td s) \<noteq> 0 then
                 let s = (if left_margin (tg s) AND 1 \<noteq> 0 then on_d (filters_update (\<lambda>_. 0x61616161)) s else s)
                 in s\<lparr>load_raw := Some Unpacked_raw\<rparr>
               else s)
      in on_d (maximum_update (\<lambda>_. 0xffff)) s)"

text \<open>
  The lines of Sinar's text. The buffer has no zero at its end: \<open>strncmp\<close> and \<open>strchr\<close> read on behind it
  unless they meet a difference, a newline or a zero before.
\<close>

definition sinar_neutral :: "fp_ops \<Rightarrow> string \<Rightarrow> meta \<Rightarrow> meta" where
  "sinar_neutral fp cs s =
     snd (snd (fold (\<lambda>c (go, cs, s).
       if \<not> go then (go, cs, s)
       else case fp_scan fp cs of None \<Rightarrow> (False, cs, s) | Some (x, n) \<Rightarrow> (True, drop n cs, set_mul c x s))
       [0, 1, 2] (True, cs, s)))"

function sinar_lines :: "fp_ops \<Rightarrow> u8 list \<Rightarrow> meta \<Rightarrow> meta option" where
  "sinar_lines fp bs s =
     (let s = (if take 8 bs = bytes_of ''Neutral '' then sinar_neutral fp (c_str (drop 8 bs)) s else s) in
      if length bs < 8 \<and> bs = take (length bs) (bytes_of ''Neutral '') then None
      else case dropWhile (\<lambda>b. b \<noteq> 10 \<and> b \<noteq> 0) bs of
             [] \<Rightarrow> None
           | b # r \<Rightarrow> if b = 0 then Some s else sinar_lines fp r s)"
  by pat_completeness auto
termination
proof (relation "measure (\<lambda>(fp, bs, s). length bs)", goal_cases)
  case (2 fp bs s t b r)
  then have "length (b # r) \<le> length bs" using length_dropWhile_le [of "\<lambda>b. b \<noteq> 10 \<and> b \<noteq> 0" bs] by simp
  then show ?case by simp
qed simp

definition leaf_matrix :: "fp_ops \<Rightarrow> ifd_state \<Rightarrow> ifd_state" where
  "leaf_matrix fp = (\<lambda>(l, s).
     let (bs, s) = rd_io (fread 7) s;
         soft = overlay_bytes bs (id_soft l);
         l = l\<lparr>id_soft := soft\<rparr>
     in if \<not> strncmp_eq (c_str soft) ''MATRIX'' then (l, s)
        else
          let s = on_d (\<lambda>t. t\<lparr>colors := 4, raw_color := 0\<rparr>) s in
          (l, fold (\<lambda>i s.
            let s = fold (\<lambda>c s. case rd_io (fscan_real fp (rgb_cam s ! nat (4 * i + (c XOR 1)))) s of (x, s) \<Rightarrow>
                  s\<lparr>rgb_cam := (rgb_cam s)[nat (4 * i + (c XOR 1)) := x]\<rparr>) [0, 1, 2, 3] s
            in if use_camera_wb s = 0 then s
               else
                 let num = fold (\<lambda>c num. Sum num (rgb_cam s ! nat (4 * i + c))) [0, 1, 2, 3] (Of_int 0)
                 in s\<lparr>rgb_cam := fold (\<lambda>c xs. xs[nat (4 * i + c) := Quotient (xs ! nat (4 * i + c)) num]) [0, 1, 2, 3] (rgb_cam s)\<rparr>)
            [0, 1, 2] s))"

definition kodak_matrix :: "int \<Rightarrow> meta \<Rightarrow> meta" where
  "kodak_matrix type s =
     fold (\<lambda>i s. forc3 (getreal type) (\<lambda>c x s. s\<lparr>rgb_cam := (rgb_cam s)[nat (4 * i + c) := x]\<rparr>) (drop_io (getreal type) s))
       [0, 1, 2] (on_d (raw_color_update (\<lambda>_. 0)) s)"

definition software_names :: "string list" where
  "software_names = [''Adobe'', ''dcraw'', ''UFRaw'', ''Bibble'', ''Nikon Scan'']"

definition software_tag :: "ifd_state \<Rightarrow> ifd_state option" where
  "software_tag = (\<lambda>(l, s). do {
     (soft, b) \<leftarrow> fgets (id_soft l) 64 (io_of s);
     let str = c_str soft;
     let s = set_io b s;
     Some (l\<lparr>id_soft := soft\<rparr>,
       if list_ex (strncmp_eq str) software_names \<or> str = ''Digital Photo Professional''
       then on_g (is_raw_update (\<lambda>_. 0)) s else s) })"

definition sony_curve_tag :: "meta \<Rightarrow> meta option" where
  "sony_curve_tag s =
     (let (cs, s) = fold (\<lambda>_ (cs, s). case rd_io get2 s of (x, s) \<Rightarrow> (cs @ [shr x 2 AND 0xfff], s)) [0 ..< 4 :: nat] ([0], s);
          cs = cs @ [4095]
      in do {
        cv \<leftarrow> for_up 0 5 (\<lambda>i. for_up (cs ! nat i + 1) (cs ! nat (i + 1) + 1) (\<lambda>j cv. do {
          x \<leftarrow> rd cv (j - 1); wr cv j (x + shl 1 i) })) (curve (td s));
        Some (on_d (curve_update (\<lambda>_. cv)) s) })"

definition local_tags :: "int list" where
  "local_tags = [305, 11, 28688, 29184, 29185, 29217, 33424, 65024, 34307, 34310, 34303, 34853, 37400, 46275, 46279, 46274,
     50454, 50455, 50458]"

definition local_tag :: "fp_ops \<Rightarrow> int \<Rightarrow> int \<Rightarrow> int \<Rightarrow> int \<Rightarrow> ifd_state \<Rightarrow> ifd_state option" where
  "local_tag fp base tag type len = (\<lambda>(l, s).
     if tag = 305 \<or> tag = 11 then software_tag (l, s)
     else if tag = 28688 then do { s \<leftarrow> sony_curve_tag s; Some (l, s) }
     else if tag = 29184 then case rd_io get4 s of (x, s) \<Rightarrow> Some (l\<lparr>id_sony_offset := x\<rparr>, s)
     else if tag = 29185 then case rd_io get4 s of (x, s) \<Rightarrow> Some (l\<lparr>id_sony_length := x\<rparr>, s)
     else if tag = 29217 then case rd_io get4 s of (x, s) \<Rightarrow> Some (l\<lparr>id_sony_key := x\<rparr>, s)
     else if tag = 33424 \<or> tag = 65024 then
       case rd_io get4 s of (x, s) \<Rightarrow> do { s \<leftarrow> parse_kodak_ifd base (seek_set (c_u32 (x + base)) s); Some (l, s) }
     else if tag = 34307 then Some (leaf_matrix fp (l, s))
     else if tag = 34310 then do {
       s \<leftarrow> parse_mos fp (c_s32 (tell s)) s; Some (l, set_make (strcpy ''Leaf'' (make_arr s)) s) }
     else if tag = 34303 then Some (l, set_make (strcpy ''Leaf'' (make_arr s)) s)
     else if tag = 34853 then
       case rd_io get4 s of (x, s) \<Rightarrow> do { s \<leftarrow> parse_gps base (seek_set (c_u32 (x + base)) s); Some (l, s) }
     else if tag = 37400 then Some (l, kodak_matrix type s)
     else if tag = 46275 then
       Some (l\<lparr>id_ima_len := c_s32 len\<rparr>, on_g (data_offset_update (\<lambda>_. tell s)) (set_make (strcpy ''Imacon'' (make_arr s)) s))
     else if tag = 46279 then
       Some (l, if id_ima_len l = 0 then s else imacon_tag (id_ima_len l) (seek_cur 38 s))
     else if tag = 46274 then Some (l, imacon_tag (id_ima_len l) s)
     else if tag = 50454 \<or> tag = 50455 then
       case rd_io (fread len) s of (bs, s) \<Rightarrow> do { s \<leftarrow> sinar_lines fp (overlay_bytes bs (uninit (tg s) len)) s; Some (l, s) }
     else Some (l, if make_arr s ! 0 = 0 then set_make (strcpy ''Hasselblad'' (make_arr s)) s else s))"

section \<open>Directories inside directories\<close>

text \<open>
  From here on \<open>ifd\<close> is the parser of directories that the entries call. A strip that begins with a JPEG
  header describes itself, and behind the header may lie another TIFF file.
\<close>

definition jpeg_ifd :: "jhead \<Rightarrow> tiff_ifd \<Rightarrow> tiff_ifd" where
  "jpeg_ifd jh d =
     (let d = d\<lparr>ti_comp := 6, ti_width := jh_wide jh, ti_height := jh_high jh, ti_bps := jh_bits jh, ti_samples := jh_clrs jh\<rparr>;
          d = (if jh_sraw jh \<noteq> 0 \<or> jh_clrs jh AND 1 \<noteq> 0 then d else d\<lparr>ti_width := ti_width d * jh_clrs jh\<rparr>)
      in if ti_width d > 4 * ti_height d \<and> jh_clrs jh AND 1 = 0
         then d\<lparr>ti_width := ti_width d sdiv 2, ti_height := ti_height d * 2\<rparr> else d)"

definition offset_tag :: "tiff_parser \<Rightarrow> int \<Rightarrow> int \<Rightarrow> tiff_globals \<Rightarrow> tiff_globals option" where
  "offset_tag ifd base i = (\<lambda>(n, s). do {
     let (x, s) = rd_io get4 s;
     let off = c_s32 (x + base);
     s \<leftarrow> set_ifd i (ti_offset_update (\<lambda>_. off)) s;
     d \<leftarrow> at (ifd_arr s) i;
     if ti_bps d = 0 \<and> off > 0 then do {
       ((found, jh), b) \<leftarrow> ljpeg_start (tg s) True (fseek_set off (io_of s));
       let s = set_io b s;
       if found then do {
         s \<leftarrow> set_ifd i (jpeg_ifd jh) s;
         let order = byte_order (io_of s);
         (_, n, s) \<leftarrow> parse_tiff ifd (c_s32 (off + 12)) (n, s);
         Some (n, set_order order s) }
       else Some (n, s) }
     else Some (n, s) })"

fun sub_ifds :: "tiff_parser \<Rightarrow> int \<Rightarrow> nat \<Rightarrow> tiff_globals \<Rightarrow> tiff_globals option" where
  "sub_ifds ifd base 0 ns = Some ns"
| "sub_ifds ifd base (Suc k) (n, s) =
     (let i = c_s32 (tell s); (x, s) = rd_io get4 s in do {
        (r, n, s) \<leftarrow> ifd base (n, seek_set (c_u32 (x + base)) s);
        if r then Some (n, s) else sub_ifds ifd base k (n, seek_set (c_s32 (i + 4)) s) })"

type_synonym ifd_globals = "ifd_locals \<times> tiff_globals"

definition sub_tag :: "tiff_parser \<Rightarrow> int \<Rightarrow> int \<Rightarrow> ifd_globals \<Rightarrow> ifd_globals option" where
  "sub_tag ifd base len = (\<lambda>(l, n, s). do {
     d \<leftarrow> at (ifd_arr s) (id_ifd l);
     if cam_model (tg s) = ''DSLR-A100'' \<and> ti_width d = 3872 then
       case rd_io get4 s of (x, s) \<Rightarrow>
         Some (l\<lparr>id_ifd := id_ifd l + 1\<rparr>, n, on_g (data_offset_update (\<lambda>_. c_u32 (x + base))) (s\<lparr>load_raw := Some Sony_arw\<rparr>))
     else do { ns \<leftarrow> sub_ifds ifd base (nat len) (n, s); Some (l, ns) } })"

text \<open>Hasselblad's directory does not count: its places in the array are given back.\<close>

definition hasselblad_tag :: "tiff_parser \<Rightarrow> tiff_globals \<Rightarrow> tiff_globals option" where
  "hasselblad_tag ifd = (\<lambda>(n, s). do {
     let order = byte_order (io_of s);
     let j = c_s32 (tell s);
     let (x, s) = rd_io get2 s;
     let (off, s) = rd_io get4 (drop_io get2 (set_order x s));
     (_, _, s) \<leftarrow> ifd j (n, seek_set (c_u32 (j + off)) s);
     Some (n, set_order order (on_d (maximum_update (\<lambda>_. 0xffff)) s)) })"

definition private_tag :: "tiff_parser \<Rightarrow> int \<Rightarrow> tiff_globals \<Rightarrow> tiff_globals option" where
  "private_tag ifd base = (\<lambda>(n, s).
     if dng_version (tg s) \<noteq> 0 then Some (n, s)
     else
       let (x, s) = rd_io get4 s; j = c_s32 (x + base) in do {
         (n, s) \<leftarrow> parse_minolta ifd j (n, s);
         (_, ns) \<leftarrow> ifd base (n, seek_set j s);
         Some ns })"

definition fuji_table_tag :: "tiff_parser \<Rightarrow> int \<Rightarrow> tiff_globals \<Rightarrow> tiff_globals option" where
  "fuji_table_tag ifd base = (\<lambda>(n, s).
     case rd_io get4 s of (x, s) \<Rightarrow> do { (_, ns) \<leftarrow> ifd base (n, seek_set (c_u32 (x + base)) s); Some ns })"

definition minolta_tag :: "tiff_parser \<Rightarrow> tiff_globals \<Rightarrow> tiff_globals option" where
  "minolta_tag ifd = (\<lambda>(n, s). do {
     (n, s) \<leftarrow> parse_minolta ifd (c_s32 (tell s)) (n, s);
     Some (n, on_g (raw_width_update (\<lambda>_. 0)) s) })"

definition exif_ifd_tag :: "fp_ops \<Rightarrow> tiff_parser \<Rightarrow> int \<Rightarrow> tiff_globals \<Rightarrow> tiff_globals option" where
  "exif_ifd_tag fp ifd base = (\<lambda>(n, s).
     case rd_io get4 s of (x, s) \<Rightarrow> parse_exif fp (parse_makernote fp ifd) base (n, seek_set (c_u32 (x + base)) s))"

definition deep_tags :: "int list" where
  "deep_tags = [61440, 280, 273, 513, 61447, 29264, 34665, 50459, 50740]"

definition deep_tag :: "fp_ops \<Rightarrow> tiff_parser \<Rightarrow> int \<Rightarrow> int \<Rightarrow> int \<Rightarrow> int \<Rightarrow> tiff_globals \<Rightarrow> tiff_globals option" where
  "deep_tag fp ifd base i tag type = (\<lambda>(n, s).
     if tag = 61440 then fuji_table_tag ifd base (n, s)
     else if tag = 280 then
       if type \<noteq> 4 then Some (n, s)
       else offset_tag ifd base i (n, on_g (load_flags_update (\<lambda>_. 0x2008)) (s\<lparr>load_raw := Some Panasonic_raw\<rparr>))
     else if tag = 273 \<or> tag = 513 \<or> tag = 61447 then offset_tag ifd base i (n, s)
     else if tag = 29264 then minolta_tag ifd (n, s)
     else if tag = 34665 then exif_ifd_tag fp ifd base (n, s)
     else if tag = 50459 then hasselblad_tag ifd (n, s)
     else private_tag ifd base (n, s))"

definition ifd_tag :: "fp_ops \<Rightarrow> tiff_parser \<Rightarrow> int \<Rightarrow> int \<Rightarrow> int \<Rightarrow> int \<Rightarrow> ifd_globals \<Rightarrow> ifd_globals option" where
  "ifd_tag fp ifd base tag type len = (\<lambda>(l, n, s).
     let flat = map_option (\<lambda>(l, s). (l, n, s)) in
     if tag \<in> set entry_tags then map_option (\<lambda>s. (l, n, s)) (entry_tag fp (id_ifd l) tag type len s)
     else if tag \<in> set balance_tags then Some (l, n, balance_tag fp tag type len s)
     else if tag \<in> set global_tags then map_option (\<lambda>s. (l, n, s)) (global_tag fp (id_ifd l) tag type len s)
     else if tag \<in> set cfa_tags then flat (cfa_tag tag len (l, s))
     else if tag \<in> set dng_tags then flat (dng_tag fp tag type len (l, s))
     else if tag \<in> set local_tags then flat (local_tag fp base tag type len (l, s))
     else if tag = 330 then sub_tag ifd base len (l, n, s)
     else if tag \<in> set deep_tags then map_option (Pair l) (deep_tag fp ifd base (id_ifd l) tag type (n, s))
     else Some (l, n, s))"

definition ifd_entry :: "fp_ops \<Rightarrow> tiff_parser \<Rightarrow> int \<Rightarrow> ifd_globals \<Rightarrow> ifd_globals option" where
  "ifd_entry fp ifd base = (\<lambda>(l, n, s). do {
     let ((tag, type, len, save), s) = rd_io (tiff_get base) s;
     (l, n, s) \<leftarrow> ifd_tag fp ifd base tag type len (l, n, s);
     Some (l, n, seek_set save s) })"

section \<open>The end of a directory\<close>

text \<open>
  Sony's part is decrypted in memory and parsed as a file of its own; the position in the outer file stays.
  The pad of the cipher before its start does not matter.
\<close>

fun words_at :: "bool \<Rightarrow> nat \<Rightarrow> u8 list \<Rightarrow> u32 list" where
  "words_at big 0 bs = []"
| "words_at big (Suc n) bs = word_of_bytes big (take 4 bs) # words_at big n (drop 4 bs)"

definition decrypt_bytes :: "bool \<Rightarrow> u8 list \<Rightarrow> u32 \<Rightarrow> u8 list" where
  "decrypt_bytes big bs key =
     (let n = length bs div 4;
          ws = fst (sony_decrypt big (words_at big n bs) True key \<lparr>spad = replicate 128 0, spos = 0\<rparr>)
      in concat (map (bytes_of_word big) ws) @ drop (4 * n) bs)"

definition sony_part :: "tiff_parser \<Rightarrow> ifd_globals \<Rightarrow> tiff_globals option" where
  "sony_part ifd = (\<lambda>(l, n, s).
     if id_sony_length l = 0 then Some (n, s)
     else do {
       let (bs, s) = rd_io (fread (id_sony_length l)) (seek_set (id_sony_offset l) s);
       let buf = overlay_bytes bs (uninit (tg s) (id_sony_length l));
       let outer = io_of s;
       let inner = decrypt_bytes (big_host outer) buf (word_of_int (id_sony_key l));
       (_, n, s) \<leftarrow> ifd (c_s32 (- id_sony_offset l)) (n, on_io (\<lambda>b. b\<lparr>ifile := inner, ipos := 0\<rparr>) s);
       Some (n, on_io (\<lambda>b. b\<lparr>ifile := ifile outer, ipos := ipos outer\<rparr>) s) })"

text \<open>\<open>cam_xyz_coeff\<close> for \<open>n\<close> colours; its result is the new matrix \<open>rgb_cam\<close>, with rows of four.\<close>

definition cam_xyz_coeff :: "fp_ops \<Rightarrow> nat \<Rightarrow> real_c list \<Rightarrow> real_c list \<Rightarrow> meta \<Rightarrow> real_c list \<times> meta" where
  "cam_xyz_coeff fp n xyz rgb s =
     (let cell = (\<lambda>i j. fold (\<lambda>k a. Sum a (Product (xyz ! (3 * i + k)) (xyz_rgb s ! (3 * k + j)))) [0..<3] (Of_int 0));
          num = (\<lambda>i. fold (\<lambda>j a. Sum a (cell i j)) [0..<3] (Of_int 0));
          inverse = pseudoinverse (map (\<lambda>i. map (\<lambda>j. Quotient (cell i j) (num i)) [0..<3]) [0..<n])
      in (fold (\<lambda>(i, j) xs. xs[4 * i + j := inverse ! j ! i]) (List.product [0..<3] [0..<n]) rgb,
          s\<lparr>pre_mul := fold (\<lambda>i xs. xs[i := Quotient (Of_int 1) (num i)]) [0..<n] (pre_mul s)\<rparr>))"

definition ifd_colors :: "fp_ops \<Rightarrow> ifd_locals \<Rightarrow> meta \<Rightarrow> meta" where
  "ifd_colors fp l s =
     (let n = nat (colors (td s)); is = [0..<n];
          cc = fold (\<lambda>(i, c) cc. cc[4 * i + c := Product (cc ! (4 * i + c)) (id_ab l ! i)]) (List.product is is) (id_cc l);
          xyz = concat (map (\<lambda>c. map (\<lambda>i. fold (\<lambda>j a. Sum a (Product (Product (cc ! (4 * c + j)) (id_cm l ! (3 * j + i))) (id_xyz l ! i)))
                  is (Of_int 0)) [0..<3]) is);
          s = (if id_use_cm l then case cam_xyz_coeff fp n xyz (cmatrix s) s of (cm, s) \<Rightarrow> s\<lparr>cmatrix := cm\<rparr> else s);
          s = (if fp_nonzero fp (id_asn l ! 0)
               then s\<lparr>cam_mul := fold (\<lambda>c xs. xs[c := Quotient (Of_int 1) (id_asn l ! c)]) is ((cam_mul s)[3 := Of_int 0])\<rparr> else s)
      in if id_use_cm l then s
         else s\<lparr>pre_mul := fold (\<lambda>c xs. xs[c := Quotient (xs ! c) (cc ! (4 * c + c))]) is (pre_mul s)\<rparr>)"

section \<open>parse_tiff_ifd\<close>

text \<open>
  The value is \<open>True\<close> when the array is full or the directory is absurd. The first argument is the parser
  for the directories inside.
\<close>

definition tiff_ifd_body :: "fp_ops \<Rightarrow> tiff_parser \<Rightarrow> tiff_parser" where
  "tiff_ifd_body fp ifd base = (\<lambda>(n, s).
     if n \<ge> 10 then Some (True, n, s)
     else
       let (entries, s') = rd_io get2 s
       in if entries > 512 then Some (True, n + 1, s')
          else do {
            (l, ns) \<leftarrow> repeat_opt (nat entries) (ifd_entry fp ifd base) (ifd_start n s, n + 1, s');
            (n, s) \<leftarrow> sony_part ifd (l, ns);
            Some (False, n, ifd_colors fp l s) })"

text \<open>
  The recursion with a bound on its depth. Ten directories fit into the array, so that eleven calls inside
  each other are never exceeded.
\<close>

fun tiff_ifd_within :: "nat \<Rightarrow> fp_ops \<Rightarrow> tiff_parser" where
  "tiff_ifd_within 0 fp = (\<lambda>_ _. None)"
| "tiff_ifd_within (Suc n) fp = tiff_ifd_body fp (tiff_ifd_within n fp)"

definition parse_tiff_ifd :: "fp_ops \<Rightarrow> tiff_parser" where
  "parse_tiff_ifd fp = tiff_ifd_within 11 fp"

end
