(* ===== verification/TiffDepth.thy ===== *)
theory TiffDepth
  imports TiffParse
begin

text \<open>
  Directories inside directories are at most ten deep. Every call of \<open>parse_tiff_ifd\<close> that does anything
  takes a place in the array, and the places are given back only when the call that took them is over; so
  a parser for one level less is as good as the parser itself wherever one place more is taken.
\<close>

section \<open>Parsers that agree\<close>

text \<open>
  \<open>agree k f g\<close>: with \<open>k\<close> places taken the parsers do the same, and leave as many taken. \<open>same\<close> says the
  same of a part of a parser; \<open>p\<close> finds the number of places in its result.
\<close>

definition agree :: "int \<Rightarrow> tiff_parser \<Rightarrow> tiff_parser \<Rightarrow> bool" where
  "agree k f g \<longleftrightarrow> (\<forall>base n s. k \<le> n \<longrightarrow> f base (n, s) = g base (n, s)
     \<and> (\<forall>r m t. f base (n, s) = Some (r, m, t) \<longrightarrow> k \<le> m))"

definition same :: "int \<Rightarrow> ('a \<Rightarrow> int) \<Rightarrow> 'a option \<Rightarrow> 'a option \<Rightarrow> bool" where
  "same k p m m' \<longleftrightarrow> m = m' \<and> (\<forall>x. m = Some x \<longrightarrow> k \<le> p x)"

lemma agree_same: "agree k f g \<longleftrightarrow> (\<forall>base n s. k \<le> n \<longrightarrow> same k (\<lambda>x. fst (snd x)) (f base (n, s)) (g base (n, s)))"
  by (auto simp: agree_def same_def)

lemma agreeD: "agree k f g \<Longrightarrow> k \<le> n \<Longrightarrow> same k (\<lambda>x. fst (snd x)) (f base (n, s)) (g base (n, s))"
  by (simp add: agree_same)

lemma agree_sym: "agree k f g \<Longrightarrow> agree k g f"
  by (auto simp: agree_def)

lemma same_Some: "k \<le> p x \<Longrightarrow> same k p (Some x) (Some x)"
  by (simp add: same_def)

lemma same_bind: "same k p m m' \<Longrightarrow> (\<And>x. k \<le> p x \<Longrightarrow> same k q (F x) (G x)) \<Longrightarrow> same k q (m \<bind> F) (m' \<bind> G)"
  by (cases m) (auto simp: same_def)

lemma same_plain: "(\<And>x. same k q (F x) (G x)) \<Longrightarrow> same k q (m \<bind> F) (m \<bind> G)"
  by (cases m) (auto simp: same_def)

lemma same_if: "(b \<Longrightarrow> same k p m m') \<Longrightarrow> (\<not> b \<Longrightarrow> same k p n n') \<Longrightarrow> same k p (if b then m else n) (if b then m' else n')"
  by simp

lemma same_prod: "(\<And>a b. same k p (F a b) (G a b)) \<Longrightarrow> same k p (case x of (a, b) \<Rightarrow> F a b) (case x of (a, b) \<Rightarrow> G a b)"
  by (cases x) simp

lemma same_let: "(\<And>y. same k p (F y) (G y)) \<Longrightarrow> same k p (Let x F) (Let x G)"
  by simp

lemma same_map: "(\<And>x. q (h x) = p x) \<Longrightarrow> same k p m m' \<Longrightarrow> same k q (map_option h m) (map_option h m')"
  by (auto simp: same_def)

lemma same_flat: "(\<And>x. k \<le> p (h x)) \<Longrightarrow> same k p (map_option h m) (map_option h m)"
  by (auto simp: same_def)

lemmas same_rules = same_if same_prod same_let same_plain same_Some

lemma same_repeat:
  assumes "\<And>s. k \<le> p s \<Longrightarrow> same k p (f s) (g s)" "k \<le> p s"
  shows "same k p (repeat_opt n f s) (repeat_opt n g s)"
  using assms(2)
proof (induction n arbitrary: s)
  case 0
  then show ?case by (simp add: same_def)
next
  case (Suc n)
  show ?case by (simp, rule same_bind [OF assms(1) [OF Suc.prems]], rule Suc.IH)
qed

section \<open>Loops that may not end\<close>

lemma tiff_chain_to:
  assumes "agree k f g" "tiff_chain f base ns = Some t" "k \<le> fst ns"
  shows "tiff_chain g base ns = Some t \<and> k \<le> fst t"
proof -
  have "f' = f \<longrightarrow> k \<le> fst ns \<longrightarrow> tiff_chain g base ns = Some t \<and> k \<le> fst t"
    if "tiff_chain f' base ns = Some t" for f' base ns t
  proof (rule tiff_chain.raw_induct [OF _ that], goal_cases)
    case (1 chain ifd base ns t)
    show ?case
    proof (intro impI)
      assume f: "ifd = f" and k: "k \<le> fst ns"
      obtain doff s where d: "rd_io get4 (snd ns) = (doff, s)" by (cases "rd_io get4 (snd ns)")
      show "tiff_chain g base ns = Some t \<and> k \<le> fst t"
      proof (cases "doff = 0")
        case True
        then show ?thesis using 1(2) d k by (subst tiff_chain.simps) auto
      next
        case False
        obtain r ms where r: "f base (fst ns, seek_set (c_u32 (doff + base)) s) = Some (r, ms)"
          "(if r then Some ms else chain ifd base ms) = Some t"
          using 1(2) d f False by (auto split: bind_splits)
        have g: "g base (fst ns, seek_set (c_u32 (doff + base)) s) = Some (r, ms)" "k \<le> fst ms"
          using agreeD [OF assms(1) k, of base "seek_set (c_u32 (doff + base)) s"] r(1) f by (auto simp: same_def)
        then show ?thesis using 1(1) [of ifd base ms t] r(2) f d False
          by (subst tiff_chain.simps) (auto split: if_splits)
      qed
    qed
  qed
  then show ?thesis using assms by blast
qed

lemma tiff_chain_same: "agree k f g \<Longrightarrow> k \<le> fst ns \<Longrightarrow> same k fst (tiff_chain f base ns) (tiff_chain g base ns)"
  using tiff_chain_to [of k f g base ns] tiff_chain_to [of k g f base ns] agree_sym [of k f g]
  by (cases "tiff_chain f base ns"; cases "tiff_chain g base ns") (auto simp: same_def)

lemma parse_tiff_same:
  "agree k f g \<Longrightarrow> k \<le> n \<Longrightarrow> same k (\<lambda>x. fst (snd x)) (parse_tiff f base (n, s)) (parse_tiff g base (n, s))"
  unfolding parse_tiff_def by (auto intro!: same_rules same_bind [OF tiff_chain_same] simp: Let_def split: prod.split)

lemma minolta_block_same:
  "agree k f g \<Longrightarrow> k \<le> n \<Longrightarrow>
    same k (\<lambda>x. fst (snd x)) (minolta_block f offset tag (hw, n, s)) (minolta_block g offset tag (hw, n, s))"
  unfolding minolta_block_def
  by (auto intro!: same_rules same_bind [OF parse_tiff_same] simp: Let_def split: prod.split)

lemma minolta_blocks_to:
  assumes "agree k f g" "minolta_blocks f offset st = Some t" "k \<le> fst (snd st)"
  shows "minolta_blocks g offset st = Some t \<and> k \<le> fst (snd t)"
proof -
  have "f' = f \<longrightarrow> k \<le> fst (snd st) \<longrightarrow> minolta_blocks g offset st = Some t \<and> k \<le> fst (snd t)"
    if "minolta_blocks f' offset st = Some t" for f' offset st t
  proof (rule minolta_blocks.raw_induct [OF _ that], goal_cases)
    case (1 blocks ifd offset st t)
    show ?case
    proof (intro impI)
      assume f: "ifd = f" and k: "k \<le> fst (snd st)"
      obtain hw n s where st: "st = (hw, n, s)" by (cases st)
      obtain tag u where tag: "get4_msb s = (tag, u)" by (cases "get4_msb s")
      obtain len v where len: "rd_io get4 u = (len, v)" by (cases "rd_io get4 u")
      show "minolta_blocks g offset st = Some t \<and> k \<le> fst (snd t)"
      proof (cases "c_s32 (tell s) < offset")
        case False
        then show ?thesis using 1(2) k st by (subst minolta_blocks.simps) (auto simp: Let_def)
      next
        case True
        obtain hw' m w where r: "minolta_block f offset tag (hw, n, v) = Some (hw', m, w)"
          "blocks ifd offset (hw', m, seek_set (c_s32 (c_s32 (tell s) + len + 8)) w) = Some t"
          using 1(2) f True st tag len by (auto simp: Let_def split: bind_splits)
        have g: "minolta_block g offset tag (hw, n, v) = Some (hw', m, w)" "k \<le> m"
          using minolta_block_same [OF assms(1), of n offset tag hw v] k r(1) st by (auto simp: same_def)
        then show ?thesis using 1(1) [OF r(2)] f True st tag len
          by (subst minolta_blocks.simps) (simp add: Let_def)
      qed
    qed
  qed
  then show ?thesis using assms by blast
qed

lemma minolta_blocks_same:
  "agree k f g \<Longrightarrow> k \<le> fst (snd st) \<Longrightarrow> same k (\<lambda>x. fst (snd x)) (minolta_blocks f offset st) (minolta_blocks g offset st)"
  using minolta_blocks_to [of k f g offset st] minolta_blocks_to [of k g f offset st] agree_sym [of k f g]
  by (cases "minolta_blocks f offset st"; cases "minolta_blocks g offset st") (auto simp: same_def)

lemma parse_minolta_same:
  "agree k f g \<Longrightarrow> k \<le> n \<Longrightarrow> same k fst (parse_minolta f base (n, s)) (parse_minolta g base (n, s))"
  unfolding parse_minolta_def
  by (auto intro!: same_rules same_bind [OF minolta_blocks_same] simp: Let_def split: prod.split)

section \<open>Notes\<close>

lemma note_directory_same:
  "agree k f g \<Longrightarrow> k \<le> n \<Longrightarrow> same k fst (note_directory f tag l (n, s)) (note_directory g tag l (n, s))"
  unfolding note_directory_def
  by (auto intro!: same_rules same_bind [OF agreeD] simp: Let_def split: prod.split)

text \<open>The parsers of notes, which leave only the number of places and the state.\<close>

definition agree_note :: "int \<Rightarrow> note_parser \<Rightarrow> note_parser \<Rightarrow> bool" where
  "agree_note k a b \<longleftrightarrow> (\<forall>base n s. k \<le> n \<longrightarrow> same k fst (a base (n, s)) (b base (n, s)))"

lemma agree_noteD: "agree_note k a b \<Longrightarrow> k \<le> n \<Longrightarrow> same k fst (a base (n, s)) (b base (n, s))"
  by (simp add: agree_note_def)

lemma note_end_same:
  "agree_note k a b \<Longrightarrow> k \<le> n \<Longrightarrow>
    same k (\<lambda>x. fst (snd x)) (note_end a save tag type len l (n, s)) (note_end b save tag type len l (n, s))"
  unfolding note_end_def
  by (auto intro!: same_rules same_bind [where p = fst and k = k] agree_noteD simp: Let_def split: prod.split)

lemma same_sum:
  "(\<And>y. same k p (F y) (F' y)) \<Longrightarrow> (\<And>z. same k p (G z) (G' z)) \<Longrightarrow>
    same k p (case x of Inl y \<Rightarrow> F y | Inr z \<Rightarrow> G z) (case x of Inl y \<Rightarrow> F' y | Inr z \<Rightarrow> G' z)"
  by (cases x) simp_all

lemma note_entry_same:
  assumes "agree k f g" "agree_note k a b" "k \<le> n"
  shows "same k (\<lambda>x. fst (snd x)) (note_entry fp f a uptag (l, n, s)) (note_entry fp g b uptag (l, n, s))"
  unfolding note_entry_def Let_def split_def fst_conv snd_conv
  apply (rule same_plain)
  apply (rule same_bind [OF note_directory_same [OF assms(1,3)]])
  apply (rule same_if)
  apply (rule note_end_same [OF assms(2)], simp)
  apply (rule same_plain)
  apply (rule same_plain)
  apply (rule same_sum)
  apply (rule same_Some, simp)
  apply (rule note_end_same [OF assms(2)], simp)
  done

lemma note_table_same:
  assumes "agree k f g" "agree_note k a b"
  shows "agree_note k (note_table fp f a uptag) (note_table fp g b uptag)"
proof -
  have entries: "same k (\<lambda>x. fst (snd x)) (repeat_opt m (note_entry fp f a uptag) (l, n, s))
      (repeat_opt m (note_entry fp g b uptag) (l, n, s))" if "k \<le> n" for m l n s
    by (rule same_repeat) (use that note_entry_same [OF assms] in auto)
  have head: "same k fst (case h of Leave s \<Rightarrow> F s | Quit s \<Rightarrow> G s | Table l s \<Rightarrow> H l s)
      (case h of Leave s \<Rightarrow> F s | Quit s \<Rightarrow> G s | Table l s \<Rightarrow> H' l s)"
    if "\<And>s. same k fst (F s) (F s)" "\<And>s. same k fst (G s) (G s)" "\<And>l s. same k fst (H l s) (H' l s)" for h F G H H'
    using that by (cases h) simp_all
  show ?thesis
    unfolding agree_note_def note_table_def prod.case Let_def split_def
    by (intro allI impI same_plain head same_Some same_if same_bind [OF entries]) auto
qed

lemma parse_makernote_same: "agree k f g \<Longrightarrow> agree_note k (parse_makernote fp f) (parse_makernote fp g)"
  unfolding parse_makernote_def
  by (intro note_table_same) (auto simp: agree_note_def same_def)

section \<open>EXIF\<close>

lemma exif_entry_same:
  "agree_note k a b \<Longrightarrow> k \<le> n \<Longrightarrow> same k fst (exif_entry fp a base kodak (n, s)) (exif_entry fp b base kodak (n, s))"
  unfolding exif_entry_def
  by (auto intro!: same_rules same_bind [OF agree_noteD] simp: Let_def split: prod.split)

lemma parse_exif_same:
  assumes "agree_note k a b"
  shows "agree_note k (parse_exif fp a) (parse_exif fp b)"
  unfolding agree_note_def parse_exif_def prod.case Let_def split_def
  by (intro allI impI same_repeat) (use exif_entry_same [OF assms] in auto)

section \<open>The entries of a directory\<close>

lemma offset_tag_same:
  assumes "agree k f g" "k \<le> n"
  shows "same k fst (offset_tag f base i (n, s)) (offset_tag g base i (n, s))"
  unfolding offset_tag_def Let_def split_def fst_conv snd_conv
  by (intro same_plain same_if [where k = k and p = fst] same_Some same_bind [OF parse_tiff_same [OF assms]])
    (use assms(2) in simp_all)

lemma sub_ifds_same:
  assumes "agree k f g"
  shows "k \<le> fst ns \<Longrightarrow> same k fst (sub_ifds f base m ns) (sub_ifds g base m ns)"
proof (induction m arbitrary: ns)
  case 0
  then show ?case by (cases ns) (simp add: same_def)
next
  case (Suc m)
  obtain n s where ns: "ns = (n, s)" by (cases ns)
  show ?case
    unfolding ns sub_ifds.simps Let_def split_def
    by (intro same_bind [OF agreeD [OF assms]] same_if same_Some Suc.IH) (use Suc.prems ns in simp_all)
qed

lemma sub_tag_same:
  assumes "agree k f g" "k \<le> n"
  shows "same k (\<lambda>x. fst (snd x)) (sub_tag f base len (l, n, s)) (sub_tag g base len (l, n, s))"
  unfolding sub_tag_def Let_def split_def fst_conv snd_conv
  apply (rule same_plain)
  apply (rule same_if)
   apply (rule same_Some, use assms(2) in simp)
  apply (rule same_bind [OF sub_ifds_same [OF assms(1)]], use assms(2) in simp)
  apply (rule same_Some, simp)
  done

lemma hasselblad_tag_same:
  assumes "agree k f g" "k \<le> n"
  shows "same k fst (hasselblad_tag f (n, s)) (hasselblad_tag g (n, s))"
  unfolding hasselblad_tag_def Let_def split_def fst_conv snd_conv
  by (rule same_bind [OF agreeD [OF assms]], rule same_Some) (use assms(2) in simp)

lemma private_tag_same:
  assumes "agree k f g" "k \<le> n"
  shows "same k fst (private_tag f base (n, s)) (private_tag g base (n, s))"
  unfolding private_tag_def Let_def split_def fst_conv snd_conv
  apply (rule same_if)
   apply (rule same_Some, use assms(2) in simp)
  apply (rule same_bind [OF parse_minolta_same [OF assms]])
  apply (rule same_bind [OF agreeD [OF assms(1)]], simp)
  apply (rule same_Some, simp)
  done

lemma fuji_table_tag_same:
  assumes "agree k f g" "k \<le> n"
  shows "same k fst (fuji_table_tag f base (n, s)) (fuji_table_tag g base (n, s))"
  unfolding fuji_table_tag_def Let_def split_def fst_conv snd_conv
  by (rule same_bind [OF agreeD [OF assms]], rule same_Some) simp

lemma minolta_tag_same:
  assumes "agree k f g" "k \<le> n"
  shows "same k fst (minolta_tag f (n, s)) (minolta_tag g (n, s))"
  unfolding minolta_tag_def Let_def split_def fst_conv snd_conv
  by (rule same_bind [OF parse_minolta_same [OF assms]], rule same_Some) simp

lemma exif_ifd_tag_same:
  assumes "agree k f g" "k \<le> n"
  shows "same k fst (exif_ifd_tag fp f base (n, s)) (exif_ifd_tag fp g base (n, s))"
  unfolding exif_ifd_tag_def split_def fst_conv snd_conv
  by (rule agree_noteD [OF parse_exif_same [OF parse_makernote_same [OF assms(1)]] assms(2)])

lemma deep_tag_same:
  assumes "agree k f g" "k \<le> n"
  shows "same k fst (deep_tag fp f base i tag type (n, s)) (deep_tag fp g base i tag type (n, s))"
  unfolding deep_tag_def prod.case
  by (intro same_if fuji_table_tag_same offset_tag_same minolta_tag_same exif_ifd_tag_same hasselblad_tag_same
      private_tag_same assms same_Some) (use assms(2) in simp)

lemma ifd_tag_same:
  assumes "agree k f g" "k \<le> n"
  shows "same k (\<lambda>x. fst (snd x)) (ifd_tag fp f base tag type len (l, n, s)) (ifd_tag fp g base tag type len (l, n, s))"
  unfolding ifd_tag_def prod.case Let_def
  apply (intro same_if sub_tag_same [OF assms] same_Some)
  using assms(2) apply (auto intro!: same_flat same_map [where p = fst] deep_tag_same [OF assms])
  done

lemma ifd_entry_same:
  assumes "agree k f g" "k \<le> n"
  shows "same k (\<lambda>x. fst (snd x)) (ifd_entry fp f base (l, n, s)) (ifd_entry fp g base (l, n, s))"
  unfolding ifd_entry_def split_def fst_conv snd_conv Let_def
  by (rule same_bind [OF ifd_tag_same [OF assms]], rule same_Some) simp

lemma sony_part_same:
  assumes "agree k f g" "k \<le> fst ns"
  shows "same k fst (sony_part f (l, ns)) (sony_part g (l, ns))"
  unfolding sony_part_def split_def fst_conv snd_conv Let_def
  apply (rule same_if)
   apply (rule same_Some, use assms(2) in simp)
  apply (rule same_bind [OF agreeD [OF assms]])
  apply (rule same_Some, simp)
  done

section \<open>The depth of directories\<close>

lemma tiff_ifd_body_same:
  assumes "agree (k + 1) f g"
  shows "agree k (tiff_ifd_body fp f) (tiff_ifd_body fp g)"
proof -
  have entries: "same (k + 1) (\<lambda>x. fst (snd x)) (repeat_opt m (ifd_entry fp f base) (l, n, s))
      (repeat_opt m (ifd_entry fp g base) (l, n, s))" if "k + 1 \<le> n" for m l n s base
    by (rule same_repeat) (use that ifd_entry_same [OF assms] in auto)
  have weaken: "same k p m m'" if "same (k + 1) p m m'" for p :: "bool \<times> tiff_globals \<Rightarrow> int" and m m'
    using that by (fastforce simp: same_def)
  have "same k (\<lambda>x. fst (snd x)) (tiff_ifd_body fp f base (n, s)) (tiff_ifd_body fp g base (n, s))" if "k \<le> n" for base n s
    unfolding tiff_ifd_body_def split_def fst_conv snd_conv Let_def
    apply (intro same_if same_Some)
    subgoal using that by simp
    subgoal using that by simp
    apply (rule weaken)
    apply (rule same_bind [OF entries], use that in simp)
    apply (rule same_bind [OF sony_part_same [OF assms]], simp)
    apply (rule same_Some, simp)
    done
  then show ?thesis by (simp add: agree_same)
qed

lemma tiff_ifd_within_agree: "agree (10 - int m) (tiff_ifd_within (Suc m) fp) (tiff_ifd_within (Suc m + j) fp)"
proof (induction m)
  case 0
  show ?case by (auto simp: agree_def tiff_ifd_body_def)
next
  case (Suc m)
  have "agree (10 - int (Suc m) + 1) (tiff_ifd_within (Suc m) fp) (tiff_ifd_within (Suc m + j) fp)"
    using Suc.IH by simp
  from tiff_ifd_body_same [OF this] show ?case by simp
qed

lemma tiff_ifd_within_enough: "tiff_ifd_within (11 + j) fp base (int n, s) = parse_tiff_ifd fp base (int n, s)"
  using tiff_ifd_within_agree [of 10 fp j] by (simp add: agree_def parse_tiff_ifd_def)

text \<open>
  C39: \<open>parse_tiff_ifd\<close> reads directories inside directories no deeper than eleven calls, whatever the file
  holds. The model, which is given eleven levels, does the same with any larger number of them, and so
  satisfies the equation of the C function, in which the calls for the entries are calls of the function
  itself.
\<close>

theorem tiff_ifd_depth:
  "tiff_ifd_within (11 + j) fp base (int n, s) = parse_tiff_ifd fp base (int n, s)
    \<and> parse_tiff_ifd fp base (int n, s) = tiff_ifd_body fp (parse_tiff_ifd fp) base (int n, s)"
proof
  show "tiff_ifd_within (11 + j) fp base (int n, s) = parse_tiff_ifd fp base (int n, s)"
    by (rule tiff_ifd_within_enough)
  have "tiff_ifd_within (11 + 1) fp = tiff_ifd_body fp (parse_tiff_ifd fp)"
    by (simp add: parse_tiff_ifd_def numeral_eq_Suc)
  then show "parse_tiff_ifd fp base (int n, s) = tiff_ifd_body fp (parse_tiff_ifd fp) base (int n, s)"
    using tiff_ifd_within_enough [of 1 fp base n s] by simp
qed

end
