(* ===== verification/Movies.thy ===== *)
theory Movies
  imports Containers Ciff TiffParse
begin

text \<open>
  Parsers of files whose parts are themselves files: JPEG images with CIFF or TIFF data inside, RIFF and
  QuickTime movies, the CR3 files of Canon, and the JPEG image that a camera leaves beside a raw file
  without a header. Rollei's header of text lines is here too.

  The chunks of these files give their own sizes; a size that leads back to the chunk makes the loops
  endless, so that they are partial functions.
\<close>

section \<open>apply_tiff on the globals of the parsers\<close>

text \<open>
  \<open>apply_tiff\<close> sees the directories in use. \<open>shutter\<close> is a \<open>float\<close>, of which the two records keep the
  expression and the bits.
\<close>

definition apply_meta :: "fp_ops \<Rightarrow> tiff_globals \<Rightarrow> tiff_globals option" where
  "apply_meta fp = (\<lambda>(n, s). do {
     t \<leftarrow> apply_tiff (gamma_curve fp (Quotient (Of_int 1) (Decimal ''2.4'')) (Decimal ''12.92'') 1 4095)
       ((tiff_state.truncate s)\<lparr>tifds := take (nat n) (ifd_arr s), tshutter := fp_float fp (mshutter s)\<rparr>);
     Some (n, (tiff_state.extend t (tiff_state.more s))
       \<lparr>ifd_arr := tifds t @ drop (nat n) (ifd_arr s), mshutter := Float_bits (uint (tshutter t))\<rparr>) })"

section \<open>JPEG\<close>

partial_function (option) jpeg_markers :: "fp_ops \<Rightarrow> tiff_parser \<Rightarrow> tiff_globals \<Rightarrow> tiff_globals option" where
  "jpeg_markers fp ifd ns =
     (case rd_io fgetc (snd ns) of (x, s) \<Rightarrow>
        if x \<noteq> 0xff then Some (fst ns, s)
        else case rd_io fgetc s of (mark, s) \<Rightarrow>
          if mark = 0xda then Some (fst ns, s)
          else
            let (len, s) = rd_io get2 (set_order 0x4d4d s);
                len = len - 2;
                save = c_s32 (tell s);
                s = (if mark = 0xc0 \<or> mark = 0xc3 \<or> mark = 0xc9 then
                       let (h, s) = rd_io get2 (drop_io fgetc s); (w, s) = rd_io get2 s
                       in on_g (\<lambda>g. g\<lparr>raw_height := h, raw_width := w\<rparr>) s
                     else s);
                (x, s) = rd_io get2 s;
                (hlen, s) = rd_io get4 (set_order x s);
                hlen = c_s32 hlen;
                (magic, s) = rd_io get4 s
            in do {
              s \<leftarrow> (if magic = 0x48454150 then parse_ciff fp (c_s32 (save + hlen)) (c_s32 (len - hlen)) 0 s else Some s);
              (found, ns) \<leftarrow> parse_tiff ifd (c_s32 (save + 6)) (fst ns, s);
              ns \<leftarrow> (if found then apply_meta fp ns else Some ns);
              jpeg_markers fp ifd (fst ns, seek_set (c_s32 (save + len)) (snd ns)) })"

definition parse_jpeg :: "fp_ops \<Rightarrow> tiff_parser \<Rightarrow> tiff_parser" where
  "parse_jpeg fp ifd offset = (\<lambda>(n, s).
     let (a, s) = rd_io fgetc (seek_set offset s)
     in if a \<noteq> 0xff then Some (False, n, s)
        else let (b, s) = rd_io fgetc s
        in if b \<noteq> 0xd8 then Some (False, n, s)
        else do { ns \<leftarrow> jpeg_markers fp ifd (n, s); Some (True, ns) })"

section \<open>RIFF\<close>

text \<open>
  The flag of the end of the file, which a movement in the file clears: \<open>short_of n s\<close> says that fewer
  than \<open>n\<close> bytes are left, so that reading them sets it. It is carried beside the state.
\<close>

definition short_of :: "int \<Rightarrow> meta \<Rightarrow> bool" where
  "short_of n s \<longleftrightarrow> int (length (ifile (io_of s))) < tell s + n"

definition riff_months :: "string list" where
  "riff_months = [''jan'', ''feb'', ''mar'', ''apr'', ''may'', ''jun'', ''jul'', ''aug'', ''sep'', ''oct'', ''nov'', ''dec'']"

text \<open>\<open>sscanf (date, "%*s %s %d %d:%d:%d %d", ...)\<close>: the month and the numbers.\<close>

definition scan_word :: "string \<Rightarrow> string \<times> string" where
  "scan_word cs = (let r = dropWhile c_isspace cs in (takeWhile (\<lambda>c. \<not> c_isspace c) r, dropWhile (\<lambda>c. \<not> c_isspace c) r))"

definition riff_date :: "fp_ops \<Rightarrow> string \<Rightarrow> meta \<Rightarrow> meta" where
  "riff_date fp date s =
     (let (day, r) = scan_word date; (month, r) = scan_word r
      in if day = [] \<or> month = [] then s
         else case scan_ints '' :: '' r of
           [d, hh, mm, ss, y] \<Rightarrow>
             let m = length (takeWhile (\<lambda>x. x \<noteq> map lower month) riff_months);
                 t = fp_mktime fp [y - 1900, int m, d, hh, mm, ss]
             in if t > 0 then s\<lparr>timestamp := t\<rparr> else s
         | _ \<Rightarrow> s)"

partial_function (option) riff_nctg :: "fp_ops \<Rightarrow> int \<Rightarrow> bool \<times> meta \<Rightarrow> (bool \<times> meta) option" where
  "riff_nctg fp till es =
     (case es of (eof, s) \<Rightarrow>
        if tell s + 7 < till then
          let (i, s1) = rd_io get2 s; (sz, s2) = rd_io get2 s1
          in if shr (i + 1) 1 = 10 \<and> sz = 20
             then riff_nctg fp till (eof \<or> short_of 4 s \<or> short_of 19 s2, get_timestamp fp False s2)
             else riff_nctg fp till (False, seek_cur sz s2)
        else Some (eof, s))"

text \<open>The head of a chunk: its tag, its size, its end, and the flag.\<close>

definition riff_head :: "meta \<Rightarrow> (u8 list \<times> int \<times> int \<times> bool) \<times> meta" where
  "riff_head s =
     (let s = set_order 0x4949 s;
          eof = short_of 8 s;
          (bs, s) = rd_io (fread 4) s;
          (sz, s) = rd_io get4 s
      in ((overlay_bytes bs (uninit (tg s) 4), sz, c_u32 (tell s + sz), eof), s))"

text \<open>The chunks that hold no others.\<close>

definition riff_leaf :: "fp_ops \<Rightarrow> u8 list \<times> int \<times> int \<times> bool \<Rightarrow> meta \<Rightarrow> (bool \<times> meta) option" where
  "riff_leaf fp = (\<lambda>(tag, sz, till, eof) s.
     if tag = bytes_of ''nctg'' then riff_nctg fp till (eof, s)
     else if tag = bytes_of ''IDIT'' \<and> sz < 64 then
       let (bs, s') = rd_io (fread 64) s; date = (overlay_bytes bs (uninit (tg s) 64))[nat sz := 0]
       in Some (eof \<or> short_of 64 s, riff_date fp (c_str date) s')
     else Some (False, seek_cur sz s))"

text \<open>The chunks up to \<open>till\<close>; a list begins with a word that is skipped.\<close>

partial_function (option) riff_chunks :: "fp_ops \<Rightarrow> int \<Rightarrow> bool \<times> meta \<Rightarrow> (bool \<times> meta) option" where
  "riff_chunks fp till es =
     (if tell (snd es) + 7 < till \<and> \<not> fst es then
        (case riff_head (snd es) of ((tag, sz, till', eof), s) \<Rightarrow> do {
           es \<leftarrow> (if tag = bytes_of ''RIFF'' \<or> tag = bytes_of ''LIST''
                  then riff_chunks fp till' (eof \<or> short_of 4 s, drop_io get4 s)
                  else riff_leaf fp (tag, sz, till', eof) s);
           riff_chunks fp till es })
      else Some es)"

definition parse_riff :: "fp_ops \<Rightarrow> meta \<Rightarrow> meta option" where
  "parse_riff fp s =
     (case riff_head s of ((tag, sz, till, eof), s) \<Rightarrow>
        map_option snd
          (if tag = bytes_of ''RIFF'' \<or> tag = bytes_of ''LIST''
           then riff_chunks fp till (eof \<or> short_of 4 s, drop_io get4 s)
           else riff_leaf fp (tag, sz, till, eof) s))"

section \<open>CR3\<close>

text \<open>A box that holds no others.\<close>

definition crx_leaf :: "fp_ops \<Rightarrow> tiff_parser \<Rightarrow> int \<Rightarrow> tiff_globals \<Rightarrow> tiff_globals option" where
  "crx_leaf fp ifd tag = (\<lambda>(n, s).
     if tag = 0x434d5431 \<or> tag = 0x434d5432 then do {
       let base = c_s32 (tell s);
       let (x, s) = rd_io get2 s;
       let s = seek_cur 6 (set_order x s);
       (n, s) \<leftarrow> (if tag AND 1 \<noteq> 0 then do { (_, ns) \<leftarrow> ifd base (n, s); Some ns }
                  else parse_exif fp (parse_makernote fp ifd) base (n, s));
       Some (n, set_order 0x4d4d s) }
     else if tag = 0x746b6864 then
       let (i, s) = rd_io get4 (seek_cur 12 s); (w, s) = rd_io get4 (seek_cur 58 s); (h, s) = rd_io get4 s
       in Some (n, s\<lparr>crx_index := c_s32 i, crx_wide := c_s32 w, crx_high := c_s32 h\<rparr>)
     else if tag = 0x7374737a then
       case rd_io get4 (drop_io get4 s) of (x, s) \<Rightarrow> Some (n, s\<lparr>crx_len := c_s32 x\<rparr>)
     else if tag = 0x636f3634 then
       let (x, s) = rd_io get4 (seek_cur 12 s); off = c_s32 x; s = s\<lparr>crx_off := off\<rparr>
       in Some (n,
         if crx_index s = 1 then
           s\<lparr>thumb_width := c_u16 (crx_wide s), thumb_height := c_u16 (crx_high s), thumb_length := c_u32 (crx_len s), thumb_offset := off\<rparr>
         else if crx_index s = 3 then
           on_g (\<lambda>g. g\<lparr>raw_width := c_u16 (crx_wide s), raw_height := c_u16 (crx_high s), data_offset := off\<rparr>)
             (s\<lparr>load_raw := Some Canon_crx_raw\<rparr>)
         else s)
     else if tag = 0x50525657 then Some (n, seek_cur 6 s)
     else Some (n, s))"

definition crx_lists :: "int list" where
  "crx_lists = [0x6d6f6f76, 0x7472616b, 0x6d646961, 0x6d696e66, 0x7374626c]"

text \<open>Where the boxes inside a box begin, if it has some; the second component is the state there.\<close>

definition crx_inside :: "int \<Rightarrow> meta \<Rightarrow> bool \<times> meta" where
  "crx_inside tag s =
     (if tag \<in> set crx_lists then (True, s)
      else if tag = 0x75756964 then
        case rd_io get4 s of (i, s) \<Rightarrow>
          if i = 0xeaf42b5e then (True, seek_cur 12 (seek_cur 8 s))
          else if i = 0x85c0b687 then (True, seek_cur 12 s)
          else (False, s)
      else (False, s))"

partial_function (option) crx_boxes :: "fp_ops \<Rightarrow> tiff_parser \<Rightarrow> int \<Rightarrow> tiff_globals \<Rightarrow> tiff_globals option" where
  "crx_boxes fp ifd till ns =
     (if tell (snd ns) + 7 < till then
        (case rd_io get4 (snd ns) of (sz, s) \<Rightarrow>
           if sz < 8 then Some (fst ns, s)
           else
             let save = c_u32 (tell (snd ns)); (tag, s) = rd_io get4 s; (boxes, s) = crx_inside tag s
             in do {
               ns \<leftarrow> (if boxes then crx_boxes fp ifd (c_s32 (save + sz)) (fst ns, set_order 0x4d4d s)
                      else if tag = 0x75756964 then Some (fst ns, s) else crx_leaf fp ifd tag (fst ns, s));
               crx_boxes fp ifd till (fst ns, seek_set (c_u32 (save + sz)) (snd ns)) })
      else Some ns)"

definition parse_crx :: "fp_ops \<Rightarrow> tiff_parser \<Rightarrow> int \<Rightarrow> tiff_globals \<Rightarrow> tiff_globals option" where
  "parse_crx fp ifd till = (\<lambda>(n, s). crx_boxes fp ifd till (n, set_order 0x4d4d s))"

section \<open>QuickTime\<close>

text \<open>\<open>tag\<close> keeps its old bytes where the file ends.\<close>

definition qt_lists :: "u8 list list" where
  "qt_lists = [bytes_of ''moov'', bytes_of ''udta'', bytes_of ''CNTH'']"

partial_function (option) qt_boxes :: "fp_ops \<Rightarrow> tiff_parser \<Rightarrow> int \<Rightarrow> u8 list \<Rightarrow> tiff_globals \<Rightarrow> tiff_globals option" where
  "qt_boxes fp ifd till tag ns =
     (if tell (snd ns) + 7 < till then
        (case rd_io get4 (snd ns) of (sz, s) \<Rightarrow>
           if sz < 8 then Some (fst ns, s)
           else
             let save = c_u32 (tell (snd ns)); (bs, s) = rd_io (fread 4) s; tag = overlay_bytes bs tag
             in do {
               ns \<leftarrow> (if tag \<in> set qt_lists
                      then qt_boxes fp ifd (c_s32 (save + sz)) (uninit (tg s) 4) (fst ns, set_order 0x4d4d s)
                      else Some (fst ns, s));
               ns \<leftarrow> (if tag = bytes_of ''CNDA'' then map_option snd (parse_jpeg fp ifd (c_s32 (tell (snd ns))) ns) else Some ns);
               qt_boxes fp ifd till tag (fst ns, seek_set (c_u32 (save + sz)) (snd ns)) })
      else Some ns)"

definition parse_qt :: "fp_ops \<Rightarrow> tiff_parser \<Rightarrow> int \<Rightarrow> tiff_globals \<Rightarrow> tiff_globals option" where
  "parse_qt fp ifd till = (\<lambda>(n, s). qt_boxes fp ifd till (uninit (tg s) 4) (n, set_order 0x4d4d s))"

section \<open>Rollei\<close>

text \<open>
  The header is a sequence of lines \<open>name=value\<close>. At the end of the file \<open>fgets\<close> leaves the last line as
  it is, so that the loop needs the line \<open>EOHD\<close> to end. The date is year, month, day, hour, minute, second.
\<close>

definition set_date :: "int list \<Rightarrow> int list \<Rightarrow> int list \<Rightarrow> int list" where
  "set_date places xs date = fold (\<lambda>(k, x) d. d[nat k := x]) (zip places xs) date"

definition rollei_value :: "string \<Rightarrow> string \<Rightarrow> int list \<times> meta \<Rightarrow> int list \<times> meta" where
  "rollei_value name val = (\<lambda>(date, s).
     if name = ''DAT'' then (set_date [2, 1, 0] (scan_ints ''..'' val) date, s)
     else if name = ''TIM'' then (set_date [3, 4, 5] (scan_ints ''::'' val) date, s)
     else if name = ''HDR'' then (date, s\<lparr>thumb_offset := atoi val\<rparr>)
     else if name = ''X  '' then (date, on_g (raw_width_update (\<lambda>_. c_u16 (atoi val))) s)
     else if name = ''Y  '' then (date, on_g (raw_height_update (\<lambda>_. c_u16 (atoi val))) s)
     else if name = ''TX '' then (date, s\<lparr>thumb_width := c_u16 (atoi val)\<rparr>)
     else if name = ''TY '' then (date, s\<lparr>thumb_height := c_u16 (atoi val)\<rparr>)
     else (date, s))"

partial_function (option) rollei_lines :: "u8 list \<Rightarrow> int list \<times> meta \<Rightarrow> (int list \<times> meta) option" where
  "rollei_lines line ds = do {
     (line, io) \<leftarrow> fgets line 128 (io_of (snd ds));
     let cs = c_str line;
     let k = length (takeWhile (\<lambda>c. c \<noteq> CHR ''='') cs);
     let line = (if k < length cs then line[k := 0] else line);
     let ds = rollei_value (take k cs) (drop (k + 1) cs) (fst ds, set_io io (snd ds));
     if strncmp_eq (c_str line) ''EOHD'' then Some ds else rollei_lines line ds }"

definition parse_rollei :: "fp_ops \<Rightarrow> meta \<Rightarrow> meta option" where
  "parse_rollei fp s = do {
     (date, s) \<leftarrow> rollei_lines (uninit (tg s) 128) (replicate 6 0, seek_set 0 s);
     let s = on_g (data_offset_update (\<lambda>_. thumb_offset s + c_s32 (thumb_width s * thumb_height s * 2))) s;
     let t = fp_mktime fp (date[0 := date ! 0 - 1900, 1 := date ! 1 - 1]);
     let s = (if t > 0 then s\<lparr>timestamp := t\<rparr> else s);
     Some (set_model (strcpy ''d530flex'' (model_arr s)) (set_make (strcpy ''Rollei'' (make_arr s)) s)\<lparr>write_thumb := Rollei_thumb\<rparr>) }"

section \<open>The JPEG image beside a raw file\<close>

text \<open>
  The name of the image follows from that of the raw file: the extension is changed and the two halves of
  an eight-letter name are exchanged, or the number at the end of the name is increased. \<open>files\<close> is what
  \<open>fopen\<close> finds. Counting up a name of nines only reads the character before the name.
\<close>

definition last_index :: "char \<Rightarrow> string \<Rightarrow> int option" where
  "last_index c cs = (case filter (\<lambda>k. cs ! k = c) [0 ..< length cs] of [] \<Rightarrow> None | ks \<Rightarrow> Some (int (last ks)))"

fun count_up :: "nat \<Rightarrow> string \<Rightarrow> string option" where
  "count_up 0 cs = None"
| "count_up (Suc k) cs =
     (if \<not> c_isdigit (cs ! k) then Some cs
      else if cs ! k = CHR ''9'' then count_up k (cs[k := CHR ''0''])
      else Some (cs[k := char_of (of_char (cs ! k) + 1 :: nat)]))"

definition c_isupper :: "char \<Rightarrow> bool" where
  "c_isupper c \<longleftrightarrow> (65 :: nat) \<le> of_char c \<and> of_char c \<le> (90 :: nat)"

definition jpeg_name :: "string \<Rightarrow> nat \<Rightarrow> nat \<Rightarrow> string option" where
  "jpeg_name cs file ext =
     (if map lower (drop ext cs) = ''.jpg'' then count_up ext cs
      else
        let stem = take (ext - file) (drop file cs);
            stem = (if c_isdigit (cs ! file) then drop 4 stem @ take 4 stem else stem)
        in Some (take file cs @ stem @ (if c_isupper (cs ! (ext + 1)) then ''.JPG'' else ''.jpg'')))"

definition parse_external_jpeg :: "fp_ops \<Rightarrow> tiff_parser \<Rightarrow> (string \<Rightarrow> u8 list option) \<Rightarrow> tiff_globals \<Rightarrow> tiff_globals option" where
  "parse_external_jpeg fp ifd files = (\<lambda>(n, s).
     let cs = if_name s;
         slash = (case last_index (CHR ''/'') cs of Some k \<Rightarrow> k | None \<Rightarrow> (case last_index (CHR 0x5c) cs of Some k \<Rightarrow> k | None \<Rightarrow> -1));
         file = slash + 1
     in case last_index (CHR ''.'') cs of
          None \<Rightarrow> Some (n, s)
        | Some ext \<Rightarrow>
            if int (length cs) - ext \<noteq> 4 \<or> ext - file \<noteq> 8 then Some (n, s)
            else do {
              name \<leftarrow> jpeg_name cs (nat file) (nat ext);
              case (if name = cs then None else files name) of
                None \<Rightarrow> Some (n, s)
              | Some bs \<Rightarrow> do {
                  let outer = io_of s;
                  (_, n, s) \<leftarrow> parse_tiff ifd 12 (n, on_io (\<lambda>b. b\<lparr>ifile := bs, ipos := 0\<rparr>) s);
                  let s = on_g (is_raw_update (\<lambda>_. 1)) (s\<lparr>thumb_offset := 0\<rparr>);
                  Some (n, on_io (\<lambda>b. b\<lparr>ifile := ifile outer, ipos := ipos outer\<rparr>) s) } })"

end
