(* ===== verification/ColorTable.thy ===== *)
theory ColorTable
  imports TiffParse
begin

text \<open>
  The colour matrices: the table of \<open>adobe_coeff\<close>, found by a prefix of make and model, and the few of
  \<open>simple_coeff\<close>. The table is searched in order, so that a row behind a row with a shorter prefix is
  never found; which rows these are is computed with a tree of the prefixes.
\<close>

section \<open>The table\<close>

text \<open>A row: prefix, black level, maximum, and the matrix; cells that are not given are zero.\<close>

type_synonym coeff_row = "string \<times> int \<times> int \<times> int list"

definition coeff_rows_0 :: "coeff_row list" where
  "coeff_rows_0 = [
     (''AgfaPhoto DC-833m'', 0, 0, [11438, - 3762, - 1115, - 2409, 9914, 2497, - 1227, 2295, 5300]),
     (''Apple QuickTake'', 0, 0, [21392, - 5653, - 3353, 2406, 8010, - 415, 7166, 1427, 2078]),
     (''Canon EOS D2000'', 0, 0, [24542, - 10860, - 3401, - 1490, 11370, - 297, 2858, - 605, 3225]),
     (''Canon EOS D6000'', 0, 0, [20482, - 7172, - 3125, - 1033, 10410, - 285, 2542, 226, 3136]),
     (''Canon EOS D30'', 0, 0, [9805, - 2689, - 1312, - 5803, 13064, 3068, - 2438, 3075, 8775]),
     (''Canon EOS D60'', 0, 0xfa0, [6188, - 1341, - 890, - 7168, 14489, 2937, - 2640, 3228, 8483]),
     (''Canon EOS 5DS'', 0, 0x3c96, [6250, - 711, - 808, - 5153, 12794, 2636, - 1249, 2198, 5610]),
     (''Canon EOS 5D Mark IV'', 0, 0, [6446, - 366, - 864, - 4436, 12204, 2513, - 952, 2496, 6348]),
     (''Canon EOS 5D Mark III'', 0, 0x3c80, [6722, - 635, - 963, - 4287, 12460, 2028, - 908, 2162, 5668]),
     (''Canon EOS 5D Mark II'', 0, 0x3cf0, [4716, 603, - 830, - 7798, 15474, 2480, - 1496, 1937, 6651]),
     (''Canon EOS 5D'', 0, 0xe6c, [6347, - 479, - 972, - 8297, 15954, 2480, - 1968, 2131, 7649]),
     (''Canon EOS 6D Mark II'', 0, 0, [6875, - 970, - 932, - 4691, 12459, 2501, - 874, 1953, 5809]),
     (''Canon EOS 6D'', 0, 0x3c82, [7034, - 804, - 1014, - 4420, 12564, 2058, - 851, 1994, 5758]),
     (''Canon EOS 7D Mark II'', 0, 0x3510, [7268, - 1082, - 969, - 4186, 11839, 2663, - 825, 2029, 5839]),
     (''Canon EOS 7D'', 0, 0x3510, [6844, - 996, - 856, - 3876, 11761, 2396, - 593, 1772, 6198]),
     (''Canon EOS 10D'', 0, 0xfa0, [8197, - 2000, - 1118, - 6714, 14335, 2592, - 2536, 3178, 8266]),
     (''Canon EOS 20Da'', 0, 0, [14155, - 5065, - 1382, - 6550, 14633, 2039, - 1623, 1824, 6561]),
     (''Canon EOS 20D'', 0, 0xfff, [6599, - 537, - 891, - 8071, 15783, 2424, - 1983, 2234, 7462]),
     (''Canon EOS 30D'', 0, 0, [6257, - 303, - 1000, - 7880, 15621, 2396, - 1714, 1904, 7046]),
     (''Canon EOS 40D'', 0, 0x3f60, [6071, - 747, - 856, - 7653, 15365, 2441, - 2025, 2553, 7315]),
     (''Canon EOS 50D'', 0, 0x3d93, [4920, 616, - 593, - 6493, 13964, 2784, - 1774, 3178, 7005]),
     (''Canon EOS 60D'', 0, 0x2ff7, [6719, - 994, - 925, - 4408, 12426, 2211, - 887, 2129, 6051]),
     (''Canon EOS 70D'', 0, 0x3bc7, [7034, - 804, - 1014, - 4420, 12564, 2058, - 851, 1994, 5758]),
     (''Canon EOS 77D'', 0, 0, [7377, - 742, - 998, - 4235, 11981, 2549, - 673, 1918, 5538]),
     (''Canon EOS 80D'', 0, 0, [7457, - 671, - 937, - 4849, 12495, 2643, - 1213, 2354, 5492]),
     (''Canon EOS 100D'', 0, 0x350f, [6602, - 841, - 939, - 4472, 12458, 2247, - 975, 2039, 6148]),
     (''Canon EOS 200D'', 0, 0, [7377, - 742, - 998, - 4235, 11981, 2549, - 673, 1918, 5538]),
     (''Canon EOS 300D'', 0, 0xfa0, [8197, - 2000, - 1118, - 6714, 14335, 2592, - 2536, 3178, 8266]),
     (''Canon EOS 350D'', 0, 0xfff, [6018, - 617, - 965, - 8645, 15881, 2975, - 1530, 1719, 7642]),
     (''Canon EOS 400D'', 0, 0xe8e, [7054, - 1501, - 990, - 8156, 15544, 2812, - 1278, 1414, 7796]),
     (''Canon EOS 450D'', 0, 0x390d, [5784, - 262, - 821, - 7539, 15064, 2672, - 1982, 2681, 7427]),
     (''Canon EOS 500D'', 0, 0x3479, [4763, 712, - 646, - 6821, 14399, 2640, - 1921, 3276, 6561]),
     (''Canon EOS 550D'', 0, 0x3dd7, [6941, - 1164, - 857, - 3825, 11597, 2534, - 416, 1540, 6039]),
     (''Canon EOS 600D'', 0, 0x3510, [6461, - 907, - 882, - 4300, 12184, 2378, - 819, 1944, 5931]),
     (''Canon EOS 650D'', 0, 0x354d, [6602, - 841, - 939, - 4472, 12458, 2247, - 975, 2039, 6148]),
     (''Canon EOS 700D'', 0, 0x3c00, [6602, - 841, - 939, - 4472, 12458, 2247, - 975, 2039, 6148]),
     (''Canon EOS 750D'', 0, 0x368e, [6362, - 823, - 847, - 4426, 12109, 2616, - 743, 1857, 5635]),
     (''Canon EOS 760D'', 0, 0x350f, [6362, - 823, - 847, - 4426, 12109, 2616, - 743, 1857, 5635]),
     (''Canon EOS 800D'', 0, 0, [6970, - 512, - 968, - 4425, 12161, 2553, - 739, 1982, 5601]),
     (''Canon EOS 1000D'', 0, 0xe43, [6771, - 1139, - 977, - 7818, 15123, 2928, - 1244, 1437, 7533]),
     (''Canon EOS 1100D'', 0, 0x3510, [6444, - 904, - 893, - 4563, 12308, 2535, - 903, 2016, 6728]),
     (''Canon EOS 1200D'', 0, 0x37c2, [6461, - 907, - 882, - 4300, 12184, 2378, - 819, 1944, 5931]),
     (''Canon EOS 1300D'', 0, 0x3510, [6939, - 1016, - 866, - 4428, 12473, 2177, - 1175, 2178, 6162]),
     (''Canon EOS 1500D'', 0, 0, [8532, - 701, - 1167, - 4095, 11879, 2508, - 797, 2424, 7010]),
     (''Canon EOS 3000D'', 0, 0, [6939, - 1016, - 866, - 4428, 12473, 2177, - 1175, 2178, 6162]),
     (''Canon EOS M6'', 0, 0, [8532, - 701, - 1167, - 4095, 11879, 2508, - 797, 2424, 7010]),
     (''Canon EOS M5'', 0, 0, [8532, - 701, - 1167, - 4095, 11879, 2508, - 797, 2424, 7010]),
     (''Canon EOS M3'', 0, 0, [6362, - 823, - 847, - 4426, 12109, 2616, - 743, 1857, 5635]),
     (''Canon EOS M100'', 0, 0, [8532, - 701, - 1167, - 4095, 11879, 2508, - 797, 2424, 7010]),
     (''Canon EOS M10'', 0, 0, [6400, - 480, - 888, - 5294, 13416, 2047, - 1296, 2203, 6137]),
     (''Canon EOS M'', 0, 0, [6602, - 841, - 939, - 4472, 12458, 2247, - 975, 2039, 6148]),
     (''Canon EOS-1Ds Mark III'', 0, 0x3bb0, [5859, - 211, - 930, - 8255, 16017, 2353, - 1732, 1887, 7448]),
     (''Canon EOS-1Ds Mark II'', 0, 0xe80, [6517, - 602, - 867, - 8180, 15926, 2378, - 1618, 1771, 7633]),
     (''Canon EOS-1D Mark IV'', 0, 0x3bb0, [6014, - 220, - 795, - 4109, 12014, 2361, - 561, 1824, 5787]),
     (''Canon EOS-1D Mark III'', 0, 0x3bb0, [6291, - 540, - 976, - 8350, 16145, 2311, - 1714, 1858, 7326]),
     (''Canon EOS-1D Mark II N'', 0, 0xe80, [6240, - 466, - 822, - 8180, 15825, 2500, - 1801, 1938, 8042]),
     (''Canon EOS-1D Mark II'', 0, 0xe80, [6264, - 582, - 724, - 8312, 15948, 2504, - 1744, 1919, 8664]),
     (''Canon EOS-1DS'', 0, 0xe20, [4374, 3631, - 1743, - 7520, 15212, 2472, - 2892, 3632, 8161]),
     (''Canon EOS-1D C'', 0, 0x3c4e, [6847, - 614, - 1014, - 4669, 12737, 2139, - 1197, 2488, 6846]),
     (''Canon EOS-1D X Mark II'', 0, 0, [7596, - 978, - 967, - 4808, 12571, 2503, - 1398, 2567, 5752]),
     (''Canon EOS-1D X'', 0, 0x3c4e, [6847, - 614, - 1014, - 4669, 12737, 2139, - 1197, 2488, 6846]),
     (''Canon EOS-1D'', 0, 0xe20, [6806, - 179, - 1020, - 8097, 16415, 1687, - 3267, 4236, 7690]),
     (''Canon EOS C500'', 853, 0, [17851, - 10604, 922, - 7425, 16662, 763, - 3660, 3636, 22278]),
     (''Canon PowerShot A530'', 0, 0, [0]),
     (''Canon PowerShot A50'', 0, 0, [- 5300, 9846, 1776, 3436, 684, 3939, - 5540, 9879, 6200, - 1404, 11175, 217]),
     (''Canon PowerShot A5'', 0, 0, [- 4801, 9475, 1952, 2926, 1611, 4094, - 5259, 10164, 5947, - 1554, 10883, 547]),
     (''Canon PowerShot G10'', 0, 0, [11093, - 3906, - 1028, - 5047, 12492, 2879, - 1003, 1750, 5561]),
     (''Canon PowerShot G11'', 0, 0, [12177, - 4817, - 1069, - 1612, 9864, 2049, - 98, 850, 4471]),
     (''Canon PowerShot G12'', 0, 0, [13244, - 5501, - 1248, - 1508, 9858, 1935, - 270, 1083, 4366]),
     (''Canon PowerShot G15'', 0, 0, [7474, - 2301, - 567, - 4056, 11456, 2975, - 222, 716, 4181]),
     (''Canon PowerShot G16'', 0, 0, [8020, - 2687, - 682, - 3704, 11879, 2052, - 965, 1921, 5556]),
     (''Canon PowerShot G1 X Mark III'', 0, 0, [8532, - 701, - 1167, - 4095, 11879, 2508, - 797, 2424, 7010]),
     (''Canon PowerShot G1 X'', 0, 0, [7378, - 1255, - 1043, - 4088, 12251, 2048, - 876, 1946, 5805]),
     (''Canon PowerShot G1'', 0, 0, [- 4778, 9467, 2172, 4743, - 1141, 4344, - 5146, 9908, 6077, - 1566, 11051, 557])]"

definition coeff_rows_1 :: "coeff_row list" where
  "coeff_rows_1 = [
     (''Canon PowerShot G2'', 0, 0, [9087, - 2693, - 1049, - 6715, 14382, 2537, - 2291, 2819, 7790]),
     (''Canon PowerShot G3 X'', 0, 0, [9701, - 3857, - 921, - 3149, 11537, 1817, - 786, 1817, 5147]),
     (''Canon PowerShot G3'', 0, 0, [9212, - 2781, - 1073, - 6573, 14189, 2605, - 2300, 2844, 7664]),
     (''Canon PowerShot G5 X'', 0, 0, [9602, - 3823, - 937, - 2984, 11495, 1675, - 407, 1415, 5049]),
     (''Canon PowerShot G5'', 0, 0, [9757, - 2872, - 933, - 5972, 13861, 2301, - 1622, 2328, 7212]),
     (''Canon PowerShot G6'', 0, 0, [9877, - 3775, - 871, - 7613, 14807, 3072, - 1448, 1305, 7485]),
     (''Canon PowerShot G7 X'', 0, 0, [9602, - 3823, - 937, - 2984, 11495, 1675, - 407, 1415, 5049]),
     (''Canon PowerShot G9 X Mark II'', 0, 0, [10056, - 4131, - 944, - 2576, 11143, 1625, - 238, 1294, 5179]),
     (''Canon PowerShot G9 X'', 0, 0, [9602, - 3823, - 937, - 2984, 11495, 1675, - 407, 1415, 5049]),
     (''Canon PowerShot G9'', 0, 0, [7368, - 2141, - 598, - 5621, 13254, 2625, - 1418, 1696, 5743]),
     (''Canon PowerShot Pro1'', 0, 0, [10062, - 3522, - 999, - 7643, 15117, 2730, - 765, 817, 7323]),
     (''Canon PowerShot Pro70'', 34, 0, [- 4155, 9818, 1529, 3939, - 25, 4522, - 5521, 9870, 6610, - 2238, 10873, 1342]),
     (''Canon PowerShot Pro90'', 0, 0, [- 4963, 9896, 2235, 4642, - 987, 4294, - 5162, 10011, 5859, - 1770, 11230, 577]),
     (''Canon PowerShot S30'', 0, 0, [10566, - 3652, - 1129, - 6552, 14662, 2006, - 2197, 2581, 7670]),
     (''Canon PowerShot S40'', 0, 0, [8510, - 2487, - 940, - 6869, 14231, 2900, - 2318, 2829, 9013]),
     (''Canon PowerShot S45'', 0, 0, [8163, - 2333, - 955, - 6682, 14174, 2751, - 2077, 2597, 8041]),
     (''Canon PowerShot S50'', 0, 0, [8882, - 2571, - 863, - 6348, 14234, 2288, - 1516, 2172, 6569]),
     (''Canon PowerShot S60'', 0, 0, [8795, - 2482, - 797, - 7804, 15403, 2573, - 1422, 1996, 7082]),
     (''Canon PowerShot S70'', 0, 0, [9976, - 3810, - 832, - 7115, 14463, 2906, - 901, 989, 7889]),
     (''Canon PowerShot S90'', 0, 0, [12374, - 5016, - 1049, - 1677, 9902, 2078, - 83, 852, 4683]),
     (''Canon PowerShot S95'', 0, 0, [13440, - 5896, - 1279, - 1236, 9598, 1931, - 180, 1001, 4651]),
     (''Canon PowerShot S100'', 0, 0, [7968, - 2565, - 636, - 2873, 10697, 2513, 180, 667, 4211]),
     (''Canon PowerShot S110'', 0, 0, [8039, - 2643, - 654, - 3783, 11230, 2930, - 206, 690, 4194]),
     (''Canon PowerShot S120'', 0, 0, [6961, - 1685, - 695, - 4625, 12945, 1836, - 1114, 2152, 5518]),
     (''Canon PowerShot SX1 IS'', 0, 0, [6578, - 259, - 502, - 5974, 13030, 3309, - 308, 1058, 4970]),
     (''Canon PowerShot SX50 HS'', 0, 0, [12432, - 4753, - 1247, - 2110, 10691, 1629, - 412, 1623, 4926]),
     (''Canon PowerShot SX60 HS'', 0, 0, [13161, - 5451, - 1344, - 1989, 10654, 1531, - 47, 1271, 4955]),
     (''Canon PowerShot A3300'', 0, 0, [10826, - 3654, - 1023, - 3215, 11310, 1906, 0, 999, 4960]),
     (''Canon PowerShot A470'', 0, 0, [12513, - 4407, - 1242, - 2680, 10276, 2405, - 878, 2215, 4734]),
     (''Canon PowerShot A610'', 0, 0, [15591, - 6402, - 1592, - 5365, 13198, 2168, - 1300, 1824, 5075]),
     (''Canon PowerShot A620'', 0, 0, [15265, - 6193, - 1558, - 4125, 12116, 2010, - 888, 1639, 5220]),
     (''Canon PowerShot A630'', 0, 0, [14201, - 5308, - 1757, - 6087, 14472, 1617, - 2191, 3105, 5348]),
     (''Canon PowerShot A640'', 0, 0, [13124, - 5329, - 1390, - 3602, 11658, 1944, - 1612, 2863, 4885]),
     (''Canon PowerShot A650'', 0, 0, [9427, - 3036, - 959, - 2581, 10671, 1911, - 1039, 1982, 4430]),
     (''Canon PowerShot A720'', 0, 0, [14573, - 5482, - 1546, - 1266, 9799, 1468, - 1040, 1912, 3810]),
     (''Canon PowerShot S3 IS'', 0, 0, [14062, - 5199, - 1446, - 4712, 12470, 2243, - 1286, 2028, 4836]),
     (''Canon PowerShot SX110 IS'', 0, 0, [14134, - 5576, - 1527, - 1991, 10719, 1273, - 1158, 1929, 3581]),
     (''Canon PowerShot SX220'', 0, 0, [13898, - 5076, - 1447, - 1405, 10109, 1297, - 244, 1860, 3687]),
     (''Canon IXUS 160'', 0, 0, [11657, - 3781, - 1136, - 3544, 11262, 2283, - 160, 1219, 4700]),
     (''Casio EX-S20'', 0, 0, [11634, - 3924, - 1128, - 4968, 12954, 2015, - 1588, 2648, 7206]),
     (''Casio EX-Z750'', 0, 0, [10819, - 3873, - 1099, - 4903, 13730, 1175, - 1755, 3751, 4632]),
     (''Casio EX-Z10'', 128, 0xfff, [9790, - 3338, - 603, - 2321, 10222, 2099, - 344, 1273, 4799]),
     (''CINE 650'', 0, 0, [3390, 480, - 500, - 800, 3610, 340, - 550, 2336, 1192]),
     (''CINE 660'', 0, 0, [3390, 480, - 500, - 800, 3610, 340, - 550, 2336, 1192]),
     (''CINE'', 0, 0, [20183, - 4295, - 423, - 3940, 15330, 3985, - 280, 4870, 9800]),
     (''Contax N Digital'', 0, 0xf1e, [7777, 1285, - 1053, - 9280, 16543, 2916, - 3677, 5679, 7060]),
     (''DXO ONE'', 0, 0, [6596, - 2079, - 562, - 4782, 13016, 1933, - 970, 1581, 5181]),
     (''Epson R-D1'', 0, 0, [6827, - 1878, - 732, - 8429, 16012, 2564, - 704, 592, 7145]),
     (''Fujifilm E550'', 0, 0, [11044, - 3888, - 1120, - 7248, 15168, 2208, - 1531, 2277, 8069]),
     (''Fujifilm E900'', 0, 0, [9183, - 2526, - 1078, - 7461, 15071, 2574, - 2022, 2440, 8639]),
     (''Fujifilm F5'', 0, 0, [13690, - 5358, - 1474, - 3369, 11600, 1998, - 132, 1554, 4395]),
     (''Fujifilm F6'', 0, 0, [13690, - 5358, - 1474, - 3369, 11600, 1998, - 132, 1554, 4395]),
     (''Fujifilm F77'', 0, 0xfe9, [13690, - 5358, - 1474, - 3369, 11600, 1998, - 132, 1554, 4395]),
     (''Fujifilm F7'', 0, 0, [10004, - 3219, - 1201, - 7036, 15047, 2107, - 1863, 2565, 7736]),
     (''Fujifilm F8'', 0, 0, [13690, - 5358, - 1474, - 3369, 11600, 1998, - 132, 1554, 4395]),
     (''Fujifilm GFX 50'', 0, 0x3e80, [11756, - 4754, - 874, - 3056, 11045, 2305, - 381, 1457, 6006]),
     (''Fujifilm GFX 100'', 0, 0, [16212, - 8423, - 1583, - 4336, 12583, 1937, - 195, 726, 6199]),
     (''Fujifilm GFX50S II'', 0, 0x3e80, [11756, - 4754, - 874, - 3056, 11045, 2305, - 381, 1457, 6006]),
     (''Fujifilm GFX100S'', 0, 0, [16212, - 8423, - 1583, - 4336, 12583, 1937, - 195, 726, 6199]),
     (''Fujifilm S100FS'', 514, 0, [11521, - 4355, - 1065, - 6524, 13767, 3058, - 1466, 1984, 6045]),
     (''Fujifilm S1'', 0, 0, [12297, - 4882, - 1202, - 2106, 10691, 1623, - 88, 1312, 4790]),
     (''Fujifilm S20Pro'', 0, 0, [10004, - 3219, - 1201, - 7036, 15047, 2107, - 1863, 2565, 7736]),
     (''Fujifilm S20'', 512, 0x3fff, [11401, - 4498, - 1312, - 5088, 12751, 2613, - 838, 1568, 5941]),
     (''Fujifilm S2Pro'', 128, 0xf15, [12492, - 4690, - 1402, - 7033, 15423, 1647, - 1507, 2111, 7697]),
     (''Fujifilm S3Pro'', 0, 0x3dff, [11807, - 4612, - 1294, - 8927, 16968, 1988, - 2120, 2741, 8006]),
     (''Fujifilm S5Pro'', 0, 0, [12300, - 5110, - 1304, - 9117, 17143, 1998, - 1947, 2448, 8100]),
     (''Fujifilm S5000'', 0, 0, [8754, - 2732, - 1019, - 7204, 15069, 2276, - 1702, 2334, 6982]),
     (''Fujifilm S5100'', 0, 0, [11940, - 4431, - 1255, - 6766, 14428, 2542, - 993, 1165, 7421]),
     (''Fujifilm S5500'', 0, 0, [11940, - 4431, - 1255, - 6766, 14428, 2542, - 993, 1165, 7421]),
     (''Fujifilm S5200'', 0, 0, [9636, - 2804, - 988, - 7442, 15040, 2589, - 1803, 2311, 8621]),
     (''Fujifilm S5600'', 0, 0, [9636, - 2804, - 988, - 7442, 15040, 2589, - 1803, 2311, 8621]),
     (''Fujifilm S6'', 0, 0, [12628, - 4887, - 1401, - 6861, 14996, 1962, - 2198, 2782, 7091]),
     (''Fujifilm S7000'', 0, 0, [10190, - 3506, - 1312, - 7153, 15051, 2238, - 2003, 2399, 7505]),
     (''Fujifilm S9000'', 0, 0, [10491, - 3423, - 1145, - 7385, 15027, 2538, - 1809, 2275, 8692])]"

definition coeff_rows_2 :: "coeff_row list" where
  "coeff_rows_2 = [
     (''Fujifilm S9500'', 0, 0, [10491, - 3423, - 1145, - 7385, 15027, 2538, - 1809, 2275, 8692]),
     (''Fujifilm S9100'', 0, 0, [12343, - 4515, - 1285, - 7165, 14899, 2435, - 1895, 2496, 8800]),
     (''Fujifilm S9600'', 0, 0, [12343, - 4515, - 1285, - 7165, 14899, 2435, - 1895, 2496, 8800]),
     (''Fujifilm SL1000'', 0, 0, [11705, - 4262, - 1107, - 2282, 10791, 1709, - 555, 1713, 4945]),
     (''Fujifilm IS-1'', 0, 0, [21461, - 10807, - 1441, - 2332, 10599, 1999, 289, 875, 7703]),
     (''Fujifilm IS Pro'', 0, 0, [12300, - 5110, - 1304, - 9117, 17143, 1998, - 1947, 2448, 8100]),
     (''Fujifilm HS10 HS11'', 0, 0xf68, [12440, - 3954, - 1183, - 1123, 9674, 1708, - 83, 1614, 4086]),
     (''Fujifilm HS2'', 0, 0xfef, [13690, - 5358, - 1474, - 3369, 11600, 1998, - 132, 1554, 4395]),
     (''Fujifilm HS3'', 0, 0, [13690, - 5358, - 1474, - 3369, 11600, 1998, - 132, 1554, 4395]),
     (''Fujifilm HS50EXR'', 0, 0, [12085, - 4727, - 953, - 3257, 11489, 2002, - 511, 2046, 4592]),
     (''Fujifilm F900EXR'', 0, 0, [12085, - 4727, - 953, - 3257, 11489, 2002, - 511, 2046, 4592]),
     (''Fujifilm X100F'', 0, 0, [11434, - 4948, - 1210, - 3746, 12042, 1903, - 666, 1479, 5235]),
     (''Fujifilm X100S'', 0, 0, [10592, - 4262, - 1008, - 3514, 11355, 2465, - 870, 2025, 6386]),
     (''Fujifilm X100T'', 0, 0, [10592, - 4262, - 1008, - 3514, 11355, 2465, - 870, 2025, 6386]),
     (''Fujifilm X100V'', 0, 0, [13426, - 6334, - 1177, - 4244, 12136, 2371, - 580, 1303, 5980]),
     (''Fujifilm X100'', 0, 0, [12161, - 4457, - 1069, - 5034, 12874, 2400, - 795, 1724, 6904]),
     (''Fujifilm X10'', 0, 0, [13509, - 6199, - 1254, - 4430, 12733, 1865, - 331, 1441, 5022]),
     (''Fujifilm X20'', 0, 0, [11768, - 4971, - 1133, - 4904, 12927, 2183, - 480, 1723, 4605]),
     (''Fujifilm X30'', 0, 0, [12328, - 5256, - 1144, - 4469, 12927, 1675, - 87, 1291, 4351]),
     (''Fujifilm X70'', 0, 0, [10450, - 4329, - 878, - 3217, 11105, 2421, - 752, 1758, 6519]),
     (''Fujifilm X-Pro1'', 0, 0, [10413, - 3996, - 993, - 3721, 11640, 2361, - 733, 1540, 6011]),
     (''Fujifilm X-Pro2'', 0, 0, [11434, - 4948, - 1210, - 3746, 12042, 1903, - 666, 1479, 5235]),
     (''Fujifilm X-Pro3'', 0, 0, [13426, - 6334, - 1177, - 4244, 12136, 2371, - 580, 1303, 5980]),
     (''Fujifilm X-A10'', 0, 0, [11540, - 4999, - 991, - 2949, 10963, 2278, - 382, 1049, 5605]),
     (''Fujifilm X-A20'', 0, 0, [11540, - 4999, - 991, - 2949, 10963, 2278, - 382, 1049, 5605]),
     (''Fujifilm X-A1'', 0, 0, [11086, - 4555, - 839, - 3512, 11310, 2517, - 815, 1341, 5940]),
     (''Fujifilm X-A2'', 0, 0, [10763, - 4560, - 917, - 3346, 11311, 2322, - 475, 1135, 5843]),
     (''Fujifilm X-A3'', 0, 0, [12407, - 5222, - 1086, - 2971, 11116, 2120, - 294, 1029, 5284]),
     (''Fujifilm X-A5'', 0, 0, [11673, - 4760, - 1041, - 3988, 12058, 2166, - 771, 1417, 5569]),
     (''Fujifilm X-E1'', 0, 0, [10413, - 3996, - 993, - 3721, 11640, 2361, - 733, 1540, 6011]),
     (''Fujifilm X-E2S'', 0, 0, [11562, - 5118, - 961, - 3022, 11007, 2311, - 525, 1569, 6097]),
     (''Fujifilm X-E2'', 0, 0, [8458, - 2451, - 855, - 4597, 12447, 2407, - 1475, 2482, 6526]),
     (''Fujifilm X-E3'', 0, 0x3ee4, [11434, - 4948, - 1210, - 3746, 12042, 1903, - 666, 1479, 5235]),
     (''Fujifilm X-E4'', 0, 0, [13426, - 6334, - 1177, - 4244, 12136, 2371, - 580, 1303, 5980]),
     (''Fujifilm X-H1'', 0, 0, [11434, - 4948, - 1210, - 3746, 12042, 1903, - 666, 1479, 5235]),
     (''Fujifilm X-H2'', 0, 0, [11809, - 5358, - 1141, - 4248, 12164, 2343, - 514, 1097, 5848]),
     (''Fujifilm X-M1'', 0, 0, [10413, - 3996, - 993, - 3721, 11640, 2361, - 733, 1540, 6011]),
     (''Fujifilm X-S10'', 0, 0, [13426, - 6334, - 1177, - 4244, 12136, 2371, - 580, 1303, 5980]),
     (''Fujifilm X-S1'', 0, 0, [13509, - 6199, - 1254, - 4430, 12733, 1865, - 331, 1441, 5022]),
     (''Fujifilm X-T100'', 0, 0x3ee4, [11673, - 4760, - 1041, - 3988, 12058, 2166, - 771, 1417, 5568]),
     (''Fujifilm X-T1'', 0, 0, [8458, - 2451, - 855, - 4597, 12447, 2407, - 1475, 2482, 6526]),
     (''Fujifilm X-T2'', 0, 0, [11434, - 4948, - 1210, - 3746, 12042, 1903, - 666, 1479, 5235]),
     (''Fujifilm X-T3'', 0, 0, [13426, - 6334, - 1177, - 4244, 12136, 2371, - 580, 1303, 5980]),
     (''Fujifilm X-T4'', 0, 0, [13426, - 6334, - 1177, - 4244, 12136, 2371, - 580, 1303, 5980]),
     (''Fujifilm X-T5'', 0, 0, [11809, - 5358, - 1141, - 4248, 12164, 2343, - 514, 1097, 5848]),
     (''Fujifilm XF1'', 0, 0, [13509, - 6199, - 1254, - 4430, 12733, 1865, - 331, 1441, 5022]),
     (''Fujifilm XQ'', 0, 0, [9252, - 2704, - 1064, - 5893, 14265, 1717, - 1101, 2341, 4349]),
     (''GoPro HERO5 Black'', 0, 0, [10344, - 4210, - 620, - 2315, 10625, 1948, 93, 1058, 5541]),
     (''Imacon Ixpress'', 0, 0, [7025, - 1415, - 704, - 5188, 13765, 1424, - 1248, 2742, 6038]),
     (''Kodak NC2000'', 0, 0, [13891, - 6055, - 803, - 465, 9919, 642, 2121, 82, 1291]),
     (''Kodak DCS315C'', 8, 0, [17523, - 4827, - 2510, 756, 8546, - 137, 6113, 1649, 2250]),
     (''Kodak DCS330C'', 8, 0, [20620, - 7572, - 2801, - 103, 10073, - 396, 3551, - 233, 2220]),
     (''Kodak DCS420'', 0, 0, [10868, - 1852, - 644, - 1537, 11083, 484, 2343, 628, 2216]),
     (''Kodak DCS460'', 0, 0, [10592, - 2206, - 967, - 1944, 11685, 230, 2206, 670, 1273]),
     (''Kodak EOSDCS1'', 0, 0, [10592, - 2206, - 967, - 1944, 11685, 230, 2206, 670, 1273]),
     (''Kodak EOSDCS3B'', 0, 0, [9898, - 2700, - 940, - 2478, 12219, 206, 1985, 634, 1031]),
     (''Kodak DCS520C'', 178, 0, [24542, - 10860, - 3401, - 1490, 11370, - 297, 2858, - 605, 3225]),
     (''Kodak DCS560C'', 177, 0, [20482, - 7172, - 3125, - 1033, 10410, - 285, 2542, 226, 3136]),
     (''Kodak DCS620C'', 177, 0, [23617, - 10175, - 3149, - 2054, 11749, - 272, 2586, - 489, 3453]),
     (''Kodak DCS620X'', 176, 0, [13095, - 6231, 154, 12221, - 21, - 2137, 895, 4602, 2258]),
     (''Kodak DCS660C'', 173, 0, [18244, - 6351, - 2739, - 791, 11193, - 521, 3711, - 129, 2802]),
     (''Kodak DCS720X'', 0, 0, [11775, - 5884, 950, 9556, 1846, - 1286, - 1019, 6221, 2728]),
     (''Kodak DCS760C'', 0, 0, [16623, - 6309, - 1411, - 4344, 13923, 323, 2285, 274, 2926]),
     (''Kodak DCS Pro SLR'', 0, 0, [5494, 2393, - 232, - 6427, 13850, 2846, - 1876, 3997, 5445]),
     (''Kodak DCS Pro 14nx'', 0, 0, [5494, 2393, - 232, - 6427, 13850, 2846, - 1876, 3997, 5445]),
     (''Kodak DCS Pro 14'', 0, 0, [7791, 3128, - 776, - 8588, 16458, 2039, - 2455, 4006, 6198]),
     (''Kodak ProBack645'', 0, 0, [16414, - 6060, - 1470, - 3555, 13037, 473, 2545, 122, 4948]),
     (''Kodak ProBack'', 0, 0, [21179, - 8316, - 2918, - 915, 11019, - 165, 3477, - 180, 4210]),
     (''Kodak P712'', 0, 0, [9658, - 3314, - 823, - 5163, 12695, 2768, - 1342, 1843, 6044]),
     (''Kodak P850'', 0, 0xf7c, [10511, - 3836, - 1102, - 6946, 14587, 2558, - 1481, 1792, 6246]),
     (''Kodak P880'', 0, 0xfff, [12805, - 4662, - 1376, - 7480, 15267, 2360, - 1626, 2194, 7904]),
     (''Kodak EasyShare Z980'', 0, 0, [11313, - 3559, - 1101, - 3893, 11891, 2257, - 1214, 2398, 4908]),
     (''Kodak EasyShare Z981'', 0, 0, [12729, - 4717, - 1188, - 1367, 9187, 2582, 274, 860, 4411]),
     (''Kodak EasyShare Z990'', 0, 0xfed, [11749, - 4048, - 1309, - 1867, 10572, 1489, - 138, 1449, 4522])]"

definition coeff_rows_3 :: "coeff_row list" where
  "coeff_rows_3 = [
     (''Kodak EASYSHARE Z1015'', 0, 0xef1, [11265, - 4286, - 992, - 4694, 12343, 2647, - 1090, 1523, 5447]),
     (''Leaf CMost'', 0, 0, [3952, 2189, 449, - 6701, 14585, 2275, - 4536, 7349, 6536]),
     (''Leaf Valeo 6'', 0, 0, [3952, 2189, 449, - 6701, 14585, 2275, - 4536, 7349, 6536]),
     (''Leaf Aptus 54S'', 0, 0, [8236, 1746, - 1314, - 8251, 15953, 2428, - 3673, 5786, 5771]),
     (''Leaf Aptus 65'', 0, 0, [7914, 1414, - 1190, - 8777, 16582, 2280, - 2811, 4605, 5562]),
     (''Leaf Aptus 75'', 0, 0, [7914, 1414, - 1190, - 8777, 16582, 2280, - 2811, 4605, 5562]),
     (''Leaf'', 0, 0, [8236, 1746, - 1314, - 8251, 15953, 2428, - 3673, 5786, 5771]),
     (''Mamiya ZD'', 0, 0, [7645, 2579, - 1363, - 8689, 16717, 2015, - 3712, 5941, 5961]),
     (''Micron 2010'', 110, 0, [16695, - 3761, - 2151, 155, 9682, 163, 3433, 951, 4904]),
     (''Minolta DiMAGE 5'', 0, 0xf7d, [8983, - 2942, - 963, - 6556, 14476, 2237, - 2426, 2887, 8014]),
     (''Minolta DiMAGE 7Hi'', 0, 0xf7d, [11368, - 3894, - 1242, - 6521, 14358, 2339, - 2475, 3056, 7285]),
     (''Minolta DiMAGE 7'', 0, 0xf7d, [9144, - 2777, - 998, - 6676, 14556, 2281, - 2470, 3019, 7744]),
     (''Minolta DiMAGE A1'', 0, 0xf8b, [9274, - 2547, - 1167, - 8220, 16323, 1943, - 2273, 2720, 8340]),
     (''Minolta DiMAGE A200'', 0, 0, [8560, - 2487, - 986, - 8112, 15535, 2771, - 1209, 1324, 7743]),
     (''Minolta DiMAGE A2'', 0, 0xf8f, [9097, - 2726, - 1053, - 8073, 15506, 2762, - 966, 981, 7763]),
     (''Minolta DiMAGE Z2'', 0, 0, [11280, - 3564, - 1370, - 4655, 12374, 2282, - 1423, 2168, 5396]),
     (''Minolta DYNAX 5'', 0, 0xffb, [10284, - 3283, - 1086, - 7957, 15762, 2316, - 829, 882, 6644]),
     (''Minolta DYNAX 7'', 0, 0xffb, [10239, - 3104, - 1099, - 8037, 15727, 2451, - 927, 925, 6871]),
     (''Motorola PIXL'', 0, 0, [8898, - 989, - 1033, - 3292, 11619, 1674, - 661, 3178, 5216]),
     (''Nikon Z 50'', 0, 0, [11640, - 4829, - 1079, - 5107, 13006, 2325, - 972, 1711, 7380]),
     (''Nikon Z 5'', 0, 0, [8695, - 2559, - 648, - 5015, 12710, 2575, - 1280, 2215, 7514]),
     (''Nikon Z 6'', 0, 0, [9943, - 3270, - 839, - 5323, 13269, 2259, - 1198, 2083, 7557]),
     (''Nikon Z 7'', 0, 0, [13705, - 6004, - 1401, - 5464, 13568, 2062, - 940, 1706, 7618]),
     (''Nikon Z 9'', 0, 0, [13389, - 6049, - 1441, - 4544, 12757, 1969, 229, 498, 7390]),
     (''Nikon Z FC'', 0, 0, [11640, - 4829, - 1079, - 5107, 13006, 2325, - 972, 1711, 7380]),
     (''Nikon D100'', 0, 0, [5902, - 933, - 782, - 8983, 16719, 2354, - 1402, 1455, 6464]),
     (''Nikon D1H'', 0, 0, [7577, - 2166, - 926, - 7454, 15592, 1934, - 2377, 2808, 8606]),
     (''Nikon D1X'', 0, 0, [7702, - 2245, - 975, - 9114, 17242, 1875, - 2679, 3055, 8521]),
     (''Nikon D1'', 0, 0, [16772, - 4726, - 2141, - 7611, 15713, 1972, - 2846, 3494, 9521]),
     (''Nikon D200'', 0, 0xfbc, [8367, - 2248, - 763, - 8758, 16447, 2422, - 1527, 1550, 8053]),
     (''Nikon D2H'', 0, 0, [5710, - 901, - 615, - 8594, 16617, 2024, - 2975, 4120, 6830]),
     (''Nikon D2X'', 0, 0, [10231, - 2769, - 1255, - 8301, 15900, 2552, - 797, 680, 7148]),
     (''Nikon D3000'', 0, 0, [8736, - 2458, - 935, - 9075, 16894, 2251, - 1354, 1242, 8263]),
     (''Nikon D3100'', 0, 0, [7911, - 2167, - 813, - 5327, 13150, 2408, - 1288, 2483, 7968]),
     (''Nikon D3200'', 0, 0xfb9, [7013, - 1408, - 635, - 5268, 12902, 2640, - 1470, 2801, 7379]),
     (''Nikon D3300'', 0, 0, [6988, - 1384, - 714, - 5631, 13410, 2447, - 1485, 2204, 7318]),
     (''Nikon D3400'', 0, 0, [6988, - 1384, - 714, - 5631, 13410, 2447, - 1485, 2204, 7318]),
     (''Nikon D3500'', 0, 0, [8821, - 2938, - 785, - 4178, 12142, 2287, - 824, 1651, 6860]),
     (''Nikon D300'', 0, 0, [9030, - 1992, - 715, - 8465, 16302, 2255, - 2689, 3217, 8069]),
     (''Nikon D3X'', 0, 0, [7171, - 1986, - 648, - 8085, 15555, 2718, - 2170, 2512, 7457]),
     (''Nikon D3S'', 0, 0, [8828, - 2406, - 694, - 4874, 12603, 2541, - 660, 1509, 7587]),
     (''Nikon D3'', 0, 0, [8139, - 2171, - 663, - 8747, 16541, 2295, - 1925, 2008, 8093]),
     (''Nikon D40X'', 0, 0, [8819, - 2543, - 911, - 9025, 16928, 2151, - 1329, 1213, 8449]),
     (''Nikon D40'', 0, 0, [6992, - 1668, - 806, - 8138, 15748, 2543, - 874, 850, 7897]),
     (''Nikon D4S'', 0, 0, [8598, - 2848, - 857, - 5618, 13606, 2195, - 1002, 1773, 7137]),
     (''Nikon D4'', 0, 0, [8598, - 2848, - 857, - 5618, 13606, 2195, - 1002, 1773, 7137]),
     (''Nikon Df'', 0, 0, [8598, - 2848, - 857, - 5618, 13606, 2195, - 1002, 1773, 7137]),
     (''Nikon D5000'', 0, 0xf00, [7309, - 1403, - 519, - 8474, 16008, 2622, - 2433, 2826, 8064]),
     (''Nikon D5100'', 0, 0x3de6, [8198, - 2239, - 724, - 4871, 12389, 2798, - 1043, 2050, 7181]),
     (''Nikon D5200'', 0, 0, [8322, - 3112, - 1047, - 6367, 14342, 2179, - 988, 1638, 6394]),
     (''Nikon D5300'', 0, 0, [6988, - 1384, - 714, - 5631, 13410, 2447, - 1485, 2204, 7318]),
     (''Nikon D5500'', 0, 0, [8821, - 2938, - 785, - 4178, 12142, 2287, - 824, 1651, 6860]),
     (''Nikon D5600'', 0, 0, [8821, - 2938, - 785, - 4178, 12142, 2287, - 824, 1651, 6860]),
     (''Nikon D500'', 0, 0, [8813, - 3210, - 1036, - 4703, 12868, 2021, - 1054, 1940, 6129]),
     (''Nikon D50'', 0, 0, [7732, - 2422, - 789, - 8238, 15884, 2498, - 859, 783, 7330]),
     (''Nikon D5'', 0, 0, [9200, - 3522, - 992, - 5755, 13803, 2117, - 753, 1486, 6338]),
     (''Nikon D600'', 0, 0x3e07, [8178, - 2245, - 609, - 4857, 12394, 2776, - 1207, 2086, 7298]),
     (''Nikon D610'', 0, 0, [8178, - 2245, - 609, - 4857, 12394, 2776, - 1207, 2086, 7298]),
     (''Nikon D60'', 0, 0, [8736, - 2458, - 935, - 9075, 16894, 2251, - 1354, 1242, 8263]),
     (''Nikon D6'', 0, 0, [9028, - 3423, - 1035, - 6321, 14265, 2217, - 1013, 1683, 6928]),
     (''Nikon D7000'', 0, 0, [8198, - 2239, - 724, - 4871, 12389, 2798, - 1043, 2050, 7181]),
     (''Nikon D7100'', 0, 0, [8322, - 3112, - 1047, - 6367, 14342, 2179, - 988, 1638, 6394]),
     (''Nikon D7200'', 0, 0, [8322, - 3112, - 1047, - 6367, 14342, 2179, - 988, 1638, 6394]),
     (''Nikon D7500'', 0, 0, [8813, - 3210, - 1036, - 4703, 12868, 2021, - 1054, 1940, 6129]),
     (''Nikon D750'', 0, 0, [9020, - 2890, - 715, - 4535, 12436, 2348, - 934, 1919, 7086]),
     (''Nikon D780'', 0, 0, [9943, - 3270, - 839, - 5323, 13269, 2259, - 1198, 2083, 7557]),
     (''Nikon D700'', 0, 0, [8139, - 2171, - 663, - 8747, 16541, 2295, - 1925, 2008, 8093]),
     (''Nikon D70'', 0, 0, [7732, - 2422, - 789, - 8238, 15884, 2498, - 859, 783, 7330]),
     (''Nikon D850'', 0, 0, [10405, - 3755, - 1270, - 5461, 13787, 1793, - 1040, 2015, 6785]),
     (''Nikon D810'', 0, 0, [9369, - 3195, - 791, - 4488, 12430, 2301, - 893, 1796, 6872]),
     (''Nikon D800'', 0, 0, [7866, - 2108, - 555, - 4869, 12483, 2681, - 1176, 2069, 7501]),
     (''Nikon D80'', 0, 0, [8629, - 2410, - 883, - 9055, 16940, 2171, - 1490, 1363, 8520]),
     (''Nikon D90'', 0, 0xf00, [7309, - 1403, - 519, - 8474, 16008, 2622, - 2434, 2826, 8064]),
     (''Nikon E700'', 0, 0x3dd, [- 3746, 10611, 1665, 9621, - 1734, 2114, - 2389, 7082, 3064, 3406, 6116, - 244])]"

definition coeff_rows_4 :: "coeff_row list" where
  "coeff_rows_4 = [
     (''Nikon E800'', 0, 0x3dd, [- 3746, 10611, 1665, 9621, - 1734, 2114, - 2389, 7082, 3064, 3406, 6116, - 244]),
     (''Nikon E950'', 0, 0x3dd, [- 3746, 10611, 1665, 9621, - 1734, 2114, - 2389, 7082, 3064, 3406, 6116, - 244]),
     (''Nikon E995'', 0, 0, [- 5547, 11762, 2189, 5814, - 558, 3342, - 4924, 9840, 5949, 688, 9083, 96]),
     (''Nikon E2100'', 0, 0, [13142, - 4152, - 1596, - 4655, 12374, 2282, - 1769, 2696, 6711]),
     (''Nikon E2500'', 0, 0, [- 5547, 11762, 2189, 5814, - 558, 3342, - 4924, 9840, 5949, 688, 9083, 96]),
     (''Nikon E3200'', 0, 0, [9846, - 2085, - 1019, - 3278, 11109, 2170, - 774, 2134, 5745]),
     (''Nikon E4300'', 0, 0, [11280, - 3564, - 1370, - 4655, 12374, 2282, - 1423, 2168, 5396]),
     (''Nikon E4500'', 0, 0, [- 5547, 11762, 2189, 5814, - 558, 3342, - 4924, 9840, 5949, 688, 9083, 96]),
     (''Nikon E5000'', 0, 0, [- 5547, 11762, 2189, 5814, - 558, 3342, - 4924, 9840, 5949, 688, 9083, 96]),
     (''Nikon E5400'', 0, 0, [9349, - 2987, - 1001, - 7919, 15766, 2266, - 2098, 2680, 6839]),
     (''Nikon E5700'', 0, 0, [- 5368, 11478, 2368, 5537, - 113, 3148, - 4969, 10021, 5782, 778, 9028, 211]),
     (''Nikon E8400'', 0, 0, [7842, - 2320, - 992, - 8154, 15718, 2599, - 1098, 1342, 7560]),
     (''Nikon E8700'', 0, 0, [8489, - 2583, - 1036, - 8051, 15583, 2643, - 1307, 1407, 7354]),
     (''Nikon E8800'', 0, 0, [7971, - 2314, - 913, - 8451, 15762, 2894, - 1442, 1520, 7610]),
     (''Nikon COOLPIX A'', 0, 0, [8198, - 2239, - 724, - 4871, 12389, 2798, - 1043, 2050, 7181]),
     (''Nikon COOLPIX B700'', 200, 0, [14387, - 6014, - 1299, - 1357, 9975, 1616, 467, 1047, 4744]),
     (''Nikon COOLPIX P330'', 200, 0, [10321, - 3920, - 931, - 2750, 11146, 1824, - 442, 1545, 5539]),
     (''Nikon COOLPIX P340'', 200, 0, [10321, - 3920, - 931, - 2750, 11146, 1824, - 442, 1545, 5539]),
     (''Nikon COOLPIX P6000'', 0, 0, [9698, - 3367, - 914, - 4706, 12584, 2368, - 837, 968, 5801]),
     (''Nikon COOLPIX P7000'', 0, 0, [11432, - 3679, - 1111, - 3169, 11239, 2202, - 791, 1380, 4455]),
     (''Nikon COOLPIX P7100'', 0, 0, [11053, - 4269, - 1024, - 1976, 10182, 2088, - 526, 1263, 4469]),
     (''Nikon COOLPIX P7700'', 200, 0, [10321, - 3920, - 931, - 2750, 11146, 1824, - 442, 1545, 5539]),
     (''Nikon COOLPIX P7800'', 200, 0, [10321, - 3920, - 931, - 2750, 11146, 1824, - 442, 1545, 5539]),
     (''Nikon 1 V3'', 0, 0, [5958, - 1559, - 571, - 4021, 11453, 2939, - 634, 1548, 5087]),
     (''Nikon 1 J4'', 0, 0, [5958, - 1559, - 571, - 4021, 11453, 2939, - 634, 1548, 5087]),
     (''Nikon 1 J5'', 0, 0, [7520, - 2518, - 645, - 3844, 12102, 1945, - 913, 2249, 6835]),
     (''Nikon 1 S2'', 200, 0, [6612, - 1342, - 618, - 3338, 11055, 2623, - 174, 1792, 5075]),
     (''Nikon 1 V2'', 0, 0, [6588, - 1305, - 693, - 3277, 10987, 2634, - 355, 2016, 5106]),
     (''Nikon 1 J3'', 0, 0, [6588, - 1305, - 693, - 3277, 10987, 2634, - 355, 2016, 5106]),
     (''Nikon 1 AW1'', 0, 0, [6588, - 1305, - 693, - 3277, 10987, 2634, - 355, 2016, 5106]),
     (''Nikon 1 '', 0, 0, [8994, - 2667, - 865, - 4594, 12324, 2552, - 699, 1786, 6260]),
     (''Olympus AIR A01'', 0, 0, [8992, - 3093, - 639, - 2563, 10721, 2122, - 437, 1270, 5473]),
     (''Olympus C5050'', 0, 0, [10508, - 3124, - 1273, - 6079, 14294, 1901, - 1653, 2306, 6237]),
     (''Olympus C5060'', 0, 0, [10445, - 3362, - 1307, - 7662, 15690, 2058, - 1135, 1176, 7602]),
     (''Olympus C7070'', 0, 0, [10252, - 3531, - 1095, - 7114, 14850, 2436, - 1451, 1723, 6365]),
     (''Olympus C70'', 0, 0, [10793, - 3791, - 1146, - 7498, 15177, 2488, - 1390, 1577, 7321]),
     (''Olympus C80'', 0, 0, [8606, - 2509, - 1014, - 8238, 15714, 2703, - 942, 979, 7760]),
     (''Olympus E-10'', 0, 0xffc, [12745, - 4500, - 1416, - 6062, 14542, 1580, - 1934, 2256, 6603]),
     (''Olympus E-1'', 0, 0, [11846, - 4767, - 945, - 7027, 15878, 1089, - 2699, 4122, 8311]),
     (''Olympus E-20'', 0, 0xffc, [13173, - 4732, - 1499, - 5807, 14036, 1895, - 2045, 2452, 7142]),
     (''Olympus E-300'', 0, 0, [7828, - 1761, - 348, - 5788, 14071, 1830, - 2853, 4518, 6557]),
     (''Olympus E-330'', 0, 0, [8961, - 2473, - 1084, - 7979, 15990, 2067, - 2319, 3035, 8249]),
     (''Olympus E-30'', 0, 0xfbc, [8144, - 1861, - 1111, - 7763, 15894, 1929, - 1865, 2542, 7607]),
     (''Olympus E-3'', 0, 0xf99, [9487, - 2875, - 1115, - 7533, 15606, 2010, - 1618, 2100, 7389]),
     (''Olympus E-400'', 0, 0, [6169, - 1483, - 21, - 7107, 14761, 2536, - 2904, 3580, 8568]),
     (''Olympus E-410'', 0, 0xf6a, [8856, - 2582, - 1026, - 7761, 15766, 2082, - 2009, 2575, 7469]),
     (''Olympus E-420'', 0, 0xfd7, [8746, - 2425, - 1095, - 7594, 15612, 2073, - 1780, 2309, 7416]),
     (''Olympus E-450'', 0, 0xfd2, [8745, - 2425, - 1095, - 7594, 15613, 2073, - 1780, 2309, 7416]),
     (''Olympus E-500'', 0, 0, [8136, - 1968, - 299, - 5481, 13742, 1871, - 2556, 4205, 6630]),
     (''Olympus E-510'', 0, 0xf6a, [8785, - 2529, - 1033, - 7639, 15624, 2112, - 1783, 2300, 7817]),
     (''Olympus E-520'', 0, 0xfd2, [8344, - 2322, - 1020, - 7596, 15635, 2048, - 1748, 2269, 7287]),
     (''Olympus E-5'', 0, 0xeec, [11200, - 3783, - 1325, - 4576, 12593, 2206, - 695, 1742, 7504]),
     (''Olympus E-600'', 0, 0xfaf, [8453, - 2198, - 1092, - 7609, 15681, 2008, - 1725, 2337, 7824]),
     (''Olympus E-620'', 0, 0xfaf, [8453, - 2198, - 1092, - 7609, 15681, 2008, - 1725, 2337, 7824]),
     (''Olympus E-P1'', 0, 0xffd, [8343, - 2050, - 1021, - 7715, 15705, 2103, - 1831, 2380, 8235]),
     (''Olympus E-P2'', 0, 0xffd, [8343, - 2050, - 1021, - 7715, 15705, 2103, - 1831, 2380, 8235]),
     (''Olympus E-P3'', 0, 0, [7575, - 2159, - 571, - 3722, 11341, 2725, - 1434, 2819, 6271]),
     (''Olympus E-P5'', 0, 0, [8380, - 2630, - 639, - 2887, 10725, 2496, - 627, 1427, 5438]),
     (''Olympus E-PL1s'', 0, 0, [11409, - 3872, - 1393, - 4572, 12757, 2003, - 709, 1810, 7415]),
     (''Olympus E-PL10'', 0, 0, [9197, - 3190, - 659, - 2606, 10830, 2039, - 458, 1250, 5457]),
     (''Olympus E-PL1'', 0, 0, [11408, - 4289, - 1215, - 4286, 12385, 2118, - 387, 1467, 7787]),
     (''Olympus E-PL2'', 0, 0xcf3, [15030, - 5552, - 1806, - 3987, 12387, 1767, - 592, 1670, 7023]),
     (''Olympus E-PL3'', 0, 0, [7575, - 2159, - 571, - 3722, 11341, 2725, - 1434, 2819, 6271]),
     (''Olympus E-PL5'', 0, 0xfcb, [8380, - 2630, - 639, - 2887, 10725, 2496, - 627, 1427, 5438]),
     (''Olympus E-PL6'', 0, 0, [8380, - 2630, - 639, - 2887, 10725, 2496, - 627, 1427, 5438]),
     (''Olympus E-PL7'', 0, 0, [9197, - 3190, - 659, - 2606, 10830, 2039, - 458, 1250, 5458]),
     (''Olympus E-PL8'', 0, 0, [9197, - 3190, - 659, - 2606, 10830, 2039, - 458, 1250, 5458]),
     (''Olympus E-PL9'', 0, 0, [8380, - 2630, - 639, - 2887, 10725, 2496, - 627, 1427, 5438]),
     (''Olympus E-PM1'', 0, 0, [7575, - 2159, - 571, - 3722, 11341, 2725, - 1434, 2819, 6271]),
     (''Olympus E-PM2'', 0, 0, [8380, - 2630, - 639, - 2887, 10725, 2496, - 627, 1427, 5438]),
     (''Olympus E-M10MARKIV'', 0xfe, 0xfa0, [9476, - 3182, - 765, - 2613, 10958, 1893, - 449, 1315, 5268]),
     (''Olympus E-M10'', 0, 0xff0, [8380, - 2630, - 639, - 2887, 10725, 2496, - 627, 1427, 5438]),
     (''Olympus E-M1MarkIII'', 0, 0, [11896, - 5110, - 1076, - 3181, 11378, 2048, - 519, 1224, 5165]),
     (''Olympus E-M1Mark II'', 0, 0, [9383, - 3170, - 763, - 2457, 10702, 2020, - 384, 1236, 5552])]"

definition coeff_rows_5 :: "coeff_row list" where
  "coeff_rows_5 = [
     (''Olympus E-M1X'', 0, 0, [11896, - 5110, - 1076, - 3181, 11378, 2048, - 519, 1224, 5165]),
     (''Olympus E-M1'', 0, 0, [7687, - 1984, - 606, - 4327, 11928, 2721, - 1381, 2339, 6452]),
     (''Olympus E-M5MarkII'', 0, 0, [9422, - 3258, - 711, - 2655, 10898, 2015, - 512, 1354, 5512]),
     (''Olympus E-M5'', 0, 0xfe1, [8380, - 2630, - 639, - 2887, 10725, 2496, - 627, 1427, 5438]),
     (''Olympus PEN-F'', 0, 0, [9476, - 3182, - 765, - 2613, 10958, 1893, - 449, 1315, 5268]),
     (''Olympus SH-2'', 0, 0, [10156, - 3425, - 1077, - 2611, 11177, 1624, - 385, 1592, 5080]),
     (''Olympus SP350'', 0, 0, [12078, - 4836, - 1069, - 6671, 14306, 2578, - 786, 939, 7418]),
     (''Olympus SP3'', 0, 0, [11766, - 4445, - 1067, - 6901, 14421, 2707, - 1029, 1217, 7572]),
     (''Olympus SP500UZ'', 0, 0xfff, [9493, - 3415, - 666, - 5211, 12334, 3260, - 1548, 2262, 6482]),
     (''Olympus SP510UZ'', 0, 0xffe, [10593, - 3607, - 1010, - 5881, 13127, 3084, - 1200, 1805, 6721]),
     (''Olympus SP550UZ'', 0, 0xffe, [11597, - 4006, - 1049, - 5432, 12799, 2957, - 1029, 1750, 6516]),
     (''Olympus SP560UZ'', 0, 0xff9, [10915, - 3677, - 982, - 5587, 12986, 2911, - 1168, 1968, 6223]),
     (''Olympus SP570UZ'', 0, 0, [11522, - 4044, - 1146, - 4736, 12172, 2904, - 988, 1829, 6039]),
     (''Olympus STYLUS1'', 0, 0, [8360, - 2420, - 880, - 3928, 12353, 1739, - 1381, 2416, 5173]),
     (''Olympus TG-4'', 0, 0, [11426, - 4159, - 1126, - 2066, 10678, 1593, - 120, 1327, 4998]),
     (''Olympus TG-5'', 0, 0, [10899, - 3833, - 1082, - 2112, 10736, 1575, - 267, 1452, 5269]),
     (''Olympus TG-6'', 0, 0, [10899, - 3833, - 1082, - 2112, 10736, 1575, - 267, 1452, 5269]),
     (''Olympus XZ-10'', 0, 0, [9777, - 3483, - 925, - 2886, 11297, 1800, - 602, 1663, 5134]),
     (''Olympus XZ-1'', 0, 0, [10901, - 4095, - 1074, - 1141, 9208, 2293, - 62, 1417, 5158]),
     (''Olympus XZ-2'', 0, 0, [9777, - 3483, - 925, - 2886, 11297, 1800, - 602, 1663, 5134]),
     (''OmniVision'', 0, 0, [12782, - 4059, - 379, - 478, 9066, 1413, 1340, 1513, 5176]),
     (''Pentax *ist DL2'', 0, 0, [10504, - 2438, - 1189, - 8603, 16207, 2531, - 1022, 863, 12242]),
     (''Pentax *ist DL'', 0, 0, [10829, - 2838, - 1115, - 8339, 15817, 2696, - 837, 680, 11939]),
     (''Pentax *ist DS2'', 0, 0, [10504, - 2438, - 1189, - 8603, 16207, 2531, - 1022, 863, 12242]),
     (''Pentax *ist DS'', 0, 0, [10371, - 2333, - 1206, - 8688, 16231, 2602, - 1230, 1116, 11282]),
     (''Pentax *ist D'', 0, 0, [9651, - 2059, - 1189, - 8881, 16512, 2487, - 1460, 1345, 10687]),
     (''Pentax K10D'', 0, 0, [9566, - 2863, - 803, - 7170, 15172, 2112, - 818, 803, 9705]),
     (''Pentax K1'', 0, 0, [11095, - 3157, - 1324, - 8377, 15834, 2720, - 1108, 947, 11688]),
     (''Pentax K20D'', 0, 0, [9427, - 2714, - 868, - 7493, 16092, 1373, - 2199, 3264, 7180]),
     (''Pentax K200D'', 0, 0, [9186, - 2678, - 907, - 8693, 16517, 2260, - 1129, 1094, 8524]),
     (''Pentax K2000'', 0, 0, [11057, - 3604, - 1155, - 5152, 13046, 2329, - 282, 375, 8104]),
     (''Pentax K-m'', 0, 0, [11057, - 3604, - 1155, - 5152, 13046, 2329, - 282, 375, 8104]),
     (''Pentax K-x'', 0, 0, [8843, - 2837, - 625, - 5025, 12644, 2668, - 411, 1234, 7410]),
     (''Pentax K-r'', 0, 0, [9895, - 3077, - 850, - 5304, 13035, 2521, - 883, 1768, 6936]),
     (''Pentax K-1'', 0, 0, [8596, - 2981, - 639, - 4202, 12046, 2431, - 685, 1424, 6122]),
     (''Pentax K-30'', 0, 0, [8710, - 2632, - 1167, - 3995, 12301, 1881, - 981, 1719, 6535]),
     (''Pentax K-3 II'', 0, 0, [8626, - 2607, - 1155, - 3995, 12301, 1881, - 1039, 1822, 6925]),
     (''Pentax K-3'', 0, 0, [7415, - 2052, - 721, - 5186, 12788, 2682, - 1446, 2157, 6773]),
     (''Pentax K-5 II'', 0, 0, [8170, - 2725, - 639, - 4440, 12017, 2744, - 771, 1465, 6599]),
     (''Pentax K-5'', 0, 0, [8713, - 2833, - 743, - 4342, 11900, 2772, - 722, 1543, 6247]),
     (''Pentax K-70'', 0, 0, [8270, - 2117, - 1299, - 4359, 12953, 1515, - 1078, 1933, 5975]),
     (''Pentax K-7'', 0, 0, [9142, - 2947, - 678, - 8648, 16967, 1663, - 2224, 2898, 8615]),
     (''Pentax K-S1'', 0, 0, [8512, - 3211, - 787, - 4167, 11966, 2487, - 638, 1288, 6054]),
     (''Pentax K-S2'', 0, 0, [8662, - 3280, - 798, - 3928, 11771, 2444, - 586, 1232, 6054]),
     (''Pentax KP'', 0, 0, [8617, - 3228, - 1034, - 4674, 12821, 2044, - 803, 1577, 5728]),
     (''Pentax Q-S1'', 0, 0, [12995, - 5593, - 1107, - 1879, 10139, 2027, - 64, 1233, 4919]),
     (''Pentax 645D'', 0, 0x3e00, [10646, - 3593, - 1158, - 3329, 11699, 1831, - 667, 2874, 6287]),
     (''Panasonic DMC-CM1'', 15, 0, [8770, - 3194, - 820, - 2871, 11281, 1803, - 513, 1552, 4434]),
     (''Panasonic DC-FZ80'', 0, 0, [8550, - 2908, - 842, - 3195, 11529, 1881, - 338, 1603, 4631]),
     (''Panasonic DC-FZ81'', 15, 0xfd2, [11532, - 4324, - 1066, - 2375, 10847, 1749, - 564, 1699, 4351]),
     (''Panasonic DMC-FZ8'', 0, 0xf7f, [8986, - 2755, - 802, - 6341, 13575, 3077, - 1476, 2144, 6379]),
     (''Panasonic DMC-FZ18'', 0, 0, [9932, - 3060, - 935, - 5809, 13331, 2753, - 1267, 2155, 5575]),
     (''Panasonic DMC-FZ28'', 15, 0xf96, [10109, - 3488, - 993, - 5412, 12812, 2916, - 1305, 2140, 5543]),
     (''Panasonic DMC-FZ2500'', 15, 0, [7386, - 2443, - 743, - 3437, 11864, 1757, - 608, 1660, 4766]),
     (''Panasonic DMC-FZ330'', 15, 0, [8378, - 2798, - 769, - 3068, 11410, 1877, - 538, 1792, 4623]),
     (''Panasonic DMC-FZ300'', 15, 0, [8378, - 2798, - 769, - 3068, 11410, 1877, - 538, 1792, 4623]),
     (''Panasonic DMC-FZ30'', 0, 0xf94, [10976, - 4029, - 1141, - 7918, 15491, 2600, - 1670, 2071, 8246]),
     (''Panasonic DMC-FZ3'', 15, 0, [9938, - 2780, - 890, - 4604, 12393, 2480, - 1117, 2304, 4620]),
     (''Panasonic DMC-FZ4'', 15, 0, [13639, - 5535, - 1371, - 1698, 9633, 2430, 316, 1152, 4108]),
     (''Panasonic DMC-FZ50'', 0, 0, [7906, - 2709, - 594, - 6231, 13351, 3220, - 1922, 2631, 6537]),
     (''Panasonic DMC-FZ7'', 15, 0, [11532, - 4324, - 1066, - 2375, 10847, 1749, - 564, 1699, 4351]),
     (''Leica V-LUX1'', 0, 0, [7906, - 2709, - 594, - 6231, 13351, 3220, - 1922, 2631, 6537]),
     (''Panasonic DMC-L10'', 15, 0xf96, [8025, - 1942, - 1050, - 7920, 15904, 2100, - 2456, 3005, 7039]),
     (''Panasonic DMC-L1'', 0, 0xf7f, [8054, - 1885, - 1025, - 8349, 16367, 2040, - 2805, 3542, 7629]),
     (''Leica DIGILUX 3'', 0, 0xf7f, [8054, - 1885, - 1025, - 8349, 16367, 2040, - 2805, 3542, 7629]),
     (''Panasonic DMC-LC1'', 0, 0, [11340, - 4069, - 1275, - 7555, 15266, 2448, - 2960, 3426, 7685]),
     (''Leica DIGILUX 2'', 0, 0, [11340, - 4069, - 1275, - 7555, 15266, 2448, - 2960, 3426, 7685]),
     (''Panasonic DC-LX100M2'', 15, 0, [8585, - 3127, - 833, - 4005, 12250, 1953, - 650, 1494, 4862]),
     (''Panasonic DMC-LX100'', 15, 0, [8844, - 3538, - 768, - 3709, 11762, 2200, - 698, 1792, 5220]),
     (''Leica D-LUX (Typ 109)'', 15, 0, [8844, - 3538, - 768, - 3709, 11762, 2200, - 698, 1792, 5220]),
     (''Panasonic DMC-LF1'', 15, 0, [9379, - 3267, - 816, - 3227, 11560, 1881, - 926, 1928, 5340]),
     (''Leica C (Typ 112)'', 15, 0, [9379, - 3267, - 816, - 3227, 11560, 1881, - 926, 1928, 5340]),
     (''Panasonic DMC-LX1'', 0, 0xf7f, [10704, - 4187, - 1230, - 8314, 15952, 2501, - 920, 945, 8927]),
     (''Leica D-LUX2'', 0, 0xf7f, [10704, - 4187, - 1230, - 8314, 15952, 2501, - 920, 945, 8927])]"

definition coeff_rows_6 :: "coeff_row list" where
  "coeff_rows_6 = [
     (''Panasonic DMC-LX2'', 0, 0, [8048, - 2810, - 623, - 6450, 13519, 3272, - 1700, 2146, 7049]),
     (''Leica D-LUX3'', 0, 0, [8048, - 2810, - 623, - 6450, 13519, 3272, - 1700, 2146, 7049]),
     (''Panasonic DMC-LX3'', 15, 0, [8128, - 2668, - 655, - 6134, 13307, 3161, - 1782, 2568, 6083]),
     (''Leica D-LUX 4'', 15, 0, [8128, - 2668, - 655, - 6134, 13307, 3161, - 1782, 2568, 6083]),
     (''Panasonic DMC-LX5'', 15, 0, [10909, - 4295, - 948, - 1333, 9306, 2399, 22, 1738, 4582]),
     (''Leica D-LUX 5'', 15, 0, [10909, - 4295, - 948, - 1333, 9306, 2399, 22, 1738, 4582]),
     (''Panasonic DMC-LX7'', 15, 0, [10148, - 3743, - 991, - 2837, 11366, 1659, - 701, 1893, 4899]),
     (''Leica D-LUX 6'', 15, 0, [10148, - 3743, - 991, - 2837, 11366, 1659, - 701, 1893, 4899]),
     (''Panasonic DMC-LX9'', 15, 0, [7790, - 2736, - 755, - 3452, 11870, 1769, - 628, 1647, 4898]),
     (''Leica V-LUX 5'', 0, 0, [9803, - 4185, - 992, - 4066, 12578, 1628, - 838, 1824, 5288]),
     (''Panasonic DMC-FZ10002'', 0, 0, [9803, - 4185, - 992, - 4066, 12578, 1628, - 838, 1824, 5288]),
     (''Panasonic DMC-FZ1000'', 15, 0, [7830, - 2696, - 763, - 3325, 11667, 1866, - 641, 1712, 4824]),
     (''Leica V-LUX (Typ 114)'', 15, 0, [7830, - 2696, - 763, - 3325, 11667, 1866, - 641, 1712, 4824]),
     (''Panasonic DMC-FZ100'', 15, 0xfff, [16197, - 6146, - 1761, - 2393, 10765, 1869, 366, 2238, 5248]),
     (''Leica V-LUX 2'', 15, 0xfff, [16197, - 6146, - 1761, - 2393, 10765, 1869, 366, 2238, 5248]),
     (''Panasonic DMC-FZ150'', 15, 0xfff, [11904, - 4541, - 1189, - 2355, 10899, 1662, - 296, 1586, 4289]),
     (''Leica V-LUX 3'', 15, 0xfff, [11904, - 4541, - 1189, - 2355, 10899, 1662, - 296, 1586, 4289]),
     (''Panasonic DMC-FZ200'', 15, 0xfff, [8112, - 2563, - 740, - 3730, 11784, 2197, - 941, 2075, 4933]),
     (''Leica V-LUX 4'', 15, 0xfff, [8112, - 2563, - 740, - 3730, 11784, 2197, - 941, 2075, 4933]),
     (''Panasonic DMC-FX150'', 15, 0xfff, [9082, - 2907, - 925, - 6119, 13377, 3058, - 1797, 2641, 5609]),
     (''Panasonic DMC-G10'', 0, 0, [10113, - 3400, - 1114, - 4765, 12683, 2317, - 377, 1437, 6710]),
     (''Panasonic DMC-G1'', 15, 0xf94, [8199, - 2065, - 1056, - 8124, 16156, 2033, - 2458, 3022, 7220]),
     (''Panasonic DMC-G2'', 15, 0xf3c, [10113, - 3400, - 1114, - 4765, 12683, 2317, - 377, 1437, 6710]),
     (''Panasonic DMC-G3'', 15, 0xfff, [6763, - 1919, - 863, - 3868, 11515, 2684, - 1216, 2387, 5879]),
     (''Panasonic DMC-G5'', 15, 0xfff, [7798, - 2562, - 740, - 3879, 11584, 2613, - 1055, 2248, 5434]),
     (''Panasonic DMC-G6'', 15, 0xfff, [8294, - 2891, - 651, - 3869, 11590, 2595, - 1183, 2267, 5352]),
     (''Panasonic DMC-G7'', 15, 0xfff, [7610, - 2780, - 576, - 4614, 12195, 2733, - 1375, 2393, 6490]),
     (''Panasonic DMC-G8'', 15, 0xfff, [7610, - 2780, - 576, - 4614, 12195, 2733, - 1375, 2393, 6490]),
     (''Panasonic DC-G100'', 15, 0, [8370, - 2869, - 710, - 3389, 11372, 2298, - 640, 1598, 4887]),
     (''Panasonic DC-G90'', 15, 0, [9657, - 3963, - 748, - 3361, 11378, 2258, - 568, 1414, 5158]),
     (''Panasonic DC-G9'', 15, 0xfff, [7685, - 2375, - 634, - 3687, 11700, 2249, - 748, 1546, 5111]),
     (''Panasonic DMC-GF1'', 15, 0xf92, [7888, - 1902, - 1011, - 8106, 16085, 2099, - 2353, 2866, 7330]),
     (''Panasonic DMC-GF2'', 15, 0xfff, [7888, - 1902, - 1011, - 8106, 16085, 2099, - 2353, 2866, 7330]),
     (''Panasonic DMC-GF3'', 15, 0xfff, [9051, - 2468, - 1204, - 5212, 13276, 2121, - 1197, 2510, 6890]),
     (''Panasonic DMC-GF5'', 15, 0xfff, [8228, - 2945, - 660, - 3938, 11792, 2430, - 1094, 2278, 5793]),
     (''Panasonic DMC-GF6'', 15, 0, [8130, - 2801, - 946, - 3520, 11289, 2552, - 1314, 2511, 5791]),
     (''Panasonic DMC-GF7'', 15, 0, [7610, - 2780, - 576, - 4614, 12195, 2733, - 1375, 2393, 6490]),
     (''Panasonic DMC-GF8'', 15, 0, [7610, - 2780, - 576, - 4614, 12195, 2733, - 1375, 2393, 6490]),
     (''Panasonic DC-GF9'', 15, 0, [7610, - 2780, - 576, - 4614, 12195, 2733, - 1375, 2393, 6490]),
     (''Panasonic DC-GF10'', 15, 0, [7610, - 2781, - 576, - 4614, 12195, 2733, - 1375, 2393, 6490]),
     (''Panasonic DMC-GH1'', 15, 0xf92, [6299, - 1466, - 532, - 6535, 13852, 2969, - 2331, 3112, 5984]),
     (''Panasonic DMC-GH2'', 15, 0xf95, [7780, - 2410, - 806, - 3913, 11724, 2484, - 1018, 2390, 5298]),
     (''Panasonic DMC-GH3'', 15, 0, [6559, - 1752, - 491, - 3672, 11407, 2586, - 962, 1875, 5130]),
     (''Panasonic DMC-GH4'', 15, 0, [7122, - 2108, - 512, - 3155, 11201, 2231, - 541, 1423, 5045]),
     (''Panasonic DC-GH5S'', 15, 0, [6929, - 2355, - 708, - 4192, 12534, 1828, - 1097, 1989, 5195]),
     (''Panasonic DC-GH5'', 15, 0, [7641, - 2336, - 605, - 3218, 11299, 2187, - 485, 1338, 5121]),
     (''Panasonic DMC-GM1'', 15, 0, [6770, - 1895, - 744, - 5232, 13145, 2303, - 1664, 2691, 5703]),
     (''Panasonic DMC-GM5'', 15, 0, [8238, - 3244, - 679, - 3921, 11814, 2384, - 836, 2022, 5852]),
     (''Panasonic DMC-GX1'', 15, 0, [6763, - 1919, - 863, - 3868, 11515, 2684, - 1216, 2387, 5879]),
     (''Panasonic DMC-GX7'', 15, 0, [7610, - 2780, - 576, - 4614, 12195, 2733, - 1375, 2393, 6490]),
     (''Panasonic DMC-GX85'', 15, 0, [7771, - 3020, - 629, - 4029, 11950, 2345, - 821, 1977, 6119]),
     (''Panasonic DMC-GX8'', 15, 0, [7564, - 2263, - 606, - 3148, 11239, 2177, - 540, 1435, 4853]),
     (''Panasonic DC-GX9'', 15, 0, [7564, - 2263, - 606, - 3148, 11239, 2177, - 540, 1435, 4853]),
     (''Panasonic DC-S1'', 0, 0, [9744, - 3905, - 779, - 4899, 12807, 2324, - 798, 1630, 5827]),
     (''Panasonic DC-S1H'', 0, 0, [9397, - 3719, - 805, - 5425, 13326, 2309, - 972, 1715, 6034]),
     (''Panasonic DC-S1R'', 0, 0, [11822, - 5321, - 1249, - 5958, 15114, 766, - 614, 1264, 7043]),
     (''Panasonic DMC-ZS100'', 15, 0, [7790, - 2736, - 755, - 3452, 11870, 1769, - 628, 1647, 4898]),
     (''Panasonic DC-ZS200'', 15, 0, [7790, - 2736, - 755, - 3452, 11870, 1769, - 628, 1647, 4898]),
     (''Panasonic DMC-ZS40'', 15, 0, [8607, - 2822, - 808, - 3755, 11930, 2049, - 820, 2060, 5224]),
     (''Panasonic DMC-ZS50'', 15, 0, [8802, - 3135, - 789, - 3151, 11468, 1904, - 550, 1745, 4810]),
     (''Panasonic DMC-ZS60'', 15, 0, [8550, - 2908, - 842, - 3195, 11529, 1881, - 338, 1603, 4631]),
     (''Panasonic DMC-TZ82'', 15, 0, [8550, - 2908, - 842, - 3195, 11529, 1881, - 338, 1603, 4631]),
     (''Panasonic DMC-ZS6'', 15, 0, [8550, - 2908, - 842, - 3195, 11529, 1881, - 338, 1603, 4631]),
     (''Panasonic DMC-ZS70'', 15, 0, [9052, - 3117, - 883, - 3045, 11346, 1927, - 205, 1520, 4730]),
     (''Panasonic DMC-ZS80'', 0, 0, [12194, - 5340, - 1329, - 3035, 11394, 1858, - 50, 1418, 5219]),
     (''Leica S (Typ 007)'', 0, 0, [6063, - 2234, - 231, - 5210, 13787, 1500, - 1043, 2866, 6997]),
     (''Leica X'', 0, 0, [7712, - 2059, - 653, - 3882, 11494, 2726, - 710, 1332, 5958]),
     (''Leica Q (Typ 116)'', 0, 0, [11865, - 4523, - 1441, - 5423, 14458, 935, - 1587, 2687, 4830]),
     (''Leica M (Typ 262)'', 0, 0, [6653, - 1486, - 611, - 4221, 13303, 929, - 881, 2416, 7226]),
     (''Leica SL (Typ 601)'', 0, 0, [11865, - 4523, - 1441, - 5423, 14458, 935, - 1587, 2687, 4830]),
     (''Leica TL2'', 0, 0, [5836, - 1626, - 647, - 5384, 13326, 2261, - 1207, 2129, 5861]),
     (''Leica TL'', 0, 0, [5463, - 988, - 364, - 4634, 12036, 2946, - 766, 1389, 6522]),
     (''Leica CL'', 0, 0, [7414, - 2393, - 840, - 5127, 13180, 2138, - 1585, 2468, 5064]),
     (''Leica M10'', 0, 0, [8249, - 2849, - 620, - 5415, 14756, 565, - 957, 3074, 6517])]"

definition coeff_rows_7 :: "coeff_row list" where
  "coeff_rows_7 = [
     (''Phase One H 20'', 0, 0, [1313, 1855, - 109, - 6715, 15908, 808, - 327, 1840, 6020]),
     (''Phase One H 25'', 0, 0, [2905, 732, - 237, - 8134, 16626, 1476, - 3038, 4253, 7517]),
     (''Phase One P 2'', 0, 0, [2905, 732, - 237, - 8134, 16626, 1476, - 3038, 4253, 7517]),
     (''Phase One P 30'', 0, 0, [4516, - 245, - 37, - 7020, 14976, 2173, - 3206, 4671, 7087]),
     (''Phase One P 45'', 0, 0, [5053, - 24, - 117, - 5684, 14076, 1702, - 2619, 4492, 5849]),
     (''Phase One P40'', 0, 0, [8035, 435, - 962, - 6001, 13872, 2320, - 1159, 3065, 5434]),
     (''Phase One P65'', 0, 0, [8035, 435, - 962, - 6001, 13872, 2320, - 1159, 3065, 5434]),
     (''Photron BC2-HD'', 0, 0, [14603, - 4122, - 528, - 1810, 9794, 2017, - 297, 2763, 5936]),
     (''Red One'', 704, 0xffff, [21014, - 7891, - 2613, - 3056, 12201, 856, - 2203, 5125, 8042]),
     (''Ricoh GR II'', 0, 0, [4630, - 834, - 423, - 4977, 12805, 2417, - 638, 1467, 6115]),
     (''Ricoh GR'', 0, 0, [3708, - 543, - 160, - 5381, 12254, 3556, - 1471, 1929, 8234]),
     (''Samsung EX1'', 0, 0x3e00, [8898, - 2498, - 994, - 3144, 11328, 2066, - 760, 1381, 4576]),
     (''Samsung EX2F'', 0, 0x7ff, [10648, - 3897, - 1055, - 2022, 10573, 1668, - 492, 1611, 4742]),
     (''Samsung EK-GN120'', 0, 0, [7557, - 2522, - 739, - 4679, 12949, 1894, - 840, 1777, 5311]),
     (''Samsung NX mini'', 0, 0, [5222, - 1196, - 550, - 6540, 14649, 2009, - 1666, 2819, 5657]),
     (''Samsung NX3300'', 0, 0, [8060, - 2933, - 761, - 4504, 12890, 1762, - 630, 1489, 5227]),
     (''Samsung NX3000'', 0, 0, [8060, - 2933, - 761, - 4504, 12890, 1762, - 630, 1489, 5227]),
     (''Samsung NX30'', 0, 0, [7557, - 2522, - 739, - 4679, 12949, 1894, - 840, 1777, 5311]),
     (''Samsung NX2000'', 0, 0, [7557, - 2522, - 739, - 4679, 12949, 1894, - 840, 1777, 5311]),
     (''Samsung NX2'', 0, 0xfff, [6933, - 2268, - 753, - 4921, 13387, 1647, - 803, 1641, 6096]),
     (''Samsung NX1000'', 0, 0, [6933, - 2268, - 753, - 4921, 13387, 1647, - 803, 1641, 6096]),
     (''Samsung NX1100'', 0, 0, [6933, - 2268, - 753, - 4921, 13387, 1647, - 803, 1641, 6096]),
     (''Samsung NX11'', 0, 0, [10332, - 3234, - 1168, - 6111, 14639, 1520, - 1352, 2647, 8331]),
     (''Samsung NX10'', 0, 0, [10332, - 3234, - 1168, - 6111, 14639, 1520, - 1352, 2647, 8331]),
     (''Samsung NX500'', 0, 0, [10686, - 4042, - 1052, - 3595, 13238, 276, - 464, 1259, 5931]),
     (''Samsung NX5'', 0, 0, [10332, - 3234, - 1168, - 6111, 14639, 1520, - 1352, 2647, 8331]),
     (''Samsung NX1'', 0, 0, [10686, - 4042, - 1052, - 3595, 13238, 276, - 464, 1259, 5931]),
     (''Samsung WB2000'', 0, 0xfff, [12093, - 3557, - 1155, - 1000, 9534, 1733, - 22, 1787, 4576]),
     (''Samsung GX-1'', 0, 0, [10504, - 2438, - 1189, - 8603, 16207, 2531, - 1022, 863, 12242]),
     (''Samsung GX20'', 0, 0, [9427, - 2714, - 868, - 7493, 16092, 1373, - 2199, 3264, 7180]),
     (''Samsung S85'', 0, 0, [11885, - 3968, - 1473, - 4214, 12299, 1916, - 835, 1655, 5549]),
     (''Sinar'', 0, 0, [16442, - 2956, - 2422, - 2877, 12128, 750, - 1136, 6066, 4559]),
     (''Sony DSC-F828'', 0, 0, [7924, - 1910, - 777, - 8226, 15459, 2998, - 1517, 2199, 6818, - 7242, 11401, 3481]),
     (''Sony DSC-R1'', 0, 0, [8512, - 2641, - 694, - 8042, 15670, 2526, - 1821, 2117, 7414]),
     (''Sony DSC-V3'', 0, 0, [7511, - 2571, - 692, - 7894, 15088, 3060, - 948, 1111, 8128]),
     (''Sony DSC-RX100M7'', 0, 0, [10315, - 4390, - 937, - 4859, 12734, 2365, - 735, 1537, 5997]),
     (''Sony DSC-RX100M6'', 0, 0, [7325, - 2321, - 596, - 3494, 11674, 2055, - 668, 1562, 5031]),
     (''Sony DSC-RX100M5A'', 0, 0, [11176, - 4700, - 965, - 4004, 12184, 2032, - 764, 1726, 5876]),
     (''Sony DSC-RX100M'', 0, 0, [6596, - 2079, - 562, - 4782, 13016, 1933, - 970, 1581, 5181]),
     (''Sony DSC-RX100'', 0, 0, [8651, - 2754, - 1057, - 3464, 12207, 1373, - 568, 1398, 4434]),
     (''Sony DSC-RX10M4'', 0, 0, [7699, - 2566, - 629, - 2967, 11270, 1928, - 378, 1286, 4807]),
     (''Sony DSC-RX10'', 0, 0, [6679, - 1825, - 745, - 5047, 13256, 1953, - 1580, 2422, 5183]),
     (''Sony DSC-RX1RM2'', 0, 0, [6629, - 1900, - 483, - 4618, 12349, 2550, - 622, 1381, 6514]),
     (''Sony DSC-RX1'', 0, 0, [6344, - 1612, - 462, - 4863, 12477, 2681, - 865, 1786, 6899]),
     (''Sony DSC-RX0'', 0, 0, [9396, - 3507, - 843, - 2497, 11111, 1572, - 343, 1355, 5089]),
     (''Sony DSLR-A100'', 0, 0xfeb, [9437, - 2811, - 774, - 8405, 16215, 2290, - 710, 596, 7181]),
     (''Sony DSLR-A290'', 0, 0, [6038, - 1484, - 579, - 9145, 16746, 2512, - 875, 746, 7218]),
     (''Sony DSLR-A2'', 0, 0, [9847, - 3091, - 928, - 8485, 16345, 2225, - 715, 595, 7103]),
     (''Sony DSLR-A300'', 0, 0, [9847, - 3091, - 928, - 8485, 16345, 2225, - 715, 595, 7103]),
     (''Sony DSLR-A330'', 0, 0, [9847, - 3091, - 929, - 8485, 16346, 2225, - 714, 595, 7103]),
     (''Sony DSLR-A350'', 0, 0xffc, [6038, - 1484, - 578, - 9146, 16746, 2513, - 875, 746, 7217]),
     (''Sony DSLR-A380'', 0, 0, [6038, - 1484, - 579, - 9145, 16746, 2512, - 875, 746, 7218]),
     (''Sony DSLR-A390'', 0, 0, [6038, - 1484, - 579, - 9145, 16746, 2512, - 875, 746, 7218]),
     (''Sony DSLR-A450'', 0, 0xfeb, [4950, - 580, - 103, - 5228, 12542, 3029, - 709, 1435, 7371]),
     (''Sony DSLR-A580'', 0, 0xfeb, [5932, - 1492, - 411, - 4813, 12285, 2856, - 741, 1524, 6739]),
     (''Sony DSLR-A500'', 0, 0xfeb, [6046, - 1127, - 278, - 5574, 13076, 2786, - 691, 1419, 7625]),
     (''Sony DSLR-A5'', 0, 0xfeb, [4950, - 580, - 103, - 5228, 12542, 3029, - 709, 1435, 7371]),
     (''Sony DSLR-A700'', 0, 0, [5775, - 805, - 359, - 8574, 16295, 2391, - 1943, 2341, 7249]),
     (''Sony DSLR-A850'', 0, 0, [5413, - 1162, - 365, - 5665, 13098, 2866, - 608, 1179, 8440]),
     (''Sony DSLR-A900'', 0, 0, [5209, - 1072, - 397, - 8845, 16120, 2919, - 1618, 1803, 8654]),
     (''Sony ILCA-68'', 0, 0, [6435, - 1903, - 536, - 4722, 12449, 2550, - 663, 1363, 6517]),
     (''Sony ILCA-77M2'', 0, 0, [5991, - 1732, - 443, - 4100, 11989, 2381, - 704, 1467, 5992]),
     (''Sony ILCA-99M2'', 0, 0, [6660, - 1918, - 471, - 4613, 12398, 2485, - 649, 1433, 6447]),
     (''Sony ILCE-1'', 0, 0, [8161, - 2947, - 739, - 4811, 12668, 2389, - 437, 1229, 6524]),
     (''Sony ILCE-600'', 0, 0, [5991, - 1456, - 455, - 4764, 12135, 2980, - 707, 1425, 6701]),
     (''Sony ILCE-6100'', 0, 0, [7657, - 2847, - 607, - 4083, 11966, 2389, - 684, 1418, 5844]),
     (''Sony ILCE-6400'', 0, 0, [7657, - 2847, - 607, - 4083, 11966, 2389, - 684, 1418, 5844]),
     (''Sony ILCE-6600'', 0, 0, [7657, - 2847, - 607, - 4083, 11966, 2389, - 684, 1418, 5844]),
     (''Sony ILCE-6'', 0, 0, [5973, - 1695, - 419, - 3826, 11797, 2293, - 639, 1398, 5789]),
     (''Sony ILCE-7C'', 0, 0, [7374, - 2389, - 551, - 5435, 13162, 2519, - 1006, 1795, 6552]),
     (''Sony ILCE-7M4'', 0, 0, [7460, - 2365, - 588, - 5687, 13442, 2474, - 624, 1156, 6584]),
     (''Sony ILCE-7M3'', 0, 0, [7374, - 2389, - 551, - 5435, 13162, 2519, - 1006, 1795, 6552]),
     (''Sony ILCE-7SM3'', 0, 0, [6912, - 2127, - 469, - 4470, 12175, 2587, - 398, 1477, 6492]),
     (''Sony ILCE-7S'', 0, 0, [5838, - 1430, - 246, - 3497, 11477, 2297, - 748, 1885, 5778])]"

definition coeff_rows_8 :: "coeff_row list" where
  "coeff_rows_8 = [
     (''Sony ILCE-7RM4'', 0, 0, [7662, - 2686, - 660, - 5240, 12965, 2530, - 796, 1508, 6167]),
     (''Sony ILCE-7RM3'', 0, 0, [6640, - 1847, - 503, - 5238, 13010, 2474, - 993, 1673, 6527]),
     (''Sony ILCE-7RM2'', 0, 0, [6629, - 1900, - 483, - 4618, 12349, 2550, - 622, 1381, 6514]),
     (''Sony ILCE-7R'', 0, 0, [4913, - 541, - 202, - 6130, 13513, 2906, - 1564, 2151, 7183]),
     (''Sony ILCE-7'', 0, 0, [5271, - 712, - 347, - 6153, 13653, 2763, - 1601, 2366, 7242]),
     (''Sony ILCE-9'', 0, 0, [6389, - 1703, - 378, - 4562, 12265, 2587, - 670, 1489, 6550]),
     (''Sony ILCE'', 0, 0, [5991, - 1456, - 455, - 4764, 12135, 2980, - 707, 1425, 6701]),
     (''Sony NEX-5N'', 0, 0, [5991, - 1456, - 455, - 4764, 12135, 2980, - 707, 1425, 6701]),
     (''Sony NEX-5R'', 0, 0, [6129, - 1545, - 418, - 4930, 12490, 2743, - 977, 1693, 6615]),
     (''Sony NEX-5T'', 0, 0, [6129, - 1545, - 418, - 4930, 12490, 2743, - 977, 1693, 6615]),
     (''Sony NEX-3N'', 0, 0, [6129, - 1545, - 418, - 4930, 12490, 2743, - 977, 1693, 6615]),
     (''Sony NEX-3'', 138, 0, [6907, - 1256, - 645, - 4940, 12621, 2320, - 1710, 2581, 6230]),
     (''Sony NEX-5'', 116, 0, [6807, - 1350, - 342, - 4216, 11649, 2567, - 1089, 2001, 6420]),
     (''Sony NEX-3'', 0, 0, [6549, - 1550, - 436, - 4880, 12435, 2753, - 854, 1868, 6976]),
     (''Sony NEX-5'', 0, 0, [6549, - 1550, - 436, - 4880, 12435, 2753, - 854, 1868, 6976]),
     (''Sony NEX-6'', 0, 0, [6129, - 1545, - 418, - 4930, 12490, 2743, - 977, 1693, 6615]),
     (''Sony NEX-7'', 0, 0, [5491, - 1192, - 363, - 4951, 12342, 2948, - 911, 1722, 7192]),
     (''Sony NEX'', 0, 0, [5991, - 1456, - 455, - 4764, 12135, 2980, - 707, 1425, 6701]),
     (''Sony SLT-A33'', 0, 0, [6069, - 1221, - 366, - 5221, 12779, 2734, - 1024, 2066, 6834]),
     (''Sony SLT-A35'', 0, 0, [5986, - 1618, - 415, - 4557, 11820, 3120, - 681, 1404, 6971]),
     (''Sony SLT-A37'', 0, 0, [5991, - 1456, - 455, - 4764, 12135, 2980, - 707, 1425, 6701]),
     (''Sony SLT-A55'', 0, 0, [5932, - 1492, - 411, - 4813, 12285, 2856, - 741, 1524, 6739]),
     (''Sony SLT-A57'', 0, 0, [5991, - 1456, - 455, - 4764, 12135, 2980, - 707, 1425, 6701]),
     (''Sony SLT-A58'', 0, 0, [5991, - 1456, - 455, - 4764, 12135, 2980, - 707, 1425, 6701]),
     (''Sony SLT-A65'', 0, 0, [5491, - 1192, - 363, - 4951, 12342, 2948, - 911, 1722, 7192]),
     (''Sony SLT-A77'', 0, 0, [5491, - 1192, - 363, - 4951, 12342, 2948, - 911, 1722, 7192]),
     (''Sony SLT-A99'', 0, 0, [6344, - 1612, - 462, - 4863, 12477, 2681, - 865, 1786, 6899]),
     (''YI M1'', 0, 0, [7712, - 2059, - 653, - 3882, 11494, 2726, - 710, 1332, 5958])]"

definition coeff_table :: "coeff_row list" where
  "coeff_table = coeff_rows_0 @ coeff_rows_1 @ coeff_rows_2 @ coeff_rows_3 @ coeff_rows_4 @ coeff_rows_5 @ coeff_rows_6 @ coeff_rows_7 @ coeff_rows_8"

section \<open>adobe_coeff\<close>

text \<open>The first row whose prefix begins the name, and its number.\<close>

fun first_row :: "coeff_row list \<Rightarrow> string \<Rightarrow> (nat \<times> coeff_row) option" where
  "first_row [] name = None"
| "first_row (r # rs) name =
     (if strncmp_eq name (fst r) then Some (0, r) else map_option (\<lambda>(k, r). (k + 1, r)) (first_row rs name))"

definition trans_cell :: "int list \<Rightarrow> nat \<Rightarrow> int" where
  "trans_cell tr j = (if j < length tr then tr ! j else 0)"

text \<open>The arrays have four rows; more colours than that are written past them.\<close>

definition adobe_coeff :: "fp_ops \<Rightarrow> string \<Rightarrow> string \<Rightarrow> meta \<Rightarrow> meta option" where
  "adobe_coeff fp mk md s =
     (case first_row coeff_table (mk @ '' '' @ md) of
        None \<Rightarrow> Some s
      | Some (_, _, bl, mx, tr) \<Rightarrow>
          let s = (if bl \<noteq> 0 then on_d (black_update (\<lambda>_. c_u16 bl)) s else s);
              s = (if mx \<noteq> 0 then on_d (maximum_update (\<lambda>_. c_u16 mx)) s else s)
          in if trans_cell tr 0 = 0 then Some s
             else if colors (td s) > 4 then None
             else
               let xyz = map (\<lambda>j. Quotient (Of_int (trans_cell tr j)) (Of_int 10000)) [0..<12];
                   (rgb, s) = cam_xyz_coeff fp (nat (colors (td s))) xyz (rgb_cam s) (on_d (raw_color_update (\<lambda>_. 0)) s)
               in Some (s\<lparr>rgb_cam := rgb\<rparr>))"

section \<open>simple_coeff\<close>

definition simple_table :: "string list list" where
  "simple_table = [
     [''1.4032'', ''-0.2231'', ''-0.1016'', ''-0.5263'', ''1.4816'', ''0.017'', ''-0.0112'', ''0.0183'', ''0.9113'', ''0'', ''0'', ''0''],
     [''2.25'', ''0.75'', ''-1.75'', ''-0.25'', ''-0.25'', ''0.75'', ''0.75'', ''-0.25'', ''-0.25'', ''-1.75'', ''0.75'', ''2.25''],
     [''1.893'', ''-0.418'', ''-0.476'', ''-0.495'', ''1.773'', ''-0.278'', ''-1.017'', ''-0.655'', ''2.672'', ''0'', ''0'', ''0''],
     [''-1.936280'', ''1.800443'', ''-1.448486'', ''2.584324'', ''1.405365'', ''-0.524955'', ''-0.289090'', ''0.408680'',
      ''-1.204965'', ''1.082304'', ''2.941367'', ''-1.818705'']]"

definition simple_coeff :: "nat \<Rightarrow> meta \<Rightarrow> meta option" where
  "simple_coeff index s = do {
     let n = colors (td s);
     rgb \<leftarrow> for_up 0 3 (\<lambda>i rgb. for_up 0 n (\<lambda>c rgb. do {
        x \<leftarrow> at (simple_table ! index) (i * n + c);
        put rgb (4 * i + c) (Decimal x) }) rgb) (rgb_cam s);
     Some (on_d (raw_color_update (\<lambda>_. 0)) (s\<lparr>rgb_cam := rgb\<rparr>)) }"

section \<open>Rows that are never found\<close>

text \<open>
  The prefixes as a tree: a node is a character, whether a prefix ends with it, the tree of what may
  follow and the tree of the other characters in its place.
\<close>

datatype prefixes = Bottom | Letter char bool prefixes prefixes

fun has_prefix :: "prefixes \<Rightarrow> string \<Rightarrow> bool" where
  "has_prefix Bottom cs = False"
| "has_prefix (Letter c b down other) [] = False"
| "has_prefix (Letter c b down other) (x # xs) =
     (if x = c then b \<or> has_prefix down xs else has_prefix other (x # xs))"

fun add_prefix :: "string \<Rightarrow> prefixes \<Rightarrow> prefixes" where
  "add_prefix [] t = t"
| "add_prefix (x # xs) Bottom = Letter x (xs = []) (add_prefix xs Bottom) Bottom"
| "add_prefix (x # xs) (Letter c b down other) =
     (if x = c then Letter c (b \<or> xs = []) (add_prefix xs down) other else Letter c b down (add_prefix (x # xs) other))"

fun hidden_rows :: "nat \<Rightarrow> string list \<Rightarrow> prefixes \<Rightarrow> nat list" where
  "hidden_rows k [] t = []"
| "hidden_rows k (w # ws) t = (if has_prefix t w then [k] else []) @ hidden_rows (k + 1) ws (add_prefix w t)"

lemma has_prefix_add: "has_prefix (add_prefix w t) v \<longleftrightarrow> has_prefix t v \<or> (w \<noteq> [] \<and> strncmp_eq v w)"
proof (induction w t arbitrary: v rule: add_prefix.induct)
  case (1 t)
  then show ?case by simp
next
  case (2 x xs)
  then show ?case by (cases v) (auto simp: strncmp_eq_def)
next
  case (3 x xs c b down other)
  then show ?case by (cases v) (auto simp: strncmp_eq_def)
qed

lemma hidden_rows_iff:
  assumes "[] \<notin> set ws" "\<And>v. has_prefix t v \<longleftrightarrow> (\<exists>u \<in> U. strncmp_eq v u)"
  shows "k + j \<in> set (hidden_rows k ws t) \<longleftrightarrow>
    j < length ws \<and> ((\<exists>u \<in> U. strncmp_eq (ws ! j) u) \<or> (\<exists>i < j. strncmp_eq (ws ! j) (ws ! i)))"
  using assms
proof (induction ws arbitrary: k j t U)
  case Nil
  then show ?case by simp
next
  case (Cons w ws)
  have le: "k' \<le> x" if "x \<in> set (hidden_rows k' vs t')" for x k' vs t'
    using that by (induction vs arbitrary: k' t') (auto split: if_splits intro: Suc_leD)
  have t: "has_prefix (add_prefix w t) v \<longleftrightarrow> (\<exists>u \<in> insert w U. strncmp_eq v u)" for v
    using Cons.prems by (auto simp: has_prefix_add)
  show ?case
  proof (cases j)
    case 0
    then show ?thesis using Cons.prems(2) [of w] le [of k "k + 1"] by fastforce
  next
    case (Suc i)
    have ex: "(\<exists>m < Suc i. strncmp_eq (ws ! i) ((w # ws) ! m)) \<longleftrightarrow> strncmp_eq (ws ! i) w \<or> (\<exists>m < i. strncmp_eq (ws ! i) (ws ! m))"
      by (auto simp: less_Suc_eq_0_disj)
    have "k + j \<in> set (hidden_rows k (w # ws) t) \<longleftrightarrow> (k + 1) + i \<in> set (hidden_rows (k + 1) ws (add_prefix w t))"
      using Suc by auto
    also have "\<dots> \<longleftrightarrow> i < length ws \<and> ((\<exists>u \<in> insert w U. strncmp_eq (ws ! i) u) \<or> (\<exists>m < i. strncmp_eq (ws ! i) (ws ! m)))"
      using Cons.prems(1) by (intro Cons.IH t) auto
    finally show ?thesis using Suc ex by auto
  qed
qed

lemma first_row_Some:
  "first_row rs name = Some (k, r) \<longleftrightarrow>
    k < length rs \<and> r = rs ! k \<and> strncmp_eq name (fst r) \<and> (\<forall>i < k. \<not> strncmp_eq name (fst (rs ! i)))"
proof (induction rs arbitrary: k)
  case Nil
  then show ?case by simp
next
  case (Cons a rs)
  show ?case
  proof (cases "strncmp_eq name (fst a)")
    case True
    then show ?thesis by (cases k) auto
  next
    case False
    show ?thesis
    proof (cases k)
      case 0
      then show ?thesis using False by auto
    next
      case (Suc m)
      have "first_row (a # rs) name = Some (k, r) \<longleftrightarrow> first_row rs name = Some (m, r)"
        using False Suc by (cases r) auto
      then show ?thesis using Cons.IH [of m] False Suc by (auto simp: less_Suc_eq_0_disj)
    qed
  qed
qed

lemma own_row: "(\<exists>r. first_row tab (fst (tab ! j)) = Some (j, r)) \<longleftrightarrow> \<not> (\<exists>i < j. strncmp_eq (fst (tab ! j)) (fst (tab ! i)))"
  if "j < length tab" for tab :: "coeff_row list"
  using that by (auto simp: first_row_Some) (simp add: strncmp_eq_def)

lemmas coeff_rows_defs = coeff_rows_0_def coeff_rows_1_def coeff_rows_2_def coeff_rows_3_def coeff_rows_4_def
  coeff_rows_5_def coeff_rows_6_def coeff_rows_7_def coeff_rows_8_def

lemma coeff_named: "[] \<notin> set (map fst coeff_table)"
  by (simp add: coeff_table_def coeff_rows_defs)

lemma coeff_hidden: "hidden_rows 0 (map fst coeff_table) Bottom = [498, 499, 605, 606]"
  by code_simp

lemma coeff_hidden_iff:
  "j < length coeff_table \<and> (\<nexists>r. first_row coeff_table (fst (coeff_table ! j)) = Some (j, r)) \<longleftrightarrow> j \<in> {498, 499, 605, 606}"
proof -
  have "j \<in> {498, 499, 605, 606} \<longleftrightarrow> j < length coeff_table \<and> (\<exists>i < j. strncmp_eq (map fst coeff_table ! j) (map fst coeff_table ! i))"
    using hidden_rows_iff [OF coeff_named, of Bottom "{}" 0 j] by (simp add: coeff_hidden)
  also have "\<dots> \<longleftrightarrow> j < length coeff_table \<and> (\<exists>i < j. strncmp_eq (fst (coeff_table ! j)) (fst (coeff_table ! i)))"
    by (auto; metis nth_map order.strict_trans)
  finally show ?thesis using own_row [where tab = coeff_table and j = j] by blast
qed

text \<open>The three rows of the Panasonic S1, and that no row before them is one of the S1R.\<close>

lemma s1_rows:
  "fst (coeff_table ! 497) = ''Panasonic DC-S1''" "fst (coeff_table ! 499) = ''Panasonic DC-S1R''"
  "''Panasonic DC-S1R'' \<notin> set (map fst (take 497 coeff_table))" "length coeff_table = 620"
  by (simp_all add: coeff_table_def coeff_rows_defs)

text \<open>
  The rows of the colour table that no camera can reach because an earlier row has a shorter prefix are
  those for the Panasonic S1H and S1R and the second ones for the Sony NEX-3 and NEX-5. All the others are
  found under their own names. So an S1R, a camera of another sensor, is given the matrix of the S1.
\<close>

theorem adobe_coeff_hidden_rows:
  "{j. j < length coeff_table \<and> (\<nexists>r. first_row coeff_table (fst (coeff_table ! j)) = Some (j, r))} = {498, 499, 605, 606}
    \<and> map_option fst (first_row coeff_table (''Panasonic'' @ '' '' @ ''DC-S1R'')) = Some 497
    \<and> fst (coeff_table ! 497) = ''Panasonic DC-S1'' \<and> fst (coeff_table ! 499) = ''Panasonic DC-S1R''
    \<and> adobe_coeff fp ''Panasonic'' ''DC-S1R'' s = adobe_coeff fp ''Panasonic'' ''DC-S1'' s"
proof -
  have first: "\<not> strncmp_eq ''Panasonic DC-S1'' (fst (coeff_table ! i))" if "i < 497" for i
    using coeff_hidden_iff [of 497] own_row [of 497 coeff_table] that by (simp add: s1_rows)
  have longer: "strncmp_eq ''Panasonic DC-S1'' u \<or> u = ''Panasonic DC-S1R''" if "strncmp_eq ''Panasonic DC-S1R'' u" for u
    using that by (cases "length u \<le> 15") (auto simp: strncmp_eq_def take_Cons' split: if_splits)
  have "fst (coeff_table ! i) \<noteq> ''Panasonic DC-S1R''" if "i < 497" for i
  proof -
    have "fst (coeff_table ! i) \<in> set (map fst (take 497 coeff_table))"
      using that s1_rows(4) by (force simp: in_set_conv_nth)
    then show ?thesis using s1_rows(3) by metis
  qed
  then have s1r: "\<not> strncmp_eq ''Panasonic DC-S1R'' (fst (coeff_table ! i))" if "i < 497" for i
    using first [OF that] longer that by blast
  have row: "first_row coeff_table ''Panasonic DC-S1R'' = Some (497, coeff_table ! 497)"
    "first_row coeff_table ''Panasonic DC-S1'' = Some (497, coeff_table ! 497)"
    using s1r first by (auto simp: first_row_Some s1_rows strncmp_eq_def)
  then have "adobe_coeff fp ''Panasonic'' ''DC-S1R'' s = adobe_coeff fp ''Panasonic'' ''DC-S1'' s"
    by (simp add: adobe_coeff_def)
  with row show ?thesis
    using coeff_hidden_iff by (auto simp: s1_rows)
qed

end
