(* ===== verification/Cameras.thy ===== *)
theory Cameras
  imports Main
begin

text \<open>
  The tables of \<open>identify\<close>: margins of Panasonic and Canon images by the size of the raw image, names of
  Canon and Sony cameras by their numbers, the names under which Panasonic sells a camera, cameras by the
  size of a file without a header, and the short names of companies.
\<close>

text \<open>A row of the table by size: the size, width and height of the raw image, eight bytes (four margins,
  flags of the loader, filter, maximum, flags), make, model and the offset of the image.\<close>

type_synonym size_row = "int \<times> int \<times> int \<times> int list \<times> string \<times> string \<times> int"

definition pana_table :: "int list list" where
  "pana_table = [
     [3130, 1743, 4, 0, - 6, 0],
     [3130, 2055, 4, 0, - 6, 0],
     [3130, 2319, 4, 0, - 6, 0],
     [3170, 2103, 18, 0, - 42, 20],
     [3170, 2367, 18, 13, - 42, - 21],
     [3177, 2367, 0, 0, - 1, 0],
     [3304, 2458, 0, 0, - 1, 0],
     [3330, 2463, 9, 0, - 5, 0],
     [3330, 2479, 9, 0, - 17, 4],
     [3370, 1899, 15, 0, - 44, 20],
     [3370, 2235, 15, 0, - 44, 20],
     [3370, 2511, 15, 10, - 44, - 21],
     [3690, 2751, 3, 0, - 8, - 3],
     [3710, 2751, 0, 0, - 3, 0],
     [3724, 2450, 0, 0, 0, - 2],
     [3770, 2487, 17, 0, - 44, 19],
     [3770, 2799, 17, 15, - 44, - 19],
     [3880, 2170, 6, 0, - 6, 0],
     [4060, 3018, 0, 0, 0, - 2],
     [4290, 2391, 3, 0, - 8, - 1],
     [4330, 2439, 17, 15, - 44, - 19],
     [4508, 2962, 0, 0, - 3, - 4],
     [4508, 3330, 0, 0, - 3, - 6]]"

definition canon_table :: "int list list" where
  "canon_table = [
     [1944, 1416, 0, 0, 48, 0, 0, 0, 0, 0, 0],
     [2144, 1560, 4, 8, 52, 2, 0, 0, 0, 25, 0],
     [2224, 1456, 48, 6, 0, 2, 0, 0, 0, 0, 0],
     [2376, 1728, 12, 6, 52, 2, 0, 0, 0, 0, 0],
     [2672, 1968, 12, 6, 44, 2, 0, 0, 0, 0, 0],
     [3152, 2068, 64, 12, 0, 0, 16, 0, 0, 0, 0],
     [3160, 2344, 44, 12, 4, 4, 0, 0, 0, 0, 0],
     [3344, 2484, 4, 6, 52, 6, 0, 0, 0, 0, 0],
     [3516, 2328, 42, 14, 0, 0, 0, 0, 0, 0, 0],
     [3596, 2360, 74, 12, 0, 0, 0, 0, 0, 0, 0],
     [3744, 2784, 52, 12, 8, 12, 0, 0, 0, 0, 0],
     [3944, 2622, 30, 18, 6, 2, 0, 0, 0, 0, 0],
     [3948, 2622, 42, 18, 0, 2, 0, 0, 0, 0, 0],
     [3984, 2622, 76, 20, 0, 2, 14, 0, 0, 0, 0],
     [4104, 3048, 48, 12, 24, 12, 0, 0, 0, 0, 0],
     [4116, 2178, 4, 2, 0, 0, 0, 0, 0, 0, 0],
     [4152, 2772, 192, 12, 0, 0, 0, 0, 0, 0, 0],
     [4160, 3124, 104, 11, 8, 65, 0, 0, 0, 0, 0],
     [4176, 3062, 96, 17, 8, 0, 0, 16, 0, 7, 0x49],
     [4192, 3062, 96, 17, 24, 0, 0, 16, 0, 0, 0x49],
     [4312, 2876, 22, 18, 0, 2, 0, 0, 0, 0, 0],
     [4352, 2874, 62, 18, 0, 0, 0, 0, 0, 0, 0],
     [4476, 2954, 90, 34, 0, 0, 0, 0, 0, 0, 0],
     [4480, 3348, 12, 10, 36, 12, 0, 0, 0, 18, 0x49],
     [4480, 3366, 80, 50, 0, 0, 0, 0, 0, 0, 0],
     [4496, 3366, 80, 50, 12, 0, 0, 0, 0, 0, 0],
     [4768, 3516, 96, 16, 0, 0, 0, 16, 0, 0, 0],
     [4832, 3204, 62, 26, 0, 0, 0, 0, 0, 0, 0],
     [4832, 3228, 62, 51, 0, 0, 0, 0, 0, 0, 0],
     [5108, 3349, 98, 13, 0, 0, 0, 0, 0, 0, 0],
     [5120, 3318, 142, 45, 62, 0, 0, 0, 0, 0, 0],
     [5280, 3528, 72, 52, 0, 0, 0, 0, 0, 0, 0],
     [5344, 3516, 142, 51, 0, 0, 0, 0, 0, 0, 0],
     [5344, 3584, 126, 100, 0, 2, 0, 0, 0, 0, 0],
     [5360, 3516, 158, 51, 0, 0, 0, 0, 0, 0, 0],
     [5568, 3708, 72, 38, 0, 0, 0, 0, 0, 0, 0],
     [5632, 3710, 96, 17, 0, 0, 0, 16, 0, 0, 0x49],
     [5712, 3774, 62, 20, 10, 2, 0, 0, 0, 0, 0],
     [5792, 3804, 158, 51, 0, 0, 0, 0, 0, 0, 0],
     [5920, 3950, 122, 80, 2, 0, 0, 0, 0, 0, 0],
     [6096, 4051, 76, 35, 0, 0, 0, 0, 0, 0, 0],
     [6096, 4056, 72, 34, 0, 0, 0, 0, 0, 0, 0],
     [6288, 4056, 264, 36, 0, 0, 0, 0, 0, 0, 0],
     [6384, 4224, 120, 44, 0, 0, 0, 0, 0, 0, 0],
     [6880, 4544, 136, 42, 0, 0, 0, 0, 0, 0, 0],
     [8896, 5920, 160, 64, 0, 0, 0, 0, 0, 0, 0]]"

definition unique_table :: "(int \<times> string) list" where
  "unique_table = [
     (0x168, ''EOS 10D''),
     (0x001, ''EOS-1D''),
     (0x175, ''EOS 20D''),
     (0x174, ''EOS-1D Mark II''),
     (0x234, ''EOS 30D''),
     (0x232, ''EOS-1D Mark II N''),
     (0x190, ''EOS 40D''),
     (0x169, ''EOS-1D Mark III''),
     (0x261, ''EOS 50D''),
     (0x281, ''EOS-1D Mark IV''),
     (0x287, ''EOS 60D''),
     (0x167, ''EOS-1DS''),
     (0x325, ''EOS 70D''),
     (0x408, ''EOS 77D''),
     (0x331, ''EOS M''),
     (0x350, ''EOS 80D''),
     (0x328, ''EOS-1D X Mark II''),
     (0x346, ''EOS 100D''),
     (0x417, ''EOS 200D''),
     (0x170, ''EOS 300D''),
     (0x188, ''EOS-1Ds Mark II''),
     (0x176, ''EOS 450D''),
     (0x215, ''EOS-1Ds Mark III''),
     (0x189, ''EOS 350D''),
     (0x324, ''EOS-1D C''),
     (0x236, ''EOS 400D''),
     (0x269, ''EOS-1D X''),
     (0x252, ''EOS 500D''),
     (0x213, ''EOS 5D''),
     (0x270, ''EOS 550D''),
     (0x218, ''EOS 5D Mark II''),
     (0x286, ''EOS 600D''),
     (0x285, ''EOS 5D Mark III''),
     (0x301, ''EOS 650D''),
     (0x302, ''EOS 6D''),
     (0x326, ''EOS 700D''),
     (0x250, ''EOS 7D''),
     (0x393, ''EOS 750D''),
     (0x289, ''EOS 7D Mark II''),
     (0x347, ''EOS 760D''),
     (0x406, ''EOS 6D Mark II''),
     (0x405, ''EOS 800D''),
     (0x349, ''EOS 5D Mark IV''),
     (0x254, ''EOS 1000D''),
     (0x288, ''EOS 1100D''),
     (0x327, ''EOS 1200D''),
     (0x382, ''EOS 5DS''),
     (0x404, ''EOS 1300D''),
     (0x401, ''EOS 5DS R''),
     (0x422, ''EOS 1500D''),
     (0x432, ''EOS 3000D'')]"

definition sonique_table :: "(int \<times> string) list" where
  "sonique_table = [
     (0x002, ''DSC-R1''),
     (0x100, ''DSLR-A100''),
     (0x101, ''DSLR-A900''),
     (0x102, ''DSLR-A700''),
     (0x103, ''DSLR-A200''),
     (0x104, ''DSLR-A350''),
     (0x105, ''DSLR-A300''),
     (0x108, ''DSLR-A330''),
     (0x109, ''DSLR-A230''),
     (0x10a, ''DSLR-A290''),
     (0x10d, ''DSLR-A850''),
     (0x111, ''DSLR-A550''),
     (0x112, ''DSLR-A500''),
     (0x113, ''DSLR-A450''),
     (0x116, ''NEX-5''),
     (0x117, ''NEX-3''),
     (0x118, ''SLT-A33''),
     (0x119, ''SLT-A55V''),
     (0x11a, ''DSLR-A560''),
     (0x11b, ''DSLR-A580''),
     (0x11c, ''NEX-C3''),
     (0x11d, ''SLT-A35''),
     (0x11e, ''SLT-A65V''),
     (0x11f, ''SLT-A77V''),
     (0x120, ''NEX-5N''),
     (0x121, ''NEX-7''),
     (0x123, ''SLT-A37''),
     (0x124, ''SLT-A57''),
     (0x125, ''NEX-F3''),
     (0x126, ''SLT-A99V''),
     (0x127, ''NEX-6''),
     (0x128, ''NEX-5R''),
     (0x129, ''DSC-RX100''),
     (0x12a, ''DSC-RX1''),
     (0x12e, ''ILCE-3000''),
     (0x12f, ''SLT-A58''),
     (0x131, ''NEX-3N''),
     (0x132, ''ILCE-7''),
     (0x133, ''NEX-5T''),
     (0x134, ''DSC-RX100M2''),
     (0x135, ''DSC-RX10''),
     (0x136, ''DSC-RX1R''),
     (0x137, ''ILCE-7R''),
     (0x138, ''ILCE-6000''),
     (0x139, ''ILCE-5000''),
     (0x13d, ''DSC-RX100M3''),
     (0x13e, ''ILCE-7S''),
     (0x13f, ''ILCA-77M2''),
     (0x153, ''ILCE-5100''),
     (0x154, ''ILCE-7M2''),
     (0x155, ''DSC-RX100M4''),
     (0x156, ''DSC-RX10M2''),
     (0x158, ''DSC-RX1RM2''),
     (0x15a, ''ILCE-QX1''),
     (0x15b, ''ILCE-7RM2''),
     (0x15e, ''ILCE-7SM2''),
     (0x161, ''ILCA-68''),
     (0x162, ''ILCA-99M2''),
     (0x163, ''DSC-RX10M3''),
     (0x164, ''DSC-RX100M5''),
     (0x165, ''ILCE-6300''),
     (0x166, ''ILCE-9''),
     (0x168, ''ILCE-6500''),
     (0x16a, ''ILCE-7RM3''),
     (0x16b, ''ILCE-7M3''),
     (0x16c, ''DSC-RX0''),
     (0x16d, ''DSC-RX10M4'')]"

definition panalias_table :: "string list" where
  "panalias_table = [
     ''@DC-FZ80'', ''DC-FZ82'', ''DC-FZ85'', ''@DC-FZ81'', ''DC-FZ83'',
     ''@DC-FZ10002'', ''DC-FZ1000M2'', ''@DC-G90'', ''DC-G91'', ''DC-G95'',
     ''DC-G95D'', ''DC-G99'', ''DC-G99D'', ''@DC-G100'', ''DC-G110'',
     ''@DC-GF9'', ''DC-GX800'', ''DC-GX850'', ''@DC-GF10'', ''DC-GF90'',
     ''@DC-GX9'', ''DC-GX7MK3'', ''@DC-ZS70'', ''DC-TZ90'', ''DC-TZ91'',
     ''DC-TZ92'', ''DC-TZ93'', ''@DC-ZS80'', ''DC-TZ95'', ''@DMC-FZ40'',
     ''DMC-FZ45'', ''@DMC-FZ2500'', ''DMC-FZ2000'', ''DMC-FZH1'', ''@DMC-G8'',
     ''DMC-G80'', ''DMC-G81'', ''DMC-G85'', ''@DMC-GX85'', ''DMC-GX80'',
     ''DMC-GX7MK2'', ''@DMC-LX9'', ''DMC-LX10'', ''DMC-LX15'', ''@DMC-ZS40'',
     ''DMC-TZ60'', ''DMC-TZ61'', ''@DMC-ZS50'', ''DMC-TZ70'', ''DMC-TZ71'',
     ''@DMC-ZS60'', ''DMC-TZ80'', ''DMC-TZ81'', ''DMC-TZ85'', ''@DMC-ZS100'',
     ''DMC-ZS110'', ''DMC-TZ100'', ''DMC-TZ101'', ''DMC-TZ110'', ''DMC-TX1'',
     ''@DC-ZS200'', ''DC-TX2'', ''DC-TZ200'', ''DC-TZ202'', ''DC-TZ220'',
     ''DC-ZS220'', ''@DC-S1'', ''DC-S5'']"

definition size_table_0 :: "size_row list" where
  "size_table_0 = [
     (786432, 1024, 768, [0, 0, 0, 0, 0, 0x94, 0, 0], ''AVT'', ''F-080C'', 0),
     (1447680, 1392, 1040, [0, 0, 0, 0, 0, 0x94, 0, 0], ''AVT'', ''F-145C'', 0),
     (1920000, 1600, 1200, [0, 0, 0, 0, 0, 0x94, 0, 0], ''AVT'', ''F-201C'', 0),
     (5067304, 2588, 1958, [0, 0, 0, 0, 0, 0x94, 0, 0], ''AVT'', ''F-510C'', 0),
     (5067316, 2588, 1958, [0, 0, 0, 0, 0, 0x94, 0, 0], ''AVT'', ''F-510C'', 12),
     (10134608, 2588, 1958, [0, 0, 0, 0, 9, 0x94, 0, 0], ''AVT'', ''F-510C'', 0),
     (10134620, 2588, 1958, [0, 0, 0, 0, 9, 0x94, 0, 0], ''AVT'', ''F-510C'', 12),
     (16157136, 3272, 2469, [0, 0, 0, 0, 9, 0x94, 0, 0], ''AVT'', ''F-810C'', 0),
     (15980544, 3264, 2448, [0, 0, 0, 0, 8, 0x61, 0, 1], ''AgfaPhoto'', ''DC-833m'', 0),
     (9631728, 2532, 1902, [0, 0, 0, 0, 96, 0x61, 0, 0], ''Alcatel'', ''5035D'', 0),
     (2868726, 1384, 1036, [0, 0, 0, 0, 64, 0x49, 0, 8], ''Baumer'', ''TXG14'', 1078),
     (5298000, 2400, 1766, [12, 12, 44, 2, 8, 0x94, 0, 2], ''Canon'', ''PowerShot SD300'', 0),
     (6553440, 2664, 1968, [4, 4, 44, 4, 8, 0x94, 0, 2], ''Canon'', ''PowerShot A460'', 0),
     (6573120, 2672, 1968, [12, 8, 44, 0, 8, 0x94, 0, 2], ''Canon'', ''PowerShot A610'', 0),
     (6653280, 2672, 1992, [10, 6, 42, 2, 8, 0x94, 0, 2], ''Canon'', ''PowerShot A530'', 0),
     (7710960, 2888, 2136, [44, 8, 4, 0, 8, 0x94, 0, 2], ''Canon'', ''PowerShot S3 IS'', 0),
     (9219600, 3152, 2340, [36, 12, 4, 0, 8, 0x94, 0, 2], ''Canon'', ''PowerShot A620'', 0),
     (9243240, 3152, 2346, [12, 7, 44, 13, 8, 0x49, 0, 2], ''Canon'', ''PowerShot A470'', 0),
     (10341600, 3336, 2480, [6, 5, 32, 3, 8, 0x94, 0, 2], ''Canon'', ''PowerShot A720 IS'', 0),
     (10383120, 3344, 2484, [12, 6, 44, 6, 8, 0x94, 0, 2], ''Canon'', ''PowerShot A630'', 0),
     (12945240, 3736, 2772, [12, 6, 52, 6, 8, 0x94, 0, 2], ''Canon'', ''PowerShot A640'', 0),
     (15636240, 4104, 3048, [48, 12, 24, 12, 8, 0x94, 0, 2], ''Canon'', ''PowerShot A650'', 0),
     (15467760, 3720, 2772, [6, 12, 30, 0, 8, 0x94, 0, 2], ''Canon'', ''PowerShot SX110 IS'', 0),
     (15534576, 3728, 2778, [12, 9, 44, 9, 8, 0x94, 0, 2], ''Canon'', ''PowerShot SX120 IS'', 0),
     (18653760, 4080, 3048, [24, 12, 24, 12, 8, 0x94, 0, 2], ''Canon'', ''PowerShot SX20 IS'', 0),
     (19131120, 4168, 3060, [92, 16, 4, 1, 8, 0x94, 0, 2], ''Canon'', ''PowerShot SX220 HS'', 0),
     (21936096, 4464, 3276, [25, 10, 73, 12, 8, 0x16, 0, 2], ''Canon'', ''PowerShot SX30 IS'', 0),
     (24724224, 4704, 3504, [8, 16, 56, 8, 8, 0x94, 0, 2], ''Canon'', ''PowerShot A3300 IS'', 0),
     (30858240, 5248, 3920, [8, 16, 56, 16, 8, 0x94, 0, 2], ''Canon'', ''IXUS 160'', 0),
     (1976352, 1632, 1211, [0, 2, 0, 1, 0, 0x94, 0, 1], ''Casio'', ''QV-2000UX'', 0),
     (3217760, 2080, 1547, [0, 0, 10, 1, 0, 0x94, 0, 1], ''Casio'', ''QV-3*00EX'', 0),
     (6218368, 2585, 1924, [0, 0, 9, 0, 0, 0x94, 0, 1], ''Casio'', ''QV-5700'', 0),
     (7816704, 2867, 2181, [0, 0, 34, 36, 0, 0x16, 0, 1], ''Casio'', ''EX-Z60'', 0),
     (2937856, 1621, 1208, [0, 0, 1, 0, 0, 0x94, 7, 13], ''Casio'', ''EX-S20'', 0),
     (4948608, 2090, 1578, [0, 0, 32, 34, 0, 0x94, 7, 1], ''Casio'', ''EX-S100'', 0),
     (6054400, 2346, 1720, [2, 0, 32, 0, 0, 0x94, 7, 1], ''Casio'', ''QV-R41'', 0),
     (7426656, 2568, 1928, [0, 0, 0, 0, 0, 0x94, 0, 1], ''Casio'', ''EX-P505'', 0),
     (7530816, 2602, 1929, [0, 0, 22, 0, 0, 0x94, 7, 1], ''Casio'', ''QV-R51'', 0),
     (7542528, 2602, 1932, [0, 0, 32, 0, 0, 0x94, 7, 1], ''Casio'', ''EX-Z50'', 0),
     (7562048, 2602, 1937, [0, 0, 25, 0, 0, 0x16, 7, 1], ''Casio'', ''EX-Z500'', 0),
     (7753344, 2602, 1986, [0, 0, 32, 26, 0, 0x94, 7, 1], ''Casio'', ''EX-Z55'', 0),
     (9313536, 2858, 2172, [0, 0, 14, 30, 0, 0x94, 7, 1], ''Casio'', ''EX-P600'', 0),
     (10834368, 3114, 2319, [0, 0, 27, 0, 0, 0x94, 0, 1], ''Casio'', ''EX-Z750'', 0),
     (10843712, 3114, 2321, [0, 0, 25, 0, 0, 0x94, 0, 1], ''Casio'', ''EX-Z75'', 0),
     (10979200, 3114, 2350, [0, 0, 32, 32, 0, 0x94, 7, 1], ''Casio'', ''EX-P700'', 0),
     (12310144, 3285, 2498, [0, 0, 6, 30, 0, 0x94, 0, 1], ''Casio'', ''EX-Z850'', 0),
     (12489984, 3328, 2502, [0, 0, 47, 35, 0, 0x94, 0, 1], ''Casio'', ''EX-Z8'', 0),
     (15499264, 3754, 2752, [0, 0, 82, 0, 0, 0x94, 0, 1], ''Casio'', ''EX-Z1050'', 0),
     (18702336, 4096, 3044, [0, 0, 24, 0, 80, 0x94, 7, 1], ''Casio'', ''EX-ZR100'', 0),
     (7684000, 2260, 1700, [0, 0, 0, 0, 13, 0x94, 0, 1], ''Casio'', ''QV-4000'', 0),
     (787456, 1024, 769, [0, 1, 0, 0, 0, 0x49, 0, 0], ''Creative'', ''PC-CAM 600'', 0)]"

definition size_table_1 :: "size_row list" where
  "size_table_1 = [
     (28829184, 4384, 3288, [0, 0, 0, 0, 36, 0x61, 0, 0], ''DJI'', '''', 0),
     (15151104, 4608, 3288, [0, 0, 0, 0, 0, 0x94, 0, 0], ''Matrix'', '''', 0),
     (3840000, 1600, 1200, [0, 0, 0, 0, 65, 0x49, 0, 0], ''Foculus'', ''531C'', 0),
     (307200, 640, 480, [0, 0, 0, 0, 0, 0x94, 0, 0], ''Generic'', '''', 0),
     (62464, 256, 244, [1, 1, 6, 1, 0, 0x8d, 0, 0], ''Kodak'', ''DC20'', 0),
     (124928, 512, 244, [1, 1, 10, 1, 0, 0x8d, 0, 0], ''Kodak'', ''DC20'', 0),
     (1652736, 1536, 1076, [0, 52, 0, 0, 0, 0x61, 0, 0], ''Kodak'', ''DCS200'', 0),
     (4159302, 2338, 1779, [1, 33, 1, 2, 0, 0x94, 0, 0], ''Kodak'', ''C330'', 0),
     (4162462, 2338, 1779, [1, 33, 1, 2, 0, 0x94, 0, 0], ''Kodak'', ''C330'', 3160),
     (2247168, 1232, 912, [0, 0, 16, 0, 0, 0x00, 0, 0], ''Kodak'', ''C330'', 0),
     (3370752, 1232, 912, [0, 0, 16, 0, 0, 0x00, 0, 0], ''Kodak'', ''C330'', 0),
     (6163328, 2864, 2152, [0, 0, 0, 0, 0, 0x94, 0, 0], ''Kodak'', ''C603'', 0),
     (6166488, 2864, 2152, [0, 0, 0, 0, 0, 0x94, 0, 0], ''Kodak'', ''C603'', 3160),
     (460800, 640, 480, [0, 0, 0, 0, 0, 0x00, 0, 0], ''Kodak'', ''C603'', 0),
     (9116448, 2848, 2134, [0, 0, 0, 0, 0, 0x00, 0, 0], ''Kodak'', ''C603'', 0),
     (12241200, 4040, 3030, [2, 0, 0, 13, 0, 0x49, 0, 0], ''Kodak'', ''12MP'', 0),
     (12272756, 4040, 3030, [2, 0, 0, 13, 0, 0x49, 0, 0], ''Kodak'', ''12MP'', 31556),
     (18000000, 4000, 3000, [0, 0, 0, 0, 0, 0x00, 0, 0], ''Kodak'', ''12MP'', 0),
     (614400, 640, 480, [0, 3, 0, 0, 64, 0x94, 0, 0], ''Kodak'', ''KAI-0340'', 0),
     (15360000, 3200, 2400, [0, 0, 0, 0, 96, 0x16, 0, 0], ''Lenovo'', ''A820'', 0),
     (3884928, 1608, 1207, [0, 0, 0, 0, 96, 0x16, 0, 0], ''Micron'', ''2010'', 3212),
     (1138688, 1534, 986, [0, 0, 0, 0, 0, 0x61, 0, 0], ''Minolta'', ''RD175'', 513),
     (1581060, 1305, 969, [0, 0, 18, 6, 6, 0x1e, 4, 1], ''Nikon'', ''E900'', 0),
     (2465792, 1638, 1204, [0, 0, 22, 1, 6, 0x4b, 5, 1], ''Nikon'', ''E950'', 0),
     (2940928, 1616, 1213, [0, 0, 0, 7, 30, 0x94, 0, 1], ''Nikon'', ''E2100'', 0),
     (4771840, 2064, 1541, [0, 0, 0, 1, 6, 0xe1, 0, 1], ''Nikon'', ''E990'', 0),
     (4775936, 2064, 1542, [0, 0, 0, 0, 30, 0x94, 0, 1], ''Nikon'', ''E3700'', 0),
     (5865472, 2288, 1709, [0, 0, 0, 1, 6, 0xb4, 0, 1], ''Nikon'', ''E4500'', 0),
     (5869568, 2288, 1710, [0, 0, 0, 0, 6, 0x16, 0, 1], ''Nikon'', ''E4300'', 0),
     (7438336, 2576, 1925, [0, 0, 0, 1, 6, 0xb4, 0, 1], ''Nikon'', ''E5000'', 0),
     (8998912, 2832, 2118, [0, 0, 0, 0, 30, 0x94, 7, 1], ''Nikon'', ''COOLPIX S6'', 0),
     (5939200, 2304, 1718, [0, 0, 0, 0, 30, 0x16, 0, 0], ''Olympus'', ''C770UZ'', 0),
     (3178560, 2064, 1540, [0, 0, 0, 0, 0, 0x94, 0, 1], ''Pentax'', ''Optio S'', 0),
     (4841984, 2090, 1544, [0, 0, 22, 0, 0, 0x94, 7, 1], ''Pentax'', ''Optio S'', 0),
     (6114240, 2346, 1737, [0, 0, 22, 0, 0, 0x94, 7, 1], ''Pentax'', ''Optio S4'', 0),
     (10702848, 3072, 2322, [0, 0, 0, 21, 30, 0x94, 0, 1], ''Pentax'', ''Optio 750Z'', 0),
     (4147200, 1920, 1080, [0, 0, 0, 0, 0, 0x49, 0, 0], ''Photron'', ''BC2-HD'', 0),
     (4151666, 1920, 1080, [0, 0, 0, 0, 0, 0x49, 0, 0], ''Photron'', ''BC2-HD'', 8),
     (13248000, 2208, 3000, [0, 0, 0, 0, 13, 0x61, 0, 0], ''Pixelink'', ''A782'', 0),
     (6291456, 2048, 1536, [0, 0, 0, 0, 96, 0x61, 0, 0], ''RoverShot'', ''3320AF'', 0),
     (311696, 644, 484, [0, 0, 0, 0, 0, 0x16, 0, 8], ''ST Micro'', ''STV680 VGA'', 0),
     (16098048, 3288, 2448, [0, 0, 24, 0, 9, 0x94, 0, 1], ''Samsung'', ''S85'', 0),
     (16215552, 3312, 2448, [0, 0, 48, 0, 9, 0x94, 0, 1], ''Samsung'', ''S85'', 0),
     (20487168, 3648, 2808, [0, 0, 0, 0, 13, 0x94, 5, 1], ''Samsung'', ''WB550'', 0),
     (24000000, 4000, 3000, [0, 0, 0, 0, 13, 0x94, 5, 1], ''Samsung'', ''WB550'', 0),
     (12582980, 3072, 2048, [0, 0, 0, 0, 33, 0x61, 0, 0], ''Sinar'', '''', 68),
     (33292868, 4080, 4080, [0, 0, 0, 0, 33, 0x61, 0, 0], ''Sinar'', '''', 68),
     (44390468, 4080, 5440, [0, 0, 0, 0, 33, 0x61, 0, 0], ''Sinar'', '''', 68),
     (1409024, 1376, 1024, [0, 0, 1, 0, 0, 0x49, 0, 0], ''Sony'', ''XCD-SX910CR'', 0),
     (2818048, 1376, 1024, [0, 0, 1, 0, 97, 0x49, 0, 0], ''Sony'', ''XCD-SX910CR'', 0),
     (17496000, 4320, 3240, [0, 0, 0, 0, 224, 0x94, 0, 0], ''Xiro'', ''Xplorer V'', 0)]"

definition corp_table :: "string list" where
  "corp_table = [''AgfaPhoto'', ''Canon'', ''Casio'', ''Epson'', ''Fujifilm'', ''Mamiya'', ''Minolta'', ''Motorola'', ''Kodak'', ''Konica'', ''Leica'', ''Nikon'', ''Nokia'', ''Olympus'', ''Ricoh'', ''Pentax'', ''Phase One'', ''Samsung'', ''Sigma'', ''Sinar'', ''Sony'', ''YI'']"

end
