(* ===== verification/Canon.thy ===== *)
theory Canon
  imports Ljpeg
begin

text \<open>
  The loaders of the Canon cameras: the packed format of the PowerShot 600 with its white balance
  test, and the compressed CRW format, whose decoder reads the two trees of \<open>crw_init_tables\<close>.
\<close>

section \<open>PowerShot 600\<close>

text \<open>\<open>canon_600_color\<close>; the result is the class of the colour and the new \<open>ratio\<close>.\<close>

definition canon_600_color :: "bool \<Rightarrow> int \<times> int \<Rightarrow> int \<Rightarrow> int \<times> int \<times> int" where
  "canon_600_color flash_used ratio mar =
     (case ratio of (r0, r1) \<Rightarrow>
        if \<not> flash_used \<and> (r1 < -264 \<or> r1 > 461) then (2, r0, r1)
        else
          let lo = (if flash_used then -104 else -50);
              hi = (if flash_used then 12 else 307);
              clipped = (r1 < lo \<or> r1 > hi);
              r1 = (if r1 < lo then lo else if r1 > hi then hi else r1);
              target = (if flash_used \<or> r1 < 197 then -38 - shr (398 * r1) 10 else -123 + shr (48 * r1) 10)
          in if target - mar \<le> r0 \<and> target + 20 \<ge> r0 \<and> \<not> clipped then (0, r0, r1)
             else
               let miss = target - r0
               in if \<bar>miss\<bar> \<ge> mar * 4 then (2, r0, r1)
                  else
                    let miss = (if miss < -20 then -20 else miss);
                        miss = (if miss > mar then mar else miss)
                    in (1, target - miss, r1))"

text \<open>
  \<open>canon_600_load_raw\<close>: 10 bytes hold 8 samples of 10 bits, the high bits of each sample first,
  the low bits of four samples together in bytes 1 and 9.
\<close>

definition canon_600_unpack :: "u8 list \<Rightarrow> int \<Rightarrow> int list option" where
  "canon_600_unpack data dp = do {
     d0 \<leftarrow> rd data dp; d1 \<leftarrow> rd data (dp + 1); d2 \<leftarrow> rd data (dp + 2); d3 \<leftarrow> rd data (dp + 3);
     d4 \<leftarrow> rd data (dp + 4); d5 \<leftarrow> rd data (dp + 5); d6 \<leftarrow> rd data (dp + 6); d7 \<leftarrow> rd data (dp + 7);
     d8 \<leftarrow> rd data (dp + 8); d9 \<leftarrow> rd data (dp + 9);
     Some [shl d0 2 + shr d1 6,
           shl d2 2 + (shr d1 4 AND 3),
           shl d3 2 + (shr d1 2 AND 3),
           shl d4 2 + (d1 AND 3),
           shl d5 2 + (d9 AND 3),
           shl d6 2 + (shr d9 2 AND 3),
           shl d7 2 + (shr d9 4 AND 3),
           shl d8 2 + shr d9 6] }"

definition canon_600_row :: "geom \<Rightarrow> u8 list \<Rightarrow> int \<Rightarrow> dst \<Rightarrow> dst option" where
  "canon_600_row g data row s = for_up 0 112 (\<lambda>k s. do {
     vs \<leftarrow> canon_600_unpack data (10 * k);
     for_up 0 8 (\<lambda>j s. do {
       v \<leftarrow> at vs j;
       xs \<leftarrow> wr (raw_image s) (row * raw_width g + 8 * k + j) v;
       Some (s\<lparr>raw_image := xs\<rparr>) }) s }) s"

text \<open>The even rows come first, then the odd ones.\<close>

definition canon_600_next :: "geom \<Rightarrow> int \<Rightarrow> int" where
  "canon_600_next g row = (if row + 2 > height g then 1 else row + 2)"

definition canon_600_load_raw :: "geom \<Rightarrow> dst \<Rightarrow> dst option" where
  "canon_600_load_raw g s = do {
     (row, data, s) \<leftarrow> for_up 0 (height g) (\<lambda>irow (row, data, s). do {
       (bs, s) \<leftarrow> with_io (\<lambda>b. Some (fread 1120 b)) s;
       let s = derror_if (length bs < 1120) s;
       let data = overlay bs data;
       s \<leftarrow> canon_600_row g data row s;
       Some (canon_600_next g row, data, s) }) (0, uninit g 1120, s);
     Some s }"

text \<open>The gain correction of \<open>canon_600_correct\<close>, before its floating-point white balance.\<close>

definition canon_600_mul :: "int list list" where
  "canon_600_mul = [[1141, 1145], [1128, 1109], [1178, 1149], [1128, 1109]]"

definition canon_600_gain :: "geom \<Rightarrow> dst \<Rightarrow> dst option" where
  "canon_600_gain g s = for_up 0 (height g) (\<lambda>row. for_up 0 (width g) (\<lambda>col s. do {
     b \<leftarrow> BAYER g s row col;
     let val = (if b - black s < 0 then 0 else b - black s);
     m \<leftarrow> at canon_600_mul (row AND 3);
     k \<leftarrow> at m (col AND 1);
     set_BAYER g row col (shr (val * k) 9) s })) s"

text \<open>\<open>canon_s2is\<close>.\<close>

function canon_s2is_from :: "int \<Rightarrow> bitio \<Rightarrow> int \<times> bitio" where
  "canon_s2is_from row b =
     (if row < 100 then
        (case fgetc (fseek_set (row * 3340 + 3284) b) of (c, b) \<Rightarrow>
           if c > 15 then (1, b) else canon_s2is_from (row + 1) b)
      else (0, b))"
  by pat_completeness auto
termination
  by (relation "measure (\<lambda>(row, b). nat (100 - row))") auto

definition canon_s2is :: "bitio \<Rightarrow> int \<times> bitio" where
  "canon_s2is = canon_s2is_from 0"

section \<open>The trees of the CRW format\<close>

definition first_tree_0 :: "u8 list" where
  "first_tree_0 =
   [0, 1, 4, 2, 3, 1, 2, 0, 0, 0, 0, 0,
    0, 0, 0, 0, 0x04, 0x03, 0x05, 0x06, 0x02, 0x07, 0x01, 0x08,
    0x09, 0x00, 0x0a, 0x0b, 0xff]"

definition first_tree_1 :: "u8 list" where
  "first_tree_1 =
   [0, 2, 2, 3, 1, 1, 1, 1, 2, 0, 0, 0,
    0, 0, 0, 0, 0x03, 0x02, 0x04, 0x01, 0x05, 0x00, 0x06, 0x07,
    0x09, 0x08, 0x0a, 0x0b, 0xff]"

definition first_tree_2 :: "u8 list" where
  "first_tree_2 =
   [0, 0, 6, 3, 1, 1, 2, 0, 0, 0, 0, 0,
    0, 0, 0, 0, 0x06, 0x05, 0x07, 0x04, 0x08, 0x03, 0x09, 0x02,
    0x00, 0x0a, 0x01, 0x0b, 0xff]"

definition second_tree_0 :: "u8 list" where
  "second_tree_0 =
   [0, 2, 2, 2, 1, 4, 2, 1, 2, 5, 1, 1,
    0, 0, 0, 139, 0x03, 0x04, 0x02, 0x05, 0x01, 0x06, 0x07, 0x08,
    0x12, 0x13, 0x11, 0x14, 0x09, 0x15, 0x22, 0x00, 0x21, 0x16, 0x0a, 0xf0,
    0x23, 0x17, 0x24, 0x31, 0x32, 0x18, 0x19, 0x33, 0x25, 0x41, 0x34, 0x42,
    0x35, 0x51, 0x36, 0x37, 0x38, 0x29, 0x79, 0x26, 0x1a, 0x39, 0x56, 0x57,
    0x28, 0x27, 0x52, 0x55, 0x58, 0x43, 0x76, 0x59, 0x77, 0x54, 0x61, 0xf9,
    0x71, 0x78, 0x75, 0x96, 0x97, 0x49, 0xb7, 0x53, 0xd7, 0x74, 0xb6, 0x98,
    0x47, 0x48, 0x95, 0x69, 0x99, 0x91, 0xfa, 0xb8, 0x68, 0xb5, 0xb9, 0xd6,
    0xf7, 0xd8, 0x67, 0x46, 0x45, 0x94, 0x89, 0xf8, 0x81, 0xd5, 0xf6, 0xb4,
    0x88, 0xb1, 0x2a, 0x44, 0x72, 0xd9, 0x87, 0x66, 0xd4, 0xf5, 0x3a, 0xa7,
    0x73, 0xa9, 0xa8, 0x86, 0x62, 0xc7, 0x65, 0xc8, 0xc9, 0xa1, 0xf4, 0xd1,
    0xe9, 0x5a, 0x92, 0x85, 0xa6, 0xe7, 0x93, 0xe8, 0xc1, 0xc6, 0x7a, 0x64,
    0xe1, 0x4a, 0x6a, 0xe6, 0xb3, 0xf1, 0xd3, 0xa5, 0x8a, 0xb2, 0x9a, 0xba,
    0x84, 0xa4, 0x63, 0xe5, 0xc5, 0xf3, 0xd2, 0xc4, 0x82, 0xaa, 0xda, 0xe4,
    0xf2, 0xca, 0x83, 0xa3, 0xa2, 0xc3, 0xea, 0xc2, 0xe2, 0xe3, 0xff, 0xff]"

definition second_tree_1 :: "u8 list" where
  "second_tree_1 =
   [0, 2, 2, 1, 4, 1, 4, 1, 3, 3, 1, 0,
    0, 0, 0, 140, 0x02, 0x03, 0x01, 0x04, 0x05, 0x12, 0x11, 0x06,
    0x13, 0x07, 0x08, 0x14, 0x22, 0x09, 0x21, 0x00, 0x23, 0x15, 0x31, 0x32,
    0x0a, 0x16, 0xf0, 0x24, 0x33, 0x41, 0x42, 0x19, 0x17, 0x25, 0x18, 0x51,
    0x34, 0x43, 0x52, 0x29, 0x35, 0x61, 0x39, 0x71, 0x62, 0x36, 0x53, 0x26,
    0x38, 0x1a, 0x37, 0x81, 0x27, 0x91, 0x79, 0x55, 0x45, 0x28, 0x72, 0x59,
    0xa1, 0xb1, 0x44, 0x69, 0x54, 0x58, 0xd1, 0xfa, 0x57, 0xe1, 0xf1, 0xb9,
    0x49, 0x47, 0x63, 0x6a, 0xf9, 0x56, 0x46, 0xa8, 0x2a, 0x4a, 0x78, 0x99,
    0x3a, 0x75, 0x74, 0x86, 0x65, 0xc1, 0x76, 0xb6, 0x96, 0xd6, 0x89, 0x85,
    0xc9, 0xf5, 0x95, 0xb4, 0xc7, 0xf7, 0x8a, 0x97, 0xb8, 0x73, 0xb7, 0xd8,
    0xd9, 0x87, 0xa7, 0x7a, 0x48, 0x82, 0x84, 0xea, 0xf4, 0xa6, 0xc5, 0x5a,
    0x94, 0xa4, 0xc6, 0x92, 0xc3, 0x68, 0xb5, 0xc8, 0xe4, 0xe5, 0xe6, 0xe9,
    0xa2, 0xa3, 0xe3, 0xc2, 0x66, 0x67, 0x93, 0xaa, 0xd4, 0xd5, 0xe7, 0xf8,
    0x88, 0x9a, 0xd7, 0x77, 0xc4, 0x64, 0xe2, 0x98, 0xa5, 0xca, 0xda, 0xe8,
    0xf3, 0xf6, 0xa9, 0xb2, 0xb3, 0xf2, 0xd2, 0x83, 0xba, 0xd3, 0xff, 0xff]"

definition second_tree_2 :: "u8 list" where
  "second_tree_2 =
   [0, 0, 6, 2, 1, 3, 3, 2, 5, 1, 2, 2,
    8, 10, 0, 117, 0x04, 0x05, 0x03, 0x06, 0x02, 0x07, 0x01, 0x08,
    0x09, 0x12, 0x13, 0x14, 0x11, 0x15, 0x0a, 0x16, 0x17, 0xf0, 0x00, 0x22,
    0x21, 0x18, 0x23, 0x19, 0x24, 0x32, 0x31, 0x25, 0x33, 0x38, 0x37, 0x34,
    0x35, 0x36, 0x39, 0x79, 0x57, 0x58, 0x59, 0x28, 0x56, 0x78, 0x27, 0x41,
    0x29, 0x77, 0x26, 0x42, 0x76, 0x99, 0x1a, 0x55, 0x98, 0x97, 0xf9, 0x48,
    0x54, 0x96, 0x89, 0x47, 0xb7, 0x49, 0xfa, 0x75, 0x68, 0xb6, 0x67, 0x69,
    0xb9, 0xb8, 0xd8, 0x52, 0xd7, 0x88, 0xb5, 0x74, 0x51, 0x46, 0xd9, 0xf8,
    0x3a, 0xd6, 0x87, 0x45, 0x7a, 0x95, 0xd5, 0xf6, 0x86, 0xb4, 0xa9, 0x94,
    0x53, 0x2a, 0xa8, 0x43, 0xf5, 0xf7, 0xd4, 0x66, 0xa7, 0x5a, 0x44, 0x8a,
    0xc9, 0xe8, 0xc8, 0xe7, 0x9a, 0x6a, 0x73, 0x4a, 0x61, 0xc7, 0xf4, 0xc6,
    0x65, 0xe9, 0x72, 0xe6, 0x71, 0x91, 0x93, 0xa6, 0xda, 0x92, 0x85, 0x62,
    0xf3, 0xc5, 0xb2, 0xa4, 0x84, 0xba, 0x64, 0xa5, 0xb3, 0xd2, 0x81, 0xe5,
    0xd3, 0xaa, 0xc4, 0xca, 0xf2, 0xb1, 0xe4, 0xd1, 0x83, 0x63, 0xea, 0xc3,
    0xe2, 0x82, 0xf1, 0xa3, 0xc2, 0xa1, 0xc1, 0xe3, 0xa2, 0xe1, 0xff, 0xff]"

definition crw_init_tables :: "int \<Rightarrow> (u16 list \<times> u16 list) option" where
  "crw_init_tables table =
     (let table = (if table > 2 then 2 else table) in do {
        f \<leftarrow> at [first_tree_0, first_tree_1, first_tree_2] table;
        t \<leftarrow> at [second_tree_0, second_tree_1, second_tree_2] table;
        h0 \<leftarrow> make_decoder f;
        h1 \<leftarrow> make_decoder t;
        Some (h0, h1) })"

text \<open>The scan of \<open>canon_has_lowbits\<close> over the test bytes; \<open>ret\<close> is the result so far.\<close>

function lowbits_scan :: "u8 list \<Rightarrow> int \<Rightarrow> int \<Rightarrow> int option" where
  "lowbits_scan test i ret =
     (if i < int (length test) - 1 then
        (case rd test i of
           None \<Rightarrow> None
         | Some a \<Rightarrow>
             if a = 0xff then
               (case rd test (i + 1) of
                  None \<Rightarrow> None
                | Some b \<Rightarrow> if b \<noteq> 0 then Some 1 else lowbits_scan test (i + 1) 0)
             else lowbits_scan test (i + 1) ret)
      else Some ret)"
  by pat_completeness auto
termination
  by (relation "measure (\<lambda>(test, i, r). nat (int (length test) - i))") auto

declare lowbits_scan.simps [simp del]

definition canon_has_lowbits :: "geom \<Rightarrow> bitio \<Rightarrow> (int \<times> bitio) option" where
  "canon_has_lowbits g b =
     (case fread 0x4000 (fseek_set 0 b) of (bs, b) \<Rightarrow> do {
        r \<leftarrow> lowbits_scan (overlay bs (uninit g 0x4000)) 540 1;
        Some (r, b) })"

section \<open>canon_load_raw\<close>

text \<open>The differences of a block of 64 samples; \<open>i\<close> is changed by the body of the loop.\<close>

function crw_diffs :: "u16 list \<Rightarrow> u16 list \<Rightarrow> int \<Rightarrow> int list \<Rightarrow> bitio \<Rightarrow> (int list \<times> bitio) option" where
  "crw_diffs h0 h1 i diffbuf b =
     (if i < 64 then
        (case gethuff (if i > 0 then h1 else h0) b of
           None \<Rightarrow> None
         | Some (leaf, b1) \<Rightarrow>
             if leaf = 0 \<and> i \<noteq> 0 then Some (diffbuf, b1)
             else if leaf = 0xff then crw_diffs h0 h1 (i + 1) diffbuf b1
             else
               let i' = i + shr leaf 4; len = leaf AND 15
               in if len = 0 then crw_diffs h0 h1 (i' + 1) diffbuf b1
                  else (case getbits len b1 of
                      None \<Rightarrow> None
                    | Some (diff, b2) \<Rightarrow>
                        (case (if i' < 64 then put diffbuf i' (sign_diff diff len) else Some diffbuf) of
                           None \<Rightarrow> None
                         | Some d \<Rightarrow> crw_diffs h0 h1 (i' + 1) d b2)))
      else Some (diffbuf, b))"
  by pat_completeness auto
termination
  by (relation "measure (\<lambda>(h0, h1, i, d, b). nat (64 - i))")
    (auto simp: shr_div dest!: gethuff_nonneg)

declare crw_diffs.simps [simp del]

text \<open>
  The rest of a block: the running sums. The state is \<open>base[0]\<close>, \<open>base[1]\<close>, \<open>pnum\<close> and the
  image; \<open>pixel\<close> is the position of the first cell of the strip of eight rows.
\<close>

definition crw_sample ::
    "geom \<Rightarrow> int \<Rightarrow> int list \<Rightarrow> int \<Rightarrow> int list \<times> int \<times> dst \<Rightarrow> (int list \<times> int \<times> dst) option" where
  "crw_sample g pos diffbuf i = (\<lambda>(base, pnum, s). do {
     m \<leftarrow> c_mod pnum (raw_width g);
     let base = (if m = 0 then [512, 512] else base);
     d \<leftarrow> at diffbuf i;
     v \<leftarrow> at base (i AND 1);
     base \<leftarrow> put base (i AND 1) (c_s32 (v + d));
     xs \<leftarrow> wr (raw_image s) (pos + i) (c_s32 (v + d));
     let s = derror_if (shr (c_u16 (v + d)) 10 \<noteq> 0) (s\<lparr>raw_image := xs\<rparr>);
     Some (base, pnum + 1, s) })"

definition crw_block ::
    "geom \<Rightarrow> u16 list \<times> u16 list \<Rightarrow> int \<Rightarrow> int \<times> int list \<times> int \<times> dst \<Rightarrow> (int \<times> int list \<times> int \<times> dst) option" where
  "crw_block g h pos = (\<lambda>(carry, base, pnum, s). do {
     (diffbuf, s) \<leftarrow> with_io (crw_diffs (fst h) (snd h) 0 (zeros 64)) s;
     d0 \<leftarrow> at diffbuf 0;
     let carry = c_s32 (d0 + carry);
     diffbuf \<leftarrow> put diffbuf 0 carry;
     (base, pnum, s) \<leftarrow> for_up 0 64 (crw_sample g pos diffbuf) (base, pnum, s);
     Some (carry, base, pnum, s) })"

text \<open>The uncompressed low-order bits of a strip: two more bits for every sample.\<close>

definition crw_lowbits :: "geom \<Rightarrow> int \<Rightarrow> dst \<Rightarrow> dst option" where
  "crw_lowbits g row s =
     (let save = ipos (dio s); s = upd_io (fseek_set (26 + row * raw_width g div 4)) s in do {
        s \<leftarrow> for_up 0 (raw_width g * 2) (\<lambda>i s.
          case get_io fgetc s of (c, s) \<Rightarrow> for_up 0 4 (\<lambda>k s. do {
            let p = row * raw_width g + 4 * i + k;
            x \<leftarrow> rd (raw_image s) p;
            let val = shl x 2 + (shr c (2 * k) AND 3);
            let val = (if raw_width g = 2672 \<and> val < 512 then val + 2 else val);
            xs \<leftarrow> wr (raw_image s) p val;
            Some (s\<lparr>raw_image := xs\<rparr>) }) s) s;
        Some (upd_io (fseek_set save) s) })"

definition crw_strip ::
    "geom \<Rightarrow> u16 list \<times> u16 list \<Rightarrow> int \<Rightarrow> int \<Rightarrow> int \<times> int list \<times> int \<times> dst \<Rightarrow> (int \<times> int list \<times> int \<times> dst) option" where
  "crw_strip g h lowbits row st = do {
     let nblocks = shr (MIN_c 8 (raw_height g - row) * raw_width g) 6;
     (carry, base, pnum, s) \<leftarrow> for_up 0 nblocks (\<lambda>block. crw_block g h (row * raw_width g + shl block 6)) st;
     s \<leftarrow> (if lowbits \<noteq> 0 then crw_lowbits g row s else Some s);
     Some (carry, base, pnum, s) }"

definition canon_load_raw :: "geom \<Rightarrow> dst \<Rightarrow> dst option" where
  "canon_load_raw g s = do {
     h \<leftarrow> crw_init_tables (tiff_compress g);
     (lowbits, s) \<leftarrow> with_io (canon_has_lowbits g) s;
     let s = (if lowbits = 0 then s\<lparr>maximum := 0x3ff\<rparr> else s);
     let s = upd_io (fseek_set (540 + lowbits * raw_height g * raw_width g div 4)) s;
     let s = upd_io (\<lambda>b. b\<lparr>zero_after_ff := 1\<rparr>) s;
     (z, s) \<leftarrow> with_io (getbits (-1)) s;
     (carry, base, pnum, s) \<leftarrow> for_by 8 0 (raw_height g) (crw_strip g h lowbits) (0, [0, 0], 0, s);
     Some s }"

section \<open>Safety\<close>

lemma canon_600_unpack_safe [safe]:
  "0 \<le> dp \<Longrightarrow> dp + 10 \<le> int (length data) \<Longrightarrow> (\<And>vs. length vs = 8 \<Longrightarrow> Q vs) \<Longrightarrow> ok (canon_600_unpack data dp) Q"
  unfolding canon_600_unpack_def
  by (rule safe | (simp add: inb_def; fail))+

lemma canon_600_row_kept [kept]:
  assumes "geom_ok g" "raw_kept g im s" "896 \<le> raw_width g" "length data = 1120" "0 \<le> row" "row \<le> raw_height g"
    and "\<And>t. raw_kept g im t \<Longrightarrow> Q t"
  shows "ok (canon_600_row g data row s) Q"
proof -
  have i: "0 \<le> row * raw_width g + 8 * k + j" "row * raw_width g + 8 * k + j < (raw_height g + 7) * raw_width g"
    if "0 \<le> k" "k < 112" "0 \<le> j" "j < 8" for k j
    using cell_bound [of row "raw_height g + 7" "8 * k + j" "raw_width g"] assms that by (auto simp: add.assoc)
  show ?thesis
    unfolding canon_600_row_def
    apply (rule kept_for [where g = g and im = im])
    apply (assumption | rule assms(7), assumption | rule kept | rule safe | (use assms in \<open>simp add: inb_def; fail\<close>) | (rule i; use assms in \<open>simp; fail\<close>))+
    done
qed

lemma canon_600_kept:
  assumes "geom_ok g" "raw_kept g im s" "896 \<le> raw_width g"
  shows "ok (canon_600_load_raw g s) (raw_kept g im)"
  unfolding canon_600_load_raw_def
  apply (rule ok_bind)
  apply (rule kept_for3 [where J = "\<lambda>row data. length data = 1120 \<and> 0 \<le> row \<and> row \<le> height g" and im = im and g = g])
  apply (use assms in \<open>simp add: geom_ok_def; fail\<close>)+
  apply (rule kept | rule safe | assumption | (use assms in \<open>simp add: geom_ok_def overlay_def canon_600_next_def; fail\<close>) )+
  done

lemma crw_diffs_safe [safe]:
  assumes "huff_ok h0" "huff_ok h1" "0 \<le> i" "length d = 64" "\<And>d b. length d = 64 \<Longrightarrow> Q (d, b)"
  shows "ok (crw_diffs h0 h1 i d b) Q"
  using assms(1-4)
proof (induction h0 h1 i d b rule: crw_diffs.induct)
  case (1 h0 h1 i d b)
  show ?case
  proof (cases "i < 64")
    case False
    then show ?thesis using "1.prems" assms(5) by (subst crw_diffs.simps) simp
  next
    case True
    have "ok (gethuff (if i > 0 then h1 else h0) b) (\<lambda>(leaf, b1). 0 \<le> leaf \<and> leaf < 256)"
      by (rule gethuff_wp) (use "1.prems" in auto)
    then obtain leaf b1 where l: "gethuff (if i > 0 then h1 else h0) b = Some (leaf, b1)" "0 \<le> leaf"
      by (auto simp: ok_exists)
    define i' len where "i' = i + shr leaf 4" and "len = leaf AND 15"
    have i': "i \<le> i'" "0 \<le> i'" using l(2) "1.prems" by (simp_all add: i'_def shr_def)
    obtain diff b2 where b2: "getbits len b1 = Some (diff, b2)"
    proof -
      have "ok (getbits len b1) (\<lambda>_. True)" by (rule getbits_wp) simp
      then show thesis using that by (auto simp: ok_exists)
    qed
    define d' where "d' = (if i' < 64 then d[nat i' := sign_diff diff len] else d)"
    have d': "(if i' < 64 then put d i' (sign_diff diff len) else Some d) = Some d'" "length d' = 64"
      using i' "1.prems" by (simp_all add: d'_def put_def inb_def)
    show ?thesis
    proof (cases "leaf = 0 \<and> i \<noteq> 0 \<or> leaf = 255 \<or> len = 0")
      case False
      have "ok (crw_diffs h0 h1 (i' + 1) d' b2) Q"
        by (rule "1.IH"(3) [OF True l(1) refl _ _ i'_def len_def]) (use False l b2 d' i' "1.prems" in auto)
      then show ?thesis using True False l b2 d'
        by (subst crw_diffs.simps) (auto simp: Let_def i'_def [symmetric] len_def [symmetric] split: if_splits)
    next
      case True': True
      have "ok (crw_diffs h0 h1 (i + 1) d b1) Q" if "\<not> (leaf = 0 \<and> i \<noteq> 0)" "leaf = 255"
        by (rule "1.IH"(1) [OF True l(1) refl]) (use that "1.prems" in auto)
      moreover have "ok (crw_diffs h0 h1 (i' + 1) d b1) Q" if "\<not> (leaf = 0 \<and> i \<noteq> 0)" "leaf \<noteq> 255" "len = 0"
        by (rule "1.IH"(2) [OF True l(1) refl _ _ i'_def len_def]) (use that i' "1.prems" in auto)
      ultimately show ?thesis using True True' l "1.prems" assms(5)
        by (subst crw_diffs.simps) (auto simp: Let_def i'_def [symmetric] len_def [symmetric])
    qed
  qed
qed

lemma lowbits_scan_ok:
  assumes "0 \<le> i"
  shows "\<exists>r. lowbits_scan t i x = Some r"
  using assms
proof (induction t i x rule: lowbits_scan.induct)
  case (1 t i x)
  show ?case
  proof (cases "i < int (length t) - 1")
    case True
    obtain a where a: "rd t i = Some a" using True "1.prems" by (auto simp: rd_def inb_def)
    obtain c where c: "rd t (i + 1) = Some c" using True "1.prems" by (auto simp: rd_def inb_def)
    show ?thesis using True a c "1.IH" "1.prems" by (subst lowbits_scan.simps) auto
  next
    case False
    then show ?thesis by (subst lowbits_scan.simps) simp
  qed
qed

lemma canon_has_lowbits_safe [safe]:
  "(\<And>r b'. Q (r, b')) \<Longrightarrow> ok (canon_has_lowbits g b) Q"
  using lowbits_scan_ok [of 540] unfolding canon_has_lowbits_def
  by (auto split: prod.split) (metis (no_types, lifting) bind.bind_lunit ok_Some_iff)

text \<open>Room for a block of 64 samples.\<close>

definition crw_room :: "geom \<Rightarrow> int \<Rightarrow> bool" where
  "crw_room g pos \<longleftrightarrow> 0 \<le> pos \<and> pos + 64 \<le> (raw_height g + 7) * raw_width g"

lemma crw_sample_kept:
  assumes "geom_ok g" "raw_kept g im s" "crw_room g pos" "length diffbuf = 64" "0 \<le> i" "i < 64" "length base = 2"
  shows "ok (crw_sample g pos diffbuf i (base, pnum, s)) (\<lambda>(base, pnum, t). length base = 2 \<and> raw_kept g im t)"
  unfolding crw_sample_def
  apply (assumption | rule kept | rule safe | (use assms in \<open>simp add: geom_ok_def crw_room_def inb_def; fail\<close>) | (cases; simp; fail))+
  done

lemma crw_block_kept:
  assumes "geom_ok g" "raw_kept g im s" "huff_ok (fst h)" "huff_ok (snd h)" "crw_room g pos" "length base = 2"
  shows "ok (crw_block g h pos (carry, base, pnum, s)) (\<lambda>(carry, base, pnum, t). length base = 2 \<and> raw_kept g im t)"
  unfolding crw_block_def split_conv
  apply (rule ok_bind ok_with_io crw_diffs_safe case_prodI kept_pair)+
  apply (use assms in \<open>simp; fail\<close>)+
  apply (assumption | rule kept_Let ok_bind ok_put_safe ok_at_safe case_prodI kept_pair | (simp add: inb_def; fail))+
  apply (rule kept_for3 [where J = "\<lambda>base pnum. length base = 2" and g = g and im = im])
  apply (use assms in \<open>simp; fail\<close>)+
  apply (rule crw_sample_kept; use assms in \<open>simp; fail\<close>)
  apply simp
  done

lemma crw_lowbits_kept [kept]:
  assumes "geom_ok g" "raw_kept g im s" "0 \<le> row" "row < raw_height g" "\<And>t. raw_kept g im t \<Longrightarrow> Q t"
  shows "ok (crw_lowbits g row s) Q"
proof -
  have i: "0 \<le> row * raw_width g + 4 * i + k" "row * raw_width g + 4 * i + k < (raw_height g + 7) * raw_width g"
    if "0 \<le> i" "i < raw_width g * 2" "0 \<le> k" "k < 4" for i k
  proof -
    have w: "0 < raw_width g" using assms(1) by (simp add: geom_ok_def)
    have "row * raw_width g + 4 * i + k < (row + 8) * raw_width g" using that by (simp add: algebra_simps)
    also have "\<dots> \<le> (raw_height g + 7) * raw_width g" using assms(4) w by (intro mult_right_mono) auto
    finally show "row * raw_width g + 4 * i + k < (raw_height g + 7) * raw_width g" .
    show "0 \<le> row * raw_width g + 4 * i + k" using assms(3) w that by simp
  qed
  show ?thesis
    unfolding crw_lowbits_def
    apply (assumption | rule assms(5) | rule kept_for [where im = im and g = g] | rule kept | rule safe
      | (use assms in \<open>simp; fail\<close>) | (rule i; use assms in \<open>simp; fail\<close>))+
    done
qed

lemma crw_strip_kept:
  assumes "geom_ok g" "raw_kept g im s" "huff_ok (fst h)" "huff_ok (snd h)" "0 \<le> row" "row < raw_height g" "length base = 2"
  shows "ok (crw_strip g h lowbits row (carry, base, pnum, s)) (\<lambda>(carry, base, pnum, t). length base = 2 \<and> raw_kept g im t)"
proof -
  have room: "crw_room g (row * raw_width g + shl block 6)"
    if "0 \<le> block" "block < shr (MIN_c 8 (raw_height g - row) * raw_width g) 6" for block
  proof -
    have w: "0 < raw_width g" using assms(1) by (simp add: geom_ok_def)
    have "(block + 1) * 64 \<le> n" if "block < shr n 6" for n
    proof -
      have "(block + 1) * 64 \<le> shr n 6 * 64" using that by (intro mult_right_mono) auto
      then show ?thesis using shr_6 [of n] by simp
    qed
    then have "(block + 1) * 64 \<le> MIN_c 8 (raw_height g - row) * raw_width g" using that(2) .
    also have "\<dots> \<le> (raw_height g - row) * raw_width g"
      using w by (intro mult_right_mono) (auto simp: MIN_c_def)
    finally have "row * raw_width g + block * 64 + 64 \<le> raw_height g * raw_width g" by (simp add: algebra_simps)
    then show ?thesis using w assms(5) that by (simp add: crw_room_def shl_mult algebra_simps)
  qed
  show ?thesis
    unfolding crw_strip_def
    apply (rule kept_Let ok_bind)+
    apply (rule for_by_wp [where I = "\<lambda>(carry, base, pnum, t). length base = 2 \<and> raw_kept g im t"])
    apply (use assms in \<open>simp; fail\<close>)+
    apply (clarify, rule crw_block_kept; use assms room in \<open>simp; fail\<close>)
    apply clarify
    apply (assumption | rule kept conjI | rule safe | (use assms in \<open>simp; fail\<close>))+
    done
qed

lemma crw_trees_ok:
  "list_all src_ok [first_tree_0, first_tree_1, first_tree_2, second_tree_0, second_tree_1, second_tree_2]"
  by (simp add: src_ok_counts upt_conv_Cons first_tree_0_def first_tree_1_def first_tree_2_def
    second_tree_0_def second_tree_1_def second_tree_2_def)

lemma crw_tables_ok:
  assumes "0 \<le> table"
  shows "\<exists>h. crw_init_tables table = Some h \<and> huff_ok (fst h) \<and> huff_ok (snd h)"
proof -
  note crw_trees_ok
  then have d: "\<exists>h. make_decoder t = Some h \<and> huff_ok h"
    if "t \<in> {first_tree_0, first_tree_1, first_tree_2, second_tree_0, second_tree_1, second_tree_2}" for t
    using that make_decoder_total by auto
  define k where "k = (if table > 2 then 2 else table)"
  have "k = 0 \<or> k = 1 \<or> k = 2" using assms by (auto simp: k_def)
  then show ?thesis
    using d [of first_tree_0] d [of first_tree_1] d [of first_tree_2] d [of second_tree_0]
      d [of second_tree_1] d [of second_tree_2]
    by (auto simp: crw_init_tables_def k_def [symmetric] at_def inb_def)
qed

lemma canon_kept:
  assumes "geom_ok g" "raw_kept g im s" "0 \<le> tiff_compress g"
  shows "ok (canon_load_raw g s) (raw_kept g im)"
proof -
  obtain h where h: "crw_init_tables (tiff_compress g) = Some h" "huff_ok (fst h)" "huff_ok (snd h)"
    using crw_tables_ok [OF assms(3)] by blast
  show ?thesis
    unfolding canon_load_raw_def h(1) Option.bind.bind_lunit
    apply (assumption | rule kept | rule safe | (use assms in \<open>simp; fail\<close>))+
    apply (rule for_by_wp [where I = "\<lambda>(carry, base, pnum, t). length base = 2 \<and> raw_kept g im t"])
    apply (use assms in \<open>simp; fail\<close>)+
    apply (clarify, rule crw_strip_kept; use assms h in \<open>simp; fail\<close>)
    apply auto
    done
qed

interpretation canon_600: loader canon_600_load_raw "\<lambda>g s. 896 \<le> raw_width g"
  by unfold_locales (rule canon_600_kept)

interpretation crw: loader canon_load_raw "\<lambda>g s. 0 \<le> tiff_compress g"
  by unfold_locales (rule canon_kept)

text \<open>
  C8: \<open>canon_load_raw\<close> stays inside its arrays and returns for every file: the decoder of the
  compressed blocks, whose trees have holes, and the writing of the low bits, which for the last
  strip of rows run into the seven spare rows of \<open>raw_image\<close>.
\<close>

theorem canon_load_raw_never_faults:
  assumes "geom_ok g" "raw_ok g s" "0 \<le> tiff_compress g"
  shows "\<exists>t. canon_load_raw g s = Some t \<and> raw_ok g t \<and> img t = img s"
  using crw.load_total [OF assms] .

theorem canon_load_raw_never_faults_witness:
  "\<exists>t. canon_load_raw (plain_geom 9 64) (mosaic_file (plain_geom 9 64) [0xff, 0xd8, 0x17]) = Some t
    \<and> length (raw_image t) = 1024"
proof -
  let ?g = "plain_geom 9 64"
  have g: "geom_ok ?g" by (simp add: plain_geom_ok)
  have "0 \<le> tiff_compress ?g" by (simp add: plain_geom_def)
  from canon_load_raw_never_faults [OF g mosaic_file_ok [OF g] this] show ?thesis
    by (fastforce simp: raw_ok_def plain_geom_def)
qed

section \<open>The format of the PowerShot 600\<close>

text \<open>The rows that \<open>canon_600_load_raw\<close> visits, one after the other.\<close>

fun canon_600_rows :: "geom \<Rightarrow> nat \<Rightarrow> int \<Rightarrow> int list" where
  "canon_600_rows g 0 row = []"
| "canon_600_rows g (Suc n) row = row # canon_600_rows g n (canon_600_next g row)"

text \<open>The ten bytes that hold eight samples.\<close>

definition canon_600_pack :: "int list \<Rightarrow> u8 list" where
  "canon_600_pack v =
     (let hi = (\<lambda>k. word_of_int (v ! k div 4)); lo = (\<lambda>k. v ! k mod 4)
      in [hi 0, word_of_int (lo 0 * 64 + lo 1 * 16 + lo 2 * 4 + lo 3), hi 1, hi 2, hi 3, hi 4, hi 5, hi 6, hi 7,
          word_of_int (lo 7 * 64 + lo 6 * 16 + lo 5 * 4 + lo 4)])"

lemma low_bits:
  fixes a b c d :: int
  assumes "0 \<le> a" "a < 4" "0 \<le> b" "b < 4" "0 \<le> c" "c < 4" "0 \<le> d" "d < 4"
  shows "shr (a * 64 + b * 16 + c * 4 + d) 6 = a" "shr (a * 64 + b * 16 + c * 4 + d) 4 AND 3 = b"
    "shr (a * 64 + b * 16 + c * 4 + d) 2 AND 3 = c" "(a * 64 + b * 16 + c * 4 + d) AND 3 = d"
proof -
  have m: "x AND 3 = x mod 4" for x :: int using take_bit_eq_mask [of 2 x] by (simp add: mask_eq_exp_minus_1 take_bit_eq_mod)
  have "(a * 64 + (b * 16 + c * 4 + d)) div 64 = a" using assms by (intro int_div_pos_eq [of _ _ _ "b * 16 + c * 4 + d"]) auto
  then show "shr (a * 64 + b * 16 + c * 4 + d) 6 = a" by (simp add: shr_div add.assoc)
  have "(a * 64 + b * 16 + c * 4 + d) div 16 = a * 4 + b" using assms by (intro int_div_pos_eq [of _ _ _ "c * 4 + d"]) auto
  then show "shr (a * 64 + b * 16 + c * 4 + d) 4 AND 3 = b" using assms by (simp add: shr_div m)
  have "(a * 64 + b * 16 + c * 4 + d) div 4 = a * 16 + b * 4 + c" using assms by (intro int_div_pos_eq [of _ _ _ d]) auto
  moreover have "(a * 16 + b * 4 + c) mod 4 = c" using assms by (simp add: mod_pos_pos_trivial mod_add_eq [symmetric])
  ultimately show "shr (a * 64 + b * 16 + c * 4 + d) 2 AND 3 = c" by (simp add: shr_div m)
  have "(a * 64 + b * 16 + c * 4 + d) mod 4 = (d + (a * 16 + b * 4 + c) * 4) mod 4" by (simp add: algebra_simps)
  then show "(a * 64 + b * 16 + c * 4 + d) AND 3 = d" unfolding m mod_mult_self1 using assms by simp
qed

lemma pack_bytes:
  assumes "0 \<le> x" "x < 1024"
  shows "uint (word_of_int (x div 4) :: u8) = x div 4" "shl (x div 4) 2 + x mod 4 = x"
proof -
  have "0 \<le> x div 4" "x div 4 < 256" using assms by auto
  then show "uint (word_of_int (x div 4) :: u8) = x div 4" by (simp add: uint_word_of_int take_bit_int_eq_self)
qed (simp add: shl_mult)

lemma pack_lows:
  fixes a b c d :: int
  shows "uint (word_of_int (a mod 4 * 64 + b mod 4 * 16 + c mod 4 * 4 + d mod 4) :: u8) = a mod 4 * 64 + b mod 4 * 16 + c mod 4 * 4 + d mod 4"
proof -
  have "0 \<le> a mod 4" "a mod 4 < 4" "0 \<le> b mod 4" "b mod 4 < 4" "0 \<le> c mod 4" "c mod 4 < 4" "0 \<le> d mod 4" "d mod 4 < 4" by simp_all
  then have "0 \<le> a mod 4 * 64 + b mod 4 * 16 + c mod 4 * 4 + d mod 4" "a mod 4 * 64 + b mod 4 * 16 + c mod 4 * 4 + d mod 4 < 256" by linarith+
  then show ?thesis unfolding uint_word_of_int by (intro mod_pos_pos_trivial) simp_all
qed

text \<open>
  The bit packing of the PowerShot 600: ten bytes built from eight samples of 10 bits are unpacked
  into these samples, wherever they stand in the line.
\<close>

theorem canon_600_unpack_pack:
  assumes "length v = 8" "\<forall>x \<in> set v. 0 \<le> x \<and> x < 1024"
  shows "canon_600_unpack (us @ canon_600_pack v @ ws) (int (length us)) = Some v"
proof -
  obtain a b c d e f h k where v: "v = [a, b, c, d, e, f, h, k]"
    using assms(1) by (auto simp: numeral_eq_Suc length_Suc_conv)
  have r: "rd (us @ canon_600_pack v @ ws) (int (length us) + int n) = Some (uint (canon_600_pack v ! n))" if "n < 10" for n
  proof -
    have "length (canon_600_pack v) = 10" by (simp add: canon_600_pack_def Let_def)
    then show ?thesis using that by (simp add: rd_def inb_def nth_append nat_add_distrib)
  qed
  note r' = r [of 0] r [of 1] r [of 2] r [of 3] r [of 4] r [of 5] r [of 6] r [of 7] r [of 8] r [of 9]
  note p = pack_bytes [OF assms(2) [rule_format, THEN conjunct1] assms(2) [rule_format, THEN conjunct2]]
  have q: "uint (word_of_int (x div 4) :: u8) = x div 4" "shl (x div 4) 2 + x mod 4 = x" if "x \<in> {a, b, c, d, e, f, h, k}" for x
    using p [of x] that v by auto
  have m: "0 \<le> x mod 4" "x mod 4 < 4" for x :: int by simp_all
  note l = low_bits [OF m m m m, of a b c d] low_bits [OF m m m m, of k h f e]
  have u: "map uint (canon_600_pack v) = [a div 4, a mod 4 * 64 + b mod 4 * 16 + c mod 4 * 4 + d mod 4, b div 4, c div 4, d div 4,
      e div 4, f div 4, h div 4, k div 4, k mod 4 * 64 + h mod 4 * 16 + f mod 4 * 4 + e mod 4]"
    unfolding canon_600_pack_def Let_def v list.map
    by (simp only: pack_lows q insertI1 insertI2 list.inject nth_Cons_0 nth_Cons_Suc nth_Cons_numeral pred_numeral_simps
      numeral_nat)
  have s: "rd (us @ canon_600_pack v @ ws) (int (length us) + int n) = Some (map uint (canon_600_pack v) ! n)" if "n < 10" for n
  proof -
    have "length (canon_600_pack v) = 10" by (simp add: canon_600_pack_def Let_def)
    then show ?thesis using r [OF that] that by simp
  qed
  show ?thesis
    using s [of 0] s [of 1] s [of 2] s [of 3] s [of 4] s [of 5] s [of 6] s [of 7] s [of 8] s [of 9]
    unfolding canon_600_unpack_def u by (simp add: l q v)
qed

theorem canon_600_unpack_pack_witness:
  "canon_600_unpack ([7] @ canon_600_pack [1023, 0, 514, 3, 4, 77, 600, 1] @ [8]) 1 = Some [1023, 0, 514, 3, 4, 77, 600, 1]"
  using canon_600_unpack_pack [of "[1023, 0, 514, 3, 4, 77, 600, 1]" "[7]" "[8]"] by simp

text \<open>
  The two fields of the PowerShot 600: for an odd height, as its sensor has, the loader visits every
  row of the image exactly once, the even rows first.
\<close>

theorem canon_600_row_order:
  assumes "odd h" "0 < h" "height g = h"
  shows "distinct (canon_600_rows g (nat h) 0) \<and> set (canon_600_rows g (nat h) 0) = {0..<h}"
proof -
  define n where "n = nat (h div 2)"
  have h: "h = 2 * int n + 1" using assms(1,2) by (simp add: n_def)
  have odd: "canon_600_rows g m (2 * int j + 1) = every_other (2 * int j + 1) m" if "j + m \<le> n" for j m
    using that
  proof (induction m arbitrary: j)
    case (Suc m)
    show ?case
    proof (cases m)
      case 0
      then show ?thesis by (simp add: every_other_def)
    next
      case (Suc k)
      then have "canon_600_next g (2 * int j + 1) = 2 * int (Suc j) + 1" using Suc.prems assms(3) h by (simp add: canon_600_next_def)
      then show ?thesis using Suc.IH [of "Suc j"] Suc.prems by (simp add: every_other_Suc algebra_simps)
    qed
  qed (simp add: every_other_def)
  have even: "canon_600_rows g (m + n) (2 * int j) = every_other (2 * int j) m @ every_other 1 n" if "j + m = Suc n" "0 < m" for j m
    using that
  proof (induction m arbitrary: j)
    case (Suc m)
    show ?case
    proof (cases m)
      case 0
      then have "canon_600_next g (2 * int j) = 1" using Suc.prems assms(3) h by (simp add: canon_600_next_def)
      then show ?thesis using odd [of 0 n] 0 by (simp add: every_other_Suc) (simp add: every_other_def)
    next
      case (Suc k)
      then have "canon_600_next g (2 * int j) = 2 * int (Suc j)" using Suc.prems assms(3) h by (simp add: canon_600_next_def)
      then show ?thesis using Suc.IH [of "Suc j"] Suc.prems Suc by (simp add: every_other_Suc algebra_simps)
    qed
  qed simp
  have "nat h = Suc n + n" using h by simp
  then have "canon_600_rows g (nat h) 0 = every_other 0 (Suc n) @ every_other 1 n" using even [of 0 "Suc n"] by simp
  then show ?thesis using h by (auto simp: distinct_every_other set_every_other)
qed

theorem canon_600_row_order_witness:
  "set (canon_600_rows (plain_geom 5 896) 5 0) = {0..<5}"
  using canon_600_row_order [of 5 "plain_geom 5 896"] by (simp add: plain_geom_def)

end
