(* ===== verification/NikonPentax.thy ===== *)
theory NikonPentax
  imports Ljpeg
begin

text \<open>
  The compressed formats of Pentax and Nikon, which decode differences with their own trees and
  predict from the sample of the same colour, and the tests that tell the Coolpix models apart.
\<close>

section \<open>Pentax\<close>

text \<open>
  The table a PEF file describes: \<open>bit0\<close> holds the first index of every code, \<open>bit1\<close> its length.
  \<open>pentax_fill\<close> is the inner loop: cells from \<open>i + 1\<close> on while \<open>i\<close> has not passed \<open>final\<close>.
\<close>

definition pentax_fill :: "int \<Rightarrow> int \<Rightarrow> int \<Rightarrow> u16 list \<Rightarrow> u16 list option" where
  "pentax_fill first final v huff = for_up first (final + 1) (\<lambda>i huff. wr huff (i + 1) v) huff"

definition pentax_table :: "geom \<Rightarrow> bitio \<Rightarrow> (u16 list \<times> bitio) option" where
  "pentax_table g b =
     (let b = fseek_set (meta_offset g) b in
      case get2 b of (d, b) \<Rightarrow>
        let dep = (d + 12) AND 15; b = fseek_cur 12 b in do {
          (bit0, b) \<leftarrow> for_up 0 dep (\<lambda>c (bit0, b).
            case get2 b of (x, b) \<Rightarrow> do { bit0 \<leftarrow> wr bit0 c x; Some (bit0, b) }) (uninit g 15 :: u16 list, b);
          (bit1, b) \<leftarrow> for_up 0 dep (\<lambda>c (bit1, b).
            case fgetc b of (x, b) \<Rightarrow> do { bit1 \<leftarrow> wr bit1 c x; Some (bit1, b) }) (uninit g 15 :: u16 list, b);
          huff \<leftarrow> for_up 0 dep (\<lambda>c huff. do {
            x \<leftarrow> rd bit0 c;
            n \<leftarrow> rd bit1 c;
            pentax_fill x ((x + shr_i 4096 n - 1) AND 4095) (shl n 8 OR c) huff }) (uninit g 4097);
          huff \<leftarrow> wr huff 0 12;
          Some (huff, b) })"

text \<open>
  One sample; \<open>vpred\<close> is the array \<open>vpred[2][2]\<close> row by row, and both arrays are of \<open>ushort\<close>.
\<close>

definition pentax_sample ::
    "geom \<Rightarrow> u16 list \<Rightarrow> int \<Rightarrow> int \<Rightarrow> u16 list \<times> u16 list \<times> dst \<Rightarrow> (u16 list \<times> u16 list \<times> dst) option" where
  "pentax_sample g huff row col = (\<lambda>(vpred, hpred, s). do {
     (diff, s) \<leftarrow> with_io (ljpeg_diff (dng_version g) huff) s;
     (vpred, hpred) \<leftarrow>
       (if col < 2 then do {
          v \<leftarrow> rd vpred (2 * (row AND 1) + col);
          vpred \<leftarrow> wr vpred (2 * (row AND 1) + col) (v + diff);
          hpred \<leftarrow> wr hpred col (v + diff);
          Some (vpred, hpred) }
        else do {
          h \<leftarrow> rd hpred (col AND 1);
          hpred \<leftarrow> wr hpred (col AND 1) (h + diff);
          Some (vpred, hpred) });
     h \<leftarrow> rd hpred (col AND 1);
     s \<leftarrow> set_RAW g row col h s;
     Some (vpred, hpred, derror_if (shr_i h (tiff_bps g) \<noteq> 0) s) })"

definition pentax_load_raw :: "geom \<Rightarrow> dst \<Rightarrow> dst option" where
  "pentax_load_raw g s = do {
     (huff, s) \<leftarrow> with_io (pentax_table g) s;
     let s = upd_io (fseek_set (data_offset g)) s;
     (z, s) \<leftarrow> with_io (getbits (-1)) s;
     (vpred, hpred, s) \<leftarrow> for_up 0 (raw_height g) (\<lambda>row st.
       for_up 0 (raw_width g) (pentax_sample g huff row) st) (zeros 4, uninit g 2, s);
     Some s }"

section \<open>Nikon\<close>

text \<open>
  The initialisers leave the rest of the 32 bytes of a tree zero.
\<close>

definition nikon_tree :: "u8 list list" where
  "nikon_tree =
   [[0, 1, 5, 1, 1, 1, 1, 1, 1, 2, 0, 0, 0, 0, 0, 0, 5, 4, 3, 6, 2, 7, 1, 0, 8, 9, 11, 10, 12, 0, 0, 0],
    [0, 1, 5, 1, 1, 1, 1, 1, 1, 2, 0, 0, 0, 0, 0, 0, 0x39, 0x5a, 0x38, 0x27, 0x16, 5, 4, 3, 2, 1, 0, 11, 12, 12, 0, 0],
    [0, 1, 4, 2, 3, 1, 2, 0, 0, 0, 0, 0, 0, 0, 0, 0, 5, 4, 6, 3, 7, 2, 8, 1, 9, 0, 10, 11, 12, 0, 0, 0],
    [0, 1, 4, 3, 1, 1, 1, 1, 1, 2, 0, 0, 0, 0, 0, 0, 5, 6, 4, 7, 8, 3, 9, 2, 1, 0, 10, 11, 12, 13, 14, 0],
    [0, 1, 5, 1, 1, 1, 1, 1, 1, 1, 2, 0, 0, 0, 0, 0, 8, 0x5c, 0x4b, 0x3a, 0x29, 7, 6, 5, 4, 3, 2, 1, 0, 13, 14, 0],
    [0, 1, 4, 2, 2, 3, 1, 2, 0, 0, 0, 0, 0, 0, 0, 0, 7, 6, 8, 5, 9, 4, 10, 3, 11, 12, 2, 0, 1, 13, 14, 0]]"

text \<open>The linearisation curve: \<open>csize\<close> points \<open>step\<close> apart, straight lines between them.\<close>

definition nikon_curve_points :: "int \<Rightarrow> int \<Rightarrow> dst \<Rightarrow> dst option" where
  "nikon_curve_points csize step s = for_up 0 csize (\<lambda>i s.
     case get_io get2 s of (x, s) \<Rightarrow> do {
       c \<leftarrow> wr (curve s) (i * step) x;
       Some (s\<lparr>curve := c\<rparr>) }) s"

definition nikon_curve_lines :: "int \<Rightarrow> int \<Rightarrow> dst \<Rightarrow> dst option" where
  "nikon_curve_lines mx step s = for_up 0 mx (\<lambda>i s. do {
     r \<leftarrow> c_mod i step;
     a \<leftarrow> rd (curve s) (i - r);
     b \<leftarrow> rd (curve s) (i - r + step);
     v \<leftarrow> c_div (a * (step - r) + b * r) step;
     c \<leftarrow> wr (curve s) i v;
     Some (s\<lparr>curve := c\<rparr>) }) s"

text \<open>\<open>while (curve[max-2] == curve[max-1]) max--;\<close> has no other end than a step in the curve.\<close>

function nikon_trim :: "u16 list \<Rightarrow> int \<Rightarrow> int option" where
  "nikon_trim cv mx =
     (case rd cv (mx - 2) of None \<Rightarrow> None
      | Some a \<Rightarrow> (case rd cv (mx - 1) of None \<Rightarrow> None
         | Some b \<Rightarrow> if a = b then nikon_trim cv (mx - 1) else Some mx))"
  by pat_completeness auto
termination
  by (relation "measure (\<lambda>(cv, mx). nat mx)") (auto simp: rd_def inb_def split: if_splits)

declare nikon_trim.simps [simp del]

definition nikon_sample ::
    "geom \<Rightarrow> u16 list \<Rightarrow> int \<Rightarrow> int \<Rightarrow> int \<Rightarrow> int \<Rightarrow> u16 list \<times> u16 list \<times> dst \<Rightarrow> (u16 list \<times> u16 list \<times> dst) option" where
  "nikon_sample g huff mn mx row col = (\<lambda>(vpred, hpred, s). do {
     (i, s) \<leftarrow> with_io (gethuff huff) s;
     let len = i AND 15;
     let sh = shr i 4;
     (b, s) \<leftarrow> with_io (getbits (len - sh)) s;
     let diff = c_s32 (shr (c_u32 (shl (c_u32 (shl b 1 + 1)) sh)) 1);
     let diff = (if diff AND shl_i 1 (len - 1) = 0
                 then diff - (shl_i 1 len - (if sh = 0 then 1 else 0)) else diff);
     (vpred, hpred) \<leftarrow>
       (if col < 2 then do {
          v \<leftarrow> rd vpred (2 * (row AND 1) + col);
          vpred \<leftarrow> wr vpred (2 * (row AND 1) + col) (v + diff);
          hpred \<leftarrow> wr hpred col (v + diff);
          Some (vpred, hpred) }
        else do {
          h \<leftarrow> rd hpred (col AND 1);
          hpred \<leftarrow> wr hpred (col AND 1) (h + diff);
          Some (vpred, hpred) });
     h \<leftarrow> rd hpred (col AND 1);
     hs \<leftarrow> rds hpred (col AND 1);
     let s = derror_if (c_u16 (h + mn) \<ge> mx) s;
     x \<leftarrow> rd (curve s) (LIM_c hs 0 0x3fff);
     s \<leftarrow> set_RAW g row col x s;
     Some (vpred, hpred, s) })"

text \<open>What the header decides: the tree, the row of the split and the curve with its size.\<close>

definition nikon_header :: "geom \<Rightarrow> dst \<Rightarrow> (int \<times> int \<times> int \<times> u16 list \<times> dst) option" where
  "nikon_header g s =
     (let s = upd_io (fseek_set (meta_offset g)) s in
      case get_io fgetc s of (v0, s) \<Rightarrow> case get_io fgetc s of (v1, s) \<Rightarrow>
        let ver0 = c_u16 v0; ver1 = c_u16 v1;
            s = (if ver0 = 0x49 \<or> ver1 = 0x58 then upd_io (fseek_cur 2110) s else s);
            tree = (if ver0 = 0x46 then 2 else 0);
            tree = (if tiff_bps g = 14 then tree + 3 else tree) in do {
          (vpred, s) \<leftarrow> with_io (read_shorts (uninit g 4) 0 4) s;
          let mx = shl_i 1 (tiff_bps g) AND 0x7fff;
          let (csize, s) = get_io get2 s;
          step \<leftarrow> (if csize > 1 then c_div mx (csize - 1) else Some 0);
          (split, mx, s) \<leftarrow>
            (if ver0 = 0x44 \<and> ver1 = 0x20 \<and> step > 0 then do {
               s \<leftarrow> nikon_curve_points csize step s;
               s \<leftarrow> nikon_curve_lines mx step s;
               let s = upd_io (fseek_set (meta_offset g + 562)) s;
               (case get_io get2 s of (x, s) \<Rightarrow> Some (x, mx, s)) }
             else if ver0 \<noteq> 0x46 \<and> csize \<le> 0x4001 then do {
               (c, s) \<leftarrow> with_io (read_shorts (curve s) 0 csize) s;
               Some (0, csize, s\<lparr>curve := c\<rparr>) }
             else Some (0, mx, s));
          mx \<leftarrow> nikon_trim (curve s) mx;
          Some (tree, split, mx, vpred, s) })"

definition nikon_load_raw :: "geom \<Rightarrow> dst \<Rightarrow> dst option" where
  "nikon_load_raw g s = do {
     (tree, split, mx, vpred, s) \<leftarrow> nikon_header g s;
     src \<leftarrow> at nikon_tree tree;
     huff \<leftarrow> make_decoder src;
     let s = upd_io (fseek_set (data_offset g)) s;
     (z, s) \<leftarrow> with_io (getbits (-1)) s;
     (huff, mn, mx, vpred, hpred, s) \<leftarrow> for_up 0 (height g) (\<lambda>row (huff, mn, mx, vpred, hpred, s). do {
       (huff, mn, mx) \<leftarrow>
         (if split \<noteq> 0 \<and> row = split then do {
            src \<leftarrow> at nikon_tree (tree + 1);
            huff \<leftarrow> make_decoder src;
            Some (huff, 16, mx + shl 16 1) }
          else Some (huff, mn, mx));
       (vpred, hpred, s) \<leftarrow> for_up 0 (raw_width g) (nikon_sample g huff mn mx row) (vpred, hpred, s);
       Some (huff, mn, mx, vpred, hpred, s) }) (huff, 0, mx, vpred, uninit g 2, s);
     Some s }"

text \<open>\<open>nikon_e995\<close> counts the last 2000 bytes; the index -1 of a missing byte is a fault.\<close>

definition nikon_e995 :: "bitio \<Rightarrow> (int \<times> bitio) option" where
  "nikon_e995 b = do {
     (histo, b) \<leftarrow> for_up 0 2000 (\<lambda>i (histo, b).
       case fgetc b of (c, b) \<Rightarrow> do {
         n \<leftarrow> at histo c;
         histo \<leftarrow> put histo c (n + 1);
         Some (histo, b) }) (zeros 256 :: int list, fseek_end (-2000) b);
     few \<leftarrow> for_up 0 4 (\<lambda>i few. do {
       c \<leftarrow> at [0x00, 0x55, 0xaa, 0xff] i;
       n \<leftarrow> at histo c;
       Some (few \<or> n < 200) }) False;
     Some (if few then 0 else 1, b) }"

text \<open>\<open>nikon_e2100\<close> tests 1024 groups of 12 bytes and stops at the first that fails.\<close>

function nikon_e2100_from :: "int \<Rightarrow> u8 list \<Rightarrow> bitio \<Rightarrow> int \<times> bitio" where
  "nikon_e2100_from i t b =
     (if i < 1024 then
        (case fread 12 b of (bs, b) \<Rightarrow>
           let t = overlay bs t; x = (\<lambda>k. uint (t ! k))
           in if shr (x 2 AND x 4 AND x 7 AND x 9) 4 AND x 1 AND x 6 AND x 8 AND x 11 AND 3 \<noteq> 3
              then (0, b) else nikon_e2100_from (i + 1) t b)
      else (1, b))"
  by pat_completeness auto
termination
  by (relation "measure (\<lambda>(i, t, b). nat (1024 - i))") auto

declare nikon_e2100_from.simps [simp del]

definition nikon_e2100 :: "geom \<Rightarrow> bitio \<Rightarrow> int \<times> bitio" where
  "nikon_e2100 g b = nikon_e2100_from 0 (uninit g 12) (fseek_set 0 b)"

definition nikon_3700_table :: "(int \<times> string \<times> string) list" where
  "nikon_3700_table =
   [(0x00, ''Pentax'', ''Optio 33WR''),
    (0x03, ''Nikon'', ''E3200''),
    (0x32, ''Nikon'', ''E3700''),
    (0x33, ''Olympus'', ''C740UZ'')]"

text \<open>The new make and model, when the table has one.\<close>

definition nikon_3700 :: "geom \<Rightarrow> bitio \<Rightarrow> (string \<times> string) option \<times> bitio" where
  "nikon_3700 g b =
     (case fread 24 (fseek_set 3072 b) of (bs, b) \<Rightarrow>
        let dp = overlay bs (uninit g 24);
            bits = shl (uint (dp ! 8) AND 3) 4 OR (uint (dp ! 20) AND 3)
        in (map_of nikon_3700_table bits, b))"

definition minolta_z2 :: "geom \<Rightarrow> bitio \<Rightarrow> bool \<times> bitio" where
  "minolta_z2 g b =
     (case fread 424 (fseek_end (-424) b) of (bs, b) \<Rightarrow>
        let tail = overlay bs (uninit g 424)
        in (length (filter (\<lambda>x. x \<noteq> 0) tail) > 20, b))"

section \<open>Safety of the Pentax format\<close>

lemma pentax_fill_safe [safe]:
  assumes "length h = 4097" "0 \<le> a" "b < 4096" "\<And>h. length h = 4097 \<Longrightarrow> Q h"
  shows "ok (pentax_fill a b v h) Q"
  unfolding pentax_fill_def
  apply (rule for_by_wp [where I = "\<lambda>h. length h = 4097"])
  using assms by (auto simp: inb_def intro!: ok_wr_safe)

lemma pentax_table_safe [safe]:
  assumes "\<And>h b'. huff_ok h \<Longrightarrow> Q (h, b')"
  shows "ok (pentax_table g b) Q"
proof -
  have lt: "j < x AND 15 \<Longrightarrow> j < 15" for j x :: int using and_15_bounds(2) [of x] by linarith
  have t: "ok (for_up 0 (d + 12 AND 15) (\<lambda>c (xs, b). case rdr b of (x, b) \<Rightarrow>
      wr xs c x \<bind> (\<lambda>xs. Some (xs, b))) (xs :: u16 list, b :: bitio)) (\<lambda>(ys, b). length ys = 15)"
    if "length xs = 15" for d xs b and rdr :: "bitio \<Rightarrow> int \<times> bitio"
    by (rule for_by_wp [where I = "\<lambda>(ys, b). length ys = 15"])
      (use that lt in \<open>auto simp: inb_def split: prod.split intro!: ok_bind ok_wr_safe\<close>)
  have a: "x AND 4095 < 4096" for x :: int using AND_upper2 [of 4095 x] by simp
  have f: "huff_ok hs" if "length hs = 4097" "hs ! 0 = 12" for hs
    using that by (cases hs) (simp_all add: huff_ok_def)
  have L: "ok (for_up 0 (d + 12 AND 15) (\<lambda>c huff. rd xs c \<bind> (\<lambda>x. rd ys c \<bind>
      (\<lambda>n. pentax_fill x (x + shr_i 4096 n - 1 AND 4095) (shl n 8 OR c) huff))) (uninit g 4097)) (\<lambda>h. length h = 4097)"
    if "length xs = 15" "length ys = 15" for d and xs ys :: "u16 list"
    apply (rule for_by_wp [where I = "\<lambda>h. length h = 4097"])
       apply (rule safe | (use that a lt in \<open>auto simp: inb_def\<close>; fail))+
    done
  show ?thesis
    unfolding pentax_table_def
    apply (rule kept_Let ok_prod)+
    apply (rule ok_bind2 [OF t], simp)
    apply (rule ok_bind2 [OF t], simp)
    apply (rule ok_bind, rule ok_mono [OF L], assumption, assumption)
    apply (auto simp: inb_def intro!: assms f ok_bind ok_wr)
    done
qed

lemma pentax_sample_kept [kept]:
  assumes "geom_ok g" "huff_ok huff" "raw_kept g im s" "length vp = 4" "length hp = 2" "0 \<le> row" "row < raw_height g" "0 \<le> col" "col < raw_width g"
  shows "ok (pentax_sample g huff row col (vp, hp, s)) (\<lambda>(vp, hp, t). (length vp = 4 \<and> length hp = 2) \<and> raw_kept g im t)"
proof -
  have r: "row AND 1 < 2" "0 \<le> row AND 1" "2 * (row AND 1) + col < 4" if "col < 2"
    using and_1_bounds [of row] that by linarith+
  show ?thesis
  unfolding pentax_sample_def
  apply (rule kept | rule safe | (use assms in \<open>simp add: inb_def geom_ok_def r; fail\<close>) )+
done
qed

lemma pentax_rows_kept:
  assumes "geom_ok g" "huff_ok huff" "raw_kept g im s" "length vp = 4" "length hp = 2"
    and "\<And>vp hp t. raw_kept g im t \<Longrightarrow> Q (vp, hp, t)"
  shows "ok (for_up 0 (raw_height g) (\<lambda>row st. for_up 0 (raw_width g) (pentax_sample g huff row) st) (vp, hp, s)) Q"
  apply (rule kept_for3 [where J = "\<lambda>vp hp. length vp = 4 \<and> length hp = 2" and im = im])
  apply (use assms in \<open>simp; fail\<close>)+
  apply (rule kept_for3 [where J = "\<lambda>vp hp. length vp = 4 \<and> length hp = 2" and im = im])
  apply (rule pentax_sample_kept | (use assms in \<open>simp; fail\<close>))+
  done

lemma pentax_kept:
  assumes "geom_ok g" "raw_kept g im s"
  shows "ok (pentax_load_raw g s) (raw_kept g im)"
  unfolding pentax_load_raw_def
  apply (rule kept pentax_rows_kept | rule safe | (use assms in \<open>simp; fail\<close>) | assumption)+
  done

interpretation pentax: loader pentax_load_raw "\<lambda>g s. True"
  by unfold_locales (rule pentax_kept)

text \<open>
  \<open>pentax_load_raw\<close> reads and writes inside its arrays and returns, whatever the bytes of the
  file are: the table the file describes, the codes it holds and its length do not matter. It
  leaves \<open>image\<close> alone and keeps the sizes of the arrays.
\<close>

theorem pentax_never_faults:
  assumes "geom_ok g" "raw_ok g s"
  shows "\<exists>t. pentax_load_raw g s = Some t \<and> raw_ok g t \<and> img t = img s"
  using pentax.load_total [OF assms] by simp

theorem pentax_never_faults_witness:
  "\<exists>t. pentax_load_raw (plain_geom 4 6) (mosaic_file (plain_geom 4 6) [0xff, 0xd8, 0x17]) = Some t
    \<and> length (raw_image t) = 66"
proof -
  let ?g = "plain_geom 4 6"
  have "geom_ok ?g" by (simp add: plain_geom_ok)
  from pentax_never_faults [OF this mosaic_file_ok [OF this]] show ?thesis
    by (fastforce simp: raw_ok_def plain_geom_def)
qed

end
