(* ===== verification/IdentifyHead.thy ===== *)
theory IdentifyHead
  imports Movies ColorTable Cameras Canon NikonPentax
begin

text \<open>
  \<open>identify\<close>, the first half: the globals are reset, the first bytes of the file select a parser, a file
  without a header is recognised by its size, make and model are tidied, and the numbers of Canon and Sony
  cameras become names.
\<close>

section \<open>Reset\<close>

abbreviation name_make :: "string \<Rightarrow> meta \<Rightarrow> meta" where
  "name_make cs s \<equiv> set_make (strcpy cs (make_arr s)) s"

abbreviation name_model :: "string \<Rightarrow> meta \<Rightarrow> meta" where
  "name_model cs s \<equiv> set_model (strcpy cs (model_arr s)) s"

abbreviation UINT_MAX :: int where
  "UINT_MAX \<equiv> 0xffffffff"

definition empty_text :: "u8 list \<Rightarrow> u8 list" where
  "empty_text arr = arr[0 := 0]"

definition zero_ifd :: tiff_ifd where
  "zero_ifd = \<lparr>ti_width = 0, ti_height = 0, ti_bps = 0, ti_comp = 0, ti_phint = 0, ti_offset = 0, ti_flip = 0,
     ti_samples = 0, ti_bytes = 0, ti_tile_width = 0, ti_tile_length = 0, ti_shutter = 0\<rparr>"

definition reset_geom :: "geom \<Rightarrow> geom" where
  "reset_geom g = g\<lparr>raw_height := 0, raw_width := 0, fuji_width := 0, fuji_layout := 0, cr2_slice := (cr2_slice g)[0 := 0],
     height := 0, width := 0, top_margin := 0, left_margin := 0, unique_id := 0, data_offset := 0, meta_offset := 0,
     tiff_bps := 0, tiff_compress := 0, kodak_cbpp := 0, dng_version := 0, load_flags := 0, tiff_samples := 0,
     is_raw := 1, tile_width := 0, tile_length := 0\<rparr>"

definition reset_dst :: "dst \<Rightarrow> dst" where
  "reset_dst t = t\<lparr>filters := UINT_MAX, maximum := 0, cblack := replicate (length (cblack t)) 0, black := 0, mix_green := 0,
     raw_color := 1, colors := 3, curve := map word_of_nat [0 ..< 0x10000], dio := (dio t)\<lparr>zero_after_ff := 0, data_error := 0\<rparr>\<rparr>"

definition reset_globals :: "tiff_globals \<Rightarrow> tiff_globals" where
  "reset_globals = (\<lambda>(_, s).
     let s = s\<lparr>tflip := UINT_MAX, mflip := UINT_MAX, cdesc := empty_text (cdesc s), desc := empty_text (desc s),
               artist := empty_text (artist s), iso_speed := Of_int 0, aperture := Of_int 0, focal_len := Of_int 0,
               mshutter := Of_int 0, tshutter := 0, ifd_arr := replicate (length (ifd_arr s)) zero_ifd,
               gpsdata := replicate (length (gpsdata s)) 0, white := replicate (length (white s)) 0,
               mask_arr := replicate (length (mask_arr s)) 0, thumb_offset := 0, thumb_length := 0, thumb_width := 0,
               thumb_height := 0, load_raw := None, thumb_load_raw := None, write_thumb := Jpeg_thumb, meta_length := 0,
               timestamp := 0, shot_order := 0, is_foveon := 0, profile_length := 0, zero_is_bad := 0, pixel_aspect := Of_int 1,
               cam_mul := map (\<lambda>i. Of_int (if i = 1 then 1 else 0)) [0 ..< 4],
               pre_mul := map (\<lambda>i. Of_int (if i < 3 then 1 else 0)) [0 ..< 4],
               cmatrix := replicate 12 (Of_int 0),
               rgb_cam := map (\<lambda>k. Of_int (if k div 4 = k mod 4 then 1 else 0)) [0 ..< 12]\<rparr>;
         s = set_make (empty_text (make_arr s)) s;
         s = set_model (empty_text (model_arr s)) s;
         s = set_model2 (empty_text (model2_arr s)) s
     in (0, on_d reset_dst (on_g reset_geom s)))"

section \<open>The head of the file\<close>

text \<open>\<open>memcmp (head + k, lit, n)\<close> is zero.\<close>

definition head_is :: "u8 list \<Rightarrow> nat \<Rightarrow> u8 list \<Rightarrow> bool" where
  "head_is head k lit \<longleftrightarrow> take (length lit) (drop k head) = lit"

fun find_bytes :: "u8 list \<Rightarrow> u8 list \<Rightarrow> nat option" where
  "find_bytes lit [] = None"
| "find_bytes lit (b # bs) = (if take (length lit) (b # bs) = lit then Some 0 else map_option Suc (find_bytes lit bs))"

definition gamma_to :: "fp_ops \<Rightarrow> real_c \<Rightarrow> real_c \<Rightarrow> int \<Rightarrow> meta \<Rightarrow> meta" where
  "gamma_to fp pwr ts imax = on_d (curve_update (\<lambda>_. gamma_curve fp pwr ts 1 imax))"

text \<open>\<open>if (parse_tiff (base)) apply_tiff ();\<close>\<close>

definition tiff_and_apply :: "fp_ops \<Rightarrow> tiff_parser \<Rightarrow> int \<Rightarrow> tiff_globals \<Rightarrow> tiff_globals option" where
  "tiff_and_apply fp ifd base ns = do {
     (found, ns) \<leftarrow> parse_tiff ifd base ns;
     if found then apply_meta fp ns else Some ns }"

definition head_fuji :: "fp_ops \<Rightarrow> tiff_parser \<Rightarrow> tiff_globals \<Rightarrow> tiff_globals option" where
  "head_fuji fp ifd = (\<lambda>(n, s). do {
     let (x, s) = rd_io get4 (seek_set 84 s);
     let (y, s) = rd_io get4 s;
     let s = s\<lparr>thumb_offset := x, thumb_length := y\<rparr>;
     let (x, s) = rd_io get4 (seek_set 92 s);
     s \<leftarrow> parse_fuji (c_s32 x) s;
     s \<leftarrow> (if thumb_offset s > 120 then do {
         let (i, s) = rd_io get4 (seek_set 120 s);
         let s = on_g (is_raw_update (\<lambda>r. c_u32 (r + (if i \<noteq> 0 then 1 else 0)))) s;
         if is_raw (tg s) = 2 \<and> shot_select (tg s) \<noteq> 0 then parse_fuji (c_s32 i) s else Some s }
       else Some s);
     let (x, s) = rd_io get4 (seek_set (100 + (if shot_select (tg s) > 0 then 28 else 0)) s);
     (_, n, s) \<leftarrow> parse_tiff ifd (c_s32 x) (n, on_g (data_offset_update (\<lambda>_. x)) s);
     (_, n, s) \<leftarrow> parse_tiff ifd (c_s32 (thumb_offset s + 12)) (n, s);
     (n, s) \<leftarrow> apply_meta fp (n, s);
     let s = (if cam_model (tg s) = ''X-T3'' then on_g (\<lambda>g. g\<lparr>height := c_u16 (raw_height g - 2)\<rparr>) s
              else if cam_model (tg s) = ''GFX 100'' \<or> cam_model (tg s) = ''GFX100S'' then on_g (load_flags_update (\<lambda>_. 0)) s
              else s);
     Some (n, if load_raw s = None then on_g (tiff_bps_update (\<lambda>_. 14)) (s\<lparr>load_raw := Some Unpacked_raw\<rparr>) else s) })"

definition head_exif :: "tiff_parser \<Rightarrow> tiff_globals \<Rightarrow> tiff_globals option" where
  "head_exif ifd = (\<lambda>(n, s). do {
     let (x, s) = rd_io get2 (seek_set 4 s);
     let s = on_g (data_offset_update (\<lambda>_. 4 + x)) s;
     let (c, s) = rd_io fgetc (seek_set (4 + x) s);
     (n, s) \<leftarrow> (if c \<noteq> 0xff then do { (_, ns) \<leftarrow> parse_tiff ifd 12 (n, s); Some ns } else Some (n, s));
     Some (n, s\<lparr>thumb_offset := 0\<rparr>) })"

definition head_contax :: "fp_ops \<Rightarrow> meta \<Rightarrow> meta" where
  "head_contax fp s =
     forc4 get4 (\<lambda>c x. set_mul (c XOR shr c 1) (Of_int x))
       (seek_set 60 (get_timestamp fp True (seek_set 33 (name_model ''N Digital'' (name_make ''Contax'' s)))))"

definition head_nokia :: "meta \<Rightarrow> meta" where
  "head_nokia s =
     (let (a, s) = rd_io (fread 8) (seek_set 6 s);
          s = set_make (overlay_bytes a (make_arr s)) s;
          (b, s) = rd_io (fread 8) s;
          s = set_model (overlay_bytes b (model_arr s)) s;
          (c, s) = rd_io (fread 16) s;
          s = set_model2 (overlay_bytes c (model2_arr s)) s;
          (off, s) = rd_io get2 s;
          (w, s) = rd_io get2 (drop_io get2 s);
          (h, s) = rd_io get2 s
      in on_d (filters_update (\<lambda>_. 0x61616161))
           (on_g (\<lambda>g. g\<lparr>data_offset := off, raw_width := w, raw_height := h\<rparr>) (s\<lparr>load_raw := Some Nokia_raw\<rparr>)))"

definition head_nokiaraw :: "meta \<Rightarrow> meta option" where
  "head_nokiaraw s = do {
     let (off, s) = rd_io get4 (seek_set 300 (set_order 0x4949 (name_make ''NOKIA'' s)));
     let (i, s) = rd_io get4 s;
     let i = c_s32 i;
     let (w, s) = rd_io get2 s;
     let (h, s) = rd_io get2 s;
     bps \<leftarrow> c_div (c_s32 (i * 8)) (c_s32 (w * h));
     let bps = c_u32 bps;
     let s = (if bps = 8 then s\<lparr>load_raw := Some Eight_bit_raw\<rparr> else if bps = 10 then s\<lparr>load_raw := Some Nokia_raw\<rparr> else s);
     rows \<leftarrow> c_div (c_u32 i) (c_u32 (w * bps) div 8);
     let top = c_u16 (rows - h);
     Some (on_d (filters_update (\<lambda>_. 0x61616161))
       (on_g (\<lambda>g. g\<lparr>data_offset := off, width := w, height := h, tiff_bps := bps, top_margin := top, raw_height := c_u16 (h + top)\<rparr>)
         (s\<lparr>mask_arr := (mask_arr s)[3 := 1]\<rparr>))) }"

definition head_arri :: "meta \<Rightarrow> meta" where
  "head_arri s =
     (let (w, s) = rd_io get4 (seek_set 20 (set_order 0x4949 s));
          (h, s) = rd_io get4 s;
          s = name_make ''ARRI'' s;
          (b, s) = rd_io (fread 64) (seek_set 668 s);
          s = set_model (overlay_bytes b (model_arr s)) s
      in on_d (filters_update (\<lambda>_. 0x61616161))
           (on_g (\<lambda>g. g\<lparr>width := c_u16 w, height := c_u16 h, data_offset := 4096, load_flags := 88\<rparr>) (s\<lparr>load_raw := Some Packed_raw\<rparr>)))"

definition head_xpds :: "fp_ops \<Rightarrow> meta \<Rightarrow> meta" where
  "head_xpds fp s =
     (let (a, s) = rd_io (fread 41) (seek_set 0x800 (set_order 0x4949 s));
          s = set_make (overlay_bytes a (make_arr s)) s;
          (h, s) = rd_io get2 s;
          (w, s) = rd_io get2 s;
          (b, s) = rd_io (fread 30) (seek_cur 56 s);
          s = set_model (overlay_bytes b (model_arr s)) s
      in gamma_to fp (Of_int 0) (Decimal ''12.25'') 1023
           (on_g (\<lambda>g. g\<lparr>raw_height := h, raw_width := w, data_offset := 0x10000\<rparr>) (s\<lparr>load_raw := Some Canon_rmf_raw\<rparr>)))"

definition head_red :: "fp_ops \<Rightarrow> meta \<Rightarrow> meta" where
  "head_red fp s =
     on_d (filters_update (\<lambda>_. 0x49494949))
       (gamma_to fp (Quotient (Of_int 1) (Decimal ''2.4'')) (Decimal ''12.92'') 4095
         ((parse_redcine (name_model ''One'' (name_make ''Red'' s)))\<lparr>load_raw := Some Redcine_raw\<rparr>))"

text \<open>The choice by the first bytes; \<open>h\<close> holds 32 of them.\<close>

definition identify_head :: "fp_ops \<Rightarrow> tiff_parser \<Rightarrow> u8 list \<Rightarrow> int \<Rightarrow> int \<Rightarrow> tiff_globals \<Rightarrow> tiff_globals option" where
  "identify_head fp ifd h hlen flen = (\<lambda>(n, s).
     let ord = byte_order (io_of s); flat = map_option (Pair n) in
     case (case find_bytes (bytes_of ''MMMM'') h of Some k \<Rightarrow> Some k | None \<Rightarrow> find_bytes (bytes_of ''IIII'') h) of
       Some k \<Rightarrow>
         let s = parse_phase_one (int k) s in if k \<noteq> 0 then tiff_and_apply fp ifd 0 (n, s) else Some (n, s)
     | None \<Rightarrow>
         if ord = 0x4949 \<or> ord = 0x4d4d then
           if head_is h 6 (bytes_of ''HEAPCCDR'') then do {
             s \<leftarrow> parse_ciff fp hlen (c_s32 (flen - hlen)) 0 (on_g (data_offset_update (\<lambda>_. hlen)) s);
             Some (n, s\<lparr>load_raw := Some Canon_raw\<rparr>) }
           else tiff_and_apply fp ifd 0 (n, s)
         else if head_is h 0 [0xff, 0xd8, 0xff, 0xe1] \<and> head_is h 6 (bytes_of ''Exif'') then head_exif ifd (n, s)
         else if head_is h 25 (bytes_of ''ARECOYK'') then Some (n, head_contax fp s)
         else if c_str h = ''PXN'' then Some (n, name_model ''Fotoman Pixtura'' (name_make ''Logitech'' s))
         else if c_str h = ''qktk'' then
           Some (n, (name_model ''QuickTake 100'' (name_make ''Apple'' s))\<lparr>load_raw := Some Quicktake_100_raw\<rparr>)
         else if c_str h = ''qktn'' then
           Some (n, (name_model ''QuickTake 150'' (name_make ''Apple'' s))\<lparr>load_raw := Some Kodak_radc_raw\<rparr>)
         else if head_is h 0 (bytes_of ''FUJIFILM'') then head_fuji fp ifd (n, s)
         else if head_is h 0 (bytes_of ''RIFF'') then flat (parse_riff fp (seek_set 0 s))
         else if head_is h 4 (bytes_of ''ftypcrx '') then parse_crx fp ifd flen (n, seek_set 0 s)
         else if head_is h 4 (bytes_of ''ftypqt   '') then
           map_option (\<lambda>(n, s). (n, on_g (is_raw_update (\<lambda>_. 0)) s)) (parse_qt fp ifd flen (n, seek_set 0 s))
         else if head_is h 0 [0, 1, 0, 1, 0, 64] then Some (n, head_nokia s)
         else if head_is h 0 (bytes_of ''NOKIARAW'') then flat (head_nokiaraw s)
         else if head_is h 0 (bytes_of ''ARRI'') then Some (n, head_arri s)
         else if head_is h 0 (bytes_of ''XPDS'') then Some (n, head_xpds fp s)
         else if head_is h 4 (bytes_of ''RED1'') then Some (n, head_red fp s)
         else if head_is h 0 (bytes_of ''DSC-Image'') then flat (parse_rollei fp s)
         else if head_is h 0 (bytes_of ''PWAD'') then Some (n, parse_sinar_ia s)
         else if head_is h 0 (0 # bytes_of ''MRM'') then parse_minolta ifd 0 (n, s)
         else if head_is h 0 (bytes_of ''FOVb'') then flat (parse_foveon s)
         else if head_is h 0 (bytes_of ''CI'') then Some (n, parse_cine s)
         else Some (n, s))"

section \<open>Files without a header\<close>

text \<open>The loader for so many bits per sample.\<close>

definition loader_by_bits :: "meta \<Rightarrow> meta" where
  "loader_by_bits s =
     (let bps = tiff_bps (tg s); fl = load_flags (tg s) in
      if bps = 6 then s\<lparr>load_raw := Some Minolta_rd175_raw\<rparr>
      else if bps = 8 then s\<lparr>load_raw := Some Eight_bit_raw\<rparr>
      else if bps = 10 \<or> bps = 12 then
        on_g (load_flags_update (\<lambda>_. fl OR 512 OR (if cam_make (tg s) = ''Canon'' then 256 else 0))) (s\<lparr>load_raw := Some Packed_raw\<rparr>)
      else if bps = 16 then
        let low = shr fl 1 AND 7 in
        set_order (0x4949 OR 0x404 * (fl AND 1))
          (on_g (\<lambda>g. g\<lparr>load_flags := low, tiff_bps := c_u32 (bps - shr fl 4 - low)\<rparr>) (s\<lparr>load_raw := Some Unpacked_raw\<rparr>))
      else s)"

definition size_geom :: "int \<Rightarrow> size_row \<Rightarrow> geom \<Rightarrow> geom" where
  "size_geom fsize = (\<lambda>(_, rw, rh, b, _, _, off) g.
     g\<lparr>data_offset := off, raw_width := rw, raw_height := rh, left_margin := b ! 0, top_margin := b ! 1,
       width := c_u16 (rw - b ! 0 - b ! 2), height := c_u16 (rh - b ! 1 - b ! 3), load_flags := b ! 4,
       tiff_bps := c_u32 ((fsize - off) * 8 sdiv (rw * rh))\<rparr>)"

definition size_filters :: "int \<Rightarrow> dst \<Rightarrow> dst" where
  "size_filters cf t =
     (let f = c_u32 (0x1010101 * cf)
      in t\<lparr>filters := f, colors := 4 - (if (f AND shr f 1) AND 0x5555 = 0 then 1 else 0)\<rparr>)"

definition size_step :: "fp_ops \<Rightarrow> tiff_parser \<Rightarrow> (string \<Rightarrow> u8 list option) \<Rightarrow> int \<Rightarrow> size_row \<Rightarrow> tiff_globals \<Rightarrow> tiff_globals option" where
  "size_step fp ifd files fsize row = (\<lambda>(n, s).
     case row of (sz, _, _, b, mk, md, _) \<Rightarrow>
       if fsize \<noteq> sz then Some (n, s)
       else do {
         let s = (name_model md (name_make mk s))\<lparr>mflip := shr (b ! 7) 2, zero_is_bad := b ! 7 AND 2\<rparr>;
         (n, s) \<leftarrow> (if b ! 7 AND 1 \<noteq> 0 then parse_external_jpeg fp ifd files (n, s) else Some (n, s));
         let s = loader_by_bits (on_d (size_filters (b ! 5)) (on_g (size_geom fsize row) s));
         Some (n, on_d (maximum_update (\<lambda>_. c_u32 (shl_i 1 (tiff_bps (tg s)) - shl_i 1 (b ! 6)))) s) })"

fun size_rows :: "fp_ops \<Rightarrow> tiff_parser \<Rightarrow> (string \<Rightarrow> u8 list option) \<Rightarrow> int \<Rightarrow> size_row list \<Rightarrow> tiff_globals \<Rightarrow> tiff_globals option" where
  "size_rows fp ifd files fsize [] ns = Some ns"
| "size_rows fp ifd files fsize (r # rs) ns = size_step fp ifd files fsize r ns \<bind> size_rows fp ifd files fsize rs"

text \<open>
  A file that is still unknown: SMaL, a JPEG image, or one of OmniVision's with the image at its end. \<open>h\<close>
  is the head, which the last test replaces.
\<close>

definition omnivision :: "meta \<Rightarrow> meta" where
  "omnivision s =
     on_d (filters_update (\<lambda>_. 0x16161616))
       (on_g (\<lambda>g. g\<lparr>data_offset := tell s + 0x8000 - 32, width := raw_width g, raw_width := 2611\<rparr>)
         ((name_make ''OmniVision'' s)\<lparr>load_raw := Some Nokia_raw\<rparr>))"

definition unknown_make :: "fp_ops \<Rightarrow> tiff_parser \<Rightarrow> u8 list \<Rightarrow> tiff_globals \<Rightarrow> (u8 list \<times> tiff_globals) option" where
  "unknown_make fp ifd h ns = do {
     (_, n, s) \<leftarrow> parse_jpeg fp ifd 0 ns;
     let off = int (length (ifile (io_of s))) - 6404096;
     let no = on_g (is_raw_update (\<lambda>_. 0));
     if (strncmp_eq (cam_model (tg s)) ''ov'' \<or> strncmp_eq (cam_model (tg s)) ''RP_OV'') \<and> off \<ge> 0 then
       let (bs, s) = rd_io (fread 32) (seek_set off s); h = overlay_bytes bs h
       in Some (h, n, if bs \<noteq> [] \<and> c_str h = ''BRCMn'' then omnivision s else no s)
     else Some (h, n, no s) }"

text \<open>
  The result is the size of the file if it was needed (0 if the head gave the make), the head, and the state.
\<close>

definition identify_size :: "fp_ops \<Rightarrow> tiff_parser \<Rightarrow> (string \<Rightarrow> u8 list option) \<Rightarrow> int \<Rightarrow> u8 list \<Rightarrow> tiff_globals
    \<Rightarrow> (int \<times> u8 list \<times> tiff_globals) option" where
  "identify_size fp ifd files flen h = (\<lambda>(n, s). do {
     let by_size = (make_arr s ! 0 = 0);
     (n, s) \<leftarrow> (if by_size then size_rows fp ifd files flen (size_table_0 @ size_table_1) (n, s) else Some (n, s));
     let s = (if make_arr s ! 0 = 0 then parse_smal 0 flen s else s);
     (h, ns) \<leftarrow> (if make_arr s ! 0 = 0 then unknown_make fp ifd h (n, s) else Some (h, n, s));
     Some (if by_size then flen else 0, h, ns) })"

section \<open>Make and model\<close>

definition corp_names :: "meta \<Rightarrow> meta" where
  "corp_names s = fold (\<lambda>c s. if strcasestr (cam_make (tg s)) c then name_make c s else s) corp_table s"

definition cut_model :: "meta \<Rightarrow> meta" where
  "cut_model s =
     (if cam_make (tg s) \<noteq> ''Kodak'' \<and> cam_make (tg s) \<noteq> ''Leica'' then s
      else
        let m = cam_model (tg s) in
        case (case cut_at '' digital camera'' (map lower m) 0 of Some k \<Rightarrow> Some k | None \<Rightarrow> cut_at ''FILE VERSION'' m 0) of
          None \<Rightarrow> s
        | Some k \<Rightarrow> set_model ((model_arr s)[k := 0]) s)"

text \<open>
  Blanks at the end of a text of \<open>k\<close> characters are overwritten from the end. If nothing else stops it, the
  loop looks at the byte before the array (\<open>before\<close>), and would overwrite it too.
\<close>

fun trim_blanks :: "u8 \<Rightarrow> nat \<Rightarrow> u8 list \<Rightarrow> u8 list option" where
  "trim_blanks before 0 arr = (if before = 32 then None else Some arr)"
| "trim_blanks before (Suc k) arr = (if arr ! k = 32 then trim_blanks before k (arr[k := 0]) else Some arr)"

definition trim_names :: "meta \<Rightarrow> meta option" where
  "trim_names s = do {
     mk \<leftarrow> trim_blanks (word_of_int (junk (tg s) 0)) (length (cam_make (tg s))) (make_arr s);
     md \<leftarrow> trim_blanks (word_of_int (junk (tg s) 1)) (length (cam_model (tg s))) (model_arr s);
     Some (set_model md (set_make mk s)) }"

text \<open>The make at the begin of the model, and two other prefixes, are removed.\<close>

definition drop_make :: "meta \<Rightarrow> meta" where
  "drop_make s =
     (let i = length (cam_make (tg s)); arr = model_arr s
      in if map lower (take i (cam_model (tg s))) = map lower (cam_make (tg s)) \<and> i < length arr \<and> arr ! i = 32
         then set_model (drop (i + 1) arr @ drop (63 - i) arr) s else s)"

definition drop_prefix :: "string \<Rightarrow> meta \<Rightarrow> meta" where
  "drop_prefix p s =
     (if strncmp_eq (cam_model (tg s)) p then name_model (drop (length p) (cam_model (tg s))) s else s)"

definition end_texts :: "meta \<Rightarrow> meta" where
  "end_texts s =
     set_model2 ((model2_arr s)[63 := 0]) (set_model ((model_arr s)[63 := 0]) (set_make ((make_arr s)[63 := 0])
       (s\<lparr>desc := (desc s)[511 := 0], artist := (artist s)[63 := 0]\<rparr>)))"

definition identify_names :: "meta \<Rightarrow> meta option" where
  "identify_names s = do {
     let s = cut_model (corp_names s);
     let s = (if strncmp_eq (map lower (cam_model (tg s))) ''pentax'' then name_make ''Pentax'' s else s);
     s \<leftarrow> trim_names s;
     Some (end_texts (drop_prefix ''Digital Camera '' (drop_prefix ''FinePix '' (drop_make s)))) }"

section \<open>Sizes of single cameras\<close>

text \<open>One rule: when the test holds, the geometry and, if given, the filter are replaced.\<close>

type_synonym size_rule = "(geom \<Rightarrow> bool) \<times> (geom \<Rightarrow> geom) \<times> int option"

definition size_rule :: "size_rule \<Rightarrow> meta \<Rightarrow> meta" where
  "size_rule = (\<lambda>(test, f, filt) s.
     if test (tg s) then
       (case filt of None \<Rightarrow> on_g f s | Some x \<Rightarrow> on_d (filters_update (\<lambda>_. x)) (on_g f s))
     else s)"

definition pentax_rules :: "size_rule list" where
  "pentax_rules =
     [(\<lambda>g. height g = 0, \<lambda>g. g\<lparr>height := raw_height g\<rparr>, None),
      (\<lambda>g. width g = 0, \<lambda>g. g\<lparr>width := raw_width g\<rparr>, None),
      (\<lambda>g. height g = 2624 \<and> width g = 3936, \<lambda>g. g\<lparr>height := 2616, width := 3896\<rparr>, None),
      (\<lambda>g. height g = 3136 \<and> width g = 4864, \<lambda>g. g\<lparr>height := 3124, width := 4688\<rparr>, Some 0x16161616),
      (\<lambda>g. raw_height g = 2868 \<and> (cam_model g = ''K-r'' \<or> cam_model g = ''K-x''), \<lambda>g. g\<lparr>width := 4309\<rparr>, Some 0x16161616),
      (\<lambda>g. raw_height g = 3136 \<and> cam_model g = ''K-7'', \<lambda>g. g\<lparr>height := 3122, width := 4684, top_margin := 2\<rparr>, Some 0x16161616),
      (\<lambda>g. raw_height g = 3284 \<and> strncmp_eq (cam_model g) ''K-5'', \<lambda>g. g\<lparr>left_margin := 10, width := 4950\<rparr>, Some 0x16161616),
      (\<lambda>g. raw_height g = 3300 \<and> strncmp_eq (cam_model g) ''K-50'',
       \<lambda>g. g\<lparr>height := 3288, width := 4952, left_margin := 0, top_margin := 12\<rparr>, None),
      (\<lambda>g. raw_height g = 3664 \<and> strncmp_eq (cam_model g) ''K-S'', \<lambda>g. g\<lparr>width := 5492, left_margin := 0\<rparr>, None),
      (\<lambda>g. raw_height g = 4032 \<and> cam_model g = ''K-3'', \<lambda>g. g\<lparr>height := 4032, width := 6040, left_margin := 4\<rparr>, None),
      (\<lambda>g. raw_height g = 4060 \<and> cam_model g = ''KP'',
       \<lambda>g. g\<lparr>height := 4032, width := 6032, left_margin := 52, top_margin := 28\<rparr>, None),
      (\<lambda>g. raw_height g = 4950 \<and> cam_model g = ''K-1'',
       \<lambda>g. g\<lparr>height := 4932, width := 7380, left_margin := 4, top_margin := 18\<rparr>, None),
      (\<lambda>g. raw_height g = 5552 \<and> cam_model g = ''645D'',
       \<lambda>g. g\<lparr>height := 5502, width := 7328, left_margin := 48, top_margin := 29\<rparr>, Some 0x61616161),
      (\<lambda>g. height g = 3014 \<and> width g = 4096, \<lambda>g. g\<lparr>width := 4014\<rparr>, None)]"

definition identify_sizes :: "meta \<Rightarrow> meta" where
  "identify_sizes s = fold size_rule pentax_rules s"

section \<open>DNG\<close>

definition identify_dng :: "meta \<Rightarrow> meta" where
  "identify_dng s =
     (let s = (if filters (td s) = UINT_MAX then on_d (filters_update (\<lambda>_. 0)) s else s);
          s = (if filters (td s) \<noteq> 0 then on_g (\<lambda>g. g\<lparr>is_raw := c_u32 (is_raw g * tiff_samples g)\<rparr>) s
               else on_d (colors_update (\<lambda>_. tiff_samples (tg s))) s);
          c = tiff_compress (tg s)
      in s\<lparr>load_raw := if c = 0 \<or> c = 1 then Some Packed_dng_raw else if c = 7 then Some Lossless_dng_raw
            else if c = 34892 then Some Lossy_dng_raw else None\<rparr>)"

section \<open>Canon, Sony, Panasonic, Nikon: names by numbers\<close>

definition set_filters :: "int \<Rightarrow> meta \<Rightarrow> meta" where
  "set_filters x = on_d (filters_update (\<lambda>_. x))"

definition set_loader :: "raw_loader \<Rightarrow> meta \<Rightarrow> meta" where
  "set_loader l s = s\<lparr>load_raw := Some l\<rparr>"

definition default_loader :: "raw_loader \<Rightarrow> meta \<Rightarrow> meta" where
  "default_loader l s = (if load_raw s = None then set_loader l s else s)"

text \<open>A row of the table: size of the raw image, four margins, four sides of the mask, the filter.\<close>

definition canon_row :: "int list \<Rightarrow> meta \<Rightarrow> meta" where
  "canon_row r s =
     (if raw_width (tg s) = r ! 0 \<and> raw_height (tg s) = r ! 1 then
        let s = on_g (\<lambda>g. g\<lparr>left_margin := r ! 2, top_margin := r ! 3,
                   width := c_u16 (c_u16 (raw_width g - r ! 2) - r ! 4), height := c_u16 (c_u16 (raw_height g - r ! 3) - r ! 5)\<rparr>) s;
            s = s\<lparr>mask_arr := (mask_arr s)[1 := r ! 6, 3 := - (r ! 7), 5 := r ! 8, 7 := - (r ! 9)]\<rparr>
        in if r ! 10 \<noteq> 0 then set_filters (c_u32 (r ! 10 * 0x01010101)) s else s
      else s)"

definition identify_canon :: "int \<Rightarrow> meta \<Rightarrow> meta" where
  "identify_canon fsize s =
     (if cam_make (tg s) = ''Canon'' \<and> fsize = 0 \<and> tiff_bps (tg s) \<noteq> 15 then
        let s = fold canon_row canon_table (default_loader Lossless_jpeg_raw s)
        in if unique_id (tg s) OR 0x20000 = 0x2720000 then on_g (\<lambda>g. g\<lparr>left_margin := 8, top_margin := 16\<rparr>) s else s
      else s)"

text \<open>\<open>identify_each f xs\<close> runs \<open>f\<close> over a table.\<close>

fun identify_each :: "('a \<Rightarrow> 'b \<Rightarrow> 'b option) \<Rightarrow> 'a list \<Rightarrow> 'b \<Rightarrow> 'b option" where
  "identify_each f [] s = Some s"
| "identify_each f (x # xs) s = f x s \<bind> identify_each f xs"

definition unique_step :: "fp_ops \<Rightarrow> int \<times> string \<Rightarrow> meta \<Rightarrow> meta option" where
  "unique_step fp = (\<lambda>(k, name) s.
     if unique_id (tg s) = 0x80000000 + k then do {
       s \<leftarrow> adobe_coeff fp ''Canon'' name s;
       Some (if model_arr s ! 4 = 75 \<and> length (cam_model (tg s)) = 8 then name_model name s else s) }
     else Some s)"

definition sonique_step :: "int \<times> string \<Rightarrow> meta \<Rightarrow> meta" where
  "sonique_step = (\<lambda>(k, name) s. if unique_id (tg s) = k then name_model name s else s)"

text \<open>An entry with the mark @ is the name that the entries behind it stand for.\<close>

definition panalias_step :: "fp_ops \<Rightarrow> string \<Rightarrow> string \<times> meta \<Rightarrow> (string \<times> meta) option" where
  "panalias_step fp name = (\<lambda>(orig, s).
     if take 1 name = ''@'' then Some (drop 1 name, s)
     else if cam_model (tg s) = name then do { s \<leftarrow> adobe_coeff fp ''Panasonic'' orig s; Some (orig, s) }
     else Some (orig, s))"

definition identify_nikon :: "meta \<Rightarrow> meta" where
  "identify_nikon s =
     (if cam_make (tg s) = ''Nikon'' then
        let s = default_loader Packed_raw s
        in if model_arr s ! 0 = 69
           then on_g (\<lambda>g. g\<lparr>load_flags := load_flags g OR (if data_offset g = 0 then 6 else 2)\<rparr>) s else s
      else s)"

definition identify_numbers :: "fp_ops \<Rightarrow> int \<Rightarrow> meta \<Rightarrow> meta option" where
  "identify_numbers fp fsize s = do {
     s \<leftarrow> identify_each (unique_step fp) unique_table (identify_canon fsize s);
     (_, s) \<leftarrow> identify_each (panalias_step fp) panalias_table ('''', fold sonique_step sonique_table s);
     Some (identify_nikon s) }"

section \<open>find_green\<close>

text \<open>
  Two lines of the image are read with \<open>bps\<close> bits per sample, and the differences of diagonal neighbours
  compared: the sums tell on which places the green samples are.
\<close>

definition green_byte :: "int \<Rightarrow> nat \<Rightarrow> u64 \<times> bitio \<Rightarrow> u64 \<times> bitio" where
  "green_byte bite k = (\<lambda>(bits, io). case fgetc io of (c, io) \<Rightarrow> (bits OR word_of_int (c_u32 (shl c (8 * int k))), io))"

definition green_refill :: "int \<Rightarrow> (u64 \<times> int) \<times> bitio \<Rightarrow> (u64 \<times> int) \<times> bitio" where
  "green_refill bite = (\<lambda>((bits, vb), io).
     case fold (green_byte bite) [0 ..< nat ((bite + 7) div 8)] (shl64 bits bite, io) of (bits, io) \<Rightarrow> ((bits, vb + bite), io))"

text \<open>The refills that \<open>vb - bps < 0\<close> bits need.\<close>

definition green_pick :: "int \<Rightarrow> int \<Rightarrow> (u64 \<times> int) \<times> bitio \<Rightarrow> int \<times> (u64 \<times> int) \<times> bitio" where
  "green_pick bps bite = (\<lambda>((bits, vb), io).
     let vb = vb - bps;
         k = (if vb < 0 then (bite - 1 - vb) div bite else 0);
         ((bits, vb), io) = (green_refill bite ^^ nat k) ((bits, vb), io)
     in (uint (shr64 (shl64 bits (64 - bps - vb)) (64 - bps)), (bits, vb), io))"

definition green_line :: "int \<Rightarrow> int \<Rightarrow> int \<Rightarrow> u16 list \<Rightarrow> u64 \<Rightarrow> bitio \<Rightarrow> (u16 list \<times> u64 \<times> bitio) option" where
  "green_line bps bite w line bits io = do {
     (line, (bits, _), io) \<leftarrow> for_up 0 w (\<lambda>col (line, st, io). do {
        let (x, st, io) = green_pick bps bite (st, io);
        line \<leftarrow> wr line col x;
        Some (line, st, io) }) (line, (bits, 0), io);
     Some (line, bits, io) }"

definition green_sums :: "int \<Rightarrow> u16 list \<Rightarrow> u16 list \<Rightarrow> (int \<times> int) option" where
  "green_sums w a b =
     for_up 0 (w - 1) (\<lambda>c (s0, s1). do {
       p \<leftarrow> rd a c; q \<leftarrow> rd b (c + 1); r \<leftarrow> rd b c; t \<leftarrow> rd a (c + 1);
       Some (if c AND 1 = 0 then (s0 + \<bar>p - q\<bar>, s1 + \<bar>r - t\<bar>) else (s0 + \<bar>r - t\<bar>, s1 + \<bar>p - q\<bar>)) }) (0, 0)"

definition find_green :: "int \<Rightarrow> int \<Rightarrow> int \<Rightarrow> int \<Rightarrow> meta \<Rightarrow> (real_c \<times> meta) option" where
  "find_green bps bite off0 off1 s = do {
     let w = width (tg s);
     (a, bits, io) \<leftarrow> green_line bps bite w (uninit (tg s) 2064) 0 (fseek_set off0 (io_of s));
     (b, _, io) \<leftarrow> green_line bps bite w (uninit (tg s) 2064) bits (fseek_set off1 io);
     (s0, s1) \<leftarrow> green_sums w a b;
     Some (Product (Of_int 100) (Log (Quotient (Of_int s0) (Of_int s1))), set_io io s) }"

end
