(* ===== verification/CameraRules.thy ===== *)
theory CameraRules
  imports IdentifyHead
begin

text \<open>
  \<open>identify\<close>, the chain of rules that correct the geometry, the filter, the levels and the loader of single
  cameras. The test of a rule may read the file, and what a rule leaves is not looked at by the rules after
  it.
\<close>

section \<open>Rules by camera\<close>

text \<open>
  The chain of tests of \<open>identify\<close>, in pieces that end with the next one; they stand here in reverse order.
  The record holds what the tests use beside the globals: the size of the file (0 when the head was enough),
  its true size, the head, and the operations on numbers.
\<close>

record rule_env =
  re_fp :: fp_ops
  re_fsize :: int
  re_flen :: int
  re_head :: "u8 list"

text \<open>\<open>width -= dw; height -= dh;\<close>\<close>

definition crop :: "int \<Rightarrow> int \<Rightarrow> geom \<Rightarrow> geom" where
  "crop dw dh g = g\<lparr>width := c_u16 (width g - dw), height := c_u16 (height g - dh)\<rparr>"

definition margins :: "int \<Rightarrow> int \<Rightarrow> geom \<Rightarrow> geom" where
  "margins l t g = g\<lparr>left_margin := c_u16 l, top_margin := c_u16 t\<rparr>"

text \<open>\<open>model + k\<close>, which for a short model is what an older text left in the array.\<close>

abbreviation model_from :: "nat \<Rightarrow> meta \<Rightarrow> string" where
  "model_from k s \<equiv> c_str (drop k (model_arr s))"

abbreviation is_model :: "string \<Rightarrow> meta \<Rightarrow> bool" where
  "is_model m s \<equiv> cam_model (tg s) = m"

abbreviation model_begins :: "string \<Rightarrow> meta \<Rightarrow> bool" where
  "model_begins m s \<equiv> strncmp_eq (cam_model (tg s)) m"

abbreviation is_make :: "string \<Rightarrow> meta \<Rightarrow> bool" where
  "is_make m s \<equiv> cam_make (tg s) = m"

definition scale_mul :: "nat \<Rightarrow> real_c \<Rightarrow> meta \<Rightarrow> meta" where
  "scale_mul i x s = s\<lparr>cam_mul := (cam_mul s)[i := Product (cam_mul s ! i) x]\<rparr>"

definition set_pre_mul :: "(nat \<times> string) list \<Rightarrow> meta \<Rightarrow> meta" where
  "set_pre_mul xs s = s\<lparr>pre_mul := fold (\<lambda>(i, x) p. p[i := Decimal x]) xs (pre_mul s)\<rparr>"

text \<open>The last rules: PIXL, Kodak, Logitech, Apple, Rollei.\<close>

definition rules_rollei :: "meta \<Rightarrow> meta" where
  "rules_rollei s =
     (let s = (if raw_width (tg s) = 1316 then on_g (margins 6 1 \<circ> (\<lambda>g. g\<lparr>height := 1030, width := 1300\<rparr>)) s
               else if raw_width (tg s) = 2568 then on_g (margins 8 2 \<circ> (\<lambda>g. g\<lparr>height := 1960, width := 2560\<rparr>)) s
               else s)
      in set_loader Rollei_raw (set_filters 0x16161616 s))"

definition rules_quicktake :: "rule_env \<Rightarrow> meta \<Rightarrow> meta" where
  "rules_quicktake e s =
     (let s = (if re_head e ! 5 \<noteq> 0 then set_model (take 10 (model_arr s) @ strcpy ''200'' (drop 10 (model_arr s))) s else s);
          (h, s) = rd_io get2 (seek_set 544 s);
          (w, s) = rd_io get2 s;
          (k, s) = rd_io get2 (drop_io get4 s);
          off = (if k = 30 then 738 else 736);
          s = on_g (\<lambda>g. g\<lparr>height := h, width := w, data_offset := off\<rparr>) s;
          s = (if h > w then
                 case rd_io get2 (seek_set (off - 6) (on_g (\<lambda>g. g\<lparr>height := w, width := h\<rparr>) s)) of (x, s) \<Rightarrow>
                   s\<lparr>mflip := (if NOT x AND 3 \<noteq> 0 then 5 else 6)\<rparr>
               else s)
      in set_filters 0x61616161 s)"

definition rules_kodak_dc2 :: "rule_env \<Rightarrow> meta \<Rightarrow> meta option" where
  "rules_kodak_dc2 e s = do {
     let s = on_g (\<lambda>g. g\<lparr>height := 242, raw_height := 244\<rparr>) s;
     let s = (if re_flen e < 100000
              then (on_g (\<lambda>g. g\<lparr>raw_width := 256, width := 249\<rparr>) s)
                \<lparr>pixel_aspect := Quotient (Product (Decimal ''4.0'') (Of_int 242)) (Product (Decimal ''3.0'') (Of_int 249))\<rparr>
              else (on_g (\<lambda>g. g\<lparr>raw_width := 512, width := 501\<rparr>) s)
                \<lparr>pixel_aspect := Quotient (Product (Decimal ''493.0'') (Of_int 242)) (Product (Decimal ''373.0'') (Of_int 501))\<rparr>);
     s \<leftarrow> simple_coeff 1 (on_d (\<lambda>t. t\<lparr>colors := 4, filters := 0x8d8d8d8d\<rparr>) (on_g (margins 1 1) s));
     Some (set_loader Eight_bit_raw (set_pre_mul [(1, ''1.179''), (2, ''1.209''), (3, ''1.036'')] s)) }"

definition kodak_768 :: "int \<Rightarrow> meta \<Rightarrow> meta" where
  "kodak_768 off s = set_loader Kodak_radc_raw (on_g (\<lambda>g. g\<lparr>height := 512, width := 768, data_offset := off\<rparr>) s)"

definition kodak_bw :: "meta \<Rightarrow> meta" where
  "kodak_bw s = on_d (\<lambda>t. t\<lparr>colors := 1, filters := 0\<rparr>) s"

definition rules_kodak :: "rule_env \<Rightarrow> meta \<Rightarrow> meta option" where
  "rules_kodak e s = do {
     let s = (if filters (td s) = UINT_MAX then set_filters 0x61616161 s else s);
     let s = (if model_begins ''NC2000'' s \<or> model_begins ''EOSDCS'' s \<or> model_begins ''DCS4'' s then
                let s = on_g ((\<lambda>g. g\<lparr>left_margin := 2\<rparr>) \<circ> crop 4 0) s;
                    s = (if model_arr s ! 6 = 32 then set_model ((model_arr s)[6 := 0]) s else s)
                in if is_model ''DCS460A'' s then kodak_bw s else s
              else if is_model ''DCS660M'' s then kodak_bw (on_d (black_update (\<lambda>_. 214)) s)
              else if is_model ''DCS760M'' s then kodak_bw s
              else s);
     let s = (if model_from 4 s = ''20X'' then s\<lparr>cdesc := strcpy ''MYCY'' (cdesc s)\<rparr> else s);
     let s = (if strstr (cam_model (tg s)) ''DC25'' then on_g (data_offset_update (\<lambda>_. 15424)) (name_model ''DC25'' s) else s);
     if model_begins ''DC2'' s then rules_kodak_dc2 e s
     else if is_model ''40'' s then Some (on_g (tiff_bps_update (\<lambda>_. 12)) (kodak_768 1152 (name_model ''DC40'' s)))
     else if strstr (cam_model (tg s)) ''DC50'' then Some (kodak_768 19712 (name_model ''DC50'' s))
     else if strstr (cam_model (tg s)) ''DC120'' then
       Some (set_loader (if tiff_compress (tg s) = 7 then Kodak_jpeg_raw else Kodak_dc120_raw)
         ((on_g (\<lambda>g. g\<lparr>height := 976, width := 848\<rparr>) (name_model ''DC120'' s))
            \<lparr>pixel_aspect := Quotient (Quotient (Of_int 976) (Decimal ''0.75'')) (Of_int 848)\<rparr>))
     else if is_model ''DCS200'' s then
       Some (on_d (black_update (\<lambda>_. 17))
         (s\<lparr>thumb_height := 128, thumb_width := 192, thumb_offset := 6144, thumb_misc := 360, write_thumb := Layer_thumb\<rparr>))
     else Some s }"

definition rules_c603 :: "fp_ops \<Rightarrow> meta \<Rightarrow> meta option" where
  "rules_c603 fp s = do {
     let s = set_order 0x4949 s;
     s \<leftarrow> (if filters (td s) \<noteq> 0 \<and> data_offset (tg s) \<noteq> 0 then do {
            let s = seek_set (if data_offset (tg s) < 4096 then 168 else 5252) s;
            (cv, io) \<leftarrow> read_shorts (curve (td s)) 0 256 (io_of s);
            Some (on_d (curve_update (\<lambda>_. cv)) (set_io io s)) }
          else Some (gamma_to fp (Of_int 0) (Decimal ''3.875'') 255 s));
     let s = set_loader (if filters (td s) \<noteq> 0 then Eight_bit_raw else if is_model ''C330'' s then Kodak_c330_raw else Kodak_c603_raw) s;
     Some (on_g (\<lambda>g. g\<lparr>load_flags := (if tiff_bps g > 16 then 1 else 0), tiff_bps := 8\<rparr>) s) }"

definition rules_last :: "rule_env \<Rightarrow> meta \<Rightarrow> meta option" where
  "rules_last e s =
     (if is_model ''PIXL'' s then
        Some (gamma_to (re_fp e) (Of_int 0) (Of_int 7) 255 (on_g (margins 32 4 \<circ> crop 32 4) s))
      else if is_model ''C603'' s \<or> is_model ''C330'' s \<or> is_model ''12MP'' s then rules_c603 (re_fp e) s
      else if strncmp_eq (map lower (cam_model (tg s))) ''easyshare'' then
        Some (set_loader Packed_raw (on_g (\<lambda>g. g\<lparr>data_offset := (if data_offset g < 0x15000 then 0x15000 else 0x17000)\<rparr>) s))
      else if map lower (cam_make (tg s)) = ''kodak'' then rules_kodak e s
      else if is_model ''Fotoman Pixtura'' s then simple_coeff 2 (set_filters 0x61616161 (kodak_768 3632 s))
      else if model_begins ''QuickTake'' s then Some (rules_quicktake e s)
      else if is_make ''Rollei'' s \<and> load_raw s = None then Some (rules_rollei s)
      else Some s)"

text \<open>Sony and Contax.\<close>

definition rules_sony_width :: "meta \<Rightarrow> meta option" where
  "rules_sony_width s =
     (let rw = raw_width (tg s); h = height (tg s) in
      if rw = 3984 then Some (set_order 0x4d4d (on_g (width_update (\<lambda>_. 3925)) s))
      else if rw = 4288 then Some (on_g (crop 32 0) s)
      else if rw = 4600 then
        Some (on_d (black_update (\<lambda>_. 0)) (if is_model ''DSLR-A350'' s then on_g (crop 0 4) s else s))
      else if rw = 4928 then Some (if h < 3280 then on_g (crop 8 0) s else s)
      else if rw = 5504 then
        let s = on_g (crop (if h > 3664 then 8 else 32) 0) s
        in Some (if model_begins ''DSC'' s then on_d (black_update (\<lambda>_. c_u32 (shl_i 200 (c_u32 (tiff_bps (tg s) - 12))))) s else s)
      else if rw = 6048 then
        let s = on_g (crop 24 0) s
        in Some (if strstr (cam_model (tg s)) ''RX1'' \<or> strstr (cam_model (tg s)) ''A99'' then on_g (crop 6 0) s else s)
      else if rw = 7392 then Some (on_g (crop 30 0) s)
      else if rw = 8000 then Some (on_g (crop 32 0) s)
      else None)"

definition rules_a100 :: "meta \<Rightarrow> meta" where
  "rules_a100 s =
     set_filters 0x61616161
       (if width (tg s) = 3880
        then on_g (\<lambda>g. g\<lparr>height := c_u16 (height g - 1), raw_width := c_u16 (raw_width g + 1), width := c_u16 (raw_width g + 1)\<rparr>) s
        else set_order 0x4d4d (on_g ((\<lambda>g. g\<lparr>load_flags := 2\<rparr>) \<circ> crop 4 4) s))"

definition rules_sony :: "rule_env \<Rightarrow> meta \<Rightarrow> meta option" where
  "rules_sony e s =
     (if is_model ''N Digital'' s then
        Some (set_loader Packed_raw (set_filters 0x61616161 (on_g (\<lambda>g. g\<lparr>height := 2047, width := 3072, data_offset := 0x1a00\<rparr>) s)))
      else if is_model ''DSC-F828'' s then
        Some (set_loader Sony_raw (on_d (\<lambda>t. t\<lparr>filters := 0x9c9c9c9c, colors := 4\<rparr>)
          (on_g (\<lambda>g. g\<lparr>width := 3288, left_margin := 5, data_offset := 862144\<rparr>)
            (s\<lparr>mask_arr := (mask_arr s)[7 := - 17], cdesc := strcpy ''RGBE'' (cdesc s)\<rparr>))))
      else if is_model ''DSC-V3'' s then
        Some (set_loader Sony_raw (on_g (\<lambda>g. g\<lparr>width := 3109, left_margin := 59, data_offset := 787392\<rparr>)
          (s\<lparr>mask_arr := (mask_arr s)[1 := 9]\<rparr>)))
      else
        case (if is_make ''Sony'' s then rules_sony_width s else None) of
          Some s \<Rightarrow> Some s
        | None \<Rightarrow> if is_model ''DSLR-A100'' s then Some (rules_a100 s) else rules_last e s)"

text \<open>Olympus.\<close>

definition rules_olympus :: "rule_env \<Rightarrow> meta \<Rightarrow> meta" where
  "rules_olympus e s =
     (let s = on_g (\<lambda>g. g\<lparr>height := c_u16 (height g + (height g AND 1))\<rparr>) s;
          s = (if exif_cfa s \<noteq> 0 then set_filters (exif_cfa s) s else s);
          s = (if width (tg s) = 4100 then on_g (crop 4 0) s else s);
          s = (if width (tg s) = 4080 then on_g (crop 24 0) s else s);
          s = (if width (tg s) = 9280 then on_g (crop 6 6) s else s);
          plain = (load_raw s = Some Unpacked_raw);
          s = on_g (\<lambda>g. g\<lparr>load_flags := (if plain then 4 else load_flags g), tiff_bps := 12\<rparr>) s
      in if is_model ''E-300'' s \<or> is_model ''E-500'' s then
           let s = on_g (crop 20 0) s
           in if plain then on_d (\<lambda>t. t\<lparr>maximum := 0xfc3, cblack := replicate (length (cblack t)) 0\<rparr>) s else s
         else if is_model ''E-330'' s then
           let s = on_g (crop 30 0) s in if plain then on_d (maximum_update (\<lambda>_. 0xf79)) s else s
         else if is_model ''SP550UZ'' s then
           s\<lparr>thumb_offset := 0xa39800, thumb_length := c_u32 (re_flen e - 0xa39800), thumb_height := 480, thumb_width := 640\<rparr>
         else if is_model ''TG-4'' s then on_g (crop 16 0) s
         else if is_model ''TG-5'' s then on_g (crop 6 0) s
         else if is_model ''TG-6'' s then on_g (crop 12 0) s
         else s)"

text \<open>Panasonic and Leica: the filter follows from the one found and the parity of the margins.\<close>

definition pana_row :: "int list \<Rightarrow> geom \<Rightarrow> geom" where
  "pana_row r g =
     (if raw_width g = r ! 0 \<and> raw_height g = r ! 1
      then crop (- (r ! 4)) (- (r ! 5)) (margins (r ! 2) (r ! 3) g) else g)"

definition rules_panasonic :: "rule_env \<Rightarrow> meta \<Rightarrow> meta option" where
  "rules_panasonic e s = do {
     rows \<leftarrow> c_div (re_flen e - data_offset (tg s)) (raw_width (tg s) * 8 sdiv 7);
     let s = (if rows = raw_height (tg s) then set_loader Panasonic_raw s else s);
     let s = (if load_raw s = None then on_g (load_flags_update (\<lambda>_. 4)) (set_loader Unpacked_raw s) else s);
     let s = on_g (\<lambda>g. let h = c_u16 (height g + 12) in g\<lparr>height := (if h > raw_height g then raw_height g else h)\<rparr>) (s\<lparr>zero_is_bad := 1\<rparr>);
     let s = on_g (fold pana_row pana_table) s;
     let k = ((filters (td s) - 1) XOR (left_margin (tg s) AND 1) XOR shl (top_margin (tg s)) 1) AND 3;
     Some (set_filters (0x01010101 * [0x94, 0x61, 0x49, 0x16] ! nat k) s) }"

text \<open>Leaf.\<close>

definition rules_leaf_size :: "meta \<Rightarrow> meta" where
  "rules_leaf_size s =
     (let w = width (tg s); h = height (tg s) in
      if w OR h = 2048 then
        if tiff_samples (tg s) = 1
        then on_g (margins 18 8 \<circ> (\<lambda>g. g\<lparr>height := 2032, width := 2016\<rparr>))
               (name_model ''CatchLight'' (set_filters 1 (s\<lparr>cdesc := strcpy ''RBTG'' (cdesc s)\<rparr>)))
        else on_g (margins 16 10 \<circ> (\<lambda>g. g\<lparr>height := 2028, width := 2022\<rparr>)) (name_model ''DCB2'' s)
      else s)"

definition rules_cantare :: "fp_ops \<Rightarrow> meta \<Rightarrow> meta" where
  "rules_cantare fp s =
     (let s = (if model_arr s ! 0 = 0 then name_model ''Cantare'' s else s);
          s = (if width (tg s) > height (tg s)
               then set_filters 0x61616161 (on_g (margins 32 6 \<circ> (\<lambda>g. g\<lparr>height := 2048, width := 3072\<rparr>)) s)
               else set_filters 0x16161616 (on_g (margins 6 32 \<circ> (\<lambda>g. g\<lparr>height := 3072, width := 2048\<rparr>)) s))
      in if \<not> fp_nonzero fp (cam_mul s ! 0) \<or> model_arr s ! 0 = 86 then set_filters 0 s
         else on_g (\<lambda>g. g\<lparr>is_raw := tiff_samples g\<rparr>) s)"

definition rules_leaf :: "rule_env \<Rightarrow> meta \<Rightarrow> meta option" where
  "rules_leaf e s = do {
     let s = on_d (maximum_update (\<lambda>_. 0x3fff)) s;
     ((found, jh), io) \<leftarrow> ljpeg_start (tg s) True (fseek_set (data_offset (tg s)) (io_of s));
     let s = set_io io s;
     let s = (if found \<and> jh_bits jh = 15 then on_d (maximum_update (\<lambda>_. 0x1fff)) s else s);
     let s = (if tiff_samples (tg s) > 1 then set_filters 0 s else s);
     let s = (if tiff_samples (tg s) > 1 \<or> tile_length (tg s) < raw_height (tg s)
              then on_g (\<lambda>g. g\<lparr>raw_width := c_u16 (tile_width g)\<rparr>) (set_loader Leaf_hdr_raw s) else s);
     let w = width (tg s);
     let h = height (tg s);
     Some (if w OR h = 2048 then rules_leaf_size s
           else if w + h = 3144 + 2060 then rules_cantare (re_fp e) s
           else if w = 2116 then set_filters 0x49494949 (on_g (margins 55 30 \<circ> crop 110 60) (name_model ''Valeo 6'' s))
           else if w = 3171 then set_filters 0x16161616 (on_g (margins 24 24 \<circ> crop 48 48) (name_model ''Valeo 6'' s))
           else s) }"

text \<open>Hasselblad and Sinar.\<close>

definition rules_hasselblad :: "meta \<Rightarrow> meta" where
  "rules_hasselblad s =
     (let s = (if load_raw s = Some Lossless_jpeg_raw then set_loader Hasselblad_raw s else s);
          rw = raw_width (tg s);
          s = (if rw = 7262 then set_filters 0x61616161 (on_g (margins 7 4 \<circ> (\<lambda>g. g\<lparr>height := 5444, width := 7248\<rparr>)) s)
               else if rw = 7410 \<or> rw = 8282 then set_filters 0x61616161 (on_g (margins 41 4 \<circ> crop 82 84) s)
               else if rw = 8384 then on_g (margins 46 96 \<circ> (\<lambda>g. g\<lparr>height := 6208, width := 8280\<rparr>)) s
               else if rw = 9044 then
                 on_d (\<lambda>t. t\<lparr>black := c_u32 (black t + 256), maximum := 0x8101\<rparr>)
                   (on_g (margins 40 8 \<circ> (\<lambda>g. g\<lparr>height := 6716, width := 8964, load_flags := 256\<rparr>)) s)
               else if rw = 4090 then set_filters 0x61616161 (on_g (margins 3 6 \<circ> crop 10 6) (name_model ''V96C'' s))
               else s)
      in if tiff_samples (tg s) > 1 then
           let s = on_g (\<lambda>g. g\<lparr>is_raw := c_u32 (tiff_samples g + 1)\<rparr>) s
           in if shot_select (tg s) = 0 \<and> half_size s = 0 then set_filters 0 s else s
         else s)"

definition rules_sinar :: "meta \<Rightarrow> meta" where
  "rules_sinar s =
     (let s = default_loader Unpacked_raw s;
          s = (if is_raw (tg s) > 1 \<and> shot_select (tg s) = 0 \<and> half_size s = 0 then set_filters 0 s else s)
      in on_d (maximum_update (\<lambda>_. 0x3fff)) s)"

definition rules_makers :: "rule_env \<Rightarrow> meta \<Rightarrow> meta option" where
  "rules_makers e s =
     (if is_model ''STV680 VGA'' s then Some (on_d (black_update (\<lambda>_. 16)) s)
      else if is_model ''N95'' s then Some (on_g (\<lambda>g. g\<lparr>top_margin := 2, height := c_u16 (raw_height g - 2)\<rparr>) s)
      else if is_model ''640x480'' s then Some (gamma_to (re_fp e) (Decimal ''0.45'') (Decimal ''4.5'') 255 s)
      else if is_make ''Hasselblad'' s then Some (rules_hasselblad s)
      else if is_make ''Sinar'' s then Some (rules_sinar s)
      else if is_make ''Leaf'' s then rules_leaf e s
      else if is_make ''Leica'' s \<or> is_make ''Panasonic'' s then rules_panasonic e s
      else if is_model ''C770UZ'' s then
        Some (set_loader Packed_raw (set_filters 0x16161616 (on_g (\<lambda>g. g\<lparr>height := 1718, width := 2304, load_flags := 30\<rparr>) s)))
      else if is_make ''Olympus'' s then Some (rules_olympus e s)
      else rules_sony e s)"

text \<open>Samsung and Pentax.\<close>

definition rules_samsung :: "rule_env \<Rightarrow> meta \<Rightarrow> meta option" where
  "rules_samsung e s =
     (let sam = is_make ''Samsung'' s; rw = raw_width (tg s) in
      if is_model ''*ist D'' s then Some (set_loader Unpacked_raw (on_io (data_error_update (\<lambda>_. UINT_MAX)) s))
      else if is_model ''*ist DS'' s then Some (on_g (crop 0 2) s)
      else if sam \<and> rw = 4704 then Some (on_g ((\<lambda>g. g\<lparr>load_flags := 256\<rparr>) \<circ> margins 8 8 \<circ> crop 16 8) s)
      else if sam \<and> raw_height (tg s) = 3714 then
        let s = on_g (\<lambda>g. g\<lparr>height := c_u16 (height g - 18), top_margin := 18, width := 5536, left_margin := c_u16 (raw_width g - 5536)\<rparr>) s;
            s = (if rw \<noteq> 5600 then on_g (margins 0 0) s else s)
        in Some (on_d (\<lambda>t. t\<lparr>filters := 0x61616161, colors := 3\<rparr>) s)
      else if sam \<and> rw = 5632 then
        Some (set_order 0x4949 (on_g (\<lambda>g. let l = c_u16 (32 + tiff_bps g) in
          g\<lparr>height := 3694, top_margin := 2, left_margin := l, width := c_u16 (5574 - l),
            load_flags := (if tiff_bps g = 12 then 80 else load_flags g)\<rparr>) s))
      else if sam \<and> rw = 5664 then
        Some (set_filters 0x49494949 (on_g (margins 96 17 \<circ> (\<lambda>g. g\<lparr>height := c_u16 (height g - 17), width := 5544\<rparr>)) s))
      else if sam \<and> rw = 6496 then
        Some (on_d (\<lambda>t. t\<lparr>filters := 0x61616161, black := c_u32 (shl_i 1 (c_u32 (tiff_bps (tg s) - 7)))\<rparr>) s)
      else if is_model ''EX1'' s then
        let s = on_g ((\<lambda>g. g\<lparr>top_margin := 2\<rparr>) \<circ> crop 6 20) (set_order 0x4949 s)
        in Some (if width (tg s) > 3682 then on_g ((\<lambda>g. g\<lparr>top_margin := 8\<rparr>) \<circ> crop 46 10) s else s)
      else if is_model ''WB2000'' s then
        let s = on_g ((\<lambda>g. g\<lparr>top_margin := 2\<rparr>) \<circ> crop 10 3) (set_order 0x4949 s)
        in Some (if width (tg s) > 3718 then on_g ((\<lambda>g. g\<lparr>top_margin := 8\<rparr>) \<circ> crop 56 28) s else s)
      else if strstr (cam_model (tg s)) ''WB550'' then Some (name_model ''WB550'' s)
      else if is_model ''EX2F'' s then
        Some (set_loader Unpacked_raw (set_filters 0x49494949
          (on_g (\<lambda>g. g\<lparr>height := 3045, width := 4070, top_margin := 3\<rparr>) (set_order 0x4949 s))))
      else rules_makers e s)"

text \<open>Konica and Minolta.\<close>

definition konica_400z :: "meta \<Rightarrow> meta" where
  "konica_400z s = set_order 0x4d4d (on_d (maximum_update (\<lambda>_. 0x3df)) (set_loader Unpacked_raw s))"

definition dimage_g :: "meta \<Rightarrow> meta" where
  "dimage_g s = konica_400z (set_filters 0x61616161 (on_g (\<lambda>g. g\<lparr>data_offset := data_offset g + 14\<rparr>) s))"

definition konica_510z :: "meta \<Rightarrow> meta" where
  "konica_510z s = dimage_g (on_g (\<lambda>g. g\<lparr>height := 1956, width := 2607, raw_width := 2624\<rparr>) s)"

text \<open>
  \<open>sprintf (model+20, "DYNAX %-10s", model+6+(model[0]=='M'))\<close>: the name is padded to ten characters. A
  model that reaches into the place of the result is a fault.
\<close>

definition dynax_name :: "meta \<Rightarrow> string" where
  "dynax_name s =
     (let m = model_from (if model_arr s ! 0 = 77 then 7 else 6) s in ''DYNAX '' @ m @ replicate (10 - length m) (CHR '' ''))"

definition rules_minolta :: "rule_env \<Rightarrow> meta \<Rightarrow> meta option" where
  "rules_minolta e s =
     (let s = (if load_raw s = None then set_loader Unpacked_raw (on_d (maximum_update (\<lambda>_. 0xfff)) s) else s) in
      if model_begins ''DiMAGE A'' s then
        let s = (if is_model ''DiMAGE A200'' s then set_filters 0x49494949 s else s)
        in Some (set_loader Packed_raw (on_g (tiff_bps_update (\<lambda>_. 12)) s))
      else if model_begins ''ALPHA'' s \<or> model_begins ''DYNAX'' s \<or> model_begins ''MAXXUM'' s then do {
        let name = dynax_name s;
        arr \<leftarrow> (if length (cam_model (tg s)) < 20 then strcpy_c name (drop 20 (model_arr s)) else None);
        let s = set_model (take 20 (model_arr s) @ arr) s;
        s \<leftarrow> adobe_coeff (re_fp e) (cam_make (tg s)) name s;
        Some (set_loader Packed_raw s) }
      else if model_begins ''DiMAGE G'' s then
        let c = model_arr s ! 8 in
        if c = 53 then Some (konica_510z s)
        else Some (dimage_g (if c = 52 then on_g (\<lambda>g. g\<lparr>height := 1716, width := 2304\<rparr>) s
                             else if c = 54 then on_g (\<lambda>g. g\<lparr>height := 2136, width := 2848\<rparr>) s else s))
      else Some s)"

definition rules_konica :: "rule_env \<Rightarrow> meta \<Rightarrow> meta option" where
  "rules_konica e s =
     (if is_model ''KD-400Z'' s then Some (konica_400z (on_g (\<lambda>g. g\<lparr>height := 1712, width := 2312, raw_width := 2336\<rparr>) s))
      else if is_model ''KD-510Z'' s then Some (konica_510z s)
      else if map lower (cam_make (tg s)) = ''minolta'' then rules_minolta e s
      else rules_samsung e s)"

text \<open>Fujifilm: margins in the middle, then the exceptions.\<close>

definition fuji_margins :: "geom \<Rightarrow> geom" where
  "fuji_margins g =
     (let g = g\<lparr>top_margin := c_u16 (shl (shr (raw_height g - height g) 2) 1), left_margin := c_u16 (shl (shr (raw_width g - width g) 2) 1)\<rparr>;
          g = (if width g \<in> {4032, 4952, 6032, 8280} then g\<lparr>left_margin := 0\<rparr> else g);
          g = (if width g = 3328 then g\<lparr>width := 3262, left_margin := 34\<rparr> else g)
      in if width g = 4936 then g\<lparr>left_margin := 4\<rparr> else g)"

definition fuji_models :: "geom \<Rightarrow> geom" where
  "fuji_models g =
     (let m = cam_model g; at_5 = (\<lambda>w h g. (margins 0 5 g)\<lparr>width := w, height := h\<rparr>) in
      if m \<in> {''X-Pro3'', ''X-T3'', ''X-T4'', ''X100V'', ''X-S10'', ''X-H2S''} \<or> strncmp_eq m ''X-T30'' then at_5 6252 4176 g
      else if m = ''X-E4'' then at_5 6252 4126 g
      else if m = ''X-T5'' \<or> m = ''X-H2'' then at_5 7752 5184 g
      else if m = ''GFX 100'' \<or> m = ''GFX100S'' then
        if width g < 23328 then (margins 0 2 g)\<lparr>width := 11664\<rparr> else (margins 0 4 g)\<lparr>width := 23328\<rparr>
      else g)"

definition fuji_xtrans_shift :: "geom \<Rightarrow> geom" where
  "fuji_xtrans_shift g =
     g\<lparr>xtrans := map (\<lambda>r. map (\<lambda>c. xtrans_abs g ! nat ((int r + top_margin g) mod 6) ! nat ((int (6 * r + c) + left_margin g) mod 6)) [0..<6]) [0..<6]\<rparr>"

definition rules_fuji :: "meta \<Rightarrow> meta" where
  "rules_fuji s =
     (let s = (if model_from 7 s = ''S2Pro''
               then (on_g (\<lambda>g. g\<lparr>height := 2144, width := 2880\<rparr>) (name_model ''S2Pro'' s))\<lparr>mflip := 6\<rparr>
               else if is_model ''GFX50S II'' s then on_g (width_update (\<lambda>_. 8280)) s else s);
          s = (if width (tg s) = 2848 \<or> width (tg s) = 3664 then set_filters 0x16161616 s else s);
          s = on_g (fuji_models \<circ> fuji_margins) s;
          s = (if is_model ''HS50EXR'' s \<or> is_model ''F900EXR'' s
               then set_filters 0x16161616 (on_g (\<lambda>g. g\<lparr>width := c_u16 (width g + 2), left_margin := 0\<rparr>) s) else s);
          s = (if fuji_layout (tg s) \<noteq> 0 then on_g (\<lambda>g. g\<lparr>raw_width := c_u16 (raw_width g * is_raw g)\<rparr>) s else s)
      in if filters (td s) = 9 then on_g fuji_xtrans_shift s else s)"

text \<open>Cameras known by the size of their files.\<close>

definition rules_4771840 :: "meta \<Rightarrow> meta option" where
  "rules_4771840 s = do {
     s \<leftarrow> (if timestamp s = 0 then do {
              (x, io) \<leftarrow> nikon_e995 (io_of s);
              let s = set_io io s;
              Some (if x \<noteq> 0 then name_model ''E995'' s else s) }
            else Some s);
     if is_model ''E995'' s then Some s
     else do {
       s \<leftarrow> simple_coeff 3 (set_filters 0xb4b4b4b4 s);
       Some (set_pre_mul [(0, ''1.196''), (1, ''1.246''), (2, ''1.018'')] s) } }"

definition rules_2940928 :: "meta \<Rightarrow> meta" where
  "rules_2940928 s =
     (let s = (if timestamp s = 0 then
                 case nikon_e2100 (tg s) (io_of s) of (x, io) \<Rightarrow>
                   let s = set_io io s in if x = 0 then name_model ''E2500'' s else s
               else s)
      in if is_model ''E2500'' s
         then on_d (\<lambda>t. t\<lparr>colors := 4, filters := 0x4b4b4b4b\<rparr>) (on_g ((\<lambda>g. g\<lparr>load_flags := 6\<rparr>) \<circ> crop 0 2) s) else s)"

definition rules_4775936 :: "fp_ops \<Rightarrow> meta \<Rightarrow> meta option" where
  "rules_4775936 fp s = do {
     let s = (if timestamp s = 0 then
                case nikon_3700 (tg s) (io_of s) of (x, io) \<Rightarrow>
                  let s = set_io io s in (case x of None \<Rightarrow> s | Some (mk, md) \<Rightarrow> name_model md (name_make mk s))
              else s);
     let s = (if model_arr s ! 0 = 69 \<and> atoi (model_from 1 s) < 3700 then set_filters 0x49494949 s else s);
     let s = (if is_model ''Optio 33WR'' s then (set_filters 0x16161616 s)\<lparr>mflip := 1\<rparr> else s);
     if make_arr s ! 0 = 79 then do {
       (x, s) \<leftarrow> find_green 12 32 1188864 3576832 s;
       (y, s) \<leftarrow> find_green 12 32 2383920 2387016 s;
       let i = fp_int fp x;
       let c = fp_int fp y;
       let s = (if \<bar>i\<bar> < \<bar>c\<bar> then on_g (load_flags_update (\<lambda>_. 24)) s else s);
       Some (if (if \<bar>i\<bar> < \<bar>c\<bar> then c else i) < 0 then set_filters 0x61616161 s else s) }
     else Some s }"

definition rules_5869568 :: "meta \<Rightarrow> meta" where
  "rules_5869568 s =
     (let s = (if timestamp s = 0 then
                 case minolta_z2 (tg s) (io_of s) of (x, io) \<Rightarrow>
                   let s = set_io io s in if x then name_model ''DiMAGE Z2'' (name_make ''Minolta'' s) else s
               else s)
      in on_g (load_flags_update (\<lambda>_. 6 + (if make_arr s ! 0 = 77 then 24 else 0))) s)"

definition rules_6291456 :: "meta \<Rightarrow> meta" where
  "rules_6291456 s =
     (case guess_byte_order (tg s) 0x10000 (fseek_set 0x300000 (io_of s)) of (x, io) \<Rightarrow>
        let s = set_order x (set_io io s)
        in if x = 0x4d4d then
             let s = name_make ''ISG'' (on_d (maximum_update (\<lambda>_. 0xf5c0)) (on_g (margins 28 16 \<circ> crop 28 16) s))
             in set_model ((model_arr s)[0 := 0]) s
           else s)"

definition rules_by_size :: "rule_env \<Rightarrow> meta \<Rightarrow> meta option" where
  "rules_by_size e s =
     (if re_fsize e = 1581060 then do {
        s \<leftarrow> simple_coeff 3 s;
        Some (set_pre_mul [(0, ''1.2085''), (1, ''1.0943''), (3, ''1.1103'')] s) }
      else if re_fsize e = 3178560 then Some (scale_mul 2 (Of_int 4) (scale_mul 0 (Of_int 4) s))
      else if re_fsize e = 4771840 then rules_4771840 s
      else if re_fsize e = 2940928 then Some (rules_2940928 s)
      else if re_fsize e = 4775936 then rules_4775936 (re_fp e) s
      else if re_fsize e = 5869568 then Some (rules_5869568 s)
      else if re_fsize e = 6291456 then Some (rules_6291456 s)
      else if is_make ''Fujifilm'' s then Some (rules_fuji s)
      else rules_konica e s)"

text \<open>Nikon.\<close>

definition nikon_crops :: "(string list \<times> (geom \<Rightarrow> geom)) list" where
  "nikon_crops =
     [([''D40X'', ''D60'', ''D80'', ''D3000''], crop 4 3),
      ([''D3'', ''D3S'', ''D700''], (\<lambda>g. g\<lparr>left_margin := 2\<rparr>) \<circ> crop 4 0),
      ([''D3100''], (\<lambda>g. g\<lparr>left_margin := 6\<rparr>) \<circ> crop 28 0),
      ([''D5000'', ''D90''], crop 42 0),
      ([''D5100'', ''D7000'', ''COOLPIX A''], crop 44 0)]"

definition crops_of :: "(string list \<times> (geom \<Rightarrow> geom)) list \<Rightarrow> string \<Rightarrow> (geom \<Rightarrow> geom) option" where
  "crops_of rows m = (case filter (\<lambda>(ms, f). m \<in> set ms) rows of [] \<Rightarrow> None | (ms, f) # _ \<Rightarrow> Some f)"

definition rules_nikon_more :: "rule_env \<Rightarrow> meta \<Rightarrow> meta option" where
  "rules_nikon_more e s =
     (if is_model ''D3200'' s \<or> model_begins ''D6'' s \<or> model_begins ''D800'' s then Some (on_g (crop 46 0) s)
      else if is_model ''D4'' s \<or> is_model ''Df'' s then Some (on_g ((\<lambda>g. g\<lparr>left_margin := 2\<rparr>) \<circ> crop 52 0) s)
      else if model_begins ''D40'' s \<or> model_begins ''D50'' s \<or> model_begins ''D70'' s then Some (on_g (crop 1 0) s)
      else if is_model ''D100'' s then
        Some (if load_flags (tg s) \<noteq> 0
              then on_g (\<lambda>g. let w = c_u16 (width g + 3) in g\<lparr>width := w, raw_width := c_u16 (w + 3)\<rparr>) s else s)
      else if is_model ''D200'' s then Some (set_filters 0x94949494 (on_g ((\<lambda>g. g\<lparr>left_margin := 1\<rparr>) \<circ> crop 4 0) s))
      else if model_begins ''D2H'' s then Some (on_g ((\<lambda>g. g\<lparr>left_margin := 6\<rparr>) \<circ> crop 14 0) s)
      else if model_begins ''D2X'' s then Some (on_g (crop (if width (tg s) = 3264 then 32 else 8) 0) s)
      else if model_begins ''D300'' s then Some (on_g (crop 32 0) s)
      else if model_begins ''COOLPIX B'' s then Some (on_g (load_flags_update (\<lambda>_. 24)) s)
      else if model_begins ''COOLPIX P'' s \<and> raw_width (tg s) \<noteq> 4032 then
        let s = set_filters 0x94949494 (on_g (load_flags_update (\<lambda>_. 24)) s)
        in Some (if model_arr s ! 9 = 55 \<and> \<not> fp_less (re_fp e) (iso_speed s) (Of_int 400) then on_d (black_update (\<lambda>_. 255)) s else s)
      else if model_begins ''1 '' s then Some (on_g (crop 0 2) s)
      else rules_by_size e s)"

definition rules_nikon :: "rule_env \<Rightarrow> meta \<Rightarrow> meta option" where
  "rules_nikon e s =
     (if is_model ''D1'' s then
        Some (scale_mul 2 (Quotient (Of_int 256) (Decimal ''317.0'')) (scale_mul 0 (Quotient (Of_int 256) (Decimal ''527.0'')) s))
      else if is_model ''D1X'' s then Some ((on_g (crop 4 0) s)\<lparr>pixel_aspect := Decimal ''0.5''\<rparr>)
      else
        case crops_of nikon_crops (cam_model (tg s)) of
          Some f \<Rightarrow> Some (on_g f s)
        | None \<Rightarrow> rules_nikon_more e s)"

text \<open>Canon and Foveon.\<close>

definition canon_sraw_size :: "geom \<Rightarrow> geom" where
  "canon_sraw_size g =
     (let g = (if width g = 3344 then crop 72 0 g else if width g = 3872 then crop 6 0 g else g);
          g = (if height g > width g
               then g\<lparr>height := width g, width := height g, raw_height := raw_width g, raw_width := raw_height g\<rparr> else g)
      in if width g = 7200 \<and> height g = 3888
         then g\<lparr>raw_width := 6480, width := 6480, raw_height := 4320, height := 4320\<rparr> else g)"

definition canon_a5 :: "int \<Rightarrow> (geom \<Rightarrow> geom) \<Rightarrow> meta \<Rightarrow> meta" where
  "canon_a5 filt f s =
     set_loader Packed_raw (on_d (\<lambda>t. t\<lparr>filters := filt, colors := 4\<rparr>)
       (on_g ((\<lambda>g. g\<lparr>tiff_bps := 10, load_flags := 264\<rparr>) \<circ> f) s))"

definition rules_powershot :: "rule_env \<Rightarrow> meta \<Rightarrow> meta option" where
  "rules_powershot e s =
     (if is_model ''PowerShot 600'' s then
        Some (set_loader Canon_600_raw (on_d (\<lambda>t. t\<lparr>colors := 4, filters := 0xe1e4e1e4\<rparr>)
          (on_g (\<lambda>g. g\<lparr>height := 613, width := 854, raw_width := 896\<rparr>) s)))
      else if is_model ''PowerShot A5'' s \<or> is_model ''PowerShot A5 Zoom'' s then
        Some (canon_a5 0x1e4e1e4e (\<lambda>g. g\<lparr>height := 773, width := 960, raw_width := 992\<rparr>)
          (s\<lparr>pixel_aspect := Quotient (Of_int 256) (Decimal ''235.0'')\<rparr>))
      else if is_model ''PowerShot A50'' s then
        Some (canon_a5 0x1b4e4b1e (\<lambda>g. g\<lparr>height := 968, width := 1290, raw_width := 1320\<rparr>) s)
      else if is_model ''PowerShot Pro70'' s then Some (canon_a5 0x1e4b4e1b (\<lambda>g. g\<lparr>height := 1024, width := 1552\<rparr>) s)
      else if is_model ''PowerShot Pro90 IS'' s \<or> is_model ''PowerShot G1'' s then
        Some (on_d (\<lambda>t. t\<lparr>colors := 4, filters := 0xb4b4b4b4\<rparr>) s)
      else if is_model ''PowerShot A610'' s then
        (case canon_s2is (io_of s) of (x, io) \<Rightarrow>
           let s = set_io io s
           in Some (if x \<noteq> 0 then set_model (take 10 (model_arr s) @ strcpy ''S2 IS'' (drop 10 (model_arr s))) s else s))
      else if is_model ''PowerShot SX220 HS'' s then Some (s\<lparr>mask_arr := (mask_arr s)[7 := - 4]\<rparr>)
      else if is_model ''EOS D2000C'' s then do {
        x \<leftarrow> rd (curve (td s)) 200;
        Some (on_d (\<lambda>t. t\<lparr>filters := 0x61616161, black := x\<rparr>) s) }
      else if is_model ''EOS 80D'' s then
        Some (on_g (\<lambda>g. g\<lparr>top_margin := c_u16 (top_margin g - 2), height := c_u16 (height g + 2)\<rparr>) s)
      else rules_nikon e s)"

definition rules_foveon :: "meta \<Rightarrow> meta option" where
  "rules_foveon s =
     (let h = height (tg s); w = width (tg s);
          s = (if h * 2 < w then s\<lparr>pixel_aspect := Decimal ''0.5''\<rparr> else s);
          s = (if h > w then s\<lparr>pixel_aspect := Of_int 2\<rparr> else s)
      in simple_coeff 0 (set_filters 0 s))"

definition identify_rules :: "rule_env \<Rightarrow> meta \<Rightarrow> meta option" where
  "identify_rules e s =
     (if is_foveon s \<noteq> 0 then rules_foveon s
      else if is_make ''Canon'' s \<and> tiff_bps (tg s) = 15 then
        Some (set_loader Canon_sraw_raw (on_d (\<lambda>t. t\<lparr>filters := 0, colors := 3\<rparr>)
          (on_g ((\<lambda>g. g\<lparr>tiff_samples := 3\<rparr>) \<circ> canon_sraw_size) s)))
      else rules_powershot e s)"

text \<open>The tests before and after the chain.\<close>

definition rules_before :: "rule_env \<Rightarrow> meta \<Rightarrow> meta option" where
  "rules_before e s = do {
     s \<leftarrow> (if is_model ''KAI-0340'' s then do {
            (x, s) \<leftarrow> find_green 16 16 3840 5120 s;
            Some (if fp_less (re_fp e) x (Of_int 25)
                  then name_model ''C603'' (set_filters 0 (on_g (\<lambda>g. g\<lparr>height := 480, top_margin := 0\<rparr>) s)) else s) }
          else Some s);
     Some (if is_make ''Sony'' s \<and> raw_width (tg s) > 3888
           then on_d (black_update (\<lambda>_. c_u32 (shl_i 128 (c_u32 (tiff_bps (tg s) - 12))))) s else s) }"

definition rules_after :: "meta \<Rightarrow> meta option" where
  "rules_after s = do {
     let s = (if model_arr s ! 0 = 0 then name_model (print_int (width (tg s)) @ ''x'' @ print_int (height (tg s))) s else s);
     let s = (if filters (td s) = UINT_MAX then set_filters 0x94949494 s else s);
     if thumb_offset s \<noteq> 0 \<and> thumb_height s = 0 then do {
       ((found, jh), io) \<leftarrow> ljpeg_start (tg s) True (fseek_set (thumb_offset s) (io_of s));
       let s = set_io io s;
       Some (if found then s\<lparr>thumb_width := c_u16 (jh_wide jh), thumb_height := c_u16 (jh_high jh)\<rparr> else s) }
     else Some s }"

end
