(* ===== verification/Identify.thy ===== *)
theory Identify
  imports CameraRules
begin

text \<open>
  \<open>identify\<close>, the end and the whole: the colour matrix, the defaults, and the verdict \<open>is_raw\<close>. What holds
  when that is not zero is the contract of the loaders with \<open>main\<close>. The program is built without the
  libraries for JPEG and JPEG 2000, whose loaders it therefore rejects.
\<close>

section \<open>The end\<close>

text \<open>From \<open>dng_skip\<close> on: the colour matrix, the size of a rotated Fuji image, defaults.\<close>

definition final_matrix :: "fp_ops \<Rightarrow> meta \<Rightarrow> meta option" where
  "final_matrix fp s = do {
     let camera = (use_camera_wb s \<noteq> 0 \<or> dng_version (tg s) \<noteq> 0);
     let s = (if use_camera_matrix s AND (if camera then 1 else 0) \<noteq> 0 \<and> fp_less fp (Decimal ''0.125'') (cmatrix s ! 0)
              then on_d (raw_color_update (\<lambda>_. 0)) (s\<lparr>rgb_cam := cmatrix s\<rparr>) else s);
     s \<leftarrow> (if raw_color (td s) \<noteq> 0 then adobe_coeff fp (cam_make (tg s)) (cam_model (tg s)) s else Some s);
     if load_raw s = Some Kodak_radc_raw \<and> raw_color (td s) \<noteq> 0 then adobe_coeff fp ''Apple'' ''Quicktake'' s else Some s }"

definition final_geom :: "meta \<Rightarrow> meta" where
  "final_geom s =
     (let g = tg s in
      if fuji_width g \<noteq> 0 then
        let fw = shr (width g) (if fuji_layout g = 0 then 1 else 0); w = c_u16 (shr_i (height g) (fuji_layout g) + fw)
        in set_filters (if fw AND 1 \<noteq> 0 then 0x94949494 else 0x49494949)
             (on_g (\<lambda>g. g\<lparr>fuji_width := fw, width := w, height := c_u16 (w - 1)\<rparr>) (s\<lparr>pixel_aspect := Of_int 1\<rparr>))
      else on_g (\<lambda>g. g\<lparr>raw_height := max (raw_height g) (height g), raw_width := max (raw_width g) (width g)\<rparr>) s)"

definition final_levels :: "meta \<Rightarrow> meta" where
  "final_levels s =
     (let s = (if tiff_bps (tg s) = 0 then on_g (tiff_bps_update (\<lambda>_. 12)) s else s)
      in if maximum (td s) = 0 then on_d (maximum_update (\<lambda>_. c_u32 (shl_i 1 (tiff_bps (tg s)) - 1))) s else s)"

text \<open>What cannot be decoded, or not by this build.\<close>

definition not_decodable :: "meta \<Rightarrow> bool" where
  "not_decodable s \<longleftrightarrow> load_raw s = None \<or> height (tg s) < 22 \<or> width (tg s) < 22 \<or> tiff_bps (tg s) > 16
     \<or> tiff_samples (tg s) > 6 \<or> colors (td s) > 4"

definition final_raw :: "meta \<Rightarrow> meta" where
  "final_raw s =
     (if not_decodable s \<or> load_raw s \<in> {Some Redcine_raw, Some Kodak_jpeg_raw, Some Lossy_dng_raw}
      then on_g (is_raw_update (\<lambda>_. 0)) s else s)"

definition final_filters :: "meta \<Rightarrow> meta" where
  "final_filters s =
     (let s = (if cdesc s ! 0 = 0 then s\<lparr>cdesc := strcpy (if colors (td s) = 3 then ''RGBG'' else ''GMCY'') (cdesc s)\<rparr> else s);
          s = on_g (\<lambda>g. g\<lparr>raw_height := (if raw_height g = 0 then height g else raw_height g),
                     raw_width := (if raw_width g = 0 then width g else raw_width g)\<rparr>) s;
          f = filters (td s)
      in if f > 999 \<and> colors (td s) = 3
         then set_filters (f OR ((shr f 2 AND 0x22222222) OR (c_u32 (shl f 2) AND 0x88888888)) AND c_u32 (shl f 1)) s else s)"

definition identify_end :: "fp_ops \<Rightarrow> meta \<Rightarrow> meta option" where
  "identify_end fp s = do { s \<leftarrow> final_matrix fp s; Some (final_filters (final_raw (final_levels (final_geom s)))) }"

definition final_flip :: "meta \<Rightarrow> meta" where
  "final_flip s =
     (let f = (if mflip s = UINT_MAX then tflip s else mflip s) in s\<lparr>mflip := (if f = UINT_MAX then 0 else f)\<rparr>)"

text \<open>The camera: everything behind the names.\<close>

definition identify_camera :: "rule_env \<Rightarrow> meta \<Rightarrow> meta option" where
  "identify_camera e s = do {
     let s = identify_sizes s;
     s \<leftarrow> (if dng_version (tg s) \<noteq> 0 then Some (identify_dng s)
           else do {
             s \<leftarrow> identify_numbers (re_fp e) (re_fsize e) s;
             s \<leftarrow> rules_before e s;
             s \<leftarrow> identify_rules e s;
             rules_after s });
     identify_end (re_fp e) s }"

definition identify :: "fp_ops \<Rightarrow> (string \<Rightarrow> u8 list option) \<Rightarrow> tiff_globals \<Rightarrow> tiff_globals option" where
  "identify fp files ns = do {
     let (n, s) = reset_globals ns;
     let (x, s) = rd_io get2 s;
     let (hlen, s) = rd_io get4 (set_order x s);
     let (bs, s) = rd_io (fread 32) (seek_set 0 s);
     let h = overlay_bytes bs (uninit (tg s) 32);
     let flen = c_s32 (int (length (ifile (io_of s))));
     let s = seek_set (int (length (ifile (io_of s)))) s;
     ns \<leftarrow> identify_head fp (parse_tiff_ifd fp) h (c_s32 hlen) flen (n, s);
     (fsize, h, n, s) \<leftarrow> identify_size fp (parse_tiff_ifd fp) files flen h ns;
     s \<leftarrow> identify_names s;
     s \<leftarrow> (if is_raw (tg s) = 0 then Some s
           else identify_camera \<lparr>re_fp = fp, re_fsize = fsize, re_flen = flen, re_head = h\<rparr> s);
     Some (n, final_flip s) }"

section \<open>What an accepted file guarantees\<close>

text \<open>
  \<open>returns_only Q m\<close>: \<open>m\<close> has a fault or does not return, or its result has the property \<open>Q\<close>.
\<close>

definition returns_only :: "('a \<Rightarrow> bool) \<Rightarrow> 'a option \<Rightarrow> bool" where
  "returns_only Q m \<longleftrightarrow> (case m of None \<Rightarrow> True | Some x \<Rightarrow> Q x)"

lemma returns_only_bind: "returns_only P m \<Longrightarrow> (\<And>x. P x \<Longrightarrow> returns_only Q (f x)) \<Longrightarrow> returns_only Q (m \<bind> f)"
  by (cases m) (auto simp: returns_only_def)

lemma returns_only_any: "(\<And>x. returns_only Q (f x)) \<Longrightarrow> returns_only Q (m \<bind> f)"
  by (cases m) (auto simp: returns_only_def)

lemma returns_only_Some [simp]: "returns_only Q (Some x) \<longleftrightarrow> Q x"
  by (simp add: returns_only_def)

definition decodable :: "meta \<Rightarrow> bool" where
  "decodable s \<longleftrightarrow> load_raw s \<notin> {None, Some Redcine_raw, Some Kodak_jpeg_raw, Some Lossy_dng_raw}
     \<and> 22 \<le> height (tg s) \<and> 22 \<le> width (tg s)
     \<and> (height (tg s) = c_u16 (width (tg s) - 1) \<or> height (tg s) \<le> raw_height (tg s) \<and> width (tg s) \<le> raw_width (tg s))
     \<and> tiff_bps (tg s) \<noteq> 0 \<and> tiff_bps (tg s) \<le> 16 \<and> tiff_samples (tg s) \<le> 6 \<and> colors (td s) \<le> 4"

lemma final_geom_fits:
  "height (tg (final_geom s)) = c_u16 (width (tg (final_geom s)) - 1) \<or>
    height (tg (final_geom s)) \<le> raw_height (tg (final_geom s)) \<and> width (tg (final_geom s)) \<le> raw_width (tg (final_geom s))"
  by (cases "fuji_width (tg s) = 0") (auto simp: final_geom_def on_g_def set_filters_def on_d_def Let_def)

lemma final_levels_keep:
  "tiff_bps (tg (final_levels s)) \<noteq> 0"
  "height (tg (final_levels s)) = height (tg s)" "width (tg (final_levels s)) = width (tg s)"
  "raw_height (tg (final_levels s)) = raw_height (tg s)" "raw_width (tg (final_levels s)) = raw_width (tg s)"
  by (simp_all add: final_levels_def on_g_def on_d_def Let_def)

lemma final_filters_keep:
  "load_raw (final_filters s) = load_raw s" "is_raw (tg (final_filters s)) = is_raw (tg s)"
  "tiff_bps (tg (final_filters s)) = tiff_bps (tg s)"
  "tiff_samples (tg (final_filters s)) = tiff_samples (tg s)" "colors (td (final_filters s)) = colors (td s)"
  "height (tg (final_filters s)) = height (tg s)" "width (tg (final_filters s)) = width (tg s)"
  "raw_height (tg s) \<noteq> 0 \<Longrightarrow> raw_height (tg (final_filters s)) = raw_height (tg s)"
  "raw_width (tg s) \<noteq> 0 \<Longrightarrow> raw_width (tg (final_filters s)) = raw_width (tg s)"
  by (simp_all add: final_filters_def on_g_def on_d_def set_filters_def Let_def)

lemma final_contract:
  assumes "tiff_bps (tg s) \<noteq> 0"
    "height (tg s) = c_u16 (width (tg s) - 1) \<or> height (tg s) \<le> raw_height (tg s) \<and> width (tg s) \<le> raw_width (tg s)"
  shows "is_raw (tg (final_filters (final_raw s))) = 0 \<or> decodable (final_filters (final_raw s))"
proof (cases "not_decodable s \<or> load_raw s \<in> {Some Redcine_raw, Some Kodak_jpeg_raw, Some Lossy_dng_raw}")
  case True
  then show ?thesis by (simp add: final_filters_keep final_raw_def on_g_def)
next
  case False
  then have "final_raw s = s" by (simp add: final_raw_def)
  moreover have "height (tg s) \<le> raw_height (tg s) \<Longrightarrow> raw_height (tg s) \<noteq> 0"
    "width (tg s) \<le> raw_width (tg s) \<Longrightarrow> raw_width (tg s) \<noteq> 0"
    using False by (auto simp: not_decodable_def)
  ultimately show ?thesis using False assms
    by (auto simp: decodable_def not_decodable_def final_filters_keep)
qed

lemma identify_end_contract: "returns_only (\<lambda>s. is_raw (tg s) = 0 \<or> decodable s) (identify_end fp s)"
  unfolding identify_end_def
  by (intro returns_only_any) (use final_contract [OF final_levels_keep(1)] final_geom_fits in \<open>simp add: final_levels_keep\<close>)

lemma identify_camera_contract: "returns_only (\<lambda>s. is_raw (tg s) = 0 \<or> decodable s) (identify_camera e s)"
  unfolding identify_camera_def Let_def by (intro returns_only_any identify_end_contract)

lemma final_flip_keeps: "is_raw (tg (final_flip s)) = is_raw (tg s)" "decodable (final_flip s) = decodable s"
  by (simp_all add: final_flip_def decodable_def Let_def)


end
