(* ===== verification/Options.thy ===== *)
theory Options
  imports Identify
begin

text \<open>
  The command line of dcraw: the options \<open>main\<close> scans, the variables they set, and the files that follow
  them. The build has no colour profiles (\<open>NO_LCMS\<close>), and LightZone's option \<open>-F\<close> gives the base of the
  output's name.
\<close>

section \<open>The variables\<close>

text \<open>
  \<open>opt_shot\<close> is \<open>shot_select\<close>; a missing file name is \<open>None\<close>. The flags are numbers, as in the code.
\<close>

record options =
  opt_threshold :: real_c
  opt_bright :: real_c
  opt_user_mul :: "real_c list"
  opt_aber :: "real_c list"
  opt_gamm :: "real_c list"
  opt_user_black :: int
  opt_user_sat :: int
  opt_user_flip :: int
  opt_user_qual :: int
  opt_med_passes :: int
  opt_highlight :: int
  opt_shot :: int
  opt_multi_out :: bool
  opt_output_color :: int
  opt_ofbase :: "string option"
  opt_bpfile :: "string option"
  opt_dark_frame :: "string option"
  opt_timestamp_only :: bool
  opt_thumbnail_only :: bool
  opt_identify_only :: bool
  opt_stdout :: bool
  opt_verbose :: bool
  opt_half_size :: int
  opt_four_color :: int
  opt_greybox :: "int list"
  opt_auto_wb :: int
  opt_camera_wb :: int
  opt_camera_matrix :: int
  opt_stdin :: bool
  opt_document_mode :: int
  opt_fuji_rotate :: bool
  opt_no_auto_bright :: bool
  opt_output_tiff :: bool
  opt_output_bps :: int

definition first_options :: options where
  "first_options = \<lparr>opt_threshold = Of_int 0, opt_bright = Of_int 1, opt_user_mul = replicate 4 (Of_int 0),
     opt_aber = replicate 4 (Of_int 1), opt_gamm = [Decimal ''0.45'', Decimal ''4.5'', Of_int 0, Of_int 0, Of_int 0, Of_int 0],
     opt_user_black = -1, opt_user_sat = -1, opt_user_flip = -1, opt_user_qual = -1, opt_med_passes = 0, opt_highlight = 0,
     opt_shot = 0, opt_multi_out = False, opt_output_color = 1, opt_ofbase = None, opt_bpfile = None, opt_dark_frame = None,
     opt_timestamp_only = False, opt_thumbnail_only = False, opt_identify_only = False, opt_stdout = False,
     opt_verbose = False, opt_half_size = 0, opt_four_color = 0, opt_greybox = [0, 0, UINT_MAX, UINT_MAX], opt_auto_wb = 0,
     opt_camera_wb = 0, opt_camera_matrix = 1, opt_stdin = False, opt_document_mode = 0, opt_fuji_rotate = True,
     opt_no_auto_bright = False, opt_output_tiff = False, opt_output_bps = 8\<rparr>"

section \<open>Scanning\<close>

text \<open>Character \<open>k\<close> of a string, whose end is a zero; \<open>atof\<close>.\<close>

definition char_at :: "string \<Rightarrow> nat \<Rightarrow> int" where
  "char_at cs k = (if k < length cs then of_char (cs ! k) else 0)"

definition atof :: "fp_ops \<Rightarrow> string \<Rightarrow> real_c" where
  "atof fp cs = (case fp_scan fp cs of None \<Rightarrow> Of_int 0 | Some (x, _) \<Rightarrow> x)"

text \<open>\<open>((opm - 2) | 2) == '+'\<close>, which is to accept a plus and a minus.\<close>

definition is_option :: "string \<Rightarrow> bool" where
  "is_option cs \<longleftrightarrow> (char_at cs 0 - 2) OR 2 = 43"

text \<open>\<open>strchr (sp="nbrkStqmHACg", opt)\<close> and the digit of \<open>"114111111422"\<close> there: how many numbers an option takes.\<close>

definition numeric_args :: "char \<Rightarrow> nat" where
  "numeric_args opt = (case map_of (zip ''nbrkStqmHACg'' [1, 1, 4, 1, 1, 1, 1, 1, 1, 4, 2, 2]) opt of None \<Rightarrow> 0 | Some n \<Rightarrow> n)"

definition starts_digit :: "string \<Rightarrow> bool" where
  "starts_digit cs \<longleftrightarrow> 48 \<le> char_at cs 0 \<and> char_at cs 0 \<le> 57"

datatype usage_error = Non_numeric char | Unknown_option char | No_files

text \<open>
  The arguments that remain behind an option; the one behind the last is the empty string, and to step over
  that leads out of the array. An option without a character (\<open>opt\<close> is zero) is unknown.
\<close>

definition next_arg :: "string list \<Rightarrow> (string \<times> string list) option" where
  "next_arg args = (case args of [] \<Rightarrow> None | a # r \<Rightarrow> Some (a, r))"

definition set_gamma :: "fp_ops \<Rightarrow> real_c \<Rightarrow> real_c \<Rightarrow> options \<Rightarrow> options" where
  "set_gamma fp p t o1 = o1\<lparr>opt_gamm := (opt_gamm o1)[0 := if fp_nonzero fp p then Quotient (Of_int 1) p else p, 1 := t]\<rparr>"

definition numeric_option :: "fp_ops \<Rightarrow> char \<Rightarrow> string list \<Rightarrow> options \<Rightarrow> options" where
  "numeric_option fp opt as o1 =
     (let x = atof fp (as ! 0); i = atoi (as ! 0) in
      if opt = CHR ''n'' then o1\<lparr>opt_threshold := as_float fp x\<rparr>
      else if opt = CHR ''b'' then o1\<lparr>opt_bright := as_float fp x\<rparr>
      else if opt = CHR ''r'' then o1\<lparr>opt_user_mul := map (\<lambda>a. as_float fp (atof fp a)) as\<rparr>
      else if opt = CHR ''C'' then
        o1\<lparr>opt_aber := (opt_aber o1)[0 := Quotient (Of_int 1) x, 2 := Quotient (Of_int 1) (atof fp (as ! 1))]\<rparr>
      else if opt = CHR ''g'' then set_gamma fp x (atof fp (as ! 1)) o1
      else if opt = CHR ''k'' then o1\<lparr>opt_user_black := i\<rparr>
      else if opt = CHR ''S'' then o1\<lparr>opt_user_sat := i\<rparr>
      else if opt = CHR ''t'' then o1\<lparr>opt_user_flip := i\<rparr>
      else if opt = CHR ''q'' then o1\<lparr>opt_user_qual := i\<rparr>
      else if opt = CHR ''m'' then o1\<lparr>opt_med_passes := i\<rparr>
      else if opt = CHR ''H'' then o1\<lparr>opt_highlight := i\<rparr>
      else o1\<lparr>opt_greybox := map (\<lambda>a. c_u32 (atoi a)) as, opt_auto_wb := 1\<rparr>)"

text \<open>The options without an argument; the three document modes and \<open>-4\<close> fall through to what they include.\<close>

definition plain_option :: "char \<Rightarrow> char \<Rightarrow> options \<Rightarrow> options option" where
  "plain_option opm opt o1 =
     (let doc = (\<lambda>k. o1\<lparr>opt_document_mode := opt_document_mode o1 + k, opt_fuji_rotate := False\<rparr>) in
      if opt = CHR ''z'' then Some (o1\<lparr>opt_timestamp_only := True\<rparr>)
      else if opt = CHR ''e'' then Some (o1\<lparr>opt_thumbnail_only := True\<rparr>)
      else if opt = CHR ''i'' then Some (o1\<lparr>opt_identify_only := True\<rparr>)
      else if opt = CHR ''c'' then Some (o1\<lparr>opt_stdout := True\<rparr>)
      else if opt = CHR ''v'' then Some (o1\<lparr>opt_verbose := True\<rparr>)
      else if opt = CHR ''h'' then Some (o1\<lparr>opt_half_size := 1\<rparr>)
      else if opt = CHR ''f'' then Some (o1\<lparr>opt_four_color := 1\<rparr>)
      else if opt = CHR ''a'' then Some (o1\<lparr>opt_auto_wb := 1\<rparr>)
      else if opt = CHR ''w'' then Some (o1\<lparr>opt_camera_wb := 1\<rparr>)
      else if opt = CHR ''M'' then Some (o1\<lparr>opt_camera_matrix := (if opm = CHR ''+'' then 3 else 0)\<rparr>)
      else if opt = CHR ''I'' then Some (o1\<lparr>opt_stdin := True\<rparr>)
      else if opt = CHR ''E'' then Some (doc 3)
      else if opt = CHR ''D'' then Some (doc 2)
      else if opt = CHR ''d'' then Some (doc 1)
      else if opt = CHR ''j'' then Some (doc 0)
      else if opt = CHR ''W'' then Some (o1\<lparr>opt_no_auto_bright := True\<rparr>)
      else if opt = CHR ''T'' then Some (o1\<lparr>opt_output_tiff := True\<rparr>)
      else if opt = CHR ''4'' then
        Some (o1\<lparr>opt_gamm := (opt_gamm o1)[0 := Of_int 1, 1 := Of_int 1], opt_no_auto_bright := True, opt_output_bps := 16\<rparr>)
      else if opt = CHR ''6'' then Some (o1\<lparr>opt_output_bps := 16\<rparr>)
      else None)"

text \<open>The options whose argument is a text.\<close>

definition text_options :: string where
  "text_options = ''sFPK''"

definition text_option :: "char \<Rightarrow> string \<Rightarrow> options \<Rightarrow> options" where
  "text_option opt a o1 =
     (if opt = CHR ''s'' then o1\<lparr>opt_shot := c_u32 (abs (atoi a)), opt_multi_out := (a = ''all'')\<rparr>
      else if opt = CHR ''F'' then o1\<lparr>opt_ofbase := Some a\<rparr>
      else if opt = CHR ''P'' then o1\<lparr>opt_bpfile := Some a\<rparr>
      else o1\<lparr>opt_dark_frame := Some a\<rparr>)"

text \<open>
  One option: what remains of the arguments, and the options, or an error. \<open>-o\<close> takes an argument of one
  digit only.
\<close>

definition option_step ::
    "fp_ops \<Rightarrow> char \<Rightarrow> char \<Rightarrow> string list \<Rightarrow> options \<Rightarrow> (usage_error + string list \<times> options) option" where
  "option_step fp opm opt args o1 =
     (let n = numeric_args opt in
      if n > 0 then
        if n \<le> length args \<and> list_all starts_digit (take n args)
        then Some (Inr (drop n args, numeric_option fp opt (take n args) o1))
        else Some (Inl (Non_numeric opt))
      else if opt \<in> set text_options then do {
        (a, r) \<leftarrow> next_arg args;
        Some (Inr (r, text_option opt a o1)) }
      else if opt = CHR ''o'' then
        Some (Inr (case args of
            [] \<Rightarrow> (args, o1)
          | a # r \<Rightarrow> if starts_digit a \<and> length a = 1 then (r, o1\<lparr>opt_output_color := atoi a\<rparr>) else (args, o1)))
      else
        case plain_option opm opt o1 of
          None \<Rightarrow> Some (Inl (Unknown_option opt))
        | Some o2 \<Rightarrow> Some (Inr (args, o2)))"

lemma option_step_shrinks: "option_step fp opm opt args o1 = Some (Inr (r, o2)) \<Longrightarrow> length r \<le> length args"
  by (auto simp: option_step_def next_arg_def Let_def split: if_splits list.splits option.splits)

function parse_options :: "fp_ops \<Rightarrow> string list \<Rightarrow> options \<Rightarrow> (usage_error + string list \<times> options) option" where
  "parse_options fp args o1 =
     (case args of
        [] \<Rightarrow> Some (Inr ([], o1))
      | a # r \<Rightarrow>
          if is_option a then
            (case option_step fp (a ! 0) (char_of (char_at a 1)) r o1 of
               None \<Rightarrow> None
             | Some (Inl e) \<Rightarrow> Some (Inl e)
             | Some (Inr (r, o2)) \<Rightarrow> parse_options fp r o2)
          else Some (Inr (a # r, o1)))"
  by pat_completeness auto
termination
  by (relation "measure (\<lambda>(fp, args, o1). length args)") (auto dest!: option_step_shrinks simp: less_Suc_eq_le)

declare parse_options.simps [simp del]

text \<open>The command line behind the name of the program: the files to process.\<close>

definition read_options :: "fp_ops \<Rightarrow> string list \<Rightarrow> (usage_error + string list \<times> options) option" where
  "read_options fp args = do {
     r \<leftarrow> parse_options fp args first_options;
     Some (case r of Inl e \<Rightarrow> Inl e | Inr (files, o1) \<Rightarrow> if files = [] then Inl No_files else Inr (files, o1)) }"

end
