(* ===== verification/Correction.thy ===== *)
theory Correction
  imports RawImage
begin

text \<open>
  What happens to the samples between the loader and the interpolation: the crop with its black
  level (\<open>crop_masked_pixels\<close>), the repair of zeroes and of listed bad pixels, and the
  subtraction of a dark frame.
\<close>

section \<open>crop_masked_pixels\<close>

text \<open>The function \<open>load_raw\<close> points to, as far as it matters here.\<close>

datatype load_fn =
    Phase_one | Phase_one_c | Canon | Lossless_jpeg | Canon_600 | Sony_srf | Eight_bit | Kodak_262
  | Packed | Nokia_raw | Other_load

text \<open>The Fuji sensors that are turned by 45 degrees, and all the others.\<close>

definition crop_fuji :: "geom \<Rightarrow> dst \<Rightarrow> dst option" where
  "crop_fuji g s = for_up 0 (raw_height g - top_margin g * 2) (\<lambda>row.
     for_up 0 (shl (fuji_width g) (if fuji_layout g = 0 then 1 else 0)) (\<lambda>col s.
       let (r, c) = (if fuji_layout g \<noteq> 0
             then (c_u32 (fuji_width g - 1 - col + shr row 1), c_u32 (col + shr (row + 1) 1))
             else (c_u32 (fuji_width g - 1 + row - shr col 1), c_u32 (row + shr (col + 1) 1)))
       in if r < height g \<and> c < width g then do {
            v \<leftarrow> RAW g s (row + top_margin g) (col + left_margin g);
            set_BAYER g r c v s }
          else Some s)) s"

definition crop_plain :: "geom \<Rightarrow> dst \<Rightarrow> dst option" where
  "crop_plain g s = for_up 0 (height g) (\<lambda>row. for_up 0 (width g) (\<lambda>col s. do {
     v \<leftarrow> RAW g s (row + top_margin g) (col + left_margin g);
     set_BAYER2 g row col v s })) s"

text \<open>The array \<open>mask[8][4]\<close> as eight rows; the default masks are the margins.\<close>

definition mask_set :: "int \<Rightarrow> int \<Rightarrow> int \<Rightarrow> int list list \<Rightarrow> int list list option" where
  "mask_set i j v mk = do { r \<leftarrow> at mk i; r \<leftarrow> put r j v; put mk i r }"

definition mask_get :: "int list list \<Rightarrow> int \<Rightarrow> int \<Rightarrow> int option" where
  "mask_get mk i j = do { r \<leftarrow> at mk i; at r j }"

definition mask_sides :: "geom \<Rightarrow> int list list \<Rightarrow> int list list option" where
  "mask_sides g mk = do {
     mk \<leftarrow> mask_set 1 0 (top_margin g) mk;
     mk \<leftarrow> mask_set 0 0 (top_margin g) mk;
     mk \<leftarrow> mask_set 1 2 (top_margin g + height g) mk;
     mk \<leftarrow> mask_set 0 2 (top_margin g + height g) mk;
     a \<leftarrow> mask_get mk 0 3;
     mk \<leftarrow> mask_set 0 3 (a + left_margin g) mk;
     b \<leftarrow> mask_get mk 1 1;
     mk \<leftarrow> mask_set 1 1 (b + left_margin g + width g) mk;
     c \<leftarrow> mask_get mk 1 3;
     mask_set 1 3 (c + raw_width g) mk }"

definition default_mask :: "geom \<Rightarrow> load_fn \<Rightarrow> int list list \<Rightarrow> int list list option" where
  "default_mask g fn mk = do {
     m03 \<leftarrow> mask_get mk 0 3;
     if m03 > 0 then Some mk
     else if fn = Canon \<or> fn = Lossless_jpeg then do {
       b \<leftarrow> mask_get mk 1 1;
       mk \<leftarrow> mask_set 1 1 (b + 2) mk;
       mk \<leftarrow> mask_set 0 1 (b + 2) mk;
       mk \<leftarrow> mask_set 0 3 (m03 - 2) mk;
       mask_sides g mk }
     else if fn = Canon_600 \<or> fn = Sony_srf \<or> (fn = Eight_bit \<and> take 3 (cam_model g) \<noteq> ''DC2'')
         \<or> fn = Kodak_262 \<or> (fn = Packed \<and> load_flags g AND 256 \<noteq> 0) then mask_sides g mk
     else if fn = Nokia_raw then do {
       mk \<leftarrow> mask_set 0 2 (top_margin g) mk;
       mask_set 0 3 (width g) mk }
     else Some mk }"

text \<open>Sums and counts of the masked samples by colour (\<open>mblack\<close>), and the count of zeroes.\<close>

definition mask_sums :: "geom \<Rightarrow> int list list \<Rightarrow> dst \<Rightarrow> (int list \<times> int) option" where
  "mask_sums g mk s = for_up 0 8 (\<lambda>m st. do {
     t \<leftarrow> mask_get mk m 0; l \<leftarrow> mask_get mk m 1; b \<leftarrow> mask_get mk m 2; r \<leftarrow> mask_get mk m 3;
     for_up (MAX_c t 0) (MIN_c b (raw_height g)) (\<lambda>row.
       for_up (MAX_c l 0) (MIN_c r (raw_width g)) (\<lambda>col (mb, zero). do {
         let c = FC (filters s) (row - top_margin g) (col - left_margin g);
         val \<leftarrow> RAW g s row col;
         x \<leftarrow> at mb c;
         mb \<leftarrow> put mb c (c_u32 (x + val));
         n \<leftarrow> at mb (4 + c);
         mb \<leftarrow> put mb (4 + c) (c_u32 (n + 1));
         Some (mb, c_u32 (zero + of_bool (val = 0))) })) st }) (zeros 8, 0)"

text \<open>
  \<open>correct\<close> is \<open>phase_one_correct\<close> and \<open>correct_600\<close> is \<open>canon_600_correct\<close>, which need more of the state
  than is known here.
\<close>

definition crop_masked_pixels ::
    "(dst \<Rightarrow> dst option) \<Rightarrow> (dst \<Rightarrow> dst option) \<Rightarrow> geom \<Rightarrow> load_fn \<Rightarrow> int list list \<Rightarrow> dst \<Rightarrow> dst option" where
  "crop_masked_pixels correct correct_600 g fn mk s = do {
     s \<leftarrow> (if fn = Phase_one \<or> fn = Phase_one_c then correct s else Some s);
     s \<leftarrow> (if fuji_width g \<noteq> 0 then crop_fuji g s else crop_plain g s);
     mk \<leftarrow> default_mask g fn mk;
     (mb, zero) \<leftarrow> mask_sums g mk s;
     if fn = Canon_600 \<and> width g < raw_width g then do {
       q \<leftarrow> c_div (c_u32 (mb ! 0 + mb ! 1 + mb ! 2 + mb ! 3)) (c_u32 (mb ! 4 + mb ! 5 + mb ! 6 + mb ! 7));
       correct_600 (s\<lparr>black := c_u32 (q - 4)\<rparr>) }
     else if zero < mb ! 4 \<and> mb ! 5 \<noteq> 0 \<and> mb ! 6 \<noteq> 0 \<and> mb ! 7 \<noteq> 0 then do {
       cb \<leftarrow> for_up 0 4 (\<lambda>c cb. do {
         x \<leftarrow> at mb c; n \<leftarrow> at mb (4 + c);
         q \<leftarrow> c_div x n;
         wr cb c q }) (cblack s);
       cb \<leftarrow> wr cb 6 0;
       cb \<leftarrow> wr cb 5 0;
       cb \<leftarrow> wr cb 4 0;
       Some (s\<lparr>cblack := cb\<rparr>) }
     else Some s }"

section \<open>remove_zeroes\<close>

text \<open>
  The variables are \<open>unsigned\<close>: the loops over the neighbours start at \<open>row-2\<close> and \<open>col-2\<close>
  modulo two to the 32nd.
\<close>

definition zero_neighbour :: "geom \<Rightarrow> dst \<Rightarrow> int \<Rightarrow> int \<Rightarrow> int \<Rightarrow> int \<Rightarrow> int \<times> int \<Rightarrow> (int \<times> int) option" where
  "zero_neighbour g s row col r c = (\<lambda>(tot, n).
     if r < height g \<and> c < width g \<and> FC (filters s) r c = FC (filters s) row col then do {
       v \<leftarrow> BAYER g s r c;
       Some (if v \<noteq> 0 then (c_u32 (tot + v), n + 1) else (tot, n)) }
     else Some (tot, n))"

definition remove_zero :: "geom \<Rightarrow> int \<Rightarrow> int \<Rightarrow> dst \<Rightarrow> dst option" where
  "remove_zero g row col s = do {
     v \<leftarrow> BAYER g s row col;
     if v = 0 then do {
       (tot, n) \<leftarrow> for_up (c_u32 (row - 2)) (c_u32 (row + 2) + 1) (\<lambda>r.
         for_up (c_u32 (col - 2)) (c_u32 (col + 2) + 1) (zero_neighbour g s row col r)) (0, 0);
       if n \<noteq> 0 then set_BAYER g row col (tot div n) s else Some s }
     else Some s }"

definition remove_zeroes :: "geom \<Rightarrow> dst \<Rightarrow> dst option" where
  "remove_zeroes g s = for_up 0 (height g) (\<lambda>row. for_up 0 (width g) (remove_zero g row)) s"

section \<open>bad_pixels\<close>

text \<open>
  What one line of the file does: column, row and time of a bad pixel. The search for the file and
  the scan of its lines are in theory DcrawMain.
\<close>

definition bad_neighbour :: "geom \<Rightarrow> dst \<Rightarrow> int \<Rightarrow> int \<Rightarrow> int \<Rightarrow> int \<Rightarrow> int \<times> int \<Rightarrow> (int \<times> int) option" where
  "bad_neighbour g s row col r c = (\<lambda>(tot, n).
     if c_u32 r < height g \<and> c_u32 c < width g \<and> (r \<noteq> row \<or> c \<noteq> col) then do {
       f \<leftarrow> fcol g (filters s) r c;
       f0 \<leftarrow> fcol g (filters s) row col;
       if f = f0 then do { v \<leftarrow> BAYER2 g s r c; Some (tot + v, n + 1) } else Some (tot, n) }
     else Some (tot, n))"

definition bad_pixel :: "geom \<Rightarrow> int \<Rightarrow> int \<times> int \<times> int \<Rightarrow> dst \<Rightarrow> dst option" where
  "bad_pixel g timestamp = (\<lambda>(col, row, time) s.
     if c_u32 col \<ge> width g \<or> c_u32 row \<ge> height g then Some s
     else if time > timestamp then Some s
     else do {
       (tot, n) \<leftarrow> for_up 1 3 (\<lambda>rad (tot, n).
         if n = 0 then for_up (row - rad) (row + rad + 1) (\<lambda>r.
             for_up (col - rad) (col + rad + 1) (bad_neighbour g s row col r)) (tot, n)
         else Some (tot, n)) (0, 0);
       q \<leftarrow> c_div tot n;
       set_BAYER2 g row col q s })"

definition bad_pixels :: "geom \<Rightarrow> int \<Rightarrow> (int \<times> int \<times> int) list \<Rightarrow> dst \<Rightarrow> dst option" where
  "bad_pixels g timestamp ps s =
     (if filters s = 0 then Some s
      else for_up 0 (int (length ps)) (\<lambda>i s. do { p \<leftarrow> at ps i; bad_pixel g timestamp p s }) s)"

section \<open>subtract\<close>

text \<open>
  The header of a PGM file as \<open>subtract\<close> reads it: an automaton over the characters, with flags
  for comments, numbers and errors. \<open>nd\<close> counts the numbers complete so far.
\<close>

record pgm =
  pgm_error :: bool
  pgm_comment :: bool
  pgm_number :: bool
  pgm_nd :: int
  pgm_dim :: "int list"

definition pgm_isdigit :: "int \<Rightarrow> bool" where
  "pgm_isdigit c \<longleftrightarrow> 48 \<le> c \<and> c \<le> 57"

definition pgm_isspace :: "int \<Rightarrow> bool" where
  "pgm_isspace c \<longleftrightarrow> c = 32 \<or> 9 \<le> c \<and> c \<le> 13"

definition pgm_char :: "int \<Rightarrow> pgm \<Rightarrow> pgm" where
  "pgm_char c p =
     (let p = (if c = 35 then p\<lparr>pgm_comment := True\<rparr> else p);
          p = (if c = 10 then p\<lparr>pgm_comment := False\<rparr> else p)
      in if pgm_comment p then p
         else
           let p = (if pgm_isdigit c then p\<lparr>pgm_number := True\<rparr> else p)
           in if \<not> pgm_number p then p
              else if pgm_isdigit c then
                p\<lparr>pgm_dim := (pgm_dim p)[nat (pgm_nd p) := c_s32 (pgm_dim p ! nat (pgm_nd p) * 10 + c - 48)]\<rparr>
              else if pgm_isspace c then p\<lparr>pgm_number := False, pgm_nd := pgm_nd p + 1\<rparr>
              else p\<lparr>pgm_error := True\<rparr>)"

function pgm_scan :: "pgm \<Rightarrow> bitio \<Rightarrow> pgm \<times> bitio" where
  "pgm_scan p b =
     (if \<not> pgm_error p \<and> pgm_nd p < 3 then
        (case fgetc b of (c, b1) \<Rightarrow>
           if c \<noteq> -1 then pgm_scan (pgm_char c p) b1 else (p, b1))
      else (p, b))"
  by pat_completeness auto
termination
  by (relation "measure (\<lambda>(p, b). nat (int (length (ifile b)) - ipos b))")
    (auto simp: fgetc_def split: if_splits)

declare pgm_scan.simps [simp del]

definition pgm_header :: "bitio \<Rightarrow> pgm \<times> bitio" where
  "pgm_header b =
     (case fgetc b of (p, b1) \<Rightarrow>
        if p \<noteq> 80
        then (\<lparr>pgm_error = True, pgm_comment = False, pgm_number = False, pgm_nd = 0, pgm_dim = [0, 0, 0]\<rparr>, b1)
        else (case fgetc b1 of (five, b2) \<Rightarrow>
          pgm_scan \<lparr>pgm_error = (five \<noteq> 53), pgm_comment = False, pgm_number = False, pgm_nd = 0,
                    pgm_dim = [0, 0, 0]\<rparr> b2))"

text \<open>The dark frame \<open>fp\<close> is read big-endian (\<open>ntohs\<close>); a short line keeps the line before.\<close>

definition subtract_row :: "geom \<Rightarrow> int \<Rightarrow> u8 list \<Rightarrow> dst \<Rightarrow> dst option" where
  "subtract_row g row line s = for_up 0 (width g) (\<lambda>col s. do {
     hi \<leftarrow> rd line (2 * col);
     lo \<leftarrow> rd line (2 * col + 1);
     v \<leftarrow> BAYER g s row col;
     set_BAYER g row col (MAX_c (v - (shl hi 8 OR lo)) 0) s }) s"

definition subtract :: "geom \<Rightarrow> bitio \<Rightarrow> dst \<Rightarrow> dst option" where
  "subtract g fp s =
     (case pgm_header fp of (p, fp) \<Rightarrow>
        if pgm_error p \<or> pgm_nd p < 3 then Some s
        else if pgm_dim p ! 0 \<noteq> width g \<or> pgm_dim p ! 1 \<noteq> height g \<or> pgm_dim p ! 2 \<noteq> 65535 then Some s
        else do {
          (line, fp, s) \<leftarrow> for_up 0 (height g) (\<lambda>row (line, fp, s).
            case fread (2 * width g) fp of (bs, fp) \<Rightarrow> do {
              let line = bs @ drop (length bs) line;
              s \<leftarrow> subtract_row g row line s;
              Some (line, fp, s) }) (zeros (2 * width g), fp, s);
          Some (s\<lparr>cblack := zeros (int (length (cblack s))), black := 0\<rparr>) })"

section \<open>The colours of a mosaic\<close>

definition cfa_ok :: "geom \<Rightarrow> int \<Rightarrow> bool" where
  "cfa_ok g flt \<longleftrightarrow> (\<forall>row \<in> {0..<height g}. \<forall>col \<in> {0..<width g}. \<exists>k \<in> {0..<4}. fcol g flt row col = Some k)"

definition xtrans_ok :: "geom \<Rightarrow> bool" where
  "xtrans_ok g \<longleftrightarrow> length (xtrans g) = 6 \<and> (\<forall>r \<in> set (xtrans g). length r = 6 \<and> (\<forall>k \<in> set r. 0 \<le> k \<and> k < 4))"

lemma cfa_ok_all:
  assumes "xtrans_ok g"
  shows "cfa_ok g flt"
proof -
  have f16: "\<exists>k. (do { r \<leftarrow> at filter_16 (x AND 15); at r (y AND 15) }) = Some k \<and> 0 \<le> k \<and> k < 4" for x y
  proof (rule at_table)
    show "int (length filter_16) = 16" by (simp add: filter_16_def)
    show "\<forall>r \<in> set filter_16. int (length r) = 16 \<and> (\<forall>k \<in> set r. 0 \<le> k \<and> k < 4)" by (simp add: filter_16_def)
    show "x AND 15 < 16" "y AND 15 < 16" using and_15_bounds(2) [of x] and_15_bounds(2) [of y] by linarith+
  qed (rule and_15_bounds)+
  have x: "\<exists>k. (do { r \<leftarrow> at (xtrans g) (x mod 6); at r (y mod 6) }) = Some k \<and> 0 \<le> k \<and> k < 4" for x y
    using assms by (intro at_table [where n = 6]) (auto simp: xtrans_ok_def)
  have "\<exists>k. fcol g flt row col = Some k \<and> 0 \<le> k \<and> k < 4" if "0 \<le> row" "0 \<le> col" for row col
    using f16 x that by (auto simp: fcol_def smod_nonneg)
  then show ?thesis by (simp add: cfa_ok_def Bex_def conj_commute)
qed

section \<open>What the crop does\<close>

text \<open>The image is the raw image without its margins.\<close>

definition crop_ok :: "geom \<Rightarrow> dst \<Rightarrow> bool" where
  "crop_ok g s \<longleftrightarrow> shrink g = 0 \<and> iheight g = height g \<and> iwidth g = width g \<and> cfa_ok g (filters s)
     \<and> img s = zeros (4 * (height g * width g))"

definition cropped :: "geom \<Rightarrow> dst \<Rightarrow> int \<Rightarrow> int \<Rightarrow> dst \<Rightarrow> bool" where
  "cropped g s row col t \<longleftrightarrow> raw_image t = raw_image s \<and> filters t = filters s \<and> length (img t) = length (img s)
     \<and> curve t = curve s \<and> length (cblack t) = length (cblack s)
     \<and> (\<forall>r c k. 0 \<le> r \<longrightarrow> r < height g \<longrightarrow> 0 \<le> c \<longrightarrow> c < width g \<longrightarrow> 0 \<le> k \<longrightarrow> k < 4 \<longrightarrow>
          IMG t (r * width g + c) k =
            (if (r < row \<or> r = row \<and> c < col) \<and> fcol g (filters s) r c = Some k
             then RAW g s (r + top_margin g) (c + left_margin g) else Some 0))"

lemma crop_plain_ok:
  assumes "geom_ok g" "raw_ok g s" "crop_ok g s"
  shows "ok (crop_plain g s) (cropped g s (height g) 0)"
proof -
  define W H where "W = width g" and "H = height g"
  have g: "0 < W" "0 < H" "H + top_margin g \<le> raw_height g" "W + left_margin g \<le> raw_width g"
    "0 \<le> top_margin g" "0 \<le> left_margin g"
    using assms(1) by (auto simp: geom_ok_def W_def H_def)
  have init: "cropped g s 0 0 s"
  proof -
    have "rd (zeros (4 * (H * W)) :: u16 list) (4 * (r * W + c) + k) = Some 0"
      if "0 \<le> r" "r < H" "0 \<le> c" "c < W" "0 \<le> k" "k < 4" for r c k
      using cell_bound [OF that(1-4)] that(5,6) by (simp add: rd_def inb_def zeros_def)
    then show ?thesis using assms(3) by (auto simp: cropped_def crop_ok_def IMG_def W_def H_def)
  qed
  have step: "ok (do { v \<leftarrow> RAW g t (row + top_margin g) (col + left_margin g); set_BAYER2 g row col v t })
      (cropped g s row (col + 1))"
    if t: "cropped g s row col t" and rc: "0 \<le> row" "row < H" "0 \<le> col" "col < W" for row col t
  proof -
    have len: "int (length (img t)) = 4 * (H * W)" using t assms(3) g by (simp add: cropped_def crop_ok_def W_def H_def)
    obtain k where k: "fcol g (filters s) row col = Some k" "0 \<le> k" "k < 4"
    proof -
      have "row \<in> {0..<height g}" "col \<in> {0..<width g}" using rc by (simp_all add: W_def H_def)
      then have "\<exists>k \<in> {0..<4}. fcol g (filters s) row col = Some k"
        using assms(3) unfolding crop_ok_def cfa_ok_def by blast
      then show thesis using that by auto
    qed
    have raw: "raw_ok g t" using t assms(2) by (simp add: cropped_def raw_ok_def)
    have "ok (RAW g t (row + top_margin g) (col + left_margin g)) (\<lambda>v. 0 \<le> v \<and> v < 65536)"
      by (rule ok_RAW [OF raw]) (use g rc in auto)
    then obtain v where v: "RAW g t (row + top_margin g) (col + left_margin g) = Some v" "0 \<le> v" "v < 65536"
      by (auto simp: ok_exists)
    have vs: "RAW g s (row + top_margin g) (col + left_margin g) = Some v"
      using v(1) t by (simp add: RAW_def cropped_def)
    have i: "BAYER_index g row col = row * W + col" using assms(3) by (simp add: BAYER_index_def crop_ok_def shr_def W_def)
    obtain xs where xs: "wr (img t) (4 * (row * W + col) + k) v = Some xs"
      using cell_bound [OF rc] k len by (simp add: wr_def inb_def)
    have len': "length xs = length (img t)" using xs by (auto simp: wr_def split: if_splits)
    have v16: "c_u16 v = v" using v(2,3) by (intro take_bit_int_eq_self) auto
    have cell: "IMG (t\<lparr>img := xs\<rparr>) (r * W + c) k' = (if r = row \<and> c = col \<and> k' = k then Some v else IMG t (r * W + c) k')"
      if "0 \<le> r" "0 \<le> c" "c < W" "0 \<le> k'" "k' < 4" for r c k'
    proof -
      have "4 * (r * W + c) + k' = 4 * (row * W + col) + k \<longleftrightarrow> r = row \<and> c = col \<and> k' = k"
        using cell4_inj [of "r * W + c" k' "row * W + col" k] row_col_inj [of r W c row col] that k rc by auto
      then show ?thesis by (simp add: IMG_def rd_wr [OF xs] v16)
    qed
    have order: "(r < row \<or> r = row \<and> c < col + 1) \<longleftrightarrow> (r < row \<or> r = row \<and> c < col) \<or> r = row \<and> c = col" for r c
      by auto
    have "cropped g s row (col + 1) (t\<lparr>img := xs\<rparr>)"
      using t k(1) vs len' unfolding cropped_def order by (auto simp: cell [unfolded W_def])
    then show ?thesis
      using v(1) k(1) xs t by (simp add: set_BAYER2_def set_IMG_def i cropped_def)
  qed
  show ?thesis
    unfolding crop_plain_def
  proof (rule for_up_inv [where I = "\<lambda>row. cropped g s row 0"])
    fix row t
    assume row: "0 \<le> row" "row < height g" and t: "cropped g s row 0 t"
    have "ok (for_up 0 (width g) (\<lambda>col s. do {
        v \<leftarrow> RAW g s (row + top_margin g) (col + left_margin g); set_BAYER2 g row col v s }) t) (cropped g s row W)"
      by (rule for_up_inv [where I = "\<lambda>col. cropped g s row col"]) (use g t row step in \<open>auto simp: W_def H_def\<close>)
    then show "ok (for_up 0 (width g) (\<lambda>col s. do {
        v \<leftarrow> RAW g s (row + top_margin g) (col + left_margin g); set_BAYER2 g row col v s }) t) (cropped g s (row + 1) 0)"
      by (rule ok_mono) (auto simp: cropped_def W_def)
  qed (use g init in \<open>auto simp: H_def\<close>)
qed


section \<open>The masks\<close>

definition mask_ok :: "int list list \<Rightarrow> bool" where
  "mask_ok mk \<longleftrightarrow> length mk = 8 \<and> (\<forall>r \<in> set mk. length r = 4)"

lemma mask_get_ok [safe]: "mask_ok mk \<Longrightarrow> 0 \<le> i \<Longrightarrow> i < 8 \<Longrightarrow> 0 \<le> j \<Longrightarrow> j < 4 \<Longrightarrow> (\<And>v. Q v) \<Longrightarrow> ok (mask_get mk i j) Q"
  unfolding mask_get_def by (rule safe | (simp add: mask_ok_def inb_def; fail) | assumption)+

lemma mask_set_ok [safe]:
  assumes "mask_ok mk" "0 \<le> i" "i < 8" "0 \<le> j" "j < 4" "\<And>mk. mask_ok mk \<Longrightarrow> Q mk"
  shows "ok (mask_set i j v mk) Q"
proof -
  have "mask_ok (mk[nat i := (mk ! nat i)[nat j := v]])"
    using assms(1-3) set_update_subset_insert [of mk "nat i" "(mk ! nat i)[nat j := v]"]
    by (auto simp: mask_ok_def)
  then show ?thesis using assms by (simp add: mask_set_def at_def put_def inb_def mask_ok_def)
qed

lemma default_mask_ok [safe]: "mask_ok mk \<Longrightarrow> (\<And>mk. mask_ok mk \<Longrightarrow> Q mk) \<Longrightarrow> ok (default_mask g fn mk) Q"
  unfolding default_mask_def mask_sides_def
  by (rule safe | assumption | (simp; fail))+

definition counts_ok :: "int list \<times> int \<Rightarrow> bool" where
  "counts_ok = (\<lambda>(mb, zero). length mb = 8 \<and> (\<forall>x \<in> set mb. 0 \<le> x) \<and> 0 \<le> zero)"

lemma counts_put [safe]:
  assumes "\<forall>x \<in> set mb. 0 \<le> x" "length mb = 8" "0 \<le> i" "i < 8" "0 \<le> v"
    and "\<And>ys. \<forall>x \<in> set ys. 0 \<le> x \<Longrightarrow> length ys = 8 \<Longrightarrow> Q ys"
  shows "ok (put mb i (v :: int)) Q"
proof -
  have "\<forall>x \<in> set (mb[nat i := v]). 0 \<le> x" using assms(1,5) set_update_subset_insert [of mb "nat i" v] by blast
  then have "Q (mb[nat i := v])" using assms(2) by (intro assms(6)) simp_all
  then show ?thesis using assms(2-4) by (simp add: put_def inb_def)
qed

lemma mask_sums_ok:
  assumes "mask_ok mk" "raw_ok g s"
  shows "ok (mask_sums g mk s) counts_ok"
proof -
  have pixel: "ok ((\<lambda>(mb, zero). do {
         let c = FC (filters s) (row - top_margin g) (col - left_margin g);
         val \<leftarrow> RAW g s row col;
         x \<leftarrow> at mb c;
         mb \<leftarrow> put mb c (c_u32 (x + val));
         n \<leftarrow> at mb (4 + c);
         mb \<leftarrow> put mb (4 + c) (c_u32 (n + 1));
         Some (mb, c_u32 (zero + of_bool (val = 0))) }) st) counts_ok"
    if c: "counts_ok st" and that: "0 \<le> row" "row < raw_height g" "0 \<le> col" "col < raw_width g" for row col st
  proof -
    obtain mb z where st: "st = (mb, z)" "length mb = 8" "\<forall>x \<in> set mb. 0 \<le> x"
      using c by (cases st) (simp add: counts_ok_def)
    have f: "FC flt r c < 8" "4 + FC flt r c < 8" "0 \<le> 4 + FC flt r c" for flt r c
      using FC_bounds [of flt r c] by linarith+
    show ?thesis unfolding st(1) split_conv
      apply (rule kept_Let | rule ok_bind counts_put ok_at_safe ok_RAW [OF assms(2)] ok_Some | assumption
        | (use st that in \<open>simp add: inb_def counts_ok_def f; fail\<close>))+
      done
  qed
  have box: "ok (for_up (MAX_c t 0) (MIN_c b (raw_height g)) (\<lambda>row.
       for_up (MAX_c l 0) (MIN_c r (raw_width g)) (\<lambda>col (mb, zero). do {
         let c = FC (filters s) (row - top_margin g) (col - left_margin g);
         val \<leftarrow> RAW g s row col;
         x \<leftarrow> at mb c;
         mb \<leftarrow> put mb c (c_u32 (x + val));
         n \<leftarrow> at mb (4 + c);
         mb \<leftarrow> put mb (4 + c) (c_u32 (n + 1));
         Some (mb, c_u32 (zero + of_bool (val = 0))) })) st) counts_ok" if "counts_ok st" for t b l r st
    apply (rule for_by_wp [where I = counts_ok], simp, rule that)
     apply (rule for_by_wp [where I = counts_ok], simp, assumption)
      apply (rule pixel, assumption)
         apply (simp_all add: MAX_c_def MIN_c_def split: if_splits)
    done
  show ?thesis
    unfolding mask_sums_def
    apply (rule for_by_wp [where I = counts_ok], simp)
      apply (simp add: counts_ok_def zeros_def)
     apply (rule ok_bind mask_get_ok | rule assms(1) box | assumption | (simp; fail))+
    done
qed

text \<open>One division per colour, each by a count that is not zero.\<close>

lemma crop_masked_ok:
  assumes "geom_ok g" "raw_ok g s" "crop_ok g s" "fuji_width g = 0" "mask_ok mk"
    and "fn \<noteq> Phase_one" "fn \<noteq> Phase_one_c" "fn \<noteq> Canon_600"
  shows "ok (crop_masked_pixels correct correct_600 g fn mk s) (cropped g s (height g) 0)"
proof -
  have cells: "ok (for_up 0 4 (\<lambda>c cb. do { x \<leftarrow> at mb c; n \<leftarrow> at mb (4 + c); q \<leftarrow> c_div x n; wr cb c q }) cb0)
      (\<lambda>cb. length cb = length cb0)"
    if "length mb = 8" "\<forall>x \<in> set mb. 0 \<le> x" "0 \<le> z" "z < mb ! 4" "mb ! 5 \<noteq> 0" "mb ! 6 \<noteq> 0" "mb ! 7 \<noteq> 0"
      "length cb0 = 4102" for mb z and cb0 :: "u16 list"
  proof (rule for_by_wp [where I = "\<lambda>cb. length cb = length cb0"])
    fix c :: int and cb :: "u16 list"
    assume c: "0 \<le> c" "c < 4" "length cb = length cb0"
    then have "nat (4 + c) = 4 \<or> nat (4 + c) = 5 \<or> nat (4 + c) = 6 \<or> nat (4 + c) = 7" by auto
    then have n: "at mb (4 + c) = Some (mb ! nat (4 + c))" "mb ! nat (4 + c) \<noteq> 0"
      using that c by (auto simp: at_def inb_def)
    show "ok (do { x \<leftarrow> at mb c; n \<leftarrow> at mb (4 + c); q \<leftarrow> c_div x n; wr cb c q }) (\<lambda>cb. length cb = length cb0)"
      unfolding n(1) by (rule safe | (use n c that in \<open>simp add: inb_def; fail\<close>))+
  qed auto
  have fin: "ok (do {
       cb \<leftarrow> for_up 0 4 (\<lambda>c cb. do { x \<leftarrow> at mb c; n \<leftarrow> at mb (4 + c); q \<leftarrow> c_div x n; wr cb c q }) (cblack t);
       cb \<leftarrow> wr cb 6 0; cb \<leftarrow> wr cb 5 0; cb \<leftarrow> wr cb 4 0;
       Some (t\<lparr>cblack := cb\<rparr>) }) (cropped g s (height g) 0)"
    if t: "cropped g s (height g) 0 t" and mb: "counts_ok (mb, z)" "z < mb ! 4 \<and> mb ! 5 \<noteq> 0 \<and> mb ! 6 \<noteq> 0 \<and> mb ! 7 \<noteq> 0" for t mb z
  proof -
    have len: "length (cblack t) = 4102" using t assms(2) by (simp add: cropped_def raw_ok_def)
    show ?thesis
      apply (rule ok_bind, rule ok_mono [OF cells [of mb z "cblack t"]])
      apply (use mb len in \<open>simp add: counts_ok_def; fail\<close>)+
      apply (rule safe | (use len in \<open>simp add: inb_def; fail\<close>))+
      apply (use t len in \<open>simp add: cropped_def IMG_def\<close>)
      done
  qed
  show ?thesis
    unfolding crop_masked_pixels_def
    apply (simp add: assms(4,6-8))
    apply (rule ok_bind, rule ok_mono [OF crop_plain_ok [OF assms(1-3)]])
    apply (rule ok_bind default_mask_ok assms(5) | assumption)+
    apply (rule ok_mono [OF mask_sums_ok], assumption)
    using assms(2) apply (simp add: cropped_def raw_ok_def)
    apply (rule ok_prod, rule ok_if)
    apply simp
    apply (rule fin, assumption, simp, assumption)
    apply simp
    done
qed

text \<open>
  C18: \<open>remove_zeroes\<close> never repairs a pixel of the first two rows or columns: the unsigned start of the
  window wraps around there, its loops do not run, and the zero stays.
\<close>

theorem remove_zero_border:
  assumes "BAYER g s row col = Some v" "0 \<le> row" "0 \<le> col" "row < 2 \<or> col < 2" "row < 65536" "col < 65536"
  shows "remove_zero g row col s = Some s"
proof -
  have e: "for_up (c_u32 (x - 2)) (c_u32 (x + 2) + 1) f u = Some u" if "0 \<le> x" "x < 2" for x f and u :: "int \<times> int"
  proof -
    have "x = 0 \<or> x = 1" using that by auto
    then show ?thesis by (auto simp: take_bit_eq_mod)
  qed
  have "for_up (c_u32 (row - 2)) (c_u32 (row + 2) + 1) (\<lambda>r.
         for_up (c_u32 (col - 2)) (c_u32 (col + 2) + 1) (zero_neighbour g s row col r)) (0, 0) = Some (0, 0)"
  proof (cases "row < 2")
    case True
    then show ?thesis using e assms(2) by simp
  next
    case False
    then have c: "col < 2" using assms(4) by simp
    have "ok (for_up (c_u32 (row - 2)) (c_u32 (row + 2) + 1) (\<lambda>r.
         for_up (c_u32 (col - 2)) (c_u32 (col + 2) + 1) (zero_neighbour g s row col r)) (0, 0)) (\<lambda>u. u = (0, 0))"
      by (rule for_by_wp [where I = "\<lambda>u. u = (0, 0)"]) (simp_all add: e [OF assms(3) c])
    then show ?thesis by (auto simp: ok_exists)
  qed
  then show ?thesis using assms(1) by (simp add: remove_zero_def)
qed

theorem remove_zero_border_witness:
  "remove_zero (plain_geom 3 3) 1 2 (identify_reset []\<lparr>filters := 0x94949494, img := replicate 36 0\<rparr>)
    = Some (identify_reset []\<lparr>filters := 0x94949494, img := replicate 36 0\<rparr>)"
proof -
  let ?s = "identify_reset []\<lparr>filters := 0x94949494, img := replicate 36 0\<rparr>"
  have "FC 0x94949494 1 2 = 1" by code_simp
  then have "BAYER (plain_geom 3 3) ?s 1 2 = Some 0"
    by (simp add: BAYER_def BAYER_index_def IMG_def plain_geom_def rd_def inb_def shr_def nat_less_iff)
  then show ?thesis using remove_zero_border [of "plain_geom 3 3" ?s 1 2 0] by simp
qed

end
