(* ===== verification/LosslessLoaders.thy ===== *)
theory LosslessLoaders
  imports LjpegHeader
begin

text \<open>
  The loaders built on lossless JPEG: \<open>lossless_jpeg_load_raw\<close> with the slices of Canon's CR2
  files, \<open>adobe_copy_pixel\<close>, \<open>lossless_dng_load_raw\<close>, \<open>packed_dng_load_raw\<close> and
  \<open>canon_sraw_load_raw\<close>.
\<close>

section \<open>lossless_jpeg_load_raw\<close>

text \<open>
  Where sample \<open>jcol\<close> of row \<open>jrow\<close> of the JPEG image goes: with slices its running number
  decides, without them it follows the sample before it.
\<close>

definition cr2_place :: "geom \<Rightarrow> int \<Rightarrow> int \<Rightarrow> int \<Rightarrow> int \<times> int \<Rightarrow> (int \<times> int) option" where
  "cr2_place g jwide jrow jcol = (\<lambda>(row, col). do {
     s0 \<leftarrow> rd (cr2_slice g) 0;
     if s0 \<noteq> 0 then do {
       s1 \<leftarrow> rd (cr2_slice g) 1;
       let jidx = c_s32 (jrow * jwide + jcol);
       i \<leftarrow> c_div jidx (c_s32 (s1 * raw_height g));
       let j = (if i \<ge> s0 then 1 else 0);
       let i = (if i \<ge> s0 then s0 else i);
       let jidx = c_s32 (jidx - i * (s1 * raw_height g));
       w \<leftarrow> rd (cr2_slice g) (1 + j);
       q \<leftarrow> c_div jidx w;
       r \<leftarrow> c_mod jidx w;
       Some (q, r + i * s1) }
     else Some (row, col) })"

text \<open>The special case of the cameras whose rows start two columns to the left.\<close>

definition shift_3984 :: "geom \<Rightarrow> int \<times> int \<Rightarrow> int \<times> int" where
  "shift_3984 g = (\<lambda>(row, col).
     if raw_width g = 3984
     then (if col - 2 < 0 then (row - 1, col - 2 + raw_width g) else (row, col - 2))
     else (row, col))"

definition lossless_jpeg_sample ::
    "geom \<Rightarrow> jhead \<Rightarrow> int \<Rightarrow> int \<Rightarrow> int \<Rightarrow> int \<Rightarrow> (int \<times> int) \<times> dst \<Rightarrow> ((int \<times> int) \<times> dst) option" where
  "lossless_jpeg_sample g jh rp jwide jrow jcol = (\<lambda>(pos, s). do {
     v \<leftarrow> rd (jh_row jh) (rp + jcol);
     val \<leftarrow> rd (curve s) v;
     pos \<leftarrow> cr2_place g jwide jrow jcol pos;
     let (row, col) = shift_3984 g pos;
     s \<leftarrow> (if c_u32 row < raw_height g then set_RAW g row col val s else Some s);
     Some (if col + 1 \<ge> raw_width g then (row + 1, 0) else (row, col + 1), s) })"

definition lossless_jpeg_row ::
    "geom \<Rightarrow> int \<Rightarrow> (int \<times> int) \<times> jhead \<times> dst \<Rightarrow> ((int \<times> int) \<times> jhead \<times> dst) option" where
  "lossless_jpeg_row g jrow = (\<lambda>((row, col), jh, s). do {
     ((rp, jh), s) \<leftarrow> with_io (ljpeg_row g jrow jh) s;
     let row = (if load_flags g AND 1 \<noteq> 0
                then if jrow AND 1 \<noteq> 0 then height g - 1 - jrow div 2 else jrow div 2
                else row);
     (pos, s) \<leftarrow> for_up 0 (jh_wide jh * jh_clrs jh)
       (\<lambda>jcol. lossless_jpeg_sample g jh rp (jh_wide jh * jh_clrs jh) jrow jcol) ((row, col), s);
     Some (pos, jh, s) })"

definition lossless_jpeg_load_raw :: "geom \<Rightarrow> dst \<Rightarrow> dst option" where
  "lossless_jpeg_load_raw g s = do {
     ((found, jh), s) \<leftarrow> with_io (ljpeg_start g False) s;
     if \<not> found then Some s
     else do {
       (pos, jh, s) \<leftarrow> for_up 0 (jh_high jh) (lossless_jpeg_row g) ((0, 0), jh, s);
       Some s } }"

section \<open>DNG\<close>

text \<open>
  \<open>adobe_copy_pixel\<close>: the pointer \<open>*rp\<close> is the position \<open>p\<close> in \<open>buf\<close>, and the new position is
  returned. \<open>row\<close> and \<open>col\<close> are unsigned.
\<close>

definition adobe_copy_pixel ::
    "geom \<Rightarrow> int \<Rightarrow> int \<Rightarrow> u16 list \<Rightarrow> int \<times> dst \<Rightarrow> (int \<times> dst) option" where
  "adobe_copy_pixel g row col buf = (\<lambda>(p, s). do {
     let second = (tiff_samples g = 2 \<and> shot_select g \<noteq> 0);
     let p = (if second then p + 1 else p);
     s \<leftarrow>
       (if raw_image s \<noteq> [] then
          (if row < raw_height g \<and> col < raw_width g then do {
             v \<leftarrow> rd buf p; x \<leftarrow> rd (curve s) v; set_RAW g row col x s }
           else Some s)
        else
          (if row < height g \<and> col < width g then
             for_up 0 (tiff_samples g) (\<lambda>c s. do {
               v \<leftarrow> rd buf (p + c); x \<leftarrow> rd (curve s) v;
               set_IMG (row * width g + col) c x s }) s
           else Some s));
     let p = p + tiff_samples g;
     Some (if second then p - 1 else p, s) })"

text \<open>The lossy tiles (algorithm 0xc1); \<open>tr\<close> is the floating-point transform.\<close>

definition dng_lossy ::
    "(int list \<Rightarrow> u16 list) \<Rightarrow> geom \<Rightarrow> int \<Rightarrow> int \<Rightarrow> jhead \<times> dst \<Rightarrow> (jhead \<times> dst) option" where
  "dng_lossy tr g trow tcol = (\<lambda>(jh, s). do {
     vp \<leftarrow> put (jh_vpred jh) 0 16384;
     let jh = jh\<lparr>jh_vpred := vp\<rparr>;
     (z, s) \<leftarrow> with_io (getbits (-1)) s;
     for_by 8 0 (jh_high jh - 7) (\<lambda>jrow st.
       for_by 8 0 (jh_wide jh - 7) (\<lambda>jcol (jh, s). do {
         (jh, s) \<leftarrow> with_io (ljpeg_idct tr g jh) s;
         q \<leftarrow> c_div jcol (tile_width g);
         r \<leftarrow> c_mod jcol (tile_width g);
         let row = c_u32 (trow + q + jrow * 2);
         let col = c_u32 (tcol + r);
         (p, s) \<leftarrow> for_by 2 0 16 (\<lambda>i st.
           for_up 0 8 (\<lambda>j. adobe_copy_pixel g (c_u32 (row + i)) (c_u32 (col + j)) (jh_idct jh)) st) (0, s);
         Some (jh, s) }) st) (jh, s) })"

definition dng_lossless ::
    "geom \<Rightarrow> int \<Rightarrow> int \<Rightarrow> int \<Rightarrow> jhead \<times> dst \<Rightarrow> (jhead \<times> dst) option" where
  "dng_lossless g jwide trow tcol = (\<lambda>(jh, s). do {
     (row, col, jh, s) \<leftarrow> for_up 0 (jh_high jh) (\<lambda>jrow (row, col, jh, s). do {
       ((rp, jh), s) \<leftarrow> with_io (ljpeg_row g jrow jh) s;
       (row, col, p, s) \<leftarrow> for_up 0 jwide (\<lambda>jcol (row, col, p, s). do {
         (p, s) \<leftarrow> adobe_copy_pixel g (c_u32 (trow + row)) (c_u32 (tcol + col)) (jh_row jh) (p, s);
         let col = c_u32 (col + 1);
         Some (if col \<ge> tile_width g \<or> col \<ge> raw_width g then (c_u32 (row + 1), 0, p, s)
               else (row, col, p, s)) }) (row, col, rp, s);
       Some (row, col, jh, s) }) (0, 0, jh, s);
     Some (jh, s) })"

text \<open>
  One round of the \<open>while\<close> loop over the tiles: the position of the next tile, or the end.
  \<open>filters\<close>, \<open>is_raw\<close> and the tile sizes are unsigned.
\<close>

definition dng_tile ::
    "(int list \<Rightarrow> u16 list) \<Rightarrow> geom \<Rightarrow> int \<times> int \<times> dst \<Rightarrow> (bool \<times> int \<times> int \<times> dst) option" where
  "dng_tile tr g = (\<lambda>(trow, tcol, s). do {
     let save = c_u32 (ipos (dio s));
     let s = (if tile_length g < 0x7fffffff
              then case get_io get4 s of (x, s) \<Rightarrow> upd_io (fseek_set x) s else s);
     ((found, jh), s) \<leftarrow> with_io (ljpeg_start g False) s;
     if \<not> found then Some (False, trow, tcol, s)
     else do {
       let jwide = (if filters s \<noteq> 0 then jh_wide jh * jh_clrs jh else jh_wide jh);
       jwide \<leftarrow> c_div jwide (MIN_c (is_raw g) (tiff_samples g));
       (jh, s) \<leftarrow>
         (if jh_algo jh = 0xc1 then dng_lossy tr g trow tcol (jh, s)
          else if jh_algo jh = 0xc3 then dng_lossless g jwide trow tcol (jh, s)
          else Some (jh, s));
       let s = upd_io (fseek_set (c_u32 (save + 4))) s;
       let tcol = c_u32 (tcol + tile_width g);
       Some (if tcol \<ge> raw_width g then (True, c_u32 (trow + tile_length g), 0, s)
             else (True, trow, tcol, s)) } })"

text \<open>A file whose tiles have no width or no length keeps the loop running for ever.\<close>

partial_function (option) dng_tiles ::
    "(int list \<Rightarrow> u16 list) \<Rightarrow> geom \<Rightarrow> int \<times> int \<times> dst \<Rightarrow> dst option" where
  "dng_tiles tr g st =
     (if fst st < raw_height g
      then dng_tile tr g st \<bind> (\<lambda>(go, st'). if go then dng_tiles tr g st' else Some (snd (snd st')))
      else Some (snd (snd st)))"

definition lossless_dng_load_raw :: "(int list \<Rightarrow> u16 list) \<Rightarrow> geom \<Rightarrow> dst \<Rightarrow> dst option" where
  "lossless_dng_load_raw tr g s = dng_tiles tr g (0, 0, s)"

definition packed_dng_load_raw :: "geom \<Rightarrow> dst \<Rightarrow> dst option" where
  "packed_dng_load_raw g s = do {
     (pixel, s) \<leftarrow> for_up 0 (raw_height g) (\<lambda>row (pixel, s). do {
       (pixel, s) \<leftarrow>
         (if tiff_bps g = 16 then with_io (read_shorts pixel 0 (raw_width g * tiff_samples g)) s
          else do {
            (z, s) \<leftarrow> with_io (getbits (-1)) s;
            for_up 0 (raw_width g * tiff_samples g) (\<lambda>col (pixel, s). do {
              (v, s) \<leftarrow> with_io (getbits (tiff_bps g)) s;
              pixel \<leftarrow> wr pixel col v;
              Some (pixel, s) }) (pixel, s) });
       (p, s) \<leftarrow> for_up 0 (raw_width g) (\<lambda>col. adobe_copy_pixel g row col pixel) (0, s);
       Some (pixel, s) }) (zeros (raw_width g * tiff_samples g), s);
     Some s }"

section \<open>canon_sraw_load_raw\<close>

text \<open>\<open>sscanf (cp, "%d.%d.%d", v, v+1, v+2)\<close> on the digits of the model string.\<close>

definition digit_val :: "char \<Rightarrow> int" where
  "digit_val c = of_char c - 48"

definition is_digit :: "char \<Rightarrow> bool" where
  "is_digit c \<longleftrightarrow> 0 \<le> digit_val c \<and> digit_val c \<le> 9"

definition is_space :: "char \<Rightarrow> bool" where
  "is_space c \<longleftrightarrow> (of_char c :: nat) = 32 \<or> 9 \<le> (of_char c :: nat) \<and> (of_char c :: nat) \<le> 13"

fun scan_digits :: "int \<Rightarrow> string \<Rightarrow> int \<times> string" where
  "scan_digits n [] = (n, [])"
| "scan_digits n (c # cs) = (if is_digit c then scan_digits (10 * n + digit_val c) cs else (n, c # cs))"

definition scan_int :: "string \<Rightarrow> (int \<times> string) option" where
  "scan_int cs =
     (let cs = dropWhile is_space cs;
          neg = (cs \<noteq> [] \<and> hd cs = CHR ''-'');
          cs = (if cs \<noteq> [] \<and> (hd cs = CHR ''-'' \<or> hd cs = CHR ''+'') then tl cs else cs)
      in if cs = [] \<or> \<not> is_digit (hd cs) then None
         else (case scan_digits 0 cs of (n, rest) \<Rightarrow> Some (if neg then - n else n, rest)))"

fun scan_version :: "nat \<Rightarrow> string \<Rightarrow> int list" where
  "scan_version 0 cs = []"
| "scan_version (Suc k) cs =
     (case scan_int cs of
        None \<Rightarrow> replicate (Suc k) 0
      | Some (n, rest) \<Rightarrow>
          n # (if rest \<noteq> [] \<and> hd rest = CHR ''.'' then scan_version k (tl rest) else replicate k 0))"

definition sraw_version :: "string \<Rightarrow> int" where
  "sraw_version m =
     (let v = scan_version 3 (dropWhile (\<lambda>c. \<not> is_digit c) m)
      in (v ! 0 * 1000 + v ! 1) * 1000 + v ! 2)"

definition IMGs :: "dst \<Rightarrow> int \<Rightarrow> int \<Rightarrow> int option" where
  "IMGs s i c = rds (img s) (4 * i + c)"

text \<open>
  The state of the first loop nest: \<open>jrow\<close>, \<open>jcol\<close>, the row last decoded (\<open>rp\<close>, set in the first
  round since \<open>jcol\<close> starts at 0) and the header.
\<close>

definition sraw_column ::
    "geom \<Rightarrow> int \<Rightarrow> int \<Rightarrow> int \<Rightarrow> int \<times> int \<times> int \<times> jhead \<times> dst \<Rightarrow> (int \<times> int \<times> int \<times> jhead \<times> dst) option" where
  "sraw_column g jwide row col = (\<lambda>(jrow, jcol, rp, jh, s). do {
     jcol \<leftarrow> c_mod jcol jwide;
     (jrow, rp, jh, s) \<leftarrow>
       (if jcol = 0 then do {
          ((rp, jh), s) \<leftarrow> with_io (ljpeg_row g jrow jh) s;
          Some (jrow + 1, rp, jh, s) }
        else Some (jrow, rp, jh, s));
     if col \<ge> width g then Some (jrow, jcol + jh_clrs jh, rp, jh, s)
     else do {
       let ip = row * width g + col;
       s \<leftarrow> for_up 0 (jh_clrs jh - 2) (\<lambda>c s. do {
         v \<leftarrow> rds (jh_row jh) (rp + jcol + c);
         set_IMG (ip + shr c 1 * width g + (c AND 1)) 0 v s }) s;
       b \<leftarrow> rds (jh_row jh) (rp + jcol + jh_clrs jh - 2);
       s \<leftarrow> set_IMG ip 1 (b - 16384) s;
       r \<leftarrow> rds (jh_row jh) (rp + jcol + jh_clrs jh - 1);
       s \<leftarrow> set_IMG ip 2 (r - 16384) s;
       Some (jrow, jcol + jh_clrs jh, rp, jh, s) } })"

definition sraw_unpack :: "geom \<Rightarrow> int \<Rightarrow> jhead \<Rightarrow> dst \<Rightarrow> (jhead \<times> dst) option" where
  "sraw_unpack g jwide jh s = do {
     s0 \<leftarrow> rd (cr2_slice g) 0;
     (ecol, jrow, jcol, rp, jh, s) \<leftarrow> for_up 0 (s0 + 1) (\<lambda>slice (ecol, st). do {
       s1 \<leftarrow> rd (cr2_slice g) 1;
       let scol = ecol;
       q \<leftarrow> c_div (s1 * 2) (jh_clrs jh);
       let ecol = ecol + q;
       let ecol = (if s0 = 0 \<or> ecol > raw_width g - 1 then raw_width g AND -2 else ecol);
       st \<leftarrow> for_by (shr (jh_clrs jh) 1 - 1) 0 (height g) (\<lambda>row st.
         for_by 2 scol ecol (\<lambda>col. sraw_column g jwide row col) st) st;
       Some (ecol, st) }) (0, 0, 0, 0, jh, s);
     Some (jh, s) }"

text \<open>The missing chroma samples: the rows between, then the columns between.\<close>

definition sraw_interpolate :: "geom \<Rightarrow> int \<Rightarrow> dst \<Rightarrow> dst option" where
  "sraw_interpolate g sraw s =
     for_up 0 (height g) (\<lambda>row s. do {
       let ip = row * width g;
       s \<leftarrow> (if row AND shr sraw 1 \<noteq> 0 then
               for_by 2 0 (width g) (\<lambda>col s. for_up 1 3 (\<lambda>c s. do {
                 a \<leftarrow> IMGs s (ip + col - width g) c;
                 if row = height g - 1 then set_IMG (ip + col) c a s
                 else do {
                   b \<leftarrow> IMGs s (ip + col + width g) c;
                   set_IMG (ip + col) c (shr (a + b + 1) 1) s } }) s) s
             else Some s);
       for_by 2 1 (width g) (\<lambda>col s. for_up 1 3 (\<lambda>c s. do {
         a \<leftarrow> IMGs s (ip + col - 1) c;
         if col = width g - 1 then set_IMG (ip + col) c a s
         else do {
           b \<leftarrow> IMGs s (ip + col + 1) c;
           set_IMG (ip + col) c (shr (a + b + 1) 1) s } }) s) s }) s"

definition sraw_color :: "geom \<Rightarrow> int \<Rightarrow> int \<Rightarrow> dst \<Rightarrow> dst option" where
  "sraw_color g hue i s = do {
     y \<leftarrow> IMGs s i 0; u \<leftarrow> IMGs s i 1; v \<leftarrow> IMGs s i 2;
     (pix, s) \<leftarrow>
       (if unique_id g = 0x80000218 \<or> unique_id g = 0x80000250 \<or> unique_id g = 0x80000261
            \<or> unique_id g = 0x80000281 \<or> unique_id g = 0x80000287 then do {
          s \<leftarrow> set_IMG i 1 (shl u 2 + hue) s;
          s \<leftarrow> set_IMG i 2 (shl v 2 + hue) s;
          u \<leftarrow> IMGs s i 1; v \<leftarrow> IMGs s i 2;
          Some ([y + shr (50 * u + 22929 * v) 14,
                 y + shr (-5640 * u - 11751 * v) 14,
                 y + shr (29040 * u - 101 * v) 14], s) }
        else do {
          s \<leftarrow> (if unique_id g < 0x80000218 then set_IMG i 0 (y - 512) s else Some s);
          y \<leftarrow> IMGs s i 0;
          Some ([y + v, y + shr (-778 * u - shl v 11) 12, y + u], s) });
     for_up 0 3 (\<lambda>c s. do {
       p \<leftarrow> at pix c;
       m \<leftarrow> rd (sraw_mul g) c;
       set_IMG i c (CLIP (shr (c_s32 (p * m)) 10)) s }) s }"

definition canon_sraw_load_raw :: "geom \<Rightarrow> dst \<Rightarrow> dst option" where
  "canon_sraw_load_raw g s = do {
     ((found, jh), s) \<leftarrow> with_io (ljpeg_start g False) s;
     if \<not> found \<or> jh_clrs jh < 4 then Some s
     else do {
       let jh = jh\<lparr>jh_wide := shr (jh_wide jh) 1\<rparr>;
       (jh, s) \<leftarrow> sraw_unpack g (jh_wide jh * jh_clrs jh) jh s;
       let ver = sraw_version (cam_model2 g);
       let hue = (if unique_id g \<ge> 0x80000281 \<or> unique_id g = 0x80000218 \<and> ver > 1000006
                  then shl (jh_sraw jh) 1 else shl (jh_sraw jh + 1) 2);
       s \<leftarrow> sraw_interpolate g (jh_sraw jh) s;
       s \<leftarrow> for_up 0 (height g * width g) (sraw_color g hue) s;
       Some (s\<lparr>maximum := 0x3fff\<rparr>) } }"

section \<open>The slices of CR2 files\<close>

lemma cr2_place_inverse:
  assumes slices: "rd (cr2_slice g) 0 = Some s0" "rd (cr2_slice g) 1 = Some s1" "rd (cr2_slice g) 2 = Some s2"
    and pos: "0 < s0" "0 < s1" "0 < s2" "0 < raw_height g" "(s0 * s1 + s2) * raw_height g < 2 ^ 31"
    and idx: "0 \<le> jrow * jwide + jcol" "jrow * jwide + jcol < (s0 * s1 + s2) * raw_height g"
  shows "\<exists>row col. cr2_place g jwide jrow jcol pos = Some (row, col)
    \<and> 0 \<le> row \<and> row < raw_height g \<and> 0 \<le> col \<and> col < s0 * s1 + s2
    \<and> jrow * jwide + jcol = (if col < s0 * s1 then col div s1 * (s1 * raw_height g) + row * s1 + col mod s1
              else s0 * (s1 * raw_height g) + row * s2 + (col - s0 * s1))"
proof -
  define H n k where "H = raw_height g" and "n = s1 * H" and "k = jrow * jwide + jcol"
  have n: "0 < n" "0 < H" using pos(2,4) by (simp_all add: n_def H_def)
  have e: "(s0 * s1 + s2) * H = s0 * n + s2 * H" by (simp add: n_def algebra_simps)
  have k: "0 \<le> k" "k < s0 * n + s2 * H" using idx e by (simp_all add: k_def H_def)
  have "1 * n \<le> s0 * n" "0 < s2 * H" using pos(1,3) n by simp_all
  then have big: "n < 2 ^ 31" "k < 2 ^ 31" using k pos(5) e by (simp_all add: H_def)
  define i where "i = k div n"
  have "i * n + k mod n = k" by (simp add: i_def)
  moreover have "(i + 1) * n = i * n + n" by (simp add: algebra_simps)
  ultimately have "i * n \<le> k \<and> k < (i + 1) * n"
    using pos_mod_bound [OF n(1), of k] pos_mod_sign [OF n(1), of k] by linarith
  moreover have "k sdiv n = i" "0 \<le> i"
    using k n by (simp_all add: i_def sdiv_nonneg pos_imp_zdiv_nonneg_iff)
  ultimately have i: "k sdiv n = i" "0 \<le> i" "i * n \<le> k" "k < (i + 1) * n" by auto
  have s: "cr2_place g jwide jrow jcol pos = (let j = (if i \<ge> s0 then 1 else 0); i = (if i \<ge> s0 then s0 else i)
      in do { w \<leftarrow> rd (cr2_slice g) (1 + j); q \<leftarrow> c_div (c_s32 (k - i * n)) w;
         r \<leftarrow> c_mod (c_s32 (k - i * n)) w; Some (q, r + i * s1) })"
    using slices(1,2) pos(1) n c_s32_self [of n] c_s32_self [of k] big k(1) i(1)
    by (simp add: cr2_place_def k_def [symmetric] H_def [symmetric] n_def [symmetric] c_div_def [of _ n] Let_def)
  show ?thesis
  proof (cases "i \<ge> s0")
    case False
    define r where "r = k - i * n"
    have r: "0 \<le> r" "r < s1 * H" "c_s32 r = r"
      using i(3,4) big(1) c_s32_self [of r] by (simp_all add: r_def n_def algebra_simps)
    have q: "0 \<le> r div s1" "r div s1 < H" using div_bounds [OF r(1) pos(2) r(2)] by auto
    have m: "0 \<le> r mod s1" "r mod s1 < s1" using pos(2) by simp_all
    have c: "(r mod s1 + i * s1) div s1 = i" "(r mod s1 + i * s1) mod s1 = r mod s1" using m pos(2) by simp_all
    have "r mod s1 + i * s1 < (i + 1) * s1" using m by (simp add: algebra_simps)
    also have "\<dots> \<le> s0 * s1" using False pos(2) by (intro mult_right_mono) auto
    finally have col: "r mod s1 + i * s1 < s0 * s1" .
    have "k = i * n + r div s1 * s1 + r mod s1" by (simp add: r_def)
    moreover have "cr2_place g jwide jrow jcol pos = Some (r div s1, r mod s1 + i * s1)"
      unfolding s using False slices(2) pos(2) r
      by (simp add: Let_def c_div_def c_mod_def r_def [symmetric] sdiv_nonneg smod_nonneg)
    ultimately show ?thesis
      using q m i(2) col c pos(2,3) unfolding k_def [symmetric] H_def [symmetric] n_def [symmetric] by simp
  next
    case True
    define r where "r = k - s0 * n"
    have "s0 * n \<le> i * n" using True n by simp
    then have sn: "s0 * n \<le> k" using i(3) by (rule order_trans)
    have "0 \<le> s0 * n" using pos(1) n by simp
    then have r: "0 \<le> r" "r < s2 * H" "r < 2 ^ 31" using sn k(2) big(2) unfolding r_def by linarith+
    then have r: "0 \<le> r" "r < s2 * H" "c_s32 r = r" using c_s32_self by auto
    have q: "0 \<le> r div s2" "r div s2 < H" using div_bounds [OF r(1) pos(3) r(2)] by auto
    have m: "0 \<le> r mod s2" "r mod s2 < s2" using pos(3) by simp_all
    have "k = s0 * n + r div s2 * s2 + r mod s2" by (simp add: r_def)
    moreover have "cr2_place g jwide jrow jcol pos = Some (r div s2, r mod s2 + s0 * s1)"
      unfolding s using True slices(3) pos(3) r
      by (simp add: Let_def c_div_def c_mod_def r_def [symmetric] sdiv_nonneg smod_nonneg)
    moreover have "0 \<le> s0 * s1" using pos by simp
    ultimately show ?thesis
      using q m unfolding k_def [symmetric] H_def [symmetric] n_def [symmetric] by simp
  qed
qed

section \<open>Safety\<close>

text \<open>The slices of a CR2 file, when there are any, tile the image.\<close>

definition slices_ok :: "geom \<Rightarrow> jhead \<Rightarrow> bool" where
  "slices_ok g jh \<longleftrightarrow> length (cr2_slice g) = 3 \<and>
     (let s0 = uint (cr2_slice g ! 0); s1 = uint (cr2_slice g ! 1); s2 = uint (cr2_slice g ! 2)
      in s0 = 0 \<or> 0 < s1 \<and> 0 < s2 \<and> s0 * s1 + s2 \<le> raw_width g
           \<and> jh_high jh * (jh_wide jh * jh_clrs jh) \<le> (s0 * s1 + s2) * raw_height g)"

lemma cr2_place_ok:
  assumes "geom_ok g" "jhead_ok jh" "slices_ok g jh" "0 \<le> jrow" "jrow < jh_high jh"
    and "0 \<le> jcol" "jcol < jh_wide jh * jh_clrs jh"
  shows "ok (cr2_place g (jh_wide jh * jh_clrs jh) jrow jcol (row, col))
    (\<lambda>(r, c). r = row \<and> c = col \<or> 0 \<le> r \<and> r < raw_height g \<and> 0 \<le> c \<and> c < raw_width g)"
proof -
  define n where "n = jh_wide jh * jh_clrs jh"
  define s0 s1 s2 where "s0 = uint (cr2_slice g ! 0)" and "s1 = uint (cr2_slice g ! 1)"
    and "s2 = uint (cr2_slice g ! 2)"
  have rd: "rd (cr2_slice g) 0 = Some s0" "rd (cr2_slice g) 1 = Some s1" "rd (cr2_slice g) 2 = Some s2"
    using assms(3) by (simp_all add: slices_ok_def rd_def inb_def s0_def s1_def s2_def)
  show ?thesis
  proof (cases "s0 = 0")
    case True
    then show ?thesis by (simp add: cr2_place_def rd)
  next
    case False
    have s: "0 < s0" "0 < s1" "0 < s2" "s0 * s1 + s2 \<le> raw_width g" "jh_high jh * n \<le> (s0 * s1 + s2) * raw_height g"
      using assms(3) False unsigned_greater_eq [of "cr2_slice g ! 0", where 'a = int]
      by (auto simp: slices_ok_def Let_def s0_def s1_def s2_def n_def less_le)
    have idx: "0 \<le> jrow * n + jcol" "jrow * n + jcol < (s0 * s1 + s2) * raw_height g"
      using cell_bound [of jrow "jh_high jh" jcol n] assms(4-7) s(5) by (auto simp: n_def)
    have h: "0 < raw_height g" "raw_height g * raw_width g < 2 ^ 30" "0 < raw_width g"
      using assms(1) by (auto simp: geom_ok_def algebra_simps)
    have "(s0 * s1 + s2) * raw_height g \<le> raw_width g * raw_height g"
      using s(4) h(1) by (intro mult_right_mono) auto
    also have "raw_width g * raw_height g < 2 ^ 31" using h(2) by (simp add: mult.commute)
    finally show ?thesis
      using cr2_place_inverse [OF rd s(1-3) h(1) _ idx, of "(row, col)"] s(4) by (auto simp: n_def)
  qed
qed

lemma lossless_jpeg_sample_kept:
  assumes "geom_ok g" "jhead_ok jh" "slices_ok g jh" "raw_kept g im s"
    and "0 \<le> jrow" "jrow < jh_high jh" "0 \<le> jcol" "jcol < jh_wide jh * jh_clrs jh"
    and "0 \<le> rp" "rp + jh_wide jh * jh_clrs jh \<le> int (length (jh_row jh))"
    and "\<bar>row\<bar> \<le> 65536 + k" "k < 2 ^ 30" "0 \<le> k" "0 \<le> col" "col < raw_width g"
  shows "ok (lossless_jpeg_sample g jh rp (jh_wide jh * jh_clrs jh) jrow jcol ((row, col), s))
    (\<lambda>((row, col), t). \<bar>row\<bar> \<le> 65536 + (k + 1) \<and> 0 \<le> col \<and> col < raw_width g \<and> raw_kept g im t)"
proof -
  have g: "0 < raw_width g" "raw_height g < 65536" using assms(1) by (simp_all add: geom_ok_def)
  have sh: "0 \<le> c'" "c' < raw_width g" "\<bar>r'\<bar> \<le> \<bar>r\<bar> + 1" "\<bar>if c' + 1 \<ge> raw_width g then r' + 1 else r'\<bar> \<le> \<bar>r\<bar> + 1"
    if "0 \<le> c" "c < raw_width g" "shift_3984 g (r, c) = (r', c')" for r c r' c'
    using that by (auto simp: shift_3984_def split: if_splits)
  have bound: "\<bar>r\<bar> \<le> 65536 + k" "0 \<le> c \<and> c < raw_width g"
    if "r = row \<and> c = col \<or> 0 \<le> r \<and> r < raw_height g \<and> 0 \<le> c \<and> c < raw_width g" for r c
    using that assms(11,13,14,15) g by auto
  have fin: "ok (if c_u32 r' < raw_height g then set_RAW g r' c' v s else Some s)
      (\<lambda>t. ok (Some (if c' + 1 \<ge> raw_width g then (r' + 1, 0) else (r', c' + 1), t))
        (\<lambda>((row, col), t). \<bar>row\<bar> \<le> 65536 + (k + 1) \<and> 0 \<le> col \<and> col < raw_width g \<and> raw_kept g im t))"
    if "\<bar>r\<bar> \<le> 65536 + k" "0 \<le> c \<and> c < raw_width g" "shift_3984 g (r, c) = (r', c')" for r c r' c' v
  proof -
    note b = sh [OF _ _ that(3)]
    have "\<bar>r'\<bar> < 2 ^ 31" using b(3) that(1,2) assms(12) by simp
    then have "0 \<le> r' \<and> r' < raw_height g" if "c_u32 r' < raw_height g"
      using that g(2) c_u32_small [of r' "raw_height g"] by simp
    then show ?thesis
      by (intro ok_if kept_set_RAW [where im = im]) (use b that g assms(4) in auto)
  qed
  show ?thesis
    unfolding lossless_jpeg_sample_def split_conv
    apply (rule ok_bind, rule ok_rd_safe)
    apply (use assms in \<open>simp add: inb_def; fail\<close>)
    apply (rule ok_bind, rule kept_curve [where g = g and im = im])
    apply (use assms in \<open>simp; fail\<close>)+
    apply (rule ok_bind, rule ok_mono [OF cr2_place_ok])
    apply (use assms in \<open>simp; fail\<close>)+
    apply (simp only: split_paired_all split_conv)
    apply (rule kept_Let ok_prod ok_bind)+
    apply (rule fin, rule bound, assumption, rule bound, assumption, assumption)
    done
qed

lemma lossless_jpeg_row_kept:
  assumes "geom_ok g" "jhead_ok jh0" "slices_ok g jh0" "jh_frame jh0 jh" "raw_kept g im s" "jh_restart jh0 \<noteq> 0"
    and "0 \<le> jrow" "jrow < jh_high jh0" "n = jh_wide jh0 * jh_clrs jh0"
    and "\<bar>row\<bar> \<le> 65536 + jrow * n" "(jrow + 1) * n < 2 ^ 30" "0 \<le> col" "col < raw_width g"
  shows "ok (lossless_jpeg_row g jrow ((row, col), jh, s))
    (\<lambda>((row, col), jh, t). \<bar>row\<bar> \<le> 65536 + (jrow + 1) * n \<and> 0 \<le> col \<and> col < raw_width g
      \<and> jh_frame jh0 jh \<and> raw_kept g im t)"
proof -
  have j: "jhead_ok jh" "jh_restart jh \<noteq> 0" using assms(4,6) by (auto simp: jh_frame_def)
  have w: "jh_wide jh = jh_wide jh0" "jh_clrs jh = jh_clrs jh0" "jh_high jh = jh_high jh0"
    using assms(4) by (simp_all add: jh_frame_def)
  have n: "0 \<le> n" "0 \<le> jrow * n" using assms(2,7,9) by (auto simp: jhead_ok_def)
  define r0 where "r0 = (if load_flags g AND 1 \<noteq> 0
    then if jrow AND 1 \<noteq> 0 then height g - 1 - jrow div 2 else jrow div 2 else row)"
  have r0: "\<bar>r0\<bar> \<le> 65536 + jrow * n"
  proof -
    have "0 \<le> jrow * n" "0 \<le> jrow div 2" "jrow div 2 \<le> jrow" "jrow < 65536" "0 < height g" "height g < 65536"
      using assms(1,2,7,8) n by (auto simp: geom_ok_def jhead_ok_def pos_imp_zdiv_nonneg_iff)
    moreover define m where "m = jrow * n"
    ultimately have "\<bar>height g - 1 - jrow div 2\<bar> \<le> 65536 + m" "\<bar>jrow div 2\<bar> \<le> 65536 + m" by linarith+
    then show ?thesis using assms(10) by (simp add: r0_def m_def)
  qed
  have loop: "ok (for_up 0 (jh_wide jh' * jh_clrs jh') (lossless_jpeg_sample g jh' p (jh_wide jh' * jh_clrs jh') jrow)
      ((r0, col), s\<lparr>dio := io'\<rparr>)) (\<lambda>x. ok (case x of (pos, s) \<Rightarrow> Some (pos, jh', s))
      (\<lambda>((row, col), jh, t). \<bar>row\<bar> \<le> 65536 + (jrow + 1) * n \<and> 0 \<le> col \<and> col < raw_width g
        \<and> jh_frame jh0 jh \<and> raw_kept g im t))"
    if f: "jh_frame jh jh'" and p: "0 \<le> p" "p + jh_wide jh * jh_clrs jh \<le> int (length (jh_row jh'))" for p jh' io'
  proof -
    have f0: "jh_frame jh0 jh'" using jh_frame_trans [OF assms(4) f] .
    have w': "jh_wide jh' * jh_clrs jh' = n" "jh_high jh' = jh_high jh0" "jhead_ok jh'"
      using f0 by (auto simp: jh_frame_def assms(9))
    have s': "slices_ok g jh'" using assms(3) f0 by (simp add: slices_ok_def jh_frame_def)
    define I where "I k u \<longleftrightarrow> (case u of ((row, col), t) \<Rightarrow> \<bar>row\<bar> \<le> 65536 + (jrow * n + k) \<and> 0 \<le> col
        \<and> col < raw_width g \<and> raw_kept g im t)" for k and u :: "(int \<times> int) \<times> dst"
    show ?thesis unfolding w'(1)
    proof (rule for_up_inv [where I = I])
      fix k and u :: "(int \<times> int) \<times> dst"
      assume k: "0 \<le> k" "k < n" and u: "I k u"
      obtain r c t where ut: "u = ((r, c), t)" by (metis prod.exhaust)
      have "jrow * n + k < 2 ^ 30" using k assms(11) by (simp add: algebra_simps)
      then have "ok (lossless_jpeg_sample g jh' p n jrow k ((r, c), t)) (\<lambda>((row, col), t). \<bar>row\<bar> \<le> 65536 + ((jrow * n + k) + 1)
          \<and> 0 \<le> col \<and> col < raw_width g \<and> raw_kept g im t)"
        using lossless_jpeg_sample_kept [OF assms(1) w'(3) s', of im t jrow k p r "jrow * n + k" c]
          u k n assms(7,8) p w w' by (simp add: ut assms(9) add.assoc I_def)
      then show "ok (lossless_jpeg_sample g jh' p n jrow k u) (I (k + 1))"
        unfolding ut by (rule ok_mono) (auto simp: I_def)
    qed (use n r0 assms f0 in \<open>auto simp: I_def algebra_simps\<close>)
  qed
  show ?thesis
    unfolding lossless_jpeg_row_def split_conv r0_def [symmetric]
    apply (rule ok_bind ok_with_io)+
    apply (rule ljpeg_row_ok [OF j])
    apply (rule case_prodI kept_pair kept_pair_app kept_Let ok_bind)+
    apply (rule loop, assumption+)
    done
qed

lemma lossless_jpeg_kept:
  assumes "geom_ok g" "raw_kept g im s" "ljpeg_start g False (dio s) = Some ((found, jh), b)"
    and "found \<Longrightarrow> slices_ok g jh \<and> jh_restart jh \<noteq> 0 \<and> jh_high jh * (jh_wide jh * jh_clrs jh) < 2 ^ 30"
  shows "ok (lossless_jpeg_load_raw g s) (raw_kept g im)"
proof (cases found)
  case False
  then show ?thesis using assms by (simp add: lossless_jpeg_load_raw_def with_io_def)
next
  case True
  define n where "n = jh_wide jh * jh_clrs jh"
  have jh: "jhead_ok jh" using ljpeg_start_ok [of g "dio s" jh b] assms(3) True by simp
  have n: "1 \<le> n" using jh mult_mono [of 1 "jh_wide jh" 1 "jh_clrs jh"] by (simp add: n_def jhead_ok_def)
  define I where "I j u \<longleftrightarrow> (case u of ((row, col), jh', t) \<Rightarrow> \<bar>row\<bar> \<le> 65536 + j * n \<and> 0 \<le> col
      \<and> col < raw_width g \<and> jh_frame jh jh' \<and> raw_kept g im t)" for j and u :: "(int \<times> int) \<times> jhead \<times> dst"
  have "ok (for_up 0 (jh_high jh) (lossless_jpeg_row g) ((0, 0), jh, s\<lparr>dio := b\<rparr>)) (\<lambda>(pos, jh, s). raw_kept g im s)"
  proof (rule for_up_inv [where I = I])
    show "0 \<le> jh_high jh" using jh by (simp add: jhead_ok_def)
    show "I 0 ((0, 0), jh, s\<lparr>dio := b\<rparr>)"
      using assms(1,2) jh by (simp add: I_def geom_ok_def jh_frame_refl)
  next
    fix j and u :: "(int \<times> int) \<times> jhead \<times> dst"
    assume j: "0 \<le> j" "j < jh_high jh" and u: "I j u"
    obtain r c jh' t where ut: "u = ((r, c), jh', t)" by (metis prod.exhaust)
    have "(j + 1) * n \<le> jh_high jh * n" using j n by (intro mult_right_mono) auto
    then have "(j + 1) * n < 2 ^ 30" using assms(4) True by (simp add: n_def)
    then have "ok (lossless_jpeg_row g j ((r, c), jh', t)) (\<lambda>((row, col), jh', t). \<bar>row\<bar> \<le> 65536 + (j + 1) * n \<and> 0 \<le> col
      \<and> col < raw_width g \<and> jh_frame jh jh' \<and> raw_kept g im t)"
      using u assms True j jh by (intro lossless_jpeg_row_kept) (auto simp: ut n_def I_def)
    then show "ok (lossless_jpeg_row g j u) (I (j + 1))"
      unfolding ut by (rule ok_mono) (auto simp: I_def)
  qed (auto simp: I_def)
  then show ?thesis using assms(3) True
    by (auto simp: lossless_jpeg_load_raw_def with_io_def ok_exists)
qed

text \<open>What the header of the file has to announce.\<close>

definition jpeg_fits :: "geom \<Rightarrow> dst \<Rightarrow> bool" where
  "jpeg_fits g s \<longleftrightarrow> (case ljpeg_start g False (dio s) of
      None \<Rightarrow> False
    | Some ((found, jh), b) \<Rightarrow> found \<longrightarrow> slices_ok g jh \<and> jh_restart jh \<noteq> 0
        \<and> jh_high jh * (jh_wide jh * jh_clrs jh) < 2 ^ 30)"

interpretation lossless_jpeg: loader lossless_jpeg_load_raw jpeg_fits
  by unfold_locales (auto simp: jpeg_fits_def split: option.splits intro: lossless_jpeg_kept)





end
