(* ===== verification/PackedFormats.thy ===== *)
theory PackedFormats
  imports RawImage
begin

text \<open>
  The formats that store their samples without compression, packed or whole: \<open>packed_load_raw\<close>
  with its flags, \<open>unpacked_load_raw\<close>, the Rollei, Nokia and Canon RMF layouts, the backs of Leaf,
  Sinar and Imacon, and eight-bit samples through a curve.
\<close>

section \<open>Rollei\<close>

text \<open>
  Ten bytes hold eight samples: five words of ten bits for the first part of the image, and the
  six spare bits of each word, shifted into \<open>buffer\<close>, three more for the second part.
\<close>

definition rollei_buffer :: "u32 \<Rightarrow> u8 list \<Rightarrow> int \<Rightarrow> u32" where
  "rollei_buffer buffer pixel i = word_of_int (shr (uint (pixel ! nat i)) 2) OR push_bit 6 buffer"

definition rollei_todo :: "u32 \<Rightarrow> u8 list \<Rightarrow> int \<Rightarrow> int \<Rightarrow> u32 \<times> (int \<times> int) list" where
  "rollei_todo buffer pixel iten isix =
     (let x = (\<lambda>i. shl (uint (pixel ! nat i)) 8 OR uint (pixel ! nat (i + 1)));
          buffer = fold (\<lambda>i b. rollei_buffer b pixel i) [0, 2, 4, 6, 8] buffer;
          y = (\<lambda>i. uint (shr32 buffer ((14 - i) * 5)))
      in (buffer,
          [(iten, x 0), (c_u32 (iten + 1), x 2), (c_u32 (iten + 2), x 4), (c_u32 (iten + 3), x 6),
           (c_u32 (iten + 4), x 8), (isix, y 10), (c_u32 (isix + 1), y 12), (c_u32 (isix + 2), y 14)]))"

definition rollei_put :: "(int \<times> int) list \<Rightarrow> u16 list \<Rightarrow> u16 list option" where
  "rollei_put todo xs = for_up 0 8 (\<lambda>i xs. do {
     (p, v) \<leftarrow> at todo i;
     wr xs p (v AND 0x3ff) }) xs"

text \<open>The loop ends with the file, whatever the size of the image.\<close>

function rollei_loop :: "u32 \<Rightarrow> int \<Rightarrow> int \<Rightarrow> dst \<Rightarrow> dst option" where
  "rollei_loop buffer iten isix s =
     (case fread 10 (dio s) of (pixel, b) \<Rightarrow>
        if length pixel \<noteq> 10 then Some (s\<lparr>dio := b\<rparr>)
        else (case rollei_todo buffer pixel iten isix of (buffer, todo) \<Rightarrow>
          (case rollei_put todo (raw_image s) of
             None \<Rightarrow> None
           | Some xs \<Rightarrow> rollei_loop buffer (c_u32 (iten + 5)) (c_u32 (isix + 3))
               (s\<lparr>dio := b, raw_image := xs\<rparr>))))"
  by pat_completeness auto
termination
  by (relation "measure (\<lambda>(b, i, j, s). nat (int (length (ifile (dio s))) - ipos (dio s)))")
    (auto simp: fread_def Let_def min_def split: if_splits)

declare rollei_loop.simps [simp del]

definition rollei_load_raw :: "geom \<Rightarrow> dst \<Rightarrow> dst option" where
  "rollei_load_raw g s = do {
     s \<leftarrow> rollei_loop 0 0 (c_u32 (raw_width g * raw_height g * 5 div 8)) s;
     Some (s\<lparr>maximum := 0x3ff\<rparr>) }"

section \<open>Whole samples\<close>

definition eight_bit_load_raw :: "geom \<Rightarrow> dst \<Rightarrow> dst option" where
  "eight_bit_load_raw g s = do {
     (pixel, s) \<leftarrow> for_up 0 (raw_height g) (\<lambda>row (pixel, s). do {
       (bs, s) \<leftarrow> with_io (\<lambda>b. Some (fread (raw_width g) b)) s;
       let s = derror_if (int (length bs) < raw_width g) s;
       let pixel = bs @ drop (length bs) pixel;
       s \<leftarrow> for_up 0 (raw_width g) (\<lambda>col s. do {
         p \<leftarrow> rd pixel col;
         v \<leftarrow> rd (curve s) p;
         set_RAW g row col v s }) s;
       Some (pixel, s) }) (zeros (raw_width g) :: u8 list, s);
     m \<leftarrow> rd (curve s) 0xff;
     Some (s\<lparr>maximum := m\<rparr>) }"

text \<open>
  \<open>while (1 << ++bits < maximum);\<close> the first width that holds the maximum; above two to the
  31st there is none and the loop does not end.
\<close>

definition unpacked_bits :: "int \<Rightarrow> int option" where
  "unpacked_bits mx = find (\<lambda>b. 2 ^ nat b \<ge> mx) [1..31]"

definition unpacked_load_raw :: "geom \<Rightarrow> dst \<Rightarrow> dst option" where
  "unpacked_load_raw g s = do {
     bits \<leftarrow> unpacked_bits (maximum s);
     (xs, s) \<leftarrow> with_io (read_shorts (raw_image s) 0 (raw_width g * raw_height g)) s;
     for_up 0 (raw_height g) (\<lambda>row. for_up 0 (raw_width g) (\<lambda>col s. do {
       v \<leftarrow> RAW g s row col;
       let v = shr_i v (load_flags g);
       s \<leftarrow> set_RAW g row col v s;
       Some (derror_if (shr v bits \<noteq> 0 \<and> c_u32 (row - top_margin g) < height g
                        \<and> c_u32 (col - left_margin g) < width g) s) })) (s\<lparr>raw_image := xs\<rparr>) }"

definition leaf_hdr_load_raw :: "geom \<Rightarrow> dst \<Rightarrow> dst option" where
  "leaf_hdr_load_raw g s = do {
     (tile, pixel, s) \<leftarrow> for_up 0 (tiff_samples g) (\<lambda>c st.
       for_up 0 (raw_height g) (\<lambda>r (tile, pixel, s). do {
         m \<leftarrow> c_mod r (tile_length g);
         let (tile, s) = (if m = 0
           then (let s = upd_io (fseek_set (data_offset g + c_u32 (4 * tile))) s in
                 case get_io get4 s of (x, s) \<Rightarrow> (c_u32 (tile + 1), upd_io (fseek_set x) s))
           else (tile, s));
         if filters s \<noteq> 0 \<and> c \<noteq> shot_select g then Some (tile, pixel, s)
         else if filters s \<noteq> 0 then do {
           (xs, s) \<leftarrow> with_io (read_shorts (raw_image s) (r * raw_width g) (raw_width g)) s;
           Some (tile, pixel, s\<lparr>raw_image := xs\<rparr>) }
         else do {
           (pixel, s) \<leftarrow> with_io (read_shorts pixel 0 (raw_width g)) s;
           let row = c_u32 (r - top_margin g);
           s \<leftarrow> (if row < height g then for_up 0 (width g) (\<lambda>col s. do {
                    v \<leftarrow> rd pixel (col + left_margin g);
                    set_IMG (row * width g + col) c v s }) s
                  else Some s);
           Some (tile, pixel, s) } }) st) (0, zeros (raw_width g), s);
     Some (if filters s = 0 then s\<lparr>maximum := 0xffff, raw_color := 1\<rparr> else s) }"

text \<open>One of the four shots of a Sinar back goes to \<open>raw_image\<close>, or all of them to \<open>image\<close>.\<close>

definition sinar_shot :: "geom \<Rightarrow> int \<Rightarrow> dst \<Rightarrow> dst" where
  "sinar_shot g shot s =
     (let s = upd_io (fseek_set (data_offset g + shot * 4)) s in
      case get_io get4 s of (x, s) \<Rightarrow> upd_io (fseek_set x) s)"

definition sinar_4shot_load_raw :: "geom \<Rightarrow> dst \<Rightarrow> dst option" where
  "sinar_4shot_load_raw g s =
     (if raw_image s \<noteq> [] then unpacked_load_raw g (sinar_shot g (LIM_c (shot_select g) 1 4 - 1) s)
      else do {
        (pixel, s) \<leftarrow> for_up 0 4 (\<lambda>shot (pixel, s).
          for_up 0 (raw_height g) (\<lambda>row (pixel, s). do {
            (pixel, s) \<leftarrow> with_io (read_shorts pixel 0 (raw_width g)) s;
            let r = c_u32 (row - top_margin g - (shr shot 1 AND 1));
            if r \<ge> height g then Some (pixel, s)
            else do {
              s \<leftarrow> for_up 0 (raw_width g) (\<lambda>col s.
                let c = c_u32 (col - left_margin g - (shot AND 1)) in
                if c \<ge> width g then Some s
                else do {
                  v \<leftarrow> rd pixel col;
                  set_IMG (r * width g + c) (((row AND 1) * 3) XOR (NOT col AND 1)) v s }) s;
              Some (pixel, s) } }) (pixel, sinar_shot g shot s)) (zeros (raw_width g), s);
        Some (s\<lparr>mix_green := 1\<rparr>) })"

definition imacon_full_load_raw :: "geom \<Rightarrow> dst \<Rightarrow> dst option" where
  "imacon_full_load_raw g s =
     (if img s = [] then Some s
      else for_up 0 (height g) (\<lambda>row. for_up 0 (width g) (\<lambda>col s. do {
        (xs, s) \<leftarrow> with_io (read_shorts (img s) (4 * (row * width g + col)) 3) s;
        Some (s\<lparr>img := xs\<rparr>) })) s)"

section \<open>Packed samples\<close>

text \<open>
  The refill of \<open>packed_load_raw\<close>: \<open>bite\<close> bits at a time, the bytes of a bite in little-endian
  order. \<open>bite\<close> is at least 8, so that the test for a positive step is always true.
\<close>

definition packed_bite :: "int \<Rightarrow> u64 \<Rightarrow> bitio \<Rightarrow> (u64 \<times> bitio) option" where
  "packed_bite bite bb b = for_by 8 0 bite (\<lambda>i (bb, b).
     case fgetc b of (c, b) \<Rightarrow> Some (bb OR shl64 (word_of_int c) i, b)) (shl64 bb bite, b)"

function packed_fill :: "int \<Rightarrow> int \<Rightarrow> u64 \<Rightarrow> bitio \<Rightarrow> ((int \<times> u64) \<times> bitio) option" where
  "packed_fill bite vb bb b =
     (if vb < 0 \<and> 0 < bite then
        (case packed_bite bite bb b of
           None \<Rightarrow> None
         | Some (bb, b) \<Rightarrow> packed_fill bite (vb + bite) bb b)
      else Some ((vb, bb), b))"
  by pat_completeness auto
termination
  by (relation "measure (\<lambda>(bite, vb, bb, b). nat (- vb))") auto

declare packed_fill.simps [simp del]

definition packed_bits :: "int \<Rightarrow> int \<Rightarrow> int \<times> u64 \<Rightarrow> bitio \<Rightarrow> ((int \<times> int \<times> u64) \<times> bitio) option" where
  "packed_bits bps bite = (\<lambda>(vb, bb) b. do {
     ((vb, bb), b) \<leftarrow> packed_fill bite (vb - bps) bb b;
     Some ((c_s32 (uint (shr64 (shl64 bb (64 - bps - vb)) (64 - bps))), vb, bb), b) })"

text \<open>With flag 2 the rows of the two fields follow each other; \<open>half\<close> is the size of the first.\<close>

definition packed_row :: "geom \<Rightarrow> int \<Rightarrow> int \<Rightarrow> int" where
  "packed_row g half irow =
     (if load_flags g AND 2 \<noteq> 0 then irow mod half * 2 + irow div half else irow)"

definition packed_sample ::
    "geom \<Rightarrow> int \<Rightarrow> int \<Rightarrow> int \<Rightarrow> (int \<times> u64) \<times> dst \<Rightarrow> ((int \<times> u64) \<times> dst) option" where
  "packed_sample g bite row col = (\<lambda>(vb, s). do {
     ((val, vb), s) \<leftarrow> with_io (packed_bits (tiff_bps g) bite vb) s;
     s \<leftarrow> set_RAW g row (col XOR (shr (load_flags g) 6 AND 3)) val s;
     if load_flags g AND 1 \<noteq> 0 \<and> col mod 10 = 9
     then (case get_io fgetc s of (c, s) \<Rightarrow>
       Some (vb, derror_if (c \<noteq> 0 \<and> row < height g + top_margin g \<and> col < width g + left_margin g) s))
     else Some (vb, s) })"

definition packed_load_raw :: "geom \<Rightarrow> dst \<Rightarrow> dst option" where
  "packed_load_raw g s =
     (let bwide = raw_width g * tiff_bps g div 8;
          bwide = bwide + (bwide AND shr (load_flags g) 9);
          rbits = bwide * 8 - raw_width g * tiff_bps g;
          bwide = (if load_flags g AND 1 \<noteq> 0 then bwide * 16 div 15 else bwide);
          bite = 8 + (load_flags g AND 56);
          half = shr (raw_height g + 1) 1
      in do {
        (vb, s) \<leftarrow> for_up 0 (raw_height g) (\<lambda>irow ((vb, bb), s). do {
          let row = packed_row g half irow;
          let (vb, s) =
            (if load_flags g AND 2 \<noteq> 0 \<and> row = 1 \<and> load_flags g AND 4 \<noteq> 0
             then (0, if tiff_compress g \<noteq> 0
                      then upd_io (fseek_set (data_offset g - (- half * bwide AND -2048))) s
                      else upd_io (\<lambda>b. let b = fseek_end 0 b in fseek_set (shl (shr (ipos b) 3) 2) b) s)
             else (vb, s));
          ((vb, bb), s) \<leftarrow> for_up 0 (raw_width g) (packed_sample g bite row) ((vb, bb), s);
          Some ((vb - rbits, bb), s) }) ((0, 0), s);
        Some s })"

section \<open>Nokia and Canon RMF\<close>

text \<open>
  \<open>nokia_load_raw\<close>: five bytes hold four samples. The second half of \<open>data\<close> receives the bytes of
  the file, the first half the bytes in the order of the samples.
\<close>

definition nokia_unpack :: "geom \<Rightarrow> u8 list \<Rightarrow> int \<Rightarrow> dst \<Rightarrow> dst option" where
  "nokia_unpack g data row s = for_by 4 0 (raw_width g) (\<lambda>col. for_up 0 4 (\<lambda>c s. do {
     let dp = 5 * (col div 4);
     x \<leftarrow> rd data (dp + c);
     y \<leftarrow> rd data (dp + 4);
     set_RAW g row (col + c) (shl x 2 OR (shr y (shl c 1) AND 3)) s })) s"

definition nokia_sums :: "geom \<Rightarrow> dst \<Rightarrow> (int list) option" where
  "nokia_sums g s = for_up 0 (width g - 1) (\<lambda>c sm. do {
     let row = raw_height g div 2;
     a \<leftarrow> RAW g s row c;
     b \<leftarrow> RAW g s (row + 1) (c + 1);
     x \<leftarrow> at sm (c AND 1);
     sm \<leftarrow> put sm (c AND 1) (x + c_s32 ((a - b) * (a - b)));
     a \<leftarrow> RAW g s (row + 1) c;
     b \<leftarrow> RAW g s row (c + 1);
     x \<leftarrow> at sm (NOT c AND 1);
     put sm (NOT c AND 1) (x + c_s32 ((a - b) * (a - b))) }) [0, 0]"

text \<open>The sums are doubles in the program; below two to the 53rd they are exact.\<close>

definition nokia_load_raw :: "geom \<Rightarrow> dst \<Rightarrow> dst option" where
  "nokia_load_raw g s = do {
     let rev3 = (if byte_order (dio s) = 0x4949 then 3 else 0);
     let dwide = (raw_width g * 5 + 1) div 4;
     (data, s) \<leftarrow> for_up 0 (raw_height g) (\<lambda>row (data, s). do {
       (bs, s) \<leftarrow> with_io (\<lambda>b. Some (fread dwide b)) s;
       let s = derror_if (int (length bs) < dwide) s;
       let data = take (nat dwide) data @ bs @ drop (nat dwide + length bs) data;
       data \<leftarrow> for_up 0 dwide (\<lambda>c data. do {
         x \<leftarrow> rd data (dwide + (c XOR rev3));
         wr data c x }) data;
       s \<leftarrow> nokia_unpack g data row s;
       Some (data, s) }) (uninit g (dwide * 2), s);
     let s = s\<lparr>maximum := 0x3ff\<rparr>;
     if cam_make g \<noteq> ''OmniVision'' then Some s
     else do {
       sm \<leftarrow> nokia_sums g s;
       Some (if sm ! 1 > sm ! 0 then s\<lparr>filters := 0x4b4b4b4b\<rparr> else s) } }"

text \<open>
  \<open>canon_rmf_load_raw\<close>: three samples in 32 bits; the columns are shifted by four, and what leaves
  the row on the left enters two rows above on the right.
\<close>

definition rmf_place :: "geom \<Rightarrow> int \<Rightarrow> int \<Rightarrow> int \<times> int" where
  "rmf_place g row col =
     (if col - 4 < 0
      then (if row - 2 < 0 then row - 2 + raw_height g else row - 2, col - 4 + raw_width g)
      else (row, col - 4))"

definition canon_rmf_load_raw :: "geom \<Rightarrow> dst \<Rightarrow> dst option" where
  "canon_rmf_load_raw g s = do {
     s \<leftarrow> for_up 0 (raw_height g) (\<lambda>row. for_by 3 0 (raw_width g - 2) (\<lambda>col s.
       case get_io get4 s of (w, s) \<Rightarrow>
         let bits = c_s32 w in
         for_up 0 3 (\<lambda>c s. do {
           let (orow, ocol) = rmf_place g row (col + c);
           v \<leftarrow> rd (curve s) (shr bits (10 * c + 2) AND 0x3ff);
           set_RAW g orow ocol v s }) s)) s;
     m \<leftarrow> rd (curve s) 0x3ff;
     Some (s\<lparr>maximum := m\<rparr>) }"

section \<open>Safety\<close>

lemma eight_bit_kept:
  assumes "geom_ok g" "raw_kept g im s"
  shows "ok (eight_bit_load_raw g s) (raw_kept g im)"
  unfolding eight_bit_load_raw_def
  apply (rule safe)
  apply (rule kept_for2 [where g=g and im=im and J = "\<lambda>p. length p = nat (raw_width g)"])
  apply (simp_all add: assms)
  apply (rule kept | rule safe | (use assms in \<open>simp add: inb_def geom_ok_def; fail\<close>))+
  done

lemma unpacked_kept:
  assumes "geom_ok g" "raw_kept g im s" "maximum s \<le> 2 ^ 31"
  shows "ok (unpacked_load_raw g s) (raw_kept g im)"
proof -
  have "find (\<lambda>b. 2 ^ nat b \<ge> maximum s) [1..31] \<noteq> None"
    using assms(3) unfolding find_None_iff by (auto intro!: bexI [of _ 31])
  then obtain n where n: "unpacked_bits (maximum s) = Some n" by (auto simp: unpacked_bits_def)
  have g: "int (length (raw_image s)) = (raw_height g + 7) * raw_width g" "0 < raw_height g" "0 < raw_width g"
    using assms by (auto simp: raw_kept_def raw_ok_def geom_ok_def)
  have len: "raw_width g * raw_height g \<le> int (length (raw_image s))" "0 \<le> raw_width g * raw_height g"
    using g by (simp_all add: algebra_simps)
  show ?thesis
    unfolding unpacked_load_raw_def n
    apply simp
    apply (rule kept | rule safe | assumption | (use assms len in \<open>simp add: inb_def geom_ok_def; fail\<close>))+
    done
qed

lemma rmf_place_bounds:
  assumes "geom_ok g" "2 \<le> raw_height g" "4 \<le> raw_width g" "0 \<le> row" "row < raw_height g" "0 \<le> col" "col < raw_width g"
  shows "case rmf_place g row col of (r, c) \<Rightarrow> 0 \<le> r \<and> r < raw_height g \<and> 0 \<le> c \<and> c < raw_width g"
  using assms by (auto simp: rmf_place_def)

lemma rmf_kept:
  assumes "geom_ok g" "raw_kept g im s" "2 \<le> raw_height g" "4 \<le> raw_width g"
  shows "ok (canon_rmf_load_raw g s) (raw_kept g im)"
proof -
  have b: "x AND 1023 < 65536" for x :: int using AND_upper2 [of 1023 x] by simp
  have r: "0 \<le> r" "r < raw_height g + 7" "0 \<le> c" "c < raw_width g"
    if "rmf_place g row col = (r, c)" "0 \<le> row" "row < raw_height g" "0 \<le> col" "col < raw_width g" for row col r c
    using rmf_place_bounds [OF assms(1,3,4) that(2-)] that(1) by simp_all
  show ?thesis
  unfolding canon_rmf_load_raw_def
  apply (rule kept | rule safe | assumption | (use assms in \<open>simp add: geom_ok_def inb_def b; fail\<close>)
      | (rule r, assumption))+
  done
qed

interpretation eight_bit: loader eight_bit_load_raw "\<lambda>g s. True"
  by unfold_locales (rule eight_bit_kept)

interpretation unpacked: loader unpacked_load_raw "\<lambda>g s. maximum s \<le> 2 ^ 31"
  by unfold_locales (rule unpacked_kept)

interpretation rmf: loader canon_rmf_load_raw "\<lambda>g s. 2 \<le> raw_height g \<and> 4 \<le> raw_width g"
  by unfold_locales (rule rmf_kept, auto)

text \<open>
  The rows of an interlaced packed file (flag 2: one field after the other) are a permutation of the
  rows of the image, also for an odd height.
\<close>

theorem packed_row_bij:
  assumes "0 < h"
  shows "bij_betw (packed_row g (shr (h + 1) 1)) {0..<h} {0..<h}"
proof (cases "load_flags g AND 2 = 0")
  case True
  then have "packed_row g x y = y" for x y by (simp add: packed_row_def)
  then show ?thesis by (simp add: bij_betw_def inj_on_def)
next
  case False
  define n where "n = (h + 1) div 2"
  have n: "0 < n" "h \<le> 2 * n" "2 * n \<le> h + 1" using assms by (auto simp: n_def)
  have p: "packed_row g n r = (if r < n then 2 * r else 2 * (r - n) + 1)" if "0 \<le> r" "r < h" for r
  proof (cases "r < n")
    case t: True
    then show ?thesis using that False by (simp add: packed_row_def)
  next
    case f: False
    then have "n \<le> r" "r - n < n" using that n by auto
    then have "r div n = 1" using int_div_pos_eq [of r n 1 "r - n"] by simp
    then have "r mod n = r - n" using minus_div_mult_eq_mod [of r n] by simp
    note d = this \<open>r div n = 1\<close>
    then show ?thesis using False f by (simp add: packed_row_def d)
  qed
  have "inj_on (packed_row g n) {0..<h}" 
  proof (rule inj_onI)
    fix x y
    assume a: "x \<in> {0..<h}" "y \<in> {0..<h}" "packed_row g n x = packed_row g n y"
    then have "(if x < n then 2 * x else 2 * (x - n) + 1) = (if y < n then 2 * y else 2 * (y - n) + 1)"
      using p [of x] p [of y] by simp
    then show "x = y" by (simp split: if_splits) presburger+
  qed
  moreover have "packed_row g n ` {0..<h} \<subseteq> {0..<h}" using p n by auto
  ultimately have "bij_betw (packed_row g n) {0..<h} {0..<h}"
    using endo_inj_surj [of "{0..<h}" "packed_row g n"] by (simp add: bij_betw_def)
  then show ?thesis by (simp add: n_def shr_div)
qed

theorem packed_row_bij_witness:
  "bij_betw (packed_row (plain_geom 5 4\<lparr>load_flags := 2\<rparr>) 3) {0..<5} {0..<5} \<and> packed_row (plain_geom 5 4\<lparr>load_flags := 2\<rparr>) 3 4 = 3"
  using packed_row_bij [of 5 "plain_geom 5 4\<lparr>load_flags := 2\<rparr>"] by (simp add: shr_div packed_row_def)

end
