(* ===== verification/Predictive.thy ===== *)
theory Predictive
  imports Sony
begin

text \<open>
  Formats that code each sample as a correction of a prediction: Panasonic's blocks of fourteen
  samples, Olympus's adaptive code, and the early QuickTake; and Minolta's RD-175, whose sensor
  rows arrive in an order of their own.
\<close>

section \<open>Panasonic\<close>

text \<open>
  The static variables of \<open>pana_bits\<close>. \<open>byte+1\<close> reaches 0x4000, one past the end of the buffer;
  the byte that lies there is \<open>stray\<close>.
\<close>

record pana =
  pana_buf :: "u8 list"
  pana_vbits :: int

definition pana_refill :: "int \<Rightarrow> u8 list \<Rightarrow> bitio \<Rightarrow> (u8 list \<times> bitio) option" where
  "pana_refill flags buf b =
     (if flags < 0 \<or> flags > int (length buf) then None
      else
        let (hi, b) = fread (0x4000 - flags) b;
            (lo, b) = fread flags b;
            buf = take (nat flags) buf @ hi @ drop (nat flags + length hi) buf
        in Some (lo @ drop (length lo) buf, b))"

definition pana_bits ::
    "int \<Rightarrow> u8 \<Rightarrow> int \<Rightarrow> pana \<times> bitio \<Rightarrow> (int \<times> pana \<times> bitio) option" where
  "pana_bits flags stray nbits = (\<lambda>(p, b).
     if nbits = 0 then Some (0, p\<lparr>pana_vbits := 0\<rparr>, b)
     else do {
       (buf, b) \<leftarrow> (if pana_vbits p = 0 then pana_refill flags (pana_buf p) b else Some (pana_buf p, b));
       let vb = (pana_vbits p - nbits) AND 0x1ffff;
       let byte = shr vb 3 XOR 0x3ff0;
       lo \<leftarrow> rd (buf @ [stray]) byte;
       hi \<leftarrow> rd (buf @ [stray]) (byte + 1);
       Some (shr (lo OR shl hi 8) (vb AND 7) AND NOT (shl (-1) nbits),
             p\<lparr>pana_buf := buf, pana_vbits := vb\<rparr>, b) })"

definition pana_io ::
    "geom \<Rightarrow> int \<Rightarrow> pana \<times> dst \<Rightarrow> (int \<times> pana \<times> dst) option" where
  "pana_io g n = (\<lambda>(p, s). do {
     (x, p, b) \<leftarrow> pana_bits (load_flags g) (word_of_int (junk g 0)) n (p, dio s);
     Some (x, p, s\<lparr>dio := b\<rparr>) })"

text \<open>One sample; \<open>pred\<close>, \<open>nonz\<close> and \<open>sh\<close> live from sample to sample.\<close>

definition panasonic_sample ::
    "geom \<Rightarrow> int \<Rightarrow> int \<Rightarrow> int \<times> int list \<times> int list \<times> pana \<times> dst
      \<Rightarrow> (int \<times> int list \<times> int list \<times> pana \<times> dst) option" where
  "panasonic_sample g row col = (\<lambda>(sh, pred, nonz, p, s). do {
     let i = col mod 14;
     let pred = (if i = 0 then [0, 0] else pred);
     let nonz = (if i = 0 then [0, 0] else nonz);
     (sh, p, s) \<leftarrow> (if i mod 3 = 2 then do {
         (x, p, s) \<leftarrow> pana_io g 2 (p, s); Some (shr 4 (3 - x), p, s) }
       else Some (sh, p, s));
     nz \<leftarrow> at nonz (i AND 1);
     pr \<leftarrow> at pred (i AND 1);
     (pr, nz, p, s) \<leftarrow>
       (if nz \<noteq> 0 then do {
          (j, p, s) \<leftarrow> pana_io g 8 (p, s);
          if j \<noteq> 0 then
            (let pr = c_s32 (pr - shl 0x80 sh);
                 pr = (if pr < 0 \<or> sh = 4 then pr AND NOT (shl (-1) sh) else pr)
             in Some (c_s32 (pr + shl j sh), nz, p, s))
          else Some (pr, nz, p, s) }
        else do {
          (nz, p, s) \<leftarrow> pana_io g 8 (p, s);
          if nz \<noteq> 0 \<or> i > 11 then do {
            (x, p, s) \<leftarrow> pana_io g 4 (p, s);
            Some (shl nz 4 OR x, nz, p, s) }
          else Some (pr, nz, p, s) });
     nonz \<leftarrow> put nonz (i AND 1) nz;
     pred \<leftarrow> put pred (i AND 1) pr;
     v \<leftarrow> at pred (col AND 1);
     s \<leftarrow> set_RAW g row col v s;
     Some (sh, pred, nonz, p, derror_if (c_u16 v > 4098 \<and> col < width g) s) })"

definition panasonic_load_raw :: "geom \<Rightarrow> pana \<Rightarrow> dst \<Rightarrow> (pana \<times> dst) option" where
  "panasonic_load_raw g p s = do {
     (z, p, s) \<leftarrow> pana_io g 0 (p, s);
     (sh, pred, nonz, p, s) \<leftarrow> for_up 0 (height g) (\<lambda>row st.
       for_up 0 (raw_width g) (panasonic_sample g row) st) (0, [0, 0], [0, 0], p, s);
     Some (p, s) }"

section \<open>Olympus\<close>

text \<open>The table: \<open>2048 >> i\<close> cells for a run of \<open>i\<close> zeros, the longest run first.\<close>

definition olympus_huff :: "u16 list option" where
  "olympus_huff = do {
     h \<leftarrow> wr (zeros 4096) 0 0xc0c;
     (n, h) \<leftarrow> for_up 0 12 (\<lambda>k (n, h). do {
       let i = 11 - k;
       for_up 0 (shr 2048 i) (\<lambda>c (n, h). do {
         h \<leftarrow> wr h (n + 1) (shl (i + 1) 8 OR i);
         Some (n + 1, h) }) (n, h) }) (0, h);
     Some h }"

text \<open>\<open>for (nbits=2+i; (ushort) carry[0] >> (nbits+i); nbits++);\<close>\<close>

function olympus_nbits :: "int \<Rightarrow> int \<Rightarrow> int \<Rightarrow> int" where
  "olympus_nbits c0 i nbits =
     (if nbits + i < 16 \<and> shr c0 (nbits + i) \<noteq> 0 then olympus_nbits c0 i (nbits + 1) else nbits)"
  by pat_completeness auto
termination
  by (relation "measure (\<lambda>(c0, i, n). nat (16 - i - n))") auto

declare olympus_nbits.simps [simp del]

text \<open>
  The difference of a sample and the new state of its colour, three numbers. The count of
  \<open>olympus_nbits\<close> cannot pass 16, since a \<open>ushort\<close> has no more bits.
\<close>

definition olympus_diff ::
    "u16 list \<Rightarrow> int \<times> int \<times> int \<Rightarrow> bitio \<Rightarrow> ((int \<times> int \<times> int \<times> int \<times> int) \<times> bitio) option" where
  "olympus_diff huff = (\<lambda>(c0, c1, c2) b. do {
     let i = (if c2 < 3 then 2 else 0);
     let nbits = olympus_nbits (c_u16 c0) i (2 + i);
     (sb, b) \<leftarrow> getbits 3 b;
     let low = sb AND 3;
     let sign = shr (c_s32 (shl sb 29)) 31;
     (high, b) \<leftarrow> getbithuff 12 (Some huff) b;
     (high, b) \<leftarrow> (if high = 12 then do { (h, b) \<leftarrow> getbits (16 - nbits) b; Some (shr h 1, b) }
                   else Some (high, b));
     (x, b) \<leftarrow> getbits nbits b;
     let c0 = c_s32 (shl high nbits OR x);
     let diff = c_s32 ((c0 XOR sign) + c1);
     let c1 = shr (c_s32 (diff * 3 + c1)) 5;
     let c2 = (if c0 > 16 then 0 else c2 + 1);
     Some ((diff, low, c0, c1, c2), b) })"

definition olympus_predict :: "int \<Rightarrow> int \<Rightarrow> int \<Rightarrow> int" where
  "olympus_predict w n nw =
     (if w < nw \<and> nw < n \<or> n < nw \<and> nw < w
      then (if ABS_c (w - nw) > 32 \<or> ABS_c (n - nw) > 32 then w + n - nw else shr (w + n) 1)
      else if ABS_c (w - nw) > ABS_c (n - nw) then w else n)"

definition olympus_sample ::
    "geom \<Rightarrow> u16 list \<Rightarrow> int \<Rightarrow> int \<Rightarrow> (int \<times> int \<times> int) list \<times> dst \<Rightarrow> ((int \<times> int \<times> int) list \<times> dst) option" where
  "olympus_sample g huff row col = (\<lambda>(acarry, s). do {
     carry \<leftarrow> at acarry (col AND 1);
     ((diff, low, carry), s) \<leftarrow> with_io (olympus_diff huff carry) s;
     acarry \<leftarrow> put acarry (col AND 1) carry;
     if col \<ge> width g then Some (acarry, s)
     else do {
       pred \<leftarrow>
         (if row < 2 \<and> col < 2 then Some 0
          else if row < 2 then RAW g s row (col - 2)
          else if col < 2 then RAW g s (row - 2) col
          else do {
            w \<leftarrow> RAW g s row (col - 2);
            n \<leftarrow> RAW g s (row - 2) col;
            nw \<leftarrow> RAW g s (row - 2) (col - 2);
            Some (olympus_predict w n nw) });
       let v = pred + (c_s32 (shl diff 2) OR low);
       s \<leftarrow> set_RAW g row col v s;
       Some (acarry, derror_if (shr (c_u16 v) 12 \<noteq> 0) s) } })"

definition olympus_load_raw :: "geom \<Rightarrow> dst \<Rightarrow> dst option" where
  "olympus_load_raw g s = do {
     huff \<leftarrow> olympus_huff;
     let s = upd_io (fseek_cur 7) s;
     (z, s) \<leftarrow> with_io (getbits (-1)) s;
     for_up 0 (height g) (\<lambda>row s. do {
       (acarry, s) \<leftarrow> for_up 0 (raw_width g) (olympus_sample g huff row) ([(0, 0, 0), (0, 0, 0)], s);
       Some s }) s }"

section \<open>Minolta RD-175\<close>

text \<open>The row and the box a line of the file belongs to; \<open>None\<close> where the line is skipped.\<close>

definition rd175_line :: "int \<Rightarrow> (int \<times> int) option" where
  "rd175_line irow =
     (let box = irow div 82;
          row = irow mod 82 * 12 + (if box < 12 then box OR 1 else (box - 12) * 2)
      in if irow = 1477 \<or> irow = 1479 then None
         else if irow = 1476 then Some (984, box)
         else if irow = 1480 then Some (985, box)
         else if irow = 1478 then Some (985, 1)
         else Some (row, box))"

definition rd175_mixed :: "geom \<Rightarrow> u8 list \<Rightarrow> int \<Rightarrow> dst \<Rightarrow> dst option" where
  "rd175_mixed g pixel row s = do {
     (row, s) \<leftarrow> for_up 0 1533 (\<lambda>col (row, s). do {
       s \<leftarrow> (if col \<noteq> 1 then do {
           v \<leftarrow> (if (col + 1) AND 2 \<noteq> 0 then do {
                  a \<leftarrow> rd pixel (col div 2 - 1); b \<leftarrow> rd pixel (col div 2 + 1); Some (a + b) }
                else do { a \<leftarrow> rd pixel (col div 2); Some (shl a 1) });
           set_RAW g row col v s }
         else Some s);
       Some (row XOR 1, s) }) (row, s);
     a \<leftarrow> rd pixel 1;
     s \<leftarrow> set_RAW g row 1 (shl a 1) s;
     a \<leftarrow> rd pixel 765;
     set_RAW g row 1533 (shl a 1) s }"

definition rd175_plain :: "geom \<Rightarrow> u8 list \<Rightarrow> int \<Rightarrow> dst \<Rightarrow> dst option" where
  "rd175_plain g pixel row s = for_by 2 (row AND 1) 1534 (\<lambda>col s. do {
     a \<leftarrow> rd pixel (col div 2);
     set_RAW g row col (shl a 1) s }) s"

definition minolta_rd175_load_raw :: "geom \<Rightarrow> dst \<Rightarrow> dst option" where
  "minolta_rd175_load_raw g s = do {
     (pixel, s) \<leftarrow> for_up 0 1481 (\<lambda>irow (pixel, s). do {
       (bs, s) \<leftarrow> with_io (\<lambda>b. Some (fread 768 b)) s;
       let s = derror_if (length bs < 768) s;
       let pixel = bs @ drop (length bs) pixel;
       (case rd175_line irow of
          None \<Rightarrow> Some (pixel, s)
        | Some (row, box) \<Rightarrow> do {
            s \<leftarrow> (if box < 12 \<and> box AND 1 \<noteq> 0 then rd175_mixed g pixel row s
                  else rd175_plain g pixel row s);
            Some (pixel, s) }) }) (uninit g 768 :: u8 list, s);
     Some (s\<lparr>maximum := shl 0xff 1\<rparr>) }"

section \<open>QuickTake 100\<close>

definition qt_gstep :: "int list" where
  "qt_gstep = [-89, -60, -44, -32, -22, -15, -8, -2, 2, 8, 15, 22, 32, 44, 60, 89]"

definition qt_rstep :: "int list list" where
  "qt_rstep = [[-3, -1, 1, 3], [-5, -1, 1, 5], [-8, -2, 2, 8], [-13, -3, 3, 13], [-19, -4, 4, 19], [-28, -6, 6, 28]]"

definition qt_curve :: "int list" where
  "qt_curve =
   [0, 1, 2, 3, 4, 5, 6, 7, 8, 9, 11, 12, 13, 14, 15, 16,
    17, 18, 19, 20, 21, 22, 23, 24, 25, 26, 27, 28, 29, 30, 32, 33,
    34, 35, 36, 37, 38, 39, 40, 41, 42, 43, 44, 45, 46, 47, 48, 49,
    50, 51, 53, 54, 55, 56, 57, 58, 59, 60, 61, 62, 63, 64, 65, 66,
    67, 68, 69, 70, 71, 72, 74, 75, 76, 77, 78, 79, 80, 81, 82, 83,
    84, 86, 88, 90, 92, 94, 97, 99, 101, 103, 105, 107, 110, 112, 114, 116,
    118, 120, 123, 125, 127, 129, 131, 134, 136, 138, 140, 142, 144, 147, 149, 151,
    153, 155, 158, 160, 162, 164, 166, 168, 171, 173, 175, 177, 179, 181, 184, 186,
    188, 190, 192, 195, 197, 199, 201, 203, 205, 208, 210, 212, 214, 216, 218, 221,
    223, 226, 230, 235, 239, 244, 248, 252, 257, 261, 265, 270, 274, 278, 283, 287,
    291, 296, 300, 305, 309, 313, 318, 322, 326, 331, 335, 339, 344, 348, 352, 357,
    361, 365, 370, 374, 379, 383, 387, 392, 396, 400, 405, 409, 413, 418, 422, 426,
    431, 435, 440, 444, 448, 453, 457, 461, 466, 470, 474, 479, 483, 487, 492, 496,
    500, 508, 519, 531, 542, 553, 564, 575, 587, 598, 609, 620, 631, 643, 654, 665,
    676, 687, 698, 710, 721, 732, 743, 754, 766, 777, 788, 799, 810, 822, 833, 844,
    855, 866, 878, 889, 900, 911, 922, 933, 945, 956, 967, 978, 989, 1001, 1012, 1023]"

text \<open>The array \<open>pixel[484][644]\<close>, row by row.\<close>

definition qt_get :: "u8 list \<Rightarrow> int \<Rightarrow> int \<Rightarrow> int option" where
  "qt_get px row col = rd px (row * 644 + col)"

definition qt_set :: "int \<Rightarrow> int \<Rightarrow> int \<Rightarrow> u8 list \<Rightarrow> u8 list option" where
  "qt_set row col v px = wr px (row * 644 + col) v"

definition qt_green :: "int \<Rightarrow> int \<Rightarrow> int \<times> u8 list \<times> bitio \<Rightarrow> (int \<times> u8 list \<times> bitio) option" where
  "qt_green row col = (\<lambda>(val, px, b). do {
     a \<leftarrow> qt_get px (row - 1) (col - 1);
     c \<leftarrow> qt_get px (row - 1) (col + 1);
     d \<leftarrow> qt_get px row (col - 2);
     (k, b) \<leftarrow> getbits 4 b;
     st \<leftarrow> at qt_gstep k;
     let val = LIM_c (shr (a + 2 * c + d) 2 + st) 0 255;
     px \<leftarrow> qt_set row col val px;
     px \<leftarrow> (if col < 4 then do {
              px \<leftarrow> qt_set (row + 1) (NOT row AND 1) val px;
              qt_set row (col - 2) val px }
            else Some px);
     px \<leftarrow> (if row = 2 then do {
              px \<leftarrow> qt_set (row - 1) (col + 3) val px;
              qt_set (row - 1) (col + 1) val px }
            else Some px);
     Some (val, px, b) })"

text \<open>The loop variable \<open>col\<close> is used after its loop: it is the first value not below the bound.\<close>

definition qt_greens :: "geom \<Rightarrow> u8 list \<times> bitio \<Rightarrow> (u8 list \<times> bitio) option" where
  "qt_greens g = (\<lambda>(px, b). do {
     (val, px, b) \<leftarrow> for_up 2 (height g + 2) (\<lambda>row (val, px, b). do {
       let c0 = 2 + (row AND 1);
       (val, px, b) \<leftarrow> for_by 2 c0 (width g + 2) (qt_green row) (val, px, b);
       let col = after 2 c0 (width g + 2);
       px \<leftarrow> qt_set row col val px;
       Some (val, px, b) }) (0, px, b);
     Some (px, b) })"

definition qt_sharp :: "int \<Rightarrow> int" where
  "qt_sharp v = (if v < 4 then 0 else if v < 8 then 1 else if v < 16 then 2
                 else if v < 32 then 3 else if v < 48 then 4 else 5)"

definition qt_other :: "int \<Rightarrow> int \<Rightarrow> u8 list \<times> bitio \<Rightarrow> (u8 list \<times> bitio) option" where
  "qt_other row col = (\<lambda>(px, b). do {
     n \<leftarrow> qt_get px (row - 2) col;
     w \<leftarrow> qt_get px row (col - 2);
     sharp \<leftarrow> (if row < 4 \<or> col < 4 then Some 2
       else do {
         nw \<leftarrow> qt_get px (row - 2) (col - 2);
         Some (qt_sharp (ABS_c (n - w) + ABS_c (n - nw) + ABS_c (w - nw))) });
     (k, b) \<leftarrow> getbits 2 b;
     steps \<leftarrow> at qt_rstep sharp;
     st \<leftarrow> at steps k;
     let val = LIM_c (shr (n + w) 1 + st) 0 255;
     px \<leftarrow> qt_set row col val px;
     px \<leftarrow> (if row < 4 then qt_set (row - 2) (col + 2) val px else Some px);
     px \<leftarrow> (if col < 4 then qt_set (row + 2) (col - 2) val px else Some px);
     Some (px, b) })"

definition qt_smooth :: "int \<Rightarrow> int \<Rightarrow> u8 list \<Rightarrow> u8 list option" where
  "qt_smooth row col px = do {
     a \<leftarrow> qt_get px row (col - 1);
     c \<leftarrow> qt_get px row col;
     d \<leftarrow> qt_get px row (col + 1);
     qt_set row col (LIM_c (shr (a + shl c 2 + d) 1 - 0x100) 0 255) px }"

definition quicktake_100_load_raw :: "geom \<Rightarrow> dst \<Rightarrow> dst option" where
  "quicktake_100_load_raw g s = do {
     (z, b) \<leftarrow> getbits (-1) (dio s);
     (px, b) \<leftarrow> qt_greens g (replicate (484 * 644) 0x80, b);
     (px, b) \<leftarrow> for_up 0 2 (\<lambda>rb st.
       for_by 2 (2 + rb) (height g + 2) (\<lambda>row st.
         for_by 2 (3 - (row AND 1)) (width g + 2) (qt_other row) st) st) (px, b);
     px \<leftarrow> for_up 2 (height g + 2) (\<lambda>row px.
       for_by 2 (3 - (row AND 1)) (width g + 2) (qt_smooth row) px) px;
     s \<leftarrow> for_up 0 (height g) (\<lambda>row. for_up 0 (width g) (\<lambda>col s. do {
       p \<leftarrow> qt_get px (row + 2) (col + 2);
       v \<leftarrow> at qt_curve p;
       set_RAW g row col v s })) (s\<lparr>dio := b\<rparr>);
     Some (s\<lparr>maximum := 0x3ff\<rparr>) }"

section \<open>The table and the safety of the Olympus format\<close>

lemma olympus_huff_cells:
  "olympus_huff = Some (0xc0c # tab_cells 4096 (map (\<lambda>i. shl (i + 1) 8 OR i) (rev [0..11])))"
proof -
  define tab where "tab = map (\<lambda>i. shl (i + 1) 8 OR i) (rev [0..11::int])"
  have tab: "tab = [3083, 2826, 2569, 2312, 2055, 1798, 1541, 1284, 1027, 770, 513, 256]"
    unfolding tab_def by code_simp
  have len: "length (tab_cells 4096 tab) = 4095"
  proof -
    have "int (length (tab_cells 4096 tab)) = 4095" by (simp add: length_tab_cells tab, code_simp)
    then show ?thesis by linarith
  qed
  have t: "at tab k = Some (shl (11 - k + 1) 8 OR (11 - k))" "shr 4096 (shr (shl (11 - k + 1) 8 OR (11 - k)) 8) = shr 2048 (11 - k)"
    if "0 \<le> k" "k < 12" for k
  proof -
    have "k \<in> set [0..11]" using that by simp
    moreover have "\<forall>k \<in> set [0..11]. at tab k = Some (shl (11 - k + 1) 8 OR (11 - k))
      \<and> shr 4096 (shr (shl (11 - k + 1) 8 OR (11 - k)) 8) = shr 2048 (11 - k)"
      unfolding tab by code_simp
    ultimately show "at tab k = Some (shl (11 - k + 1) 8 OR (11 - k))"
      "shr 4096 (shr (shl (11 - k + 1) 8 OR (11 - k)) 8) = shr 2048 (11 - k)" by blast+
  qed
  have n12: "12 = int (length tab)" by (simp add: tab)
  have w: "wr (zeros 4096 :: u16 list) 0 0xc0c = Some ((zeros 4096)[0 := 0xc0c])" by (simp add: wr_def inb_def)
  have "olympus_huff = fill_tab 4096 tab ((zeros 4096)[0 := 0xc0c])"
    unfolding olympus_huff_def fill_tab_def w
    apply (simp only: Option.bind.bind_lunit tab [symmetric])
    apply (intro arg_cong2 [where f = Option.bind] refl)
    apply (subst n12)
    apply (rule for_by_cong)
    apply (simp add: t [simplified] Let_def n12 [symmetric] split: prod.split)
    done
  also have "\<dots> = Some (put_run 1 (tab_cells 4096 tab) ((zeros 4096)[0 := 0xc0c]))"
    by (rule fill_tab_cells) (simp_all add: len)
  also have "put_run 1 (tab_cells 4096 tab) ((zeros 4096)[0 := 0xc0c]) = 0xc0c # tab_cells 4096 tab"
    using length_zeros [of 4096, where 'a = u16]
    by (cases "zeros 4096 :: u16 list") (simp_all add: put_run_def len del: length_zeros)
  finally show ?thesis unfolding tab_def .
qed

lemma olympus_huff_unary:
  "\<exists>h. olympus_huff = Some h \<and> length h = 4096 \<and> rd h 0 = Some 0xc0c
    \<and> (\<forall>i \<in> {0..11}. \<forall>c \<in> {2 ^ nat (11 - i)..<2 ^ nat (12 - i)}. rd h c = Some (256 * (i + 1) + i))"
proof -
  define code where "code = (\<lambda>i::int. shl (i + 1) 8 OR i)"
  define h where "h = 0xc0c # tab_cells 4096 (map code (rev [0..11]))"
  have sizes: "\<forall>i \<in> set [0..11]. (\<Sum>t\<leftarrow>map code (rev [i + 1..11]). shr 4096 (shr t 8)) = 2 ^ nat (11 - i) - 1
      \<and> shr 4096 (shr (code i) 8) = 2 ^ nat (11 - i) \<and> take_bit 16 (code i) = 256 * (i + 1) + i"
    unfolding code_def by code_simp
  have "rd h c = Some (256 * (i + 1) + i)" if i: "i \<in> {0..11}" and c: "c \<in> {2 ^ nat (11 - i)..<2 ^ nat (12 - i)}" for i c
  proof -
    define pre where "pre = 0xc0c # tab_cells 4096 (map code (rev [i + 1..11]))"
    have i': "i \<in> set [0..11]" using i by simp
    have pre: "int (length pre) = 2 ^ nat (11 - i)"
      using sizes i' by (simp add: pre_def length_tab_cells)
    have "[0..11] = [0..i - 1] @ [i] @ [i + 1..11]"
      using i upto_split1 [of 0 i 11] upto_split2 [of i i 11] by (simp add: upto_split3)
    then have h: "h = pre @ replicate (2 ^ nat (11 - i)) (word_of_int (code i)) @ tab_cells 4096 (map code (rev [0..i - 1]))"
      using sizes i' by (simp add: h_def pre_def tab_cells_append) (simp add: tab_cells_def)
    have "nat (12 - i) = Suc (nat (11 - i))" using i unfolding atLeastAtMost_iff by arith
    then have "c < 2 * 2 ^ nat (11 - i)" "2 ^ nat (11 - i) \<le> c" using c by simp_all
    then have "rd h c = Some (uint (word_of_int (code i) :: u16))"
      unfolding h by (intro rd_run) (simp_all add: pre)
    then show ?thesis using sizes i' by (simp add: uint_word_of_int take_bit_eq_mod)
  qed
  moreover have "olympus_huff = Some h" unfolding h_def code_def by (rule olympus_huff_cells)
  moreover have "int (length h) = 4096" unfolding h_def by (simp add: length_tab_cells code_def, code_simp)
  moreover have "rd h 0 = Some 0xc0c" by (simp add: h_def rd_def inb_def)
  ultimately show ?thesis by (intro exI [of _ h]) auto
qed

lemma olympus_diff_safe [safe]:
  assumes "4096 \<le> length huff" "\<And>d l c b'. Q ((d, l, c), b')"
  shows "ok (olympus_diff huff c b) Q"
  using assms unfolding olympus_diff_def
  apply (cases c, simp only: prod.case)
  apply (rule kept_pair kept_pair_app kept_Let case_prodI | rule safe | (simp; fail))+
  done

lemma olympus_sample_kept:
  assumes "4096 \<le> length huff" "geom_ok g" "raw_kept g im s" "length ac = 2" "0 \<le> row" "row < height g" "0 \<le> col" "col < raw_width g"
  shows "ok (olympus_sample g huff row col (ac, s)) (\<lambda>(ac, t). length ac = 2 \<and> raw_kept g im t)"
  unfolding olympus_sample_def
  apply (rule kept | rule safe | (use assms in \<open>simp add: inb_def geom_ok_def; fail\<close>))+
  done

lemma olympus_kept:
  assumes "geom_ok g" "raw_kept g im s"
  shows "ok (olympus_load_raw g s) (raw_kept g im)"
proof -
  obtain h where h: "olympus_huff = Some h" "4096 \<le> length h" using olympus_huff_unary by force
  show ?thesis
    unfolding olympus_load_raw_def h(1) Option.bind.bind_lunit
    apply (rule kept_Let)
    apply (rule ok_bind ok_with_io getbits_wp case_prodI kept_pair)+
    apply (rule kept_for, simp_all add: assms)
    apply (rule ok_bind, rule kept_for2 [where J = "\<lambda>ac. length ac = 2" and im = im], simp_all)
    apply (rule olympus_sample_kept; use assms h in simp)
    done
qed

interpretation olympus: loader olympus_load_raw "\<lambda>g s. True"
  by unfold_locales (rule olympus_kept)

lemma bits_val_unary: "bits_val (replicate i False @ [True]) = 1"
  by (induction i) (simp_all add: bits_val_Cons)

text \<open>
  The table of \<open>olympus_load_raw\<close> decodes a unary code: reading with it takes \<open>i\<close> zeros and
  the one that ends them off the stream and returns \<open>i\<close>, up to 11 zeros.
\<close>

theorem olympus_unary_code:
  assumes "bit_inv io" "i \<le> 11" "avail io = replicate i False @ [True] @ rest"
  shows "\<exists>h io'. olympus_huff = Some h \<and> getbithuff 12 (Some h) io = Some (int i, io')
    \<and> avail io' = rest \<and> bit_inv io' \<and> data_error io' = data_error io"
proof -
  obtain h where h: "olympus_huff = Some h"
    "\<forall>i \<in> {0..11}. \<forall>c \<in> {2 ^ nat (11 - i)..<2 ^ nat (12 - i)}. rd h c = Some (256 * (i + 1) + i)"
    using olympus_huff_unary by blast
  have cell: "rd h (bits_val (replicate i False @ [True]) * 2 ^ (12 - Suc i) + int r) = Some (256 * int (Suc i) + int i)"
    if "r < 2 ^ (12 - Suc i)" for r
  proof -
    have n: "nat (11 - int i) = 12 - Suc i" "nat (12 - int i) = Suc (12 - Suc i)" using assms(2) by linarith+
    have "int r < 2 ^ (12 - Suc i)" using that by (metis of_nat_less_iff of_nat_numeral of_nat_power)
    then have "2 ^ (12 - Suc i) + int r \<in> {2 ^ nat (11 - int i)..<2 ^ nat (12 - int i)}"
      unfolding n by simp
    moreover have "int i \<in> {0..11}" using assms(2) by simp
    ultimately show ?thesis using h(2) by (simp add: bits_val_unary)
  qed
  obtain io' where "getbithuff (int 12) (Some h) io = Some (int i, io')" "avail io' = rest" "bit_inv io'"
    "data_error io' = data_error io"
    by (rule table_decodes [of 12 io "replicate i False @ [True]" rest h "int i"]) (use assms cell in auto)
  then show ?thesis using h(1) by auto
qed

theorem olympus_unary_code_witness:
  "\<exists>h io'. olympus_huff = Some h \<and> getbithuff 12 (Some h) (open_file [0x0a, 0x50]) = Some (4, io')
    \<and> avail io' = [False, True, False, False, True, False, True, False, False, False, False]"
proof -
  have a: "bit_inv (open_file [0x0a, 0x50])"
    "avail (open_file [0x0a, 0x50]) = replicate 4 False @ [True]
      @ [False, True, False, False, True, False, True, False, False, False, False]"
    by code_simp+
  show ?thesis using olympus_unary_code [OF a(1) _ a(2)] by auto
qed

end
