(* ===== verification/Kodak.thy ===== *)
theory Kodak
  imports Ljpeg
begin

text \<open>
  The formats of the Kodak cameras: the DC120 and the two YCbCr layouts of the C330 and C603, the
  chequered predictor of the KDC files (\<open>kodak_262_load_raw\<close>), the block code of the DCR files
  with its three loaders, and the RADC code of the QuickTake 150 and DC40.
\<close>

section \<open>Whole bytes\<close>

definition dc120_mul :: "int list" where "dc120_mul = [162, 192, 187, 92]"
definition dc120_add :: "int list" where "dc120_add = [0, 636, 424, 212]"

definition kodak_dc120_load_raw :: "geom \<Rightarrow> dst \<Rightarrow> dst option" where
  "kodak_dc120_load_raw g s = do {
     (pixel, s) \<leftarrow> for_up 0 (height g) (\<lambda>row (pixel, s). do {
       (bs, s) \<leftarrow> with_io (\<lambda>b. Some (fread 848 b)) s;
       let s = derror_if (length bs < 848) s;
       let pixel = overlay bs pixel;
       m \<leftarrow> at dc120_mul (row AND 3);
       a \<leftarrow> at dc120_add (row AND 3);
       let shift = row * m + a;
       s \<leftarrow> for_up 0 (width g) (\<lambda>col s. do {
         p \<leftarrow> rd pixel ((col + shift) mod 848);
         set_RAW g row col p s }) s;
       Some (pixel, s) }) (uninit g 848, s);
     Some (s\<lparr>maximum := 0xff\<rparr>) }"

text \<open>Luma and two chroma differences to a pixel of \<open>image\<close>, through the curve.\<close>

definition ycc_rgb :: "int \<Rightarrow> int \<Rightarrow> int \<Rightarrow> int \<times> int \<times> int" where
  "ycc_rgb y cb cr = (let gr = y - shr (cb + cr + 2) 2 in (gr + cr, gr, gr + cb))"

definition put_rgb :: "int \<Rightarrow> int \<times> int \<times> int \<Rightarrow> int \<Rightarrow> dst \<Rightarrow> dst option" where
  "put_rgb hi = (\<lambda>(r, gr, b) i s. for_up 0 3 (\<lambda>c s. do {
     x \<leftarrow> at [r, gr, b] c;
     v \<leftarrow> rd (curve s) (LIM_c x 0 hi);
     set_IMG i c v s }) s)"

definition kodak_c330_load_raw :: "geom \<Rightarrow> dst \<Rightarrow> dst option" where
  "kodak_c330_load_raw g s = do {
     (pixel, s) \<leftarrow> for_up 0 (height g) (\<lambda>row (pixel, s). do {
       (bs, s) \<leftarrow> with_io (\<lambda>b. Some (fread (2 * raw_width g) b)) s;
       let s = derror_if (int (length bs) < 2 * raw_width g) s;
       let pixel = overlay bs pixel;
       let s = (if load_flags g \<noteq> 0 \<and> row AND 31 = 31 then upd_io (fseek_cur (raw_width g * 32)) s else s);
       s \<leftarrow> for_up 0 (width g) (\<lambda>col s. do {
         y \<leftarrow> rd pixel (col * 2);
         cb \<leftarrow> rd pixel ((col * 2 AND -4) OR 1);
         cr \<leftarrow> rd pixel ((col * 2 AND -4) OR 3);
         put_rgb 255 (ycc_rgb y (cb - 128) (cr - 128)) (row * width g + col) s }) s;
       Some (pixel, s) }) (zeros (2 * raw_width g), s);
     m \<leftarrow> rd (curve s) 0xff;
     Some (s\<lparr>maximum := m\<rparr>) }"

definition kodak_c603_load_raw :: "geom \<Rightarrow> dst \<Rightarrow> dst option" where
  "kodak_c603_load_raw g s = do {
     (pixel, s) \<leftarrow> for_up 0 (height g) (\<lambda>row (pixel, s). do {
       (pixel, s) \<leftarrow> (if NOT row AND 1 \<noteq> 0 then do {
           (bs, s) \<leftarrow> with_io (\<lambda>b. Some (fread (3 * raw_width g) b)) s;
           Some (overlay bs pixel, derror_if (int (length bs) < 3 * raw_width g) s) }
         else Some (pixel, s));
       s \<leftarrow> for_up 0 (width g) (\<lambda>col s. do {
         y \<leftarrow> rd pixel (width g * 2 * (row AND 1) + col);
         cb \<leftarrow> rd pixel (width g + (col AND -2));
         cr \<leftarrow> rd pixel (width g + (col AND -2) + 1);
         put_rgb 255 (ycc_rgb y (cb - 128) (cr - 128)) (row * width g + col) s }) s;
       Some (pixel, s) }) (zeros (3 * raw_width g), s);
     m \<leftarrow> rd (curve s) 0xff;
     Some (s\<lparr>maximum := m\<rparr>) }"

section \<open>kodak_262_load_raw\<close>

definition kodak_tree :: "u8 list list" where
  "kodak_tree =
   [[0,1,5,1,1,2,0,0,0,0,0,0,0,0,0,0, 0,1,2,3,4,5,6,7,8,9],
    [0,3,1,1,1,1,1,2,0,0,0,0,0,0,0,0, 0,1,2,3,4,5,6,7,8,9]]"

text \<open>
  The prediction at position \<open>pi\<close> of the strip: the mean of two neighbours of the same colour of
  the chequered pattern, with substitutes at the edges.
\<close>

definition kodak_262_pred :: "geom \<Rightarrow> u8 list \<Rightarrow> int \<Rightarrow> int \<Rightarrow> int \<Rightarrow> int option" where
  "kodak_262_pred g pixel chess col p =
     (let p1 = (if chess \<noteq> 0 then p - 2 else p - raw_width g - 1);
          p2 = (if chess \<noteq> 0 then p - 2 * raw_width g else p - raw_width g + 1);
          p1 = (if col \<le> chess then -1 else p1);
          p1 = (if p1 < 0 then p2 else p1);
          p2 = (if p2 < 0 then p1 else p2);
          (p1, p2) = (if p1 < 0 \<and> col > 1 then (p - 2, p - 2) else (p1, p2))
      in if p1 < 0 then Some 0
         else do { a \<leftarrow> rd pixel p1; b \<leftarrow> rd pixel p2; Some (shr (a + b) 1) })"

definition kodak_262_sample ::
    "geom \<Rightarrow> u16 list list \<Rightarrow> int \<Rightarrow> int \<Rightarrow> int \<times> u8 list \<times> dst \<Rightarrow> (int \<times> u8 list \<times> dst) option" where
  "kodak_262_sample g huff row col = (\<lambda>(p, pixel, s). do {
     let chess = (row + col) AND 1;
     pred \<leftarrow> kodak_262_pred g pixel chess col p;
     h \<leftarrow> at huff chess;
     (diff, s) \<leftarrow> with_io (ljpeg_diff (dng_version g) h) s;
     let val = pred + diff;
     pixel \<leftarrow> wr pixel p val;
     let s = derror_if (shr val 8 \<noteq> 0) s;
     x \<leftarrow> rd pixel p;
     v \<leftarrow> rd (curve s) x;
     s \<leftarrow> set_RAW g row col v s;
     Some (p + 1, pixel, s) })"

definition kodak_262_load_raw :: "geom \<Rightarrow> dst \<Rightarrow> dst option" where
  "kodak_262_load_raw g s = do {
     t0 \<leftarrow> at kodak_tree 0;
     t1 \<leftarrow> at kodak_tree 1;
     h0 \<leftarrow> make_decoder t0;
     h1 \<leftarrow> make_decoder t1;
     let ns = shr (raw_height g + 63) 5;
     let s = upd_io (\<lambda>b. b\<lparr>byte_order := 0x4d4d\<rparr>) s;
     (strip, s) \<leftarrow> for_up 0 ns (\<lambda>c (strip, s).
       case get_io get4 s of (x, s) \<Rightarrow> do { strip \<leftarrow> put strip c (c_s32 x); Some (strip, s) })
       (zeros ns :: int list, s);
     (p, pixel, s) \<leftarrow> for_up 0 (raw_height g) (\<lambda>row (p, pixel, s). do {
       (p, s) \<leftarrow> (if row AND 31 = 0 then do {
           off \<leftarrow> at strip (shr row 5);
           let s = upd_io (fseek_set off) s;
           (z, s) \<leftarrow> with_io (getbits (-1)) s;
           Some (0, s) }
         else Some (p, s));
       for_up 0 (raw_width g) (kodak_262_sample g [h0, h1] row) (p, pixel, s) })
       (0, uninit g (raw_width g * 32), s);
     Some s }"

section \<open>kodak_65000_decode\<close>

text \<open>The lengths of the block: \<open>None\<close> in the first place when one of them is above 12.\<close>

function kodak_blens :: "int \<Rightarrow> int \<Rightarrow> u8 list \<Rightarrow> bitio \<Rightarrow> (u8 list option \<times> bitio) option" where
  "kodak_blens i bsize blen b =
     (if i < bsize then
        (case fgetc b of (ch, b) \<Rightarrow>
           let c = c_u8 ch; lo = c AND 15; hi = shr c 4 in
           (case wr blen i lo of
              None \<Rightarrow> None
            | Some blen \<Rightarrow>
                if lo > 12 then Some (None, b)
                else (case wr blen (i + 1) hi of
                    None \<Rightarrow> None
                  | Some blen \<Rightarrow> if hi > 12 then Some (None, b) else kodak_blens (i + 2) bsize blen b)))
      else Some (Some blen, b))"
  by pat_completeness auto
termination
  by (relation "measure (\<lambda>(i, bsize, l, b). nat (bsize - i))") auto

declare kodak_blens.simps [simp del]

text \<open>The uncompressed form: twelve bits of eight samples in six words.\<close>

definition kodak_raw8 :: "u16 list \<Rightarrow> int \<Rightarrow> u16 list \<Rightarrow> u16 list option" where
  "kodak_raw8 raw i out = do {
     r0 \<leftarrow> rd raw 0; r1 \<leftarrow> rd raw 1; r2 \<leftarrow> rd raw 2; r3 \<leftarrow> rd raw 3; r4 \<leftarrow> rd raw 4; r5 \<leftarrow> rd raw 5;
     out \<leftarrow> wr out i (shl (shr r0 12) 8 OR shl (shr r2 12) 4 OR shr r4 12);
     out \<leftarrow> wr out (i + 1) (shl (shr r1 12) 8 OR shl (shr r3 12) 4 OR shr r5 12);
     for_up 0 6 (\<lambda>j out. do {
       r \<leftarrow> rd raw j;
       wr out (i + 2 + j) (r AND 0xfff) }) out }"

text \<open>
  One difference; \<open>INT64\<close> is kept at its width. The four bytes of a refill come in pairs swapped.
\<close>

definition kodak_bits ::
    "u8 list \<Rightarrow> int \<Rightarrow> int \<times> int \<times> u16 list \<times> bitio \<Rightarrow> (int \<times> int \<times> u16 list \<times> bitio) option" where
  "kodak_bits blen i = (\<lambda>(bb, bits, out, b). do {
     len \<leftarrow> rd blen i;
     (bb, bits, b) \<leftarrow>
       (if bits < len then do {
          (bb, b) \<leftarrow> for_by 8 0 32 (\<lambda>j (bb, b).
            case fgetc b of (c, b) \<Rightarrow> Some (signed_take_bit 63 (bb + shl c (bits + (j XOR 8))), b)) (bb, b);
          Some (bb, bits + 32, b) }
        else Some (bb, bits, b));
     let diff = bb AND shr 0xffff (16 - len);
     out \<leftarrow> wr out i (sign_diff diff len);
     Some (shr bb len, bits - len, out, b) })"

definition kodak_65000_decode ::
    "geom \<Rightarrow> int \<Rightarrow> u16 list \<Rightarrow> bitio \<Rightarrow> ((int \<times> u16 list) \<times> bitio) option" where
  "kodak_65000_decode g bsize out b =
     (let save = c_s32 (ipos b); bsize = (bsize + 3) AND -4 in do {
        (r, b) \<leftarrow> kodak_blens 0 bsize (uninit g 768) b;
        (case r of
           None \<Rightarrow> do {
             (raw, out, b) \<leftarrow> for_by 8 0 bsize (\<lambda>i (raw, out, b). do {
               (raw, b) \<leftarrow> read_shorts raw 0 6 b;
               out \<leftarrow> kodak_raw8 raw i out;
               Some (raw, out, b) }) (uninit g 6, out, fseek_set save b);
             Some ((1, out), b) }
         | Some blen \<Rightarrow>
             (case (if bsize AND 7 = 4
                    then (case fgetc b of (c, b) \<Rightarrow> case fgetc b of (d, b) \<Rightarrow> (shl c 8 + d, 16, b))
                    else (0, 0, b)) of
                (bb, bits, b) \<Rightarrow> do {
                  (bb, bits, out, b) \<leftarrow> for_up 0 bsize (kodak_bits blen) (bb, bits, out, b);
                  Some ((0, out), b) })) })"

text \<open>The three loaders on top of it. Cells of \<open>buf\<close> are \<open>short\<close>, read with their sign.\<close>

definition kodak_65000_load_raw :: "geom \<Rightarrow> dst \<Rightarrow> dst option" where
  "kodak_65000_load_raw g s = do {
     (buf, s) \<leftarrow> for_up 0 (height g) (\<lambda>row st. for_by 256 0 (width g) (\<lambda>col (buf, s). do {
       let len = MIN_c 256 (width g - col);
       ((ret, buf), s) \<leftarrow> with_io (kodak_65000_decode g len buf) s;
       (pred, s) \<leftarrow> for_up 0 len (\<lambda>i (pred, s). do {
         x \<leftarrow> rds buf i;
         p \<leftarrow> at pred (i AND 1);
         pred \<leftarrow> (if ret \<noteq> 0 then Some pred else put pred (i AND 1) (c_s32 (p + x)));
         v \<leftarrow> rd (curve s) (if ret \<noteq> 0 then x else c_s32 (p + x));
         s \<leftarrow> set_RAW g row (col + i) v s;
         Some (pred, derror_if (shr v 12 \<noteq> 0) s) }) ([0, 0], s);
       Some (buf, s) }) st) (uninit g 256, s);
     Some s }"

text \<open>One luma sample of a group of four; \<open>y\<close> is the array \<open>y[2][2]\<close>.\<close>

definition ycbcr_luma ::
    "geom \<Rightarrow> u16 list \<Rightarrow> int \<times> int \<times> int \<Rightarrow> int \<Rightarrow> int \<Rightarrow> int \<Rightarrow> int \<Rightarrow> int list \<times> int \<times> dst
      \<Rightarrow> (int list \<times> int \<times> dst) option" where
  "ycbcr_luma g buf = (\<lambda>(r, gr, bl) row col j k (y, bp, s). do {
     a \<leftarrow> at y (2 * j + (k XOR 1));
     d \<leftarrow> rds buf bp;
     let v = c_s32 (a + d);
     y \<leftarrow> put y (2 * j + k) v;
     let s = derror_if (shr v 10 \<noteq> 0) s;
     s \<leftarrow> put_rgb 0xfff (v + r, v + gr, v + bl) ((row + j) * width g + col + k) s;
     Some (y, bp + 1, s) })"

definition kodak_ycbcr_load_raw :: "geom \<Rightarrow> dst \<Rightarrow> dst option" where
  "kodak_ycbcr_load_raw g s =
     (if img s = [] then Some s
      else do {
        (buf, s) \<leftarrow> for_by 2 0 (height g) (\<lambda>row st. for_by 128 0 (width g) (\<lambda>col (buf, s). do {
          let len = MIN_c 128 (width g - col);
          ((ret, buf), s) \<leftarrow> with_io (kodak_65000_decode g (len * 3) buf) s;
          (y, cb, cr, bp, s) \<leftarrow> for_by 2 0 len (\<lambda>i (y, cb, cr, bp, s). do {
            d \<leftarrow> rds buf (bp + 4);
            e \<leftarrow> rds buf (bp + 5);
            let cb = c_s32 (cb + d);
            let cr = c_s32 (cr + e);
            let rgb = ycc_rgb 0 cb cr;
            (y, bp, s) \<leftarrow> for_up 0 2 (\<lambda>j st.
              for_up 0 2 (\<lambda>k. ycbcr_luma g buf rgb row (col + i) j k) st) (y, bp, s);
            Some (y, cb, cr, bp + 2, s) }) ([0, 0, 0, 0], 0, 0, 0, s);
          Some (buf, s) }) st) (uninit g 384, s);
        Some s })"

definition kodak_rgb_load_raw :: "geom \<Rightarrow> dst \<Rightarrow> dst option" where
  "kodak_rgb_load_raw g s = do {
     (ip, buf, s) \<leftarrow> for_up 0 (height g) (\<lambda>row st. for_by 256 0 (width g) (\<lambda>col (ip, buf, s). do {
       let len = MIN_c 256 (width g - col);
       ((ret, buf), s) \<leftarrow> with_io (kodak_65000_decode g (len * 3) buf) s;
       (rgb, ip, s) \<leftarrow> for_up 0 len (\<lambda>i (rgb, ip, s). do {
         (rgb, s) \<leftarrow> for_up 0 3 (\<lambda>c (rgb, s). do {
           x \<leftarrow> at rgb c;
           d \<leftarrow> rds buf (3 * i + c);
           rgb \<leftarrow> put rgb c (c_s32 (x + d));
           s \<leftarrow> set_IMG ip c (c_s32 (x + d)) s;
           Some (rgb, derror_if (shr (c_u16 (x + d)) 12 \<noteq> 0) s) }) (rgb, s);
         Some (rgb, ip + 1, s) }) ([0, 0, 0], ip, s);
       Some (ip, buf, s) }) st) (0, uninit g 768, s);
     Some s }"

text \<open>\<open>misc\<close> is the global \<open>thumb_misc\<close>.\<close>

definition kodak_thumb_load_raw :: "geom \<Rightarrow> int \<Rightarrow> dst \<Rightarrow> dst option" where
  "kodak_thumb_load_raw g misc s = do {
     let s = s\<lparr>colors := shr misc 5\<rparr>;
     s \<leftarrow> for_up 0 (height g) (\<lambda>row. for_up 0 (width g) (\<lambda>col s. do {
       (xs, s) \<leftarrow> with_io (read_shorts (img s) (4 * (row * width g + col)) (colors s)) s;
       Some (s\<lparr>img := xs\<rparr>) })) s;
     Some (s\<lparr>maximum := shl 1 (misc AND 31) - 1\<rparr>) }"

section \<open>RADC\<close>

definition radc_src :: "(int \<times> int) list" where
  "radc_src =
   [(1,1), (2,3), (3,4), (4,2), (5,7), (6,5), (7,6), (7,8), (1,0), (2,1),
    (3,3), (4,4), (5,2), (6,7), (7,6), (8,5), (8,8), (2,1), (2,3), (3,0),
    (3,2), (3,4), (4,6), (5,5), (6,7), (6,8), (2,0), (2,1), (2,3), (3,2),
    (4,4), (5,6), (6,7), (7,5), (7,8), (2,1), (2,4), (3,0), (3,2), (3,3),
    (4,7), (5,5), (6,6), (6,8), (2,3), (3,1), (3,2), (3,4), (3,5), (3,6),
    (4,7), (5,0), (5,8), (2,3), (2,6), (3,0), (3,1), (4,4), (4,5), (4,7),
    (5,2), (5,8), (2,4), (2,7), (3,3), (3,6), (4,1), (4,2), (4,5), (5,0),
    (5,8), (2,6), (3,1), (3,3), (3,5), (3,7), (3,8), (4,0), (5,2), (5,4),
    (2,0), (2,1), (3,2), (3,3), (4,4), (4,5), (5,6), (5,7), (4,8), (1,0),
    (2,2), (2,-2), (1,-3), (1,3), (2,-17), (2,-5), (2,5), (2,17), (2,-7), (2,2),
    (2,9), (2,18), (2,-18), (2,-9), (2,-2), (2,7), (2,-28), (2,28), (3,-49), (3,-9),
    (3,9), (4,49), (5,-79), (5,79), (2,-1), (2,13), (2,26), (3,39), (4,-16), (5,55),
    (6,-37), (6,76), (2,-26), (2,-13), (2,1), (3,-39), (4,16), (5,-55), (6,-76), (6,37)]"

text \<open>
  The tables \<open>huff[19][256]\<close> one after another: 18 codes written out, then a table that passes
  the high bits of an index on.
\<close>

definition radc_huff :: "geom \<Rightarrow> u16 list option" where
  "radc_huff g = do {
     (s, h) \<leftarrow> for_up 0 (int (length radc_src)) (\<lambda>i (s, h). do {
       (l, v) \<leftarrow> at radc_src i;
       for_up 0 (shr 256 l) (\<lambda>c (s, h). do {
         h \<leftarrow> wr h s (shl l 8 OR c_u8 v);
         Some (s + 1, h) }) (s, h) }) (0, uninit g (19 * 256));
     let s = (if kodak_cbpp g = 243 then 2 else 3);
     for_up 0 256 (\<lambda>c h. wr h (18 * 256 + c) (shl (8 - s) 8 OR shl (shr c s) s OR shl 1 (s - 1))) h }"

definition radc_token :: "u16 list \<Rightarrow> int \<Rightarrow> bitio \<Rightarrow> (int \<times> bitio) option" where
  "radc_token huff tree b = do {
     (c, b) \<leftarrow> (if 0 \<le> tree \<and> tree < 19 then getbithuff 8 (Some (take 256 (drop (nat (tree * 256)) huff))) b
                else None);
     Some (signed_take_bit 7 c, b) }"

text \<open>Cell \<open>buf[c][y][x]\<close> of the array \<open>buf[3][3][386]\<close> of \<open>short\<close>.\<close>

definition radc_cell :: "int \<Rightarrow> int \<Rightarrow> int \<Rightarrow> int" where
  "radc_cell c y x = (c * 3 + y) * 386 + x"

definition radc_predictor :: "u16 list \<Rightarrow> int \<Rightarrow> int \<Rightarrow> int \<Rightarrow> int option" where
  "radc_predictor buf c y x =
     (if c \<noteq> 0 then do {
        a \<leftarrow> rds buf (radc_cell c (y - 1) x);
        b \<leftarrow> rds buf (radc_cell c y (x + 1));
        Some ((a + b) sdiv 2) }
      else do {
        a \<leftarrow> rds buf (radc_cell c (y - 1) (x + 1));
        b \<leftarrow> rds buf (radc_cell c (y - 1) x);
        d \<leftarrow> rds buf (radc_cell c y (x + 1));
        Some ((a + 2 * b + d) sdiv 4) })"

text \<open>\<open>FORYX\<close>: two rows, each from the right column to the left one.\<close>

definition for_yx :: "int \<Rightarrow> (int \<Rightarrow> int \<Rightarrow> 's \<Rightarrow> 's option) \<Rightarrow> 's \<Rightarrow> 's option" where
  "for_yx col f s = for_up 1 3 (\<lambda>y s. f y (col + 1) s \<bind> f y col) s"

text \<open>The inner \<open>for\<close> over the repetitions; \<open>n\<close> counts down from the limit of eight.\<close>

fun radc_reps ::
    "u16 list \<Rightarrow> int \<Rightarrow> nat \<Rightarrow> int \<Rightarrow> int \<Rightarrow> int \<times> u16 list \<times> bitio \<Rightarrow> (int \<times> u16 list \<times> bitio) option" where
  "radc_reps huff c 0 rep nreps st = Some st"
| "radc_reps huff c (Suc n) rep nreps (col, buf, b) =
     (if rep < nreps \<and> col > 0 then do {
        let col = col - 2;
        buf \<leftarrow> for_yx col (\<lambda>y x buf. do {
          p \<leftarrow> radc_predictor buf c y x;
          wr buf (radc_cell c y x) p }) buf;
        (buf, b) \<leftarrow>
          (if rep AND 1 \<noteq> 0 then do {
             (t, b) \<leftarrow> radc_token huff 10 b;
             buf \<leftarrow> for_yx col (\<lambda>y x buf. do {
               v \<leftarrow> rds buf (radc_cell c y x);
               wr buf (radc_cell c y x) (v + shl t 4) }) buf;
             Some (buf, b) }
           else Some (buf, b));
        radc_reps huff c n (rep + 1) nreps (col, buf, b) }
      else Some (col, buf, b))"

text \<open>\<open>do ... while (nreps == 9)\<close>\<close>

partial_function (option) radc_repeat ::
    "u16 list \<Rightarrow> int \<Rightarrow> int \<times> u16 list \<times> bitio \<Rightarrow> (int \<times> u16 list \<times> bitio) option" where
  "radc_repeat huff c st = do {
     (nreps, b) \<leftarrow> (if fst st > 2
       then do { (t, b) \<leftarrow> radc_token huff 9 (snd (snd st)); Some (t + 1, b) }
       else Some (1, snd (snd st)));
     st \<leftarrow> radc_reps huff c 8 0 nreps (fst st, fst (snd st), b);
     if nreps = 9 then radc_repeat huff c st else Some st }"

text \<open>One token of the outer loop; the token is the \<open>tree\<close> of the next one.\<close>

definition radc_step ::
    "u16 list \<Rightarrow> int \<Rightarrow> int \<Rightarrow> int \<times> int \<times> u16 list \<times> bitio \<Rightarrow> (int \<times> int \<times> u16 list \<times> bitio) option" where
  "radc_step huff mul c = (\<lambda>(tree, col, buf, b). do {
     (tree, b) \<leftarrow> radc_token huff tree b;
     if tree \<noteq> 0 then do {
       let col = col - 2;
       (buf, b) \<leftarrow>
         (if tree = 8 then for_yx col (\<lambda>y x (buf, b). do {
              (t, b) \<leftarrow> radc_token huff 18 b;
              buf \<leftarrow> wr buf (radc_cell c y x) (c_u8 t * mul);
              Some (buf, b) }) (buf, b)
          else for_yx col (\<lambda>y x (buf, b). do {
              (t, b) \<leftarrow> radc_token huff (tree + 10) b;
              p \<leftarrow> radc_predictor buf c y x;
              buf \<leftarrow> wr buf (radc_cell c y x) (t * 16 + p);
              Some (buf, b) }) (buf, b));
       Some (tree, col, buf, b) }
     else do {
       (col, buf, b) \<leftarrow> radc_repeat huff c (col, buf, b);
       Some (tree, col, buf, b) } })"

partial_function (option) radc_line ::
    "u16 list \<Rightarrow> int \<Rightarrow> int \<Rightarrow> int \<times> int \<times> u16 list \<times> bitio \<Rightarrow> (int \<times> int \<times> u16 list \<times> bitio) option" where
  "radc_line huff mul c st =
     (if fst (snd st) > 0 then radc_step huff mul c st \<bind> radc_line huff mul c else Some st)"

text \<open>The rescaling of the predictions of a colour when its multiplier changes.\<close>

definition radc_rescale :: "int \<Rightarrow> int \<Rightarrow> int \<Rightarrow> u16 list \<Rightarrow> u16 list option" where
  "radc_rescale c la mul buf = do {
     q \<leftarrow> c_div 0x1000000 la;
     let val = c_s32 (shr (q + 0x7ff) 12 * mul);
     let s = (if val > 65564 then 10 else 12);
     let x = NOT (shl (-1) (s - 1));
     let val = c_s32 (shl val (12 - s));
     for_up 0 (3 * 386) (\<lambda>i buf. do {
       v \<leftarrow> rds buf (c * 3 * 386 + i);
       wr buf (c * 3 * 386 + i) (shr (c_s32 (v * val + x)) s) }) buf }"

definition radc_store :: "geom \<Rightarrow> u16 list \<Rightarrow> int \<Rightarrow> int \<Rightarrow> int \<Rightarrow> int \<Rightarrow> dst \<Rightarrow> dst option" where
  "radc_store g buf mul row c r s = for_up 0 2 (\<lambda>y. for_up 0 (width g div 2) (\<lambda>x s. do {
     v \<leftarrow> rds buf (radc_cell c (y + 1) x);
     val \<leftarrow> c_div (shl v 4) mul;
     let val = (if val < 0 then 0 else val);
     if c \<noteq> 0 then set_RAW g (row + y * 2 + c - 1) (x * 2 + 2 - c) val s
     else set_RAW g (row + r * 2 + y) (x * 2 + y) val s })) s"

definition radc_color ::
    "geom \<Rightarrow> u16 list \<Rightarrow> u16 list \<Rightarrow> int \<Rightarrow> int \<Rightarrow> u16 list \<times> u16 list \<times> dst \<Rightarrow> (u16 list \<times> u16 list \<times> dst) option" where
  "radc_color g huff muls row c = (\<lambda>(la, buf, s). do {
     mul \<leftarrow> rds muls c;
     l \<leftarrow> rds la c;
     buf \<leftarrow> radc_rescale c l mul buf;
     la \<leftarrow> wr la c mul;
     (buf, s) \<leftarrow> for_up 0 (if c = 0 then 2 else 1) (\<lambda>r (buf, s). do {
       buf \<leftarrow> wr buf (radc_cell c 2 (width g div 2)) (shl mul 7);
       buf \<leftarrow> wr buf (radc_cell c 1 (width g div 2)) (shl mul 7);
       (tree, col, buf, b) \<leftarrow> radc_line huff mul c (1, width g div 2, buf, dio s);
       s \<leftarrow> radc_store g buf mul row c r (s\<lparr>dio := b\<rparr>);
       let nc = of_bool (c = 0);
       let row2 = take (nat (386 - nc)) (drop (nat (radc_cell c 2 0)) buf);
       let buf = take (nat (radc_cell c 0 nc)) buf @ row2 @ drop (nat (radc_cell c 1 0)) buf;
       Some (buf, s) }) (buf, s);
     Some (la, buf, s) })"

text \<open>The green samples between: four lines at a time.\<close>

definition radc_greens :: "geom \<Rightarrow> int \<Rightarrow> dst \<Rightarrow> dst option" where
  "radc_greens g row s = for_up row (row + 4) (\<lambda>y. for_up 0 (width g) (\<lambda>x s.
     if (x + y) AND 1 \<noteq> 0 then do {
       let r = (if x \<noteq> 0 then x - 1 else x + 1);
       let q = (if x + 1 < width g then x + 1 else x - 1);
       a \<leftarrow> RAW g s y x;
       b \<leftarrow> RAW g s y r;
       d \<leftarrow> RAW g s y q;
       let val = (a - 2048) * 2 + (b + d) sdiv 2;
       set_RAW g y x (if val < 0 then 0 else val) s }
     else Some s)) s"

text \<open>\<open>cv\<close> is the curve that the program computes in single precision from its twelve points (\<open>radc_curve\<close> in theory Loaders).\<close>

definition kodak_radc_load_raw :: "u16 list \<Rightarrow> geom \<Rightarrow> dst \<Rightarrow> dst option" where
  "kodak_radc_load_raw cv g s = do {
     let s = s\<lparr>curve := cv\<rparr>;
     huff \<leftarrow> radc_huff g;
     (z, s) \<leftarrow> with_io (getbits (-1)) s;
     (la, buf, s) \<leftarrow> for_by 4 0 (height g) (\<lambda>row (la, buf, s). do {
       (muls, s) \<leftarrow> for_up 0 3 (\<lambda>c (muls, s). do {
         (m, s) \<leftarrow> with_io (getbits 6) s;
         muls \<leftarrow> wr muls c m;
         Some (muls, s) }) (zeros 3 :: u16 list, s);
       (la, buf, s) \<leftarrow> for_up 0 3 (radc_color g huff muls row) (la, buf, s);
       s \<leftarrow> radc_greens g row s;
       Some (la, buf, s) }) ([16, 16, 16] :: u16 list, replicate (9 * 386) 2048, s);
     s \<leftarrow> for_up 0 (height g * width g) (\<lambda>i s. do {
       x \<leftarrow> rd (raw_image s) i;
       v \<leftarrow> rd (curve s) x;
       xs \<leftarrow> wr (raw_image s) i v;
       Some (s\<lparr>raw_image := xs\<rparr>) }) s;
     Some (s\<lparr>maximum := 0x3fff\<rparr>) }"

section \<open>Safety of the DC120 format\<close>

lemma dc120_kept:
  assumes "geom_ok g" "raw_kept g im s" "width g \<le> raw_width g"
  shows "ok (kodak_dc120_load_raw g s) (raw_kept g im)"
proof -
  have b: "x AND 3 < 4" "0 \<le> x AND 3" for x :: int using AND_upper2 [of 3 x] by simp_all
  show ?thesis
  unfolding kodak_dc120_load_raw_def
  apply (rule ok_bind, rule kept_for2 [where J = "\<lambda>p. length p = 848" and im = im and g = g])
  apply (use assms in \<open>simp; fail\<close>)+
  apply (rule kept | rule safe | (use assms in \<open>simp add: geom_ok_def inb_def dc120_mul_def dc120_add_def b overlay_def; fail\<close>) | assumption)+
  done
qed

interpretation dc120: loader kodak_dc120_load_raw "\<lambda>g s. True"
  by unfold_locales (rule dc120_kept, auto simp: geom_ok_def)

end
