(* ===== verification/Samsung.thy ===== *)
theory Samsung
  imports NikonPentax Sony
begin

text \<open>
  The three formats of the Samsung NX cameras: two that code each sample as a difference with a
  width that adapts from group to group, and one with a Huffman code.
\<close>

section \<open>samsung_load_raw\<close>

text \<open>The new width of one of the four classes of samples.\<close>

definition samsung_len :: "int \<Rightarrow> int \<Rightarrow> bitio \<Rightarrow> (int \<times> bitio) option" where
  "samsung_len ope len b =
     (if ope = 3 then ph1_bits 4 b
      else Some (if ope = 2 then len - 1 else if ope = 1 then len + 1 else len, b))"

definition samsung_lens :: "int list \<Rightarrow> bitio \<Rightarrow> (int list \<times> bitio) option" where
  "samsung_lens len b = do {
     (ops, b) \<leftarrow> for_up 0 4 (\<lambda>c (ops, b). do {
       (x, b) \<leftarrow> ph1_bits 2 b;
       Some (ops @ [x], b) }) ([], b);
     for_up 0 4 (\<lambda>c (len, b). do {
       ope \<leftarrow> at ops c;
       l \<leftarrow> at len c;
       (l, b) \<leftarrow> samsung_len ope l b;
       len \<leftarrow> put len c l;
       Some (len, b) }) (len, b) }"

text \<open>The order of the sixteen samples: the even columns, then the odd ones.\<close>

definition samsung_order :: "int list" where
  "samsung_order = [0, 2, 4, 6, 8, 10, 12, 14, 1, 3, 5, 7, 9, 11, 13, 15]"

definition samsung_sample ::
    "geom \<Rightarrow> int list \<Rightarrow> int \<Rightarrow> int \<Rightarrow> int \<Rightarrow> int \<Rightarrow> dst \<Rightarrow> dst option" where
  "samsung_sample g len dir row col c s = do {
     i \<leftarrow> at len (shl (c AND 1) 1 OR shr c 3);
     (x, s) \<leftarrow> with_io (ph1_bits i) s;
     let diff = shr_i (shl_i x (32 - i)) (32 - i);
     pred \<leftarrow> (if dir \<noteq> 0 then RAW g s (row + (NOT c OR -2)) (col + c)
              else if col \<noteq> 0 then RAW g s row (col + (c OR -2))
              else Some 128);
     set_RAW g row (col + c) (diff + pred) s }"

definition samsung_row :: "geom \<Rightarrow> int \<Rightarrow> dst \<Rightarrow> dst option" where
  "samsung_row g row s = do {
     let s = upd_io (fseek_set (strip_offset g + row * 4)) s;
     let s = (case get_io get4 s of (x, s) \<Rightarrow> upd_io (fseek_set (data_offset g + x)) s);
     (z, s) \<leftarrow> with_io (ph1_bits (-1)) s;
     let len = replicate 4 (if row < 2 then 7 else 4);
     (len, s) \<leftarrow> for_by 16 0 (raw_width g) (\<lambda>col (len, s). do {
       (dir, s) \<leftarrow> with_io (ph1_bits 1) s;
       (len, s) \<leftarrow> with_io (samsung_lens len) s;
       s \<leftarrow> for_up 0 16 (\<lambda>k s. do {
         c \<leftarrow> at samsung_order k;
         samsung_sample g len dir row col c s }) s;
       Some (len, s) }) (len, s);
     Some s }"

text \<open>The two greens of every square of four change places at the end.\<close>

definition swap_raw :: "geom \<Rightarrow> int \<Rightarrow> int \<Rightarrow> dst \<Rightarrow> dst option" where
  "swap_raw g row col s = do {
     a \<leftarrow> RAW g s row (col + 1);
     b \<leftarrow> RAW g s (row + 1) col;
     s \<leftarrow> set_RAW g row (col + 1) b s;
     set_RAW g (row + 1) col a s }"

definition samsung_load_raw :: "geom \<Rightarrow> dst \<Rightarrow> dst option" where
  "samsung_load_raw g s = do {
     let s = upd_io (\<lambda>b. b\<lparr>byte_order := 0x4949\<rparr>) s;
     s \<leftarrow> for_up 0 (raw_height g) (samsung_row g) s;
     for_by 2 0 (raw_height g - 1) (\<lambda>row. for_by 2 0 (raw_width g - 1) (swap_raw g row)) s }"

section \<open>samsung2_load_raw\<close>

definition samsung2_tab :: "int list" where
  "samsung2_tab =
   [0x304,0x307,0x206,0x205,0x403,0x600,0x709,
    0x80a,0x90b,0xa0c,0xa0d,0x501,0x408,0x402]"

text \<open>The samples are those of Pentax: the body of the loops is the same code.\<close>

definition samsung2_load_raw :: "geom \<Rightarrow> dst \<Rightarrow> dst option" where
  "samsung2_load_raw g s = do {
     huff \<leftarrow> wr (uninit g 1026) 0 10;
     huff \<leftarrow> fill_tab 1024 samsung2_tab huff;
     (z, s) \<leftarrow> with_io (getbits (-1)) s;
     (vpred, hpred, s) \<leftarrow> for_up 0 (raw_height g) (\<lambda>row st.
       for_up 0 (raw_width g) (pentax_sample g huff row) st) (zeros 4, uninit g 2, s);
     Some s }"

section \<open>samsung3_load_raw\<close>

text \<open>
  What lives through a row: \<open>mag\<close>, \<open>pmode\<close>, the widths \<open>len[4]\<close> and their history
  \<open>lent[3][2]\<close>. The character arithmetic of the code is written as the tables it stands for.
\<close>

record samsung3 =
  s3_mag :: int
  s3_pmode :: int
  s3_len :: "u16 list"
  s3_lent :: "u16 list"

definition s3_modes :: "int \<Rightarrow> samsung3 \<Rightarrow> dst \<Rightarrow> int \<Rightarrow> (samsung3 \<times> dst) option" where
  "s3_modes opt m s tab = do {
     (m, s) \<leftarrow>
       (if NOT opt AND 4 \<noteq> 0 \<and> tab AND 63 = 0 then do {
          (i, s) \<leftarrow> with_io (ph1_bits 2) s;
          if i < 3 then do { d \<leftarrow> at [0, -2, 2] i; Some (m\<lparr>s3_mag := s3_mag m + d\<rparr>, s) }
          else do { (x, s) \<leftarrow> with_io (ph1_bits 12) s; Some (m\<lparr>s3_mag := x\<rparr>, s) } }
        else Some (m, s));
     if opt AND 2 \<noteq> 0 then do {
       (x, s) \<leftarrow> with_io (ph1_bits 1) s;
       Some (m\<lparr>s3_pmode := 7 - 4 * x\<rparr>, s) }
     else do {
       (x, s) \<leftarrow> with_io (ph1_bits 1) s;
       if x = 0 then do { (p, s) \<leftarrow> with_io (ph1_bits 3) s; Some (m\<lparr>s3_pmode := p\<rparr>, s) }
       else Some (m, s) } }"

definition s3_lens :: "int \<Rightarrow> samsung3 \<Rightarrow> dst \<Rightarrow> (samsung3 \<times> dst) option" where
  "s3_lens row m s = do {
     (len, s) \<leftarrow> for_up 0 4 (\<lambda>c (len, s). do {
       (x, s) \<leftarrow> with_io (ph1_bits 2) s;
       len \<leftarrow> wr len c x;
       Some (len, s) }) (s3_len m, s);
     (len, lent, s) \<leftarrow> for_up 0 4 (\<lambda>c (len, lent, s). do {
       let i = (shl (row AND 1) 1 OR (c AND 1)) mod 3;
       l \<leftarrow> rd len c;
       (v, s) \<leftarrow>
         (if l < 3 then do {
            t \<leftarrow> rd lent (2 * i);
            d \<leftarrow> at [0, 1, -1] l;
            Some (t + d, s) }
          else with_io (ph1_bits 4) s);
       len \<leftarrow> wr len c v;
       t1 \<leftarrow> rd lent (2 * i + 1);
       lent \<leftarrow> wr lent (2 * i) t1;
       v \<leftarrow> rd len c;
       lent \<leftarrow> wr lent (2 * i + 1) v;
       Some (len, lent, s) }) (len, s3_lent m, s);
     Some (m\<lparr>s3_len := len, s3_lent := lent\<rparr>, s) }"

text \<open>The pointers \<open>prow[2]\<close> as positions in \<open>raw_image\<close>.\<close>

definition s3_prow :: "geom \<Rightarrow> int \<Rightarrow> int \<Rightarrow> int" where
  "s3_prow g row k =
     (if k = row AND 1 then (row - 1) * raw_width g + (1 - shl (row AND 1) 1)
      else (row - 2) * raw_width g)"

definition s3_pred :: "geom \<Rightarrow> int \<Rightarrow> samsung3 \<Rightarrow> int \<Rightarrow> int \<Rightarrow> int \<Rightarrow> dst \<Rightarrow> int option" where
  "s3_pred g init m row tab col s =
     (if s3_pmode m = 7 \<or> row < 2
      then (if tab \<noteq> 0 then RAW g s row (tab - 2 + (col AND 1)) else Some init)
      else do {
        d \<leftarrow> at [-4, -2, -2, 0, 0, 2, 4] (s3_pmode m);
        e \<leftarrow> at [-4, -2, 0, 0, 2, 2, 4] (s3_pmode m);
        a \<leftarrow> rd (raw_image s) (s3_prow g row (col AND 1) + (col + d));
        b \<leftarrow> rd (raw_image s) (s3_prow g row (col AND 1) + (col + e));
        Some (shr (a + b + 1) 1) })"

definition s3_sample :: "geom \<Rightarrow> int \<Rightarrow> samsung3 \<Rightarrow> int \<Rightarrow> int \<Rightarrow> int \<Rightarrow> dst \<Rightarrow> dst option" where
  "s3_sample g init m row tab c s = do {
     let col = tab + ((shl (c AND 7) 1 XOR shr c 3) XOR (row AND 1));
     pred \<leftarrow> s3_pred g init m row tab col s;
     i \<leftarrow> rd (s3_len m) (shr c 2);
     (x, s) \<leftarrow> with_io (ph1_bits i) s;
     let diff = c_s32 x;
     let diff = (if shr_i diff (i - 1) \<noteq> 0 then c_s32 (diff - shl_i 1 i) else diff);
     let diff = c_s32 (diff * (s3_mag m * 2 + 1) + s3_mag m);
     set_RAW g row col (pred + diff) s }"

definition s3_row :: "geom \<Rightarrow> int \<Rightarrow> int \<Rightarrow> int \<Rightarrow> u16 list \<times> dst \<Rightarrow> (u16 list \<times> dst) option" where
  "s3_row g opt init row = (\<lambda>(len, s). do {
     let s = upd_io (\<lambda>b. fseek_cur ((data_offset g - ipos b) AND 15) b) s;
     (z, s) \<leftarrow> with_io (ph1_bits (-1)) s;
     let m = \<lparr>s3_mag = 0, s3_pmode = 7, s3_len = len,
              s3_lent = replicate 6 (if row < 2 then 7 else 4)\<rparr>;
     (m, s) \<leftarrow> for_by 16 0 (raw_width g - 15) (\<lambda>tab (m, s). do {
       (m, s) \<leftarrow> s3_modes opt m s tab;
       (again, s) \<leftarrow> (if opt AND 1 \<noteq> 0 then Some (True, s)
         else do { (x, s) \<leftarrow> with_io (ph1_bits 1) s; Some (x = 0, s) });
       (m, s) \<leftarrow> (if again then s3_lens row m s else Some (m, s));
       s \<leftarrow> for_up 0 16 (s3_sample g init m row tab) s;
       Some (m, s) }) (m, s);
     Some (s3_len m, s) })"

definition samsung3_load_raw :: "geom \<Rightarrow> dst \<Rightarrow> dst option" where
  "samsung3_load_raw g s = do {
     let s = upd_io (\<lambda>b. fseek_cur 9 (b\<lparr>byte_order := 0x4949\<rparr>)) s;
     let (opt, s) = get_io fgetc s;
     let (x, s) = get_io get2 s;
     let (init, s) = get_io get2 s;
     (len, s) \<leftarrow> for_up 0 (raw_height g) (s3_row g opt init) (uninit g 4, s);
     Some s }"

section \<open>Safety of samsung2\<close>

lemma samsung2_tab_size: "length (tab_cells 1024 samsung2_tab) = 1024"
proof -
  have "int (length (tab_cells 1024 samsung2_tab)) = 1024" by (simp add: length_tab_cells, code_simp)
  then show ?thesis by linarith
qed

lemma samsung2_kept:
  assumes "geom_ok g" "raw_kept g im s"
  shows "ok (samsung2_load_raw g s) (raw_kept g im)"
proof -
  note len = samsung2_tab_size
  define h0 :: "u16 list" where "h0 = (uninit g 1026)[0 := 10]"
  have h0: "length h0 = 1026" "h0 ! 0 = word_of_int (int 10)" by (simp_all add: h0_def nth_list_update)
  have w: "wr (uninit g 1026) 0 10 = Some h0" by (simp add: wr_def inb_def h0_def)
  have ok: "huff_ok (put_run 1 (tab_cells 1024 samsung2_tab) h0)"
    by (rule put_run_huff_ok [of _ _ 10]) (simp_all add: len h0)
  have t: "fill_tab 1024 samsung2_tab h0 = Some (put_run 1 (tab_cells 1024 samsung2_tab) h0)"
    by (rule fill_tab_cells) (simp_all add: len h0)
  show ?thesis
    unfolding samsung2_load_raw_def w t Option.bind.bind_lunit
    apply (rule ok_bind ok_with_io getbits_wp case_prodI kept_pair)+
    apply (rule pentax_rows_kept [OF assms(1) ok, where im = im]; use assms in simp)
    done
qed

interpretation samsung2: loader samsung2_load_raw "\<lambda>g s. True"
  by unfold_locales (rule samsung2_kept)

text \<open>The table of the format is one of those of \<open>tab_decodes\<close>.\<close>

lemma samsung2_tab_ok: "tab_ok 10 samsung2_tab"
  by code_simp

end
