(* ===== verification/Smal.thy ===== *)
theory Smal
  imports RawImage
begin

text \<open>
  The SMaL format: an adaptive arithmetic decoder over three small histograms
  (\<open>smal_decode_segment\<close>), the two loaders that call it, and the interpolation of the sensor's
  holes.
\<close>

section \<open>The arithmetic decoder\<close>

text \<open>
  The local variables of \<open>smal_decode_segment\<close>: \<open>sm_data\<close> and \<open>sm_range\<close> are of \<open>ushort\<close>; a
  histogram is thirteen bytes: the mask, the bin, the count and the limit, then the boundaries.
\<close>

record smal =
  sm_hist :: "u8 list list"
  sm_high :: int
  sm_carry :: int
  sm_nbits :: int
  sm_data :: int
  sm_range :: int

definition smal_init :: smal where
  "smal_init = \<lparr>sm_hist =
     [[7, 7, 0, 0, 63, 55, 47, 39, 31, 23, 15, 7, 0],
      [7, 7, 0, 0, 63, 55, 47, 39, 31, 23, 15, 7, 0],
      [3, 3, 0, 0, 63, 47, 31, 15, 0, 0, 0, 0, 0]],
     sm_high = 0xff, sm_carry = 0, sm_nbits = 8, sm_data = 0, sm_range = 0\<rparr>"

text \<open>\<open>while (--nbits >= 0) if ((data >> nbits & 0xff) == 0xff) break;\<close>\<close>

function smal_scan :: "int \<Rightarrow> int \<Rightarrow> int" where
  "smal_scan data nbits =
     (if nbits - 1 \<ge> 0
      then (if shr data (nbits - 1) AND 0xff = 0xff then nbits - 1 else smal_scan data (nbits - 1))
      else nbits - 1)"
  by pat_completeness auto
termination
  by (relation "measure (\<lambda>(d, n). nat n)") auto

declare smal_scan.simps [simp del]

text \<open>The first part of a symbol: new bits, with the bits stuffed after a byte of ones removed.\<close>

definition smal_fetch :: "smal \<Rightarrow> bitio \<Rightarrow> (smal \<times> bitio) option" where
  "smal_fetch m b = do {
     (x, b) \<leftarrow> getbits (sm_nbits m) b;
     let data = c_u16 (shl_i (sm_data m) (sm_nbits m) OR x);
     let (nbits, carry) =
       (if sm_carry m < 0
        then (let n = sm_nbits m + sm_carry m + 1 in (n, if n < 1 then n - 1 else 0))
        else (sm_nbits m, sm_carry m));
     let nbits = smal_scan data nbits;
     let data = (if nbits > 0
       then c_u16 (shl (data AND (shl 1 (nbits - 1) - 1)) 1
              OR ((data + shl (data AND shl 1 (nbits - 1)) 1) AND shl (-1) nbits))
       else data);
     if nbits \<ge> 0 then do {
       (y, b) \<leftarrow> getbits 1 b;
       Some (m\<lparr>sm_data := c_u16 (data + y), sm_nbits := nbits, sm_carry := nbits - 8\<rparr>, b) }
     else Some (m\<lparr>sm_data := data, sm_nbits := nbits, sm_carry := carry\<rparr>, b) }"

text \<open>\<open>for (bin=0; hist[s][bin+5] > count; bin++);\<close>\<close>

function smal_bin :: "u8 list \<Rightarrow> int \<Rightarrow> int \<Rightarrow> int option" where
  "smal_bin h count k =
     (case rd h (k + 5) of
        None \<Rightarrow> None
      | Some v \<Rightarrow> if v > count then smal_bin h count (k + 1) else Some k)"
  by pat_completeness auto
termination
  by (relation "measure (\<lambda>(h, c, k). nat (int (length h) - k - 5))")
    (auto simp: rd_def inb_def split: if_splits)

declare smal_bin.simps [simp del]

lemma smal_norm_less: "shl high n < 128 \<Longrightarrow> \<not> high < 1 \<Longrightarrow> n < 7"
proof (rule ccontr)
  assume a: "shl high n < 128" "\<not> high < 1" "\<not> n < 7"
  then have "(2::int) ^ 7 \<le> 2 ^ nat n" by (intro power_increasing) auto
  also have "\<dots> \<le> high * 2 ^ nat n" using a by simp
  finally show False using a(1) by (simp add: shl_mult)
qed

text \<open>\<open>for (nbits=0; high << nbits < 128; nbits++);\<close> never ends for a \<open>high\<close> below 1.\<close>

function smal_norm :: "int \<Rightarrow> int \<Rightarrow> int option" where
  "smal_norm high n =
     (if high < 1 \<or> n < 0 then None
      else if shl high n < 128 then smal_norm high (n + 1) else Some n)"
  by pat_completeness auto
termination
  by (relation "measure (\<lambda>(h, n). nat (7 - n))") (auto dest!: smal_norm_less)

declare smal_norm.simps [simp del]

text \<open>The update of a histogram after the symbol \<open>bin\<close>.\<close>

definition smal_update :: "u8 list \<Rightarrow> int \<Rightarrow> u8 list option" where
  "smal_update h bin = do {
     next \<leftarrow> rd h 1;
     c \<leftarrow> rd h 2;
     h \<leftarrow> wr h 2 (c + 1);
     c \<leftarrow> rd h 2;
     lim \<leftarrow> rd h 3;
     (next, h) \<leftarrow>
       (if c > lim then do {
          m \<leftarrow> rd h 0;
          let next = (next + 1) AND m;
          x \<leftarrow> rd h (next + 4);
          y \<leftarrow> rd h (next + 5);
          h \<leftarrow> wr h 3 (shr (x - y) 2);
          h \<leftarrow> wr h 2 1;
          Some (next, h) }
        else Some (next, h));
     cur \<leftarrow> rd h 1;
     x \<leftarrow> rd h (cur + 4);
     y \<leftarrow> rd h (cur + 5);
     h \<leftarrow>
       (if x - y > 1 then
          (if bin < cur then for_up bin cur (\<lambda>i h. do { v \<leftarrow> rd h (i + 5); wr h (i + 5) (v - 1) }) h
           else if next \<le> bin then for_up cur bin (\<lambda>i h. do { v \<leftarrow> rd h (i + 5); wr h (i + 5) (v + 1) }) h
           else Some h)
        else Some h);
     wr h 1 next }"

text \<open>One symbol: its bin in histogram \<open>s\<close>, the new interval and the new histogram.\<close>

definition smal_symbol :: "int \<Rightarrow> smal \<Rightarrow> bitio \<Rightarrow> ((int \<times> smal) \<times> bitio) option" where
  "smal_symbol s m b = do {
     (m, b) \<leftarrow> smal_fetch m b;
     h \<leftarrow> at (sm_hist m) s;
     let q = shr (sm_high m) 4;
     count \<leftarrow> c_div (shl ((sm_data m - sm_range m + 1) AND 0xffff) 2 - 1) q;
     bin \<leftarrow> smal_bin h count 0;
     x \<leftarrow> rd h (bin + 5);
     let low = shr (x * q) 2;
     high \<leftarrow> (if bin \<noteq> 0 then do { y \<leftarrow> rd h (bin + 4); Some (shr (y * q) 2) } else Some (sm_high m));
     let high = high - low;
     n \<leftarrow> smal_norm high 0;
     h \<leftarrow> smal_update h bin;
     hs \<leftarrow> put (sm_hist m) s h;
     Some ((bin, m\<lparr>sm_hist := hs, sm_high := shl high n, sm_nbits := n,
                   sm_range := c_u16 (shl (sm_range m + low) n)\<rparr>), b) }"

definition smal_diff :: "int \<Rightarrow> int \<Rightarrow> int \<Rightarrow> int" where
  "smal_diff s0 s1 s2 =
     (let d = c_u8 (shl s2 5 OR shl s1 2 OR (s0 AND 3))
      in if s0 AND 4 \<noteq> 0 then (if d \<noteq> 0 then c_u8 (- d) else 0x80) else d)"

text \<open>The macro \<open>HOLE\<close>.\<close>

definition hole :: "geom \<Rightarrow> int \<Rightarrow> int \<Rightarrow> bool" where
  "hole g holes row \<longleftrightarrow> shr holes ((row - raw_height g) AND 7) AND 1 \<noteq> 0"

text \<open>One sample and the position of the next; \<open>pred\<close> is of two bytes.\<close>

definition smal_pixel ::
    "geom \<Rightarrow> int \<Rightarrow> int \<Rightarrow> int \<Rightarrow> u8 list \<times> smal \<times> dst \<Rightarrow> (int \<times> u8 list \<times> smal \<times> dst) option" where
  "smal_pixel g holes stop pix = (\<lambda>(pred, m, s). do {
     ((s0, m), s) \<leftarrow> with_io (smal_symbol 0 m) s;
     ((s1, m), s) \<leftarrow> with_io (smal_symbol 1 m) s;
     ((s2, m), s) \<leftarrow> with_io (smal_symbol 2 m) s;
     let d = (if ipos (dio s) + 12 \<ge> stop then 0 else smal_diff s0 s1 s2);
     p \<leftarrow> rd pred (pix AND 1);
     pred \<leftarrow> wr pred (pix AND 1) (p + d);
     v \<leftarrow> rd pred (pix AND 1);
     xs \<leftarrow> wr (raw_image s) pix v;
     r \<leftarrow> c_div pix (raw_width g);
     Some (if pix AND 1 = 0 \<and> hole g holes r then pix + 2 else pix, pred, m, s\<lparr>raw_image := xs\<rparr>) })"

text \<open>The loop over the samples: the body may move \<open>pix\<close> on, never back.\<close>

partial_function (option) smal_pixels ::
    "geom \<Rightarrow> int \<Rightarrow> int \<Rightarrow> int \<Rightarrow> int \<Rightarrow> u8 list \<times> smal \<times> dst \<Rightarrow> dst option" where
  "smal_pixels g holes stop final pix st =
     (if pix < final
      then smal_pixel g holes stop pix st \<bind> (\<lambda>(pix, st). smal_pixels g holes stop final (pix + 1) st)
      else Some (snd (snd st)))"

text \<open>The first cell of \<open>seg[1]\<close> is cut to the size of the image, in the array of the caller.\<close>

definition smal_clip :: "geom \<Rightarrow> int \<Rightarrow> int" where
  "smal_clip g p = (if p > raw_width g * raw_height g then raw_width g * raw_height g else p)"

text \<open>\<open>(p0, o0)\<close> and \<open>(p1, o1)\<close> are the rows \<open>seg[0]\<close> and \<open>seg[1]\<close>.\<close>

definition smal_decode_segment :: "geom \<Rightarrow> int \<times> int \<Rightarrow> int \<times> int \<Rightarrow> int \<Rightarrow> dst \<Rightarrow> dst option" where
  "smal_decode_segment g = (\<lambda>(p0, o0) (p1, o1) holes s. do {
     let s = upd_io (fseek_set (c_u32 (o0 + 1))) s;
     (z, s) \<leftarrow> with_io (getbits (-1)) s;
     s \<leftarrow> smal_pixels g holes o1 (smal_clip g p1) p0 ([0, 0], smal_init, s);
     Some (s\<lparr>maximum := 0xff\<rparr>) })"

definition smal_v6_load_raw :: "geom \<Rightarrow> dst \<Rightarrow> dst option" where
  "smal_v6_load_raw g s =
     (let s = upd_io (fseek_set 16) s in
      case get_io get2 s of (x, s) \<Rightarrow>
        smal_decode_segment g (0, x) (raw_width g * raw_height g, 0x7fffffff) 0 s)"

section \<open>Holes\<close>

definition median4 :: "int \<Rightarrow> int \<Rightarrow> int \<Rightarrow> int \<Rightarrow> int" where
  "median4 a b c d =
     (let step = (\<lambda>(mn, mx, sm) p. (if mn > p then p else mn, if mx < p then p else mx, sm + p))
      in case step (step (step (a, a, a) b) c) d of (mn, mx, sm) \<Rightarrow> shr (sm - mn - mx) 1)"

definition fill_hole_row :: "geom \<Rightarrow> int \<Rightarrow> int \<Rightarrow> dst \<Rightarrow> dst option" where
  "fill_hole_row g holes row s = do {
     s \<leftarrow> for_by 4 1 (width g - 1) (\<lambda>col s. do {
       a \<leftarrow> RAW g s (row - 1) (col - 1);
       b \<leftarrow> RAW g s (row - 1) (col + 1);
       c \<leftarrow> RAW g s (row + 1) (col - 1);
       d \<leftarrow> RAW g s (row + 1) (col + 1);
       set_RAW g row col (median4 a b c d) s }) s;
     for_by 4 2 (width g - 2) (\<lambda>col s. do {
       a \<leftarrow> RAW g s row (col - 2);
       b \<leftarrow> RAW g s row (col + 2);
       if hole g holes (row - 2) \<or> hole g holes (row + 2)
       then set_RAW g row col (shr (a + b) 1) s
       else do {
         c \<leftarrow> RAW g s (row - 2) col;
         d \<leftarrow> RAW g s (row + 2) col;
         set_RAW g row col (median4 a b c d) s } }) s }"

definition fill_holes :: "geom \<Rightarrow> int \<Rightarrow> dst \<Rightarrow> dst option" where
  "fill_holes g holes s = for_up 2 (height g - 2) (\<lambda>row s.
     if hole g holes row then fill_hole_row g holes row s else Some s) s"

text \<open>The array \<open>seg[256][2]\<close> as a flat list; the program leaves its other cells as they are.\<close>

definition smal_v9_load_raw :: "geom \<Rightarrow> dst \<Rightarrow> dst option" where
  "smal_v9_load_raw g s = do {
     let s = upd_io (fseek_set 67) s;
     let (offset, s) = get_io get4 s;
     let (c, s) = get_io fgetc s;
     let nseg = c_u8 c;
     let s = upd_io (fseek_set offset) s;
     (seg, s) \<leftarrow> for_up 0 (nseg * 2) (\<lambda>i (seg, s).
       case get_io get4 s of (x, s) \<Rightarrow> do {
         seg \<leftarrow> put seg i (c_u32 (x + data_offset g * (i AND 1)));
         Some (seg, s) }) (map (\<lambda>i. c_u32 (junk g i)) [0..<512], s);
     let s = upd_io (fseek_set 78) s;
     let (h, s) = get_io fgetc s;
     let holes = c_u32 h;
     let s = upd_io (fseek_set 88) s;
     let (x, s) = get_io get4 s;
     seg \<leftarrow> put seg (2 * nseg) (raw_height g * raw_width g);
     seg \<leftarrow> put seg (2 * nseg + 1) (c_u32 (x + data_offset g));
     (seg, s) \<leftarrow> for_up 0 nseg (\<lambda>i (seg, s). do {
       p0 \<leftarrow> at seg (2 * i); o0 \<leftarrow> at seg (2 * i + 1);
       p1 \<leftarrow> at seg (2 * i + 2); o1 \<leftarrow> at seg (2 * i + 3);
       s \<leftarrow> smal_decode_segment g (p0, o0) (p1, o1) holes s;
       seg \<leftarrow> put seg (2 * i + 2) (smal_clip g p1);
       Some (seg, s) }) (seg, s);
     if holes \<noteq> 0 then fill_holes g holes s else Some s }"

lemma sum_sort: "sum_list (sort xs) = sum_list xs" for xs :: "int list"
proof -
  have "sum_list (insort x ys) = x + sum_list ys" for x :: int and ys by (induction ys) auto
  then show ?thesis by (induction xs) auto
qed

text \<open>
  \<open>median4\<close>, which fills the holes of the SMaL sensor, is the mean of the middle two of its four
  arguments, rounded down.
\<close>

theorem median4_middle:
  "median4 a b c d = (sort [a, b, c, d] ! 1 + sort [a, b, c, d] ! 2) div 2"
proof -
  let ?xs = "[a, b, c, d]"
  have four: "length xs = Suc (Suc (Suc (Suc 0))) \<Longrightarrow> \<exists>p q r s. xs = [p, q, r, s]" for xs :: "int list"
    by (auto simp: length_Suc_conv)
  obtain p q r s where o: "sort ?xs = [p, q, r, s]"
    using four [of "sort ?xs"] by (metis length_sort length_Cons list.size(3))
  have set: "{p, q, r, s} = {a, b, c, d}" using set_sort [of "\<lambda>x. x" ?xs] unfolding o by simp
  have ord: "p \<le> q" "q \<le> r" "r \<le> s" using sorted_sort [of ?xs] unfolding o by simp_all
  have sum: "p + q + r + s = a + b + c + d"
    using sum_sort [of ?xs] unfolding o by simp
  have ps: "p \<in> {a, b, c, d}" "s \<in> {a, b, c, d}" "\<forall>x \<in> {a, b, c, d}. p \<le> x \<and> x \<le> s" using ord by (auto simp: set [symmetric])
  have pm: "p = min (min (min a b) c) d" using ps by (auto simp: min_def)
  have sm: "s = max (max (max a b) c) d" using ps by (auto simp: max_def)
  have "median4 a b c d = (a + b + c + d - min (min (min a b) c) d - max (max (max a b) c) d) div 2"
  proof -
    have s: "(\<lambda>(mn, mx, sm) x. (if mn > x then x else mn, if mx < x then x else mx, sm + x))
      = (\<lambda>(mn, mx, sm) (x::int). (min mn x, max mx x, sm + x))" by (auto simp: fun_eq_iff)
    have two: "(2::int) ^ nat 1 = 2" by simp
    show ?thesis unfolding median4_def Let_def s split_conv shr_div two by (rule refl)
  qed
  then have "median4 a b c d = (a + b + c + d - p - s) div 2" by (simp only: pm [symmetric] sm [symmetric])
  also have "a + b + c + d - p - s = q + r" using sum by simp
  finally show ?thesis unfolding o by simp
qed

end
