(* ===== verification/Pipeline.thy ===== *)
theory Pipeline
  imports Correction LosslessLoaders Canon NikonPentax PhaseOne PackedFormats Predictive Kodak Sony Samsung Smal
begin

text \<open>
  What \<open>main\<close> does with a file once \<open>identify\<close> is done: it allocates the arrays, calls the loader
  through its function pointer, crops the result (\<open>load_image\<close>), and brings the black levels into
  the form \<open>scale_colors\<close> needs (\<open>black_levels\<close>). The lemmas about the loader are proved for every
  loader that keeps the contract of \<open>loader\<close>.
\<close>

section \<open>From the file to the image\<close>

definition main_geom :: "int \<Rightarrow> geom \<Rightarrow> geom" where
  "main_geom document_mode g =
     (let g = (if document_mode = 3
               then g\<lparr>top_margin := 0, left_margin := 0, fuji_width := 0,
                      height := raw_height g, width := raw_width g\<rparr> else g)
      in g\<lparr>iheight := shr (height g + shrink g) (shrink g), iwidth := shr (width g + shrink g) (shrink g)\<rparr>)"

text \<open>What \<open>main\<close> does once the loader has returned; the geometry is that of the crop.\<close>

definition after_load ::
    "(dst \<Rightarrow> dst option) \<Rightarrow> (dst \<Rightarrow> dst option) \<Rightarrow> int \<Rightarrow> load_fn \<Rightarrow> int list list \<Rightarrow> geom \<Rightarrow> dst \<Rightarrow> (geom \<times> dst) option" where
  "after_load correct correct_600 document_mode fn mk g s =
     (let g = main_geom document_mode g in
      if raw_image s \<noteq> [] then do {
        s \<leftarrow> crop_masked_pixels correct correct_600 g fn mk (s\<lparr>img := zeros (4 * (iheight g * iwidth g))\<rparr>);
        Some (g, s\<lparr>raw_image := []\<rparr>) }
      else Some (g, s))"

definition load_image ::
    "(dst \<Rightarrow> dst option) \<Rightarrow> (dst \<Rightarrow> dst option) \<Rightarrow> (geom \<Rightarrow> dst \<Rightarrow> dst option) \<Rightarrow> int \<Rightarrow> load_fn \<Rightarrow> int list list
      \<Rightarrow> geom \<Rightarrow> dst \<Rightarrow> (geom \<times> dst) option" where
  "load_image correct correct_600 load document_mode fn mk g s = do {
     s \<leftarrow> load g (upd_io (fseek_set (data_offset g)) (main_alloc g s));
     after_load correct correct_600 document_mode fn mk g s }"

definition file_ok :: "geom \<Rightarrow> dst \<Rightarrow> bool" where
  "file_ok g s \<longleftrightarrow> geom_ok g \<and> shrink g = 0 \<and> fuji_width g = 0 \<and> filters s \<noteq> 0 \<and> xtrans_ok g
     \<and> raw_image s = [] \<and> img s = [] \<and> length (curve s) = 65536 \<and> length (cblack s) = 4102"

context loader
begin

lemma load_image_ok:
  assumes "file_ok g s" "pre g (upd_io (fseek_set (data_offset g)) (main_alloc g s))" "mask_ok mk"
    and "document_mode \<noteq> 3" "fn \<noteq> Phase_one" "fn \<noteq> Phase_one_c" "fn \<noteq> Canon_600"
  shows "\<exists>t u. load g (upd_io (fseek_set (data_offset g)) (main_alloc g s)) = Some t
    \<and> load_image correct correct_600 load document_mode fn mk g s = Some (main_geom document_mode g, u)
    \<and> (\<forall>row col k. 0 \<le> row \<longrightarrow> row < height g \<longrightarrow> 0 \<le> col \<longrightarrow> col < width g \<longrightarrow> 0 \<le> k \<longrightarrow> k < 4 \<longrightarrow>
        IMG u (row * width g + col) k = (if fcol g (filters t) row col = Some k
          then RAW g t (row + top_margin g) (col + left_margin g) else Some 0))"
proof -
  let ?s = "upd_io (fseek_set (data_offset g)) (main_alloc g s)"
  let ?g = "main_geom document_mode g"
  have geom: "geom_ok g" and s: "raw_ok g ?s"
    using assms(1) by (auto simp: file_ok_def geom_ok_def raw_ok_def main_alloc_def upd_io_def)
  obtain t where t: "load g ?s = Some t" "raw_ok g t" "img t = img ?s"
    using load_total [OF geom s assms(2)] by blast
  have g: "geom_ok ?g" "raw_height ?g = raw_height g" "raw_width ?g = raw_width g" "height ?g = height g" "width ?g = width g"
    "top_margin ?g = top_margin g" "left_margin ?g = left_margin g" "fuji_width ?g = 0" "shrink ?g = 0"
    "iheight ?g = height g" "iwidth ?g = width g" "xtrans ?g = xtrans g"
    using geom assms(1,4) by (auto simp: main_geom_def Let_def geom_ok_def file_ok_def shr_def)
  have ne: "raw_image t \<noteq> []" using t(2) geom by (auto simp: raw_ok_def geom_ok_def)
  let ?t = "t\<lparr>img := zeros (4 * (height g * width g))\<rparr>"
  have "xtrans_ok ?g" using assms(1) g by (simp add: file_ok_def xtrans_ok_def)
  then have c: "raw_ok ?g ?t" "crop_ok ?g ?t"
    using t(2) g by (auto simp: raw_ok_def crop_ok_def cfa_ok_all)
  obtain u where u: "crop_masked_pixels correct correct_600 ?g fn mk ?t = Some u" "cropped ?g ?t (height g) 0 u"
    using crop_masked_ok [OF g(1) c g(8) assms(3,5-7)] g(4) by (auto simp: ok_exists)
  have "IMG (u\<lparr>raw_image := []\<rparr>) i k = IMG u i k" for i k by (simp add: IMG_def)
  moreover have "fcol ?g = fcol g" by (intro ext) (simp add: fcol_def g)
  moreover have "RAW ?g ?t = RAW g t" by (intro ext) (simp add: RAW_def g)
  ultimately show ?thesis
    using t(1) u ne by (intro exI [of _ t] exI [of _ "u\<lparr>raw_image := []\<rparr>"]) (simp add: load_image_def after_load_def g cropped_def)
qed

end



section \<open>Black levels\<close>

text \<open>Loops over a range of cells: a common decrement and the least cell.\<close>

definition add_cells :: "int \<Rightarrow> int \<Rightarrow> int \<Rightarrow> u16 list \<Rightarrow> u16 list option" where
  "add_cells b n d xs = for_up 0 n (\<lambda>c xs. do { x \<leftarrow> rd xs (b + c); wr xs (b + c) (x + d) }) xs"

definition min_cells :: "int \<Rightarrow> int \<Rightarrow> u16 list \<Rightarrow> int \<Rightarrow> int option" where
  "min_cells b n xs i = for_up 0 n (\<lambda>c i. do { x \<leftarrow> rd xs (b + c); Some (if i > x then x else i) }) i"

lemma add_cells_ok:
  assumes "0 \<le> b" "0 \<le> n" "b + n \<le> int (length xs)"
  shows "ok (add_cells b n d xs) (\<lambda>ys. length ys = length xs \<and> (\<forall>j. rd ys j =
    (if b \<le> j \<and> j < b + n then map_option (\<lambda>x. c_u16 (x + d)) (rd xs j) else rd xs j)))"
  unfolding add_cells_def
proof (rule for_up_inv [where I = "\<lambda>c ys. length ys = length xs \<and> (\<forall>j. rd ys j =
    (if b \<le> j \<and> j < b + c then map_option (\<lambda>x. c_u16 (x + d)) (rd xs j) else rd xs j))"])
  fix c and ys :: "u16 list"
  assume c: "0 \<le> c" "c < n" and I: "length ys = length xs \<and> (\<forall>j. rd ys j =
    (if b \<le> j \<and> j < b + c then map_option (\<lambda>x. c_u16 (x + d)) (rd xs j) else rd xs j))"
  have inb: "inb xs (b + c)" using assms c by (simp add: inb_def)
  then obtain x where x: "rd xs (b + c) = Some x" by (simp add: rd_def)
  moreover have "rd ys (b + c) = rd xs (b + c)" using I by simp
  moreover obtain zs where zs: "wr ys (b + c) (x + d) = Some zs"
    using inb I by (simp add: wr_def inb_def)
  moreover have "length zs = length ys" using zs by (auto simp: wr_def split: if_splits)
  ultimately show "ok (do { x \<leftarrow> rd ys (b + c); wr ys (b + c) (x + d) }) (\<lambda>ys. length ys = length xs \<and> (\<forall>j. rd ys j =
    (if b \<le> j \<and> j < b + (c + 1) then map_option (\<lambda>x. c_u16 (x + d)) (rd xs j) else rd xs j)))"
    using I c by (auto simp: rd_wr [OF zs])
qed (use assms in auto)

lemma min_cells_ok:
  assumes "0 \<le> b" "0 \<le> n" "b + n \<le> int (length xs)" "0 \<le> i"
  shows "ok (min_cells b n xs i) (\<lambda>m. 0 \<le> m \<and> m \<le> i \<and> (\<forall>j x. b \<le> j \<longrightarrow> j < b + n \<longrightarrow> rd xs j = Some x \<longrightarrow> m \<le> x))"
  unfolding min_cells_def
proof (rule for_up_inv [where I = "\<lambda>c m. 0 \<le> m \<and> m \<le> i \<and> (\<forall>j x. b \<le> j \<longrightarrow> j < b + c \<longrightarrow> rd xs j = Some x \<longrightarrow> m \<le> x)"])
  fix c m
  assume c: "0 \<le> c" "c < n" and I: "0 \<le> m \<and> m \<le> i \<and> (\<forall>j x. b \<le> j \<longrightarrow> j < b + c \<longrightarrow> rd xs j = Some x \<longrightarrow> m \<le> x)"
  obtain x where x: "rd xs (b + c) = Some x" "0 \<le> x" using assms c by (simp add: rd_def inb_def)
  have "m' \<le> y" if "b \<le> j" "j < b + (c + 1)" "rd xs j = Some y" "m' = (if m > x then x else m)" for j y m'
  proof (cases "j = b + c")
    case False
    then have "m \<le> y" using I that by auto
    then show ?thesis using that(4) by auto
  qed (use that x in auto)
  then show "ok (do { x \<leftarrow> rd xs (b + c); Some (if m > x then x else m) })
      (\<lambda>m. 0 \<le> m \<and> m \<le> i \<and> (\<forall>j x. b \<le> j \<longrightarrow> j < b + (c + 1) \<longrightarrow> rd xs j = Some x \<longrightarrow> m \<le> x))"
    using x I by auto
qed (use assms in auto)

definition black_levels :: "int \<Rightarrow> int \<Rightarrow> dst \<Rightarrow> dst option" where
  "black_levels user_black user_sat s = do {
     i \<leftarrow> rd (cblack s) 3;
     i \<leftarrow> min_cells 0 3 (cblack s) i;
     cb \<leftarrow> add_cells 0 4 (- i) (cblack s);
     let black1 = c_u32 (black s + i);
     i \<leftarrow> rd cb 6;
     r \<leftarrow> rd cb 4;
     c \<leftarrow> rd cb 5;
     i \<leftarrow> min_cells 6 (r * c) cb i;
     cb \<leftarrow> add_cells 6 (r * c) (- i) cb;
     let black1 = c_u32 (black1 + i);
     let black1 = (if user_black \<ge> 0 then user_black else black1);
     cb \<leftarrow> add_cells 0 4 black1 cb;
     Some (s\<lparr>cblack := cb, black := black1, maximum := (if user_sat > 0 then user_sat else maximum s)\<rparr>) }"

text \<open>What the levels add up to at a cell \<open>j\<close> of the pattern, for colour \<open>c\<close>.\<close>

definition black_at :: "u16 list \<Rightarrow> int \<Rightarrow> int \<Rightarrow> int" where
  "black_at cb c j = the (rd cb c) + the (rd cb (6 + j))"



section \<open>The integer part of scale_colors\<close>

text \<open>A pattern of at most two by two levels is added to the levels of the four colours.\<close>

definition merge_black :: "dst \<Rightarrow> dst option" where
  "merge_black s = do {
     r \<leftarrow> rd (cblack s) 4;
     n \<leftarrow> rd (cblack s) 5;
     if filters s > 1000 \<and> (r + 1) div 2 = 1 \<and> (n + 1) div 2 = 1 then do {
       cb \<leftarrow> for_up 0 4 (\<lambda>c cb. do {
         let k = FC (filters s) (c div 2) (c mod 2);
         i \<leftarrow> c_mod (c div 2) r;
         j \<leftarrow> c_mod (c mod 2) n;
         x \<leftarrow> rd cb k;
         y \<leftarrow> rd cb (6 + i * n + j);
         wr cb k (x + y) }) (cblack s);
       cb \<leftarrow> wr cb 5 0;
       cb \<leftarrow> wr cb 4 0;
       Some (s\<lparr>cblack := cb\<rparr>) }
     else Some s }"

text \<open>
  One cell of the image: \<open>scale c v\<close> is \<open>v\<close> times the floating-point multiplier of colour \<open>c\<close>,
  truncated.
\<close>

definition scale_cell :: "(int \<Rightarrow> int \<Rightarrow> int) \<Rightarrow> geom \<Rightarrow> int \<Rightarrow> dst \<Rightarrow> dst option" where
  "scale_cell scale g i s = do {
     v \<leftarrow> rd (img s) i;
     if v = 0 then Some s
     else do {
       r \<leftarrow> rd (cblack s) 4;
       n \<leftarrow> rd (cblack s) 5;
       v \<leftarrow> (if r \<noteq> 0 \<and> n \<noteq> 0 then do {
                q \<leftarrow> c_div (i div 4) (iwidth g);
                a \<leftarrow> c_mod q r;
                p \<leftarrow> c_mod (i div 4) (iwidth g);
                b \<leftarrow> c_mod p n;
                x \<leftarrow> rd (cblack s) (6 + a * n + b);
                Some (v - x) }
              else Some v);
       x \<leftarrow> rd (cblack s) (i AND 3);
       xs \<leftarrow> wr (img s) i (CLIP (scale (i AND 3) (v - x)));
       Some (s\<lparr>img := xs\<rparr>) } }"

definition scale_image :: "(int \<Rightarrow> int \<Rightarrow> int) \<Rightarrow> geom \<Rightarrow> dst \<Rightarrow> dst option" where
  "scale_image scale g s = for_up 0 (iheight g * iwidth g * 4) (scale_cell scale g) s"

text \<open>The level that is subtracted from cell \<open>i\<close> of the image.\<close>

definition black_of :: "geom \<Rightarrow> u16 list \<Rightarrow> int \<Rightarrow> int" where
  "black_of g cb i =
     (let r = the (rd cb 4); n = the (rd cb 5); x = i div 4 div iwidth g; y = i div 4 mod iwidth g
      in the (rd cb (i AND 3)) + (if r \<noteq> 0 \<and> n \<noteq> 0 then the (rd cb (6 + x mod r * n + y mod n)) else 0))"

lemma scale_cell_ok:
  assumes "0 < iwidth g" "length (cblack s) = 4102" "0 \<le> i" "i < int (length (img s))"
    and "rd (cblack s) 4 = Some r" "rd (cblack s) 5 = Some n" "r * n \<le> 4096" "rd (img s) i = Some v"
  shows "\<exists>xs. scale_cell scale g i s = Some (s\<lparr>img := xs\<rparr>) \<and> length xs = length (img s)
    \<and> (\<forall>j. rd xs j = (if j = i then Some (if v = 0 then 0 else CLIP (scale (i AND 3) (v - black_of g (cblack s) i))) else rd (img s) j))"
proof (cases "v = 0")
  case True
  then show ?thesis using assms(8) by (intro exI [of _ "img s"]) (simp add: scale_cell_def)
next
  case False
  let ?cb = "cblack s"
  have rn: "0 \<le> r" "0 \<le> n" using assms(5,6) rd_nonneg by auto
  obtain x where x: "rd ?cb (i AND 3) = Some x" using assms(2) and_3_bounds [of i] by (auto simp: rd_def inb_def)
  define a b where "a = i div 4 div iwidth g mod r" and "b = i div 4 mod iwidth g mod n"
  have i4: "0 \<le> i div 4" "0 \<le> i div 4 div iwidth g" "0 \<le> i div 4 mod iwidth g"
    using assms(1,3) by (simp_all add: pos_imp_zdiv_nonneg_iff)
  have pat: "\<exists>y. rd ?cb (6 + a * n + b) = Some y" if "r \<noteq> 0" "n \<noteq> 0"
  proof -
    have "0 \<le> a" "a < r" "0 \<le> b" "b < n" using that rn by (simp_all add: a_def b_def)
    from cell_bound [OF this] show ?thesis using assms(2,7) by (simp add: rd_def inb_def)
  qed
  define w where "w = CLIP (scale (i AND 3) (v - black_of g ?cb i))"
  obtain xs where xs: "wr (img s) i w = Some xs" using assms(3,4) by (simp add: wr_def inb_def)
  have "length xs = length (img s)" using xs by (auto simp: wr_def split: if_splits)
  moreover have "c_u16 w = w" using CLIP_bounds [of "scale (i AND 3) (v - black_of g ?cb i)"]
    unfolding w_def by (intro c_u16_self) linarith+
  moreover have "scale_cell scale g i s = Some (s\<lparr>img := xs\<rparr>)"
  proof (cases "r \<noteq> 0 \<and> n \<noteq> 0")
    case True
    then obtain y where y: "rd ?cb (6 + a * n + b) = Some y" using pat by auto
    have "black_of g ?cb i = x + y" using True y by (simp add: black_of_def assms(5,6) x a_def b_def)
    then show ?thesis using False True assms(1,5,6,8) x y xs rn i4
      by (simp add: scale_cell_def c_div_def c_mod_def smod_nonneg sdiv_nonneg a_def b_def w_def diff_diff_eq algebra_simps)
  next
    case f: False
    then have "black_of g ?cb i = x" by (auto simp: black_of_def assms(5,6) x)
    then show ?thesis using False f assms(5,6,8) x xs by (auto simp: scale_cell_def w_def)
  qed
  ultimately show ?thesis using False by (intro exI [of _ xs]) (simp add: rd_wr [OF xs] w_def)
qed

text \<open>
  C11: The loop of \<open>scale_colors\<close> replaces every sample of the image by the scaled difference to its
  black level (of its colour, and of its position in the pattern when there is one), clipped to 16
  bits, and leaves samples of zero at zero.
\<close>

theorem scale_image_cells:
  assumes "0 < iwidth g" "0 \<le> iheight g" "length (cblack s) = 4102" "int (length (img s)) = iheight g * iwidth g * 4"
    and "rd (cblack s) 4 = Some r" "rd (cblack s) 5 = Some n" "r * n \<le> 4096"
  shows "\<exists>xs. scale_image scale g s = Some (s\<lparr>img := xs\<rparr>) \<and> length xs = length (img s) \<and> (\<forall>i v. rd (img s) i = Some v \<longrightarrow>
    rd xs i = Some (if v = 0 then 0 else CLIP (scale (i AND 3) (v - black_of g (cblack s) i))))"
proof -
  define val where "val i = map_option (\<lambda>v. if v = 0 then 0 else CLIP (scale (i AND 3) (v - black_of g (cblack s) i))) (rd (img s) i)" for i
  define I where "I c t \<longleftrightarrow> (\<exists>xs. t = s\<lparr>img := xs\<rparr> \<and> length xs = length (img s)
    \<and> (\<forall>j. rd xs j = (if j < c then val j else rd (img s) j)))" for c t
  have "ok (scale_image scale g s) (I (iheight g * iwidth g * 4))"
    unfolding scale_image_def
  proof (rule for_up_inv [where I = I])
    show "I 0 s" by (auto simp: I_def val_def rd_def inb_def intro!: exI [of _ "img s"])
  next
    fix c t
    assume c: "0 \<le> c" "c < iheight g * iwidth g * 4" and "I c t"
    then obtain xs where xs: "t = s\<lparr>img := xs\<rparr>" "length xs = length (img s)"
      "\<And>j. rd xs j = (if j < c then val j else rd (img s) j)" by (auto simp: I_def)
    have "inb (img s) c" using c assms(4) by (simp add: inb_def)
    then obtain v where v: "rd (img s) c = Some v" by (simp add: rd_def)
    obtain ys where ys: "scale_cell scale g c t = Some (t\<lparr>img := ys\<rparr>)" "length ys = length xs"
      "\<And>j. rd ys j = (if j = c then Some (if v = 0 then 0 else CLIP (scale (c AND 3) (v - black_of g (cblack s) c))) else rd xs j)"
      using scale_cell_ok [of g t c r n v scale] assms c v xs by auto
    have "I (c + 1) (t\<lparr>img := ys\<rparr>)"
      unfolding I_def using xs ys v by (intro exI [of _ ys]) (auto simp: val_def)
    then show "ok (scale_cell scale g c t) (I (c + 1))" using ys(1) by simp
  qed (use assms in auto)
  then show ?thesis
    using assms(4) by (auto simp: ok_exists I_def val_def rd_def inb_def split: if_splits)
qed

theorem scale_image_cells_witness:
  "\<exists>xs. scale_image (\<lambda>c v. 3 * v) (plain_geom 1 1) (identify_reset []\<lparr>img := [100, 0, 7, 50000],
      cblack := [10, 10, 10, 10] @ replicate 4098 0\<rparr>) = Some (identify_reset []\<lparr>img := xs,
      cblack := [10, 10, 10, 10] @ replicate 4098 0\<rparr>)
    \<and> rd xs 0 = Some 270 \<and> rd xs 1 = Some 0 \<and> rd xs 2 = Some 0 \<and> rd xs 3 = Some 65535"
proof -
  let ?cb = "[10, 10, 10, 10] @ replicate 4098 0 :: u16 list"
  let ?s = "identify_reset []\<lparr>img := [100, 0, 7, 50000], cblack := ?cb\<rparr>"
  have r: "rd ?cb 0 = Some 10" "rd ?cb 2 = Some 10" "rd ?cb 3 = Some 10" "rd ?cb 4 = Some 0" "rd ?cb 5 = Some 0"
    by (simp_all add: rd_def inb_def)
  have i: "rd [100, 0, 7, 50000 :: u16] 0 = Some 100" "rd [100, 0, 7, 50000 :: u16] 1 = Some 0"
    "rd [100, 0, 7, 50000 :: u16] 2 = Some 7" "rd [100, 0, 7, 50000 :: u16] 3 = Some 50000"
    by (simp_all add: rd_def inb_def)
  have b: "black_of (plain_geom 1 1) ?cb j = 10" if "j = 0 \<or> j = 2 \<or> j = 3" for j
    using that r by (auto simp: black_of_def simp del: append.simps)
  obtain xs where xs: "scale_image (\<lambda>c v. 3 * v) (plain_geom 1 1) ?s = Some (?s\<lparr>img := xs\<rparr>)"
    "\<forall>i v. rd [100, 0, 7, 50000 :: u16] i = Some v \<longrightarrow>
      rd xs i = Some (if v = 0 then 0 else CLIP (3 * (v - black_of (plain_geom 1 1) ?cb i)))"
    using scale_image_cells [of "plain_geom 1 1" ?s 0 0 "\<lambda>c v. 3 * v"] r
    by (auto simp: plain_geom_def simp del: append.simps)
  show ?thesis
    using xs(1) xs(2) [rule_format, OF i(1)] xs(2) [rule_format, OF i(2)] xs(2) [rule_format, OF i(3)]
      xs(2) [rule_format, OF i(4)]
    by (intro exI [of _ xs]) (simp add: b CLIP_def LIM_c_def MAX_c_def MIN_c_def del: append.simps)
qed

text \<open>The loop of \<open>main\<close> that merges the two greens after the interpolation.\<close>

definition mix_greens :: "geom \<Rightarrow> dst \<Rightarrow> dst option" where
  "mix_greens g s =
     (if mix_green s \<noteq> 0 then for_up 0 (height g * width g) (\<lambda>i s. do {
        a \<leftarrow> IMG s i 1; b \<leftarrow> IMG s i 3; set_IMG i 1 (shr (a + b) 1) s }) (s\<lparr>colors := 3\<rparr>)
      else Some s)"

end
