(* ===== verification/ScaleColors.thy ===== *)
theory ScaleColors
  imports Options Pipeline
begin

text \<open>
  The white balance: the multipliers that \<open>scale_colors\<close> takes from the options, from a grey part of the
  image or from the camera, with its correction of lateral chromatic aberration, and the white balance of
  the PowerShot 600. Sums over samples are exact in the program's \<open>double\<close>s (below 2 to the 53rd) and are
  integers here. Expressions in \<open>float\<close> and \<open>double\<close> are kept (\<open>real_c\<close>); an operation on them has the
  type of its operands.
\<close>

section \<open>The grey part of the image\<close>

text \<open>
  A block of eight by eight pixels: the sums of the samples over black and their numbers, colour by colour.
  It is skipped (the second \<open>None\<close>) when a sample is close to the maximum.
\<close>

definition wb_add :: "dst \<Rightarrow> int \<Rightarrow> int \<Rightarrow> int list \<Rightarrow> int list option option" where
  "wb_add s c val sums =
     (if val > c_u32 (maximum s - 25) then Some None
      else do {
        b \<leftarrow> rd (cblack s) c;
        x \<leftarrow> at sums c;
        n \<leftarrow> at sums (c + 4);
        sums \<leftarrow> put sums c (x + max 0 (val - b));
        sums \<leftarrow> put sums (c + 4) (n + 1);
        Some (Some sums) })"

definition wb_pixel :: "geom \<Rightarrow> dst \<Rightarrow> int \<Rightarrow> int \<Rightarrow> int list option \<Rightarrow> int list option option" where
  "wb_pixel g s y x acc =
     (case acc of
        None \<Rightarrow> Some None
      | Some sums \<Rightarrow>
          if filters s \<noteq> 0 then do {
            c \<leftarrow> fcol g (filters s) y x;
            v \<leftarrow> BAYER2 g s y x;
            wb_add s c v sums }
          else for_up 0 4 (\<lambda>c acc. case acc of
              None \<Rightarrow> Some None
            | Some sums \<Rightarrow> do { v \<leftarrow> IMG s (y * width g + x) c; wb_add s c v sums }) (Some sums))"

definition wb_block :: "geom \<Rightarrow> dst \<Rightarrow> int \<Rightarrow> int \<Rightarrow> int \<Rightarrow> int \<Rightarrow> int list option option" where
  "wb_block g s bottom right row col =
     for_up row (min (row + 8) bottom) (\<lambda>y. for_up col (min (col + 8) right) (\<lambda>x. wb_pixel g s y x)) (Some (replicate 8 0))"

definition wb_sums :: "geom \<Rightarrow> dst \<Rightarrow> int list \<Rightarrow> int list option" where
  "wb_sums g s greybox =
     (let bottom = min (c_u32 (greybox ! 1 + greybox ! 3)) (height g);
          right = min (c_u32 (greybox ! 0 + greybox ! 2)) (width g)
      in for_by 8 (greybox ! 1) bottom (\<lambda>row. for_by 8 (greybox ! 0) right (\<lambda>col dsum. do {
           b \<leftarrow> wb_block g s bottom right row col;
           Some (case b of None \<Rightarrow> dsum | Some sums \<Rightarrow> map2 (+) dsum sums) })) (replicate 8 0))"

definition wb_quotients :: "fp_ops \<Rightarrow> int list \<Rightarrow> real_c list \<Rightarrow> real_c list" where
  "wb_quotients fp dsum pre =
     map (\<lambda>c. if dsum ! c \<noteq> 0 then as_float fp (Quotient (Of_int (dsum ! (c + 4))) (Of_int (dsum ! c))) else pre ! c) [0..<4]"

definition auto_wb :: "fp_ops \<Rightarrow> options \<Rightarrow> meta \<Rightarrow> meta option" where
  "auto_wb fp p s =
     (if opt_auto_wb p \<noteq> 0 \<or> (use_camera_wb s \<noteq> 0 \<and> fp_is fp (cam_mul s ! 0) (- 1)) then do {
        dsum \<leftarrow> wb_sums (tg s) (td s) (opt_greybox p);
        Some (s\<lparr>pre_mul := wb_quotients fp dsum (pre_mul s)\<rparr>) }
      else Some s)"

section \<open>The balance of the camera\<close>

text \<open>The white samples of the camera; \<open>sum\<close> is unsigned.\<close>

definition white_sums :: "meta \<Rightarrow> int list option" where
  "white_sums s = for_up 0 8 (\<lambda>row. for_up 0 8 (\<lambda>col sums. do {
     let c = FC (filters (td s)) row col;
     w \<leftarrow> rd (white s) (8 * row + col);
     b \<leftarrow> rd (cblack (td s)) c;
     x \<leftarrow> at sums c;
     n \<leftarrow> at sums (c + 4);
     sums \<leftarrow> put sums c (x + max 0 (w - b));
     put sums (c + 4) (n + 1) })) (replicate 8 0)"

definition camera_wb :: "fp_ops \<Rightarrow> meta \<Rightarrow> meta option" where
  "camera_wb fp s =
     (if use_camera_wb s \<noteq> 0 \<and> \<not> fp_is fp (cam_mul s ! 0) (- 1) then do {
        sums \<leftarrow> white_sums s;
        Some (if sums ! 0 \<noteq> 0 \<and> sums ! 1 \<noteq> 0 \<and> sums ! 2 \<noteq> 0 \<and> sums ! 3 \<noteq> 0
              then s\<lparr>pre_mul := wb_quotients fp sums (pre_mul s)\<rparr>
              else if fp_nonzero fp (cam_mul s ! 0) \<and> fp_nonzero fp (cam_mul s ! 2) then s\<lparr>pre_mul := cam_mul s\<rparr>
              else s) }
      else Some s)"

text \<open>The multipliers that are missing, and the least or largest of them.\<close>

definition default_mul :: "fp_ops \<Rightarrow> meta \<Rightarrow> meta" where
  "default_mul fp s =
     (let pre = pre_mul s;
          pre = (if fp_nonzero fp (pre ! 1) then pre else pre[1 := Of_int 1]);
          pre = (if fp_nonzero fp (pre ! 3) then pre else pre[3 := (if colors (td s) < 4 then pre ! 1 else Of_int 1)])
      in s\<lparr>pre_mul := pre\<rparr>)"

definition least_mul :: "fp_ops \<Rightarrow> real_c list \<Rightarrow> real_c" where
  "least_mul fp pre = fold (\<lambda>x m. if fp_less fp x m then x else m) pre (Decimal ''1.7976931348623157e308'')"

definition largest_mul :: "fp_ops \<Rightarrow> real_c list \<Rightarrow> real_c" where
  "largest_mul fp pre = fold (\<lambda>x m. if fp_less fp m x then x else m) pre (Of_int 0)"

definition scale_muls :: "fp_ops \<Rightarrow> int \<Rightarrow> real_c list \<Rightarrow> int \<Rightarrow> real_c list \<times> real_c list" where
  "scale_muls fp highlight pre mx =
     (let d = (if highlight = 0 then least_mul fp pre else largest_mul fp pre);
          pre = map (\<lambda>x. as_float fp (Quotient x d)) pre
      in (pre, map (\<lambda>x. as_float fp (Quotient (Product x (Decimal ''65535.0'')) (Of_int mx))) pre))"

section \<open>Chromatic aberration\<close>

text \<open>
  \<open>(row - iheight*0.5) * aber[c] + iheight*0.5\<close>: the position before the colour is scaled, its integer part
  as an unsigned number, and the rest.
\<close>

definition aber_place :: "fp_ops \<Rightarrow> real_c \<Rightarrow> int \<Rightarrow> int \<Rightarrow> int \<times> real_c" where
  "aber_place fp ab n k =
     (let half = Product (Of_int n) (Decimal ''0.5'');
          f = as_float fp (Sum (Product (Minus (Of_int k) half) ab) half);
          u = c_u32 (fp_int fp f)
      in (u, as_float fp (Minus f (Of_int u))))"

definition between :: "real_c \<Rightarrow> int \<Rightarrow> int \<Rightarrow> real_c" where
  "between f a b = Sum (Product (Of_int a) (Minus (Of_int 1) f)) (Product (Of_int b) f)"

definition aber_pixel :: "fp_ops \<Rightarrow> int \<Rightarrow> u16 list \<Rightarrow> int \<Rightarrow> real_c \<Rightarrow> int \<Rightarrow> real_c \<Rightarrow> int option" where
  "aber_pixel fp iw im ur fr uc fc = do {
     let i = ur * iw + uc;
     p00 \<leftarrow> rd im i; p01 \<leftarrow> rd im (i + 1); p10 \<leftarrow> rd im (i + iw); p11 \<leftarrow> rd im (i + iw + 1);
     Some (c_u16 (fp_int fp (Sum (Product (between fc p00 p01) (Minus (Of_int 1) fr)) (Product (between fc p10 p11) fr)))) }"

definition aber_row :: "fp_ops \<Rightarrow> real_c \<Rightarrow> geom \<Rightarrow> int \<Rightarrow> u16 list \<Rightarrow> int \<Rightarrow> dst \<Rightarrow> dst option" where
  "aber_row fp ab g c im row s =
     (case aber_place fp ab (iheight g) row of (ur, fr) \<Rightarrow>
        if ur > c_u32 (iheight g - 2) then Some s
        else for_up 0 (iwidth g) (\<lambda>col s.
          case aber_place fp ab (iwidth g) col of (uc, fc) \<Rightarrow>
            if uc > c_u32 (iwidth g - 2) then Some s
            else do {
              v \<leftarrow> aber_pixel fp (iwidth g) im ur fr uc fc;
              set_IMG (row * iwidth g + col) c v s }) s)"

definition channel :: "geom \<Rightarrow> int \<Rightarrow> dst \<Rightarrow> u16 list option" where
  "channel g c s = for_up 0 (iheight g * iwidth g) (\<lambda>i xs. do { v \<leftarrow> IMG s i c; wr xs i v }) (zeros (iheight g * iwidth g))"

definition aber_channel :: "fp_ops \<Rightarrow> real_c list \<Rightarrow> geom \<Rightarrow> int \<Rightarrow> dst \<Rightarrow> dst option" where
  "aber_channel fp aber g c s =
     (if fp_is fp (aber ! nat c) 1 then Some s
      else do {
        im \<leftarrow> channel g c s;
        for_up 0 (iheight g) (aber_row fp (aber ! nat c) g c im) s })"

definition correct_aberration :: "fp_ops \<Rightarrow> real_c list \<Rightarrow> geom \<Rightarrow> dst \<Rightarrow> dst option" where
  "correct_aberration fp aber g s =
     (if (\<not> fp_is fp (aber ! 0) 1 \<or> \<not> fp_is fp (aber ! 2) 1) \<and> colors s = 3
      then do { s \<leftarrow> aber_channel fp aber g 0 s; aber_channel fp aber g 2 s } else Some s)"

section \<open>scale_colors\<close>

text \<open>\<open>denoise\<close> is \<open>wavelet_denoise\<close>, which the option \<open>-n\<close> asks for.\<close>

definition choose_mul :: "fp_ops \<Rightarrow> options \<Rightarrow> meta \<Rightarrow> meta option" where
  "choose_mul fp p s = do {
     let s = (if fp_nonzero fp (opt_user_mul p ! 0) then s\<lparr>pre_mul := opt_user_mul p\<rparr> else s);
     s \<leftarrow> auto_wb fp p s;
     s \<leftarrow> camera_wb fp s;
     Some (default_mul fp s) }"

definition scale_colors :: "fp_ops \<Rightarrow> (meta \<Rightarrow> meta option) \<Rightarrow> options \<Rightarrow> meta \<Rightarrow> meta option" where
  "scale_colors fp denoise p s = do {
     s \<leftarrow> choose_mul fp p s;
     s \<leftarrow> (if fp_nonzero fp (opt_threshold p) then denoise s else Some s);
     let s = on_d (\<lambda>t. t\<lparr>maximum := c_u32 (maximum t - black t)\<rparr>) s;
     let (pre, mul) = scale_muls fp (opt_highlight p) (pre_mul s) (maximum (td s));
     t \<leftarrow> merge_black (td s);
     t \<leftarrow> scale_image (\<lambda>c v. fp_int fp (Product (Of_int v) (mul ! nat c))) (tg s) t;
     t \<leftarrow> correct_aberration fp (opt_aber p) (tg s) t;
     Some (s\<lparr>pre_mul := pre, td := t\<rparr>) }"

section \<open>PowerShot 600\<close>

definition fixed_wb_table :: "int list list" where
  "fixed_wb_table = [[667, 358, 397, 565, 452], [731, 390, 367, 499, 517], [1119, 396, 348, 448, 537], [1399, 485, 431, 508, 688]]"

text \<open>The rows between which a colour temperature lies.\<close>

definition wb_row_below :: "int \<Rightarrow> nat" where
  "wb_row_below temp = (case filter (\<lambda>k. hd (fixed_wb_table ! k) \<le> temp) [3, 2, 1] of [] \<Rightarrow> 0 | k # _ \<Rightarrow> k)"

definition wb_row_above :: "int \<Rightarrow> nat" where
  "wb_row_above temp = (case filter (\<lambda>k. hd (fixed_wb_table ! k) \<ge> temp) [0, 1, 2] of [] \<Rightarrow> 3 | k # _ \<Rightarrow> k)"

definition canon_600_fixed_wb :: "fp_ops \<Rightarrow> int \<Rightarrow> meta \<Rightarrow> meta" where
  "canon_600_fixed_wb fp temp s =
     (let lo = fixed_wb_table ! wb_row_below temp; hi = fixed_wb_table ! wb_row_above temp;
          frac = (if wb_row_below temp = wb_row_above temp then Of_int 0
                  else as_float fp (Quotient (as_float fp (Of_int (temp - hd lo))) (Of_int (hd hi - hd lo))))
      in s\<lparr>pre_mul := map (\<lambda>i. as_float fp (Quotient (Of_int 1)
           (Sum (Product frac (Of_int (hi ! i))) (Product (Minus (Of_int 1) frac) (Of_int (lo ! i)))))) [1..<5]\<rparr>)"

text \<open>
  A place of two by four pixels: its samples by colour, upper and lower half; \<open>None\<close> inside when a sample
  is too dark or too bright or the halves differ, or when the place is not white.
\<close>

definition wb_600_samples :: "geom \<Rightarrow> dst \<Rightarrow> int \<Rightarrow> int \<Rightarrow> int list option" where
  "wb_600_samples g s row col = for_up 0 8 (\<lambda>i test. do {
     let y = row + shr i 1;
     let x = col + (i AND 1);
     v \<leftarrow> BAYER g s y x;
     put test ((i AND 4) + FC (filters s) y x) v }) (map (junk g) [0..<8])"

definition wb_600_usable :: "int list \<Rightarrow> bool" where
  "wb_600_usable test \<longleftrightarrow> (\<forall>v \<in> set test. 150 \<le> v \<and> v \<le> 1500) \<and> (\<forall>i \<in> {0..<4}. \<bar>test ! i - test ! (i + 4)\<bar> \<le> 50)"

definition wb_600_ratio :: "int list \<Rightarrow> nat \<Rightarrow> nat \<Rightarrow> int" where
  "wb_600_ratio test i j = shl_i (test ! (4 * i + j + 1) - test ! (4 * i + j)) 10 sdiv test ! (4 * i + j)"

text \<open>The samples that are nearly white are moved to white.\<close>

definition wb_600_half :: "bool \<Rightarrow> int \<Rightarrow> nat \<Rightarrow> int list \<Rightarrow> int \<times> int list" where
  "wb_600_half flash mar i test =
     (case canon_600_color flash (wb_600_ratio test i 0, wb_600_ratio test i 2) mar of (st, r0, r1) \<Rightarrow>
        (st, if st = 0 then test
             else test[4 * i + 1 := shr_i (test ! (4 * i) * (0x400 + r0)) 10,
                       4 * i + 3 := shr_i (test ! (4 * i + 2) * (0x400 + r1)) 10]))"

definition wb_600_place :: "bool \<Rightarrow> int \<Rightarrow> geom \<Rightarrow> dst \<Rightarrow> int \<Rightarrow> int \<Rightarrow> (int list \<times> int) list \<Rightarrow> (int list \<times> int) list option" where
  "wb_600_place flash mar g s row col acc = do {
     test \<leftarrow> wb_600_samples g s row col;
     if \<not> wb_600_usable test then Some acc
     else do {
       let (st0, test) = wb_600_half flash mar 0 test;
       let (st1, test) = wb_600_half flash mar 1 test;
       let st = st0 OR st1;
       if st > 1 then Some acc
       else case acc ! nat st of (tot, n) \<Rightarrow> Some (acc[nat st := (map2 (+) tot test, n + 1)]) } }"

definition canon_600_auto_wb :: "fp_ops \<Rightarrow> meta \<Rightarrow> meta option" where
  "canon_600_auto_wb fp s = do {
     let i = fp_int fp (Sum (canon_ev s) (Decimal ''0.5''));
     let flash = fp_nonzero fp (flash_used s);
     let mar = (if flash then 80 else if i < 10 then 150 else if i > 12 then 20 else 280 - 20 * i);
     acc \<leftarrow> for_by 4 14 (height (tg s) - 14) (\<lambda>row. for_by 2 10 (width (tg s)) (wb_600_place flash mar (tg s) (td s) row))
       (replicate 2 (replicate 8 0, 0));
     let (n0, n1) = (snd (acc ! 0), snd (acc ! 1));
     let tot = fst (acc ! (if n0 * 200 < n1 then 1 else 0));
     Some (if n0 OR n1 \<noteq> 0
           then s\<lparr>pre_mul := map (\<lambda>i. as_float fp (Quotient (Decimal ''1.0'') (Of_int (tot ! i + tot ! (i + 4))))) [0..<4]\<rparr>
           else s) }"

definition coeff_600_table :: "int list list" where
  "coeff_600_table =
     [[- 190, 702, - 1878, 2390, 1861, - 1349, 905, - 393, - 432, 944, 2617, - 2105],
      [- 1203, 1715, - 1136, 1648, 1388, - 876, 267, 245, - 1641, 2153, 3921, - 3409],
      [- 615, 1127, - 1563, 2075, 1437, - 925, 509, 3, - 756, 1268, 2519, - 2007],
      [- 190, 702, - 1886, 2398, 2153, - 1641, 763, - 251, - 452, 964, 3040, - 2528],
      [- 190, 702, - 1878, 2390, 1861, - 1349, 905, - 393, - 432, 944, 2617, - 2105],
      [- 807, 1319, - 1785, 2297, 1388, - 876, 769, - 257, - 230, 742, 2067, - 1555]]"

definition coeff_600_row :: "fp_ops \<Rightarrow> meta \<Rightarrow> nat" where
  "coeff_600_row fp s =
     (let less = fp_less fp;
          mc = as_float fp (Quotient (pre_mul s ! 1) (pre_mul s ! 2));
          yc = as_float fp (Quotient (pre_mul s ! 3) (pre_mul s ! 2));
          low = less yc (Decimal ''0.8789'');
          t = (if less (Of_int 1) mc \<and> \<not> less (Decimal ''1.28'') mc \<and> low then 1 else 0);
          t = (if less (Decimal ''1.28'') mc \<and> \<not> less (Of_int 2) mc then if low then 3 else if \<not> less (Of_int 2) yc then 4 else t else t)
      in if fp_nonzero fp (flash_used s) then 5 else t)"

definition canon_600_coeff :: "fp_ops \<Rightarrow> meta \<Rightarrow> meta option" where
  "canon_600_coeff fp s = do {
     let row = coeff_600_table ! coeff_600_row fp s;
     rgb \<leftarrow> for_up 0 3 (\<lambda>i. for_up 0 (colors (td s)) (\<lambda>c rgb. do {
        x \<leftarrow> at row (4 * i + c);
        put rgb (4 * i + c) (as_float fp (Quotient (Of_int x) (Decimal ''1024.0''))) })) (rgb_cam s);
     Some (on_d (raw_color_update (\<lambda>_. 0)) (s\<lparr>rgb_cam := rgb\<rparr>)) }"

definition canon_600_correct :: "fp_ops \<Rightarrow> meta \<Rightarrow> meta option" where
  "canon_600_correct fp s = do {
     t \<leftarrow> canon_600_gain (tg s) (td s);
     let s = canon_600_fixed_wb fp 1311 (s\<lparr>td := t\<rparr>);
     s \<leftarrow> canon_600_auto_wb fp s;
     s \<leftarrow> canon_600_coeff fp s;
     Some (on_d (\<lambda>t. t\<lparr>maximum := shr (c_u32 ((0x3ff - black t) * 1109)) 9, black := 0\<rparr>) s) }"

end
