(* ===== verification/Output.thy ===== *)
theory Output
  imports RawImage
begin

text \<open>
  The end of the pipeline: the position of an output pixel in the image (\<open>flip_index\<close>), the copy
  loop of \<open>write_ppm_tiff\<close> that steps through the image without calling it, the white level from
  the histogram, and the tags of the TIFF header.
\<close>

section \<open>Orientation\<close>

definition flip_index :: "geom \<Rightarrow> int \<Rightarrow> int \<Rightarrow> int \<Rightarrow> int" where
  "flip_index g flip row col =
     (let (row, col) = (if flip AND 4 \<noteq> 0 then (col, row) else (row, col));
          row = (if flip AND 2 \<noteq> 0 then iheight g - 1 - row else row);
          col = (if flip AND 1 \<noteq> 0 then iwidth g - 1 - col else col)
      in row * iwidth g + col)"

text \<open>
  The copy loop: \<open>iheight\<close> and \<open>iwidth\<close> are the sizes before, \<open>height\<close> and \<open>width\<close> those of the
  output. The result is the list of samples that is written, row by row.
\<close>

definition output_geom :: "int \<Rightarrow> geom \<Rightarrow> geom" where
  "output_geom flip g =
     (let g = g\<lparr>iheight := height g, iwidth := width g\<rparr>
      in if flip AND 4 \<noteq> 0 then g\<lparr>height := width g, width := height g\<rparr> else g)"

definition write_pixel :: "int \<Rightarrow> int \<Rightarrow> dst \<Rightarrow> int list \<Rightarrow> int list option" where
  "write_pixel bps soff s out = for_up 0 (colors s) (\<lambda>c out. do {
     x \<leftarrow> IMG s soff c;
     v \<leftarrow> rd (curve s) x;
     Some (out @ [if bps = 8 then shr v 8 else v]) }) out"

definition write_row :: "geom \<Rightarrow> int \<Rightarrow> int \<Rightarrow> dst \<Rightarrow> int \<times> int list \<Rightarrow> (int \<times> int list) option" where
  "write_row g bps cstep s = (\<lambda>st. for_up 0 (width g) (\<lambda>col (soff, out). do {
     out \<leftarrow> write_pixel bps soff s out;
     Some (soff + cstep, out) }) st)"

definition write_image :: "geom \<Rightarrow> int \<Rightarrow> int \<Rightarrow> dst \<Rightarrow> int list option" where
  "write_image g flip bps s =
     (let g = output_geom flip g;
          soff = flip_index g flip 0 0;
          cstep = flip_index g flip 0 1 - soff;
          rstep = flip_index g flip 1 0 - flip_index g flip 0 (width g)
      in do {
        (soff, out) \<leftarrow> for_up 0 (height g) (\<lambda>row st. do {
          (soff, out) \<leftarrow> write_row g bps cstep s st;
          Some (soff + rstep, out) }) (soff, []);
        Some out })"

section \<open>White level\<close>

text \<open>
  \<open>for (val=0x2000, total=0; --val > 32; ) if ((total += histogram[c][val]) > perc) break;\<close> and the
  largest result over the colours.
\<close>

function white_scan :: "int list \<Rightarrow> int \<Rightarrow> int \<Rightarrow> int \<Rightarrow> int option" where
  "white_scan histo perc val tot =
     (if val - 1 > 32 then
        (case at histo (val - 1) of
           None \<Rightarrow> None
         | Some h \<Rightarrow>
             if c_s32 (tot + h) > perc then Some (val - 1)
             else white_scan histo perc (val - 1) (c_s32 (tot + h)))
      else Some (val - 1))"
  by pat_completeness auto
termination
  by (relation "measure (\<lambda>(h, p, v, t). nat v)") auto

declare white_scan.simps [simp del]

definition white_level :: "int list list \<Rightarrow> int \<Rightarrow> int \<Rightarrow> int option" where
  "white_level histogram ncolors perc = for_up 0 ncolors (\<lambda>c white. do {
     h \<leftarrow> at histogram c;
     val \<leftarrow> white_scan h perc 0x2000 0;
     Some (if white < val then val else white) }) 0"

section \<open>The TIFF header\<close>

text \<open>
  A tag as the file holds it: tag, type, count and the four bytes of the value. \<open>strings\<close> gives
  the bytes of the header from an offset on, for the tags of type 2.
\<close>

type_synonym tiff_tag = "int \<times> int \<times> int \<times> u8 list"

definition val_bytes :: "bool \<Rightarrow> int \<Rightarrow> u8 list" where
  "val_bytes big v =
     (let le = map (\<lambda>k. word_of_int (shr v (8 * k))) [0, 1, 2, 3] in if big then rev le else le)"

definition val_shorts :: "bool \<Rightarrow> int \<Rightarrow> u8 list" where
  "val_shorts big v =
     cell_bytes big (word_of_int v) @ cell_bytes big (word_of_int (shr v 16))"

definition tiff_set ::
    "bool \<Rightarrow> (int \<Rightarrow> u8 list) \<Rightarrow> int \<Rightarrow> int \<Rightarrow> int \<Rightarrow> int \<Rightarrow> tiff_tag list \<Rightarrow> tiff_tag list" where
  "tiff_set big strings tag type count val tags =
     tags @
     [if type = 1 \<and> count \<le> 4 then (tag, type, count, map (\<lambda>c. word_of_int (shr val (8 * c))) [0, 1, 2, 3])
      else if type = 2 then
        (let n = int (length (takeWhile (\<lambda>x. x \<noteq> 0) (take (nat (count - 1)) (strings val)))) + 1
         in (tag, type, n, if n \<le> 4 then take 4 (strings val) else val_bytes big val))
      else if type = 3 \<and> count \<le> 2 then (tag, type, count, val_shorts big val)
      else (tag, type, count, val_bytes big val)]"

text \<open>Offsets in \<open>struct tiff_hdr\<close>; its size is 1376.\<close>

abbreviation (input) "off_nexif \<equiv> (294::int)"
abbreviation (input) "off_ngps \<equiv> (346::int)"
abbreviation (input) "off_bps \<equiv> (468::int)"
abbreviation (input) "off_rat \<equiv> (476::int)"
abbreviation (input) "off_gps \<equiv> (516::int)"
abbreviation (input) "off_desc \<equiv> (620::int)"
abbreviation (input) "off_make \<equiv> (1132::int)"
abbreviation (input) "off_model \<equiv> (1196::int)"
abbreviation (input) "off_soft \<equiv> (1260::int)"
abbreviation (input) "off_date \<equiv> (1292::int)"
abbreviation (input) "off_artist \<equiv> (1312::int)"
abbreviation (input) "hdr_size \<equiv> (1376::int)"

text \<open>The value \<open>"12435867"[flip]\<close>.\<close>

definition exif_orientation :: "int \<Rightarrow> int option" where
  "exif_orientation flip = at [1, 2, 4, 3, 5, 8, 6, 7] flip"

text \<open>
  The main directory: \<open>full\<close> for a TIFF file, otherwise the header of a thumbnail. \<open>psize\<close> is the
  size of the colour profile, \<open>gps\<close> tells whether there are GPS data.
\<close>

definition tiff_main_tags ::
    "bool \<Rightarrow> (int \<Rightarrow> u8 list) \<Rightarrow> geom \<Rightarrow> int \<Rightarrow> int \<Rightarrow> int \<Rightarrow> bool \<Rightarrow> bool \<Rightarrow> int \<Rightarrow> tiff_tag list option" where
  "tiff_main_tags big strings g ncolors bps flip full gps psize = do {
     let tset = tiff_set big strings;
     let ts = (if full then
         tset 262 3 1 (1 + of_bool (ncolors > 1))
          (tset 259 3 1 1
            ((\<lambda>ts. if ncolors > 2 then butlast ts @ [(258, 3, ncolors, val_bytes big off_bps)] else ts)
              (tset 258 3 ncolors bps
                (tset 257 4 1 (height g) (tset 256 4 1 (width g) (tset 254 4 1 0 []))))))
       else []);
     let ts = tset 272 2 64 off_model (tset 271 2 64 off_make (tset 270 2 512 off_desc ts));
     ts \<leftarrow> (if full then
         Some (tset 279 4 1 (height g * width g * ncolors * bps div 8)
           (tset 278 4 1 (height g) (tset 277 3 1 ncolors (tset 273 4 1 (hdr_size + psize) ts))))
       else do { orient \<leftarrow> exif_orientation flip; Some (tset 274 3 1 orient ts) });
     let ts = tset 34665 4 1 off_nexif (tset 315 2 64 off_artist (tset 306 2 20 off_date
       (tset 305 2 32 off_soft (tset 296 3 1 2 (tset 284 3 1 1
         (tset 283 5 1 (off_rat + 8) (tset 282 5 1 off_rat ts)))))));
     let ts = (if psize \<noteq> 0 \<and> full then tset 34675 7 psize hdr_size ts else ts);
     Some (if gps then tset 34853 4 1 off_ngps ts else ts) }"

definition tiff_gps_tags :: "bool \<Rightarrow> (int \<Rightarrow> u8 list) \<Rightarrow> int \<Rightarrow> int \<Rightarrow> int \<Rightarrow> tiff_tag list" where
  "tiff_gps_tags big strings d29 d30 d31 =
     (let tset = tiff_set big strings
      in tset 29 2 12 (off_gps + 92) (tset 18 2 12 (off_gps + 80) (tset 7 5 3 (off_gps + 48)
        (tset 6 5 1 (off_gps + 72) (tset 5 1 1 d31 (tset 4 5 3 (off_gps + 24) (tset 3 2 2 d30
          (tset 2 5 3 off_gps (tset 1 2 2 d29 (tset 0 1 4 0x202 []))))))))))"

section \<open>Orientation and the file\<close>

text \<open>
  What the eight values of the tag \<open>Orientation\<close> mean in TIFF and Exif: the position in the stored
  image of \<open>h\<close> rows and \<open>w\<close> columns that is shown at row \<open>r\<close> and column \<open>c\<close>.
\<close>

definition displayed :: "int \<Rightarrow> int \<Rightarrow> int \<Rightarrow> int \<Rightarrow> int \<Rightarrow> int \<times> int" where
  "displayed orient h w r c =
     (if orient = 1 then (r, c) else if orient = 2 then (r, w - 1 - c)
      else if orient = 3 then (h - 1 - r, w - 1 - c) else if orient = 4 then (h - 1 - r, c)
      else if orient = 5 then (c, r) else if orient = 6 then (h - 1 - c, r)
      else if orient = 7 then (h - 1 - c, w - 1 - r) else (c, w - 1 - r))"

text \<open>
  The orientation tag that is written into a file for a thumbnail says the same as \<open>flip_index\<close>
  does to the pixels: a reader that follows the tag shows the image the way dcraw would turn it.
\<close>

theorem exif_orientation_flip:
  assumes "exif_orientation flip = Some q"
  shows "flip_index g flip row col = (case displayed q (iheight g) (iwidth g) row col of (r, c) \<Rightarrow> r * iwidth g + c)"
proof -
  have "flip \<in> {0, 1, 2, 3, 4, 5, 6, 7}" using assms by (auto simp: exif_orientation_def at_def inb_def split: if_splits)
  then show ?thesis using assms
    unfolding insert_iff by (elim disjE) (simp_all add: exif_orientation_def at_def inb_def flip_index_def displayed_def)
qed

theorem exif_orientation_flip_witness:
  "exif_orientation 5 = Some 8 \<and> flip_index (plain_geom 4 6) 5 1 2 = 2 * 6 + (6 - 1 - 1)"
proof -
  have "exif_orientation 5 = Some 8" by (simp add: exif_orientation_def at_def inb_def)
  then show ?thesis using exif_orientation_flip [of 5 8 "plain_geom 4 6" 1 2] by (simp add: displayed_def plain_geom_def)
qed

text \<open>The samples of a pixel as they are written.\<close>

definition pixel_samples :: "int \<Rightarrow> dst \<Rightarrow> int \<Rightarrow> int list" where
  "pixel_samples bps s i = map (\<lambda>c. let v = the (rd (curve s) (the (IMG s i c))) in if bps = 8 then shr v 8 else v) [0..colors s - 1]"

lemma write_pixel_ok:
  assumes "int (length (img s)) = 4 * n" "0 \<le> i" "i < n" "length (curve s) = 65536" "0 \<le> colors s" "colors s \<le> 4"
  shows "write_pixel bps i s out = Some (out @ pixel_samples bps s i)"
proof -
  have "\<exists>x v. IMG s i c = Some x \<and> rd (curve s) x = Some v" if "0 \<le> c" "c < colors s" for c
  proof -
    have "inb (img s) (4 * i + c)" using that assms by (simp add: inb_def)
    moreover have "uint (img s ! nat (4 * i + c)) < 65536" by (rule uint_lt2p [THEN order_less_le_trans]) simp
    ultimately show ?thesis using assms(4) by (simp add: IMG_def rd_def inb_def)
  qed
  then have "write_pixel bps i s out = Some (out @ concat (map (\<lambda>c. [let v = the (rd (curve s) (the (IMG s i c))) in if bps = 8 then shr v 8 else v]) [0..colors s - 1]))"
    unfolding write_pixel_def by (intro for_append) (force simp: Let_def)
  also have "concat (map (\<lambda>c. [f c]) xs) = map f xs" for f and xs :: "int list" by (induction xs) auto
  finally show ?thesis by (simp add: pixel_samples_def)
qed

lemma flip_index_linear:
  "flip_index g flip row col = flip_index g flip 0 0 + row * (flip_index g flip 1 0 - flip_index g flip 0 0)
     + col * (flip_index g flip 0 1 - flip_index g flip 0 0)"
  by (simp add: flip_index_def algebra_simps)

lemma flip_index_inside:
  assumes "0 < height g" "0 < width g" "0 \<le> row" "row < height (output_geom flip g)" "0 \<le> col" "col < width (output_geom flip g)"
  shows "0 \<le> flip_index (output_geom flip g) flip row col \<and> flip_index (output_geom flip g) flip row col < height g * width g"
proof -
  define r c where "r = (if flip AND 4 \<noteq> 0 then col else row)" and "c = (if flip AND 4 \<noteq> 0 then row else col)"
  have b: "0 \<le> r" "r < height g" "0 \<le> c" "c < width g"
    using assms by (auto simp: output_geom_def r_def c_def Let_def split: if_splits)
  define r' c' where "r' = (if flip AND 2 \<noteq> 0 then height g - 1 - r else r)" and "c' = (if flip AND 1 \<noteq> 0 then width g - 1 - c else c)"
  have "0 \<le> r'" "r' < height g" "0 \<le> c'" "c' < width g" using b by (auto simp: r'_def c'_def)
  note b = cell_bound [OF this]
  have "flip_index (output_geom flip g) flip row col = r' * width g + c'"
    by (simp add: flip_index_def output_geom_def r_def c_def r'_def c'_def Let_def)
  with b show ?thesis by simp
qed

text \<open>
  C19: \<open>write_ppm_tiff\<close>, which steps through the image by two constant increments, writes exactly the
  pixels that \<open>flip_index\<close> names, row by row, for every flip, and stays inside the image.
\<close>

theorem write_image_flip:
  assumes "0 < height g" "0 < width g" "int (length (img s)) = 4 * (height g * width g)"
    and "length (curve s) = 65536" "0 \<le> colors s" "colors s \<le> 4"
  shows "write_image g flip bps s = Some (concat (map (\<lambda>row. concat (map (\<lambda>col.
      pixel_samples bps s (flip_index (output_geom flip g) flip row col)) [0..width (output_geom flip g) - 1]))
      [0..height (output_geom flip g) - 1]))"
proof -
  define h where "h = output_geom flip g"
  define F where "F = flip_index h flip"
  define cs where "cs = F 0 1 - F 0 0"
  define rs where "rs = F 1 0 - F 0 (width h)"
  have lin: "F row col = F 0 0 + row * (F 1 0 - F 0 0) + col * cs" for row col
    unfolding F_def cs_def by (rule flip_index_linear)
  have wh: "0 \<le> width h" "0 \<le> height h" using assms(1,2) by (auto simp: h_def output_geom_def Let_def)
  have inside: "0 \<le> F row col" "F row col < height g * width g" if "0 \<le> row" "row < height h" "0 \<le> col" "col < width h" for row col
    using flip_index_inside [OF assms(1,2)] that by (simp_all add: h_def F_def)
  have row: "write_row h bps cs s (F row 0, out) = Some (F row 0 + width h * cs, out @ concat (map (\<lambda>col. pixel_samples bps s (F row col)) [0..width h - 1]))"
    if r: "0 \<le> row" "row < height h" for row out
    unfolding write_row_def
  proof (rule for_append_step [OF _ wh(1)])
    fix j out
    assume j: "0 \<le> j" "j < width h"
    have "F row 0 + j * cs = F row j" using lin [of row 0] lin [of row j] by simp
    then show "(case (F row 0 + j * cs, out) of (soff, out) \<Rightarrow> write_pixel bps soff s out \<bind> (\<lambda>out. Some (soff + cs, out)))
        = Some (F row 0 + (j + 1) * cs, out @ pixel_samples bps s (F row j))"
      using write_pixel_ok [OF assms(3) inside [OF r j] assms(4-6)] by (simp add: algebra_simps)
  qed
  have "width h * cs + rs = F 1 0 - F 0 0" using lin [of 0 "width h"] by (simp add: rs_def)
  then have step: "F row 0 = F 0 0 + row * (width h * cs + rs)" for row
    using lin [of row 0] by simp
  have "for_up 0 (height h) (\<lambda>row st. write_row h bps cs s st \<bind> (\<lambda>(soff, out). Some (soff + rs, out))) (F 0 0, [])
    = Some (F 0 0 + height h * (width h * cs + rs), [] @ concat (map (\<lambda>row. concat (map (\<lambda>col. pixel_samples bps s (F row col)) [0..width h - 1])) [0..height h - 1]))"
  proof (rule for_append_step [OF _ wh(2)])
    fix j out
    assume j: "0 \<le> j" "j < height h"
    show "write_row h bps cs s (F 0 0 + j * (width h * cs + rs), out) \<bind> (\<lambda>(soff, out). Some (soff + rs, out)) =
        Some (F 0 0 + (j + 1) * (width h * cs + rs), out @ concat (map (\<lambda>col. pixel_samples bps s (F j col)) [0..width h - 1]))"
      unfolding step [symmetric] row [OF j] using step [of j] step [of "j + 1"] \<open>width h * cs + rs = F 1 0 - F 0 0\<close>
      by (simp add: algebra_simps)
  qed
  then show ?thesis
    by (simp add: write_image_def Let_def h_def [symmetric] F_def [symmetric] cs_def [symmetric] rs_def [symmetric])
qed

theorem write_image_flip_witness:
  "write_image (plain_geom 1 2) 5 8 (identify_reset []\<lparr>img := [0x100, 0x200, 0x300, 0, 0x400, 0x500, 0x600, 0]\<rparr>)
    = Some (pixel_samples 8 (identify_reset []\<lparr>img := [0x100, 0x200, 0x300, 0, 0x400, 0x500, 0x600, 0]\<rparr>) 1
        @ pixel_samples 8 (identify_reset []\<lparr>img := [0x100, 0x200, 0x300, 0, 0x400, 0x500, 0x600, 0]\<rparr>) 0)"
proof -
  let ?s = "identify_reset []\<lparr>img := [0x100, 0x200, 0x300, 0, 0x400, 0x500, 0x600, 0]\<rparr>"
  have f: "flip_index (output_geom 5 (plain_geom 1 2)) 5 0 0 = 1" "flip_index (output_geom 5 (plain_geom 1 2)) 5 1 0 = 0"
    "width (output_geom 5 (plain_geom 1 2)) = 1" "height (output_geom 5 (plain_geom 1 2)) = 2"
    "width (plain_geom 1 2) = 2" "height (plain_geom 1 2) = 1" "length (curve (identify_reset [])) = 65536" "colors (identify_reset []) = 3"
    by (simp_all add: flip_index_def output_geom_def plain_geom_def identify_reset_def)
  show ?thesis
    using write_image_flip [of "plain_geom 1 2" ?s 5 8] by (simp add: f upto_rec1)
qed

end
