(* ===== verification/Thumbnails.thy ===== *)
theory Thumbnails
  imports Identify Output
begin

text \<open>
  The header that dcraw writes before a TIFF image and inside a thumbnail (\<open>tiff_head\<close>), as the bytes of
  \<open>struct tiff_hdr\<close>, and the five functions behind the pointer \<open>write_thumb\<close>. Their results are the bytes
  of the output file.
\<close>

section \<open>The header in memory\<close>

text \<open>
  The structure is an array of 1376 bytes, for \<open>tiff_set\<close> reads texts from it at the offset it is given.
  \<open>put_at\<close> stores bytes; \<open>nt\<close> is the offset of the number of entries of a directory, whose entries of
  twelve bytes follow.
\<close>

definition put_at :: "int \<Rightarrow> u8 list \<Rightarrow> u8 list \<Rightarrow> u8 list option" where
  "put_at off bs th =
     (if 0 \<le> off \<and> off + int (length bs) \<le> int (length th)
      then Some (take (nat off) th @ bs @ drop (nat off + length bs) th) else None)"

definition short_at :: "bool \<Rightarrow> u8 list \<Rightarrow> int \<Rightarrow> int option" where
  "short_at big th off = do {
     a \<leftarrow> at th off;
     b \<leftarrow> at th (off + 1);
     Some (uint (cell_of big a b)) }"

text \<open>\<open>strnlen\<close>, which reads up to a zero.\<close>

fun text_len :: "u8 list \<Rightarrow> int \<Rightarrow> nat \<Rightarrow> int option" where
  "text_len th off 0 = Some 0"
| "text_len th off (Suc n) = do {
     x \<leftarrow> at th off;
     if x = 0 then Some 0 else do { k \<leftarrow> text_len th (off + 1) n; Some (k + 1) } }"

definition head_set :: "bool \<Rightarrow> int \<Rightarrow> int \<Rightarrow> int \<Rightarrow> int \<Rightarrow> int \<Rightarrow> u8 list \<Rightarrow> u8 list option" where
  "head_set big nt tag type count val th = do {
     n \<leftarrow> short_at big th nt;
     th \<leftarrow> put_at nt (cell_bytes big (word_of_int (n + 1))) th;
     let tt = nt + 2 + 12 * n;
     th \<leftarrow> put_at (tt + 8) (val_bytes big val) th;
     (count, th) \<leftarrow>
       (if type = 1 \<and> count \<le> 4 then do {
          th \<leftarrow> put_at (tt + 8) (map (\<lambda>c. word_of_int (shr val (8 * c))) [0, 1, 2, 3]) th;
          Some (count, th) }
        else if type = 2 then do {
          k \<leftarrow> text_len th val (nat (count - 1));
          th \<leftarrow> (if k + 1 \<le> 4 then for_up 0 4 (\<lambda>c th. do { x \<leftarrow> at th (val + c); put_at (tt + 8 + c) [x] th }) th else Some th);
          Some (k + 1, th) }
        else if type = 3 \<and> count \<le> 2 then do {
          th \<leftarrow> put_at (tt + 8) (val_shorts big val) th;
          Some (count, th) }
        else Some (count, th));
     th \<leftarrow> put_at (tt + 4) (val_bytes big count) th;
     th \<leftarrow> put_at (tt + 2) (cell_bytes big (word_of_int type)) th;
     put_at tt (cell_bytes big (word_of_int tag)) th }"

text \<open>Entries one after the other: tag, type, count and value.\<close>

fun head_sets :: "bool \<Rightarrow> int \<Rightarrow> (int \<times> int \<times> int \<times> int) list \<Rightarrow> u8 list \<Rightarrow> u8 list option" where
  "head_sets big nt [] th = Some th"
| "head_sets big nt ((tag, type, count, val) # es) th = do { th \<leftarrow> head_set big nt tag type count val th; head_sets big nt es th }"

section \<open>tiff_head\<close>

text \<open>\<open>strncpy (dst, src, n)\<close>: the text and zeros behind it. \<open>sprintf\<close> with \<open>"%04d:%02d:%02d %02d:%02d:%02d"\<close>.\<close>

definition text_field :: "nat \<Rightarrow> u8 list \<Rightarrow> u8 list" where
  "text_field n src = (let bs = take n (takeWhile (\<lambda>w. w \<noteq> 0) src) in bs @ replicate (n - length bs) 0)"

definition padded :: "nat \<Rightarrow> int \<Rightarrow> string" where
  "padded n x = (let ds = print_int \<bar>x\<bar>; k = (if x < 0 then n - 1 else n) in (if x < 0 then ''-'' else []) @ replicate (k - length ds) (CHR ''0'') @ ds)"

definition date_text :: "int list \<Rightarrow> string" where
  "date_text t = padded 4 (t ! 0) @ '':'' @ padded 2 (t ! 1) @ '':'' @ padded 2 (t ! 2) @ '' '' @ padded 2 (t ! 3) @ '':''
     @ padded 2 (t ! 4) @ '':'' @ padded 2 (t ! 5)"

definition head_texts :: "fp_ops \<Rightarrow> (int \<Rightarrow> int list) \<Rightarrow> meta \<Rightarrow> u8 list \<Rightarrow> u8 list option" where
  "head_texts fp gmtime s th = do {
     let big = big_host (io_of s);
     let mill = (\<lambda>x. c_s32 (fp_int fp (Product (Of_int 1000000) x)));
     let rats = [300, 1, 300, 1, mill (mshutter s), 1000000, mill (aperture s), 1000000, mill (focal_len s), 1000000];
     let date = bytes_of (date_text (gmtime (timestamp s))) @ [0];
     th \<leftarrow> put_at 0 (bytes_of (if big then ''MM'' else ''II'')) th;
     th \<leftarrow> put_at 2 (cell_bytes big 42) th;
     th \<leftarrow> put_at 4 (val_bytes big 10) th;
     th \<leftarrow> put_at off_rat (concat (map (val_bytes big) rats)) th;
     th \<leftarrow> put_at off_desc (text_field 512 (desc s)) th;
     th \<leftarrow> put_at off_make (text_field 64 (make_arr s)) th;
     th \<leftarrow> put_at off_model (text_field 64 (model_arr s)) th;
     th \<leftarrow> put_at off_soft (bytes_of ''dcraw v9.28'' @ [0]) th;
     th \<leftarrow> put_at off_date date th;
     put_at off_artist (text_field 64 (artist s)) th }"

text \<open>The entries of the main directory; \<open>full\<close> is for an image, \<open>psize\<close> the length of its colour profile.\<close>

definition bps_field :: "bool \<Rightarrow> int \<Rightarrow> int \<Rightarrow> u8 list \<Rightarrow> u8 list option" where
  "bps_field big ncolors bps th = do {
     n \<leftarrow> short_at big th 10;
     th \<leftarrow> (if ncolors > 2 then put_at (12 + 12 * (n - 1) + 8) (val_bytes big off_bps) th else Some th);
     put_at off_bps (concat (replicate 4 (cell_bytes big (word_of_int bps)))) th }"

definition head_main :: "bool \<Rightarrow> bool \<Rightarrow> geom \<Rightarrow> int \<Rightarrow> int \<Rightarrow> int \<Rightarrow> int \<Rightarrow> u8 list \<Rightarrow> u8 list option" where
  "head_main full big g ncolors bps flip psize th = do {
     let sets = head_sets big 10;
     th \<leftarrow> (if full then do {
              th \<leftarrow> sets [(254, 4, 1, 0), (256, 4, 1, width g), (257, 4, 1, height g), (258, 3, ncolors, bps)] th;
              th \<leftarrow> bps_field big ncolors bps th;
              sets [(259, 3, 1, 1), (262, 3, 1, 1 + of_bool (ncolors > 1))] th }
            else Some th);
     th \<leftarrow> sets [(270, 2, 512, off_desc), (271, 2, 64, off_make), (272, 2, 64, off_model)] th;
     th \<leftarrow> (if full then
              sets [(273, 4, 1, hdr_size + psize), (277, 3, 1, ncolors), (278, 4, 1, height g),
                (279, 4, 1, c_s32 (height g * width g * ncolors * bps) sdiv 8)] th
            else do { q \<leftarrow> exif_orientation flip; sets [(274, 3, 1, q)] th });
     th \<leftarrow> sets [(282, 5, 1, off_rat), (283, 5, 1, off_rat + 8), (284, 3, 1, 1), (296, 3, 1, 2), (305, 2, 32, off_soft),
       (306, 2, 20, off_date), (315, 2, 64, off_artist), (34665, 4, 1, off_nexif)] th;
     if psize \<noteq> 0 then sets [(34675, 7, psize, hdr_size)] th else Some th }"

text \<open>The positions; the letters for their directions are values, not texts in the header.\<close>

definition head_gps :: "bool \<Rightarrow> u32 list \<Rightarrow> u8 list \<Rightarrow> u8 list option" where
  "head_gps big gps th = do {
     d1 \<leftarrow> rd gps 1;
     if d1 = 0 then Some th
     else do {
       a \<leftarrow> rds gps 29; b \<leftarrow> rds gps 30; c \<leftarrow> rds gps 31;
       th \<leftarrow> head_set big 10 34853 4 1 off_ngps th;
       th \<leftarrow> head_sets big off_ngps [(0, 1, 4, 0x202), (1, 2, 2, a), (2, 5, 3, off_gps), (3, 2, 2, b), (4, 5, 3, off_gps + 24),
         (5, 1, 1, c), (6, 5, 1, off_gps + 72), (7, 5, 3, off_gps + 48), (18, 2, 12, off_gps + 80), (29, 2, 12, off_gps + 92)] th;
       put_at off_gps (concat (map (\<lambda>w. val_bytes big (uint w)) (take 26 gps))) th } }"

definition tiff_head :: "fp_ops \<Rightarrow> (int \<Rightarrow> int list) \<Rightarrow> bool \<Rightarrow> int \<Rightarrow> int \<Rightarrow> meta \<Rightarrow> u8 list option" where
  "tiff_head fp gmtime full bps psize s = do {
     let big = big_host (io_of s);
     th \<leftarrow> head_texts fp gmtime s (zeros hdr_size);
     th \<leftarrow> head_main full big (tg s) (colors (td s)) bps (mflip s) (if full then psize else 0) th;
     th \<leftarrow> head_sets big off_nexif [(33434, 5, 1, off_rat + 16), (33437, 5, 1, off_rat + 24),
       (34855, 3, 1, fp_int fp (iso_speed s)), (37386, 5, 1, off_rat + 32)] th;
     head_gps big (gpsdata s) th }"

section \<open>Thumbnails\<close>

text \<open>The first lines of a PNM file. A sample is written by its low eight bits.\<close>

definition pnm_head :: "int \<Rightarrow> int \<Rightarrow> int \<Rightarrow> u8 list" where
  "pnm_head kind w h = bytes_of (''P'' @ print_int kind @ [char_of (10::nat)] @ print_int w @ '' '' @ print_int h @ [char_of (10::nat)] @ ''255''
     @ [char_of (10::nat)])"

definition ppm_thumb :: "meta \<Rightarrow> (u8 list \<times> meta) option" where
  "ppm_thumb s =
     (let s = s\<lparr>thumb_length := c_u32 (thumb_width s * thumb_height s * 3)\<rparr>;
          (bs, s') = rd_io (fread (thumb_length s)) s
      in Some (pnm_head 6 (thumb_width s) (thumb_height s) @ overlay_bytes bs (uninit (tg s) (thumb_length s)), s'))"

text \<open>
  The shorts are read into the array of bytes and replaced there one by one by their upper halves: byte
  \<open>i\<close> is written when the bytes \<open>2 * i\<close> and \<open>2 * i + 1\<close> have been read.
\<close>

definition upper_halves :: "bool \<Rightarrow> int \<Rightarrow> u8 list \<Rightarrow> u8 list option" where
  "upper_halves big n bs = for_up 0 n (\<lambda>i bs. do {
     x \<leftarrow> short_at big bs (2 * i);
     wr bs i (shr x 8) }) bs"

definition ppm16_thumb :: "meta \<Rightarrow> (u8 list \<times> meta) option" where
  "ppm16_thumb s = do {
     let n = c_u32 (thumb_width s * thumb_height s * 3);
     let big = big_host (io_of s);
     (ws, io) \<leftarrow> read_shorts (zeros n) 0 n (io_of s);
     bs \<leftarrow> upper_halves big n (concat (map (cell_bytes big) ws));
     Some (pnm_head 6 (thumb_width s) (thumb_height s) @ take (nat n) bs, set_io io (s\<lparr>thumb_length := n\<rparr>)) }"

text \<open>The planes of a layered thumbnail, in the order the string \<open>map\<close> gives.\<close>

definition layer_pixel :: "u8 list \<Rightarrow> string \<Rightarrow> int \<Rightarrow> int \<Rightarrow> int \<Rightarrow> u8 list \<Rightarrow> u8 list option" where
  "layer_pixel thumb order n ncolors i out = for_up 0 ncolors (\<lambda>c out. do {
     k \<leftarrow> at (c_chars order) c;
     x \<leftarrow> at thumb (c_u32 (i + n * (k - 48)));
     Some (out @ [x]) }) out"

definition layer_thumb :: "meta \<Rightarrow> (u8 list \<times> meta) option" where
  "layer_thumb s = do {
     let nc = shr (thumb_misc s) 5 AND 7;
     let n = c_u32 (thumb_width s * thumb_height s);
     let (bs, s) = rd_io (fread (n * nc)) (on_d (colors_update (\<lambda>_. nc)) (s\<lparr>thumb_length := n\<rparr>));
     let thumb = overlay_bytes bs (zeros (n * nc));
     out \<leftarrow> (if n = 0 \<or> nc = 0 then Some [] else do {
              order \<leftarrow> at [''012'', ''102''] (shr (thumb_misc s) 8);
              for_up 0 n (layer_pixel thumb order n nc) [] });
     Some (pnm_head (5 + shr nc 1) (thumb_width s) (thumb_height s) @ out, s) }"

definition rollei_pixel :: "u16 \<Rightarrow> u8 list" where
  "rollei_pixel w = (let x = uint w in map word_of_int [shl x 3, shl (shr x 5) 2, shl (shr x 11) 3])"

definition rollei_thumb :: "meta \<Rightarrow> (u8 list \<times> meta) option" where
  "rollei_thumb s = do {
     let n = c_u32 (thumb_width s * thumb_height s);
     (ws, io) \<leftarrow> read_shorts (zeros n) 0 n (io_of s);
     Some (pnm_head 6 (thumb_width s) (thumb_height s) @ concat (map rollei_pixel ws), set_io io (s\<lparr>thumb_length := n\<rparr>)) }"

text \<open>\<open>strcmp (thumb+6, "Exif")\<close> stops at the first difference.\<close>

fun text_is :: "u8 list \<Rightarrow> int \<Rightarrow> u8 list \<Rightarrow> bool option" where
  "text_is bs off [] = Some True"
| "text_is bs off (x # xs) = do { y \<leftarrow> at bs off; if x = y then text_is bs (off + 1) xs else Some False }"

definition jpeg_thumb :: "fp_ops \<Rightarrow> (int \<Rightarrow> int list) \<Rightarrow> meta \<Rightarrow> (u8 list \<times> meta) option" where
  "jpeg_thumb fp gmtime s = do {
     let n = thumb_length s;
     let (bs, s') = rd_io (fread n) s;
     let thumb = overlay_bytes bs (uninit (tg s) n);
     exif \<leftarrow> text_is thumb 6 (bytes_of ''Exif'' @ [0]);
     th \<leftarrow> (if exif then Some []
            else do { th \<leftarrow> tiff_head fp gmtime False 8 0 s';
                      Some ([0xff, 0xe1, 0x05, 0x68] @ bytes_of ''Exif'' @ [0, 0] @ th) });
     if n < 2 then None else Some ([0xff, 0xd8] @ th @ drop 2 thumb, s') }"

definition run_thumb :: "fp_ops \<Rightarrow> (int \<Rightarrow> int list) \<Rightarrow> thumb_writer \<Rightarrow> meta \<Rightarrow> (u8 list \<times> meta) option" where
  "run_thumb fp gmtime w =
     (case w of Jpeg_thumb \<Rightarrow> jpeg_thumb fp gmtime | Ppm_thumb \<Rightarrow> ppm_thumb | Ppm16_thumb \<Rightarrow> ppm16_thumb
      | Layer_thumb \<Rightarrow> layer_thumb | Rollei_thumb \<Rightarrow> rollei_thumb)"

end
