(* ===== verification/Finish.thy ===== *)
theory Finish
  imports ScaleColors Thumbnails
begin

text \<open>
  The last steps on the image: clipped highlights (\<open>blend_highlights\<close>, \<open>recover_highlights\<close>), the turn of a
  Fuji image and pixels that are not square (\<open>fuji_rotate\<close>, \<open>stretch\<close>), the conversion to the colours of the
  output with the histogram (\<open>convert_to_rgb\<close>), and the file (\<open>write_ppm_tiff\<close>).
\<close>

section \<open>Expressions\<close>

text \<open>A sum of products in a variable of type \<open>float\<close>; a constant of that type; the pixel as four samples.\<close>

definition float_dot :: "fp_ops \<Rightarrow> real_c list \<Rightarrow> real_c list \<Rightarrow> real_c" where
  "float_dot fp xs ys = fold (\<lambda>(x, y) a. as_float fp (Sum a (Product x y))) (zip xs ys) (Of_int 0)"

abbreviation float_const :: "fp_ops \<Rightarrow> string \<Rightarrow> real_c" where
  "float_const fp cs \<equiv> as_float fp (Decimal cs)"

definition pixel :: "dst \<Rightarrow> int \<Rightarrow> nat \<Rightarrow> int list option" where
  "pixel s i n = for_up 0 (int n) (\<lambda>c vs. do { v \<leftarrow> IMG s i c; Some (vs @ [v]) }) []"

definition set_pixel :: "int \<Rightarrow> int list \<Rightarrow> dst \<Rightarrow> dst option" where
  "set_pixel i vs s = for_up 0 (int (length vs)) (\<lambda>c s. do { v \<leftarrow> at vs c; set_IMG i c v s }) s"

section \<open>blend_highlights\<close>

definition trans_rows :: "fp_ops \<Rightarrow> int \<Rightarrow> real_c list list" where
  "trans_rows fp n =
     (if n = 3 then [map Of_int [1, 1, 1], [float_const fp ''1.7320508'', float_const fp ''-1.7320508'', Of_int 0], map Of_int [- 1, - 1, 2]]
      else map (map Of_int) [[1, 1, 1, 1], [1, - 1, 1, - 1], [1, 1, - 1, - 1], [1, - 1, - 1, 1]])"

definition itrans_rows :: "fp_ops \<Rightarrow> int \<Rightarrow> real_c list list" where
  "itrans_rows fp n =
     (if n = 3 then [[Of_int 1, float_const fp ''0.8660254'', float_const fp ''-0.5''],
                     [Of_int 1, float_const fp ''-0.8660254'', float_const fp ''-0.5''], map Of_int [1, 0, 1]]
      else map (map Of_int) [[1, 1, 1, 1], [1, - 1, 1, - 1], [1, 1, - 1, - 1], [1, - 1, - 1, 1]])"

text \<open>The chrominance of a pixel with a clipped sample is reduced to that of the pixel clipped in all.\<close>

definition blended :: "fp_ops \<Rightarrow> int \<Rightarrow> int list \<Rightarrow> int list" where
  "blended fp clip vs =
     (let n = int (length vs);
          lab = (\<lambda>xs. map (\<lambda>row. float_dot fp row xs) (trans_rows fp n));
          chroma = (\<lambda>l. fold (\<lambda>x a. as_float fp (Sum a (Product x x))) (tl l) (Of_int 0));
          lab0 = lab (map Of_int vs);
          lab1 = lab (map (\<lambda>v. as_float fp (Of_int (min v clip))) vs);
          ratio = as_float fp (Sqrt (Quotient (chroma lab1) (chroma lab0)));
          lab2 = hd lab0 # map (\<lambda>x. as_float fp (Product x ratio)) (tl lab0)
      in map (\<lambda>row. c_u16 (fp_int fp (Quotient (float_dot fp row lab2) (Of_int n)))) (itrans_rows fp n))"

definition clip_level :: "fp_ops \<Rightarrow> nat \<Rightarrow> real_c list \<Rightarrow> int" where
  "clip_level fp n pre = fold (\<lambda>c clip. min clip (fp_int fp (Product (Of_int 65535) (pre ! c)))) [0..<n] 0x7fffffff"

definition blend_highlights :: "fp_ops \<Rightarrow> meta \<Rightarrow> meta option" where
  "blend_highlights fp s =
     (let n = colors (td s); clip = clip_level fp (nat n) (pre_mul s); g = tg s in
      if n \<noteq> 3 \<and> n \<noteq> 4 then Some s
      else do {
        t \<leftarrow> for_up 0 (height g) (\<lambda>row. for_up 0 (width g) (\<lambda>col t. do {
          vs \<leftarrow> pixel t (row * width g + col) (nat n);
          if \<forall>v \<in> set vs. v \<le> clip then Some t else set_pixel (row * width g + col) (blended fp clip vs) t })) (td s);
        Some (s\<lparr>td := t\<rparr>) })"

section \<open>recover_highlights\<close>

text \<open>
  A map of blocks of \<open>k\<close> by \<open>k\<close> pixels holds the ratio of a colour \<open>c\<close> to the brightest colour \<open>kc\<close> where
  both are clipped, which spreads into the blocks without one.
\<close>

definition brightest :: "fp_ops \<Rightarrow> nat \<Rightarrow> real_c list \<Rightarrow> nat" where
  "brightest fp n pre = fold (\<lambda>c kc. if fp_less fp (pre ! kc) (pre ! c) then c else kc) [1..<n] 0"

definition block_ratio :: "fp_ops \<Rightarrow> geom \<Rightarrow> int \<Rightarrow> int \<Rightarrow> int \<Rightarrow> int \<Rightarrow> dst \<Rightarrow> int \<Rightarrow> int \<Rightarrow> real_c option" where
  "block_ratio fp g k c kc hsat t mrow mcol = do {
     (sm, wgt, n) \<leftarrow> for_up (mrow * k) ((mrow + 1) * k) (\<lambda>row. for_up (mcol * k) ((mcol + 1) * k) (\<lambda>col (sm, wgt, n). do {
        p \<leftarrow> IMG t (row * width g + col) c;
        q \<leftarrow> c_div p hsat;
        b \<leftarrow> IMG t (row * width g + col) kc;
        Some (if q = 1 \<and> b > 24000
              then (as_float fp (Sum sm (Of_int p)), as_float fp (Sum wgt (Of_int b)), n + 1) else (sm, wgt, n)) }))
       (Of_int 0, Of_int 0, 0 :: int);
     Some (if n = k * k then as_float fp (Quotient sm wgt) else Of_int 0) }"

definition spread_dirs :: "(int \<times> int) list" where
  "spread_dirs = [(-1, -1), (-1, 0), (-1, 1), (0, 1), (1, 1), (1, 0), (1, -1), (0, -1)]"

text \<open>A value that has just spread is negative until the round is over.\<close>

definition spread_cell :: "fp_ops \<Rightarrow> real_c \<Rightarrow> int \<Rightarrow> int \<Rightarrow> int \<Rightarrow> int \<Rightarrow> real_c list \<Rightarrow> real_c list option" where
  "spread_cell fp grow high wide mrow mcol mp = do {
     x \<leftarrow> at mp (mrow * wide + mcol);
     if fp_nonzero fp x then Some mp
     else do {
       (sm, n) \<leftarrow> for_up 0 8 (\<lambda>d (sm, n). do {
          (dy, dx) \<leftarrow> at spread_dirs d;
          let y = c_u32 (mrow + dy);
          let x = c_u32 (mcol + dx);
          if y < high \<and> x < wide then do {
            v \<leftarrow> at mp (y * wide + x);
            Some (if fp_less fp (Of_int 0) v
                  then (as_float fp (Sum sm (Product (Of_int (1 + (d AND 1))) v)), n + 1 + (d AND 1)) else (sm, n)) }
          else Some (sm, n) }) (Of_int 0, 0 :: int);
       if n > 3 then put mp (mrow * wide + mcol) (as_float fp (Quotient (Negative (Sum sm grow)) (Sum (Of_int n) grow)))
       else Some mp } }"

definition spread_settle :: "fp_ops \<Rightarrow> real_c list \<Rightarrow> bool \<times> real_c list" where
  "spread_settle fp mp =
     (\<exists>x \<in> set mp. fp_less fp x (Of_int 0), map (\<lambda>x. if fp_less fp x (Of_int 0) then Negative x else x) mp)"

fun spread_rounds :: "fp_ops \<Rightarrow> real_c \<Rightarrow> int \<Rightarrow> int \<Rightarrow> nat \<Rightarrow> real_c list \<Rightarrow> real_c list option" where
  "spread_rounds fp grow high wide 0 mp = Some mp"
| "spread_rounds fp grow high wide (Suc n) mp = do {
     mp \<leftarrow> for_up 0 high (\<lambda>mrow. for_up 0 wide (spread_cell fp grow high wide mrow)) mp;
     case spread_settle fp mp of (change, mp) \<Rightarrow> if change then spread_rounds fp grow high wide n mp else Some mp }"

definition raise_block :: "fp_ops \<Rightarrow> geom \<Rightarrow> int \<Rightarrow> int \<Rightarrow> int \<Rightarrow> int \<Rightarrow> real_c \<Rightarrow> int \<Rightarrow> int \<Rightarrow> dst \<Rightarrow> dst option" where
  "raise_block fp g k c kc hsat m mrow mcol t =
     for_up (mrow * k) ((mrow + 1) * k) (\<lambda>row. for_up (mcol * k) ((mcol + 1) * k) (\<lambda>col t. do {
       p \<leftarrow> IMG t (row * width g + col) c;
       q \<leftarrow> c_div p hsat;
       if q > 1 then do {
         b \<leftarrow> IMG t (row * width g + col) kc;
         let v = fp_int fp (Product (Of_int b) m);
         if p < v then set_IMG (row * width g + col) c (CLIP v) t else Some t }
       else Some t })) t"

definition recover_colour :: "fp_ops \<Rightarrow> real_c \<Rightarrow> geom \<Rightarrow> int \<Rightarrow> int \<Rightarrow> int \<Rightarrow> int \<Rightarrow> dst \<Rightarrow> dst option" where
  "recover_colour fp grow g k c kc hsat t = do {
     let high = height g div k;
     let wide = width g div k;
     mp \<leftarrow> for_up 0 high (\<lambda>mrow. for_up 0 wide (\<lambda>mcol mp. do {
        r \<leftarrow> block_ratio fp g k c kc hsat t mrow mcol;
        Some (mp @ [r]) })) [];
     mp \<leftarrow> spread_rounds fp grow high wide (nat (fp_int fp (Quotient (Of_int 32) grow))) mp;
     let mp = map (\<lambda>x. if fp_nonzero fp x then x else Of_int 1) mp;
     for_up 0 high (\<lambda>mrow. for_up 0 wide (\<lambda>mcol t. do {
        m \<leftarrow> at mp (mrow * wide + mcol);
        raise_block fp g k c kc hsat m mrow mcol t })) t }"

definition recover_highlights :: "fp_ops \<Rightarrow> int \<Rightarrow> meta \<Rightarrow> meta option" where
  "recover_highlights fp highlight s = do {
     let g = tg s;
     let n = colors (td s);
     let kc = int (brightest fp (nat n) (pre_mul s));
     let grow = as_float fp (Pow (Of_int 2) (Of_int (4 - highlight)));
     t \<leftarrow> for_up 0 n (\<lambda>c t.
        if c = kc then Some t
        else recover_colour fp grow g (shr_i 4 (shrink g)) c kc (fp_int fp (Product (Of_int 32000) (pre_mul s ! nat c))) t) (td s);
     Some (s\<lparr>td := t\<rparr>) }"

section \<open>fuji_rotate and stretch\<close>

text \<open>A pixel between four others; \<open>fr\<close> and \<open>fc\<close> are the distances from the first.\<close>

definition mix_four :: "fp_ops \<Rightarrow> int \<Rightarrow> dst \<Rightarrow> int \<Rightarrow> real_c \<Rightarrow> real_c \<Rightarrow> nat \<Rightarrow> int list option" where
  "mix_four fp w t i fr fc n = do {
     p00 \<leftarrow> pixel t i n; p01 \<leftarrow> pixel t (i + 1) n; p10 \<leftarrow> pixel t (i + w) n; p11 \<leftarrow> pixel t (i + w + 1) n;
     Some (map (\<lambda>c. c_u16 (fp_int fp (Sum (Product (between fc (p00 ! c) (p01 ! c)) (Minus (Of_int 1) fr))
        (Product (between fc (p10 ! c) (p11 ! c)) fr)))) [0..<n]) }"

definition rotate_pixel :: "fp_ops \<Rightarrow> geom \<Rightarrow> dst \<Rightarrow> int \<Rightarrow> int \<Rightarrow> int \<Rightarrow> int \<Rightarrow> dst \<Rightarrow> dst option" where
  "rotate_pixel fp g t fw wide row col u =
     (let step = Sqrt (Decimal ''0.5'');
          r = as_float fp (Sum (Of_int fw) (Product (Of_int (row - col)) step));
          c = as_float fp (Product (Of_int (row + col)) step);
          ur = c_u32 (fp_int fp r); uc = c_u32 (fp_int fp c)
      in if ur > c_u32 (height g - 2) \<or> uc > c_u32 (width g - 2) then Some u
         else do {
           vs \<leftarrow> mix_four fp (width g) t (ur * width g + uc) (as_float fp (Minus r (Of_int ur))) (as_float fp (Minus c (Of_int uc)))
             (nat (colors t));
           set_pixel (row * wide + col) vs u })"

definition fuji_rotate :: "fp_ops \<Rightarrow> meta \<Rightarrow> meta option" where
  "fuji_rotate fp s =
     (let g = tg s in
      if fuji_width g = 0 then Some s
      else do {
        let fw = shr (fuji_width g - 1 + shrink g) (shrink g);
        let step = Sqrt (Decimal ''0.5'');
        let wide = c_u16 (fp_int fp (Quotient (Of_int fw) step));
        let high = c_u16 (fp_int fp (Quotient (Of_int (height g - fw)) step));
        u \<leftarrow> for_up 0 high (\<lambda>row. for_up 0 wide (rotate_pixel fp g (td s) fw wide row)) ((td s)\<lparr>img := zeros (4 * (high * wide))\<rparr>);
        Some (on_g (\<lambda>g. g\<lparr>width := wide, height := high, fuji_width := 0\<rparr>) (s\<lparr>td := u\<rparr>)) })"

text \<open>
  \<open>rc\<close> is advanced by \<open>inc\<close> from one new line to the next; the two lines it lies between are mixed. \<open>place k x\<close>
  is the pixel \<open>x\<close> of the old line \<open>k\<close>, \<open>target\<close> that of the new image, for rows or for columns.
\<close>

fun stretch_lines ::
    "fp_ops \<Rightarrow> real_c \<Rightarrow> int \<Rightarrow> int \<Rightarrow> (int \<Rightarrow> int \<Rightarrow> int) \<Rightarrow> (int \<Rightarrow> int \<Rightarrow> int) \<Rightarrow> dst \<Rightarrow> nat \<Rightarrow> int \<Rightarrow> real_c \<Rightarrow> dst \<Rightarrow> dst option" where
  "stretch_lines fp inc old across place target t 0 k rc u = Some u"
| "stretch_lines fp inc old across place target t (Suc n) k rc u = do {
     let c = fp_int fp rc;
     let frac = Minus rc (Of_int c);
     let c1 = (if c + 1 < old then c + 1 else c);
     u \<leftarrow> for_up 0 across (\<lambda>x u. do {
        p0 \<leftarrow> pixel t (place c x) (nat (colors t));
        p1 \<leftarrow> pixel t (place c1 x) (nat (colors t));
        set_pixel (target k x) (map2 (\<lambda>a b. c_u16 (fp_int fp (Sum (between frac a b) (Decimal ''0.5'')))) p0 p1) u }) u;
     stretch_lines fp inc old across place target t n (k + 1) (Sum rc inc) u }"

definition stretch :: "fp_ops \<Rightarrow> meta \<Rightarrow> meta option" where
  "stretch fp s =
     (let g = tg s; h = height g; w = width g; pa = pixel_aspect s; rounded = (\<lambda>x. c_u16 (fp_int fp (Sum x (Decimal ''0.5'')))) in
      if fp_is fp pa 1 then Some s
      else if fp_less fp pa (Of_int 1) then do {
        let nd = rounded (Quotient (Of_int h) pa);
        u \<leftarrow> stretch_lines fp pa h w (\<lambda>k x. k * w + x) (\<lambda>k x. k * w + x) (td s) (nat nd) 0 (Of_int 0) ((td s)\<lparr>img := zeros (4 * (w * nd))\<rparr>);
        Some (on_g (\<lambda>g. g\<lparr>height := nd\<rparr>) (s\<lparr>td := u\<rparr>)) }
      else do {
        let nd = rounded (Product (Of_int w) pa);
        u \<leftarrow> stretch_lines fp (Quotient (Of_int 1) pa) w h (\<lambda>k x. x * w + k) (\<lambda>k x. x * nd + k) (td s) (nat nd) 0 (Of_int 0)
          ((td s)\<lparr>img := zeros (4 * (h * nd))\<rparr>);
        Some (on_g (\<lambda>g. g\<lparr>width := nd\<rparr>) (s\<lparr>td := u\<rparr>)) })"

end
