(* ===== verification/Loaders.thy ===== *)
theory Loaders
  imports Finish
begin

text \<open>
  The call of the loader through the pointer \<open>load_raw\<close>: \<open>nikon_yuv_load_raw\<close>, what two decoders of theories
  on integers take as arguments (the transform of \<open>ljpeg_idct\<close>, the curve of \<open>kodak_radc_load_raw\<close>), and
  \<open>run_loader\<close>, which goes from the value of the pointer to the function.
\<close>

section \<open>The inverse cosine transform\<close>

text \<open>
  \<open>cs[c]\<close> is a table of type \<open>float\<close>. The coefficients become \<open>float\<close> when they are stored; the first row and
  the first column are scaled, then columns and rows are transformed.
\<close>

definition idct_cos :: "fp_ops \<Rightarrow> int \<Rightarrow> real_c" where
  "idct_cos fp c =
     as_float fp (Quotient (Cos (Quotient (Product (Of_int (c AND 31)) (Decimal ''3.14159265358979323846'')) (Of_int 16))) (Of_int 2))"

definition idct_scaled :: "fp_ops \<Rightarrow> int list \<Rightarrow> real_c list" where
  "idct_scaled fp work =
     (let scale = (\<lambda>P xs. map (\<lambda>k. if P k then as_float fp (Product (xs ! k) (Decimal ''0.70710678118654752440'')) else xs ! k) [0..<64])
      in scale (\<lambda>k. k mod 8 = 0) (scale (\<lambda>k. k < 8) (map (\<lambda>x. as_float fp (Of_int x)) work)))"

definition idct_transform :: "fp_ops \<Rightarrow> int list \<Rightarrow> u16 list" where
  "idct_transform fp work =
     (let cos_row = (\<lambda>k. map (\<lambda>c. idct_cos fp (int ((k * 2 + 1) * c))) [0..<8]);
          w0 = idct_scaled fp work;
          w1 = map (\<lambda>k. float_dot fp (map (\<lambda>c. w0 ! (8 * (k div 8) + c)) [0..<8]) (cos_row (k mod 8))) [0..<64];
          w2 = map (\<lambda>k. float_dot fp (map (\<lambda>c. w1 ! (8 * c + k mod 8)) [0..<8]) (cos_row (k div 8))) [0..<64]
      in map (\<lambda>x. word_of_int (CLIP (fp_int fp (Sum x (Decimal ''0.5''))))) w2)"

section \<open>The curve of kodak_radc_load_raw\<close>

text \<open>
  Straight lines between the six points \<open>pt\<close>. The loops overlap in the points, where the line to the right
  is computed last.
\<close>

definition radc_segments :: "(int \<times> int \<times> int \<times> int) list" where
  "radc_segments = [(0, 0, 1280, 1344), (1280, 1344, 2320, 3616), (2320, 3616, 3328, 8000), (3328, 8000, 4095, 16383),
     (4095, 16383, 65535, 16383)]"

definition radc_value :: "fp_ops \<Rightarrow> int \<times> int \<times> int \<times> int \<Rightarrow> int \<Rightarrow> u16" where
  "radc_value fp = (\<lambda>(x0, y0, x1, y1) c. word_of_int (fp_int fp
     (Sum (Sum (Product (Quotient (as_float fp (Of_int (c - x0))) (Of_int (x1 - x0))) (Of_int (y1 - y0))) (Of_int y0)) (Decimal ''0.5''))))"

definition radc_curve :: "fp_ops \<Rightarrow> u16 list" where
  "radc_curve fp =
     concat (map (\<lambda>p. case p of (x0, _, x1, _) \<Rightarrow> map (radc_value fp p) [x0..x1 - 1]) radc_segments) @ [radc_value fp (last radc_segments) 65535]"

section \<open>nikon_yuv_load_raw\<close>

text \<open>
  Six bytes hold four numbers of twelve bits: two brightnesses and the two colour differences. A byte behind
  the end of the file is -1, whose bits fill the word from its place on.
\<close>

definition yuv_read :: "bitio \<Rightarrow> int list \<times> bitio" where
  "yuv_read b =
     (case fold (\<lambda>c (w, b). case fgetc b of (x, b) \<Rightarrow> (w OR shl x (c * 8), b)) [0, 1, 2, 3, 4, 5] (0, b) of
        (w, b) \<Rightarrow> (map (\<lambda>c. (shr w (c * 12) AND 0xfff) - shl (shr c 1) 11) [0, 1, 2, 3], b))"

definition yuv_rgb :: "fp_ops \<Rightarrow> int \<Rightarrow> int \<Rightarrow> int \<Rightarrow> int list" where
  "yuv_rgb fp y u v =
     (let y = Of_int y; u = Of_int u; v = Of_int v
      in map (fp_int fp)
        [Sum y (Product (Decimal ''1.370705'') v),
         Minus (Minus y (Product (Decimal ''0.337633'') u)) (Product (Decimal ''0.698001'') v),
         Sum y (Product (Decimal ''1.732446'') u)])"

definition nikon_yuv_pixel :: "fp_ops \<Rightarrow> real_c list \<Rightarrow> geom \<Rightarrow> int \<Rightarrow> int \<Rightarrow> int list \<times> dst \<Rightarrow> (int list \<times> dst) option" where
  "nikon_yuv_pixel fp mul g row col = (\<lambda>(yuv, s). do {
     let b = col AND 1;
     let (yuv, s) = (if b = 0 then get_io yuv_read s else (yuv, s));
     s \<leftarrow> for_up 0 3 (\<lambda>c s. do {
       x \<leftarrow> at (yuv_rgb fp (yuv ! nat b) (yuv ! 2) (yuv ! 3)) c;
       v \<leftarrow> rd (curve s) (LIM_c x 0 0xfff);
       m \<leftarrow> at mul c;
       set_IMG (row * width g + col) c (c_u16 (fp_int fp (Quotient (Of_int v) m))) s }) s;
     Some (yuv, s) })"

definition nikon_yuv_load_raw :: "fp_ops \<Rightarrow> real_c list \<Rightarrow> geom \<Rightarrow> dst \<Rightarrow> dst option" where
  "nikon_yuv_load_raw fp mul g s = do {
     (_, s) \<leftarrow> for_up 0 (raw_height g) (\<lambda>row. for_up 0 (raw_width g) (nikon_yuv_pixel fp mul g row)) (map (junk g) [0..<4], s);
     Some s }"

section \<open>Through the pointer\<close>

text \<open>
  The static variables of \<open>pana_bits\<close> and \<open>sony_decrypt\<close> live from one file to the next. The loaders that
  need another library have empty bodies in this build, that of the Canon CR3 format always.
\<close>

record statics =
  pana_static :: pana
  sony_static :: sony_pad

definition plain_loader :: "fp_ops \<Rightarrow> meta \<Rightarrow> raw_loader \<Rightarrow> geom \<Rightarrow> dst \<Rightarrow> dst option" where
  "plain_loader fp s l g =
     (case l of
        Sony_arw2 \<Rightarrow> sony_arw2_load_raw g
      | Sony_arw \<Rightarrow> sony_arw_load_raw g
      | Eight_bit_raw \<Rightarrow> eight_bit_load_raw g
      | Packed_raw \<Rightarrow> packed_load_raw g
      | Unpacked_raw \<Rightarrow> unpacked_load_raw g
      | Olympus_raw \<Rightarrow> olympus_load_raw g
      | Fuji_compressed \<Rightarrow> fuji_compressed_load_raw g (tfuji s)
      | Lossless_jpeg_raw \<Rightarrow> lossless_jpeg_load_raw g
      | Kodak_262_raw \<Rightarrow> kodak_262_load_raw g
      | Nikon_yuv_raw \<Rightarrow> nikon_yuv_load_raw fp (cam_mul s) g
      | Nikon_raw \<Rightarrow> nikon_load_raw g
      | Pentax_raw \<Rightarrow> pentax_load_raw g
      | Kodak_rgb_raw \<Rightarrow> kodak_rgb_load_raw g
      | Kodak_ycbcr_raw \<Rightarrow> kodak_ycbcr_load_raw g
      | Kodak_65000_raw \<Rightarrow> kodak_65000_load_raw g
      | Kodak_thumb_raw \<Rightarrow> kodak_thumb_load_raw g (thumb_misc s)
      | Phase_one_raw \<Rightarrow> phase_one_load_raw g (ph1 s)
      | Phase_one_raw_c \<Rightarrow> phase_one_load_raw_c g (ph1 s)
      | Smal_v6_raw \<Rightarrow> smal_v6_load_raw g
      | Smal_v9_raw \<Rightarrow> smal_v9_load_raw g
      | Sinar_4shot_raw \<Rightarrow> sinar_4shot_load_raw g
      | Samsung_raw \<Rightarrow> samsung_load_raw g
      | Samsung2_raw \<Rightarrow> samsung2_load_raw g
      | Samsung3_raw \<Rightarrow> samsung3_load_raw g
      | Imacon_full_raw \<Rightarrow> imacon_full_load_raw g
      | Canon_raw \<Rightarrow> canon_load_raw g
      | Canon_600_raw \<Rightarrow> canon_600_load_raw g
      | Canon_sraw_raw \<Rightarrow> canon_sraw_load_raw g
      | Canon_rmf_raw \<Rightarrow> canon_rmf_load_raw g
      | Quicktake_100_raw \<Rightarrow> quicktake_100_load_raw g
      | Kodak_radc_raw \<Rightarrow> kodak_radc_load_raw (radc_curve fp) g
      | Kodak_c330_raw \<Rightarrow> kodak_c330_load_raw g
      | Kodak_c603_raw \<Rightarrow> kodak_c603_load_raw g
      | Kodak_dc120_raw \<Rightarrow> kodak_dc120_load_raw g
      | raw_loader.Nokia_raw \<Rightarrow> nokia_load_raw g
      | Minolta_rd175_raw \<Rightarrow> minolta_rd175_load_raw g
      | Rollei_raw \<Rightarrow> rollei_load_raw g
      | Packed_dng_raw \<Rightarrow> packed_dng_load_raw g
      | Lossless_dng_raw \<Rightarrow> lossless_dng_load_raw (idct_transform fp) g
      | Hasselblad_raw \<Rightarrow> hasselblad_load_raw g
      | Leaf_hdr_raw \<Rightarrow> leaf_hdr_load_raw g
      | _ \<Rightarrow> Some)"

definition run_loader :: "fp_ops \<Rightarrow> meta \<Rightarrow> raw_loader \<Rightarrow> geom \<Rightarrow> statics \<times> dst \<Rightarrow> (statics \<times> dst) option" where
  "run_loader fp s l g = (\<lambda>(st, t).
     if l = Panasonic_raw then do {
       (p, t) \<leftarrow> panasonic_load_raw g (pana_static st) t;
       Some (st\<lparr>pana_static := p\<rparr>, t) }
     else if l = Sony_raw then do {
       (q, t) \<leftarrow> sony_load_raw g (sony_static st) t;
       Some (st\<lparr>sony_static := q\<rparr>, t) }
     else do { t \<leftarrow> plain_loader fp s l g t; Some (st, t) })"

text \<open>What \<open>crop_masked_pixels\<close> distinguishes.\<close>

definition loader_fn :: "raw_loader \<Rightarrow> load_fn" where
  "loader_fn l =
     (case l of
        Phase_one_raw \<Rightarrow> Phase_one | Phase_one_raw_c \<Rightarrow> Phase_one_c | Canon_raw \<Rightarrow> Canon
      | Lossless_jpeg_raw \<Rightarrow> Lossless_jpeg | Canon_600_raw \<Rightarrow> Canon_600 | Sony_raw \<Rightarrow> Sony_srf
      | Eight_bit_raw \<Rightarrow> Eight_bit | Kodak_262_raw \<Rightarrow> Kodak_262 | Packed_raw \<Rightarrow> Packed
      | raw_loader.Nokia_raw \<Rightarrow> load_fn.Nokia_raw | _ \<Rightarrow> Other_load)"

end
