(* ===== verification/Convert.thy ===== *)
theory Convert
  imports Finish
begin

text \<open>
  \<open>convert_to_rgb\<close>: the colours of the camera become those of the output, the profile of the output is put
  together, and the samples are counted; \<open>write_ppm_tiff\<close>: the file that is written.
\<close>

section \<open>The output colours\<close>

definition decimals :: "string list list \<Rightarrow> real_c list list" where
  "decimals = map (map Decimal)"

definition xyzd50_srgb :: "real_c list list" where
  "xyzd50_srgb = decimals [[''0.436083'', ''0.385083'', ''0.143055''], [''0.222507'', ''0.716888'', ''0.060608''],
     [''0.013930'', ''0.097097'', ''0.714022'']]"

definition out_rgb :: "meta \<Rightarrow> real_c list list list" where
  "out_rgb s =
     [map (map Of_int) [[1, 0, 0], [0, 1, 0], [0, 0, 1]],
      decimals [[''0.715146'', ''0.284856'', ''0.000000''], [''0.000000'', ''1.000000'', ''0.000000''],
        [''0.000000'', ''0.041166'', ''0.958839'']],
      decimals [[''0.593087'', ''0.404710'', ''0.002206''], [''0.095413'', ''0.843149'', ''0.061439''],
        [''0.011621'', ''0.069091'', ''0.919288'']],
      decimals [[''0.529317'', ''0.330092'', ''0.140588''], [''0.098368'', ''0.873465'', ''0.028169''],
        [''0.016879'', ''0.117663'', ''0.865457'']],
      [take 3 (xyz_rgb s), take 3 (drop 3 (xyz_rgb s)), drop 6 (xyz_rgb s)],
      decimals [[''0.432996'', ''0.375380'', ''0.189317''], [''0.089427'', ''0.816523'', ''0.102989''],
        [''0.019165'', ''0.118150'', ''0.941914'']]]"

definition out_names :: "string list" where
  "out_names = [''sRGB'', ''Adobe RGB (1998)'', ''WideGamut D65'', ''ProPhoto D65'', ''XYZ'', ''ACES'']"

section \<open>The profile\<close>

text \<open>
  The ICC profile has 1024 bytes, which the code fills as 256 words and then turns to big endian. \<open>pbody\<close>
  is the table of its ten tags: signature, offset, length.
\<close>

definition phead :: "u32 list" where
  "phead = [1024, 0, 0x2100000, 0x6d6e7472, 0x52474220, 0x58595a20, 0, 0, 0, 0x61637370, 0, 0, 0x6e6f6e65, 0, 0, 0, 0,
     0xf6d6, 0x10000, 0xd32d]"

definition pbody :: "u32 list" where
  "pbody = [10, 0x63707274, 0, 36, 0x64657363, 0, 40, 0x77747074, 0, 20, 0x626b7074, 0, 20, 0x72545243, 0, 14,
     0x67545243, 0, 14, 0x62545243, 0, 14, 0x7258595a, 0, 20, 0x6758595a, 0, 20, 0x6258595a, 0, 20]"

text \<open>The tags one behind the other; the state is the profile and the table.\<close>

definition profile_tag :: "int \<Rightarrow> u32 list \<times> u32 list \<Rightarrow> (u32 list \<times> u32 list) option" where
  "profile_tag i = (\<lambda>(prof, body). do {
     len \<leftarrow> rd prof 0;
     prof \<leftarrow> wr prof (len div 4) (if i = 0 then 0x74657874 else if i = 1 then 0x64657363 else 0x58595a20);
     body \<leftarrow> wr body (i * 3 + 2) len;
     n \<leftarrow> rd body (i * 3 + 3);
     prof \<leftarrow> wr prof 0 (len + (n + 3) div 4 * 4);
     Some (prof, body) })"

definition put_words :: "int \<Rightarrow> u32 list \<Rightarrow> u32 list \<Rightarrow> u32 list option" where
  "put_words k ws prof = for_up 0 (int (length ws)) (\<lambda>i prof. do { w \<leftarrow> at ws i; put prof (k + i) w }) prof"

text \<open>The curve of the three colours: \<open>pcurve\<close> with the number \<open>(short)(256/gamm[5]+0.5) << 16\<close>.\<close>

definition profile_curve :: "fp_ops \<Rightarrow> real_c \<Rightarrow> u32 list" where
  "profile_curve fp g5 =
     [0x63757276, 0, 1, word_of_int (shl (fp_int fp (Sum (Quotient (Of_int 256) g5) (Decimal ''0.5''))) 16)]"

definition profile_cell :: "fp_ops \<Rightarrow> real_c list list \<Rightarrow> nat \<Rightarrow> nat \<Rightarrow> u32" where
  "profile_cell fp pinv i j =
     word_of_int (fp_int fp (Sum (Product (dot (xyzd50_srgb ! i) (pinv ! j) (Of_int 0)) (Of_int 0x10000)) (Decimal ''0.5'')))"

definition profile_words :: "fp_ops \<Rightarrow> real_c \<Rightarrow> real_c list list \<Rightarrow> int \<Rightarrow> (u32 list \<times> u32 list) option" where
  "profile_words fp g5 rgb output_color = do {
     let prof = phead @ replicate 236 0;
     let prof = (if output_color = 5 then prof[4 := prof ! 5] else prof)[0 := 132 + 12 * 10];
     (prof, body) \<leftarrow> for_up 0 10 profile_tag (prof, pbody);
     prof \<leftarrow> put_words 32 body prof;
     b5 \<leftarrow> rd body 5;
     prof \<leftarrow> wr prof (b5 div 4 + 2) (int (length (out_names ! nat (output_color - 1))) + 1);
     b8 \<leftarrow> rd body 8;
     prof \<leftarrow> put_words (b8 div 4 + 2) [0xf351, 0x10000, 0x116cc] prof;
     prof \<leftarrow> for_up 4 7 (\<lambda>i prof. do { k \<leftarrow> rd body (i * 3 + 2); put_words (k div 4) (profile_curve fp g5) prof }) prof;
     let pinv = pseudoinverse rgb;
     prof \<leftarrow> for_up 0 3 (\<lambda>i. for_up 0 3 (\<lambda>j prof. do {
        k \<leftarrow> rd body (j * 3 + 23);
        put prof (k div 4 + i + 2) (profile_cell fp pinv (nat i) (nat j)) })) prof;
     Some (prof, body) }"

definition make_profile :: "fp_ops \<Rightarrow> real_c \<Rightarrow> real_c list list \<Rightarrow> int \<Rightarrow> u8 list option" where
  "make_profile fp g5 rgb output_color = do {
     (prof, body) \<leftarrow> profile_words fp g5 rgb output_color;
     let bytes = concat (map (\<lambda>w. val_bytes True (uint w)) prof);
     b2 \<leftarrow> rd body 2;
     bytes \<leftarrow> put_at (b2 + 8) (bytes_of ''auto-generated by dcraw'' @ [0]) bytes;
     b5 \<leftarrow> rd body 5;
     put_at (b5 + 12) (bytes_of (out_names ! nat (output_color - 1)) @ [0]) bytes }"

section \<open>convert_to_rgb\<close>

text \<open>The matrix from the camera's colours to the output's: three rows of four.\<close>

definition camera_matrix :: "fp_ops \<Rightarrow> real_c list list \<Rightarrow> int \<Rightarrow> real_c list \<Rightarrow> real_c list" where
  "camera_matrix fp rgb n cam =
     map (\<lambda>k. let i = k div 4; j = k mod 4 in
       if int j < n then float_dot fp (rgb ! i) (map (\<lambda>m. cam ! (4 * m + j)) [0..<3]) else cam ! k) [0..<12]"

definition convert_pixel :: "fp_ops \<Rightarrow> real_c list \<Rightarrow> int list \<Rightarrow> int list" where
  "convert_pixel fp cam vs = map (\<lambda>i. CLIP (fp_int fp (float_dot fp (take (length vs) (drop (4 * i) cam)) (map Of_int vs)))) [0..<3]"

text \<open>The histogram has a row of 8192 numbers for each of four colours; its numbers are of type \<open>int\<close>.\<close>

definition count_pixel :: "int list \<Rightarrow> int list list \<Rightarrow> int list list option" where
  "count_pixel vs hist = for_up 0 (int (length vs)) (\<lambda>c hist. do {
     v \<leftarrow> at vs c;
     row \<leftarrow> at hist c;
     n \<leftarrow> at row (shr v 3);
     row \<leftarrow> put row (shr v 3) (c_s32 (n + 1));
     put hist c row }) hist"

definition convert_at ::
    "fp_ops \<Rightarrow> real_c list \<Rightarrow> int \<Rightarrow> geom \<Rightarrow> int \<Rightarrow> int \<Rightarrow> dst \<times> int list list \<Rightarrow> (dst \<times> int list list) option" where
  "convert_at fp cam document_mode g row col = (\<lambda>(t, hist). do {
     let i = row * width g + col;
     let n = nat (colors t);
     t \<leftarrow> (if raw_color t = 0 then do { vs \<leftarrow> pixel t i n; set_pixel i (convert_pixel fp cam vs) t }
           else if document_mode \<noteq> 0 then do { c \<leftarrow> fcol g (filters t) row col; v \<leftarrow> IMG t i c; set_IMG i 0 v t }
           else Some t);
     vs \<leftarrow> pixel t i n;
     hist \<leftarrow> count_pixel vs hist;
     Some (t, hist) })"

definition convert_to_rgb :: "fp_ops \<Rightarrow> options \<Rightarrow> meta \<Rightarrow> (u8 list \<times> int list list \<times> meta) option" where
  "convert_to_rgb fp p s = do {
     let oc = opt_output_color p;
     let doc = opt_document_mode p;
     let g5 = gamma_params fp (opt_gamm p ! 0) (opt_gamm p ! 1) ! 5;
     let t = td s;
     let t = t\<lparr>raw_color := (if raw_color t \<noteq> 0 \<or> colors t = 1 \<or> doc \<noteq> 0 \<or> oc < 1 \<or> oc > 6 then 1 else 0)\<rparr>;
     let rgb = out_rgb s ! nat (oc - 1);
     prof \<leftarrow> (if raw_color t = 0 then make_profile fp g5 rgb oc else Some []);
     let cam = (if raw_color t = 0 then camera_matrix fp rgb (colors t) (rgb_cam s) else rgb_cam s);
     (t, hist) \<leftarrow> for_up 0 (height (tg s)) (\<lambda>row. for_up 0 (width (tg s)) (convert_at fp cam doc (tg s) row))
       (t, replicate 4 (replicate 0x2000 0));
     let t = (if colors t = 4 \<and> oc \<noteq> 0 then t\<lparr>colors := 3\<rparr> else t);
     let t = (if doc \<noteq> 0 \<and> filters t \<noteq> 0 then t\<lparr>colors := 1\<rparr> else t);
     Some (prof, hist, s\<lparr>td := t\<rparr>) }"

section \<open>write_ppm_tiff\<close>

text \<open>The number of pixels that may be brighter than white.\<close>

definition white_count :: "fp_ops \<Rightarrow> geom \<Rightarrow> int" where
  "white_count fp g =
     (let perc = fp_int fp (Product (Of_int (c_s32 (height g * width g))) (Decimal ''0.01''))
      in if fuji_width g \<noteq> 0 then perc sdiv 2 else perc)"

definition pnm_lines :: "string list \<Rightarrow> u8 list" where
  "pnm_lines ls = concat (map (\<lambda>l. bytes_of l @ [10]) ls)"

definition profile_len :: "u8 list \<Rightarrow> int" where
  "profile_len prof = (if prof = [] then 0 else uint (word_rcat (take 4 prof) :: u32))"

text \<open>\<open>g\<close> is the geometry of the output.\<close>

definition ppm_head :: "geom \<Rightarrow> int \<Rightarrow> int \<Rightarrow> string \<Rightarrow> u8 list" where
  "ppm_head g n bps tupl =
     (let mx = print_int (shl 1 bps - 1) in
      if n > 3 then
        pnm_lines [''P7'', ''WIDTH '' @ print_int (width g), ''HEIGHT '' @ print_int (height g), ''DEPTH '' @ print_int n,
          ''MAXVAL '' @ mx, ''TUPLTYPE '' @ tupl, ''ENDHDR'']
      else pnm_lines [''P'' @ print_int (n div 2 + 5), print_int (width g) @ '' '' @ print_int (height g), mx])"

text \<open>A sample of 16 bits is stored by the machine and, in a PNM file, turned to big endian.\<close>

definition sample_bytes :: "bool \<Rightarrow> int \<Rightarrow> int \<Rightarrow> u8 list" where
  "sample_bytes big bps v = (if bps = 8 then [word_of_int v] else cell_bytes big (word_of_int v))"

definition write_ppm_tiff ::
    "fp_ops \<Rightarrow> (int \<Rightarrow> int list) \<Rightarrow> options \<Rightarrow> u8 list \<Rightarrow> int list list \<Rightarrow> meta \<Rightarrow> (u8 list \<times> meta) option" where
  "write_ppm_tiff fp gmtime p prof hist s = do {
     let g = tg s;
     let n = colors (td s);
     let bps = opt_output_bps p;
     let big = big_host (io_of s);
     white \<leftarrow> (if opt_highlight p AND (- 3) \<noteq> 0 \<or> opt_no_auto_bright p then Some 0x2000 else white_level hist n (white_count fp g));
     let imax = fp_int fp (Quotient (Of_int (shl white 3)) (opt_bright p));
     let s = on_d (curve_update (\<lambda>_. gamma_curve fp (opt_gamm p ! 0) (opt_gamm p ! 1) 2 imax)) s;
     out \<leftarrow> write_image g (mflip s) bps (td s);
     let s = on_g (output_geom (mflip s)) s;
     head \<leftarrow> (if opt_output_tiff p then do {
                th \<leftarrow> tiff_head fp gmtime True bps (profile_len prof) s;
                Some (th @ take (nat (profile_len prof)) prof) }
              else Some (ppm_head (tg s) n bps (c_str (cdesc s))));
     Some (head @ concat (map (sample_bytes (if opt_output_tiff p then big else True) bps) out), s) }"

end
