(* ===== verification/Interpolate.thy ===== *)
theory Interpolate
  imports RawImage
begin

text \<open>
  The demosaicing of dcraw: \<open>pre_interpolate\<close>, the border, the bilinear, the VNG and the PPG
  interpolation, and the median filter. The loops are modelled in the order of a single thread; a
  slice of the rows of VNG is a definition of its own, since the program lets each thread run one.
\<close>

section \<open>pre_interpolate\<close>

text \<open>The search for the first red-free pixel of an X-Trans image, \<open>goto break2\<close> included.\<close>

fun xtrans_start :: "geom \<Rightarrow> dst \<Rightarrow> (int \<times> int) list \<Rightarrow> (int \<times> int) option" where
  "xtrans_start g s [] = Some (3, 4)"
| "xtrans_start g s ((row, col) # ps) = do {
     a \<leftarrow> IMG s (row * width g + col) 0;
     b \<leftarrow> IMG s (row * width g + col) 2;
     if a OR b = 0 then Some (row, col) else xtrans_start g s ps }"

definition xtrans_halves :: "geom \<Rightarrow> dst \<Rightarrow> dst option" where
  "xtrans_halves g s = do {
     (row0, col0) \<leftarrow> xtrans_start g s (List.product [0, 1, 2] [1, 2, 3]);
     (col, s) \<leftarrow> for_by 3 row0 (height g) (\<lambda>row (col, s). do {
       let c0 = (col - 1) smod 3 + 1;
       s \<leftarrow> for_by 3 c0 (width g - 1) (\<lambda>col s. for_by 2 0 3 (\<lambda>c s. do {
         a \<leftarrow> IMG s (row * width g + col - 1) c;
         b \<leftarrow> IMG s (row * width g + col + 1) c;
         set_IMG (row * width g + col) c (shr (a + b) 1) s }) s) s;
       Some (after 3 c0 (width g - 1), s) }) (col0, s);
     Some s }"

text \<open>The full-size image of a shrunken one: each cell of a square of four gets its own colour.\<close>

definition unshrink :: "geom \<Rightarrow> dst \<Rightarrow> dst option" where
  "unshrink g s = do {
     im \<leftarrow> for_up 0 (height g) (\<lambda>row. for_up 0 (width g) (\<lambda>col im. do {
       c \<leftarrow> fcol g (filters s) row col;
       v \<leftarrow> IMG s (shr row 1 * iwidth g + shr col 1) c;
       wr im (4 * (row * width g + col) + c) v })) (zeros (4 * (height g * width g)));
     Some (s\<lparr>img := im\<rparr>) }"

text \<open>\<open>half\<close> is \<open>half_size\<close>, \<open>four\<close> is \<open>four_color_rgb\<close>; height, width and \<open>shrink\<close> change.\<close>

definition merge_greens :: "geom \<Rightarrow> dst \<Rightarrow> dst option" where
  "merge_greens g s = do {
     s \<leftarrow> for_by 2 (shr (FC (filters s) 1 0) 1) (height g) (\<lambda>row s.
       for_by 2 (FC (filters s) row 1 AND 1) (width g) (\<lambda>col s. do {
         v \<leftarrow> IMG s (row * width g + col) 3;
         set_IMG (row * width g + col) 1 v s }) s) s;
     Some (s\<lparr>filters := filters s AND NOT (c_u32 (shl (filters s AND 0x55555555) 1))\<rparr>) }"

definition pre_interpolate :: "int \<Rightarrow> int \<Rightarrow> geom \<Rightarrow> dst \<Rightarrow> (geom \<times> dst) option" where
  "pre_interpolate half four g s = do {
     (g, s) \<leftarrow>
       (if shrink g \<noteq> 0 then
          (if half \<noteq> 0 then do {
             let g = g\<lparr>height := iheight g, width := iwidth g\<rparr>;
             s \<leftarrow> (if filters s = 9 then xtrans_halves g s else Some s);
             Some (g, s) }
           else do {
             s \<leftarrow> unshrink g s;
             Some (g\<lparr>shrink := 0\<rparr>, s) })
        else Some (g, s));
     s \<leftarrow>
       (if filters s > 1000 \<and> colors s = 3 then
          (let s = s\<lparr>mix_green := four XOR half\<rparr> in
           if four OR half \<noteq> 0 then Some (s\<lparr>colors := colors s + 1\<rparr>) else merge_greens g s)
        else Some s);
     Some (g, if half \<noteq> 0 then s\<lparr>filters := 0\<rparr> else s) }"

section \<open>border_interpolate\<close>

text \<open>
  The columns of a row that the loop visits: at the inner edge of the border it jumps to the other
  side. A narrow image makes it jump back, for ever.
\<close>

partial_function (option) border_cols :: "geom \<Rightarrow> int \<Rightarrow> int \<Rightarrow> int \<Rightarrow> int list option" where
  "border_cols g border row col =
     (if col < width g then
        (let c = (if col = border \<and> row \<ge> border \<and> row < height g - border
                  then c_u32 (width g - border) else col)
         in border_cols g border row (c_u32 (c + 1)) \<bind> (\<lambda>cs. Some (c # cs)))
      else Some [])"

text \<open>Sums and counts of the colours among the nine pixels around, those outside left out.\<close>

definition border_sums :: "geom \<Rightarrow> dst \<Rightarrow> int \<Rightarrow> int \<Rightarrow> int list option" where
  "border_sums g s row col = for_up (row - 1) (row + 2) (\<lambda>y. for_up (col - 1) (col + 2) (\<lambda>x sm.
     if 0 \<le> y \<and> y < height g \<and> 0 \<le> x \<and> x < width g then do {
       f \<leftarrow> fcol g (filters s) y x;
       a \<leftarrow> at sm f;
       v \<leftarrow> IMG s (y * width g + x) f;
       sm \<leftarrow> put sm f (c_u32 (a + v));
       n \<leftarrow> at sm (f + 4);
       put sm (f + 4) (n + 1) }
     else Some sm)) (zeros 8)"

definition border_pixel :: "geom \<Rightarrow> int \<Rightarrow> int \<Rightarrow> dst \<Rightarrow> dst option" where
  "border_pixel g row col s = do {
     sm \<leftarrow> border_sums g s row col;
     f \<leftarrow> fcol g (filters s) row col;
     for_up 0 (colors s) (\<lambda>c s. do {
       n \<leftarrow> at sm (c + 4);
       if c \<noteq> f \<and> n \<noteq> 0 then do {
         a \<leftarrow> at sm c;
         set_IMG (row * width g + col) c (a div n) s }
       else Some s }) s }"

definition border_interpolate :: "geom \<Rightarrow> int \<Rightarrow> dst \<Rightarrow> dst option" where
  "border_interpolate g border s = for_up 0 (height g) (\<lambda>row s. do {
     cs \<leftarrow> border_cols g border row 0;
     for_up 0 (int (length cs)) (\<lambda>i s. do { col \<leftarrow> at cs i; border_pixel g row col s }) s }) s"

section \<open>lin_interpolate\<close>

text \<open>
  The entry of \<open>code[16][16][32]\<close> for one position of the pattern: the triples of offset, shift
  and colour, then the pairs of colour and weight.
\<close>

definition lin_triples ::
    "geom \<Rightarrow> int \<Rightarrow> int \<Rightarrow> int \<Rightarrow> ((int \<times> int \<times> int) list \<times> int list) option" where
  "lin_triples g flt row col = do {
     f \<leftarrow> fcol g flt row col;
     for_up (-1) 2 (\<lambda>y. for_up (-1) 2 (\<lambda>x (ts, sm). do {
       color \<leftarrow> fcol g flt (row + y) (col + x);
       if color = f then Some (ts, sm)
       else do {
         let shift = of_bool (y = 0) + of_bool (x = 0);
         a \<leftarrow> at sm color;
         sm \<leftarrow> put sm color (a + shl 1 shift);
         Some (ts @ [((width g * y + x) * 4 + color, shift, color)], sm) } })) ([], zeros 4) }"

definition lin_code ::
    "geom \<Rightarrow> dst \<Rightarrow> int \<Rightarrow> int \<Rightarrow> ((int \<times> int \<times> int) list \<times> (int \<times> int) list) option" where
  "lin_code g s row col = do {
     (ts, sm) \<leftarrow> lin_triples g (filters s) row col;
     f \<leftarrow> fcol g (filters s) row col;
     ps \<leftarrow> for_up 0 (colors s) (\<lambda>c ps.
       if c \<noteq> f then do { a \<leftarrow> at sm c; q \<leftarrow> c_div 256 a; Some (ps @ [(c, q)]) } else Some ps) [];
     Some (ts, ps) }"

definition lin_pixel ::
    "(int \<times> int \<times> int) list \<times> (int \<times> int) list \<Rightarrow> int \<Rightarrow> dst \<Rightarrow> dst option" where
  "lin_pixel = (\<lambda>(ts, ps) pix s. do {
     sm \<leftarrow> for_up 0 (int (length ts)) (\<lambda>i sm. do {
       (off, shift, color) \<leftarrow> at ts i;
       v \<leftarrow> rd (img s) (4 * pix + off);
       a \<leftarrow> at sm color;
       put sm color (a + shl v shift) }) (zeros 4);
     for_up 0 (colors s - 1) (\<lambda>i s. do {
       (c, w) \<leftarrow> at ps i;
       a \<leftarrow> at sm c;
       set_IMG pix c (shr (a * w) 8) s }) s })"

definition lin_interpolate :: "geom \<Rightarrow> dst \<Rightarrow> dst option" where
  "lin_interpolate g s = do {
     let size = (if filters s = 9 then 6 else 16);
     s \<leftarrow> border_interpolate g 1 s;
     code \<leftarrow> for_up 0 (size * size) (\<lambda>i code. do {
       e \<leftarrow> lin_code g s (i div size) (i mod size); Some (code @ [e]) }) [];
     for_up 1 (height g - 1) (\<lambda>row. for_up 1 (width g - 1) (\<lambda>col s. do {
       e \<leftarrow> at code ((row mod size) * size + col mod size);
       lin_pixel e (row * width g + col) s })) s }"

section \<open>vng_interpolate\<close>

definition vng_terms :: "(int \<times> int \<times> int \<times> int \<times> int \<times> int) list" where
  "vng_terms =
   [(-2, -2, 0, -1, 0, 1), (-2, -2, 0, 0, 1, 1), (-2, -1, -1, 0, 0, 1), (-2, -1, 0, -1, 0, 2),
    (-2, -1, 0, 0, 0, 3), (-2, -1, 0, 1, 1, 1), (-2, 0, 0, -1, 0, 6), (-2, 0, 0, 0, 1, 2),
    (-2, 0, 0, 1, 0, 3), (-2, 1, -1, 0, 0, 4), (-2, 1, 0, -1, 1, 4), (-2, 1, 0, 0, 0, 6),
    (-2, 1, 0, 1, 0, 2), (-2, 2, 0, 0, 1, 4), (-2, 2, 0, 1, 0, 4), (-1, -2, -1, 0, 0, 128),
    (-1, -2, 0, -1, 0, 1), (-1, -2, 1, -1, 0, 1), (-1, -2, 1, 0, 1, 1), (-1, -1, -1, 1, 0, 136),
    (-1, -1, 1, -2, 0, 64), (-1, -1, 1, -1, 0, 34), (-1, -1, 1, 0, 0, 51), (-1, -1, 1, 1, 1, 17),
    (-1, 0, -1, 2, 0, 8), (-1, 0, 0, -1, 0, 68), (-1, 0, 0, 1, 0, 17), (-1, 0, 1, -2, 1, 64),
    (-1, 0, 1, -1, 0, 102), (-1, 0, 1, 0, 1, 34), (-1, 0, 1, 1, 0, 51), (-1, 0, 1, 2, 1, 16),
    (-1, 1, 1, -1, 1, 68), (-1, 1, 1, 0, 0, 102), (-1, 1, 1, 1, 0, 34), (-1, 1, 1, 2, 0, 16),
    (-1, 2, 0, 1, 0, 4), (-1, 2, 1, 0, 1, 4), (-1, 2, 1, 1, 0, 4), (0, -2, 0, 0, 1, 128),
    (0, -1, 0, 1, 1, 136), (0, -1, 1, -2, 0, 64), (0, -1, 1, 0, 0, 17), (0, -1, 2, -2, 0, 64),
    (0, -1, 2, -1, 0, 32), (0, -1, 2, 0, 0, 48), (0, -1, 2, 1, 1, 16), (0, 0, 0, 2, 1, 8),
    (0, 0, 2, -2, 1, 64), (0, 0, 2, -1, 0, 96), (0, 0, 2, 0, 1, 32), (0, 0, 2, 1, 0, 48),
    (0, 0, 2, 2, 1, 16), (0, 1, 1, 0, 0, 68), (0, 1, 1, 2, 0, 16), (0, 1, 2, -1, 1, 64),
    (0, 1, 2, 0, 0, 96), (0, 1, 2, 1, 0, 32), (0, 1, 2, 2, 0, 16), (1, -2, 1, 0, 0, 128),
    (1, -1, 1, 1, 0, 136), (1, 0, 1, 2, 0, 8), (1, 0, 2, -1, 0, 64), (1, 0, 2, 1, 0, 16)]"

definition vng_chood :: "(int \<times> int) list" where
  "vng_chood = [(-1, -1), (-1, 0), (-1, 1), (0, 1), (1, 1), (1, 0), (1, -1), (0, -1)]"

text \<open>
  The precalculated entry of a position: the gradients (two offsets, a weight, the directions they
  count for), then for each of the eight directions the offsets of its neighbours.
\<close>

definition vng_term ::
    "geom \<Rightarrow> int \<Rightarrow> int \<Rightarrow> int \<Rightarrow> int \<times> int \<times> int \<times> int \<times> int \<times> int \<Rightarrow> ((int \<times> int \<times> int \<times> int list) option) option" where
  "vng_term g flt row col = (\<lambda>(y1, x1, y2, x2, weight, grads). do {
     color \<leftarrow> fcol g flt (row + y1) (col + x1);
     color2 \<leftarrow> fcol g flt (row + y2) (col + x2);
     if color2 \<noteq> color then Some None
     else do {
       a \<leftarrow> fcol g flt row (col + 1);
       b \<leftarrow> fcol g flt (row + 1) col;
       let diag = (if a = color \<and> b = color then 2 else 1);
       if \<bar>y1 - y2\<bar> = diag \<and> \<bar>x1 - x2\<bar> = diag then Some None
       else Some (Some ((y1 * width g + x1) * 4 + color, (y2 * width g + x2) * 4 + color, weight,
                        filter (\<lambda>k. grads AND shl 1 k \<noteq> 0) [0..7])) } })"

definition vng_hood :: "geom \<Rightarrow> int \<Rightarrow> int \<Rightarrow> int \<Rightarrow> int \<times> int \<Rightarrow> (int \<times> int) option" where
  "vng_hood g flt row col = (\<lambda>(y, x). do {
     color \<leftarrow> fcol g flt row col;
     a \<leftarrow> fcol g flt (row + y) (col + x);
     b \<leftarrow> fcol g flt (row + y * 2) (col + x * 2);
     Some ((y * width g + x) * 4,
           if a \<noteq> color \<and> b = color then (y * width g + x) * 8 + color else 0) })"

type_synonym vng_entry = "(int \<times> int \<times> int \<times> int list) list \<times> (int \<times> int) list"

definition vng_code :: "geom \<Rightarrow> int \<Rightarrow> int \<Rightarrow> int \<Rightarrow> vng_entry option" where
  "vng_code g flt row col = do {
     ts \<leftarrow> for_up 0 64 (\<lambda>t ts. do {
       x \<leftarrow> at vng_terms t;
       r \<leftarrow> vng_term g flt row col x;
       Some (case r of None \<Rightarrow> ts | Some e \<Rightarrow> ts @ [e]) }) [];
     hs \<leftarrow> for_up 0 8 (\<lambda>d hs. do {
       yx \<leftarrow> at vng_chood d;
       h \<leftarrow> vng_hood g flt row col yx;
       Some (hs @ [h]) }) [];
     Some (ts, hs) }"

text \<open>The eight gradients of a pixel.\<close>

definition vng_gvals :: "vng_entry \<Rightarrow> int \<Rightarrow> dst \<Rightarrow> int list option" where
  "vng_gvals e pix s = for_up 0 (int (length (fst e))) (\<lambda>i gval. do {
     (o1, o2, weight, gs) \<leftarrow> at (fst e) i;
     a \<leftarrow> rd (img s) (4 * pix + o1);
     b \<leftarrow> rd (img s) (4 * pix + o2);
     let diff = shl (ABS_c (a - b)) weight;
     for_up 0 (int (length gs)) (\<lambda>j gval. do {
       k \<leftarrow> at gs j; v \<leftarrow> at gval k; put gval k (v + diff) }) gval }) (zeros 8)"

definition vng_threshold :: "int list \<Rightarrow> int \<times> int" where
  "vng_threshold gval =
     (let gmin = fold min gval (gval ! 0); gmax = fold max gval (gval ! 0)
      in (gmax, gmin + shr gmax 1))"

text \<open>The sums over the directions whose gradient is small, and how many there are.\<close>

definition vng_average ::
    "vng_entry \<Rightarrow> int list \<Rightarrow> int \<Rightarrow> int \<Rightarrow> int \<Rightarrow> dst \<Rightarrow> (int list \<times> int) option" where
  "vng_average e gval thold color pix s = for_up 0 8 (\<lambda>d (sm, num). do {
     gv \<leftarrow> at gval d;
     (o1, o2) \<leftarrow> at (snd e) d;
     if gv \<le> thold then do {
       sm \<leftarrow> for_up 0 (colors s) (\<lambda>c sm. do {
         a \<leftarrow> at sm c;
         if c = color \<and> o2 \<noteq> 0 then do {
           p \<leftarrow> rd (img s) (4 * pix + c);
           q \<leftarrow> rd (img s) (4 * pix + o2);
           put sm c (a + shr (p + q) 1) }
         else do {
           q \<leftarrow> rd (img s) (4 * pix + (o1 + c));
           put sm c (a + q) } }) sm;
       Some (sm, num + 1) }
     else Some (sm, num) }) (zeros 4, 0)"

text \<open>One pixel, written to column \<open>col\<close> of the row buffer \<open>br\<close>.\<close>

definition vng_pixel :: "geom \<Rightarrow> vng_entry \<Rightarrow> int \<Rightarrow> int \<Rightarrow> dst \<Rightarrow> u16 list \<Rightarrow> u16 list option" where
  "vng_pixel g e row col s br = do {
     let pix = row * width g + col;
     gval \<leftarrow> vng_gvals e pix s;
     let (gmax, thold) = vng_threshold gval;
     if gmax = 0 then for_up 0 4 (\<lambda>c br. do {
       v \<leftarrow> rd (img s) (4 * pix + c);
       wr br (4 * col + c) v }) br
     else do {
       color \<leftarrow> fcol g (filters s) row col;
       (sm, num) \<leftarrow> vng_average e gval thold color pix s;
       for_up 0 (colors s) (\<lambda>c br. do {
         t \<leftarrow> rd (img s) (4 * pix + color);
         t \<leftarrow> (if c \<noteq> color then do {
                 a \<leftarrow> at sm c; b \<leftarrow> at sm color; q \<leftarrow> c_div (a - b) num; Some (t + q) }
               else Some t);
         wr br (4 * col + c) (CLIP t) }) br } }"

text \<open>\<open>memcpy (image[row*width+2], br+2, (width-4)*sizeof *image)\<close>\<close>

definition vng_write :: "geom \<Rightarrow> int \<Rightarrow> u16 list \<Rightarrow> dst \<Rightarrow> dst option" where
  "vng_write g row br s = for_up 8 (4 * (width g - 2)) (\<lambda>k s. do {
     v \<leftarrow> rd br k;
     xs \<leftarrow> wr (img s) (4 * (row * width g) + k) v;
     Some (s\<lparr>img := xs\<rparr>) }) s"

text \<open>
  What one thread does with the rows from \<open>lo\<close> up to \<open>hi\<close>: a row is written back two rows later,
  when the buffers have moved on; the last two only after the last row of the image.
\<close>

type_synonym vng_rows = "u16 list \<times> u16 list \<times> u16 list"

definition vng_row ::
    "geom \<Rightarrow> vng_entry list \<Rightarrow> int \<Rightarrow> int \<Rightarrow> int \<Rightarrow> int \<Rightarrow> vng_rows \<times> dst \<Rightarrow> (vng_rows \<times> dst) option" where
  "vng_row g code prow pcol lo row = (\<lambda>((b0, b1, b2), s). do {
     b2 \<leftarrow> for_up 2 (width g - 2) (\<lambda>col b2. do {
       e \<leftarrow> at code ((row mod prow) * pcol + col mod pcol);
       vng_pixel g e row col s b2 }) b2;
     s \<leftarrow> (if row - lo > 1 then vng_write g (row - 2) b0 s else Some s);
     Some ((b1, b2, b0), s) })"

definition vng_slice ::
    "geom \<Rightarrow> vng_entry list \<Rightarrow> int \<Rightarrow> int \<Rightarrow> int \<Rightarrow> int \<Rightarrow> dst \<Rightarrow> dst option" where
  "vng_slice g code prow pcol lo hi s = do {
     let buf = zeros (4 * width g);
     ((b0, b1, b2), s) \<leftarrow> for_up lo hi (vng_row g code prow pcol lo) ((buf, buf, buf), s);
     if after 1 lo hi = height g - 2 then do {
       s \<leftarrow> vng_write g (after 1 lo hi - 2) b0 s;
       vng_write g (after 1 lo hi - 1) b1 s }
     else Some s }"

definition vng_interpolate :: "geom \<Rightarrow> dst \<Rightarrow> dst option" where
  "vng_interpolate g s = do {
     s \<leftarrow> lin_interpolate g s;
     let prow = (if filters s = 1 then 16 else if filters s = 9 then 6 else 8);
     let pcol = (if filters s = 1 then 16 else if filters s = 9 then 6 else 2);
     code \<leftarrow> for_up 0 (prow * pcol) (\<lambda>i code. do {
       e \<leftarrow> vng_code g (filters s) (i div pcol) (i mod pcol); Some (code @ [e]) }) [];
     vng_slice g code prow pcol 2 (height g - 2) s }"

section \<open>ppg_interpolate\<close>

text \<open>\<open>pix[d][c]\<close> for the pixel \<open>pix\<close>.\<close>

definition PIX :: "dst \<Rightarrow> int \<Rightarrow> int \<Rightarrow> int \<Rightarrow> int option" where
  "PIX s pix d c = IMG s (pix + d) c"

text \<open>The guess and the difference along one direction.\<close>

definition ppg_green_dir :: "dst \<Rightarrow> int \<Rightarrow> int \<Rightarrow> int \<Rightarrow> (int \<times> int) option" where
  "ppg_green_dir s pix c d = do {
     g1 \<leftarrow> PIX s pix (- d) 1; x0 \<leftarrow> PIX s pix 0 c; g2 \<leftarrow> PIX s pix d 1;
     x1 \<leftarrow> PIX s pix (-2 * d) c; x2 \<leftarrow> PIX s pix (2 * d) c;
     g3 \<leftarrow> PIX s pix (3 * d) 1; g4 \<leftarrow> PIX s pix (-3 * d) 1;
     Some ((g1 + x0 + g2) * 2 - x1 - x2,
           (ABS_c (x1 - x0) + ABS_c (x2 - x0) + ABS_c (g1 - g2)) * 3
             + (ABS_c (g3 - g2) + ABS_c (g4 - g1)) * 2) }"

definition ppg_green :: "geom \<Rightarrow> int \<Rightarrow> int \<Rightarrow> dst \<Rightarrow> dst option" where
  "ppg_green g c pix s = do {
     (guess0, diff0) \<leftarrow> ppg_green_dir s pix c 1;
     (guess1, diff1) \<leftarrow> ppg_green_dir s pix c (width g);
     let d = (if diff0 > diff1 then width g else 1);
     let guess = (if diff0 > diff1 then guess1 else guess0);
     a \<leftarrow> PIX s pix d 1;
     b \<leftarrow> PIX s pix (- d) 1;
     set_IMG pix 1 (ULIM_c (shr guess 2) a b) s }"

definition ppg_at_green :: "int \<Rightarrow> int \<Rightarrow> int \<Rightarrow> dst \<Rightarrow> dst option" where
  "ppg_at_green c d pix s = do {
     a \<leftarrow> PIX s pix (- d) c; b \<leftarrow> PIX s pix d c; g0 \<leftarrow> PIX s pix 0 1;
     g1 \<leftarrow> PIX s pix (- d) 1; g2 \<leftarrow> PIX s pix d 1;
     set_IMG pix c (CLIP (shr (a + b + 2 * g0 - g1 - g2) 1)) s }"

definition ppg_diagonal :: "dst \<Rightarrow> int \<Rightarrow> int \<Rightarrow> int \<Rightarrow> (int \<times> int) option" where
  "ppg_diagonal s pix c d = do {
     a \<leftarrow> PIX s pix (- d) c; b \<leftarrow> PIX s pix d c; g0 \<leftarrow> PIX s pix 0 1;
     g1 \<leftarrow> PIX s pix (- d) 1; g2 \<leftarrow> PIX s pix d 1;
     Some (a + b + 2 * g0 - g1 - g2, ABS_c (a - b) + ABS_c (g1 - g0) + ABS_c (g2 - g0)) }"

definition ppg_other :: "geom \<Rightarrow> int \<Rightarrow> int \<Rightarrow> dst \<Rightarrow> dst option" where
  "ppg_other g c pix s = do {
     (guess0, diff0) \<leftarrow> ppg_diagonal s pix c (1 + width g);
     (guess1, diff1) \<leftarrow> ppg_diagonal s pix c (width g - 1);
     set_IMG pix c
       (if diff0 \<noteq> diff1 then CLIP (shr (if diff0 > diff1 then guess1 else guess0) 1)
        else CLIP (shr (guess0 + guess1) 2)) s }"

definition ppg_interpolate :: "geom \<Rightarrow> dst \<Rightarrow> dst option" where
  "ppg_interpolate g s = do {
     s \<leftarrow> border_interpolate g 3 s;
     s \<leftarrow> for_up 3 (height g - 3) (\<lambda>row s.
       let col0 = 3 + (FC (filters s) row 3 AND 1); c = FC (filters s) row col0 in
       for_by 2 col0 (width g - 3) (\<lambda>col. ppg_green g c (row * width g + col)) s) s;
     s \<leftarrow> for_up 1 (height g - 1) (\<lambda>row s.
       let col0 = 1 + (FC (filters s) row 2 AND 1); c = FC (filters s) row (col0 + 1) in
       for_by 2 col0 (width g - 1) (\<lambda>col s.
         ppg_at_green c 1 (row * width g + col) s \<bind>
         ppg_at_green (2 - c) (width g) (row * width g + col)) s) s;
     for_up 1 (height g - 1) (\<lambda>row s.
       let col0 = 1 + (FC (filters s) row 1 AND 1); c = 2 - FC (filters s) row col0 in
       for_by 2 col0 (width g - 1) (\<lambda>col. ppg_other g c (row * width g + col)) s) s }"

section \<open>median_filter\<close>

text \<open>The exchanges that bring the median of nine numbers to the middle.\<close>

definition median_opt :: "(nat \<times> nat) list" where
  "median_opt =
   [(1,2), (4,5), (7,8), (0,1), (3,4), (6,7), (1,2), (4,5), (7,8),
    (0,3), (5,8), (4,7), (3,6), (1,4), (2,5), (4,7), (4,2), (6,4), (4,2)]"

definition exchange :: "nat \<times> nat \<Rightarrow> int list \<Rightarrow> int list" where
  "exchange = (\<lambda>(i, j) xs. if xs ! i > xs ! j then xs[i := xs ! j, j := xs ! i] else xs)"

definition median9 :: "int list \<Rightarrow> int" where
  "median9 med = fold exchange median_opt med ! 4"

definition median_pixel :: "geom \<Rightarrow> int \<Rightarrow> int \<Rightarrow> dst \<Rightarrow> dst option" where
  "median_pixel g c pix s =
     (if (pix + 1) mod width g < 2 then Some s
      else do {
        med \<leftarrow> for_by (width g) (- width g) (width g + 1) (\<lambda>i med. for_up (i - 1) (i + 2) (\<lambda>j med. do {
          a \<leftarrow> PIX s pix j 3; b \<leftarrow> PIX s pix j 1; Some (med @ [a - b]) }) med) [];
        b \<leftarrow> PIX s pix 0 1;
        set_IMG pix c (CLIP (median9 med + b)) s })"

definition median_channel :: "geom \<Rightarrow> int \<Rightarrow> dst \<Rightarrow> dst option" where
  "median_channel g c s = do {
     s \<leftarrow> for_up 0 (width g * height g) (\<lambda>i s. do { v \<leftarrow> IMG s i c; set_IMG i 3 v s }) s;
     for_up (width g) (width g * (height g - 1)) (median_pixel g c) s }"

definition median_filter :: "geom \<Rightarrow> int \<Rightarrow> dst \<Rightarrow> dst option" where
  "median_filter g passes s = for_up 1 (passes + 1) (\<lambda>pass s. for_by 2 0 3 (median_channel g) s) s"

section \<open>The sorting network\<close>

lemma list_update_numeral: "(x # xs)[numeral n := y] = x # xs[pred_numeral n := y]"
  by (simp add: numeral_eq_Suc)

text \<open>The exchanges with an arbitrary minimum and maximum.\<close>

definition exch :: "(int \<Rightarrow> int \<Rightarrow> int) \<Rightarrow> (int \<Rightarrow> int \<Rightarrow> int) \<Rightarrow> nat \<times> nat \<Rightarrow> int list \<Rightarrow> int list" where
  "exch f g = (\<lambda>(i, j) xs. xs[i := f (xs ! i) (xs ! j), j := g (xs ! i) (xs ! j)])"

lemma exchange_exch: "exchange = exch min max"
proof (intro ext)
  fix p xs
  show "exchange p xs = exch min max p xs"
    by (cases p) (auto simp: exchange_def exch_def min_def max_def intro!: nth_equalityI simp: nth_list_update)
qed

text \<open>The second half of the network, on three sorted triples.\<close>

lemma network_triples:
  "fold (exch f g) median_opt [a, b, c, d, e, h, i, j, k] ! 4 =
    (let l1 = f a (f b c); m1 = f (g a (f b c)) (g b c); u1 = g (g a (f b c)) (g b c);
         l2 = f d (f e h); m2 = f (g d (f e h)) (g e h); u2 = g (g d (f e h)) (g e h);
         l3 = f i (f j k); m3 = f (g i (f j k)) (g j k); u3 = g (g i (f j k)) (g j k);
         x = g (g l1 l2) l3; y = f (g m1 (f m2 m3)) (g m2 m3); z = f u1 (f u2 u3)
     in f (g x (f y z)) (g y z))"
  by (simp add: median_opt_def exch_def list_update_numeral Let_def)

text \<open>How many of the elements reach a bound decides whether the element at a rank does.\<close>

lemma sorted_rank:
  "sorted ys \<Longrightarrow> k < length ys \<Longrightarrow> (t \<le> ys ! k) = (length ys - k \<le> length (filter (\<lambda>x. t \<le> x) ys))" for t :: int
proof (induction ys arbitrary: k)
  case (Cons y ys)
  show ?case
  proof (cases "t \<le> y")
    case True
    then have "filter (\<lambda>x. t \<le> x) ys = ys" using Cons.prems(1) by (intro filter_True) force
    moreover have "t \<le> (y # ys) ! k"
    proof -
      have "(y # ys) ! k \<in> insert y (set ys)" using nth_mem [OF Cons.prems(2)] by simp
      then show ?thesis using True Cons.prems(1) by auto
    qed
    ultimately show ?thesis using True by simp
  next
    case False
    show ?thesis
    proof (cases k)
      case 0
      have "length (filter (\<lambda>x. t \<le> x) ys) \<le> length ys" by (rule length_filter_le)
      then have "\<not> Suc (length ys) \<le> length (filter (\<lambda>x. t \<le> x) ys)" by linarith
      then show ?thesis using False 0 by simp
    next
      case (Suc m)
      then show ?thesis using False Cons by simp
    qed
  qed
qed simp

lemma count_nine:
  fixes p q r :: bool
  shows "(5 \<le> (of_bool a + of_bool b + of_bool c + of_bool d + of_bool e + of_bool h + of_bool i + of_bool j + of_bool k :: nat)) =
    (let l1 = (a \<and> b \<and> c); m1 = ((a \<or> b \<and> c) \<and> (b \<or> c)); u1 = ((a \<or> b \<and> c) \<or> (b \<or> c));
         l2 = (d \<and> e \<and> h); m2 = ((d \<or> e \<and> h) \<and> (e \<or> h)); u2 = ((d \<or> e \<and> h) \<or> (e \<or> h));
         l3 = (i \<and> j \<and> k); m3 = ((i \<or> j \<and> k) \<and> (j \<or> k)); u3 = ((i \<or> j \<and> k) \<or> (j \<or> k));
         x = ((l1 \<or> l2) \<or> l3); y = ((m1 \<or> (m2 \<and> m3)) \<and> (m2 \<or> m3)); z = (u1 \<and> (u2 \<and> u3))
     in (x \<or> (y \<and> z)) \<and> (y \<or> z))"
proof -
  have three: "(of_bool a + of_bool b + of_bool c :: nat) = of_bool (a \<and> b \<and> c) + of_bool ((a \<or> b \<and> c) \<and> (b \<or> c)) + of_bool ((a \<or> b \<and> c) \<or> (b \<or> c))"
    for a b c by (cases a; cases b; cases c) simp_all
  have chain: "(a \<and> b \<and> c \<longrightarrow> (a \<or> b \<and> c) \<and> (b \<or> c)) \<and> ((a \<or> b \<and> c) \<and> (b \<or> c) \<longrightarrow> (a \<or> b \<and> c) \<or> (b \<or> c))" for a b c by blast
  have key: "(5 \<le> (of_bool l1 + of_bool m1 + of_bool u1 + (of_bool l2 + of_bool m2 + of_bool u2) + (of_bool l3 + of_bool m3 + of_bool u3) :: nat))
    = (((l1 \<or> l2) \<or> l3 \<or> (((m1 \<or> (m2 \<and> m3)) \<and> (m2 \<or> m3)) \<and> (u1 \<and> u2 \<and> u3))) \<and> ((((m1 \<or> (m2 \<and> m3)) \<and> (m2 \<or> m3))) \<or> (u1 \<and> u2 \<and> u3)))"
    if "(l1 \<longrightarrow> m1) \<and> (m1 \<longrightarrow> u1)" "(l2 \<longrightarrow> m2) \<and> (m2 \<longrightarrow> u2)" "(l3 \<longrightarrow> m3) \<and> (m3 \<longrightarrow> u3)" for l1 m1 u1 l2 m2 u2 l3 m3 u3
    using that by (cases u1; cases u2; cases u3; cases m1; cases m2; cases m3; cases l1; cases l2; cases l3) simp_all
  have "(of_bool a + of_bool b + of_bool c + of_bool d + of_bool e + of_bool h + of_bool i + of_bool j + of_bool k :: nat)
    = (of_bool a + of_bool b + of_bool c) + (of_bool d + of_bool e + of_bool h) + (of_bool i + of_bool j + of_bool k)" by simp
  then show ?thesis
    apply (simp only:)
    unfolding three [of a b c] three [of d e h] three [of i j k] key [OF chain chain chain] Let_def by (simp only: disj_assoc)
qed

lemma list_of_nine:
  assumes "length xs = 9"
  shows "\<exists>a b c d e f g h i. xs = [a, b, c, d, e, f, g, h, i]"
  using assms by (auto simp: numeral_eq_Suc length_Suc_conv)

text \<open>
  C23: The nineteen exchanges of \<open>median_filter\<close> leave the median of nine values in the middle: the
  fifth in sorted order.
\<close>

theorem median9_median:
  assumes "length xs = 9"
  shows "median9 xs = sort xs ! 4"
proof -
  obtain a b c d e f g h i where xs: "xs = [a, b, c, d, e, f, g, h, i]" using list_of_nine [OF assms] by blast
  have "(t \<le> median9 xs) = (t \<le> sort xs ! 4)" for t
  proof -
    have "(t \<le> sort xs ! 4) = (5 \<le> length (filter (\<lambda>x. t \<le> x) xs))"
      using sorted_rank [of "sort xs" 4 t] assms by (simp add: filter_sort)
    also have "length (filter (\<lambda>x. t \<le> x) xs) = of_bool (t \<le> a) + of_bool (t \<le> b) + of_bool (t \<le> c) + of_bool (t \<le> d) + of_bool (t \<le> e)
      + of_bool (t \<le> f) + of_bool (t \<le> g) + of_bool (t \<le> h) + of_bool (t \<le> i)" by (simp add: xs)
    finally show ?thesis
      unfolding count_nine median9_def exchange_exch xs network_triples Let_def min.bounded_iff le_max_iff_disj by simp
  qed
  then show ?thesis by (meson order_antisym order_refl)
qed

theorem median9_median_witness: "median9 [3, 1, 4, 1, 5, 9, 2, 6, 5] = 4"
  using median9_median [of "[3, 1, 4, 1, 5, 9, 2, 6, 5]"] by simp

end
