(* ===== verification/Ahd.thy ===== *)
theory Ahd
  imports ScaleColors Interpolate
begin

text \<open>
  \<open>ahd_interpolate\<close>, the interpolation dcraw uses by default, and the conversion to CIELab by which it
  chooses a direction. The image is done in tiles of 512 by 512 pixels; in a tile the green of every pixel
  is guessed along its row and along its column, red and blue follow, and the direction in whose
  neighbourhood the colours differ less gives the result. The tiles that OpenMP gives to threads are
  done one after the other here.
\<close>

section \<open>CIELab\<close>

text \<open>The tables \<open>cbrt\<close> and \<open>xyz_cam\<close>, cell by cell; \<open>d65_white\<close>.\<close>

definition cbrt_cell :: "fp_ops \<Rightarrow> int \<Rightarrow> real_c" where
  "cbrt_cell fp i =
     (let r = as_float fp (Quotient (Of_int i) (Decimal ''65535.0''))
      in as_float fp (if fp_less fp (Decimal ''0.008856'') r then Pow r (Quotient One (Decimal ''3.0''))
           else Sum (Product (Decimal ''7.787'') r) (Quotient (Of_int 16) (Decimal ''116.0''))))"

definition d65_white :: "fp_ops \<Rightarrow> real_c list" where
  "d65_white fp = [as_float fp (Decimal ''0.950456''), One, as_float fp (Decimal ''1.088754'')]"

definition xyz_cam :: "fp_ops \<Rightarrow> meta \<Rightarrow> int \<Rightarrow> nat \<Rightarrow> nat \<Rightarrow> real_c" where
  "xyz_cam fp s n i j =
     (if int j < n
      then fold (\<lambda>k a. as_float fp (Sum a (Quotient (Product (xyz_rgb s ! (3 * i + k)) (rgb_cam s ! (4 * k + j))) (d65_white fp ! i)))) [0..<3] (Of_int 0)
      else Of_int 0)"

text \<open>The three numbers of type \<open>short\<close> of a colour.\<close>

definition cielab :: "fp_ops \<Rightarrow> (nat \<Rightarrow> nat \<Rightarrow> real_c) \<Rightarrow> int list \<Rightarrow> int list" where
  "cielab fp xc rgb =
     (let xyz = (\<lambda>i. fold (\<lambda>c a. as_float fp (Sum a (Product (xc i c) (Of_int (rgb ! c))))) [0..<length rgb] (as_float fp (Decimal ''0.5'')));
          root = (\<lambda>i. cbrt_cell fp (CLIP (fp_int fp (xyz i))))
      in [fp_int fp (Product (Of_int 64) (Minus (Product (Of_int 116) (root 1)) (Of_int 16))),
          fp_int fp (Product (Of_int 32000) (Minus (root 0) (root 1))),
          fp_int fp (Product (Of_int 12800) (Minus (root 1) (root 2)))])"

section \<open>A tile\<close>

text \<open>
  The buffer: two images of three samples, their CIELab images (signed), and two maps. \<open>tile_at\<close> is the
  index of a sample.
\<close>

abbreviation TS :: int where
  "TS \<equiv> 512"

record tile =
  tile_rgb :: "u16 list"
  tile_lab :: "u16 list"
  tile_homo :: "u8 list"

definition tile_at :: "int \<Rightarrow> int \<Rightarrow> int \<Rightarrow> int \<Rightarrow> int" where
  "tile_at d r c k = ((d * TS + r) * TS + c) * 3 + k"

definition homo_at :: "int \<Rightarrow> int \<Rightarrow> int \<Rightarrow> int" where
  "homo_at d r c = (d * TS + r) * TS + c"

definition set_rgb :: "int \<Rightarrow> int \<Rightarrow> tile \<Rightarrow> tile option" where
  "set_rgb k v b = do { xs \<leftarrow> wr (tile_rgb b) k v; Some (b\<lparr>tile_rgb := xs\<rparr>) }"

text \<open>Green, from the row (image 0) and the column (image 1).\<close>

definition ahd_guess :: "dst \<Rightarrow> int \<Rightarrow> int \<Rightarrow> int \<Rightarrow> int option" where
  "ahd_guess s pix c d = do {
     a \<leftarrow> PIX s pix (- d) 1; x0 \<leftarrow> PIX s pix 0 c; b \<leftarrow> PIX s pix d 1; x1 \<leftarrow> PIX s pix (-2 * d) c; x2 \<leftarrow> PIX s pix (2 * d) c;
     Some (ULIM_c (shr ((a + x0 + b) * 2 - x1 - x2) 2) a b) }"

definition ahd_green :: "geom \<Rightarrow> dst \<Rightarrow> int \<Rightarrow> int \<Rightarrow> tile \<Rightarrow> tile option" where
  "ahd_green g s ty tx = for_up ty (min (ty + TS) (height g - 2)) (\<lambda>row b.
     let col0 = tx + (FC (filters s) row tx AND 1); c = FC (filters s) row col0
     in for_by 2 col0 (min (tx + TS) (width g - 2)) (\<lambda>col b. do {
          v \<leftarrow> ahd_guess s (row * width g + col) c 1;
          b \<leftarrow> set_rgb (tile_at 0 (row - ty) (col - tx) 1) v b;
          v \<leftarrow> ahd_guess s (row * width g + col) c (width g);
          set_rgb (tile_at 1 (row - ty) (col - tx) 1) v b }) b)"

text \<open>
  Red and blue: at a green pixel one of them (\<open>2 - c\<close>) has its neighbours in the row and the other in the
  column; elsewhere the missing one has them at the corners. The last is the measured sample itself.
\<close>

definition ahd_beside :: "dst \<Rightarrow> tile \<Rightarrow> int \<Rightarrow> int \<Rightarrow> int \<Rightarrow> int \<Rightarrow> int \<Rightarrow> int option" where
  "ahd_beside s b pix d k i dk = do {
     g0 \<leftarrow> PIX s pix 0 1;
     x \<leftarrow> PIX s pix (- d) k; y \<leftarrow> PIX s pix d k;
     p \<leftarrow> rd (tile_rgb b) (i - dk); q \<leftarrow> rd (tile_rgb b) (i + dk);
     Some (CLIP (g0 + shr (x + y - p - q) 1)) }"

definition ahd_corners :: "dst \<Rightarrow> tile \<Rightarrow> int \<Rightarrow> int \<Rightarrow> int \<Rightarrow> int \<Rightarrow> int option" where
  "ahd_corners s b pix w k i = do {
     g0 \<leftarrow> rd (tile_rgb b) i;
     x0 \<leftarrow> PIX s pix (- w - 1) k; x1 \<leftarrow> PIX s pix (- w + 1) k; x2 \<leftarrow> PIX s pix (w - 1) k; x3 \<leftarrow> PIX s pix (w + 1) k;
     y0 \<leftarrow> rd (tile_rgb b) (i - 3 * TS - 3); y1 \<leftarrow> rd (tile_rgb b) (i - 3 * TS + 3);
     y2 \<leftarrow> rd (tile_rgb b) (i + 3 * TS - 3); y3 \<leftarrow> rd (tile_rgb b) (i + 3 * TS + 3);
     Some (CLIP (g0 + shr (x0 + x1 + x2 + x3 - y0 - y1 - y2 - y3 + 1) 2)) }"

definition ahd_colours :: "geom \<Rightarrow> dst \<Rightarrow> int \<Rightarrow> int \<Rightarrow> int \<Rightarrow> int \<Rightarrow> int \<Rightarrow> tile \<Rightarrow> tile option" where
  "ahd_colours g s d ty tx row col b = do {
     let pix = row * width g + col;
     let at0 = tile_at d (row - ty) (col - tx);
     b \<leftarrow> (if FC (filters s) row col = 1 then do {
              let c = FC (filters s) (row + 1) col;
              v \<leftarrow> ahd_beside s b pix 1 (2 - c) (at0 1) 3;
              b \<leftarrow> set_rgb (at0 (2 - c)) v b;
              v \<leftarrow> ahd_beside s b pix (width g) c (at0 1) (3 * TS);
              set_rgb (at0 c) v b }
            else do {
              let c = 2 - FC (filters s) row col;
              v \<leftarrow> ahd_corners s b pix (width g) c (at0 1);
              set_rgb (at0 c) v b });
     let c = FC (filters s) row col;
     v \<leftarrow> PIX s pix 0 c;
     set_rgb (at0 c) v b }"

definition ahd_lab :: "fp_ops \<Rightarrow> (nat \<Rightarrow> nat \<Rightarrow> real_c) \<Rightarrow> int \<Rightarrow> tile \<Rightarrow> tile option" where
  "ahd_lab fp xc i b = do {
     r \<leftarrow> rd (tile_rgb b) i; g \<leftarrow> rd (tile_rgb b) (i + 1); u \<leftarrow> rd (tile_rgb b) (i + 2);
     let lab = cielab fp xc [r, g, u];
     xs \<leftarrow> for_up 0 3 (\<lambda>k xs. do { v \<leftarrow> at lab k; wr xs (i + k) v }) (tile_lab b);
     Some (b\<lparr>tile_lab := xs\<rparr>) }"

definition ahd_red_blue :: "fp_ops \<Rightarrow> (nat \<Rightarrow> nat \<Rightarrow> real_c) \<Rightarrow> geom \<Rightarrow> dst \<Rightarrow> int \<Rightarrow> int \<Rightarrow> tile \<Rightarrow> tile option" where
  "ahd_red_blue fp xc g s ty tx =
     for_up 0 2 (\<lambda>d. for_up (ty + 1) (min (ty + TS - 1) (height g - 3)) (\<lambda>row.
       for_up (tx + 1) (min (tx + TS - 1) (width g - 3)) (\<lambda>col b. do {
         b \<leftarrow> ahd_colours g s d ty tx row col b;
         ahd_lab fp xc (tile_at d (row - ty) (col - tx) 0) b })))"

text \<open>The differences to the four neighbours; \<open>abdiff\<close> is unsigned and its squares may wrap around.\<close>

definition ahd_dirs :: "int list" where
  "ahd_dirs = [-1, 1, - TS, TS]"

definition ahd_diffs :: "tile \<Rightarrow> int \<Rightarrow> (int \<times> int) list option" where
  "ahd_diffs b i = for_up 0 4 (\<lambda>k ds. do {
     o1 \<leftarrow> at ahd_dirs k;
     let j = i + 3 * o1;
     l0 \<leftarrow> rds (tile_lab b) i; l1 \<leftarrow> rds (tile_lab b) j;
     a0 \<leftarrow> rds (tile_lab b) (i + 1); a1 \<leftarrow> rds (tile_lab b) (j + 1);
     b0 \<leftarrow> rds (tile_lab b) (i + 2); b1 \<leftarrow> rds (tile_lab b) (j + 2);
     Some (ds @ [(\<bar>l0 - l1\<bar>, c_u32 ((a0 - a1) * (a0 - a1) + (b0 - b1) * (b0 - b1)))]) }) []"

definition ahd_limit :: "(int \<times> int \<Rightarrow> int) \<Rightarrow> (int \<times> int) list \<Rightarrow> (int \<times> int) list \<Rightarrow> int" where
  "ahd_limit f ds0 ds1 = min (max (f (ds0 ! 0)) (f (ds0 ! 1))) (max (f (ds1 ! 2)) (f (ds1 ! 3)))"

definition ahd_homo_pixel :: "int \<Rightarrow> int \<Rightarrow> tile \<Rightarrow> tile option" where
  "ahd_homo_pixel tr tc b = do {
     ds0 \<leftarrow> ahd_diffs b (tile_at 0 tr tc 0);
     ds1 \<leftarrow> ahd_diffs b (tile_at 1 tr tc 0);
     let leps = ahd_limit fst ds0 ds1;
     let abeps = ahd_limit snd ds0 ds1;
     let near = (\<lambda>ds. int (length (filter (\<lambda>(l, ab). l \<le> leps \<and> ab \<le> abeps) ds)));
     h \<leftarrow> rd (tile_homo b) (homo_at 0 tr tc);
     xs \<leftarrow> wr (tile_homo b) (homo_at 0 tr tc) (h + near ds0);
     h \<leftarrow> rd xs (homo_at 1 tr tc);
     xs \<leftarrow> wr xs (homo_at 1 tr tc) (h + near ds1);
     Some (b\<lparr>tile_homo := xs\<rparr>) }"

definition ahd_homo :: "geom \<Rightarrow> int \<Rightarrow> int \<Rightarrow> tile \<Rightarrow> tile option" where
  "ahd_homo g ty tx b =
     for_up (ty + 2) (min (ty + TS - 2) (height g - 4)) (\<lambda>row. for_up (tx + 2) (min (tx + TS - 2) (width g - 4)) (\<lambda>col.
       ahd_homo_pixel (row - ty) (col - tx))) (b\<lparr>tile_homo := zeros (2 * TS * TS)\<rparr>)"

definition ahd_sum :: "tile \<Rightarrow> int \<Rightarrow> int \<Rightarrow> int \<Rightarrow> int option" where
  "ahd_sum b d tr tc = for_up (tr - 1) (tr + 2) (\<lambda>i. for_up (tc - 1) (tc + 2) (\<lambda>j hm. do {
     h \<leftarrow> rd (tile_homo b) (homo_at d i j);
     Some (hm + h) })) 0"

definition ahd_pick :: "geom \<Rightarrow> tile \<Rightarrow> int \<Rightarrow> int \<Rightarrow> int \<Rightarrow> int \<Rightarrow> dst \<Rightarrow> dst option" where
  "ahd_pick g b ty tx row col s = do {
     let tr = row - ty;
     let tc = col - tx;
     h0 \<leftarrow> ahd_sum b 0 tr tc;
     h1 \<leftarrow> ahd_sum b 1 tr tc;
     for_up 0 3 (\<lambda>c s. do {
       x \<leftarrow> rd (tile_rgb b) (tile_at 0 tr tc c);
       y \<leftarrow> rd (tile_rgb b) (tile_at 1 tr tc c);
       set_IMG (row * width g + col) c (if h1 > h0 then y else if h0 > h1 then x else shr (x + y) 1) s }) s }"

definition ahd_combine :: "geom \<Rightarrow> tile \<Rightarrow> int \<Rightarrow> int \<Rightarrow> dst \<Rightarrow> dst option" where
  "ahd_combine g b ty tx =
     for_up (ty + 3) (min (ty + TS - 3) (height g - 5)) (\<lambda>row. for_up (tx + 3) (min (tx + TS - 3) (width g - 5)) (\<lambda>col.
       ahd_pick g b ty tx row col))"

definition ahd_tile :: "fp_ops \<Rightarrow> (nat \<Rightarrow> nat \<Rightarrow> real_c) \<Rightarrow> geom \<Rightarrow> int \<Rightarrow> int \<Rightarrow> tile \<times> dst \<Rightarrow> (tile \<times> dst) option" where
  "ahd_tile fp xc g ty tx = (\<lambda>(b, s). do {
     b \<leftarrow> ahd_green g s ty tx b;
     b \<leftarrow> ahd_red_blue fp xc g s ty tx b;
     b \<leftarrow> ahd_homo g ty tx b;
     s \<leftarrow> ahd_combine g b ty tx s;
     Some (b, s) })"

definition ahd_interpolate :: "fp_ops \<Rightarrow> meta \<Rightarrow> meta option" where
  "ahd_interpolate fp s = do {
     let g = tg s;
     t \<leftarrow> border_interpolate g 5 (td s);
     let b = \<lparr>tile_rgb = uninit g (6 * TS * TS), tile_lab = uninit g (6 * TS * TS), tile_homo = uninit g (2 * TS * TS)\<rparr>;
     (_, t) \<leftarrow> for_by (TS - 6) 2 (height g - 5) (\<lambda>ty. for_by (TS - 6) 2 (width g - 5) (\<lambda>tx.
       ahd_tile fp (xyz_cam fp s (colors t)) g ty tx)) (b, t);
     Some (s\<lparr>td := t\<rparr>) }"


section \<open>The measured samples\<close>

text \<open>Loops whose rounds each deal with a set of places.\<close>

lemma for_by_cover:
  assumes "0 < k" "I S s" "\<And>j t S. i \<le> j \<Longrightarrow> j < n \<Longrightarrow> I S t \<Longrightarrow> ok (f j t) (I (S \<union> A j))"
  shows "ok (for_by k i n f s) (I (S \<union> (\<Union>j \<in> {j. i \<le> j \<and> j < n \<and> (j - i) mod k = 0}. A j)))"
  using assms
proof (induction k i n f s arbitrary: S rule: for_by.induct)
  case (1 k i n f s)
  show ?case
  proof (cases "i < n")
    case True
    have split: "{j. i \<le> j \<and> j < n \<and> (j - i) mod k = 0} = insert i {j. i + k \<le> j \<and> j < n \<and> (j - (i + k)) mod k = 0}"
    proof (intro set_eqI iffI)
      fix j
      assume "j \<in> {j. i \<le> j \<and> j < n \<and> (j - i) mod k = 0}"
      then have j: "i \<le> j" "j < n" "k dvd j - i" by auto
      have "i = j \<or> i + k \<le> j" using zdvd_imp_le [OF j(3)] j(1) by force
      moreover have "k dvd j - (i + k)" using j(3) by (metis diff_diff_eq dvd_diff_commute dvd_minus_iff dvd_refl dvd_diff)
      ultimately show "j \<in> insert i {j. i + k \<le> j \<and> j < n \<and> (j - (i + k)) mod k = 0}" using j by auto
    next
      fix j
      assume "j \<in> insert i {j. i + k \<le> j \<and> j < n \<and> (j - (i + k)) mod k = 0}"
      then have "j = i \<or> i + k \<le> j \<and> j < n \<and> k dvd j - (i + k)" by auto
      moreover have "k dvd j - i" if "k dvd j - (i + k)" using dvd_add [OF that dvd_refl] by simp
      ultimately show "j \<in> {j. i \<le> j \<and> j < n \<and> (j - i) mod k = 0}" using True \<open>0 < k\<close> by auto
    qed
    obtain t where t: "f i s = Some t" "I (S \<union> A i) t"
      using 1(4) [of i S s] 1(3) True by (auto simp: ok_exists)
    have "ok (for_by k (i + k) n f t) (I ((S \<union> A i) \<union> (\<Union>j \<in> {j. i + k \<le> j \<and> j < n \<and> (j - (i + k)) mod k = 0}. A j)))"
      using 1(1) [OF _ t(1) 1(2) t(2)] True 1(2) 1(4) by force
    then show ?thesis using t(1) True 1(2) unfolding split by (subst for_by.simps) (simp add: Un_assoc)
  next
    case False
    then have e: "{j. i \<le> j \<and> j < n \<and> (j - i) mod k = 0} = {}" by auto
    show ?thesis unfolding e using False 1(3) by (subst for_by.simps) simp
  qed
qed

lemma for_up_cover:
  assumes "I S s" "\<And>j t S. i \<le> j \<Longrightarrow> j < n \<Longrightarrow> I S t \<Longrightarrow> ok (f j t) (I (S \<union> A j))"
  shows "ok (for_up i n f s) (I (S \<union> (\<Union>j \<in> {i..<n}. A j)))"
proof -
  have "{j. i \<le> j \<and> j < n \<and> (j - i) mod 1 = 0} = {i..<n}" by auto
  then show ?thesis using for_by_cover [where k = 1 and I = I and A = A and i = i and n = n, OF _ assms] by simp
qed

text \<open>The image and the buffer.\<close>

definition image_ok :: "geom \<Rightarrow> dst \<Rightarrow> bool" where
  "image_ok g s \<longleftrightarrow> int (length (img s)) = 4 * (height g * width g) \<and> 0 \<le> width g \<and> (\<forall>r c. FC (filters s) r c \<le> 2)"

definition tile_ok :: "tile \<Rightarrow> bool" where
  "tile_ok b \<longleftrightarrow> length (tile_rgb b) = 1572864 \<and> length (tile_lab b) = 1572864 \<and> length (tile_homo b) = 524288"

lemma ok_PIX:
  assumes "image_ok g s" "pix + d = r * width g + c" "0 \<le> r" "r < height g" "0 \<le> c" "c < width g" "0 \<le> k" "k < 4"
    and "\<And>v. IMG s (r * width g + c) k = Some v \<Longrightarrow> 0 \<le> v \<Longrightarrow> v < 65536 \<Longrightarrow> Q v"
  shows "ok (PIX s pix d k) Q"
proof -
  have "inb (img s) (4 * (r * width g + c) + k)"
    using assms(1,7,8) cell_bound [OF assms(3-6)] by (auto simp: image_ok_def inb_def)
  then show ?thesis using assms(2) by (auto simp: PIX_def IMG_def intro!: ok_rd assms(9)) (auto simp: rd_def)
qed

lemma ok_tile_rd:
  assumes "tile_ok b" "0 \<le> i" "i < 1572864" "\<And>v. rd (tile_rgb b) i = Some v \<Longrightarrow> 0 \<le> v \<Longrightarrow> v < 65536 \<Longrightarrow> Q v"
  shows "ok (rd (tile_rgb b) i) Q"
  using assms by (auto simp: tile_ok_def inb_def intro!: ok_rd) (auto simp: rd_def inb_def)

lemma ok_set_rgb:
  assumes "tile_ok b" "0 \<le> i" "i < 1572864" "0 \<le> v" "v < 65536"
    and "\<And>b'. tile_ok b' \<Longrightarrow> rd (tile_rgb b') i = Some v \<Longrightarrow> (\<And>j. j \<noteq> i \<Longrightarrow> rd (tile_rgb b') j = rd (tile_rgb b) j) \<Longrightarrow> Q b'"
  shows "ok (set_rgb i v b) Q"
proof -
  have "inb (tile_rgb b) i" using assms(1-3) by (simp add: tile_ok_def inb_def)
  then obtain xs where xs: "wr (tile_rgb b) i v = Some xs" by (simp add: wr_def)
  have "length xs = length (tile_rgb b)" using xs by (auto simp: wr_def split: if_splits)
  moreover have "rd xs i = Some v" using assms(4,5) rd_wr_same [OF xs] by (simp add: take_bit_int_eq_self)
  moreover have "\<And>j. j \<noteq> i \<Longrightarrow> rd xs j = rd (tile_rgb b) j" using rd_wr_other [OF xs] by metis
  ultimately have "Q (b\<lparr>tile_rgb := xs\<rparr>)" using assms(1) by (intro assms(6)) (auto simp: tile_ok_def)
  then show ?thesis by (simp add: set_rgb_def xs)
qed

lemma tile_at_bounds:
  assumes "0 \<le> d" "d < 2" "0 \<le> r" "r < TS" "0 \<le> c" "c < TS" "0 \<le> k" "k < 3"
  shows "0 \<le> tile_at d r c k" "tile_at d r c k < 1572864"
  using assms by (simp_all add: tile_at_def)

lemma tile_at_parts:
  assumes "0 \<le> r" "r < TS" "0 \<le> c" "c < TS" "0 \<le> k" "k < 3"
  shows "tile_at d r c k mod 3 = k" "tile_at d r c k div 3 mod TS = c" "tile_at d r c k div 3 div TS mod TS = r"
    "tile_at d r c k div 3 div TS div TS = d"
proof -
  have dm: "(x * n + j) div n = x \<and> (x * n + j) mod n = j" if "0 \<le> j" "j < n" for x n j :: int
    using that by simp
  show "tile_at d r c k mod 3 = k" "tile_at d r c k div 3 mod TS = c" "tile_at d r c k div 3 div TS mod TS = r"
    "tile_at d r c k div 3 div TS div TS = d"
    unfolding tile_at_def by (simp_all only: dm [OF assms(5,6)] dm [OF assms(3,4)] dm [OF assms(1,2)])
qed

lemma tile_at_inj:
  assumes "tile_at d r c k = tile_at d' r' c' k'" "0 \<le> r" "r < TS" "0 \<le> c" "c < TS" "0 \<le> k" "k < 3"
    and "0 \<le> r'" "r' < TS" "0 \<le> c'" "c' < TS" "0 \<le> k'" "k' < 3"
  shows "d = d' \<and> r = r' \<and> c = c' \<and> k = k'"
  using tile_at_parts [OF assms(2-7), of d] tile_at_parts [OF assms(8-13), of d'] assms(1) by metis

text \<open>The guesses.\<close>

lemma PIX_val:
  assumes "image_ok g s" "pix + d = r * width g + c" "0 \<le> r" "r < height g" "0 \<le> c" "c < width g" "0 \<le> k" "k < 4"
  obtains v where "PIX s pix d k = Some v" "0 \<le> v" "v < 65536"
  using ok_PIX [OF assms, of "\<lambda>v. 0 \<le> v \<and> v < 65536"] by (auto simp: ok_exists)

lemma ahd_guess_ok:
  assumes "image_ok g s" "0 \<le> c" "c \<le> 2" "2 \<le> row" "row + 2 < height g" "2 \<le> col" "col + 2 < width g"
    and "d = 1 \<or> d = width g"
  shows "ok (ahd_guess s (row * width g + col) c d) (\<lambda>v. 0 \<le> v \<and> v < 65536)"
proof -
  define dr where "dr = (if d = 1 then 0 else 1 :: int)"
  define dc where "dc = (if d = 1 then 1 else 0 :: int)"
  have d: "d = dr * width g + dc" "0 \<le> dr" "dr \<le> 1" "0 \<le> dc" "dc \<le> 1" using assms(8) by (auto simp: dr_def dc_def)
  have pix: "\<exists>v. PIX s (row * width g + col) (m * d) k = Some v \<and> 0 \<le> v \<and> v < 65536" if "\<bar>m\<bar> \<le> 2" "0 \<le> k" "k < 4" for m k
  proof (rule PIX_val [OF assms(1), where r = "row + m * dr" and c = "col + m * dc"])
    show "row * width g + col + m * d = (row + m * dr) * width g + (col + m * dc)" by (simp add: d(1) algebra_simps)
    have "\<bar>m * dr\<bar> \<le> 2 * 1" "\<bar>m * dc\<bar> \<le> 2 * 1" unfolding abs_mult using that d by (intro mult_mono; simp)+
    then show "0 \<le> row + m * dr" "row + m * dr < height g" "0 \<le> col + m * dc" "col + m * dc < width g" using assms(4-7) by auto
  qed (use that in auto)
  obtain a where a: "PIX s (row * width g + col) (- d) 1 = Some a" "0 \<le> a" "a < 65536" using pix [of "- 1" 1] by auto
  obtain b where b: "PIX s (row * width g + col) d 1 = Some b" "0 \<le> b" "b < 65536" using pix [of 1 1] by auto
  obtain x0 where x0: "PIX s (row * width g + col) 0 c = Some x0" using pix [of 0 c] assms(2,3) by auto
  obtain x1 where x1: "PIX s (row * width g + col) (- 2 * d) c = Some x1" using pix [of "- 2" c] assms(2,3) by auto
  obtain x2 where x2: "PIX s (row * width g + col) (2 * d) c = Some x2" using pix [of 2 c] assms(2,3) by auto
  have "0 \<le> ULIM_c z a b \<and> ULIM_c z a b < 65536" for z using a b ULIM_c_between [of a b z] by auto
  then show ?thesis using a(1) b(1) x0 x1 x2 by (simp add: ahd_guess_def)
qed

lemma ok_imp: "ok m P \<Longrightarrow> (\<And>x. P x \<Longrightarrow> Q x) \<Longrightarrow> ok m Q"
  by (cases m) auto

lemma CLIP_u16: "0 \<le> CLIP x \<and> CLIP x < 65536"
  using CLIP_bounds [of x] by linarith

lemma ahd_green_ok:
  assumes "image_ok g s" "2 \<le> ty" "2 \<le> tx" "tile_ok b"
  shows "ok (ahd_green g s ty tx b) tile_ok"
  unfolding ahd_green_def Let_def
proof (rule for_by_wp [where I = tile_ok])
  fix row b
  assume row: "ty \<le> row" "row < min (ty + TS) (height g - 2)" and b: "tile_ok b"
  let ?c0 = "tx + (FC (filters s) row tx AND 1)"
  have c0: "tx \<le> ?c0" by simp
  have fc: "0 \<le> FC (filters s) row ?c0" "FC (filters s) row ?c0 \<le> 2" using assms(1) by (auto simp: image_ok_def)
  show "ok (for_by 2 ?c0 (min (tx + TS) (width g - 2)) (\<lambda>col b. do {
      v \<leftarrow> ahd_guess s (row * width g + col) (FC (filters s) row ?c0) 1;
      b \<leftarrow> set_rgb (tile_at 0 (row - ty) (col - tx) 1) v b;
      v \<leftarrow> ahd_guess s (row * width g + col) (FC (filters s) row ?c0) (width g);
      set_rgb (tile_at 1 (row - ty) (col - tx) 1) v b }) b) tile_ok"
  proof (rule for_by_wp [where I = tile_ok])
    fix col b
    assume col: "?c0 \<le> col" "col < min (tx + TS) (width g - 2)" and b: "tile_ok b"
    have tx: "tx \<le> col" using c0 col(1) by (rule order_trans)
    have guess: "ok (ahd_guess s (row * width g + col) (FC (filters s) row ?c0) d) (\<lambda>v. 0 \<le> v \<and> v < 65536)"
      if "d = 1 \<or> d = width g" for d
      using row col(2) tx assms(2,3) that by (intro ahd_guess_ok [OF assms(1) fc]) auto
    have place: "0 \<le> tile_at k (row - ty) (col - tx) 1" "tile_at k (row - ty) (col - tx) 1 < 1572864" if "k = 0 \<or> k = 1" for k
      using tile_at_bounds [of k "row - ty" "col - tx" 1] row col(2) tx that by auto
    show "ok (do {
        v \<leftarrow> ahd_guess s (row * width g + col) (FC (filters s) row ?c0) 1;
        b \<leftarrow> set_rgb (tile_at 0 (row - ty) (col - tx) 1) v b;
        v \<leftarrow> ahd_guess s (row * width g + col) (FC (filters s) row ?c0) (width g);
        set_rgb (tile_at 1 (row - ty) (col - tx) 1) v b }) tile_ok"
    proof (rule ok_bind, rule ok_imp [OF guess])
      fix v :: int
      assume v: "0 \<le> v \<and> v < 65536"
      show "ok (do {
          b \<leftarrow> set_rgb (tile_at 0 (row - ty) (col - tx) 1) v b;
          v \<leftarrow> ahd_guess s (row * width g + col) (FC (filters s) row ?c0) (width g);
          set_rgb (tile_at 1 (row - ty) (col - tx) 1) v b }) tile_ok"
      proof (rule ok_bind, rule ok_set_rgb [OF b])
        fix b'
        assume b': "tile_ok b'"
        show "ok (do {
            v \<leftarrow> ahd_guess s (row * width g + col) (FC (filters s) row ?c0) (width g);
            set_rgb (tile_at 1 (row - ty) (col - tx) 1) v b' }) tile_ok"
          by (rule ok_bind, rule ok_imp [OF guess]) (auto intro!: ok_set_rgb [OF b'] place)
      qed (use v place in auto)
    qed simp
  qed (use b in auto)
qed (use assms in auto)

text \<open>Red and blue.\<close>

lemma ahd_beside_ok:
  assumes "image_ok g s" "tile_ok b" "0 \<le> k" "k \<le> 2" "1 \<le> row" "row + 1 < height g" "1 \<le> col" "col + 1 < width g"
    and "d = 1 \<or> d = width g" "0 \<le> i - dk" "i + dk < 1572864" "0 \<le> dk"
  shows "ok (ahd_beside s b (row * width g + col) d k i dk) (\<lambda>v. 0 \<le> v \<and> v < 65536)"
proof -
  let ?p = "row * width g + col"
  obtain g0 where g0: "PIX s ?p 0 1 = Some g0" by (rule PIX_val [OF assms(1), where pix = ?p and d = 0 and r = row and c = col and k = 1]) (use assms in auto)
  have near: "\<exists>v. PIX s ?p (m * d) k = Some v" if "\<bar>m\<bar> \<le> 1" for m
  proof (rule PIX_val [OF assms(1), where r = "row + (if d = 1 then 0 else m)" and c = "col + (if d = 1 then m else 0)"])
    show "?p + m * d = (row + (if d = 1 then 0 else m)) * width g + (col + (if d = 1 then m else 0))"
      using assms(9) by (auto simp: algebra_simps)
  qed (use assms that in auto)
  obtain x where x: "PIX s ?p (- d) k = Some x" using near [of "- 1"] by auto
  obtain y where y: "PIX s ?p d k = Some y" using near [of 1] by auto
  have rgb: "\<exists>v. rd (tile_rgb b) j = Some v" if "0 \<le> j" "j < 1572864" for j
    using assms(2) that by (simp add: tile_ok_def rd_def inb_def)
  obtain p where p: "rd (tile_rgb b) (i - dk) = Some p" using rgb [of "i - dk"] assms(10-12) by auto
  obtain q where q: "rd (tile_rgb b) (i + dk) = Some q" using rgb [of "i + dk"] assms(10-12) by auto
  show ?thesis by (simp add: ahd_beside_def g0 x y p q CLIP_u16)
qed

lemma ahd_corners_ok:
  assumes "image_ok g s" "tile_ok b" "0 \<le> k" "k \<le> 2" "1 \<le> row" "row + 1 < height g" "1 \<le> col" "col + 1 < width g"
    and "0 \<le> i - 3 * TS - 3" "i + 3 * TS + 3 < 1572864"
  shows "ok (ahd_corners s b (row * width g + col) (width g) k i) (\<lambda>v. 0 \<le> v \<and> v < 65536)"
proof -
  let ?p = "row * width g + col"
  have near: "\<exists>v. PIX s ?p (m * width g + n) k = Some v" if "\<bar>m\<bar> \<le> 1" "\<bar>n\<bar> \<le> 1" for m n
  proof (rule PIX_val [OF assms(1), where r = "row + m" and c = "col + n"])
    show "?p + (m * width g + n) = (row + m) * width g + (col + n)" by (simp add: algebra_simps)
  qed (use assms that in auto)
  have rgb: "\<exists>v. rd (tile_rgb b) j = Some v" if "0 \<le> j" "j < 1572864" for j
    using assms(2) that by (simp add: tile_ok_def rd_def inb_def)
  obtain x0 where x0: "PIX s ?p (- width g - 1) k = Some x0" using near [of "- 1" "- 1"] by auto
  obtain x1 where x1: "PIX s ?p (- width g + 1) k = Some x1" using near [of "- 1" 1] by auto
  obtain x2 where x2: "PIX s ?p (width g - 1) k = Some x2" using near [of 1 "- 1"] by auto
  obtain x3 where x3: "PIX s ?p (width g + 1) k = Some x3" using near [of 1 1] by auto
  obtain g0 where g0: "rd (tile_rgb b) i = Some g0" using rgb [of i] assms(9,10) by auto
  obtain y0 where y0: "rd (tile_rgb b) (i - 3 * TS - 3) = Some y0" using rgb [of "i - 3 * TS - 3"] assms(9,10) by auto
  obtain y1 where y1: "rd (tile_rgb b) (i - 3 * TS + 3) = Some y1" using rgb [of "i - 3 * TS + 3"] assms(9,10) by auto
  obtain y2 where y2: "rd (tile_rgb b) (i + 3 * TS - 3) = Some y2" using rgb [of "i + 3 * TS - 3"] assms(9,10) by auto
  obtain y3 where y3: "rd (tile_rgb b) (i + 3 * TS + 3) = Some y3" using rgb [of "i + 3 * TS + 3"] assms(9,10) by auto
  show ?thesis using x0 x1 x2 x3 g0 y0 y1 y2 y3 CLIP_u16 by (simp add: ahd_corners_def)
qed

text \<open>
  What holds of the places \<open>S\<close> (image of the tile, row, column) that are done: the tile has the measured
  sample there.
\<close>

definition has_measured :: "geom \<Rightarrow> dst \<Rightarrow> int \<Rightarrow> int \<Rightarrow> (int \<times> int \<times> int) set \<Rightarrow> tile \<Rightarrow> bool" where
  "has_measured g s ty tx S b \<longleftrightarrow> tile_ok b \<and> (\<forall>(d, r, c) \<in> S. 0 \<le> d \<and> d < 2 \<and> ty \<le> r \<and> r < ty + TS \<and> tx \<le> c \<and> c < tx + TS
     \<and> rd (tile_rgb b) (tile_at d (r - ty) (c - tx) (FC (filters s) r c)) = IMG s (r * width g + c) (FC (filters s) r c))"

lemma has_measured_add:
  assumes "has_measured g s ty tx S b" "tile_ok b'" "0 \<le> d" "d < 2" "ty \<le> row" "row < ty + TS" "tx \<le> col" "col < tx + TS"
    and "image_ok g s"
    and "\<And>j. (\<forall>k \<in> {0, 1, 2}. j \<noteq> tile_at d (row - ty) (col - tx) k) \<Longrightarrow> rd (tile_rgb b') j = rd (tile_rgb b) j"
    and "rd (tile_rgb b') (tile_at d (row - ty) (col - tx) (FC (filters s) row col)) = IMG s (row * width g + col) (FC (filters s) row col)"
  shows "has_measured g s ty tx (S \<union> {(d, row, col)}) b'"
proof -
  have "rd (tile_rgb b') (tile_at d' (r - ty) (c - tx) (FC (filters s) r c)) = rd (tile_rgb b) (tile_at d' (r - ty) (c - tx) (FC (filters s) r c))"
    if "(d', r, c) \<in> S" "(d', r, c) \<noteq> (d, row, col)" for d' r c
  proof (rule assms(10), intro ballI notI)
    fix k :: int
    assume k: "k \<in> {0, 1, 2}" and eq: "tile_at d' (r - ty) (c - tx) (FC (filters s) r c) = tile_at d (row - ty) (col - tx) k"
    have "FC (filters s) r c \<le> 2" using assms(9) by (simp add: image_ok_def)
    then have "d' = d \<and> r - ty = row - ty \<and> c - tx = col - tx \<and> FC (filters s) r c = k"
      using k that(1) assms(1,5-8) by (intro tile_at_inj [OF eq]) (auto simp: has_measured_def)
    then show False using that(2) by simp
  qed
  then show ?thesis using assms(1-8,11) by (fastforce simp: has_measured_def)
qed

text \<open>What a step may leave: the tile outside the pixel at \<open>i\<close> is as before.\<close>

definition only_pixel :: "int \<Rightarrow> tile \<Rightarrow> tile \<Rightarrow> bool" where
  "only_pixel i b b' \<longleftrightarrow> tile_ok b' \<and> (\<forall>j. j < i \<or> i + 2 < j \<longrightarrow> rd (tile_rgb b') j = rd (tile_rgb b) j)"

lemma set_rgb_only:
  assumes "only_pixel i b b1" "0 \<le> i" "i + 2 < 1572864" "0 \<le> k" "k \<le> 2" "0 \<le> v" "v < 65536"
  shows "ok (set_rgb (i + k) v b1) (\<lambda>b2. only_pixel i b b2 \<and> rd (tile_rgb b2) (i + k) = Some v)"
  using assms by (intro ok_set_rgb) (auto simp: only_pixel_def)

lemma ahd_colours_only:
  assumes "image_ok g s" "tile_ok b" "0 \<le> d" "d < 2" "2 \<le> ty" "2 \<le> tx"
    and "ty + 1 \<le> row" "row < ty + TS - 1" "row + 3 < height g" "tx + 1 \<le> col" "col < tx + TS - 1" "col + 3 < width g"
  shows "ok (ahd_colours g s d ty tx row col b) (\<lambda>b'. only_pixel (tile_at d (row - ty) (col - tx) 0) b b'
    \<and> rd (tile_rgb b') (tile_at d (row - ty) (col - tx) (FC (filters s) row col)) = IMG s (row * width g + col) (FC (filters s) row col))"
proof -
  define i where "i = tile_at d (row - ty) (col - tx) 0"
  have at0: "tile_at d (row - ty) (col - tx) k = i + k" for k by (simp add: i_def tile_at_def)
  have i: "3 * TS + 3 \<le> i" "i + 3 * TS + 5 < 1572864" using assms by (simp_all add: i_def tile_at_def)
  have fc: "0 \<le> FC (filters s) r c" "FC (filters s) r c \<le> 2" for r c using assms(1) by (auto simp: image_ok_def)
  have keep: "only_pixel i b b" using assms(2) by (simp add: only_pixel_def)
  have here: "1 \<le> row" "row + 1 < height g" "1 \<le> col" "col + 1 < width g" using assms by auto
  have last: "ok (PIX s (row * width g + col) 0 (FC (filters s) row col) \<bind> (\<lambda>v. set_rgb (i + FC (filters s) row col) v b1))
      (\<lambda>b'. only_pixel i b b' \<and> rd (tile_rgb b') (i + FC (filters s) row col) = IMG s (row * width g + col) (FC (filters s) row col))"
    if "only_pixel i b b1" for b1
  proof (rule ok_bind, rule ok_PIX [OF assms(1), where r = row and c = col])
    fix v
    assume "IMG s (row * width g + col) (FC (filters s) row col) = Some v" "0 \<le> v" "v < 65536"
    then show "ok (set_rgb (i + FC (filters s) row col) v b1)
        (\<lambda>b'. only_pixel i b b' \<and> rd (tile_rgb b') (i + FC (filters s) row col) = IMG s (row * width g + col) (FC (filters s) row col))"
      using set_rgb_only [OF that, of "FC (filters s) row col" v] fc i by auto
  qed (use here fc [of row col] in auto)
  show ?thesis
    unfolding ahd_colours_def Let_def at0 add_0_right
  proof (rule ok_bind, rule ok_if)
    let ?k = "FC (filters s) (row + 1) col"
    have "0 \<le> 2 - ?k" "2 - ?k \<le> 2" "0 \<le> ?k" "?k \<le> 2" using fc by auto
    note ks = this
    show "ok (do {
        v \<leftarrow> ahd_beside s b (row * width g + col) 1 (2 - ?k) (i + 1) 3;
        b \<leftarrow> set_rgb (i + (2 - ?k)) v b;
        v \<leftarrow> ahd_beside s b (row * width g + col) (width g) ?k (i + 1) (3 * TS);
        set_rgb (i + ?k) v b }) (\<lambda>b1. ok (PIX s (row * width g + col) 0 (FC (filters s) row col) \<bind> (\<lambda>v. set_rgb (i + FC (filters s) row col) v b1))
      (\<lambda>b'. only_pixel i b b' \<and> rd (tile_rgb b') (i + FC (filters s) row col) = IMG s (row * width g + col) (FC (filters s) row col)))"
    proof (rule ok_bind, rule ok_imp [OF ahd_beside_ok [OF assms(1,2)]])
      fix v :: int
      assume v: "0 \<le> v \<and> v < 65536"
      show "ok (do {
        b \<leftarrow> set_rgb (i + (2 - ?k)) v b;
        v \<leftarrow> ahd_beside s b (row * width g + col) (width g) ?k (i + 1) (3 * TS);
        set_rgb (i + ?k) v b }) (\<lambda>b1. ok (PIX s (row * width g + col) 0 (FC (filters s) row col) \<bind> (\<lambda>v. set_rgb (i + FC (filters s) row col) v b1))
      (\<lambda>b'. only_pixel i b b' \<and> rd (tile_rgb b') (i + FC (filters s) row col) = IMG s (row * width g + col) (FC (filters s) row col)))"
      proof (rule ok_bind, rule ok_imp [OF set_rgb_only [OF keep]])
        fix b1
        assume b1: "only_pixel i b b1 \<and> rd (tile_rgb b1) (i + (2 - ?k)) = Some v"
        then have t1: "tile_ok b1" by (simp add: only_pixel_def)
        show "ok (do {
          v \<leftarrow> ahd_beside s b1 (row * width g + col) (width g) ?k (i + 1) (3 * TS);
          set_rgb (i + ?k) v b1 }) (\<lambda>b1. ok (PIX s (row * width g + col) 0 (FC (filters s) row col) \<bind> (\<lambda>v. set_rgb (i + FC (filters s) row col) v b1))
          (\<lambda>b'. only_pixel i b b' \<and> rd (tile_rgb b') (i + FC (filters s) row col) = IMG s (row * width g + col) (FC (filters s) row col)))"
        proof (rule ok_bind, rule ok_imp [OF ahd_beside_ok [OF assms(1) t1]])
          fix v :: int
          assume "0 \<le> v \<and> v < 65536"
          then show "ok (set_rgb (i + ?k) v b1) (\<lambda>b1. ok (PIX s (row * width g + col) 0 (FC (filters s) row col) \<bind> (\<lambda>v. set_rgb (i + FC (filters s) row col) v b1))
            (\<lambda>b'. only_pixel i b b' \<and> rd (tile_rgb b') (i + FC (filters s) row col) = IMG s (row * width g + col) (FC (filters s) row col)))"
            using b1 ks i by (intro ok_imp [OF set_rgb_only] last) auto
        qed (use ks here i in auto)
      qed (use ks i v in auto)
    qed (use ks here i in auto)
  next
    let ?k = "2 - FC (filters s) row col"
    have ks: "0 \<le> ?k" "?k \<le> 2" using fc by auto
    show "ok (do {
        v \<leftarrow> ahd_corners s b (row * width g + col) (width g) ?k (i + 1);
        set_rgb (i + ?k) v b }) (\<lambda>b1. ok (PIX s (row * width g + col) 0 (FC (filters s) row col) \<bind> (\<lambda>v. set_rgb (i + FC (filters s) row col) v b1))
      (\<lambda>b'. only_pixel i b b' \<and> rd (tile_rgb b') (i + FC (filters s) row col) = IMG s (row * width g + col) (FC (filters s) row col)))"
    proof (rule ok_bind, rule ok_imp [OF ahd_corners_ok [OF assms(1,2)]])
      fix v :: int
      assume "0 \<le> v \<and> v < 65536"
      then show "ok (set_rgb (i + ?k) v b) (\<lambda>b1. ok (PIX s (row * width g + col) 0 (FC (filters s) row col) \<bind> (\<lambda>v. set_rgb (i + FC (filters s) row col) v b1))
          (\<lambda>b'. only_pixel i b b' \<and> rd (tile_rgb b') (i + FC (filters s) row col) = IMG s (row * width g + col) (FC (filters s) row col)))"
        using ks i by (intro ok_imp [OF set_rgb_only [OF keep]] last) auto
    qed (use ks here i in auto)
  qed
qed

lemma ahd_lab_ok:
  assumes "tile_ok b" "0 \<le> i" "i + 2 < 1572864"
  shows "ok (ahd_lab fp xc i b) (\<lambda>b'. tile_ok b' \<and> tile_rgb b' = tile_rgb b)"
proof -
  have rgb: "\<exists>v. rd (tile_rgb b) (i + k) = Some v" if "0 \<le> k" "k \<le> 2" for k
    using assms that by (simp add: tile_ok_def rd_def inb_def)
  obtain x where x: "rd (tile_rgb b) i = Some x" using rgb [of 0] by auto
  obtain y where y: "rd (tile_rgb b) (i + 1) = Some y" using rgb [of 1] by auto
  obtain z where z: "rd (tile_rgb b) (i + 2) = Some z" using rgb [of 2] by auto
  have loop: "ok (for_up 0 3 (\<lambda>k xs. do { v \<leftarrow> at (cielab fp xc [x, y, z]) k; wr xs (i + k) v }) (tile_lab b)) (\<lambda>xs. length xs = 1572864)"
  proof (rule for_by_wp [where I = "\<lambda>xs. length xs = 1572864"])
    fix k :: int and xs :: "u16 list"
    assume "0 \<le> k" "k < 3" "length xs = 1572864"
    moreover have "length (cielab fp xc [x, y, z]) = 3" by (simp add: cielab_def Let_def)
    ultimately show "ok (do { v \<leftarrow> at (cielab fp xc [x, y, z]) k; wr xs (i + k) v }) (\<lambda>xs. length xs = 1572864)"
      using assms(2,3) by (auto intro!: ok_bind ok_at ok_wr simp: inb_def)
  qed (use assms(1) in \<open>auto simp: tile_ok_def\<close>)
  show ?thesis unfolding ahd_lab_def x y z Let_def bind.bind_lunit
    by (rule ok_bind, rule ok_imp [OF loop]) (use assms(1) in \<open>auto simp: tile_ok_def\<close>)
qed

lemma ahd_step:
  assumes "image_ok g s" "has_measured g s ty tx S b" "0 \<le> d" "d < 2" "2 \<le> ty" "2 \<le> tx"
    and "ty + 1 \<le> row" "row < ty + TS - 1" "row + 3 < height g" "tx + 1 \<le> col" "col < tx + TS - 1" "col + 3 < width g"
  shows "ok (do { b \<leftarrow> ahd_colours g s d ty tx row col b; ahd_lab fp xc (tile_at d (row - ty) (col - tx) 0) b })
    (has_measured g s ty tx (S \<union> {(d, row, col)}))"
proof (rule ok_bind, rule ok_imp [OF ahd_colours_only])
  let ?i = "tile_at d (row - ty) (col - tx) 0" and ?c = "FC (filters s) row col"
  have at0: "tile_at d (row - ty) (col - tx) k = ?i + k" for k by (simp add: tile_at_def)
  have i: "0 \<le> ?i" "?i + 2 < 1572864" using tile_at_bounds [of d "row - ty" "col - tx" 0] tile_at_bounds [of d "row - ty" "col - tx" 2] assms at0 [of 2] by auto
  fix b1
  assume b1: "only_pixel ?i b b1 \<and> rd (tile_rgb b1) (tile_at d (row - ty) (col - tx) ?c) = IMG s (row * width g + col) ?c"
  show "ok (ahd_lab fp xc ?i b1) (has_measured g s ty tx (S \<union> {(d, row, col)}))"
  proof (rule ok_imp [OF ahd_lab_ok])
    fix b2
    assume b2: "tile_ok b2 \<and> tile_rgb b2 = tile_rgb b1"
    show "has_measured g s ty tx (S \<union> {(d, row, col)}) b2"
    proof (rule has_measured_add [OF assms(2)])
      fix j
      assume "\<forall>k \<in> {0, 1, 2}. j \<noteq> tile_at d (row - ty) (col - tx) k"
      then have "j \<noteq> ?i" "j \<noteq> ?i + 1" "j \<noteq> ?i + 2" using at0 [of 1] at0 [of 2] by (metis insertCI)+
      then have "j < ?i \<or> ?i + 2 < j" by linarith
      then show "rd (tile_rgb b2) j = rd (tile_rgb b) j" using b1 b2 by (auto simp: only_pixel_def)
    qed (use b1 b2 assms in auto)
  qed (use b1 i in \<open>auto simp: only_pixel_def\<close>)
qed (use assms in \<open>auto simp: has_measured_def\<close>)

lemma ahd_red_blue_ok:
  assumes "image_ok g s" "tile_ok b" "2 \<le> ty" "2 \<le> tx"
  shows "ok (ahd_red_blue fp xc g s ty tx b)
    (has_measured g s ty tx ({0..<2} \<times> {ty + 1..<min (ty + TS - 1) (height g - 3)} \<times> {tx + 1..<min (tx + TS - 1) (width g - 3)}))"
proof -
  let ?R = "{ty + 1..<min (ty + TS - 1) (height g - 3)}" and ?C = "{tx + 1..<min (tx + TS - 1) (width g - 3)}"
  have "ok (ahd_red_blue fp xc g s ty tx b) (has_measured g s ty tx ({} \<union> (\<Union>d \<in> {0..<2}. \<Union>row \<in> ?R. \<Union>col \<in> ?C. {(d, row, col)})))"
    unfolding ahd_red_blue_def
  proof (rule for_up_cover)
    show "has_measured g s ty tx {} b" using assms(2) by (simp add: has_measured_def)
  next
    fix d :: int and b S
    assume d: "0 \<le> d" "d < 2" and b: "has_measured g s ty tx S b"
    show "ok (for_up (ty + 1) (min (ty + TS - 1) (height g - 3)) (\<lambda>row. for_up (tx + 1) (min (tx + TS - 1) (width g - 3)) (\<lambda>col b. do {
         b \<leftarrow> ahd_colours g s d ty tx row col b;
         ahd_lab fp xc (tile_at d (row - ty) (col - tx) 0) b })) b) (has_measured g s ty tx (S \<union> (\<Union>row \<in> ?R. \<Union>col \<in> ?C. {(d, row, col)})))"
    proof (rule for_up_cover, rule b, rule for_up_cover)
      fix row col :: int and b S
      assume "ty + 1 \<le> row" "row < min (ty + TS - 1) (height g - 3)" "tx + 1 \<le> col" "col < min (tx + TS - 1) (width g - 3)"
        and "has_measured g s ty tx S b"
      then show "ok (do {
         b \<leftarrow> ahd_colours g s d ty tx row col b;
         ahd_lab fp xc (tile_at d (row - ty) (col - tx) 0) b }) (has_measured g s ty tx (S \<union> {(d, row, col)}))"
        using assms d by (intro ahd_step) auto
    qed
  qed
  moreover have "{} \<union> (\<Union>d \<in> {0..<2}. \<Union>row \<in> ?R. \<Union>col \<in> ?C. {(d, row, col)}) = {0..<2::int} \<times> ?R \<times> ?C" by auto
  ultimately show ?thesis by simp
qed

text \<open>The maps and the choice.\<close>

lemma ahd_diffs_ok:
  assumes "tile_ok b" "3 * TS \<le> i" "i + 3 * TS + 2 < 1572864"
  shows "ok (ahd_diffs b i) (\<lambda>_. True)"
  unfolding ahd_diffs_def Let_def
proof (rule for_by_wp [where I = "\<lambda>_. True"])
  fix k :: int and ds :: "(int \<times> int) list"
  assume "0 \<le> k" "k < 4"
  moreover have "- TS \<le> v \<and> v \<le> TS" if "v \<in> set ahd_dirs" for v using that by (auto simp: ahd_dirs_def)
  moreover have "length ahd_dirs = 4" by (simp add: ahd_dirs_def)
  ultimately show "ok (do {
     o1 \<leftarrow> at ahd_dirs k;
     l0 \<leftarrow> rds (tile_lab b) i; l1 \<leftarrow> rds (tile_lab b) (i + 3 * o1);
     a0 \<leftarrow> rds (tile_lab b) (i + 1); a1 \<leftarrow> rds (tile_lab b) (i + 3 * o1 + 1);
     b0 \<leftarrow> rds (tile_lab b) (i + 2); b1 \<leftarrow> rds (tile_lab b) (i + 3 * o1 + 2);
     Some (ds @ [(\<bar>l0 - l1\<bar>, c_u32 ((a0 - a1) * (a0 - a1) + (b0 - b1) * (b0 - b1)))]) }) (\<lambda>_. True)"
    using assms by (auto intro!: safe simp: inb_def tile_ok_def; force)
qed auto

lemma ahd_homo_ok:
  assumes "tile_ok b"
  shows "ok (ahd_homo g ty tx b) (\<lambda>b'. tile_ok b' \<and> tile_rgb b' = tile_rgb b)"
  unfolding ahd_homo_def
proof (rule for_by_wp [where I = "\<lambda>b'. tile_ok b' \<and> tile_rgb b' = tile_rgb b"])
  fix row :: int and b1
  assume row: "ty + 2 \<le> row" "row < min (ty + TS - 2) (height g - 4)" and b1: "tile_ok b1 \<and> tile_rgb b1 = tile_rgb b"
  show "ok (for_up (tx + 2) (min (tx + TS - 2) (width g - 4)) (\<lambda>col. ahd_homo_pixel (row - ty) (col - tx)) b1)
      (\<lambda>b'. tile_ok b' \<and> tile_rgb b' = tile_rgb b)"
  proof (rule for_by_wp [where I = "\<lambda>b'. tile_ok b' \<and> tile_rgb b' = tile_rgb b"])
    fix col :: int and b2
    assume col: "tx + 2 \<le> col" "col < min (tx + TS - 2) (width g - 4)" and b2: "tile_ok b2 \<and> tile_rgb b2 = tile_rgb b"
    have at: "3 * TS \<le> tile_at d (row - ty) (col - tx) 0" "tile_at d (row - ty) (col - tx) 0 + 3 * TS + 2 < 1572864"
        "0 \<le> homo_at d (row - ty) (col - tx)" "homo_at d (row - ty) (col - tx) < 524288" if "0 \<le> d" "d \<le> 1" for d
      using row col that by (simp_all add: tile_at_def homo_at_def)
    have diffs: "ok (ahd_diffs b2 (tile_at d (row - ty) (col - tx) 0)) (\<lambda>_. True)" if "0 \<le> d" "d \<le> 1" for d
      using b2 at [OF that] by (intro ahd_diffs_ok) auto
    have map: "inb xs (homo_at d (row - ty) (col - tx))" if "0 \<le> d" "d \<le> 1" "length xs = 524288" for d and xs :: "u8 list"
      using at(3,4) [OF that(1,2)] that(3) by (simp add: inb_def)
    show "ok (ahd_homo_pixel (row - ty) (col - tx) b2) (\<lambda>b'. tile_ok b' \<and> tile_rgb b' = tile_rgb b)"
      unfolding ahd_homo_pixel_def Let_def
      by (rule ok_bind, rule ok_imp [OF diffs], simp, simp, rule ok_bind, rule ok_imp [OF diffs], simp, simp)
        (use b2 in \<open>auto intro!: safe map simp: tile_ok_def\<close>)
  qed (use b1 in auto)
qed (use assms in \<open>auto simp: tile_ok_def\<close>)

lemma ahd_sum_ok:
  assumes "tile_ok b" "0 \<le> d" "d \<le> 1" "1 \<le> tr" "tr + 1 < TS" "1 \<le> tc" "tc + 1 < TS"
  shows "ok (ahd_sum b d tr tc) (\<lambda>_. True)"
  unfolding ahd_sum_def
proof (rule for_by_wp [where I = "\<lambda>_. True"])
  fix i hm :: int
  assume i: "tr - 1 \<le> i" "i < tr + 2"
  show "ok (for_up (tc - 1) (tc + 2) (\<lambda>j hm. do { h \<leftarrow> rd (tile_homo b) (homo_at d i j); Some (hm + h) }) hm) (\<lambda>_. True)"
  proof (rule for_by_wp [where I = "\<lambda>_. True"])
    fix j hm :: int
    assume "tc - 1 \<le> j" "j < tc + 2"
    then show "ok (do { h \<leftarrow> rd (tile_homo b) (homo_at d i j); Some (hm + h) }) (\<lambda>_. True)"
      using i assms by (auto intro!: safe simp: inb_def tile_ok_def homo_at_def)
  qed auto
qed auto

text \<open>
  Two states whose images agree on every measured sample; what the interpolation may change.
\<close>

definition same_samples :: "geom \<Rightarrow> dst \<Rightarrow> dst \<Rightarrow> bool" where
  "same_samples g s t \<longleftrightarrow> image_ok g t \<and> filters t = filters s \<and> colors t = colors s
     \<and> (\<forall>r c. 0 \<le> r \<and> r < height g \<and> 0 \<le> c \<and> c < width g \<longrightarrow>
          IMG t (r * width g + c) (FC (filters s) r c) = IMG s (r * width g + c) (FC (filters s) r c))"

lemma same_samples_refl: "image_ok g s \<Longrightarrow> same_samples g s s"
  by (simp add: same_samples_def)

lemma same_samples_trans: "same_samples g s t \<Longrightarrow> same_samples g t u \<Longrightarrow> same_samples g s u"
  by (simp add: same_samples_def)

lemma same_samples_set:
  assumes "same_samples g s t" "0 \<le> row" "row < height g" "0 \<le> col" "col < width g" "0 \<le> k" "k < 4"
    and "k = FC (filters s) row col \<Longrightarrow> IMG s (row * width g + col) k = Some v \<and> 0 \<le> v \<and> v < 65536"
  shows "ok (set_IMG (row * width g + col) k v t) (same_samples g s)"
proof -
  let ?p = "row * width g + col"
  have im: "image_ok g t" using assms(1) by (simp add: same_samples_def)
  have "inb (img t) (4 * ?p + k)"
    using im assms(6,7) cell_bound [OF assms(2-5)] by (auto simp: image_ok_def inb_def)
  then obtain xs where xs: "wr (img t) (4 * ?p + k) v = Some xs" by (simp add: wr_def)
  have len: "length xs = length (img t)" using xs by (auto simp: wr_def split: if_splits)
  have "rd xs (4 * (r * width g + c) + FC (filters s) r c) = IMG s (r * width g + c) (FC (filters s) r c)"
    if rc: "0 \<le> r" "r < height g" "0 \<le> c" "c < width g" for r c
  proof (cases "4 * ?p + k = 4 * (r * width g + c) + FC (filters s) r c")
    case True
    have "\<And>n m j :: int. 0 \<le> j \<Longrightarrow> j < 4 \<Longrightarrow> (4 * n + j) mod 4 = j" by simp
    from this [OF assms(6,7), of ?p] this [of "FC (filters s) r c" "r * width g + c"] have k: "k = FC (filters s) r c"
      using True by simp
    then have p: "?p = r * width g + c" using True by simp
    have "col = c" using arg_cong [OF p, of "\<lambda>z. z mod width g"] assms(4,5) rc by simp
    then have "row = r" using p assms(4,5) by simp
    then have "IMG s ?p k = Some v \<and> 0 \<le> v \<and> v < 65536" using assms(8) k \<open>col = c\<close> by simp
    then show ?thesis using rd_wr_same [OF xs] unfolding True [symmetric] p [symmetric] k [symmetric]
      by (simp add: take_bit_int_eq_self)
  next
    case False
    then show ?thesis using rd_wr_other [OF xs] assms(1) rc by (simp add: same_samples_def IMG_def)
  qed
  then have "same_samples g s (t\<lparr>img := xs\<rparr>)"
    using assms(1) im len by (simp add: same_samples_def image_ok_def) (simp add: IMG_def)
  then show ?thesis unfolding set_IMG_def xs by simp
qed

lemma ahd_pick_ok:
  assumes "image_ok g s" "same_samples g s t" "has_measured g s ty tx S b" "(0, row, col) \<in> S" "(1, row, col) \<in> S"
    and "0 \<le> row" "row < height g" "0 \<le> col" "col < width g"
    and "ty + 1 \<le> row" "row < ty + TS - 1" "tx + 1 \<le> col" "col < tx + TS - 1"
  shows "ok (ahd_pick g b ty tx row col t) (same_samples g s)"
proof -
  have tb: "tile_ok b" using assms(3) by (simp add: has_measured_def)
  have sums: "ok (ahd_sum b d (row - ty) (col - tx)) (\<lambda>_. True)" if "0 \<le> d" "d \<le> 1" for d
    using assms tb that by (intro ahd_sum_ok) auto
  have loop: "ok (for_up 0 3 (\<lambda>c s. do {
       x \<leftarrow> rd (tile_rgb b) (tile_at 0 (row - ty) (col - tx) c);
       y \<leftarrow> rd (tile_rgb b) (tile_at 1 (row - ty) (col - tx) c);
       set_IMG (row * width g + col) c (if h1 > h0 then y else if h0 > h1 then x else shr (x + y) 1) s }) t) (same_samples g s)" for h0 h1 :: int
  proof (rule for_by_wp [where I = "same_samples g s"])
    fix c :: int and u
    assume c: "0 \<le> c" "c < 3" and u: "same_samples g s u"
    have "\<exists>v. rd (tile_rgb b) (tile_at d (row - ty) (col - tx) c) = Some v \<and> 0 \<le> v \<and> v < 65536" if "0 \<le> d" "d \<le> 1" for d
      using ok_tile_rd [OF tb, of "tile_at d (row - ty) (col - tx) c" "\<lambda>v. 0 \<le> v \<and> v < 65536"] assms c that
        tile_at_bounds [of d "row - ty" "col - tx" c] by (auto simp: ok_exists)
    from this [of 0] this [of 1] obtain x y where xy: "rd (tile_rgb b) (tile_at 0 (row - ty) (col - tx) c) = Some x"
        "rd (tile_rgb b) (tile_at 1 (row - ty) (col - tx) c) = Some y" "0 \<le> x" "x < 65536" by auto
    have measured: "rd (tile_rgb b) (tile_at d (row - ty) (col - tx) c) = IMG s (row * width g + col) c"
      if "c = FC (filters s) row col" "(d, row, col) \<in> S" for d using assms(3) that by (auto simp: has_measured_def)
    have "IMG s (row * width g + col) c = Some x \<and> y = x" if "c = FC (filters s) row col"
      using measured [OF that assms(4)] measured [OF that assms(5)] xy(1,2) by (metis option.inject)
    then show "ok (do {
       x \<leftarrow> rd (tile_rgb b) (tile_at 0 (row - ty) (col - tx) c);
       y \<leftarrow> rd (tile_rgb b) (tile_at 1 (row - ty) (col - tx) c);
       set_IMG (row * width g + col) c (if h1 > h0 then y else if h0 > h1 then x else shr (x + y) 1) u }) (same_samples g s)"
      unfolding xy bind.bind_lunit using u assms c xy by (intro same_samples_set) (auto simp: shr_def drop_bit_eq_div)
  qed (use assms in auto)
  show ?thesis unfolding ahd_pick_def Let_def
    by (rule ok_bind, rule ok_imp [OF sums], simp, simp, rule ok_bind, rule ok_imp [OF sums], simp, simp) (rule loop)
qed

lemma ahd_tile_ok:
  assumes "image_ok g s0" "same_samples g s0 s" "tile_ok b" "2 \<le> ty" "2 \<le> tx"
  shows "ok (ahd_tile fp xc g ty tx (b, s)) (\<lambda>(b, s). tile_ok b \<and> same_samples g s0 s)"
proof -
  have im: "image_ok g s" using assms(2) by (simp add: same_samples_def)
  have combine: "ok (ahd_combine g b ty tx s) (same_samples g s)"
    if "has_measured g s ty tx ({0..<2} \<times> {ty + 1..<min (ty + TS - 1) (height g - 3)} \<times> {tx + 1..<min (tx + TS - 1) (width g - 3)}) b" for b
    unfolding ahd_combine_def
  proof (rule for_by_wp [where I = "same_samples g s"])
    fix row :: int and t
    assume row: "ty + 3 \<le> row" "row < min (ty + TS - 3) (height g - 5)" and t: "same_samples g s t"
    show "ok (for_up (tx + 3) (min (tx + TS - 3) (width g - 5)) (\<lambda>col. ahd_pick g b ty tx row col) t) (same_samples g s)"
    proof (rule for_by_wp [where I = "same_samples g s"])
      fix col :: int and u
      assume "tx + 3 \<le> col" "col < min (tx + TS - 3) (width g - 5)" "same_samples g s u"
      then show "ok (ahd_pick g b ty tx row col u) (same_samples g s)"
        using row assms(4,5) by (intro ahd_pick_ok [OF im _ that]) auto
    qed (use t in auto)
  qed (use im in \<open>auto intro: same_samples_refl\<close>)
  show ?thesis
    unfolding ahd_tile_def prod.case
  proof (rule ok_bind, rule ok_imp [OF ahd_green_ok [OF im assms(4,5,3)]], rule ok_bind, rule ok_imp [OF ahd_red_blue_ok [OF im _ assms(4,5)]], assumption,
      rule ok_bind, rule ok_imp [OF ahd_homo_ok])
    fix b1 b2
    assume b1: "has_measured g s ty tx ({0..<2} \<times> {ty + 1..<min (ty + TS - 1) (height g - 3)} \<times> {tx + 1..<min (tx + TS - 1) (width g - 3)}) b1"
      and b2: "tile_ok b2 \<and> tile_rgb b2 = tile_rgb b1"
    then have "has_measured g s ty tx ({0..<2} \<times> {ty + 1..<min (ty + TS - 1) (height g - 3)} \<times> {tx + 1..<min (tx + TS - 1) (width g - 3)}) b2"
      by (simp add: has_measured_def)
    from combine [OF this] show "ok (ahd_combine g b2 ty tx s \<bind> (\<lambda>s. Some (b2, s))) (\<lambda>(b, s). tile_ok b \<and> same_samples g s0 s)"
      using b2 by (auto simp: ok_exists intro: same_samples_trans [OF assms(2)])
  qed (auto simp: has_measured_def)
qed

text \<open>The border.\<close>

lemma border_cols_ok:
  assumes "0 < border" "2 * border \<le> width g" "width g < 2 ^ 32" "0 \<le> col"
  shows "ok (border_cols g border row col) (\<lambda>cs. \<forall>c \<in> set cs. 0 \<le> c \<and> c < width g)"
  using assms(4)
proof (induction "nat (width g - col)" arbitrary: col rule: less_induct)
  case less
  show ?case
  proof (cases "col < width g")
    case True
    define c where "c = (if col = border \<and> row \<ge> border \<and> row < height g - border then c_u32 (width g - border) else col)"
    have c: "col \<le> c" "c < width g" using assms less.prems True by (auto simp: c_def take_bit_int_eq_self)
    then have u: "c_u32 (c + 1) = c + 1" using assms(3) less.prems by (auto simp: take_bit_int_eq_self)
    have "ok (border_cols g border row (c_u32 (c + 1))) (\<lambda>cs. \<forall>c \<in> set cs. 0 \<le> c \<and> c < width g)"
      unfolding u using c less.prems by (intro less.hyps) auto
    then show ?thesis using True c less.prems
      by (subst border_cols.simps) (auto simp: Let_def c_def [symmetric] ok_exists)
  next
    case False
    then show ?thesis by (subst border_cols.simps) simp
  qed
qed

lemma border_sums_ok:
  assumes "image_ok g s" "1000 < filters s"
  shows "ok (border_sums g s row col) (\<lambda>sm. length sm = 8)"
  unfolding border_sums_def
proof (rule for_by_wp [where I = "\<lambda>sm. length sm = 8"])
  fix y :: int and sm :: "int list"
  assume sm: "length sm = 8"
  show "ok (for_up (col - 1) (col + 2) (\<lambda>x sm.
     if 0 \<le> y \<and> y < height g \<and> 0 \<le> x \<and> x < width g then do {
       f \<leftarrow> fcol g (filters s) y x;
       a \<leftarrow> at sm f;
       v \<leftarrow> IMG s (y * width g + x) f;
       sm \<leftarrow> put sm f (c_u32 (a + v));
       n \<leftarrow> at sm (f + 4);
       put sm (f + 4) (n + 1) }
     else Some sm) sm) (\<lambda>sm. length sm = 8)"
  proof (rule for_by_wp [where I = "\<lambda>sm. length sm = 8"], simp, rule sm, rule ok_if)
    fix x :: int and sm :: "int list"
    assume in_img: "0 \<le> y \<and> y < height g \<and> 0 \<le> x \<and> x < width g" and sm: "length sm = 8"
    have f: "fcol g (filters s) y x = Some (FC (filters s) y x)" using assms(2) by (simp add: fcol_def)
    have "0 \<le> 4 * p + k \<and> 4 * p + k < 4 * n" if "0 \<le> p \<and> p < n" "0 \<le> k" "k < 4" for p k n :: int using that by auto
    from this [OF cell_bound FC_bounds [of "filters s" y x]]
    have "inb (img s) (4 * (y * width g + x) + FC (filters s) y x)"
      using assms(1) in_img by (auto simp: inb_def image_ok_def)
    then show "ok (do {
       f \<leftarrow> fcol g (filters s) y x;
       a \<leftarrow> at sm f;
       v \<leftarrow> IMG s (y * width g + x) f;
       sm \<leftarrow> put sm f (c_u32 (a + v));
       n \<leftarrow> at sm (f + 4);
       put sm (f + 4) (n + 1) }) (\<lambda>sm. length sm = 8)"
      unfolding f bind.bind_lunit IMG_def using sm less_trans [OF FC_bounds(2), of 8 "filters s" y x]
      by (auto intro!: ok_bind ok_at ok_rd ok_put simp: inb_def)
  qed auto
qed (auto simp: zeros_def)

lemma border_interpolate_ok:
  assumes "image_ok g s" "1000 < filters s" "colors s \<le> 4" "0 < border" "2 * border \<le> width g" "width g < 2 ^ 32"
  shows "ok (border_interpolate g border s) (same_samples g s)"
  unfolding border_interpolate_def
proof (rule for_by_wp [where I = "same_samples g s"])
  fix row :: int and t
  assume row: "0 \<le> row" "row < height g" and t: "same_samples g s t"
  show "ok (do {
     cs \<leftarrow> border_cols g border row 0;
     for_up 0 (int (length cs)) (\<lambda>i s. do { col \<leftarrow> at cs i; border_pixel g row col s }) t }) (same_samples g s)"
  proof (rule ok_bind, rule ok_imp [OF border_cols_ok [OF assms(4-6) order_refl]], rule for_by_wp [where I = "same_samples g s"])
    fix cs and i :: int and t
    assume cs: "\<forall>c \<in> set cs. 0 \<le> c \<and> c < width g" and i: "0 \<le> i" "i < int (length cs)" and t: "same_samples g s t"
    define col where "col = cs ! nat i"
    have at: "at cs i = Some col" using i by (simp add: at_def inb_def col_def)
    have col: "0 \<le> col" "col < width g" using cs i by (simp_all add: col_def)
    have im: "image_ok g t" "1000 < filters t" "colors t \<le> 4" "filters t = filters s" using t assms(2,3) by (simp_all add: same_samples_def)
    have "ok (border_pixel g row col t) (same_samples g t)"
      unfolding border_pixel_def
    proof (rule ok_bind, rule ok_imp [OF border_sums_ok [OF im(1,2)]])
      fix sm :: "int list"
      assume sm: "length sm = 8"
      have f: "fcol g (filters t) row col = Some (FC (filters t) row col)" using im(2) by (simp add: fcol_def)
      show "ok (do {
          f \<leftarrow> fcol g (filters t) row col;
          for_up 0 (colors t) (\<lambda>c s. do {
            n \<leftarrow> at sm (c + 4);
            if c \<noteq> f \<and> n \<noteq> 0 then do {
              a \<leftarrow> at sm c;
              set_IMG (row * width g + col) c (a div n) s }
            else Some s }) t }) (same_samples g t)"
        unfolding f bind.bind_lunit
      proof (rule for_by_wp [where I = "same_samples g t"], simp, rule same_samples_refl [OF im(1)])
        fix c :: int and u
        assume "0 \<le> c" "c < colors t" "same_samples g t u"
        then show "ok (do {
            n \<leftarrow> at sm (c + 4);
            if c \<noteq> FC (filters t) row col \<and> n \<noteq> 0 then do {
              a \<leftarrow> at sm c;
              set_IMG (row * width g + col) c (a div n) u }
            else Some u }) (same_samples g t)"
          using sm im row col by (auto intro!: ok_bind ok_at ok_if same_samples_set simp: inb_def)
      qed
    qed
    then show "ok (do { col \<leftarrow> at cs i; border_pixel g row col t }) (same_samples g s)"
      unfolding at bind.bind_lunit by (rule ok_imp) (rule same_samples_trans [OF t])
  qed (use t in auto)
qed (use assms(1) in \<open>auto intro: same_samples_refl\<close>)

lemma FC_three:
  assumes "\<forall>k \<in> {0..<16 :: int}. shr flt (2 * k) AND 3 \<le> 2"
  shows "FC flt r c \<le> 2"
proof -
  let ?k = "(shl r 1 AND 14) + (c AND 1)"
  have "0 \<le> shl r 1 AND 14" "shl r 1 AND 14 \<le> 14" "0 \<le> c AND 1" "c AND 1 \<le> 1"
    using AND_upper2 [of 14 "shl r 1"] AND_upper2 [of 1 c] by simp_all
  then have "0 \<le> ?k" "?k < 16" by linarith+
  then have "?k \<in> {0..<16}" by (simp only: atLeastLessThan_iff)
  then have "shr flt (2 * ?k) AND 3 \<le> 2" using assms by blast
  then show ?thesis by (simp add: FC_def shl_def push_bit_eq_mult mult.commute)
qed

section \<open>The whole interpolation\<close>

text \<open>
  C24: \<open>ahd_interpolate\<close> returns for every image of at least 10 columns with three colours in its filter
  pattern, whatever the floating-point operations answer: no access leaves the image, the tile
  buffer or a table. Every sample the sensor measured is afterwards as it was, for the border as for
  each of the overlapping tiles, and nothing of the state but the image changes its colours or filters.
\<close>

theorem ahd_keeps_measured:
  assumes "image_ok (tg s) (td s)" "1000 < filters (td s)" "colors (td s) \<le> 4" "10 \<le> width (tg s)" "width (tg s) < 2 ^ 32"
  shows "\<exists>t. ahd_interpolate fp s = Some (s\<lparr>td := t\<rparr>) \<and> length (img t) = length (img (td s)) \<and> filters t = filters (td s)
    \<and> (\<forall>r c. 0 \<le> r \<and> r < height (tg s) \<and> 0 \<le> c \<and> c < width (tg s) \<longrightarrow>
         IMG t (r * width (tg s) + c) (FC (filters t) r c) = IMG (td s) (r * width (tg s) + c) (FC (filters t) r c))"
proof -
  define g s0 where "g = tg s" and "s0 = td s"
  note assms = assms [folded g_def s0_def]
  let ?I = "\<lambda>(b, u). tile_ok b \<and> same_samples g s0 u"
  have tiles: "ok (for_by (TS - 6) 2 (height g - 5) (\<lambda>ty. for_by (TS - 6) 2 (width g - 5) (\<lambda>tx. ahd_tile fp xc g ty tx)) (b, u)) ?I"
    if "tile_ok b" "same_samples g s0 u" for xc b u
  proof (rule for_by_wp [where I = ?I])
    fix ty :: int and bu
    assume ty: "2 \<le> ty" and bu: "?I bu"
    show "ok (for_by (TS - 6) 2 (width g - 5) (\<lambda>tx. ahd_tile fp xc g ty tx) bu) ?I"
    proof (rule for_by_wp [where I = ?I])
      fix tx :: int and bv
      assume "2 \<le> tx" "?I bv"
      then show "ok (ahd_tile fp xc g ty tx bv) ?I" using ahd_tile_ok [OF assms(1) _ _ ty] by (cases bv) auto
    qed (use bu in auto)
  qed (use that in auto)
  obtain t0 where t0: "border_interpolate g 5 s0 = Some t0" "same_samples g s0 t0"
    using border_interpolate_ok [OF assms(1-3), of 5] assms(4,5) by (auto simp: ok_exists)
  define b where "b = \<lparr>tile_rgb = uninit g (6 * TS * TS), tile_lab = uninit g (6 * TS * TS), tile_homo = uninit g (2 * TS * TS)\<rparr>"
  have "tile_ok b" by (simp add: b_def tile_ok_def)
  from tiles [OF this t0(2), of "xyz_cam fp s (colors t0)"] obtain b' t where
    t: "for_by (TS - 6) 2 (height g - 5) (\<lambda>ty. for_by (TS - 6) 2 (width g - 5) (\<lambda>tx. ahd_tile fp (xyz_cam fp s (colors t0)) g ty tx)) (b, t0) = Some (b', t)"
    "same_samples g s0 t" by (auto simp: ok_exists)
  have "ahd_interpolate fp s = Some (s\<lparr>td := t\<rparr>)"
    unfolding ahd_interpolate_def Let_def g_def [symmetric] s0_def [symmetric] t0(1) bind.bind_lunit b_def [symmetric] t(1) by simp
  then show ?thesis using t(2) assms(1) unfolding g_def [symmetric] s0_def [symmetric]
    by (intro exI [of _ t]) (auto simp: same_samples_def image_ok_def)
qed

theorem ahd_keeps_measured_witness:
  "\<forall>fp s. \<exists>t. ahd_interpolate fp (s\<lparr>tg := plain_geom 10 12, td := identify_reset []\<lparr>img := replicate 480 7, filters := 0x94949494, colors := 3\<rparr>\<rparr>)
      = Some (s\<lparr>tg := plain_geom 10 12, td := t\<rparr>)
    \<and> IMG t (6 * 12 + 5) (FC 0x94949494 6 5) = Some 7"
proof (intro allI)
  fix fp and s :: meta
  let ?d = "identify_reset []\<lparr>img := replicate 480 7, filters := 0x94949494, colors := 3\<rparr>"
  let ?s = "s\<lparr>tg := plain_geom 10 12, td := ?d\<rparr>"
  have g: "width (tg ?s) = 12" "height (tg ?s) = 10" by (simp_all add: plain_geom_def)
  have three: "FC 0x94949494 r c \<le> 2" for r c
  proof (rule FC_three, rule ballI)
    fix k :: int
    assume "k \<in> {0..<16}"
    then have "k = 0 \<or> k = 1 \<or> k = 2 \<or> k = 3 \<or> k = 4 \<or> k = 5 \<or> k = 6 \<or> k = 7 \<or> k = 8 \<or> k = 9 \<or> k = 10 \<or> k = 11 \<or> k = 12 \<or> k = 13 \<or> k = 14 \<or> k = 15"
      unfolding atLeastLessThan_iff by presburger
    then show "shr 0x94949494 (2 * k) AND 3 \<le> 2" by (auto simp: shr_def)
  qed
  then have "image_ok (tg ?s) (td ?s)" unfolding image_ok_def g by simp
  then obtain t where t: "ahd_interpolate fp ?s = Some (?s\<lparr>td := t\<rparr>)" "filters t = 0x94949494"
    "\<forall>r c. 0 \<le> r \<and> r < 10 \<and> 0 \<le> c \<and> c < 12 \<longrightarrow> IMG t (r * 12 + c) (FC 0x94949494 r c) = IMG ?d (r * 12 + c) (FC 0x94949494 r c)"
    using ahd_keeps_measured [of ?s fp] unfolding g by auto
  have "FC 0x94949494 6 5 \<in> {0, 1, 2, 3}" by (simp add: FC_def shl_def shr_def)
  then have "IMG ?d (6 * 12 + 5) (FC 0x94949494 6 5) = Some 7" by (auto simp: IMG_def rd_def inb_def nth_replicate)
  then show "\<exists>t. ahd_interpolate fp ?s = Some (s\<lparr>tg := plain_geom 10 12, td := t\<rparr>) \<and> IMG t (6 * 12 + 5) (FC 0x94949494 6 5) = Some 7"
    using t(1) t(3) [rule_format, of 6 5] by (intro exI [of _ t]) simp
qed

end
