(* ===== verification/Xtrans.thy ===== *)
theory Xtrans
  imports Ahd
begin

text \<open>
  \<open>xtrans_interpolate\<close>, the interpolation for the sensors of Fujifilm whose pattern has six rows and six
  columns. A tile of 512 by 512 pixels holds four or, with more than one pass, eight images whose greens
  are guessed along as many directions; a vote over the derivatives of their CIELab values chooses among
  them. As in \<open>ahd_interpolate\<close> the tiles, and the steps before them, are done one after the other by one
  thread.
\<close>

section \<open>The pattern\<close>

text \<open>The macro \<open>fcol\<close> of this routine; a pixel of the tile is three cells, and pixel \<open>k\<close> from index \<open>i\<close> is \<open>i + 3 * k\<close>.\<close>

definition xcol :: "geom \<Rightarrow> int \<Rightarrow> int \<Rightarrow> int option" where
  "xcol g row col = do { r \<leftarrow> at (xtrans g) ((row + 6) smod 6); at r ((col + 6) smod 6) }"

definition orth :: "int list" where
  "orth = [1, 0, 0, 1, -1, 0, 0, -1, 1, 0, 0, 1]"

definition patt :: "int list list" where
  "patt = [[0, 1, 0, -1, 2, 0, -1, 0, 1, 1, 1, -1, 0, 0, 0, 0], [0, 1, 0, -2, 1, 0, -2, 0, 1, 1, -2, -2, 1, -1, -1, 1]]"

text \<open>
  The array \<open>allhex[3][3][2][8]\<close> and the row and column of a solitary green pixel, whose variables have no
  value before.
\<close>

record hexes =
  hx_all :: "int list"
  hx_row :: int
  hx_col :: int

definition hex_at :: "int \<Rightarrow> int \<Rightarrow> int \<Rightarrow> int \<Rightarrow> int" where
  "hex_at row col k c = ((row * 3 + col) * 2 + k) * 8 + c"

definition hex_get :: "hexes \<Rightarrow> int \<Rightarrow> int \<Rightarrow> int \<Rightarrow> int \<Rightarrow> int option" where
  "hex_get hx row col k c = at (hx_all hx) (hex_at (row smod 3) (col smod 3) k c)"

definition hex_put :: "geom \<Rightarrow> int \<Rightarrow> int \<Rightarrow> int \<Rightarrow> int \<Rightarrow> hexes \<Rightarrow> hexes option" where
  "hex_put g row col d gr hx = do {
     o0 \<leftarrow> at orth d; o1 \<leftarrow> at orth (d + 1); o2 \<leftarrow> at orth (d + 2); o3 \<leftarrow> at orth (d + 3);
     p \<leftarrow> at patt gr;
     xs \<leftarrow> for_up 0 8 (\<lambda>c xs. do {
       x \<leftarrow> at p (2 * c); y \<leftarrow> at p (2 * c + 1);
       let v = o0 * x + o1 * y;
       let h = o2 * x + o3 * y;
       xs \<leftarrow> put xs (hex_at row col 0 (c XOR (gr * 2 AND d))) (c_s16 (h + v * width g));
       put xs (hex_at row col 1 (c XOR (gr * 2 AND d))) (c_s16 (h + v * TS)) }) (hx_all hx);
     Some (hx\<lparr>hx_all := xs\<rparr>) }"

definition hex_map :: "geom \<Rightarrow> hexes option" where
  "hex_map g = for_up 0 3 (\<lambda>row. for_up 0 3 (\<lambda>col hx. do {
     (_, hx) \<leftarrow> for_by 2 0 10 (\<lambda>d (ng, hx). do {
       f \<leftarrow> xcol g row col;
       let gr = (if f = 1 then 1 else 0);
       o0 \<leftarrow> at orth d; o2 \<leftarrow> at orth (d + 2);
       f \<leftarrow> xcol g (row + o0) (col + o2);
       let ng = (if f = 1 then 0 else ng + 1 :: int);
       let hx = (if ng = 4 then hx\<lparr>hx_row := row, hx_col := col\<rparr> else hx);
       hx \<leftarrow> (if ng = gr + 1 then hex_put g row col d gr hx else Some hx);
       Some (ng, hx) }) (0, hx);
     Some hx }))
     \<lparr>hx_all = map (\<lambda>k. c_s16 (junk g k)) [0..<144], hx_row = c_u16 (junk g 144), hx_col = c_u16 (junk g 145)\<rparr>"

section \<open>The bounds of green\<close>

text \<open>
  Green 1 and green 3 of a pixel become the least and the largest green around it; pixels of one group
  share them, so that the scan goes down and up between two rows. \<open>xt_scan\<close> is the inner loop.
\<close>

definition xt_around :: "geom \<Rightarrow> hexes \<Rightarrow> int \<Rightarrow> int \<Rightarrow> dst \<Rightarrow> int \<times> int \<Rightarrow> (int \<times> int) option" where
  "xt_around g hx row col s mm = for_up 0 6 (\<lambda>c (mn, mx). do {
     k \<leftarrow> hex_get hx row col 0 c;
     v \<leftarrow> IMG s (row * width g + col + k) 1;
     Some (if mn > v then v else mn, if mx < v then v else mx) }) mm"

definition xt_bound :: "geom \<Rightarrow> hexes \<Rightarrow> int \<Rightarrow> int \<Rightarrow> int \<times> int \<Rightarrow> dst \<Rightarrow> ((int \<times> int \<times> int \<times> int) \<times> dst) option" where
  "xt_bound g hx row col mm s = do {
     f \<leftarrow> xcol g row col;
     if f = 1 then Some ((row, col + 1, 65535, 0), s)
     else do {
       (mn, mx) \<leftarrow> (if snd mm = 0 then xt_around g hx row col s mm else Some mm);
       s \<leftarrow> set_IMG (row * width g + col) 1 mn s;
       s \<leftarrow> set_IMG (row * width g + col) 3 mx s;
       let k = (row - hx_row hx) smod 3;
       Some (if k = 1 then if row < height g - 3 then (row + 1, col, mn, mx) else (row, col + 1, mn, mx)
             else if k = 2 then (if col + 2 < width g - 3 \<and> row > 2 then row - 1 else row, col + 3, 65535, 0)
             else (row, col + 1, mn, mx), s) } }"

partial_function (option) xt_scan :: "geom \<Rightarrow> hexes \<Rightarrow> (int \<times> int \<times> int \<times> int) \<times> dst \<Rightarrow> (int \<times> dst) option" where
  "xt_scan g hx st =
     (case st of ((row, col, mn, mx), s) \<Rightarrow>
        if col < width g - 2 then xt_bound g hx row col (mn, mx) s \<bind> xt_scan g hx else Some (row, s))"

partial_function (option) xt_bounds :: "geom \<Rightarrow> hexes \<Rightarrow> int \<Rightarrow> dst \<Rightarrow> dst option" where
  "xt_bounds g hx row s =
     (if row < height g - 2
      then xt_scan g hx ((row, 2, 65535, 0), s) \<bind> (\<lambda>(row, s). xt_bounds g hx (row + 1) s)
      else Some s)"

section \<open>A tile\<close>

text \<open>The buffer with its images; \<open>xt_off\<close> is the image the pointer \<open>rgb\<close> stands at. \<open>work\<close> is the copy of the image.\<close>

record xtile =
  xt_rgb :: "u16 list"
  xt_lab :: "u16 list"
  xt_drv :: "real_c list"
  xt_homo :: "u8 list"
  xt_off :: int

record xt_env =
  xe_fp :: fp_ops
  xe_g :: geom
  xe_hex :: hexes
  xe_work :: "u16 list"
  xe_dirs :: int
  xe_top :: int
  xe_left :: int
  xe_mrow :: int
  xe_mcol :: int

definition wpix :: "xt_env \<Rightarrow> int \<Rightarrow> int \<Rightarrow> int \<Rightarrow> int \<Rightarrow> int option" where
  "wpix e row col k c = rd (xe_work e) (4 * (row * width (xe_g e) + col + k) + c)"

definition xt_at :: "xt_env \<Rightarrow> xtile \<Rightarrow> int \<Rightarrow> int \<Rightarrow> int \<Rightarrow> int" where
  "xt_at e b d row col = tile_at (xt_off b + d) (row - xe_top e) (col - xe_left e) 0"

definition xrd :: "xtile \<Rightarrow> int \<Rightarrow> int \<Rightarrow> int \<Rightarrow> int option" where
  "xrd b i k c = rd (xt_rgb b) (i + 3 * k + c)"

definition xwr :: "int \<Rightarrow> int \<Rightarrow> int \<Rightarrow> xtile \<Rightarrow> xtile option" where
  "xwr i c v b = do { xs \<leftarrow> wr (xt_rgb b) (i + c) v; Some (b\<lparr>xt_rgb := xs\<rparr>) }"

text \<open>The loop over rows and columns of the tile, a margin left out.\<close>

definition xt_each :: "xt_env \<Rightarrow> int \<Rightarrow> (int \<Rightarrow> int \<Rightarrow> 's \<Rightarrow> 's option) \<Rightarrow> 's \<Rightarrow> 's option" where
  "xt_each e m f = for_up (xe_top e + m) (xe_mrow e - m) (\<lambda>row. for_up (xe_left e + m) (xe_mcol e - m) (f row))"

definition xt_row :: "xt_env \<Rightarrow> int \<Rightarrow> int" where
  "xt_row e row = (row - hx_row (xe_hex e)) smod 3"

definition xt_copy :: "xt_env \<Rightarrow> xtile \<Rightarrow> xtile option" where
  "xt_copy e b = do {
     b \<leftarrow> xt_each e 0 (\<lambda>row col. for_up 0 3 (\<lambda>c b. do {
       v \<leftarrow> wpix e row col 0 c;
       xwr (xt_at e b 0 row col) c v b })) b;
     let n = nat (3 * TS * TS);
     let first = take n (xt_rgb b);
     Some (b\<lparr>xt_rgb := first @ first @ first @ first @ drop (4 * n) (xt_rgb b)\<rparr>) }"

text \<open>Green horizontally, vertically and along both diagonals.\<close>

definition xt_green :: "xt_env \<Rightarrow> int \<Rightarrow> int \<Rightarrow> xtile \<Rightarrow> xtile option" where
  "xt_green e row col b = do {
     f \<leftarrow> xcol (xe_g e) row col;
     if f = 1 then Some b
     else do {
       let pix = wpix e row col;
       let hex = hex_get (xe_hex e) row col 0;
       h0 \<leftarrow> hex 0; h1 \<leftarrow> hex 1; h2 \<leftarrow> hex 2; h3 \<leftarrow> hex 3;
       p1 \<leftarrow> pix h1 1; p0 \<leftarrow> pix h0 1; q1 \<leftarrow> pix (2 * h1) 1; q0 \<leftarrow> pix (2 * h0) 1;
       p3 \<leftarrow> pix h3 1; p2 \<leftarrow> pix h2 1; x \<leftarrow> pix 0 f; m2 \<leftarrow> pix (- h2) f;
       diag \<leftarrow> for_up 0 2 (\<lambda>c cs. do {
         h \<leftarrow> hex (4 + c);
         a \<leftarrow> pix h 1; d \<leftarrow> pix (-2 * h) 1; u \<leftarrow> pix (3 * h) f; v \<leftarrow> pix (-3 * h) f;
         Some (cs @ [164 * a + 92 * d + 33 * (2 * x - u - v)]) }) [];
       let cs = [174 * (p1 + p0) - 46 * (q1 + q0), 223 * p3 + p2 * 33 + 92 * (x - m2)] @ diag;
       lo \<leftarrow> pix 0 1;
       hi \<leftarrow> pix 0 3;
       for_up 0 4 (\<lambda>c b. do {
         v \<leftarrow> at cs c;
         xwr (xt_at e b (c XOR (if xt_row e row = 0 then 1 else 0)) row col) 1 (LIM_c (shr v 8) lo hi) b }) b } }"

text \<open>Green again, from the interpolated values of closer pixels.\<close>

definition xt_regreen :: "xt_env \<Rightarrow> int \<Rightarrow> int \<Rightarrow> xtile \<Rightarrow> xtile option" where
  "xt_regreen e row col b = do {
     f \<leftarrow> xcol (xe_g e) row col;
     if f = 1 then Some b
     else do {
       lo \<leftarrow> wpix e row col 0 1;
       hi \<leftarrow> wpix e row col 0 3;
       for_up 3 6 (\<lambda>d b. do {
         h \<leftarrow> hex_get (xe_hex e) row col 1 d;
         let i = xt_at e b ((d - 2) XOR (if xt_row e row = 0 then 1 else 0)) row col;
         p \<leftarrow> xrd b i (-2 * h) 1; q \<leftarrow> xrd b i h 1; u \<leftarrow> xrd b i (-2 * h) f; v \<leftarrow> xrd b i h f; x \<leftarrow> xrd b i 0 f;
         xwr i 1 (LIM_c ((p + 2 * q - u - 2 * v + 3 * x) sdiv 3) lo hi) b }) b } }"

text \<open>
  Red and blue of a solitary green pixel, along six directions, of which the second and the third pair
  are compared. \<open>color[h][d]\<close> is cell \<open>8 * h + d\<close>. The state: the step \<open>i\<close>, the colour \<open>h\<close>, the image, the two
  arrays and the tile.
\<close>

definition xt_solo_dir :: "xt_env \<Rightarrow> int \<Rightarrow> int \<Rightarrow> int \<Rightarrow> int \<times> int \<times> int \<times> int list \<times> real_c list \<times> xtile
    \<Rightarrow> (int \<times> int \<times> int \<times> int list \<times> real_c list \<times> xtile) option" where
  "xt_solo_dir e row col d = (\<lambda>(i, h, k, color, diff, b). do {
     let fp = xe_fp e;
     let r = xt_at e b k row col;
     (h, color, diff) \<leftarrow> for_up 0 2 (\<lambda>c (h, color, diff). do {
       let j = shl i c;
       x \<leftarrow> xrd b r 0 1; p \<leftarrow> xrd b r j 1; q \<leftarrow> xrd b r (- j) 1; u \<leftarrow> xrd b r j h; v \<leftarrow> xrd b r (- j) h;
       let gr = 2 * x - p - q;
       color \<leftarrow> put color (8 * h + d) (gr + u + v);
       diff \<leftarrow> (if d > 1 then do {
                  y \<leftarrow> at diff d;
                  let w = p - q - u + v;
                  put diff d (as_float fp (Sum y (Of_int (c_s32 (w * w + gr * gr))))) }
                else Some diff);
       Some (h XOR 2, color, diff) }) (h, color, diff);
     y0 \<leftarrow> (if d > 1 \<and> d AND 1 \<noteq> 0 then at diff (d - 1) else Some (Of_int 0));
     y1 \<leftarrow> at diff d;
     color \<leftarrow> (if d > 1 \<and> d AND 1 \<noteq> 0 \<and> fp_less fp y0 y1
               then for_up 0 2 (\<lambda>c color. do { v \<leftarrow> at color (16 * c + d - 1); put color (16 * c + d) v }) color
               else Some color);
     (k, b) \<leftarrow> (if d < 2 \<or> d AND 1 \<noteq> 0 then do {
                  b \<leftarrow> for_up 0 2 (\<lambda>c b. do { v \<leftarrow> at color (16 * c + d); xwr r (2 * c) (CLIP (v sdiv 2)) b }) b;
                  Some (k + 1, b) }
                else Some (k, b));
     Some (i XOR 513, h XOR 2, k, color, diff, b) })"

definition xt_solo :: "xt_env \<Rightarrow> int \<Rightarrow> int \<Rightarrow> xtile \<Rightarrow> xtile option" where
  "xt_solo e row col b = do {
     h \<leftarrow> xcol (xe_g e) row (col + 1);
     (_, _, _, _, _, b) \<leftarrow> for_up 0 6 (xt_solo_dir e row col)
       (1, h, 0, map (\<lambda>k. c_s32 (junk (xe_g e) k)) [0..<24], replicate 6 (Of_int 0), b);
     Some b }"

definition xt_solos :: "xt_env \<Rightarrow> xtile \<Rightarrow> xtile option" where
  "xt_solos e = (let hx = xe_hex e in
     for_by 3 ((xe_top e - hx_row hx + 4) sdiv 3 * 3 + hx_row hx) (xe_mrow e - 2) (\<lambda>row.
       for_by 3 ((xe_left e - hx_col hx + 4) sdiv 3 * 3 + hx_col hx) (xe_mcol e - 2) (xt_solo e row)))"

text \<open>Red for blue pixels and the reverse, from the nearer pair of neighbours.\<close>

definition xt_swap :: "xt_env \<Rightarrow> int \<Rightarrow> int \<Rightarrow> xtile \<Rightarrow> xtile option" where
  "xt_swap e row col b = do {
     f \<leftarrow> xcol (xe_g e) row col;
     let f = 2 - f;
     if f = 1 then Some b
     else do {
       let c = (if xt_row e row \<noteq> 0 then TS else 1);
       let h = 3 * (c XOR 513);
       for_up 0 4 (\<lambda>d b. do {
         let r = xt_at e b d row col;
         x \<leftarrow> xrd b r 0 1;
         far \<leftarrow> (if d > 1 \<or> (d XOR c) AND 1 \<noteq> 0 then Some False
                 else do {
                   a0 \<leftarrow> xrd b r c 1; a1 \<leftarrow> xrd b r (- c) 1; b0 \<leftarrow> xrd b r h 1; b1 \<leftarrow> xrd b r (- h) 1;
                   Some (\<not> \<bar>x - a0\<bar> + \<bar>x - a1\<bar> < 2 * (\<bar>x - b0\<bar> + \<bar>x - b1\<bar>)) });
         let i = (if far then h else c);
         u \<leftarrow> xrd b r i f; v \<leftarrow> xrd b r (- i) f; p \<leftarrow> xrd b r i 1; q \<leftarrow> xrd b r (- i) 1;
         xwr r f (CLIP ((u + v + 2 * x - p - q) sdiv 2)) b }) b } }"

text \<open>Red and blue in the blocks of four green pixels.\<close>

definition xt_block_dir :: "xt_env \<Rightarrow> int \<Rightarrow> int \<Rightarrow> int \<Rightarrow> xtile \<Rightarrow> xtile option" where
  "xt_block_dir e row col d b = do {
     let r = xt_at e b (d div 2) row col;
     h \<leftarrow> hex_get (xe_hex e) row col 1 d;
     k \<leftarrow> hex_get (xe_hex e) row col 1 (d + 1);
     let w = (if h + k \<noteq> 0 then 2 else 1);
     x \<leftarrow> xrd b r 0 1; p \<leftarrow> xrd b r h 1; q \<leftarrow> xrd b r k 1;
     let gr = (w + 1) * x - w * p - q;
     for_by 2 0 4 (\<lambda>c b. do {
       u \<leftarrow> xrd b r h c;
       v \<leftarrow> xrd b r k c;
       xwr r c (CLIP ((gr + w * u + v) sdiv (w + 1))) b }) b }"

definition xt_block :: "xt_env \<Rightarrow> int \<Rightarrow> int \<Rightarrow> xtile \<Rightarrow> xtile option" where
  "xt_block e row col b =
     (if xt_row e row \<noteq> 0 \<and> (col - hx_col (xe_hex e)) smod 3 \<noteq> 0
      then for_by 2 0 (xe_dirs e) (xt_block_dir e row col) b else Some b)"

text \<open>A pass; the second begins with a copy of the four images behind them.\<close>

definition xt_pass :: "xt_env \<Rightarrow> int \<Rightarrow> xtile \<Rightarrow> xtile option" where
  "xt_pass e pass b = do {
     let n = nat (12 * TS * TS);
     let b = (if pass = 1
              then b\<lparr>xt_rgb := take n (xt_rgb b) @ take n (xt_rgb b) @ drop (2 * n) (xt_rgb b), xt_off := 4\<rparr> else b);
     b \<leftarrow> (if pass \<noteq> 0 then xt_each e 2 (xt_regreen e) b else Some b);
     b \<leftarrow> xt_solos e b;
     b \<leftarrow> xt_each e 3 (xt_swap e) b;
     xt_each e 2 (xt_block e) b }"

section \<open>The vote\<close>

definition xt_dir :: "int \<Rightarrow> int" where
  "xt_dir d = [1, TS, TS + 1, TS - 1] ! nat (d AND 3)"

definition xt_lab_pixel :: "fp_ops \<Rightarrow> (nat \<Rightarrow> nat \<Rightarrow> real_c) \<Rightarrow> int \<Rightarrow> int \<Rightarrow> int \<Rightarrow> xtile \<Rightarrow> xtile option" where
  "xt_lab_pixel fp xc d row col b = do {
     let i = tile_at d row col 0;
     r \<leftarrow> rd (xt_rgb b) i; gr \<leftarrow> rd (xt_rgb b) (i + 1); u \<leftarrow> rd (xt_rgb b) (i + 2);
     let lab = cielab fp xc [r, gr, u];
     xs \<leftarrow> for_up 0 3 (\<lambda>k xs. do { v \<leftarrow> at lab k; wr xs (tile_at 0 row col k) v }) (xt_lab b);
     Some (b\<lparr>xt_lab := xs\<rparr>) }"

definition xt_derive :: "fp_ops \<Rightarrow> int \<Rightarrow> int \<Rightarrow> int \<Rightarrow> xtile \<Rightarrow> xtile option" where
  "xt_derive fp d row col b = do {
     let i = tile_at 0 row col 0;
     let bend = (\<lambda>k. do {
       x \<leftarrow> rds (xt_lab b) (i + k); p \<leftarrow> rds (xt_lab b) (i + 3 * xt_dir d + k); q \<leftarrow> rds (xt_lab b) (i - 3 * xt_dir d + k);
       Some (2 * x - p - q) });
     gr \<leftarrow> bend 0; a \<leftarrow> bend 1; u \<leftarrow> bend 2;
     let a = a + gr * 500 sdiv 232;
     let u = u - gr * 500 sdiv 580;
     ds \<leftarrow> put (xt_drv b) (homo_at d row col) (as_float fp (Of_int (c_s32 (gr * gr + a * a + u * u))));
     Some (b\<lparr>xt_drv := ds\<rparr>) }"

definition xt_derivatives :: "fp_ops \<Rightarrow> (nat \<Rightarrow> nat \<Rightarrow> real_c) \<Rightarrow> int \<Rightarrow> int \<Rightarrow> int \<Rightarrow> xtile \<Rightarrow> xtile option" where
  "xt_derivatives fp xc mrow mcol d b = do {
     b \<leftarrow> for_up 2 (mrow - 2) (\<lambda>row. for_up 2 (mcol - 2) (xt_lab_pixel fp xc d row)) b;
     for_up 3 (mrow - 3) (\<lambda>row. for_up 3 (mcol - 3) (xt_derive fp d row)) b }"

text \<open>How many of the nine pixels around have a small derivative.\<close>

definition xt_homo_pixel :: "fp_ops \<Rightarrow> int \<Rightarrow> int \<Rightarrow> int \<Rightarrow> xtile \<Rightarrow> xtile option" where
  "xt_homo_pixel fp ndir row col b = do {
     tr \<leftarrow> for_up 0 ndir (\<lambda>d tr. do {
       x \<leftarrow> at (xt_drv b) (homo_at d row col);
       Some (if fp_less fp tr x then tr else x) }) (Decimal ''3.40282346638528859812e+38'');
     let tr = as_float fp (Product tr (Of_int 8));
     xs \<leftarrow> for_up 0 ndir (\<lambda>d. for_up (-1) 2 (\<lambda>v. for_up (-1) 2 (\<lambda>h xs. do {
       n \<leftarrow> rd xs (homo_at d row col);
       x \<leftarrow> at (xt_drv b) (homo_at d (row + v) (col + h));
       wr xs (homo_at d row col) (n + of_bool (\<not> fp_less fp tr x)) }))) (xt_homo b);
     Some (b\<lparr>xt_homo := xs\<rparr>) }"

definition xt_votes :: "xtile \<Rightarrow> int \<Rightarrow> int \<Rightarrow> int \<Rightarrow> int list option" where
  "xt_votes b ndir row col = for_up 0 ndir (\<lambda>d hm. do {
     n \<leftarrow> for_up (-2) 3 (\<lambda>v. for_up (-2) 3 (\<lambda>h n. do { x \<leftarrow> rd (xt_homo b) (homo_at d (row + v) (col + h)); Some (n + x) })) 0;
     Some (hm @ [n]) }) []"

text \<open>Of a direction in both passes the one with fewer votes is dropped.\<close>

definition xt_rivals :: "int \<Rightarrow> int list \<Rightarrow> int list" where
  "xt_rivals ndir hm =
     fold (\<lambda>d hm. if hm ! d < hm ! (d + 4) then hm[d := 0] else if hm ! d > hm ! (d + 4) then hm[d + 4 := 0] else hm)
       [0..<nat (ndir - 4)] hm"

definition xt_level :: "int list \<Rightarrow> int" where
  "xt_level hm = (let mx = c_u16 (fold max (tl hm) (hd hm)) in mx - shr mx 3)"

definition xt_result :: "geom \<Rightarrow> int \<Rightarrow> int \<Rightarrow> int \<Rightarrow> xtile \<Rightarrow> int \<Rightarrow> int \<Rightarrow> dst \<Rightarrow> dst option" where
  "xt_result g ndir tp lft b row col s = do {
     hm \<leftarrow> xt_votes b ndir row col;
     let hm = xt_rivals ndir hm;
     (sums, n) \<leftarrow> for_up 0 ndir (\<lambda>d (sums, n). do {
       h \<leftarrow> at hm d;
       if h \<ge> xt_level hm then do {
         x \<leftarrow> rd (xt_rgb b) (tile_at d row col 0); y \<leftarrow> rd (xt_rgb b) (tile_at d row col 1); z \<leftarrow> rd (xt_rgb b) (tile_at d row col 2);
         Some (map2 (+) sums [x, y, z], n + 1) }
       else Some (sums, n) }) ([0, 0, 0], 0);
     for_up 0 3 (\<lambda>c s. do {
       v \<leftarrow> at sums c;
       q \<leftarrow> c_div v n;
       set_IMG ((row + tp) * width g + col + lft) c q s }) s }"

section \<open>xtrans_interpolate\<close>

definition xt_tile :: "fp_ops \<Rightarrow> (nat \<Rightarrow> nat \<Rightarrow> real_c) \<Rightarrow> geom \<Rightarrow> hexes \<Rightarrow> u16 list \<Rightarrow> int \<Rightarrow> int \<Rightarrow> int \<Rightarrow> int \<Rightarrow> xtile \<times> dst
    \<Rightarrow> (xtile \<times> dst) option" where
  "xt_tile fp xc g hx work passes ndir tp lft = (\<lambda>(b, s). do {
     let mrow = min (tp + TS) (height g - 3);
     let mcol = min (lft + TS) (width g - 3);
     let e = \<lparr>xe_fp = fp, xe_g = g, xe_hex = hx, xe_work = work, xe_dirs = ndir, xe_top = tp, xe_left = lft, xe_mrow = mrow, xe_mcol = mcol\<rparr>;
     b \<leftarrow> xt_copy e (b\<lparr>xt_off := 0\<rparr>);
     b \<leftarrow> xt_each e 0 (xt_green e) b;
     b \<leftarrow> for_up 0 passes (xt_pass e) b;
     let mrow = mrow - tp;
     let mcol = mcol - lft;
     b \<leftarrow> for_up 0 ndir (xt_derivatives fp xc mrow mcol) b;
     b \<leftarrow> for_up 4 (mrow - 4) (\<lambda>row. for_up 4 (mcol - 4) (xt_homo_pixel fp ndir row)) (b\<lparr>xt_homo := zeros (ndir * TS * TS)\<rparr>);
     let mrow = (if height g - tp < TS + 4 then height g - tp + 2 else mrow);
     let mcol = (if width g - lft < TS + 4 then width g - lft + 2 else mcol);
     s \<leftarrow> for_up (min tp 8) (mrow - 8) (\<lambda>row. for_up (min lft 8) (mcol - 8) (xt_result g ndir tp lft b row)) s;
     Some (b, s) })"

definition xtrans_interpolate :: "fp_ops \<Rightarrow> int \<Rightarrow> meta \<Rightarrow> meta option" where
  "xtrans_interpolate fp passes s = do {
     let g = tg s;
     let ndir = (if passes > 1 then 8 else 4);
     t \<leftarrow> border_interpolate g 6 (td s);
     hx \<leftarrow> hex_map g;
     t \<leftarrow> xt_bounds g hx 2 t;
     let n = 4 * (iheight g * iwidth g);
     work \<leftarrow> (if n \<le> int (length (img t)) then Some (take (nat n) (img t)) else None);
     let b = \<lparr>xt_rgb = uninit g (ndir * 3 * TS * TS), xt_lab = uninit g (3 * TS * TS),
              xt_drv = map (\<lambda>k. Float_bits (junk g k)) [0..<nat (ndir * TS * TS)], xt_homo = uninit g (ndir * TS * TS), xt_off = 0\<rparr>;
     (_, t) \<leftarrow> for_by (TS - 16) 3 (height g - 19) (\<lambda>tp. for_by (TS - 16) 3 (width g - 19) (\<lambda>lft.
       xt_tile fp (xyz_cam fp s (colors t)) g hx work passes ndir tp lft)) (b, t);
     t \<leftarrow> border_interpolate g 8 t;
     Some (s\<lparr>td := t\<rparr>) }"

section \<open>After an enlargement\<close>

lemma for_by_visits:
  assumes "for_by k i n f s = Some r" "0 < k" "i + k * m < n" "0 \<le> m"
  shows "\<exists>t u. f (i + k * m) t = Some u"
  using assms
proof (induction k i n f s arbitrary: m rule: for_by.induct)
  case (1 k i n f s)
  have "i < n" using "1.prems" by (smt (verit) mult_nonneg_nonneg)
  with "1.prems" obtain t where t: "f i s = Some t" "for_by k (i + k) n f t = Some r"
    by (auto simp: for_by_step split: bind_splits)
  show ?case
  proof (cases "m = 0")
    case True
    then show ?thesis using t(1) by auto
  next
    case False
    have "\<exists>t u. f (i + k + k * (m - 1)) t = Some u"
      using "1.prems" False \<open>i < n\<close> by (intro "1.IH" [OF _ t]) (auto simp: algebra_simps)
    then show ?thesis by (simp add: algebra_simps)
  qed
qed

lemma for_up_visits: "for_up i n f s = Some r \<Longrightarrow> i \<le> j \<Longrightarrow> j < n \<Longrightarrow> \<exists>t u. f j t = Some u"
  using for_by_visits [of 1 i n f s r "j - i"] by auto

lemma xt_copy_reads:
  assumes "xt_copy e b = Some b'" "xe_top e \<le> row" "row < xe_mrow e" "xe_left e \<le> col" "col < xe_mcol e"
  shows "4 * (row * width (xe_g e) + col) < int (length (xe_work e))"
proof -
  obtain b1 where "xt_each e 0 (\<lambda>row col. for_up 0 3 (\<lambda>c b. do {
       v \<leftarrow> wpix e row col 0 c; xwr (xt_at e b 0 row col) c v b })) b = Some b1"
    using assms(1) by (auto simp: xt_copy_def Let_def split: bind_splits)
  then obtain b2 b3 where "for_up (xe_left e + 0) (xe_mcol e - 0) (\<lambda>col. for_up 0 3 (\<lambda>c b. do {
       v \<leftarrow> wpix e row col 0 c; xwr (xt_at e b 0 row col) c v b })) b2 = Some b3"
    unfolding xt_each_def using for_up_visits [of "xe_top e + 0" "xe_mrow e - 0"] assms(2,3) by fastforce
  then obtain b4 b5 where "for_up 0 3 (\<lambda>c b. do { v \<leftarrow> wpix e row col 0 c; xwr (xt_at e b 0 row col) c v b }) b4 = Some b5"
    using for_up_visits [of "xe_left e + 0" "xe_mcol e - 0"] assms(4,5) by fastforce
  then obtain b6 b7 where "do { v \<leftarrow> wpix e row col 0 0; xwr (xt_at e b6 0 row col) 0 v b6 } = Some b7"
    using for_up_visits [of 0 3 _ _ _ 0] by fastforce
  then show ?thesis by (auto simp: wpix_def rd_def inb_def split: bind_splits if_splits)
qed

text \<open>
  C25: With the options \<open>-n\<close> or \<open>-C\<close> the image is loaded at half its size, and \<open>pre_interpolate\<close> enlarges
  it but leaves \<open>iheight\<close> and \<open>iwidth\<close> as they were. The copy \<open>working_image\<close> has their size, a quarter of
  the image: \<open>xtrans_interpolate\<close> reads behind its end for every file whose image is at least 23 pixels
  high and wide, whatever it holds.
\<close>

theorem xtrans_small_copy:
  assumes "iheight (tg s) = (height (tg s) + 1) div 2" "iwidth (tg s) = (width (tg s) + 1) div 2"
    and "23 \<le> height (tg s)" "23 \<le> width (tg s)"
  shows "xtrans_interpolate fp passes s = None"
proof (rule ccontr)
  define g where "g = tg s"
  note a = assms [folded g_def]
  assume "xtrans_interpolate fp passes s \<noteq> None"
  then obtain x where x: "xtrans_interpolate fp passes s = Some x" by auto
  define ndir :: int where "ndir = (if passes > 1 then 8 else 4)"
  obtain t1 hx t2 work xc b r where work: "(if 4 * (iheight g * iwidth g) \<le> int (length (img t2))
        then Some (take (nat (4 * (iheight g * iwidth g))) (img t2)) else None) = Some work"
    and loop: "for_by (TS - 16) 3 (height g - 19) (\<lambda>tp. for_by (TS - 16) 3 (width g - 19) (\<lambda>lft. xt_tile fp xc g hx work passes ndir tp lft)) (b, t2) = Some r"
    using x unfolding xtrans_interpolate_def Let_def g_def [symmetric] ndir_def [symmetric] Option.bind_eq_Some_conv by blast
  then have work: "int (length work) \<le> 4 * (iheight g * iwidth g)" using a by (auto split: if_splits)
  define q where "q = (height g - 23) div 496"
  define tp where "tp = 3 + 496 * q"
  have q: "496 * q \<le> height g - 23" "height g - 23 < 496 * q + 496" "0 \<le> q" using a(3) by (auto simp: q_def)
  obtain t1 r1 where "for_by (TS - 16) 3 (width g - 19) (\<lambda>lft. xt_tile fp xc g hx work passes ndir tp lft) t1 = Some r1"
    using for_by_visits [OF loop, of q] q by (auto simp: tp_def)
  from for_by_visits [OF this, of 0] obtain b u r2 where "xt_tile fp xc g hx work passes ndir tp 3 (b, u) = Some r2"
    using a(4) by auto
  then obtain e b1 b2 where e: "xe_top e = tp" "xe_left e = 3" "xe_mrow e = min (tp + TS) (height g - 3)" "xe_mcol e = min (3 + TS) (width g - 3)"
    "xe_g e = g" "xe_work e = work" and "xt_copy e b1 = Some b2"
    by (force simp: xt_tile_def Let_def split: bind_splits)
  from xt_copy_reads [OF this(7), of "height g - 4" 3] have "4 * ((height g - 4) * width g + 3) < int (length work)"
    using q a(4) by (simp add: e tp_def)
  moreover have "iheight g * iwidth g \<le> (height g - 4) * width g" using a by (intro mult_mono) auto
  moreover have "False" if "4 * (x + 3) < n" "y \<le> x" "n \<le> 4 * y" for x y n :: int using that by auto
  ultimately show False using work by blast
qed

theorem xtrans_small_copy_witness:
  "\<forall>fp s. xtrans_interpolate fp 1 (s\<lparr>tg := (plain_geom 24 24)\<lparr>iheight := 12, iwidth := 12\<rparr>\<rparr>) = None"
  by (intro allI xtrans_small_copy) (simp_all add: plain_geom_def)

end
