(* ===== verification/Wavelet.thy ===== *)
theory Wavelet
  imports ScaleColors
begin

text \<open>
  \<open>wavelet_denoise\<close>, which the option \<open>-n\<close> asks for: a wavelet transform of each colour whose small
  coefficients are removed, and a filter that brings the two greens together. The buffer \<open>fimg\<close> is a list
  of \<open>float\<close> variables: three planes of the size of the image and the line \<open>temp\<close>. The colours are done one
  after the other in one buffer, as the code says without its OpenMP directive; the directive makes the
  pointer to the buffer private to the threads, in which it has no value.
\<close>

section \<open>hat_transform\<close>

text \<open>
  Cell \<open>i\<close> of a line of \<open>n\<close> cells that begins at \<open>base\<close> and goes by steps of \<open>st\<close>; at its ends the line is
  mirrored. The first loop goes to \<open>sc\<close>, even when the line is shorter.
\<close>

definition hat_cell :: "fp_ops \<Rightarrow> real_c list \<Rightarrow> int \<Rightarrow> int \<Rightarrow> int \<Rightarrow> int \<Rightarrow> int \<Rightarrow> real_c option" where
  "hat_cell fp f base st n sc i = do {
     x \<leftarrow> at f (base + st * i);
     y \<leftarrow> at f (base + st * (if i < sc then sc - i else i - sc));
     z \<leftarrow> at f (base + st * (if i < sc \<or> i + sc < n then i + sc else 2 * n - 2 - (i + sc)));
     Some (as_float fp (Sum (Sum (Product (Of_int 2) x) y) z)) }"

definition hat_transform :: "fp_ops \<Rightarrow> int \<Rightarrow> int \<Rightarrow> int \<Rightarrow> int \<Rightarrow> int \<Rightarrow> real_c list \<Rightarrow> real_c list option" where
  "hat_transform fp temp base st n sc f = for_up 0 (max sc n) (\<lambda>i f. do {
     x \<leftarrow> hat_cell fp f base st n sc i;
     put f (temp + i) x }) f"

section \<open>One colour\<close>

definition noise :: "string list" where
  "noise = [''0.8002'', ''0.2735'', ''0.1202'', ''0.0585'', ''0.0291'', ''0.0152'', ''0.0080'', ''0.0044'']"

text \<open>What is left of a coefficient beyond the threshold.\<close>

definition shrunk :: "fp_ops \<Rightarrow> real_c \<Rightarrow> real_c \<Rightarrow> real_c" where
  "shrunk fp thold x =
     (if fp_less fp x (Negative thold) then as_float fp (Sum x thold)
      else if fp_less fp thold x then as_float fp (Minus x thold)
      else Of_int 0)"

definition wave_lines :: "fp_ops \<Rightarrow> geom \<Rightarrow> int \<Rightarrow> int \<Rightarrow> int \<Rightarrow> real_c list \<Rightarrow> real_c list option" where
  "wave_lines fp g sc hpass lpass f = do {
     let h = iheight g;
     let w = iwidth g;
     let temp = 3 * (h * w);
     let quarter = (\<lambda>to from f. do { x \<leftarrow> at f from; put f to (as_float fp (Product x (Decimal ''0.25''))) });
     f \<leftarrow> for_up 0 h (\<lambda>row f. do {
       f \<leftarrow> hat_transform fp temp (hpass + row * w) 1 w sc f;
       for_up 0 w (\<lambda>col. quarter (lpass + row * w + col) (temp + col)) f }) f;
     for_up 0 w (\<lambda>col f. do {
       f \<leftarrow> hat_transform fp temp (lpass + col) w h sc f;
       for_up 0 h (\<lambda>row. quarter (lpass + row * w + col) (temp + row)) f }) f }"

definition wave_cell :: "fp_ops \<Rightarrow> real_c \<Rightarrow> int \<Rightarrow> int \<Rightarrow> int \<Rightarrow> real_c list \<Rightarrow> real_c list option" where
  "wave_cell fp thold hpass lpass i f = do {
     x \<leftarrow> at f (hpass + i);
     y \<leftarrow> at f (lpass + i);
     let z = shrunk fp thold (as_float fp (Minus x y));
     f \<leftarrow> put f (hpass + i) z;
     if hpass \<noteq> 0 then do {
       x \<leftarrow> at f i;
       put f i (as_float fp (Sum x z)) }
     else Some f }"

text \<open>Five levels; the planes 1 and 2 take turns.\<close>

definition wave_level :: "fp_ops \<Rightarrow> real_c \<Rightarrow> geom \<Rightarrow> int \<Rightarrow> int \<times> real_c list \<Rightarrow> (int \<times> real_c list) option" where
  "wave_level fp threshold g lev = (\<lambda>(hpass, f). do {
     let n = iheight g * iwidth g;
     let lpass = n * ((lev AND 1) + 1);
     f \<leftarrow> wave_lines fp g (shl 1 lev) hpass lpass f;
     let thold = as_float fp (Product threshold (as_float fp (Decimal (noise ! nat lev))));
     f \<leftarrow> for_up 0 n (wave_cell fp thold hpass lpass) f;
     Some (lpass, f) })"

definition wave_colour :: "fp_ops \<Rightarrow> real_c \<Rightarrow> geom \<Rightarrow> int \<Rightarrow> int \<Rightarrow> real_c list \<times> dst \<Rightarrow> (real_c list \<times> dst) option" where
  "wave_colour fp threshold g scale c = (\<lambda>(f, t). do {
     let n = iheight g * iwidth g;
     f \<leftarrow> for_up 0 n (\<lambda>i f. do {
       v \<leftarrow> IMG t i c;
       put f i (as_float fp (Product (Of_int 256) (Sqrt (Of_int (shl v scale))))) }) f;
     (lpass, f) \<leftarrow> for_up 0 5 (wave_level fp threshold g) (0, f);
     t \<leftarrow> for_up 0 n (\<lambda>i t. do {
       x \<leftarrow> at f i;
       y \<leftarrow> at f (lpass + i);
       let z = Sum x y;
       set_IMG i c (CLIP (fp_int fp (Quotient (Product z z) (Of_int 0x10000)))) t }) t;
     Some (f, t) })"

section \<open>The two greens\<close>

text \<open>
  Three rows of the image are kept; the four pointers \<open>window\<close> go round with the rows.
\<close>

definition green_load :: "geom \<Rightarrow> int \<Rightarrow> dst \<Rightarrow> u16 list \<Rightarrow> u16 list option" where
  "green_load g row t line = for_by 2 (FC (filters t) row 1 AND 1) (width g) (\<lambda>col line. do {
     v \<leftarrow> BAYER g t row col;
     wr line col v }) line"

definition green_pixel :: "fp_ops \<Rightarrow> real_c \<Rightarrow> geom \<Rightarrow> real_c list \<Rightarrow> int list \<Rightarrow> u16 list \<times> u16 list \<times> u16 list \<Rightarrow> int \<Rightarrow> int \<Rightarrow> dst \<Rightarrow> dst option" where
  "green_pixel fp threshold g mul blk = (\<lambda>(w0, w1, w2) row col t. do {
     a \<leftarrow> rd w0 (col - 1); b \<leftarrow> rd w0 (col + 1); c \<leftarrow> rd w2 (col - 1); d \<leftarrow> rd w2 (col + 1);
     e \<leftarrow> rd w1 col;
     let here = nat (row AND 1);
     let avg = as_float fp (Sum (Product (Of_int (a + b + c + d - 4 * blk ! (1 - here))) (mul ! here))
       (Product (Of_int (e + blk ! here)) (Decimal ''0.5'')));
     let avg = (if fp_less fp avg (Of_int 0) then Of_int 0 else as_float fp (Sqrt avg));
     v \<leftarrow> BAYER g t row col;
     let diff = shrunk fp (as_float fp (Quotient threshold (Of_int 512))) (as_float fp (Minus (Sqrt (Of_int v)) avg));
     let z = Sum avg diff;
     set_BAYER g row col (CLIP (fp_int fp (Sum (Product z z) (Decimal ''0.5'')))) t })"

definition noise_green_row :: "fp_ops \<Rightarrow> real_c \<Rightarrow> geom \<Rightarrow> real_c list \<Rightarrow> int list \<Rightarrow> int \<Rightarrow> (u16 list \<times> u16 list \<times> u16 list) \<times> dst
    \<Rightarrow> ((u16 list \<times> u16 list \<times> u16 list) \<times> dst) option" where
  "noise_green_row fp threshold g mul blk row = (\<lambda>(win, t). do {
     win \<leftarrow> for_up (if row = 1 then 0 else row + 1) (row + 2) (\<lambda>k (w0, w1, w2). do {
       line \<leftarrow> green_load g k t w0;
       Some (w1, w2, line) }) win;
     t \<leftarrow> for_by 2 ((FC (filters t) row 0 AND 1) + 1) (width g - 1) (green_pixel fp threshold g mul blk win row) t;
     Some (win, t) })"

definition mix_rows :: "fp_ops \<Rightarrow> real_c \<Rightarrow> geom \<Rightarrow> real_c list \<Rightarrow> dst \<Rightarrow> dst option" where
  "mix_rows fp threshold g pre t = do {
     let colour = (\<lambda>row. FC (filters t) row 0 OR 1);
     let mul = map (\<lambda>row. as_float fp (Quotient (Product (Decimal ''0.125'') (pre ! nat (colour (row + 1)))) (pre ! nat (colour row)))) [0, 1];
     b0 \<leftarrow> rd (cblack t) (colour 0);
     b1 \<leftarrow> rd (cblack t) (colour 1);
     let line = uninit g (width g);
     (_, t) \<leftarrow> for_up 1 (height g - 1) (noise_green_row fp threshold g mul [b0, b1]) ((line, line, line), t);
     Some t }"

section \<open>wavelet_denoise\<close>

text \<open>\<open>while (maximum << scale < 0x10000) scale++\<close>: for a maximum of zero the shift leaves its range.\<close>

fun scale_up :: "nat \<Rightarrow> int \<Rightarrow> int \<Rightarrow> int option" where
  "scale_up 0 mx scale = None"
| "scale_up (Suc n) mx scale = (if c_u32 (shl mx scale) < 0x10000 then scale_up n mx (scale + 1) else Some scale)"

definition scale_levels :: "int \<Rightarrow> dst \<Rightarrow> dst option" where
  "scale_levels scale t = do {
     cb \<leftarrow> for_up 0 4 (\<lambda>c cb. do { x \<leftarrow> rd cb c; wr cb c (shl x scale) }) (cblack t);
     Some (t\<lparr>maximum := c_u32 (shl (maximum t) scale), black := c_u32 (shl (black t) scale), cblack := cb\<rparr>) }"

definition wavelet_denoise :: "fp_ops \<Rightarrow> real_c \<Rightarrow> meta \<Rightarrow> meta option" where
  "wavelet_denoise fp threshold s = do {
     let g = tg s;
     scale \<leftarrow> scale_up 31 (maximum (td s)) 1;
     let scale = scale - 1;
     t \<leftarrow> scale_levels scale (td s);
     let nc = (if colors t = 3 \<and> filters t \<noteq> 0 then 4 else colors t);
     let f = map (\<lambda>k. Float_bits (junk g k)) [0..<nat (3 * (iheight g * iwidth g) + iheight g + iwidth g)];
     (_, t) \<leftarrow> for_up 0 nc (wave_colour fp threshold g scale) (f, t);
     t \<leftarrow> (if filters t \<noteq> 0 \<and> colors t = 3 then mix_rows fp threshold g (pre_mul s) t else Some t);
     Some (s\<lparr>td := t\<rparr>) }"

end
