(* ===== verification/PhaseCorrect.thy ===== *)
theory PhaseCorrect
  imports ScaleColors
begin

text \<open>
  \<open>phase_one_correct\<close>: the corrections that a Phase One file asks for by the entries of a directory of
  its own: curves, defective columns and pixels, flat fields (\<open>phase_one_flat_field\<close>), and the four
  quadrants of the sensor, whose curves \<open>cubic_spline\<close> draws through given points. They work on the raw
  samples before \<open>main\<close> crops them. Variables of type \<open>float\<close> are expressions (\<open>real_c\<close>), rounded by
  \<open>as_float\<close> when they are assigned.
\<close>

section \<open>Limits\<close>

text \<open>\<open>LIM (x, 0, 65535)\<close> of a \<open>float\<close>, stored in an integer, and of an integer.\<close>

definition float_lim :: "fp_ops \<Rightarrow> real_c \<Rightarrow> int" where
  "float_lim fp x =
     (if fp_less fp x (Of_int 65535) then if fp_less fp x (Of_int 0) then 0 else fp_int fp x else 65535)"

definition raw_map :: "(int \<Rightarrow> int option) \<Rightarrow> geom \<Rightarrow> int \<Rightarrow> int \<Rightarrow> int \<Rightarrow> int \<Rightarrow> dst \<Rightarrow> dst option" where
  "raw_map f g r0 r1 c0 c1 t = for_up r0 r1 (\<lambda>row. for_up c0 c1 (\<lambda>col t. do {
     x \<leftarrow> RAW g t row col;
     y \<leftarrow> f x;
     set_RAW g row col y t })) t"

text \<open>\<open>RAW (row, col) = curve[RAW (row, col)]\<close> for a part of the image.\<close>

definition through_curve :: "geom \<Rightarrow> int \<Rightarrow> int \<Rightarrow> int \<Rightarrow> int \<Rightarrow> dst \<Rightarrow> dst option" where
  "through_curve g r0 r1 c0 c1 t = raw_map (rd (curve t)) g r0 r1 c0 c1 t"

section \<open>phase_one_flat_field\<close>

text \<open>
  The field is a grid of multipliers for \<open>nc / 2\<close> colours. \<open>mrow\<close> holds one row of the grid and the
  increment from one line of the image to the next: row \<open>c\<close> of it the multipliers, row \<open>c + 1\<close> the
  increments.
\<close>

definition flat_number :: "fp_ops \<Rightarrow> bool \<Rightarrow> meta \<Rightarrow> real_c \<times> meta" where
  "flat_number fp is_float s =
     (if is_float then case rd_io (getreal 11) s of (x, s) \<Rightarrow> (as_float fp x, s)
      else case rd_io get2 s of (x, s) \<Rightarrow> (as_float fp (Quotient (Of_int x) (Decimal ''32768.0'')), s))"

definition flat_line :: "fp_ops \<Rightarrow> bool \<Rightarrow> int \<Rightarrow> int \<Rightarrow> int \<Rightarrow> int \<Rightarrow> real_c list \<times> meta \<Rightarrow> (real_c list \<times> meta) option" where
  "flat_line fp is_float nc wide h5 y = for_up 0 wide (\<lambda>x. for_by 2 0 nc (\<lambda>c (mrow, s). do {
     let (num, s) = flat_number fp is_float s;
     if y = 0 then do { mrow \<leftarrow> put mrow (c * wide + x) num; Some (mrow, s) }
     else do {
       m \<leftarrow> at mrow (c * wide + x);
       mrow \<leftarrow> put mrow ((c + 1) * wide + x) (as_float fp (Quotient (Minus num m) (Of_int h5)));
       Some (mrow, s) } }))"

text \<open>The multipliers at a place of the grid, and their increments from one column to the next.\<close>

definition flat_mult :: "fp_ops \<Rightarrow> int \<Rightarrow> int \<Rightarrow> int \<Rightarrow> real_c list \<Rightarrow> int \<Rightarrow> real_c list \<Rightarrow> real_c list option" where
  "flat_mult fp nc wide h4 mrow x mult = for_by 2 0 nc (\<lambda>c mult. do {
     m \<leftarrow> at mrow (c * wide + x - 1);
     mult \<leftarrow> put mult c m;
     n \<leftarrow> at mrow (c * wide + x);
     put mult (c + 1) (as_float fp (Quotient (Minus n m) (Of_int h4))) }) mult"

definition flat_pixel :: "fp_ops \<Rightarrow> int \<Rightarrow> geom \<Rightarrow> int \<Rightarrow> int \<Rightarrow> real_c list \<times> dst \<Rightarrow> (real_c list \<times> dst) option" where
  "flat_pixel fp nc g row col = (\<lambda>(mult, t). do {
     let c = (if nc > 2 then FC (filters t) (row - top_margin g) (col - left_margin g) else 0);
     t \<leftarrow> (if c AND 1 = 0 then do {
             v \<leftarrow> RAW g t row col;
             m \<leftarrow> at mult c;
             set_RAW g row col (min (c_u32 (fp_int fp (Product (Of_int v) m))) 65535) t }
           else Some t);
     mult \<leftarrow> for_by 2 0 nc (\<lambda>c mult. do {
       m \<leftarrow> at mult c;
       i \<leftarrow> at mult (c + 1);
       put mult c (as_float fp (Sum m i)) }) mult;
     Some (mult, t) })"

definition flat_row :: "fp_ops \<Rightarrow> int \<Rightarrow> int list \<Rightarrow> int \<Rightarrow> geom \<Rightarrow> int
    \<Rightarrow> real_c list \<times> real_c list \<times> dst \<Rightarrow> (real_c list \<times> real_c list \<times> dst) option" where
  "flat_row fp nc hs wide g row = (\<lambda>(mrow, mult, t). do {
     (mult, t) \<leftarrow> for_up 1 wide (\<lambda>x (mult, t). do {
       mult \<leftarrow> flat_mult fp nc wide (hs ! 4) mrow x mult;
       let cend = c_u32 (hs ! 0 + x * hs ! 4);
       for_up (c_u32 (cend - hs ! 4)) (min (min (raw_width g) cend) (c_u32 (hs ! 0 + hs ! 2 - hs ! 4)))
         (flat_pixel fp nc g row) (mult, t) }) (mult, t);
     mrow \<leftarrow> for_up 0 wide (\<lambda>x. for_by 2 0 nc (\<lambda>c mrow. do {
       m \<leftarrow> at mrow (c * wide + x);
       i \<leftarrow> at mrow ((c + 1) * wide + x);
       put mrow (c * wide + x) (as_float fp (Sum m i)) })) mrow;
     Some (mrow, mult, t) })"

definition flat_band :: "fp_ops \<Rightarrow> int \<Rightarrow> int list \<Rightarrow> int \<Rightarrow> int \<Rightarrow> real_c list \<times> real_c list \<times> meta
    \<Rightarrow> (real_c list \<times> real_c list \<times> meta) option" where
  "flat_band fp nc hs wide y = (\<lambda>(mrow, mult, s). do {
     let g = tg s;
     let rend = c_u32 (hs ! 1 + y * hs ! 5);
     (mrow, mult, t) \<leftarrow> for_up (c_u32 (rend - hs ! 5)) (min (min (raw_height g) rend) (c_u32 (hs ! 1 + hs ! 3 - hs ! 5)))
       (flat_row fp nc hs wide g) (mrow, mult, td s);
     Some (mrow, mult, s\<lparr>td := t\<rparr>) })"

definition cells_up :: "int \<Rightarrow> int \<Rightarrow> int" where
  "cells_up n k = n div k + of_bool (n mod k \<noteq> 0)"

definition phase_one_flat_field :: "fp_ops \<Rightarrow> bool \<Rightarrow> int \<Rightarrow> meta \<Rightarrow> meta option" where
  "phase_one_flat_field fp is_float nc s = do {
     (ws, io) \<leftarrow> read_shorts (uninit (tg s) 8) 0 8 (io_of s);
     let s = set_io io s;
     let hs = map uint ws;
     if c_s32 (hs ! 2 * hs ! 3 * hs ! 4 * hs ! 5) = 0 then Some s
     else do {
       let wide = cells_up (hs ! 2) (hs ! 4);
       let high = cells_up (hs ! 3) (hs ! 5);
       (_, _, s) \<leftarrow> for_up 0 high (\<lambda>y (mrow, mult, s). do {
          (mrow, s) \<leftarrow> flat_line fp is_float nc wide (hs ! 5) y (mrow, s);
          if y = 0 then Some (mrow, mult, s) else flat_band fp nc hs wide y (mrow, mult, s) })
         (replicate (nat (nc * wide)) (Of_int 0), map (\<lambda>k. Float_bits (junk (tg s) k)) [0..<4], s);
       Some s } }"

section \<open>cubic_spline\<close>

text \<open>
  The tridiagonal system for the second derivatives, as \<open>n\<close> rows of \<open>n\<close> numbers whose last column is the
  right side; the rest of the array \<open>A\<close> is not used.
\<close>

definition spline_matrix :: "fp_ops \<Rightarrow> nat \<Rightarrow> real_c list \<Rightarrow> real_c list \<Rightarrow> real_c list list" where
  "spline_matrix fp n b d =
     map (\<lambda>i. map (\<lambda>j.
       if i = 0 \<or> n - 1 \<le> i then Of_int 0
       else if j = n - 1 then as_float fp (Product (Of_int 6) (Minus (b ! (i + 1)) (b ! i)))
       else if j = i then as_float fp (Product (Of_int 2) (Sum (d ! (i - 1)) (d ! i)))
       else if j = i - 1 \<and> 1 < i then d ! j
       else if j = i + 1 \<and> i + 1 < n - 1 then d ! i
       else Of_int 0) [0..<n]) [0..<n]"

definition spline_down :: "fp_ops \<Rightarrow> nat \<Rightarrow> nat \<Rightarrow> real_c list list \<Rightarrow> real_c list list" where
  "spline_down fp n i a =
     (let v = as_float fp (Quotient (a ! (i + 1) ! i) (a ! i ! i))
      in a[i + 1 := map (\<lambda>j. if j = 0 then a ! (i + 1) ! j
                            else as_float fp (Minus (a ! (i + 1) ! j) (Product v (a ! i ! j)))) [0..<n]])"

definition spline_up :: "fp_ops \<Rightarrow> nat \<Rightarrow> real_c list list \<Rightarrow> nat \<Rightarrow> real_c list \<Rightarrow> real_c list" where
  "spline_up fp n a i c =
     (let acc = fold (\<lambda>j s. as_float fp (Sum s (Product (a ! i ! j) (c ! j)))) [i..<n - 1] (Of_int 0)
      in c[i := as_float fp (Quotient (Minus (a ! i ! (n - 1)) acc) (a ! i ! i))])"

definition spline_value :: "fp_ops \<Rightarrow> real_c list \<Rightarrow> real_c list \<Rightarrow> real_c list \<Rightarrow> real_c list \<Rightarrow> real_c \<Rightarrow> real_c" where
  "spline_value fp x y c d p =
     fold (\<lambda>j r.
       if \<not> fp_less fp p (x ! j) \<and> \<not> fp_less fp (x ! (j + 1)) p then
         let v = as_float fp (Minus p (x ! j));
             slope = Minus (Quotient (Minus (y ! (j + 1)) (y ! j)) (d ! j))
                       (Quotient (Sum (Product (Product (Of_int 2) (d ! j)) (c ! j)) (Product (c ! (j + 1)) (d ! j))) (Of_int 6));
             bend = Product (Product (Product (c ! j) (Decimal ''0.5'')) v) v;
             twist = Product (Product (Product (Quotient (Minus (c ! (j + 1)) (c ! j)) (Product (Of_int 6) (d ! j))) v) v) v
         in as_float fp (Sum (Sum (Sum (y ! j) (Product slope v)) bend) twist)
       else r) [0..<length x - 1] (Of_int 0)"

definition cubic_spline :: "fp_ops \<Rightarrow> int list \<Rightarrow> int list \<Rightarrow> u16 list" where
  "cubic_spline fp xs ys =
     (let n = length xs;
          unit = (\<lambda>k. as_float fp (Quotient (Of_int k) (Decimal ''65535.0'')));
          x = map unit xs; y = map unit ys;
          d = map (\<lambda>i. as_float fp (Minus (x ! (i + 1)) (x ! i))) [0..<n - 1];
          b = Of_int 0 # map (\<lambda>i. as_float fp (Quotient (Minus (y ! (i + 1)) (y ! i)) (Minus (x ! (i + 1)) (x ! i)))) [0..<n - 1];
          a = fold (spline_down fp n) [1..<n - 2] (spline_matrix fp n b d);
          c = fold (spline_up fp n a) (rev [1..<n - 1]) (replicate n (Of_int 0))
      in map (\<lambda>i. let r = spline_value fp x y c d (unit i)
                  in if fp_less fp r (Of_int 0) then 0
                     else if \<not> fp_less fp r (Of_int 1) then 65535
                     else word_of_int (fp_int fp (Sum (Product r (Decimal ''65535.0'')) (Decimal ''0.5'')))) [0..0xffff])"

section \<open>The entries\<close>

text \<open>
  What the loop carries: which of the quadrant corrections has been applied, and the entry 0x412 whose
  key is nearest.
\<close>

record ph1_loop =
  pl_qmult :: bool
  pl_qlin :: bool
  pl_mindiff :: int
  pl_off :: int

definition ph1_curve :: "fp_ops \<Rightarrow> (int \<Rightarrow> real_c) \<Rightarrow> meta \<Rightarrow> meta" where
  "ph1_curve fp f = on_d (curve_update (\<lambda>_. map (\<lambda>i. word_of_int (float_lim fp (f i))) [0..0xffff]))"

definition ph1_whole :: "int \<Rightarrow> meta \<Rightarrow> meta option" where
  "ph1_whole c0 s = do {
     t \<leftarrow> through_curve (tg s) 0 (raw_height (tg s)) c0 (raw_width (tg s)) (td s);
     Some (s\<lparr>td := t\<rparr>) }"

definition ph1_floats :: "fp_ops \<Rightarrow> nat \<Rightarrow> meta \<Rightarrow> real_c list \<times> meta" where
  "ph1_floats fp n s = (case getreals n s of (xs, s) \<Rightarrow> (map (as_float fp) xs, s))"

definition ph1_poly_419 :: "fp_ops \<Rightarrow> meta \<Rightarrow> meta option" where
  "ph1_poly_419 fp s =
     (let (_, s) = rd_io get4 s;
          (p, s) = ph1_floats fp 8 s;
          p3 = as_float fp (Sum (p ! 3) (Sum (Product (Minus (ph1_tag_210 s) (p ! 7)) (p ! 6)) (Of_int 1)))
      in ph1_whole (c_u32 (ph1_split_col (ph1 s)))
           (ph1_curve fp (\<lambda>i. as_float fp (Sum (Product (Sum (Product (p ! 5) (Of_int i)) p3) (Of_int i)) (p ! 1))) s))"

definition ph1_poly_41a :: "fp_ops \<Rightarrow> meta \<Rightarrow> meta option" where
  "ph1_poly_41a fp s =
     (case ph1_floats fp 4 s of (p, s) \<Rightarrow>
        ph1_whole 0 (ph1_curve fp
          (\<lambda>i. Sum (fold (\<lambda>q num. as_float fp (Sum (Product num (Of_int i)) q)) (rev p) (Of_int 0)) (Of_int i)) s))"

text \<open>A defective column: green from its diagonal neighbours without the one that differs most, the others from six places.\<close>

definition ph1_around :: "geom \<Rightarrow> int \<Rightarrow> int \<Rightarrow> int \<Rightarrow> int \<Rightarrow> dst \<Rightarrow> int list option" where
  "ph1_around g row col lo hi t = for_up lo hi (\<lambda>i vs. do {
     (dr, dc) \<leftarrow> at ph1_dir i;
     v \<leftarrow> raw_clip g t (row + dr) (col + dc);
     Some (vs @ [v]) }) []"

definition farthest :: "int list \<Rightarrow> int" where
  "farthest vs =
     (let dev = map (\<lambda>v. \<bar>4 * v - sum_list vs\<bar>) vs
      in vs ! fold (\<lambda>i m. if dev ! m < dev ! i then i else m) [0..<length vs] 0)"

definition ph1_bad_col :: "fp_ops \<Rightarrow> geom \<Rightarrow> int \<Rightarrow> dst \<Rightarrow> dst option" where
  "ph1_bad_col fp g col t = for_up 0 (raw_height g) (\<lambda>row t.
     if FC (filters t) (row - top_margin g) (col - left_margin g) = 1 then do {
       vs \<leftarrow> ph1_around g row col 0 4 t;
       set_RAW g row col (fp_int fp (Sum (Quotient (Of_int (sum_list vs - farthest vs)) (Decimal ''3.0'')) (Decimal ''0.5''))) t }
     else do {
       vs \<leftarrow> ph1_around g row col 8 12 t;
       a \<leftarrow> raw_clip g t row (col - 2);
       b \<leftarrow> raw_clip g t row (col + 2);
       set_RAW g row col (fp_int fp (Sum (Sum (Decimal ''0.5'') (Product (Of_int (sum_list vs)) (Decimal ''0.0732233'')))
         (Product (Of_int (a + b)) (Decimal ''0.3535534'')))) t }) t"

definition ph1_defect :: "fp_ops \<Rightarrow> meta \<Rightarrow> meta option" where
  "ph1_defect fp s = do {
     let (col, s) = rd_io get2 s;
     let (row, s) = rd_io get2 s;
     let (type, s) = rd_io get2 s;
     let (_, s) = rd_io get2 s;
     t \<leftarrow> (if col \<ge> raw_width (tg s) then Some (td s)
           else if type = 131 \<or> type = 137 then ph1_bad_col fp (tg s) col (td s)
           else if type = 129 then ph1_bad_pixel (tg s) row col (td s)
           else Some (td s));
     Some (s\<lparr>td := t\<rparr>) }"

definition ph1_defects :: "fp_ops \<Rightarrow> int \<Rightarrow> meta \<Rightarrow> meta option" where
  "ph1_defects fp len s = for_up 0 (len div 8) (\<lambda>_. ph1_defect fp) s"

text \<open>The four quadrants: \<open>f qr qc\<close> is done to the part of the image with these numbers.\<close>

definition ph1_quadrants :: "(nat \<Rightarrow> nat \<Rightarrow> dst \<Rightarrow> dst option) \<Rightarrow> meta \<Rightarrow> meta option" where
  "ph1_quadrants f s = do {
     t \<leftarrow> f 0 0 (td s); t \<leftarrow> f 0 1 t; t \<leftarrow> f 1 0 t; t \<leftarrow> f 1 1 t;
     Some (s\<lparr>td := t\<rparr>) }"

definition quadrant_curve :: "fp_ops \<Rightarrow> geom \<Rightarrow> ph1_info \<Rightarrow> int list \<Rightarrow> int list \<Rightarrow> nat \<Rightarrow> nat \<Rightarrow> dst \<Rightarrow> dst option" where
  "quadrant_curve fp g ph cx cf qr qc t =
     (let (r0, r1) = (if qr = 0 then (0, c_u32 (ph1_split_row ph)) else (c_u32 (ph1_split_row ph), raw_height g));
          (c0, c1) = (if qc = 0 then (0, c_u32 (ph1_split_col ph)) else (c_u32 (ph1_split_col ph), raw_width g))
      in through_curve g r0 r1 c0 c1 (t\<lparr>curve := cubic_spline fp cx cf\<rparr>))"

definition get_words :: "nat \<Rightarrow> meta \<Rightarrow> int list \<times> meta" where
  "get_words n s = ((\<lambda>(xs, s). case rd_io get4 s of (x, s) \<Rightarrow> (xs @ [c_u16 x], s)) ^^ n) ([], s)"

definition ph1_linear :: "fp_ops \<Rightarrow> meta \<Rightarrow> meta option" where
  "ph1_linear fp s =
     (case get_words 64 s of (ws, s) \<Rightarrow>
        let lc = (\<lambda>q. take 16 (drop (16 * q) ws));
            ref = map (\<lambda>i. shr (lc 0 ! i + lc 1 ! i + lc 2 ! i + lc 3 ! i + 2) 2) [0..<16]
        in ph1_quadrants (\<lambda>qr qc t. do {
             let l = lc (2 * qr + qc);
             e \<leftarrow> c_div (c_u32 (ref ! 15 * 65535)) (l ! 15);
             quadrant_curve fp (tg s) (ph1 s) (0 # l @ [c_s32 e, 65535]) (0 # ref @ [c_s32 e, 65535]) qr qc t }) s)"

definition ph1_multiply :: "fp_ops \<Rightarrow> meta \<Rightarrow> meta option" where
  "ph1_multiply fp s =
     (let skip = (\<lambda>n s. snd (get_words n s));
          (a, s) = rd_io (getreal 11) (skip 4 s);
          (b, s) = rd_io (getreal 11) (skip 5 s);
          (c, s) = rd_io (getreal 11) (skip 3 s);
          (d, s) = rd_io (getreal 11) (skip 3 s);
          mul = map (\<lambda>x. as_float fp (Sum (Decimal ''1.0'') x)) [a, b, c, d];
          g = tg s;
          k = (\<lambda>row col. (if row \<ge> c_u32 (ph1_split_row (ph1 s)) then 2 else 0) + (if col \<ge> c_u32 (ph1_split_col (ph1 s)) then 1 else 0))
      in do {
        t \<leftarrow> for_up 0 (raw_height g) (\<lambda>row. for_up 0 (raw_width g) (\<lambda>col t. do {
          v \<leftarrow> RAW g t row col;
          set_RAW g row col (LIM_c (fp_int fp (Product (mul ! k row col) (Of_int v))) 0 65535) t })) (td s);
        Some (s\<lparr>td := t\<rparr>) })"

definition ph1_combined :: "fp_ops \<Rightarrow> meta \<Rightarrow> meta option" where
  "ph1_combined fp s =
     (case get_words 35 s of (ws, s) \<Rightarrow>
        let ref = take 7 ws;
            lc = (\<lambda>q. take 7 (drop (7 + 7 * q) ws))
        in ph1_quadrants (\<lambda>qr qc.
             quadrant_curve fp (tg s) (ph1 s) (0 # ref @ [65535])
               (0 # map2 (\<lambda>r l. c_u32 (r * l) div 10000) ref (lc (2 * qr + qc)) @ [65535]) qr qc) s)"

definition ph1_near :: "meta \<Rightarrow> ph1_loop \<Rightarrow> ph1_loop \<times> meta" where
  "ph1_near s l =
     (let (x, s) = rd_io get2 (seek_cur 36 s);
          diff = \<bar>c_s32 (x - ph1_tag_21a s)\<bar>
      in (if pl_mindiff l > diff then l\<lparr>pl_mindiff := diff, pl_off := c_s32 (ipos (io_of s) - 38)\<rparr> else l, s))"

definition ph1_correction :: "fp_ops \<Rightarrow> int \<Rightarrow> int \<Rightarrow> ph1_loop \<times> meta \<Rightarrow> (ph1_loop \<times> meta) option" where
  "ph1_correction fp tag len = (\<lambda>(l, s).
     let keep = map_option (\<lambda>s. (l, s)) in
     if tag = 0x419 then keep (ph1_poly_419 fp s)
     else if tag = 0x41a then keep (ph1_poly_41a fp s)
     else if tag = 0x400 then keep (ph1_defects fp len s)
     else if tag = 0x401 then keep (phase_one_flat_field fp True 2 s)
     else if tag = 0x416 \<or> tag = 0x410 then keep (phase_one_flat_field fp False 2 s)
     else if tag = 0x40b then keep (phase_one_flat_field fp False 4 s)
     else if tag = 0x412 then Some (ph1_near s l)
     else if tag = 0x41f \<and> \<not> pl_qlin l then map_option (\<lambda>s. (l\<lparr>pl_qlin := True\<rparr>, s)) (ph1_linear fp s)
     else if tag = 0x41e \<and> \<not> pl_qmult l then map_option (\<lambda>s. (l\<lparr>pl_qmult := True\<rparr>, s)) (ph1_multiply fp s)
     else if tag = 0x431 \<and> \<not> pl_qmult l then
       map_option (\<lambda>s. (l\<lparr>pl_qmult := True, pl_qlin := True\<rparr>, s)) (ph1_combined fp s)
     else Some (l, s))"

definition ph1_directory_entry :: "fp_ops \<Rightarrow> ph1_loop \<times> meta \<Rightarrow> (ph1_loop \<times> meta) option" where
  "ph1_directory_entry fp = (\<lambda>(l, s). do {
     let (tag, s) = rd_io get4 s;
     let (len, s) = rd_io get4 s;
     let (data, s) = rd_io get4 s;
     let save = c_u32 (ipos (io_of s));
     (l, s) \<leftarrow> ph1_correction fp tag (c_s32 len) (l, seek_set (c_u32 (meta_offset (tg s) + data)) s);
     Some (l, seek_set save s) })"

section \<open>The field of entry 0x412\<close>

text \<open>
  One block of memory: the multipliers of both fields, then the keys of both. \<open>field_y\<close> and \<open>field_x\<close> index
  the block from the start of the first field, so that an index behind it reaches into what follows, and
  one before it leaves the block.
\<close>

definition field_y :: "bool \<Rightarrow> real_c list \<Rightarrow> u16 list \<Rightarrow> int \<Rightarrow> real_c option" where
  "field_y big ys xs k =
     (let n = int (length ys) in
      if k < n then at ys k
      else do {
        a \<leftarrow> rd xs (2 * (k - n));
        b \<leftarrow> rd xs (2 * (k - n) + 1);
        Some (Float_bits (if big then shl a 16 OR b else shl b 16 OR a)) })"

text \<open>
  The search for the first key above the sample: the place it stops at and the last place it looked at.
\<close>

fun field_search :: "fp_ops \<Rightarrow> u16 list \<Rightarrow> real_c \<Rightarrow> int \<Rightarrow> nat \<Rightarrow> int \<Rightarrow> int \<Rightarrow> (int \<times> int) option" where
  "field_search fp xs num base 0 j k = Some (j, k)"
| "field_search fp xs num base (Suc n) j k = do {
     x \<leftarrow> rd xs (base + j);
     if fp_less fp num (Of_int x) then Some (j, base + j) else field_search fp xs num base n (j + 1) (base + j) }"

definition field_mult :: "fp_ops \<Rightarrow> bool \<Rightarrow> real_c list \<Rightarrow> u16 list \<Rightarrow> int \<Rightarrow> real_c \<Rightarrow> int \<Rightarrow> real_c option" where
  "field_mult fp big ys xs h1 num i = do {
     (j, k) \<leftarrow> field_search fp xs num (h1 * i) (nat h1) 0 0;
     frac \<leftarrow> (if j = 0 \<or> j = h1 then Some (Of_int 0)
             else do {
               x \<leftarrow> rd xs k;
               w \<leftarrow> rd xs (k - 1);
               Some (as_float fp (Quotient (Minus (Of_int x) num) (Of_int (x - w)))) });
     a \<leftarrow> field_y big ys xs (k - 1);
     b \<leftarrow> field_y big ys xs k;
     Some (as_float fp (Sum (Product a frac) (Product b (Minus (Of_int 1) frac)))) }"

definition field_pixel :: "fp_ops \<Rightarrow> bool \<Rightarrow> real_c list \<Rightarrow> u16 list \<Rightarrow> int \<Rightarrow> int \<Rightarrow> geom \<Rightarrow> int \<Rightarrow> int \<Rightarrow> dst \<Rightarrow> dst option" where
  "field_pixel fp big ys xs h1 h3 g row col t = do {
     let pos = as_float fp (Quotient (Product (Of_int col) (Of_int h3)) (Of_int (raw_width g)));
     let cip = fp_int fp pos;
     let cfrac = as_float fp (Minus pos (Of_int cip));
     v \<leftarrow> RAW g t row col;
     let num = as_float fp (Product (Of_int v) (Decimal ''0.5''));
     m0 \<leftarrow> field_mult fp big ys xs h1 num cip;
     m1 \<leftarrow> field_mult fp big ys xs h1 num (cip + 1);
     let slope = Sum (Product m0 (Minus (Of_int 1) cfrac)) (Product m1 cfrac);
     let i = fp_int fp (Product (Sum (Product slope (Of_int row)) num) (Of_int 2));
     set_RAW g row col (LIM_c i 0 65535) t }"

definition ph1_field :: "fp_ops \<Rightarrow> int \<Rightarrow> meta \<Rightarrow> meta option" where
  "ph1_field fp off s = do {
     let (hs, s) = ((\<lambda>(xs, s). case rd_io get4 s of (x, s) \<Rightarrow> (xs @ [x AND 0x7fff], s)) ^^ 9) ([], seek_set off s);
     let n = nat (hs ! 1 * hs ! 3 + hs ! 2 * hs ! 4);
     let (_, s) = rd_io get2 s;
     let (ys, s) = ph1_floats fp n s;
     let (xs, s) = ((\<lambda>(xs, s). case rd_io get2 s of (x, s) \<Rightarrow> (xs @ [word_of_int x], s)) ^^ n) ([], s);
     let g = tg s;
     t \<leftarrow> for_up 0 (raw_height g) (\<lambda>row. for_up 0 (raw_width g)
       (field_pixel fp (big_host (io_of s)) ys xs (hs ! 1) (hs ! 3) g row)) (td s);
     Some (s\<lparr>td := t\<rparr>) }"

section \<open>phase_one_correct\<close>

definition phase_one_correct :: "fp_ops \<Rightarrow> meta \<Rightarrow> meta option" where
  "phase_one_correct fp s =
     (if half_size s \<noteq> 0 \<or> meta_length s = 0 then Some s
      else do {
        let off = meta_offset (tg s);
        let (x, s) = rd_io get2 (seek_set off s);
        let s = seek_cur 6 (set_order x s);
        let (x, s) = rd_io get4 s;
        let (entries, s) = rd_io get4 (seek_set (c_u32 (off + x)) s);
        let (_, s) = rd_io get4 s;
        (l, s) \<leftarrow> for_up 0 entries (\<lambda>_. ph1_directory_entry fp)
          (\<lparr>pl_qmult = False, pl_qlin = False, pl_mindiff = 0x7fffffff, pl_off = 0\<rparr>, s);
        if pl_off l \<noteq> 0 then ph1_field fp (pl_off l) s else Some s })"

end
