(* ===== verification/DcrawMain.thy ===== *)
theory DcrawMain
  imports Loaders Convert Xtrans Wavelet PhaseCorrect
begin

text \<open>
  The program: \<open>main\<close> from the command line to the files it writes. Its printed texts are left out, except
  that the size \<open>-i -v\<close> announces is computed. What is around the program is the record \<open>world\<close>; the files
  by name are part of the state, as a file that is written may be read later.
\<close>

section \<open>The dead pixels and the dark frame\<close>

text \<open>The file \<open>.badpixels\<close> is searched in the current directory and in those above it, up to the root.\<close>

definition above :: "string \<Rightarrow> string" where
  "above path = rev (tl (dropWhile (\<lambda>c. c \<noteq> CHR ''/'') (rev path)))"

lemma above_shorter: "path \<noteq> [] \<Longrightarrow> length (above path) < length path"
  using length_dropWhile_le [of "\<lambda>c. c \<noteq> CHR ''/''" "rev path"] by (cases path) (auto simp: above_def)

function badpixel_search :: "(string \<Rightarrow> u8 list option) \<Rightarrow> string \<Rightarrow> u8 list option" where
  "badpixel_search files path =
     (case files (path @ ''/.badpixels'') of
        Some bs \<Rightarrow> Some bs
      | None \<Rightarrow> if path = [] then None else badpixel_search files (above path))"
  by pat_completeness auto
termination
  by (relation "measure (\<lambda>(files, path). length path)") (auto simp: above_shorter)

declare badpixel_search.simps [simp del]

definition badpixel_file :: "(string \<Rightarrow> u8 list option) \<Rightarrow> string option \<Rightarrow> string option \<Rightarrow> u8 list option" where
  "badpixel_file files cwd cfname =
     (case cfname of
        Some f \<Rightarrow> files f
      | None \<Rightarrow> (case cwd of
          None \<Rightarrow> None
        | Some d \<Rightarrow> if d = [] \<or> hd d \<noteq> CHR ''/'' then None
                    else badpixel_search files (if last d = CHR ''/'' then butlast d else d)))"

text \<open>\<open>fgets (line, 128, fp)\<close>: up to 127 characters, not beyond a newline; a line is a text that ends with a zero.\<close>

function text_lines :: "u8 list \<Rightarrow> string list" where
  "text_lines bs =
     (if bs = [] then []
      else let k = length (takeWhile (\<lambda>w. w \<noteq> 10) (take 126 bs)) + 1
           in c_str (take k bs) # text_lines (drop k bs))"
  by pat_completeness auto
termination
  by (relation "measure length") auto

declare text_lines.simps [simp del]

definition badpixel_line :: "string \<Rightarrow> (int \<times> int \<times> int) list" where
  "badpixel_line line =
     (case scan_int (takeWhile (\<lambda>c. c \<noteq> CHR ''#'') line) of
        None \<Rightarrow> []
      | Some (col, r) \<Rightarrow> (case scan_int r of
          None \<Rightarrow> []
        | Some (row, r) \<Rightarrow> (case scan_int r of None \<Rightarrow> [] | Some (time, _) \<Rightarrow> [(col, row, time)])))"

definition badpixel_lines :: "(string \<Rightarrow> u8 list option) \<Rightarrow> string option \<Rightarrow> string option \<Rightarrow> (int \<times> int \<times> int) list" where
  "badpixel_lines files cwd cfname =
     (case badpixel_file files cwd cfname of None \<Rightarrow> [] | Some bs \<Rightarrow> concat (map badpixel_line (text_lines bs)))"

definition repair :: "(string \<Rightarrow> u8 list option) \<Rightarrow> string option \<Rightarrow> options \<Rightarrow> meta \<Rightarrow> meta option" where
  "repair files cwd p s = do {
     let g = tg s;
     t \<leftarrow> (if zero_is_bad s \<noteq> 0 then remove_zeroes g (td s) else Some (td s));
     t \<leftarrow> bad_pixels g (timestamp s) (badpixel_lines files cwd (opt_bpfile p)) t;
     t \<leftarrow> (case opt_dark_frame p of
             None \<Rightarrow> Some t
           | Some f \<Rightarrow> (case files f of None \<Rightarrow> Some t | Some bs \<Rightarrow> subtract g (open_file bs) t));
     Some (s\<lparr>td := t\<rparr>) }"

section \<open>Sizes\<close>

text \<open>\<open>(flip+3600) % 360\<close>: an angle in degrees becomes a code.\<close>

definition flip_code :: "int \<Rightarrow> int" where
  "flip_code f = (let a = c_u32 (f + 3600) mod 360 in if a = 270 then 5 else if a = 180 then 3 else if a = 90 then 6 else f)"

text \<open>Whether the mosaic is loaded at half its size; \<open>quick\<close> is \<open>identify_only\<close>.\<close>

definition wants_half :: "fp_ops \<Rightarrow> options \<Rightarrow> bool \<Rightarrow> meta \<Rightarrow> bool" where
  "wants_half fp p quick s \<longleftrightarrow> filters (td s) \<noteq> 0 \<and>
     (half_size s \<noteq> 0 \<or> \<not> quick \<and> (fp_nonzero fp (opt_threshold p) \<or> \<not> fp_is fp (opt_aber p ! 0) 1 \<or> \<not> fp_is fp (opt_aber p ! 2) 1))"

definition shrunken :: "int \<Rightarrow> geom \<Rightarrow> geom" where
  "shrunken k g = g\<lparr>shrink := k, iheight := shr (height g + k) k, iwidth := shr (width g + k) k\<rparr>"

text \<open>The size that \<open>-i -v\<close> announces: \<open>iheight\<close> and \<open>iwidth\<close>.\<close>

definition shown_geom :: "fp_ops \<Rightarrow> options \<Rightarrow> real_c \<Rightarrow> int \<Rightarrow> geom \<Rightarrow> geom" where
  "shown_geom fp p pa flip g =
     (let g = main_geom (opt_document_mode p) g;
          rounded = (\<lambda>x. c_u16 (fp_int fp (Sum x (Decimal ''0.5''))));
          step = Sqrt (Decimal ''0.5'');
          g = (if opt_fuji_rotate p then
                 if fuji_width g \<noteq> 0 then
                   let fw = shr (fuji_width g - 1 + shrink g) (shrink g)
                   in g\<lparr>fuji_width := fw, iwidth := c_u16 (fp_int fp (Quotient (Of_int fw) step)),
                        iheight := c_u16 (fp_int fp (Quotient (Of_int (iheight g - fw)) step))\<rparr>
                 else
                   let g = (if fp_less fp pa (Of_int 1) then g\<lparr>iheight := rounded (Quotient (Of_int (iheight g)) pa)\<rparr> else g)
                   in if fp_less fp (Of_int 1) pa then g\<lparr>iwidth := rounded (Product (Of_int (iwidth g)) pa)\<rparr> else g
               else g)
      in if flip AND 4 \<noteq> 0 then g\<lparr>iheight := iwidth g, iwidth := iheight g\<rparr> else g)"

section \<open>From the raw file to the image\<close>

text \<open>The samples come from the standard input (\<open>inp\<close>) with \<open>-I\<close>, in the byte order of the machine.\<close>

definition load_samples ::
    "fp_ops \<Rightarrow> options \<Rightarrow> meta \<Rightarrow> raw_loader \<Rightarrow> statics \<times> bitio \<Rightarrow> ((statics \<times> bitio) \<times> dst) option" where
  "load_samples fp p s l = (\<lambda>(st, inp). do {
     let g = tg s;
     let t = upd_io (fseek_set (data_offset g)) (main_alloc g (td s));
     if opt_stdin p \<and> raw_image t \<noteq> [] then do {
       ((xs, n), inp) \<leftarrow> fread_cells (raw_image t) 0 (raw_height g * raw_width g) inp;
       Some ((st, inp), t\<lparr>raw_image := xs\<rparr>) }
     else do {
       (st, t) \<leftarrow> run_loader fp s l g (st, t);
       Some ((st, inp), t) } })"

text \<open>
  The crop with its corrections. \<open>phase_one_correct\<close> comes first in \<open>crop_masked_pixels\<close> and changes only the
  part \<open>td\<close> of the state; \<open>canon_600_correct\<close> comes last.
\<close>

definition crop_samples :: "fp_ops \<Rightarrow> options \<Rightarrow> raw_loader \<Rightarrow> meta \<Rightarrow> meta option" where
  "crop_samples fp p l s = do {
     let doc = opt_document_mode p;
     let mk = map (\<lambda>i. take 4 (drop (4 * i) (mask_arr s))) [0..<8];
     let correct = (\<lambda>t. map_option td (phase_one_correct fp (s\<lparr>tg := main_geom doc (tg s), td := t\<rparr>)));
     (g, t) \<leftarrow> after_load correct Some doc (loader_fn l) mk (tg s) (td s);
     let cropped = (raw_image (td s) \<noteq> []);
     let s = s\<lparr>tg := g, td := t\<rparr>;
     if cropped \<and> l = Canon_600_raw \<and> width g < raw_width g then canon_600_correct fp s else Some s }"

definition with_td :: "(geom \<Rightarrow> dst \<Rightarrow> dst option) \<Rightarrow> meta \<Rightarrow> meta option" where
  "with_td f s = do { t \<leftarrow> f (tg s) (td s); Some (s\<lparr>td := t\<rparr>) }"

definition interpolate :: "fp_ops \<Rightarrow> options \<Rightarrow> int \<Rightarrow> meta \<Rightarrow> meta option" where
  "interpolate fp p quality s =
     (if filters (td s) = 0 \<or> opt_document_mode p \<noteq> 0 then Some s
      else if quality = 0 then with_td lin_interpolate s
      else if quality = 1 \<or> colors (td s) > 3 then with_td vng_interpolate s
      else if quality = 2 \<and> filters (td s) > 1000 then with_td ppg_interpolate s
      else if filters (td s) = 9 then xtrans_interpolate fp (quality * 2 - 3) s
      else ahd_interpolate fp s)"

definition highlights :: "fp_ops \<Rightarrow> options \<Rightarrow> meta \<Rightarrow> meta option" where
  "highlights fp p s =
     (if is_foveon s \<noteq> 0 then Some s
      else if opt_highlight p = 2 then blend_highlights fp s
      else if opt_highlight p > 2 then recover_highlights fp (opt_highlight p) s
      else Some s)"

text \<open>From the black levels to the colours of the output: profile, histogram and image.\<close>

definition develop :: "fp_ops \<Rightarrow> options \<Rightarrow> meta \<Rightarrow> (u8 list \<times> int list list \<times> meta) option" where
  "develop fp p s = do {
     let quality = (if opt_user_qual p \<ge> 0 then opt_user_qual p else 2 + of_bool (fuji_width (tg s) = 0));
     s \<leftarrow> with_td (\<lambda>g. black_levels (opt_user_black p) (opt_user_sat p)) s;
     s \<leftarrow> (if opt_document_mode p < 2 then scale_colors fp (wavelet_denoise fp (opt_threshold p)) p s else Some s);
     (g, t) \<leftarrow> pre_interpolate (half_size s) (opt_four_color p) (tg s) (td s);
     s \<leftarrow> interpolate fp p quality (s\<lparr>tg := g, td := t\<rparr>);
     s \<leftarrow> with_td mix_greens s;
     s \<leftarrow> (if is_foveon s = 0 \<and> colors (td s) = 3 then with_td (\<lambda>g. median_filter g (opt_med_passes p)) s else Some s);
     s \<leftarrow> highlights fp p s;
     s \<leftarrow> (if opt_fuji_rotate p then fuji_rotate fp s else Some s);
     (prof, hist, s) \<leftarrow> convert_to_rgb fp p s;
     s \<leftarrow> (if opt_fuji_rotate p then stretch fp s else Some s);
     Some (prof, hist, s) }"

text \<open>A file that \<open>identify\<close> has accepted, from the choice of its size on.\<close>

definition process_image ::
    "fp_ops \<Rightarrow> (string \<Rightarrow> u8 list option) \<Rightarrow> string option \<Rightarrow> options \<Rightarrow> statics \<times> bitio \<Rightarrow> meta
      \<Rightarrow> ((statics \<times> bitio) \<times> u8 list \<times> int list list \<times> meta) option" where
  "process_image fp files cwd p si s = do {
     l \<leftarrow> load_raw s;
     let s = on_g (shrunken (of_bool (wants_half fp p False s))) s;
     (si, t) \<leftarrow> load_samples fp p s l si;
     s \<leftarrow> crop_samples fp p l (s\<lparr>td := t\<rparr>);
     s \<leftarrow> repair files cwd p s;
     (prof, hist, s) \<leftarrow> develop fp p s;
     Some (si, prof, hist, s) }"

section \<open>The name of the output\<close>

text \<open>
  The name of the input, or the base given with \<open>-F\<close>, loses what is behind its last dot, and gets the number of
  the shot, the mark of a thumbnail and an extension. The array has 64 characters more than the name of
  the input; \<open>None\<close> stands for writing behind it.
\<close>

definition write_ext :: "options \<Rightarrow> thumb_writer option \<Rightarrow> int \<Rightarrow> string option" where
  "write_ext p thumb n =
     (if thumb = Some Jpeg_thumb then Some ''.jpg''
      else if opt_output_tiff p \<and> thumb = None then Some ''.tiff''
      else at [''.pgm'', ''.ppm'', ''.ppm'', ''.pam''] (n - 1))"

definition cut_name :: "string \<Rightarrow> string" where
  "cut_name cs = (case last_index (CHR ''.'') cs of None \<Rightarrow> cs | Some k \<Rightarrow> take (nat k) cs)"

definition shot_suffix :: "int \<Rightarrow> int \<Rightarrow> string" where
  "shot_suffix n shot = ''_'' @ padded (length (print_int (c_s32 (n - 1)))) (c_s32 shot)"

definition full_name :: "options \<Rightarrow> string \<Rightarrow> int \<Rightarrow> int \<Rightarrow> string \<Rightarrow> string" where
  "full_name p base n shot ext =
     cut_name base @ (if opt_multi_out p then shot_suffix n shot else []) @ (if opt_thumbnail_only p then ''.thumb'' else []) @ ext"

definition output_name :: "options \<Rightarrow> string \<Rightarrow> int \<Rightarrow> int \<Rightarrow> string \<Rightarrow> string option" where
  "output_name p ifname n shot ext =
     (let room = length ifname + 64; base = (case opt_ofbase p of None \<Rightarrow> ifname | Some b \<Rightarrow> b); name = full_name p base n shot ext
      in if length base < room \<and> length name < room then Some name else None)"

section \<open>One file\<close>

record world =
  w_cwd :: "string option"
  w_gmtime :: "int \<Rightarrow> int list"
  w_tty :: bool
  w_writable :: "string \<Rightarrow> bool"

text \<open>\<open>r_touched\<close> holds the dates that were set with \<open>-z\<close>.\<close>

record run =
  r_files :: "string \<Rightarrow> u8 list option"
  r_stdin :: bitio
  r_stdout :: "u8 list"
  r_touched :: "(string \<times> int) list"
  r_statics :: statics
  r_globals :: tiff_globals

abbreviation r_meta :: "run \<Rightarrow> meta" where
  "r_meta r \<equiv> snd (r_globals r)"

definition set_meta :: "meta \<Rightarrow> run \<Rightarrow> run" where
  "set_meta s r = r\<lparr>r_globals := (fst (r_globals r), s)\<rparr>"

text \<open>
  From the label \<open>thumbnail\<close> on. \<open>thumb\<close> is the writer of a thumbnail, \<open>write\<close> the call of \<open>write_fun\<close>. The result
  tells whether the file could be opened.
\<close>

definition put_output ::
    "world \<Rightarrow> options \<Rightarrow> string \<Rightarrow> thumb_writer option \<Rightarrow> (meta \<Rightarrow> (u8 list \<times> meta) option) \<Rightarrow> run \<Rightarrow> (bool \<times> run) option" where
  "put_output w p ifname thumb write r = do {
     let s = r_meta r;
     ext \<leftarrow> write_ext p thumb (colors (td s));
     if opt_stdout p then do {
       (bs, s) \<leftarrow> write s;
       Some (True, set_meta s (r\<lparr>r_stdout := r_stdout r @ bs\<rparr>)) }
     else do {
       name \<leftarrow> output_name p ifname (is_raw (tg s)) (shot_select (tg s)) ext;
       if w_writable w name then do {
         (bs, s) \<leftarrow> write s;
         Some (True, set_meta s (r\<lparr>r_files := (r_files r)(name \<mapsto> bs)\<rparr>)) }
       else Some (False, r) } }"

text \<open>The thumbnail as an image: a loader of raw images reads it.\<close>

definition thumb_image :: "raw_loader \<Rightarrow> meta \<Rightarrow> meta" where
  "thumb_image l s = on_d (\<lambda>t. t\<lparr>filters := 0, colors := 3\<rparr>) (on_g (\<lambda>g. g\<lparr>data_offset := thumb_offset s,
     height := thumb_height s, width := thumb_width s\<rparr>) (s\<lparr>load_raw := Some l\<rparr>))"

definition even_size :: "meta \<Rightarrow> meta" where
  "even_size s = (if load_raw s = Some Kodak_ycbcr_raw
     then on_g (\<lambda>g. g\<lparr>height := c_u16 (height g + (height g AND 1)), width := c_u16 (width g + (width g AND 1))\<rparr>) s else s)"

text \<open>
  \<open>status\<close>, whether the end of the loop (the label \<open>cleanup\<close>) is reached, and the state; a jump to \<open>next\<close>
  leaves the end out.
\<close>

definition image_file :: "fp_ops \<Rightarrow> world \<Rightarrow> options \<Rightarrow> string \<Rightarrow> int \<Rightarrow> run \<Rightarrow> (int \<times> bool \<times> run) option" where
  "image_file fp w p ifname status r = do {
     let s = even_size (r_meta r);
     if is_raw (tg s) = 0 then Some (status, False, set_meta s r)
     else if opt_identify_only p then do {
       let s = on_g (shrunken (of_bool (wants_half fp p True s))) s;
       let s = (if opt_verbose p then on_g (shown_geom fp p (pixel_aspect s) (mflip s)) s else s);
       Some (status, False, set_meta s r) }
     else do {
       ((st, inp), prof, hist, s) \<leftarrow> process_image fp (r_files r) (w_cwd w) p (r_statics r, r_stdin r) s;
       let r = set_meta s (r\<lparr>r_statics := st, r_stdin := inp\<rparr>);
       (opened, r) \<leftarrow> put_output w p ifname None (write_ppm_tiff fp (w_gmtime w) p prof hist) r;
       Some (if opened then status else 1, True, r) } }"

definition thumb_file :: "fp_ops \<Rightarrow> world \<Rightarrow> options \<Rightarrow> string \<Rightarrow> run \<Rightarrow> (int \<times> bool \<times> run) option" where
  "thumb_file fp w p ifname r =
     (let s = r_meta r in
      if thumb_offset s = 0 then Some (1, False, r)
      else case thumb_load_raw s of
        Some l \<Rightarrow> image_file fp w p ifname 0 (set_meta (thumb_image l s) r)
      | None \<Rightarrow> do {
          let k = write_thumb s;
          (opened, r) \<leftarrow> put_output w p ifname (Some k) (run_thumb fp (w_gmtime w) k) (set_meta (seek_set (thumb_offset s) s) r);
          Some (if opened then 0 else 1, True, r) })"

definition open_raw :: "string \<Rightarrow> u8 list \<Rightarrow> meta \<Rightarrow> meta" where
  "open_raw name bs s = on_io (\<lambda>b. b\<lparr>ifile := bs, ipos := 0\<rparr>) (on_d (\<lambda>t. t\<lparr>raw_image := [], img := []\<rparr>) (s\<lparr>if_name := name\<rparr>))"

definition process_file :: "fp_ops \<Rightarrow> world \<Rightarrow> options \<Rightarrow> string \<Rightarrow> run \<Rightarrow> (int \<times> bool \<times> run) option" where
  "process_file fp w p ifname r =
     (case r_files r ifname of
        None \<Rightarrow> Some (1, False, r)
      | Some bs \<Rightarrow> do {
          (n, s) \<leftarrow> identify fp (r_files r) (fst (r_globals r), open_raw ifname bs (r_meta r));
          let s = s\<lparr>mflip := flip_code (if opt_user_flip p \<ge> 0 then opt_user_flip p else mflip s)\<rparr>;
          let r = r\<lparr>r_globals := (n, s)\<rparr>;
          if opt_timestamp_only p then
            Some (of_bool (timestamp s = 0), False,
              if timestamp s = 0 \<or> opt_identify_only p then r else r\<lparr>r_touched := r_touched r @ [(ifname, timestamp s)]\<rparr>)
          else if opt_thumbnail_only p then thumb_file fp w p ifname r
          else image_file fp w p ifname (of_bool (is_raw (tg s) = 0)) r })"

section \<open>All files\<close>

text \<open>
  The loop over the files. With \<open>-s all\<close> a file is taken again while \<open>++shot_select\<close> is below the number of its
  images, which also bounds the number of times.
\<close>

function main_files :: "fp_ops \<Rightarrow> world \<Rightarrow> options \<Rightarrow> int \<Rightarrow> int \<Rightarrow> string list \<Rightarrow> run \<Rightarrow> (int \<times> run) option" where
  "main_files fp w p shot status files r =
     (case files of
        [] \<Rightarrow> Some (status, r)
      | f # fs \<Rightarrow>
          (case process_file fp w p f (set_meta (on_g (shot_select_update (\<lambda>_. shot)) (r_meta r)) r) of
             None \<Rightarrow> None
           | Some (status, cleanup, r) \<Rightarrow>
               if cleanup \<and> opt_multi_out p then
                 if shot + 1 < c_u32 (is_raw (tg (r_meta r))) then main_files fp w p (shot + 1) status files r
                 else main_files fp w p 0 status fs r
               else main_files fp w p shot status fs r))"
  by pat_completeness auto
termination
proof (relation "measures [\<lambda>(fp, w, p, shot, status, files, r). length files, \<lambda>(fp, w, p, shot, status, files, r). nat (2 ^ 32 - shot)]")
  have "c_u32 x < 2 ^ 32" for x using take_bit_int_less_exp [of 32 x] by simp
  then have "nat (2 ^ 32 - (shot + 1)) < nat (2 ^ 32 - shot)" if "shot + 1 < c_u32 x" for shot x :: int
    using that less_trans [of "shot + 1" "c_u32 x" "2 ^ 32"] by simp
  then show "((fp, w, p, shot + 1, status', files, r'), (fp, w, p, shot, status, files, r))
      \<in> measures [\<lambda>(fp, w, p, shot, status, files, r). length files, \<lambda>(fp, w, p, shot, status, files, r). nat (2 ^ 32 - shot)]"
    if "shot + 1 < c_u32 (is_raw (tg (r_meta r')))"
    for fp :: fp_ops and w :: world and p :: options and shot status' status :: int and files :: "string list" and r r' :: run
    using that by simp
qed auto

declare main_files.simps [simp del]

text \<open>LightZone's primaries (those of RIMM) replace the ones of sRGB, except for small images and thumbnails.\<close>

definition rimm :: "string list list" where
  "rimm = [[''0.7977'', ''0.2880'', ''0.0000''], [''0.1352'', ''0.7119'', ''0.0000''], [''0.0313'', ''0.0001'', ''0.8249'']]"

definition with_options :: "fp_ops \<Rightarrow> options \<Rightarrow> meta \<Rightarrow> meta" where
  "with_options fp p s =
     (let s = s\<lparr>half_size := opt_half_size p, use_camera_wb := opt_camera_wb p, use_camera_matrix := opt_camera_matrix p\<rparr>
      in if opt_half_size p = 0 \<and> \<not> opt_thumbnail_only p
         then s\<lparr>xyz_rgb := map (\<lambda>k. as_float fp (Decimal (rimm ! (k mod 3) ! (k div 3)))) [0..<9]\<rparr> else s)"

text \<open>
  The program on its arguments: the status it returns and the state it leaves. \<open>r\<close> is the state in which it is
  started, with its initialised variables.
\<close>

definition dcraw_main :: "fp_ops \<Rightarrow> world \<Rightarrow> string list \<Rightarrow> run \<Rightarrow> (int \<times> run) option" where
  "dcraw_main fp w args r = do {
     o1 \<leftarrow> read_options fp args;
     case o1 of
       Inl e \<Rightarrow> Some (1, r)
     | Inr (files, p) \<Rightarrow>
         if opt_stdout p \<and> w_tty w then Some (1, r)
         else main_files fp w p (opt_shot p) 0 files (set_meta (with_options fp p (r_meta r)) r) }"

end
