(* ===== verification/OutputSize.thy ===== *)
theory OutputSize
  imports DcrawMain
begin

text \<open>
  What holds for the whole program: the size that \<open>-i -v\<close> announces is that of the image which is written,
  the name of the output fits its array unless \<open>-F\<close> is given, and the options are read without a fault
  unless the last of them lacks its text.
\<close>

section \<open>The steps that keep the size\<close>

definition keeps :: "meta \<Rightarrow> meta \<Rightarrow> bool" where
  "keeps s t \<longleftrightarrow> tg t = tg s \<and> mflip t = mflip s \<and> pixel_aspect t = pixel_aspect s \<and> half_size t = half_size s"

lemma keeps_simps [simp]:
  "keeps s s"
  "keeps s (s\<lparr>td := t\<rparr>)"
  "keeps s (s\<lparr>pre_mul := m\<rparr>)"
  "keeps s (s\<lparr>rgb_cam := m\<rparr>)"
  "keeps s (s\<lparr>pre_mul := m, td := t\<rparr>)"
  "keeps s (on_d f s)"
  by (simp_all add: keeps_def on_d_def)

lemma keeps_trans: "keeps s t \<Longrightarrow> keeps t u \<Longrightarrow> keeps s u"
  by (simp add: keeps_def)

lemma with_td_keeps: "with_td f s = Some t \<Longrightarrow> keeps s t"
  by (auto simp: with_td_def split: bind_splits)

lemma canon_600_keeps:
  assumes "canon_600_correct fp s = Some t"
  shows "keeps s t"
proof -
  have fixed: "keeps s (canon_600_fixed_wb fp n s)" for n s by (simp add: canon_600_fixed_wb_def Let_def)
  have auto_wb: "keeps s u" if "canon_600_auto_wb fp s = Some u" for s u
    using that by (auto simp: canon_600_auto_wb_def Let_def split: bind_splits if_splits)
  have coeff: "keeps s u" if "canon_600_coeff fp s = Some u" for s u
    using that by (auto simp: canon_600_coeff_def Let_def keeps_def on_d_def split: bind_splits)
  obtain u v w where "canon_600_auto_wb fp (canon_600_fixed_wb fp 1311 (s\<lparr>td := u\<rparr>)) = Some v" "canon_600_coeff fp v = Some w" "keeps w t"
    using assms by (auto simp: canon_600_correct_def Let_def split: bind_splits)
  then have "keeps (canon_600_fixed_wb fp 1311 (s\<lparr>td := u\<rparr>)) t" using auto_wb coeff keeps_trans by blast
  then show ?thesis using fixed [of "s\<lparr>td := u\<rparr>" 1311] by (simp add: keeps_def)
qed

lemma repair_keeps: "repair files cwd p s = Some t \<Longrightarrow> keeps s t"
  by (auto simp: repair_def Let_def split: bind_splits)

lemma scale_colors_keeps:
  assumes "scale_colors fp (wavelet_denoise fp x) p s = Some t"
  shows "keeps s t"
proof -
  have auto_wb: "keeps s u" if "auto_wb fp p s = Some u" for s u
    using that by (auto simp: auto_wb_def split: bind_splits if_splits)
  have camera: "keeps s u" if "camera_wb fp s = Some u" for s u
    using that by (auto simp: camera_wb_def split: bind_splits if_splits)
  have default: "keeps s (default_mul fp s)" for s by (simp add: default_mul_def Let_def)
  have choose: "keeps s u" if c: "choose_mul fp p s = Some u" for s u
  proof -
    let ?s = "if fp_nonzero fp (opt_user_mul p ! 0) then s\<lparr>pre_mul := opt_user_mul p\<rparr> else s"
    obtain v w where "auto_wb fp p ?s = Some v" "camera_wb fp v = Some w" "u = default_mul fp w"
      using c unfolding choose_mul_def Let_def Option.bind_eq_Some_conv by blast
    then have "keeps ?s u" using auto_wb camera default keeps_trans by blast
    then show ?thesis by (simp add: keeps_def split: if_splits)
  qed
  have denoise: "keeps s u" if "wavelet_denoise fp x s = Some u" for s u
    using that by (auto simp: wavelet_denoise_def Let_def split: bind_splits)
  obtain u v where u: "choose_mul fp p s = Some u" "(if fp_nonzero fp (opt_threshold p) then wavelet_denoise fp x u else Some u) = Some v"
    and "keeps v t"
    using assms by (auto simp: scale_colors_def Let_def keeps_def on_d_def split: bind_splits prod.splits)
  moreover have "keeps u v" using u(2) denoise by (auto split: if_splits)
  ultimately show ?thesis using choose [OF u(1)] keeps_trans by blast
qed

lemma interpolate_keeps: "interpolate fp p q s = Some t \<Longrightarrow> keeps s t"
  by (auto simp: interpolate_def xtrans_interpolate_def ahd_interpolate_def Let_def
      dest: with_td_keeps split: if_splits bind_splits)

lemma highlights_keep: "highlights fp p s = Some t \<Longrightarrow> keeps s t"
  by (auto simp: highlights_def blend_highlights_def recover_highlights_def Let_def split: if_splits bind_splits)

lemma convert_keeps: "convert_to_rgb fp p s = Some (prof, hist, t) \<Longrightarrow> keeps s t"
  by (auto simp: convert_to_rgb_def Let_def split: bind_splits)

section \<open>The steps that change it\<close>

definition scaled_size :: "int \<Rightarrow> geom \<Rightarrow> geom" where
  "scaled_size half g =
     (if shrink g = 0 then g else if half \<noteq> 0 then g\<lparr>height := iheight g, width := iwidth g\<rparr> else g\<lparr>shrink := 0\<rparr>)"

lemma pre_interpolate_size: "pre_interpolate half four g s = Some (h, t) \<Longrightarrow> h = scaled_size half g"
  by (auto simp: pre_interpolate_def scaled_size_def Let_def split: bind_splits if_splits)

lemma crop_samples_size:
  assumes "crop_samples fp p l s = Some t"
  shows "keeps (s\<lparr>tg := main_geom (opt_document_mode p) (tg s)\<rparr>) t"
proof -
  have after: "g = main_geom doc h" if "after_load c d doc fn mk h u = Some (g, v)" for c d doc fn mk h u g v
    using that by (auto simp: after_load_def Let_def split: if_splits bind_splits)
  show ?thesis using assms
    by (auto simp: crop_samples_def Let_def keeps_def split: bind_splits if_splits dest!: after canon_600_keeps)
qed

definition turned_size :: "fp_ops \<Rightarrow> geom \<Rightarrow> geom" where
  "turned_size fp g =
     (if fuji_width g = 0 then g
      else let fw = shr (fuji_width g - 1 + shrink g) (shrink g); step = Sqrt (Decimal ''0.5'')
           in g\<lparr>width := c_u16 (fp_int fp (Quotient (Of_int fw) step)),
                height := c_u16 (fp_int fp (Quotient (Of_int (height g - fw)) step)), fuji_width := 0\<rparr>)"

lemma fuji_rotate_size: "fuji_rotate fp s = Some t \<Longrightarrow> keeps (s\<lparr>tg := turned_size fp (tg s)\<rparr>) t"
  by (auto simp: fuji_rotate_def turned_size_def keeps_def on_g_def Let_def split: if_splits bind_splits)

definition stretched_size :: "fp_ops \<Rightarrow> real_c \<Rightarrow> geom \<Rightarrow> geom" where
  "stretched_size fp pa g =
     (let rounded = (\<lambda>x. c_u16 (fp_int fp (Sum x (Decimal ''0.5'')))) in
      if fp_is fp pa 1 then g
      else if fp_less fp pa (Of_int 1) then g\<lparr>height := rounded (Quotient (Of_int (height g)) pa)\<rparr>
      else g\<lparr>width := rounded (Product (Of_int (width g)) pa)\<rparr>)"

lemma stretch_size: "stretch fp s = Some t \<Longrightarrow> keeps (s\<lparr>tg := stretched_size fp (pixel_aspect s) (tg s)\<rparr>) t"
  by (auto simp: stretch_def stretched_size_def keeps_def on_g_def Let_def split: if_splits bind_splits)

lemma develop_size:
  assumes "develop fp p s = Some (prof, hist, t)"
  defines "h \<equiv> scaled_size (half_size s) (tg s)"
  shows "keeps (s\<lparr>tg := if opt_fuji_rotate p then stretched_size fp (pixel_aspect s) (turned_size fp h) else h\<rparr>) t"
proof -
  obtain s1 s2 s3 g u s4 s5 s6 s7 s8 where
    1: "with_td (\<lambda>g. black_levels (opt_user_black p) (opt_user_sat p)) s = Some s1"
    and 2: "(if opt_document_mode p < 2 then scale_colors fp (wavelet_denoise fp (opt_threshold p)) p s1 else Some s1) = Some s2"
    and 3: "pre_interpolate (half_size s2) (opt_four_color p) (tg s2) (td s2) = Some (g, u)"
    and 4: "interpolate fp p (if opt_user_qual p \<ge> 0 then opt_user_qual p else 2 + of_bool (fuji_width (tg s) = 0)) (s2\<lparr>tg := g, td := u\<rparr>) = Some s3"
    and 5: "with_td mix_greens s3 = Some s4"
    and 6: "(if is_foveon s4 = 0 \<and> colors (td s4) = 3 then with_td (\<lambda>g. median_filter g (opt_med_passes p)) s4 else Some s4) = Some s5"
    and 7: "highlights fp p s5 = Some s6"
    and 8: "(if opt_fuji_rotate p then fuji_rotate fp s6 else Some s6) = Some s7"
    and 9: "convert_to_rgb fp p s7 = Some (prof, hist, s8)"
    and 10: "(if opt_fuji_rotate p then stretch fp s8 else Some s8) = Some t"
    using assms(1) unfolding develop_def Let_def by (auto split: bind_splits)
  have "keeps s s2" using with_td_keeps [OF 1] 2 scale_colors_keeps keeps_trans by (auto split: if_splits)
  then have "keeps (s\<lparr>tg := h\<rparr>) s3"
    using interpolate_keeps [OF 4] pre_interpolate_size [OF 3] by (auto simp: keeps_def h_def)
  moreover have "keeps s3 s6"
    using with_td_keeps [OF 5] 6 with_td_keeps highlights_keep [OF 7] keeps_trans by (metis option.inject)
  ultimately have "keeps (s\<lparr>tg := h\<rparr>) s6" by (rule keeps_trans)
  then show ?thesis
    using 8 10 fuji_rotate_size [of fp s6 s7] stretch_size [of fp s8 t] convert_keeps [OF 9]
    by (auto simp: keeps_def split: if_splits)
qed

lemma process_image_size:
  assumes "process_image fp files cwd p si s = Some (si', prof, hist, t)"
  defines "h \<equiv> scaled_size (half_size s) (main_geom (opt_document_mode p) (shrunken (of_bool (wants_half fp p False s)) (tg s)))"
  shows "keeps (s\<lparr>tg := if opt_fuji_rotate p then stretched_size fp (pixel_aspect s) (turned_size fp h) else h\<rparr>) t"
proof -
  let ?s = "on_g (shrunken (of_bool (wants_half fp p False s))) s"
  obtain l u v w where v: "crop_samples fp p l (?s\<lparr>td := u\<rparr>) = Some v" and w: "repair files cwd p v = Some w"
    and t: "develop fp p w = Some (prof, hist, t)"
    using assms(1) unfolding process_image_def Let_def by (auto split: bind_splits)
  have "keeps (s\<lparr>tg := main_geom (opt_document_mode p) (shrunken (of_bool (wants_half fp p False s)) (tg s))\<rparr>) w"
    using crop_samples_size [OF v] repair_keeps [OF w] by (simp add: keeps_def on_g_def)
  then show ?thesis using develop_size [OF t] by (simp add: keeps_def h_def)
qed

section \<open>An empty loader\<close>

text \<open>The format of the Canon CR3 is not decoded: its image stays black. In the document modes nothing else happens to it.\<close>

definition hist_ok :: "int list list \<Rightarrow> bool" where
  "hist_ok hist \<longleftrightarrow> length hist = 4 \<and> (\<forall>row \<in> set hist. length row = 0x2000)"

lemma count_pixel_ok:
  assumes "hist_ok hist" "length vs \<le> 4" "\<forall>v \<in> set vs. 0 \<le> v \<and> v < 65536"
  shows "ok (count_pixel vs hist) hist_ok"
  unfolding count_pixel_def
proof (rule for_up_inv [where I = "\<lambda>_. hist_ok"])
  fix c :: int and h :: "int list list"
  assume c: "0 \<le> c" "c < int (length vs)" and h: "hist_ok h"
  have inb: "inb vs c" "inb h c" using c h assms(2) by (auto simp: inb_def hist_ok_def)
  have row: "inb row (shr v 3)" if "row \<in> set h" "v \<in> set vs" for row v
    using that h assms(3) by (fastforce simp: inb_def hist_ok_def shr_div)
  show "ok (do { v \<leftarrow> at vs c; row \<leftarrow> at h c; n \<leftarrow> at row (shr v 3); row \<leftarrow> put row (shr v 3) (c_s32 (n + 1)); put h c row }) hist_ok"
    by (intro wp inb row; assumption?) (use h in \<open>auto simp: hist_ok_def dest!: set_update_subset_insert [THEN subsetD]\<close>)
qed (use assms in auto)

lemma pixel_ok:
  assumes "0 \<le> i" "4 * i + 4 \<le> int (length (img s))" "n \<le> 4"
  shows "ok (pixel s i n) (\<lambda>vs. length vs = n \<and> (\<forall>v \<in> set vs. 0 \<le> v \<and> v < 65536))"
  unfolding pixel_def
proof (rule for_up_inv [where I = "\<lambda>c vs. int (length vs) = c \<and> (\<forall>v \<in> set vs. 0 \<le> v \<and> v < 65536)"])
  fix c :: int and vs :: "int list"
  assume c: "0 \<le> c" "c < int n" and vs: "int (length vs) = c \<and> (\<forall>v \<in> set vs. 0 \<le> v \<and> v < 65536)"
  have "inb (img s) (4 * i + c)" using assms c by (simp add: inb_def)
  then show "ok (do { v \<leftarrow> IMG s i c; Some (vs @ [v]) }) (\<lambda>vs. int (length vs) = c + 1 \<and> (\<forall>v \<in> set vs. 0 \<le> v \<and> v < 65536))"
    unfolding IMG_def using vs by (intro wp) auto
qed auto

text \<open>In the document modes the conversion only counts.\<close>

definition document_ok :: "geom \<Rightarrow> dst \<times> int list list \<Rightarrow> bool" where
  "document_ok g = (\<lambda>(t, hist). int (length (img t)) = 4 * (height g * width g) \<and> filters t = 0 \<and> colors t \<le> 4 \<and> raw_color t \<noteq> 0
     \<and> hist_ok hist)"

lemma convert_document_ok:
  assumes "document_ok g st" "doc \<noteq> 0" "0 \<le> row" "row < height g" "0 \<le> col" "col < width g"
  shows "ok (convert_at fp cam doc g row col st) (document_ok g)"
proof -
  obtain t hist where st: "st = (t, hist)" by (cases st)
  let ?i = "row * width g + col"
  have i: "0 \<le> ?i" "4 * ?i + 4 \<le> 4 * (height g * width g)" using cell_bound [OF assms(3-6)] by auto
  have f: "fcol g 0 row col = Some (FC 0 row col)" by (simp add: fcol_def)
  have inb: "inb (img u) (4 * ?i + c)" if "document_ok g (u, h)" "0 \<le> c" "c < 4" for u h c
    using that i by (auto simp: document_ok_def inb_def)
  have count: "ok (pixel u ?i (nat (colors t)) \<bind> (\<lambda>vs. count_pixel vs hist \<bind> (\<lambda>h. Some (u, h)))) (document_ok g)"
    if u: "document_ok g (u, hist)" "colors u = colors t" for u
  proof (rule ok_bind, rule ok_mono [OF pixel_ok])
    show "4 * ?i + 4 \<le> int (length (img u))" "0 \<le> ?i" using u i by (auto simp: document_ok_def)
    show "nat (colors t) \<le> 4" using u by (auto simp: document_ok_def)
    fix vs :: "int list"
    assume "length vs = nat (colors t) \<and> (\<forall>v \<in> set vs. 0 \<le> v \<and> v < 65536)"
    then have "ok (count_pixel vs hist) hist_ok" using u by (intro count_pixel_ok) (auto simp: document_ok_def)
    then show "ok (count_pixel vs hist \<bind> (\<lambda>h. Some (u, h))) (document_ok g)"
      using u by (auto simp: ok_exists document_ok_def)
  qed
  have t: "document_ok g (t, hist)" using assms(1) st by simp
  obtain v where v: "IMG t ?i (FC 0 row col) = Some v" using inb [OF t, of "FC 0 row col"] by (auto simp: IMG_def rd_def)
  obtain xs where u: "set_IMG ?i 0 v t = Some (t\<lparr>img := xs\<rparr>)" "length xs = length (img t)"
    using inb [OF t, of 0] by (auto simp: set_IMG_def wr_def)
  have "document_ok g (t\<lparr>img := xs\<rparr>, hist)" "colors (t\<lparr>img := xs\<rparr>) = colors t" using t u(2) by (simp_all add: document_ok_def)
  from count [OF this] show ?thesis
    using t assms(2) by (simp add: convert_at_def st Let_def document_ok_def f v u(1))
qed


lemma black_levels_zero:
  assumes "cblack d = zeros 4102"
  shows "\<exists>cb b. black_levels (- 1) (- 1) d = Some (d\<lparr>cblack := cb, black := b\<rparr>)"
proof -
  let ?z = "zeros 4102 :: u16 list"
  have z: "rd ?z j = Some 0" if "0 \<le> j" "j < 4102" for j
    using that by (simp add: rd_def inb_def zeros_def)
  obtain i where i: "min_cells 0 3 ?z 0 = Some i" using min_cells_ok [of 0 3 ?z 0] by (auto simp: ok_exists)
  obtain cb where cb: "add_cells 0 4 (- i) ?z = Some cb" "length cb = 4102" "\<And>j. 4 \<le> j \<Longrightarrow> rd cb j = rd ?z j"
    using add_cells_ok [of 0 4 ?z "- i"] by (auto simp: ok_exists)
  have r: "rd cb 4 = Some 0" "rd cb 5 = Some 0" "rd cb 6 = Some 0" using cb(3) z by simp_all
  have none: "min_cells 6 0 cb 0 = Some 0" "add_cells 6 0 x cb = Some cb" for x by (simp_all add: min_cells_def add_cells_def)
  have "\<forall>x. \<exists>cb'. add_cells 0 4 x cb = Some cb'" using add_cells_ok [of 0 4 cb] cb(2) by (auto simp: ok_exists)
  then obtain f where "add_cells 0 4 x cb = Some (f x)" for x by metis
  then show ?thesis using z [of 3] i cb(1) r none by (auto simp: black_levels_def assms Let_def)
qed

definition still_fp :: fp_ops where
  "still_fp = \<lparr>fp_nonzero = (\<lambda>_. False), fp_less = (\<lambda>_ _. False), fp_float = (\<lambda>_. 0), fp_int = (\<lambda>_. 0),
     fp_scan = (\<lambda>_. None), fp_mktime = (\<lambda>_. 0)\<rparr>"

definition document_options :: options where
  "document_options = first_options\<lparr>opt_document_mode := 2, opt_fuji_rotate := False\<rparr>"

definition blank_state :: "meta \<Rightarrow> meta" where
  "blank_state s0 = s0\<lparr>tg := plain_geom 2 3, td := identify_reset []\<lparr>filters := 0\<rparr>, mflip := 6, load_raw := Some Canon_crx_raw,
     pixel_aspect := Of_int 1, half_size := 0, zero_is_bad := 0, is_foveon := 0\<rparr>"

lemma blank_image: "\<exists>t hist. process_image still_fp files cwd document_options si (blank_state s0) = Some (si, [], hist, t)"
proof -
  obtain st inp where si: "si = (st, inp)" by (cases si)
  let ?g = "plain_geom 2 3" and ?s = "blank_state s0"
  define d where "d = identify_reset []\<lparr>filters := 0, img := zeros 24, dio := fseek_set 0 (open_file [])\<rparr>"
  have g: "shrunken 0 ?g = ?g" "main_geom 2 ?g = ?g" "height ?g = 2" "width ?g = 3" "shrink ?g = 0"
    by (simp_all add: shrunken_def main_geom_def plain_geom_def shr_def)
  have half: "wants_half still_fp document_options False ?s = False" by (simp add: wants_half_def blank_state_def)
  have load: "load_samples still_fp document_options ?s Canon_crx_raw si = Some (si, d)"
    by (simp add: load_samples_def si run_loader_def plain_loader_def d_def blank_state_def main_alloc_def upd_io_def identify_reset_def
        plain_geom_def document_options_def first_options_def)
  let ?t = "?s\<lparr>td := d\<rparr>"
  have crop: "crop_samples still_fp document_options Canon_crx_raw ?t = Some ?t"
    by (simp add: crop_samples_def after_load_def document_options_def blank_state_def g d_def identify_reset_def Let_def)
  have repair: "repair files cwd document_options ?t = Some ?t"
    by (simp add: repair_def bad_pixels_def blank_state_def d_def document_options_def first_options_def)
  obtain cb b where black: "black_levels (- 1) (- 1) d = Some (d\<lparr>cblack := cb, black := b\<rparr>)"
    using black_levels_zero [of d] by (auto simp: d_def identify_reset_def)
  define e where "e = d\<lparr>cblack := cb, black := b\<rparr>"
  let ?c = "\<lambda>row. for_up 0 (width ?g) (convert_at still_fp (rgb_cam s0) 2 ?g row)"
  have "document_ok ?g (e\<lparr>raw_color := 1\<rparr>, replicate 4 (replicate 0x2000 0))"
    by (simp add: document_ok_def hist_ok_def e_def d_def identify_reset_def g)
  then have "ok (for_up 0 (height ?g) ?c (e\<lparr>raw_color := 1\<rparr>, replicate 4 (replicate 0x2000 0))) (document_ok ?g)"
    by (rule for_by_wp [rotated]) (auto intro!: for_by_wp [where I = "document_ok ?g"] convert_document_ok)
  then obtain u hist where conv: "for_up 0 2 (\<lambda>row. for_up 0 3 (convert_at still_fp (rgb_cam s0) 2 ?g row)) (e\<lparr>raw_color := 1\<rparr>, replicate 4 (replicate 0x2000 0)) = Some (u, hist)"
    by (auto simp: ok_exists g)
  have start: "on_g (shrunken 0) ?s = ?s" "load_raw ?s = Some Canon_crx_raw" by (simp_all add: on_g_def blank_state_def g)
  have "\<exists>v. develop still_fp document_options ?t = Some ([], hist, v)"
    using black conv
    by (simp add: develop_def with_td_def document_options_def first_options_def blank_state_def e_def [symmetric] pre_interpolate_def g
        interpolate_def mix_greens_def highlights_def convert_to_rgb_def Let_def median_filter_def e_def d_def identify_reset_def)
  then show ?thesis using load crop repair by (auto simp: process_image_def half start)
qed

section \<open>The announced size\<close>



section \<open>The room for the name of the output\<close>

lemma length_digits: "n < 10 ^ k \<Longrightarrow> 0 < k \<Longrightarrow> length (digits n) \<le> k"
proof (induction k arbitrary: n)
  case (Suc k)
  show ?case
  proof (cases "n < 10")
    case True
    then show ?thesis by (simp add: digits.simps [of n])
  next
    case False
    then have "0 < k" using Suc.prems by (cases k) auto
    moreover have "n div 10 < 10 ^ k" using Suc.prems by (simp add: less_mult_imp_div_less mult.commute)
    ultimately have "length (digits (n div 10)) \<le> k" using Suc.IH by blast
    then show ?thesis using False by (simp add: digits.simps [of n])
  qed
qed simp

lemma length_print_s32: "length (print_int (c_s32 x)) \<le> 11" "length (print_int \<bar>c_s32 x\<bar>) \<le> 10"
proof -
  have x: "- (2 ^ 31) \<le> c_s32 x" "c_s32 x < 2 ^ 31" using signed_take_bit_int_greater_eq_minus_exp [of 31 x] signed_take_bit_int_less_exp [of 31 x] by simp_all
  have len: "length (print_int y) \<le> (if y < 0 then 11 else 10)" if "- (2 ^ 31) \<le> y" "y \<le> 2 ^ 31" for y :: int
  proof -
    have "nat \<bar>y\<bar> < 10 ^ 10" using that by simp
    then have "length (digits (nat \<bar>y\<bar>)) \<le> 10" by (rule length_digits) simp
    then show ?thesis by (simp add: print_int_def abs_if split: if_splits)
  qed
  show "length (print_int (c_s32 x)) \<le> 11" using len [of "c_s32 x"] x by (simp split: if_splits)
  show "length (print_int \<bar>c_s32 x\<bar>) \<le> 10" using len [of "\<bar>c_s32 x\<bar>"] x by simp
qed

lemma length_shot_suffix: "length (shot_suffix n shot) \<le> 12"
  using length_print_s32(1) [of "n - 1"] length_print_s32(2) [of shot] by (auto simp: shot_suffix_def padded_def Let_def)

lemma length_write_ext: "write_ext p thumb n = Some ext \<Longrightarrow> length ext \<le> 5"
  by (auto simp: write_ext_def at_def inb_def nth_Cons split: if_splits nat.splits)

lemma length_full_name: "length ext \<le> 5 \<Longrightarrow> length (full_name p base n shot ext) \<le> length base + 23"
proof -
  have "length (cut_name base) \<le> length base" by (simp add: cut_name_def split: option.splits)
  then show "length ext \<le> 5 \<Longrightarrow> ?thesis" using length_shot_suffix [of n shot] by (simp add: full_name_def)
qed

text \<open>
  C20: The array for the name of the output, 64 characters longer than the name of the input, is never too
  small for a name made from that of the input, whatever the number of the shot, the mark of a thumbnail
  and the extension. LightZone's option \<open>-F\<close> replaces the base without regard to the array: a base up to
  40 characters longer than the name of the input fits, one that is 64 characters longer is written
  behind its end.
\<close>

theorem output_name_room:
  assumes "write_ext p thumb k = Some ext"
  shows "case opt_ofbase p of
      None \<Rightarrow> output_name p ifname n shot ext = Some (full_name p ifname n shot ext)
    | Some base \<Rightarrow>
        (length base \<le> length ifname + 40 \<longrightarrow> output_name p ifname n shot ext = Some (full_name p base n shot ext))
        \<and> (length base \<ge> length ifname + 64 \<longrightarrow> output_name p ifname n shot ext = None)"
proof -
  have "length (full_name p base n shot ext) \<le> length base + 23" for base
    using length_full_name [OF length_write_ext [OF assms]] .
  from this [of ifname] this [of "the (opt_ofbase p)"] show ?thesis by (auto simp: output_name_def split: option.splits)
qed

theorem output_name_room_witness:
  "output_name (first_options\<lparr>opt_ofbase := Some (replicate 70 (CHR ''x''))\<rparr>) ''a.raw'' 1 0 ''.ppm'' = None"
  using output_name_room [of "first_options\<lparr>opt_ofbase := Some (replicate 70 (CHR ''x''))\<rparr>" None 3 "''.ppm''" "''a.raw''" 1 0]
  by (simp add: write_ext_def first_options_def at_def inb_def)

section \<open>The options\<close>

lemma option_step_drops: "option_step fp opm opt args o1 = Some (Inr (r, o2)) \<Longrightarrow> \<exists>k. r = drop k args"
  by (auto simp: option_step_def next_arg_def Let_def intro: exI [of _ 0] exI [of _ "Suc 0"] split: if_splits list.splits option.splits)

lemma option_step_None: "option_step fp opm opt args o1 = None \<Longrightarrow> args = [] \<and> opt \<in> set text_options"
  by (auto simp: option_step_def next_arg_def Let_def split: if_splits list.splits option.splits)

definition text_option_last :: "string list \<Rightarrow> bool" where
  "text_option_last args \<longleftrightarrow> args \<noteq> [] \<and> is_option (last args) \<and> char_of (char_at (last args) 1) \<in> set text_options"

lemma parse_options_returns: "\<not> text_option_last args \<Longrightarrow> parse_options fp args o1 \<noteq> None"
proof (induction fp args o1 rule: parse_options.induct)
  case (1 fp args o1)
  show ?case
  proof (cases args)
    case Nil
    then show ?thesis by (simp add: parse_options.simps [of fp "[]"])
  next
    case (Cons a r)
    have step: "option_step fp (a ! 0) (char_of (char_at a 1)) r o1 \<noteq> None" if "is_option a"
    proof
      assume "option_step fp (a ! 0) (char_of (char_at a 1)) r o1 = None"
      from option_step_None [OF this] "1.prems" that Cons show False by (simp add: text_option_last_def)
    qed
    have rest: "parse_options fp r' o2 \<noteq> None" if opt: "is_option a" and r': "option_step fp (a ! 0) (char_of (char_at a 1)) r o1 = Some (Inr (r', o2))" for r' o2
    proof (rule "1.IH" [OF Cons opt r' refl refl])
      obtain k where "r' = drop k r" using option_step_drops [OF r'] by blast
      then show "\<not> text_option_last r'" using "1.prems" Cons by (auto simp: text_option_last_def last_drop split: if_splits)
    qed
    show ?thesis using step rest Cons by (auto simp: parse_options.simps [of fp "a # r"] split: option.splits sum.splits)
  qed
qed

text \<open>
  C21: The command line is read without a fault, whatever it holds, unless its last argument is one of the
  options \<open>-s\<close>, \<open>-F\<close>, \<open>-P\<close> and \<open>-K\<close>, which then takes a text from behind the end of the arguments. Every
  other error (an unknown option, a missing number, no file) is reported.
\<close>

theorem read_options_returns:
  assumes "\<not> text_option_last args"
  shows "\<exists>r. read_options fp args = Some r"
  using parse_options_returns [OF assms, of fp first_options] by (auto simp: read_options_def)

theorem read_options_returns_witness:
  "\<forall>fp. \<exists>r. read_options fp [''-q'', ''3'', ''-P'', ''dead'', ''-g'', ''2''] = Some r"
  by (intro allI read_options_returns) (simp add: text_option_last_def is_option_def char_at_def)

end
