(* ===== verification/Spec2Isabelle.thy ===== *)
theory Spec2Isabelle
  imports WordReader FujiStrips GreenPass JpegSource TiffDepth OutputSize
begin

text \<open>
  \<^bold>\<open>LightZone: the raw decoder and the native image code\<close>

  LightZone is a photo editor. Its raw files are decoded by a program of its own,
  \<open>lightcrafts/coprocesses/dcraw/dcraw_lz.c\<close> (with \<open>fuji_compressed.h\<close> included), which is run as a
  process and writes an image; the mosaic is then reconstructed, composed and saved by Java code that
  calls native routines under \<open>lightcrafts/jnisrc\<close>. Modelled here are dcraw and the native routines
  that compute on integers.

  \<^bold>\<open>How the parts work together.\<close> \<open>identify\<close> and the parsers fill global variables: the sizes and
  offsets of the image, the pointer \<open>load_raw\<close> to the loader of the format, its flags, its curve.
  \<open>main\<close> reads the options and then, for every file, allocates the arrays, calls the loader, crops and
  repairs the samples, scales, interpolates, and writes the result rotated. Loaders share the input file and three bit readers, the
  table-driven Huffman decoder and the lossless JPEG decoder.

  \<^bold>\<open>State.\<close> The globals that describe an image are the record \<open>geom\<close>, those that a loader changes
  (file, samples, curve, black levels, maximum) the record \<open>dst\<close> (theory RawImage); the file with its
  position, byte order and bit buffers is the record \<open>bitio\<close> (RawStream). The parsers work on the
  records \<open>tiff_state\<close> and \<open>meta\<close>, which extend them. Operations take the state and return it.

  \<^bold>\<open>Integers and memory.\<close> Array cells are words of their width. Variables of type \<open>int\<close> are integers,
  with the wrap-around written out (\<open>c_s32\<close>, \<open>c_u32\<close>, \<open>c_u16\<close>) where values can leave the range;
  \<open>long\<close> has 64 bits. An access outside an array, a division by zero or a call that never returns is
  the value \<open>None\<close> (Prelude), so that a theorem that some operation is \<open>Some\<close> says that it
  neither faults nor hangs. Counted loops are \<open>for_up\<close> and \<open>for_by\<close>, whose termination is proved once;
  other loops are functions with a termination proof of their own, and the loops that may run for ever
  are \<open>partial_function\<close>s: \<open>fuji_zerobits\<close>, \<open>fuji_phase\<close>, \<open>border_cols\<close>, \<open>radc_repeat\<close>, \<open>radc_line\<close>,
  \<open>dng_tiles\<close>, \<open>smal_pixels\<close>, \<open>arw_rows\<close>, \<open>xt_scan\<close>, \<open>xt_bounds\<close>, and in the parsers \<open>fuji_size_search\<close>, \<open>note_konica\<close>,
  \<open>note_flip_search\<close>, \<open>note_capture\<close>, \<open>note_sraw_mul\<close>, \<open>mos_loop\<close>, \<open>tiff_chain\<close>, \<open>minolta_blocks\<close>,
  \<open>jpeg_markers\<close>, \<open>riff_nctg\<close>, \<open>riff_chunks\<close>, \<open>crx_boxes\<close>, \<open>qt_boxes\<close>, \<open>rollei_lines\<close>. One recursion has a
  bound: \<open>parse_tiff_ifd\<close> may call itself to a depth of eleven, which is enough for every file, as every
  call takes one of ten directories (\<open>tiff_ifd_depth\<close>).

  \<^bold>\<open>Theories.\<close>

  \<^item> Prelude: C integers and arrays, loops, the calculus \<open>ok\<close> for ``runs without a fault and then
    \<open>Q\<close>'', the collections \<open>wp\<close>, \<open>safe\<close> and \<open>cdefs\<close>.
  \<^item> RawStream, BitReader, WordReader: \<open>fgetc\<close>, \<open>fread\<close>, \<open>get2\<close>, \<open>get4\<close>, \<open>read_shorts\<close>; \<open>getbithuff\<close> and
    \<open>ph1_bithuff\<close>. The locale \<open>bit_stream\<close> states what a bit reader promises; it is interpreted for
    \<open>getbits\<close>, \<open>ph1_bits\<close> and (FujiBits) \<open>fuji_read_code\<close>. Underruns count one data error.
  \<^item> Huffman, HuffCode: \<open>make_decoder\<close>, and that it decodes the canonical code of its counts.
  \<^item> RawImage: the globals, the macros \<open>RAW\<close>, \<open>FC\<close>, \<open>BAYER\<close>; the locale \<open>loader\<close>, the contract of
    \<open>load_raw\<close> that \<open>main\<close> relies on, interpreted for the loaders whose safety is proved.
  \<^item> Ljpeg, LjpegHeader, LosslessLoaders: lossless JPEG, what an accepted header guarantees, the
    loaders of CR2, sRAW and DNG files.
  \<^item> Canon, NikonPentax, PhaseOne, PackedFormats, Sony, Predictive, Kodak, Samsung, Smal: the loaders
    of the other formats, one \<open>definition\<close> per routine of the C file and of the same name.
  \<^item> Fuji, FujiBits, FujiSamples, FujiStrips: compressed RAF files: header and parameters, the buffered
    bits, the code of a sample, the strips. The OpenMP loop over the strips is the step relation
    \<open>strips_step\<close>, in which any thread may decode its next line.
  \<^item> Correction, Pipeline, Interpolate, Output: masks, zeroes and bad pixels; the part of \<open>main\<close> from
    the allocation to the scaled image; the interpolations; orientation, white level and TIFF header.
  \<^item> TiffApply: \<open>apply_tiff\<close> on the parsed directories. Metadata, Containers, Foveon, Ciff, Movies: the
    state of the parsers, and the parsers of Phase One, Fujifilm, SMaL, CINE, REDCINE, Sinar, Foveon,
    Canon CRW and CR3, JPEG, RIFF, QuickTime and Rollei files.
  \<^item> Makernote, TiffParse, TiffDepth: \<open>parse_tiff_ifd\<close> with \<open>parse_makernote\<close>, \<open>parse_exif\<close>, \<open>parse_gps\<close>,
    \<open>parse_mos\<close>, \<open>parse_minolta\<close>, \<open>parse_kodak_ifd\<close>, and the depth of their recursion. The parsers call each
    other, so that the called one is an argument (\<open>tiff_parser\<close>) until TiffParse closes the circle.
  \<^item> ColorTable: \<open>adobe_coeff\<close> with its table, \<open>simple_coeff\<close>. Cameras, IdentifyHead, CameraRules,
    Identify: \<open>identify\<close> in full, its tables, the rules of single cameras, and what an accepted file
    guarantees.
  \<^item> FloatCode: \<open>gamma_curve\<close> and \<open>pseudoinverse\<close>, and what is common to code on \<open>float\<close> and \<open>double\<close>.
    Options: the command line. ScaleColors, Wavelet: \<open>scale_colors\<close> with its white balance and the
    correction of chromatic aberration, \<open>wavelet_denoise\<close>, the white balance of the PowerShot 600.
    PhaseCorrect: \<open>phase_one_correct\<close>.
  \<^item> Ahd, Xtrans: \<open>ahd_interpolate\<close> and \<open>xtrans_interpolate\<close>, tile by tile. Finish, Convert, Thumbnails:
    highlights, \<open>fuji_rotate\<close>, \<open>stretch\<close>, \<open>convert_to_rgb\<close> with the profile it writes, the TIFF header in
    memory, \<open>write_ppm_tiff\<close> and the writers of thumbnails, whose results are the bytes of the file.
  \<^item> Loaders, DcrawMain, OutputSize: the call through \<open>load_raw\<close>, and \<open>main\<close> from the command line to the
    files it writes (\<open>dcraw_main\<close>), on the state \<open>run\<close> that holds the files by name; what holds for the whole.
  \<^item> Blend: \<open>blendFunctions.cpp\<close>, the blend modes and the compositing loop.
  \<^item> Demosaic, GreenPass: \<open>dcrawUtils.cpp\<close>, the demosaicing that RGBDemosaicOpImage calls. The loops
    that OpenMP shares among threads are step relations here too (\<open>green_step_par\<close>).
  \<^item> JpegSource: \<open>LC_source_mgr.cpp\<close> and \<open>LC_dest_mgr.cpp\<close>, the buffers between libjpeg and Java; the
    locale \<open>image_provider\<close> is what the source needs of the object that delivers the file.

  \<^bold>\<open>What is shown.\<close> The bit readers and code tables implement their abstract streams and codes
  (refinement), the codes of JPEG differences, RAF samples, packed blocks and ciphers are inverted
  (round trips), loaders stay inside their arrays and return for every file (safety), their pieces
  tile the image (functional), a file that \<open>identify\<close> accepts has what they rely on (type), the size that
  is announced is the one that is written (equivalence), loops return exactly under the conditions given (termination), threads
  do not disturb each other (equivalence with the sequential loop), and what happens at the edges:
  overflow in blending, errors at the end of the data, zeroes at the border of an image. A lemma before
  a property is a step of it or a fact that several theories use.

  \<^bold>\<open>Floating point.\<close> A value of type \<open>float\<close> or \<open>double\<close> is the expression the code evaluates (\<open>real_c\<close>),
  rounded by \<open>as_float\<close> where it is stored in a \<open>float\<close>. What the code asks of such a value is an operation
  of the record \<open>fp_ops\<close>, an argument of every routine that needs it: comparison, rounding to \<open>float\<close>,
  conversion to an integer, the scan of a number in a text; and \<open>mktime\<close>. Theorems hold for every such
  record.

  \<^bold>\<open>Parameters.\<close> In routines on integers that contain one floating-point step this step is an argument:
  the samples of \<open>scale_image\<close>, the transform of \<open>ljpeg_idct\<close>, the curve of \<open>kodak_radc_load_raw\<close> (theories
  ScaleColors and Loaders supply them), the blend modes in \<open>double\<close>. \<open>files\<close> is what \<open>fopen\<close> finds under a
  name; the record \<open>world\<close> holds the rest of what is around the program, such as \<open>gmtime\<close>. Local arrays that the code does not initialise hold the numbers \<open>junk\<close>, a field of
  \<open>geom\<close>. Loops that OpenMP shares among threads are done in order by one thread, except where a step
  relation says otherwise.

  \<^bold>\<open>Not modelled.\<close> Code that the build leaves out (\<open>colorcheck\<close>, the loaders and profiles that need
  libjpeg, Jasper or lcms); printed texts; running out of memory and the \<open>longjmp\<close> it causes.
  Outside dcraw: bindings to external libraries, vendored code (EDISON, the bilateral filter, SIMD
  emulation) and the Java application.
\<close>


end
